(* ===== verification/Go_Prelude.thy ===== *)
theory Go_Prelude
  imports Main "HOL-Library.Sublist" "HOL-Library.Char_ord" "HOL-Library.List_Lexorder"
    "HOL-Library.Multiset"
begin

text \<open>
  What the components share: the parts of Go and of its standard library the sources use
  (byte strings, decimal printing, 64-bit wrap-around, saturating time arithmetic, the
  insertion sort of \<^verbatim>\<open>sort.Slice\<close>), the generic lemmas on them, and the interfaces several
  components implement, stated as locales: a system of operations with an invariant, a
  system with an absorbing final state, a keyed store, and a sortable order.
  A Go string is a sequence of bytes, which is what \<^typ>\<open>string\<close> is. Case folding and
  white space are those of ASCII, the alphabet of the identifiers the program compares.
\<close>

named_theorems go_defs \<open>unfolding rules of the Go runtime model\<close>
named_theorems go_simps \<open>rewrite rules of the Go runtime model\<close>

type_synonym 'a result = "string + 'a"
type_synonym time = int
type_synonym duration = int

section \<open>Strings\<close>

definition strings_HasPrefix :: "string \<Rightarrow> string \<Rightarrow> bool" where
  "strings_HasPrefix s p = (take (length p) s = p)"

definition strings_HasSuffix :: "string \<Rightarrow> string \<Rightarrow> bool" where
  "strings_HasSuffix s p = strings_HasPrefix (rev s) (rev p)"

definition strings_TrimSuffix :: "string \<Rightarrow> string \<Rightarrow> string" where
  "strings_TrimSuffix s p = (if strings_HasSuffix s p then take (length s - length p) s else s)"

fun strings_Contains :: "string \<Rightarrow> string \<Rightarrow> bool" where
  "strings_Contains [] p = (p = [])"
| "strings_Contains (c # s) p = (strings_HasPrefix (c # s) p \<or> strings_Contains s p)"

definition strings_ContainsAny :: "string \<Rightarrow> string \<Rightarrow> bool" where
  "strings_ContainsAny s cs = list_ex (\<lambda>c. List.member cs c) s"

definition lower_char :: "char \<Rightarrow> char" where
  "lower_char c = (let n = (of_char c :: nat) in if 65 \<le> n \<and> n \<le> 90 then char_of (n + 32) else c)"

definition strings_ToLower :: "string \<Rightarrow> string" where
  "strings_ToLower s = map lower_char s"

definition strings_EqualFold :: "string \<Rightarrow> string \<Rightarrow> bool" where
  "strings_EqualFold s t = (strings_ToLower s = strings_ToLower t)"

definition is_space :: "char \<Rightarrow> bool" where
  "is_space c = (let n = (of_char c :: nat) in n = 32 \<or> (9 \<le> n \<and> n \<le> 13))"

definition strings_TrimSpace :: "string \<Rightarrow> string" where
  "strings_TrimSpace s = rev (dropWhile is_space (rev (dropWhile is_space s)))"

fun strings_Join :: "string list \<Rightarrow> string \<Rightarrow> string" where
  "strings_Join [] sep = []"
| "strings_Join [s] sep = s"
| "strings_Join (s # t # ss) sep = s @ sep @ strings_Join (t # ss) sep"

fun strings_Split :: "char \<Rightarrow> string \<Rightarrow> string list" where
  "strings_Split c [] = [[]]"
| "strings_Split c (x # xs) =
     (if x = c then [] # strings_Split c xs
      else (case strings_Split c xs of [] \<Rightarrow> [[x]] | y # ys \<Rightarrow> (x # y) # ys))"

definition is_digit :: "char \<Rightarrow> bool" where
  "is_digit c = (let n = (of_char c :: int) in 48 \<le> n \<and> n \<le> 57)"

definition digit_val :: "char \<Rightarrow> int" where
  "digit_val c = of_char c - 48"

definition newline :: char where "newline = CHR 0x0A"

definition quote_char :: char where "quote_char = CHR 0x22"

text \<open>The em dash of the program's messages, in UTF-8.\<close>

definition em_dash :: string where
  "em_dash = [CHR 0xE2, CHR 0x80, CHR 0x94]"

text \<open>\<^verbatim>\<open>%q\<close> on ASCII text; bytes beyond ASCII are printed as they are.\<close>

definition hex_digit :: "nat \<Rightarrow> char" where
  "hex_digit n = (if n < 10 then char_of (n + 48) else char_of (n + 87))"

definition quote_byte :: "char \<Rightarrow> string" where
  "quote_byte c =
     (let n = (of_char c :: nat); bs = CHR 0x5C
      in if n = 34 \<or> n = 92 then [bs, c]
         else if n = 7 then [bs, CHR ''a''] else if n = 8 then [bs, CHR ''b'']
         else if n = 9 then [bs, CHR ''t''] else if n = 10 then [bs, CHR ''n'']
         else if n = 11 then [bs, CHR ''v''] else if n = 12 then [bs, CHR ''f'']
         else if n = 13 then [bs, CHR ''r'']
         else if n < 32 \<or> n = 127 then [bs, CHR ''x'', hex_digit (n div 16), hex_digit (n mod 16)]
         else [c])"

definition go_quote :: "string \<Rightarrow> string" where
  "go_quote s = [quote_char] @ concat (map quote_byte s) @ [quote_char]"

text \<open>The decimal digits of a number, as \<^verbatim>\<open>%d\<close> prints them.\<close>

function show_pos :: "int \<Rightarrow> string" where
  "show_pos n = (if n < 10 then [char_of (n + 48)] else show_pos (n div 10) @ [char_of (n mod 10 + 48)])"
  by pat_completeness auto
termination
  by (relation "measure nat") auto

declare show_pos.simps [simp del]

definition show_int :: "int \<Rightarrow> string" where
  "show_int i = (if i < 0 then ''-'' @ show_pos (- i) else show_pos i)"

text \<open>The value of a run of decimal digits, as \<^verbatim>\<open>strconv\<close> reads it.\<close>

definition int_of_digits :: "string \<Rightarrow> int" where
  "int_of_digits s = foldl (\<lambda>n c. n * 10 + digit_val c) 0 s"

definition wrap64 :: "int \<Rightarrow> int" where
  "wrap64 x = (x + 2 ^ 63) mod 2 ^ 64 - 2 ^ 63"

text \<open>\<^verbatim>\<open>strconv.Atoi\<close>: an optional sign and at least one digit, in the range of a 64-bit integer.\<close>

definition strconv_Atoi :: "string \<Rightarrow> int option" where
  "strconv_Atoi s =
     (let neg = strings_HasPrefix s ''-'';
          ds = (if neg \<or> strings_HasPrefix s ''+'' then tl s else s);
          v = (if neg then - int_of_digits ds else int_of_digits ds)
      in if ds \<noteq> [] \<and> list_all is_digit ds \<and> - (2 ^ 63) \<le> v \<and> v < 2 ^ 63 then Some v else None)"

section \<open>Time\<close>

text \<open>
  A \<^verbatim>\<open>time.Time\<close> is its distance in nanoseconds from Go's zero time, so that 0 is the value
  \<^verbatim>\<open>IsZero\<close> recognises. \<^verbatim>\<open>Sub\<close> saturates at the ends of the 64-bit range of a
  \<^verbatim>\<open>time.Duration\<close>.
\<close>

definition time_IsZero :: "time \<Rightarrow> bool" where
  "time_IsZero t = (t = 0)"

definition time_Sub :: "time \<Rightarrow> time \<Rightarrow> duration" where
  "time_Sub t u = max (- (2 ^ 63)) (min (2 ^ 63 - 1) (t - u))"

definition Millisecond :: duration where "Millisecond = 1000000"
definition Second :: duration where "Second = 1000 * Millisecond"
definition Minute :: duration where "Minute = 60 * Second"
definition Hour :: duration where "Hour = 60 * Minute"

lemmas duration_units = Millisecond_def Second_def Minute_def Hour_def

text \<open>Go's integer division truncates towards zero.\<close>

definition go_div :: "int \<Rightarrow> int \<Rightarrow> int" where
  "go_div a b = sgn a * sgn b * (\<bar>a\<bar> div \<bar>b\<bar>)"

definition go_mod :: "int \<Rightarrow> int \<Rightarrow> int" where
  "go_mod a b = a - b * go_div a b"

section \<open>Sorting\<close>

text \<open>
  \<^verbatim>\<open>sort.Slice\<close> sorts up to twelve elements by insertion: an element moves left past every
  neighbour it is less than. The sorted prefix is kept reversed. (Longer slices go through a
  partition that may permute elements the order does not separate; every lemma below holds of
  any permutation that is sorted.)
\<close>

fun insert_left :: "('a \<Rightarrow> 'a \<Rightarrow> bool) \<Rightarrow> 'a \<Rightarrow> 'a list \<Rightarrow> 'a list" where
  "insert_left lt x [] = [x]"
| "insert_left lt x (y # ys) = (if lt x y then y # insert_left lt x ys else x # y # ys)"

definition sort_Slice :: "('a \<Rightarrow> 'a \<Rightarrow> bool) \<Rightarrow> 'a list \<Rightarrow> 'a list" where
  "sort_Slice lt xs = rev (fold (insert_left lt) xs [])"

definition sort_Strings :: "string list \<Rightarrow> string list" where
  "sort_Strings xs = sort_Slice (<) xs"

section \<open>Interfaces\<close>

text \<open>A component whose state only changes through a set of operations that keep an invariant.\<close>

locale op_system =
  fixes apply_op :: "'op \<Rightarrow> 's \<Rightarrow> 's" and invar :: "'s \<Rightarrow> bool"
  assumes op_invar: "invar s \<Longrightarrow> invar (apply_op a s)"
begin

lemma ops_invar: "invar s \<Longrightarrow> invar (fold apply_op ops s)"
  by (induction ops arbitrary: s) (auto intro: op_invar)

lemma prefix_invar: "invar s \<Longrightarrow> invar (fold apply_op (take n ops) s)"
  by (rule ops_invar)

end

text \<open>
  Such a component with final states: once final, the observation \<open>obs\<close> of the state never
  changes again, whatever operations are still applied to it.
\<close>

locale absorbing_system = op_system apply_op invar
  for apply_op :: "'op \<Rightarrow> 's \<Rightarrow> 's" and invar :: "'s \<Rightarrow> bool" +
  fixes final :: "'s \<Rightarrow> bool" and obs :: "'s \<Rightarrow> 'o"
  assumes final_obs: "invar s \<Longrightarrow> final s \<Longrightarrow> final (apply_op a s) \<and> obs (apply_op a s) = obs s"
begin

lemma ops_final_obs:
  "invar s \<Longrightarrow> final s \<Longrightarrow> final (fold apply_op ops s) \<and> obs (fold apply_op ops s) = obs s"
proof (induction ops arbitrary: s)
  case Nil
  then show ?case by simp
next
  case (Cons a ops)
  from final_obs [OF Cons.prems] op_invar [OF Cons.prems(1)]
  have "final (apply_op a s)" "obs (apply_op a s) = obs s" "invar (apply_op a s)" by blast+
  with Cons.IH show ?case by simp
qed

lemma final_at_prefix:
  assumes "invar s" and "final (fold apply_op (take n ops) s)"
  shows "obs (fold apply_op ops s) = obs (fold apply_op (take n ops) s)"
proof -
  have "fold apply_op ops s = fold apply_op (drop n ops) (fold apply_op (take n ops) s)"
    by (metis append_take_drop_id fold_append comp_apply)
  then show ?thesis
    using ops_final_obs [OF prefix_invar [OF assms(1)] assms(2)] by metis
qed

end

text \<open>A store of values by key: what a lookup returns after an update.\<close>

locale keyed_store =
  fixes put :: "'k \<Rightarrow> 'v \<Rightarrow> 's \<Rightarrow> 's" and get :: "'s \<Rightarrow> 'k \<Rightarrow> 'v option"
  assumes get_put: "get (put k v s) k' = (if k' = k then Some v else get s k')"
begin

lemma get_puts:
  "get (fold (\<lambda>(k, v). put k v) kvs s) k =
     (case map_of (rev kvs) k of Some v \<Rightarrow> Some v | None \<Rightarrow> get s k)"
  by (induction kvs arbitrary: s) (auto simp: get_put map_add_def split: option.splits)

lemma get_puts_fresh:
  assumes "k \<notin> fst ` set kvs"
  shows "get (fold (\<lambda>(k, v). put k v) kvs s) k = get s k"
proof -
  have "map_of (rev kvs) k = None"
    using assms by (metis map_of_eq_None_iff set_rev)
  then show ?thesis by (simp add: get_puts)
qed

lemma get_puts_distinct:
  assumes "distinct (map fst kvs)" and "(k, v) \<in> set kvs"
  shows "get (fold (\<lambda>(k, v). put k v) kvs s) k = Some v"
proof -
  have "distinct (map fst (rev kvs))" using assms(1) by (simp add: rev_map [symmetric])
  moreover have "(k, v) \<in> set (rev kvs)" using assms(2) by simp
  ultimately have "map_of (rev kvs) k = Some v" by (rule map_of_is_SomeI)
  then show ?thesis by (simp add: get_puts)
qed

end

text \<open>An order that insertion sort can sort: asymmetric and negatively transitive on a domain.\<close>

locale weak_order_on =
  fixes lt :: "'a \<Rightarrow> 'a \<Rightarrow> bool" and D :: "'a set"
  assumes asym: "a \<in> D \<Longrightarrow> b \<in> D \<Longrightarrow> lt a b \<Longrightarrow> \<not> lt b a"
    and neg_trans: "a \<in> D \<Longrightarrow> b \<in> D \<Longrightarrow> c \<in> D \<Longrightarrow> \<not> lt a b \<Longrightarrow> \<not> lt b c \<Longrightarrow> \<not> lt a c"

lemma set_insert_left [simp]: "set (insert_left lt x ys) = insert x (set ys)"
  by (induction ys) auto

lemma mset_insert_left [simp]: "mset (insert_left lt x ys) = add_mset x (mset ys)"
  by (induction ys) auto

lemma mset_fold_insert_left: "mset (fold (insert_left lt) xs ys) = mset xs + mset ys"
  by (induction xs arbitrary: ys) auto

lemma mset_sort_Slice [simp]: "mset (sort_Slice lt xs) = mset xs"
  by (simp add: sort_Slice_def mset_fold_insert_left)

lemma set_sort_Slice [simp]: "set (sort_Slice lt xs) = set xs"
  by (metis mset_sort_Slice set_mset_mset)

lemma length_sort_Slice [simp]: "length (sort_Slice lt xs) = length xs"
  by (metis mset_sort_Slice size_mset)

context weak_order_on
begin

lemma insert_left_sorted:
  "x \<in> D \<Longrightarrow> set ys \<subseteq> D \<Longrightarrow> sorted_wrt (\<lambda>a b. \<not> lt a b) ys \<Longrightarrow>
     sorted_wrt (\<lambda>a b. \<not> lt a b) (insert_left lt x ys)"
proof (induction ys)
  case Nil
  then show ?case by simp
next
  case (Cons y ys)
  then have D: "x \<in> D" "y \<in> D" "set ys \<subseteq> D" and y: "\<forall>z\<in>set ys. \<not> lt y z"
    and IH: "sorted_wrt (\<lambda>a b. \<not> lt a b) (insert_left lt x ys)"
    and ys: "sorted_wrt (\<lambda>a b. \<not> lt a b) ys"
    by simp_all
  show ?case
  proof (cases "lt x y")
    case True
    then have "\<not> lt y x" using asym D by blast
    with True IH y show ?thesis by simp
  next
    case False
    have "\<forall>z\<in>set ys. \<not> lt x z" using neg_trans False y D by blast
    with False ys y show ?thesis by simp
  qed
qed

lemma fold_insert_left_sorted:
  "set xs \<subseteq> D \<Longrightarrow> set ys \<subseteq> D \<Longrightarrow> sorted_wrt (\<lambda>a b. \<not> lt a b) ys \<Longrightarrow>
     sorted_wrt (\<lambda>a b. \<not> lt a b) (fold (insert_left lt) xs ys)"
  by (induction xs arbitrary: ys) (auto simp: insert_left_sorted)

lemma sorted_sort_Slice:
  assumes "set xs \<subseteq> D"
  shows "sorted_wrt (\<lambda>a b. \<not> lt b a) (sort_Slice lt xs)"
  using fold_insert_left_sorted [OF assms, of "[]"]
  by (simp add: sort_Slice_def sorted_wrt_rev)

lemma hd_sort_Slice_least:
  assumes "set xs \<subseteq> D" and "x \<in> set xs"
  shows "\<not> lt x (hd (sort_Slice lt xs))"
proof -
  obtain y ys where ys: "sort_Slice lt xs = y # ys"
    using assms(2) by (metis length_pos_if_in_set length_sort_Slice list.exhaust list.size(3) less_irrefl)
  have "x \<in> insert y (set ys)" using assms(2) set_sort_Slice [of lt xs] by (simp add: ys)
  moreover have "y \<in> D"
    using assms(1) set_sort_Slice [of lt xs] by (auto simp: ys)
  ultimately show ?thesis
    using sorted_sort_Slice [OF assms(1)] asym by (auto simp: ys)
qed

end

section \<open>Lemmas on the runtime\<close>

lemma strings_HasPrefix_append [simp]: "strings_HasPrefix (p @ s) p"
  by (simp add: strings_HasPrefix_def)

lemma strings_HasPrefix_iff: "strings_HasPrefix s p \<longleftrightarrow> (\<exists>t. s = p @ t)"
  unfolding strings_HasPrefix_def by (metis append_eq_conv_conj append_take_drop_id)

lemma strings_HasSuffix_iff: "strings_HasSuffix s p \<longleftrightarrow> (\<exists>t. s = t @ p)"
  unfolding strings_HasSuffix_def strings_HasPrefix_iff
  by (metis rev_append rev_rev_ident)

lemma strings_TrimSuffix_append [simp]: "strings_TrimSuffix (s @ p) p = s"
  by (simp add: strings_TrimSuffix_def strings_HasSuffix_def strings_HasPrefix_def)

lemma strings_Contains_iff: "strings_Contains s p \<longleftrightarrow> (\<exists>u v. s = u @ p @ v)"
proof (induction s)
  case Nil
  then show ?case by auto
next
  case (Cons c s)
  show ?case
  proof
    assume "strings_Contains (c # s) p"
    then consider "strings_HasPrefix (c # s) p" | "strings_Contains s p" by auto
    then show "\<exists>u v. c # s = u @ p @ v"
    proof cases
      case 1
      then show ?thesis unfolding strings_HasPrefix_iff by (metis append_Nil)
    next
      case 2
      then show ?thesis using Cons.IH by (metis append_Cons)
    qed
  next
    assume "\<exists>u v. c # s = u @ p @ v"
    then obtain u v where uv: "c # s = u @ p @ v" by blast
    show "strings_Contains (c # s) p"
    proof (cases u)
      case Nil
      with uv have "strings_HasPrefix (c # s) p" by (auto simp: strings_HasPrefix_iff)
      then show ?thesis by simp
    next
      case (Cons a u')
      with uv have "s = u' @ p @ v" by simp
      then show ?thesis using Cons.IH by auto
    qed
  qed
qed

lemma strings_ContainsAny_iff: "strings_ContainsAny s cs \<longleftrightarrow> set s \<inter> set cs \<noteq> {}"
  by (auto simp: strings_ContainsAny_def list_ex_iff)

lemma show_pos_nonempty [simp]: "show_pos n \<noteq> []"
  by (subst show_pos.simps) simp

lemma int_of_digits_append:
  "int_of_digits (s @ t) = int_of_digits s * 10 ^ length t + int_of_digits t"
proof -
  have "foldl (\<lambda>n c. n * 10 + digit_val c) a t = a * 10 ^ length t + foldl (\<lambda>n c. n * 10 + digit_val c) 0 t"
    for a
  proof (induction t arbitrary: a)
    case Nil
    then show ?case by simp
  next
    case (Cons c t)
    show ?case
      using Cons.IH [of "a * 10 + digit_val c"] Cons.IH [of "digit_val c"] by (simp add: algebra_simps)
  qed
  from this [of "foldl (\<lambda>n c. n * 10 + digit_val c) 0 s"] show ?thesis by (simp add: int_of_digits_def)
qed

lemma digit_char:
  assumes "0 \<le> n" "n < (10 :: int)"
  shows "digit_val (char_of (n + 48)) = n" and "is_digit (char_of (n + 48))"
proof -
  have "(of_char (char_of (n + 48)) :: int) = (n + 48) mod 256" by simp
  also have "\<dots> = n + 48" using assms by simp
  finally have v: "(of_char (char_of (n + 48)) :: int) = n + 48" .
  show "digit_val (char_of (n + 48)) = n" using v by (simp only: digit_val_def)
  show "is_digit (char_of (n + 48))" unfolding is_digit_def Let_def v using assms by simp
qed

text \<open>Printing and reading a number is the identity.\<close>

lemma show_pos_roundtrip:
  "0 \<le> n \<Longrightarrow> int_of_digits (show_pos n) = n \<and> list_all is_digit (show_pos n)"
proof (induction n rule: show_pos.induct)
  case (1 n)
  have one: "int_of_digits [c] = digit_val c" for c by (simp add: int_of_digits_def)
  show ?case
  proof (cases "n < 10")
    case True
    with 1 show ?thesis by (simp add: show_pos.simps [of n] one digit_char)
  next
    case False
    with 1 have "int_of_digits (show_pos (n div 10)) = n div 10 \<and> list_all is_digit (show_pos (n div 10))"
      by simp
    with False show ?thesis
      by (simp add: show_pos.simps [of n] int_of_digits_append one digit_char)
  qed
qed

lemma wrap64_range: "- (2 ^ 63) \<le> wrap64 x \<and> wrap64 x < 2 ^ 63"
proof -
  have "0 \<le> (x + 2 ^ 63) mod 2 ^ 64" "(x + 2 ^ 63) mod 2 ^ 64 < (2 :: int) ^ 64"
    by simp_all
  then show ?thesis unfolding wrap64_def by simp
qed

lemma wrap64_id: "- (2 ^ 63) \<le> x \<Longrightarrow> x < 2 ^ 63 \<Longrightarrow> wrap64 x = x"
  by (simp add: wrap64_def)

lemma time_Sub_nonneg: "u \<le> t \<Longrightarrow> 0 \<le> time_Sub t u"
  by (simp add: time_Sub_def)

lemma strings_Split_nonempty [simp]: "strings_Split c s \<noteq> []"
  by (induction s) (auto split: list.splits)

lemma strings_Split_Join:
  "strings_Join (strings_Split c s) [c] = s"
proof (induction s)
  case Nil
  then show ?case by simp
next
  case (Cons x s)
  obtain y ys where ys: "strings_Split c s = y # ys"
    by (metis list.exhaust strings_Split_nonempty)
  with Cons show ?case by (cases ys) auto
qed

lemma mem_map_filter: "y \<in> set (List.map_filter f xs) \<longleftrightarrow> (\<exists>x\<in>set xs. f x = Some y)"
  by (force simp: List.map_filter_def)

end
