(* ===== verification/Float64.thy ===== *)
theory Float64
  imports Complex_Main "HOL-Library.Log_Nat" Go_Prelude
begin

text \<open>
  Go's \<^verbatim>\<open>float64\<close>: IEEE 754 binary64 with round to nearest, ties to even. A finite double is
  the rational it denotes (the two zeros are one value, which the sources never tell apart),
  and every operation rounds the exact result, with subnormals below \<open>2 powi (-1022)\<close> and
  overflow to an infinity. The order of the type class \<^verbatim>\<open>ord\<close> is Go's: every comparison with
  a NaN is false. Constants of the source are exact and rounded once (\<open>lit\<close>).
  The lemmas show that rounding is monotone, odd and idempotent, and derive from that, in the
  locale \<open>rounding\<close>, the signs and bounds the cost components rely on.
\<close>

section \<open>Rounding\<close>

definition round_half_even :: "rat \<Rightarrow> int" where
  "round_half_even x =
     (let n = \<lfloor>x\<rfloor>; d = x - of_int n
      in if d < 1/2 then n else if 1/2 < d then n + 1 else if even n then n else n + 1)"

text \<open>The binary exponent of a positive rational: the largest power of two below it.\<close>

definition binexp :: "rat \<Rightarrow> int" where
  "binexp x = (case quotient_of x of (p, q) \<Rightarrow>
     let k = bitlen p - bitlen q in if x < 2 powi k then k - 1 else k)"

definition ulp_exp :: "rat \<Rightarrow> int" where
  "ulp_exp x = max (binexp x - 52) (- 1074)"

definition round_pos :: "rat \<Rightarrow> rat" where
  "round_pos x =
     (if x = 0 then 0
      else let u = ulp_exp x in of_int (round_half_even (x / 2 powi u)) * 2 powi u)"

definition round64 :: "rat \<Rightarrow> rat" where
  "round64 x = (if x < 0 then - round_pos (- x) else round_pos x)"

section \<open>The type and its operations\<close>

datatype f64 = Fin rat | PInf | NInf | NaN

definition max_f64_bound :: rat where "max_f64_bound = 2 powi 1024"

definition mk_f64 :: "rat \<Rightarrow> f64" where
  "mk_f64 x = (let y = round64 x in
     if max_f64_bound \<le> y then PInf else if y \<le> - max_f64_bound then NInf else Fin y)"

abbreviation lit :: "rat \<Rightarrow> f64" where "lit x \<equiv> mk_f64 x"

definition f64_of_int :: "int \<Rightarrow> f64" where
  "f64_of_int n = mk_f64 (of_int n)"

instantiation f64 :: "{zero, plus, times, minus, ord}"
begin

definition zero_f64 :: f64 where "zero_f64 = Fin 0"

fun plus_f64 :: "f64 \<Rightarrow> f64 \<Rightarrow> f64" where
  "plus_f64 (Fin x) (Fin y) = mk_f64 (x + y)"
| "plus_f64 NaN b = NaN"
| "plus_f64 a NaN = NaN"
| "plus_f64 PInf NInf = NaN"
| "plus_f64 NInf PInf = NaN"
| "plus_f64 PInf b = PInf"
| "plus_f64 a PInf = PInf"
| "plus_f64 NInf b = NInf"
| "plus_f64 a NInf = NInf"

fun minus_f64 :: "f64 \<Rightarrow> f64 \<Rightarrow> f64" where
  "minus_f64 a (Fin y) = a + Fin (- y)"
| "minus_f64 a PInf = a + NInf"
| "minus_f64 a NInf = a + PInf"
| "minus_f64 a NaN = NaN"

fun times_f64 :: "f64 \<Rightarrow> f64 \<Rightarrow> f64" where
  "times_f64 (Fin x) (Fin y) = mk_f64 (x * y)"
| "times_f64 NaN b = NaN"
| "times_f64 a NaN = NaN"
| "times_f64 (Fin x) PInf = (if x = 0 then NaN else if 0 < x then PInf else NInf)"
| "times_f64 (Fin x) NInf = (if x = 0 then NaN else if 0 < x then NInf else PInf)"
| "times_f64 PInf (Fin y) = (if y = 0 then NaN else if 0 < y then PInf else NInf)"
| "times_f64 NInf (Fin y) = (if y = 0 then NaN else if 0 < y then NInf else PInf)"
| "times_f64 PInf PInf = PInf"
| "times_f64 PInf NInf = NInf"
| "times_f64 NInf PInf = NInf"
| "times_f64 NInf NInf = PInf"

fun less_eq_f64 :: "f64 \<Rightarrow> f64 \<Rightarrow> bool" where
  "less_eq_f64 NaN b = False"
| "less_eq_f64 a NaN = False"
| "less_eq_f64 (Fin x) (Fin y) = (x \<le> y)"
| "less_eq_f64 NInf b = True"
| "less_eq_f64 a PInf = True"
| "less_eq_f64 PInf b = False"
| "less_eq_f64 a NInf = False"

definition less_f64 :: "f64 \<Rightarrow> f64 \<Rightarrow> bool" where
  "less_f64 a b = (a \<le> b \<and> \<not> b \<le> a)"

instance ..

end

text \<open>Division; a finite value over zero is an infinity of the numerator's sign, 0/0 is NaN.\<close>

fun f64_div :: "f64 \<Rightarrow> f64 \<Rightarrow> f64" where
  "f64_div NaN b = NaN"
| "f64_div a NaN = NaN"
| "f64_div (Fin x) (Fin y) =
     (if y = 0 then (if x = 0 then NaN else if 0 < x then PInf else NInf) else mk_f64 (x / y))"
| "f64_div (Fin x) b = Fin 0"
| "f64_div PInf (Fin y) = (if 0 \<le> y then PInf else NInf)"
| "f64_div NInf (Fin y) = (if 0 \<le> y then NInf else PInf)"
| "f64_div a b = NaN"

fun f64_abs :: "f64 \<Rightarrow> f64" where
  "f64_abs (Fin x) = Fin \<bar>x\<bar>"
| "f64_abs NaN = NaN"
| "f64_abs b = PInf"

fun is_finite :: "f64 \<Rightarrow> bool" where
  "is_finite (Fin x) = True"
| "is_finite b = False"

text \<open>
  \<^verbatim>\<open>int(v)\<close> truncates towards zero; a value outside the 64-bit range (and a NaN) converts to
  the smallest integer, as the amd64 conversion instruction does.
\<close>

fun f64_to_int :: "f64 \<Rightarrow> int" where
  "f64_to_int (Fin x) =
     (let n = (if x < 0 then \<lceil>x\<rceil> else \<lfloor>x\<rfloor>)
      in if - (2 ^ 63) \<le> n \<and> n < 2 ^ 63 then n else - (2 ^ 63))"
| "f64_to_int b = - (2 ^ 63)"

text \<open>\<^verbatim>\<open>%.df\<close>: the exact value rounded to \<open>d\<close> decimals, ties to even.\<close>

definition show_frac :: "nat \<Rightarrow> int \<Rightarrow> string" where
  "show_frac d n = (let s = show_pos n in replicate (d - length s) (CHR ''0'') @ s)"

fun fmt_fixed :: "nat \<Rightarrow> f64 \<Rightarrow> string" where
  "fmt_fixed d (Fin x) =
     (let n = round_half_even (\<bar>x\<bar> * 10 ^ d); m = 10 ^ d
      in (if x < 0 then ''-'' else '''') @ show_pos (n div m) @
         (if d = 0 then '''' else ''.'' @ show_frac d (n mod m)))"
| "fmt_fixed d PInf = ''+Inf''"
| "fmt_fixed d NInf = ''-Inf''"
| "fmt_fixed d NaN = ''NaN''"

text \<open>
  \<^verbatim>\<open>Duration.Hours\<close>: whole hours plus the remaining nanoseconds as a fraction of an hour.
\<close>

definition duration_Hours :: "duration \<Rightarrow> f64" where
  "duration_Hours d =
     f64_of_int (go_div d Hour) + f64_div (f64_of_int (go_mod d Hour)) (lit (of_int Hour))"

section \<open>The binary exponent\<close>

lemma powi_add2: "(2 :: rat) powi (m + n) = 2 powi m * 2 powi n"
  by (simp add: power_int_add)

lemma powi_pos [simp]: "0 < (2 :: rat) powi n"
  by simp

lemma powi_mono: "m \<le> n \<Longrightarrow> (2 :: rat) powi m \<le> 2 powi n"
  by (simp add: power_int_increasing)

lemma powi_less_iff: "(2 :: rat) powi m < 2 powi n \<longleftrightarrow> m < n"
  by (metis linorder_not_less powi_mono power_int_strict_increasing one_less_numeral_iff
      semiring_norm(76))

lemma powi_nonneg_int: "0 \<le> n \<Longrightarrow> (2 :: rat) powi n = of_int (2 ^ nat n)"
  by (simp add: power_int_def)

lemma bitlen_powi:
  assumes "0 < p"
  shows "(2 :: rat) powi (bitlen p - 1) \<le> of_int p" and "(of_int p :: rat) < 2 powi (bitlen p)"
proof -
  from bitlen_bounds [OF assms] have b: "2 ^ nat (bitlen p - 1) \<le> p" "p < 2 ^ nat (bitlen p)"
    by auto
  have n: "0 < bitlen p" using assms by (simp add: bitlen_eq_zero_iff bitlen_nonneg order.strict_iff_order)
  have "(2 :: rat) powi (bitlen p - 1) = of_int (2 ^ nat (bitlen p - 1))"
    using n by (intro powi_nonneg_int) simp
  with b(1) show "(2 :: rat) powi (bitlen p - 1) \<le> of_int p" by (simp only: of_int_le_iff)
  have "(2 :: rat) powi (bitlen p) = of_int (2 ^ nat (bitlen p))"
    using n by (intro powi_nonneg_int) simp
  with b(2) show "(of_int p :: rat) < 2 powi (bitlen p)" by (simp only: of_int_less_iff)
qed

lemma binexp_spec:
  assumes "0 < x"
  shows "2 powi (binexp x) \<le> x" and "x < 2 powi (binexp x + 1)"
proof -
  obtain p q where pq: "quotient_of x = (p, q)" by force
  then have q: "0 < q" and x: "x = of_int p / of_int q"
    using quotient_of_denom_pos quotient_of_div by blast+
  with assms have p: "0 < p" by (simp add: zero_less_divide_iff)
  define k where "k = bitlen p - bitlen q"
  note P = bitlen_powi [OF p] and Q = bitlen_powi [OF q]
  have qpos: "(0 :: rat) < of_int q" using q by simp
  have up: "x < 2 powi (k + 1)"
  proof -
    have "x < 2 powi (bitlen p) / of_int q"
      using P(2) qpos by (simp add: x divide_strict_right_mono)
    also have "\<dots> \<le> 2 powi (bitlen p) / 2 powi (bitlen q - 1)"
      using Q(1) qpos by (intro divide_left_mono mult_pos_pos) simp_all
    also have "\<dots> = 2 powi (k + 1)"
      by (simp add: k_def power_int_diff [symmetric] algebra_simps)
    finally show ?thesis .
  qed
  have lo: "2 powi (k - 1) \<le> x"
  proof -
    have "2 powi (k - 1) = (2 :: rat) powi (bitlen p - 1) / 2 powi (bitlen q)"
      by (simp add: k_def power_int_diff [symmetric] algebra_simps)
    also have "\<dots> \<le> of_int p / 2 powi (bitlen q)"
      using P(1) by (intro divide_right_mono) simp_all
    also have "\<dots> \<le> x"
      unfolding x using Q(2) p qpos by (intro divide_left_mono mult_pos_pos) (simp_all add: less_imp_le)
    finally show ?thesis .
  qed
  have b: "binexp x = (if x < 2 powi k then k - 1 else k)"
    by (simp add: binexp_def pq k_def Let_def)
  show "2 powi (binexp x) \<le> x" using lo by (simp add: b)
  show "x < 2 powi (binexp x + 1)" using up by (simp add: b)
qed

lemma binexp_mono:
  assumes "0 < x" "x \<le> y"
  shows "binexp x \<le> binexp y"
proof -
  have "(2 :: rat) powi (binexp x) < 2 powi (binexp y + 1)"
    using binexp_spec [of x] binexp_spec [of y] assms by linarith
  then show ?thesis by (simp add: powi_less_iff)
qed

section \<open>Rounding is monotone, odd and idempotent\<close>

lemma round_half_even_bounds:
  "\<lfloor>x\<rfloor> \<le> round_half_even x" "round_half_even x \<le> \<lfloor>x\<rfloor> + 1"
  by (simp_all add: round_half_even_def Let_def)

lemma round_half_even_of_int [simp]: "round_half_even (of_int n) = n"
  by (simp add: round_half_even_def Let_def)

lemma round_half_even_mono:
  assumes "x \<le> y"
  shows "round_half_even x \<le> round_half_even y"
proof -
  have f: "\<lfloor>x\<rfloor> \<le> \<lfloor>y\<rfloor>" using assms by (rule floor_mono)
  show ?thesis
  proof (cases "\<lfloor>x\<rfloor> = \<lfloor>y\<rfloor>")
    case True
    with assms show ?thesis by (auto simp: round_half_even_def Let_def)
  next
    case False
    with f have "\<lfloor>x\<rfloor> + 1 \<le> \<lfloor>y\<rfloor>" by simp
    then show ?thesis
      using round_half_even_bounds(2) [of x] round_half_even_bounds(1) [of y] by linarith
  qed
qed

lemma round_half_even_le_int: "x \<le> of_int n \<Longrightarrow> round_half_even x \<le> n"
  using round_half_even_mono [of x "of_int n"] by simp

lemma round_half_even_ge_int: "of_int n \<le> x \<Longrightarrow> n \<le> round_half_even x"
  using round_half_even_mono [of "of_int n" x] by simp

lemma round_pos_eq:
  "x \<noteq> 0 \<Longrightarrow> round_pos x = of_int (round_half_even (x / 2 powi ulp_exp x)) * 2 powi ulp_exp x"
  by (simp add: round_pos_def Let_def)

lemma round_pos_0 [simp]: "round_pos 0 = 0"
  by (simp add: round_pos_def)

text \<open>Rounding on a finer grid does not cross a point of the grid.\<close>

lemma round_pos_le_grid:
  assumes "0 < x" "x \<le> of_int n * 2 powi ulp_exp x"
  shows "round_pos x \<le> of_int n * 2 powi ulp_exp x"
proof -
  have "x / 2 powi ulp_exp x \<le> of_int n" using assms(2) by (simp add: pos_divide_le_eq)
  then have "round_half_even (x / 2 powi ulp_exp x) \<le> n" by (rule round_half_even_le_int)
  then show ?thesis using assms(1) by (simp add: round_pos_eq)
qed

lemma round_pos_ge_grid:
  assumes "0 < x" "of_int n * 2 powi ulp_exp x \<le> x"
  shows "of_int n * 2 powi ulp_exp x \<le> round_pos x"
proof -
  have "of_int n \<le> x / 2 powi ulp_exp x" using assms(2) by (simp add: pos_le_divide_eq)
  then have "n \<le> round_half_even (x / 2 powi ulp_exp x)" by (rule round_half_even_ge_int)
  then show ?thesis using assms(1) by (simp add: round_pos_eq)
qed

lemma round_pos_nonneg: "0 \<le> x \<Longrightarrow> 0 \<le> round_pos x"
  using round_pos_ge_grid [of x 0] by (cases "x = 0") auto

lemma powi_on_grid: "u \<le> e \<Longrightarrow> (2 :: rat) powi e = of_int (2 ^ nat (e - u)) * 2 powi u"
  using powi_nonneg_int [of "e - u"] powi_add2 [of "e - u" u] by simp

lemma round_pos_mono:
  assumes "0 < x" "x \<le> y"
  shows "round_pos x \<le> round_pos y"
proof (cases "ulp_exp x = ulp_exp y")
  case True
  have "x / 2 powi ulp_exp x \<le> y / 2 powi ulp_exp x"
    using assms by (intro divide_right_mono) simp_all
  then have "round_half_even (x / 2 powi ulp_exp x) \<le> round_half_even (y / 2 powi ulp_exp y)"
    using round_half_even_mono True by metis
  then show ?thesis using assms True by (simp add: round_pos_eq)
next
  case False
  note mono = binexp_mono [OF assms]
  have y: "0 < y" using assms by simp
  have ux: "ulp_exp x \<le> binexp y" and uy: "ulp_exp y \<le> binexp y" and lt: "binexp x < binexp y"
    using mono False by (auto simp: ulp_exp_def max_def split: if_splits)
  have "x < 2 powi (binexp x + 1)" using binexp_spec(2) assms(1) by blast
  also have "\<dots> \<le> 2 powi (binexp y)" using lt by (intro powi_mono) simp
  finally have "x \<le> of_int (2 ^ nat (binexp y - ulp_exp x)) * 2 powi ulp_exp x"
    using powi_on_grid [OF ux] by simp
  then have "round_pos x \<le> 2 powi (binexp y)"
    using round_pos_le_grid [OF assms(1)] powi_on_grid [OF ux] by metis
  moreover have "2 powi (binexp y) \<le> round_pos y"
    using round_pos_ge_grid [OF y] binexp_spec(1) [OF y] powi_on_grid [OF uy] by metis
  ultimately show ?thesis by linarith
qed

lemma round64_0 [simp]: "round64 0 = 0"
  by (simp add: round64_def)

lemma round64_minus: "round64 (- x) = - round64 x"
  by (cases "x = 0") (auto simp: round64_def)

lemma round64_mono: "x \<le> y \<Longrightarrow> round64 x \<le> round64 y"
proof -
  assume xy: "x \<le> y"
  consider "0 < x" | "x = 0" | "x < 0" "y < 0" | "x < 0" "0 \<le> y" using xy by linarith
  then show ?thesis
  proof cases
    case 1
    then show ?thesis using round_pos_mono xy by (simp add: round64_def)
  next
    case 2
    then show ?thesis using round_pos_nonneg xy by (simp add: round64_def)
  next
    case 3
    then show ?thesis using round_pos_mono [of "- y" "- x"] xy by (simp add: round64_def)
  next
    case 4
    then show ?thesis using round_pos_nonneg [of "- x"] round_pos_nonneg [of y]
      by (simp add: round64_def)
  qed
qed

lemma round_pos_fixed:
  assumes "0 < r" "ulp_exp r \<le> u" "r = of_int m * 2 powi u"
  shows "round_pos r = r"
proof -
  have "r = of_int (m * 2 ^ nat (u - ulp_exp r)) * 2 powi ulp_exp r"
    using powi_on_grid [OF assms(2)] assms(3) by simp
  then show ?thesis
    using round_pos_le_grid [OF assms(1), of "m * 2 ^ nat (u - ulp_exp r)"]
      round_pos_ge_grid [OF assms(1), of "m * 2 ^ nat (u - ulp_exp r)"] by simp
qed

lemma round_pos_powi: "- 1074 \<le> e \<Longrightarrow> round_pos (2 powi e) = 2 powi e"
proof -
  assume e: "- 1074 \<le> e"
  have "(2 :: rat) powi (binexp (2 powi e)) \<le> 2 powi e" by (rule binexp_spec) simp
  then have "binexp (2 powi e) \<le> e" by (metis linorder_not_less powi_less_iff)
  then have "ulp_exp (2 powi e) \<le> e" using e by (simp add: ulp_exp_def)
  then show ?thesis by (intro round_pos_fixed [where u = e and m = 1]) simp_all
qed

lemma round_pos_idem:
  assumes "0 < x"
  shows "round_pos (round_pos x) = round_pos x"
proof -
  define r u where "r = round_pos x" and "u = ulp_exp x"
  obtain m where m: "r = of_int m * 2 powi u"
    using assms by (simp add: r_def u_def round_pos_eq)
  have u: "- 1074 \<le> u" "binexp x - 52 \<le> u" by (simp_all add: u_def ulp_exp_def)
  have le: "r \<le> 2 powi (max (binexp x + 1) u)"
  proof -
    have "x \<le> 2 powi (max (binexp x + 1) u)"
      using binexp_spec(2) [OF assms] powi_mono [of "binexp x + 1" "max (binexp x + 1) u"] by simp
    then show ?thesis
      using round_pos_le_grid [OF assms] powi_on_grid [of u "max (binexp x + 1) u"]
      unfolding r_def u_def by (metis max.cobounded2)
  qed
  consider "r = 0" | "0 < r" "ulp_exp r \<le> u" | "0 < r" "u < ulp_exp r"
    using round_pos_nonneg [of x] assms unfolding r_def by fastforce
  then have "round_pos r = r"
  proof cases
    case 2
    then show ?thesis using m by (rule round_pos_fixed)
  next
    case 3
    then have gt: "u < binexp r - 52" using u(1) by (auto simp: ulp_exp_def)
    then have "max (binexp x + 1) u \<le> binexp r" using u(2) by simp
    then have "r \<le> 2 powi (binexp r)" using le powi_mono order_trans by blast
    then have "r = 2 powi (binexp r)" using binexp_spec(1) [OF 3(1)] by (rule order_antisym)
    moreover have "- 1074 \<le> binexp r" using gt u(1) by simp
    ultimately show ?thesis using round_pos_powi by metis
  qed simp
  then show ?thesis by (simp add: r_def)
qed

lemma round64_idem: "round64 (round64 x) = round64 x"
proof -
  have pos: "round64 (round64 x) = round64 x" if "0 < x" for x
    using that round_pos_idem [OF that] round_pos_nonneg [of x]
    by (simp add: round64_def)
  show ?thesis
  proof (cases "x < 0")
    case True
    then show ?thesis using pos [of "- x"] round64_minus by (metis neg_0_less_iff_less neg_equal_iff_equal)
  next
    case False
    then show ?thesis using pos [of x] by (cases "x = 0") auto
  qed
qed

lemma round64_int_exact:
  assumes "\<bar>n\<bar> \<le> 2 ^ 53"
  shows "round64 (of_int n) = of_int n"
proof -
  have pos: "round_pos (of_int k) = of_int k" if k: "0 < k" "k \<le> 2 ^ 53" for k :: int
  proof (cases "k = 2 ^ 53")
    case True
    then show ?thesis using round_pos_powi [of 53] by (simp add: power_int_def)
  next
    case False
    with k have "(of_int k :: rat) < of_int (2 ^ 53)" by (simp only: of_int_less_iff)
    then have "(2 :: rat) powi (binexp (of_int k)) < 2 powi 53"
      using binexp_spec(1) [of "of_int k"] k(1) powi_nonneg_int [of 53] by simp
    then have "binexp (of_int k) < 53" by (simp only: powi_less_iff)
    then have "ulp_exp (of_int k) \<le> 0" by (simp add: ulp_exp_def)
    then show ?thesis using k(1) by (intro round_pos_fixed [where u = 0 and m = k]) simp_all
  qed
  consider "0 < n" | "n = 0" | "n < 0" by linarith
  then show ?thesis
    using assms pos [of n] pos [of "- n"] by cases (auto simp: round64_def)
qed

section \<open>Consequences for the operations\<close>

text \<open>What a client needs of rounding, and what follows from it.\<close>

locale rounding =
  fixes rnd :: "rat \<Rightarrow> rat"
  assumes rnd_mono: "x \<le> y \<Longrightarrow> rnd x \<le> rnd y"
    and rnd_0: "rnd 0 = 0"
    and rnd_minus: "rnd (- x) = - rnd x"
    and rnd_idem: "rnd (rnd x) = rnd x"
begin

lemma rnd_nonneg: "0 \<le> x \<Longrightarrow> 0 \<le> rnd x"
  using rnd_mono [of 0 x] by (simp add: rnd_0)

lemma rnd_nonpos: "x \<le> 0 \<Longrightarrow> rnd x \<le> 0"
  using rnd_mono [of x 0] by (simp add: rnd_0)

lemma rnd_le_fixed: "rnd y = y \<Longrightarrow> x \<le> y \<Longrightarrow> rnd x \<le> y"
  using rnd_mono [of x y] by simp

lemma rnd_ge_fixed: "rnd x = x \<Longrightarrow> x \<le> y \<Longrightarrow> x \<le> rnd y"
  using rnd_mono [of x y] by simp

lemma rnd_abs_le: "rnd y = y \<Longrightarrow> \<bar>x\<bar> \<le> y \<Longrightarrow> \<bar>rnd x\<bar> \<le> y"
  using rnd_le_fixed [of y x] rnd_le_fixed [of y "- x"] by (simp add: rnd_minus abs_le_iff)

end

interpretation ieee: rounding round64
  by unfold_locales (simp_all add: round64_mono round64_minus round64_idem)

lemma less_f64_iff: "a < b \<longleftrightarrow> a \<le> b \<and> \<not> b \<le> (a :: f64)"
  by (simp add: less_f64_def)

lemma f64_le_refl [simp]: "a \<noteq> NaN \<Longrightarrow> a \<le> (a :: f64)"
  by (cases a) auto

lemma f64_le_trans: "a \<le> b \<Longrightarrow> b \<le> c \<Longrightarrow> a \<le> (c :: f64)"
  by (cases a; cases b; cases c) auto

lemma f64_le_total: "a \<noteq> NaN \<Longrightarrow> b \<noteq> NaN \<Longrightarrow> a \<le> b \<or> b \<le> (a :: f64)"
  by (cases a; cases b) auto

lemma f64_le_not_NaN: "a \<le> b \<Longrightarrow> a \<noteq> NaN \<and> b \<noteq> (NaN :: f64)"
  by (cases a; cases b) auto

lemma f64_not_le: "a \<noteq> NaN \<Longrightarrow> b \<noteq> NaN \<Longrightarrow> \<not> a \<le> b \<longleftrightarrow> b < (a :: f64)"
  by (cases a; cases b) (auto simp: less_f64_def)

lemma f64_less_asym: "a < b \<Longrightarrow> \<not> b < (a :: f64)"
  by (auto simp: less_f64_def)

lemma f64_less_neg_trans:
  "a \<noteq> NaN \<Longrightarrow> b \<noteq> NaN \<Longrightarrow> c \<noteq> NaN \<Longrightarrow> \<not> a < b \<Longrightarrow> \<not> b < c \<Longrightarrow> \<not> a < (c :: f64)"
  by (cases a; cases b; cases c) (auto simp: less_f64_def)

lemma Fin_le_iff [simp]: "Fin x \<le> Fin y \<longleftrightarrow> x \<le> y"
  by simp

lemma zero_le_Fin [simp]: "0 \<le> Fin x \<longleftrightarrow> 0 \<le> x"
  by (simp add: zero_f64_def)

lemma Fin_less_iff [simp]: "Fin x < Fin y \<longleftrightarrow> x < y"
  by (auto simp: less_f64_def)

lemma zero_less_Fin [simp]: "0 < Fin x \<longleftrightarrow> 0 < x"
  by (simp add: zero_f64_def)

lemma zero_f64_not_NaN [simp]: "(0 :: f64) \<noteq> NaN" "is_finite 0"
  by (simp_all add: zero_f64_def)

lemma is_finite_not_NaN: "is_finite a \<Longrightarrow> a \<noteq> NaN"
  by (cases a) auto

lemma max_f64_bound_pos: "0 < max_f64_bound"
  by (simp add: max_f64_bound_def)

lemma mk_f64_not_NaN [simp]: "mk_f64 x \<noteq> NaN"
  by (simp add: mk_f64_def Let_def)

lemma mk_f64_mono: "x \<le> y \<Longrightarrow> mk_f64 x \<le> mk_f64 y"
  using round64_mono [of x y] max_f64_bound_pos by (auto simp: mk_f64_def Let_def)

lemma mk_f64_0 [simp]: "mk_f64 0 = 0"
  using max_f64_bound_pos by (simp add: mk_f64_def zero_f64_def)

lemma mk_f64_nonneg: "0 \<le> x \<Longrightarrow> 0 \<le> mk_f64 x"
  using mk_f64_mono [of 0 x] by simp

lemma f64_of_int_nonneg: "0 \<le> n \<Longrightarrow> 0 \<le> f64_of_int n"
  by (simp add: f64_of_int_def mk_f64_nonneg)

lemma f64_add_nonneg: "0 \<le> a \<Longrightarrow> 0 \<le> b \<Longrightarrow> 0 \<le> a + (b :: f64)"
  by (cases a; cases b) (auto simp: zero_f64_def mk_f64_nonneg [unfolded zero_f64_def])

lemma f64_mult_nonneg:
  "0 \<le> a \<Longrightarrow> 0 \<le> b \<Longrightarrow> is_finite a \<Longrightarrow> is_finite b \<Longrightarrow> 0 \<le> a * (b :: f64)"
  by (cases a; cases b) (auto simp: mk_f64_nonneg)

lemma f64_div_nonneg: "0 \<le> a \<Longrightarrow> is_finite a \<Longrightarrow> 0 < b \<Longrightarrow> is_finite b \<Longrightarrow> 0 \<le> f64_div a b"
  by (cases a; cases b) (auto simp: mk_f64_nonneg)

lemma f64_mult_right_mono:
  "a \<le> b \<Longrightarrow> 0 \<le> c \<Longrightarrow> is_finite a \<Longrightarrow> is_finite b \<Longrightarrow> is_finite c \<Longrightarrow> a * c \<le> b * (c :: f64)"
  by (cases a; cases b; cases c) (auto intro!: mk_f64_mono mult_right_mono)

lemma f64_div_right_mono:
  "a \<le> b \<Longrightarrow> 0 < c \<Longrightarrow> is_finite a \<Longrightarrow> is_finite b \<Longrightarrow> is_finite c \<Longrightarrow> f64_div a c \<le> f64_div b c"
  by (cases a; cases b; cases c) (auto intro!: mk_f64_mono divide_right_mono)

lemma f64_to_int_mono:
  assumes "a \<le> b" "0 \<le> a" "f64_to_int b \<noteq> - (2 ^ 63)"
  shows "f64_to_int a \<le> f64_to_int b"
proof -
  obtain y where y: "b = Fin y" using assms(3) by (cases b) auto
  moreover obtain x where x: "a = Fin x" using assms(1,2) y by (cases a) (auto simp: zero_f64_def)
  ultimately have xy: "0 \<le> x" "x \<le> y" using assms by simp_all
  then have "\<lfloor>x\<rfloor> \<le> \<lfloor>y\<rfloor>" "0 \<le> \<lfloor>x\<rfloor>" by (simp_all add: floor_mono)
  with xy show ?thesis using assms(3) by (auto simp: x y Let_def split: if_splits)
qed

text \<open>An \<open>f64\<close> that some computation produced: a representable finite number, or not finite.\<close>

fun f64_ok :: "f64 \<Rightarrow> bool" where
  "f64_ok (Fin x) = (round64 x = x \<and> \<bar>x\<bar> < max_f64_bound)"
| "f64_ok b = True"

lemma mk_f64_ok [simp]: "f64_ok (mk_f64 x)"
  by (auto simp: mk_f64_def Let_def round64_idem)

lemma mk_f64_of_ok: "f64_ok (Fin x) \<Longrightarrow> mk_f64 x = Fin x"
  by (auto simp: mk_f64_def Let_def)

lemma f64_zero_add: "f64_ok a \<Longrightarrow> 0 + a = a"
  by (cases a) (auto simp: zero_f64_def mk_f64_of_ok)

interpretation f64_order: weak_order_on "(<) :: f64 \<Rightarrow> f64 \<Rightarrow> bool" "{a. a \<noteq> NaN}"
proof
  show "\<not> b < a" if "a < b" for a b :: f64 using that by (rule f64_less_asym)
next
  show "\<not> a < c" if "a \<in> {a. a \<noteq> NaN}" "b \<in> {a. a \<noteq> NaN}" "c \<in> {a. a \<noteq> NaN}" "\<not> a < b" "\<not> b < c"
    for a b c :: f64
    using that f64_less_neg_trans [of a b c] by simp
qed

section \<open>Truncation to four decimals\<close>

text \<open>\<^verbatim>\<open>float64(int(v*10000)) / 10000\<close>, as the cost code truncates amounts.\<close>

definition trunc4 :: "f64 \<Rightarrow> f64" where
  "trunc4 v = f64_div (f64_of_int (f64_to_int (v * lit 10000))) (lit 10000)"

lemma round64_numeral_small: "round64 10000 = 10000"
  using round64_int_exact [of 10000] by simp

lemma max_f64_bound_eq: "max_f64_bound = of_int (2 ^ 1024)"
  by (simp add: max_f64_bound_def power_int_def)

lemma max_f64_bound_code [code]: "max_f64_bound = Rat.of_int (2 ^ 1024)"
  by (simp add: max_f64_bound_eq Rat.of_int_def)

lemma lit_10000: "lit 10000 = Fin 10000"
  by (simp add: mk_f64_def round64_numeral_small max_f64_bound_def power_int_def)

lemma f64_of_int_finite:
  assumes "\<bar>n\<bar> \<le> 2 ^ 63"
  shows "is_finite (f64_of_int n)"
proof -
  have fixed: "round64 (2 ^ 63) = 2 ^ 63"
    using round_pos_powi [of 63] by (simp add: round64_def power_int_def)
  have "\<bar>of_int n :: rat\<bar> \<le> of_int (2 ^ 63)" using assms by (simp only: of_int_abs [symmetric] of_int_le_iff)
  then have b: "\<bar>of_int n :: rat\<bar> \<le> 2 ^ 63" by simp
  have "\<bar>round64 (of_int n)\<bar> \<le> 2 ^ 63" by (rule ieee.rnd_abs_le [OF fixed b])
  moreover have "(2 :: rat) ^ 63 < max_f64_bound" by (simp add: max_f64_bound_def power_int_def)
  ultimately show ?thesis by (auto simp: f64_of_int_def mk_f64_def Let_def abs_le_iff)
qed

lemma f64_to_int_range: "\<bar>f64_to_int v\<bar> \<le> 2 ^ 63"
proof (cases v)
  case (Fin x)
  define n where "n = (if x < 0 then \<lceil>x\<rceil> else \<lfloor>x\<rfloor>)"
  have "f64_to_int v = (if - (2 ^ 63) \<le> n \<and> n < 2 ^ 63 then n else - (2 ^ 63))"
    by (simp only: Fin f64_to_int.simps n_def Let_def)
  then show ?thesis by auto
qed simp_all

lemma trunc4_eq: "trunc4 v = f64_div (f64_of_int (f64_to_int (v * Fin 10000))) (Fin 10000)"
  by (simp add: trunc4_def lit_10000)

lemma trunc4_not_NaN [simp]: "trunc4 v \<noteq> NaN"
  using f64_of_int_finite [OF f64_to_int_range, of "v * Fin 10000"]
  by (cases "f64_of_int (f64_to_int (v * Fin 10000))") (auto simp: trunc4_eq)

lemma trunc4_finite [simp]: "is_finite (trunc4 v)"
proof -
  obtain x where x: "f64_of_int (f64_to_int (v * Fin 10000)) = Fin x"
    using f64_of_int_finite [OF f64_to_int_range, of "v * Fin 10000"]
    by (cases "f64_of_int (f64_to_int (v * Fin 10000))") auto
  then have ok: "f64_ok (Fin x)" by (metis f64_of_int_def mk_f64_ok)
  have "\<bar>x / 10000\<bar> \<le> \<bar>x\<bar>" by (simp add: abs_divide divide_le_eq)
  moreover have "round64 \<bar>x\<bar> = \<bar>x\<bar>" using ok round64_minus [of x] by (auto simp: abs_if)
  ultimately have "\<bar>round64 (x / 10000)\<bar> \<le> \<bar>x\<bar>" by (rule ieee.rnd_abs_le [rotated])
  then have "\<bar>round64 (x / 10000)\<bar> < max_f64_bound" using ok by simp
  then show ?thesis by (auto simp: trunc4_eq x mk_f64_def Let_def abs_less_iff)
qed

text \<open>The truncation is monotone and keeps the sign, as long as the amount fits.\<close>

lemma trunc4_nonneg:
  assumes "0 \<le> v" "is_finite v" "0 \<le> f64_to_int (v * Fin 10000)"
  shows "0 \<le> trunc4 v"
  unfolding trunc4_eq
  using assms by (intro f64_div_nonneg f64_of_int_nonneg f64_of_int_finite f64_to_int_range) auto

lemma trunc4_mono:
  assumes "0 \<le> a" "a \<le> b" "is_finite a" "is_finite b" "f64_to_int (b * Fin 10000) \<noteq> - (2 ^ 63)"
  shows "trunc4 a \<le> trunc4 b"
proof -
  have le: "a * Fin 10000 \<le> b * Fin 10000" using assms by (intro f64_mult_right_mono) auto
  moreover have "0 \<le> a * Fin 10000" using assms by (intro f64_mult_nonneg) auto
  ultimately have "f64_to_int (a * Fin 10000) \<le> f64_to_int (b * Fin 10000)"
    using assms(5) by (rule f64_to_int_mono)
  then have "f64_of_int (f64_to_int (a * Fin 10000)) \<le> f64_of_int (f64_to_int (b * Fin 10000))"
    by (simp add: f64_of_int_def mk_f64_mono)
  then show ?thesis
    unfolding trunc4_eq by (intro f64_div_right_mono f64_of_int_finite f64_to_int_range) auto
qed

section \<open>Printing durations\<close>

text \<open>
  \<^verbatim>\<open>Duration.Round(time.Second)\<close> for a non-negative duration, and \<^verbatim>\<open>Duration.String\<close>: below a second
  the largest fitting unit, from a second on hours, minutes and seconds from the largest
  non-zero unit on; fractions without trailing zeros.
\<close>

definition duration_Round_Second :: "duration \<Rightarrow> duration" where
  "duration_Round_Second d =
     (let m = d mod Second
      in if m + m < Second then d - m else if d + Second - m < 2 ^ 63 then d + Second - m else 2 ^ 63 - 1)"

definition fmt_frac :: "nat \<Rightarrow> int \<Rightarrow> string" where
  "fmt_frac k n = (if n = 0 then '''' else ''.'' @ rev (dropWhile (\<lambda>c. c = CHR ''0'') (rev (show_frac k n))))"

definition duration_pos_String :: "duration \<Rightarrow> string" where
  "duration_pos_String d =
     (if d = 0 then ''0s''
      else if d < 1000 then show_int d @ ''ns''
      else if d < Millisecond then show_int (d div 1000) @ fmt_frac 3 (d mod 1000) @ [CHR 0xC2, CHR 0xB5] @ ''s''
      else if d < Second then show_int (d div Millisecond) @ fmt_frac 6 (d mod Millisecond) @ ''ms''
      else
        let t = d div Second; s = t mod 60; m = (t div 60) mod 60; h = t div 3600;
            sec = show_int s @ fmt_frac 9 (d mod Second) @ ''s''
        in if 0 < h then show_int h @ ''h'' @ show_int m @ ''m'' @ sec
           else if 0 < m then show_int m @ ''m'' @ sec
           else sec)"

definition duration_String :: "duration \<Rightarrow> string" where
  "duration_String d = (if d < 0 then ''-'' @ duration_pos_String (- d) else duration_pos_String d)"

lemma f64_mult_ok [simp]: "f64_ok (a * b)"
  by (cases a; cases b) auto

lemma mk_f64_int: "\<bar>n\<bar> \<le> 2 ^ 53 \<Longrightarrow> mk_f64 (of_int n) = Fin (of_int n)"
proof -
  assume n: "\<bar>n\<bar> \<le> 2 ^ 53"
  then have "round64 (of_int n) = of_int n" by (rule round64_int_exact)
  moreover have "\<bar>of_int n :: rat\<bar> \<le> of_int (2 ^ 53)" using n by (simp only: of_int_abs [symmetric] of_int_le_iff)
  ultimately have "f64_ok (Fin (of_int n))" by (auto simp: max_f64_bound_def power_int_def)
  then show ?thesis by (rule mk_f64_of_ok)
qed

end
