(* ===== verification/Dispatch_Types.thy ===== *)
theory Dispatch_Types
  imports Float64 "HOL-Library.Word"
begin

text \<open>
  The data model of \<^verbatim>\<open>internal/types\<close>: one record per struct, one datatype per string enum.
  A string enum of Go can hold any string, so the enums that reach the program from a file or
  from an adapter have an \<open>Other\<close> constructor for the values outside the declared constants.
  Record fields carry a prefix for their struct (\<open>ce_\<close> for \<^verbatim>\<open>CostEstimate\<close>, \<open>ws_\<close> for
  \<^verbatim>\<open>WorkloadSpec\<close>, \<open>tc_\<close> for \<^verbatim>\<open>TargetConfig\<close>, and so on).
\<close>

section \<open>Identifiers (id.go)\<close>

definition id_chars :: string where
  "id_chars = ''0123456789abcdefghijklmnopqrstuvwxyz''"

definition maxUnbiased :: nat where
  "maxUnbiased = 256 - 256 mod length id_chars"

text \<open>
  The rejection-sampling loop, over the results of successive \<^verbatim>\<open>rand.Read\<close> calls (a byte, or an
  error). The result is the id, \<open>Inl\<close> of the time fallback taken on a read error, or \<open>None\<close>
  when the reads given do not suffice.
\<close>

fun short_id_loop :: "8 word option list \<Rightarrow> string \<Rightarrow> (unit + string) option" where
  "short_id_loop reads out =
     (if 7 \<le> length out then Some (Inr out)
      else case reads of
             [] \<Rightarrow> None
           | None # rs \<Rightarrow> Some (Inl ())
           | Some b # rs \<Rightarrow>
               if maxUnbiased \<le> unat b then short_id_loop rs out
               else short_id_loop rs (out @ [id_chars ! (unat b mod length id_chars)]))"

declare short_id_loop.simps [simp del]

definition ShortID :: "8 word option list \<Rightarrow> (unit + string) option" where
  "ShortID reads = short_id_loop reads []"

section \<open>Run states (run.go)\<close>

datatype run_state =
    RunStateCreated | RunStatePlanning | RunStateValidated | RunStateAwaitingApproval
  | RunStatePreparing | RunStateRunning | RunStateCollectingArtifacts | RunStateReconcilingCost
  | RunStateCleaningUp | RunStateCompleted | RunStateStopping
  | RunStatePlanInvalid | RunStateApprovalDenied | RunStatePackageFailed
  | RunStateProvisioningFailed | RunStateExecutionFailed | RunStateBudgetExceeded
  | RunStateArtifactFailed | RunStateCleanupFailed | RunStateCostUnknown
  | RunStateOther string

fun run_state_string :: "run_state \<Rightarrow> string" where
  "run_state_string RunStateCreated = ''created''"
| "run_state_string RunStatePlanning = ''planning''"
| "run_state_string RunStateValidated = ''validated''"
| "run_state_string RunStateAwaitingApproval = ''awaiting-approval''"
| "run_state_string RunStatePreparing = ''preparing''"
| "run_state_string RunStateRunning = ''running''"
| "run_state_string RunStateCollectingArtifacts = ''collecting-artifacts''"
| "run_state_string RunStateReconcilingCost = ''reconciling-cost''"
| "run_state_string RunStateCleaningUp = ''cleaning-up''"
| "run_state_string RunStateCompleted = ''completed''"
| "run_state_string RunStateStopping = ''stopping''"
| "run_state_string RunStatePlanInvalid = ''plan-invalid''"
| "run_state_string RunStateApprovalDenied = ''approval-denied''"
| "run_state_string RunStatePackageFailed = ''package-failed''"
| "run_state_string RunStateProvisioningFailed = ''provisioning-failed''"
| "run_state_string RunStateExecutionFailed = ''execution-failed''"
| "run_state_string RunStateBudgetExceeded = ''budget-exceeded''"
| "run_state_string RunStateArtifactFailed = ''artifact-failed''"
| "run_state_string RunStateCleanupFailed = ''cleanup-failed''"
| "run_state_string RunStateCostUnknown = ''cost-unknown''"
| "run_state_string (RunStateOther s) = s"

definition IsTerminal :: "run_state \<Rightarrow> bool" where
  "IsTerminal s = (s \<in> {RunStateCompleted, RunStatePlanInvalid, RunStateApprovalDenied,
     RunStatePackageFailed, RunStateProvisioningFailed, RunStateExecutionFailed,
     RunStateBudgetExceeded, RunStateArtifactFailed, RunStateCleanupFailed, RunStateCostUnknown})"

definition IsFailure :: "run_state \<Rightarrow> bool" where
  "IsFailure s = (s \<in> {RunStatePlanInvalid, RunStateApprovalDenied, RunStatePackageFailed,
     RunStateProvisioningFailed, RunStateExecutionFailed, RunStateBudgetExceeded,
     RunStateArtifactFailed, RunStateCleanupFailed, RunStateCostUnknown})"

section \<open>Workloads (workload.go, shard.go)\<close>

datatype workload_kind =
    WorkloadKindScript | WorkloadKindJob | WorkloadKindService | WorkloadKindGPUJob
  | WorkloadKindSandbox | WorkloadKindContainer | WorkloadKindUnknown | WorkloadKindOther string

fun workload_kind_string :: "workload_kind \<Rightarrow> string" where
  "workload_kind_string WorkloadKindScript = ''script''"
| "workload_kind_string WorkloadKindJob = ''job''"
| "workload_kind_string WorkloadKindService = ''service''"
| "workload_kind_string WorkloadKindGPUJob = ''gpu-job''"
| "workload_kind_string WorkloadKindSandbox = ''sandbox''"
| "workload_kind_string WorkloadKindContainer = ''container''"
| "workload_kind_string WorkloadKindUnknown = ''unknown''"
| "workload_kind_string (WorkloadKindOther s) = s"

datatype go_runtime =
    RuntimePython | RuntimeNode | RuntimeGo | RuntimeRust | RuntimeJava | RuntimeRuby
  | RuntimeUnknown | RuntimeOther string

datatype package_type = PackageTypeContainer | PackageTypeScript | PackageTypeImage | PackageTypeOther string

record gpu_requirement =
  gr_Required :: bool
  gr_Count :: int
  gr_Model :: string
  gr_Framework :: string

record confidential_requirement =
  cr_Required :: bool
  cr_Type :: string
  cr_Profile :: string
  cr_Attestation :: string
  cr_Measurements :: "string list"
  cr_MinTCB :: "64 word"

record resource_requirements =
  rr_CPU :: string
  rr_Memory :: string
  rr_Arch :: string
  rr_GPU :: gpu_requirement
  rr_Confidential :: confidential_requirement
  rr_Sandbox :: bool

record package_plan =
  pp_Type :: package_type
  pp_Dockerfile :: string
  pp_BuildRequired :: bool
  pp_BaseImage :: string

record secret_ref =
  sr_Kind :: string
  sr_Location :: string
  sr_Name :: string

record data_requirement =
  dr_Kind :: string
  dr_Location :: string
  dr_Details :: string

record shard_spec =
  sh_Count :: int
  sh_Discover :: string
  sh_MaxParallel :: int
  sh_Outputs :: "string list"
  sh_OnShardFailure :: string

definition shard_Enabled :: "shard_spec \<Rightarrow> bool" where
  "shard_Enabled s = (0 < sh_Count s \<or> sh_Discover s \<noteq> '''')"

record workload_source =
  wsrc_Type :: string
  wsrc_Path :: string

record workload_spec =
  ws_Name :: string
  ws_DetectedKind :: workload_kind
  ws_Source :: workload_source
  ws_Runtime :: go_runtime
  ws_Entrypoints :: "string list"
  ws_Package :: package_plan
  ws_Command :: "string list"
  ws_Ports :: "int list"
  ws_Requirements :: resource_requirements
  ws_Secrets :: "secret_ref list"
  ws_Data :: "data_requirement list"
  ws_Outputs :: "string list"
  ws_Shard :: shard_spec
  ws_Env :: "string \<rightharpoonup> string"

section \<open>Targets (target.go)\<close>

datatype target_kind =
    TargetKindLocal | TargetKindLocalVM | TargetKindDocker | TargetKindSSH
  | TargetKindKubernetes | TargetKindCloudVM | TargetKindOther string

fun target_kind_string :: "target_kind \<Rightarrow> string" where
  "target_kind_string TargetKindLocal = ''local''"
| "target_kind_string TargetKindLocalVM = ''local-vm''"
| "target_kind_string TargetKindDocker = ''docker''"
| "target_kind_string TargetKindSSH = ''ssh''"
| "target_kind_string TargetKindKubernetes = ''kubernetes''"
| "target_kind_string TargetKindCloudVM = ''cloud-vm''"
| "target_kind_string (TargetKindOther s) = s"

record gpu_capability =
  gc_Supported :: bool
  gc_Models :: "string list"

record networking_capability =
  nc_PublicEndpoint :: bool
  nc_PrivateVPCAccess :: bool
  nc_StaticEgressIP :: bool

record accounting_capability =
  ac_CostEstimate :: bool
  ac_ActualBilling :: bool
  ac_RateCard :: string

record observability_capability =
  oc_Logs :: bool
  oc_Metrics :: bool
  oc_Artifacts :: bool

record confidential_capability =
  cc_Supported :: bool
  cc_Types :: "string list"

record resource_capability =
  rc_CPU :: bool
  rc_Memory :: bool
  rc_GPU :: gpu_capability
  rc_Confidential :: confidential_capability

record isolation_capability =
  ic_Levels :: "string list"

record capabilities =
  cap_WorkloadKinds :: "workload_kind list"
  cap_Resources :: resource_capability
  cap_Networking :: networking_capability
  cap_Accounting :: accounting_capability
  cap_Isolation :: isolation_capability
  cap_Observability :: observability_capability
  cap_NotSupported :: "string list"

record ssh_target_config =
  ssh_Host :: string
  ssh_User :: string
  ssh_Port :: int
  ssh_KeyFile :: string

record target_config =
  tc_ID :: string
  tc_Kind :: target_kind
  tc_Enabled :: bool
  tc_Capabilities :: capabilities
  tc_SSH :: "ssh_target_config option"

abbreviation tc_RateCard :: "target_config \<Rightarrow> string" where
  "tc_RateCard t \<equiv> ac_RateCard (cap_Accounting (tc_Capabilities t))"

section \<open>Plans (plan.go)\<close>

datatype confidence =
  ConfidenceHigh | ConfidenceMedium | ConfidenceLow | ConfidenceUnknown | ConfidenceOther string

datatype optimize_goal = OptimizeCost | OptimizeSpeed | OptimizeOther string

record cost_estimate =
  ce_Value :: f64
  ce_Currency :: string
  ce_Confidence :: confidence
  ce_Assumptions :: "string list"
  ce_Exclusions :: "string list"
  ce_InstanceType :: string
  ce_SpotRatio :: f64

definition cost_estimate_zero :: cost_estimate where
  "cost_estimate_zero = \<lparr>ce_Value = 0, ce_Currency = '''', ce_Confidence = ConfidenceOther '''',
     ce_Assumptions = [], ce_Exclusions = [], ce_InstanceType = '''', ce_SpotRatio = 0\<rparr>"

record plan_metadata =
  pm_ID :: string
  pm_CreatedAt :: time
  pm_CreatedBy :: string

record plan_constraints =
  pc_TargetScope :: string
  pc_OptimizeFor :: optimize_goal
  pc_MaxEstimatedCostUSD :: f64
  pc_MaxDuration :: duration
  pc_RequireGPU :: string
  pc_TargetName :: string
  pc_Region :: string
  pc_WatchdogTTL :: duration
  pc_RetryTransientFailures :: bool
  pc_AllowSSHFrom :: string
  pc_Spot :: bool

record recommendation =
  rec_Target :: string
  rec_Runtime :: string
  rec_EstimatedCost :: cost_estimate
  rec_Reason :: "string list"

record alternative =
  alt_Target :: string
  alt_Runtime :: string
  alt_EstimatedCost :: cost_estimate
  alt_Tradeoff :: "string list"

record rejected_target =
  rj_Target :: string
  rj_Reason :: string

record risk =
  rk_Category :: string
  rk_Description :: string

datatype validation_status = ValidationPass | ValidationFail | ValidationSkipped | ValidationWarn | ValidationOther string

record validation_result =
  vr_Schema :: validation_status
  vr_PackageBuild :: validation_status
  vr_TargetCapabilities :: validation_status
  vr_Credentials :: validation_status
  vr_Quota :: validation_status
  vr_Network :: validation_status
  vr_Policy :: validation_status
  vr_CostEstimate :: validation_status
  vr_CleanupPlan :: validation_status

definition IsValid :: "validation_result \<Rightarrow> bool" where
  "IsValid v = list_all (\<lambda>s. s \<noteq> ValidationFail)
     [vr_Schema v, vr_PackageBuild v, vr_TargetCapabilities v, vr_Credentials v, vr_Quota v,
      vr_Network v, vr_Policy v, vr_CostEstimate v, vr_CleanupPlan v]"

record policy_requirement =
  pr_Name :: string
  pr_Reason :: string

record plan =
  pl_APIVersion :: string
  pl_Kind :: string
  pl_Metadata :: plan_metadata
  pl_Workload :: workload_spec
  pl_Constraints :: plan_constraints
  pl_Recommendation :: "recommendation option"
  pl_Alternatives :: "alternative list"
  pl_Rejected :: "rejected_target list"
  pl_Risks :: "risk list"
  pl_Validation :: validation_result
  pl_RequiredApprovals :: "policy_requirement list"
  pl_ExecutionSteps :: "string list"

section \<open>Facts\<close>

lemma IsFailure_IsTerminal: "IsFailure s \<Longrightarrow> IsTerminal s"
  by (auto simp: IsFailure_def IsTerminal_def)

lemma IsTerminal_cases: "IsTerminal s \<longleftrightarrow> IsFailure s \<or> s = RunStateCompleted"
  by (auto simp: IsFailure_def IsTerminal_def)

lemma IsTerminal_simps [simp]:
  "\<not> IsTerminal RunStateCreated" "\<not> IsTerminal RunStatePlanning" "\<not> IsTerminal RunStateValidated"
  "\<not> IsTerminal RunStateAwaitingApproval" "\<not> IsTerminal RunStatePreparing"
  "\<not> IsTerminal RunStateRunning" "\<not> IsTerminal RunStateCollectingArtifacts"
  "\<not> IsTerminal RunStateReconcilingCost" "\<not> IsTerminal RunStateCleaningUp"
  "\<not> IsTerminal RunStateStopping" "\<not> IsTerminal (RunStateOther x)"
  "IsTerminal RunStateCompleted" "IsTerminal RunStatePlanInvalid" "IsTerminal RunStateApprovalDenied"
  "IsTerminal RunStatePackageFailed" "IsTerminal RunStateProvisioningFailed"
  "IsTerminal RunStateExecutionFailed" "IsTerminal RunStateBudgetExceeded"
  "IsTerminal RunStateArtifactFailed" "IsTerminal RunStateCleanupFailed" "IsTerminal RunStateCostUnknown"
  by (simp_all add: IsTerminal_def)

lemma length_id_chars: "length id_chars = 36"
  by (simp add: id_chars_def)

lemma maxUnbiased_eq: "maxUnbiased = 252"
  by (simp add: maxUnbiased_def length_id_chars)

lemma short_id_loop_result:
  "short_id_loop reads out = Some (Inr s) \<Longrightarrow> length out \<le> 7 \<Longrightarrow> set out \<subseteq> set id_chars \<Longrightarrow>
     length s = 7 \<and> set s \<subseteq> set id_chars"
proof (induction reads out rule: short_id_loop.induct)
  case (1 reads out)
  have sym: "id_chars ! (unat b mod length id_chars) \<in> set id_chars" for b :: "8 word"
    by (simp add: length_id_chars)
  show ?case
    using 1 sym
    by (subst (asm) (3) short_id_loop.simps) (auto split: if_splits list.splits option.splits)
qed

text \<open>
  Termination of the rejection loop: seven bytes below the cut-off are enough, whatever
  rejected bytes come between them.
\<close>

lemma short_id_loop_enough:
  assumes "\<forall>r\<in>set reads. r \<noteq> None"
    and "7 \<le> length out + length (filter (\<lambda>r. case r of Some b \<Rightarrow> unat b < maxUnbiased | None \<Rightarrow> False) reads)"
  shows "\<exists>s. short_id_loop reads out = Some (Inr s)"
  using assms
proof (induction reads arbitrary: out)
  case Nil
  then show ?case by (subst short_id_loop.simps) simp
next
  case (Cons r rs)
  then obtain b where "r = Some b" by auto
  with Cons show ?case by (subst short_id_loop.simps) auto
qed

end
