(* ===== verification/Adapter_Iface.thy ===== *)
theory Adapter_Iface
  imports Dispatch_Types
begin

text \<open>
  The data an execution adapter exchanges with the rest of the program
  (\<^verbatim>\<open>internal/adapter/adapter.go\<close>) and the classification of failures that gates the transient
  retry (\<^verbatim>\<open>internal/adapter/classify.go\<close>). The adapter-specific state of a handle is opaque to
  every caller but for its serialisation, which is what \<open>handle_state\<close> keeps of it.
\<close>

section \<open>Handles, results and resources (adapter.go)\<close>

record log_event =
  le_Stream :: string
  le_Message :: string

record artifact_ref =
  ar_Name :: string
  ar_Path :: string
  ar_Size :: int

record cleanup_result =
  cl_Success :: bool
  cl_ResourcesCleaned :: "string list"
  cl_Errors :: "string list"

text \<open>
  What \<^verbatim>\<open>RunHandle.State\<close> offers: no serialisation, or one that yields a JSON text or an error.
\<close>

datatype handle_state = StateOpaque | StateSerializable "string result"

record run_handle =
  rh_ID :: string
  rh_TargetID :: string
  rh_State :: handle_state
  rh_RunID :: string

datatype resource_kind =
    ResourceInstance | ResourceDisk | ResourceImage | ResourceSnapshot | ResourceAddress
  | ResourceFirewall | ResourceContainerImage | ResourceKindOther string

record resource_info =
  ri_ResourceID :: string
  ri_Provider :: string
  ri_Kind :: resource_kind
  ri_Region :: string
  ri_InstanceType :: string
  ri_CreatedAt :: time
  ri_RunID :: string
  ri_Tags :: "string \<rightharpoonup> string"
  ri_Scope :: string
  ri_MonthlyUSD :: f64

text \<open>A missing tag reads as the empty string, which is not \<^verbatim>\<open>"true"\<close>.\<close>

definition DispatcherOwned :: "resource_info \<Rightarrow> bool" where
  "DispatcherOwned r = (ri_Tags r ''dispatcher'' = Some ''true'')"

record failure_details =
  fd_ExitCode :: int
  fd_Signal :: string
  fd_OOMKilled :: bool
  fd_Reclaimed :: bool
  fd_Message :: string

definition failure_details_zero :: failure_details where
  "failure_details_zero = \<lparr>fd_ExitCode = 0, fd_Signal = '''', fd_OOMKilled = False,
     fd_Reclaimed = False, fd_Message = ''''\<rparr>"

section \<open>Failure classification (classify.go)\<close>

definition MaxFailureMessageLen :: nat where "MaxFailureMessageLen = 160"

text \<open>The ellipsis, in UTF-8.\<close>

definition ellipsis :: string where
  "ellipsis = [CHR 0xE2, CHR 0x80, CHR 0xA6]"

definition truncateFailureMessage :: "string \<Rightarrow> string" where
  "truncateFailureMessage s =
     (let s1 = takeWhile (\<lambda>c. c \<noteq> newline) s; s2 = strings_TrimSpace s1
      in if length s2 \<le> MaxFailureMessageLen then s2 else take MaxFailureMessageLen s2 @ ellipsis)"

datatype failure_kind = FailurePermanent | FailureTransient | FailureUnknown

definition killSignalExit :: "int \<Rightarrow> bool" where
  "killSignalExit code =
     (if 128 < code \<and> code < 192 then (let sig = code - 128 in sig = 9 \<or> sig = 15)
      else if 241 \<le> code \<and> code \<le> 255 then (let sig = 256 - code in sig = 9 \<or> sig = 15)
      else False)"

definition ClassifyFailure :: "failure_details \<Rightarrow> failure_kind" where
  "ClassifyFailure d =
     (if fd_Reclaimed d then FailureTransient
      else if fd_OOMKilled d then FailureTransient
      else if List.member [''killed'', ''SIGKILL'', ''SIGTERM'', ''terminated''] (fd_Signal d)
        then FailureTransient
      else if killSignalExit (fd_ExitCode d) then FailureTransient
      else if fd_ExitCode d = 0 \<and> fd_Signal d = '''' \<and> fd_Message d = '''' then FailureUnknown
      else FailurePermanent)"

section \<open>Facts\<close>

lemma killSignalExit_iff: "killSignalExit code \<longleftrightarrow> code \<in> {137, 143, 241, 247}"
  by (auto simp: killSignalExit_def)

lemma strings_TrimSpace_newline_free:
  "newline \<notin> set s \<Longrightarrow> newline \<notin> set (strings_TrimSpace s)"
  unfolding strings_TrimSpace_def by (metis set_dropWhileD set_rev)

lemma takeWhile_newline_free: "newline \<notin> set (takeWhile (\<lambda>c. c \<noteq> newline) s)"
  by (auto dest: set_takeWhileD)

lemma length_ellipsis: "length ellipsis = 3" and newline_not_ellipsis: "newline \<notin> set ellipsis"
  by (simp_all add: ellipsis_def newline_def)

text \<open>
  a failure is classified as transient, and so becomes eligible for the automatic retry,
  exactly on a specific environmental signal: a provider reclaim, a confirmed OOM kill, a KILL
  or TERM signal by name, or one of the four exit codes that encode KILL (137, 247) or TERM
  (143, 241). Crash signals and every other exit code are never transient.
\<close>

theorem classify_transient_iff:
  "ClassifyFailure d = FailureTransient \<longleftrightarrow>
     fd_Reclaimed d \<or> fd_OOMKilled d \<or>
     fd_Signal d \<in> {''killed'', ''SIGKILL'', ''SIGTERM'', ''terminated''} \<or>
     fd_ExitCode d \<in> {137, 143, 241, 247}"
  by (auto simp: ClassifyFailure_def killSignalExit_iff)

text \<open>
  the failure message kept on a run record is one line of at most 160 bytes plus the
  ellipsis, so neither a multi-line nor an oversized stderr reaches the persisted record.
\<close>

theorem truncateFailureMessage_bounds:
  "length (truncateFailureMessage s) \<le> MaxFailureMessageLen + 3 \<and>
   newline \<notin> set (truncateFailureMessage s)"
proof -
  define t where "t = strings_TrimSpace (takeWhile (\<lambda>c. c \<noteq> newline) s)"
  have t: "newline \<notin> set t"
    unfolding t_def by (intro strings_TrimSpace_newline_free takeWhile_newline_free)
  have eq: "truncateFailureMessage s =
      (if length t \<le> MaxFailureMessageLen then t else take MaxFailureMessageLen t @ ellipsis)"
    by (simp add: truncateFailureMessage_def t_def Let_def)
  have "newline \<notin> set (take MaxFailureMessageLen t)" using t by (meson in_set_takeD)
  with t show ?thesis by (auto simp: eq length_ellipsis newline_not_ellipsis)
qed

end
