(* ===== verification/Approval.thy ===== *)
theory Approval
  imports Dispatch_Types
begin

text \<open>
  The approval gate of \<^verbatim>\<open>internal/approval/store.go\<close>: a single-shot decision raced for by an
  in-process approver, external clients on a per-run socket and the cancellation of the run.
  A gate is a record of the fields under its mutex; each locked section is one operation. The
  races are a step relation over the gate and the state of \<open>Wait\<close>; its invariants hold in
  every interleaving.
\<close>

section \<open>Decisions, records and messages\<close>

datatype decision = DecisionApproved | DecisionDenied | DecisionOther string

record approval_record =
  apr_RunID :: string
  apr_Requirements :: "policy_requirement list"
  apr_RequestedAt :: time
  apr_DecidedAt :: time
  apr_Decision :: decision
  apr_Decider :: string

text \<open>The error an in-process approver returns: none, \<^verbatim>\<open>ErrDenied\<close>, or another error.\<close>

datatype approver_error = ErrDenied | ApproverError string

record decision_msg =
  dm_decision :: decision
  dm_decider :: string

record wire_msg =
  wm_Action :: string
  wm_Decision :: decision
  wm_Decider :: string

record wire_reply =
  wr_Status :: string
  wr_Reason :: string

definition validateRunID :: "string \<Rightarrow> unit result" where
  "validateRunID i =
     (if i = '''' then Inl ''run id is empty''
      else if strings_ContainsAny i [CHR ''/'', CHR 0x5C] \<or> strings_Contains i ''..''
        then Inl (''invalid run id '' @ go_quote i @ '': contains path separator or traversal'')
      else Inr ())"

text \<open>
  The socket of a run, below the approvals directory (\<open>dir\<close> is what \<^verbatim>\<open>state.Subdir\<close> returned).
\<close>

definition socketPath :: "string result \<Rightarrow> string \<Rightarrow> string result" where
  "socketPath dir runID =
     (case validateRunID runID of
        Inl e \<Rightarrow> Inl e
      | Inr _ \<Rightarrow> (case dir of Inl e \<Rightarrow> Inl e | Inr d \<Rightarrow> Inr (d @ ''/'' @ runID @ ''.sock'')))"

section \<open>The gate\<close>

record gate =
  g_runID :: string
  g_reqs :: "policy_requirement list"
  g_sockPath :: string
  g_closed :: bool
  g_settled :: bool
  g_abandoned :: bool
  g_result :: decision_msg
  g_resultCh :: bool

definition no_decision :: decision_msg where
  "no_decision = \<lparr>dm_decision = DecisionOther '''', dm_decider = ''''\<rparr>"

text \<open>\<^verbatim>\<open>NewGate\<close>: \<open>listen\<close> is the outcome of listening on the socket path.\<close>

definition NewGate :: "string result \<Rightarrow> (string \<Rightarrow> unit result) \<Rightarrow> string \<Rightarrow> policy_requirement list \<Rightarrow> gate result" where
  "NewGate dir listen runID reqs =
     (case socketPath dir runID of
        Inl e \<Rightarrow> Inl e
      | Inr sock \<Rightarrow>
          (case listen sock of
             Inl e \<Rightarrow> Inl (''listen approval socket: '' @ e)
           | Inr _ \<Rightarrow> Inr \<lparr>g_runID = runID, g_reqs = reqs, g_sockPath = sock, g_closed = False,
                 g_settled = False, g_abandoned = False, g_result = no_decision,
                 g_resultCh = False\<rparr>))"

definition settle :: "decision_msg \<Rightarrow> gate \<Rightarrow> gate \<times> bool" where
  "settle d g =
     (if g_abandoned g then (g, False)
      else if \<not> g_settled g then (g\<lparr>g_settled := True, g_result := d, g_resultCh := True\<rparr>, True)
      else if dm_decision d = DecisionDenied \<and> dm_decision (g_result g) = DecisionApproved
        then (g\<lparr>g_result := d\<rparr>, True)
      else (g, False))"

definition abandon :: "gate \<Rightarrow> gate" where
  "abandon g = (if \<not> g_settled g then g\<lparr>g_abandoned := True\<rparr> else g)"

text \<open>\<^verbatim>\<open>Close\<close> runs its body once; the second component is whether it did.\<close>

definition close_gate :: "gate \<Rightarrow> gate \<times> bool" where
  "close_gate g = (if g_closed g then (g, False) else (g\<lparr>g_closed := True\<rparr>, True))"

text \<open>The message the in-process approver's result turns into.\<close>

definition in_process_decision :: "string \<Rightarrow> approver_error option \<Rightarrow> decision_msg" where
  "in_process_decision decider err =
     (case err of
        Some ErrDenied \<Rightarrow> \<lparr>dm_decision = DecisionDenied, dm_decider = decider\<rparr>
      | Some (ApproverError e) \<Rightarrow> \<lparr>dm_decision = DecisionDenied, dm_decider = ''approver-error:'' @ e\<rparr>
      | None \<Rightarrow> \<lparr>dm_decision = DecisionApproved, dm_decider = decider\<rparr>)"

definition wait_record :: "gate \<Rightarrow> time \<Rightarrow> approval_record" where
  "wait_record g now = \<lparr>apr_RunID = g_runID g, apr_Requirements = g_reqs g, apr_RequestedAt = now,
     apr_DecidedAt = 0, apr_Decision = DecisionOther '''', apr_Decider = ''''\<rparr>"

text \<open>
  The two branches of \<open>Wait\<close>'s select: the context is done (an error, no decision), or a
  decision is there, which is read and the gate closed to further ones under the lock.
\<close>

datatype wait_error = WaitCanceled | WaitDenied

definition wait_ctx_done :: "approval_record \<Rightarrow> gate \<Rightarrow> gate \<times> approval_record \<times> wait_error option" where
  "wait_ctx_done rec g = (abandon g, rec, Some WaitCanceled)"

definition wait_result :: "time \<Rightarrow> approval_record \<Rightarrow> gate \<Rightarrow> gate \<times> approval_record \<times> wait_error option" where
  "wait_result now rec g =
     (let d = g_result g;
          rec' = rec\<lparr>apr_DecidedAt := now, apr_Decision := dm_decision d, apr_Decider := dm_decider d\<rparr>
      in (g\<lparr>g_abandoned := True\<rparr>, rec',
          if dm_decision d = DecisionDenied then Some WaitDenied else None))"

text \<open>The decider a socket message is recorded under.\<close>

definition external_decider :: "string \<Rightarrow> string" where
  "external_decider s =
     (let d = (if s = '''' then ''unknown'' else s)
      in if strings_HasPrefix d ''external:'' then d else ''external:'' @ d)"

definition decision_string :: "decision \<Rightarrow> string" where
  "decision_string d = (case d of DecisionApproved \<Rightarrow> ''approved'' | DecisionDenied \<Rightarrow> ''denied''
     | DecisionOther s \<Rightarrow> s)"

text \<open>
  One connection: \<open>None\<close> is a message that does not decode (a probe that closes at once), which
  gets no reply.
\<close>

definition handleConn :: "wire_msg option \<Rightarrow> gate \<Rightarrow> gate \<times> wire_reply option" where
  "handleConn m g =
     (case m of
        None \<Rightarrow> (g, None)
      | Some msg \<Rightarrow>
          if wm_Action msg = ''ping'' then (g, Some \<lparr>wr_Status = ''ok'', wr_Reason = ''''\<rparr>)
          else if wm_Action msg = ''decide'' \<or> wm_Action msg = '''' then
            (if wm_Decision msg \<noteq> DecisionApproved \<and> wm_Decision msg \<noteq> DecisionDenied
             then (g, Some \<lparr>wr_Status = ''error'',
                     wr_Reason = ''invalid decision '' @ go_quote (decision_string (wm_Decision msg))\<rparr>)
             else (case settle \<lparr>dm_decision = wm_Decision msg, dm_decider = external_decider (wm_Decider msg)\<rparr> g of
                     (g', True) \<Rightarrow> (g', Some \<lparr>wr_Status = ''ok'', wr_Reason = ''''\<rparr>)
                   | (g', False) \<Rightarrow> (g', Some \<lparr>wr_Status = ''error'', wr_Reason = ''already decided''\<rparr>)))
          else (g, Some \<lparr>wr_Status = ''error'', wr_Reason = ''unknown action '' @ go_quote (wm_Action msg)\<rparr>))"

text \<open>
  The client side, \<open>dial\<close> being the outcome of connecting and \<open>reply\<close> what comes back.
\<close>

definition SendDecision :: "string result \<Rightarrow> string \<Rightarrow> unit result \<Rightarrow> unit result \<Rightarrow> wire_reply result \<Rightarrow> unit result" where
  "SendDecision dir runID dial send reply =
     (case socketPath dir runID of
        Inl e \<Rightarrow> Inl e
      | Inr sock \<Rightarrow>
          (case dial of
             Inl e \<Rightarrow> Inl (''connect to approval gate for '' @ runID @ '': '' @ e)
           | Inr _ \<Rightarrow>
               (case send of
                  Inl e \<Rightarrow> Inl (''send decision: '' @ e)
                | Inr _ \<Rightarrow>
                    (case reply of
                       Inl e \<Rightarrow> Inl (''read ack: '' @ e)
                     | Inr r \<Rightarrow> if wr_Status r \<noteq> ''ok'' then Inl (''gate rejected decision: '' @ wr_Reason r)
                                else Inr ()))))"

section \<open>Pending gates\<close>

text \<open>What probing a directory entry finds: see \<^verbatim>\<open>ListPending\<close>.\<close>

datatype dial_outcome = DialOk | DialRefused | DialOtherError

record sock_entry =
  se_Name :: string
  se_LstatOk :: bool
  se_IsSocket :: bool
  se_Dial :: dial_outcome

text \<open>The result: the ids still awaiting approval and the names of the files removed.\<close>

definition list_pending_step :: "sock_entry \<Rightarrow> string list \<times> string list \<Rightarrow> string list \<times> string list" where
  "list_pending_step e = (\<lambda>(alive, removed).
     if \<not> strings_HasSuffix (se_Name e) ''.sock'' then (alive, removed)
     else if \<not> se_LstatOk e then (alive, removed)
     else if \<not> se_IsSocket e then (alive, removed @ [se_Name e])
     else (case se_Dial e of
             DialRefused \<Rightarrow> (alive, removed @ [se_Name e])
           | DialOtherError \<Rightarrow> (alive @ [strings_TrimSuffix (se_Name e) ''.sock''], removed)
           | DialOk \<Rightarrow> (alive @ [strings_TrimSuffix (se_Name e) ''.sock''], removed)))"

definition ListPending :: "sock_entry list result \<Rightarrow> (string list \<times> string list) result" where
  "ListPending entries =
     (case entries of Inl e \<Rightarrow> Inl e | Inr es \<Rightarrow> Inr (fold list_pending_step es ([], [])))"

section \<open>The race for a decision\<close>

text \<open>
  The system: the gate, the state of the one \<open>Wait\<close> call, and (for the properties) the
  decisions that were accepted, in order: those for which \<open>settle\<close> returned true, which is
  what an external client is told as ok. Approver and connections may act at any time, also
  after \<open>Wait\<close> returned and the socket was closed (a connection accepted before).
\<close>

datatype wait_state = WaitPending approval_record | WaitReturned approval_record "wait_error option"

record gate_sys =
  gs_gate :: gate
  gs_wait :: wait_state
  gs_acked :: "decision_msg list"

definition ack :: "decision_msg \<Rightarrow> bool \<Rightarrow> decision_msg list \<Rightarrow> decision_msg list" where
  "ack d ok ds = (if ok then ds @ [d] else ds)"

text \<open>A message that reaches \<open>settle\<close>: a decide action with one of the two decisions.\<close>

definition is_decide :: "wire_msg option \<Rightarrow> bool" where
  "is_decide m = (case m of None \<Rightarrow> False
     | Some msg \<Rightarrow> (wm_Action msg = ''decide'' \<or> wm_Action msg = '''') \<and>
         (wm_Decision msg = DecisionApproved \<or> wm_Decision msg = DecisionDenied))"

inductive gate_step :: "gate_sys \<Rightarrow> gate_sys \<Rightarrow> bool" where
  in_process: "d = in_process_decision decider err \<Longrightarrow> settle d (gs_gate s) = (g', ok) \<Longrightarrow>
     gate_step s (s\<lparr>gs_gate := g', gs_acked := ack d ok (gs_acked s)\<rparr>)"
| external: "is_decide (Some msg) \<Longrightarrow>
     d = \<lparr>dm_decision = wm_Decision msg, dm_decider = external_decider (wm_Decider msg)\<rparr> \<Longrightarrow>
     handleConn (Some msg) (gs_gate s) = (g', Some reply) \<Longrightarrow>
     gate_step s (s\<lparr>gs_gate := g', gs_acked := ack d (wr_Status reply = ''ok'') (gs_acked s)\<rparr>)"
| other_conn: "\<not> is_decide m \<Longrightarrow>
     handleConn m (gs_gate s) = (g', reply) \<Longrightarrow> gate_step s (s\<lparr>gs_gate := g'\<rparr>)"
| ctx_done: "gs_wait s = WaitPending rec \<Longrightarrow> wait_ctx_done rec (gs_gate s) = (g', rec', e) \<Longrightarrow>
     gate_step s (s\<lparr>gs_gate := g', gs_wait := WaitReturned rec' e\<rparr>)"
| result: "gs_wait s = WaitPending rec \<Longrightarrow> g_resultCh (gs_gate s) \<Longrightarrow>
     wait_result now rec (gs_gate s) = (g', rec', e) \<Longrightarrow>
     gate_step s (s\<lparr>gs_gate := g', gs_wait := WaitReturned rec' e\<rparr>)"
| closing: "gs_wait s = WaitReturned rec e \<Longrightarrow> close_gate (gs_gate s) = (g', ok) \<Longrightarrow>
     gate_step s (s\<lparr>gs_gate := g'\<rparr>)"

inductive gate_reachable :: "gate_sys \<Rightarrow> bool" where
  start: "NewGate dir listen runID reqs = Inr g \<Longrightarrow>
     gate_reachable \<lparr>gs_gate = g, gs_wait = WaitPending (wait_record g now), gs_acked = []\<rparr>"
| step: "gate_reachable s \<Longrightarrow> gate_step s t \<Longrightarrow> gate_reachable t"

section \<open>Invariants of the race\<close>

definition gate_wf :: "gate \<Rightarrow> decision_msg list \<Rightarrow> bool" where
  "gate_wf g acked \<longleftrightarrow>
     g_resultCh g = g_settled g \<and>
     (g_settled g \<longleftrightarrow> acked \<noteq> []) \<and>
     (acked \<noteq> [] \<longrightarrow> g_result g = last acked) \<and>
     (\<forall>d\<in>set acked. dm_decision d \<in> {DecisionApproved, DecisionDenied}) \<and>
     (\<forall>d\<in>set (butlast acked). dm_decision d = DecisionApproved) \<and>
     (1 < length acked \<longrightarrow> dm_decision (last acked) = DecisionDenied) \<and>
     length acked \<le> 2"

definition wait_wf :: "gate_sys \<Rightarrow> bool" where
  "wait_wf s \<longleftrightarrow>
     (case gs_wait s of
        WaitPending rec \<Rightarrow> \<not> g_abandoned (gs_gate s)
      | WaitReturned rec e \<Rightarrow>
          (e = Some WaitCanceled \<and> (g_abandoned (gs_gate s) \<longleftrightarrow> gs_acked s = [])) \<or>
          (g_abandoned (gs_gate s) \<and> gs_acked s \<noteq> [] \<and>
           apr_Decision rec = dm_decision (last (gs_acked s)) \<and>
           apr_Decider rec = dm_decider (last (gs_acked s)) \<and>
           e = (if apr_Decision rec = DecisionDenied then Some WaitDenied else None)))"

definition gate_inv :: "gate_sys \<Rightarrow> bool" where
  "gate_inv s \<longleftrightarrow> gate_wf (gs_gate s) (gs_acked s) \<and> wait_wf s"

lemma settle_abandoned: "g_abandoned g \<Longrightarrow> settle d g = (g, False)"
  by (simp add: settle_def)

lemma settle_frame:
  "settle d g = (g', ok) \<Longrightarrow> g_abandoned g' = g_abandoned g \<and> g_reqs g' = g_reqs g \<and> g_runID g' = g_runID g"
  by (auto simp: settle_def split: if_splits)

lemma settle_wf:
  assumes "gate_wf g acked" "dm_decision d \<in> {DecisionApproved, DecisionDenied}" "settle d g = (g', ok)"
  shows "gate_wf g' (ack d ok acked)"
  using assms by (cases acked rule: rev_cases) (auto simp: gate_wf_def settle_def ack_def split: if_splits)

lemma settle_wait_wf:
  assumes "wait_wf s" "settle d (gs_gate s) = (g', ok)"
  shows "wait_wf (s\<lparr>gs_gate := g', gs_acked := ack d ok (gs_acked s)\<rparr>)"
  using assms settle_frame [OF assms(2)] settle_abandoned [of "gs_gate s" d]
  by (auto simp: wait_wf_def ack_def split: wait_state.splits)

lemma in_process_decision_valid: "dm_decision (in_process_decision n e) \<in> {DecisionApproved, DecisionDenied}"
  by (auto simp: in_process_decision_def split: option.splits approver_error.splits)

text \<open>A decide message is exactly a \<open>settle\<close> under the recorded decider.\<close>

lemma handleConn_decide:
  assumes "is_decide (Some msg)" and "handleConn (Some msg) g = (g', Some reply)"
  shows "settle \<lparr>dm_decision = wm_Decision msg, dm_decider = external_decider (wm_Decider msg)\<rparr> g
    = (g', wr_Status reply = ''ok'')"
  using assms
  by (cases "settle \<lparr>dm_decision = wm_Decision msg, dm_decider = external_decider (wm_Decider msg)\<rparr> g")
    (auto simp: handleConn_def is_decide_def split: bool.splits)

lemma handleConn_other: "\<not> is_decide m \<Longrightarrow> fst (handleConn m g) = g"
  by (auto simp: handleConn_def is_decide_def split: option.splits)

lemma NewGate_fields:
  assumes "NewGate dir listen runID reqs = Inr g"
  shows "\<not> g_settled g" "\<not> g_resultCh g" "\<not> g_abandoned g" "\<not> g_closed g" "g_runID g = runID" "g_reqs g = reqs"
  using assms by (auto simp: NewGate_def split: sum.splits)

lemma gate_wf_frame [simp]:
  "gate_wf (g\<lparr>g_abandoned := b\<rparr>) acked = gate_wf g acked" "gate_wf (g\<lparr>g_closed := b\<rparr>) acked = gate_wf g acked"
  by (simp_all add: gate_wf_def)

lemma gate_wf_settled: "gate_wf g acked \<Longrightarrow> g_settled g = (acked \<noteq> []) \<and> g_resultCh g = (acked \<noteq> []) \<and> (acked \<noteq> [] \<longrightarrow> g_result g = last acked)"
  by (simp add: gate_wf_def)

lemma gate_step_inv: "gate_step s t \<Longrightarrow> gate_inv s \<Longrightarrow> gate_inv t"
proof (induction rule: gate_step.induct)
  case (in_process d decider err s g' ok)
  then show ?case
    using settle_wf [OF _ in_process_decision_valid, of "gs_gate s"] settle_wait_wf [of s]
    by (simp add: gate_inv_def)
next
  case (external msg d s g' reply)
  from handleConn_decide [OF external(1,3)] external(2)
  have st: "settle d (gs_gate s) = (g', wr_Status reply = ''ok'')" by simp
  moreover have "dm_decision d \<in> {DecisionApproved, DecisionDenied}"
    using external(1,2) by (auto simp: is_decide_def)
  ultimately show ?case
    using external.prems settle_wf [OF _ _ st] settle_wait_wf [OF _ st] by (simp add: gate_inv_def)
next
  case (other_conn m s g' reply)
  then have "g' = gs_gate s" using handleConn_other by (metis fst_conv)
  with other_conn.prems show ?case by simp
next
  case (ctx_done s rec g' rec' e)
  then show ?case
    using gate_wf_settled [of "gs_gate s" "gs_acked s"] by (auto simp: gate_inv_def wait_wf_def wait_ctx_done_def abandon_def)
next
  case (result s rec now g' rec' e)
  then show ?case
    using gate_wf_settled [of "gs_gate s" "gs_acked s"] by (auto simp: gate_inv_def wait_wf_def wait_result_def Let_def)
next
  case (closing s rec e g' ok)
  then show ?case
    by (auto simp: gate_inv_def wait_wf_def close_gate_def split: if_splits)
qed

lemma gate_reachable_inv: "gate_reachable s \<Longrightarrow> gate_inv s"
proof (induction rule: gate_reachable.induct)
  case (start dir listen runID reqs g now)
  then show ?case using NewGate_fields [OF start] by (simp add: gate_inv_def gate_wf_def wait_wf_def)
next
  case (step s t)
  then show ?case by (blast intro: gate_step_inv)
qed

section \<open>The gate as a system of operations\<close>

text \<open>
  The locked sections of the gate as operations. A gate \<open>Wait\<close> has closed absorbs every later
  operation: what it decided is never changed.
\<close>

datatype gate_op = GSettle decision_msg | GConn "wire_msg option" | GAbandon | GTake | GClose

fun apply_gate_op :: "gate_op \<Rightarrow> gate \<Rightarrow> gate" where
  "apply_gate_op (GSettle d) g = fst (settle d g)"
| "apply_gate_op (GConn m) g = fst (handleConn m g)"
| "apply_gate_op GAbandon g = abandon g"
| "apply_gate_op GTake g = g\<lparr>g_abandoned := True\<rparr>"
| "apply_gate_op GClose g = fst (close_gate g)"

definition gate_chan_ok :: "gate \<Rightarrow> bool" where
  "gate_chan_ok g \<longleftrightarrow> g_resultCh g = g_settled g"

lemma fst_handleConn:
  "fst (handleConn m g) = g \<or> (\<exists>d. fst (handleConn m g) = fst (settle d g))"
  by (auto simp: handleConn_def split: option.splits bool.splits prod.splits) (metis fst_conv)+

lemma settle_abandoned_fst: "g_abandoned g \<Longrightarrow> fst (settle d g) = g"
  by (simp add: settle_abandoned)

lemma settle_chan_ok: "gate_chan_ok g \<Longrightarrow> gate_chan_ok (fst (settle d g))"
  by (simp add: settle_def gate_chan_ok_def)

lemma apply_gate_op_chan_ok: "gate_chan_ok g \<Longrightarrow> gate_chan_ok (apply_gate_op a g)"
proof (cases a)
  case (GConn m)
  assume "gate_chan_ok g"
  then show ?thesis using fst_handleConn [of m g] settle_chan_ok [of g] GConn by auto
next
  case (GSettle d)
  assume "gate_chan_ok g"
  then show ?thesis by (simp add: GSettle settle_chan_ok)
qed (auto simp: gate_chan_ok_def abandon_def close_gate_def)

lemma apply_gate_op_abandoned:
  "g_abandoned g \<Longrightarrow> g_abandoned (apply_gate_op a g) \<and>
     (g_settled (apply_gate_op a g), g_result (apply_gate_op a g)) = (g_settled g, g_result g)"
proof (cases a)
  case (GConn m)
  assume "g_abandoned g"
  then show ?thesis using fst_handleConn [of m g] GConn by (auto simp: settle_abandoned_fst)
qed (auto simp: settle_abandoned_fst abandon_def close_gate_def)

interpretation gate_ops: absorbing_system apply_gate_op gate_chan_ok g_abandoned "\<lambda>g. (g_settled g, g_result g)"
  by unfold_locales (simp_all add: apply_gate_op_chan_ok apply_gate_op_abandoned)

section \<open>Properties\<close>

text \<open>A small scenario for the witnesses: one gate, an approval taken by \<open>Wait\<close>.\<close>

definition demo_gate :: gate where
  "demo_gate = \<lparr>g_runID = ''run_1'', g_reqs = [], g_sockPath = ''d/run_1.sock'', g_closed = False,
     g_settled = False, g_abandoned = False, g_result = no_decision, g_resultCh = False\<rparr>"

definition demo_approve :: decision_msg where
  "demo_approve = \<lparr>dm_decision = DecisionApproved, dm_decider = ''yes-flag:ops''\<rparr>"

definition demo_deny :: decision_msg where
  "demo_deny = \<lparr>dm_decision = DecisionDenied, dm_decider = ''external:bob''\<rparr>"

definition demo_start :: gate_sys where
  "demo_start = \<lparr>gs_gate = demo_gate, gs_wait = WaitPending (wait_record demo_gate 5), gs_acked = []\<rparr>"

definition demo_approved :: gate_sys where
  "demo_approved = demo_start\<lparr>gs_gate := fst (settle demo_approve demo_gate), gs_acked := [demo_approve]\<rparr>"

definition demo_rec :: approval_record where
  "demo_rec = wait_record demo_gate 5"

definition demo_granted :: gate_sys where
  "demo_granted = demo_approved\<lparr>
     gs_gate := fst (wait_result 9 demo_rec (gs_gate demo_approved)),
     gs_wait := WaitReturned (fst (snd (wait_result 9 demo_rec (gs_gate demo_approved)))) None\<rparr>"

definition demo_canceled :: gate_sys where
  "demo_canceled = demo_approved\<lparr>
     gs_gate := fst (wait_ctx_done demo_rec (gs_gate demo_approved)),
     gs_wait := WaitReturned demo_rec (Some WaitCanceled)\<rparr>"

lemmas demo_defs = demo_gate_def demo_approve_def demo_deny_def demo_start_def demo_approved_def
  demo_rec_def demo_granted_def demo_canceled_def wait_record_def no_decision_def

lemma demo_start_reachable: "gate_reachable demo_start"
proof -
  have "NewGate (Inr ''d'') (\<lambda>_. Inr ()) ''run_1'' [] = Inr demo_gate" by code_simp
  from gate_reachable.start [OF this, of 5] show ?thesis by (simp add: demo_start_def)
qed

lemma demo_approved_reachable: "gate_reachable demo_approved"
proof (rule gate_reachable.step [OF demo_start_reachable])
  have "gate_step demo_start (demo_start\<lparr>gs_gate := fst (settle demo_approve demo_gate),
      gs_acked := ack demo_approve True (gs_acked demo_start)\<rparr>)"
    by (rule gate_step.in_process [where decider = "''yes-flag:ops''" and err = None])
      (simp_all add: in_process_decision_def settle_def demo_defs)
  then show "gate_step demo_start demo_approved" by (simp add: demo_approved_def demo_start_def ack_def)
qed

lemma demo_granted_reachable: "gate_reachable demo_granted"
  unfolding demo_granted_def
  by (rule gate_reachable.step [OF demo_approved_reachable])
    (rule gate_step.result [where now = 9 and rec = demo_rec],
      simp_all add: wait_result_def settle_def demo_defs Let_def)

lemma demo_canceled_reachable: "gate_reachable demo_canceled"
  unfolding demo_canceled_def
  by (rule gate_reachable.step [OF demo_approved_reachable])
    (rule gate_step.ctx_done [where rec = demo_rec],
      simp_all add: wait_ctx_done_def settle_def abandon_def demo_defs)

text \<open>
  C26: the approval gate fails closed. In every interleaving of approvers, connections and
  cancellation, when \<open>Wait\<close> returns without an error then the recorded decision is an approval
  and no denial was ever acknowledged to anyone: an accepted denial always wins over an approval.
\<close>

theorem approval_fail_closed:
  assumes "gate_reachable s" and "gs_wait s = WaitReturned rec None"
  shows "apr_Decision rec = DecisionApproved \<and>
    (\<forall>d\<in>set (gs_acked s). dm_decision d = DecisionApproved)"
proof -
  from gate_reachable_inv [OF assms(1)] assms(2)
  have wf: "gate_wf (gs_gate s) (gs_acked s)" and ne: "gs_acked s \<noteq> []"
    and rec: "apr_Decision rec = dm_decision (last (gs_acked s))" "apr_Decision rec \<noteq> DecisionDenied"
    by (auto simp: gate_inv_def wait_wf_def split: if_splits)
  have lastA: "dm_decision (last (gs_acked s)) = DecisionApproved"
    using wf ne rec by (auto simp: gate_wf_def)
  moreover have "set (gs_acked s) = insert (last (gs_acked s)) (set (butlast (gs_acked s)))"
    using ne by (metis append_butlast_last_id list.set(1,2) set_append sup_commute insert_is_Un)
  ultimately show ?thesis using wf rec by (auto simp: gate_wf_def)
qed

theorem approval_fail_closed_witness:
  "gate_reachable demo_granted \<and> gs_acked demo_granted = [demo_approve] \<and>
   dm_decision demo_approve = DecisionApproved"
proof -
  have w: "gs_wait demo_granted = WaitReturned (fst (snd (wait_result 9 demo_rec (gs_gate demo_approved)))) None"
    by (simp add: demo_granted_def)
  have a: "gs_acked demo_granted = [demo_approve]" by (simp add: demo_granted_def demo_approved_def)
  show ?thesis using approval_fail_closed [OF demo_granted_reachable w] demo_granted_reachable a by simp
qed

text \<open>
  a decision is final. Once \<open>Wait\<close> has returned a decision, no sequence of further
  operations on the gate (decisions, connections, closing) changes it, and every further
  decision is refused, so no client is told ok for a decision the run ignores.
\<close>

theorem approval_decided_final:
  assumes "gate_reachable s" and "gs_wait s = WaitReturned rec e" and "e \<noteq> Some WaitCanceled"
  shows "g_result (fold apply_gate_op ops (gs_gate s)) = g_result (gs_gate s) \<and>
    dm_decision (g_result (gs_gate s)) = apr_Decision rec \<and>
    settle d (fold apply_gate_op ops (gs_gate s)) = (fold apply_gate_op ops (gs_gate s), False)"
proof -
  from gate_reachable_inv [OF assms(1)] assms(2,3)
  have ab: "g_abandoned (gs_gate s)" and ch: "gate_chan_ok (gs_gate s)"
    and r: "dm_decision (g_result (gs_gate s)) = apr_Decision rec"
    by (auto simp: gate_inv_def gate_wf_def wait_wf_def gate_chan_ok_def)
  from gate_ops.ops_final_obs [OF ch ab, of ops] r show ?thesis by (simp add: settle_abandoned)
qed

theorem approval_decided_final_witness:
  "settle demo_deny (gs_gate demo_granted) = (gs_gate demo_granted, False)"
proof -
  have w: "gs_wait demo_granted = WaitReturned (fst (snd (wait_result 9 demo_rec (gs_gate demo_approved)))) None"
    by (simp add: demo_granted_def)
  show ?thesis using approval_decided_final [OF demo_granted_reachable w, of "[]" demo_deny] by simp
qed

text \<open>
  when the run is cancelled after an approval was accepted but before \<open>Wait\<close> read it, the
  gate is not abandoned: a denial that arrives after \<open>Wait\<close> returned is still acknowledged as
  ok, although the run it decides is already gone.
\<close>

theorem canceled_gate_acks_late_denial:
  assumes "gate_reachable s" and "gs_wait s = WaitReturned rec (Some WaitCanceled)"
    and "gs_acked s \<noteq> []" and "dm_decision (last (gs_acked s)) = DecisionApproved"
    and "dm_decision d = DecisionDenied"
  shows "snd (settle d (gs_gate s))"
proof -
  from gate_reachable_inv [OF assms(1)] assms(2-4)
  have "\<not> g_abandoned (gs_gate s)" "g_settled (gs_gate s)"
    "dm_decision (g_result (gs_gate s)) = DecisionApproved"
    by (auto simp: gate_inv_def gate_wf_def wait_wf_def)
  with assms(5) show ?thesis by (simp add: settle_def)
qed

theorem canceled_gate_acks_late_denial_witness:
  "gs_wait demo_canceled = WaitReturned demo_rec (Some WaitCanceled) \<and>
   snd (settle demo_deny (gs_gate demo_canceled))"
proof -
  have w: "gs_wait demo_canceled = WaitReturned demo_rec (Some WaitCanceled)"
    by (simp add: demo_canceled_def)
  have a: "gs_acked demo_canceled = [demo_approve]" by (simp add: demo_canceled_def demo_approved_def)
  show ?thesis
    using canceled_gate_acks_late_denial [OF demo_canceled_reachable w, of demo_deny] w a
    by (simp add: demo_approve_def demo_deny_def)
qed

text \<open>
  what comes over the socket is marked as such. A decision a connection gets accepted is
  stored under a decider that starts with \<^verbatim>\<open>external:\<close>, whatever name the client sent, and it is
  the decision the client asked for.
\<close>

theorem external_decision_audited:
  assumes "is_decide (Some msg)" and "handleConn (Some msg) g = (g', Some reply)"
    and "wr_Status reply = ''ok''"
  shows "g_settled g' \<and> dm_decision (g_result g') = wm_Decision msg \<and>
    strings_HasPrefix (dm_decider (g_result g')) ''external:''"
proof -
  have "strings_HasPrefix (external_decider n) ''external:''" for n
    by (simp add: external_decider_def Let_def strings_HasPrefix_def)
  then show ?thesis
    using handleConn_decide [OF assms(1,2)] assms(3) by (auto simp: settle_def split: if_splits)
qed

theorem external_decision_audited_witness:
  "strings_HasPrefix (dm_decider (g_result (fst (handleConn
     (Some \<lparr>wm_Action = ''decide'', wm_Decision = DecisionDenied, wm_Decider = ''bob''\<rparr>) demo_gate)))) ''external:''"
proof -
  let ?m = "\<lparr>wm_Action = ''decide'', wm_Decision = DecisionDenied, wm_Decider = ''bob''\<rparr>"
  have d: "is_decide (Some ?m)" by (simp add: is_decide_def)
  have h: "handleConn (Some ?m) demo_gate = (fst (handleConn (Some ?m) demo_gate),
      Some \<lparr>wr_Status = ''ok'', wr_Reason = ''''\<rparr>)"
    by (simp add: handleConn_def settle_def demo_gate_def)
  show ?thesis using external_decision_audited [OF d h] by simp
qed

end
