(* ===== verification/Run_State.thy ===== *)
theory Run_State
  imports Adapter_Iface Approval
begin

text \<open>
  A run and its state machine (\<^verbatim>\<open>internal/run/state.go\<close>). The methods of \<^verbatim>\<open>Run\<close> each hold the run's
  lock for their whole body, so each is one operation on the record; the executor, the cost
  sampler, the watchdog and the CLI interleave these operations. The current time is an argument
  wherever the source reads the clock.
\<close>

section \<open>The run\<close>

record phase_mark =
  ph_State :: run_state
  ph_EnteredAt :: time

datatype lifecycle_mode = LifecycleEphemeral | LifecycleLongRunning | LifecycleOther string

definition LifecycleForWorkload :: "workload_kind \<Rightarrow> lifecycle_mode" where
  "LifecycleForWorkload kind =
     (if kind = WorkloadKindService then LifecycleLongRunning else LifecycleEphemeral)"

record run =
  r_ID :: string
  r_PlanID :: string
  r_TargetID :: string
  r_Owner :: string
  r_State :: run_state
  r_Plan :: "plan option"
  r_Handle :: "run_handle option"
  r_StartedAt :: time
  r_FinishedAt :: time
  r_Error :: string
  r_Logs :: "log_event list"
  r_Artifacts :: "artifact_ref list"
  r_Cost :: cost_estimate
  r_Failure :: failure_details
  r_RetryCount :: int
  r_CleanupError :: string
  r_Timeline :: "phase_mark list"
  r_HandleID :: string
  r_HandleState :: "string option"
  r_Lifecycle :: lifecycle_mode
  r_WatchdogTTL :: duration
  r_LastHeartbeat :: time
  r_LogFile :: string
  r_Approval :: "approval_record option"

definition DefaultWatchdogTTL :: duration where
  "DefaultWatchdogTTL = 30 * Minute"

definition generateRunID :: "string \<Rightarrow> string" where
  "generateRunID short_id = ''run_'' @ short_id"

text \<open>\<^verbatim>\<open>NewRun\<close> dereferences the recommendation: without one it panics, which is \<open>None\<close>.\<close>

definition NewRun :: "plan \<Rightarrow> string \<Rightarrow> time \<Rightarrow> run option" where
  "NewRun p short_id now =
     (case pl_Recommendation p of
        None \<Rightarrow> None
      | Some rc \<Rightarrow> Some
          \<lparr>r_ID = generateRunID short_id, r_PlanID = pm_ID (pl_Metadata p), r_TargetID = rec_Target rc,
           r_Owner = pm_CreatedBy (pl_Metadata p), r_State = RunStateCreated, r_Plan = Some p,
           r_Handle = None, r_StartedAt = 0, r_FinishedAt = 0, r_Error = '''', r_Logs = [],
           r_Artifacts = [], r_Cost = cost_estimate_zero, r_Failure = failure_details_zero,
           r_RetryCount = 0, r_CleanupError = '''',
           r_Timeline = [\<lparr>ph_State = RunStateCreated, ph_EnteredAt = now\<rparr>],
           r_HandleID = '''', r_HandleState = None, r_Lifecycle = LifecycleOther '''',
           r_WatchdogTTL = pc_WatchdogTTL (pl_Constraints p), r_LastHeartbeat = 0, r_LogFile = '''',
           r_Approval = None\<rparr>)"

definition effectiveWatchdogTTL :: "run \<Rightarrow> duration" where
  "effectiveWatchdogTTL r = (if 0 < r_WatchdogTTL r then r_WatchdogTTL r else DefaultWatchdogTTL)"

section \<open>Transitions\<close>

definition validTransitions :: "run_state \<Rightarrow> run_state list option" where
  "validTransitions s = (case s of
     RunStateCreated \<Rightarrow> Some [RunStatePlanning, RunStatePlanInvalid]
   | RunStatePlanning \<Rightarrow> Some [RunStateValidated, RunStatePlanInvalid]
   | RunStateValidated \<Rightarrow> Some [RunStateAwaitingApproval, RunStatePreparing]
   | RunStateAwaitingApproval \<Rightarrow> Some [RunStatePreparing, RunStateApprovalDenied]
   | RunStatePreparing \<Rightarrow> Some [RunStateRunning, RunStatePackageFailed]
   | RunStateRunning \<Rightarrow> Some [RunStateCollectingArtifacts, RunStateExecutionFailed,
       RunStateBudgetExceeded, RunStateStopping]
   | RunStateStopping \<Rightarrow> Some [RunStateCleaningUp, RunStateCleanupFailed]
   | RunStateCollectingArtifacts \<Rightarrow> Some [RunStateReconcilingCost, RunStateArtifactFailed]
   | RunStateReconcilingCost \<Rightarrow> Some [RunStateCleaningUp, RunStateCostUnknown]
   | RunStateCleaningUp \<Rightarrow> Some [RunStateCompleted, RunStateCleanupFailed]
   | _ \<Rightarrow> None)"

definition isValidTransition :: "run_state \<Rightarrow> run_state \<Rightarrow> bool" where
  "isValidTransition from to =
     (case validTransitions from of None \<Rightarrow> False | Some allowed \<Rightarrow> List.member allowed to)"

definition Transition :: "run_state \<Rightarrow> time \<Rightarrow> run \<Rightarrow> run \<times> unit result" where
  "Transition to now r =
     (if IsTerminal (r_State r)
      then (r, Inl (''cannot transition from terminal state '' @ run_state_string (r_State r)))
      else if \<not> isValidTransition (r_State r) to
      then (r, Inl (''invalid transition from '' @ run_state_string (r_State r) @ '' to '' @ run_state_string to))
      else (r\<lparr>r_State := to,
              r_StartedAt := (if to = RunStateRunning \<and> time_IsZero (r_StartedAt r) then now else r_StartedAt r),
              r_FinishedAt := (if IsTerminal to then now else r_FinishedAt r),
              r_Timeline := r_Timeline r @ [\<lparr>ph_State = to, ph_EnteredAt = now\<rparr>]\<rparr>, Inr ()))"

definition SetError :: "run_state \<Rightarrow> string \<Rightarrow> time \<Rightarrow> run \<Rightarrow> run" where
  "SetError st err now r =
     (if IsTerminal (r_State r) then r
      else r\<lparr>r_State := st, r_Error := err, r_FinishedAt := now,
             r_Timeline := r_Timeline r @ [\<lparr>ph_State = st, ph_EnteredAt = now\<rparr>]\<rparr>)"

definition MarkTerminal :: "run_state \<Rightarrow> time \<Rightarrow> run \<Rightarrow> run" where
  "MarkTerminal st now r =
     (if IsTerminal (r_State r) then r
      else let fin = (if time_IsZero (r_FinishedAt r) then now else r_FinishedAt r)
           in r\<lparr>r_State := st, r_FinishedAt := fin,
                r_Timeline := r_Timeline r @ [\<lparr>ph_State = st, ph_EnteredAt = fin\<rparr>]\<rparr>)"

definition GetState :: "run \<Rightarrow> run_state" where
  "GetState r = r_State r"

definition PersistHandle :: "run \<Rightarrow> run \<times> unit result" where
  "PersistHandle r =
     (case r_Handle r of
        None \<Rightarrow> (r, Inr ())
      | Some h \<Rightarrow>
          (let r1 = r\<lparr>r_HandleID := rh_ID h\<rparr> in
           case rh_State h of
             StateOpaque \<Rightarrow> (r1, Inr ())
           | StateSerializable (Inl e) \<Rightarrow> (r1, Inl (''cannot serialize handle state: '' @ e))
           | StateSerializable (Inr raw) \<Rightarrow> (r1\<lparr>r_HandleState := Some raw\<rparr>, Inr ())))"

section \<open>The small setters (executor.go, cost.go)\<close>

definition setFailure :: "failure_details \<Rightarrow> run \<Rightarrow> run" where
  "setFailure fd r = r\<lparr>r_Failure := fd\<rparr>"

definition setCleanupError :: "string \<Rightarrow> run \<Rightarrow> run" where
  "setCleanupError msg r = r\<lparr>r_CleanupError := msg\<rparr>"

definition beginRetry :: "run \<Rightarrow> run" where
  "beginRetry r = r\<lparr>r_RetryCount := r_RetryCount r + 1, r_Failure := failure_details_zero\<rparr>"

definition setCost :: "cost_estimate \<Rightarrow> run \<Rightarrow> run" where
  "setCost est r = r\<lparr>r_Cost := est\<rparr>"

section \<open>Runs as a system of operations\<close>

datatype run_op =
    OpTransition run_state time
  | OpSetError run_state string time
  | OpMarkTerminal run_state time
  | OpSetFailure failure_details
  | OpSetCleanupError string
  | OpBeginRetry
  | OpSetCost cost_estimate
  | OpPersistHandle
  | OpSetHandle "run_handle option"
  | OpSetArtifacts "artifact_ref list"
  | OpHeartbeat time
  | OpSetLifecycle lifecycle_mode
  | OpSetApproval approval_record

fun apply_run_op :: "run_op \<Rightarrow> run \<Rightarrow> run" where
  "apply_run_op (OpTransition to now) r = fst (Transition to now r)"
| "apply_run_op (OpSetError st err now) r = SetError st err now r"
| "apply_run_op (OpMarkTerminal st now) r = MarkTerminal st now r"
| "apply_run_op (OpSetFailure fd) r = setFailure fd r"
| "apply_run_op (OpSetCleanupError msg) r = setCleanupError msg r"
| "apply_run_op OpBeginRetry r = beginRetry r"
| "apply_run_op (OpSetCost est) r = setCost est r"
| "apply_run_op OpPersistHandle r = fst (PersistHandle r)"
| "apply_run_op (OpSetHandle h) r = r\<lparr>r_Handle := h\<rparr>"
| "apply_run_op (OpSetArtifacts xs) r = r\<lparr>r_Artifacts := xs\<rparr>"
| "apply_run_op (OpHeartbeat now) r = r\<lparr>r_LastHeartbeat := now\<rparr>"
| "apply_run_op (OpSetLifecycle m) r = r\<lparr>r_Lifecycle := m\<rparr>"
| "apply_run_op (OpSetApproval a) r = r\<lparr>r_Approval := Some a\<rparr>"

lemmas run_op_defs = Transition_def SetError_def MarkTerminal_def PersistHandle_def setFailure_def
  setCleanupError_def beginRetry_def setCost_def

text \<open>The operations that leave the state machine part of the run alone.\<close>

fun moves_state :: "run_op \<Rightarrow> bool" where
  "moves_state (OpTransition to now) = True"
| "moves_state (OpSetError st err now) = True"
| "moves_state (OpMarkTerminal st now) = True"
| "moves_state a = False"

type_synonym machine_part = "run_state \<times> string \<times> time \<times> time \<times> phase_mark list"

definition machine_part :: "run \<Rightarrow> machine_part" where
  "machine_part r = (r_State r, r_Error r, r_StartedAt r, r_FinishedAt r, r_Timeline r)"

lemma PersistHandle_frame [simp]:
  "machine_part (fst (PersistHandle r)) = machine_part r"
  "r_State (fst (PersistHandle r)) = r_State r" "r_Timeline (fst (PersistHandle r)) = r_Timeline r"
  "r_Handle (fst (PersistHandle r)) = r_Handle r"
  "r_CleanupError (fst (PersistHandle r)) = r_CleanupError r"
  "r_RetryCount (fst (PersistHandle r)) = r_RetryCount r"
  "r_Lifecycle (fst (PersistHandle r)) = r_Lifecycle r"
  "r_ID (fst (PersistHandle r)) = r_ID r" "r_Plan (fst (PersistHandle r)) = r_Plan r"
  "r_PlanID (fst (PersistHandle r)) = r_PlanID r"
  by (auto simp: PersistHandle_def machine_part_def Let_def
      split: option.split handle_state.split sum.split)

lemma non_moving_frame: "\<not> moves_state a \<Longrightarrow> machine_part (apply_run_op a r) = machine_part r"
  by (cases a) (simp_all, simp_all add: machine_part_def setFailure_def setCleanupError_def beginRetry_def setCost_def)

section \<open>The timeline invariant\<close>

text \<open>
  The timeline ends with the current state and has no terminal state before its end.
\<close>

definition run_wf :: "run \<Rightarrow> bool" where
  "run_wf r \<longleftrightarrow> r_Timeline r \<noteq> [] \<and> ph_State (last (r_Timeline r)) = r_State r \<and>
     (\<forall>m\<in>set (butlast (r_Timeline r)). \<not> IsTerminal (ph_State m))"

lemma run_wf_cong: "machine_part r = machine_part r' \<Longrightarrow> run_wf r = run_wf r'"
  by (simp add: run_wf_def machine_part_def)

lemma run_wf_append:
  assumes "run_wf r" "\<not> IsTerminal (r_State r)"
    and "r_State r' = ph_State m" "r_Timeline r' = r_Timeline r @ [m]"
  shows "run_wf r'"
proof -
  have "set (r_Timeline r) = insert (last (r_Timeline r)) (set (butlast (r_Timeline r)))"
    using assms(1) by (metis append_butlast_last_id list.set(1,2) run_wf_def set_append sup_commute insert_is_Un)
  with assms show ?thesis by (auto simp: run_wf_def)
qed

lemma apply_run_op_terminal:
  "IsTerminal (r_State r) \<Longrightarrow> machine_part (apply_run_op a r) = machine_part r"
proof (cases "moves_state a")
  case True
  assume "IsTerminal (r_State r)"
  with True show ?thesis by (cases a) (auto simp: Transition_def SetError_def MarkTerminal_def)
next
  case False
  then show ?thesis by (rule non_moving_frame)
qed

lemma apply_run_op_wf: "run_wf r \<Longrightarrow> run_wf (apply_run_op a r)"
proof (cases "moves_state a \<and> \<not> IsTerminal (r_State r)")
  case True
  assume wf: "run_wf r"
  with True show ?thesis
    by (cases a) (auto simp: Transition_def SetError_def MarkTerminal_def Let_def intro!: run_wf_append [OF wf])
next
  case False
  assume "run_wf r"
  moreover have "machine_part (apply_run_op a r) = machine_part r"
    using False non_moving_frame apply_run_op_terminal by blast
  ultimately show ?thesis using run_wf_cong by blast
qed

interpretation run_ops: absorbing_system apply_run_op run_wf "\<lambda>r. IsTerminal (r_State r)" machine_part
proof
  show "run_wf (apply_run_op a s)" if "run_wf s" for a s using that by (rule apply_run_op_wf)
next
  show "IsTerminal (r_State (apply_run_op a s)) \<and> machine_part (apply_run_op a s) = machine_part s"
    if "IsTerminal (r_State s)" for a s
    using apply_run_op_terminal [OF that, of a] that by (simp add: machine_part_def)
qed

lemma NewRun_wf: "NewRun p short_id now = Some r \<Longrightarrow> run_wf r"
  by (auto simp: NewRun_def run_wf_def split: option.splits)

section \<open>The rank of a state\<close>

text \<open>Every transition goes up in rank, so no run can loop in the state machine.\<close>

definition state_rank :: "run_state \<Rightarrow> nat" where
  "state_rank s = (case s of
     RunStateCreated \<Rightarrow> 0 | RunStatePlanning \<Rightarrow> 1 | RunStateValidated \<Rightarrow> 2
   | RunStateAwaitingApproval \<Rightarrow> 3 | RunStatePreparing \<Rightarrow> 4 | RunStateRunning \<Rightarrow> 5
   | RunStateStopping \<Rightarrow> 6 | RunStateCollectingArtifacts \<Rightarrow> 6 | RunStateReconcilingCost \<Rightarrow> 7
   | RunStateCleaningUp \<Rightarrow> 8 | _ \<Rightarrow> 9)"

lemma isValidTransition_rank: "isValidTransition s t \<Longrightarrow> state_rank s < state_rank t"
  by (cases s; cases t) (simp_all add: isValidTransition_def validTransitions_def state_rank_def)

lemma state_rank_le: "state_rank s \<le> 9"
  by (cases s) (simp_all add: state_rank_def)

lemma state_rank_terminal: "IsTerminal s \<Longrightarrow> state_rank s = 9"
  by (cases s) (simp_all add: state_rank_def)

lemma state_rank_nonterminal: "\<not> IsTerminal s \<Longrightarrow> \<nexists>x. s = RunStateOther x \<Longrightarrow> state_rank s < 9"
  by (cases s) (simp_all add: state_rank_def)

text \<open>The operations the program performs: errors and discovered ends name terminal states.\<close>

fun op_ok :: "run_op \<Rightarrow> bool" where
  "op_ok (OpSetError st err now) = IsTerminal st"
| "op_ok (OpMarkTerminal st now) = IsTerminal st"
| "op_ok a = True"

definition ranked :: "run \<Rightarrow> bool" where
  "ranked r \<longleftrightarrow> length (r_Timeline r) \<le> Suc (state_rank (r_State r)) \<and> (\<nexists>x. r_State r = RunStateOther x)"

lemma isValidTransition_declared: "isValidTransition s t \<Longrightarrow> t \<noteq> RunStateOther x"
  by (cases s) (auto simp: isValidTransition_def validTransitions_def)

lemma apply_run_op_ranked:
  assumes "ranked r" "op_ok a"
  shows "ranked (apply_run_op a r)"
proof (cases "moves_state a \<and> \<not> IsTerminal (r_State r)")
  case True
  then have lt: "state_rank (r_State r) < 9" using assms(1) state_rank_nonterminal by (auto simp: ranked_def)
  from True consider (T) to now where "a = OpTransition to now"
    | (E) st err now where "a = OpSetError st err now" | (M) st now where "a = OpMarkTerminal st now"
    by (cases a) auto
  then show ?thesis
  proof cases
    case T
    then show ?thesis
      using assms(1) isValidTransition_rank [of "r_State r" to] isValidTransition_declared [of "r_State r" to]
      by (auto simp: Transition_def ranked_def)
  next
    case E
    then show ?thesis
      using assms lt state_rank_terminal [of st] True by (auto simp: SetError_def ranked_def)
  next
    case M
    then show ?thesis
      using assms lt state_rank_terminal [of st] True by (auto simp: MarkTerminal_def ranked_def Let_def)
  qed
next
  case False
  have "machine_part (apply_run_op a r) = machine_part r"
    using False non_moving_frame apply_run_op_terminal by blast
  then show ?thesis using assms(1) by (simp add: ranked_def machine_part_def)
qed

lemma ops_ranked: "ranked r \<Longrightarrow> list_all op_ok ops \<Longrightarrow> ranked (fold apply_run_op ops r)"
  by (induction ops arbitrary: r) (auto simp: apply_run_op_ranked)

section \<open>Properties\<close>

text \<open>A small plan and run for the witnesses.\<close>

definition demo_workload :: workload_spec where
  "demo_workload = \<lparr>ws_Name = ''w'', ws_DetectedKind = WorkloadKindJob,
     ws_Source = \<lparr>wsrc_Type = ''dir'', wsrc_Path = ''.''\<rparr>, ws_Runtime = RuntimePython,
     ws_Entrypoints = [], ws_Package = \<lparr>pp_Type = PackageTypeScript, pp_Dockerfile = '''',
       pp_BuildRequired = False, pp_BaseImage = ''''\<rparr>, ws_Command = [], ws_Ports = [],
     ws_Requirements = \<lparr>rr_CPU = '''', rr_Memory = '''', rr_Arch = '''',
       rr_GPU = \<lparr>gr_Required = False, gr_Count = 0, gr_Model = '''', gr_Framework = ''''\<rparr>,
       rr_Confidential = \<lparr>cr_Required = False, cr_Type = '''', cr_Profile = '''', cr_Attestation = '''',
         cr_Measurements = [], cr_MinTCB = 0\<rparr>, rr_Sandbox = False\<rparr>,
     ws_Secrets = [], ws_Data = [], ws_Outputs = [],
     ws_Shard = \<lparr>sh_Count = 0, sh_Discover = '''', sh_MaxParallel = 0, sh_Outputs = [], sh_OnShardFailure = ''''\<rparr>,
     ws_Env = Map.empty\<rparr>"

definition demo_constraints :: plan_constraints where
  "demo_constraints = \<lparr>pc_TargetScope = '''', pc_OptimizeFor = OptimizeCost, pc_MaxEstimatedCostUSD = 0,
     pc_MaxDuration = 0, pc_RequireGPU = '''', pc_TargetName = '''', pc_Region = '''', pc_WatchdogTTL = 0,
     pc_RetryTransientFailures = False, pc_AllowSSHFrom = '''', pc_Spot = False\<rparr>"

definition demo_validation :: validation_result where
  "demo_validation = \<lparr>vr_Schema = ValidationPass, vr_PackageBuild = ValidationPass,
     vr_TargetCapabilities = ValidationPass, vr_Credentials = ValidationSkipped, vr_Quota = ValidationSkipped,
     vr_Network = ValidationPass, vr_Policy = ValidationPass, vr_CostEstimate = ValidationPass,
     vr_CleanupPlan = ValidationPass\<rparr>"

definition demo_plan :: plan where
  "demo_plan = \<lparr>pl_APIVersion = ''dispatcher.dev/v1'', pl_Kind = ''Plan'',
     pl_Metadata = \<lparr>pm_ID = ''plan_1'', pm_CreatedAt = 1, pm_CreatedBy = ''dispatcher-cli''\<rparr>,
     pl_Workload = demo_workload, pl_Constraints = demo_constraints,
     pl_Recommendation = Some \<lparr>rec_Target = ''aws-vm'', rec_Runtime = ''cloud-vm'',
       rec_EstimatedCost = cost_estimate_zero\<lparr>ce_Value := Fin 1, ce_Currency := ''USD'',
         ce_Confidence := ConfidenceMedium\<rparr>, rec_Reason = []\<rparr>,
     pl_Alternatives = [], pl_Rejected = [], pl_Risks = [], pl_Validation = demo_validation,
     pl_RequiredApprovals = [], pl_ExecutionSteps = []\<rparr>"

definition demo_run :: run where
  "demo_run = the (NewRun demo_plan ''abc1234'' 10)"

lemma demo_run_new: "NewRun demo_plan ''abc1234'' 10 = Some demo_run"
  by (simp add: demo_run_def NewRun_def demo_plan_def)

text \<open>
  C25: terminal states are absorbing. Take any interleaving of the operations of the executor,
  the cost sampler, the watchdog and the CLI on a fresh run. If the run is terminal after some
  prefix of it, then its state, error, start and finish times and timeline are never changed by
  the rest: in particular a budget kill cannot be relabelled.
\<close>

theorem run_terminal_absorbing:
  assumes "NewRun p short_id now = Some r"
    and "IsTerminal (r_State (fold apply_run_op (take n ops) r))"
  shows "machine_part (fold apply_run_op ops r) = machine_part (fold apply_run_op (take n ops) r)"
  using assms NewRun_wf by (blast intro: run_ops.final_at_prefix)

theorem run_terminal_absorbing_witness:
  "machine_part (fold apply_run_op [OpSetError RunStatePlanInvalid ''bad'' 11, OpTransition RunStatePlanning 12,
       OpSetError RunStateExecutionFailed ''late'' 13] demo_run) =
   machine_part (fold apply_run_op [OpSetError RunStatePlanInvalid ''bad'' 11] demo_run)"
proof -
  let ?ops = "[OpSetError RunStatePlanInvalid ''bad'' 11, OpTransition RunStatePlanning 12,
       OpSetError RunStateExecutionFailed ''late'' 13]"
  have "IsTerminal (r_State (fold apply_run_op (take 1 ?ops) demo_run))"
    by (simp add: SetError_def demo_run_def NewRun_def demo_plan_def)
  from run_terminal_absorbing [OF demo_run_new this] show ?thesis by simp
qed

text \<open>
  the timeline is a faithful history. After any interleaving of operations on a fresh run,
  the timeline ends with the run's current state, and only its last entry can be terminal.
\<close>

theorem run_timeline_wf:
  assumes "NewRun p short_id now = Some r"
  shows "run_wf (fold apply_run_op ops r)"
  using NewRun_wf [OF assms] by (rule run_ops.ops_invar)

theorem run_timeline_wf_witness:
  "run_wf (fold apply_run_op [OpTransition RunStatePlanning 11, OpTransition RunStateValidated 12,
     OpTransition RunStateRunning 13] demo_run)"
  using run_timeline_wf [OF demo_run_new] by blast

text \<open>
  the state machine makes progress. However the operations interleave, a run passes through
  at most ten states, since every allowed transition goes up in rank and an error or a
  discovered end is terminal.
\<close>

theorem run_timeline_bounded:
  assumes "NewRun p short_id now = Some r" and "list_all op_ok ops"
  shows "length (r_Timeline (fold apply_run_op ops r)) \<le> 10"
proof -
  have "ranked r" using assms(1) by (auto simp: NewRun_def ranked_def split: option.splits)
  from ops_ranked [OF this assms(2)] have "ranked (fold apply_run_op ops r)" .
  then show ?thesis using state_rank_le [of "r_State (fold apply_run_op ops r)"] by (simp add: ranked_def)
qed

theorem run_timeline_bounded_witness:
  "length (r_Timeline (fold apply_run_op (replicate 40 (OpTransition RunStatePlanning 11)) demo_run)) \<le> 10"
  by (rule run_timeline_bounded [OF demo_run_new]) (simp add: list_all_iff)

text \<open>
  no declared state is stuck: from every non-terminal state the transition table allows, in
  finitely many steps, a terminal state; and the budget kill is allowed from \<^verbatim>\<open>running\<close> only.
\<close>

theorem run_machine_live:
  assumes "\<nexists>x. s = RunStateOther x"
  shows "(\<exists>t. isValidTransition\<^sup>*\<^sup>* s t \<and> IsTerminal t) \<and>
    (isValidTransition s RunStateBudgetExceeded \<longleftrightarrow> s = RunStateRunning)"
proof -
  have "\<exists>t. isValidTransition\<^sup>*\<^sup>* s t \<and> IsTerminal t" if "\<nexists>x. s = RunStateOther x" for s
    using that
  proof (induction "9 - state_rank s" arbitrary: s rule: less_induct)
    case less
    show ?case
    proof (cases "IsTerminal s")
      case True
      then show ?thesis by blast
    next
      case False
      then obtain t where t: "isValidTransition s t"
        using less.prems by (cases s) (auto simp: isValidTransition_def validTransitions_def)
      then have "9 - state_rank t < 9 - state_rank s"
        using isValidTransition_rank state_rank_le [of t] by fastforce
      with less.hyps [of t] t isValidTransition_declared [OF t]
      show ?thesis by (metis converse_rtranclp_into_rtranclp)
    qed
  qed
  with assms show ?thesis
    by (cases s) (auto simp: isValidTransition_def validTransitions_def)
qed

theorem run_machine_live_witness:
  "\<exists>t. isValidTransition\<^sup>*\<^sup>* RunStateStopping t \<and> IsTerminal t"
  using run_machine_live [of RunStateStopping] by simp

end
