(* ===== verification/Run_Cost.thy ===== *)
theory Run_Cost
  imports Run_State
begin

text \<open>
  What a run has cost so far (\<^verbatim>\<open>internal/run/cost.go\<close>) and how often the budget is sampled
  (\<^verbatim>\<open>samplerRateFor\<close> of \<^verbatim>\<open>internal/run/executor.go\<close>). The wall clock is the argument \<open>now\<close>.
\<close>

section \<open>Operations\<close>

definition DefaultDurationHours :: f64 where
  "DefaultDurationHours = lit 1"

definition live_elapsed :: "time \<Rightarrow> run \<Rightarrow> duration" where
  "live_elapsed now r =
     (let elapsed = (if \<not> time_IsZero (r_StartedAt r)
                     then if time_IsZero (r_FinishedAt r) then time_Sub now (r_StartedAt r)
                          else time_Sub (r_FinishedAt r) (r_StartedAt r)
                     else 0)
      in if elapsed < 0 then 0 else elapsed)"

definition ComputeLiveCost :: "time \<Rightarrow> run \<Rightarrow> cost_estimate" where
  "ComputeLiveCost now r =
     (case r_Plan r of
        None \<Rightarrow> cost_estimate_zero\<lparr>ce_Currency := ''USD'', ce_Confidence := ConfidenceUnknown\<rparr>
      | Some p \<Rightarrow>
          (case pl_Recommendation p of
             None \<Rightarrow> cost_estimate_zero\<lparr>ce_Currency := ''USD'', ce_Confidence := ConfidenceUnknown\<rparr>
           | Some rc \<Rightarrow>
               (let baseEst = rec_EstimatedCost rc; elapsed = live_elapsed now r
                in if elapsed = 0 then baseEst
                   else let assumedHours = (if ws_DetectedKind (pl_Workload p) = WorkloadKindService
                                            then lit 24 else DefaultDurationHours)
                        in if assumedHours = 0 then baseEst
                           else cost_estimate_zero
                             \<lparr>ce_Value := trunc4 (ce_Value baseEst * f64_div (duration_Hours elapsed) assumedHours),
                              ce_Currency := ''USD'', ce_Confidence := ce_Confidence baseEst,
                              ce_Assumptions := [''cost scaled from rate card based on actual runtime'',
                                duration_String (duration_Round_Second elapsed) @ '' elapsed'']\<rparr>)))"

definition no_plan :: "run \<Rightarrow> bool" where
  "no_plan r = (case r_Plan r of None \<Rightarrow> True | Some p \<Rightarrow> pl_Recommendation p = None)"

definition FinalizeCost :: "time \<Rightarrow> run \<Rightarrow> run" where
  "FinalizeCost now r =
     (if no_plan r \<and> 0 < ce_Value (r_Cost r) then r else setCost (ComputeLiveCost now r) r)"

definition samplerRateFor :: "f64 \<Rightarrow> f64 \<Rightarrow> duration \<Rightarrow> duration" where
  "samplerRateFor live budget base =
     (let ratio = f64_div live budget;
          want = (if lit (8/10) \<le> ratio then 500 * Millisecond
                  else if lit (5/10) \<le> ratio then go_div base 2
                  else base)
      in if want < 100 * Millisecond then 100 * Millisecond else want)"

definition adjustSamplerRate :: "duration \<Rightarrow> f64 \<Rightarrow> f64 \<Rightarrow> duration \<Rightarrow> duration" where
  "adjustSamplerRate cur live budget base =
     (if budget \<le> 0 then cur else samplerRateFor live budget base)"


section \<open>Hours are monotone\<close>

lemma Hour_eq: "Hour = 3600000000000"
  by (simp add: duration_units)

definition hour_fraction :: "duration \<Rightarrow> rat" where
  "hour_fraction d = round64 (of_int (d mod Hour) / of_int Hour)"

lemma hour_fraction_bounds: "0 \<le> hour_fraction d \<and> hour_fraction d \<le> 1"
proof -
  have "0 \<le> d mod Hour" "d mod Hour \<le> Hour" by (simp_all add: Hour_eq less_imp_le)
  then have b: "0 \<le> (of_int (d mod Hour) / of_int Hour :: rat)" "(of_int (d mod Hour) / of_int Hour :: rat) \<le> 1"
    by (simp_all add: Hour_eq)
  show ?thesis
    using round64_mono [OF b(1)] round64_mono [OF b(2)] round64_int_exact [of 1] by (simp add: hour_fraction_def)
qed

lemma duration_Hours_eq:
  assumes "0 \<le> d" "d < 2 ^ 63"
  shows "duration_Hours d = mk_f64 (of_int (d div Hour) + hour_fraction d)"
proof -
  have q: "go_div d Hour = d div Hour" "go_mod d Hour = d mod Hour"
    using assms by (auto simp: go_div_def go_mod_def Hour_eq minus_mult_div_eq_mod [symmetric] sgn_if)
  have "0 \<le> d mod Hour" "d mod Hour < Hour" by (simp_all add: Hour_eq)
  then have m: "f64_of_int (d mod Hour) = Fin (of_int (d mod Hour))"
    unfolding f64_of_int_def by (intro mk_f64_int) (simp add: Hour_eq)
  have h: "lit (of_int Hour) = Fin (of_int Hour)" by (rule mk_f64_int) (simp add: Hour_eq)
  have "0 \<le> d div Hour" "d div Hour \<le> d" using assms by (simp_all add: Hour_eq)
  moreover have "d div Hour < 2 ^ 53" using assms by (simp add: Hour_eq)
  ultimately have qf: "f64_of_int (d div Hour) = Fin (of_int (d div Hour))"
    unfolding f64_of_int_def by (intro mk_f64_int) simp
  have fr: "mk_f64 (of_int (d mod Hour) / of_int Hour) = Fin (hour_fraction d)"
    using hour_fraction_bounds [of d]
    by (auto simp: mk_f64_def Let_def hour_fraction_def max_f64_bound_def power_int_def)
  show ?thesis unfolding duration_Hours_def q m h qf using fr by (simp add: Hour_eq)
qed

lemma hours_sum_mono:
  assumes "0 \<le> d" "d \<le> d'"
  shows "of_int (d div Hour) + hour_fraction d \<le> of_int (d' div Hour) + hour_fraction d'"
proof (cases "d div Hour = d' div Hour")
  case True
  then have "d mod Hour \<le> d' mod Hour" using assms by (simp add: minus_div_mult_eq_mod [symmetric])
  then have "hour_fraction d \<le> hour_fraction d'"
    unfolding hour_fraction_def by (intro round64_mono divide_right_mono) (simp_all add: Hour_eq)
  with True show ?thesis by simp
next
  case False
  have "d div Hour \<le> d' div Hour" using assms by (simp add: Hour_eq zdiv_mono1)
  with False have "d div Hour + 1 \<le> d' div Hour" by simp
  then have "(of_int (d div Hour) :: rat) + 1 \<le> of_int (d' div Hour)"
    by (metis of_int_1 of_int_add of_int_le_iff)
  with hour_fraction_bounds [of d] hour_fraction_bounds [of d'] show ?thesis by linarith
qed

lemma duration_Hours_mono:
  assumes "0 \<le> d" "d \<le> d'" "d' < 2 ^ 63"
  shows "duration_Hours d \<le> duration_Hours d'"
  using assms hours_sum_mono [of d d'] by (simp add: duration_Hours_eq mk_f64_mono)

lemma duration_Hours_bounds:
  assumes "0 \<le> d" "d < 2 ^ 63"
  shows "0 \<le> duration_Hours d \<and> duration_Hours d \<le> Fin 2562048"
proof -
  have "d div Hour \<le> 2562047" using assms by (simp add: Hour_eq)
  then have "(of_int (d div Hour) :: rat) \<le> of_int 2562047" by (simp only: of_int_le_iff)
  then have "of_int (d div Hour) + hour_fraction d \<le> 2562048" using hour_fraction_bounds [of d] by linarith
  from mk_f64_mono [OF this] have "duration_Hours d \<le> Fin 2562048"
    using mk_f64_int [of 2562048] assms by (simp add: duration_Hours_eq)
  moreover have "0 \<le> of_int (d div Hour) + hour_fraction d"
    using assms hour_fraction_bounds [of d] by (simp add: Hour_eq pos_imp_zdiv_nonneg_iff)
  ultimately show ?thesis using assms by (simp add: duration_Hours_eq mk_f64_nonneg)
qed


section \<open>The scaled cost\<close>

text \<open>A finite non-negative amount of at most \<open>b\<close>.\<close>

definition amount :: "rat \<Rightarrow> f64 \<Rightarrow> bool" where
  "amount b v = (0 \<le> v \<and> v \<le> Fin b)"

lemma amount_cases: "amount b v \<Longrightarrow> \<exists>x. v = Fin x \<and> 0 \<le> x \<and> x \<le> b"
  by (cases v) (auto simp: amount_def zero_f64_def)

lemma amount_finite: "amount b v \<Longrightarrow> is_finite v"
  using amount_cases by fastforce

lemma mk_f64_pow_le:
  assumes "x \<le> 2 ^ k" "k \<le> 1000"
  shows "mk_f64 x \<le> Fin (2 ^ k)"
proof -
  have "round64 (2 ^ k) = (2 :: rat) ^ k"
    using round_pos_powi [of "int k"] assms(2) by (simp add: round64_def power_int_def)
  moreover have "(2 :: rat) ^ k < max_f64_bound"
  proof -
    have "(2 :: rat) ^ k < 2 ^ 1024" using assms(2) by (intro power_strict_increasing) simp_all
    then show ?thesis unfolding max_f64_bound_eq by (simp only: of_int_power of_int_numeral)
  qed
  ultimately have "mk_f64 (2 ^ k) = Fin (2 ^ k)" by (intro mk_f64_of_ok) simp
  with mk_f64_mono [OF assms(1)] show ?thesis by simp
qed

lemma amount_mult:
  assumes "amount (2 ^ j) a" "amount (2 ^ k) b" "j + k \<le> 1000"
  shows "amount (2 ^ (j + k)) (a * b)"
proof -
  obtain x y where xy: "a = Fin x" "b = Fin y" "0 \<le> x" "0 \<le> y" "x \<le> 2 ^ j" "y \<le> 2 ^ k"
    using assms amount_cases by blast
  then have "x * y \<le> 2 ^ j * 2 ^ k" by (intro mult_mono) auto
  then have "x * y \<le> 2 ^ (j + k)" by (simp add: power_add)
  from mk_f64_pow_le [OF this assms(3)] show ?thesis
    using xy by (simp add: amount_def mk_f64_nonneg)
qed

definition scaled_cost :: "f64 \<Rightarrow> f64 \<Rightarrow> duration \<Rightarrow> f64" where
  "scaled_cost v assumed d = v * f64_div (duration_Hours d) assumed"

lemma f64_mult_commute: "a * b = b * (a :: f64)"
  by (cases a; cases b) (auto simp: mult.commute)

lemma amount_hours_div:
  assumes "0 \<le> d" "d < 2 ^ 63" "1 \<le> y"
  shows "amount (2 ^ 22) (f64_div (duration_Hours d) (Fin y))"
proof -
  have "amount 2562048 (duration_Hours d)" using duration_Hours_bounds assms by (simp add: amount_def)
  then obtain x where x: "duration_Hours d = Fin x" "0 \<le> x" "x \<le> 2562048" using amount_cases by blast
  then have "x / y \<le> x" using assms(3) by (simp add: divide_le_eq mult_le_cancel_left1)
  also have "\<dots> \<le> 2 ^ 22" using x by simp
  finally have "mk_f64 (x / y) \<le> Fin (2 ^ 22)" by (intro mk_f64_pow_le) simp_all
  then show ?thesis using x assms(3) by (simp add: amount_def mk_f64_nonneg)
qed

lemma amount_scaled:
  assumes "amount (2 ^ 26) v" "0 \<le> d" "d < 2 ^ 63" "1 \<le> y"
  shows "amount (2 ^ 48) (scaled_cost v (Fin y) d)"
  using amount_mult [OF assms(1) amount_hours_div [OF assms(2-4)]] by (simp add: scaled_cost_def)

lemma amount_to_int:
  assumes "amount (2 ^ 48) v"
  shows "0 \<le> f64_to_int (v * Fin 10000) \<and> f64_to_int (v * Fin 10000) < 2 ^ 63"
proof -
  have "amount (2 ^ 14) (Fin 10000)" by (simp add: amount_def)
  from amount_mult [OF assms this] obtain x where x: "v * Fin 10000 = Fin x" "0 \<le> x" "x \<le> 2 ^ 62"
    using amount_cases by force
  then have "0 \<le> \<lfloor>x\<rfloor>" "\<lfloor>x\<rfloor> < 2 ^ 63" by (simp_all add: floor_less_iff)
  with x show ?thesis by (auto simp: Let_def)
qed

lemma scaled_cost_mono:
  assumes "amount (2 ^ 26) v" "0 \<le> d" "d \<le> d'" "d' < 2 ^ 63" "1 \<le> y"
  shows "scaled_cost v (Fin y) d \<le> scaled_cost v (Fin y) d'"
proof -
  have am: "amount (2 ^ 22) (f64_div (duration_Hours e) (Fin y))" if "0 \<le> e" "e < 2 ^ 63" for e
    using amount_hours_div that assms(5) by blast
  have "duration_Hours d \<le> duration_Hours d'" using duration_Hours_mono assms by blast
  moreover have "is_finite (duration_Hours e)" if "0 \<le> e" "e < 2 ^ 63" for e
    using duration_Hours_bounds [OF that] amount_finite [of 2562048] by (simp add: amount_def)
  ultimately have "f64_div (duration_Hours d) (Fin y) \<le> f64_div (duration_Hours d') (Fin y)"
    using assms by (intro f64_div_right_mono) auto
  then have "f64_div (duration_Hours d) (Fin y) * v \<le> f64_div (duration_Hours d') (Fin y) * v"
    using assms amount_finite [OF am] amount_finite [OF assms(1)]
    by (intro f64_mult_right_mono) (auto simp: amount_def)
  then show ?thesis by (simp add: scaled_cost_def f64_mult_commute)
qed

lemma trunc_scaled_mono:
  assumes "amount (2 ^ 26) v" "0 \<le> d" "d \<le> d'" "d' < 2 ^ 63" "1 \<le> y"
  shows "trunc4 (scaled_cost v (Fin y) d) \<le> trunc4 (scaled_cost v (Fin y) d')"
proof -
  have a: "amount (2 ^ 48) (scaled_cost v (Fin y) d)" "amount (2 ^ 48) (scaled_cost v (Fin y) d')"
    using amount_scaled assms by auto
  from amount_to_int [OF a(2)] have "f64_to_int (scaled_cost v (Fin y) d' * Fin 10000) \<noteq> - (2 ^ 63)" by simp
  with a scaled_cost_mono [OF assms] show ?thesis
    by (intro trunc4_mono) (auto intro: amount_finite simp: amount_def)
qed

lemma trunc_scaled_nonneg:
  assumes "amount (2 ^ 26) v" "0 \<le> d" "d < 2 ^ 63" "1 \<le> y"
  shows "0 \<le> trunc4 (scaled_cost v (Fin y) d)"
  using amount_scaled [OF assms] amount_to_int by (intro trunc4_nonneg) (auto intro: amount_finite simp: amount_def)


section \<open>Properties\<close>

lemma live_elapsed_range: "0 \<le> live_elapsed now r \<and> live_elapsed now r < 2 ^ 63"
  by (auto simp: live_elapsed_def time_Sub_def Let_def)

lemma live_elapsed_running:
  "r_StartedAt r \<noteq> 0 \<Longrightarrow> r_FinishedAt r = 0 \<Longrightarrow> r_StartedAt r \<le> now \<Longrightarrow>
     live_elapsed now r = min (2 ^ 63 - 1) (now - r_StartedAt r)"
  by (simp add: live_elapsed_def time_IsZero_def time_Sub_def Let_def)

definition assumed_hours :: "plan \<Rightarrow> rat" where
  "assumed_hours p = (if ws_DetectedKind (pl_Workload p) = WorkloadKindService then 24 else 1)"

lemma ComputeLiveCost_scaled:
  assumes "r_Plan r = Some p" "pl_Recommendation p = Some rc" "live_elapsed now r \<noteq> 0"
  shows "ce_Value (ComputeLiveCost now r) =
    trunc4 (scaled_cost (ce_Value (rec_EstimatedCost rc)) (Fin (assumed_hours p)) (live_elapsed now r))"
  using assms mk_f64_int [of 24] mk_f64_int [of 1]
  by (simp add: ComputeLiveCost_def Let_def DefaultDurationHours_def scaled_cost_def assumed_hours_def
      zero_f64_def)

text \<open>
  C40: Once the clock is past its start, the live cost of a running run never goes down. For a run that is estimated at
  between 0 and \<^verbatim>\<open>$2^26\<close>, has started and has not finished, the cost the sampler computes at any time
  strictly after the start is finite, non-negative and monotone in time, with all the rounding of the floating-point
  code; so a run that is over its budget at one such tick is over it at every later one. At the start itself,
  or with a clock that went back behind it, the code answers the whole estimate: \<open>live_cost_at_start\<close>.
\<close>

theorem live_cost_monotone:
  assumes "r_Plan r = Some p" "pl_Recommendation p = Some rc"
    and "amount (2 ^ 26) (ce_Value (rec_EstimatedCost rc))"
    and "r_StartedAt r \<noteq> 0" "r_FinishedAt r = 0" "r_StartedAt r < now" "now \<le> now'"
  shows "is_finite (ce_Value (ComputeLiveCost now r)) \<and> 0 \<le> ce_Value (ComputeLiveCost now r) \<and>
    ce_Value (ComputeLiveCost now r) \<le> ce_Value (ComputeLiveCost now' r)"
proof -
  have el: "live_elapsed now r \<noteq> 0" "live_elapsed now' r \<noteq> 0" "live_elapsed now r \<le> live_elapsed now' r"
    using assms by (auto simp: live_elapsed_running)
  have y: "1 \<le> assumed_hours p" by (simp add: assumed_hours_def)
  note eq = ComputeLiveCost_scaled [OF assms(1,2) el(1)] ComputeLiveCost_scaled [OF assms(1,2) el(2)]
  show ?thesis
    unfolding eq using trunc_scaled_nonneg [OF assms(3)] trunc_scaled_mono [OF assms(3) _ el(3)]
      live_elapsed_range [of now r] live_elapsed_range [of now' r] y by simp
qed

text \<open>
  At the start, and whenever the clock is behind it, the live cost is the whole estimate, as if the assumed duration had
  passed; a moment later the cost starts from the bottom.
\<close>

theorem live_cost_at_start:
  assumes "r_Plan r = Some p" "pl_Recommendation p = Some rc" and "r_FinishedAt r = 0" "now \<le> r_StartedAt r"
  shows "ComputeLiveCost now r = rec_EstimatedCost rc"
  using assms by (simp add: ComputeLiveCost_def live_elapsed_def time_Sub_def time_IsZero_def Let_def)

theorem live_cost_monotone_witness:
  "ce_Value (ComputeLiveCost (10 + Minute) (demo_run\<lparr>r_StartedAt := 10\<rparr>))
     \<le> ce_Value (ComputeLiveCost (10 + Hour) (demo_run\<lparr>r_StartedAt := 10\<rparr>)) \<and>
   ce_Value (ComputeLiveCost (10 + Hour) (demo_run\<lparr>r_StartedAt := 10\<rparr>)) = Fin 1"
proof -
  define r where "r = demo_run\<lparr>r_StartedAt := 10\<rparr>"
  have r: "r_Plan r = Some demo_plan" "r_StartedAt r = 10" "r_FinishedAt r = 0"
    by (simp_all add: r_def demo_run_def NewRun_def demo_plan_def)
  have rc: "pl_Recommendation demo_plan = Some (the (pl_Recommendation demo_plan))"
    by (simp add: demo_plan_def)
  have v: "ce_Value (rec_EstimatedCost (the (pl_Recommendation demo_plan))) = Fin 1"
    by (simp add: demo_plan_def)
  have "ce_Value (ComputeLiveCost (10 + Minute) r) \<le> ce_Value (ComputeLiveCost (10 + Hour) r)"
    using live_cost_monotone [OF r(1) rc, of "10 + Minute" "10 + Hour"] v r(2,3)
    by (simp add: amount_def duration_units)
  moreover have "live_elapsed (10 + Hour) r = Hour"
    using r by (simp add: live_elapsed_running duration_units)
  moreover have "assumed_hours demo_plan = 1" by (simp add: assumed_hours_def demo_plan_def demo_workload_def)
  moreover have "trunc4 (scaled_cost (Fin 1) (Fin 1) Hour) = Fin 1"
  proof -
    have "duration_Hours Hour = Fin 1"
      using mk_f64_int [of 1] by (simp add: duration_Hours_eq hour_fraction_def Hour_eq round64_0)
    moreover have "trunc4 (Fin 1 * f64_div (Fin 1) (Fin 1)) = Fin 1"
      using mk_f64_int [of 1] mk_f64_int [of 10000] by (simp add: trunc4_eq f64_of_int_def Let_def)
    ultimately show ?thesis by (simp only: scaled_cost_def)
  qed
  ultimately show ?thesis
    using ComputeLiveCost_scaled [OF r(1) rc, of "10 + Hour"] v by (simp add: r_def duration_units)
qed

text \<open>
  a cost that was accrued is never lost. A run that is rebuilt from its record without its
  plan keeps the cost it had, with a plan it gets the live cost, and nothing but the cost of
  the run is touched.
\<close>

theorem finalize_cost_keeps_accrued:
  "FinalizeCost now r = r\<lparr>r_Cost := (if no_plan r \<and> 0 < ce_Value (r_Cost r) then r_Cost r
     else ComputeLiveCost now r)\<rparr> \<and>
   (no_plan r \<longrightarrow> 0 < ce_Value (r_Cost r) \<longrightarrow> ce_Value (r_Cost (FinalizeCost now r)) = ce_Value (r_Cost r)) \<and>
   (no_plan r \<longrightarrow> \<not> 0 < ce_Value (r_Cost r) \<longrightarrow>
      ce_Value (r_Cost (FinalizeCost now r)) = 0 \<and> ce_Confidence (r_Cost (FinalizeCost now r)) = ConfidenceUnknown)"
  by (auto simp: FinalizeCost_def setCost_def ComputeLiveCost_def no_plan_def cost_estimate_zero_def
      split: option.splits)

theorem finalize_cost_keeps_accrued_witness:
  "ce_Value (r_Cost (FinalizeCost 99 (demo_run\<lparr>r_Plan := None, r_Cost := cost_estimate_zero\<lparr>ce_Value := Fin 7\<rparr>\<rparr>))) = Fin 7"
  using finalize_cost_keeps_accrued [of 99 "demo_run\<lparr>r_Plan := None, r_Cost := cost_estimate_zero\<lparr>ce_Value := Fin 7\<rparr>\<rparr>"]
  by (simp add: no_plan_def)

text \<open>
  sampling tightens towards the budget. With a base interval of a second or more, more
  spending never makes the sampler slower, it is at most half a second from 80 percent of the
  budget on, and it is never below 100 ms.
\<close>

theorem sampler_tightens:
  assumes "0 < budget" "is_finite budget" "is_finite live" "is_finite live'" "live \<le> live'" "Second \<le> base"
  shows "samplerRateFor live' budget base \<le> samplerRateFor live budget base \<and>
    100 * Millisecond \<le> samplerRateFor live budget base \<and> samplerRateFor live budget base \<le> base \<and>
    (lit (8/10) \<le> f64_div live budget \<longrightarrow> samplerRateFor live budget base = 500 * Millisecond)"
proof -
  have r: "f64_div live budget \<le> f64_div live' budget"
    using assms by (intro f64_div_right_mono) auto
  have up: "c \<le> f64_div live' budget" if "c \<le> f64_div live budget" for c
    using f64_le_trans [OF that r] .
  have h: "go_div base 2 = base div 2" "500 * Millisecond \<le> base div 2"
    using assms(6) by (auto simp: go_div_def duration_units sgn_if)
  have ms: "0 < Millisecond" by (simp add: duration_units)
  show ?thesis
    using up [of "lit (8/10)"] up [of "lit (5/10)"] h ms assms(6)
    by (auto simp: samplerRateFor_def Let_def)
qed

theorem sampler_tightens_witness:
  "samplerRateFor (Fin 9) (Fin 10) (5 * Second) \<le> samplerRateFor (Fin 1) (Fin 10) (5 * Second)"
  using sampler_tightens [of "Fin 10" "Fin 1" "Fin 9" "5 * Second"] by (simp add: duration_units)

end
