(* ===== verification/Run_Store.thy ===== *)
theory Run_Store
  imports Run_State "HOL-Library.AList"
begin

text \<open>
  The run records on disk (\<^verbatim>\<open>internal/run/store.go\<close>), what is read off them
  (\<^verbatim>\<open>internal/run/spend.go\<close>, \<^verbatim>\<open>internal/run/trace.go\<close>) and the reconstruction of a run from its
  record (\<^verbatim>\<open>RunFromRecord\<close> of \<^verbatim>\<open>internal/run/reconnect.go\<close>).
  The directory of records is an association list from file names to contents. A content is
  what the reader can make of it: the document of a record, bytes that do not decode as one,
  or a file that cannot be read. A write can fail at each of its system calls, and a crash can
  leave the directory as it is between any two of them.
\<close>

section \<open>Records\<close>

record run_record =
  rec_ID :: string
  rec_PlanID :: string
  rec_TargetID :: string
  rec_Owner :: string
  rec_State :: run_state
  rec_StartedAt :: time
  rec_FinishedAt :: time
  rec_Error :: string
  rec_Cost :: cost_estimate
  rec_Failure :: failure_details
  rec_RetryCount :: int
  rec_CleanupError :: string
  rec_Timeline :: "phase_mark list"
  rec_HandleID :: string
  rec_HandleState :: "string option"
  rec_Lifecycle :: lifecycle_mode
  rec_WatchdogTTL :: duration
  rec_LastHeartbeat :: time
  rec_LogFile :: string
  rec_Approval :: "approval_record option"

definition ToRecord :: "run \<Rightarrow> run_record" where
  "ToRecord r = \<lparr>rec_ID = r_ID r, rec_PlanID = r_PlanID r, rec_TargetID = r_TargetID r,
     rec_Owner = r_Owner r, rec_State = r_State r, rec_StartedAt = r_StartedAt r,
     rec_FinishedAt = r_FinishedAt r, rec_Error = r_Error r, rec_Cost = r_Cost r,
     rec_Failure = r_Failure r, rec_RetryCount = r_RetryCount r, rec_CleanupError = r_CleanupError r,
     rec_Timeline = r_Timeline r, rec_HandleID = r_HandleID r, rec_HandleState = r_HandleState r,
     rec_Lifecycle = r_Lifecycle r, rec_WatchdogTTL = r_WatchdogTTL r,
     rec_LastHeartbeat = r_LastHeartbeat r, rec_LogFile = r_LogFile r, rec_Approval = r_Approval r\<rparr>"

definition RunFromRecord :: "run_record \<Rightarrow> run" where
  "RunFromRecord rec = \<lparr>r_ID = rec_ID rec, r_PlanID = rec_PlanID rec, r_TargetID = rec_TargetID rec,
     r_Owner = rec_Owner rec, r_State = rec_State rec, r_Plan = None, r_Handle = None,
     r_StartedAt = rec_StartedAt rec, r_FinishedAt = rec_FinishedAt rec, r_Error = rec_Error rec,
     r_Logs = [], r_Artifacts = [], r_Cost = rec_Cost rec, r_Failure = rec_Failure rec,
     r_RetryCount = rec_RetryCount rec, r_CleanupError = rec_CleanupError rec,
     r_Timeline = rec_Timeline rec, r_HandleID = rec_HandleID rec, r_HandleState = rec_HandleState rec,
     r_Lifecycle = rec_Lifecycle rec, r_WatchdogTTL = rec_WatchdogTTL rec,
     r_LastHeartbeat = rec_LastHeartbeat rec, r_LogFile = rec_LogFile rec, r_Approval = rec_Approval rec\<rparr>"

section \<open>The directory\<close>

text \<open>
  \<open>JsonDoc rec\<close> stands for the text \<^verbatim>\<open>json.MarshalIndent\<close> writes for \<open>rec\<close>, by the value it encodes. The
  encoding itself is not modelled: its field names, the replacement of bytes that are no UTF-8, and the
  indentation of the handle's state, which is a raw message, are not visible in the model.
  \<open>TornDoc strict raw e\<close> is a text \<open>raw\<close> that does not decode as a record, with the decoder's
  error \<open>e\<close>; \<open>strict\<close> is what decoding its \<^verbatim>\<open>planId\<close> member alone gives, if that decodes.
\<close>

datatype file_content =
    JsonDoc run_record
  | TornDoc "string option" string string
  | LockFile
  | Unreadable string

definition json_eof :: string where
  "json_eof = ''unexpected end of JSON input''"

type_synonym run_files = "(string \<times> file_content) list"

record run_dir =
  rd_path :: "string result"
  rd_readable :: "unit result"
  rd_files :: run_files

definition run_validateRunID :: "string \<Rightarrow> unit result" where
  "run_validateRunID i =
     (if i = '''' then Inl ''run id is empty''
      else if strings_ContainsAny i [CHR ''/'', CHR 0x5C] \<or> strings_Contains i ''..''
        then Inl (''invalid run id '' @ go_quote i @ '': contains path separator or traversal'')
      else Inr ())"

definition StoreDir :: "run_dir \<Rightarrow> string result" where
  "StoreDir d = rd_path d"

text \<open>The system call that fails while a record is written, if any.\<close>

datatype write_fault =
    WriteOK
  | FaultLockOpen string
  | FaultFlock string
  | FaultCreateTemp string
  | FaultWrite string string
  | FaultChmod string
  | FaultClose string
  | FaultRename string

text \<open>
  \<^verbatim>\<open>atomicWriteLocked\<close> on the file \<open>name\<close>: the directory after each system call that changes it
  (the last entry is the directory the call leaves behind), and its result. \<open>rnd\<close> is the random
  part of the temporary name, which \<^verbatim>\<open>os.CreateTemp\<close> picks so that the name is new. The lock file
  stays; the temporary file is removed on every way out, which does nothing after the rename.
\<close>

definition lock_name :: "string \<Rightarrow> string" where
  "lock_name name = name @ ''.lock''"

definition tmp_name :: "string \<Rightarrow> string \<Rightarrow> string" where
  "tmp_name name rnd = name @ ''.'' @ rnd @ ''.tmp''"

definition open_lock :: "string \<Rightarrow> run_files \<Rightarrow> run_files" where
  "open_lock name fs =
     (case map_of fs (lock_name name) of
        None \<Rightarrow> AList.update (lock_name name) LockFile fs
      | Some _ \<Rightarrow> fs)"

definition atomicWriteLocked ::
  "string \<Rightarrow> file_content \<Rightarrow> string \<Rightarrow> write_fault \<Rightarrow> run_files \<Rightarrow> run_files list \<times> unit result" where
  "atomicWriteLocked name data rnd fault fs =
     (case fault of
        FaultLockOpen e \<Rightarrow> ([fs], Inl (''open lock '' @ lock_name name @ '': '' @ e))
      | _ \<Rightarrow>
        (let fs1 = open_lock name fs; tmp = tmp_name name rnd
         in case fault of
              FaultFlock e \<Rightarrow> ([fs1], Inl (''acquire lock '' @ lock_name name @ '': '' @ e))
            | FaultCreateTemp e \<Rightarrow> ([fs1], Inl e)
            | FaultWrite e part \<Rightarrow>
                ([fs1, AList.update tmp (TornDoc None '''' json_eof) fs1, AList.update tmp (TornDoc None part json_eof) fs1,
                  AList.delete tmp fs1], Inl e)
            | FaultChmod e \<Rightarrow>
                ([fs1, AList.update tmp (TornDoc None '''' json_eof) fs1, AList.update tmp data fs1, AList.delete tmp fs1], Inl e)
            | FaultClose e \<Rightarrow>
                ([fs1, AList.update tmp (TornDoc None '''' json_eof) fs1, AList.update tmp data fs1, AList.delete tmp fs1], Inl e)
            | FaultRename e \<Rightarrow>
                ([fs1, AList.update tmp (TornDoc None '''' json_eof) fs1, AList.update tmp data fs1, AList.delete tmp fs1], Inl e)
            | _ \<Rightarrow>
                ([fs1, AList.update tmp (TornDoc None '''' json_eof) fs1, AList.update tmp data fs1,
                  AList.update name data (AList.delete tmp fs1)], Inr ())))"

text \<open>
  \<^verbatim>\<open>json.MarshalIndent\<close> refuses infinities and NaNs, which a record can only hold in its cost.
\<close>

definition marshal_run :: "run_record \<Rightarrow> file_content result" where
  "marshal_run rec =
     (if \<not> is_finite (ce_Value (rec_Cost rec))
      then Inl (''json: unsupported value: '' @ fmt_fixed 0 (ce_Value (rec_Cost rec)))
      else if \<not> is_finite (ce_SpotRatio (rec_Cost rec))
      then Inl (''json: unsupported value: '' @ fmt_fixed 0 (ce_SpotRatio (rec_Cost rec)))
      else Inr (JsonDoc rec))"

definition Save :: "string \<Rightarrow> write_fault \<Rightarrow> run \<Rightarrow> run_dir \<Rightarrow> run_dir \<times> string result" where
  "Save rnd fault r d =
     (case run_validateRunID (r_ID r) of
        Inl e \<Rightarrow> (d, Inl e)
      | Inr _ \<Rightarrow>
         (case StoreDir d of
            Inl e \<Rightarrow> (d, Inl e)
          | Inr dir \<Rightarrow>
             (case marshal_run (ToRecord r) of
                Inl e \<Rightarrow> (d, Inl (''cannot marshal run: '' @ e))
              | Inr data \<Rightarrow>
                  (let name = r_ID r @ ''.json'';
                       (trace, res) = atomicWriteLocked name data rnd fault (rd_files d);
                       d' = d\<lparr>rd_files := last trace\<rparr>
                   in case res of
                        Inl e \<Rightarrow> (d', Inl (''cannot write run: '' @ e))
                      | Inr _ \<Rightarrow> (d', Inr (dir @ ''/'' @ name))))))"

section \<open>Reading records\<close>


definition LoadRecord :: "run_dir \<Rightarrow> string \<Rightarrow> run_record result" where
  "LoadRecord d i =
     (case run_validateRunID i of
        Inl e \<Rightarrow> Inl e
      | Inr _ \<Rightarrow>
         (case StoreDir d of
            Inl e \<Rightarrow> Inl e
          | Inr _ \<Rightarrow>
             (case map_of (rd_files d) (i @ ''.json'') of
                None \<Rightarrow> Inl (''run '' @ go_quote i @ '' not found '' @ em_dash @
                          '' run `dispatcher list` to see available runs'')
              | Some (Unreadable e) \<Rightarrow> Inl (''cannot read run '' @ go_quote i @ '': '' @ e)
              | Some (JsonDoc rec) \<Rightarrow> Inr rec
              | Some LockFile \<Rightarrow> Inl (''cannot parse run: '' @ json_eof)
              | Some (TornDoc _ _ e) \<Rightarrow> Inl (''cannot parse run: '' @ e))))"

definition ListRecords :: "run_dir \<Rightarrow> string list result" where
  "ListRecords d =
     (case StoreDir d of
        Inl e \<Rightarrow> Inl e
      | Inr _ \<Rightarrow>
         (case rd_readable d of
            Inl e \<Rightarrow> Inl e
          | Inr _ \<Rightarrow>
              Inr (map (\<lambda>n. take (length n - 5) n)
                     (filter (\<lambda>n. strings_HasSuffix n ''.json'') (sort_Strings (map fst (rd_files d)))))))"

fun load_by_plan :: "run_dir \<Rightarrow> string \<Rightarrow> string list \<Rightarrow> run_record option" where
  "load_by_plan d planID [] = None"
| "load_by_plan d planID (i # ids) =
     (case LoadRecord d i of
        Inl _ \<Rightarrow> load_by_plan d planID ids
      | Inr rec \<Rightarrow> if rec_PlanID rec = planID then Some rec else load_by_plan d planID ids)"

definition LoadRecordByPlanID :: "run_dir \<Rightarrow> string \<Rightarrow> run_record result" where
  "LoadRecordByPlanID d planID =
     (if planID = '''' then Inl ''plan id is empty''
      else case ListRecords d of
             Inl e \<Rightarrow> Inl e
           | Inr ids \<Rightarrow>
              (case load_by_plan d planID ids of
                 Some rec \<Rightarrow> Inr rec
               | None \<Rightarrow> Inl (''no run record references plan '' @ go_quote planID @ '': file does not exist'')))"

subsection \<open>Recovering a plan id\<close>

text \<open>
  The leftmost match of \<^verbatim>\<open>"planId"\s*:\s*"([^"]+)"\<close>. White space of the pattern is space, tab,
  newline, form feed and carriage return.
\<close>

definition re_space :: "char \<Rightarrow> bool" where
  "re_space c = (let n = (of_char c :: nat) in n = 32 \<or> n = 9 \<or> n = 10 \<or> n = 12 \<or> n = 13)"

definition plan_key :: string where
  "plan_key = [quote_char] @ ''planId'' @ [quote_char]"

definition match_plan_at :: "string \<Rightarrow> string option" where
  "match_plan_at s =
     (if \<not> strings_HasPrefix s plan_key then None
      else case dropWhile re_space (drop (length plan_key) s) of
             [] \<Rightarrow> None
           | c # rest \<Rightarrow>
               if c \<noteq> CHR '':'' then None
               else case dropWhile re_space rest of
                      [] \<Rightarrow> None
                    | q # body \<Rightarrow>
                        if q \<noteq> quote_char then None
                        else let v = takeWhile (\<lambda>c. c \<noteq> quote_char) body
                             in if v = [] \<or> length v = length body then None else Some v)"

fun planIDPattern :: "string \<Rightarrow> string option" where
  "planIDPattern [] = None"
| "planIDPattern (c # s) =
     (case match_plan_at (c # s) of Some v \<Rightarrow> Some v | None \<Rightarrow> planIDPattern s)"

text \<open>
  In the text of a decoded record the only quotes that are not escaped or part of its fixed
  keys are those of the embedded handle state, so a record with an empty plan id is scanned there.
\<close>

definition RecoverPlanID :: "run_dir \<Rightarrow> string \<Rightarrow> string" where
  "RecoverPlanID d i =
     (case run_validateRunID i of
        Inl _ \<Rightarrow> ''''
      | Inr _ \<Rightarrow>
         (case StoreDir d of
            Inl _ \<Rightarrow> ''''
          | Inr _ \<Rightarrow>
             (case map_of (rd_files d) (i @ ''.json'') of
                None \<Rightarrow> ''''
              | Some (Unreadable _) \<Rightarrow> ''''
              | Some LockFile \<Rightarrow> ''''
              | Some (JsonDoc rec) \<Rightarrow>
                  if rec_PlanID rec \<noteq> '''' then rec_PlanID rec
                  else (case rec_HandleState rec of
                          None \<Rightarrow> ''''
                        | Some raw \<Rightarrow> (case planIDPattern raw of Some v \<Rightarrow> v | None \<Rightarrow> ''''))
              | Some (TornDoc strict raw _) \<Rightarrow>
                  (case strict of
                     Some v \<Rightarrow> if v \<noteq> '''' then v
                               else (case planIDPattern raw of Some w \<Rightarrow> w | None \<Rightarrow> '''')
                   | None \<Rightarrow> (case planIDPattern raw of Some w \<Rightarrow> w | None \<Rightarrow> '''')))))"

section \<open>Spend and traces\<close>

definition active_spend_step :: "run_dir \<Rightarrow> f64 \<times> int \<Rightarrow> string \<Rightarrow> f64 \<times> int" where
  "active_spend_step d acc i =
     (case LoadRecord d i of
        Inl _ \<Rightarrow> acc
      | Inr rec \<Rightarrow>
          if IsTerminal (rec_State rec) \<or> ce_Value (rec_Cost rec) \<le> 0 then acc
          else (fst acc + ce_Value (rec_Cost rec), snd acc + 1))"

definition ActiveSpend :: "run_dir \<Rightarrow> f64 \<times> int" where
  "ActiveSpend d =
     (case ListRecords d of Inl _ \<Rightarrow> (0, 0) | Inr ids \<Rightarrow> foldl (active_spend_step d) (0, 0) ids)"

record trace_event =
  te_Name :: string
  te_Cat :: string
  te_Ph :: string
  te_Ts :: int
  te_Dur :: int
  te_Pid :: int
  te_Tid :: int
  te_Args :: "(string \<times> string) list"

record trace_output =
  to_TraceEvents :: "trace_event list"
  to_DisplayTimeUnit :: string

text \<open>Go's zero time lies 62135596800 seconds before the epoch.\<close>

definition time_UnixMicro :: "time \<Rightarrow> int" where
  "time_UnixMicro t = t div 1000 - 62135596800 * 1000000"

definition phaseEnd :: "nat \<Rightarrow> phase_mark list \<Rightarrow> time \<Rightarrow> time" where
  "phaseEnd i marks finishedAt =
     (if i + 1 < length marks then ph_EnteredAt (marks ! (i + 1))
      else if \<not> time_IsZero finishedAt then finishedAt
      else ph_EnteredAt (marks ! i))"

definition phase_event :: "run_record \<Rightarrow> nat \<Rightarrow> trace_event" where
  "phase_event rec i =
     (let m = rec_Timeline rec ! i;
          dur = time_Sub (phaseEnd i (rec_Timeline rec) (rec_FinishedAt rec)) (ph_EnteredAt m);
          dur' = (if dur < 0 then 0 else dur)
      in \<lparr>te_Name = run_state_string (ph_State m), te_Cat = ''phase'', te_Ph = ''X'',
          te_Ts = time_UnixMicro (ph_EnteredAt m), te_Dur = go_div dur' 1000, te_Pid = 1, te_Tid = 1,
          te_Args = []\<rparr>)"

definition BuildTrace :: "run_record \<Rightarrow> trace_output" where
  "BuildTrace rec =
     \<lparr>to_TraceEvents =
        \<lparr>te_Name = ''process_name'', te_Cat = '''', te_Ph = ''M'', te_Ts = 0, te_Dur = 0, te_Pid = 1,
         te_Tid = 1, te_Args = [(''name'', ''run '' @ rec_ID rec)]\<rparr>
        # map (phase_event rec) [0..<length (rec_Timeline rec)],
      to_DisplayTimeUnit = ''ms''\<rparr>"


section \<open>Writing a record\<close>

text \<open>Names of records, of locks and of temporary files never clash.\<close>

lemma record_name_distinct [simp]:
  "i @ ''.json'' \<noteq> lock_name n" "i @ ''.json'' \<noteq> tmp_name n rnd"
  "lock_name n \<noteq> i @ ''.json''" "tmp_name n rnd \<noteq> i @ ''.json''"
proof -
  have "last (i @ ''.json'') \<noteq> last (lock_name n)" by (simp add: lock_name_def)
  then show "i @ ''.json'' \<noteq> lock_name n" "lock_name n \<noteq> i @ ''.json''" by metis+
  have "last (i @ ''.json'') \<noteq> last (tmp_name n rnd)" by (simp add: tmp_name_def)
  then show "i @ ''.json'' \<noteq> tmp_name n rnd" "tmp_name n rnd \<noteq> i @ ''.json''" by metis+
qed

lemma map_of_open_lock [simp]: "map_of (open_lock n fs) (i @ ''.json'') = map_of fs (i @ ''.json'')"
  by (simp add: open_lock_def update_conv' split: option.split)

lemma map_of_delete_tmp [simp]:
  "map_of (AList.delete (tmp_name n rnd) fs) (i @ ''.json'') = map_of fs (i @ ''.json'')"
  by (simp add: delete_conv')

lemma map_of_update_tmp [simp]:
  "map_of (AList.update (tmp_name n rnd) c fs) (i @ ''.json'') = map_of fs (i @ ''.json'')"
  by (simp add: update_conv')

lemma atomicWriteLocked_trace:
  assumes "fs' \<in> set (fst (atomicWriteLocked n data rnd fault fs))"
  shows "map_of fs' (i @ ''.json'') = map_of fs (i @ ''.json'') \<or>
    (i @ ''.json'' = n \<and> fault = WriteOK \<and> map_of fs' (i @ ''.json'') = Some data)"
  using assms by (auto simp: atomicWriteLocked_def Let_def update_conv' split: write_fault.splits if_splits)

lemma atomicWriteLocked_last:
  "map_of (last (fst (atomicWriteLocked n data rnd fault fs))) (i @ ''.json'') =
     (if i @ ''.json'' = n \<and> fault = WriteOK then Some data else map_of fs (i @ ''.json''))"
  by (auto simp: atomicWriteLocked_def Let_def update_conv' split: write_fault.splits)

lemma atomicWriteLocked_ok_iff: "(\<exists>u. snd (atomicWriteLocked n data rnd fault fs) = Inr u) \<longleftrightarrow> fault = WriteOK"
  by (auto simp: atomicWriteLocked_def Let_def split: write_fault.splits)

definition write_record :: "string \<Rightarrow> string \<Rightarrow> file_content \<Rightarrow> run_files \<Rightarrow> run_files" where
  "write_record rnd i data fs = last (fst (atomicWriteLocked (i @ ''.json'') data rnd WriteOK fs))"

interpretation run_files: keyed_store "write_record rnd" "\<lambda>fs i. map_of fs (i @ ''.json'')" for rnd
  by unfold_locales (simp add: write_record_def atomicWriteLocked_last)

lemma Save_ok:
  assumes "Save rnd fault r d = (d', Inr path)"
  shows "run_validateRunID (r_ID r) = Inr ()" and "\<exists>dir. rd_path d = Inr dir \<and> path = dir @ ''/'' @ r_ID r @ ''.json''"
    and "marshal_run (ToRecord r) = Inr (JsonDoc (ToRecord r))" and "fault = WriteOK"
    and "d' = d\<lparr>rd_files := write_record rnd (r_ID r) (JsonDoc (ToRecord r)) (rd_files d)\<rparr>"
  using assms atomicWriteLocked_ok_iff [of "r_ID r @ ''.json''" "JsonDoc (ToRecord r)" rnd fault "rd_files d"]
  by (auto simp: Save_def StoreDir_def marshal_run_def write_record_def Let_def
      split: sum.splits prod.splits if_splits)

lemma LoadRecord_cong:
  "rd_path d = rd_path d' \<Longrightarrow> map_of (rd_files d) (i @ ''.json'') = map_of (rd_files d') (i @ ''.json'') \<Longrightarrow>
     LoadRecord d i = LoadRecord d' i"
  by (simp only: LoadRecord_def StoreDir_def)

lemma Save_record:
  assumes "Save rnd fault r d = (d', res)"
  shows "res = Inr path \<Longrightarrow> LoadRecord d' (r_ID r) = Inr (ToRecord r)" "res = Inl e \<Longrightarrow> LoadRecord d' j = LoadRecord d j"
proof -
  assume "res = Inr path"
  with assms Save_ok [of rnd fault r d d' path] show "LoadRecord d' (r_ID r) = Inr (ToRecord r)"
    by (auto simp: LoadRecord_def StoreDir_def write_record_def atomicWriteLocked_last)
next
  assume "res = Inl e"
  with assms atomicWriteLocked_ok_iff [of "r_ID r @ ''.json''" "JsonDoc (ToRecord r)" rnd fault "rd_files d"]
  have "d' = d \<or> d' = d\<lparr>rd_files := last (fst (atomicWriteLocked (r_ID r @ ''.json'') (JsonDoc (ToRecord r)) rnd fault (rd_files d)))\<rparr> \<and> fault \<noteq> WriteOK"
    by (auto simp: Save_def StoreDir_def marshal_run_def Let_def split: sum.splits prod.splits if_splits)
  then show "LoadRecord d' j = LoadRecord d j"
    by (auto intro!: LoadRecord_cong simp: atomicWriteLocked_last)
qed

lemma RunFromRecord_ToRecord:
  "RunFromRecord (ToRecord r) = r\<lparr>r_Plan := None, r_Handle := None, r_Logs := [], r_Artifacts := []\<rparr>"
  by (simp add: RunFromRecord_def ToRecord_def)

lemma ToRecord_RunFromRecord: "ToRecord (RunFromRecord rec) = rec"
  by (simp add: RunFromRecord_def ToRecord_def)


section \<open>Scanning for a plan id\<close>

lemma match_plan_at_field:
  assumes "pid \<noteq> []" "quote_char \<notin> set pid" "list_all re_space ws" "list_all re_space ws'"
  shows "match_plan_at (plan_key @ ws @ '':'' @ ws' @ [quote_char] @ pid @ [quote_char] @ rest) = Some pid"
proof -
  have nosp: "\<not> re_space (CHR '':'')" "\<not> re_space quote_char" by (simp_all add: re_space_def quote_char_def)
  have dw: "dropWhile re_space (us @ c # t) = c # t" if "list_all re_space us" "\<not> re_space c" for us c t
    using that by (induction us) auto
  have "takeWhile (\<lambda>c. c \<noteq> quote_char) (p @ quote_char # rest) = p" if "quote_char \<notin> set p" for p
    using that by (induction p) auto
  note tw = this [OF assms(2)]
  show ?thesis
    using assms(1) dw [OF assms(3) nosp(1)] dw [OF assms(4) nosp(2)] tw
    by (simp add: match_plan_at_def Let_def)
qed

text \<open>The text before the plan id in the document of a run: its id comes first.\<close>

definition record_text_head :: "string \<Rightarrow> string" where
  "record_text_head i = [CHR ''{'', newline] @ ''  '' @ [quote_char] @ ''id'' @ [quote_char] @ '': '' @
     [quote_char] @ i @ [quote_char] @ '','' @ [newline] @ ''  ''"

definition plan_field :: "string \<Rightarrow> string" where
  "plan_field pid = plan_key @ '': '' @ [quote_char] @ pid @ [quote_char]"

lemma plan_key_Cons: "plan_key = quote_char # CHR ''p'' # ''lanId'' @ [quote_char]"
  by (simp add: plan_key_def)

lemma planIDPattern_step:
  "c \<noteq> quote_char \<Longrightarrow> planIDPattern (c # s) = planIDPattern s"
  "c \<noteq> CHR ''p'' \<Longrightarrow> planIDPattern (quote_char # c # s) = planIDPattern (c # s)"
  by (simp_all add: match_plan_at_def strings_HasPrefix_def plan_key_Cons)

lemma planIDPattern_no_quote: "quote_char \<notin> set u \<Longrightarrow> planIDPattern (u @ s) = planIDPattern s"
  by (induction u) (auto simp: planIDPattern_step(1) simp del: planIDPattern.simps)

lemma planIDPattern_document:
  assumes "quote_char \<notin> set i" "i \<noteq> []" "hd i \<noteq> CHR ''p''" "pid \<noteq> []" "quote_char \<notin> set pid"
  shows "planIDPattern (record_text_head i @ plan_field pid @ rest) = Some pid"
proof -
  have q: "quote_char \<noteq> CHR '' ''" "quote_char \<noteq> CHR '':''" "quote_char \<noteq> CHR '',''" "quote_char \<noteq> newline"
    "quote_char \<noteq> CHR ''{''" "quote_char \<noteq> CHR ''i''" "quote_char \<noteq> CHR ''d''"
    by (simp_all add: quote_char_def newline_def)
  obtain c u where i: "i = c # u" using assms(2) by (cases i) auto
  have "planIDPattern (record_text_head i @ plan_field pid @ rest) = planIDPattern (plan_field pid @ rest)"
    using assms(1,3) q not_sym [of quote_char c]
    by (simp add: record_text_head_def i planIDPattern_step planIDPattern_no_quote q [symmetric]
        del: planIDPattern.simps)
  also have "\<dots> = Some pid"
    using match_plan_at_field [OF assms(4,5), of "[]" "'' ''" rest]
    by (simp add: plan_field_def plan_key_Cons re_space_def)
  finally show ?thesis .
qed


section \<open>Listing, spend and traces\<close>

lemma ListRecords_set:
  assumes "ListRecords d = Inr ids"
  shows "set ids = {i. map_of (rd_files d) (i @ ''.json'') \<noteq> None}"
proof -
  have ids: "ids = map (\<lambda>n. take (length n - 5) n)
      (filter (\<lambda>n. strings_HasSuffix n ''.json'') (sort_Strings (map fst (rd_files d))))"
    using assms by (auto simp: ListRecords_def split: sum.splits)
  have "i \<in> set ids \<longleftrightarrow> i @ ''.json'' \<in> fst ` set (rd_files d)" for i
    unfolding ids by (force simp: sort_Strings_def strings_HasSuffix_iff image_iff)
  then show ?thesis by (auto simp: map_of_eq_None_iff)
qed

definition active_record :: "run_record \<Rightarrow> bool" where
  "active_record rec = (\<not> IsTerminal (rec_State rec) \<and> \<not> ce_Value (rec_Cost rec) \<le> 0)"

fun loaded :: "run_dir \<Rightarrow> string list \<Rightarrow> run_record list" where
  "loaded d [] = []"
| "loaded d (i # ids) = (case LoadRecord d i of Inl _ \<Rightarrow> loaded d ids | Inr rec \<Rightarrow> rec # loaded d ids)"

lemma active_spend_fold:
  "foldl (active_spend_step d) (t, n) ids =
     (foldl (+) t (map (ce_Value \<circ> rec_Cost) (filter active_record (loaded d ids))),
      n + int (length (filter active_record (loaded d ids))))"
  by (induction ids arbitrary: t n)
    (auto simp: active_spend_step_def active_record_def split: sum.splits)

lemma time_UnixMicro_tiles:
  assumes "a \<le> b" "b - a < 2 ^ 63"
  shows "time_UnixMicro a + go_div (time_Sub b a) 1000 \<le> time_UnixMicro b \<and>
    time_UnixMicro b \<le> time_UnixMicro a + go_div (time_Sub b a) 1000 + 1"
proof -
  have s: "time_Sub b a = b - a" using assms by (simp add: time_Sub_def)
  have g: "go_div (b - a) 1000 = (b - a) div 1000" using assms by (simp add: go_div_def sgn_if)
  have "a div 1000 + (b - a) div 1000 \<le> b div 1000 \<and> b div 1000 \<le> a div 1000 + (b - a) div 1000 + 1"
    by linarith
  then show ?thesis by (simp add: time_UnixMicro_def s g)
qed

section \<open>Properties\<close>

definition demo_dir :: run_dir where
  "demo_dir = \<lparr>rd_path = Inr ''/home/u/.dispatcher/runs'', rd_readable = Inr (),
     rd_files = [(''run_old0001.json'', JsonDoc (ToRecord (demo_run\<lparr>r_ID := ''run_old0001''\<rparr>)))]\<rparr>"

text \<open>
  What is saved is what is loaded, up to the encoding. After a successful save the record of the run loads as
  written, the run rebuilt from it is the saved run without its plan, handle and buffers, every
  other run loads as before, and the listing has gained this id and no other.
\<close>

theorem run_store_roundtrip:
  assumes "Save rnd fault r d = (d', Inr path)" and "ListRecords d = Inr ids"
  shows "LoadRecord d' (r_ID r) = Inr (ToRecord r) \<and>
    RunFromRecord (ToRecord r) = r\<lparr>r_Plan := None, r_Handle := None, r_Logs := [], r_Artifacts := []\<rparr> \<and>
    (\<forall>j. j \<noteq> r_ID r \<longrightarrow> LoadRecord d' j = LoadRecord d j) \<and>
    (\<exists>ids'. ListRecords d' = Inr ids' \<and> set ids' = insert (r_ID r) (set ids))"
proof (intro conjI allI impI)
  note ok = Save_ok [OF assms(1)]
  show "LoadRecord d' (r_ID r) = Inr (ToRecord r)"
    using ok(1,2) by (auto simp: LoadRecord_def StoreDir_def ok(5) run_files.get_put)
  show "RunFromRecord (ToRecord r) = r\<lparr>r_Plan := None, r_Handle := None, r_Logs := [], r_Artifacts := []\<rparr>"
    by (rule RunFromRecord_ToRecord)
  show "LoadRecord d' j = LoadRecord d j" if "j \<noteq> r_ID r" for j
    using that by (intro LoadRecord_cong) (simp_all add: ok(5) run_files.get_put)
  obtain ids' where ids': "ListRecords d' = Inr ids'"
    using assms(2) by (auto simp: ListRecords_def StoreDir_def ok(5) split: sum.splits)
  moreover have "set ids' = insert (r_ID r) (set ids)"
    unfolding ListRecords_set [OF ids'] ListRecords_set [OF assms(2)]
    by (auto simp: ok(5) run_files.get_put split: if_splits)
  ultimately show "\<exists>ids'. ListRecords d' = Inr ids' \<and> set ids' = insert (r_ID r) (set ids)" by blast
qed

theorem run_store_roundtrip_witness:
  "LoadRecord (fst (Save ''1'' WriteOK demo_run demo_dir)) ''run_abc1234'' = Inr (ToRecord demo_run)"
proof -
  have i: "r_ID demo_run = ''run_abc1234''"
    by (simp add: demo_run_def NewRun_def demo_plan_def generateRunID_def)
  have "is_finite (ce_Value (r_Cost demo_run))" "is_finite (ce_SpotRatio (r_Cost demo_run))"
    by (simp_all add: demo_run_def NewRun_def demo_plan_def cost_estimate_zero_def)
  then have m: "marshal_run (ToRecord demo_run) = Inr (JsonDoc (ToRecord demo_run))"
    by (simp add: marshal_run_def ToRecord_def)
  have v: "run_validateRunID ''run_abc1234'' = Inr ()" by code_simp
  have "\<exists>d' path. Save ''1'' WriteOK demo_run demo_dir = (d', Inr path)"
    by (simp add: Save_def i v m StoreDir_def demo_dir_def atomicWriteLocked_def Let_def)
  then obtain d' path where s: "Save ''1'' WriteOK demo_run demo_dir = (d', Inr path)" by blast
  have "\<exists>ids. ListRecords demo_dir = Inr ids" by (simp add: ListRecords_def StoreDir_def demo_dir_def)
  then obtain ids where "ListRecords demo_dir = Inr ids" by blast
  from run_store_roundtrip [OF s this] show ?thesis by (simp add: s i)
qed

text \<open>
  C27: writes are atomic. At every moment of a write, whichever system call fails and wherever a
  crash stops it, each record loads as it did before, but for the written one, which may already
  load as the new one; the listing never shows a lock or a temporary file; and a write that
  reports an error has changed no record.
\<close>

theorem run_store_atomic:
  assumes "fs' \<in> set (fst (atomicWriteLocked (k @ ''.json'') (JsonDoc rec) rnd fault (rd_files d)))"
  shows "(LoadRecord (d\<lparr>rd_files := fs'\<rparr>) i = LoadRecord d i \<or>
      (i = k \<and> fault = WriteOK \<and> map_of fs' (i @ ''.json'') = Some (JsonDoc rec))) \<and>
    (\<forall>ids ids'. ListRecords d = Inr ids \<longrightarrow> ListRecords (d\<lparr>rd_files := fs'\<rparr>) = Inr ids' \<longrightarrow>
       set ids \<subseteq> set ids' \<and> set ids' \<subseteq> insert k (set ids)) \<and>
    (\<forall>e. snd (atomicWriteLocked (k @ ''.json'') (JsonDoc rec) rnd fault (rd_files d)) = Inl e \<longrightarrow>
       LoadRecord (d\<lparr>rd_files := fs'\<rparr>) i = LoadRecord d i)"
proof (intro conjI allI impI)
  note tr = atomicWriteLocked_trace [OF assms]
  have ld: "LoadRecord (d\<lparr>rd_files := fs'\<rparr>) i = LoadRecord d i"
    if "map_of fs' (i @ ''.json'') = map_of (rd_files d) (i @ ''.json'')"
    using that by (intro LoadRecord_cong) simp_all
  show "LoadRecord (d\<lparr>rd_files := fs'\<rparr>) i = LoadRecord d i \<or>
      (i = k \<and> fault = WriteOK \<and> map_of fs' (i @ ''.json'') = Some (JsonDoc rec))"
    using tr [of i] ld by auto
  show "LoadRecord (d\<lparr>rd_files := fs'\<rparr>) i = LoadRecord d i"
    if "snd (atomicWriteLocked (k @ ''.json'') (JsonDoc rec) rnd fault (rd_files d)) = Inl e" for e
  proof -
    have "fault \<noteq> WriteOK" using that atomicWriteLocked_ok_iff by (metis Inl_Inr_False)
    then show ?thesis using tr [of i] ld by auto
  qed
  fix ids ids'
  assume a: "ListRecords d = Inr ids" "ListRecords (d\<lparr>rd_files := fs'\<rparr>) = Inr ids'"
  show "set ids \<subseteq> set ids'"
  proof
    fix x assume "x \<in> set ids"
    then show "x \<in> set ids'"
      using tr [of x] unfolding ListRecords_set [OF a(1)] ListRecords_set [OF a(2)] by auto
  qed
  show "set ids' \<subseteq> insert k (set ids)"
  proof
    fix x assume "x \<in> set ids'"
    then show "x \<in> insert k (set ids)"
      using tr [of x] unfolding ListRecords_set [OF a(1)] ListRecords_set [OF a(2)] by auto
  qed
qed

theorem run_store_atomic_witness:
  "LoadRecord (demo_dir\<lparr>rd_files := AList.update (tmp_name ''run_old0001.json'' ''7'') (TornDoc None ''{'' json_eof)
     (open_lock ''run_old0001.json'' (rd_files demo_dir))\<rparr>) ''run_old0001'' = LoadRecord demo_dir ''run_old0001''"
  using run_store_atomic [of "AList.update (tmp_name ''run_old0001.json'' ''7'') (TornDoc None ''{'' json_eof)
     (open_lock ''run_old0001.json'' (rd_files demo_dir))" "''run_old0001''" "ToRecord demo_run" "''7''"
     "FaultWrite ''disk full'' ''{''" demo_dir "''run_old0001''"]
  by (simp add: atomicWriteLocked_def Let_def)


text \<open>
  the plan of a damaged record is still found. Whatever is left of the document of a run
  after its plan id field, and even if nothing of it decodes, the plan id is recovered, so the
  resources of the run stay protected.
\<close>

theorem plan_id_recovered:
  assumes "run_validateRunID k = Inr ()" and "rd_path d = Inr dir"
    and "map_of (rd_files d) (k @ ''.json'') = Some (TornDoc None (record_text_head i @ plan_field pid @ rest) e)"
    and "i \<noteq> []" "hd i \<noteq> CHR ''p''" "quote_char \<notin> set i" "pid \<noteq> []" "quote_char \<notin> set pid"
  shows "RecoverPlanID d k = pid \<and> (\<exists>err. LoadRecord d k = Inl err)"
  using assms planIDPattern_document [OF assms(6,4,5,7,8)]
  by (simp add: RecoverPlanID_def LoadRecord_def StoreDir_def)

theorem plan_id_recovered_witness:
  "RecoverPlanID \<lparr>rd_path = Inr ''d'', rd_readable = Inr (), rd_files = [(''run_a.json'', TornDoc None
     (record_text_head ''run_a'' @ plan_field ''plan_x'' @ '', '' @ [quote_char] @ ''tar'') json_eof)]\<rparr> ''run_a'' = ''plan_x''"
proof -
  have "run_validateRunID ''run_a'' = Inr ()" by code_simp
  from plan_id_recovered [OF this, of "\<lparr>rd_path = Inr ''d'', rd_readable = Inr (), rd_files = [(''run_a.json'', TornDoc None
     (record_text_head ''run_a'' @ plan_field ''plan_x'' @ '', '' @ [quote_char] @ ''tar'') json_eof)]\<rparr>" "''d''" "''run_a''" "''plan_x''"
     "'', '' @ [quote_char] @ ''tar''" json_eof]
  show ?thesis by (simp add: quote_char_def)
qed

text \<open>
  the active spend is exactly the spend at risk: the floating-point sum, in listing order,
  of the costs of the records that load, are not terminal and have a positive cost, and their
  number; unreadable records, finished runs and free runs do not count.
\<close>

theorem active_spend_exact:
  "ActiveSpend d =
     (case ListRecords d of
        Inl _ \<Rightarrow> (0, 0)
      | Inr ids \<Rightarrow> (foldl (+) 0 (map (ce_Value \<circ> rec_Cost) (filter active_record (loaded d ids))),
                    int (length (filter active_record (loaded d ids)))))"
  by (simp add: ActiveSpend_def active_spend_fold split: sum.split)

text \<open>
  the trace tiles the run. For a timeline in time order the trace has one event per phase,
  none of negative length, and each phase ends, to the microsecond, where the next begins.
\<close>

theorem trace_tiles:
  assumes "sorted (map ph_EnteredAt (rec_Timeline rec))"
    and "Suc i < length (rec_Timeline rec)"
    and "ph_EnteredAt (rec_Timeline rec ! Suc i) - ph_EnteredAt (rec_Timeline rec ! i) < 2 ^ 63"
  shows "length (to_TraceEvents (BuildTrace rec)) = Suc (length (rec_Timeline rec)) \<and>
    (\<forall>ev\<in>set (to_TraceEvents (BuildTrace rec)). 0 \<le> te_Dur ev) \<and>
    (let e = to_TraceEvents (BuildTrace rec) ! Suc i; e' = to_TraceEvents (BuildTrace rec) ! Suc (Suc i)
     in te_Name e = run_state_string (ph_State (rec_Timeline rec ! i)) \<and>
        te_Ts e + te_Dur e \<le> te_Ts e' \<and> te_Ts e' \<le> te_Ts e + te_Dur e + 1)"
proof -
  have le: "ph_EnteredAt (rec_Timeline rec ! i) \<le> ph_EnteredAt (rec_Timeline rec ! Suc i)"
    using sorted_nth_mono [OF assms(1), of i "Suc i"] assms(2) by simp
  have pos: "0 \<le> te_Dur (phase_event rec j)" for j
    by (simp add: phase_event_def Let_def go_div_def sgn_if pos_imp_zdiv_nonneg_iff)
  have ts: "te_Ts (phase_event rec j) = time_UnixMicro (ph_EnteredAt (rec_Timeline rec ! j))" for j
    by (simp add: phase_event_def Let_def)
  have "te_Dur (phase_event rec i) =
      go_div (time_Sub (ph_EnteredAt (rec_Timeline rec ! Suc i)) (ph_EnteredAt (rec_Timeline rec ! i))) 1000"
    using assms(2) time_Sub_nonneg [OF le] by (simp add: phase_event_def Let_def phaseEnd_def)
  then show ?thesis
    using time_UnixMicro_tiles [OF le assms(3)] pos ts assms(2)
    by (auto simp: BuildTrace_def Let_def phase_event_def)
qed

theorem trace_tiles_witness:
  "te_Dur (to_TraceEvents (BuildTrace (ToRecord (fold apply_run_op [OpTransition RunStatePlanning 5010] demo_run))) ! 1) = 5"
proof -
  define rec where "rec = ToRecord (fold apply_run_op [OpTransition RunStatePlanning 5010] demo_run)"
  have tl: "rec_Timeline rec = [\<lparr>ph_State = RunStateCreated, ph_EnteredAt = 10\<rparr>, \<lparr>ph_State = RunStatePlanning, ph_EnteredAt = 5010\<rparr>]"
    by (simp add: rec_def ToRecord_def demo_run_def NewRun_def demo_plan_def Transition_def
        isValidTransition_def validTransitions_def)
  have "te_Ts (to_TraceEvents (BuildTrace rec) ! 1) = - 62135596800000000"
    "te_Ts (to_TraceEvents (BuildTrace rec) ! 2) = - 62135596799999995"
    by (simp_all add: BuildTrace_def tl phase_event_def Let_def time_UnixMicro_def)
  moreover have "te_Dur (to_TraceEvents (BuildTrace rec) ! 1) \<noteq> 4"
    by (simp add: BuildTrace_def tl phase_event_def Let_def phaseEnd_def time_Sub_def go_div_def)
  ultimately show ?thesis
    unfolding rec_def [symmetric] using trace_tiles [of rec 0] by (simp add: tl Let_def numeral_2_eq_2)
qed

end
