(* ===== verification/Executor.thy ===== *)
theory Executor
  imports Run_Cost Run_Store
begin

text \<open>
  The executor of a run (\<^verbatim>\<open>internal/run/executor.go\<close>): provisioning, supervision, waiting, the
  one transient retry, artifact collection and the guaranteed cleanup.

  The target adapter is a record of functions on a world \<^typ>\<open>'w\<close> of its own; each call returns a
  value, an error or a panic. The cost sampler, the watchdog heartbeat, the user's cancellation
  and other processes run in the background: a schedule gives, for each point at which the
  executor can be overtaken, the background events that happen there. Every theorem holds of
  every schedule. The state keeps the run, the store, the adapter's world, the clock and a
  trace of the calls that create and destroy resources. Log output is not modelled.
\<close>

section \<open>Outcomes\<close>

datatype 'a call = Ret 'a | Err string | Panics string

text \<open>
  \<open>Halt\<close> is the end of the process: a panic of a background goroutine, which nobody recovers, or a
  loop that never ends (no fuel).
\<close>

datatype 'a outcome = Val 'a | Panic string | Halt

section \<open>The adapter and the state\<close>

record 'w adapter =
  ad_Validate :: "bool \<Rightarrow> workload_spec \<Rightarrow> 'w \<Rightarrow> validation_result call \<times> 'w"
  ad_Prepare :: "bool \<Rightarrow> plan \<Rightarrow> 'w \<Rightarrow> unit call \<times> 'w"
  ad_Execute :: "bool \<Rightarrow> plan \<Rightarrow> 'w \<Rightarrow> run_handle call \<times> 'w"
  ad_Status :: "bool \<Rightarrow> run_handle \<Rightarrow> 'w \<Rightarrow> run_state call \<times> 'w"
  ad_Logs :: "bool \<Rightarrow> run_handle \<Rightarrow> 'w \<Rightarrow> unit call \<times> 'w"
  ad_Artifacts :: "bool \<Rightarrow> run_handle \<Rightarrow> 'w \<Rightarrow> artifact_ref list call \<times> 'w"
  ad_Terminate :: "run_handle \<Rightarrow> 'w \<Rightarrow> unit call \<times> 'w"
  ad_Cleanup :: "run_handle \<Rightarrow> 'w \<Rightarrow> cleanup_result option call \<times> 'w"
  ad_ExtendWatchdog :: "(bool \<Rightarrow> run_handle \<Rightarrow> duration \<Rightarrow> 'w \<Rightarrow> time call \<times> 'w) option"
  ad_FailureDetails :: "(run_handle \<Rightarrow> 'w \<Rightarrow> failure_details) option"

definition is_durable :: "'w adapter \<Rightarrow> bool" where
  "is_durable A = (ad_ExtendWatchdog A \<noteq> None)"

text \<open>What the sampler does on a breach: cancel the provisioning, or terminate the handle.\<close>

datatype sampler_target = CancelExec | TerminateHandle run_handle

datatype bg_event =
    Advance time
  | CancelCtx
  | SamplerTick
  | SamplerExit
  | WatchdogTick
  | WatchdogExit
  | ExternalSave string file_content

datatype exec_event =
    EvExecuted run_handle
  | EvExecuteFailed
  | EvExecutePanicked
  | EvStatus "run_state call"
  | EvTerminate run_handle
  | EvCleanup run_handle bool
  | EvCleanupPanicked run_handle
  | EvRetryCleanup run_handle
  | EvRenewed run_handle

record 'w exec_state =
  x_run :: run
  x_dir :: run_dir
  x_world :: 'w
  x_now :: time
  x_ctx_done :: bool
  x_exec_canceled :: bool
  x_sampler :: "sampler_target option"
  x_watchdog :: "run_handle option"
  x_sched :: "bg_event list list"
  x_picks :: "bool list"
  x_faults :: "write_fault list"
  x_crashed :: bool
  x_trace :: "exec_event list"

type_synonym ('w, 'a) exec = "'w exec_state \<Rightarrow> 'a outcome \<times> 'w exec_state"

section \<open>Sequencing\<close>

definition ret :: "'a \<Rightarrow> ('w, 'a) exec" where
  "ret a = (\<lambda>s. (Val a, s))"

definition ebind :: "('w, 'a) exec \<Rightarrow> ('a \<Rightarrow> ('w, 'b) exec) \<Rightarrow> ('w, 'b) exec" where
  "ebind m k = (\<lambda>s. case m s of (Val a, s') \<Rightarrow> k a s' | (Panic e, s') \<Rightarrow> (Panic e, s') | (Halt, s') \<Rightarrow> (Halt, s'))"

definition upd :: "('w exec_state \<Rightarrow> 'w exec_state) \<Rightarrow> ('w, unit) exec" where
  "upd f = (\<lambda>s. (Val (), f s))"

definition gets :: "('w exec_state \<Rightarrow> 'a) \<Rightarrow> ('w, 'a) exec" where
  "gets f = (\<lambda>s. (Val (f s), s))"

definition panic :: "string \<Rightarrow> ('w, 'a) exec" where
  "panic e = (\<lambda>s. (Panic e, s))"

text \<open>A deferred call: it runs when the body returns and when it panics.\<close>

definition finally_do :: "('w, 'a) exec \<Rightarrow> ('w, unit) exec \<Rightarrow> ('w, 'a) exec" where
  "finally_do m d = (\<lambda>s. case m s of
       (Val a, s') \<Rightarrow> ebind d (\<lambda>_. ret a) s'
     | (Panic e, s') \<Rightarrow> ebind d (\<lambda>_. panic e) s'
     | (Halt, s') \<Rightarrow> (Halt, s'))"

text \<open>A deferred \<^verbatim>\<open>recover\<close>: a panic of the body runs the handler, and a panic of the handler escapes.\<close>

definition recover_with :: "('w, 'a) exec \<Rightarrow> (string \<Rightarrow> ('w, 'a) exec) \<Rightarrow> ('w, 'a) exec" where
  "recover_with m h = (\<lambda>s. case m s of
       (Panic e, s') \<Rightarrow> h e s'
     | res \<Rightarrow> res)"

section \<open>The background\<close>

definition on_run :: "(run \<Rightarrow> run) \<Rightarrow> 'w exec_state \<Rightarrow> 'w exec_state" where
  "on_run f s = s\<lparr>x_run := f (x_run s)\<rparr>"

definition log_event_x :: "exec_event \<Rightarrow> 'w exec_state \<Rightarrow> 'w exec_state" where
  "log_event_x ev s = s\<lparr>x_trace := x_trace s @ [ev]\<rparr>"

text \<open>A call that panics leaves its event in the trace before the panic unwinds the caller.\<close>

definition on_panic :: "exec_event \<Rightarrow> ('w, 'a) exec \<Rightarrow> ('w, 'a) exec" where
  "on_panic ev m = (\<lambda>s. case m s of
       (Panic e, s') \<Rightarrow> (Panic e, log_event_x ev s')
     | res \<Rightarrow> res)"

definition saveRun :: "'w exec_state \<Rightarrow> 'w exec_state" where
  "saveRun s = s\<lparr>x_dir := fst (Save ''tmp'' (case x_faults s of [] \<Rightarrow> WriteOK | f # _ \<Rightarrow> f) (x_run s) (x_dir s)),
     x_faults := tl (x_faults s)\<rparr>"

text \<open>One tick of the cost sampler.\<close>

definition sampler_terminate :: "'w adapter \<Rightarrow> sampler_target \<Rightarrow> 'w exec_state \<Rightarrow> 'w exec_state" where
  "sampler_terminate A tgt s =
     (case tgt of
        CancelExec \<Rightarrow> s\<lparr>x_exec_canceled := True\<rparr>
      | TerminateHandle h \<Rightarrow>
          (case ad_Terminate A h (x_world s) of
             (Panics _, w') \<Rightarrow> s\<lparr>x_world := w', x_crashed := True\<rparr>
           | (_, w') \<Rightarrow> log_event_x (EvTerminate h) (s\<lparr>x_world := w'\<rparr>)))"

definition sampler_tick :: "'w adapter \<Rightarrow> sampler_target \<Rightarrow> 'w exec_state \<Rightarrow> 'w exec_state" where
  "sampler_tick A tgt s =
     (case r_Plan (x_run s) of
        None \<Rightarrow> s\<lparr>x_crashed := True\<rparr>
      | Some p \<Rightarrow>
         (let budget = pc_MaxEstimatedCostUSD (pl_Constraints p);
              live = ComputeLiveCost (x_now s) (x_run s);
              s1 = saveRun (on_run (setCost live) s)
          in if budget \<le> 0 \<or> ce_Value live \<le> budget then s1
             else case Transition RunStateBudgetExceeded (x_now s1) (x_run s1) of
                    (_, Inl _) \<Rightarrow> s1\<lparr>x_sampler := None\<rparr>
                  | (r', Inr _) \<Rightarrow>
                      (sampler_terminate A tgt (s1\<lparr>x_run := setCost live r'\<rparr>))\<lparr>x_sampler := None\<rparr>))"

text \<open>One renewal of the watchdog, in the background; its failure is only logged.\<close>

definition watchdog_tick :: "'w adapter \<Rightarrow> run_handle \<Rightarrow> 'w exec_state \<Rightarrow> 'w exec_state" where
  "watchdog_tick A h s =
     (if r_State (x_run s) = RunStateBudgetExceeded then s\<lparr>x_watchdog := None\<rparr>
      else case ad_ExtendWatchdog A of
             None \<Rightarrow> s
           | Some ext \<Rightarrow>
               (case ext (x_ctx_done s) h (effectiveWatchdogTTL (x_run s)) (x_world s) of
                  (Panics _, w') \<Rightarrow> s\<lparr>x_world := w', x_crashed := True\<rparr>
                | (Err _, w') \<Rightarrow> s\<lparr>x_world := w'\<rparr>
                | (Ret _, w') \<Rightarrow>
                    log_event_x (EvRenewed h)
                      (saveRun (on_run (\<lambda>r. r\<lparr>r_LastHeartbeat := x_now s\<rparr>) (s\<lparr>x_world := w'\<rparr>)))))"

fun bg_step :: "'w adapter \<Rightarrow> bg_event \<Rightarrow> 'w exec_state \<Rightarrow> 'w exec_state" where
  "bg_step A (Advance t) s = s\<lparr>x_now := max (x_now s) t\<rparr>"
| "bg_step A CancelCtx s = s\<lparr>x_ctx_done := True, x_exec_canceled := True\<rparr>"
| "bg_step A SamplerTick s = (case x_sampler s of None \<Rightarrow> s | Some tgt \<Rightarrow> sampler_tick A tgt s)"
| "bg_step A SamplerExit s = (if x_ctx_done s then s\<lparr>x_sampler := None\<rparr> else s)"
| "bg_step A WatchdogTick s = (case x_watchdog s of None \<Rightarrow> s | Some h \<Rightarrow> watchdog_tick A h s)"
| "bg_step A WatchdogExit s = (if x_ctx_done s then s\<lparr>x_watchdog := None\<rparr> else s)"
| "bg_step A (ExternalSave i c) s =
     s\<lparr>x_dir := (x_dir s)\<lparr>rd_files := write_record ''ext'' i c (rd_files (x_dir s))\<rparr>\<rparr>"

definition run_background :: "'w adapter \<Rightarrow> 'w exec_state \<Rightarrow> 'w exec_state" where
  "run_background A s =
     (case x_sched s of [] \<Rightarrow> s | evs # rest \<Rightarrow> fold (bg_step A) evs (s\<lparr>x_sched := rest\<rparr>))"

text \<open>A point at which the executor can be overtaken.\<close>

definition interleave :: "'w adapter \<Rightarrow> ('w, unit) exec" where
  "interleave A = (\<lambda>s. let s' = run_background A s in (if x_crashed s' then Halt else Val (), s'))"

section \<open>Operations on the run and calls of the adapter\<close>

text \<open>Every operation of the executor on the run, and every call, can be overtaken before it starts.\<close>

definition run_op :: "'w adapter \<Rightarrow> (time \<Rightarrow> run \<Rightarrow> run) \<Rightarrow> ('w, unit) exec" where
  "run_op A f = ebind (interleave A) (\<lambda>_. upd (\<lambda>s. on_run (f (x_now s)) s))"

definition transition_x :: "'w adapter \<Rightarrow> run_state \<Rightarrow> ('w, unit result) exec" where
  "transition_x A to = ebind (interleave A) (\<lambda>_ s.
     let (r', res) = Transition to (x_now s) (x_run s) in (Val res, s\<lparr>x_run := r'\<rparr>))"

definition save_x :: "'w adapter \<Rightarrow> ('w, unit) exec" where
  "save_x A = ebind (interleave A) (\<lambda>_. upd saveRun)"

definition read_run :: "'w adapter \<Rightarrow> (run \<Rightarrow> 'a) \<Rightarrow> ('w, 'a) exec" where
  "read_run A f = ebind (interleave A) (\<lambda>_. gets (\<lambda>s. f (x_run s)))"

definition call_x :: "('w exec_state \<Rightarrow> 'w \<Rightarrow> 'a call \<times> 'w) \<Rightarrow> ('w, 'a result) exec" where
  "call_x f = (\<lambda>s. case f s (x_world s) of
       (Ret a, w') \<Rightarrow> (Val (Inr a), s\<lparr>x_world := w'\<rparr>)
     | (Err e, w') \<Rightarrow> (Val (Inl e), s\<lparr>x_world := w'\<rparr>)
     | (Panics e, w') \<Rightarrow> (Panic e, s\<lparr>x_world := w'\<rparr>))"

definition adapter_call :: "'w adapter \<Rightarrow> ('w exec_state \<Rightarrow> 'w \<Rightarrow> 'a call \<times> 'w) \<Rightarrow> ('w, 'a result) exec" where
  "adapter_call A f = ebind (interleave A) (\<lambda>_. call_x f)"

definition with_plan :: "(plan \<Rightarrow> ('w, 'a) exec) \<Rightarrow> ('w, 'a) exec" where
  "with_plan k = (\<lambda>s. case r_Plan (x_run s) of
     None \<Rightarrow> (Panic ''invalid memory address or nil pointer dereference'', s) | Some p \<Rightarrow> k p s)"


section \<open>Cleanup\<close>

definition cleanup_failed_msg :: string where
  "cleanup_failed_msg = ''cleanup failed after 3 retries''"

definition cleanup_call :: "'w adapter \<Rightarrow> run_handle \<Rightarrow> ('w, bool) exec" where
  "cleanup_call A h =
     ebind (on_panic (EvCleanupPanicked h) (adapter_call A (\<lambda>_. ad_Cleanup A h))) (\<lambda>res.
       let ok = (case res of Inr (Some cl) \<Rightarrow> cl_Success cl | _ \<Rightarrow> False)
       in ebind (upd (log_event_x (EvCleanup h ok))) (\<lambda>_. ret ok))"

primrec cleanup_tries :: "'w adapter \<Rightarrow> run_handle \<Rightarrow> nat \<Rightarrow> ('w, unit) exec" where
  "cleanup_tries A h 0 =
     ebind (run_op A (\<lambda>_. setCleanupError cleanup_failed_msg)) (\<lambda>_.
     run_op A (\<lambda>now. SetError RunStateCleanupFailed cleanup_failed_msg now))"
| "cleanup_tries A h (Suc n) =
     ebind (transition_x A RunStateCleaningUp) (\<lambda>_.
     ebind (cleanup_call A h) (\<lambda>ok.
       if ok then
         ebind (upd (on_run (\<lambda>r. r\<lparr>r_Handle := None\<rparr>))) (\<lambda>_.
         ebind (transition_x A RunStateCompleted) (\<lambda>_. ret ()))
       else cleanup_tries A h n))"

definition attemptCleanup :: "'w adapter \<Rightarrow> ('w, unit) exec" where
  "attemptCleanup A =
     ebind (read_run A r_Handle) (\<lambda>ho.
       case ho of
         None \<Rightarrow> ret ()
       | Some h \<Rightarrow>
           ebind (read_run A GetState) (\<lambda>st.
             if st = RunStateCompleted then ret () else cleanup_tries A h 3))"

section \<open>Artifacts\<close>

definition artifactCollectAttempts :: nat where
  "artifactCollectAttempts = 3"

primrec collect_tries :: "'w adapter \<Rightarrow> run_handle \<Rightarrow> nat \<Rightarrow> ('w, bool) exec" where
  "collect_tries A h 0 = ret False"
| "collect_tries A h (Suc n) =
     ebind (adapter_call A (\<lambda>s. ad_Artifacts A (x_ctx_done s) h)) (\<lambda>res.
       case res of
         Inr xs \<Rightarrow> ebind (upd (on_run (\<lambda>r. r\<lparr>r_Artifacts := xs\<rparr>))) (\<lambda>_. ret True)
       | Inl _ \<Rightarrow>
           if n = 0 then ret False
           else ebind (interleave A) (\<lambda>_. ebind (gets x_ctx_done) (\<lambda>done.
                  if done then ret False else collect_tries A h n)))"

definition collectArtifacts :: "'w adapter \<Rightarrow> run_handle option \<Rightarrow> ('w, bool) exec" where
  "collectArtifacts A ho =
     (case ho of
        None \<Rightarrow> ret False
      | Some h \<Rightarrow>
          ebind (transition_x A RunStateCollectingArtifacts) (\<lambda>res.
            case res of Inl _ \<Rightarrow> ret False | Inr _ \<Rightarrow> collect_tries A h artifactCollectAttempts))"

section \<open>Waiting\<close>

definition maxConsecutiveStatusErrors :: nat where
  "maxConsecutiveStatusErrors = 5"

definition statusPollInterval :: duration where
  "statusPollInterval = 3 * Second"

datatype wake = WakeCtx | WakeDeadline | WakePoll

text \<open>
  The select between two polls: a deadline that falls before the next poll wakes it first; when
  the context is done and the deadline has passed, either may win.
\<close>

definition select_wake :: "time option \<Rightarrow> ('w, wake) exec" where
  "select_wake deadline = (\<lambda>s.
     let passed = (case deadline of None \<Rightarrow> False | Some t \<Rightarrow> t \<le> x_now s);
         soon = (case deadline of None \<Rightarrow> False | Some t \<Rightarrow> t \<le> x_now s + statusPollInterval)
     in if x_ctx_done s
        then if passed then (case x_picks s of
                 True # ps \<Rightarrow> (Val WakeDeadline, s\<lparr>x_picks := ps\<rparr>)
               | ps \<Rightarrow> (Val WakeCtx, s\<lparr>x_picks := tl ps\<rparr>))
             else (Val WakeCtx, s)
        else if soon then (Val WakeDeadline, s\<lparr>x_now := max (x_now s) (the deadline)\<rparr>)
        else (Val WakePoll, s\<lparr>x_now := x_now s + statusPollInterval\<rparr>))"

definition status_call :: "'w adapter \<Rightarrow> run_handle \<Rightarrow> ('w, run_state result) exec" where
  "status_call A h = ebind (interleave A) (\<lambda>_ s.
     let (res, w') = ad_Status A (x_ctx_done s) h (x_world s);
         s' = log_event_x (EvStatus res) (s\<lparr>x_world := w'\<rparr>)
     in (case res of Ret st \<Rightarrow> (Val (Inr st), s') | Err e \<Rightarrow> (Val (Inl e), s') | Panics e \<Rightarrow> (Panic e, s')))"

definition terminate_call :: "'w adapter \<Rightarrow> run_handle \<Rightarrow> ('w, unit) exec" where
  "terminate_call A h =
     ebind (adapter_call A (\<lambda>_. ad_Terminate A h)) (\<lambda>_. upd (log_event_x (EvTerminate h)))"

primrec wait_loop :: "'w adapter \<Rightarrow> run_handle \<Rightarrow> duration \<Rightarrow> time option \<Rightarrow> nat \<Rightarrow> nat \<Rightarrow> ('w, run_state result) exec" where
  "wait_loop A h maxDuration deadline 0 = (\<lambda>_ s. (Halt, s))"
| "wait_loop A h maxDuration deadline (Suc fuel) = (\<lambda>consecutiveErrs.
     ebind (status_call A h) (\<lambda>res.
       let errs = (case res of Inl _ \<Rightarrow> Suc consecutiveErrs | Inr _ \<Rightarrow> 0);
           continue = ebind (interleave A) (\<lambda>_. ebind (select_wake deadline) (\<lambda>wk.
             case wk of
               WakeCtx \<Rightarrow> ret (Inl ''context canceled'')
             | WakeDeadline \<Rightarrow>
                 ebind (terminate_call A h) (\<lambda>_.
                   ret (Inl (''workload exceeded max duration '' @ duration_String maxDuration)))
             | WakePoll \<Rightarrow> wait_loop A h maxDuration deadline fuel errs))
       in case res of
            Inl e \<Rightarrow>
              if maxConsecutiveStatusErrors \<le> errs
              then ret (Inl (''status check failed '' @ show_int (int errs) @ '' times in a row: '' @ e))
              else continue
          | Inr st \<Rightarrow> if st \<noteq> RunStateRunning then ret (Inr st) else continue))"

definition waitForTerminal :: "'w adapter \<Rightarrow> nat \<Rightarrow> run_handle \<Rightarrow> duration \<Rightarrow> ('w, run_state result) exec" where
  "waitForTerminal A fuel h maxDuration =
     ebind (gets x_now) (\<lambda>t0.
       wait_loop A h maxDuration (if 0 < maxDuration then Some (t0 + maxDuration) else None) fuel 0)"

section \<open>Supervision\<close>

definition startCostSampler :: "sampler_target \<Rightarrow> ('w, unit) exec" where
  "startCostSampler tgt = with_plan (\<lambda>p.
     let budget = pc_MaxEstimatedCostUSD (pl_Constraints p);
         priced = (case pl_Recommendation p of None \<Rightarrow> False | Some rc \<Rightarrow> 0 < ce_Value (rec_EstimatedCost rc))
     in if budget \<le> 0 \<and> \<not> priced then upd (\<lambda>s. s\<lparr>x_sampler := None\<rparr>)
        else upd (\<lambda>s. s\<lparr>x_sampler := Some tgt\<rparr>))"

definition startEphemeralWatchdog :: "'w adapter \<Rightarrow> run_handle \<Rightarrow> ('w, unit) exec" where
  "startEphemeralWatchdog A h =
     (case ad_ExtendWatchdog A of
        None \<Rightarrow> upd (\<lambda>s. s\<lparr>x_watchdog := None\<rparr>)
      | Some ext \<Rightarrow>
          ebind (adapter_call A (\<lambda>s. ext (x_ctx_done s) h (effectiveWatchdogTTL (x_run s)))) (\<lambda>res.
          ebind (case res of
                   Inl _ \<Rightarrow> ret ()
                 | Inr _ \<Rightarrow>
                     ebind (run_op A (\<lambda>now r. r\<lparr>r_LastHeartbeat := now\<rparr>)) (\<lambda>_.
                     ebind (save_x A) (\<lambda>_. upd (log_event_x (EvRenewed h))))) (\<lambda>_.
          upd (\<lambda>s. s\<lparr>x_watchdog := Some h\<rparr>))))"

definition superviseHandle :: "'w adapter \<Rightarrow> run_handle \<Rightarrow> ('w, unit) exec" where
  "superviseHandle A h =
     ebind (startCostSampler (TerminateHandle h)) (\<lambda>_. startEphemeralWatchdog A h)"

definition supervision_stop :: "'w adapter \<Rightarrow> ('w, unit) exec" where
  "supervision_stop A = ebind (interleave A) (\<lambda>_. upd (\<lambda>s. s\<lparr>x_sampler := None, x_watchdog := None\<rparr>))"

definition externallyStopped :: "run_dir \<Rightarrow> string \<Rightarrow> bool" where
  "externallyStopped d runID =
     (case LoadRecord d runID of
        Inl _ \<Rightarrow> False
      | Inr rec \<Rightarrow> rec_State rec = RunStateStopping \<or> IsTerminal (rec_State rec))"


section \<open>Provisioning and the transient retry\<close>

text \<open>
  \<^verbatim>\<open>adapter.Execute\<close>. The trace gets the handle as the executor stamps it with the run id.
\<close>

definition stamped :: "run \<Rightarrow> run_handle \<Rightarrow> run_handle" where
  "stamped r h = h\<lparr>rh_RunID := r_ID r\<rparr>"

definition execute_call :: "'w adapter \<Rightarrow> ('w exec_state \<Rightarrow> bool) \<Rightarrow> ('w, run_handle result) exec" where
  "execute_call A canceled = with_plan (\<lambda>p.
     ebind (on_panic EvExecutePanicked (adapter_call A (\<lambda>s. ad_Execute A (canceled s) p))) (\<lambda>res.
     ebind (upd (\<lambda>s. log_event_x (case res of Inl _ \<Rightarrow> EvExecuteFailed | Inr h \<Rightarrow> EvExecuted (stamped (x_run s) h)) s)) (\<lambda>_.
     ret res)))"

definition set_handle :: "run_handle \<Rightarrow> ('w, unit) exec" where
  "set_handle h = upd (\<lambda>s. on_run (\<lambda>r. r\<lparr>r_Handle := Some (stamped r h)\<rparr>) s)"

definition persist_handle_x :: "'w adapter \<Rightarrow> ('w, unit) exec" where
  "persist_handle_x A = run_op A (\<lambda>_ r. fst (PersistHandle r))"

definition report_failure :: "'w adapter \<Rightarrow> run_handle \<Rightarrow> ('w, unit) exec" where
  "report_failure A h =
     (case ad_FailureDetails A of
        None \<Rightarrow> ret ()
      | Some fd \<Rightarrow> ebind (gets x_world) (\<lambda>w. run_op A (\<lambda>_. setFailure (fd h w))))"

text \<open>The teardown of the failed attempt: whatever it returns, the handle is dropped.\<close>

definition retry_cleanup :: "'w adapter \<Rightarrow> ('w, unit) exec" where
  "retry_cleanup A =
     ebind (read_run A r_Handle) (\<lambda>ho.
       case ho of
         None \<Rightarrow> panic ''invalid memory address or nil pointer dereference''
       | Some h \<Rightarrow>
           ebind (adapter_call A (\<lambda>_. ad_Cleanup A h)) (\<lambda>_.
           ebind (upd (log_event_x (EvRetryCleanup h))) (\<lambda>_.
           upd (on_run (\<lambda>r. r\<lparr>r_Handle := None\<rparr>)))))"

definition retryTransientFailure :: "'w adapter \<Rightarrow> nat \<Rightarrow> ('w, run_handle option \<times> bool) exec" where
  "retryTransientFailure A fuel =
     ebind (run_op A (\<lambda>_. beginRetry)) (\<lambda>_.
     ebind (supervision_stop A) (\<lambda>_.
     ebind (retry_cleanup A) (\<lambda>_.
     ebind (execute_call A x_ctx_done) (\<lambda>res.
       case res of
         Inl _ \<Rightarrow> ret (None, False)
       | Inr h0 \<Rightarrow>
           ebind (gets (\<lambda>s. stamped (x_run s) h0)) (\<lambda>h.
           ebind (set_handle h0) (\<lambda>_.
           ebind (persist_handle_x A) (\<lambda>_.
           ebind (save_x A) (\<lambda>_.
           ebind (superviseHandle A h) (\<lambda>_.
           with_plan (\<lambda>p.
           ebind (waitForTerminal A fuel h (pc_MaxDuration (pl_Constraints p))) (\<lambda>st.
             if (case st of Inl _ \<Rightarrow> False | Inr x \<Rightarrow> x \<noteq> RunStateExecutionFailed) then ret (Some h, True)
             else ebind (report_failure A h) (\<lambda>_. ret (Some h, False)))))))))))))"

section \<open>The ephemeral lifecycle\<close>

text \<open>
  The body of \<^verbatim>\<open>executeEphemeral\<close> up to its deferred calls. It returns whether \<^verbatim>\<open>cleanupDone\<close> was
  set, and the result.
\<close>

definition fail_execution :: "'w adapter \<Rightarrow> run_handle option \<Rightarrow> string \<Rightarrow> string \<Rightarrow> ('w, bool \<times> unit result) exec" where
  "fail_execution A ho err msg =
     ebind (collectArtifacts A ho) (\<lambda>_.
     ebind (run_op A (\<lambda>now. SetError RunStateExecutionFailed err now)) (\<lambda>_.
     ret (False, Inl msg)))"

definition ephemeral_success :: "'w adapter \<Rightarrow> run_handle option \<Rightarrow> ('w, bool \<times> unit result) exec" where
  "ephemeral_success A ho =
     ebind (collectArtifacts A ho) (\<lambda>collected.
       if \<not> collected then
         ebind (transition_x A RunStateArtifactFailed) (\<lambda>_.
         ebind (save_x A) (\<lambda>_.
         ebind (read_run A r_ID) (\<lambda>i.
         ret (True, Inl (''workload completed but output retrieval failed; VM preserved for recovery (run '' @ i @ '')'')))))
       else
         ebind (transition_x A RunStateReconcilingCost) (\<lambda>res.
         ebind (case res of Inl _ \<Rightarrow> ret () | Inr _ \<Rightarrow> run_op A FinalizeCost) (\<lambda>_.
         ebind (attemptCleanup A) (\<lambda>_.
         ebind (save_x A) (\<lambda>_.
         ebind (read_run A GetState) (\<lambda>st.
         ret (True, if st = RunStateCleanupFailed then Inl ''cleanup failed'' else Inr ())))))))"

definition may_retry :: "plan \<Rightarrow> run_dir \<Rightarrow> run \<Rightarrow> bool" where
  "may_retry p d r =
     (pc_RetryTransientFailures (pl_Constraints p) \<and> ClassifyFailure (r_Failure r) = FailureTransient \<and>
      r_RetryCount r = 0 \<and> \<not> IsTerminal (GetState r) \<and> \<not> externallyStopped d (r_ID r))"

definition ephemeral_body :: "'w adapter \<Rightarrow> bool \<Rightarrow> nat \<Rightarrow> run_handle \<Rightarrow> ('w, bool \<times> unit result) exec" where
  "ephemeral_body A lw fuel h =
     ebind (if lw then adapter_call A (\<lambda>s. ad_Logs A (x_ctx_done s) h) else ret (Inr ())) (\<lambda>_.
     with_plan (\<lambda>p.
     ebind (waitForTerminal A fuel h (pc_MaxDuration (pl_Constraints p))) (\<lambda>st.
     ebind (case st of
              Inl _ \<Rightarrow> report_failure A h
            | Inr x \<Rightarrow> if x = RunStateExecutionFailed then report_failure A h else ret ()) (\<lambda>_.
     case st of
       Inl err \<Rightarrow> fail_execution A (Some h) err (''status check failed: '' @ err)
     | Inr x \<Rightarrow>
         if x \<noteq> RunStateExecutionFailed then ephemeral_success A (Some h)
         else
           ebind (interleave A) (\<lambda>_.
           ebind (gets (\<lambda>s. may_retry p (x_dir s) (x_run s))) (\<lambda>retry.
           ebind (if retry then retryTransientFailure A fuel else ret (Some h, False)) (\<lambda>(ho, retrySucceeded).
             if \<not> retrySucceeded
             then fail_execution A ho ''workload execution failed'' ''workload execution failed''
             else ephemeral_success A ho)))))))"

definition deferred_cleanup :: "'w adapter \<Rightarrow> ('w, bool \<times> unit result) exec \<Rightarrow> ('w, unit result) exec" where
  "deferred_cleanup A m = (\<lambda>s.
     let cleanup = ebind (attemptCleanup A) (\<lambda>_. save_x A)
     in case m s of
          (Val (done, res), s') \<Rightarrow> if done then (Val res, s') else ebind cleanup (\<lambda>_. ret res) s'
        | (Panic e, s') \<Rightarrow> ebind cleanup (\<lambda>_. panic e) s'
        | (Halt, s') \<Rightarrow> (Halt, s'))"

definition executeEphemeral :: "'w adapter \<Rightarrow> bool \<Rightarrow> nat \<Rightarrow> run_handle \<Rightarrow> ('w, unit result) exec" where
  "executeEphemeral A lw fuel h =
     deferred_cleanup A
       (ebind (superviseHandle A h) (\<lambda>_. finally_do (ephemeral_body A lw fuel h) (supervision_stop A)))"

definition startLongRunning :: "'w adapter \<Rightarrow> ('w, unit result) exec" where
  "startLongRunning A =
     (case ad_ExtendWatchdog A of
        None \<Rightarrow> ret (Inl ''long-running workloads require a durable adapter'')
      | Some ext \<Rightarrow>
          ebind (read_run A r_Handle) (\<lambda>ho.
            case ho of
              None \<Rightarrow> panic ''invalid memory address or nil pointer dereference''
            | Some h \<Rightarrow>
                ebind (adapter_call A (\<lambda>s. ext (x_ctx_done s) h (effectiveWatchdogTTL (x_run s)))) (\<lambda>_.
                ebind (run_op A (\<lambda>now r. r\<lparr>r_LastHeartbeat := now\<rparr>)) (\<lambda>_.
                ebind (save_x A) (\<lambda>_. ret (Inr ()))))))"

section \<open>Execute\<close>

text \<open>What happens at the approval gate while the run waits: decisions and connections, in order.\<close>

datatype gate_arrival = ArriveApprover string "approver_error option" | ArriveConn "wire_msg option"

record approval_env =
  ae_dir :: "string result"
  ae_listen :: "string \<Rightarrow> unit result"
  ae_arrivals :: "gate_arrival list"

fun gate_arrive :: "gate_arrival \<Rightarrow> gate \<Rightarrow> gate" where
  "gate_arrive (ArriveApprover decider err) g = fst (settle (in_process_decision decider err) g)"
| "gate_arrive (ArriveConn m) g = fst (handleConn m g)"

definition gate_wait :: "approval_env \<Rightarrow> gate \<Rightarrow> ('w, approval_record \<times> wait_error option) exec" where
  "gate_wait ae g0 = (\<lambda>s.
     let rec = wait_record g0 (x_now s); g = fold gate_arrive (ae_arrivals ae) g0
     in if g_resultCh g \<and> (\<not> x_ctx_done s \<or> hd (x_picks s @ [False]))
        then (Val (snd (wait_result (x_now s) rec g)), s\<lparr>x_picks := tl (x_picks s)\<rparr>)
        else if x_ctx_done s then (Val (snd (wait_ctx_done rec g)), s\<lparr>x_picks := tl (x_picks s)\<rparr>)
        else (Halt, s))"

definition wait_error_string :: "wait_error \<Rightarrow> string" where
  "wait_error_string e = (case e of WaitCanceled \<Rightarrow> ''context canceled'' | WaitDenied \<Rightarrow> ''approval denied'')"

definition etry :: "('w, 'a result) exec \<Rightarrow> ('a \<Rightarrow> ('w, 'b result) exec) \<Rightarrow> ('w, 'b result) exec" where
  "etry m k = ebind m (\<lambda>res. case res of Inl e \<Rightarrow> ret (Inl e) | Inr a \<Rightarrow> k a)"

definition fail_with :: "'w adapter \<Rightarrow> run_state \<Rightarrow> string \<Rightarrow> string \<Rightarrow> ('w, 'b result) exec" where
  "fail_with A st err msg = ebind (run_op A (\<lambda>now. SetError st err now)) (\<lambda>_. ret (Inl msg))"

definition await_approval :: "'w adapter \<Rightarrow> approval_env \<Rightarrow> ('w, unit result) exec" where
  "await_approval A ae = with_plan (\<lambda>p.
     if pl_RequiredApprovals p = [] then ret (Inr ())
     else
       etry (transition_x A RunStateAwaitingApproval) (\<lambda>_.
       ebind (read_run A r_ID) (\<lambda>i.
         case NewGate (ae_dir ae) (ae_listen ae) i (pl_RequiredApprovals p) of
           Inl e \<Rightarrow> fail_with A RunStateApprovalDenied e (''open approval gate: '' @ e)
         | Inr g \<Rightarrow>
             ebind (interleave A) (\<lambda>_.
             ebind (gate_wait ae g) (\<lambda>(rec, err).
             ebind (upd (on_run (\<lambda>r. r\<lparr>r_Approval := Some rec\<rparr>))) (\<lambda>_.
               case err of
                 None \<Rightarrow> ret (Inr ())
               | Some e \<Rightarrow> fail_with A RunStateApprovalDenied (wait_error_string e)
                             (''approval denied: '' @ wait_error_string e)))))))"

text \<open>Everything before the workload has a handle: planning, validation, approval, preparation.\<close>

definition execute_prepare :: "'w adapter \<Rightarrow> approval_env \<Rightarrow> ('w, unit result) exec" where
  "execute_prepare A ae =
     etry (transition_x A RunStatePlanning) (\<lambda>_.
     with_plan (\<lambda>p.
     ebind (adapter_call A (\<lambda>s. ad_Validate A (x_ctx_done s) (pl_Workload p))) (\<lambda>v.
       case v of
         Inl e \<Rightarrow> fail_with A RunStatePlanInvalid e (''validation failed: '' @ e)
       | Inr validation \<Rightarrow>
           if \<not> IsValid validation
           then fail_with A RunStatePlanInvalid ''plan validation failed'' ''plan validation failed''
           else
             etry (transition_x A RunStateValidated) (\<lambda>_.
             etry (await_approval A ae) (\<lambda>_.
             etry (transition_x A RunStatePreparing) (\<lambda>_.
             ebind (adapter_call A (\<lambda>s. ad_Prepare A (x_ctx_done s) p)) (\<lambda>pr.
               case pr of
                 Inl e \<Rightarrow> fail_with A RunStatePackageFailed e (''preparation failed: '' @ e)
               | Inr _ \<Rightarrow> transition_x A RunStateRunning)))))))"

definition budget_in_provisioning :: "string \<Rightarrow> string" where
  "budget_in_provisioning i = ''budget exceeded during provisioning (run '' @ i @ '')''"

definition execute_body :: "'w adapter \<Rightarrow> approval_env \<Rightarrow> bool \<Rightarrow> nat \<Rightarrow> ('w, unit result) exec" where
  "execute_body A ae lw fuel =
     etry (execute_prepare A ae) (\<lambda>_.
     ebind (save_x A) (\<lambda>_.
     ebind (startCostSampler CancelExec) (\<lambda>_.
     ebind (execute_call A x_exec_canceled) (\<lambda>res.
     ebind (ebind (interleave A) (\<lambda>_. upd (\<lambda>s. s\<lparr>x_sampler := None\<rparr>))) (\<lambda>_.
       case res of
         Inl e \<Rightarrow>
           ebind (read_run A GetState) (\<lambda>st.
             if st = RunStateBudgetExceeded
             then ebind (save_x A) (\<lambda>_. ebind (read_run A r_ID) (\<lambda>i. ret (Inl (budget_in_provisioning i))))
             else fail_with A RunStateProvisioningFailed e (''provisioning failed: '' @ e))
       | Inr h0 \<Rightarrow>
           ebind (gets (\<lambda>s. stamped (x_run s) h0)) (\<lambda>h.
           ebind (set_handle h0) (\<lambda>_.
           ebind (read_run A GetState) (\<lambda>st.
             if st = RunStateBudgetExceeded
             then ebind (attemptCleanup A) (\<lambda>_. ebind (save_x A) (\<lambda>_.
                    ebind (read_run A r_ID) (\<lambda>i. ret (Inl (budget_in_provisioning i)))))
             else
               ebind (persist_handle_x A) (\<lambda>_.
               with_plan (\<lambda>p.
               ebind (run_op A (\<lambda>_ r. r\<lparr>r_Lifecycle := LifecycleForWorkload (ws_DetectedKind (pl_Workload p))\<rparr>)) (\<lambda>_.
               ebind (save_x A) (\<lambda>_.
               ebind (read_run A r_Lifecycle) (\<lambda>lc.
                 if lc = LifecycleLongRunning \<and> is_durable A then startLongRunning A
                 else executeEphemeral A lw fuel h)))))))))))))"

definition Execute :: "'w adapter \<Rightarrow> approval_env \<Rightarrow> bool \<Rightarrow> nat \<Rightarrow> ('w, unit result) exec" where
  "Execute A ae lw fuel =
     recover_with (execute_body A ae lw fuel) (\<lambda>e.
       let err = ''executor panic: '' @ e in
       ebind (run_op A (\<lambda>now. SetError RunStateExecutionFailed err now)) (\<lambda>_.
       ebind (save_x A) (\<lambda>_.
       ebind (attemptCleanup A) (\<lambda>_.
       ret (Inl err)))))"

end
