(* ===== verification/Executor_Safety.thy ===== *)
theory Executor_Safety
  imports Executor
begin

text \<open>
  What the executor guarantees. A small program logic for its sequencing (a triple with a
  postcondition for returning and one for panicking) carries the proofs: the background may
  run between any two steps, so every assertion is shown stable under it once
  (locale \<open>bg_stable\<close>), and each operation gets one specification.
\<close>

section \<open>Triples\<close>

definition hoare :: "('w exec_state \<Rightarrow> bool) \<Rightarrow> ('w, 'a) exec \<Rightarrow> ('a \<Rightarrow> 'w exec_state \<Rightarrow> bool) \<Rightarrow>
    ('w exec_state \<Rightarrow> bool) \<Rightarrow> bool" where
  "hoare P m Q E \<longleftrightarrow> (\<forall>s. P s \<longrightarrow>
     (case m s of (Val a, s') \<Rightarrow> Q a s' | (Panic _, s') \<Rightarrow> E s' | (Halt, _) \<Rightarrow> True))"

named_theorems hoare_intros \<open>rules that follow the structure of a program\<close>

lemma hoareI:
  assumes "\<And>s a s'. P s \<Longrightarrow> m s = (Val a, s') \<Longrightarrow> Q a s'" "\<And>s e s'. P s \<Longrightarrow> m s = (Panic e, s') \<Longrightarrow> E s'"
  shows "hoare P m Q E"
  using assms by (auto simp: hoare_def split: prod.split outcome.split)

lemma hoareD:
  assumes "hoare P m Q E" "P s"
  shows "m s = (Val a, s') \<Longrightarrow> Q a s'" "m s = (Panic e, s') \<Longrightarrow> E s'"
  using assms by (auto simp: hoare_def split: prod.splits outcome.splits)

lemma hoare_conseq:
  assumes "hoare P' m Q' E'" "\<And>s. P s \<Longrightarrow> P' s" "\<And>a s. Q' a s \<Longrightarrow> Q a s" "\<And>s. E' s \<Longrightarrow> E s"
  shows "hoare P m Q E"
  using assms by (intro hoareI) (blast dest: hoareD)+

lemma hoare_pre: "hoare P' m Q E \<Longrightarrow> (\<And>s. P s \<Longrightarrow> P' s) \<Longrightarrow> hoare P m Q E"
  by (rule hoare_conseq)

lemma hoare_pre_cases: "(\<And>s. P s \<Longrightarrow> \<exists>P'. P' s \<and> hoare P' m Q E) \<Longrightarrow> hoare P m Q E"
  unfolding hoare_def by meson

lemma hoare_assume: "(b \<Longrightarrow> hoare P m Q E) \<Longrightarrow> hoare (\<lambda>s. b \<and> P s) m Q E"
  by (cases b) (simp_all add: hoare_def)

lemma hoare_ret: "hoare (Q a) (ret a) Q E"
  by (simp add: hoare_def ret_def)

lemma hoare_ret_same [simp, intro]: "hoare P (ret a) (\<lambda>_. P) E"
  by (simp add: hoare_def ret_def)

lemma hoare_ebind:
  assumes "\<And>a. hoare (R a) (k a) Q E" "hoare P m R E"
  shows "hoare P (ebind m k) Q E"
proof -
  have "case ebind m k s of (Val b, s') \<Rightarrow> Q b s' | (Panic _, s') \<Rightarrow> E s' | (Halt, _) \<Rightarrow> True" if "P s" for s
  proof (cases "m s")
    case (Pair oc s')
    show ?thesis
    proof (cases oc)
      case (Val a)
      then have "R a s'" using hoareD(1) [OF assms(2) that] Pair by simp
      with assms(1) [of a] Pair Val show ?thesis by (simp add: hoare_def ebind_def)
    next
      case (Panic e)
      then show ?thesis using hoareD(2) [OF assms(2) that] Pair by (simp add: ebind_def)
    qed (simp add: Pair ebind_def)
  qed
  then show ?thesis by (simp add: hoare_def)
qed

lemma hoare_case_sum:
  "(\<And>e. hoare P (f e) Q E) \<Longrightarrow> (\<And>x. hoare P (g x) Q E) \<Longrightarrow>
     hoare P (case res of Inl e \<Rightarrow> f e | Inr x \<Rightarrow> g x) Q E"
  by (cases res) simp_all

lemma hoare_upd: "hoare (\<lambda>s. Q () (f s)) (upd f) Q E"
  by (simp add: hoare_def upd_def)

lemma hoare_gets: "hoare (\<lambda>s. Q (f s) s) (gets f) Q E"
  by (simp add: hoare_def gets_def)

lemma hoare_panic: "hoare E (panic e) Q E"
  by (simp add: hoare_def panic_def)

lemma hoare_with_plan:
  assumes "\<And>p. hoare (\<lambda>s. P s \<and> r_Plan (x_run s) = Some p) (k p) Q E" "\<And>s. P s \<Longrightarrow> E s"
  shows "hoare P (with_plan k) Q E"
  using assms by (auto simp: hoare_def with_plan_def split: option.splits)

lemma hoare_finally:
  assumes "hoare P m R F" "\<And>a. hoare (R a) d (\<lambda>_. Q a) E" "hoare F d (\<lambda>_. E) E"
  shows "hoare P (finally_do m d) Q E"
proof -
  have v: "hoare (R a) (ebind d (\<lambda>_. ret a)) Q E" for a
    by (rule hoare_ebind [OF hoare_ret assms(2)])
  have p: "hoare F (ebind d (\<lambda>_. panic e)) Q E" for e
    by (rule hoare_ebind [OF hoare_panic assms(3)])
  show ?thesis
    using assms(1) v p unfolding hoare_def finally_do_def
    by (auto split: prod.splits outcome.splits) (fastforce split: prod.splits outcome.splits)+
qed

lemma hoare_recover:
  assumes "hoare P m Q F" "\<And>e. hoare F (h e) Q E"
  shows "hoare P (recover_with m h) Q E"
  using assms unfolding hoare_def recover_with_def
  by (auto split: prod.splits outcome.splits) (fastforce split: prod.splits outcome.splits)+

lemma hoare_on_panic:
  assumes "hoare P m Q F" "\<And>s. F s \<Longrightarrow> E (log_event_x ev s)"
  shows "hoare P (on_panic ev m) Q E"
  using hoareD [OF assms(1)] assms(2)
  by (intro hoareI) (auto simp: on_panic_def split: prod.splits outcome.splits)

lemma hoare_conj:
  assumes "hoare P m Q E" "hoare P' m Q' E'"
  shows "hoare (\<lambda>s. P s \<and> P' s) m (\<lambda>a s. Q a s \<and> Q' a s) (\<lambda>s. E s \<and> E' s)"
  using assms by (intro hoareI) (blast dest: hoareD)+

section \<open>What the background can change\<close>

fun resource_event :: "exec_event \<Rightarrow> bool" where
  "resource_event (EvExecuted h) = True"
| "resource_event EvExecuteFailed = True"
| "resource_event EvExecutePanicked = True"
| "resource_event (EvCleanup h ok) = True"
| "resource_event (EvRetryCleanup h) = True"
| "resource_event ev = False"

definition resources :: "'w exec_state \<Rightarrow> exec_event list" where
  "resources s = filter resource_event (x_trace s)"

text \<open>
  The background leaves the identity, plan, handle, cleanup error, retry count, lifecycle and
  approval of the run and the resource calls alone; it moves the state from running to
  budget-exceeded only; and time does not run backwards.
\<close>

definition bg_frame :: "'w exec_state \<Rightarrow> 'w exec_state \<Rightarrow> bool" where
  "bg_frame s s' \<longleftrightarrow>
     r_ID (x_run s') = r_ID (x_run s) \<and> r_Plan (x_run s') = r_Plan (x_run s) \<and>
     r_Handle (x_run s') = r_Handle (x_run s) \<and> r_CleanupError (x_run s') = r_CleanupError (x_run s) \<and>
     r_RetryCount (x_run s') = r_RetryCount (x_run s) \<and> r_Lifecycle (x_run s') = r_Lifecycle (x_run s) \<and>
     r_Approval (x_run s') = r_Approval (x_run s) \<and> resources s' = resources s \<and>
     (r_State (x_run s') = r_State (x_run s) \<or>
      r_State (x_run s) = RunStateRunning \<and> r_State (x_run s') = RunStateBudgetExceeded) \<and>
     x_now s \<le> x_now s'"

lemma bg_frame_refl [simp]: "bg_frame s s"
  by (simp add: bg_frame_def)

lemma bg_frame_trans: "bg_frame s t \<Longrightarrow> bg_frame t u \<Longrightarrow> bg_frame s u"
  by (auto simp: bg_frame_def)

lemmas frame_simps = on_run_def log_event_x_def saveRun_def resources_def setCost_def

lemma sampler_terminate_frame: "bg_frame s (sampler_terminate A tgt s)"
  by (auto simp: sampler_terminate_def bg_frame_def frame_simps
      split: sampler_target.split prod.split call.split)

lemma sampler_tick_frame: "bg_frame s (sampler_tick A tgt s)"
proof (cases "r_Plan (x_run s)")
  case None
  then show ?thesis by (simp add: sampler_tick_def bg_frame_def resources_def)
next
  case (Some p)
  define s1 where "s1 = saveRun (on_run (setCost (ComputeLiveCost (x_now s) (x_run s))) s)"
  have s1: "bg_frame s s1" by (simp add: s1_def bg_frame_def frame_simps)
  let ?live = "ComputeLiveCost (x_now s) (x_run s)"
  obtain r' res where tr: "Transition RunStateBudgetExceeded (x_now s1) (x_run s1) = (r', res)" by fastforce
  have stop: "bg_frame t (t\<lparr>x_sampler := None\<rparr>)" for t :: "'w exec_state"
    by (simp add: bg_frame_def resources_def)
  have "bg_frame s1 (s1\<lparr>x_run := setCost ?live r'\<rparr>)" if "res = Inr ()"
    using tr that by (auto simp: Transition_def bg_frame_def resources_def setCost_def isValidTransition_def
        validTransitions_def split: if_splits run_state.splits option.splits)
  then have "bg_frame s ((sampler_terminate A tgt (s1\<lparr>x_run := setCost ?live r'\<rparr>))\<lparr>x_sampler := None\<rparr>)" if "res = Inr ()"
    using that bg_frame_trans [OF s1] bg_frame_trans [OF _ bg_frame_trans [OF sampler_terminate_frame stop]] by blast
  then show ?thesis
    using Some tr s1 stop
    by (auto simp: sampler_tick_def Let_def s1_def [symmetric] split: sum.split intro: bg_frame_trans)
qed

lemma watchdog_tick_frame: "bg_frame s (watchdog_tick A h s)"
  by (auto simp: watchdog_tick_def bg_frame_def frame_simps split: option.split prod.split call.split)

lemma bg_step_frame: "bg_frame s (bg_step A ev s)"
  by (cases ev) (auto simp: sampler_tick_frame watchdog_tick_frame split: option.split,
    auto simp: bg_frame_def resources_def)

lemma bg_steps_frame: "bg_frame s (fold (bg_step A) evs s)"
  by (induction evs arbitrary: s) (auto intro: bg_frame_trans bg_step_frame)

lemma run_background_frame: "bg_frame s (run_background A s)"
proof -
  have "bg_frame s (s\<lparr>x_sched := rest\<rparr>)" for rest by (simp add: bg_frame_def resources_def)
  then show ?thesis
    by (auto simp: run_background_def split: list.split intro: bg_frame_trans bg_steps_frame)
qed


locale bg_stable =
  fixes P :: "'w exec_state \<Rightarrow> bool"
  assumes P_frame: "P s \<Longrightarrow> bg_frame s s' \<Longrightarrow> P s'"
begin

lemma P_background: "P s \<Longrightarrow> P (run_background A s)"
  using P_frame run_background_frame by blast

lemma interleave_stable: "hoare P (interleave A) (\<lambda>_. P) E"
  by (auto simp: hoare_def interleave_def Let_def P_background split: if_splits)

lemma after_interleave:
  "(\<And>a. hoare P (k a) Q E) \<Longrightarrow> hoare P (ebind (interleave A) k) Q E"
  by (rule hoare_ebind [OF _ interleave_stable])

lemma run_op_stable:
  assumes "\<And>s. P s \<Longrightarrow> Q () (on_run (f (x_now s)) s)"
  shows "hoare P (run_op A f) Q E"
  unfolding run_op_def by (intro after_interleave hoare_pre [OF hoare_upd] assms)

lemma read_run_stable:
  assumes "\<And>s. P s \<Longrightarrow> Q (f (x_run s)) s"
  shows "hoare P (read_run A f) Q E"
  unfolding read_run_def by (intro after_interleave hoare_pre [OF hoare_gets] assms)

lemma transition_stable:
  assumes "\<And>s r' res. P s \<Longrightarrow> Transition to (x_now s) (x_run s) = (r', res) \<Longrightarrow> Q res (s\<lparr>x_run := r'\<rparr>)"
  shows "hoare P (transition_x A to) Q E"
  unfolding transition_x_def
  by (intro after_interleave) (auto simp: hoare_def Let_def split: prod.splits intro: assms)

lemma frame_same_core:
  assumes "P s" "x_run s' = x_run s" "resources s' = resources s" "x_now s' = x_now s"
  shows "P s'"
  using assms by (intro P_frame [OF assms(1)]) (simp add: bg_frame_def)

lemma save_stable: "hoare P (save_x A) (\<lambda>_. P) E"
  unfolding save_x_def
  by (intro after_interleave hoare_pre [OF hoare_upd]) (auto simp: saveRun_def resources_def intro: frame_same_core)

lemma adapter_call_stable:
  assumes "\<And>s. P s \<Longrightarrow> E s"
  shows "hoare P (adapter_call A f) (\<lambda>_. P) E"
proof -
  have w: "P (s\<lparr>x_world := w\<rparr>)" if "P s" for s w
    by (rule frame_same_core [OF that]) (simp_all add: resources_def)
  show ?thesis
    unfolding adapter_call_def
    by (intro after_interleave)
      (auto simp: hoare_def call_x_def split: prod.splits call.splits intro: w assms)
qed

lemma supervision_stop_stable: "hoare P (supervision_stop A) (\<lambda>_. P) E"
  unfolding supervision_stop_def
  by (intro after_interleave hoare_pre [OF hoare_upd]) (auto simp: resources_def intro: frame_same_core)

lemma startCostSampler_stable:
  assumes "\<And>s. P s \<Longrightarrow> E s"
  shows "hoare P (startCostSampler tgt) (\<lambda>_. P) E"
proof -
  have "P (s\<lparr>x_sampler := t\<rparr>)" if "P s" for s t
    by (rule frame_same_core [OF that]) (simp_all add: resources_def)
  then show ?thesis
    using assms unfolding startCostSampler_def
    by (intro hoare_with_plan) (auto simp: hoare_def upd_def Let_def)
qed

lemma heartbeat_frame: "P s \<Longrightarrow> P (on_run (\<lambda>r. r\<lparr>r_LastHeartbeat := t\<rparr>) s)"
  by (rule P_frame) (auto simp: bg_frame_def on_run_def resources_def)

lemma log_other_frame: "P s \<Longrightarrow> \<not> resource_event ev \<Longrightarrow> P (log_event_x ev s)"
  by (rule frame_same_core) (simp_all add: log_event_x_def resources_def)

lemma upd_log_stable: "\<not> resource_event ev \<Longrightarrow> hoare P (upd (log_event_x ev)) (\<lambda>_. P) E"
  by (rule hoare_pre [OF hoare_upd]) (rule log_other_frame)

lemma startEphemeralWatchdog_stable:
  assumes "\<And>s. P s \<Longrightarrow> E s"
  shows "hoare P (startEphemeralWatchdog A h) (\<lambda>_. P) E"
proof -
  have w: "hoare P (upd (\<lambda>s. s\<lparr>x_watchdog := t\<rparr>)) (\<lambda>_. P) E" for t
    by (rule hoare_pre [OF hoare_upd]) (rule frame_same_core, simp_all add: resources_def)
  have hb: "hoare P (run_op A (\<lambda>now r. r\<lparr>r_LastHeartbeat := now\<rparr>)) (\<lambda>_. P) E"
    by (rule run_op_stable) (rule heartbeat_frame)
  have "hoare P (case res of Inl _ \<Rightarrow> ret () | Inr _ \<Rightarrow>
      ebind (run_op A (\<lambda>now r. r\<lparr>r_LastHeartbeat := now\<rparr>)) (\<lambda>_.
      ebind (save_x A) (\<lambda>_. upd (log_event_x (EvRenewed h))))) (\<lambda>_. P) E" for res :: "time result"
    by (cases res) (auto intro!: hoare_ret hoare_ebind [OF _ hb] hoare_ebind [OF _ save_stable] upd_log_stable)
  then show ?thesis
    unfolding startEphemeralWatchdog_def
    by (cases "ad_ExtendWatchdog A")
      (auto intro!: w hoare_ebind [where R = "\<lambda>_. P"] adapter_call_stable [OF assms])
qed

lemma superviseHandle_stable:
  assumes "\<And>s. P s \<Longrightarrow> E s"
  shows "hoare P (superviseHandle A h) (\<lambda>_. P) E"
  unfolding superviseHandle_def
  by (intro hoare_ebind [OF _ startCostSampler_stable] startEphemeralWatchdog_stable assms)

lemma status_call_stable:
  assumes "\<And>s. P s \<Longrightarrow> E s"
  shows "hoare P (status_call A h) (\<lambda>_. P) E"
proof -
  have w: "P (log_event_x (EvStatus c) (s\<lparr>x_world := w\<rparr>))" if "P s" for s c w
    by (rule frame_same_core [OF that]) (simp_all add: log_event_x_def resources_def)
  show ?thesis
    unfolding status_call_def
    by (intro after_interleave) (auto simp: hoare_def Let_def split: prod.splits call.splits intro: w assms)
qed

lemma terminate_call_stable:
  assumes "\<And>s. P s \<Longrightarrow> E s"
  shows "hoare P (terminate_call A h) (\<lambda>_. P) E"
  unfolding terminate_call_def
  by (intro hoare_ebind [OF _ adapter_call_stable] upd_log_stable assms) simp

lemma select_wake_stable: "hoare P (select_wake deadline) (\<lambda>_. P) E"
proof -
  have t: "P (s\<lparr>x_now := t\<rparr>)" if "P s" "x_now s \<le> t" for s t
    by (rule P_frame [OF that(1)]) (use that(2) in \<open>simp add: bg_frame_def resources_def\<close>)
  have p: "P (s\<lparr>x_picks := t\<rparr>)" if "P s" for s t
    by (rule frame_same_core [OF that]) (simp_all add: resources_def)
  show ?thesis
    by (auto simp: hoare_def select_wake_def Let_def statusPollInterval_def duration_units
        split: list.splits bool.splits intro!: t p)
qed

lemma wait_loop_stable:
  assumes "\<And>s. P s \<Longrightarrow> E s"
  shows "hoare P (wait_loop A h d dl fuel errs) (\<lambda>_. P) E"
proof (induction fuel arbitrary: errs)
  case 0
  then show ?case by (simp add: hoare_def)
next
  case (Suc fuel)
  have r: "hoare P (ret x) (\<lambda>_. P) E" for x :: "run_state result" by (rule hoare_ret)
  have d: "hoare P (ebind (terminate_call A h) (\<lambda>_. ret x)) (\<lambda>_. P) E" for x :: "run_state result"
    by (intro hoare_ebind [OF _ terminate_call_stable] r assms)
  have c: "hoare P (ebind (interleave A) (\<lambda>_. ebind (select_wake dl) (\<lambda>wk. case wk of
               WakeCtx \<Rightarrow> ret x | WakeDeadline \<Rightarrow> ebind (terminate_call A h) (\<lambda>_. ret y)
             | WakePoll \<Rightarrow> wait_loop A h d dl fuel n))) (\<lambda>_. P) E" for x y n
    by (intro after_interleave hoare_ebind [OF _ select_wake_stable]) (auto split: wake.split intro: r d Suc)
  show ?case
    unfolding wait_loop.simps Let_def
    by (intro hoare_ebind [OF _ status_call_stable] assms) (auto split: sum.split intro: r c)
qed

lemma waitForTerminal_stable:
  assumes "\<And>s. P s \<Longrightarrow> E s"
  shows "hoare P (waitForTerminal A fuel h d) (\<lambda>_. P) E"
  unfolding waitForTerminal_def
  by (rule hoare_ebind [OF _ hoare_gets]) (intro wait_loop_stable assms)

end


section \<open>The invariant\<close>

fun provision_event :: "exec_event \<Rightarrow> bool" where
  "provision_event (EvExecuted h) = True"
| "provision_event EvExecuteFailed = True"
| "provision_event EvExecutePanicked = True"
| "provision_event ev = False"

definition provisions :: "'w exec_state \<Rightarrow> nat" where
  "provisions s = length (filter provision_event (resources s))"

text \<open>Every handle the adapter returned is torn down, was torn down for the retry, or is the run's.\<close>

definition accounted :: "'w exec_state \<Rightarrow> bool" where
  "accounted s \<longleftrightarrow> (\<forall>h. EvExecuted h \<in> set (resources s) \<longrightarrow>
     EvCleanup h True \<in> set (resources s) \<or> EvRetryCleanup h \<in> set (resources s) \<or> r_Handle (x_run s) = Some h)"

definition approved :: "run \<Rightarrow> bool" where
  "approved r \<longleftrightarrow> (\<exists>p. r_Plan r = Some p \<and> (pl_RequiredApprovals p = [] \<or>
     (\<exists>rec. r_Approval r = Some rec \<and> apr_Decision rec = DecisionApproved)))"

definition exec_inv :: "'w exec_state \<Rightarrow> bool" where
  "exec_inv s \<longleftrightarrow> accounted s \<and> (provisions s = 0 \<or> approved (x_run s)) \<and>
     (r_State (x_run s) = RunStateCompleted \<longrightarrow> r_Handle (x_run s) = None) \<and>
     0 \<le> r_RetryCount (x_run s) \<and> r_RetryCount (x_run s) \<le> 1 \<and>
     int (provisions s) \<le> 1 + r_RetryCount (x_run s)"

definition same_core :: "run \<Rightarrow> run \<Rightarrow> bool" where
  "same_core r r' \<longleftrightarrow> r_Plan r' = r_Plan r \<and> r_Handle r' = r_Handle r \<and> r_Approval r' = r_Approval r \<and>
     r_RetryCount r' = r_RetryCount r"

lemma exec_inv_core:
  assumes "exec_inv s" "same_core (x_run s) (x_run s')" "resources s' = resources s"
    and "r_State (x_run s') = RunStateCompleted \<longrightarrow> r_State (x_run s) = RunStateCompleted \<or> r_Handle (x_run s) = None"
  shows "exec_inv s'"
  using assms by (auto simp: exec_inv_def same_core_def accounted_def approved_def provisions_def)

lemma exec_inv_frame: "exec_inv s \<Longrightarrow> bg_frame s s' \<Longrightarrow> exec_inv s'"
  by (rule exec_inv_core) (auto simp: bg_frame_def same_core_def)

interpretation inv: bg_stable exec_inv
  by unfold_locales (rule exec_inv_frame)

text \<open>The run is supervised: running, or killed for its budget; with the handle \<open>ho\<close>.\<close>

definition active :: "run_state \<Rightarrow> bool" where
  "active st \<longleftrightarrow> st = RunStateRunning \<or> st = RunStateBudgetExceeded"

definition live_with :: "run_handle option \<Rightarrow> 'w exec_state \<Rightarrow> bool" where
  "live_with ho s \<longleftrightarrow> exec_inv s \<and> approved (x_run s) \<and> active (r_State (x_run s)) \<and> r_Handle (x_run s) = ho"

lemma approved_frame: "approved (x_run s) \<Longrightarrow> bg_frame s s' \<Longrightarrow> approved (x_run s')"
  by (simp add: approved_def bg_frame_def)

interpretation live: bg_stable "live_with ho" for ho
  by unfold_locales (auto simp: live_with_def active_def exec_inv_frame approved_frame, auto simp: bg_frame_def)

text \<open>The run is being closed: its state is terminal, or such that cleaning up makes it so.\<close>

definition closing :: "bool \<Rightarrow> run_handle option \<Rightarrow> 'w exec_state \<Rightarrow> bool" where
  "closing b ho s \<longleftrightarrow> exec_inv s \<and> r_Handle (x_run s) = ho \<and>
     (b \<longrightarrow> IsTerminal (r_State (x_run s)) \<or> r_State (x_run s) = RunStateReconcilingCost \<or>
        r_State (x_run s) = RunStateCleaningUp)"

definition cleaning :: "bool \<Rightarrow> run_handle option \<Rightarrow> 'w exec_state \<Rightarrow> bool" where
  "cleaning b ho s \<longleftrightarrow> exec_inv s \<and> r_Handle (x_run s) = ho \<and>
     (b \<longrightarrow> IsTerminal (r_State (x_run s)) \<or> r_State (x_run s) = RunStateCleaningUp)"

definition torn_down :: "run_handle \<Rightarrow> 'w exec_state \<Rightarrow> bool" where
  "torn_down h s \<longleftrightarrow> EvCleanup h True \<in> set (resources s)"

definition cleaned :: "bool \<Rightarrow> 'w exec_state \<Rightarrow> bool" where
  "cleaned b s \<longleftrightarrow> exec_inv s \<and> (r_Handle (x_run s) = None \<or> r_CleanupError (x_run s) \<noteq> '''') \<and>
     (b \<longrightarrow> IsTerminal (r_State (x_run s)))"

interpretation closing: bg_stable "closing b ho" for b ho
  by unfold_locales (auto simp: closing_def exec_inv_frame, auto simp: bg_frame_def)

interpretation cleaning: bg_stable "cleaning b ho" for b ho
  by unfold_locales (auto simp: cleaning_def exec_inv_frame, auto simp: bg_frame_def)

interpretation cleaned: bg_stable "cleaned b" for b
  by unfold_locales (auto simp: cleaned_def exec_inv_frame, auto simp: bg_frame_def)

section \<open>Transitions and errors\<close>

lemma Transition_cases:
  assumes "Transition to now r = (r', res)"
  obtains (ok) "res = Inr ()" "r_State r' = to" "\<not> IsTerminal (r_State r)" "isValidTransition (r_State r) to"
      "same_core r r'" "r_CleanupError r' = r_CleanupError r" "r_ID r' = r_ID r" "r_Lifecycle r' = r_Lifecycle r"
    | (no) e where "res = Inl e" "r' = r" "IsTerminal (r_State r) \<or> \<not> isValidTransition (r_State r) to"
  using assms by (auto simp: Transition_def same_core_def split: if_splits)

lemma SetError_state: "IsTerminal st \<Longrightarrow> IsTerminal (r_State (SetError st e now r))"
  by (simp add: SetError_def)

lemma SetError_core [simp]:
  "same_core r (SetError st e now r)" "r_CleanupError (SetError st e now r) = r_CleanupError r"
  "r_ID (SetError st e now r) = r_ID r" "r_Lifecycle (SetError st e now r) = r_Lifecycle r"
  by (simp_all add: SetError_def same_core_def)

lemma same_core_refl [simp]: "same_core r r"
  by (simp add: same_core_def)

lemma exec_inv_on_run:
  assumes "exec_inv s" "same_core (x_run s) (f (x_run s))"
    and "r_State (f (x_run s)) = RunStateCompleted \<longrightarrow> r_State (x_run s) = RunStateCompleted"
  shows "exec_inv (on_run f s)"
  by (rule exec_inv_core [OF assms(1)]) (use assms in \<open>auto simp: on_run_def resources_def\<close>)

lemma SetError_inv:
  "exec_inv s \<Longrightarrow> st \<noteq> RunStateCompleted \<Longrightarrow> exec_inv (on_run (SetError st e now) s)"
  by (rule exec_inv_on_run) (auto simp: SetError_def same_core_def)

lemma exec_inv_transition:
  assumes "exec_inv s" "Transition to now (x_run s) = (r', res)" "to \<noteq> RunStateCompleted \<or> r_Handle (x_run s) = None"
  shows "exec_inv (s\<lparr>x_run := r'\<rparr>)"
  using assms(2)
proof (cases rule: Transition_cases)
  case ok
  then show ?thesis
    using assms(3) by (intro exec_inv_core [OF assms(1)]) (auto simp: resources_def)
next
  case (no e)
  then show ?thesis using assms(1) by (simp add: exec_inv_core [OF assms(1)] resources_def)
qed


section \<open>Cleanup\<close>

lemma resources_log:
  "resources (log_event_x ev s) = (if resource_event ev then resources s @ [ev] else resources s)"
  by (simp add: resources_def log_event_x_def)

lemma log_event_x_run [simp]: "x_run (log_event_x ev s) = x_run s"
  by (simp add: log_event_x_def)

lemma on_run_resources [simp]: "resources (on_run f s) = resources s" "x_run (on_run f s) = f (x_run s)"
  by (simp_all add: on_run_def resources_def)

lemma exec_inv_log_cleanup: "exec_inv s \<Longrightarrow> exec_inv (log_event_x (EvCleanup h ok) s)"
  by (auto simp: exec_inv_def accounted_def provisions_def resources_log)

lemma cleanup_call_spec:
  "hoare (cleaning b (Some h)) (cleanup_call A h) (\<lambda>ok s. cleaning b (Some h) s \<and> (ok \<longrightarrow> torn_down h s)) exec_inv"
proof -
  have c: "hoare (cleaning b (Some h)) (on_panic (EvCleanupPanicked h) (adapter_call A (\<lambda>_. ad_Cleanup A h)))
      (\<lambda>_. cleaning b (Some h)) exec_inv"
    by (rule hoare_on_panic [OF cleaning.adapter_call_stable])
      (auto simp: cleaning_def intro: inv.log_other_frame)
  have l: "hoare (cleaning b (Some h)) (ebind (upd (log_event_x (EvCleanup h ok))) (\<lambda>_. ret ok))
      (\<lambda>ok s. cleaning b (Some h) s \<and> (ok \<longrightarrow> torn_down h s)) exec_inv" for ok
    by (rule hoare_pre [OF hoare_ebind [OF hoare_ret hoare_upd]])
      (auto simp: cleaning_def torn_down_def exec_inv_log_cleanup resources_log)
  show ?thesis
    unfolding cleanup_call_def Let_def by (rule hoare_ebind [OF l c])
qed

lemma drop_handle:
  "cleaning b (Some h) s \<Longrightarrow> torn_down h s \<Longrightarrow> cleaning b None (on_run (\<lambda>r. r\<lparr>r_Handle := None\<rparr>) s)"
  by (auto simp: cleaning_def torn_down_def exec_inv_def accounted_def approved_def provisions_def)

lemma completed_spec:
  "hoare (cleaning b None) (transition_x A RunStateCompleted) (\<lambda>_. cleaned b) exec_inv"
proof (rule cleaning.transition_stable)
  fix s :: "'a exec_state" and r' res
  assume c: "cleaning b None s" and t: "Transition RunStateCompleted (x_now s) (x_run s) = (r', res)"
  have "exec_inv (s\<lparr>x_run := r'\<rparr>)" using exec_inv_transition [OF _ t] c by (simp add: cleaning_def)
  with t show "cleaned b (s\<lparr>x_run := r'\<rparr>)"
    by (cases rule: Transition_cases)
      (use c in \<open>auto simp: cleaned_def cleaning_def same_core_def isValidTransition_def validTransitions_def\<close>)
qed

lemma start_cleaning_spec:
  "hoare (closing b ho) (transition_x A RunStateCleaningUp) (\<lambda>_. cleaning b ho) exec_inv"
proof (rule closing.transition_stable)
  fix s :: "'a exec_state" and r' res
  assume c: "closing b ho s" and t: "Transition RunStateCleaningUp (x_now s) (x_run s) = (r', res)"
  have "exec_inv (s\<lparr>x_run := r'\<rparr>)" using exec_inv_transition [OF _ t] c by (simp add: closing_def)
  with t show "cleaning b ho (s\<lparr>x_run := r'\<rparr>)"
    by (cases rule: Transition_cases)
      (use c in \<open>auto simp: closing_def cleaning_def same_core_def isValidTransition_def validTransitions_def\<close>)
qed

lemma cleaning_closing: "cleaning b ho s \<Longrightarrow> closing b ho s"
  by (auto simp: cleaning_def closing_def)

definition cleanup_recorded :: "'w exec_state \<Rightarrow> bool" where
  "cleanup_recorded s \<longleftrightarrow> exec_inv s \<and> r_CleanupError (x_run s) \<noteq> ''''"

interpretation recorded: bg_stable cleanup_recorded
  by unfold_locales (auto simp: cleanup_recorded_def exec_inv_frame, auto simp: bg_frame_def)

lemma give_up_spec: "hoare exec_inv (cleanup_tries A h 0) (\<lambda>_. cleaned b) exec_inv"
proof -
  have m: "hoare exec_inv (run_op A (\<lambda>_. setCleanupError cleanup_failed_msg)) (\<lambda>_. cleanup_recorded) exec_inv"
    by (rule inv.run_op_stable)
      (auto simp: cleanup_recorded_def cleanup_failed_msg_def setCleanupError_def same_core_def intro!: exec_inv_on_run)
  have e: "hoare cleanup_recorded (run_op A (\<lambda>now. SetError RunStateCleanupFailed cleanup_failed_msg now)) (\<lambda>_. cleaned b) exec_inv"
    by (rule recorded.run_op_stable)
      (auto simp: cleaned_def cleanup_recorded_def intro!: SetError_inv SetError_state)
  show ?thesis unfolding cleanup_tries.simps by (rule hoare_ebind [OF e m])
qed

lemma cleanup_tries_spec: "hoare (closing b (Some h)) (cleanup_tries A h n) (\<lambda>_. cleaned b) exec_inv"
proof (induction n)
  case 0
  show ?case by (rule hoare_pre [OF give_up_spec]) (simp add: closing_def)
next
  case (Suc n)
  have d: "hoare (\<lambda>s. cleaning b (Some h) s \<and> torn_down h s) (upd (on_run (\<lambda>r. r\<lparr>r_Handle := None\<rparr>))) (\<lambda>_. cleaning b None) exec_inv"
    by (rule hoare_pre [OF hoare_upd]) (auto intro: drop_handle)
  have r: "hoare (cleaned b) (ret ()) (\<lambda>_. cleaned b) exec_inv" by (rule hoare_ret)
  have s: "hoare (\<lambda>s. cleaning b (Some h) s \<and> torn_down h s)
      (ebind (upd (on_run (\<lambda>r. r\<lparr>r_Handle := None\<rparr>))) (\<lambda>_. ebind (transition_x A RunStateCompleted) (\<lambda>_. ret ())))
      (\<lambda>_. cleaned b) exec_inv"
    by (rule hoare_ebind [OF _ d]) (rule hoare_ebind [OF r completed_spec])
  have f: "hoare (cleaning b (Some h)) (cleanup_tries A h n) (\<lambda>_. cleaned b) exec_inv"
    by (rule hoare_pre [OF Suc]) (rule cleaning_closing)
  have "hoare (\<lambda>s. cleaning b (Some h) s \<and> (ok \<longrightarrow> torn_down h s))
      (if ok then ebind (upd (on_run (\<lambda>r. r\<lparr>r_Handle := None\<rparr>))) (\<lambda>_. ebind (transition_x A RunStateCompleted) (\<lambda>_. ret ()))
       else cleanup_tries A h n) (\<lambda>_. cleaned b) exec_inv" for ok
    using s f by (cases ok) (auto intro: hoare_pre)
  then show ?case
    unfolding cleanup_tries.simps
    by (rule hoare_ebind [OF hoare_ebind [OF _ cleanup_call_spec] start_cleaning_spec])
qed

definition none_left :: "bool \<Rightarrow> 'w exec_state \<Rightarrow> bool" where
  "none_left b s \<longleftrightarrow> exec_inv s \<and> r_Handle (x_run s) = None \<and> (b \<longrightarrow> IsTerminal (r_State (x_run s)))"

interpretation none_left: bg_stable "none_left b" for b
  by unfold_locales (auto simp: none_left_def exec_inv_frame, auto simp: bg_frame_def)

text \<open>
  After \<^verbatim>\<open>attemptCleanup\<close> the handle is gone or the failure is on the record; and a run whose state
  allows it is then terminal.
\<close>

lemma attemptCleanup_none: "hoare (none_left b) (attemptCleanup A) (\<lambda>_. cleaned b) exec_inv"
proof -
  have rd: "hoare (none_left b) (read_run A r_Handle) (\<lambda>ho s. ho = None \<and> none_left b s) exec_inv"
    by (rule none_left.read_run_stable) (simp add: none_left_def)
  show ?thesis
    unfolding attemptCleanup_def
    by (rule hoare_ebind [OF _ rd])
      (auto simp: hoare_def ret_def none_left_def cleaned_def split: option.split)
qed

lemma attemptCleanup_some: "hoare (closing b (Some h)) (attemptCleanup A) (\<lambda>_. cleaned b) exec_inv"
proof -
  have rd: "hoare (closing b (Some h)) (read_run A r_Handle) (\<lambda>ho s. ho = Some h \<and> closing b (Some h) s) exec_inv"
    by (rule closing.read_run_stable) (simp add: closing_def)
  have st: "hoare (closing b (Some h)) (read_run A GetState) (\<lambda>st s. st \<noteq> RunStateCompleted \<and> closing b (Some h) s) exec_inv"
    by (rule closing.read_run_stable) (auto simp: closing_def exec_inv_def GetState_def)
  have k: "hoare (\<lambda>s. st \<noteq> RunStateCompleted \<and> closing b (Some h) s)
      (if st = RunStateCompleted then ret () else cleanup_tries A h 3) (\<lambda>_. cleaned b) exec_inv" for st
    by (rule hoare_assume) (simp add: cleanup_tries_spec)
  have c: "hoare (closing b (Some h)) (ebind (read_run A GetState) (\<lambda>st.
      if st = RunStateCompleted then ret () else cleanup_tries A h 3)) (\<lambda>_. cleaned b) exec_inv"
    by (rule hoare_ebind [OF k st])
  have "hoare (\<lambda>s. ho = Some h \<and> closing b (Some h) s) (case ho of None \<Rightarrow> ret () | Some h \<Rightarrow>
      ebind (read_run A GetState) (\<lambda>st. if st = RunStateCompleted then ret () else cleanup_tries A h 3))
      (\<lambda>_. cleaned b) exec_inv" for ho
    by (rule hoare_assume) (simp add: c)
  then show ?thesis unfolding attemptCleanup_def by (rule hoare_ebind [OF _ rd])
qed

text \<open>From any state of the invariant: without a claim on the final state, or with one on a terminal run.\<close>

definition settled :: "bool \<Rightarrow> 'w exec_state \<Rightarrow> bool" where
  "settled b s \<longleftrightarrow> exec_inv s \<and> (b \<longrightarrow> IsTerminal (r_State (x_run s)))"

interpretation settled: bg_stable "settled b" for b
  by unfold_locales (auto simp: settled_def exec_inv_frame, auto simp: bg_frame_def)

lemma attemptCleanup_settled: "hoare (settled b) (attemptCleanup A) (\<lambda>_. cleaned b) exec_inv"
proof (rule hoare_pre_cases)
  fix s :: "'a exec_state"
  assume "settled b s"
  then have "none_left b s \<or> (\<exists>h. closing b (Some h) s)"
    by (cases "r_Handle (x_run s)") (auto simp: none_left_def closing_def settled_def)
  then show "\<exists>P'. P' s \<and> hoare P' (attemptCleanup A) (\<lambda>_. cleaned b) exec_inv"
    using attemptCleanup_none attemptCleanup_some by blast
qed

text \<open>
  The cleanup of a run that is already terminal: a panic that leaves it is one of \<^verbatim>\<open>Cleanup\<close>, the
  run is still terminal and still has the handle, and the panicking call is the last event.
\<close>

definition terminal_with :: "run_handle \<Rightarrow> 'w exec_state \<Rightarrow> bool" where
  "terminal_with h s \<longleftrightarrow> exec_inv s \<and> IsTerminal (r_State (x_run s)) \<and> r_Handle (x_run s) = Some h"

interpretation terminal: bg_stable "terminal_with h" for h
  by unfold_locales (auto simp: terminal_with_def exec_inv_frame, auto simp: bg_frame_def)

definition cleanup_panicked :: "'w exec_state \<Rightarrow> bool" where
  "cleanup_panicked s \<longleftrightarrow> (\<exists>h tr. terminal_with h s \<and> x_trace s = tr @ [EvCleanupPanicked h])"

lemma terminal_transition: "hoare (terminal_with h) (transition_x A to) (\<lambda>_. terminal_with h) E"
  by (rule terminal.transition_stable) (auto simp: terminal_with_def Transition_def)

lemma cleanup_call_panic: "hoare (terminal_with h) (cleanup_call A h) (\<lambda>_. terminal_with h) cleanup_panicked"
proof -
  have c: "hoare (terminal_with h) (on_panic (EvCleanupPanicked h) (adapter_call A (\<lambda>_. ad_Cleanup A h)))
      (\<lambda>_. terminal_with h) cleanup_panicked"
    by (rule hoare_on_panic [OF terminal.adapter_call_stable])
      (auto simp: cleanup_panicked_def log_event_x_def intro: terminal.log_other_frame [unfolded log_event_x_def])
  have l: "hoare (terminal_with h) (ebind (upd (log_event_x (EvCleanup h ok))) (\<lambda>_. ret ok))
      (\<lambda>_. terminal_with h) cleanup_panicked" for ok
    by (rule hoare_pre [OF hoare_ebind [OF hoare_ret hoare_upd]])
      (auto simp: terminal_with_def exec_inv_log_cleanup)
  show ?thesis
    unfolding cleanup_call_def Let_def by (rule hoare_ebind [OF l c])
qed

interpretation anything: bg_stable "\<lambda>_. True"
  by unfold_locales simp

lemma cleanup_tries_panic: "hoare (terminal_with h) (cleanup_tries A h n) (\<lambda>_ _. True) cleanup_panicked"
proof (induction n)
  case 0
  have "hoare (\<lambda>_. True) (run_op A f) (\<lambda>_ _. True) cleanup_panicked" for f
    by (rule anything.run_op_stable) simp
  then show ?case
    unfolding cleanup_tries.simps by (intro hoare_pre [OF hoare_ebind]) auto
next
  case (Suc n)
  have t: "hoare (\<lambda>_. True) (transition_x A to) (\<lambda>_ _. True) cleanup_panicked" for to
    by (rule anything.transition_stable) simp
  have d: "hoare (terminal_with h) (ebind (upd (on_run (\<lambda>r. r\<lparr>r_Handle := None\<rparr>)))
      (\<lambda>_. ebind (transition_x A RunStateCompleted) (\<lambda>_. ret ()))) (\<lambda>_ _. True) cleanup_panicked"
    by (rule hoare_pre [OF hoare_ebind [OF hoare_ebind [OF hoare_ret_same t] hoare_upd]]) simp
  have "hoare (terminal_with h)
      (if ok then ebind (upd (on_run (\<lambda>r. r\<lparr>r_Handle := None\<rparr>))) (\<lambda>_. ebind (transition_x A RunStateCompleted) (\<lambda>_. ret ()))
       else cleanup_tries A h n) (\<lambda>_ _. True) cleanup_panicked" for ok
    using d Suc by (cases ok) auto
  then show ?case
    unfolding cleanup_tries.simps
    by (rule hoare_ebind [OF hoare_ebind [OF _ cleanup_call_panic] terminal_transition])
qed

lemma attemptCleanup_panic: "hoare (settled True) (attemptCleanup A) (\<lambda>_ _. True) cleanup_panicked"
proof -
  have rd: "hoare (settled True) (read_run A r_Handle)
      (\<lambda>ho s. (case ho of None \<Rightarrow> True | Some h \<Rightarrow> terminal_with h s)) cleanup_panicked"
    by (rule settled.read_run_stable) (simp add: settled_def terminal_with_def split: option.split)
  have st: "hoare (terminal_with h) (read_run A GetState) (\<lambda>_. terminal_with h) cleanup_panicked" for h
    by (rule terminal.read_run_stable)
  have "hoare (terminal_with h) (if st = RunStateCompleted then ret () else cleanup_tries A h 3) (\<lambda>_ _. True) cleanup_panicked"
    for h st using cleanup_tries_panic [of h A 3] by (auto simp: hoare_def ret_def)
  note some = hoare_ebind [OF this st]
  show ?thesis
    unfolding attemptCleanup_def
    by (rule hoare_ebind [OF _ rd]) (auto simp: hoare_ret split: option.split intro: some hoare_pre [OF hoare_ret])
qed

section \<open>Quiet operations\<close>

context bg_stable
begin

lemma upd_quiet: "(\<And>s :: 'w exec_state. bg_frame s (f s)) \<Longrightarrow> hoare P (upd f) (\<lambda>_. P) E"
  by (rule hoare_pre [OF hoare_upd]) (rule P_frame)

lemma run_op_quiet:
  assumes "\<And>(s :: 'w exec_state) now. bg_frame s (on_run (f now) s)"
  shows "hoare P (run_op A f) (\<lambda>_. P) E"
  by (rule run_op_stable) (erule P_frame, rule assms)

lemma persist_handle_stable: "hoare P (persist_handle_x A) (\<lambda>_. P) E"
proof -
  have "r_Approval (fst (PersistHandle r)) = r_Approval r" for r
    by (auto simp: PersistHandle_def Let_def split: option.split handle_state.split sum.split)
  then show ?thesis
    unfolding persist_handle_x_def
    by (intro run_op_quiet) (simp add: bg_frame_def, simp add: on_run_def)
qed

lemma report_failure_stable: "hoare P (report_failure A h) (\<lambda>_. P) E"
proof (cases "ad_FailureDetails A")
  case None
  then show ?thesis by (simp add: report_failure_def hoare_ret)
next
  case (Some fd)
  have "hoare P (run_op A (\<lambda>_. setFailure x)) (\<lambda>_. P) E" for x
    by (rule run_op_quiet) (simp add: bg_frame_def setFailure_def, simp add: on_run_def)
  then show ?thesis
    unfolding report_failure_def Some option.case by (rule hoare_ebind [OF _ hoare_gets])
qed

lemma finalize_cost_stable: "hoare P (run_op A FinalizeCost) (\<lambda>_. P) E"
  by (rule run_op_quiet) (simp add: bg_frame_def FinalizeCost_def setCost_def, simp add: on_run_def)

lemma set_artifacts_stable: "hoare P (upd (on_run (\<lambda>r. r\<lparr>r_Artifacts := xs\<rparr>))) (\<lambda>_. P) E"
  by (rule upd_quiet) (simp add: bg_frame_def, simp add: on_run_def)

lemma collect_tries_stable:
  assumes "\<And>s. P s \<Longrightarrow> E s"
  shows "hoare P (collect_tries A h n) (\<lambda>_. P) E"
proof (induction n)
  case 0
  show ?case by (simp add: hoare_ret)
next
  case (Suc n)
  have r: "hoare P (ret x) (\<lambda>_. P) E" for x :: bool by (rule hoare_ret)
  have a: "hoare P (ebind (upd (on_run (\<lambda>r. r\<lparr>r_Artifacts := xs\<rparr>))) (\<lambda>_. ret True)) (\<lambda>_. P) E" for xs
    by (rule hoare_ebind [OF r set_artifacts_stable])
  have g: "hoare P (ebind (gets x_ctx_done) (\<lambda>done. if done then ret False else collect_tries A h n)) (\<lambda>_. P) E"
    by (rule hoare_ebind [OF _ hoare_gets]) (simp add: r Suc)
  show ?case
    unfolding collect_tries.simps
    by (rule hoare_ebind [OF _ adapter_call_stable [OF assms]])
      (auto split: sum.split intro: r a after_interleave g)
qed

end

section \<open>Artifacts and the end of the ephemeral run\<close>

definition collecting :: "run_handle option \<Rightarrow> 'w exec_state \<Rightarrow> bool" where
  "collecting ho s \<longleftrightarrow> exec_inv s \<and> r_Handle (x_run s) = ho \<and> r_State (x_run s) = RunStateCollectingArtifacts"

definition killed :: "'w exec_state \<Rightarrow> bool" where
  "killed s \<longleftrightarrow> exec_inv s \<and> r_State (x_run s) = RunStateBudgetExceeded"

interpretation collecting: bg_stable "collecting ho" for ho
  by unfold_locales (auto simp: collecting_def exec_inv_frame, auto simp: bg_frame_def)

interpretation killed: bg_stable killed
  by unfold_locales (auto simp: killed_def exec_inv_frame, auto simp: bg_frame_def)

lemma collecting_inv: "collecting ho s \<Longrightarrow> exec_inv s"
  by (simp add: collecting_def)

lemma start_collecting_spec:
  "hoare (live_with ho) (transition_x A RunStateCollectingArtifacts)
     (\<lambda>res s. case res of Inl _ \<Rightarrow> killed s | Inr _ \<Rightarrow> collecting ho s) exec_inv"
proof (rule live.transition_stable)
  fix s :: "'a exec_state" and r' res
  assume c: "live_with ho s" and t: "Transition RunStateCollectingArtifacts (x_now s) (x_run s) = (r', res)"
  have "exec_inv (s\<lparr>x_run := r'\<rparr>)" using exec_inv_transition [OF _ t] c by (simp add: live_with_def)
  with t show "case res of Inl _ \<Rightarrow> killed (s\<lparr>x_run := r'\<rparr>) | Inr _ \<Rightarrow> collecting ho (s\<lparr>x_run := r'\<rparr>)"
    by (cases rule: Transition_cases)
      (use c in \<open>auto simp: live_with_def active_def killed_def collecting_def same_core_def
        isValidTransition_def validTransitions_def\<close>)
qed

lemma collectArtifacts_live:
  "hoare (live_with ho) (collectArtifacts A (Some h))
     (\<lambda>ok s. (ok \<longrightarrow> collecting ho s) \<and> (collecting ho s \<or> killed s)) exec_inv"
proof -
  have "hoare (collecting ho) (collect_tries A h n) (\<lambda>ok s. (ok \<longrightarrow> collecting ho s) \<and> (collecting ho s \<or> killed s)) exec_inv"
    for n
    by (rule hoare_conseq [OF collecting.collect_tries_stable]) (auto simp: collecting_inv)
  moreover have "hoare killed (ret False) (\<lambda>ok s. (ok \<longrightarrow> collecting ho s) \<and> (collecting ho s \<or> killed s)) exec_inv"
    by (rule hoare_pre [OF hoare_ret]) simp
  ultimately show ?thesis
    unfolding collectArtifacts_def option.case
    by (intro hoare_ebind [OF _ start_collecting_spec]) (auto split: sum.split)
qed

lemma collectArtifacts_inv: "hoare exec_inv (collectArtifacts A ho) (\<lambda>_. exec_inv) exec_inv"
proof (cases ho)
  case None
  then show ?thesis by (simp add: collectArtifacts_def hoare_ret)
next
  case (Some h)
  have t: "hoare exec_inv (transition_x A RunStateCollectingArtifacts) (\<lambda>_. exec_inv) exec_inv"
    by (rule inv.transition_stable) (auto intro: exec_inv_transition)
  show ?thesis
    unfolding collectArtifacts_def Some option.case
    by (rule hoare_ebind [OF _ t]) (auto split: sum.split intro: hoare_ret inv.collect_tries_stable)
qed

definition disposed :: "'w exec_state \<Rightarrow> bool" where
  "disposed s \<longleftrightarrow> exec_inv s \<and> IsTerminal (r_State (x_run s)) \<and>
     (r_Handle (x_run s) = None \<or> r_CleanupError (x_run s) \<noteq> '''' \<or>
      r_State (x_run s) = RunStateArtifactFailed \<or> r_State (x_run s) = RunStateBudgetExceeded)"

interpretation disposed: bg_stable disposed
  by unfold_locales (auto simp: disposed_def exec_inv_frame, auto simp: bg_frame_def)

lemma cleaned_disposed: "cleaned True s \<Longrightarrow> disposed s"
  by (auto simp: cleaned_def disposed_def)

lemma fail_execution_spec:
  "hoare exec_inv (fail_execution A ho err msg) (\<lambda>(done, res) s. \<not> done \<and> settled True s) exec_inv"
proof -
  have e: "hoare exec_inv (run_op A (\<lambda>now. SetError RunStateExecutionFailed err now)) (\<lambda>_. settled True) exec_inv"
    by (rule inv.run_op_stable) (auto simp: settled_def intro!: SetError_inv SetError_state)
  have r: "hoare (settled True) (ret (False, Inl msg)) (\<lambda>(done, res) s. \<not> done \<and> settled True s) exec_inv"
    by (rule hoare_pre [OF hoare_ret]) simp
  show ?thesis
    unfolding fail_execution_def by (rule hoare_ebind [OF hoare_ebind [OF r e] collectArtifacts_inv])
qed


lemma ephemeral_success_spec:
  "hoare (live_with (Some h')) (ephemeral_success A (Some h)) (\<lambda>(done, res) s. done \<and> disposed s) exec_inv"
proof -
  let ?Q = "\<lambda>(done, res :: unit result) s. done \<and> disposed s"
  have r: "hoare disposed (ret (True, res)) ?Q exec_inv" for res
    by (rule hoare_pre [OF hoare_ret]) simp
  have art: "hoare (collecting ho) (transition_x A RunStateArtifactFailed) (\<lambda>_. disposed) exec_inv" for ho
  proof (rule collecting.transition_stable)
    fix s :: "'a exec_state" and r' res
    assume c: "collecting ho s" and t: "Transition RunStateArtifactFailed (x_now s) (x_run s) = (r', res)"
    have "exec_inv (s\<lparr>x_run := r'\<rparr>)" using exec_inv_transition [OF _ t] c by (simp add: collecting_def)
    with t show "disposed (s\<lparr>x_run := r'\<rparr>)"
      by (cases rule: Transition_cases)
        (use c in \<open>auto simp: collecting_def disposed_def isValidTransition_def validTransitions_def\<close>)
  qed
  have kil: "hoare killed (transition_x A RunStateArtifactFailed) (\<lambda>_. disposed) exec_inv"
  proof (rule killed.transition_stable)
    fix s :: "'a exec_state" and r' res
    assume c: "killed s" and t: "Transition RunStateArtifactFailed (x_now s) (x_run s) = (r', res)"
    have "exec_inv (s\<lparr>x_run := r'\<rparr>)" using exec_inv_transition [OF _ t] c by (simp add: killed_def)
    with t show "disposed (s\<lparr>x_run := r'\<rparr>)"
      by (cases rule: Transition_cases) (use c in \<open>auto simp: killed_def disposed_def\<close>)
  qed
  have lost: "hoare (\<lambda>s. collecting (Some h') s \<or> killed s) (transition_x A RunStateArtifactFailed) (\<lambda>_. disposed) exec_inv"
    by (rule hoare_pre_cases) (use art kil in blast)
  have rid: "hoare disposed (ebind (read_run A r_ID) (\<lambda>i. ret (True, f i))) ?Q exec_inv" for f
    by (rule hoare_ebind [OF r disposed.read_run_stable]) simp
  have lost': "hoare (\<lambda>s. collecting (Some h') s \<or> killed s) (ebind (transition_x A RunStateArtifactFailed) (\<lambda>_.
      ebind (save_x A) (\<lambda>_. ebind (read_run A r_ID) (\<lambda>i. ret (True, f i))))) ?Q exec_inv" for f
    by (rule hoare_ebind [OF hoare_ebind [OF rid disposed.save_stable] lost])
  have rec: "hoare (collecting (Some h')) (transition_x A RunStateReconcilingCost) (\<lambda>_. closing True (Some h')) exec_inv"
  proof (rule collecting.transition_stable)
    fix s :: "'a exec_state" and r' res
    assume c: "collecting (Some h') s" and t: "Transition RunStateReconcilingCost (x_now s) (x_run s) = (r', res)"
    have "exec_inv (s\<lparr>x_run := r'\<rparr>)" using exec_inv_transition [OF _ t] c by (simp add: collecting_def)
    with t show "closing True (Some h') (s\<lparr>x_run := r'\<rparr>)"
      by (cases rule: Transition_cases)
        (use c in \<open>auto simp: collecting_def closing_def same_core_def isValidTransition_def validTransitions_def\<close>)
  qed
  have fin: "hoare (closing True (Some h')) (case res of Inl _ \<Rightarrow> ret () | Inr _ \<Rightarrow> run_op A FinalizeCost)
      (\<lambda>_. closing True (Some h')) exec_inv" for res :: "unit result"
    by (cases res) (auto intro: closing.finalize_cost_stable)
  have cl: "hoare (closing True (Some h')) (attemptCleanup A) (\<lambda>_. disposed) exec_inv"
    by (rule hoare_conseq [OF attemptCleanup_some]) (auto intro: cleaned_disposed)
  have st: "hoare disposed (ebind (read_run A GetState) (\<lambda>st. ret (True, f st))) ?Q exec_inv" for f
    by (rule hoare_ebind [OF r disposed.read_run_stable]) simp
  have ok: "hoare (collecting (Some h')) (ebind (transition_x A RunStateReconcilingCost) (\<lambda>res.
      ebind (case res of Inl _ \<Rightarrow> ret () | Inr _ \<Rightarrow> run_op A FinalizeCost) (\<lambda>_.
      ebind (attemptCleanup A) (\<lambda>_. ebind (save_x A) (\<lambda>_. ebind (read_run A GetState) (\<lambda>st. ret (True, f st))))))) ?Q exec_inv" for f
    by (rule hoare_ebind [OF _ rec])
      (rule hoare_ebind [OF hoare_ebind [OF hoare_ebind [OF st disposed.save_stable] cl] fin])
  show ?thesis
    unfolding ephemeral_success_def
  proof (rule hoare_ebind [OF _ collectArtifacts_live [of "Some h'"]])
    fix collected
    show "hoare (\<lambda>s. (collected \<longrightarrow> collecting (Some h') s) \<and> (collecting (Some h') s \<or> killed s))
      (if \<not> collected then ebind (transition_x A RunStateArtifactFailed) (\<lambda>_. ebind (save_x A) (\<lambda>_.
         ebind (read_run A r_ID) (\<lambda>i. ret (True, Inl (''workload completed but output retrieval failed; VM preserved for recovery (run '' @ i @ '')'')))))
       else ebind (transition_x A RunStateReconcilingCost) (\<lambda>res.
         ebind (case res of Inl _ \<Rightarrow> ret () | Inr _ \<Rightarrow> run_op A FinalizeCost) (\<lambda>_.
         ebind (attemptCleanup A) (\<lambda>_. ebind (save_x A) (\<lambda>_. ebind (read_run A GetState) (\<lambda>st.
         ret (True, if st = RunStateCleanupFailed then Inl ''cleanup failed'' else Inr ()))))))) ?Q exec_inv"
      by (cases collected) (auto intro!: hoare_pre [OF ok] hoare_pre [OF lost'])
  qed
qed


section \<open>Provisioning and the retry\<close>

definition can_provision :: "'w exec_state \<Rightarrow> bool" where
  "can_provision s \<longleftrightarrow> live_with None s \<and> int (provisions s) \<le> r_RetryCount (x_run s)"

lemma can_provision_frame: "can_provision s \<Longrightarrow> bg_frame s s' \<Longrightarrow> can_provision s'"
  using live.P_frame [of None s s'] by (auto simp: can_provision_def bg_frame_def provisions_def)

interpretation can_provision: bg_stable can_provision
  by unfold_locales (rule can_provision_frame)

text \<open>A handle was returned and is not yet the run's.\<close>

definition adopt :: "run_handle \<Rightarrow> 'w exec_state \<Rightarrow> 'w exec_state" where
  "adopt h0 s = on_run (\<lambda>r. r\<lparr>r_Handle := Some (stamped r h0)\<rparr>) s"

definition pending :: "run_handle \<Rightarrow> 'w exec_state \<Rightarrow> bool" where
  "pending h0 s \<longleftrightarrow> live_with (Some (stamped (x_run s) h0)) (adopt h0 s)"

lemma pending_frame: "pending h0 s \<Longrightarrow> bg_frame s s' \<Longrightarrow> pending h0 s'"
  unfolding pending_def
proof -
  assume p: "live_with (Some (stamped (x_run s) h0)) (adopt h0 s)" and f: "bg_frame s s'"
  have "bg_frame (adopt h0 s) (adopt h0 s')"
    using f by (auto simp: bg_frame_def adopt_def stamped_def) (auto simp: on_run_def)
  moreover have "stamped (x_run s') h0 = stamped (x_run s) h0" using f by (simp add: bg_frame_def stamped_def)
  ultimately show "live_with (Some (stamped (x_run s') h0)) (adopt h0 s')" using live.P_frame [OF p] by simp
qed

interpretation pending: bg_stable "pending h0" for h0
  by unfold_locales (rule pending_frame)

lemma live_inv: "live_with ho s \<Longrightarrow> exec_inv s"
  by (simp add: live_with_def)

lemma can_provision_inv: "can_provision s \<Longrightarrow> exec_inv s"
  by (simp add: can_provision_def live_with_def)

lemma execute_call_spec:
  "hoare can_provision (execute_call A c)
     (\<lambda>res s. case res of Inl _ \<Rightarrow> live_with None s | Inr h0 \<Rightarrow> pending h0 s) exec_inv"
proof -
  let ?log = "\<lambda>res s. log_event_x (case res of Inl _ \<Rightarrow> EvExecuteFailed | Inr h \<Rightarrow> EvExecuted (stamped (x_run s) h)) s"
  have l: "case res of Inl _ \<Rightarrow> live_with None (?log res s) | Inr h0 \<Rightarrow> pending h0 (?log res s)"
    if "can_provision s" for res :: "run_handle result" and s :: "'a exec_state"
    using that
    by (cases res) (auto simp: can_provision_def live_with_def pending_def adopt_def exec_inv_def accounted_def
        approved_def provisions_def resources_log stamped_def active_def)
  have u: "hoare can_provision (ebind (upd (?log res)) (\<lambda>_. ret res) :: ('a, run_handle result) exec)
      (\<lambda>res s. case res of Inl _ \<Rightarrow> live_with None s | Inr h0 \<Rightarrow> pending h0 s) exec_inv" for res :: "run_handle result"
    by (rule hoare_pre [OF hoare_ebind [OF hoare_ret hoare_upd]]) (rule l)
  have e: "exec_inv (log_event_x EvExecutePanicked s)" if "can_provision s" for s :: "'a exec_state"
    using that by (auto simp: can_provision_def live_with_def exec_inv_def accounted_def approved_def
        provisions_def resources_log)
  have p: "hoare (\<lambda>s. can_provision s \<and> r_Plan (x_run s) = Some p)
      (on_panic EvExecutePanicked (adapter_call A (\<lambda>s. ad_Execute A (c s) p))) (\<lambda>_. can_provision) exec_inv" for p
    by (rule hoare_pre [OF hoare_on_panic [OF can_provision.adapter_call_stable]]) (auto intro: e)
  show ?thesis
    unfolding execute_call_def
    by (rule hoare_with_plan) (rule hoare_ebind [OF u p], rule can_provision_inv)
qed

lemma set_handle_spec:
  "hoare (\<lambda>s. pending h0 s \<and> h = stamped (x_run s) h0) (set_handle h0) (\<lambda>_. live_with (Some h)) E"
  unfolding set_handle_def by (rule hoare_pre [OF hoare_upd]) (simp add: pending_def adopt_def)

definition retrying :: "run_handle option \<Rightarrow> 'w exec_state \<Rightarrow> bool" where
  "retrying ho s \<longleftrightarrow> live_with ho s \<and> int (provisions s) \<le> r_RetryCount (x_run s)"

lemma retrying_frame: "retrying ho s \<Longrightarrow> bg_frame s s' \<Longrightarrow> retrying ho s'"
  using live.P_frame [of ho s s'] by (auto simp: retrying_def bg_frame_def provisions_def)

interpretation retrying: bg_stable "retrying ho" for ho
  by unfold_locales (rule retrying_frame)

definition first_failed :: "run_handle \<Rightarrow> 'w exec_state \<Rightarrow> bool" where
  "first_failed h s \<longleftrightarrow> live_with (Some h) s \<and> r_RetryCount (x_run s) = 0"

lemma first_failed_frame: "first_failed h s \<Longrightarrow> bg_frame s s' \<Longrightarrow> first_failed h s'"
  using live.P_frame [of "Some h" s s'] by (auto simp: first_failed_def bg_frame_def)

interpretation first_failed: bg_stable "first_failed h" for h
  by unfold_locales (rule first_failed_frame)

lemma begin_retry_spec:
  "hoare (first_failed h) (run_op A (\<lambda>_. beginRetry)) (\<lambda>_. retrying (Some h)) exec_inv"
  by (rule first_failed.run_op_stable)
    (auto simp: first_failed_def retrying_def live_with_def exec_inv_def beginRetry_def accounted_def
      approved_def provisions_def)

lemma retry_cleanup_spec:
  "hoare (retrying (Some h)) (retry_cleanup A) (\<lambda>_. can_provision) exec_inv"
proof -
  have rd: "hoare (retrying (Some h)) (read_run A r_Handle) (\<lambda>ho s. ho = Some h \<and> retrying (Some h) s) exec_inv"
    by (rule retrying.read_run_stable) (simp add: retrying_def live_with_def)
  have c: "hoare (retrying (Some h)) (adapter_call A (\<lambda>_. ad_Cleanup A h)) (\<lambda>_. retrying (Some h)) exec_inv"
    by (rule retrying.adapter_call_stable) (simp add: retrying_def live_with_def)
  have d: "hoare (retrying (Some h)) (ebind (upd (log_event_x (EvRetryCleanup h))) (\<lambda>_.
      upd (on_run (\<lambda>r. r\<lparr>r_Handle := None\<rparr>)))) (\<lambda>_. can_provision) exec_inv"
    by (rule hoare_pre [OF hoare_ebind [OF hoare_upd hoare_upd]])
      (auto simp: retrying_def can_provision_def live_with_def exec_inv_def accounted_def approved_def
        provisions_def resources_log)
  show ?thesis
    unfolding retry_cleanup_def
    by (rule hoare_ebind [OF _ rd], rule hoare_assume) (simp add: hoare_ebind [OF d c])
qed

lemma retryTransientFailure_spec:
  "hoare (first_failed h) (retryTransientFailure A fuel)
     (\<lambda>(ho, ok) s. live_with ho s \<and> (ok \<longrightarrow> (\<exists>y. ho = Some y))) exec_inv"
proof -
  let ?Q = "\<lambda>(ho, ok) s. live_with ho s \<and> (ok \<longrightarrow> (\<exists>y. ho = Some y))"
  have w: "hoare (live_with (Some h')) (with_plan (\<lambda>p.
      ebind (waitForTerminal A fuel h' (pc_MaxDuration (pl_Constraints p))) (\<lambda>st.
        if (case st of Inl _ \<Rightarrow> False | Inr x \<Rightarrow> x \<noteq> RunStateExecutionFailed) then ret (Some h', True)
        else ebind (report_failure A h') (\<lambda>_. ret (Some h', False))))) ?Q exec_inv" for h'
  proof (rule hoare_with_plan)
    fix p
    have wt: "hoare (\<lambda>s. live_with (Some h') s \<and> r_Plan (x_run s) = Some p)
        (waitForTerminal A fuel h' (pc_MaxDuration (pl_Constraints p))) (\<lambda>_. live_with (Some h')) exec_inv"
      by (rule hoare_pre [OF live.waitForTerminal_stable]) (auto intro: live_inv)
    have r: "hoare (live_with (Some h')) (ret (Some h', b)) ?Q exec_inv" for b
      by (rule hoare_pre [OF hoare_ret]) simp
    have f: "hoare (live_with (Some h')) (ebind (report_failure A h') (\<lambda>_. ret (Some h', False))) ?Q exec_inv"
      by (rule hoare_ebind [OF r live.report_failure_stable])
    show "hoare (\<lambda>s. live_with (Some h') s \<and> r_Plan (x_run s) = Some p)
      (ebind (waitForTerminal A fuel h' (pc_MaxDuration (pl_Constraints p))) (\<lambda>st.
        if (case st of Inl _ \<Rightarrow> False | Inr x \<Rightarrow> x \<noteq> RunStateExecutionFailed) then ret (Some h', True)
        else ebind (report_failure A h') (\<lambda>_. ret (Some h', False)))) ?Q exec_inv"
      by (rule hoare_ebind [OF _ wt]) (simp add: r f)
  qed (rule live_inv)
  have sup: "hoare (live_with (Some h')) (superviseHandle A h') (\<lambda>_. live_with (Some h')) exec_inv" for h'
    by (rule live.superviseHandle_stable) (rule live_inv)
  have g: "hoare (pending h0) (gets (\<lambda>s. stamped (x_run s) h0)) (\<lambda>h' s. pending h0 s \<and> h' = stamped (x_run s) h0) exec_inv" for h0
    by (rule hoare_pre [OF hoare_gets]) simp
  note tail = hoare_ebind [OF hoare_ebind [OF hoare_ebind [OF hoare_ebind [OF hoare_ebind
      [OF w sup] live.save_stable] live.persist_handle_stable] set_handle_spec] g]
  have n: "hoare (live_with None) (ret (None, False)) ?Q exec_inv"
    by (rule hoare_pre [OF hoare_ret]) simp
  show ?thesis
    unfolding retryTransientFailure_def
    by (rule hoare_ebind [OF hoare_ebind [OF hoare_ebind [OF hoare_ebind [OF _ execute_call_spec]
        retry_cleanup_spec] retrying.supervision_stop_stable] begin_retry_spec])
      (auto split: sum.split intro: n tail)
qed


section \<open>The ephemeral lifecycle\<close>

definition body_done :: "bool \<times> unit result \<Rightarrow> 'w exec_state \<Rightarrow> bool" where
  "body_done x s \<longleftrightarrow> (if fst x then disposed s else settled True s)"

lemma body_fail: "hoare exec_inv (fail_execution A ho err msg) body_done exec_inv"
  by (rule hoare_conseq [OF fail_execution_spec]) (auto simp: body_done_def)

lemma body_success: "hoare (live_with (Some h')) (ephemeral_success A (Some h)) body_done exec_inv"
  by (rule hoare_conseq [OF ephemeral_success_spec]) (auto simp: body_done_def)

lemma no_retry_spec:
  "hoare (live_with (Some h))
     (ebind (ret (Some h, False)) (\<lambda>(ho, retrySucceeded).
        if \<not> retrySucceeded
        then fail_execution A ho ''workload execution failed'' ''workload execution failed''
        else ephemeral_success A ho)) body_done exec_inv"
proof -
  have "hoare (live_with (Some h)) (fail_execution A (Some h) e m) body_done exec_inv" for e m
    by (rule hoare_pre [OF body_fail]) (rule live_inv)
  then show ?thesis by (simp add: ebind_def ret_def hoare_def)
qed

lemma retry_taken_spec:
  "hoare (first_failed h)
     (ebind (retryTransientFailure A fuel) (\<lambda>(ho, retrySucceeded).
        if \<not> retrySucceeded
        then fail_execution A ho ''workload execution failed'' ''workload execution failed''
        else ephemeral_success A ho)) body_done exec_inv"
proof (rule hoare_ebind [OF _ retryTransientFailure_spec])
  fix x :: "run_handle option \<times> bool"
  obtain ho ok where x: "x = (ho, ok)" by fastforce
  have f: "hoare (live_with ho) (fail_execution A ho e m) body_done exec_inv" for e m
    by (rule hoare_pre [OF body_fail]) (rule live_inv)
  have s: "hoare (\<lambda>s. live_with ho s \<and> (\<exists>y. ho = Some y)) (ephemeral_success A ho) body_done exec_inv"
  proof (rule hoare_pre_cases)
    fix s :: "'a exec_state"
    assume a: "live_with ho s \<and> (\<exists>y. ho = Some y)"
    then obtain y where y: "ho = Some y" by blast
    show "\<exists>P'. P' s \<and> hoare P' (ephemeral_success A ho) body_done exec_inv"
      using a body_success [of y A y] unfolding y by blast
  qed
  show "hoare (case x of (ho, ok) \<Rightarrow> \<lambda>s. live_with ho s \<and> (ok \<longrightarrow> (\<exists>y. ho = Some y)))
    (case x of (ho, retrySucceeded) \<Rightarrow> if \<not> retrySucceeded
        then fail_execution A ho ''workload execution failed'' ''workload execution failed''
        else ephemeral_success A ho) body_done exec_inv"
    using f s by (cases ok) (auto simp: x)
qed

lemma may_retry_spec:
  "hoare (live_with (Some h))
     (ebind (interleave A) (\<lambda>_. ebind (gets (\<lambda>s. may_retry p (x_dir s) (x_run s))) (\<lambda>retry.
        ebind (if retry then retryTransientFailure A fuel else ret (Some h, False)) (\<lambda>(ho, retrySucceeded).
          if \<not> retrySucceeded
          then fail_execution A ho ''workload execution failed'' ''workload execution failed''
          else ephemeral_success A ho)))) body_done exec_inv"
proof -
  have g: "hoare (live_with (Some h)) (gets (\<lambda>s. may_retry p (x_dir s) (x_run s)))
      (\<lambda>retry s. live_with (Some h) s \<and> (retry \<longrightarrow> first_failed h s)) exec_inv"
    by (rule hoare_pre [OF hoare_gets]) (auto simp: first_failed_def may_retry_def)
  have k: "hoare (\<lambda>s. live_with (Some h) s \<and> (retry \<longrightarrow> first_failed h s))
      (ebind (if retry then retryTransientFailure A fuel else ret (Some h, False)) (\<lambda>(ho, retrySucceeded).
          if \<not> retrySucceeded
          then fail_execution A ho ''workload execution failed'' ''workload execution failed''
          else ephemeral_success A ho)) body_done exec_inv" for retry
    by (cases retry) (auto intro!: hoare_pre [OF no_retry_spec] hoare_pre [OF retry_taken_spec])
  show ?thesis by (rule live.after_interleave) (rule hoare_ebind [OF k g])
qed

lemma ephemeral_body_spec: "hoare (live_with (Some h)) (ephemeral_body A lw fuel h) body_done exec_inv"
proof -
  have logs: "hoare (live_with (Some h)) (if lw then adapter_call A (\<lambda>s. ad_Logs A (x_ctx_done s) h) else ret (Inr ()))
      (\<lambda>_. live_with (Some h)) exec_inv"
    by (cases lw) (auto intro: live.adapter_call_stable live_inv)
  have rep: "hoare (live_with (Some h)) (case st of Inl _ \<Rightarrow> report_failure A h
      | Inr x \<Rightarrow> if x = RunStateExecutionFailed then report_failure A h else ret ())
      (\<lambda>_. live_with (Some h)) exec_inv" for st :: "run_state result"
    by (cases st) (auto intro: live.report_failure_stable)
  have fl: "hoare (live_with (Some h)) (fail_execution A (Some h) e m) body_done exec_inv" for e m
    by (rule hoare_pre [OF body_fail]) (rule live_inv)
  have wt: "hoare (\<lambda>s. live_with (Some h) s \<and> r_Plan (x_run s) = Some p)
      (waitForTerminal A fuel h d) (\<lambda>_. live_with (Some h)) exec_inv" for p d
    by (rule hoare_pre [OF live.waitForTerminal_stable]) (auto intro: live_inv)
  have br: "hoare (live_with (Some h)) (case st of
       Inl err \<Rightarrow> fail_execution A (Some h) err (''status check failed: '' @ err)
     | Inr x \<Rightarrow> if x \<noteq> RunStateExecutionFailed then ephemeral_success A (Some h)
         else ebind (interleave A) (\<lambda>_. ebind (gets (\<lambda>s. may_retry p (x_dir s) (x_run s))) (\<lambda>retry.
           ebind (if retry then retryTransientFailure A fuel else ret (Some h, False)) (\<lambda>(ho, retrySucceeded).
             if \<not> retrySucceeded
             then fail_execution A ho ''workload execution failed'' ''workload execution failed''
             else ephemeral_success A ho)))) body_done exec_inv" for st p
    using may_retry_spec by (cases st) (auto intro: fl body_success)
  have st: "hoare (live_with (Some h)) (ebind (case st of Inl _ \<Rightarrow> report_failure A h
      | Inr x \<Rightarrow> if x = RunStateExecutionFailed then report_failure A h else ret ()) (\<lambda>_. case st of
       Inl err \<Rightarrow> fail_execution A (Some h) err (''status check failed: '' @ err)
     | Inr x \<Rightarrow> if x \<noteq> RunStateExecutionFailed then ephemeral_success A (Some h)
         else ebind (interleave A) (\<lambda>_. ebind (gets (\<lambda>s. may_retry p (x_dir s) (x_run s))) (\<lambda>retry.
           ebind (if retry then retryTransientFailure A fuel else ret (Some h, False)) (\<lambda>(ho, retrySucceeded).
             if \<not> retrySucceeded
             then fail_execution A ho ''workload execution failed'' ''workload execution failed''
             else ephemeral_success A ho))))) body_done exec_inv" for st p
    by (rule hoare_ebind [OF br rep])
  show ?thesis
    unfolding ephemeral_body_def
    by (rule hoare_ebind [OF _ logs], rule hoare_with_plan, rule hoare_ebind [OF st wt], rule live_inv)
qed

lemma deferred_cleanup_spec:
  assumes "hoare P m body_done exec_inv"
  shows "hoare P (deferred_cleanup A m) (\<lambda>_. disposed) exec_inv"
proof -
  have c: "hoare (settled True) (ebind (attemptCleanup A) (\<lambda>_. save_x A)) (\<lambda>_. disposed) exec_inv"
    by (rule hoare_ebind [OF disposed.save_stable])
      (rule hoare_conseq [OF attemptCleanup_settled], auto intro: cleaned_disposed)
  have v: "hoare (settled True) (ebind (ebind (attemptCleanup A) (\<lambda>_. save_x A)) (\<lambda>_. ret res)) (\<lambda>_. disposed) exec_inv"
    for res :: "unit result"
    by (rule hoare_ebind [OF hoare_ret_same c])
  have s0: "hoare exec_inv (attemptCleanup A) (\<lambda>_. exec_inv) exec_inv"
    by (rule hoare_conseq [OF attemptCleanup_settled [where b = False]]) (auto simp: settled_def cleaned_def)
  have p: "hoare exec_inv (ebind (ebind (attemptCleanup A) (\<lambda>_. save_x A)) (\<lambda>_. panic e)) (\<lambda>_. disposed) exec_inv"
    for e
    by (rule hoare_ebind [OF hoare_panic hoare_ebind [OF inv.save_stable s0]])
  show ?thesis
  proof (rule hoareI)
    fix s a s' assume s: "P s" and r: "deferred_cleanup A m s = (Val a, s')"
    show "disposed s'"
    proof (cases "m s")
      case (Pair oc t)
      with r show ?thesis
      proof (cases oc)
        case (Val x)
        with hoareD(1) [OF assms s] Pair have "body_done x t" by simp
        with r Pair Val hoareD(1) [OF v, of t "snd x"] show ?thesis
          by (cases x) (auto simp: deferred_cleanup_def Let_def body_done_def split: if_splits)
      next
        case (Panic e)
        with hoareD(2) [OF assms s] Pair have "exec_inv t" by simp
        with r Pair Panic hoareD(1) [OF p, of t e] show ?thesis by (simp add: deferred_cleanup_def Let_def)
      qed (simp add: deferred_cleanup_def Let_def)
    qed
  next
    fix s e s' assume s: "P s" and r: "deferred_cleanup A m s = (Panic e, s')"
    show "exec_inv s'"
    proof (cases "m s")
      case (Pair oc t)
      with r show ?thesis
      proof (cases oc)
        case (Val x)
        with hoareD(1) [OF assms s] Pair have "body_done x t" by simp
        with r Pair Val hoareD(2) [OF v, of t "snd x"] show ?thesis
          by (cases x) (auto simp: deferred_cleanup_def Let_def body_done_def split: if_splits)
      next
        case (Panic e')
        with hoareD(2) [OF assms s] Pair have "exec_inv t" by simp
        with r Pair Panic hoareD(2) [OF p, of t e'] show ?thesis by (simp add: deferred_cleanup_def Let_def)
      qed (simp add: deferred_cleanup_def Let_def)
    qed
  qed
qed


lemma executeEphemeral_spec: "hoare (live_with (Some h)) (executeEphemeral A lw fuel h) (\<lambda>_. disposed) exec_inv"
proof -
  have sup: "hoare (live_with (Some h)) (superviseHandle A h) (\<lambda>_. live_with (Some h)) exec_inv"
    by (rule live.superviseHandle_stable) (rule live_inv)
  have stop: "hoare (body_done x) (supervision_stop A) (\<lambda>_. body_done x) exec_inv" for x
  proof (cases "fst x")
    case True
    then have "body_done x = (disposed :: 'a exec_state \<Rightarrow> bool)" by (auto simp: body_done_def)
    then show ?thesis using disposed.supervision_stop_stable by simp
  next
    case False
    then have "body_done x = (settled True :: 'a exec_state \<Rightarrow> bool)" by (auto simp: body_done_def)
    then show ?thesis using settled.supervision_stop_stable by simp
  qed
  have "hoare (live_with (Some h)) (finally_do (ephemeral_body A lw fuel h) (supervision_stop A)) body_done exec_inv"
    by (rule hoare_finally [OF ephemeral_body_spec stop inv.supervision_stop_stable])
  then show ?thesis
    unfolding executeEphemeral_def by (intro deferred_cleanup_spec hoare_ebind [OF _ sup])
qed

section \<open>Before the workload has a handle\<close>

text \<open>
  The phases before provisioning: nothing is provisioned, and (\<open>ap\<close>) what has to be approved is.
\<close>

definition phase :: "run_state \<Rightarrow> bool \<Rightarrow> 'w exec_state \<Rightarrow> bool" where
  "phase st ap s \<longleftrightarrow> exec_inv s \<and> r_Plan (x_run s) \<noteq> None \<and> r_Handle (x_run s) = None \<and>
     r_RetryCount (x_run s) = 0 \<and> provisions s = 0 \<and>
     (if st = RunStateRunning then active (r_State (x_run s)) else r_State (x_run s) = st) \<and>
     (ap \<longrightarrow> approved (x_run s))"

lemma phase_frame: "phase st ap s \<Longrightarrow> bg_frame s s' \<Longrightarrow> phase st ap s'"
  using exec_inv_frame [of s s'] approved_frame [of s s']
  by (auto simp: phase_def bg_frame_def provisions_def active_def split: if_splits)

interpretation phase: bg_stable "phase st ap" for st ap
  by unfold_locales (rule phase_frame)

lemma phase_inv: "phase st ap s \<Longrightarrow> exec_inv s"
  by (simp add: phase_def)

definition ended :: "'w exec_state \<Rightarrow> bool" where
  "ended s \<longleftrightarrow> exec_inv s \<and> r_Handle (x_run s) = None \<and> IsTerminal (r_State (x_run s))"

interpretation ended: bg_stable ended
  by unfold_locales (auto simp: ended_def exec_inv_frame, auto simp: bg_frame_def)

lemma phase_transition:
  assumes "isValidTransition a b" "\<not> IsTerminal a" "a \<noteq> RunStateRunning" "b \<noteq> RunStateCompleted"
  shows "hoare (phase a ap) (transition_x A b) (\<lambda>res s. res = Inr () \<and> phase b ap s) exec_inv"
proof (rule phase.transition_stable)
  fix s :: "'a exec_state" and r' res
  assume c: "phase a ap s" and t: "Transition b (x_now s) (x_run s) = (r', res)"
  have "exec_inv (s\<lparr>x_run := r'\<rparr>)" using exec_inv_transition [OF _ t] c assms by (simp add: phase_def)
  with t show "res = Inr () \<and> phase b ap (s\<lparr>x_run := r'\<rparr>)"
    by (cases rule: Transition_cases)
      (use c assms in \<open>auto simp: phase_def same_core_def provisions_def resources_def active_def approved_def\<close>)
qed

definition result_or :: "('w exec_state \<Rightarrow> bool) \<Rightarrow> 'b result \<Rightarrow> 'w exec_state \<Rightarrow> bool" where
  "result_or R res s \<longleftrightarrow> (case res of Inl _ \<Rightarrow> ended s | Inr _ \<Rightarrow> R s)"

lemma fail_with_spec:
  assumes "IsTerminal st" "st \<noteq> RunStateCompleted"
  shows "hoare (phase a ap) (fail_with A st e m) (result_or R) exec_inv"
proof -
  have "hoare (phase a ap) (run_op A (\<lambda>now. SetError st e now)) (\<lambda>_. ended) exec_inv"
    by (rule phase.run_op_stable)
      (use assms in \<open>auto simp: ended_def phase_def intro!: SetError_inv SetError_state\<close>,
       use SetError_core(1) in \<open>auto simp: same_core_def\<close>)
  moreover have "hoare ended (ret (Inl m)) (result_or R) exec_inv"
    by (rule hoare_pre [OF hoare_ret]) (simp add: result_or_def)
  ultimately show ?thesis unfolding fail_with_def by (intro hoare_ebind)
qed

lemma etry_spec:
  assumes "\<And>x. hoare R (k x) (result_or R') exec_inv" "hoare P m (result_or R) exec_inv"
  shows "hoare P (etry m k) (result_or R') exec_inv"
proof -
  have "hoare (result_or R res) (case res of Inl e \<Rightarrow> ret (Inl e) | Inr x \<Rightarrow> k x) (result_or R') exec_inv" for res
  proof (cases res)
    case (Inl e)
    then show ?thesis using hoare_pre [OF hoare_ret, of "result_or R (Inl e)" "result_or R'" "Inl e"]
      by (simp add: result_or_def)
  next
    case (Inr x)
    have "hoare (result_or R (Inr x)) (k x) (result_or R') exec_inv"
      by (rule hoare_pre [OF assms(1)]) (simp add: result_or_def)
    with Inr show ?thesis by simp
  qed
  then show ?thesis unfolding etry_def by (rule hoare_ebind [OF _ assms(2)])
qed

lemma phase_transition_result:
  assumes "isValidTransition a b" "\<not> IsTerminal a" "a \<noteq> RunStateRunning" "b \<noteq> RunStateCompleted"
  shows "hoare (phase a ap) (transition_x A b) (result_or (phase b ap)) exec_inv"
  by (rule hoare_conseq [OF phase_transition [OF assms]]) (auto simp: result_or_def)

lemma gate_arrive_decided:
  "g_resultCh g \<longrightarrow> dm_decision (g_result g) \<in> {DecisionApproved, DecisionDenied} \<Longrightarrow>
   g_resultCh (gate_arrive a g) \<longrightarrow> dm_decision (g_result (gate_arrive a g)) \<in> {DecisionApproved, DecisionDenied}"
  by (cases a)
    (auto simp: in_process_decision_def settle_def handleConn_def split: option.splits approver_error.splits bool.splits prod.splits)

lemma gate_arrivals_decided:
  "g_resultCh g \<longrightarrow> dm_decision (g_result g) \<in> {DecisionApproved, DecisionDenied} \<Longrightarrow>
   g_resultCh (fold gate_arrive as g) \<longrightarrow>
     dm_decision (g_result (fold gate_arrive as g)) \<in> {DecisionApproved, DecisionDenied}"
  by (induction as arbitrary: g) (simp, metis fold_simps(2) gate_arrive_decided)

lemma NewGate_no_result: "NewGate dir listen i reqs = Inr g \<Longrightarrow> \<not> g_resultCh g"
  by (auto simp: NewGate_def split: sum.splits)

lemma gate_wait_spec:
  assumes "NewGate dir listen i reqs = Inr g"
  shows "hoare (phase st ap) (gate_wait ae g)
    (\<lambda>(rec, err) s. phase st ap s \<and> (err = None \<longrightarrow> apr_Decision rec = DecisionApproved)) exec_inv"
proof -
  define g' where "g' = fold gate_arrive (ae_arrivals ae) g"
  have d: "g_resultCh g' \<longrightarrow> dm_decision (g_result g') \<in> {DecisionApproved, DecisionDenied}"
    unfolding g'_def using NewGate_no_result [OF assms] by (intro gate_arrivals_decided) simp
  have p: "phase st ap (s\<lparr>x_picks := ps\<rparr>)" if "phase st ap s" for s :: "'a exec_state" and ps
    by (rule phase.frame_same_core [OF that]) (simp_all add: resources_def)
  show ?thesis
    using d p unfolding gate_wait_def Let_def g'_def [symmetric]
    by (auto simp: hoare_def wait_result_def wait_ctx_done_def Let_def)
qed


definition ready :: "'w exec_state \<Rightarrow> bool" where
  "ready s \<longleftrightarrow> phase RunStateValidated True s \<or> phase RunStateAwaitingApproval True s"

lemma approval_granted:
  "phase st ap s \<Longrightarrow> apr_Decision rec = DecisionApproved \<Longrightarrow>
     phase st True (on_run (\<lambda>r. r\<lparr>r_Approval := Some rec\<rparr>) s)"
  by (auto simp: phase_def exec_inv_def accounted_def approved_def provisions_def split: if_splits)

lemma approval_stamped:
  "phase st False s \<Longrightarrow> phase st False (on_run (\<lambda>r. r\<lparr>r_Approval := Some rec\<rparr>) s)"
  by (auto simp: phase_def exec_inv_def accounted_def provisions_def split: if_splits)

lemma await_decision_spec:
  assumes "NewGate dir listen i reqs = Inr g"
  shows "hoare (phase RunStateAwaitingApproval False)
    (ebind (interleave A) (\<lambda>_. ebind (gate_wait ae g) (\<lambda>(rec, err).
       ebind (upd (on_run (\<lambda>r. r\<lparr>r_Approval := Some rec\<rparr>))) (\<lambda>_.
         case err of None \<Rightarrow> ret (Inr ())
         | Some e \<Rightarrow> fail_with A RunStateApprovalDenied (wait_error_string e) (''approval denied: '' @ wait_error_string e)))))
    (result_or ready) exec_inv"
proof (rule phase.after_interleave, rule hoare_ebind [OF _ gate_wait_spec [OF assms]])
  fix x :: "approval_record \<times> wait_error option"
  obtain rec err where x: "x = (rec, err)" by fastforce
  have ok: "hoare (\<lambda>s. phase RunStateAwaitingApproval False s \<and> apr_Decision rec = DecisionApproved)
      (ebind (upd (on_run (\<lambda>r. r\<lparr>r_Approval := Some rec\<rparr>))) (\<lambda>_. ret (Inr ()))) (result_or ready) exec_inv"
    by (rule hoare_pre [OF hoare_ebind [OF hoare_ret hoare_upd]])
      (auto simp: result_or_def ready_def intro: approval_granted)
  have st: "hoare (phase RunStateAwaitingApproval False) (upd (on_run (\<lambda>r. r\<lparr>r_Approval := Some rec\<rparr>)))
      (\<lambda>_. phase RunStateAwaitingApproval False) exec_inv"
    by (rule hoare_pre [OF hoare_upd]) (rule approval_stamped)
  have no: "hoare (phase RunStateAwaitingApproval False)
      (ebind (upd (on_run (\<lambda>r. r\<lparr>r_Approval := Some rec\<rparr>))) (\<lambda>_. fail_with A RunStateApprovalDenied u v)) (result_or ready) exec_inv"
    for u v by (rule hoare_ebind [OF fail_with_spec st]) simp_all
  show "hoare (case x of (rec, err) \<Rightarrow> \<lambda>s. phase RunStateAwaitingApproval False s \<and> (err = None \<longrightarrow> apr_Decision rec = DecisionApproved))
    (case x of (rec, err) \<Rightarrow> ebind (upd (on_run (\<lambda>r. r\<lparr>r_Approval := Some rec\<rparr>))) (\<lambda>_.
         case err of None \<Rightarrow> ret (Inr ())
         | Some e \<Rightarrow> fail_with A RunStateApprovalDenied (wait_error_string e) (''approval denied: '' @ wait_error_string e)))
    (result_or ready) exec_inv"
    using ok no by (cases err) (auto simp: x)
qed

lemma await_approval_spec: "hoare (phase RunStateValidated False) (await_approval A ae) (result_or ready) exec_inv"
  unfolding await_approval_def
proof (rule hoare_with_plan)
  fix p
  have none: "hoare (\<lambda>s. phase RunStateValidated False s \<and> r_Plan (x_run s) = Some p) (ret (Inr ())) (result_or ready) exec_inv"
    if "pl_RequiredApprovals p = []"
    using that by (intro hoare_pre [OF hoare_ret]) (auto simp: result_or_def ready_def phase_def approved_def)
  have rid: "hoare (phase RunStateAwaitingApproval False) (read_run A r_ID) (\<lambda>_. phase RunStateAwaitingApproval False) exec_inv"
    by (rule phase.read_run_stable)
  have g: "hoare (phase RunStateAwaitingApproval False) (case NewGate (ae_dir ae) (ae_listen ae) i (pl_RequiredApprovals p) of
      Inl e \<Rightarrow> fail_with A RunStateApprovalDenied e (''open approval gate: '' @ e)
    | Inr g \<Rightarrow> ebind (interleave A) (\<lambda>_. ebind (gate_wait ae g) (\<lambda>(rec, err).
       ebind (upd (on_run (\<lambda>r. r\<lparr>r_Approval := Some rec\<rparr>))) (\<lambda>_.
         case err of None \<Rightarrow> ret (Inr ())
         | Some e \<Rightarrow> fail_with A RunStateApprovalDenied (wait_error_string e) (''approval denied: '' @ wait_error_string e)))))
    (result_or ready) exec_inv" for i
    by (cases "NewGate (ae_dir ae) (ae_listen ae) i (pl_RequiredApprovals p)")
      (auto intro: fail_with_spec await_decision_spec)
  have tr: "hoare (\<lambda>s. phase RunStateValidated False s \<and> r_Plan (x_run s) = Some p) (transition_x A RunStateAwaitingApproval)
      (result_or (phase RunStateAwaitingApproval False)) exec_inv"
    by (rule hoare_pre [OF phase_transition_result [where a = RunStateValidated]])
      (simp_all add: isValidTransition_def validTransitions_def)
  show "hoare (\<lambda>s. phase RunStateValidated False s \<and> r_Plan (x_run s) = Some p)
    (if pl_RequiredApprovals p = [] then ret (Inr ())
     else etry (transition_x A RunStateAwaitingApproval) (\<lambda>_. ebind (read_run A r_ID) (\<lambda>i.
         case NewGate (ae_dir ae) (ae_listen ae) i (pl_RequiredApprovals p) of
           Inl e \<Rightarrow> fail_with A RunStateApprovalDenied e (''open approval gate: '' @ e)
         | Inr g \<Rightarrow> ebind (interleave A) (\<lambda>_. ebind (gate_wait ae g) (\<lambda>(rec, err).
             ebind (upd (on_run (\<lambda>r. r\<lparr>r_Approval := Some rec\<rparr>))) (\<lambda>_.
               case err of None \<Rightarrow> ret (Inr ())
               | Some e \<Rightarrow> fail_with A RunStateApprovalDenied (wait_error_string e) (''approval denied: '' @ wait_error_string e)))))))
    (result_or ready) exec_inv"
    using none by (auto intro!: etry_spec [OF hoare_ebind [OF g rid] tr])
qed (rule phase_inv)

lemma start_preparing_spec: "hoare ready (transition_x A RunStatePreparing) (result_or (phase RunStatePreparing True)) exec_inv"
proof (rule hoare_pre_cases)
  fix s :: "'a exec_state" assume "ready s"
  moreover have "hoare (phase RunStateValidated True) (transition_x A RunStatePreparing) (result_or (phase RunStatePreparing True)) exec_inv"
    "hoare (phase RunStateAwaitingApproval True) (transition_x A RunStatePreparing) (result_or (phase RunStatePreparing True)) exec_inv"
    by (rule phase_transition_result, simp_all add: isValidTransition_def validTransitions_def)+
  ultimately show "\<exists>P'. P' s \<and> hoare P' (transition_x A RunStatePreparing) (result_or (phase RunStatePreparing True)) exec_inv"
    unfolding ready_def by blast
qed

lemma execute_prepare_spec:
  "hoare (phase RunStateCreated False) (execute_prepare A ae) (result_or (phase RunStateRunning True)) exec_inv"
proof -
  have tr: "hoare (phase a ap) (transition_x A b) (result_or (phase b ap)) exec_inv"
    if "(a, b) \<in> {(RunStateCreated, RunStatePlanning), (RunStatePlanning, RunStateValidated), (RunStatePreparing, RunStateRunning)}"
    for a b ap
    using that by (intro phase_transition_result) (auto simp: isValidTransition_def validTransitions_def)
  have fw: "hoare (phase a ap) (fail_with A st e m) (result_or R) exec_inv"
    if "IsTerminal st" "st \<noteq> RunStateCompleted" for a ap st e m and R :: "'a exec_state \<Rightarrow> bool"
    using fail_with_spec that by blast
  have call: "hoare (phase a ap) (adapter_call A f) (\<lambda>_. phase a ap) exec_inv" for a ap and f :: "'a exec_state \<Rightarrow> 'a \<Rightarrow> 'z call \<times> 'a"
    by (rule phase.adapter_call_stable) (rule phase_inv)
  have prep: "hoare (phase RunStatePreparing True) (ebind (adapter_call A (\<lambda>s. ad_Prepare A (x_ctx_done s) p)) (\<lambda>pr.
      case pr of Inl e \<Rightarrow> fail_with A RunStatePackageFailed e (''preparation failed: '' @ e)
      | Inr _ \<Rightarrow> transition_x A RunStateRunning)) (result_or (phase RunStateRunning True)) exec_inv" for p
    by (rule hoare_ebind [OF _ phase.adapter_call_stable]) (auto split: sum.split intro: fw tr phase_inv)
  have val: "hoare (phase RunStatePlanning False) (if \<not> IsValid v
      then fail_with A RunStatePlanInvalid ''plan validation failed'' ''plan validation failed''
      else etry (transition_x A RunStateValidated) (\<lambda>_. etry (await_approval A ae) (\<lambda>_.
             etry (transition_x A RunStatePreparing) (\<lambda>_.
             ebind (adapter_call A (\<lambda>s. ad_Prepare A (x_ctx_done s) p)) (\<lambda>pr.
               case pr of Inl e \<Rightarrow> fail_with A RunStatePackageFailed e (''preparation failed: '' @ e)
               | Inr _ \<Rightarrow> transition_x A RunStateRunning))))) (result_or (phase RunStateRunning True)) exec_inv" for v p
  proof (cases "IsValid v")
    case True
    note rest = etry_spec [OF etry_spec [OF etry_spec [OF prep start_preparing_spec] await_approval_spec] tr]
    show ?thesis unfolding if_not_P [of "\<not> IsValid v", unfolded not_not, OF True] by (rule rest) simp
  next
    case False
    then show ?thesis by (simp add: fw)
  qed
  have plan: "hoare (phase RunStatePlanning False) (ebind (adapter_call A (\<lambda>s. ad_Validate A (x_ctx_done s) (pl_Workload p))) (\<lambda>v.
       case v of
         Inl e \<Rightarrow> fail_with A RunStatePlanInvalid e (''validation failed: '' @ e)
       | Inr validation \<Rightarrow>
           if \<not> IsValid validation
           then fail_with A RunStatePlanInvalid ''plan validation failed'' ''plan validation failed''
           else etry (transition_x A RunStateValidated) (\<lambda>_. etry (await_approval A ae) (\<lambda>_.
             etry (transition_x A RunStatePreparing) (\<lambda>_.
             ebind (adapter_call A (\<lambda>s. ad_Prepare A (x_ctx_done s) p)) (\<lambda>pr.
               case pr of Inl e \<Rightarrow> fail_with A RunStatePackageFailed e (''preparation failed: '' @ e)
               | Inr _ \<Rightarrow> transition_x A RunStateRunning)))))) (result_or (phase RunStateRunning True)) exec_inv" for p
    by (rule hoare_ebind [OF hoare_case_sum [OF fw val] call]) simp_all
  show ?thesis
    unfolding execute_prepare_def
    by (rule etry_spec [OF _ tr], rule hoare_with_plan, rule hoare_pre [OF plan])
      (simp_all add: phase_inv)
qed


section \<open>Execute\<close>

text \<open>How a run can end: disposed of, or detached on a durable target with its handle kept.\<close>

definition finished :: "'w adapter \<Rightarrow> 'w exec_state \<Rightarrow> bool" where
  "finished A s \<longleftrightarrow> disposed s \<or>
     (exec_inv s \<and> is_durable A \<and> r_Lifecycle (x_run s) = LifecycleLongRunning \<and> r_Handle (x_run s) \<noteq> None)"

lemma disposed_finished: "disposed s \<Longrightarrow> finished A s"
  by (simp add: finished_def)

lemma ended_finished: "ended s \<Longrightarrow> finished A s"
  by (simp add: finished_def ended_def disposed_def)

definition detached :: "'w exec_state \<Rightarrow> bool" where
  "detached s \<longleftrightarrow> exec_inv s \<and> r_Lifecycle (x_run s) = LifecycleLongRunning \<and> (\<exists>h. r_Handle (x_run s) = Some h)"

interpretation detached: bg_stable detached
  by unfold_locales (auto simp: detached_def exec_inv_frame, auto simp: bg_frame_def)

lemma detached_inv: "detached s \<Longrightarrow> exec_inv s"
  by (simp add: detached_def)

lemma startLongRunning_spec:
  "hoare (\<lambda>s. is_durable A \<and> detached s) (startLongRunning A) (\<lambda>_. finished A) exec_inv"
proof (rule hoare_assume)
  assume "is_durable A"
  then obtain ext where ext: "ad_ExtendWatchdog A = Some ext" by (auto simp: is_durable_def)
  have hb: "hoare detached (run_op A (\<lambda>now r. r\<lparr>r_LastHeartbeat := now\<rparr>)) (\<lambda>_. detached) exec_inv"
    by (rule detached.run_op_stable) (rule detached.heartbeat_frame)
  have call: "hoare detached (adapter_call A f) (\<lambda>_. detached) exec_inv" for f :: "'a exec_state \<Rightarrow> 'a \<Rightarrow> time call \<times> 'a"
    by (rule detached.adapter_call_stable) (rule detached_inv)
  have r: "hoare detached (ret (Inr ())) (\<lambda>_. finished A) exec_inv"
    by (rule hoare_pre [OF hoare_ret]) (use \<open>is_durable A\<close> in \<open>auto simp: detached_def finished_def\<close>)
  have rd: "hoare detached (read_run A r_Handle) (\<lambda>ho s. (\<exists>h. ho = Some h) \<and> detached s) exec_inv"
    by (rule detached.read_run_stable) (auto simp: detached_def)
  note go = hoare_ebind [OF hoare_ebind [OF hoare_ebind [OF r detached.save_stable] hb] call]
  have k: "hoare (\<lambda>s. (\<exists>h. ho = Some h) \<and> detached s) (case ho of
        None \<Rightarrow> panic ''invalid memory address or nil pointer dereference''
      | Some h \<Rightarrow> ebind (adapter_call A (\<lambda>s. ext (x_ctx_done s) h (effectiveWatchdogTTL (x_run s)))) (\<lambda>_.
          ebind (run_op A (\<lambda>now r. r\<lparr>r_LastHeartbeat := now\<rparr>)) (\<lambda>_. ebind (save_x A) (\<lambda>_. ret (Inr ())))))
      (\<lambda>_. finished A) exec_inv" for ho
    by (rule hoare_assume) (auto intro: go)
  show "hoare detached (startLongRunning A) (\<lambda>_. finished A) exec_inv"
    unfolding startLongRunning_def ext option.case by (rule hoare_ebind [OF k rd])
qed

lemma budget_exit_spec:
  "hoare disposed (ebind (save_x A) (\<lambda>_. ebind (read_run A r_ID) (\<lambda>i. ret (Inl (budget_in_provisioning i) :: unit result))))
     (\<lambda>_. finished A) exec_inv"
proof -
  have r: "hoare disposed (ret x) (\<lambda>_. finished A) exec_inv" for x :: "unit result"
    by (rule hoare_pre [OF hoare_ret]) (rule disposed_finished)
  have i: "hoare disposed (read_run A r_ID) (\<lambda>_. disposed) exec_inv"
    by (rule disposed.read_run_stable)
  show ?thesis by (rule hoare_ebind [OF hoare_ebind [OF r i] disposed.save_stable])
qed

lemma provisioning_failed_spec:
  "hoare (live_with None)
     (ebind (read_run A GetState) (\<lambda>st.
        if st = RunStateBudgetExceeded
        then ebind (save_x A) (\<lambda>_. ebind (read_run A r_ID) (\<lambda>i. ret (Inl (budget_in_provisioning i))))
        else fail_with A RunStateProvisioningFailed e msg) :: ('a, unit result) exec) (\<lambda>_. finished A) exec_inv"
proof -
  have st: "hoare (live_with None) (read_run A GetState) (\<lambda>st s. live_with None s \<and> st = r_State (x_run s)) exec_inv"
    by (rule live.read_run_stable) (simp add: GetState_def)
  have e: "hoare (live_with None) (run_op A (\<lambda>now. SetError RunStateProvisioningFailed e now)) (\<lambda>_. ended) exec_inv"
    by (rule live.run_op_stable)
      (auto simp: live_with_def ended_def intro!: SetError_inv SetError_state,
       use SetError_core(1) in \<open>auto simp: same_core_def\<close>)
  have r: "hoare ended (ret (Inl msg :: unit result)) (\<lambda>_. finished A) exec_inv"
    by (rule hoare_pre [OF hoare_ret]) (rule ended_finished)
  have k: "hoare (\<lambda>s. live_with None s \<and> st = r_State (x_run s)) (if st = RunStateBudgetExceeded
        then ebind (save_x A) (\<lambda>_. ebind (read_run A r_ID) (\<lambda>i. ret (Inl (budget_in_provisioning i) :: unit result)))
        else fail_with A RunStateProvisioningFailed e msg) (\<lambda>_. finished A) exec_inv" for st
    unfolding fail_with_def
    by (cases "st = RunStateBudgetExceeded")
      (auto intro!: hoare_pre [OF budget_exit_spec] hoare_pre [OF hoare_ebind [OF r e]]
        simp: live_with_def disposed_def)
  show ?thesis by (rule hoare_ebind [OF k st])
qed

definition running_with :: "run_handle \<Rightarrow> lifecycle_mode \<Rightarrow> 'w exec_state \<Rightarrow> bool" where
  "running_with h lc s \<longleftrightarrow> live_with (Some h) s \<and> r_Lifecycle (x_run s) = lc"

lemma running_with_frame: "running_with h lc s \<Longrightarrow> bg_frame s s' \<Longrightarrow> running_with h lc s'"
  using live.P_frame [of "Some h" s s'] by (auto simp: running_with_def bg_frame_def)

interpretation running: bg_stable "running_with h lc" for h lc
  by unfold_locales (rule running_with_frame)

lemma lifecycle_spec:
  "hoare (live_with (Some h))
     (with_plan (\<lambda>p.
        ebind (run_op A (\<lambda>_ r. r\<lparr>r_Lifecycle := LifecycleForWorkload (ws_DetectedKind (pl_Workload p))\<rparr>)) (\<lambda>_.
        ebind (save_x A) (\<lambda>_.
        ebind (read_run A r_Lifecycle) (\<lambda>lc.
          if lc = LifecycleLongRunning \<and> is_durable A then startLongRunning A
          else executeEphemeral A lw fuel h))))) (\<lambda>_. finished A) exec_inv"
proof (rule hoare_with_plan)
  fix p :: plan
  let ?lc = "LifecycleForWorkload (ws_DetectedKind (pl_Workload p))"
  have set: "hoare (\<lambda>s. live_with (Some h) s \<and> r_Plan (x_run s) = Some p) (run_op A (\<lambda>_ r. r\<lparr>r_Lifecycle := ?lc\<rparr>))
      (\<lambda>_. running_with h ?lc) exec_inv"
    by (rule hoare_pre [OF live.run_op_stable [where ho = "Some h"]])
      (auto simp: running_with_def live_with_def approved_def intro!: exec_inv_on_run simp: same_core_def)
  have rd: "hoare (running_with h ?lc) (read_run A r_Lifecycle) (\<lambda>lc s. lc = ?lc \<and> running_with h ?lc s) exec_inv"
    by (rule running.read_run_stable) (simp add: running_with_def)
  have lr: "hoare (running_with h ?lc) (startLongRunning A) (\<lambda>_. finished A) exec_inv"
    if "?lc = LifecycleLongRunning" "is_durable A"
    by (rule hoare_pre [OF startLongRunning_spec])
      (use that in \<open>auto simp: running_with_def detached_def live_with_def\<close>)
  have ep: "hoare (running_with h ?lc) (executeEphemeral A lw fuel h) (\<lambda>_. finished A) exec_inv"
    by (rule hoare_conseq [OF executeEphemeral_spec])
      (auto simp: running_with_def intro: disposed_finished)
  have k: "hoare (\<lambda>s. lc = ?lc \<and> running_with h ?lc s)
      (if lc = LifecycleLongRunning \<and> is_durable A then startLongRunning A else executeEphemeral A lw fuel h)
      (\<lambda>_. finished A) exec_inv" for lc
    by (rule hoare_assume) (use lr ep in auto)
  show "hoare (\<lambda>s. live_with (Some h) s \<and> r_Plan (x_run s) = Some p)
      (ebind (run_op A (\<lambda>_ r. r\<lparr>r_Lifecycle := ?lc\<rparr>)) (\<lambda>_. ebind (save_x A) (\<lambda>_.
        ebind (read_run A r_Lifecycle) (\<lambda>lc. if lc = LifecycleLongRunning \<and> is_durable A then startLongRunning A
          else executeEphemeral A lw fuel h)))) (\<lambda>_. finished A) exec_inv"
    by (rule hoare_ebind [OF hoare_ebind [OF hoare_ebind [OF k rd] running.save_stable] set])
qed (rule live_inv)


lemma handle_obtained_spec:
  "hoare (pending h0)
     (ebind (gets (\<lambda>s. stamped (x_run s) h0)) (\<lambda>h.
      ebind (set_handle h0) (\<lambda>_.
      ebind (read_run A GetState) (\<lambda>st.
        if st = RunStateBudgetExceeded
        then ebind (attemptCleanup A) (\<lambda>_. ebind (save_x A) (\<lambda>_.
               ebind (read_run A r_ID) (\<lambda>i. ret (Inl (budget_in_provisioning i)))))
        else
          ebind (persist_handle_x A) (\<lambda>_.
          with_plan (\<lambda>p.
          ebind (run_op A (\<lambda>_ r. r\<lparr>r_Lifecycle := LifecycleForWorkload (ws_DetectedKind (pl_Workload p))\<rparr>)) (\<lambda>_.
          ebind (save_x A) (\<lambda>_.
          ebind (read_run A r_Lifecycle) (\<lambda>lc.
            if lc = LifecycleLongRunning \<and> is_durable A then startLongRunning A
            else executeEphemeral A lw fuel h))))))))) (\<lambda>_. finished A) exec_inv"
proof -
  have g: "hoare (pending h0) (gets (\<lambda>s. stamped (x_run s) h0)) (\<lambda>h' s. pending h0 s \<and> h' = stamped (x_run s) h0) exec_inv"
    by (rule hoare_pre [OF hoare_gets]) simp
  have st: "hoare (live_with (Some h)) (read_run A GetState) (\<lambda>st s. live_with (Some h) s \<and> st = r_State (x_run s)) exec_inv" for h
    by (rule live.read_run_stable) (simp add: GetState_def)
  have kill: "hoare (settled True) (attemptCleanup A) (\<lambda>_. disposed) exec_inv"
    by (rule hoare_conseq [OF attemptCleanup_settled]) (auto intro: cleaned_disposed)
  have b: "hoare (\<lambda>s. live_with (Some h) s \<and> st = r_State (x_run s)) (ebind (attemptCleanup A) (\<lambda>_. ebind (save_x A) (\<lambda>_.
      ebind (read_run A r_ID) (\<lambda>i. ret (Inl (budget_in_provisioning i) :: unit result))))) (\<lambda>_. finished A) exec_inv"
    if "st = RunStateBudgetExceeded" for h st
    by (rule hoare_pre [OF hoare_ebind [OF budget_exit_spec kill]])
      (use that in \<open>auto simp: settled_def live_with_def\<close>)
  have n: "hoare (\<lambda>s. live_with (Some h) s \<and> st = r_State (x_run s)) (ebind (persist_handle_x A) (\<lambda>_.
          with_plan (\<lambda>p.
          ebind (run_op A (\<lambda>_ r. r\<lparr>r_Lifecycle := LifecycleForWorkload (ws_DetectedKind (pl_Workload p))\<rparr>)) (\<lambda>_.
          ebind (save_x A) (\<lambda>_.
          ebind (read_run A r_Lifecycle) (\<lambda>lc.
            if lc = LifecycleLongRunning \<and> is_durable A then startLongRunning A
            else executeEphemeral A lw fuel h)))))) (\<lambda>_. finished A) exec_inv" for h st
    by (rule hoare_pre [OF hoare_ebind [OF lifecycle_spec live.persist_handle_stable]]) simp
  have k: "hoare (\<lambda>s. live_with (Some h) s \<and> st = r_State (x_run s)) (if st = RunStateBudgetExceeded
        then ebind (attemptCleanup A) (\<lambda>_. ebind (save_x A) (\<lambda>_.
               ebind (read_run A r_ID) (\<lambda>i. ret (Inl (budget_in_provisioning i)))))
        else ebind (persist_handle_x A) (\<lambda>_.
          with_plan (\<lambda>p.
          ebind (run_op A (\<lambda>_ r. r\<lparr>r_Lifecycle := LifecycleForWorkload (ws_DetectedKind (pl_Workload p))\<rparr>)) (\<lambda>_.
          ebind (save_x A) (\<lambda>_.
          ebind (read_run A r_Lifecycle) (\<lambda>lc.
            if lc = LifecycleLongRunning \<and> is_durable A then startLongRunning A
            else executeEphemeral A lw fuel h)))))) (\<lambda>_. finished A) exec_inv" for h st
  proof (cases "st = RunStateBudgetExceeded")
    case True
    then show ?thesis unfolding if_P [OF True] by (rule b)
  next
    case False
    show ?thesis unfolding if_not_P [OF False] by (rule n)
  qed
  show ?thesis by (rule hoare_ebind [OF hoare_ebind [OF hoare_ebind [OF k st] set_handle_spec] g])
qed

lemma stop_prov_sampler_spec:
  "hoare (case res of Inl _ \<Rightarrow> live_with None | Inr h0 \<Rightarrow> pending h0)
     (ebind (interleave A) (\<lambda>_. upd (\<lambda>s. s\<lparr>x_sampler := None\<rparr>)))
     (\<lambda>_. case res of Inl _ \<Rightarrow> live_with None | Inr h0 \<Rightarrow> pending h0) exec_inv"
proof -
  have q: "bg_frame s (s\<lparr>x_sampler := None\<rparr>)" for s :: "'a exec_state" by (simp add: bg_frame_def resources_def)
  show ?thesis
    by (cases res) (auto intro!: live.after_interleave pending.after_interleave live.upd_quiet pending.upd_quiet q)
qed

lemma execute_body_spec:
  "hoare (phase RunStateCreated False) (execute_body A ae lw fuel) (\<lambda>_. finished A) exec_inv"
proof -
  have run_cp: "can_provision s" if "phase RunStateRunning True s" for s :: "'a exec_state"
    using that by (auto simp: can_provision_def phase_def live_with_def)
  have smp: "hoare can_provision (startCostSampler CancelExec) (\<lambda>_. can_provision) exec_inv"
    by (rule can_provision.startCostSampler_stable) (rule can_provision_inv)
  have ex: "hoare can_provision (execute_call A x_exec_canceled)
      (\<lambda>res. case res of Inl _ \<Rightarrow> live_with None | Inr h0 \<Rightarrow> pending h0) exec_inv"
    by (rule hoare_conseq [OF execute_call_spec]) (auto split: sum.splits)
  have sv: "hoare (phase RunStateRunning True) (save_x A) (\<lambda>_. can_provision) exec_inv"
    by (rule hoare_conseq [OF phase.save_stable]) (auto intro: run_cp)
  have res: "hoare (case res of Inl _ \<Rightarrow> live_with None | Inr h0 \<Rightarrow> pending h0) (case res of Inl e \<Rightarrow> f e | Inr h0 \<Rightarrow> g h0)
      (\<lambda>_. finished A) exec_inv"
    if "\<And>e. hoare (live_with None) (f e) (\<lambda>_. finished A) exec_inv"
      "\<And>h0. hoare (pending h0) (g h0) (\<lambda>_. finished A) exec_inv"
    for res :: "run_handle result" and f g :: "_ \<Rightarrow> ('a, unit result) exec"
    using that by (cases res) auto
  note tail = hoare_ebind [OF hoare_ebind [OF hoare_ebind [OF hoare_ebind
      [OF res [OF provisioning_failed_spec handle_obtained_spec] stop_prov_sampler_spec] ex] smp] sv]
  have etry_fin: "hoare P (etry m k) (\<lambda>_. finished A) exec_inv"
    if "\<And>x. hoare R (k x) (\<lambda>_. finished A) exec_inv" "hoare P m (result_or R) exec_inv"
    for P R and m :: "('a, unit result) exec" and k :: "unit \<Rightarrow> ('a, unit result) exec"
  proof -
    have "hoare (result_or R res) (case res of Inl e \<Rightarrow> ret (Inl e) | Inr x \<Rightarrow> k x) (\<lambda>_. finished A) exec_inv" for res
    proof (cases res)
      case (Inl e)
      have "hoare (result_or R (Inl e)) (ret (Inl e)) (\<lambda>_. finished A) exec_inv"
        by (rule hoare_pre [OF hoare_ret]) (simp add: result_or_def ended_finished)
      with Inl show ?thesis by simp
    next
      case (Inr x)
      have "hoare (result_or R (Inr x)) (k x) (\<lambda>_. finished A) exec_inv"
        by (rule hoare_pre [OF that(1)]) (simp add: result_or_def)
      with Inr show ?thesis by simp
    qed
    then show ?thesis unfolding etry_def by (rule hoare_ebind [OF _ that(2)])
  qed
  show ?thesis
    unfolding execute_body_def by (rule etry_fin [OF tail execute_prepare_spec])
qed

text \<open>The specification of \<^verbatim>\<open>Execute\<close>, from which the properties follow.\<close>

lemma Execute_spec:
  "hoare (phase RunStateCreated False) (Execute A ae lw fuel) (\<lambda>_. finished A) cleanup_panicked"
proof -
  have e: "hoare exec_inv (run_op A (\<lambda>now. SetError RunStateExecutionFailed err now)) (\<lambda>_. settled True) cleanup_panicked" for err
    by (rule inv.run_op_stable) (auto simp: settled_def intro!: SetError_inv SetError_state)
  have c: "hoare (settled True) (attemptCleanup A) (\<lambda>_. disposed) cleanup_panicked"
    by (rule hoare_conseq [OF hoare_conj [OF attemptCleanup_settled attemptCleanup_panic]])
      (auto intro: cleaned_disposed)
  have r: "hoare disposed (ret (Inl err :: unit result)) (\<lambda>_. finished A) cleanup_panicked" for err
    by (rule hoare_pre [OF hoare_ret]) (rule disposed_finished)
  note h = hoare_ebind [OF hoare_ebind [OF hoare_ebind [OF r c] settled.save_stable] e]
  show ?thesis
    unfolding Execute_def Let_def by (rule hoare_recover [OF execute_body_spec h])
qed

lemma NewRun_core:
  "NewRun p sid t0 = Some r \<Longrightarrow> r_State r = RunStateCreated \<and> r_Handle r = None \<and> r_RetryCount r = 0 \<and> r_Plan r = Some p"
  by (auto simp: NewRun_def split: option.splits)

lemma fresh_run_phase:
  assumes "NewRun p sid t0 = Some (x_run s)" "x_trace s = []"
  shows "phase RunStateCreated False s"
  using NewRun_core [OF assms(1)] assms(2)
  by (simp add: phase_def exec_inv_def accounted_def provisions_def resources_def)


section \<open>Without background events\<close>

lemma interleave_idle: "x_sched s = [] \<Longrightarrow> \<not> x_crashed s \<Longrightarrow> interleave A s = (Val (), s)"
  by (simp add: interleave_def run_background_def)

lemma saveRun_frame [simp]:
  "x_run (saveRun s) = x_run s" "x_world (saveRun s) = x_world s" "x_now (saveRun s) = x_now s"
  "x_ctx_done (saveRun s) = x_ctx_done s" "x_exec_canceled (saveRun s) = x_exec_canceled s"
  "x_sampler (saveRun s) = x_sampler s" "x_watchdog (saveRun s) = x_watchdog s"
  "x_sched (saveRun s) = x_sched s" "x_picks (saveRun s) = x_picks s" "x_crashed (saveRun s) = x_crashed s"
  "x_trace (saveRun s) = x_trace s"
  by (simp_all add: saveRun_def)

lemma FinalizeCost_frame [simp]:
  "r_Handle (FinalizeCost now r) = r_Handle r" "r_State (FinalizeCost now r) = r_State r"
  "r_Timeline (FinalizeCost now r) = r_Timeline r" "r_CleanupError (FinalizeCost now r) = r_CleanupError r"
  by (simp_all add: FinalizeCost_def setCost_def)

lemmas step_defs = ebind_def ret_def upd_def gets_def panic_def with_plan_def run_op_def transition_x_def
  save_x_def read_run_def adapter_call_def call_x_def on_run_def log_event_x_def

lemmas exec_defs = recover_with_def on_panic_def finally_do_def etry_def Execute_def execute_body_def execute_prepare_def
  await_approval_def fail_with_def startCostSampler_def execute_call_def set_handle_def stamped_def
  persist_handle_x_def executeEphemeral_def deferred_cleanup_def superviseHandle_def
  startEphemeralWatchdog_def ephemeral_body_def waitForTerminal_def wait_loop.simps status_call_def
  ephemeral_success_def collectArtifacts_def artifactCollectAttempts_def collect_tries.simps
  attemptCleanup_def cleanup_tries.simps cleanup_call_def supervision_stop_def GetState_def

section \<open>A scripted target\<close>

definition demo_handle :: run_handle where
  "demo_handle = \<lparr>rh_ID = ''i-1'', rh_TargetID = ''aws-vm'', rh_State = StateOpaque, rh_RunID = ''''\<rparr>"

text \<open>An adapter whose world is the list of answers \<^verbatim>\<open>Status\<close> gives before it reports completion.\<close>

definition demo_adapter :: "run_state call list adapter" where
  "demo_adapter = \<lparr>ad_Validate = \<lambda>_ _ w. (Ret demo_validation, w), ad_Prepare = \<lambda>_ _ w. (Ret (), w),
     ad_Execute = \<lambda>_ _ w. (Ret demo_handle, w),
     ad_Status = \<lambda>_ _ w. (case w of [] \<Rightarrow> (Ret RunStateCompleted, []) | c # cs \<Rightarrow> (c, cs)),
     ad_Logs = \<lambda>_ _ w. (Ret (), w), ad_Artifacts = \<lambda>_ _ w. (Ret [], w), ad_Terminate = \<lambda>_ w. (Ret (), w),
     ad_Cleanup = \<lambda>_ w. (Ret (Some \<lparr>cl_Success = True, cl_ResourcesCleaned = [], cl_Errors = []\<rparr>), w),
     ad_ExtendWatchdog = None, ad_FailureDetails = None\<rparr>"

definition demo_state :: "run_state call list \<Rightarrow> run_state call list exec_state" where
  "demo_state w = \<lparr>x_run = demo_run, x_dir = demo_dir, x_world = w, x_now = 10, x_ctx_done = False,
     x_exec_canceled = False, x_sampler = None, x_watchdog = None, x_sched = [], x_picks = [], x_faults = [],
     x_crashed = False, x_trace = []\<rparr>"

definition demo_env :: approval_env where
  "demo_env = \<lparr>ae_dir = Inr ''d'', ae_listen = \<lambda>_. Inr (), ae_arrivals = []\<rparr>"

lemma demo_run_fields:
  "r_Plan demo_run = Some demo_plan" "r_State demo_run = RunStateCreated" "r_Handle demo_run = None"
  "r_CleanupError demo_run = ''''" "r_RetryCount demo_run = 0" "r_StartedAt demo_run = 0"
  "pl_RequiredApprovals demo_plan = []" "pc_MaxDuration (pl_Constraints demo_plan) = 0"
  "pc_MaxEstimatedCostUSD (pl_Constraints demo_plan) = 0" "ws_DetectedKind (pl_Workload demo_plan) = WorkloadKindJob"
  "IsValid demo_validation"
  by (simp_all add: demo_run_def NewRun_def demo_plan_def demo_constraints_def demo_workload_def
      demo_validation_def IsValid_def)

lemma demo_adapter_sel:
  "ad_Validate demo_adapter b sp w = (Ret demo_validation, w)" "ad_Prepare demo_adapter b p w = (Ret (), w)"
  "ad_Execute demo_adapter b p w = (Ret demo_handle, w)"
  "ad_Status demo_adapter b h w = (case w of [] \<Rightarrow> (Ret RunStateCompleted, []) | c # cs \<Rightarrow> (c, cs))"
  "ad_Artifacts demo_adapter b h w = (Ret [], w)"
  "ad_Cleanup demo_adapter h w = (Ret (Some \<lparr>cl_Success = True, cl_ResourcesCleaned = [], cl_Errors = []\<rparr>), w)"
  "ad_ExtendWatchdog demo_adapter = None" "ad_FailureDetails demo_adapter = None" "\<not> is_durable demo_adapter"
  by (simp_all add: demo_adapter_def is_durable_def)

lemma demo_priced: "(case pl_Recommendation demo_plan of None \<Rightarrow> False | Some rc \<Rightarrow> 0 < ce_Value (rec_EstimatedCost rc))"
  by (simp add: demo_plan_def)

lemma demo_execute:
  "\<exists>s'. Execute demo_adapter demo_env False (Suc 0) (demo_state []) = (Val (Inr ()), s') \<and>
     EvExecuted (stamped demo_run demo_handle) \<in> set (x_trace s')"
  by (simp add: exec_defs step_defs interleave_idle demo_state_def demo_run_fields demo_adapter_sel Let_def
      Transition_def isValidTransition_def validTransitions_def time_IsZero_def demo_priced numeral_3_eq_3)


section \<open>Properties\<close>

lemma Execute_finished:
  assumes "NewRun p sid t0 = Some (x_run s)" "x_trace s = []" "Execute A ae lw fuel s = (Val res, s')"
  shows "finished A s'"
  using hoareD(1) [OF Execute_spec fresh_run_phase [OF assms(1,2)] assms(3)] .

lemma trace_resources: "resource_event ev \<Longrightarrow> ev \<in> set (x_trace s) \<longleftrightarrow> ev \<in> set (resources s)"
  by (simp add: resources_def)

lemma provisions_trace: "provisions s = length (filter provision_event (x_trace s))"
proof -
  have "filter provision_event (filter resource_event xs) = filter provision_event xs" for xs
  proof (induction xs)
    case (Cons ev xs)
    then show ?case by (cases ev) auto
  qed simp
  then show ?thesis by (simp add: provisions_def resources_def)
qed

text \<open>
  C4: no run is left hanging. Whatever the adapter does (errors and panics included), however
  the sampler, the watchdog, cancellation and other processes interleave, when \<^verbatim>\<open>Execute\<close> returns
  the run is in a terminal state, unless it is a long-running workload left on a durable target
  with its handle kept. A panic of the adapter is recovered, with one exception: when the
  recovery's own \<^verbatim>\<open>Cleanup\<close> call panics, that panic leaves \<^verbatim>\<open>Execute\<close>; it is the last thing that
  happened, and the run is terminal and still has the handle that was being cleaned up.
\<close>

theorem execute_ends_terminal:
  assumes "NewRun p sid t0 = Some (x_run s)" and "x_trace s = []"
  shows "case Execute A ae lw fuel s of
      (Val res, s') \<Rightarrow> IsTerminal (r_State (x_run s')) \<or>
        (is_durable A \<and> r_Lifecycle (x_run s') = LifecycleLongRunning \<and> r_Handle (x_run s') \<noteq> None)
    | (Panic e, s') \<Rightarrow> IsTerminal (r_State (x_run s')) \<and>
        (\<exists>h. r_Handle (x_run s') = Some h \<and> x_trace s' \<noteq> [] \<and> last (x_trace s') = EvCleanupPanicked h)
    | (Halt, s') \<Rightarrow> True"
proof (cases "Execute A ae lw fuel s")
  case (Pair oc s')
  show ?thesis
  proof (cases oc)
    case (Val res)
    with Pair have "Execute A ae lw fuel s = (Val res, s')" by simp
    from Execute_finished [OF assms this] Pair Val show ?thesis by (auto simp: finished_def disposed_def)
  next
    case (Panic e)
    with hoareD(2) [OF Execute_spec fresh_run_phase [OF assms]] Pair have "cleanup_panicked s'" by auto
    with Pair Panic show ?thesis by (auto simp: cleanup_panicked_def terminal_with_def)
  qed (simp add: Pair)
qed

theorem execute_ends_terminal_witness:
  "\<exists>s'. Execute demo_adapter demo_env False (Suc 0) (demo_state []) = (Val (Inr ()), s') \<and>
     IsTerminal (r_State (x_run s'))"
proof -
  obtain s' where s': "Execute demo_adapter demo_env False (Suc 0) (demo_state []) = (Val (Inr ()), s')"
    using demo_execute by blast
  have "NewRun demo_plan ''abc1234'' 10 = Some (x_run (demo_state []))" "x_trace (demo_state []) = []"
    using demo_run_new by (simp_all add: demo_state_def)
  from execute_ends_terminal [OF this, of demo_adapter demo_env False "Suc 0"] s' show ?thesis
    by (simp add: demo_adapter_sel)
qed

text \<open>
  the exception is real: with a target whose \<^verbatim>\<open>Cleanup\<close> panics, the deferred recovery calls it
  again and \<^verbatim>\<open>Execute\<close> panics.
\<close>

theorem cleanup_panic_escapes:
  "\<exists>s'. Execute (demo_adapter\<lparr>ad_Cleanup := \<lambda>_ w. (Panics ''nil map'', w)\<rparr>) demo_env False (Suc 0) (demo_state []) =
     (Panic ''nil map'', s')"
  by (simp add: exec_defs step_defs interleave_idle demo_state_def demo_run_fields demo_adapter_sel Let_def
      is_durable_def SetError_def Transition_def isValidTransition_def validTransitions_def time_IsZero_def demo_priced numeral_3_eq_3)

text \<open>
  C1: no handle is lost silently. When \<^verbatim>\<open>Execute\<close> returns, every handle the adapter handed out
  was torn down successfully, or was given to the teardown of the transient retry, or is still
  the run's; and a handle still the run's has its failed teardown on the record, or belongs to
  a run whose outputs were not retrieved or whose budget was exceeded, or is detached.
\<close>

theorem execute_accounts_handles:
  assumes "NewRun p sid t0 = Some (x_run s)" and "x_trace s = []"
    and "Execute A ae lw fuel s = (Val res, s')" and "EvExecuted h \<in> set (x_trace s')"
  shows "EvCleanup h True \<in> set (x_trace s') \<or> EvRetryCleanup h \<in> set (x_trace s') \<or>
    r_Handle (x_run s') = Some h \<and>
      (r_CleanupError (x_run s') \<noteq> '''' \<or>
       r_State (x_run s') \<in> {RunStateArtifactFailed, RunStateBudgetExceeded} \<or>
       (is_durable A \<and> r_Lifecycle (x_run s') = LifecycleLongRunning))"
proof -
  have f: "finished A s'" by (rule Execute_finished [OF assms(1-3)])
  then have "accounted s'" by (auto simp: finished_def disposed_def exec_inv_def)
  then have "EvCleanup h True \<in> set (x_trace s') \<or> EvRetryCleanup h \<in> set (x_trace s') \<or> r_Handle (x_run s') = Some h"
    using assms(4) by (simp add: accounted_def trace_resources)
  with f show ?thesis by (auto simp: finished_def disposed_def)
qed

theorem execute_accounts_handles_witness:
  "\<exists>s'. Execute demo_adapter demo_env False (Suc 0) (demo_state []) = (Val (Inr ()), s') \<and>
     (EvCleanup (stamped demo_run demo_handle) True \<in> set (x_trace s') \<or>
      EvRetryCleanup (stamped demo_run demo_handle) \<in> set (x_trace s') \<or> r_Handle (x_run s') \<noteq> None)"
proof -
  obtain s' where s': "Execute demo_adapter demo_env False (Suc 0) (demo_state []) = (Val (Inr ()), s')"
    "EvExecuted (stamped demo_run demo_handle) \<in> set (x_trace s')"
    using demo_execute by blast
  have "NewRun demo_plan ''abc1234'' 10 = Some (x_run (demo_state []))" "x_trace (demo_state []) = []"
    using demo_run_new by (simp_all add: demo_state_def)
  from execute_accounts_handles [OF this s'] s' show ?thesis by auto
qed

text \<open>
  C7: at most one retry. The adapter is asked to provision at most twice in a run, and a second
  time only after the retry counter was raised, which it is at most once.
\<close>

theorem execute_retries_once:
  assumes "NewRun p sid t0 = Some (x_run s)" and "x_trace s = []" and "Execute A ae lw fuel s = (Val res, s')"
  shows "int (length (filter provision_event (x_trace s'))) \<le> 1 + r_RetryCount (x_run s') \<and>
    0 \<le> r_RetryCount (x_run s') \<and> r_RetryCount (x_run s') \<le> 1"
  using Execute_finished [OF assms] by (auto simp: finished_def disposed_def exec_inv_def provisions_trace)

theorem execute_retries_once_witness:
  "\<exists>s'. Execute demo_adapter demo_env False (Suc 0) (demo_state []) = (Val (Inr ()), s') \<and>
     length (filter provision_event (x_trace s')) \<le> 2"
proof -
  obtain s' where s': "Execute demo_adapter demo_env False (Suc 0) (demo_state []) = (Val (Inr ()), s')"
    using demo_execute by blast
  have "NewRun demo_plan ''abc1234'' 10 = Some (x_run (demo_state []))" "x_trace (demo_state []) = []"
    using demo_run_new by (simp_all add: demo_state_def)
  from execute_retries_once [OF this s'] s' show ?thesis by auto
qed

text \<open>
  nothing is provisioned without approval. If the adapter was asked to provision at all,
  then the run's plan required no approval, or the recorded decision is an approval.
\<close>

theorem execute_needs_approval:
  assumes "NewRun p sid t0 = Some (x_run s)" and "x_trace s = []" and "Execute A ae lw fuel s = (Val res, s')"
    and "ev \<in> set (x_trace s')" and "provision_event ev"
  shows "\<exists>q. r_Plan (x_run s') = Some q \<and> (pl_RequiredApprovals q = [] \<or>
    (\<exists>rec. r_Approval (x_run s') = Some rec \<and> apr_Decision rec = DecisionApproved))"
proof -
  have "provisions s' \<noteq> 0" using assms(4,5) by (auto simp: provisions_trace filter_empty_conv)
  then show ?thesis
    using Execute_finished [OF assms(1-3)] by (auto simp: finished_def disposed_def exec_inv_def approved_def)
qed


theorem execute_needs_approval_witness:
  "\<exists>s'. Execute demo_adapter demo_env False (Suc 0) (demo_state []) = (Val (Inr ()), s') \<and>
     r_Plan (x_run s') \<noteq> None"
proof -
  obtain s' where s': "Execute demo_adapter demo_env False (Suc 0) (demo_state []) = (Val (Inr ()), s')"
    "EvExecuted (stamped demo_run demo_handle) \<in> set (x_trace s')"
    using demo_execute by blast
  have "NewRun demo_plan ''abc1234'' 10 = Some (x_run (demo_state []))" "x_trace (demo_state []) = []"
    using demo_run_new by (simp_all add: demo_state_def)
  from execute_needs_approval [OF this s'] s' show ?thesis by auto
qed

text \<open>
  a workload that completes in the moment its budget is exceeded keeps its machine. When
  the sampler has killed the run and \<^verbatim>\<open>Status\<close> still reports completion, artifact collection is
  skipped because the run is terminal, the branch for unretrieved outputs is taken, and the
  deferred cleanup is suppressed: the adapter is not called at all, the handle stays, and no
  cleanup error is recorded.
\<close>

theorem budget_kill_keeps_machine:
  assumes "r_State (x_run s) = RunStateBudgetExceeded" and "x_sched s = []" and "\<not> x_crashed s"
  shows "\<exists>msg s'. ephemeral_success A (Some h) s = (Val (True, Inl msg), s') \<and>
    deferred_cleanup A (ephemeral_success A (Some h)) s = (Val (Inl msg), s') \<and>
    x_trace s' = x_trace s \<and> x_world s' = x_world s \<and> x_run s' = x_run s"
  using assms
  by (simp add: ephemeral_success_def collectArtifacts_def deferred_cleanup_def step_defs interleave_idle
      Transition_def Let_def)

theorem budget_kill_keeps_machine_witness:
  "r_Handle (x_run (snd (ephemeral_success demo_adapter (Some demo_handle)
     ((demo_state [])\<lparr>x_run := demo_run\<lparr>r_State := RunStateBudgetExceeded, r_Handle := Some demo_handle\<rparr>\<rparr>)))) = Some demo_handle"
proof -
  let ?s = "(demo_state [])\<lparr>x_run := demo_run\<lparr>r_State := RunStateBudgetExceeded, r_Handle := Some demo_handle\<rparr>\<rparr>"
  have "r_State (x_run ?s) = RunStateBudgetExceeded" "x_sched ?s = []" "\<not> x_crashed ?s"
    by (simp_all add: demo_state_def)
  from budget_kill_keeps_machine [OF this, of demo_adapter demo_handle] show ?thesis by auto
qed

text \<open>
  the teardown before a retry is not checked. Whatever \<^verbatim>\<open>Cleanup\<close> returns, an error or a
  result without success, the handle is dropped and the run record is otherwise unchanged: a
  machine that survived it is not on the record.
\<close>

theorem retry_teardown_unchecked:
  assumes "r_Handle (x_run s) = Some h" and "x_sched s = []" and "\<not> x_crashed s"
    and "ad_Cleanup A h (x_world s) = (res, w')" and "\<nexists>e. res = Panics e"
  shows "\<exists>s'. retry_cleanup A s = (Val (), s') \<and> x_run s' = (x_run s)\<lparr>r_Handle := None\<rparr> \<and>
    r_CleanupError (x_run s') = r_CleanupError (x_run s)"
  using assms by (cases res) (simp_all add: retry_cleanup_def step_defs interleave_idle)

theorem retry_teardown_unchecked_witness:
  "let A = demo_adapter\<lparr>ad_Cleanup := \<lambda>_ w. (Err ''instance still terminating'', w)\<rparr>;
       s = (demo_state [])\<lparr>x_run := demo_run\<lparr>r_Handle := Some demo_handle\<rparr>\<rparr>
   in r_CleanupError (x_run (snd (retry_cleanup A s))) = '''' \<and> r_Handle (x_run (snd (retry_cleanup A s))) = None"
proof -
  let ?A = "demo_adapter\<lparr>ad_Cleanup := \<lambda>_ w. (Err ''instance still terminating'', w)\<rparr>"
  let ?s = "(demo_state [])\<lparr>x_run := demo_run\<lparr>r_Handle := Some demo_handle\<rparr>\<rparr>"
  have "r_Handle (x_run ?s) = Some demo_handle" "x_sched ?s = []" "\<not> x_crashed ?s"
    "ad_Cleanup ?A demo_handle (x_world ?s) = (Err ''instance still terminating'', [])"
    "\<nexists>e. Err ''instance still terminating'' = Panics e"
    by (simp_all add: demo_state_def)
  from retry_teardown_unchecked [OF this] show ?thesis by (auto simp: demo_run_fields Let_def demo_state_def)
qed

end
