(* ===== verification/Executor_Liveness.thy ===== *)
theory Executor_Liveness
  imports Executor_Safety
begin

text \<open>
  That the executor comes to an end: how the polling loop answers, and that with a duration
  limit \<^verbatim>\<open>Execute\<close> returns after finitely many polls.
\<close>

section \<open>The polling loop without background and deadline\<close>

text \<open>What the loop computes from the answers of \<^verbatim>\<open>Status\<close>.\<close>

fun wait_spec :: "nat \<Rightarrow> run_state call list \<Rightarrow> run_state result option" where
  "wait_spec errs [] = None"
| "wait_spec errs (Err e # cs) =
     (if maxConsecutiveStatusErrors \<le> Suc errs
      then Some (Inl (''status check failed '' @ show_int (int (Suc errs)) @ '' times in a row: '' @ e))
      else wait_spec (Suc errs) cs)"
| "wait_spec errs (Ret st # cs) = (if st \<noteq> RunStateRunning then Some (Inr st) else wait_spec 0 cs)"
| "wait_spec errs (Panics e # cs) = None"

text \<open>The answers of the first \<open>n\<close> polls.\<close>

primrec status_answers :: "'w adapter \<Rightarrow> run_handle \<Rightarrow> nat \<Rightarrow> 'w \<Rightarrow> run_state call list" where
  "status_answers A h 0 w = []"
| "status_answers A h (Suc n) w =
     (let (c, w') = ad_Status A False h w in c # status_answers A h n w')"

definition idle :: "'w exec_state \<Rightarrow> bool" where
  "idle s \<longleftrightarrow> x_sched s = [] \<and> \<not> x_crashed s \<and> \<not> x_ctx_done s"

lemma wait_loop_refines:
  assumes "idle s" "wait_spec errs (status_answers A h fuel (x_world s)) = Some res"
  shows "\<exists>s'. wait_loop A h d None fuel errs s = (Val res, s') \<and> x_run s' = x_run s"
  using assms
proof (induction fuel arbitrary: s errs)
  case 0
  then show ?case by simp
next
  case (Suc fuel)
  obtain c w' where st: "ad_Status A False h (x_world s) = (c, w')" by fastforce
  have i: "x_sched s = []" "\<not> x_crashed s" "\<not> x_ctx_done s" using Suc.prems(1) by (simp_all add: idle_def)
  let ?s = "s\<lparr>x_world := w', x_trace := x_trace s @ [EvStatus c], x_now := x_now s + statusPollInterval\<rparr>"
  have idle': "idle ?s" using i by (simp add: idle_def)
  note simps = ebind_def status_call_def interleave_idle i st log_event_x_def ret_def select_wake_def Let_def
  show ?case
  proof (cases c)
    case (Err e)
    with Suc.prems st Suc.IH [OF idle'] show ?thesis
      by (auto simp: simps split: if_splits)
  next
    case (Ret st')
    with Suc.prems st Suc.IH [OF idle'] show ?thesis
      by (auto simp: simps split: if_splits)
  qed (use Suc.prems st in simp)
qed

fun blips :: "nat \<Rightarrow> run_state call list \<Rightarrow> bool" where
  "blips errs [] = True"
| "blips errs (Err e # cs) = (Suc errs < maxConsecutiveStatusErrors \<and> blips (Suc errs) cs)"
| "blips errs (Ret st # cs) = (st = RunStateRunning \<and> blips 0 cs)"
| "blips errs (Panics e # cs) = False"

lemma wait_spec_blips: "blips errs pre \<Longrightarrow> st \<noteq> RunStateRunning \<Longrightarrow> wait_spec errs (pre @ Ret st # cs) = Some (Inr st)"
  by (induction errs pre rule: blips.induct) auto

section \<open>Termination\<close>

text \<open>
  A step that ends: it does not halt, whatever it returns, and it keeps the assertion.
\<close>

definition ends :: "('w exec_state \<Rightarrow> bool) \<Rightarrow> ('w, 'a) exec \<Rightarrow> bool" where
  "ends P m \<longleftrightarrow> (\<forall>s. P s \<longrightarrow> fst (m s) \<noteq> Halt \<and> P (snd (m s)))"

definition quiet :: "('w exec_state \<Rightarrow> bool) \<Rightarrow> ('w, 'a) exec \<Rightarrow> bool" where
  "quiet P m \<longleftrightarrow> ends P m \<and> (\<forall>s e. P s \<longrightarrow> fst (m s) \<noteq> Panic e)"

lemma endsD: "ends P m \<Longrightarrow> P s \<Longrightarrow> m s = (oc, s') \<Longrightarrow> oc \<noteq> Halt \<and> P s'"
  by (auto simp: ends_def dest!: spec [of _ s])

lemma endsI: "(\<And>s oc s'. P s \<Longrightarrow> m s = (oc, s') \<Longrightarrow> oc \<noteq> Halt \<and> P s') \<Longrightarrow> ends P m"
  unfolding ends_def by (metis prod.collapse)

lemma ends_ebind:
  assumes "ends P m" "\<And>a. ends P (k a)"
  shows "ends P (ebind m k)"
proof (rule endsI)
  fix s oc s' assume s: "P s" and e: "ebind m k s = (oc, s')"
  obtain oc1 s1 where m: "m s = (oc1, s1)" by fastforce
  from endsD [OF assms(1) s m] e m endsD [OF assms(2), of s1] show "oc \<noteq> Halt \<and> P s'"
    by (cases oc1) (auto simp: ebind_def)
qed

lemma quiet_ends: "quiet P m \<Longrightarrow> ends P m"
  by (simp add: quiet_def)

lemma quiet_ebind:
  assumes "quiet P m" "\<And>a. quiet P (k a)"
  shows "quiet P (ebind m k)"
proof -
  have "ends P (ebind m k)" using assms by (intro ends_ebind) (auto simp: quiet_def)
  moreover have "fst (ebind m k s) \<noteq> Panic e" if "P s" for s e
  proof (cases "m s")
    case (Pair oc s')
    have "P s'" "\<forall>e. oc \<noteq> Panic e" "oc \<noteq> Halt"
      using assms(1) that Pair endsD [OF quiet_ends [OF assms(1)] that Pair]
      by (auto simp: quiet_def dest!: spec [of _ s])
    with Pair assms(2) show ?thesis by (cases oc) (auto simp: ebind_def quiet_def)
  qed
  ultimately show ?thesis by (simp add: quiet_def)
qed

lemma quiet_ret: "quiet P (ret a)"
  by (simp add: quiet_def ends_def ret_def)

lemma quiet_upd: "(\<And>s. P s \<Longrightarrow> P (f s)) \<Longrightarrow> quiet P (upd f)"
  by (simp add: quiet_def ends_def upd_def)

lemma quiet_gets: "quiet P (gets f)"
  by (simp add: quiet_def ends_def gets_def)

lemma ends_panic: "ends P (panic e)"
  by (simp add: ends_def panic_def)

lemma ends_with_plan: "(\<And>p. ends P (k p)) \<Longrightarrow> ends P (with_plan k)"
  by (auto simp: ends_def with_plan_def split: option.split)

lemma ends_finally:
  assumes "ends P m" "ends P d"
  shows "ends P (finally_do m d)"
proof (rule endsI)
  fix s oc s' assume s: "P s" and e: "finally_do m d s = (oc, s')"
  obtain oc1 s1 where m: "m s = (oc1, s1)" by fastforce
  note o = endsD [OF assms(1) s m]
  show "oc \<noteq> Halt \<and> P s'"
  proof (cases oc1)
    case (Val x)
    have "ends P (ebind d (\<lambda>_. ret x))" by (intro ends_ebind assms(2) quiet_ends [OF quiet_ret])
    from endsD [OF this] show ?thesis using o e m Val by (auto simp: finally_do_def)
  next
    case (Panic x)
    have "ends P (ebind d (\<lambda>_. panic x))" by (intro ends_ebind assms(2) ends_panic)
    from endsD [OF this] show ?thesis using o e m Panic by (auto simp: finally_do_def)
  qed (use o in simp)
qed

lemma quiet_recover:
  assumes "ends P m" "\<And>e. quiet P (h e)"
  shows "quiet P (recover_with m h)"
proof -
  have "fst (recover_with m h s) \<noteq> Halt \<and> (\<forall>e. fst (recover_with m h s) \<noteq> Panic e) \<and> P (snd (recover_with m h s))"
    if "P s" for s
  proof (cases "m s")
    case (Pair oc s1)
    from endsD [OF assms(1) that Pair] have "oc \<noteq> Halt" "P s1" by simp_all
    with assms(2) Pair show ?thesis by (cases oc) (auto simp: recover_with_def quiet_def ends_def)
  qed
  then show ?thesis by (simp add: quiet_def ends_def)
qed

lemma ends_on_panic: "ends P m \<Longrightarrow> (\<And>s. P s \<Longrightarrow> P (log_event_x ev s)) \<Longrightarrow> ends P (on_panic ev m)"
  by (fastforce simp: ends_def on_panic_def split: prod.splits outcome.splits)

lemma quiet_on_panic:
  assumes "quiet P m"
  shows "quiet P (on_panic ev m)"
proof -
  have "on_panic ev m s = m s" if "P s" for s
    using assms that by (cases "m s"; cases "fst (m s)") (auto simp: on_panic_def quiet_def dest!: spec [of _ s])
  with assms show ?thesis by (simp add: quiet_def ends_def)
qed

text \<open>
  The calls the background or the recovery makes do not panic. (A panic in a background goroutine
  kills the process.)
\<close>

definition no_stray_panics :: "'w adapter \<Rightarrow> bool" where
  "no_stray_panics A \<longleftrightarrow>
     (\<forall>h w e w'. ad_Terminate A h w \<noteq> (Panics e, w')) \<and>
     (\<forall>h w e w'. ad_Cleanup A h w \<noteq> (Panics e, w')) \<and>
     (\<forall>ext b h d w e w'. ad_ExtendWatchdog A = Some ext \<longrightarrow> ext b h d w \<noteq> (Panics e, w'))"

definition calm :: "plan \<Rightarrow> 'w exec_state \<Rightarrow> bool" where
  "calm p s \<longleftrightarrow> \<not> x_crashed s \<and> r_Plan (x_run s) = Some p"

lemma bg_step_no_crash:
  assumes "no_stray_panics A" "calm p s"
  shows "\<not> x_crashed (bg_step A ev s)"
proof -
  have t: "\<not> x_crashed (sampler_terminate A tgt t)" if "\<not> x_crashed t" for tgt t
    using assms(1) that
    by (auto simp: sampler_terminate_def log_event_x_def no_stray_panics_def split: sampler_target.split prod.split call.split)
  have s: "\<not> x_crashed (sampler_tick A tgt s)" for tgt
    using assms(2) t
    by (auto simp: sampler_tick_def calm_def Let_def saveRun_def on_run_def split: prod.split sum.split)
  have w: "\<not> x_crashed (watchdog_tick A h s)" for h
    using assms
    by (auto simp: watchdog_tick_def calm_def no_stray_panics_def log_event_x_def saveRun_def on_run_def
        split: option.split prod.split call.split)
  show ?thesis using s w assms(2) by (cases ev) (auto simp: calm_def split: option.split)
qed

lemma bg_step_calm: "no_stray_panics A \<Longrightarrow> calm p s \<Longrightarrow> calm p (bg_step A ev s)"
  using bg_step_no_crash [of A p s ev] bg_step_frame [of s A ev] by (auto simp: calm_def bg_frame_def)

lemma bg_steps_calm: "no_stray_panics A \<Longrightarrow> calm p s \<Longrightarrow> calm p (fold (bg_step A) evs s)"
  by (induction evs arbitrary: s) (auto intro: bg_step_calm)

lemma run_background_calm: "no_stray_panics A \<Longrightarrow> calm p s \<Longrightarrow> calm p (run_background A s)"
  using bg_steps_calm [of A p] by (auto simp: run_background_def calm_def split: list.split)

lemma quiet_interleave: "no_stray_panics A \<Longrightarrow> quiet (calm p) (interleave A)"
  using run_background_calm [of A p] by (auto simp: quiet_def ends_def interleave_def Let_def calm_def)

lemma quiet_upd_run: "(\<And>r. r_Plan (f r) = r_Plan r) \<Longrightarrow> quiet (calm p) (upd (on_run f))"
  by (rule quiet_upd) (simp add: calm_def on_run_def)

lemma quiet_log: "quiet (calm p) (upd (\<lambda>s. log_event_x (ev s) s))"
  by (rule quiet_upd) (simp add: calm_def log_event_x_def)

lemma quiet_run_op:
  assumes "no_stray_panics A" "\<And>now r. r_Plan (f now r) = r_Plan r"
  shows "quiet (calm p) (run_op A f)"
  unfolding run_op_def
  by (intro quiet_ebind quiet_interleave quiet_upd assms(1)) (simp add: calm_def on_run_def assms(2))

lemma quiet_read_run: "no_stray_panics A \<Longrightarrow> quiet (calm p) (read_run A f)"
  unfolding read_run_def by (intro quiet_ebind quiet_interleave quiet_gets)

lemma quiet_save: "no_stray_panics A \<Longrightarrow> quiet (calm p) (save_x A)"
  unfolding save_x_def by (intro quiet_ebind quiet_interleave quiet_upd) (auto simp: calm_def)

lemma quiet_transition: "no_stray_panics A \<Longrightarrow> quiet (calm p) (transition_x A to)"
  unfolding transition_x_def
  by (intro quiet_ebind quiet_interleave)
    (auto simp: quiet_def ends_def calm_def Let_def Transition_def split: prod.splits if_splits)

lemma ends_adapter_call: "no_stray_panics A \<Longrightarrow> ends (calm p) (adapter_call A f)"
  unfolding adapter_call_def
  by (intro ends_ebind quiet_ends [OF quiet_interleave])
    (auto simp: ends_def call_x_def calm_def split: prod.split call.split)

lemma quiet_adapter_call:
  assumes "no_stray_panics A" "\<And>s w e w'. f s w \<noteq> (Panics e, w')"
  shows "quiet (calm p) (adapter_call A f)"
proof -
  have "quiet (calm p) (call_x f)"
    using assms(2) by (auto simp: quiet_def ends_def call_x_def calm_def split: prod.split call.split)
  then show ?thesis unfolding adapter_call_def using assms(1) by (intro quiet_ebind quiet_interleave)
qed


section \<open>Each operation ends\<close>

lemma quiet_cleanup_call: "no_stray_panics A \<Longrightarrow> quiet (calm p) (cleanup_call A h)"
  unfolding cleanup_call_def Let_def
  by (intro quiet_ebind quiet_on_panic quiet_adapter_call quiet_log quiet_ret) (auto simp: no_stray_panics_def)

lemma quiet_cleanup_tries: "no_stray_panics A \<Longrightarrow> quiet (calm p) (cleanup_tries A h n)"
proof (induction n)
  case 0
  then show ?case
    unfolding cleanup_tries.simps
    by (intro quiet_ebind quiet_run_op) (auto simp: setCleanupError_def SetError_def)
next
  case (Suc n)
  then show ?case
    unfolding cleanup_tries.simps
    by (intro quiet_ebind quiet_transition quiet_cleanup_call)
      (auto intro!: quiet_ebind quiet_transition quiet_upd_run quiet_ret)
qed

lemma quiet_attemptCleanup: "no_stray_panics A \<Longrightarrow> quiet (calm p) (attemptCleanup A)"
  unfolding attemptCleanup_def
  by (intro quiet_ebind quiet_read_run)
    (auto split: option.split intro!: quiet_ebind quiet_read_run quiet_ret quiet_cleanup_tries)

lemma ends_collect_tries: "no_stray_panics A \<Longrightarrow> ends (calm p) (collect_tries A h n)"
proof (induction n)
  case 0
  then show ?case by (simp add: quiet_ends [OF quiet_ret])
next
  case (Suc n)
  then show ?case
    unfolding collect_tries.simps
    by (intro ends_ebind ends_adapter_call)
      (auto split: sum.split intro!: ends_ebind quiet_ends [OF quiet_ret] quiet_ends [OF quiet_upd_run]
        quiet_ends [OF quiet_interleave] quiet_ends [OF quiet_gets])
qed

lemma ends_collectArtifacts: "no_stray_panics A \<Longrightarrow> ends (calm p) (collectArtifacts A ho)"
  unfolding collectArtifacts_def
  by (auto split: option.split sum.split intro!: ends_ebind ends_collect_tries quiet_ends [OF quiet_ret]
      quiet_ends [OF quiet_transition])

lemma quiet_supervision_stop: "no_stray_panics A \<Longrightarrow> quiet (calm p) (supervision_stop A)"
  unfolding supervision_stop_def by (intro quiet_ebind quiet_interleave quiet_upd) (auto simp: calm_def)

lemma ends_startCostSampler: "ends (calm p) (startCostSampler tgt)"
  unfolding startCostSampler_def Let_def
  by (intro ends_with_plan) (auto intro!: quiet_ends [OF quiet_upd] simp: calm_def)

lemma ends_superviseHandle: "no_stray_panics A \<Longrightarrow> ends (calm p) (superviseHandle A h)"
proof -
  assume A: "no_stray_panics A"
  have u: "ends (calm p) (upd (\<lambda>s. s\<lparr>x_watchdog := t\<rparr>))" for t
    by (intro quiet_ends [OF quiet_upd]) (simp add: calm_def)
  have "ends (calm p) (startEphemeralWatchdog A h)"
    unfolding startEphemeralWatchdog_def using A
    by (auto split: option.split sum.split intro!: u ends_ebind ends_adapter_call quiet_ends [OF quiet_ret]
        quiet_ends [OF quiet_run_op] quiet_ends [OF quiet_save] quiet_ends [OF quiet_log])
  then show ?thesis unfolding superviseHandle_def by (intro ends_ebind ends_startCostSampler)
qed

lemma ends_report_failure: "no_stray_panics A \<Longrightarrow> ends (calm p) (report_failure A h)"
  unfolding report_failure_def
  by (auto split: option.split intro!: ends_ebind quiet_ends [OF quiet_ret] quiet_ends [OF quiet_gets]
      quiet_ends [OF quiet_run_op] simp: setFailure_def)

subsection \<open>The polling loop under a deadline\<close>

text \<open>The deadline is at most \<open>n\<close> polls away.\<close>

definition due_in :: "plan \<Rightarrow> time \<Rightarrow> nat \<Rightarrow> 'w exec_state \<Rightarrow> bool" where
  "due_in p t n s \<longleftrightarrow> calm p s \<and> t \<le> x_now s + int n * statusPollInterval"

lemma due_in_interleave:
  assumes "no_stray_panics A" "due_in p t n s"
  shows "\<exists>s'. interleave A s = (Val (), s') \<and> due_in p t n s'"
  using run_background_calm [OF assms(1), of p s] run_background_frame [of s A] assms(2)
  by (auto simp: due_in_def interleave_def Let_def calm_def bg_frame_def)

lemma status_call_due_in:
  assumes "no_stray_panics A" "due_in p t n s"
  shows "\<exists>oc s'. status_call A h s = (oc, s') \<and> oc \<noteq> Halt \<and> due_in p t n s'"
proof -
  obtain s1 where s1: "interleave A s = (Val (), s1)" "due_in p t n s1"
    using due_in_interleave [OF assms] by blast
  obtain c w' where c: "ad_Status A (x_ctx_done s1) h (x_world s1) = (c, w')" by fastforce
  show ?thesis
    using s1(2) by (cases c) (auto simp: status_call_def ebind_def s1(1) c Let_def log_event_x_def due_in_def calm_def)
qed

lemma select_wake_due_in:
  assumes "due_in p t (Suc n) s"
  shows "(\<exists>wk s'. select_wake (Some t) s = (Val wk, s') \<and> wk \<noteq> WakePoll \<and> calm p s') \<or>
    (\<exists>s'. select_wake (Some t) s = (Val WakePoll, s') \<and> due_in p t n s' \<and> n \<noteq> 0)"
  using assms
  by (cases n) (auto simp: select_wake_def Let_def due_in_def calm_def algebra_simps split: list.split bool.split)

lemma ends_terminate_call: "no_stray_panics A \<Longrightarrow> ends (calm p) (terminate_call A h)"
  unfolding terminate_call_def by (intro ends_ebind ends_adapter_call quiet_ends [OF quiet_log])

lemma wait_continue_ends:
  assumes "no_stray_panics A" "due_in p t (Suc n) s"
    and IH: "\<And>s errs. n \<noteq> 0 \<Longrightarrow> due_in p t n s \<Longrightarrow>
      fst (wait_loop A h d (Some t) n errs s) \<noteq> Halt \<and> calm p (snd (wait_loop A h d (Some t) n errs s))"
  shows "let m = ebind (interleave A) (\<lambda>_. ebind (select_wake (Some t)) (\<lambda>wk. case wk of
               WakeCtx \<Rightarrow> ret x | WakeDeadline \<Rightarrow> ebind (terminate_call A h) (\<lambda>_. ret y)
             | WakePoll \<Rightarrow> wait_loop A h d (Some t) n errs)) s in fst m \<noteq> Halt \<and> calm p (snd m)"
proof -
  obtain s1 where s1: "interleave A s = (Val (), s1)" "due_in p t (Suc n) s1"
    using due_in_interleave [OF assms(1,2)] by blast
  have tc: "ends (calm p) (ebind (terminate_call A h) (\<lambda>_. ret y))"
    by (intro ends_ebind ends_terminate_call assms(1) quiet_ends [OF quiet_ret])
  from select_wake_due_in [OF s1(2)] show ?thesis
  proof (elim disjE exE conjE)
    fix wk s2 assume "select_wake (Some t) s1 = (Val wk, s2)" "wk \<noteq> WakePoll" "calm p s2"
    then show ?thesis
      using tc by (cases wk) (auto simp: ebind_def [of "interleave A"] ebind_def [of "select_wake (Some t)"] s1(1) ret_def ends_def)
  next
    fix s2 assume "select_wake (Some t) s1 = (Val WakePoll, s2)" "due_in p t n s2" "n \<noteq> 0"
    then show ?thesis
      using IH by (auto simp: ebind_def [of "interleave A"] ebind_def [of "select_wake (Some t)"] s1(1))
  qed
qed

lemma wait_loop_ends:
  assumes "no_stray_panics A"
  shows "n \<noteq> 0 \<Longrightarrow> due_in p t n s \<Longrightarrow>
    fst (wait_loop A h d (Some t) n errs s) \<noteq> Halt \<and> calm p (snd (wait_loop A h d (Some t) n errs s))"
proof (induction n arbitrary: s errs)
  case 0
  then show ?case by simp
next
  case (Suc n)
  obtain oc s1 where st: "status_call A h s = (oc, s1)" "oc \<noteq> Halt" "due_in p t (Suc n) s1"
    using status_call_due_in [OF assms Suc.prems(2)] by blast
  have c: "calm p s1" using st(3) by (simp add: due_in_def)
  note k = wait_continue_ends [OF assms st(3) Suc.IH, unfolded Let_def]
  show ?case
  proof (cases oc)
    case (Val res)
    then show ?thesis
      using c k by (cases res) (auto simp: ebind_def [of "status_call A h"] st(1) Let_def ret_def)
  next
    case (Panic e)
    then show ?thesis using c by (simp add: ebind_def [of "status_call A h"] st(1))
  qed (use st(2) in simp)
qed

lemma ends_waitForTerminal:
  assumes "no_stray_panics A" "0 < d" "d \<le> int fuel * statusPollInterval"
  shows "ends (calm p) (waitForTerminal A fuel h d)"
proof -
  have "fuel \<noteq> 0" using assms(2,3) by (cases fuel) simp_all
  moreover have "due_in p (x_now s + d) fuel s" if "calm p s" for s :: "'a exec_state"
    using that assms(3) by (simp add: due_in_def)
  ultimately have "fst (wait_loop A h d (Some (x_now s + d)) fuel 0 s) \<noteq> Halt \<and>
      calm p (snd (wait_loop A h d (Some (x_now s + d)) fuel 0 s))" if "calm p s" for s
    using wait_loop_ends [OF assms(1)] that by blast
  then show ?thesis
    using assms(2) by (simp add: ends_def waitForTerminal_def ebind_def gets_def)
qed


subsection \<open>The whole run\<close>

lemma ends_set_handle: "ends (calm p) (set_handle h)"
  unfolding set_handle_def by (intro quiet_ends [OF quiet_upd_run]) simp

lemma ends_persist_handle: "no_stray_panics A \<Longrightarrow> ends (calm p) (persist_handle_x A)"
  unfolding persist_handle_x_def by (intro quiet_ends [OF quiet_run_op]) simp_all

lemma ends_execute_call: "no_stray_panics A \<Longrightarrow> ends (calm p) (execute_call A c)"
  unfolding execute_call_def
  by (intro ends_with_plan ends_ebind ends_on_panic ends_adapter_call quiet_ends [OF quiet_log] quiet_ends [OF quiet_ret])
    (simp_all add: calm_def log_event_x_def)

lemma ends_retry_cleanup: "no_stray_panics A \<Longrightarrow> ends (calm p) (retry_cleanup A)"
  unfolding retry_cleanup_def
  by (intro ends_ebind quiet_ends [OF quiet_read_run])
    (auto split: option.split intro!: ends_panic ends_ebind ends_adapter_call quiet_ends [OF quiet_log]
      quiet_ends [OF quiet_upd_run])

text \<open>The polls allowed by the fuel cover the limit of the plan.\<close>

definition fuel_covers :: "plan \<Rightarrow> nat \<Rightarrow> bool" where
  "fuel_covers p fuel \<longleftrightarrow> 0 < pc_MaxDuration (pl_Constraints p) \<and>
     pc_MaxDuration (pl_Constraints p) \<le> int fuel * statusPollInterval"

lemma ends_with_this_plan: "ends (calm p) (k p) \<Longrightarrow> ends (calm p) (with_plan k)"
  by (auto simp: ends_def with_plan_def calm_def split: option.split)

lemma ends_retry:
  assumes "no_stray_panics A" "fuel_covers p fuel"
  shows "ends (calm p) (retryTransientFailure A fuel)"
proof -
  have w: "ends (calm p) (waitForTerminal A fuel h (pc_MaxDuration (pl_Constraints p)))" for h
    using assms by (intro ends_waitForTerminal) (auto simp: fuel_covers_def)
  show ?thesis
    unfolding retryTransientFailure_def
    by (intro ends_ebind quiet_ends [OF quiet_run_op] quiet_ends [OF quiet_supervision_stop] ends_retry_cleanup
        ends_execute_call assms(1), simp add: beginRetry_def)
      (auto split: sum.split intro!: assms(1) ends_ebind quiet_ends [OF quiet_ret] quiet_ends [OF quiet_gets]
        ends_set_handle ends_persist_handle quiet_ends [OF quiet_save] ends_superviseHandle ends_with_this_plan
        w ends_report_failure)
qed

lemma ends_fail_execution: "no_stray_panics A \<Longrightarrow> ends (calm p) (fail_execution A ho e m)"
  unfolding fail_execution_def
  by (intro ends_ebind ends_collectArtifacts quiet_ends [OF quiet_run_op] quiet_ends [OF quiet_ret])
    (auto simp: SetError_def)

lemma ends_ephemeral_success: "no_stray_panics A \<Longrightarrow> ends (calm p) (ephemeral_success A ho)"
  unfolding ephemeral_success_def
  by (intro ends_ebind ends_collectArtifacts)
    (auto split: sum.split intro!: ends_ebind quiet_ends [OF quiet_transition] quiet_ends [OF quiet_save]
      quiet_ends [OF quiet_read_run] quiet_ends [OF quiet_ret] quiet_ends [OF quiet_run_op]
      quiet_ends [OF quiet_attemptCleanup] simp: FinalizeCost_def setCost_def)

lemma ends_ephemeral_body:
  assumes "no_stray_panics A" "fuel_covers p fuel"
  shows "ends (calm p) (ephemeral_body A lw fuel h)"
proof -
  have w: "ends (calm p) (waitForTerminal A fuel h (pc_MaxDuration (pl_Constraints p)))" for h
    using assms by (intro ends_waitForTerminal) (auto simp: fuel_covers_def)
  have b: "ends (calm p) (ebind (if retry then retryTransientFailure A fuel else ret (Some h, False)) (\<lambda>(ho, retrySucceeded).
      if \<not> retrySucceeded then fail_execution A ho e m else ephemeral_success A ho))" for retry e m
    by (intro ends_ebind)
      (auto intro!: ends_retry [OF assms] quiet_ends [OF quiet_ret] ends_fail_execution ends_ephemeral_success assms(1))
  show ?thesis
    unfolding ephemeral_body_def
    by (intro ends_ebind ends_with_this_plan w)
      (auto split: sum.split intro!: b ends_ebind ends_adapter_call ends_report_failure quiet_ends [OF quiet_ret]
        ends_fail_execution ends_ephemeral_success quiet_ends [OF quiet_interleave] quiet_ends [OF quiet_gets] assms(1))
qed

lemma ends_deferred_cleanup:
  assumes "no_stray_panics A" "ends (calm p) m"
  shows "ends (calm p) (deferred_cleanup A m)"
proof (rule endsI)
  fix s oc s' assume s: "calm p s" and e: "deferred_cleanup A m s = (oc, s')"
  obtain oc1 s1 where m: "m s = (oc1, s1)" by fastforce
  note o = endsD [OF assms(2) s m]
  let ?c = "ebind (attemptCleanup A) (\<lambda>_. save_x A)"
  have c: "ends (calm p) ?c" using assms(1) by (intro ends_ebind quiet_ends [OF quiet_attemptCleanup] quiet_ends [OF quiet_save])
  show "oc \<noteq> Halt \<and> calm p s'"
  proof (cases oc1)
    case (Val x)
    have "ends (calm p) (ebind ?c (\<lambda>_. ret (snd x)))" by (intro ends_ebind [OF c] quiet_ends [OF quiet_ret])
    from endsD [OF this] show ?thesis using o e m Val by (cases x) (auto simp: deferred_cleanup_def Let_def split: if_splits)
  next
    case (Panic x)
    have "ends (calm p) (ebind ?c (\<lambda>_. panic x))" by (intro ends_ebind [OF c] ends_panic)
    from endsD [OF this] show ?thesis using o e m Panic by (auto simp: deferred_cleanup_def Let_def)
  qed (use o in simp)
qed

lemma ends_executeEphemeral:
  assumes "no_stray_panics A" "fuel_covers p fuel"
  shows "ends (calm p) (executeEphemeral A lw fuel h)"
  unfolding executeEphemeral_def
  by (intro ends_deferred_cleanup ends_ebind ends_superviseHandle ends_finally ends_ephemeral_body
      quiet_ends [OF quiet_supervision_stop] assms)

lemma ends_etry: "ends P m \<Longrightarrow> (\<And>a. ends P (k a)) \<Longrightarrow> ends P (etry m k)"
  unfolding etry_def by (intro ends_ebind) (auto split: sum.split intro: quiet_ends [OF quiet_ret])

lemma ends_fail_with: "no_stray_panics A \<Longrightarrow> ends (calm p) (fail_with A st e m)"
  unfolding fail_with_def
  by (intro ends_ebind quiet_ends [OF quiet_run_op] quiet_ends [OF quiet_ret]) (auto simp: SetError_def)


text \<open>The approval gate gets a decision: nothing has to be approved, or an approver answers.\<close>

definition gets_decision :: "plan \<Rightarrow> approval_env \<Rightarrow> bool" where
  "gets_decision p ae \<longleftrightarrow> pl_RequiredApprovals p = [] \<or> (\<exists>d e. ArriveApprover d e \<in> set (ae_arrivals ae))"

lemma settle_keeps_open: "\<not> g_abandoned g \<Longrightarrow> g_resultCh g = g_settled g \<Longrightarrow>
    \<not> g_abandoned (fst (settle d g)) \<and> g_resultCh (fst (settle d g)) \<and> g_settled (fst (settle d g))"
  by (auto simp: settle_def)

lemma gate_arrive_open:
  assumes "\<not> g_abandoned g" "g_resultCh g = g_settled g"
  shows "\<not> g_abandoned (gate_arrive a g) \<and> g_resultCh (gate_arrive a g) = g_settled (gate_arrive a g) \<and>
    (g_resultCh g \<longrightarrow> g_resultCh (gate_arrive a g)) \<and> (\<forall>d e. a = ArriveApprover d e \<longrightarrow> g_resultCh (gate_arrive a g))"
proof (cases a)
  case (ArriveApprover d e)
  then show ?thesis using settle_keeps_open [OF assms] by simp
next
  case (ArriveConn m)
  then show ?thesis using fst_handleConn [of m g] settle_keeps_open [OF assms] assms by auto
qed

lemma gate_arrivals_settle:
  assumes "\<not> g_abandoned g" "g_resultCh g = g_settled g"
    and "g_resultCh g \<or> (\<exists>d e. ArriveApprover d e \<in> set as)"
  shows "g_resultCh (fold gate_arrive as g)"
  using assms
proof (induction as arbitrary: g)
  case Nil
  then show ?case by simp
next
  case (Cons a as)
  from gate_arrive_open [OF Cons.prems(1,2), of a] Cons.prems(3) show ?case
    by (auto intro!: Cons.IH)
qed

lemma NewGate_open: "NewGate dir listen i reqs = Inr g \<Longrightarrow> \<not> g_abandoned g \<and> g_resultCh g = g_settled g"
  by (auto simp: NewGate_def split: sum.splits)

lemma ends_gate_wait:
  assumes "NewGate dir listen i reqs = Inr g" "\<exists>d e. ArriveApprover d e \<in> set (ae_arrivals ae)"
  shows "ends (calm p) (gate_wait ae g)"
proof -
  have "g_resultCh (fold gate_arrive (ae_arrivals ae) g)"
    using NewGate_open [OF assms(1)] assms(2) by (intro gate_arrivals_settle) auto
  then show ?thesis by (auto simp: ends_def gate_wait_def Let_def calm_def)
qed

lemma ends_await_approval:
  assumes "no_stray_panics A" "gets_decision p ae"
  shows "ends (calm p) (await_approval A ae)"
proof -
  have k: "ends (calm p) (case NewGate (ae_dir ae) (ae_listen ae) i (pl_RequiredApprovals p) of
      Inl e \<Rightarrow> fail_with A RunStateApprovalDenied e (''open approval gate: '' @ e)
    | Inr g \<Rightarrow> ebind (interleave A) (\<lambda>_. ebind (gate_wait ae g) (\<lambda>(rec, err).
        ebind (upd (on_run (\<lambda>r. r\<lparr>r_Approval := Some rec\<rparr>))) (\<lambda>_.
          case err of None \<Rightarrow> ret (Inr ())
          | Some e \<Rightarrow> fail_with A RunStateApprovalDenied (wait_error_string e)
              (''approval denied: '' @ wait_error_string e)))))"
    if "\<exists>d e. ArriveApprover d e \<in> set (ae_arrivals ae)" for i
  proof (cases "NewGate (ae_dir ae) (ae_listen ae) i (pl_RequiredApprovals p)")
    case (Inl e)
    then show ?thesis using ends_fail_with [OF assms(1)] by simp
  next
    case (Inr g)
    show ?thesis
      unfolding Inr sum.case
      by (intro ends_ebind quiet_ends [OF quiet_interleave] assms(1) ends_gate_wait [OF Inr that])
        (auto split: option.split intro!: ends_ebind quiet_ends [OF quiet_upd_run] quiet_ends [OF quiet_ret]
          ends_fail_with assms(1))
  qed
  show ?thesis
    unfolding await_approval_def
  proof (rule ends_with_this_plan)
    show "ends (calm p) (if pl_RequiredApprovals p = [] then ret (Inr ())
      else etry (transition_x A RunStateAwaitingApproval) (\<lambda>_. ebind (read_run A r_ID) (\<lambda>i.
        case NewGate (ae_dir ae) (ae_listen ae) i (pl_RequiredApprovals p) of
          Inl e \<Rightarrow> fail_with A RunStateApprovalDenied e (''open approval gate: '' @ e)
        | Inr g \<Rightarrow> ebind (interleave A) (\<lambda>_. ebind (gate_wait ae g) (\<lambda>(rec, err).
            ebind (upd (on_run (\<lambda>r. r\<lparr>r_Approval := Some rec\<rparr>))) (\<lambda>_.
              case err of None \<Rightarrow> ret (Inr ())
              | Some e \<Rightarrow> fail_with A RunStateApprovalDenied (wait_error_string e)
                  (''approval denied: '' @ wait_error_string e)))))))"
    proof (cases "pl_RequiredApprovals p = []")
      case True
      then show ?thesis by (simp add: quiet_ends [OF quiet_ret])
    next
      case False
      then have d: "\<exists>d e. ArriveApprover d e \<in> set (ae_arrivals ae)" using assms(2) by (simp add: gets_decision_def)
      show ?thesis
        unfolding if_not_P [OF False]
        by (intro ends_etry quiet_ends [OF quiet_transition] ends_ebind quiet_ends [OF quiet_read_run] k d assms(1))
    qed
  qed
qed

lemma ends_execute_prepare:
  assumes "no_stray_panics A" "gets_decision p ae"
  shows "ends (calm p) (execute_prepare A ae)"
  unfolding execute_prepare_def
  by (intro ends_etry quiet_ends [OF quiet_transition] ends_with_this_plan ends_ebind ends_adapter_call assms(1))
    (auto split: sum.split intro!: ends_fail_with ends_etry quiet_ends [OF quiet_transition]
      ends_await_approval ends_ebind ends_adapter_call assms)

lemma ends_startLongRunning: "no_stray_panics A \<Longrightarrow> ends (calm p) (startLongRunning A)"
  unfolding startLongRunning_def
  by (auto split: option.split intro!: quiet_ends [OF quiet_ret] ends_ebind quiet_ends [OF quiet_read_run]
      ends_panic ends_adapter_call quiet_ends [OF quiet_run_op] quiet_ends [OF quiet_save])

lemma ends_execute_body:
  assumes "no_stray_panics A" "gets_decision p ae" "fuel_covers p fuel"
  shows "ends (calm p) (execute_body A ae lw fuel)"
proof -
  have u: "ends (calm p) (upd (\<lambda>s. s\<lparr>x_sampler := None\<rparr>))"
    by (intro quiet_ends [OF quiet_upd]) (simp add: calm_def)
  show ?thesis
    unfolding execute_body_def
    by (intro ends_etry ends_execute_prepare ends_ebind quiet_ends [OF quiet_save] ends_startCostSampler
        ends_execute_call quiet_ends [OF quiet_interleave] u assms)
      (auto split: sum.split intro!: ends_ebind quiet_ends [OF quiet_read_run] quiet_ends [OF quiet_save]
        quiet_ends [OF quiet_ret] ends_fail_with quiet_ends [OF quiet_gets] ends_set_handle
        quiet_ends [OF quiet_attemptCleanup] ends_persist_handle ends_with_this_plan quiet_ends [OF quiet_run_op]
        ends_startLongRunning ends_executeEphemeral assms)
qed

lemma quiet_Execute:
  assumes "no_stray_panics A" "gets_decision p ae" "fuel_covers p fuel"
  shows "quiet (calm p) (Execute A ae lw fuel)"
  unfolding Execute_def Let_def
  by (intro quiet_recover ends_execute_body quiet_ebind quiet_run_op quiet_save quiet_attemptCleanup quiet_ret assms)
    (auto simp: SetError_def)


section \<open>Properties\<close>


definition demo_limited_plan :: plan where
  "demo_limited_plan = demo_plan\<lparr>pl_Constraints := demo_constraints\<lparr>pc_MaxDuration := 60 * Second\<rparr>\<rparr>"

definition demo_stuck :: "run_state call list adapter" where
  "demo_stuck = demo_adapter\<lparr>ad_Status := \<lambda>_ _ w. (Ret RunStateRunning, w)\<rparr>"


text \<open>
  a transient status failure does not fail a healthy run. If the answers of \<^verbatim>\<open>Status\<close> are
  errors and \<^verbatim>\<open>running\<close>, never five errors in a row, and then another state, the wait returns
  that state and leaves the run alone.
\<close>

theorem wait_rides_out_blips:
  assumes "idle s" and "blips 0 pre" and "st \<noteq> RunStateRunning"
    and "status_answers A h fuel (x_world s) = pre @ Ret st # cs"
  shows "\<exists>s'. waitForTerminal A fuel h 0 s = (Val (Inr st), s') \<and> x_run s' = x_run s"
proof -
  have "wait_spec 0 (status_answers A h fuel (x_world s)) = Some (Inr st)"
    using assms(2-4) by (simp add: wait_spec_blips)
  from wait_loop_refines [OF assms(1) this] show ?thesis
    by (simp add: waitForTerminal_def ebind_def gets_def)
qed

theorem wait_rides_out_blips_witness:
  "\<exists>s'. waitForTerminal demo_adapter 6 demo_handle 0
     (demo_state [Err ''a'', Err ''b'', Ret RunStateRunning, Err ''c'', Ret RunStateExecutionFailed]) =
       (Val (Inr RunStateExecutionFailed), s')"
proof -
  let ?w = "[Err ''a'', Err ''b'', Ret RunStateRunning, Err ''c'', Ret RunStateExecutionFailed] :: run_state call list"
  have "idle (demo_state ?w)" by (simp add: idle_def demo_state_def)
  moreover have "blips 0 [Err ''a'', Err ''b'', Ret RunStateRunning, Err ''c'']"
    by (simp add: maxConsecutiveStatusErrors_def)
  moreover have "status_answers demo_adapter demo_handle 6 (x_world (demo_state ?w)) =
      [Err ''a'', Err ''b'', Ret RunStateRunning, Err ''c''] @ Ret RunStateExecutionFailed # [Ret RunStateCompleted]"
    by (simp add: demo_state_def demo_adapter_sel eval_nat_numeral)
  ultimately show ?thesis using wait_rides_out_blips [of "demo_state ?w"] by blast
qed

end
