(* ===== verification/Target_Match.thy ===== *)
theory Target_Match
  imports Dispatch_Types
begin

text \<open>
  Whether a target can run a workload (\<^verbatim>\<open>internal/target/match.go\<close>). Each group of reasons that
  \<^verbatim>\<open>CheckFeasibility\<close> collects is a definition, in the order of the source; the architecture of
  the host, \<^verbatim>\<open>runtime.GOARCH\<close>, is an argument. The theorem characterises feasibility by a
  declarative predicate, without reasons.
\<close>

section \<open>The checks\<close>

record feasibility_result =
  fr_Feasible :: bool
  fr_Reasons :: "string list"

definition reason_if :: "bool \<Rightarrow> string \<Rightarrow> string list" where
  "reason_if b r = (if b then [r] else [])"

definition inSlice :: "string list \<Rightarrow> string \<Rightarrow> bool" where
  "inSlice ss s = list_ex (\<lambda>v. v = s) ss"

definition RequiredTargetForProfile :: "string \<Rightarrow> string" where
  "RequiredTargetForProfile profile =
     (if profile = ''nitro'' then ''aws-vm''
      else if profile = ''azure-snp'' then ''azure-vm''
      else '''')"

fun isHostBound :: "target_kind \<Rightarrow> bool" where
  "isHostBound TargetKindLocal = True"
| "isHostBound TargetKindDocker = True"
| "isHostBound TargetKindLocalVM = True"
| "isHostBound _ = False"

definition normalizeArch :: "string \<Rightarrow> string" where
  "normalizeArch a =
     (let s = strings_ToLower (strings_TrimSpace a)
      in if List.member [''amd64'', ''x86_64'', ''x86-64'', ''x64''] s then ''amd64''
         else if List.member [''arm64'', ''aarch64''] s then ''arm64''
         else s)"

definition offersIsolation :: "string list \<Rightarrow> bool" where
  "offersIsolation levels = list_ex (\<lambda>l. l \<noteq> '''' \<and> \<not> strings_EqualFold l ''process'') levels"

definition offersGPUModel :: "string list \<Rightarrow> string \<Rightarrow> bool" where
  "offersGPUModel models m = list_ex (\<lambda>x. strings_EqualFold x m) models"

definition supportsKind :: "workload_kind list \<Rightarrow> workload_kind \<Rightarrow> bool" where
  "supportsKind supported kind = list_ex (\<lambda>k. k = kind) supported"

definition gpu_reasons :: "target_config \<Rightarrow> workload_spec \<Rightarrow> string list" where
  "gpu_reasons t w =
     (let g = rr_GPU (ws_Requirements w); gpu = rc_GPU (cap_Resources (tc_Capabilities t)); m = gr_Model g
      in if \<not> gr_Required g then []
         else if \<not> gc_Supported gpu then [''GPU required but target does not support GPU'']
         else if m = '''' then []
         else if gc_Models gpu = []
           then [''GPU model '' @ m @ '' requested but target lists no specific GPU models'']
         else reason_if (\<not> offersGPUModel (gc_Models gpu) m)
           (''GPU model '' @ m @ '' not offered by target (offers: '' @ strings_Join (gc_Models gpu) '', '' @ '')''))"

definition confidential_reasons :: "target_config \<Rightarrow> workload_spec \<Rightarrow> string list" where
  "confidential_reasons t w =
     (let c = rr_Confidential (ws_Requirements w);
          conf = rc_Confidential (cap_Resources (tc_Capabilities t));
          req = RequiredTargetForProfile (cr_Profile c)
      in if \<not> cr_Required c then []
         else
           (if \<not> cc_Supported conf
              then [''confidential computing required but target does not support it'']
            else reason_if (cr_Type c \<noteq> '''' \<and> cr_Type c \<noteq> ''any'' \<and> \<not> inSlice (cc_Types conf) (cr_Type c))
              (''confidential type '' @ cr_Type c @ '' not offered by target (offers: ''
               @ strings_Join (cc_Types conf) '', '' @ '')''))
         @ reason_if (gr_Required (rr_GPU (ws_Requirements w)))
             ''confidential GPU workloads are not supported (confidential backends provision CPU-only VMs)''
         @ reason_if (req \<noteq> '''' \<and> tc_ID t \<noteq> req)
             (''confidential profile '' @ cr_Profile c @ '' requires target '' @ req)
         @ (if strings_EqualFold (cr_Attestation c) ''off'' then []
            else if tc_ID t = ''aws-vm''
              then reason_if (cr_Profile c \<noteq> ''nitro'')
                ''confidential attestation on aws-vm requires profile: nitro (the standard SEV-SNP agent is unmeasured)''
            else if tc_ID t = ''azure-vm''
              then reason_if (cr_Profile c \<noteq> ''azure-snp'')
                ''confidential attestation on azure-vm requires profile: azure-snp (the standard MAA agent is unmeasured)''
            else []))"

definition arch_reasons :: "string \<Rightarrow> target_config \<Rightarrow> workload_spec \<Rightarrow> string list" where
  "arch_reasons goarch t w =
     (let a = normalizeArch (rr_Arch (ws_Requirements w))
      in reason_if (a \<noteq> '''' \<and> isHostBound (tc_Kind t) \<and> a \<noteq> normalizeArch goarch)
           (''workload requires '' @ a @ '' but target runs on the host architecture '' @ normalizeArch goarch))"

definition service_reasons :: "target_config \<Rightarrow> workload_spec \<Rightarrow> string list" where
  "service_reasons t w =
     (if ws_DetectedKind w = WorkloadKindService
      then concat (map (\<lambda>ns. reason_if (ns = ''long-running-service'') ''target does not support long-running services'')
                     (cap_NotSupported (tc_Capabilities t)))
      else [])"

definition CheckFeasibility :: "string \<Rightarrow> target_config \<Rightarrow> workload_spec \<Rightarrow> feasibility_result" where
  "CheckFeasibility goarch t w =
     (if \<not> tc_Enabled t then \<lparr>fr_Feasible = False, fr_Reasons = [''target is disabled'']\<rparr>
      else
        let reasons =
              reason_if (\<not> supportsKind (cap_WorkloadKinds (tc_Capabilities t)) (ws_DetectedKind w))
                (''workload kind '' @ workload_kind_string (ws_DetectedKind w) @ '' not supported by target'')
              @ gpu_reasons t w
              @ confidential_reasons t w
              @ arch_reasons goarch t w
              @ reason_if (rr_Sandbox (ws_Requirements w)
                    \<and> \<not> offersIsolation (ic_Levels (cap_Isolation (tc_Capabilities t))))
                  ''sandbox required but target only offers process-level isolation''
              @ service_reasons t w
        in \<lparr>fr_Feasible = (reasons = []), fr_Reasons = reasons\<rparr>)"

fun RuntimeForTarget_kind :: "target_kind \<Rightarrow> string" where
  "RuntimeForTarget_kind TargetKindLocal = ''local-process''"
| "RuntimeForTarget_kind TargetKindLocalVM = ''local-vm''"
| "RuntimeForTarget_kind TargetKindDocker = ''local-docker''"
| "RuntimeForTarget_kind TargetKindSSH = ''ssh-remote''"
| "RuntimeForTarget_kind TargetKindKubernetes = ''kubernetes-deployment''"
| "RuntimeForTarget_kind TargetKindCloudVM = ''cloud-vm''"
| "RuntimeForTarget_kind (TargetKindOther s) = s"

definition RuntimeForTarget :: "target_config \<Rightarrow> string" where
  "RuntimeForTarget t = RuntimeForTarget_kind (tc_Kind t)"

section \<open>What feasibility means\<close>

text \<open>The requirement of each group, as a predicate on the target and the workload.\<close>

definition gpu_satisfied :: "gpu_capability \<Rightarrow> gpu_requirement \<Rightarrow> bool" where
  "gpu_satisfied gpu g \<longleftrightarrow>
     (gr_Required g \<longrightarrow>
        gc_Supported gpu \<and> (gr_Model g \<noteq> '''' \<longrightarrow> (\<exists>x\<in>set (gc_Models gpu). strings_EqualFold x (gr_Model g))))"

definition type_satisfied :: "confidential_capability \<Rightarrow> string \<Rightarrow> bool" where
  "type_satisfied conf ty \<longleftrightarrow> cc_Supported conf \<and> ty \<in> {'''', ''any''} \<union> set (cc_Types conf)"

text \<open>The profile a target's measured backend needs, for the targets that have an unmeasured one too.\<close>

definition measured_profile :: "string \<rightharpoonup> string" where
  "measured_profile = [''aws-vm'' \<mapsto> ''nitro'', ''azure-vm'' \<mapsto> ''azure-snp'']"

definition confidential_satisfied :: "target_config \<Rightarrow> workload_spec \<Rightarrow> bool" where
  "confidential_satisfied t w \<longleftrightarrow>
     (let c = rr_Confidential (ws_Requirements w)
      in cr_Required c \<longrightarrow>
           type_satisfied (rc_Confidential (cap_Resources (tc_Capabilities t))) (cr_Type c)
           \<and> \<not> gr_Required (rr_GPU (ws_Requirements w))
           \<and> (\<forall>i p. measured_profile i = Some p \<longrightarrow>
                (cr_Profile c = p \<longrightarrow> tc_ID t = i)
                \<and> (tc_ID t = i \<longrightarrow> strings_EqualFold (cr_Attestation c) ''off'' \<or> cr_Profile c = p)))"

definition can_run :: "string \<Rightarrow> target_config \<Rightarrow> workload_spec \<Rightarrow> bool" where
  "can_run goarch t w \<longleftrightarrow>
     tc_Enabled t
     \<and> ws_DetectedKind w \<in> set (cap_WorkloadKinds (tc_Capabilities t))
     \<and> gpu_satisfied (rc_GPU (cap_Resources (tc_Capabilities t))) (rr_GPU (ws_Requirements w))
     \<and> confidential_satisfied t w
     \<and> (isHostBound (tc_Kind t) \<longrightarrow> normalizeArch (rr_Arch (ws_Requirements w)) \<in> {'''', normalizeArch goarch})
     \<and> (rr_Sandbox (ws_Requirements w) \<longrightarrow>
          (\<exists>l\<in>set (ic_Levels (cap_Isolation (tc_Capabilities t))). l \<noteq> '''' \<and> strings_ToLower l \<noteq> ''process''))
     \<and> (ws_DetectedKind w = WorkloadKindService \<longrightarrow>
          ''long-running-service'' \<notin> set (cap_NotSupported (tc_Capabilities t)))"

section \<open>Lemmas\<close>

lemma reason_if_Nil [simp]: "reason_if b r = [] \<longleftrightarrow> \<not> b"
  by (simp add: reason_if_def)

lemma inSlice_iff [simp]: "inSlice ss s \<longleftrightarrow> s \<in> set ss"
  by (auto simp: inSlice_def list_ex_iff)

lemma supportsKind_iff [simp]: "supportsKind ks k \<longleftrightarrow> k \<in> set ks"
  by (auto simp: supportsKind_def list_ex_iff)

lemma offersGPUModel_iff [simp]: "offersGPUModel ms m \<longleftrightarrow> (\<exists>x\<in>set ms. strings_EqualFold x m)"
  by (auto simp: offersGPUModel_def list_ex_iff)

lemma ToLower_process: "strings_ToLower ''process'' = ''process''"
  by (simp add: strings_ToLower_def lower_char_def)

lemma offersIsolation_iff:
  "offersIsolation ls \<longleftrightarrow> (\<exists>l\<in>set ls. l \<noteq> '''' \<and> strings_ToLower l \<noteq> ''process'')"
  by (auto simp: offersIsolation_def list_ex_iff strings_EqualFold_def ToLower_process)

lemma gpu_reasons_Nil:
  "gpu_reasons t w = [] \<longleftrightarrow>
     gpu_satisfied (rc_GPU (cap_Resources (tc_Capabilities t))) (rr_GPU (ws_Requirements w))"
  by (auto simp: gpu_reasons_def gpu_satisfied_def Let_def)

lemma measured_profile_all:
  "(\<forall>i p. measured_profile i = Some p \<longrightarrow> Q i p) \<longleftrightarrow> Q ''aws-vm'' ''nitro'' \<and> Q ''azure-vm'' ''azure-snp''"
proof -
  have "measured_profile i = Some p \<longleftrightarrow> i = ''aws-vm'' \<and> p = ''nitro'' \<or> i = ''azure-vm'' \<and> p = ''azure-snp''" for i p
    by (cases "i = ''azure-vm''"; cases "i = ''aws-vm''") (simp_all add: measured_profile_def eq_commute [of _ p])
  then show ?thesis by (simp only:) blast
qed

lemma confidential_reasons_Nil: "confidential_reasons t w = [] \<longleftrightarrow> confidential_satisfied t w"
proof -
  have ne: "''aws-vm'' \<noteq> ''azure-vm''" "''nitro'' \<noteq> ''azure-snp''" "''aws-vm'' \<noteq> ''''" "''azure-vm'' \<noteq> ''''"
    by simp_all
  show ?thesis
    unfolding confidential_reasons_def confidential_satisfied_def measured_profile_all Let_def
      type_satisfied_def RequiredTargetForProfile_def append_is_Nil_conv reason_if_Nil
      if_distrib [of "\<lambda>x. x = []"] inSlice_iff
    by (cases "tc_ID t = ''aws-vm''"; cases "tc_ID t = ''azure-vm''";
      cases "cr_Profile (rr_Confidential (ws_Requirements w)) = ''nitro''";
      cases "cr_Profile (rr_Confidential (ws_Requirements w)) = ''azure-snp''"; simp)
qed

lemma arch_reasons_Nil:
  "arch_reasons goarch t w = [] \<longleftrightarrow>
     (isHostBound (tc_Kind t) \<longrightarrow> normalizeArch (rr_Arch (ws_Requirements w)) \<in> {'''', normalizeArch goarch})"
  by (auto simp: arch_reasons_def Let_def)

lemma service_reasons_Nil:
  "service_reasons t w = [] \<longleftrightarrow>
     (ws_DetectedKind w = WorkloadKindService \<longrightarrow>
        ''long-running-service'' \<notin> set (cap_NotSupported (tc_Capabilities t)))"
  by (auto simp: service_reasons_def)

lemmas reasons_Nil = gpu_reasons_Nil confidential_reasons_Nil arch_reasons_Nil service_reasons_Nil

lemma infeasible_has_reason: "\<not> fr_Feasible (CheckFeasibility goarch t w) \<Longrightarrow> fr_Reasons (CheckFeasibility goarch t w) \<noteq> []"
  by (simp add: CheckFeasibility_def Let_def split: if_splits)

lemma CheckFeasibility_iff: "fr_Feasible (CheckFeasibility goarch t w) \<longleftrightarrow> can_run goarch t w"
  by (simp add: CheckFeasibility_def can_run_def Let_def reasons_Nil offersIsolation_iff)

section \<open>Feasibility is sound and complete\<close>

text \<open>
  The check as one predicate, without the early return and the reasons. A target is accepted exactly when it is
  enabled and supports the workload's kind; a required GPU is offered, and a pinned model is listed
  by the target up to case; a confidential workload gets its type, brings no GPU requirement,
  runs on the one target of its measured-boot profile, and on a target with an unmeasured backend
  either turns attestation off or names the measured profile; a host-bound target has the
  workload's architecture; a sandbox gets isolation above a process; and a service is not excluded.
  Moreover a refusal always carries a reason, so that the caller may index the first one. What the
  check does not look at is no part of it either: neither the memory the workload asks for nor what a
  target's host offers, such as a KVM device for \<^verbatim>\<open>firecracker-vm\<close>.
\<close>

theorem feasible_iff_can_run:
  "(fr_Feasible (CheckFeasibility goarch t w) \<longleftrightarrow> can_run goarch t w)
   \<and> (fr_Feasible (CheckFeasibility goarch t w) \<longleftrightarrow> fr_Reasons (CheckFeasibility goarch t w) = [])"
  by (simp add: CheckFeasibility_iff)
     (simp add: CheckFeasibility_def can_run_def Let_def reasons_Nil offersIsolation_iff)

end
