(* ===== verification/Target_Registry.thy ===== *)
theory Target_Registry
  imports Target_Match "HOL-Library.AList"
begin

text \<open>
  The target registry (\<^verbatim>\<open>internal/target/registry.go\<close>), its built-in targets (\<^verbatim>\<open>builtins.go\<close>) and
  the user's target files (\<^verbatim>\<open>config.go\<close>).
  The registry's map is an association list in the order in which Go happens to iterate over it;
  the theorems hold for every order. YAML and JSON are third-party and library codecs: a file is
  what reading and decoding it gives, and marshalling a value gives a file that decodes to it.
\<close>

section \<open>Registry\<close>

type_synonym registry = "(string \<times> target_config) list"

definition NewRegistry :: registry where
  "NewRegistry = []"

definition registry_Add :: "target_config \<Rightarrow> registry \<Rightarrow> registry" where
  "registry_Add t r = AList.update (tc_ID t) t r"

definition registry_Get :: "registry \<Rightarrow> string \<Rightarrow> target_config option" where
  "registry_Get r i = map_of r i"

definition list_order :: "string list" where
  "list_order = [''local-process'', ''local-docker'', ''lima-vm'', ''ssh'', ''kubernetes'', ''firecracker-vm'',
     ''hetzner-vm'', ''aws-vm'', ''gcp-vm'', ''azure-vm'']"

definition lookup_all :: "registry \<Rightarrow> string list \<Rightarrow> target_config list" where
  "lookup_all r ids = List.map_filter (registry_Get r) ids"

definition registry_List :: "registry \<Rightarrow> target_config list" where
  "registry_List r =
     lookup_all r list_order
     @ lookup_all r (sort_Strings (filter (\<lambda>i. \<not> inSlice list_order i) (map fst r)))"

section \<open>Built-in targets\<close>

definition builtin_local_process :: target_config where
  "builtin_local_process =
     \<lparr>tc_ID = ''local-process'', tc_Kind = TargetKindLocal, tc_Enabled = True,
      tc_Capabilities =
        \<lparr>cap_WorkloadKinds = [WorkloadKindScript, WorkloadKindJob],
         cap_Resources = \<lparr>rc_CPU = True, rc_Memory = True,
           rc_GPU = \<lparr>gc_Supported = False, gc_Models = []\<rparr>,
           rc_Confidential = \<lparr>cc_Supported = False, cc_Types = []\<rparr>\<rparr>,
         cap_Networking = \<lparr>nc_PublicEndpoint = False, nc_PrivateVPCAccess = False,
           nc_StaticEgressIP = False\<rparr>,
         cap_Accounting = \<lparr>ac_CostEstimate = True, ac_ActualBilling = False,
           ac_RateCard = ''local''\<rparr>,
         cap_Isolation = \<lparr>ic_Levels = [''process'']\<rparr>,
         cap_Observability = \<lparr>oc_Logs = True, oc_Metrics = False, oc_Artifacts = False\<rparr>,
         cap_NotSupported = []\<rparr>,
      tc_SSH = None\<rparr>"

definition builtin_local_docker :: target_config where
  "builtin_local_docker =
     \<lparr>tc_ID = ''local-docker'', tc_Kind = TargetKindDocker, tc_Enabled = True,
      tc_Capabilities =
        \<lparr>cap_WorkloadKinds = [WorkloadKindScript, WorkloadKindJob, WorkloadKindContainer, WorkloadKindService],
         cap_Resources = \<lparr>rc_CPU = True, rc_Memory = True,
           rc_GPU = \<lparr>gc_Supported = False, gc_Models = []\<rparr>,
           rc_Confidential = \<lparr>cc_Supported = False, cc_Types = []\<rparr>\<rparr>,
         cap_Networking = \<lparr>nc_PublicEndpoint = False, nc_PrivateVPCAccess = False,
           nc_StaticEgressIP = False\<rparr>,
         cap_Accounting = \<lparr>ac_CostEstimate = True, ac_ActualBilling = False,
           ac_RateCard = ''local''\<rparr>,
         cap_Isolation = \<lparr>ic_Levels = [''container'']\<rparr>,
         cap_Observability = \<lparr>oc_Logs = True, oc_Metrics = False, oc_Artifacts = True\<rparr>,
         cap_NotSupported = []\<rparr>,
      tc_SSH = None\<rparr>"

definition builtin_lima_vm :: target_config where
  "builtin_lima_vm =
     \<lparr>tc_ID = ''lima-vm'', tc_Kind = TargetKindLocalVM, tc_Enabled = True,
      tc_Capabilities =
        \<lparr>cap_WorkloadKinds = [WorkloadKindScript, WorkloadKindJob, WorkloadKindContainer, WorkloadKindService],
         cap_Resources = \<lparr>rc_CPU = True, rc_Memory = True,
           rc_GPU = \<lparr>gc_Supported = False, gc_Models = []\<rparr>,
           rc_Confidential = \<lparr>cc_Supported = False, cc_Types = []\<rparr>\<rparr>,
         cap_Networking = \<lparr>nc_PublicEndpoint = False, nc_PrivateVPCAccess = False,
           nc_StaticEgressIP = False\<rparr>,
         cap_Accounting = \<lparr>ac_CostEstimate = True, ac_ActualBilling = False,
           ac_RateCard = ''local''\<rparr>,
         cap_Isolation = \<lparr>ic_Levels = [''vm'']\<rparr>,
         cap_Observability = \<lparr>oc_Logs = True, oc_Metrics = False, oc_Artifacts = True\<rparr>,
         cap_NotSupported = []\<rparr>,
      tc_SSH = None\<rparr>"

definition builtin_firecracker_vm :: target_config where
  "builtin_firecracker_vm =
     \<lparr>tc_ID = ''firecracker-vm'', tc_Kind = TargetKindLocalVM, tc_Enabled = True,
      tc_Capabilities =
        \<lparr>cap_WorkloadKinds = [WorkloadKindScript, WorkloadKindJob],
         cap_Resources = \<lparr>rc_CPU = True, rc_Memory = True,
           rc_GPU = \<lparr>gc_Supported = False, gc_Models = []\<rparr>,
           rc_Confidential = \<lparr>cc_Supported = False, cc_Types = []\<rparr>\<rparr>,
         cap_Networking = \<lparr>nc_PublicEndpoint = False, nc_PrivateVPCAccess = False,
           nc_StaticEgressIP = False\<rparr>,
         cap_Accounting = \<lparr>ac_CostEstimate = True, ac_ActualBilling = False,
           ac_RateCard = ''local''\<rparr>,
         cap_Isolation = \<lparr>ic_Levels = [''vm'']\<rparr>,
         cap_Observability = \<lparr>oc_Logs = True, oc_Metrics = False, oc_Artifacts = True\<rparr>,
         cap_NotSupported = []\<rparr>,
      tc_SSH = None\<rparr>"

definition builtin_ssh :: target_config where
  "builtin_ssh =
     \<lparr>tc_ID = ''ssh'', tc_Kind = TargetKindSSH, tc_Enabled = True,
      tc_Capabilities =
        \<lparr>cap_WorkloadKinds = [WorkloadKindScript, WorkloadKindJob, WorkloadKindContainer, WorkloadKindService],
         cap_Resources = \<lparr>rc_CPU = True, rc_Memory = True,
           rc_GPU = \<lparr>gc_Supported = False, gc_Models = []\<rparr>,
           rc_Confidential = \<lparr>cc_Supported = False, cc_Types = []\<rparr>\<rparr>,
         cap_Networking = \<lparr>nc_PublicEndpoint = True, nc_PrivateVPCAccess = True,
           nc_StaticEgressIP = False\<rparr>,
         cap_Accounting = \<lparr>ac_CostEstimate = True, ac_ActualBilling = False,
           ac_RateCard = ''ssh''\<rparr>,
         cap_Isolation = \<lparr>ic_Levels = [''process'', ''container'']\<rparr>,
         cap_Observability = \<lparr>oc_Logs = True, oc_Metrics = False, oc_Artifacts = True\<rparr>,
         cap_NotSupported = []\<rparr>,
      tc_SSH = None\<rparr>"

definition builtin_kubernetes :: target_config where
  "builtin_kubernetes =
     \<lparr>tc_ID = ''kubernetes'', tc_Kind = TargetKindKubernetes, tc_Enabled = True,
      tc_Capabilities =
        \<lparr>cap_WorkloadKinds = [WorkloadKindScript, WorkloadKindJob, WorkloadKindContainer, WorkloadKindService, WorkloadKindGPUJob],
         cap_Resources = \<lparr>rc_CPU = True, rc_Memory = True,
           rc_GPU = \<lparr>gc_Supported = True, gc_Models = [''a10'', ''l4'']\<rparr>,
           rc_Confidential = \<lparr>cc_Supported = False, cc_Types = []\<rparr>\<rparr>,
         cap_Networking = \<lparr>nc_PublicEndpoint = True, nc_PrivateVPCAccess = True,
           nc_StaticEgressIP = False\<rparr>,
         cap_Accounting = \<lparr>ac_CostEstimate = True, ac_ActualBilling = False,
           ac_RateCard = ''internal''\<rparr>,
         cap_Isolation = \<lparr>ic_Levels = [''container'', ''dedicated-node'']\<rparr>,
         cap_Observability = \<lparr>oc_Logs = True, oc_Metrics = True, oc_Artifacts = True\<rparr>,
         cap_NotSupported = []\<rparr>,
      tc_SSH = None\<rparr>"

definition builtin_aws_vm :: target_config where
  "builtin_aws_vm =
     \<lparr>tc_ID = ''aws-vm'', tc_Kind = TargetKindCloudVM, tc_Enabled = True,
      tc_Capabilities =
        \<lparr>cap_WorkloadKinds = [WorkloadKindScript, WorkloadKindJob, WorkloadKindContainer, WorkloadKindService, WorkloadKindGPUJob],
         cap_Resources = \<lparr>rc_CPU = True, rc_Memory = True,
           rc_GPU = \<lparr>gc_Supported = True, gc_Models = [''t4'', ''a10g'', ''a100'']\<rparr>,
           rc_Confidential = \<lparr>cc_Supported = True, cc_Types = [''sev-snp'']\<rparr>\<rparr>,
         cap_Networking = \<lparr>nc_PublicEndpoint = True, nc_PrivateVPCAccess = True,
           nc_StaticEgressIP = True\<rparr>,
         cap_Accounting = \<lparr>ac_CostEstimate = True, ac_ActualBilling = True,
           ac_RateCard = ''aws''\<rparr>,
         cap_Isolation = \<lparr>ic_Levels = [''vm'']\<rparr>,
         cap_Observability = \<lparr>oc_Logs = True, oc_Metrics = True, oc_Artifacts = True\<rparr>,
         cap_NotSupported = []\<rparr>,
      tc_SSH = None\<rparr>"

definition builtin_gcp_vm :: target_config where
  "builtin_gcp_vm =
     \<lparr>tc_ID = ''gcp-vm'', tc_Kind = TargetKindCloudVM, tc_Enabled = True,
      tc_Capabilities =
        \<lparr>cap_WorkloadKinds = [WorkloadKindScript, WorkloadKindJob, WorkloadKindContainer, WorkloadKindService, WorkloadKindGPUJob],
         cap_Resources = \<lparr>rc_CPU = True, rc_Memory = True,
           rc_GPU = \<lparr>gc_Supported = True, gc_Models = [''l4'', ''a100'', ''h100'']\<rparr>,
           rc_Confidential = \<lparr>cc_Supported = True, cc_Types = [''sev'']\<rparr>\<rparr>,
         cap_Networking = \<lparr>nc_PublicEndpoint = True, nc_PrivateVPCAccess = True,
           nc_StaticEgressIP = False\<rparr>,
         cap_Accounting = \<lparr>ac_CostEstimate = True, ac_ActualBilling = True,
           ac_RateCard = ''gcp''\<rparr>,
         cap_Isolation = \<lparr>ic_Levels = [''vm'']\<rparr>,
         cap_Observability = \<lparr>oc_Logs = True, oc_Metrics = True, oc_Artifacts = True\<rparr>,
         cap_NotSupported = []\<rparr>,
      tc_SSH = None\<rparr>"

definition builtin_azure_vm :: target_config where
  "builtin_azure_vm =
     \<lparr>tc_ID = ''azure-vm'', tc_Kind = TargetKindCloudVM, tc_Enabled = True,
      tc_Capabilities =
        \<lparr>cap_WorkloadKinds = [WorkloadKindScript, WorkloadKindJob, WorkloadKindContainer, WorkloadKindService, WorkloadKindGPUJob],
         cap_Resources = \<lparr>rc_CPU = True, rc_Memory = True,
           rc_GPU = \<lparr>gc_Supported = True, gc_Models = [''t4'', ''a100'']\<rparr>,
           rc_Confidential = \<lparr>cc_Supported = True, cc_Types = [''sev-snp'', ''tdx'']\<rparr>\<rparr>,
         cap_Networking = \<lparr>nc_PublicEndpoint = True, nc_PrivateVPCAccess = True,
           nc_StaticEgressIP = False\<rparr>,
         cap_Accounting = \<lparr>ac_CostEstimate = True, ac_ActualBilling = True,
           ac_RateCard = ''azure''\<rparr>,
         cap_Isolation = \<lparr>ic_Levels = [''vm'']\<rparr>,
         cap_Observability = \<lparr>oc_Logs = True, oc_Metrics = True, oc_Artifacts = True\<rparr>,
         cap_NotSupported = []\<rparr>,
      tc_SSH = None\<rparr>"

definition builtin_hetzner_vm :: target_config where
  "builtin_hetzner_vm =
     \<lparr>tc_ID = ''hetzner-vm'', tc_Kind = TargetKindCloudVM, tc_Enabled = True,
      tc_Capabilities =
        \<lparr>cap_WorkloadKinds = [WorkloadKindScript, WorkloadKindJob, WorkloadKindContainer, WorkloadKindService, WorkloadKindGPUJob],
         cap_Resources = \<lparr>rc_CPU = True, rc_Memory = True,
           rc_GPU = \<lparr>gc_Supported = False, gc_Models = []\<rparr>,
           rc_Confidential = \<lparr>cc_Supported = False, cc_Types = []\<rparr>\<rparr>,
         cap_Networking = \<lparr>nc_PublicEndpoint = True, nc_PrivateVPCAccess = False,
           nc_StaticEgressIP = False\<rparr>,
         cap_Accounting = \<lparr>ac_CostEstimate = True, ac_ActualBilling = True,
           ac_RateCard = ''hetzner''\<rparr>,
         cap_Isolation = \<lparr>ic_Levels = [''vm'']\<rparr>,
         cap_Observability = \<lparr>oc_Logs = True, oc_Metrics = False, oc_Artifacts = True\<rparr>,
         cap_NotSupported = []\<rparr>,
      tc_SSH = None\<rparr>"

definition builtin_oci_vm :: target_config where
  "builtin_oci_vm =
     \<lparr>tc_ID = ''oci-vm'', tc_Kind = TargetKindCloudVM, tc_Enabled = True,
      tc_Capabilities =
        \<lparr>cap_WorkloadKinds = [WorkloadKindScript, WorkloadKindJob, WorkloadKindContainer, WorkloadKindService],
         cap_Resources = \<lparr>rc_CPU = True, rc_Memory = True,
           rc_GPU = \<lparr>gc_Supported = False, gc_Models = []\<rparr>,
           rc_Confidential = \<lparr>cc_Supported = False, cc_Types = []\<rparr>\<rparr>,
         cap_Networking = \<lparr>nc_PublicEndpoint = True, nc_PrivateVPCAccess = True,
           nc_StaticEgressIP = True\<rparr>,
         cap_Accounting = \<lparr>ac_CostEstimate = True, ac_ActualBilling = True,
           ac_RateCard = ''oci''\<rparr>,
         cap_Isolation = \<lparr>ic_Levels = [''vm'']\<rparr>,
         cap_Observability = \<lparr>oc_Logs = True, oc_Metrics = False, oc_Artifacts = True\<rparr>,
         cap_NotSupported = []\<rparr>,
      tc_SSH = None\<rparr>"

definition builtin_lambda_vm :: target_config where
  "builtin_lambda_vm =
     \<lparr>tc_ID = ''lambda-vm'', tc_Kind = TargetKindCloudVM, tc_Enabled = True,
      tc_Capabilities =
        \<lparr>cap_WorkloadKinds = [WorkloadKindScript, WorkloadKindJob, WorkloadKindContainer, WorkloadKindService, WorkloadKindGPUJob],
         cap_Resources = \<lparr>rc_CPU = True, rc_Memory = True,
           rc_GPU = \<lparr>gc_Supported = True, gc_Models = [''a100'', ''h100'', ''gh200'', ''a10'', ''a6000'']\<rparr>,
           rc_Confidential = \<lparr>cc_Supported = False, cc_Types = []\<rparr>\<rparr>,
         cap_Networking = \<lparr>nc_PublicEndpoint = True, nc_PrivateVPCAccess = False,
           nc_StaticEgressIP = False\<rparr>,
         cap_Accounting = \<lparr>ac_CostEstimate = True, ac_ActualBilling = False,
           ac_RateCard = ''lambda''\<rparr>,
         cap_Isolation = \<lparr>ic_Levels = [''vm'']\<rparr>,
         cap_Observability = \<lparr>oc_Logs = True, oc_Metrics = False, oc_Artifacts = True\<rparr>,
         cap_NotSupported = []\<rparr>,
      tc_SSH = None\<rparr>"

definition BuiltinTargets :: "target_config list" where
  "BuiltinTargets =
     [builtin_local_process,
      builtin_local_docker,
      builtin_lima_vm,
      builtin_firecracker_vm,
      builtin_ssh,
      builtin_kubernetes,
      builtin_aws_vm,
      builtin_gcp_vm,
      builtin_azure_vm,
      builtin_hetzner_vm,
      builtin_oci_vm,
      builtin_lambda_vm]"

definition LoadBuiltins :: "registry \<Rightarrow> registry" where
  "LoadBuiltins r = fold registry_Add BuiltinTargets r"

definition reservedIDs :: "string list" where
  "reservedIDs = map fst (LoadBuiltins NewRegistry)"

section \<open>Validation of target files\<close>

definition ascii_letter_or_digit :: "char \<Rightarrow> bool" where
  "ascii_letter_or_digit c =
     (let n = (of_char c :: nat)
      in (97 \<le> n \<and> n \<le> 122) \<or> (65 \<le> n \<and> n \<le> 90) \<or> (48 \<le> n \<and> n \<le> 57))"

definition backslash :: char where "backslash = CHR 0x5C"

definition validateTargetID :: "string \<Rightarrow> unit result" where
  "validateTargetID i =
     (if i = '''' then Inl ''target id is empty''
      else if strings_ContainsAny i [CHR ''/'', backslash] \<or> strings_Contains i ''..''
        then Inl (''invalid target id '' @ go_quote i @ '': contains path separator or traversal'')
      else Inr ())"

definition validateSSHHost :: "string \<Rightarrow> unit result" where
  "validateSSHHost host =
     (if host = '''' then Inl ''ssh host is empty''
      else if strings_HasPrefix host ''-''
        then Inl (''ssh host '' @ go_quote host @ '' is flag-like (leading '-')'')
      else if list_ex (\<lambda>c. \<not> (ascii_letter_or_digit c \<or> c = CHR ''.'' \<or> c = CHR ''-'')) host
        then Inl (''ssh host '' @ go_quote host
               @ '' contains characters outside [a-zA-Z0-9.-] (no ':' '/' '@'; IPv6 literals unsupported)'')
      else Inr ())"

definition validateSSHWord :: "string \<Rightarrow> string \<Rightarrow> unit result" where
  "validateSSHWord field val =
     (if strings_HasPrefix val ''-''
        then Inl (''ssh '' @ field @ '' '' @ go_quote val @ '' is flag-like (leading '-')'')
      else if list_ex (\<lambda>c. \<not> (ascii_letter_or_digit c \<or> c = CHR ''_'' \<or> c = CHR ''.'' \<or> c = CHR ''-'')) val
        then Inl (''ssh '' @ field @ '' '' @ go_quote val @ '' contains characters outside [a-zA-Z0-9_.-]'')
      else Inr ())"

definition validateSSHKeyFile :: "string \<Rightarrow> unit result" where
  "validateSSHKeyFile path =
     (if strings_HasPrefix path ''-''
        then Inl (''ssh key_file '' @ go_quote path @ '' is flag-like (leading '-')'')
      else if strings_ContainsAny path [CHR 0x00, CHR 0x0A, CHR 0x0D]
        then Inl (''ssh key_file '' @ go_quote path @ '' contains a NUL or newline'')
      else Inr ())"

definition ValidateSSHTarget :: "ssh_target_config option \<Rightarrow> unit result" where
  "ValidateSSHTarget co =
     (case co of
        None \<Rightarrow> Inl ''ssh config is nil''
      | Some c \<Rightarrow>
          (case validateSSHHost (ssh_Host c) of
             Inl e \<Rightarrow> Inl e
           | Inr _ \<Rightarrow>
               (case if ssh_User c \<noteq> '''' then validateSSHWord ''user'' (ssh_User c) else Inr () of
                  Inl e \<Rightarrow> Inl e
                | Inr _ \<Rightarrow>
                    if ssh_Port c < 0 \<or> 65535 < ssh_Port c
                      then Inl (''ssh port '' @ show_int (ssh_Port c) @ '' is out of range [1, 65535]'')
                    else if ssh_KeyFile c \<noteq> '''' then validateSSHKeyFile (ssh_KeyFile c)
                    else Inr ())))"

section \<open>Loading target files\<close>

datatype targets_file = ReadError string | ParseError string | TargetsFile "target_config list"

definition check_target :: "string \<Rightarrow> target_config \<Rightarrow> unit result" where
  "check_target path t =
     (if tc_ID t = '''' then Inl (''target in '' @ path @ '' is missing required field 'id'' @ [CHR 0x27])
      else if List.member reservedIDs (tc_ID t)
        then Inl (''target '' @ go_quote (tc_ID t) @ '' in '' @ path
               @ '' collides with a builtin id (reserved); pick a different id'')
      else case tc_SSH t of
             None \<Rightarrow> Inr ()
           | Some c \<Rightarrow>
               (case ValidateSSHTarget (Some c) of
                  Inl e \<Rightarrow> Inl (''invalid ssh target '' @ go_quote (tc_ID t) @ '' in '' @ path @ '': '' @ e)
                | Inr _ \<Rightarrow> Inr ()))"

fun load_targets :: "string \<Rightarrow> target_config list \<Rightarrow> registry \<Rightarrow> registry \<times> unit result" where
  "load_targets path [] r = (r, Inr ())"
| "load_targets path (t # ts) r =
     (case check_target path t of
        Inl e \<Rightarrow> (r, Inl e)
      | Inr _ \<Rightarrow> load_targets path ts (registry_Add t r))"

definition LoadFromFile :: "string \<Rightarrow> targets_file \<Rightarrow> registry \<Rightarrow> registry \<times> unit result" where
  "LoadFromFile path f r =
     (case f of
        ReadError e \<Rightarrow> (r, Inl (''cannot read targets file '' @ path @ '': '' @ e))
      | ParseError e \<Rightarrow> (r, Inl (''cannot parse targets file '' @ path @ '': '' @ e))
      | TargetsFile ts \<Rightarrow> load_targets path ts r)"

text \<open>\<^verbatim>\<open>filepath.Ext\<close> of a file name, and \<^verbatim>\<open>filepath.Join\<close> of a clean directory and a file name.\<close>

definition filepath_Ext :: "string \<Rightarrow> string" where
  "filepath_Ext n =
     (let tail = takeWhile (\<lambda>c. c \<noteq> CHR ''.'' \<and> c \<noteq> CHR ''/'') (rev n); rest = drop (length tail) (rev n)
      in case rest of [] \<Rightarrow> [] | c # _ \<Rightarrow> if c = CHR ''.'' then c # rev tail else [])"

definition filepath_Join :: "string \<Rightarrow> string \<Rightarrow> string" where
  "filepath_Join d n = (if d = ''.'' then n else d @ ''/'' @ n)"

datatype dir_entry = Directory | RegularFile targets_file

datatype dir_read = DirNotExist | DirError string | DirEntries "(string \<times> dir_entry) list"

fun load_entries :: "string \<Rightarrow> (string \<times> dir_entry) list \<Rightarrow> registry \<Rightarrow> registry \<times> unit result" where
  "load_entries dir [] r = (r, Inr ())"
| "load_entries dir ((n, Directory) # es) r = load_entries dir es r"
| "load_entries dir ((n, RegularFile f) # es) r =
     (if filepath_Ext n \<noteq> ''.yaml'' \<and> filepath_Ext n \<noteq> ''.yml'' then load_entries dir es r
      else case LoadFromFile (filepath_Join dir n) f r of
             (r', Inl e) \<Rightarrow> (r', Inl e)
           | (r', Inr _) \<Rightarrow> load_entries dir es r')"

text \<open>\<^verbatim>\<open>os.ReadDir\<close> returns the entries sorted by name.\<close>

definition read_dir :: "(string \<times> dir_entry) list \<Rightarrow> (string \<times> dir_entry) list" where
  "read_dir es = sort_Slice (\<lambda>a b. fst a < fst b) es"

definition LoadFromDir :: "string \<Rightarrow> dir_read \<Rightarrow> registry \<Rightarrow> registry \<times> unit result" where
  "LoadFromDir dir d r =
     (case d of
        DirNotExist \<Rightarrow> (r, Inr ())
      | DirError e \<Rightarrow> (r, Inl (''cannot read targets directory '' @ dir @ '': '' @ e))
      | DirEntries es \<Rightarrow> load_entries dir (read_dir es) r)"

text \<open>
  What the loaders see of the file system: the result of \<^verbatim>\<open>state.Subdir("targets")\<close>, the content
  of that directory, and the files of the working directory that \<^verbatim>\<open>os.Stat\<close> finds.
\<close>

record target_env =
  te_subdir :: "string result"
  te_dir :: dir_read
  te_project :: "string \<rightharpoonup> targets_file"

fun load_project :: "string \<Rightarrow> (string \<rightharpoonup> targets_file) \<Rightarrow> string list \<Rightarrow> registry \<Rightarrow> registry \<times> unit result" where
  "load_project dir files [] r = (r, Inr ())"
| "load_project dir files (n # ns) r =
     (case files n of
        None \<Rightarrow> load_project dir files ns r
      | Some f \<Rightarrow> LoadFromFile (filepath_Join dir n) f r)"

definition LoadProjectConfig :: "string \<Rightarrow> (string \<rightharpoonup> targets_file) \<Rightarrow> registry \<Rightarrow> registry \<times> unit result" where
  "LoadProjectConfig dir files r = load_project dir files [''dispatcher.yaml'', ''dispatcher.yml''] r"

definition LoadUserConfig :: "target_env \<Rightarrow> registry \<Rightarrow> registry \<times> unit result" where
  "LoadUserConfig env r =
     (case te_subdir env of
        Inl _ \<Rightarrow> LoadProjectConfig ''.'' (te_project env) r
      | Inr dir \<Rightarrow>
          (case LoadFromDir dir (te_dir env) r of
             (r', Inl e) \<Rightarrow> (r', Inl (''loading user targets: '' @ e))
           | (r', Inr _) \<Rightarrow> LoadProjectConfig ''.'' (te_project env) r'))"

section \<open>Writing target files\<close>

text \<open>
  The targets directory as the writers change it. \<^verbatim>\<open>os.WriteFile\<close> truncates the file before it writes,
  so a failure leaves in it whatever the bytes written so far decode to.
\<close>

type_synonym targets_dir = "(string \<times> dir_entry) list"

datatype file_write = WriteOk | WriteFails string targets_file

definition write_file :: "string \<Rightarrow> targets_file \<Rightarrow> file_write \<Rightarrow> targets_dir \<Rightarrow> targets_dir \<times> unit result" where
  "write_file n f fault es =
     (case fault of
        WriteOk \<Rightarrow> (AList.update n (RegularFile f) es, Inr ())
      | WriteFails e torn \<Rightarrow> (AList.update n (RegularFile torn) es, Inl e))"

definition SaveTarget :: "string result \<Rightarrow> file_write \<Rightarrow> target_config \<Rightarrow> targets_dir \<Rightarrow> targets_dir \<times> string result" where
  "SaveTarget subdir fault t es =
     (case validateTargetID (tc_ID t) of
        Inl e \<Rightarrow> (es, Inl e)
      | Inr _ \<Rightarrow>
          (case (case tc_SSH t of None \<Rightarrow> Inr () | Some c \<Rightarrow> ValidateSSHTarget (Some c)) of
             Inl e \<Rightarrow> (es, Inl (''invalid ssh target '' @ go_quote (tc_ID t) @ '': '' @ e))
           | Inr _ \<Rightarrow>
               (case subdir of
                  Inl e \<Rightarrow> (es, Inl e)
                | Inr dir \<Rightarrow>
                    (case write_file (tc_ID t @ ''.yaml'') (TargetsFile [t]) fault es of
                       (es', Inl e) \<Rightarrow> (es', Inl (''cannot write target file: '' @ e))
                     | (es', Inr _) \<Rightarrow> (es', Inr (filepath_Join dir (tc_ID t @ ''.yaml'')))))))"

definition DeleteTarget :: "string result \<Rightarrow> string option \<Rightarrow> string \<Rightarrow> targets_dir \<Rightarrow> targets_dir \<times> string result" where
  "DeleteTarget subdir remove_error i es =
     (case validateTargetID i of
        Inl e \<Rightarrow> (es, Inl e)
      | Inr _ \<Rightarrow>
          (case subdir of
             Inl e \<Rightarrow> (es, Inl e)
           | Inr dir \<Rightarrow>
               (case map_of es (i @ ''.yaml'') of
                  None \<Rightarrow> (es, Inl (''no user-defined target '' @ go_quote i
                            @ '' to remove (builtins and dispatcher.yaml targets are not removable)''))
                | Some _ \<Rightarrow>
                    (case remove_error of
                       Some e \<Rightarrow> (es, Inl (''cannot remove target file: '' @ e))
                     | None \<Rightarrow> (AList.delete (i @ ''.yaml'') es, Inr (filepath_Join dir (i @ ''.yaml'')))))))"

fun DefaultCapabilities :: "target_kind \<Rightarrow> capabilities" where
  "DefaultCapabilities TargetKindDocker =
     \<lparr>cap_WorkloadKinds = [WorkloadKindScript, WorkloadKindJob, WorkloadKindContainer, WorkloadKindService],
      cap_Resources = \<lparr>rc_CPU = True, rc_Memory = True, rc_GPU = \<lparr>gc_Supported = False, gc_Models = []\<rparr>,
        rc_Confidential = \<lparr>cc_Supported = False, cc_Types = []\<rparr>\<rparr>,
      cap_Networking = \<lparr>nc_PublicEndpoint = False, nc_PrivateVPCAccess = False, nc_StaticEgressIP = False\<rparr>,
      cap_Accounting = \<lparr>ac_CostEstimate = True, ac_ActualBilling = False, ac_RateCard = ''local''\<rparr>,
      cap_Isolation = \<lparr>ic_Levels = [''container'']\<rparr>,
      cap_Observability = \<lparr>oc_Logs = True, oc_Metrics = False, oc_Artifacts = True\<rparr>,
      cap_NotSupported = []\<rparr>"
| "DefaultCapabilities TargetKindSSH =
     \<lparr>cap_WorkloadKinds = [WorkloadKindScript, WorkloadKindJob, WorkloadKindContainer, WorkloadKindService],
      cap_Resources = \<lparr>rc_CPU = True, rc_Memory = True, rc_GPU = \<lparr>gc_Supported = False, gc_Models = []\<rparr>,
        rc_Confidential = \<lparr>cc_Supported = False, cc_Types = []\<rparr>\<rparr>,
      cap_Networking = \<lparr>nc_PublicEndpoint = True, nc_PrivateVPCAccess = True, nc_StaticEgressIP = False\<rparr>,
      cap_Accounting = \<lparr>ac_CostEstimate = True, ac_ActualBilling = False, ac_RateCard = ''ssh''\<rparr>,
      cap_Isolation = \<lparr>ic_Levels = [''process'', ''container'']\<rparr>,
      cap_Observability = \<lparr>oc_Logs = True, oc_Metrics = False, oc_Artifacts = True\<rparr>,
      cap_NotSupported = []\<rparr>"
| "DefaultCapabilities TargetKindKubernetes =
     \<lparr>cap_WorkloadKinds = [WorkloadKindJob, WorkloadKindContainer, WorkloadKindService, WorkloadKindGPUJob],
      cap_Resources = \<lparr>rc_CPU = True, rc_Memory = True, rc_GPU = \<lparr>gc_Supported = True, gc_Models = []\<rparr>,
        rc_Confidential = \<lparr>cc_Supported = False, cc_Types = []\<rparr>\<rparr>,
      cap_Networking = \<lparr>nc_PublicEndpoint = True, nc_PrivateVPCAccess = True, nc_StaticEgressIP = False\<rparr>,
      cap_Accounting = \<lparr>ac_CostEstimate = True, ac_ActualBilling = False, ac_RateCard = ''internal''\<rparr>,
      cap_Isolation = \<lparr>ic_Levels = [''container'', ''dedicated-node'']\<rparr>,
      cap_Observability = \<lparr>oc_Logs = True, oc_Metrics = True, oc_Artifacts = True\<rparr>,
      cap_NotSupported = []\<rparr>"
| "DefaultCapabilities _ =
     \<lparr>cap_WorkloadKinds = [WorkloadKindScript, WorkloadKindJob],
      cap_Resources = \<lparr>rc_CPU = True, rc_Memory = True, rc_GPU = \<lparr>gc_Supported = False, gc_Models = []\<rparr>,
        rc_Confidential = \<lparr>cc_Supported = False, cc_Types = []\<rparr>\<rparr>,
      cap_Networking = \<lparr>nc_PublicEndpoint = False, nc_PrivateVPCAccess = False, nc_StaticEgressIP = False\<rparr>,
      cap_Accounting = \<lparr>ac_CostEstimate = True, ac_ActualBilling = False, ac_RateCard = ''''\<rparr>,
      cap_Isolation = \<lparr>ic_Levels = []\<rparr>,
      cap_Observability = \<lparr>oc_Logs = True, oc_Metrics = False, oc_Artifacts = False\<rparr>,
      cap_NotSupported = []\<rparr>"

section \<open>Lemmas on the registry\<close>

interpretation registry: keyed_store AList.update registry_Get
  by unfold_locales (auto simp: registry_Get_def update_conv')

definition keyed :: "target_config list \<Rightarrow> (string \<times> target_config) list" where
  "keyed ts = map (\<lambda>t. (tc_ID t, t)) ts"

lemma keyed_simps [simp]: "fst ` set (keyed ts) = tc_ID ` set ts" "map fst (keyed ts) = map tc_ID ts"
  "(i, t) \<in> set (keyed ts) \<longleftrightarrow> t \<in> set ts \<and> i = tc_ID t"
  by (force simp: keyed_def)+

lemma Get_Add: "registry_Get (registry_Add t r) i = (if i = tc_ID t then Some t else registry_Get r i)"
  by (simp add: registry_Add_def registry.get_put)

lemma fold_registry_Add: "fold registry_Add ts r = fold (\<lambda>(k, v). AList.update k v) (keyed ts) r"
  by (induction ts arbitrary: r) (simp_all add: keyed_def registry_Add_def)

lemma Get_fold_fresh: "i \<notin> tc_ID ` set ts \<Longrightarrow> registry_Get (fold registry_Add ts r) i = registry_Get r i"
  unfolding fold_registry_Add by (rule registry.get_puts_fresh) simp

lemma Get_fold_distinct:
  "distinct (map tc_ID ts) \<Longrightarrow> t \<in> set ts \<Longrightarrow> registry_Get (fold registry_Add ts r) (tc_ID t) = Some t"
  unfolding fold_registry_Add by (rule registry.get_puts_distinct) simp_all

lemma Get_fold_cases:
  "registry_Get (fold registry_Add ts r) i = Some t \<Longrightarrow> t \<in> set ts \<and> tc_ID t = i \<or> registry_Get r i = Some t"
  by (auto simp: fold_registry_Add registry.get_puts split: option.splits dest!: map_of_SomeD)

lemma Get_fold_some: "i \<in> tc_ID ` set ts \<Longrightarrow> registry_Get (fold registry_Add ts r) i \<noteq> None"
proof (induction ts arbitrary: r)
  case Nil
  then show ?case by simp
next
  case (Cons t ts)
  show ?case
  proof (cases "i \<in> tc_ID ` set ts")
    case True
    with Cons.IH show ?thesis by simp
  next
    case False
    with Cons.prems have "i = tc_ID t" by simp
    with False show ?thesis by (simp add: Get_fold_fresh Get_Add)
  qed
qed

lemma Get_fold_unique:
  assumes "t \<in> set ts" and "\<And>u. u \<in> set ts \<Longrightarrow> tc_ID u = tc_ID t \<Longrightarrow> u = t"
  shows "registry_Get (fold registry_Add ts r) (tc_ID t) = Some t"
proof -
  have "tc_ID t \<in> tc_ID ` set ts" using assms(1) by simp
  from Get_fold_some [OF this] obtain u where u: "registry_Get (fold registry_Add ts r) (tc_ID t) = Some u" by blast
  have "u = t"
  proof (rule ccontr)
    assume "u \<noteq> t"
    with Get_fold_cases [OF u] assms(2) have r: "registry_Get r (tc_ID t) = Some u" by blast
    from u have "map_of (rev (keyed ts)) (tc_ID t) = Some u \<or> map_of (rev (keyed ts)) (tc_ID t) = None"
      by (auto simp: fold_registry_Add registry.get_puts split: option.splits)
    then show False
    proof
      assume "map_of (rev (keyed ts)) (tc_ID t) = Some u"
      then have "u \<in> set ts" "tc_ID u = tc_ID t" by (auto dest!: map_of_SomeD)
      with assms(2) \<open>u \<noteq> t\<close> show False by blast
    next
      assume "map_of (rev (keyed ts)) (tc_ID t) = None"
      then have "tc_ID t \<notin> fst ` set (rev (keyed ts))" by (simp only: map_of_eq_None_iff not_False_eq_True)
      with assms(1) show False by simp
    qed
  qed
  with u show ?thesis by simp
qed

lemma distinct_update: "distinct (map fst r) \<Longrightarrow> distinct (map fst (registry_Add t r))"
  by (simp add: registry_Add_def distinct_update)

lemma distinct_fold_Add: "distinct (map fst r) \<Longrightarrow> distinct (map fst (fold registry_Add ts r))"
  by (induction ts arbitrary: r) (auto simp: distinct_update)

lemma BuiltinTargets_ids:
  "map tc_ID BuiltinTargets =
     [''local-process'', ''local-docker'', ''lima-vm'', ''firecracker-vm'', ''ssh'', ''kubernetes'', ''aws-vm'',
      ''gcp-vm'', ''azure-vm'', ''hetzner-vm'', ''oci-vm'', ''lambda-vm'']"
  by (simp add: BuiltinTargets_def builtin_local_process_def builtin_local_docker_def builtin_lima_vm_def
      builtin_firecracker_vm_def builtin_ssh_def builtin_kubernetes_def builtin_aws_vm_def builtin_gcp_vm_def
      builtin_azure_vm_def builtin_hetzner_vm_def builtin_oci_vm_def builtin_lambda_vm_def)

lemma distinct_BuiltinTargets: "distinct (map tc_ID BuiltinTargets)"
  unfolding BuiltinTargets_ids by simp

lemma BuiltinTargets_no_ssh: "t \<in> set BuiltinTargets \<Longrightarrow> tc_SSH t = None"
  by (auto simp: BuiltinTargets_def builtin_local_process_def builtin_local_docker_def builtin_lima_vm_def
      builtin_firecracker_vm_def builtin_ssh_def builtin_kubernetes_def builtin_aws_vm_def builtin_gcp_vm_def
      builtin_azure_vm_def builtin_hetzner_vm_def builtin_oci_vm_def builtin_lambda_vm_def)

lemma set_reservedIDs: "set reservedIDs = tc_ID ` set BuiltinTargets"
proof -
  have "set reservedIDs = dom (map_of (fold registry_Add BuiltinTargets []))"
    by (simp add: reservedIDs_def LoadBuiltins_def NewRegistry_def dom_map_of_conv_image_fst)
  also have "\<dots> = tc_ID ` set BuiltinTargets"
    using Get_fold_some [of _ BuiltinTargets "[]"] Get_fold_fresh [of _ BuiltinTargets "[]"]
    unfolding registry_Get_def dom_def by fastforce
  finally show ?thesis .
qed

section \<open>What loading adds\<close>

text \<open>The targets a file may add: named, no built-in id, and with valid ssh fields if any.\<close>

definition user_ok :: "target_config \<Rightarrow> bool" where
  "user_ok t \<longleftrightarrow>
     tc_ID t \<noteq> '''' \<and> tc_ID t \<notin> tc_ID ` set BuiltinTargets \<and> (tc_SSH t \<noteq> None \<longrightarrow> ValidateSSHTarget (tc_SSH t) = Inr ())"

definition file_ok :: "targets_file \<Rightarrow> bool" where
  "file_ok f \<longleftrightarrow> (\<exists>ts. f = TargetsFile ts \<and> list_all user_ok ts)"

fun file_targets :: "targets_file \<Rightarrow> target_config list" where
  "file_targets (TargetsFile ts) = ts"
| "file_targets _ = []"

lemma check_target_ok: "check_target path t = Inr () \<longleftrightarrow> user_ok t"
  by (auto simp: check_target_def user_ok_def set_reservedIDs split: option.splits sum.splits)

lemma check_target_cases: "check_target path t = Inr () \<or> (\<exists>e. check_target path t = Inl e)"
  by (cases "check_target path t") auto

lemma load_targets_adds:
  "\<exists>us. list_all user_ok us \<and> fst (load_targets path ts r) = fold registry_Add us r"
proof (induction ts arbitrary: r)
  case Nil
  show ?case by (rule exI [of _ "[]"]) simp
next
  case (Cons t ts)
  show ?case
  proof (cases "check_target path t")
    case (Inl e)
    then show ?thesis by (intro exI [of _ "[]"]) simp
  next
    case (Inr u)
    then have "user_ok t" using check_target_ok [of path t] by simp
    moreover obtain us where "list_all user_ok us" "fst (load_targets path ts (registry_Add t r)) = fold registry_Add us (registry_Add t r)"
      using Cons.IH by blast
    ultimately show ?thesis using Inr by (intro exI [of _ "t # us"]) simp
  qed
qed

lemma load_targets_ok: "list_all user_ok ts \<Longrightarrow> load_targets path ts r = (fold registry_Add ts r, Inr ())"
  by (induction ts arbitrary: r) (auto simp: check_target_ok [symmetric, where path = path])

lemma load_targets_bad: "\<not> list_all user_ok ts \<Longrightarrow> \<exists>e. snd (load_targets path ts r) = Inl e"
proof (induction ts arbitrary: r)
  case Nil
  then show ?case by simp
next
  case (Cons t ts)
  then show ?case using check_target_cases [of path t] check_target_ok [of path t] by auto
qed

lemma LoadFromFile_adds: "\<exists>us. list_all user_ok us \<and> fst (LoadFromFile path f r) = fold registry_Add us r"
proof (cases f)
  case (TargetsFile ts)
  then show ?thesis using load_targets_adds by (simp add: LoadFromFile_def)
qed (auto simp: LoadFromFile_def intro: exI [of _ "[]"])

lemma LoadFromFile_ok: "file_ok f \<Longrightarrow> LoadFromFile path f r = (fold registry_Add (file_targets f) r, Inr ())"
  by (auto simp: file_ok_def LoadFromFile_def load_targets_ok)

lemma LoadFromFile_bad: "\<not> file_ok f \<Longrightarrow> \<exists>e. snd (LoadFromFile path f r) = Inl e"
  by (cases f) (auto simp: file_ok_def LoadFromFile_def intro: load_targets_bad)

lemma fold_Add_chain:
  assumes "list_all user_ok us" and "\<exists>vs. list_all user_ok vs \<and> r' = fold registry_Add vs (fold registry_Add us r)"
  shows "\<exists>ws. list_all user_ok ws \<and> r' = fold registry_Add ws r"
  using assms by (metis comp_apply fold_append list_all_append)

lemma load_entries_adds: "\<exists>us. list_all user_ok us \<and> fst (load_entries dir es r) = fold registry_Add us r"
proof (induction dir es r rule: load_entries.induct)
  case (1 dir r)
  show ?case by (rule exI [of _ "[]"]) simp
next
  case (3 dir n f es r)
  obtain us where us: "list_all user_ok us" "fst (LoadFromFile (filepath_Join dir n) f r) = fold registry_Add us r"
    using LoadFromFile_adds by blast
  show ?case
  proof (cases "LoadFromFile (filepath_Join dir n) f r")
    case (Pair r' s)
    with us 3 show ?thesis
      by (cases s) (auto intro: fold_Add_chain [OF us(1)])
  qed
qed auto

lemma LoadFromDir_adds: "\<exists>us. list_all user_ok us \<and> fst (LoadFromDir dir d r) = fold registry_Add us r"
  by (cases d) (auto simp: LoadFromDir_def load_entries_adds intro: exI [of _ "[]"])

lemma load_project_adds: "\<exists>us. list_all user_ok us \<and> fst (load_project dir files ns r) = fold registry_Add us r"
  by (induction dir files ns r rule: load_project.induct)
     (auto simp: LoadFromFile_adds split: option.splits intro: exI [of _ "[]"])

lemma LoadProjectConfig_adds: "\<exists>us. list_all user_ok us \<and> fst (LoadProjectConfig dir files r) = fold registry_Add us r"
  unfolding LoadProjectConfig_def by (rule load_project_adds)

lemma LoadUserConfig_adds: "\<exists>us. list_all user_ok us \<and> fst (LoadUserConfig env r) = fold registry_Add us r"
proof (cases "te_subdir env")
  case (Inl e)
  then show ?thesis by (simp add: LoadUserConfig_def LoadProjectConfig_adds)
next
  case (Inr dir)
  obtain us where us: "list_all user_ok us" "fst (LoadFromDir dir (te_dir env) r) = fold registry_Add us r"
    using LoadFromDir_adds by blast
  show ?thesis
  proof (cases "LoadFromDir dir (te_dir env) r")
    case (Pair r' s)
    with us Inr show ?thesis
      by (cases s) (auto simp: LoadUserConfig_def LoadProjectConfig_adds intro: fold_Add_chain [OF us(1)])
  qed
qed

text \<open>The registry the planner and the CLI work with.\<close>

abbreviation loaded_registry :: "target_env \<Rightarrow> registry" where
  "loaded_registry env \<equiv> fst (LoadUserConfig env (LoadBuiltins NewRegistry))"

lemma loaded_registry_eq:
  obtains us where "list_all user_ok us" "loaded_registry env = fold registry_Add us (LoadBuiltins NewRegistry)"
  using LoadUserConfig_adds by blast

lemma Get_builtin: "t \<in> set BuiltinTargets \<Longrightarrow> registry_Get (loaded_registry env) (tc_ID t) = Some t"
proof -
  assume t: "t \<in> set BuiltinTargets"
  obtain us where us: "list_all user_ok us" "loaded_registry env = fold registry_Add us (LoadBuiltins NewRegistry)"
    by (rule loaded_registry_eq)
  have "tc_ID t \<notin> tc_ID ` set us"
    using us(1) t unfolding list_all_iff user_ok_def by (metis image_iff)
  then show ?thesis
    unfolding us(2) using t by (simp add: Get_fold_fresh LoadBuiltins_def Get_fold_distinct distinct_BuiltinTargets)
qed

lemma Get_loaded_cases:
  "registry_Get (loaded_registry env) i = Some t \<Longrightarrow> t \<in> set BuiltinTargets \<or> user_ok t"
proof -
  assume t: "registry_Get (loaded_registry env) i = Some t"
  obtain us where us: "list_all user_ok us" "loaded_registry env = fold registry_Add us (LoadBuiltins NewRegistry)"
    by (rule loaded_registry_eq)
  from t [unfolded us(2)] show ?thesis
    using us(1) by (auto simp: LoadBuiltins_def NewRegistry_def registry_Get_def list_all_iff dest!: Get_fold_cases [unfolded registry_Get_def])
qed

section \<open>Builtins cannot be overridden\<close>

text \<open>
  Whatever the user's and the project's target files contain, and whether or not loading them
  fails, every built-in id still resolves to its built-in definition: feasibility and cost are never
  computed from capabilities a configuration file chose while execution uses the built-in adapter.
\<close>

theorem builtins_not_overridable:
  "list_all (\<lambda>t. registry_Get (fst (LoadUserConfig env (LoadBuiltins NewRegistry))) (tc_ID t) = Some t) BuiltinTargets"
  unfolding list_all_iff by (rule ballI) (rule Get_builtin)

section \<open>No configured target can inject options into ssh\<close>

definition ssh_argument_safe :: "ssh_target_config \<Rightarrow> bool" where
  "ssh_argument_safe c \<longleftrightarrow>
     ssh_Host c \<noteq> '''' \<and> hd (ssh_Host c) \<noteq> CHR ''-''
     \<and> (\<forall>x\<in>set (ssh_Host c). ascii_letter_or_digit x \<or> x \<in> set ''.-'')
     \<and> (ssh_User c \<noteq> '''' \<longrightarrow> hd (ssh_User c) \<noteq> CHR ''-'')
     \<and> (\<forall>x\<in>set (ssh_User c). ascii_letter_or_digit x \<or> x \<in> set ''_.-'')
     \<and> 0 \<le> ssh_Port c \<and> ssh_Port c \<le> 65535
     \<and> (ssh_KeyFile c \<noteq> '''' \<longrightarrow> hd (ssh_KeyFile c) \<noteq> CHR ''-'')
     \<and> set (ssh_KeyFile c) \<inter> {CHR 0x00, CHR 0x0A, CHR 0x0D} = {}"

lemma HasPrefix_dash: "strings_HasPrefix s ''-'' \<longleftrightarrow> s \<noteq> [] \<and> hd s = CHR ''-''"
  by (cases s) (auto simp: strings_HasPrefix_def)

lemma validateSSHHost_ok:
  "validateSSHHost h = Inr u \<longleftrightarrow>
     h \<noteq> '''' \<and> hd h \<noteq> CHR ''-'' \<and> (\<forall>x\<in>set h. ascii_letter_or_digit x \<or> x \<in> set ''.-'')"
  by (auto simp: validateSSHHost_def HasPrefix_dash list_ex_iff)

lemma validateSSHWord_ok:
  "validateSSHWord f s = Inr u \<longleftrightarrow>
     (s \<noteq> '''' \<longrightarrow> hd s \<noteq> CHR ''-'') \<and> (\<forall>x\<in>set s. ascii_letter_or_digit x \<or> x \<in> set ''_.-'')"
  by (auto simp: validateSSHWord_def HasPrefix_dash list_ex_iff)

lemma validateSSHKeyFile_ok:
  "validateSSHKeyFile s = Inr u \<longleftrightarrow>
     (s \<noteq> '''' \<longrightarrow> hd s \<noteq> CHR ''-'') \<and> set s \<inter> {CHR 0x00, CHR 0x0A, CHR 0x0D} = {}"
  by (auto simp: validateSSHKeyFile_def HasPrefix_dash strings_ContainsAny_iff)

lemma ValidateSSHTarget_ok: "ValidateSSHTarget (Some c) = Inr u \<longleftrightarrow> ssh_argument_safe c"
proof -
  have "ValidateSSHTarget (Some c) = Inr u \<longleftrightarrow>
    validateSSHHost (ssh_Host c) = Inr () \<and> (ssh_User c = '''' \<or> validateSSHWord ''user'' (ssh_User c) = Inr ())
    \<and> 0 \<le> ssh_Port c \<and> ssh_Port c \<le> 65535 \<and> (ssh_KeyFile c = '''' \<or> validateSSHKeyFile (ssh_KeyFile c) = Inr ())"
    by (auto simp: ValidateSSHTarget_def split: sum.splits)
  then show ?thesis
    unfolding validateSSHHost_ok validateSSHWord_ok validateSSHKeyFile_ok ssh_argument_safe_def
    by auto
qed

definition demo_ssh :: target_config where
  "demo_ssh = \<lparr>tc_ID = ''lab'', tc_Kind = TargetKindSSH, tc_Enabled = True,
     tc_Capabilities = DefaultCapabilities TargetKindSSH,
     tc_SSH = Some \<lparr>ssh_Host = ''lab.example'', ssh_User = ''ci'', ssh_Port = 22, ssh_KeyFile = ''/k/id''\<rparr>\<rparr>"

definition demo_target_env :: target_env where
  "demo_target_env = \<lparr>te_subdir = Inr ''/s/targets'',
     te_dir = DirEntries [(''lab.yaml'', RegularFile (TargetsFile [demo_ssh]))],
     te_project = Map.empty(''dispatcher.yaml'' \<mapsto> TargetsFile [])\<rparr>"

text \<open>
  C38: Every target that the registry can return after loading the user's and the project's files,
  and that has ssh fields, is safe to place on an ssh command line: host, user and key file do not
  start with a dash, host and user consist of letters, digits and a few punctuation characters, the
  key file has no line break, and the port is a port number.
\<close>

theorem registry_ssh_safe:
  assumes "registry_Get (fst (LoadUserConfig env (LoadBuiltins NewRegistry))) i = Some t" and "tc_SSH t = Some c"
  shows "ssh_argument_safe c"
proof -
  from Get_loaded_cases [OF assms(1)] BuiltinTargets_no_ssh assms(2) have "user_ok t" by auto
  with assms(2) have "ValidateSSHTarget (Some c) = Inr ()" by (simp add: user_ok_def)
  then show ?thesis by (simp add: ValidateSSHTarget_ok)
qed

lemma demo_ssh_ok: "user_ok demo_ssh"
proof -
  have "''lab'' \<notin> set (map tc_ID BuiltinTargets)" unfolding BuiltinTargets_ids by simp
  then have "''lab'' \<notin> tc_ID ` set BuiltinTargets" by simp
  moreover have "ssh_argument_safe (the (tc_SSH demo_ssh))"
    by (simp add: ssh_argument_safe_def demo_ssh_def ascii_letter_or_digit_def)
  ultimately show ?thesis
    by (simp add: user_ok_def demo_ssh_def ValidateSSHTarget_ok)
qed

lemma filepath_Ext_yaml [simp]: "filepath_Ext (n @ ''.yaml'') = ''.yaml''"
  by (simp add: filepath_Ext_def)

lemma demo_registry:
  "LoadUserConfig demo_target_env r = (registry_Add demo_ssh r, Inr ())"
proof -
  have "filepath_Ext ''lab.yaml'' = ''.yaml''" using filepath_Ext_yaml [of "''lab''"] by simp
  moreover have "check_target path demo_ssh = Inr ()" for path using demo_ssh_ok by (simp add: check_target_ok)
  ultimately show ?thesis
    by (simp add: LoadUserConfig_def demo_target_env_def LoadFromDir_def read_dir_def sort_Slice_def
        LoadFromFile_def LoadProjectConfig_def)
qed

theorem registry_ssh_safe_witness:
  "ssh_argument_safe (the (tc_SSH demo_ssh))"
proof -
  have "registry_Get (fst (LoadUserConfig demo_target_env (LoadBuiltins NewRegistry))) ''lab'' = Some demo_ssh"
    by (simp add: demo_registry Get_Add) (simp add: demo_ssh_def)
  then show ?thesis
    by (rule registry_ssh_safe) (simp add: demo_ssh_def)
qed

section \<open>The listing is exact and deterministic\<close>

interpretation string_order: weak_order_on "(<) :: string \<Rightarrow> string \<Rightarrow> bool" UNIV
  by unfold_locales auto

lemma sorted_sort_Strings: "sorted (sort_Strings xs)"
  using string_order.sorted_sort_Slice [of xs] by (simp add: sort_Strings_def not_less)

lemma mset_sort_Strings [simp]: "mset (sort_Strings xs) = mset xs" and set_sort_Strings [simp]: "set (sort_Strings xs) = set xs"
  by (simp_all add: sort_Strings_def)

lemma sort_Strings_eq: "sort_Strings xs = sort xs"
  by (metis sorted_sort_Strings mset_sort_Strings properties_for_sort)

lemma mset_lookup_all:
  assumes "distinct (map fst r)" and "distinct ids"
  shows "mset (lookup_all r ids) = mset (map snd (filter (\<lambda>p. fst p \<in> set ids) r))"
  using assms(2)
proof (induction ids)
  case Nil
  then show ?case by (simp add: lookup_all_def map_filter_simps)
next
  case (Cons i ids)
  have split: "mset (filter (\<lambda>p. fst p \<in> set (i # ids)) r) =
      mset (filter (\<lambda>p. fst p = i) r) + mset (filter (\<lambda>p. fst p \<in> set ids) r)"
    using Cons.prems by (induction r) auto
  have one: "mset (map snd (filter (\<lambda>p. fst p = i) r)) = (case map_of r i of None \<Rightarrow> {#} | Some t \<Rightarrow> {#t#})"
    using assms(1)
  proof (induction r)
    case Nil
    then show ?case by simp
  next
    case (Cons p r)
    then show ?case by (cases p) (auto simp: filter_empty_conv image_iff split: option.splits dest: map_of_SomeD)
  qed
  have "mset (lookup_all r (i # ids)) = (case map_of r i of None \<Rightarrow> {#} | Some t \<Rightarrow> {#t#}) + mset (lookup_all r ids)"
    by (simp add: lookup_all_def map_filter_simps registry_Get_def split: option.splits)
  also have "\<dots> = mset (map snd (filter (\<lambda>p. fst p \<in> set (i # ids)) r))"
    using Cons one [symmetric] split by (simp only: mset_map image_mset_union) simp
  finally show ?case .
qed

lemma distinct_list_order: "distinct list_order"
  by (simp add: list_order_def)

lemma lookup_all_cong: "map_of r' = map_of r \<Longrightarrow> lookup_all r' ids = lookup_all r ids"
  by (simp add: lookup_all_def registry_Get_def map_filter_def)

text \<open>
  The listing contains every registered target exactly once, and does not depend on the order in
  which Go iterates over the registry's map: any two iteration orders of the same map give the
  same list.
\<close>

theorem registry_list_exact:
  assumes "distinct (map fst r)"
  shows "mset (registry_List r) = mset (map snd r) \<and> (\<forall>r'. mset r' = mset r \<longrightarrow> registry_List r' = registry_List r)"
proof (intro conjI allI impI)
  define extra where "extra = filter (\<lambda>i. \<not> inSlice list_order i) (map fst r)"
  have d: "distinct (sort_Strings extra)" using assms by (simp add: extra_def sort_Strings_eq)
  have "mset (filter (\<lambda>p. fst p \<in> set list_order) r) + mset (filter (\<lambda>p. fst p \<in> set extra) r) = mset r"
  proof -
    have "filter (\<lambda>p. fst p \<in> set extra) r = filter (\<lambda>p. \<not> fst p \<in> set list_order) r"
      by (rule filter_cong) (auto simp: extra_def)
    then show ?thesis by (simp add: mset_filter)
  qed
  moreover have "registry_List r = lookup_all r list_order @ lookup_all r (sort_Strings extra)"
    by (simp only: registry_List_def extra_def)
  ultimately show "mset (registry_List r) = mset (map snd r)"
    using mset_lookup_all [OF assms distinct_list_order] mset_lookup_all [OF assms d]
    by (simp flip: image_mset_union)
next
  fix r' assume m: "mset r' = mset r"
  then have k: "mset (map fst r') = mset (map fst r)" by simp
  then have d': "distinct (map fst r')" using assms by (metis mset_eq_imp_distinct_iff)
  have mo: "map_of r' = map_of r"
    using map_of_eqI [of r' r] assms d' m by (metis map_of_inject_set mset_eq_setD)
  have so: "sort_Strings (filter P (map fst r')) = sort_Strings (filter P (map fst r))" for P
    unfolding sort_Strings_eq by (rule properties_for_sort) (simp_all only: mset_sort mset_filter k sorted_sort)
  show "registry_List r' = registry_List r"
    by (simp only: registry_List_def so lookup_all_cong [OF mo])
qed

theorem registry_list_exact_witness:
  "mset (registry_List [(''zz'', demo_ssh), (''ssh'', builtin_ssh)]) = {#demo_ssh, builtin_ssh#}
   \<and> registry_List [(''ssh'', builtin_ssh), (''zz'', demo_ssh)] = registry_List [(''zz'', demo_ssh), (''ssh'', builtin_ssh)]"
proof -
  have d: "distinct (map fst [(''zz'', demo_ssh), (''ssh'', builtin_ssh)])" by simp
  have m: "mset [(''ssh'', builtin_ssh), (''zz'', demo_ssh)] = mset [(''zz'', demo_ssh), (''ssh'', builtin_ssh)]" by simp
  have "mset (map snd [(''zz'', demo_ssh), (''ssh'', builtin_ssh)]) = {#demo_ssh, builtin_ssh#}" by simp
  from trans [OF conjunct1 [OF registry_list_exact [OF d]] this]
    mp [OF spec [OF conjunct2 [OF registry_list_exact [OF d]]] m]
  show ?thesis by (rule conjI)
qed

section \<open>A saved built-in id disables the configuration\<close>

definition yaml_name :: "string \<Rightarrow> bool" where
  "yaml_name n \<longleftrightarrow> filepath_Ext n = ''.yaml'' \<or> filepath_Ext n = ''.yml''"

lemma load_entries_bad:
  assumes "(n, RegularFile f) \<in> set es" and "yaml_name n" and "\<not> file_ok f"
  shows "\<exists>e. snd (load_entries dir es r) = Inl e"
  using assms(1)
proof (induction dir es r rule: load_entries.induct)
  case (3 dir m g es r)
  show ?case
  proof (cases "file_ok g")
    case True
    with assms(3) 3(3) have "(n, RegularFile f) \<in> set es" by auto
    with 3 True show ?thesis by (simp add: LoadFromFile_ok)
  next
    case False
    obtain r' e where "LoadFromFile (filepath_Join dir m) g r = (r', Inl e)"
      using LoadFromFile_bad [OF False] by (metis prod.collapse)
    then show ?thesis
      using 3 assms by (cases "(n, RegularFile f) \<in> set es") (auto simp: yaml_name_def)
  qed
qed auto

lemma mem_read_dir [simp]: "set (read_dir es) = set es"
  by (simp add: read_dir_def)

lemma mem_update: "(n, v) \<in> set (AList.update n v es)"
  by (induction es) auto

lemma builtin_id_valid:
  assumes "i \<in> tc_ID ` set BuiltinTargets"
  shows "validateTargetID i = Inr ()"
proof -
  have "list_all (\<lambda>i. validateTargetID i = Inr ()) (map tc_ID BuiltinTargets)"
    unfolding BuiltinTargets_ids
    by (simp add: validateTargetID_def strings_ContainsAny_def strings_HasPrefix_def backslash_def)
  then show ?thesis using assms by (auto simp: list_all_iff)
qed

text \<open>
  Saving a target under a built-in id succeeds, although such a file is refused on loading:
  from then on loading the user's configuration fails, whatever else the directory holds, and the
  project's own \<^verbatim>\<open>dispatcher.yaml\<close> targets are no longer registered at all.
\<close>

theorem saved_builtin_id_blocks_config:
  assumes "tc_ID t \<in> set reservedIDs" and "\<forall>c. tc_SSH t = Some c \<longrightarrow> ssh_argument_safe c"
  shows "\<exists>es' path. SaveTarget (Inr dir) WriteOk t es = (es', Inr path)
    \<and> (\<exists>e. snd (LoadUserConfig \<lparr>te_subdir = Inr dir, te_dir = DirEntries es', te_project = proj\<rparr> r) = Inl e)
    \<and> fst (LoadUserConfig \<lparr>te_subdir = Inr dir, te_dir = DirEntries es', te_project = proj\<rparr> r) =
      fst (LoadUserConfig \<lparr>te_subdir = Inr dir, te_dir = DirEntries es', te_project = Map.empty\<rparr> r)"
proof -
  define es' where "es' = AList.update (tc_ID t @ ''.yaml'') (RegularFile (TargetsFile [t])) es"
  have "validateTargetID (tc_ID t) = Inr ()"
    using assms(1) by (simp add: set_reservedIDs builtin_id_valid)
  moreover have "(case tc_SSH t of None \<Rightarrow> Inr () | Some c \<Rightarrow> ValidateSSHTarget (Some c)) = Inr ()"
    using assms(2) by (auto simp: ValidateSSHTarget_ok split: option.splits)
  ultimately have saved: "SaveTarget (Inr dir) WriteOk t es = (es', Inr (filepath_Join dir (tc_ID t @ ''.yaml'')))"
    by (simp add: SaveTarget_def write_file_def es'_def)
  have "\<not> file_ok (TargetsFile [t])"
    using assms(1) by (simp add: file_ok_def user_ok_def set_reservedIDs)
  moreover have "(tc_ID t @ ''.yaml'', RegularFile (TargetsFile [t])) \<in> set (read_dir es')"
    by (simp add: es'_def mem_update)
  moreover have "yaml_name (tc_ID t @ ''.yaml'')" by (simp add: yaml_name_def)
  ultimately have "\<exists>e. snd (load_entries dir (read_dir es') r) = Inl e" by (intro load_entries_bad)
  then obtain r' e where "load_entries dir (read_dir es') r = (r', Inl e)" by (metis prod.collapse)
  then have "LoadUserConfig \<lparr>te_subdir = Inr dir, te_dir = DirEntries es', te_project = q\<rparr> r =
      (r', Inl (''loading user targets: '' @ e))" for q
    by (simp add: LoadUserConfig_def LoadFromDir_def)
  with saved show ?thesis by simp
qed

theorem saved_builtin_id_blocks_config_witness:
  "\<exists>es' path. SaveTarget (Inr ''/s/targets'') WriteOk builtin_aws_vm [] = (es', Inr path)
    \<and> (\<exists>e. snd (LoadUserConfig \<lparr>te_subdir = Inr ''/s/targets'', te_dir = DirEntries es',
          te_project = Map.empty(''dispatcher.yaml'' \<mapsto> TargetsFile [demo_ssh])\<rparr> []) = Inl e)"
proof -
  have "tc_ID builtin_aws_vm \<in> set reservedIDs" by (simp add: set_reservedIDs BuiltinTargets_def)
  moreover have "\<forall>c. tc_SSH builtin_aws_vm = Some c \<longrightarrow> ssh_argument_safe c" by (simp add: builtin_aws_vm_def)
  ultimately show ?thesis using saved_builtin_id_blocks_config by blast
qed

end
