(* ===== verification/Target_Import.thy ===== *)
theory Target_Import
  imports Target_Registry
begin

text \<open>
  The import of targets from a Terraform output (\<^verbatim>\<open>internal/target/import.go\<close>): parsing and
  validating the blob, planning the change against the present configuration, and the atomic
  rewrite of the managed file, as the sequence of states the targets directory passes through.
\<close>

section \<open>Reading a Terraform output\<close>

record terraform_options =
  tf_Binary :: string
  tf_Workspace :: string
  tf_AllowSensitive :: bool

record terraform_output =
  tfo_Sensitive :: bool
  tfo_Value :: string

text \<open>
  Running \<^verbatim>\<open>terraform output -json\<close> is a parameter: its error with what it wrote to stderr, or its stdout,
  which \<^verbatim>\<open>json.Unmarshal\<close> reads as a map of outputs (\<open>None\<close> when it does not parse). A backquote of
  the messages is the character 96.
\<close>

datatype tf_run = TFFails string string | TFOutput "(string \<rightharpoonup> terraform_output) option"

definition backquote :: string where
  "backquote = [CHR 0x60]"

definition tfErrorHint :: "string \<Rightarrow> string" where
  "tfErrorHint stderr =
     (let s = strings_ToLower stderr
      in if strings_Contains s ''initiali''
           then '' (run '' @ backquote @ ''terraform init'' @ backquote @ '' in that directory first)''
         else if strings_Contains s ''no state'' \<or> strings_Contains s ''state file''
           then '' (no state '' @ em_dash @ '' has the workspace been applied?)''
         else if strings_Contains s ''no configuration files'' \<or> strings_Contains s ''not a directory''
           then '' (is that a Terraform workspace directory?)''
         else '''')"

definition ErrNoTargetsOutput :: string where
  "ErrNoTargetsOutput = ''no dispatcher_targets output found''"

definition FetchTerraformTargets ::
  "(string \<Rightarrow> string \<Rightarrow> string \<Rightarrow> tf_run) \<Rightarrow> string \<Rightarrow> terraform_options \<Rightarrow> string result" where
  "FetchTerraformTargets runTF dir opts =
     (let binary = (if tf_Binary opts = '''' then ''terraform'' else tf_Binary opts)
      in case runTF binary dir (tf_Workspace opts) of
           TFFails stderr e \<Rightarrow> Inl (binary @ '' output -json failed'' @ tfErrorHint stderr @ '': '' @ e)
         | TFOutput None \<Rightarrow> Inl (''parse '' @ binary @ '' outputs'')
         | TFOutput (Some outputs) \<Rightarrow>
             (case outputs ''dispatcher_targets'' of
                None \<Rightarrow> Inl ErrNoTargetsOutput
              | Some out \<Rightarrow>
                  if tfo_Sensitive out \<and> \<not> tf_AllowSensitive opts
                    then Inl ''the dispatcher_targets output is marked sensitive; re-run with --allow-sensitive to import it''
                  else Inr (tfo_Value out)))"

section \<open>Importing targets\<close>

definition managedImportFile :: string where
  "managedImportFile = ''terraform-import.yaml''"

text \<open>Where writing the managed file can fail, in the order of the system calls.\<close>

datatype import_fault =
    ImportOk | CreateTempFails string | ChmodFails string | TempWriteFails string
  | SyncFails string | TempCloseFails string | RenameFails string

fun check_persist :: "nat \<Rightarrow> target_config list \<Rightarrow> unit result" where
  "check_persist i [] = Inr ()"
| "check_persist i (t # ts) =
     (case validateTargetID (tc_ID t) of
        Inl e \<Rightarrow> Inl (''target '' @ show_int (int i) @ '': '' @ e)
      | Inr _ \<Rightarrow>
          (case (case tc_SSH t of None \<Rightarrow> Inr () | Some c \<Rightarrow> ValidateSSHTarget (Some c)) of
             Inl e \<Rightarrow> Inl (''target '' @ go_quote (tc_ID t) @ '': '' @ e)
           | Inr _ \<Rightarrow> check_persist (Suc i) ts))"

text \<open>
  \<^verbatim>\<open>WriteTargetsFile\<close> gives every state the directory passes through, last the one it leaves.
  \<open>rnd\<close> is the random part of the name of the temporary file, \<open>torn\<close> what the temporary file decodes to
  before it is complete.
\<close>

definition tmp_import_name :: "string \<Rightarrow> string" where
  "tmp_import_name rnd = ''.tmp-import-'' @ rnd"

definition WriteTargetsFile ::
  "string result \<Rightarrow> string \<Rightarrow> targets_file \<Rightarrow> import_fault \<Rightarrow> string \<Rightarrow> target_config list \<Rightarrow> targets_dir
     \<Rightarrow> targets_dir list \<times> string result" where
  "WriteTargetsFile subdir rnd torn fault name targets es =
     (case check_persist 0 targets of
        Inl e \<Rightarrow> ([es], Inl e)
      | Inr _ \<Rightarrow>
          (case subdir of
             Inl e \<Rightarrow> ([es], Inl e)
           | Inr dir \<Rightarrow>
               (let tmp = tmp_import_name rnd;
                    started = AList.update tmp (RegularFile torn) es;
                    complete = AList.update tmp (RegularFile (TargetsFile targets)) es;
                    removed = AList.delete tmp es;
                    installed = AList.update name (RegularFile (TargetsFile targets)) removed
                in case fault of
                     CreateTempFails e \<Rightarrow> ([es], Inl e)
                   | ChmodFails e \<Rightarrow> ([es, started, removed], Inl e)
                   | TempWriteFails e \<Rightarrow> ([es, started, removed], Inl e)
                   | SyncFails e \<Rightarrow> ([es, started, complete, removed], Inl e)
                   | TempCloseFails e \<Rightarrow> ([es, started, complete, removed], Inl e)
                   | RenameFails e \<Rightarrow> ([es, started, complete, removed], Inl (''install '' @ name @ '': '' @ e))
                   | ImportOk \<Rightarrow> ([es, started, complete, installed], Inr (filepath_Join dir name)))))"

record import_ssh_entry =
  ise_Host :: string
  ise_User :: string
  ise_Port :: int
  ise_KeyFile :: string

record import_entry =
  ie_ID :: string
  ie_Kind :: string
  ie_SSH :: "import_ssh_entry option"

text \<open>The home directory is the result of \<^verbatim>\<open>os.UserHomeDir\<close>; \<open>clean_join\<close> is the library's \<^verbatim>\<open>filepath.Join\<close>.\<close>

definition expandTilde :: "string result \<Rightarrow> (string \<Rightarrow> string \<Rightarrow> string) \<Rightarrow> string \<Rightarrow> string" where
  "expandTilde home clean_join p =
     (if p \<noteq> ''~'' \<and> \<not> strings_HasPrefix p ''~/'' then p
      else case home of
             Inl _ \<Rightarrow> p
           | Inr h \<Rightarrow> if p = ''~'' then h else clean_join h (drop 2 p))"

definition import_ssh :: "(string \<Rightarrow> string) \<Rightarrow> import_ssh_entry \<Rightarrow> ssh_target_config" where
  "import_ssh expand e =
     \<lparr>ssh_Host = ise_Host e, ssh_User = ise_User e,
      ssh_Port = (if ise_Port e = 0 then 22 else ise_Port e), ssh_KeyFile = expand (ise_KeyFile e)\<rparr>"

definition parse_entry :: "(string \<Rightarrow> string) \<Rightarrow> nat \<Rightarrow> string list \<Rightarrow> import_entry \<Rightarrow> target_config result" where
  "parse_entry expand i seen e =
     (case validateTargetID (ie_ID e) of
        Inl m \<Rightarrow> Inl (''target '' @ show_int (int i) @ '': '' @ m)
      | Inr _ \<Rightarrow>
          if List.member reservedIDs (ie_ID e)
            then Inl (''target '' @ go_quote (ie_ID e) @ '': id collides with a builtin target (reserved)'')
          else if List.member seen (ie_ID e)
            then Inl (''duplicate target id '' @ go_quote (ie_ID e) @ '' in dispatcher_targets'')
          else if ie_Kind e \<noteq> ''ssh''
            then Inl (''target '' @ go_quote (ie_ID e) @ '': kind '' @ go_quote (ie_Kind e)
                   @ '' is not importable (only ssh today)'')
          else case ie_SSH e of
                 None \<Rightarrow> Inl (''target '' @ go_quote (ie_ID e) @ '': missing ssh block'')
               | Some s \<Rightarrow>
                   (case ValidateSSHTarget (Some (import_ssh expand s)) of
                      Inl m \<Rightarrow> Inl (''target '' @ go_quote (ie_ID e) @ '': '' @ m)
                    | Inr _ \<Rightarrow>
                        Inr \<lparr>tc_ID = ie_ID e, tc_Kind = TargetKindSSH, tc_Enabled = True,
                             tc_Capabilities = DefaultCapabilities TargetKindSSH,
                             tc_SSH = Some (import_ssh expand s)\<rparr>))"

fun parse_entries ::
  "(string \<Rightarrow> string) \<Rightarrow> nat \<Rightarrow> string list \<Rightarrow> import_entry list \<Rightarrow> target_config list result" where
  "parse_entries expand i seen [] = Inr []"
| "parse_entries expand i seen (e # es) =
     (case parse_entry expand i seen e of
        Inl m \<Rightarrow> Inl m
      | Inr t \<Rightarrow>
          (case parse_entries expand (Suc i) (ie_ID e # seen) es of
             Inl m \<Rightarrow> Inl m
           | Inr ts \<Rightarrow> Inr (t # ts)))"

text \<open>A \<^verbatim>\<open>dispatcher_targets\<close> blob is what \<^verbatim>\<open>json.Unmarshal\<close> makes of it.\<close>

definition ParseDispatcherTargets :: "(string \<Rightarrow> string) \<Rightarrow> import_entry list result \<Rightarrow> target_config list result" where
  "ParseDispatcherTargets expand blob =
     (case blob of
        Inl e \<Rightarrow> Inl (''parse dispatcher_targets: '' @ e)
      | Inr es \<Rightarrow> parse_entries expand 0 [] es)"

definition managedIDs :: "dir_entry option \<Rightarrow> string list" where
  "managedIDs f =
     (case f of Some (RegularFile (TargetsFile ts)) \<Rightarrow> remdups (map tc_ID ts) | _ \<Rightarrow> [])"

record import_plan =
  ip_targets :: "target_config list"
  ip_Added :: "string list"
  ip_Updated :: "string list"
  ip_Removed :: "string list"

definition HasChanges :: "import_plan \<Rightarrow> bool" where
  "HasChanges p = (0 < length (ip_Added p) + length (ip_Updated p) + length (ip_Removed p))"

fun dir_lookup :: "dir_read \<Rightarrow> string \<Rightarrow> dir_entry option" where
  "dir_lookup (DirEntries es) n = map_of es n"
| "dir_lookup _ n = None"

definition PlanImport :: "(string \<Rightarrow> string) \<Rightarrow> target_env \<Rightarrow> import_entry list result \<Rightarrow> import_plan result" where
  "PlanImport expand env blob =
     (case ParseDispatcherTargets expand blob of
        Inl e \<Rightarrow> Inl e
      | Inr targets \<Rightarrow>
          (case te_subdir env of
             Inl e \<Rightarrow> Inl e
           | Inr dir \<Rightarrow>
               (let managed = managedIDs (dir_lookup (te_dir env) managedImportFile);
                    reg = fst (LoadUserConfig env (LoadBuiltins NewRegistry));
                    ids = map tc_ID targets
                in case List.find (\<lambda>i. registry_Get reg i \<noteq> None \<and> \<not> List.member managed i) ids of
                     Some i \<Rightarrow> Inl (''target '' @ go_quote i
                        @ '' already exists (builtin, hand-added, or project config); refusing to shadow it'')
                   | None \<Rightarrow>
                       Inr \<lparr>ip_targets = targets,
                            ip_Added = sort_Strings (filter (\<lambda>i. \<not> List.member managed i) ids),
                            ip_Updated = sort_Strings (filter (List.member managed) ids),
                            ip_Removed = sort_Strings (filter (\<lambda>i. \<not> List.member ids i) managed)\<rparr>)))"

definition Commit ::
  "string result \<Rightarrow> string \<Rightarrow> targets_file \<Rightarrow> import_fault \<Rightarrow> import_plan \<Rightarrow> targets_dir
     \<Rightarrow> targets_dir list \<times> string result" where
  "Commit subdir rnd torn fault p es =
     WriteTargetsFile subdir rnd torn fault managedImportFile (ip_targets p) es"

section \<open>An import installs exactly what it planned\<close>

lemma parse_entry_ok:
  assumes "parse_entry expand i seen e = Inr t"
  shows "user_ok t \<and> tc_ID t = ie_ID e \<and> ie_ID e \<notin> set seen \<and> validateTargetID (tc_ID t) = Inr ()
    \<and> tc_Enabled t \<and> tc_Kind t = TargetKindSSH \<and> (\<exists>c. tc_SSH t = Some c \<and> ssh_argument_safe c)"
proof -
  have "ie_ID e \<noteq> ''''" if "validateTargetID (ie_ID e) = Inr u" for u
    using that by (auto simp: validateTargetID_def)
  then show ?thesis
    using assms
    by (auto simp: parse_entry_def user_ok_def set_reservedIDs ValidateSSHTarget_ok split: sum.splits if_splits option.splits)
qed

lemma parse_entries_ok:
  "parse_entries expand i seen es = Inr ts \<Longrightarrow>
     list_all (\<lambda>t. user_ok t \<and> validateTargetID (tc_ID t) = Inr () \<and> (\<exists>c. tc_SSH t = Some c \<and> ssh_argument_safe c)) ts
     \<and> distinct (map tc_ID ts) \<and> set (map tc_ID ts) \<inter> set seen = {}"
proof (induction expand i seen es arbitrary: ts rule: parse_entries.induct)
  case (2 expand i seen e es)
  from 2(2) obtain t us where e: "parse_entry expand i seen e = Inr t"
    and es: "parse_entries expand (Suc i) (ie_ID e # seen) es = Inr us" and ts: "ts = t # us"
    by (auto split: sum.splits)
  from 2(1) [OF e es] parse_entry_ok [OF e] show ?case by (auto simp: ts)
qed simp

lemma check_persist_ok:
  "list_all (\<lambda>t. user_ok t \<and> validateTargetID (tc_ID t) = Inr () \<and> (\<exists>c. tc_SSH t = Some c \<and> ssh_argument_safe c)) ts
     \<Longrightarrow> check_persist i ts = Inr ()"
  by (induction ts arbitrary: i) (auto simp: ValidateSSHTarget_ok [THEN iffD2, of _ "()"])

fun entry_targets :: "string \<times> dir_entry \<Rightarrow> target_config list" where
  "entry_targets (n, Directory) = []"
| "entry_targets (n, RegularFile f) = (if yaml_name n then file_targets f else [])"

fun entry_ok :: "string \<times> dir_entry \<Rightarrow> bool" where
  "entry_ok (n, Directory) = True"
| "entry_ok (n, RegularFile f) = (yaml_name n \<longrightarrow> file_ok f)"

lemma load_entries_all_ok:
  "list_all entry_ok es \<Longrightarrow> load_entries dir es r = (fold registry_Add (concat (map entry_targets es)) r, Inr ())"
  by (induction dir es r rule: load_entries.induct) (auto simp: yaml_name_def LoadFromFile_ok)

lemma load_entries_ok_iff: "snd (load_entries dir es r) = Inr () \<longleftrightarrow> list_all entry_ok es"
proof
  assume ok: "snd (load_entries dir es r) = Inr ()"
  show "list_all entry_ok es"
  proof (unfold list_all_iff, rule ballI)
    fix p assume p: "p \<in> set es"
    show "entry_ok p"
    proof (cases p rule: entry_ok.cases)
      case (2 n f)
      then show ?thesis using load_entries_bad [of n f es dir r] p ok by auto
    qed simp
  qed
qed (simp add: load_entries_all_ok)

definition project_file :: "(string \<rightharpoonup> targets_file) \<Rightarrow> targets_file option" where
  "project_file files =
     (case files ''dispatcher.yaml'' of Some f \<Rightarrow> Some f | None \<Rightarrow> files ''dispatcher.yml'')"

definition project_targets :: "(string \<rightharpoonup> targets_file) \<Rightarrow> target_config list" where
  "project_targets files = (case project_file files of None \<Rightarrow> [] | Some f \<Rightarrow> file_targets f)"

definition project_ok :: "(string \<rightharpoonup> targets_file) \<Rightarrow> bool" where
  "project_ok files = (case project_file files of None \<Rightarrow> True | Some f \<Rightarrow> file_ok f)"

lemma LoadProjectConfig_ok:
  "project_ok files \<Longrightarrow> LoadProjectConfig dir files r = (fold registry_Add (project_targets files) r, Inr ())"
  by (auto simp: LoadProjectConfig_def project_ok_def project_file_def project_targets_def LoadFromFile_ok split: option.splits)

lemma LoadProjectConfig_ok_iff: "snd (LoadProjectConfig dir files r) = Inr () \<longleftrightarrow> project_ok files"
proof
  assume ok: "snd (LoadProjectConfig dir files r) = Inr ()"
  have "LoadProjectConfig dir files r = LoadFromFile (filepath_Join dir n) f r \<Longrightarrow> file_ok f" for n f
    using ok LoadFromFile_bad [of f "filepath_Join dir n" r] by auto
  then show "project_ok files"
    by (auto simp: LoadProjectConfig_def project_ok_def project_file_def split: option.splits)
qed (simp add: LoadProjectConfig_ok)

abbreviation dir_env :: "string \<Rightarrow> targets_dir \<Rightarrow> (string \<rightharpoonup> targets_file) \<Rightarrow> target_env" where
  "dir_env dir es proj \<equiv> \<lparr>te_subdir = Inr dir, te_dir = DirEntries es, te_project = proj\<rparr>"

definition config_targets :: "targets_dir \<Rightarrow> (string \<rightharpoonup> targets_file) \<Rightarrow> target_config list" where
  "config_targets es proj = concat (map entry_targets (read_dir es)) @ project_targets proj"

lemma LoadUserConfig_ok:
  assumes "list_all entry_ok es" and "project_ok proj"
  shows "LoadUserConfig (dir_env dir es proj) r = (fold registry_Add (config_targets es proj) r, Inr ())"
proof -
  have "list_all entry_ok (read_dir es)" using assms(1) by (simp add: list_all_iff)
  then show ?thesis
    by (simp add: LoadUserConfig_def LoadFromDir_def load_entries_all_ok LoadProjectConfig_ok assms(2) config_targets_def)
qed

lemma LoadUserConfig_ok_iff:
  "snd (LoadUserConfig (dir_env dir es proj) r) = Inr () \<longleftrightarrow> list_all entry_ok es \<and> project_ok proj"
proof -
  have "list_all entry_ok (read_dir es) = list_all entry_ok es" by (simp add: list_all_iff)
  then show ?thesis
    using load_entries_ok_iff [of dir "read_dir es" r]
    by (cases "load_entries dir (read_dir es) r"; cases "snd (load_entries dir (read_dir es) r)")
       (auto simp: LoadUserConfig_def LoadFromDir_def LoadProjectConfig_ok_iff)
qed

text \<open>The ids declared outside the managed file: by other files of the directory and by the project.\<close>

definition hand_declared :: "targets_dir \<Rightarrow> (string \<rightharpoonup> targets_file) \<Rightarrow> string set" where
  "hand_declared es proj =
     tc_ID ` (\<Union>p\<in>{p \<in> set es. fst p \<noteq> managedImportFile}. set (entry_targets p)) \<union> tc_ID ` set (project_targets proj)"

definition installed_dir :: "string \<Rightarrow> import_plan \<Rightarrow> targets_dir \<Rightarrow> targets_dir" where
  "installed_dir rnd p es =
     AList.update managedImportFile (RegularFile (TargetsFile (ip_targets p))) (AList.delete (tmp_import_name rnd) es)"

lemma set_installed_dir:
  assumes "distinct (map fst es)" and "q \<in> set (installed_dir rnd p es)"
  shows "q = (managedImportFile, RegularFile (TargetsFile (ip_targets p))) \<or> q \<in> set es \<and> fst q \<noteq> managedImportFile"
proof -
  have d: "distinct (map fst (installed_dir rnd p es))"
    using assms(1) by (simp add: installed_dir_def AList.distinct_update distinct_delete)
  obtain n e where q: "q = (n, e)" by (cases q)
  have "map_of (installed_dir rnd p es) n = Some e" using assms(2) d by (simp add: q)
  then show ?thesis
    by (auto simp: installed_dir_def update_conv' delete_conv' q split: if_splits dest: map_of_SomeD)
qed

lemma managed_in_installed_dir:
  "(managedImportFile, RegularFile (TargetsFile (ip_targets p))) \<in> set (installed_dir rnd p es)"
  by (simp add: installed_dir_def mem_update)

lemma yaml_managed: "yaml_name managedImportFile"
proof -
  have eq: "managedImportFile = ''terraform-import'' @ ''.yaml''" by (simp add: managedImportFile_def)
  show ?thesis unfolding eq yaml_name_def filepath_Ext_yaml by (rule disjI1) (rule refl)
qed

lemma config_targets_iff:
  "t \<in> set (config_targets es proj) \<longleftrightarrow> (\<exists>p\<in>set es. t \<in> set (entry_targets p)) \<or> t \<in> set (project_targets proj)"
  by (auto simp: config_targets_def)

lemma PlanImport_ok:
  assumes "PlanImport expand (dir_env dir es proj) blob = Inr p"
  defines "managed \<equiv> managedIDs (map_of es managedImportFile)"
  shows "list_all (\<lambda>t. user_ok t \<and> validateTargetID (tc_ID t) = Inr ()
             \<and> (\<exists>c. tc_SSH t = Some c \<and> ssh_argument_safe c)) (ip_targets p)"
    and "distinct (map tc_ID (ip_targets p))"
    and "\<forall>t\<in>set (ip_targets p). registry_Get (loaded_registry (dir_env dir es proj)) (tc_ID t) = None \<or> tc_ID t \<in> set managed"
    and "set (ip_Removed p) = set managed - tc_ID ` set (ip_targets p)"
proof -
  obtain ents where "blob = Inr ents" and ents: "parse_entries expand 0 [] ents = Inr (ip_targets p)"
    and chk: "List.find (\<lambda>i. registry_Get (loaded_registry (dir_env dir es proj)) i \<noteq> None \<and> \<not> List.member managed i)
      (map tc_ID (ip_targets p)) = None"
    and rem: "ip_Removed p = sort_Strings (filter (\<lambda>i. \<not> List.member (map tc_ID (ip_targets p)) i) managed)"
    using assms(1)
    by (auto simp: PlanImport_def ParseDispatcherTargets_def Let_def managed_def split: sum.splits option.splits)
  from parse_entries_ok [OF ents]
  show "list_all (\<lambda>t. user_ok t \<and> validateTargetID (tc_ID t) = Inr ()
             \<and> (\<exists>c. tc_SSH t = Some c \<and> ssh_argument_safe c)) (ip_targets p)"
    and "distinct (map tc_ID (ip_targets p))" by auto
  show "\<forall>t\<in>set (ip_targets p). registry_Get (loaded_registry (dir_env dir es proj)) (tc_ID t) = None \<or> tc_ID t \<in> set managed"
    using chk by (auto simp: find_None_iff)
  show "set (ip_Removed p) = set managed - tc_ID ` set (ip_targets p)"
    by (auto simp: rem)
qed

lemma managed_user_ok:
  assumes "list_all entry_ok es" and "i \<in> set (managedIDs (map_of es managedImportFile))"
  shows "i \<notin> tc_ID ` set BuiltinTargets"
proof -
  obtain ts where ts: "map_of es managedImportFile = Some (RegularFile (TargetsFile ts))" "i \<in> tc_ID ` set ts"
    using assms(2) unfolding managedIDs_def
    by (auto split: option.splits dir_entry.splits targets_file.splits) (metis imageI)
  then have "entry_ok (managedImportFile, RegularFile (TargetsFile ts))"
    using assms(1) by (auto simp: list_all_iff dest!: map_of_SomeD)
  then have "list_all user_ok ts" by (simp add: yaml_managed file_ok_def)
  with ts(2) show ?thesis unfolding list_all_iff user_ok_def by (metis imageE)
qed

lemma Commit_ok:
  assumes "PlanImport expand (dir_env dir es proj) blob = Inr p"
  shows "\<exists>states. Commit (Inr dir) rnd torn ImportOk p es = (states, Inr (filepath_Join dir managedImportFile))
    \<and> last states = installed_dir rnd p es"
  using check_persist_ok [OF PlanImport_ok(1) [OF assms]]
  by (simp add: Commit_def WriteTargetsFile_def installed_dir_def Let_def)

lemma installed_entries_ok:
  assumes "distinct (map fst es)" and "list_all entry_ok es" and "list_all user_ok (ip_targets p)"
  shows "list_all entry_ok (installed_dir rnd p es)"
  unfolding list_all_iff
proof
  fix q assume "q \<in> set (installed_dir rnd p es)"
  from set_installed_dir [OF assms(1) this]
  consider "q = (managedImportFile, RegularFile (TargetsFile (ip_targets p)))" | "q \<in> set es" by blast
  then show "entry_ok q"
    using assms(2,3) by cases (auto simp: list_all_iff file_ok_def)
qed

lemma installed_origin:
  assumes "distinct (map fst es)" and "u \<in> set (config_targets (installed_dir rnd p es) proj)"
  shows "u \<in> set (ip_targets p) \<or> (u \<in> set (config_targets es proj) \<and> tc_ID u \<in> hand_declared es proj)"
proof -
  from assms(2) consider q where "q \<in> set (installed_dir rnd p es)" "u \<in> set (entry_targets q)" | "u \<in> set (project_targets proj)"
    by (auto simp: config_targets_iff)
  then show ?thesis
  proof cases
    case 1
    from set_installed_dir [OF assms(1) 1(1)] 1(2) show ?thesis
      by (auto simp: config_targets_iff hand_declared_def yaml_managed)
  qed (simp add: config_targets_iff hand_declared_def)
qed

text \<open>
  An import that was planned and committed takes effect exactly as planned, on a configuration
  that loads and in which no other file redeclares a previously imported id: the commit succeeds,
  the new configuration loads, every planned target resolves to the imported definition, and every
  id the plan announced as removed no longer resolves.
\<close>

theorem import_takes_effect:
  assumes plan: "PlanImport expand \<lparr>te_subdir = Inr dir, te_dir = DirEntries es, te_project = proj\<rparr> blob = Inr p"
    and loads: "snd (LoadUserConfig \<lparr>te_subdir = Inr dir, te_dir = DirEntries es, te_project = proj\<rparr> (LoadBuiltins NewRegistry)) = Inr ()"
    and names: "distinct (map fst es)"
    and own: "set (managedIDs (map_of es managedImportFile)) \<inter> hand_declared es proj = {}"
  shows "\<exists>states r. Commit (Inr dir) rnd torn ImportOk p es = (states, Inr (filepath_Join dir managedImportFile))
    \<and> LoadUserConfig \<lparr>te_subdir = Inr dir, te_dir = DirEntries (last states), te_project = proj\<rparr>
        (LoadBuiltins NewRegistry) = (r, Inr ())
    \<and> (\<forall>t\<in>set (ip_targets p). registry_Get r (tc_ID t) = Some t)
    \<and> (\<forall>i\<in>set (ip_Removed p). registry_Get r i = None)"
proof -
  note ok = PlanImport_ok [OF plan]
  define es' where "es' = installed_dir rnd p es"
  define r where "r = fold registry_Add (config_targets es' proj) (LoadBuiltins NewRegistry)"
  have es_ok: "list_all entry_ok es" and proj_ok: "project_ok proj"
    using loads by (simp_all add: LoadUserConfig_ok_iff)
  have es'_ok: "list_all entry_ok es'"
    unfolding es'_def by (rule installed_entries_ok [OF names es_ok]) (use ok(1) in \<open>simp add: list_all_iff\<close>)
  note origin = installed_origin [OF names, of _ rnd p proj, folded es'_def]
  have "registry_Get r (tc_ID t) = Some t" if t: "t \<in> set (ip_targets p)" for t
    unfolding r_def
  proof (rule Get_fold_unique)
    show "t \<in> set (config_targets es' proj)"
      using t managed_in_installed_dir [of p rnd es] yaml_managed by (force simp: config_targets_iff es'_def)
    fix u assume u: "u \<in> set (config_targets es' proj)" "tc_ID u = tc_ID t"
    have "\<not> (u \<in> set (config_targets es proj) \<and> tc_ID t \<in> hand_declared es proj)"
    proof
      assume h: "u \<in> set (config_targets es proj) \<and> tc_ID t \<in> hand_declared es proj"
      then have "registry_Get (loaded_registry (dir_env dir es proj)) (tc_ID t) = None"
        using ok(3) t own by blast
      moreover have "registry_Get (loaded_registry (dir_env dir es proj)) (tc_ID t) \<noteq> None"
        unfolding LoadUserConfig_ok [OF es_ok proj_ok] fst_conv using h u(2) by (intro Get_fold_some) (metis imageI)
      ultimately show False by simp
    qed
    with origin [OF u(1)] u(2) t ok(2) show "u = t" by (auto simp: distinct_map inj_onD)
  qed
  moreover have "registry_Get r i = None" if i: "i \<in> set (ip_Removed p)" for i
  proof -
    have "i \<notin> tc_ID ` set (config_targets es' proj)" using i ok(4) own origin by auto
    moreover have "i \<notin> tc_ID ` set BuiltinTargets" using i ok(4) managed_user_ok [OF es_ok] by auto
    ultimately show ?thesis
      by (simp add: r_def Get_fold_fresh LoadBuiltins_def NewRegistry_def) (simp add: registry_Get_def)
  qed
  moreover have "LoadUserConfig (dir_env dir es' proj) (LoadBuiltins NewRegistry) = (r, Inr ())"
    by (simp add: LoadUserConfig_ok [OF es'_ok proj_ok] r_def)
  ultimately show ?thesis using Commit_ok [OF plan, of rnd torn] es'_def by auto
qed

definition demo_blob :: "import_entry list" where
  "demo_blob = [\<lparr>ie_ID = ''gpu-box'', ie_Kind = ''ssh'',
     ie_SSH = Some \<lparr>ise_Host = ''gpu.example'', ise_User = ''ci'', ise_Port = 0, ise_KeyFile = ''''\<rparr>\<rparr>]"

definition demo_import :: "target_config list" where
  "demo_import = [\<lparr>tc_ID = ''gpu-box'', tc_Kind = TargetKindSSH, tc_Enabled = True,
     tc_Capabilities = DefaultCapabilities TargetKindSSH,
     tc_SSH = Some \<lparr>ssh_Host = ''gpu.example'', ssh_User = ''ci'', ssh_Port = 22, ssh_KeyFile = ''''\<rparr>\<rparr>]"

lemma demo_parse: "ParseDispatcherTargets id (Inr demo_blob) = Inr demo_import"
proof -
  let ?s = "\<lparr>ssh_Host = ''gpu.example'', ssh_User = ''ci'', ssh_Port = 22, ssh_KeyFile = ''''\<rparr>"
  have "ssh_argument_safe ?s"
    by (simp add: ssh_argument_safe_def ascii_letter_or_digit_def)
  then have v: "ValidateSSHTarget (Some ?s) = Inr ()" by (simp add: ValidateSSHTarget_ok)
  have "''gpu-box'' \<notin> set (map tc_ID BuiltinTargets)" unfolding BuiltinTargets_ids by simp
  then have m: "\<not> List.member reservedIDs ''gpu-box''" by (simp add: set_reservedIDs)
  have i: "validateTargetID ''gpu-box'' = Inr ()"
    by (simp add: validateTargetID_def strings_ContainsAny_def strings_HasPrefix_def backslash_def)
  show ?thesis
    using v m i by (simp add: ParseDispatcherTargets_def demo_blob_def demo_import_def parse_entry_def import_ssh_def)
qed

theorem import_takes_effect_witness:
  "\<exists>p states r. PlanImport id \<lparr>te_subdir = Inr ''/s'', te_dir = DirEntries [], te_project = Map.empty\<rparr> (Inr demo_blob) = Inr p
    \<and> Commit (Inr ''/s'') ''7'' (TargetsFile []) ImportOk p [] = (states, Inr (filepath_Join ''/s'' managedImportFile))
    \<and> LoadUserConfig \<lparr>te_subdir = Inr ''/s'', te_dir = DirEntries (last states), te_project = Map.empty\<rparr>
        (LoadBuiltins NewRegistry) = (r, Inr ())
    \<and> registry_Get r ''gpu-box'' = Some (hd demo_import)"
proof -
  let ?env = "\<lparr>te_subdir = Inr ''/s'', te_dir = DirEntries [], te_project = Map.empty\<rparr>"
  have l: "LoadUserConfig ?env (LoadBuiltins NewRegistry) = (LoadBuiltins NewRegistry, Inr ())"
    by (simp add: LoadUserConfig_def LoadFromDir_def read_dir_def sort_Slice_def LoadProjectConfig_def)
  have "''gpu-box'' \<notin> set (map tc_ID BuiltinTargets)" unfolding BuiltinTargets_ids by simp
  then have "''gpu-box'' \<notin> tc_ID ` set BuiltinTargets" by simp
  then have "registry_Get (LoadBuiltins NewRegistry) ''gpu-box'' = None"
    using Get_fold_fresh [of "''gpu-box''" BuiltinTargets "[]"] by (simp add: LoadBuiltins_def NewRegistry_def registry_Get_def)
  then have plan: "\<exists>p. PlanImport id ?env (Inr demo_blob) = Inr p \<and> ip_targets p = demo_import"
    by (simp add: PlanImport_def demo_parse l Let_def) (simp add: demo_import_def)
  then obtain p where p: "PlanImport id ?env (Inr demo_blob) = Inr p" "ip_targets p = demo_import" by blast
  have "snd (LoadUserConfig ?env (LoadBuiltins NewRegistry)) = Inr ()" by (simp add: l)
  from import_takes_effect [OF p(1) this, of "''7''" "TargetsFile []"] p(2)
  show ?thesis using p(1) by (simp add: managedIDs_def) (force simp: demo_import_def)
qed

end
