(* ===== verification/Executor_Frame.thy ===== *)
theory Executor_Frame
  imports Executor_Safety
begin

text \<open>
  What an execution leaves alone, proved once for any relation between the states before and after:
  if the relation is transitive, does not look beyond the adapter's world, the calls that create and
  destroy resources and the plan of the run, and is kept by the adapter's own calls, then the whole
  executor keeps it. The plan of the run is one such relation; the machines of a cloud account are
  another.
\<close>

definition keeps :: "('w exec_state \<Rightarrow> 'w exec_state \<Rightarrow> bool) \<Rightarrow> ('w, 'a) exec \<Rightarrow> bool" where
  "keeps R m \<longleftrightarrow> (\<forall>s. R s (snd (m s)))"

named_theorems keeps_intros \<open>operations of the executor that keep a relation\<close>

lemma keepsI: "(\<And>s. R s (snd (m s))) \<Longrightarrow> keeps R m"
  by (simp add: keeps_def)

lemma keepsD: "keeps R m \<Longrightarrow> m s = (oc, s') \<Longrightarrow> R s s'"
  by (auto simp: keeps_def dest!: spec [of _ s])

lemma keeps_snd: "keeps R m \<Longrightarrow> R s (snd (m s))"
  by (simp add: keeps_def)

lemma ebind_assoc: "ebind (ebind m f) g = ebind m (\<lambda>a. ebind (f a) g)"
  by (rule ext) (auto simp: ebind_def split: prod.splits outcome.splits)

text \<open>The adapter's world after a call that handles no resource.\<close>

definition world_call :: "('w \<Rightarrow> 'a call \<times> 'w) \<Rightarrow> 'w exec_state \<Rightarrow> 'w exec_state" where
  "world_call f s = s\<lparr>x_world := snd (f (x_world s))\<rparr>"

text \<open>The state after a call that does, with the event the executor records of it.\<close>

definition executed_state :: "run_handle call \<times> 'w \<Rightarrow> 'w exec_state \<Rightarrow> 'w exec_state" where
  "executed_state r s =
     (let s' = s\<lparr>x_world := snd r\<rparr>
      in case fst r of Ret h \<Rightarrow> log_event_x (EvExecuted (stamped (x_run s) h)) s' | Err _ \<Rightarrow> log_event_x EvExecuteFailed s'
         | Panics _ \<Rightarrow> log_event_x EvExecutePanicked s')"

definition cleaned_state :: "(bool \<Rightarrow> exec_event) \<Rightarrow> cleanup_result option call \<times> 'w \<Rightarrow> 'w exec_state \<Rightarrow> 'w exec_state" where
  "cleaned_state ev r s =
     (let s' = s\<lparr>x_world := snd r\<rparr>
      in case fst r of Panics _ \<Rightarrow> s' | Err _ \<Rightarrow> log_event_x (ev False) s'
         | Ret c \<Rightarrow> log_event_x (ev (case c of Some cl \<Rightarrow> cl_Success cl | None \<Rightarrow> False)) s')"

locale exec_frame =
  fixes A :: "'w adapter" and R :: "'w exec_state \<Rightarrow> 'w exec_state \<Rightarrow> bool"
  assumes R_trans: "R s t \<Longrightarrow> R t u \<Longrightarrow> R s u"
    and R_same: "x_world s' = x_world s \<Longrightarrow> resources s' = resources s \<Longrightarrow> r_Plan (x_run s') = r_Plan (x_run s) \<Longrightarrow> R s s'"
    and R_Validate: "R s (world_call (ad_Validate A c spec) s)"
    and R_Prepare: "R s (world_call (ad_Prepare A c p) s)"
    and R_Status: "R s (world_call (ad_Status A c h) s)"
    and R_Logs: "R s (world_call (ad_Logs A c h) s)"
    and R_Artifacts: "R s (world_call (ad_Artifacts A c h) s)"
    and R_Terminate: "R s (world_call (ad_Terminate A h) s)"
    and R_Extend: "ad_ExtendWatchdog A = Some ext \<Longrightarrow> R s (world_call (ext c h ttl) s)"
    and R_Execute: "R s (executed_state (ad_Execute A c p (x_world s)) s)"
    and R_Cleanup: "R s (cleaned_state (EvCleanup h) (ad_Cleanup A h (x_world s)) s)"
    and R_RetryCleanup: "R s (cleaned_state (\<lambda>_. EvRetryCleanup h) (ad_Cleanup A h (x_world s)) s)"
begin

lemma R_refl: "R s s"
  by (rule R_same) simp_all

lemmas R_then_same = R_trans [OF _ R_same]

subsection \<open>The background\<close>

lemma R_saveRun: "R s (saveRun s)"
  by (rule R_same) (simp_all add: saveRun_def resources_def)

lemma R_sampler_terminate: "R s (sampler_terminate A tgt s)"
proof (cases tgt)
  case CancelExec
  then show ?thesis by (simp add: sampler_terminate_def) (rule R_same, simp_all add: resources_def)
next
  case (TerminateHandle h)
  note c = R_Terminate [of s h]
  show ?thesis
    by (cases "ad_Terminate A h (x_world s)"; cases "fst (ad_Terminate A h (x_world s))")
      (auto simp: sampler_terminate_def TerminateHandle intro!: R_then_same [OF c]
        simp: world_call_def log_event_x_def resources_def)
qed

lemma R_sampler_tick: "R s (sampler_tick A tgt s)"
proof (cases "r_Plan (x_run s)")
  case None
  then show ?thesis by (simp add: sampler_tick_def) (rule R_same, simp_all add: resources_def)
next
  case (Some p)
  define live where "live = ComputeLiveCost (x_now s) (x_run s)"
  define s1 where "s1 = saveRun (on_run (setCost live) s)"
  have r1: "R s s1" unfolding s1_def by (rule R_same) (simp_all add: saveRun_def on_run_def setCost_def resources_def)
  obtain r' res where t: "Transition RunStateBudgetExceeded (x_now s1) (x_run s1) = (r', res)" by fastforce
  have p: "r_Plan r' = r_Plan (x_run s1)" using t by (auto simp: Transition_def Let_def split: if_splits)
  have i: "R s (s1\<lparr>x_sampler := None\<rparr>)" by (rule R_then_same [OF r1]) (simp_all add: resources_def)
  have "R s (s1\<lparr>x_run := setCost live r'\<rparr>)"
    by (rule R_then_same [OF r1]) (simp_all add: p setCost_def resources_def)
  from R_then_same [OF R_trans [OF this R_sampler_terminate]]
  have "R s (sampler_terminate A tgt (s1\<lparr>x_run := setCost live r'\<rparr>)\<lparr>x_sampler := None\<rparr>)" by (simp add: resources_def)
  with r1 i show ?thesis
    unfolding sampler_tick_def Some Let_def option.case live_def [symmetric] s1_def [symmetric] t
    by (cases res) simp_all
qed

lemma R_watchdog_tick: "R s (watchdog_tick A h s)"
proof (cases "ad_ExtendWatchdog A")
  case None
  then show ?thesis by (auto simp: watchdog_tick_def resources_def intro!: R_refl R_same)
next
  case (Some ext)
  let ?f = "ext (x_ctx_done s) h (effectiveWatchdogTTL (x_run s))"
  note c = R_Extend [OF Some, of s "x_ctx_done s" h "effectiveWatchdogTTL (x_run s)"]
  obtain r w' where e: "?f (x_world s) = (r, w')" by fastforce
  have stop: "R s (s\<lparr>x_watchdog := None\<rparr>)" by (rule R_same) (simp_all add: resources_def)
  have "R s s'" if "x_world s' = w'" "resources s' = resources s" "r_Plan (x_run s') = r_Plan (x_run s)" for s'
    by (rule R_then_same [OF c]) (use that in \<open>simp_all add: world_call_def e resources_def\<close>)
  then show ?thesis
    using stop by (cases r) (simp_all add: watchdog_tick_def Some e resources_def log_event_x_def saveRun_def on_run_def)
qed

lemma R_bg_step: "R s (bg_step A ev s)"
  by (cases ev) (auto simp: resources_def split: option.split intro!: R_refl R_same R_sampler_tick R_watchdog_tick)

lemma R_background: "R s (run_background A s)"
proof -
  have f: "R t (fold (bg_step A) evs t)" for evs t
    by (induction evs arbitrary: t) (auto intro: R_refl R_trans R_bg_step)
  have "R s (s\<lparr>x_sched := rest\<rparr>)" for rest by (rule R_same) (simp_all add: resources_def)
  then show ?thesis by (auto simp: run_background_def split: list.split intro: R_refl R_trans f)
qed

subsection \<open>Sequencing\<close>

lemma keeps_basic [keeps_intros]: "keeps R (ret a)" "keeps R (gets f)" "keeps R (panic e)"
  by (simp_all add: keeps_def ret_def gets_def panic_def R_refl)

lemma keeps_ebind [keeps_intros]:
  assumes "keeps R m" and "\<And>a. keeps R (k a)"
  shows "keeps R (ebind m k)"
proof (rule keepsI)
  show "R s (snd (ebind m k s))" for s
  proof (cases "m s")
    case (Pair oc s1)
    then show ?thesis
      using keepsD [OF assms(1) Pair] R_trans [OF _ keeps_snd [OF assms(2)]] by (cases oc) (simp_all add: ebind_def)
  qed
qed

lemma keeps_upd:
  "(\<And>s. x_world (f s) = x_world s \<and> resources (f s) = resources s \<and> r_Plan (x_run (f s)) = r_Plan (x_run s)) \<Longrightarrow> keeps R (upd f)"
  by (simp add: keeps_def upd_def R_same)

lemma keeps_with_plan [keeps_intros]: "(\<And>p. keeps R (k p)) \<Longrightarrow> keeps R (with_plan k)"
  by (simp add: keeps_def with_plan_def R_refl split: option.splits)

lemma keeps_then:
  assumes "R s s1" and "keeps R d"
  shows "R s (snd (ebind d (\<lambda>_. ret x) s1))" and "R s (snd (ebind d (\<lambda>_. panic z) s1))"
  by (rule R_trans [OF assms(1)], rule keeps_snd, intro keeps_intros assms)+

lemma keeps_finally [keeps_intros]:
  assumes "keeps R m" and "keeps R d"
  shows "keeps R (finally_do m d)"
proof (rule keepsI)
  show "R s (snd (finally_do m d s))" for s
  proof (cases "m s")
    case (Pair oc s1)
    note k = keepsD [OF assms(1) Pair]
    then show ?thesis using keeps_then [OF k assms(2)] Pair by (cases oc) (simp_all add: finally_do_def)
  qed
qed

lemma keeps_recover [keeps_intros]:
  assumes "keeps R m" and "\<And>e. keeps R (h e)"
  shows "keeps R (recover_with m h)"
proof (rule keepsI)
  show "R s (snd (recover_with m h s))" for s
  proof (cases "m s")
    case (Pair oc s1)
    then show ?thesis
      using Pair keepsD [OF assms(1) Pair] R_trans [OF _ keeps_snd [OF assms(2)]]
      by (cases oc) (simp_all add: recover_with_def)
  qed
qed

lemma keeps_etry [keeps_intros]: "keeps R m \<Longrightarrow> (\<And>a. keeps R (k a)) \<Longrightarrow> keeps R (etry m k)"
  unfolding etry_def by (intro keeps_intros) (auto split: sum.split intro!: keeps_intros)

subsection \<open>Operations\<close>

lemma keeps_interleave [keeps_intros]: "keeps R (interleave A)"
  by (simp add: keeps_def interleave_def Let_def R_background)

lemma keeps_run_op: "(\<And>now r. r_Plan (f now r) = r_Plan r) \<Longrightarrow> keeps R (run_op A f)"
  unfolding run_op_def by (intro keeps_intros keeps_upd) (simp add: on_run_def resources_def)

lemma keeps_transition [keeps_intros]: "keeps R (transition_x A to)"
  unfolding transition_x_def
  by (intro keeps_intros keepsI) (auto simp: Transition_def Let_def resources_def split: prod.splits if_splits intro!: R_same)

lemma keeps_save [keeps_intros]: "keeps R (save_x A)"
  unfolding save_x_def by (intro keeps_intros keeps_upd) (simp add: saveRun_def resources_def)

lemma keeps_read_run [keeps_intros]: "keeps R (read_run A f)"
  unfolding read_run_def by (intro keeps_intros)

text \<open>A call whose effect on the world keeps the relation.\<close>

lemma keeps_adapter_call:
  assumes "\<And>s. R s (world_call (f s) s)"
  shows "keeps R (adapter_call A f)"
proof -
  have "snd (call_x f s) = world_call (f s) s" for s
    by (simp add: call_x_def world_call_def split: prod.split call.split)
  with assms show ?thesis unfolding adapter_call_def by (intro keeps_intros keepsI) simp
qed

lemma keeps_calls [keeps_intros]:
  "keeps R (adapter_call A (\<lambda>s. ad_Validate A (cf s) spec))" "keeps R (adapter_call A (\<lambda>s. ad_Prepare A (cf s) p))"
  "keeps R (adapter_call A (\<lambda>s. ad_Logs A (cf s) h))" "keeps R (adapter_call A (\<lambda>s. ad_Artifacts A (cf s) h))"
  "keeps R (adapter_call A (\<lambda>_. ad_Terminate A h))"
  by (rule keeps_adapter_call, rule R_Validate R_Prepare R_Logs R_Artifacts R_Terminate)+

lemma keeps_extend_call: "ad_ExtendWatchdog A = Some ext \<Longrightarrow> keeps R (adapter_call A (\<lambda>s. ext (cf s) h (tf s)))"
  by (rule keeps_adapter_call) (rule R_Extend)

lemma keeps_log_quiet: "\<not> resource_event ev \<Longrightarrow> keeps R (upd (log_event_x ev))"
  by (rule keeps_upd) (simp add: log_event_x_def resources_def)

lemma keeps_run_fields [keeps_intros]:
  "keeps R (upd (on_run (\<lambda>r. r\<lparr>r_Handle := ho\<rparr>)))" "keeps R (upd (on_run (\<lambda>r. r\<lparr>r_Artifacts := xs\<rparr>)))"
  "keeps R (upd (on_run (\<lambda>r. r\<lparr>r_Approval := ap\<rparr>)))" "keeps R (set_handle h)"
  unfolding set_handle_def by (rule keeps_upd, simp add: on_run_def resources_def)+

lemma keeps_run_ops [keeps_intros]:
  "keeps R (run_op A (\<lambda>_. setCleanupError m))" "keeps R (run_op A (\<lambda>now. SetError st m now))"
  "keeps R (run_op A (\<lambda>_. setFailure f))" "keeps R (run_op A (\<lambda>now r. r\<lparr>r_LastHeartbeat := now\<rparr>))"
  "keeps R (run_op A (\<lambda>_ r. r\<lparr>r_Lifecycle := lc\<rparr>))" "keeps R (run_op A (\<lambda>_. beginRetry))"
  "keeps R (run_op A FinalizeCost)" "keeps R (persist_handle_x A)"
  unfolding persist_handle_x_def
  by (rule keeps_run_op, simp add: setCleanupError_def SetError_def setFailure_def beginRetry_def FinalizeCost_def
      setCost_def Let_def split: option.splits)+

lemma keeps_supervision_stop [keeps_intros]: "keeps R (supervision_stop A)"
  unfolding supervision_stop_def by (intro keeps_intros keeps_upd) (simp add: resources_def)

subsection \<open>Calls that create and destroy resources\<close>

lemma keeps_call_then: "keeps R (ebind (call_x f) k) \<Longrightarrow> keeps R (ebind (adapter_call A f) k)"
  unfolding adapter_call_def ebind_assoc by (rule keeps_ebind [OF keeps_interleave])

lemma on_panic_adapter_call:
  "on_panic ev (adapter_call A f) = ebind (interleave A) (\<lambda>_. on_panic ev (call_x f))"
  by (rule ext) (auto simp: on_panic_def adapter_call_def ebind_def interleave_def Let_def)

lemma keeps_panic_call_then:
  "keeps R (ebind (on_panic ev (call_x f)) k) \<Longrightarrow> keeps R (ebind (on_panic ev (adapter_call A f)) k)"
  unfolding on_panic_adapter_call ebind_assoc by (rule keeps_ebind [OF keeps_interleave])

lemma keeps_execute_call [keeps_intros]: "keeps R (execute_call A c)"
  unfolding execute_call_def
proof (intro keeps_with_plan keeps_panic_call_then keepsI)
  fix p s
  let ?log = "\<lambda>res s. log_event_x (case res of Inl _ \<Rightarrow> EvExecuteFailed | Inr h \<Rightarrow> EvExecuted (stamped (x_run s) h)) s"
  note e = R_Execute [of s "c s" p]
  show "R s (snd (ebind (on_panic EvExecutePanicked (call_x (\<lambda>s. ad_Execute A (c s) p))) (\<lambda>res. ebind (upd (?log res)) (\<lambda>_. ret res)) s))"
    by (cases "ad_Execute A (c s) p (x_world s)"; cases "fst (ad_Execute A (c s) p (x_world s))")
      (use e in \<open>simp_all add: executed_state_def Let_def ebind_def on_panic_def call_x_def upd_def ret_def\<close>)
qed

lemma keeps_cleanup_call [keeps_intros]: "keeps R (cleanup_call A h)"
  unfolding cleanup_call_def Let_def
proof (intro keeps_panic_call_then keepsI)
  fix s
  note e = R_Cleanup [of s h]
  have p: "R s (log_event_x (EvCleanupPanicked h) (s\<lparr>x_world := w'\<rparr>))"
    if "ad_Cleanup A h (x_world s) = (Panics x, w')" for x w'
    by (rule R_then_same [OF e]) (simp_all add: that cleaned_state_def Let_def resources_log, simp add: resources_def log_event_x_def)
  let ?ok = "\<lambda>res. case res of Inr (Some cl) \<Rightarrow> cl_Success cl | _ \<Rightarrow> False"
  show "R s (snd (ebind (on_panic (EvCleanupPanicked h) (call_x (\<lambda>_. ad_Cleanup A h)))
      (\<lambda>res. ebind (upd (log_event_x (EvCleanup h (?ok res)))) (\<lambda>_. ret (?ok res))) s))"
    by (cases "ad_Cleanup A h (x_world s)"; cases "fst (ad_Cleanup A h (x_world s))")
      (use e in \<open>simp_all add: p cleaned_state_def Let_def ebind_def on_panic_def call_x_def upd_def ret_def\<close>)
qed

lemma keeps_retry_cleanup [keeps_intros]: "keeps R (retry_cleanup A)"
proof -
  have "keeps R (ebind (call_x (\<lambda>_. ad_Cleanup A h)) (\<lambda>_. upd (log_event_x (EvRetryCleanup h))))" for h
  proof (rule keepsI)
    fix s
    note e = R_RetryCleanup [of s h]
    show "R s (snd (ebind (call_x (\<lambda>_. ad_Cleanup A h)) (\<lambda>_. upd (log_event_x (EvRetryCleanup h))) s))"
      by (cases "ad_Cleanup A h (x_world s)"; cases "fst (ad_Cleanup A h (x_world s))")
        (use e in \<open>simp_all add: cleaned_state_def Let_def ebind_def call_x_def upd_def ret_def\<close>)
  qed
  from keeps_ebind [OF keeps_call_then [OF this] keeps_run_fields(1)]
  have "keeps R (ebind (adapter_call A (\<lambda>_. ad_Cleanup A h)) (\<lambda>_. ebind (upd (log_event_x (EvRetryCleanup h))) (\<lambda>_.
      upd (on_run (\<lambda>r. r\<lparr>r_Handle := None\<rparr>)))))" for h
    by (simp only: ebind_assoc)
  then show ?thesis
    unfolding retry_cleanup_def by (intro keeps_intros) (auto split: option.split intro!: keeps_intros)
qed

subsection \<open>The executor\<close>

lemma keeps_cleanup_tries [keeps_intros]: "keeps R (cleanup_tries A h n)"
  by (induction n) (auto intro!: keeps_intros)

lemma keeps_attemptCleanup [keeps_intros]: "keeps R (attemptCleanup A)"
  unfolding attemptCleanup_def by (intro keeps_intros) (auto split: option.split intro!: keeps_intros)

lemma keeps_collect_tries [keeps_intros]: "keeps R (collect_tries A h n)"
  by (induction n) (auto split: sum.split intro!: keeps_intros)

lemma keeps_collectArtifacts [keeps_intros]: "keeps R (collectArtifacts A ho)"
  unfolding collectArtifacts_def by (auto split: option.split sum.split intro!: keeps_intros)

lemma keeps_select_wake [keeps_intros]: "keeps R (select_wake dl)"
  by (rule keepsI, rule R_same) (auto simp: select_wake_def Let_def resources_def split: list.split bool.split)

lemma keeps_status_call [keeps_intros]: "keeps R (status_call A h)"
  unfolding status_call_def
proof (intro keeps_intros keepsI)
  fix s
  show "R s (snd (let (res, w') = ad_Status A (x_ctx_done s) h (x_world s); s' = log_event_x (EvStatus res) (s\<lparr>x_world := w'\<rparr>)
      in (case res of Ret st \<Rightarrow> (Val (Inr st), s') | Err e \<Rightarrow> (Val (Inl e), s') | Panics e \<Rightarrow> (Panic e, s'))))"
    by (rule R_then_same [OF R_Status [of s "x_ctx_done s" h]])
      (simp_all add: Let_def world_call_def log_event_x_def resources_def split: prod.split call.split)
qed

lemma keeps_terminate_call [keeps_intros]: "keeps R (terminate_call A h)"
  unfolding terminate_call_def by (intro keeps_intros keeps_log_quiet) simp

lemma keeps_wait_loop [keeps_intros]: "keeps R (wait_loop A h d dl n errs)"
proof (induction n arbitrary: errs)
  case 0
  then show ?case by (simp add: keeps_def R_refl)
next
  case (Suc n)
  then show ?case
    unfolding wait_loop.simps Let_def by (intro keeps_intros) (auto split: sum.split wake.split intro!: keeps_intros)
qed

lemma keeps_waitForTerminal [keeps_intros]: "keeps R (waitForTerminal A fuel h d)"
  unfolding waitForTerminal_def by (intro keeps_intros)

lemma keeps_startCostSampler [keeps_intros]: "keeps R (startCostSampler tgt)"
  unfolding startCostSampler_def Let_def by (intro keeps_intros) (auto intro!: keeps_intros keeps_upd simp: resources_def)

lemma keeps_superviseHandle [keeps_intros]: "keeps R (superviseHandle A h)"
proof -
  have "keeps R (startEphemeralWatchdog A h)"
    unfolding startEphemeralWatchdog_def
    by (auto split: option.split sum.split intro!: keeps_intros keeps_extend_call keeps_log_quiet)
      (auto intro!: keeps_upd simp: resources_def)
  then show ?thesis unfolding superviseHandle_def by (intro keeps_intros)
qed

lemma keeps_report_failure [keeps_intros]: "keeps R (report_failure A h)"
  unfolding report_failure_def by (auto split: option.split intro!: keeps_intros)

lemma keeps_retryTransientFailure [keeps_intros]: "keeps R (retryTransientFailure A fuel)"
  unfolding retryTransientFailure_def by (intro keeps_intros) (auto split: sum.split intro!: keeps_intros)

lemma keeps_fail_execution [keeps_intros]: "keeps R (fail_execution A ho err msg)"
  unfolding fail_execution_def by (intro keeps_intros)

lemma keeps_ephemeral_success [keeps_intros]: "keeps R (ephemeral_success A ho)"
  unfolding ephemeral_success_def by (intro keeps_intros) (auto split: sum.split intro!: keeps_intros)

lemma keeps_ephemeral_body [keeps_intros]: "keeps R (ephemeral_body A lw fuel h)"
  unfolding ephemeral_body_def by (intro keeps_intros) (auto split: sum.split intro!: keeps_intros)

lemma keeps_deferred_cleanup [keeps_intros]:
  assumes "keeps R m"
  shows "keeps R (deferred_cleanup A m)"
proof (rule keepsI)
  have c: "keeps R (ebind (attemptCleanup A) (\<lambda>_. save_x A))" by (intro keeps_intros)
  show "R s (snd (deferred_cleanup A m s))" for s
  proof (cases "m s")
    case (Pair oc s1)
    note k = keepsD [OF assms Pair]
    show ?thesis
      using k keeps_then [OF k c] Pair by (cases oc) (auto simp: deferred_cleanup_def Let_def split: prod.splits)
  qed
qed

lemma keeps_executeEphemeral [keeps_intros]: "keeps R (executeEphemeral A lw fuel h)"
  unfolding executeEphemeral_def by (intro keeps_intros)

lemma keeps_startLongRunning [keeps_intros]: "keeps R (startLongRunning A)"
  unfolding startLongRunning_def by (auto split: option.split intro!: keeps_intros keeps_extend_call)

lemma keeps_fail_with [keeps_intros]: "keeps R (fail_with A st err msg)"
  unfolding fail_with_def by (intro keeps_intros)

lemma keeps_gate_wait [keeps_intros]: "keeps R (gate_wait ae g)"
  by (rule keepsI, rule R_same) (simp_all add: gate_wait_def Let_def resources_def)

lemma keeps_await_approval [keeps_intros]: "keeps R (await_approval A ae)"
  unfolding await_approval_def by (intro keeps_intros) (auto split: sum.split option.split intro!: keeps_intros)

lemma keeps_execute_prepare [keeps_intros]: "keeps R (execute_prepare A ae)"
  unfolding execute_prepare_def by (intro keeps_intros) (auto split: sum.split intro!: keeps_intros)

lemma keeps_execute_body [keeps_intros]: "keeps R (execute_body A ae lw fuel)"
  unfolding execute_body_def by (intro keeps_intros) (auto split: sum.split intro!: keeps_intros keeps_upd simp: resources_def)

lemma keeps_Execute: "keeps R (Execute A ae lw fuel)"
  unfolding Execute_def Let_def by (intro keeps_intros)

end

end
