(* ===== verification/Catalog.thy ===== *)
theory Catalog
  imports Float64 Adapter_Iface
begin

text \<open>
  The instance catalog (\<^verbatim>\<open>internal/cloudvm/catalog.go\<close>, \<^verbatim>\<open>catalog_data.go\<close>), its live version with the
  specifications and GPU rows filled in from the built-in table (\<^verbatim>\<open>pricing.go\<close>), the price cache
  on disk (\<^verbatim>\<open>pricing_cache.go\<close>) and the repricing of resources (\<^verbatim>\<open>reprice.go\<close>). The fetchers of the
  providers are parameters: what each returns.
\<close>

section \<open>Instances and requirements\<close>

datatype provider_id =
    ProviderHetzner | ProviderAWS | ProviderGCP | ProviderAzure | ProviderLima | ProviderKubernetes
  | ProviderOCI | ProviderLambda | ProviderOther string

fun provider_string :: "provider_id \<Rightarrow> string" where
  "provider_string ProviderHetzner = ''hetzner''"
| "provider_string ProviderAWS = ''aws''"
| "provider_string ProviderGCP = ''gcp''"
| "provider_string ProviderAzure = ''azure''"
| "provider_string ProviderLima = ''lima''"
| "provider_string ProviderKubernetes = ''kubernetes''"
| "provider_string ProviderOCI = ''oci''"
| "provider_string ProviderLambda = ''lambda''"
| "provider_string (ProviderOther s) = s"

record instance_type =
  it_Name :: string
  it_Provider :: provider_id
  it_VCPUs :: int
  it_MemoryGB :: f64
  it_GPUCount :: int
  it_GPUModel :: string
  it_PricePerHour :: f64
  it_SpotPricePerHour :: f64
  it_Arch :: string
  it_Confidential :: bool

record instance_requirements =
  ir_MinVCPUs :: int
  ir_MinMemoryGB :: f64
  ir_GPUCount :: int
  ir_GPUModel :: string
  ir_Arch :: string
  ir_Confidential :: bool

type_synonym catalog = "instance_type list"

text \<open>A row of the built-in table; it never carries a spot price.\<close>

definition sku ::
  "string \<Rightarrow> provider_id \<Rightarrow> int \<Rightarrow> rat \<Rightarrow> int \<Rightarrow> string \<Rightarrow> rat \<Rightarrow> string \<Rightarrow> bool \<Rightarrow> instance_type" where
  "sku name p cpus mem gpus model price arch conf =
     \<lparr>it_Name = name, it_Provider = p, it_VCPUs = cpus, it_MemoryGB = lit mem, it_GPUCount = gpus,
      it_GPUModel = model, it_PricePerHour = lit price, it_SpotPricePerHour = 0, it_Arch = arch,
      it_Confidential = conf\<rparr>"

section \<open>The built-in table\<close>

definition instances_Hetzner :: "instance_type list" where
  "instances_Hetzner =
     [sku ''cx22'' ProviderHetzner 2 4 0 '''' 0.006 ''x86_64'' False,
      sku ''cx32'' ProviderHetzner 4 8 0 '''' 0.011 ''x86_64'' False,
      sku ''cx42'' ProviderHetzner 8 16 0 '''' 0.021 ''x86_64'' False,
      sku ''cpx21'' ProviderHetzner 3 4 0 '''' 0.008 ''x86_64'' False,
      sku ''cpx31'' ProviderHetzner 4 8 0 '''' 0.015 ''x86_64'' False,
      sku ''cpx41'' ProviderHetzner 8 16 0 '''' 0.029 ''x86_64'' False,
      sku ''cpx62'' ProviderHetzner 16 32 0 '''' 0.2452 ''x86_64'' False,
      sku ''cax11'' ProviderHetzner 2 4 0 '''' 0.006 ''arm64'' False,
      sku ''cax21'' ProviderHetzner 4 8 0 '''' 0.008 ''arm64'' False,
      sku ''cax31'' ProviderHetzner 8 16 0 '''' 0.015 ''arm64'' False,
      sku ''cax41'' ProviderHetzner 16 32 0 '''' 0.029 ''arm64'' False]"

definition instances_AWS :: "instance_type list" where
  "instances_AWS =
     [sku ''t3.micro'' ProviderAWS 2 1 0 '''' 0.0104 ''x86_64'' False,
      sku ''t3.small'' ProviderAWS 2 2 0 '''' 0.0208 ''x86_64'' False,
      sku ''t3.medium'' ProviderAWS 2 4 0 '''' 0.0416 ''x86_64'' False,
      sku ''t3.large'' ProviderAWS 2 8 0 '''' 0.0832 ''x86_64'' False,
      sku ''m5.large'' ProviderAWS 2 8 0 '''' 0.096 ''x86_64'' False,
      sku ''m5.xlarge'' ProviderAWS 4 16 0 '''' 0.192 ''x86_64'' False,
      sku ''m5.2xlarge'' ProviderAWS 8 32 0 '''' 0.384 ''x86_64'' False,
      sku ''c5.large'' ProviderAWS 2 4 0 '''' 0.085 ''x86_64'' False,
      sku ''c5.xlarge'' ProviderAWS 4 8 0 '''' 0.170 ''x86_64'' False,
      sku ''c5.2xlarge'' ProviderAWS 8 16 0 '''' 0.340 ''x86_64'' False,
      sku ''m6a.large'' ProviderAWS 2 8 0 '''' 0.0864 ''x86_64'' True,
      sku ''g4dn.xlarge'' ProviderAWS 4 16 1 ''t4'' 0.526 ''x86_64'' False,
      sku ''g4dn.2xlarge'' ProviderAWS 8 32 1 ''t4'' 0.752 ''x86_64'' False,
      sku ''p3.2xlarge'' ProviderAWS 8 61 1 ''v100'' 3.06 ''x86_64'' False,
      sku ''g5.xlarge'' ProviderAWS 4 16 1 ''a10g'' 1.006 ''x86_64'' False,
      sku ''p4d.24xlarge'' ProviderAWS 96 1152 8 ''a100'' 32.7726 ''x86_64'' False]"

definition instances_GCP :: "instance_type list" where
  "instances_GCP =
     [sku ''e2-micro'' ProviderGCP 2 1 0 '''' 0.008 ''x86_64'' False,
      sku ''e2-small'' ProviderGCP 2 2 0 '''' 0.017 ''x86_64'' False,
      sku ''e2-medium'' ProviderGCP 2 4 0 '''' 0.034 ''x86_64'' False,
      sku ''e2-standard-4'' ProviderGCP 4 16 0 '''' 0.134 ''x86_64'' False,
      sku ''e2-standard-8'' ProviderGCP 8 32 0 '''' 0.268 ''x86_64'' False,
      sku ''n2-standard-2'' ProviderGCP 2 8 0 '''' 0.097 ''x86_64'' False,
      sku ''n2d-standard-2'' ProviderGCP 2 8 0 '''' 0.085 ''x86_64'' True,
      sku ''n2-standard-4'' ProviderGCP 4 16 0 '''' 0.194 ''x86_64'' False,
      sku ''n2-standard-8'' ProviderGCP 8 32 0 '''' 0.388 ''x86_64'' False,
      sku ''c2-standard-4'' ProviderGCP 4 16 0 '''' 0.210 ''x86_64'' False,
      sku ''t2a-standard-4'' ProviderGCP 4 16 0 '''' 0.115 ''arm64'' False,
      sku ''g2-standard-4'' ProviderGCP 4 16 1 ''l4'' 0.700 ''x86_64'' False,
      sku ''a2-highgpu-1g'' ProviderGCP 12 85 1 ''a100'' 3.670 ''x86_64'' False,
      sku ''a3-highgpu-1g'' ProviderGCP 26 234 1 ''h100'' 11.06 ''x86_64'' False]"

definition instances_Azure :: "instance_type list" where
  "instances_Azure =
     [sku ''Standard_B2s'' ProviderAzure 2 4 0 '''' 0.042 ''x86_64'' False,
      sku ''Standard_B4ms'' ProviderAzure 4 16 0 '''' 0.166 ''x86_64'' False,
      sku ''Standard_D2s_v5'' ProviderAzure 2 8 0 '''' 0.096 ''x86_64'' False,
      sku ''Standard_D4s_v5'' ProviderAzure 4 16 0 '''' 0.192 ''x86_64'' False,
      sku ''Standard_D8s_v5'' ProviderAzure 8 32 0 '''' 0.384 ''x86_64'' False,
      sku ''Standard_F4s_v2'' ProviderAzure 4 8 0 '''' 0.170 ''x86_64'' False,
      sku ''Standard_F8s_v2'' ProviderAzure 8 16 0 '''' 0.340 ''x86_64'' False,
      sku ''Standard_DC2ads_v5'' ProviderAzure 2 8 0 '''' 0.096 ''x86_64'' True,
      sku ''Standard_NC4as_T4_v3'' ProviderAzure 4 28 1 ''t4'' 0.526 ''x86_64'' False,
      sku ''Standard_NC24ads_A100_v4'' ProviderAzure 24 220 1 ''a100'' 3.673 ''x86_64'' False]"

definition instances_OCI :: "instance_type list" where
  "instances_OCI =
     [sku ''VM.Standard.A1.Flex'' ProviderOCI 2 12 0 '''' 0.012 ''arm64'' False,
      sku ''VM.Standard.E4.Flex'' ProviderOCI 2 16 0 '''' 0.074 ''x86_64'' False,
      sku ''VM.Standard.E5.Flex'' ProviderOCI 4 32 0 '''' 0.148 ''x86_64'' False]"

definition defaultInstances :: "instance_type list" where
  "defaultInstances = instances_Hetzner @ instances_AWS @ instances_GCP @ instances_Azure @ instances_OCI"

definition NewCatalog :: catalog where
  "NewCatalog = defaultInstances"

section \<open>Lookup\<close>

text \<open>The conditions under which \<^verbatim>\<open>FindCheapest\<close> keeps a row, in the order of its \<^verbatim>\<open>continue\<close>s.\<close>

definition instance_matches :: "instance_requirements \<Rightarrow> instance_type \<Rightarrow> bool" where
  "instance_matches req i =
     (if 0 < ir_MinVCPUs req \<and> it_VCPUs i = 0 then False
      else if 0 < ir_MinMemoryGB req \<and> it_MemoryGB i = 0 then False
      else if 0 < it_VCPUs i \<and> it_VCPUs i < ir_MinVCPUs req then False
      else if 0 < it_MemoryGB i \<and> it_MemoryGB i < ir_MinMemoryGB req then False
      else if 0 < ir_GPUCount req \<and> it_GPUCount i < ir_GPUCount req then False
      else if ir_GPUCount req = 0 \<and> 0 < it_GPUCount i then False
      else if ir_GPUModel req \<noteq> '''' \<and> \<not> strings_EqualFold (it_GPUModel i) (ir_GPUModel req) then False
      else if ir_Confidential req \<noteq> it_Confidential i then False
      else if ir_Arch req \<noteq> '''' \<and> it_Arch i \<noteq> ir_Arch req then False
      else True)"

definition cheaper :: "instance_type \<Rightarrow> instance_type \<Rightarrow> bool" where
  "cheaper i j = (it_PricePerHour i < it_PricePerHour j)"

definition FindCheapest :: "catalog \<Rightarrow> instance_requirements \<Rightarrow> instance_type list" where
  "FindCheapest c req = sort_Slice cheaper (filter (instance_matches req) c)"

definition FindCheapestForProvider :: "catalog \<Rightarrow> provider_id \<Rightarrow> instance_requirements \<Rightarrow> instance_type list" where
  "FindCheapestForProvider c p req = filter (\<lambda>i. it_Provider i = p) (FindCheapest c req)"

definition PriceByName :: "catalog \<Rightarrow> provider_id \<Rightarrow> string \<Rightarrow> f64" where
  "PriceByName c p name =
     (case List.find (\<lambda>i. it_Provider i = p \<and> it_Name i = name) c of Some i \<Rightarrow> it_PricePerHour i | None \<Rightarrow> 0)"

fun providers_loop :: "provider_id list \<Rightarrow> instance_type list \<Rightarrow> provider_id list" where
  "providers_loop seen [] = []"
| "providers_loop seen (i # is) =
     (if List.member seen (it_Provider i) then providers_loop seen is
      else it_Provider i # providers_loop (it_Provider i # seen) is)"

definition Providers :: "catalog \<Rightarrow> provider_id list" where
  "Providers c = providers_loop [] c"

section \<open>Live pricing\<close>

datatype fetch_error = ErrCredentialsMissing | FetchError string

record skipped_provider =
  sp_Provider :: provider_id
  sp_Reason :: string

definition truncateErr :: "string \<Rightarrow> string" where
  "truncateErr s = (if 200 < length s then take 200 s @ ''...'' else s)"

text \<open>What becomes of one fetcher's answer: the reason to skip the provider, or its rows.\<close>

definition fetch_outcome :: "fetch_error + instance_type list \<Rightarrow> string + instance_type list" where
  "fetch_outcome r =
     (case r of
        Inl ErrCredentialsMissing \<Rightarrow> Inl ''no credentials configured''
      | Inl (FetchError e) \<Rightarrow> Inl (''transient: '' @ truncateErr e)
      | Inr is \<Rightarrow> if is = [] then Inl ''returned no instances'' else Inr is)"

text \<open>The built-in row of a provider and name; the map of the source keeps the last one.\<close>

definition static_spec :: "string \<Rightarrow> instance_type option" where
  "static_spec key =
     map_of (rev (map (\<lambda>s. (provider_string (it_Provider s) @ ''/'' @ it_Name s, s)) defaultInstances)) key"

definition enrich_row :: "instance_type \<Rightarrow> instance_type" where
  "enrich_row i =
     (if it_VCPUs i \<noteq> 0 \<or> it_MemoryGB i \<noteq> 0 then i
      else case static_spec (provider_string (it_Provider i) @ ''/'' @ it_Name i) of
             None \<Rightarrow> i
           | Some s \<Rightarrow>
               i\<lparr>it_VCPUs := it_VCPUs s, it_MemoryGB := it_MemoryGB s, it_GPUCount := it_GPUCount s,
                 it_GPUModel := it_GPUModel s, it_Confidential := it_Confidential s,
                 it_Arch := (if it_Arch i = '''' then it_Arch s else it_Arch i)\<rparr>)"

definition enrichSpecsFromStatic :: "instance_type list \<Rightarrow> instance_type list" where
  "enrichSpecsFromStatic is = map enrich_row is"

definition seed_row :: "instance_type list \<Rightarrow> provider_id list \<Rightarrow> instance_type \<Rightarrow> bool" where
  "seed_row is fetched s =
     (if \<not> List.member fetched (it_Provider s) then False
      else if 0 < it_GPUCount s \<and> \<not> list_ex (\<lambda>i. 0 < it_GPUCount i \<and> it_Provider i = it_Provider s) is then True
      else if it_Confidential s \<and> \<not> list_ex (\<lambda>i. it_Confidential i \<and> it_Provider i = it_Provider s) is then True
      else False)"

definition seedStaticGPU :: "instance_type list \<Rightarrow> provider_id list \<Rightarrow> instance_type list" where
  "seedStaticGPU is fetched = is @ filter (seed_row is fetched) defaultInstances"

definition NewLiveCatalog ::
  "(provider_id \<times> (fetch_error + instance_type list)) list \<Rightarrow> catalog \<times> skipped_provider list" where
  "NewLiveCatalog fetchers =
     (let outcomes = map (\<lambda>(p, r). (p, fetch_outcome r)) fetchers;
          skipped = List.map_filter (\<lambda>(p, r). case r of Inl e \<Rightarrow> Some \<lparr>sp_Provider = p, sp_Reason = e\<rparr> | Inr _ \<Rightarrow> None) outcomes;
          fetched = List.map_filter (\<lambda>(p, r). case r of Inl e \<Rightarrow> None | Inr _ \<Rightarrow> Some p) outcomes;
          instances = concat (map (\<lambda>(p, r). case r of Inl e \<Rightarrow> [] | Inr is \<Rightarrow> is) outcomes)
      in (seedStaticGPU (enrichSpecsFromStatic instances) fetched, skipped))"

section \<open>The price cache\<close>

record pricing_cache_file =
  pcf_FetchedAt :: time
  pcf_Instances :: "instance_type list"

definition DefaultPricingCacheTTL :: duration where
  "DefaultPricingCacheTTL = 24 * Hour"

definition NewCachedFetcher_ttl :: "duration \<Rightarrow> duration" where
  "NewCachedFetcher_ttl ttl = (if ttl \<le> 0 then DefaultPricingCacheTTL else ttl)"

text \<open>The cache file is what reading and decoding it gives; an empty directory name disables caching.\<close>

definition readCache :: "string \<Rightarrow> pricing_cache_file option \<Rightarrow> pricing_cache_file option" where
  "readCache dir file =
     (if dir = '''' then None
      else case file of None \<Rightarrow> None | Some f \<Rightarrow> if pcf_Instances f = [] then None else Some f)"

definition writeCache ::
  "string \<Rightarrow> bool \<Rightarrow> time \<Rightarrow> instance_type list \<Rightarrow> pricing_cache_file option \<Rightarrow> pricing_cache_file option" where
  "writeCache dir write_ok now is file =
     (if dir = '''' \<or> is = [] then file
      else if write_ok then Some \<lparr>pcf_FetchedAt = now, pcf_Instances = is\<rparr> else file)"

definition cached_Fetch ::
  "string \<Rightarrow> duration \<Rightarrow> time \<Rightarrow> bool \<Rightarrow> fetch_error + instance_type list \<Rightarrow> pricing_cache_file option
     \<Rightarrow> (fetch_error + instance_type list) \<times> pricing_cache_file option" where
  "cached_Fetch dir ttl now write_ok live file =
     (case readCache dir file of
        Some f \<Rightarrow>
          if time_Sub now (pcf_FetchedAt f) < ttl then (Inr (pcf_Instances f), file)
          else (case live of
                  Inl e \<Rightarrow> (if e \<noteq> ErrCredentialsMissing then Inr (pcf_Instances f) else Inl e, file)
                | Inr is \<Rightarrow> (Inr is, writeCache dir write_ok now is file))
      | None \<Rightarrow>
          (case live of
             Inl e \<Rightarrow> (Inl e, file)
           | Inr is \<Rightarrow> (Inr is, writeCache dir write_ok now is file)))"

section \<open>Repricing\<close>

definition gcpMonthlyHours :: f64 where
  "gcpMonthlyHours = lit 730"

definition provider_of_string :: "string \<Rightarrow> provider_id" where
  "provider_of_string s =
     (case List.find (\<lambda>p. provider_string p = s)
             [ProviderHetzner, ProviderAWS, ProviderGCP, ProviderAzure, ProviderLima, ProviderKubernetes,
              ProviderOCI, ProviderLambda] of
        Some p \<Rightarrow> p | None \<Rightarrow> ProviderOther s)"

definition reprice_one :: "catalog \<Rightarrow> resource_info \<Rightarrow> resource_info" where
  "reprice_one live r =
     (if ri_Kind r \<noteq> ResourceInstance \<or> ri_InstanceType r = '''' then r
      else let price = PriceByName live (provider_of_string (ri_Provider r)) (ri_InstanceType r)
           in if 0 < price then r\<lparr>ri_MonthlyUSD := price * gcpMonthlyHours\<rparr> else r)"

definition RepriceInstancesLive :: "resource_info list \<Rightarrow> catalog option \<Rightarrow> resource_info list" where
  "RepriceInstancesLive rs live = (case live of None \<Rightarrow> rs | Some c \<Rightarrow> map (reprice_one c) rs)"

section \<open>Lemmas\<close>

interpretation price_order: weak_order_on cheaper "{i. it_PricePerHour i \<noteq> NaN}"
proof
  show "\<not> cheaper j i" if "cheaper i j" for i j
    using that by (auto simp: cheaper_def dest: f64_less_asym)
next
  show "\<not> cheaper i k" if "i \<in> {i. it_PricePerHour i \<noteq> NaN}" "j \<in> {i. it_PricePerHour i \<noteq> NaN}"
    "k \<in> {i. it_PricePerHour i \<noteq> NaN}" "\<not> cheaper i j" "\<not> cheaper j k" for i j k
    using that f64_order.neg_trans [of "it_PricePerHour i" "it_PricePerHour j" "it_PricePerHour k"]
    by (simp add: cheaper_def)
qed

text \<open>A row whose numbers are numbers, and what it means for it to satisfy a requirement.\<close>

definition sane_row :: "instance_type \<Rightarrow> bool" where
  "sane_row i \<longleftrightarrow> 0 \<le> it_VCPUs i \<and> 0 \<le> it_MemoryGB i \<and> 0 \<le> it_GPUCount i \<and> it_PricePerHour i \<noteq> NaN"

definition fits :: "instance_requirements \<Rightarrow> instance_type \<Rightarrow> bool" where
  "fits req i \<longleftrightarrow>
     ir_MinVCPUs req \<le> it_VCPUs i \<and> ir_MinMemoryGB req \<le> it_MemoryGB i
     \<and> (if ir_GPUCount req = 0 then it_GPUCount i = 0 else ir_GPUCount req \<le> it_GPUCount i)
     \<and> (ir_GPUModel req = '''' \<or> strings_ToLower (it_GPUModel i) = strings_ToLower (ir_GPUModel req))
     \<and> it_Confidential i = ir_Confidential req
     \<and> (ir_Arch req = '''' \<or> it_Arch i = ir_Arch req)"

lemma f64_pos_iff: "0 \<le> m \<Longrightarrow> m \<noteq> 0 \<longleftrightarrow> 0 < (m :: f64)"
  by (cases m) (auto simp: zero_f64_def less_f64_def)

lemma memory_fits:
  assumes "0 \<le> m" and "r \<noteq> (NaN :: f64)"
  shows "\<not> (0 < r \<and> m = 0) \<and> \<not> (0 < m \<and> m < r) \<longleftrightarrow> r \<le> m"
proof -
  have m: "m \<noteq> NaN" "0 < m \<or> m = 0" using assms(1) f64_pos_iff f64_le_not_NaN by blast+
  show ?thesis
    using m assms f64_not_le [of r m] f64_not_le [of r 0] f64_le_trans [of r 0 m]
    by (auto simp: less_f64_def)
qed

lemma instance_matches_iff:
  assumes "sane_row i" and "0 \<le> ir_GPUCount req" and "ir_MinMemoryGB req \<noteq> NaN"
  shows "instance_matches req i \<longleftrightarrow> fits req i"
proof -
  have v: "\<not> (0 < ir_MinVCPUs req \<and> it_VCPUs i = 0) \<and> \<not> (0 < it_VCPUs i \<and> it_VCPUs i < ir_MinVCPUs req)
      \<longleftrightarrow> ir_MinVCPUs req \<le> it_VCPUs i"
    using assms(1) by (auto simp: sane_row_def)
  have g: "\<not> (0 < ir_GPUCount req \<and> it_GPUCount i < ir_GPUCount req) \<and> \<not> (ir_GPUCount req = 0 \<and> 0 < it_GPUCount i)
      \<longleftrightarrow> (if ir_GPUCount req = 0 then it_GPUCount i = 0 else ir_GPUCount req \<le> it_GPUCount i)"
    using assms(1,2) by (auto simp: sane_row_def)
  have mem: "0 \<le> it_MemoryGB i" using assms(1) by (simp add: sane_row_def)
  show ?thesis
    unfolding fits_def v [symmetric] g [symmetric] memory_fits [OF mem assms(3), symmetric]
    by (auto simp: instance_matches_def strings_EqualFold_def)
qed

section \<open>The cheapest instance is the right one\<close>

text \<open>
  On a catalog whose numbers are numbers, looking up the instances of a provider gives exactly
  the provider's rows that satisfy the requirement (at least the CPUs and memory asked for, the GPUs
  asked for or none at all, the model, the confidentiality and the architecture asked for), in
  order of price: the first is never undersized and no satisfying row is cheaper.
\<close>

theorem cheapest_correct:
  assumes "list_all sane_row c" and "0 \<le> ir_GPUCount req" and "ir_MinMemoryGB req \<noteq> NaN"
  shows "set (FindCheapestForProvider c p req) = {i \<in> set c. it_Provider i = p \<and> fits req i}
    \<and> sorted_wrt (\<lambda>i j. it_PricePerHour i \<le> it_PricePerHour j) (FindCheapestForProvider c p req)"
proof
  have row: "sane_row i" if "i \<in> set c" for i using assms(1) that by (simp add: list_all_iff)
  show "set (FindCheapestForProvider c p req) = {i \<in> set c. it_Provider i = p \<and> fits req i}"
    using instance_matches_iff [OF row assms(2,3)]
    by (auto simp: FindCheapestForProvider_def FindCheapest_def)
  let ?m = "filter (instance_matches req) c"
  have price: "it_PricePerHour i \<noteq> NaN" if "i \<in> set (FindCheapest c req)" for i
    using that row by (auto simp: FindCheapest_def sane_row_def)
  have "sorted_wrt (\<lambda>i j. \<not> cheaper j i) (FindCheapest c req)"
    unfolding FindCheapest_def
    by (rule price_order.sorted_sort_Slice) (use row in \<open>auto simp: sane_row_def\<close>)
  then have "sorted_wrt (\<lambda>i j. it_PricePerHour i \<le> it_PricePerHour j) (FindCheapest c req)"
    by (rule sorted_wrt_mono_rel [rotated]) (use f64_not_le price in \<open>auto simp: cheaper_def\<close>)
  then show "sorted_wrt (\<lambda>i j. it_PricePerHour i \<le> it_PricePerHour j) (FindCheapestForProvider c p req)"
    unfolding FindCheapestForProvider_def by (rule sorted_wrt_filter)
qed

definition demo_requirements :: instance_requirements where
  "demo_requirements = \<lparr>ir_MinVCPUs = 4, ir_MinMemoryGB = lit 8, ir_GPUCount = 0, ir_GPUModel = '''',
     ir_Arch = '''', ir_Confidential = False\<rparr>"

definition demo_catalog :: catalog where
  "demo_catalog =
     [sku ''small'' ProviderAWS 2 4 0 '''' 1 ''x86_64'' False,
      sku ''large'' ProviderAWS 8 16 0 '''' 3 ''x86_64'' False,
      sku ''medium'' ProviderAWS 4 8 0 '''' 2 ''x86_64'' False]"

lemma lit_small: "lit 1 = Fin 1" "lit 2 = Fin 2" "lit 3 = Fin 3" "lit 4 = Fin 4" "lit 8 = Fin 8" "lit 16 = Fin 16"
  using mk_f64_int [of 1] mk_f64_int [of 2] mk_f64_int [of 3] mk_f64_int [of 4] mk_f64_int [of 8] mk_f64_int [of 16]
  by simp_all

theorem cheapest_correct_witness:
  "set (FindCheapestForProvider demo_catalog ProviderAWS demo_requirements) =
     {i \<in> set demo_catalog. it_Provider i = ProviderAWS \<and> fits demo_requirements i}
   \<and> map it_Name (FindCheapestForProvider demo_catalog ProviderAWS demo_requirements) = [''medium'', ''large'']"
proof
  have "list_all sane_row demo_catalog" by (simp add: demo_catalog_def sane_row_def sku_def lit_small)
  from cheapest_correct [OF this, of demo_requirements]
  show "set (FindCheapestForProvider demo_catalog ProviderAWS demo_requirements) =
     {i \<in> set demo_catalog. it_Provider i = ProviderAWS \<and> fits demo_requirements i}"
    by (simp add: demo_requirements_def)
  show "map it_Name (FindCheapestForProvider demo_catalog ProviderAWS demo_requirements) = [''medium'', ''large'']"
    by (simp add: FindCheapestForProvider_def FindCheapest_def demo_catalog_def demo_requirements_def sku_def
        instance_matches_def lit_small sort_Slice_def cheaper_def less_f64_def zero_f64_def)
qed

section \<open>A live catalog never overrides a live price\<close>

text \<open>
  Every row of a live catalog has the price, spot price, name and provider of a row that
  some fetcher returned, or is a built-in GPU or confidential row of a provider that did answer and
  whose answer has no row of that kind. A provider that was skipped contributes nothing, and each
  skipped provider is reported.
\<close>

theorem live_catalog_prices:
  assumes "i \<in> set (fst (NewLiveCatalog fs))"
  shows "(\<exists>p is j. (p, Inr is) \<in> set fs \<and> j \<in> set is \<and> it_PricePerHour i = it_PricePerHour j
            \<and> it_SpotPricePerHour i = it_SpotPricePerHour j \<and> it_Name i = it_Name j \<and> it_Provider i = it_Provider j)
    \<or> (i \<in> set defaultInstances
        \<and> (\<exists>is. (it_Provider i, Inr is) \<in> set fs \<and> is \<noteq> []
             \<and> (0 < it_GPUCount i \<and> (\<forall>j\<in>set is. it_Provider j = it_Provider i \<longrightarrow> it_GPUCount (enrich_row j) \<le> 0)
              \<or> it_Confidential i \<and> (\<forall>j\<in>set is. it_Provider j = it_Provider i \<longrightarrow> \<not> it_Confidential (enrich_row j)))))"
proof -
  have live: "it_PricePerHour (enrich_row j) = it_PricePerHour j" "it_SpotPricePerHour (enrich_row j) = it_SpotPricePerHour j"
    "it_Name (enrich_row j) = it_Name j" "it_Provider (enrich_row j) = it_Provider j" for j
    by (simp_all add: enrich_row_def split: option.splits)
  define outcomes where "outcomes = map (\<lambda>(p, r). (p, fetch_outcome r)) fs"
  define rows where "rows = concat (map (\<lambda>(p, r). case r of Inl e \<Rightarrow> [] | Inr is \<Rightarrow> is) outcomes)"
  define fetched where "fetched = List.map_filter (\<lambda>(p, r). case r of Inl e \<Rightarrow> None | Inr _ \<Rightarrow> Some p) outcomes"
  have ok: "fetch_outcome r = Inr is \<longleftrightarrow> r = Inr is \<and> is \<noteq> []" for r "is"
    by (auto simp: fetch_outcome_def split: sum.splits fetch_error.splits)
  have "(p, x) \<in> set outcomes \<longleftrightarrow> (\<exists>r. (p, r) \<in> set fs \<and> fetch_outcome r = x)" for p x
    unfolding outcomes_def by force
  then have out: "(p, Inr is) \<in> set outcomes \<longleftrightarrow> (p, Inr is) \<in> set fs \<and> is \<noteq> []" for p "is"
    by (simp only: ok) blast
  have "j \<in> set rows \<longleftrightarrow> (\<exists>p is. (p, Inr is) \<in> set outcomes \<and> j \<in> set is)" for j
  proof -
    have "j \<in> set (case r of Inl e \<Rightarrow> [] | Inr is \<Rightarrow> is) \<longleftrightarrow> (\<exists>is. r = Inr is \<and> j \<in> set is)" for r :: "string + instance_type list"
      by (cases r) auto
    then show ?thesis unfolding rows_def by fastforce
  qed
  then have rows: "j \<in> set rows \<longleftrightarrow> (\<exists>p is. (p, Inr is) \<in> set fs \<and> j \<in> set is)" for j
    using out by (metis empty_iff list.set(1))
  have "p \<in> set fetched \<longleftrightarrow> (\<exists>is. (p, Inr is) \<in> set outcomes)" for p
  proof -
    have "(case r of Inl e \<Rightarrow> None | Inr _ \<Rightarrow> Some q) = Some p \<longleftrightarrow> (\<exists>is. r = Inr is) \<and> q = p" for r :: "string + instance_type list" and q
      by (cases r) auto
    then show ?thesis unfolding fetched_def mem_map_filter by fastforce
  qed
  then have fetched: "p \<in> set fetched \<longleftrightarrow> (\<exists>is. (p, Inr is) \<in> set fs \<and> is \<noteq> [])" for p
    using out by metis
  have "fst (NewLiveCatalog fs) = seedStaticGPU (map enrich_row rows) fetched"
    by (simp only: NewLiveCatalog_def Let_def rows_def fetched_def outcomes_def enrichSpecsFromStatic_def fst_conv)
  with assms consider j where "j \<in> set rows" "i = enrich_row j"
    | "i \<in> set defaultInstances" "seed_row (map enrich_row rows) fetched i"
    by (auto simp: seedStaticGPU_def)
  then show ?thesis
  proof cases
    case 1
    then show ?thesis using rows live by metis
  next
    case 2
    then obtain "is" where "is": "(it_Provider i, Inr is) \<in> set fs" "is \<noteq> []"
      by (auto simp: seed_row_def fetched split: if_splits)
    have "0 < it_GPUCount i \<and> (\<forall>j\<in>set rows. it_Provider j = it_Provider i \<longrightarrow> it_GPUCount (enrich_row j) \<le> 0)
        \<or> it_Confidential i \<and> (\<forall>j\<in>set rows. it_Provider j = it_Provider i \<longrightarrow> \<not> it_Confidential (enrich_row j))"
      using 2(2) by (auto simp: seed_row_def list_ex_iff live not_less split: if_splits)
    moreover have "set is \<subseteq> set rows" using rows "is"(1) by blast
    ultimately have "0 < it_GPUCount i \<and> (\<forall>j\<in>set is. it_Provider j = it_Provider i \<longrightarrow> it_GPUCount (enrich_row j) \<le> 0)
        \<or> it_Confidential i \<and> (\<forall>j\<in>set is. it_Provider j = it_Provider i \<longrightarrow> \<not> it_Confidential (enrich_row j))"
      by blast
    with 2(1) "is" show ?thesis by blast
  qed
qed

definition demo_feed :: "(provider_id \<times> (fetch_error + instance_type list)) list" where
  "demo_feed = [(ProviderGCP, Inl ErrCredentialsMissing),
     (ProviderAWS, Inr [(sku ''m5.large'' ProviderAWS 0 0 0 '''' 1 '''' False)\<lparr>it_SpotPricePerHour := lit 1\<rparr>])]"

theorem live_catalog_prices_witness:
  "\<exists>i\<in>set (fst (NewLiveCatalog demo_feed)). \<exists>p is j. (p, Inr is) \<in> set demo_feed \<and> j \<in> set is
     \<and> it_PricePerHour i = it_PricePerHour j \<and> it_Name i = it_Name j"
proof -
  let ?row = "(sku ''m5.large'' ProviderAWS 0 0 0 '''' 1 '''' False)\<lparr>it_SpotPricePerHour := lit 1\<rparr>"
  have m: "enrich_row ?row \<in> set (fst (NewLiveCatalog demo_feed))"
    by (simp add: NewLiveCatalog_def demo_feed_def fetch_outcome_def seedStaticGPU_def enrichSpecsFromStatic_def)
  have spot: "it_SpotPricePerHour (enrich_row ?row) = Fin 1"
    by (simp add: enrich_row_def lit_small split: option.splits)
  have "it_SpotPricePerHour s = 0" if "s \<in> set defaultInstances" for s
    using that by (auto simp: defaultInstances_def instances_Hetzner_def instances_AWS_def instances_GCP_def
        instances_Azure_def instances_OCI_def sku_def)
  with spot have "enrich_row ?row \<notin> set defaultInstances" by (force simp: zero_f64_def)
  with live_catalog_prices [OF m] m show ?thesis by blast
qed

end
