(* ===== verification/Cost_History.thy ===== *)
theory Cost_History
  imports Dispatch_Types Run_Cost
begin

text \<open>
  The run history (\<^verbatim>\<open>internal/cost/history.go\<close>): an append-only JSONL file shared by concurrent
  processes, compacted on load, and the statistics computed from it.
  The file is its sequence of lines; a line is what \<^verbatim>\<open>json.Unmarshal\<close> makes of it together with its
  length in bytes, and the text after the last line break is a separate, possibly torn tail.
  Two functions of the library are parameters: \<open>enc_len\<close>, the length of the JSON encoding of an
  entry, and \<open>sha8\<close>, the first eight hexadecimal digits of a SHA-256 sum.
  Appending and compacting hold the same exclusive lock for their whole body, so the processes
  interleave whole appends and whole compactions. Loading takes no lock before it compacts: its
  reading of the file, its look at the size and its compaction are steps of their own, between
  which other processes act.
\<close>

section \<open>Entries and the file\<close>

record run_history =
  rh_RunID_h :: string
  rh_TargetID_h :: string
  rh_WorkloadKind :: string
  rh_WorkloadName :: string
  rh_Runtime :: string
  rh_ActualDuration :: duration
  rh_EstimatedCost :: f64
  rh_ActualCost :: f64
  rh_Confidence :: string
  rh_CompletedAt :: time
  rh_Success :: bool
  rh_FinalState :: string
  rh_FailureMessage :: string

datatype history_line = EntryLine nat run_history | EmptyLine | BadLine nat

record history_file =
  hf_lines :: "history_line list"
  hf_tail :: "history_line option"

record history_store =
  hs_entries :: "run_history list"

definition maxEntries :: nat where "maxEntries = 500"

definition maxWorkloadNameBytes :: nat where "maxWorkloadNameBytes = 256"

definition maxScanBytes :: nat where "maxScanBytes = 1024 * 1024"

fun line_bytes :: "history_line \<Rightarrow> nat" where
  "line_bytes (EntryLine n e) = n"
| "line_bytes EmptyLine = 0"
| "line_bytes (BadLine n) = n"

text \<open>The size of the file, line breaks included.\<close>

definition file_size :: "history_file \<Rightarrow> nat" where
  "file_size f =
     sum_list (map (\<lambda>l. line_bytes l + 1) (hf_lines f)) + (case hf_tail f of None \<Rightarrow> 0 | Some l \<Rightarrow> line_bytes l)"

text \<open>
  \<^verbatim>\<open>scanHistoryFile\<close>: empty and malformed lines are skipped; the scanner stops at a line that does
  not fit its buffer. The text after the last line break is a last line.
\<close>

fun scan_lines :: "history_line list \<Rightarrow> run_history list" where
  "scan_lines [] = []"
| "scan_lines (l # ls) =
     (if maxScanBytes \<le> line_bytes l then []
      else case l of EntryLine _ e \<Rightarrow> e # scan_lines ls | _ \<Rightarrow> scan_lines ls)"

definition scanHistoryFile :: "history_file option \<Rightarrow> run_history list" where
  "scanHistoryFile f = (case f of None \<Rightarrow> [] | Some h \<Rightarrow> scan_lines (hf_lines h @ (case hf_tail h of None \<Rightarrow> [] | Some l \<Rightarrow> [l])))"

text \<open>The last \<^verbatim>\<open>maxEntries\<close> entries of a slice.\<close>

definition cap_entries :: "run_history list \<Rightarrow> run_history list" where
  "cap_entries es = (if maxEntries < length es then drop (length es - maxEntries) es else es)"

section \<open>Appending and compacting\<close>

definition rune_start :: "char \<Rightarrow> bool" where
  "rune_start c = (let n = (of_char c :: nat) in \<not> (128 \<le> n \<and> n < 192))"

fun back_to_rune :: "string \<Rightarrow> nat \<Rightarrow> nat" where
  "back_to_rune s 0 = 0"
| "back_to_rune s (Suc n) = (if rune_start (s ! Suc n) then Suc n else back_to_rune s n)"

definition truncateToRuneBoundary :: "string \<Rightarrow> nat \<Rightarrow> string" where
  "truncateToRuneBoundary s maxBytes = (if length s \<le> maxBytes then s else take (back_to_rune s maxBytes) s)"

definition utf8_ellipsis :: string where
  "utf8_ellipsis = [CHR 0xE2, CHR 0x80, CHR 0xA6]"

definition bound_name :: "(string \<Rightarrow> string) \<Rightarrow> run_history \<Rightarrow> run_history" where
  "bound_name sha8 e =
     (let n = rh_WorkloadName e
      in if maxWorkloadNameBytes < length n
         then e\<lparr>rh_WorkloadName := truncateToRuneBoundary n maxWorkloadNameBytes @ utf8_ellipsis @ sha8 n\<rparr>
         else e)"

text \<open>Where an append can fail; a failed write may leave part of the line.\<close>

datatype append_fault =
    AppendOk | LockOpenFails string | LockFails string | HistOpenFails string
  | HistWriteFails string nat | HistCloseFails string

text \<open>A line appended after a torn tail becomes part of that line, which no longer decodes.\<close>

definition append_line :: "nat \<Rightarrow> run_history \<Rightarrow> history_file option \<Rightarrow> history_file" where
  "append_line n e f =
     (let h = (case f of None \<Rightarrow> \<lparr>hf_lines = [], hf_tail = None\<rparr> | Some h \<Rightarrow> h)
      in case hf_tail h of
           None \<Rightarrow> h\<lparr>hf_lines := hf_lines h @ [EntryLine n e]\<rparr>
         | Some l \<Rightarrow> h\<lparr>hf_lines := hf_lines h @ [BadLine (line_bytes l + n)], hf_tail := None\<rparr>)"

text \<open>The first \<open>k\<close> bytes of a line and its line break: only the whole line without its break decodes.\<close>

definition append_torn :: "nat \<Rightarrow> nat \<Rightarrow> run_history \<Rightarrow> history_file option \<Rightarrow> history_file" where
  "append_torn k n e f =
     (let h = (case f of None \<Rightarrow> \<lparr>hf_lines = [], hf_tail = None\<rparr> | Some h \<Rightarrow> h)
      in if k = 0 then h
         else case hf_tail h of
                None \<Rightarrow> h\<lparr>hf_tail := Some (if k < n then BadLine k else EntryLine n e)\<rparr>
              | Some l \<Rightarrow> h\<lparr>hf_tail := Some (BadLine (line_bytes l + min k n))\<rparr>)"

definition appendLine ::
  "append_fault \<Rightarrow> nat \<Rightarrow> run_history \<Rightarrow> history_file option \<Rightarrow> history_file option \<times> unit result" where
  "appendLine fault n e f =
     (case fault of
        LockOpenFails m \<Rightarrow> (f, Inl (''open history lock: '' @ m))
      | LockFails m \<Rightarrow> (f, Inl (''lock history: '' @ m))
      | HistOpenFails m \<Rightarrow> (f, Inl (''open history: '' @ m))
      | HistWriteFails m k \<Rightarrow> (Some (append_torn k n e f), Inl (''write history entry: '' @ m))
      | HistCloseFails m \<Rightarrow> (Some (append_line n e f), Inl m)
      | AppendOk \<Rightarrow> (Some (append_line n e f), Inr ()))"

definition History_Record ::
  "(run_history \<Rightarrow> nat) \<Rightarrow> (string \<Rightarrow> string) \<Rightarrow> append_fault \<Rightarrow> run_history \<Rightarrow> history_store \<times> history_file option
     \<Rightarrow> (history_store \<times> history_file option) \<times> unit result" where
  "History_Record enc_len sha8 fault entry hf =
     (case hf of (h, f) \<Rightarrow>
        let e = bound_name sha8 entry; n = enc_len e
        in if 4096 < n + 1
           then ((h, f), Inl (''history entry exceeds PIPE_BUF ('' @ show_int (int (n + 1)) @ '' bytes); refusing to risk torn write''))
           else case appendLine fault n e f of
                  (f', Inl m) \<Rightarrow> ((h, f'), Inl m)
                | (f', Inr _) \<Rightarrow> ((\<lparr>hs_entries = cap_entries (hs_entries h @ [e])\<rparr>, f'), Inr ()))"

text \<open>
  Compaction reads the file again, under the lock, rewrites the capped entries to a temporary file
  and renames it over the history. Until the rename the history file is untouched; the store in
  memory follows as soon as the temporary file is written.
\<close>

datatype compact_fault = CompactOk | CompactFails | CompactRenameFails

definition compactOnLoad ::
  "(run_history \<Rightarrow> nat) \<Rightarrow> compact_fault \<Rightarrow> history_store \<times> history_file option \<Rightarrow> history_store \<times> history_file option" where
  "compactOnLoad enc_len fault hf =
     (case hf of (h, f) \<Rightarrow>
        let entries = cap_entries (scanHistoryFile f)
        in case fault of
             CompactFails \<Rightarrow> (h, f)
           | CompactRenameFails \<Rightarrow> (\<lparr>hs_entries = entries\<rparr>, f)
           | CompactOk \<Rightarrow> (\<lparr>hs_entries = entries\<rparr>,
               Some \<lparr>hf_lines = map (\<lambda>e. EntryLine (enc_len e) e) entries, hf_tail = None\<rparr>))"

text \<open>The steps of \<^verbatim>\<open>load\<close>, and \<^verbatim>\<open>load\<close> when no other process acts in between.\<close>

definition load_scan :: "history_file option \<Rightarrow> history_store" where
  "load_scan f = \<lparr>hs_entries = cap_entries (scanHistoryFile f)\<rparr>"

definition load_oversized :: "history_file option \<Rightarrow> bool" where
  "load_oversized f = (case f of None \<Rightarrow> False | Some h \<Rightarrow> 4 * maxEntries * 400 < file_size h)"

definition history_load ::
  "(run_history \<Rightarrow> nat) \<Rightarrow> compact_fault \<Rightarrow> history_file option \<Rightarrow> history_store \<times> history_file option" where
  "history_load enc_len fault f =
     (let h = load_scan f in if load_oversized f then compactOnLoad enc_len fault (h, f) else (h, f))"

section \<open>Statistics\<close>

definition spend_step :: "string \<Rightarrow> time \<Rightarrow> f64 \<times> int \<Rightarrow> run_history \<Rightarrow> f64 \<times> int" where
  "spend_step targetID since acc e =
     (case acc of (spent, runs) \<Rightarrow>
        if rh_TargetID_h e \<noteq> targetID \<or> rh_CompletedAt e < since then (spent, runs)
        else (spent + (if rh_ActualCost e < 0 then 0 else rh_ActualCost e), runs + 1))"

definition SpendSince :: "history_store \<Rightarrow> string \<Rightarrow> time \<Rightarrow> f64 \<times> int" where
  "SpendSince h targetID since = foldl (spend_step targetID since) (0, 0) (hs_entries h)"

text \<open>
  \<^verbatim>\<open>median\<close> sorts a copy by exchanging \<^verbatim>\<open>sorted[i]\<close> with every smaller later element. One pass of the
  inner loop keeps the smallest element seen so far and puts the exchanged ones back in place.
\<close>

fun exchange_pass :: "duration \<Rightarrow> duration list \<Rightarrow> duration \<times> duration list" where
  "exchange_pass x [] = (x, [])"
| "exchange_pass x (y # ys) =
     (if y < x then (case exchange_pass y ys of (m, zs) \<Rightarrow> (m, x # zs))
      else (case exchange_pass x ys of (m, zs) \<Rightarrow> (m, y # zs)))"

lemma exchange_pass_length [simp]: "length (snd (exchange_pass x ys)) = length ys"
  by (induction x ys rule: exchange_pass.induct) (auto split: prod.splits)

function exchange_sort :: "duration list \<Rightarrow> duration list" where
  "exchange_sort [] = []"
| "exchange_sort (x # xs) = fst (exchange_pass x xs) # exchange_sort (snd (exchange_pass x xs))"
  by pat_completeness auto
termination
  by (relation "measure length") auto

definition history_median :: "duration list \<Rightarrow> duration" where
  "history_median ds = (if ds = [] then 0 else exchange_sort ds ! (length ds div 2))"

definition avg :: "f64 list \<Rightarrow> f64" where
  "avg vs = (if vs = [] then 0 else f64_div (foldl (+) 0 vs) (f64_of_int (int (length vs))))"

definition EstimateDuration :: "history_store \<Rightarrow> string \<Rightarrow> string \<Rightarrow> duration" where
  "EstimateDuration h targetID kind =
     (let ds = map rh_ActualDuration
            (filter (\<lambda>e. rh_Success e \<and> rh_TargetID_h e = targetID \<and> rh_WorkloadKind e = kind) (hs_entries h))
      in if ds = [] then 0 else history_median ds)"

definition ConfidenceForTarget :: "history_store \<Rightarrow> string \<Rightarrow> confidence option" where
  "ConfidenceForTarget h targetID =
     (let errs = map (\<lambda>e. f64_div (f64_abs (rh_ActualCost e - rh_EstimatedCost e)) (rh_EstimatedCost e))
            (filter (\<lambda>e. \<not> (rh_TargetID_h e \<noteq> targetID \<or> \<not> rh_Success e \<or> rh_EstimatedCost e = 0)) (hs_entries h))
      in if length errs < 3 then None
         else if avg errs < lit 0.15 then Some ConfidenceHigh
         else if avg errs < lit 0.40 then Some ConfidenceMedium
         else Some ConfidenceLow)"

record stability_report =
  sr_Runs :: int
  sr_Failures :: int
  sr_Flaky :: bool

definition Flakiness :: "history_store \<Rightarrow> string \<Rightarrow> string \<Rightarrow> stability_report" where
  "Flakiness h workload targetID =
     (let es = filter (\<lambda>e. rh_WorkloadName e = workload \<and> rh_TargetID_h e = targetID) (hs_entries h);
          runs = length es; failures = length (filter (\<lambda>e. \<not> rh_Success e) es);
          successes = length (filter rh_Success es)
      in \<lparr>sr_Runs = int runs, sr_Failures = int failures, sr_Flaky = (2 \<le> runs \<and> 0 < successes \<and> 0 < failures)\<rparr>)"

record target_stats =
  ts_TotalRuns :: int
  ts_SuccessRuns :: int
  ts_TotalCost :: f64
  ts_AvgCost :: f64
  ts_TotalDuration :: duration
  ts_AvgDuration :: duration

definition stats_step :: "string \<Rightarrow> target_stats \<Rightarrow> run_history \<Rightarrow> target_stats" where
  "stats_step targetID st e =
     (if rh_TargetID_h e \<noteq> targetID then st
      else let st1 = st\<lparr>ts_TotalRuns := ts_TotalRuns st + 1\<rparr>
           in if rh_Success e
              then st1\<lparr>ts_SuccessRuns := ts_SuccessRuns st1 + 1, ts_TotalCost := ts_TotalCost st1 + rh_ActualCost e,
                       ts_TotalDuration := wrap64 (ts_TotalDuration st1 + rh_ActualDuration e)\<rparr>
              else st1)"

definition Stats :: "history_store \<Rightarrow> string \<Rightarrow> target_stats" where
  "Stats h targetID =
     (let st = foldl (stats_step targetID)
            \<lparr>ts_TotalRuns = 0, ts_SuccessRuns = 0, ts_TotalCost = 0, ts_AvgCost = 0, ts_TotalDuration = 0, ts_AvgDuration = 0\<rparr>
            (hs_entries h)
      in if 0 < ts_SuccessRuns st
         then st\<lparr>ts_AvgCost := f64_div (ts_TotalCost st) (f64_of_int (ts_SuccessRuns st)),
                 ts_AvgDuration := go_div (ts_TotalDuration st) (ts_SuccessRuns st)\<rparr>
         else st)"

definition AllStats :: "history_store \<Rightarrow> string \<rightharpoonup> target_stats" where
  "AllStats h = map_of (map (\<lambda>t. (t, Stats h t)) (remdups (map rh_TargetID_h (hs_entries h))))"

definition history_Len :: "history_store \<Rightarrow> int" where
  "history_Len h = int (length (hs_entries h))"

section \<open>The median\<close>

lemma mset_exchange_pass: "add_mset (fst (exchange_pass x ys)) (mset (snd (exchange_pass x ys))) = add_mset x (mset ys)"
  by (induction x ys rule: exchange_pass.induct) (auto split: prod.splits simp: add_mset_commute)

lemma exchange_pass_least: "\<forall>z\<in>insert x (set ys). fst (exchange_pass x ys) \<le> z"
  by (induction x ys rule: exchange_pass.induct) (auto split: prod.splits)

lemma mset_exchange_sort: "mset (exchange_sort xs) = mset xs"
  by (induction xs rule: exchange_sort.induct) (auto simp: mset_exchange_pass)

lemma sorted_exchange_sort: "sorted (exchange_sort xs)"
proof (induction xs rule: exchange_sort.induct)
  case (2 x xs)
  have "set (exchange_sort (snd (exchange_pass x xs))) \<subseteq> insert x (set xs)"
    using mset_exchange_pass [of x xs] mset_exchange_sort [of "snd (exchange_pass x xs)"]
    by (metis mset.simps(2) set_mset_mset set_subset_Cons list.simps(15))
  with exchange_pass_least [of x xs] 2 show ?case by auto
qed simp

text \<open>
  The median that the duration estimate uses, computed by an exchange sort, is the middle
  element of the sorted durations (the upper one for an even number), independent of the order of
  the history.
\<close>

theorem median_is_middle: "history_median ds = (if ds = [] then 0 else sort ds ! (length ds div 2))"
proof -
  have "exchange_sort ds = sort ds"
    by (metis mset_exchange_sort properties_for_sort sorted_exchange_sort)
  then show ?thesis by (simp add: history_median_def)
qed

section \<open>No process loses another's entries\<close>

definition last_n :: "nat \<Rightarrow> 'a list \<Rightarrow> 'a list" where
  "last_n n xs = drop (length xs - n) xs"

lemma last_n_last_n: "last_n n (last_n n xs @ ys) = last_n n (xs @ ys)"
  by (cases "n \<le> length xs") (auto simp: last_n_def add.commute)

lemma cap_entries_eq: "cap_entries es = last_n maxEntries es"
  by (simp add: cap_entries_def last_n_def)

lemma length_cap_entries: "length (cap_entries es) \<le> maxEntries"
  by (simp add: cap_entries_def)

text \<open>
  Processes and the file they share. A process that starts reads the file, looks at its size, and
  if the file is too large waits for the lock and compacts; it records runs. Each step of each
  process is an operation, so that any number of steps of other processes can come between two
  steps of one.
\<close>

datatype load_phase = NotLoaded | Scanned | ToCompact | Loaded

record history_proc =
  hp_phase :: load_phase
  hp_store :: history_store

record history_system =
  hy_file :: "history_file option"
  hy_proc :: "nat \<Rightarrow> history_proc"

datatype history_op =
    HScan nat | HStat nat | HCompact nat compact_fault | HRecord nat append_fault run_history

definition set_proc :: "nat \<Rightarrow> load_phase \<Rightarrow> history_store \<times> history_file option \<Rightarrow> history_system \<Rightarrow> history_system" where
  "set_proc p ph hf s = \<lparr>hy_file = snd hf, hy_proc = (hy_proc s)(p := \<lparr>hp_phase = ph, hp_store = fst hf\<rparr>)\<rparr>"

fun apply_history_op ::
  "(run_history \<Rightarrow> nat) \<Rightarrow> (string \<Rightarrow> string) \<Rightarrow> history_op \<Rightarrow> history_system \<Rightarrow> history_system" where
  "apply_history_op enc_len sha8 (HScan p) s =
     (if hp_phase (hy_proc s p) = NotLoaded then set_proc p Scanned (load_scan (hy_file s), hy_file s) s else s)"
| "apply_history_op enc_len sha8 (HStat p) s =
     (if hp_phase (hy_proc s p) = Scanned
      then set_proc p (if load_oversized (hy_file s) then ToCompact else Loaded) (hp_store (hy_proc s p), hy_file s) s
      else s)"
| "apply_history_op enc_len sha8 (HCompact p fault) s =
     (if hp_phase (hy_proc s p) = ToCompact
      then set_proc p Loaded (compactOnLoad enc_len fault (hp_store (hy_proc s p), hy_file s)) s
      else s)"
| "apply_history_op enc_len sha8 (HRecord p fault e) s =
     set_proc p (hp_phase (hy_proc s p))
       (fst (History_Record enc_len sha8 fault e (hp_store (hy_proc s p), hy_file s))) s"

text \<open>
  The entries the recorded runs should leave: a run whose line is too long is refused, one whose
  append fails before the write leaves nothing, one whose file fails to close is in the file.
\<close>

definition append_lands :: "append_fault \<Rightarrow> bool" where
  "append_lands fault = (case fault of AppendOk \<Rightarrow> True | HistCloseFails _ \<Rightarrow> True | _ \<Rightarrow> False)"

fun recorded :: "(run_history \<Rightarrow> nat) \<Rightarrow> (string \<Rightarrow> string) \<Rightarrow> history_op \<Rightarrow> run_history list" where
  "recorded enc_len sha8 (HRecord p fault e) =
     (if enc_len (bound_name sha8 e) < 4096 \<and> append_lands fault then [bound_name sha8 e] else [])"
| "recorded enc_len sha8 _ = []"

text \<open>No write is cut short: a write that fails has written nothing.\<close>

fun whole_write :: "history_op \<Rightarrow> bool" where
  "whole_write (HRecord p (HistWriteFails m k) e) = (k = 0)"
| "whole_write _ = True"

text \<open>A file that does not end in a torn line, with lines as the program writes them or short ones.\<close>

fun line_clean :: "(run_history \<Rightarrow> nat) \<Rightarrow> history_line \<Rightarrow> bool" where
  "line_clean enc_len (EntryLine n e) = (n = enc_len e \<and> n < 4096)"
| "line_clean enc_len EmptyLine = True"
| "line_clean enc_len (BadLine n) = (n < maxScanBytes)"

definition history_clean :: "(run_history \<Rightarrow> nat) \<Rightarrow> history_file option \<Rightarrow> bool" where
  "history_clean enc_len f \<longleftrightarrow>
     (case f of None \<Rightarrow> True | Some h \<Rightarrow> hf_tail h = None \<and> list_all (line_clean enc_len) (hf_lines h))"

lemma line_clean_short: "line_clean enc_len l \<Longrightarrow> line_bytes l < maxScanBytes"
  by (cases l) (auto simp: maxScanBytes_def)

lemma scan_lines_append:
  "list_all (line_clean enc_len) ls \<Longrightarrow> scan_lines (ls @ ms) = scan_lines ls @ scan_lines ms"
  by (induction ls) (auto simp: not_le dest: line_clean_short split: history_line.splits)

lemma scan_clean: "list_all (line_clean enc_len) ls \<Longrightarrow> e \<in> set (scan_lines ls) \<Longrightarrow> enc_len e < 4096"
  by (induction ls) (auto split: if_splits history_line.splits)

lemma scan_entries:
  "\<forall>e\<in>set es. enc_len e < 4096 \<Longrightarrow> scan_lines (map (\<lambda>e. EntryLine (enc_len e) e) es) = es"
  by (induction es) (auto simp: maxScanBytes_def)

lemma record_clean:
  assumes "history_clean enc_len f" "whole_write (HRecord p fault e)"
  shows "history_clean enc_len (snd (fst (History_Record enc_len sha8 fault e (h, f))))
    \<and> scanHistoryFile (snd (fst (History_Record enc_len sha8 fault e (h, f)))) =
        scanHistoryFile f @ recorded enc_len sha8 (HRecord p fault e)"
  using assms
  by (cases f; cases fault) (auto simp: history_clean_def History_Record_def appendLine_def append_line_def
      append_torn_def append_lands_def scanHistoryFile_def scan_lines_append maxScanBytes_def Let_def)

lemma compact_clean:
  assumes "history_clean enc_len f"
  shows "history_clean enc_len (snd (compactOnLoad enc_len fault (h, f)))
    \<and> last_n maxEntries (scanHistoryFile (snd (compactOnLoad enc_len fault (h, f))) @ ys) =
        last_n maxEntries (scanHistoryFile f @ ys)"
proof -
  have "\<forall>e\<in>set (last_n maxEntries (scanHistoryFile f)). enc_len e < 4096"
    using assms by (auto simp: scanHistoryFile_def history_clean_def last_n_def split: option.splits
        dest!: in_set_dropD dest: scan_clean)
  then show ?thesis
    using assms
    by (cases fault) (auto simp: compactOnLoad_def Let_def history_clean_def scanHistoryFile_def scan_entries cap_entries_eq
        last_n_last_n list_all_iff)
qed

lemma step_clean:
  assumes "history_clean enc_len (hy_file s)" "whole_write a"
  shows "history_clean enc_len (hy_file (apply_history_op enc_len sha8 a s))
    \<and> last_n maxEntries (scanHistoryFile (hy_file (apply_history_op enc_len sha8 a s)) @ ys) =
        last_n maxEntries (scanHistoryFile (hy_file s) @ recorded enc_len sha8 a @ ys)"
proof (cases a)
  case (HRecord p fault e)
  with record_clean [OF assms(1), of p fault e sha8 "hp_store (hy_proc s p)"] assms(2) show ?thesis
    by (simp add: set_proc_def)
next
  case (HCompact p fault)
  with compact_clean [OF assms(1)] assms(1) show ?thesis by (auto simp: set_proc_def)
qed (use assms(1) in \<open>auto simp: set_proc_def\<close>)

lemma ops_keep_last:
  "history_clean enc_len (hy_file s) \<Longrightarrow> list_all whole_write ops \<Longrightarrow>
     last_n maxEntries (scanHistoryFile (hy_file (fold (apply_history_op enc_len sha8) ops s))) =
       last_n maxEntries (scanHistoryFile (hy_file s) @ concat (map (recorded enc_len sha8) ops))"
proof (induction ops arbitrary: s)
  case (Cons a ops)
  then have w: "whole_write a" "list_all whole_write ops" by simp_all
  show ?case
    using Cons.IH [of "apply_history_op enc_len sha8 a s"] w
      step_clean [OF Cons.prems(1) w(1), of sha8 "concat (map (recorded enc_len sha8) ops)"] by simp
qed simp


definition demo_entry :: run_history where
  "demo_entry = \<lparr>rh_RunID_h = ''run_a'', rh_TargetID_h = ''aws-vm'', rh_WorkloadKind = ''job'', rh_WorkloadName = ''w'',
     rh_Runtime = '''', rh_ActualDuration = Minute, rh_EstimatedCost = 0, rh_ActualCost = 0, rh_Confidence = '''',
     rh_CompletedAt = 7, rh_Success = True, rh_FinalState = '''', rh_FailureMessage = ''''\<rparr>"

text \<open>
  A file grown past four times the cap; one process reads it, a second one records a run, and the
  first compacts.
\<close>

definition demo_big :: history_file where
  "demo_big = \<lparr>hf_lines = [BadLine 900000], hf_tail = None\<rparr>"

definition demo_history :: history_system where
  "demo_history = \<lparr>hy_file = Some demo_big, hy_proc = \<lambda>_. \<lparr>hp_phase = NotLoaded, hp_store = \<lparr>hs_entries = []\<rparr>\<rparr>\<rparr>"


section \<open>A torn line swallows the next entry\<close>

text \<open>
  When the write of an entry is cut short, the next run that is recorded, by any process,
  reports success, but its entry is glued to the torn line and no later load sees it.
\<close>

theorem torn_line_swallows_next:
  assumes "history_clean enc_len f" and "0 < k" and "k < n" and "enc_len (bound_name sha8 e) < 4096"
  shows "\<exists>f' h'. History_Record enc_len sha8 AppendOk e (h, fst (appendLine (HistWriteFails m k) n e0 f)) = ((h', f'), Inr ())
    \<and> scanHistoryFile f' = scanHistoryFile f"
proof -
  have "scan_lines (ls @ [BadLine j]) = scan_lines ls" if "list_all (line_clean enc_len) ls" for ls j
    by (simp add: scan_lines_append [OF that])
  then show ?thesis
    using assms
    by (cases f) (auto simp: History_Record_def appendLine_def append_torn_def append_line_def Let_def
        scanHistoryFile_def history_clean_def)
qed

theorem torn_line_swallows_next_witness:
  "\<exists>f' h'. History_Record (\<lambda>_. 300) (\<lambda>_. '''') AppendOk demo_entry
       (\<lparr>hs_entries = []\<rparr>, fst (appendLine (HistWriteFails ''disk full'' 10) 300 demo_entry None)) = ((h', f'), Inr ())
     \<and> scanHistoryFile f' = []"
proof -
  have "history_clean (\<lambda>_. 300) None" by (simp add: history_clean_def)
  from torn_line_swallows_next [OF this, of 10 300] show ?thesis by (simp add: scanHistoryFile_def)
qed

end
