(* ===== verification/Go_Parse.thy ===== *)
theory Go_Parse
  imports Float64
begin

text \<open>
  The parsers of Go's library that the configuration and the cost estimator call:
  \<^verbatim>\<open>strconv.ParseFloat\<close> on digits and dots, and \<^verbatim>\<open>time.ParseDuration\<close> with its unit table, its
  64-bit overflow checks and its floating-point fraction.
\<close>

section \<open>Floating-point numbers\<close>

text \<open>
  \<^verbatim>\<open>ParseFloat\<close> on a string of digits and dots: at least one digit, at most one dot, the exact
  decimal rounded once; a value beyond the largest double is an error.
\<close>

definition ParseFloat_plain :: "string \<Rightarrow> f64 option" where
  "ParseFloat_plain s =
     (let whole = takeWhile is_digit s; rest = drop (length whole) s;
          frac = (case rest of [] \<Rightarrow> [] | c # r \<Rightarrow> r)
      in if whole = [] \<and> frac = [] \<or> \<not> list_all is_digit frac \<or> (rest \<noteq> [] \<and> hd rest \<noteq> CHR ''.'') then None
         else case mk_f64 (of_int (int_of_digits (whole @ frac)) / 10 ^ length frac) of
                Fin x \<Rightarrow> Some (Fin x)
              | _ \<Rightarrow> None)"

section \<open>Durations\<close>

text \<open>\<^verbatim>\<open>leadingInt\<close>: the value of the leading digits, \<open>None\<close> on overflow, and the rest.\<close>

fun leading_int :: "int \<Rightarrow> string \<Rightarrow> int option \<times> string" where
  "leading_int x [] = (Some x, [])"
| "leading_int x (c # s) =
     (if \<not> is_digit c then (Some x, c # s)
      else if x > 2 ^ 63 div 10 then (None, c # s)
      else let y = x * 10 + digit_val c in if y > 2 ^ 63 then (None, c # s) else leading_int y s)"

text \<open>\<^verbatim>\<open>leadingFraction\<close>: value and scale of the leading digits; digits past an overflow are skipped.\<close>

fun leading_fraction :: "int \<Rightarrow> f64 \<Rightarrow> bool \<Rightarrow> string \<Rightarrow> int \<times> f64 \<times> string" where
  "leading_fraction x scale over [] = (x, scale, [])"
| "leading_fraction x scale over (c # s) =
     (if \<not> is_digit c then (x, scale, c # s)
      else if over \<or> x > (2 ^ 63 - 1) div 10 then leading_fraction x scale True s
      else let y = x * 10 + digit_val c
           in if y > 2 ^ 63 then leading_fraction x scale True s
              else leading_fraction y (scale * lit 10) False s)"

definition unit_map :: "string \<Rightarrow> int option" where
  "unit_map u =
     (if u = ''ns'' then Some 1
      else if u = ''us'' \<or> u = [CHR 0xC2, CHR 0xB5, CHR ''s''] \<or> u = [CHR 0xCE, CHR 0xBC, CHR ''s''] then Some 1000
      else if u = ''ms'' then Some Millisecond
      else if u = ''s'' then Some Second
      else if u = ''m'' then Some Minute
      else if u = ''h'' then Some Hour
      else None)"

definition unit_char :: "char \<Rightarrow> bool" where
  "unit_char c = (c \<noteq> CHR ''.'' \<and> \<not> is_digit c)"

text \<open>One number with its unit: its nanoseconds and the rest of the string. \<open>orig\<close> is for the messages.\<close>

definition invalid_duration :: "string \<Rightarrow> string" where
  "invalid_duration orig = ''time: invalid duration '' @ go_quote orig"

definition parse_term :: "string \<Rightarrow> string \<Rightarrow> (int \<times> string) result" where
  "parse_term orig s =
     (case leading_int 0 s of
        (None, _) \<Rightarrow> Inl (invalid_duration orig)
      | (Some v, r) \<Rightarrow>
          (let pre = length r \<noteq> length s;
               dot = r \<noteq> [] \<and> hd r = CHR ''.'';
               (f, scale, r') = (if dot then leading_fraction 0 (lit 1) False (tl r) else (0, lit 1, r));
               post = dot \<and> length r' \<noteq> length (tl r);
               u = takeWhile unit_char r'
           in if \<not> pre \<and> \<not> post then Inl (invalid_duration orig)
              else if u = [] then Inl (''time: missing unit in duration '' @ go_quote orig)
              else case unit_map u of
                     None \<Rightarrow> Inl (''time: unknown unit '' @ go_quote u @ '' in duration '' @ go_quote orig)
                   | Some un \<Rightarrow>
                       if v > 2 ^ 63 div un then Inl (invalid_duration orig)
                       else let w = v * un
                                  + (if 0 < f then f64_to_int (f64_of_int f * f64_div (f64_of_int un) scale) else 0)
                            in if w > 2 ^ 63 then Inl (invalid_duration orig)
                               else Inr (w, drop (length u) r')))"

lemma leading_int_length: "length (snd (leading_int x s)) \<le> length s"
proof (induction x s rule: leading_int.induct)
  case (2 x c s)
  then show ?case by (auto simp: Let_def)
qed simp

lemma leading_fraction_length: "length (snd (snd (leading_fraction x sc ov s))) \<le> length s"
proof (induction x sc ov s rule: leading_fraction.induct)
  case (2 x sc ov c s)
  then show ?case by (auto simp: Let_def)
qed simp

lemma parse_term_shorter: "parse_term orig s = Inr (w, r) \<Longrightarrow> length r < length s"
proof -
  assume p: "parse_term orig s = Inr (w, r)"
  obtain v r1 where li: "leading_int 0 s = (Some v, r1)"
    using p by (cases "leading_int 0 s"; cases "fst (leading_int 0 s)") (auto simp: parse_term_def)
  define dot where "dot = (r1 \<noteq> [] \<and> hd r1 = CHR ''.'')"
  define lf where "lf = (if dot then leading_fraction 0 (lit 1) False (tl r1) else (0, lit 1, r1))"
  obtain f scale r2 where lf2: "lf = (f, scale, r2)" by (cases lf) auto
  from p have u: "takeWhile unit_char r2 \<noteq> []" and r: "r = drop (length (takeWhile unit_char r2)) r2"
    by (auto simp: parse_term_def li Let_def lf2 lf_def [symmetric] dot_def [symmetric]
        split: if_splits option.splits prod.splits)
  have "length r1 \<le> length s" using leading_int_length [of 0 s] li by simp
  moreover have "length r2 \<le> length r1"
    using leading_fraction_length [of 0 "lit 1" False "tl r1"] lf2 by (auto simp: lf_def split: if_splits)
  moreover have "0 < length (takeWhile unit_char r2)" using u by simp
  moreover have "length (takeWhile unit_char r2) \<le> length r2" by (rule length_takeWhile_le)
  ultimately show "length r < length s" unfolding r length_drop by linarith
qed

text \<open>The sum of the terms is a \<^verbatim>\<open>uint64\<close>, which wraps before it is compared.\<close>

function parse_terms :: "string \<Rightarrow> int \<Rightarrow> string \<Rightarrow> int result" where
  "parse_terms orig d s =
     (if s = [] then Inr d
      else case parse_term orig s of
             Inl e \<Rightarrow> Inl e
           | Inr (w, r) \<Rightarrow>
               let d' = (d + w) mod 2 ^ 64
               in if d' > 2 ^ 63 then Inl (invalid_duration orig) else parse_terms orig d' r)"
  by pat_completeness auto
termination
  by (relation "measure (\<lambda>(orig, d, s). length s)") (auto simp: parse_term_shorter)

declare parse_terms.simps [simp del]

definition ParseDuration :: "string \<Rightarrow> duration result" where
  "ParseDuration orig =
     (let neg = strings_HasPrefix orig ''-'';
          s = (if neg \<or> strings_HasPrefix orig ''+'' then tl orig else orig)
      in if s = ''0'' then Inr 0
         else if s = [] then Inl (invalid_duration orig)
         else case parse_terms orig 0 s of
                Inl e \<Rightarrow> Inl e
              | Inr d \<Rightarrow>
                  if neg then Inr (- d) else if d > 2 ^ 63 - 1 then Inl (invalid_duration orig) else Inr d)"

end
