(* ===== verification/Cost_Estimate.thy ===== *)
theory Cost_Estimate
  imports Catalog Cost_History Go_Parse Target_Registry
begin

text \<open>
  Cost estimation (\<^verbatim>\<open>internal/cost/estimator.go\<close>, \<^verbatim>\<open>spot.go\<close>): from the catalog for a cloud target, from
  the static rate cards otherwise, rescaled by the historical median runtime and by the spot
  discount. Amounts are IEEE doubles, every operation rounded, and truncated to four decimals;
  CPU counts are parsed into a wrapping 64-bit integer, as in the source.
\<close>

section \<open>Rate cards\<close>

record rate_card =
  rcd_CPUPerHour :: f64
  rcd_MemoryPerHour :: f64
  rcd_GPUPerHour :: f64
  rcd_BasePerHour :: f64

definition rateCards :: "string \<Rightarrow> rate_card option" where
  "rateCards =
     map_of
       [(''local'', \<lparr>rcd_CPUPerHour = 0, rcd_MemoryPerHour = 0, rcd_GPUPerHour = 0, rcd_BasePerHour = 0\<rparr>),
        (''ssh'', \<lparr>rcd_CPUPerHour = 0, rcd_MemoryPerHour = 0, rcd_GPUPerHour = 0, rcd_BasePerHour = lit 0.10\<rparr>),
        (''internal'', \<lparr>rcd_CPUPerHour = lit 0.04, rcd_MemoryPerHour = lit 0.005, rcd_GPUPerHour = lit 1.50, rcd_BasePerHour = lit 0.02\<rparr>),
        (''aws'', \<lparr>rcd_CPUPerHour = lit 0.05, rcd_MemoryPerHour = lit 0.007, rcd_GPUPerHour = lit 3.00, rcd_BasePerHour = lit 0.10\<rparr>),
        (''gcp'', \<lparr>rcd_CPUPerHour = lit 0.04, rcd_MemoryPerHour = lit 0.005, rcd_GPUPerHour = lit 2.80, rcd_BasePerHour = lit 0.08\<rparr>),
        (''azure'', \<lparr>rcd_CPUPerHour = lit 0.05, rcd_MemoryPerHour = lit 0.007, rcd_GPUPerHour = lit 3.00, rcd_BasePerHour = lit 0.10\<rparr>),
        (''hetzner'', \<lparr>rcd_CPUPerHour = lit 0.003, rcd_MemoryPerHour = lit 0.001, rcd_GPUPerHour = 0, rcd_BasePerHour = lit 0.003\<rparr>),
        (''oci'', \<lparr>rcd_CPUPerHour = lit 0.03, rcd_MemoryPerHour = lit 0.004, rcd_GPUPerHour = 0, rcd_BasePerHour = lit 0.02\<rparr>)]"

definition rateCardToProvider :: "string \<Rightarrow> provider_id option" where
  "rateCardToProvider rate =
     map_of [(''aws'', ProviderAWS), (''gcp'', ProviderGCP), (''azure'', ProviderAzure),
             (''hetzner'', ProviderHetzner), (''oci'', ProviderOCI), (''lambda'', ProviderLambda)] rate"

section \<open>Parsing requirements\<close>

fun parse_cpu_loop :: "int \<Rightarrow> string \<Rightarrow> int" where
  "parse_cpu_loop n [] = n"
| "parse_cpu_loop n (c # s) = (if is_digit c then parse_cpu_loop (wrap64 (n * 10 + digit_val c)) s else n)"

definition parseCPU :: "string \<Rightarrow> int" where
  "parseCPU cpu = (if cpu = '''' then 2 else let n = parse_cpu_loop 0 cpu in if n = 0 then 2 else n)"

definition parseMemoryGB :: "string \<Rightarrow> f64" where
  "parseMemoryGB s0 =
     (let s = strings_TrimSpace (strings_ToLower s0);
          num = takeWhile (\<lambda>c. is_digit c \<or> c = CHR ''.'') s; unit = drop (length num) s
      in if num = '''' then 0
         else case ParseFloat_plain num of
                None \<Rightarrow> 0
              | Some n \<Rightarrow>
                  if strings_HasPrefix unit ''g'' then n
                  else if strings_HasPrefix unit ''m'' then f64_div n (lit 1024)
                  else n)"

definition gpu_count :: "workload_spec \<Rightarrow> int" where
  "gpu_count spec = (let n = gr_Count (rr_GPU (ws_Requirements spec)) in if n = 0 then 1 else n)"

definition requirementsFromSpec :: "workload_spec \<Rightarrow> instance_requirements" where
  "requirementsFromSpec spec =
     (let r = ws_Requirements spec; mem = parseMemoryGB (rr_Memory r)
      in \<lparr>ir_MinVCPUs = parseCPU (rr_CPU r),
          ir_MinMemoryGB = (if 0 < mem then mem else 0),
          ir_GPUCount = (if gr_Required (rr_GPU r) then gpu_count spec else 0),
          ir_GPUModel = (if gr_Required (rr_GPU r) then gr_Model (rr_GPU r) else ''''),
          ir_Arch = rr_Arch r,
          ir_Confidential = cr_Required (rr_Confidential r)\<rparr>)"

definition assumedHours :: "workload_spec \<Rightarrow> f64" where
  "assumedHours spec = (if ws_DetectedKind spec = WorkloadKindService then lit 24 else DefaultDurationHours)"

definition durationLabel :: "f64 \<Rightarrow> string" where
  "durationLabel hours = (if hours = DefaultDurationHours then ''1h'' else fmt_fixed 0 hours @ ''h'')"

definition roundCents :: "f64 \<Rightarrow> f64" where
  "roundCents v = trunc4 v"

section \<open>Estimates\<close>

definition standard_exclusions :: "string list" where
  "standard_exclusions = [''excludes network egress'', ''excludes storage after run'']"

definition spot_ratio :: "instance_type \<Rightarrow> f64" where
  "spot_ratio i =
     (if 0 < it_SpotPricePerHour i \<and> 0 < it_PricePerHour i
      then f64_div (it_SpotPricePerHour i) (it_PricePerHour i) else 0)"

definition estimateFromCatalog :: "workload_spec \<Rightarrow> target_config \<Rightarrow> catalog \<Rightarrow> cost_estimate option" where
  "estimateFromCatalog spec t cat =
     (case rateCardToProvider (tc_RateCard t) of
        None \<Rightarrow> None
      | Some p \<Rightarrow>
          (case FindCheapestForProvider cat p (requirementsFromSpec spec) of
             [] \<Rightarrow> None
           | c # _ \<Rightarrow>
               let hours = assumedHours spec
               in Some \<lparr>ce_Value = roundCents (it_PricePerHour c * hours),
                        ce_Currency = ''USD'',
                        ce_Confidence = (if ws_DetectedKind spec = WorkloadKindGPUJob then ConfidenceLow else ConfidenceMedium),
                        ce_Assumptions =
                          [''based on '' @ it_Name c @ '' ('' @ show_int (it_VCPUs c) @ ''vCPU/''
                             @ fmt_fixed 0 (it_MemoryGB c) @ ''GB) at $'' @ fmt_fixed 4 (it_PricePerHour c) @ ''/h'',
                           ''assumes '' @ durationLabel hours @ '' runtime''],
                        ce_Exclusions = standard_exclusions,
                        ce_InstanceType = it_Name c,
                        ce_SpotRatio = spot_ratio c\<rparr>))"

text \<open>The sum that both rate-card computations form, in the order of the source.\<close>

definition card_total :: "workload_spec \<Rightarrow> rate_card \<Rightarrow> f64 \<Rightarrow> f64" where
  "card_total spec rate hours =
     (let r = ws_Requirements spec;
          t0 = rcd_BasePerHour rate * hours;
          t1 = (if 0 < rcd_CPUPerHour rate then t0 + rcd_CPUPerHour rate * f64_of_int (parseCPU (rr_CPU r)) * hours else t0);
          t2 = (if 0 < rcd_MemoryPerHour rate then t1 + rcd_MemoryPerHour rate * parseMemoryGB (rr_Memory r) * hours else t1)
      in if gr_Required (rr_GPU r) \<and> 0 < rcd_GPUPerHour rate
         then t2 + rcd_GPUPerHour rate * f64_of_int (gpu_count spec) * hours else t2)"

definition estimateFromRateCard :: "workload_spec \<Rightarrow> target_config \<Rightarrow> cost_estimate" where
  "estimateFromRateCard spec t =
     (case rateCards (tc_RateCard t) of
        None \<Rightarrow> cost_estimate_zero\<lparr>ce_Currency := ''USD'', ce_Confidence := ConfidenceUnknown,
                  ce_Assumptions := [''no rate card available for target'']\<rparr>
      | Some rate \<Rightarrow>
          (let hours = assumedHours spec;
               cloud = rateCardToProvider (tc_RateCard t) \<noteq> None
           in cost_estimate_zero\<lparr>
                ce_Value := roundCents (card_total spec rate hours),
                ce_Currency := ''USD'',
                ce_Confidence :=
                  (if cloud then ConfidenceLow
                   else if ws_DetectedKind spec = WorkloadKindGPUJob then ConfidenceLow
                   else if tc_RateCard t = ''local'' then ConfidenceHigh
                   else ConfidenceMedium),
                ce_Assumptions := [''assumes '' @ durationLabel hours @ '' runtime'']
                  @ (if cloud then [''fallback: live pricing unavailable for this provider''] else []),
                ce_Exclusions := standard_exclusions\<rparr>))"

definition staticInstance :: "workload_spec \<Rightarrow> target_config \<Rightarrow> string" where
  "staticInstance spec t =
     (case rateCardToProvider (tc_RateCard t) of
        None \<Rightarrow> ''''
      | Some p \<Rightarrow>
          (case FindCheapestForProvider NewCatalog p (requirementsFromSpec spec) of [] \<Rightarrow> '''' | c # _ \<Rightarrow> it_Name c))"

definition EstimateCost :: "workload_spec \<Rightarrow> target_config \<Rightarrow> catalog option \<Rightarrow> cost_estimate" where
  "EstimateCost spec t cat =
     (case (case cat of Some c \<Rightarrow> if tc_Kind t = TargetKindCloudVM then estimateFromCatalog spec t c else None | None \<Rightarrow> None) of
        Some est \<Rightarrow> est
      | None \<Rightarrow>
          (let est = estimateFromRateCard spec t
           in if tc_Kind t = TargetKindCloudVM \<and> ce_InstanceType est = ''''
              then est\<lparr>ce_InstanceType := staticInstance spec t\<rparr> else est))"

definition scaleEstimateToHours :: "workload_spec \<Rightarrow> target_config \<Rightarrow> catalog option \<Rightarrow> f64 \<Rightarrow> cost_estimate" where
  "scaleEstimateToHours spec t cat hours =
     (let live = (case cat of
                    Some c \<Rightarrow> if tc_Kind t = TargetKindCloudVM
                      then (case rateCardToProvider (tc_RateCard t) of
                              None \<Rightarrow> [] | Some p \<Rightarrow> FindCheapestForProvider c p (requirementsFromSpec spec))
                      else []
                  | None \<Rightarrow> [])
      in case live of
           m # _ \<Rightarrow> cost_estimate_zero\<lparr>ce_Value := roundCents (it_PricePerHour m * hours), ce_Currency := ''USD'',
                      ce_Confidence := ConfidenceMedium, ce_InstanceType := it_Name m\<rparr>
         | [] \<Rightarrow>
             (case rateCards (tc_RateCard t) of
                None \<Rightarrow> cost_estimate_zero\<lparr>ce_Currency := ''USD'', ce_Confidence := ConfidenceUnknown\<rparr>
              | Some rate \<Rightarrow> cost_estimate_zero\<lparr>ce_Value := roundCents (card_total spec rate hours),
                               ce_Currency := ''USD'', ce_Confidence := ConfidenceMedium\<rparr>))"

definition EstimateCostWithHistory ::
  "workload_spec \<Rightarrow> target_config \<Rightarrow> history_store option \<Rightarrow> catalog option \<Rightarrow> cost_estimate" where
  "EstimateCostWithHistory spec t history cat =
     (let base = EstimateCost spec t cat
      in case history of
           None \<Rightarrow> base
         | Some h \<Rightarrow>
             if ce_Confidence base = ConfidenceUnknown then base
             else
               let d = EstimateDuration h (tc_ID t) (workload_kind_string (ws_DetectedKind spec));
                   base' =
                     (if 0 < d
                      then let scaled = scaleEstimateToHours spec t cat (duration_Hours d)
                           in scaled\<lparr>ce_InstanceType := ce_InstanceType base, ce_Confidence := ce_Confidence base,
                                ce_SpotRatio := ce_SpotRatio base, ce_Exclusions := ce_Exclusions base,
                                ce_Assumptions := ce_Assumptions scaled
                                  @ [''based on historical median runtime of '' @ duration_String (duration_Round_Second d)]\<rparr>
                      else base)
               in case ConfidenceForTarget h (tc_ID t) of
                    None \<Rightarrow> base'
                  | Some c \<Rightarrow> base'\<lparr>ce_Confidence := c,
                      ce_Assumptions := ce_Assumptions base' @ [''confidence based on historical cost accuracy'']\<rparr>)"

section \<open>Spot pricing\<close>

definition en_dash :: string where
  "en_dash = [CHR 0xE2, CHR 0x80, CHR 0x93]"

definition spotDiscount :: "string \<Rightarrow> f64 option" where
  "spotDiscount = map_of [(''gcp'', lit 0.30), (''aws'', lit 0.35), (''azure'', lit 0.40), (''oci'', lit 0.50)]"

definition ApplySpot :: "cost_estimate \<Rightarrow> target_config \<Rightarrow> cost_estimate" where
  "ApplySpot est t =
     (if 0 < ce_SpotRatio est
      then est\<lparr>ce_Value := roundCents (ce_Value est * ce_SpotRatio est), ce_Confidence := ConfidenceLow,
             ce_Assumptions := ce_Assumptions est
               @ [''based on recent spot pricing at ~'' @ fmt_fixed 0 (ce_SpotRatio est * lit 100)
                  @ ''% of on-demand (fluctuates, may be cache-stale, and the instance can be reclaimed anytime)'']\<rparr>
      else case spotDiscount (tc_RateCard t) of
             None \<Rightarrow> est
           | Some f \<Rightarrow>
               est\<lparr>ce_Value := roundCents (ce_Value est * f), ce_Confidence := ConfidenceLow,
                 ce_Assumptions := ce_Assumptions est
                   @ [''spot pricing estimated at ~'' @ fmt_fixed 0 (f * lit 100)
                      @ ''% of on-demand (actual fluctuates 60'' @ en_dash @ ''90% off and the instance can be reclaimed anytime)'']\<rparr>)"

section \<open>Lower bounds on rounded amounts\<close>

lemma mk_f64_powi:
  assumes "- 1074 \<le> k" "k < 1024"
  shows "mk_f64 (2 powi k) = Fin (2 powi k)"
proof (rule mk_f64_of_ok)
  have "\<not> (2 :: rat) powi k < 0" using powi_pos [of k] by (meson less_asym)
  then have "round64 (2 powi k) = 2 powi k" using round_pos_powi [OF assms(1)] by (simp only: round64_def if_False)
  moreover have "\<bar>(2 :: rat) powi k\<bar> < max_f64_bound"
    using powi_less_iff [of k 1024] powi_pos [of k] assms(2) unfolding max_f64_bound_def by simp
  ultimately show "f64_ok (Fin (2 powi k))" by simp
qed

lemma powi_le_pos: "2 powi a \<le> x \<Longrightarrow> 0 < (x :: rat)"
  using powi_pos less_le_trans by blast

lemma powi_le_mult:
  assumes "Fin (2 powi a) \<le> u" "Fin (2 powi b) \<le> v" "- 1074 \<le> a + b" "a + b < 1024"
  shows "Fin (2 powi (a + b)) \<le> u * v"
proof (cases u; cases v)
  fix x y assume uv: "u = Fin x" "v = Fin y"
  have le: "2 powi a \<le> x" "2 powi b \<le> y" using assms(1,2) uv by simp_all
  then have "2 powi (a + b) \<le> x * y"
    unfolding powi_add2 using powi_le_pos by (intro mult_mono) (auto simp: less_imp_le)
  from mk_f64_mono [OF this] show ?thesis using assms(3,4) by (simp add: uv mk_f64_powi)
qed (use assms powi_le_pos in auto)

lemma powi_le_add:
  assumes "Fin (2 powi a) \<le> u" "0 \<le> v" "- 1074 \<le> a" "a < 1024"
  shows "Fin (2 powi a) \<le> u + v" and "Fin (2 powi a) \<le> v + u"
proof -
  show "Fin (2 powi a) \<le> u + v"
  proof (cases u; cases v)
    fix x y assume uv: "u = Fin x" "v = Fin y"
    have "2 powi a \<le> x + y" using assms(1,2) uv by simp
    from mk_f64_mono [OF this] show ?thesis using assms(3,4) by (simp add: uv mk_f64_powi)
  qed (use assms in \<open>auto simp: zero_f64_def\<close>)
  then show "Fin (2 powi a) \<le> v + u"
    by (cases u; cases v) (auto simp: add.commute)
qed

lemma lit_ge_powi: "2 powi a \<le> x \<Longrightarrow> - 1074 \<le> a \<Longrightarrow> a < 1024 \<Longrightarrow> Fin (2 powi a) \<le> lit x"
  using mk_f64_mono [of "2 powi a" x] by (simp add: mk_f64_powi)

lemma f64_pos_mult_nonneg: "0 < a \<Longrightarrow> is_finite a \<Longrightarrow> 0 \<le> b \<Longrightarrow> 0 \<le> a * b \<and> 0 \<le> b * (a :: f64)"
  by (cases a; cases b) (auto simp: zero_f64_def less_f64_def mk_f64_nonneg [unfolded zero_f64_def])

lemma int_of_digits_nonneg: "list_all is_digit t \<Longrightarrow> 0 \<le> int_of_digits t"
proof (induction t rule: rev_induct)
  case (snoc c t)
  then show ?case by (auto simp: int_of_digits_append is_digit_def digit_val_def int_of_digits_def Let_def)
qed (simp add: int_of_digits_def)

lemma ParseFloat_nonneg:
  assumes "ParseFloat_plain s = Some v"
  shows "0 \<le> v" and "is_finite v"
proof -
  define rest where "rest = drop (length (takeWhile is_digit s)) s"
  define frac where "frac = (case rest of [] \<Rightarrow> [] | c # r \<Rightarrow> r)"
  define q :: rat where "q = of_int (int_of_digits (takeWhile is_digit s @ frac)) / 10 ^ length frac"
  have dig: "list_all is_digit frac" and v: "(case mk_f64 q of Fin x \<Rightarrow> Some (Fin x) | _ \<Rightarrow> None) = Some v"
    using assms unfolding ParseFloat_plain_def Let_def rest_def [symmetric] frac_def [symmetric] q_def [symmetric]
    by (auto split: if_splits)
  have m: "v = mk_f64 q \<and> is_finite v"
  proof (cases "mk_f64 q")
    case (Fin x)
    from v [unfolded Fin] have "v = Fin x" by simp
    then show ?thesis unfolding Fin by simp
  next
    case PInf
    from v [unfolded PInf] show ?thesis by simp
  next
    case NInf
    from v [unfolded NInf] show ?thesis by simp
  next
    case NaN
    from v [unfolded NaN] show ?thesis by simp
  qed
  have "list_all is_digit (takeWhile is_digit s @ frac)"
    using dig by (auto simp: list_all_iff dest: set_takeWhileD)
  from int_of_digits_nonneg [OF this] have "0 \<le> q" unfolding q_def by (intro divide_nonneg_nonneg) simp_all
  then show "0 \<le> v" using m mk_f64_nonneg by blast
  show "is_finite v" using m by blast
qed

lemma lit_1024: "lit 1024 = Fin 1024"
  using mk_f64_int [of 1024] by simp

lemma parseMemoryGB_nonneg: "0 \<le> parseMemoryGB s"
proof -
  have "0 \<le> v \<and> 0 \<le> f64_div v (lit 1024)" if "ParseFloat_plain n = Some v" for n v
    using ParseFloat_nonneg [OF that] f64_div_nonneg [of v "Fin 1024"] by (simp add: lit_1024)
  then show ?thesis by (auto simp: parseMemoryGB_def Let_def split: option.splits)
qed

section \<open>An overflowing amount is negative\<close>

lemma roundCents_overflow:
  assumes "Fin (2 powi 51) \<le> v"
  shows "roundCents v < 0"
proof -
  have "Fin (2 powi 13) \<le> Fin 10000" by (simp add: power_int_def)
  from powi_le_mult [OF assms this] have big: "Fin (2 powi 64) \<le> v * Fin 10000" by simp
  have "f64_to_int (v * Fin 10000) = - (2 ^ 63)"
  proof (cases "v * Fin 10000")
    case (Fin x)
    with big have "of_int (2 ^ 64) \<le> x" by (simp add: power_int_def)
    then have "2 ^ 64 \<le> \<lfloor>x\<rfloor>" by (simp only: le_floor_iff)
    moreover have "\<not> x < 0" using \<open>of_int (2 ^ 64) \<le> x\<close> by auto
    ultimately show ?thesis unfolding Fin by simp
  qed auto
  then have r: "roundCents v = f64_div (f64_of_int (- (2 ^ 63))) (Fin 10000)"
    by (simp add: roundCents_def trunc4_eq)
  have "f64_of_int (2 ^ 63) = Fin (2 ^ 63)"
    using mk_f64_powi [of 63] by (simp add: f64_of_int_def power_int_def)
  then have "f64_of_int (- (2 ^ 63)) = Fin (- (2 ^ 63))"
    using round64_minus [of "2 ^ 63"] by (simp add: f64_of_int_def mk_f64_def Let_def split: if_splits)
  with r have "roundCents v = mk_f64 (- (2 ^ 63) / 10000)" by simp
  moreover have "mk_f64 (- (2 ^ 63) / 10000) \<le> mk_f64 (- 1)" by (rule mk_f64_mono) simp
  moreover have "mk_f64 (- 1) = Fin (- 1)" using mk_f64_int [of "- 1"] by simp
  ultimately have "roundCents v \<le> Fin (- 1)" by simp
  then show ?thesis by (cases "roundCents v") (auto simp: zero_f64_def less_f64_def)
qed

lemma lit_range:
  assumes "2 powi (- 10) \<le> x" and "x \<le> 32"
  shows "0 < lit x" and "is_finite (lit x)"
proof -
  have lo: "Fin (2 powi (- 10)) \<le> lit x" using assms(1) by (intro lit_ge_powi) simp_all
  have "lit x \<le> lit 32" using assms(2) by (rule mk_f64_mono)
  moreover have "lit 32 = Fin 32" using mk_f64_int [of 32] by simp
  ultimately have hi: "lit x \<le> Fin 32" by simp
  from lo hi show "is_finite (lit x)" by (cases "lit x") auto
  from lo show "0 < lit x" using powi_le_pos by (cases "lit x") (auto simp: zero_f64_def less_f64_def)
qed

text \<open>The rate cards that charge for CPUs by the cent.\<close>

definition cpu_card :: "string \<Rightarrow> bool" where
  "cpu_card c \<longleftrightarrow> c \<in> {''internal'', ''aws'', ''gcp'', ''azure''}"

lemma cpu_card_rates:
  assumes "cpu_card c"
  shows "\<exists>rate. rateCards c = Some rate \<and> Fin (2 powi (- 5)) \<le> rcd_CPUPerHour rate
    \<and> 0 < rcd_BasePerHour rate \<and> is_finite (rcd_BasePerHour rate)
    \<and> 0 < rcd_MemoryPerHour rate \<and> is_finite (rcd_MemoryPerHour rate)
    \<and> 0 < rcd_GPUPerHour rate \<and> is_finite (rcd_GPUPerHour rate)"
proof -
  have pw: "(2 :: rat) powi (- 5) = 1 / 32" "(2 :: rat) powi (- 10) = 1 / 1024" by (simp_all add: power_int_def field_simps)
  note r = lit_range [unfolded pw(2)]
  have cpu: "Fin (2 powi (- 5)) \<le> lit (4 / 10\<^sup>2)" "Fin (2 powi (- 5)) \<le> lit (5 / 10\<^sup>2)"
    by (rule lit_ge_powi; simp add: pw(1))+
  from assms consider "c = ''internal''" | "c = ''aws''" | "c = ''gcp''" | "c = ''azure''"
    by (auto simp: cpu_card_def)
  then show ?thesis
    by cases (use cpu in \<open>simp_all add: rateCards_def r\<close>)
qed

lemma assumedHours_range: "Fin (2 powi 0) \<le> assumedHours s" "0 < assumedHours s" "is_finite (assumedHours s)"
proof -
  have e: "lit 1 = Fin 1" "lit 24 = Fin 24" using mk_f64_int [of 1] mk_f64_int [of 24] by simp_all
  show "Fin (2 powi 0) \<le> assumedHours s" "0 < assumedHours s" "is_finite (assumedHours s)"
    by (simp_all add: assumedHours_def DefaultDurationHours_def e)
qed

lemma card_total_large:
  assumes "cpu_card c" "rateCards c = Some rate" "2 ^ 59 \<le> parseCPU (rr_CPU (ws_Requirements w))"
    and "0 \<le> gr_Count (rr_GPU (ws_Requirements w))"
  shows "Fin (2 powi 54) \<le> card_total w rate (assumedHours w)"
proof -
  let ?h = "assumedHours w" and ?r = "ws_Requirements w"
  obtain cpu: "Fin (2 powi (- 5)) \<le> rcd_CPUPerHour rate"
    and base: "0 < rcd_BasePerHour rate" "is_finite (rcd_BasePerHour rate)"
    and mem: "0 < rcd_MemoryPerHour rate" "is_finite (rcd_MemoryPerHour rate)"
    and gpu: "0 < rcd_GPUPerHour rate" "is_finite (rcd_GPUPerHour rate)"
    using cpu_card_rates [OF assms(1)] assms(2) by auto
  have h: "0 \<le> ?h" using assumedHours_range(2) [of w] by (cases ?h) (auto simp: zero_f64_def less_f64_def)
  have t0: "0 \<le> rcd_BasePerHour rate * ?h" using f64_pos_mult_nonneg [OF base] h by blast
  have n: "Fin (2 powi 59) \<le> f64_of_int (parseCPU (rr_CPU ?r))"
  proof -
    have "(2 :: rat) powi 59 \<le> of_int (parseCPU (rr_CPU ?r))"
      using assms(3) by (simp add: power_int_def)
    from lit_ge_powi [OF this] show ?thesis by (simp add: f64_of_int_def)
  qed
  have "Fin (2 powi (- 5 + 59)) \<le> rcd_CPUPerHour rate * f64_of_int (parseCPU (rr_CPU ?r))"
    using powi_le_mult [OF cpu n] by simp
  from powi_le_mult [OF this assumedHours_range(1) [of w]]
  have t1: "Fin (2 powi 54) \<le> rcd_CPUPerHour rate * f64_of_int (parseCPU (rr_CPU ?r)) * ?h" by simp
  have t2: "0 \<le> rcd_MemoryPerHour rate * parseMemoryGB (rr_Memory ?r) * ?h"
    using f64_pos_mult_nonneg [OF assumedHours_range(2,3)] f64_pos_mult_nonneg [OF mem parseMemoryGB_nonneg] by blast
  have "0 \<le> f64_of_int (gpu_count w)" using assms(4) by (intro f64_of_int_nonneg) (simp add: gpu_count_def Let_def)
  then have t3: "0 \<le> rcd_GPUPerHour rate * f64_of_int (gpu_count w) * ?h"
    using f64_pos_mult_nonneg [OF assumedHours_range(2,3)] f64_pos_mult_nonneg [OF gpu] by blast
  have "0 < rcd_CPUPerHour rate" using cpu powi_le_pos by (cases "rcd_CPUPerHour rate") (auto simp: zero_f64_def less_f64_def)
  then show ?thesis
    unfolding card_total_def Let_def using mem(1) gpu(1)
    by (simp only: if_True simp_thms split: if_split) (intro conjI impI powi_le_add t0 t1 t2 t3; simp)
qed

text \<open>
  On a target priced by CPU, a workload that asks for \<open>2 ^ 59\<close> CPUs or more, which the
  configuration accepts as a positive integer, is estimated at a negative amount: the conversion
  of the scaled amount to a 64-bit integer overflows. A negative estimate is the cheapest of all and
  passes every budget and the cost approval.
\<close>

theorem huge_cpu_estimate_negative:
  assumes "cpu_card (tc_RateCard t)" and "2 ^ 59 \<le> parseCPU (rr_CPU (ws_Requirements w))"
    and "0 \<le> gr_Count (rr_GPU (ws_Requirements w))"
  shows "ce_Value (EstimateCost w t None) < 0"
proof -
  obtain rate where r: "rateCards (tc_RateCard t) = Some rate" using cpu_card_rates [OF assms(1)] by blast
  have "Fin (2 powi 51) \<le> Fin (2 powi 54)" by (simp add: power_int_def)
  then have "Fin (2 powi 51) \<le> card_total w rate (assumedHours w)"
    using card_total_large [OF assms(1) r assms(2,3)] f64_le_trans by blast
  from roundCents_overflow [OF this] show ?thesis
    by (simp add: EstimateCost_def estimateFromRateCard_def r Let_def)
qed


definition huge_workload :: workload_spec where
  "huge_workload = \<lparr>ws_Name = ''w'', ws_DetectedKind = WorkloadKindJob, ws_Source = \<lparr>wsrc_Type = ''repo'', wsrc_Path = ''.''\<rparr>,
     ws_Runtime = RuntimePython, ws_Entrypoints = [],
     ws_Package = \<lparr>pp_Type = PackageTypeScript, pp_Dockerfile = '''', pp_BuildRequired = False, pp_BaseImage = ''''\<rparr>,
     ws_Command = [], ws_Ports = [],
     ws_Requirements = \<lparr>rr_CPU = ''9000000000000000000'', rr_Memory = '''', rr_Arch = '''',
       rr_GPU = \<lparr>gr_Required = False, gr_Count = 0, gr_Model = '''', gr_Framework = ''''\<rparr>,
       rr_Confidential = \<lparr>cr_Required = False, cr_Type = '''', cr_Profile = '''', cr_Attestation = '''', cr_Measurements = [], cr_MinTCB = 0\<rparr>,
       rr_Sandbox = False\<rparr>,
     ws_Secrets = [], ws_Data = [], ws_Outputs = [],
     ws_Shard = \<lparr>sh_Count = 0, sh_Discover = '''', sh_MaxParallel = 0, sh_Outputs = [], sh_OnShardFailure = ''''\<rparr>,
     ws_Env = Map.empty\<rparr>"

theorem huge_cpu_estimate_negative_witness:
  "cpu_card (tc_RateCard builtin_kubernetes) \<and> ce_Value (EstimateCost huge_workload builtin_kubernetes None) < 0"
proof -
  have "cpu_card (tc_RateCard builtin_kubernetes)" by code_simp
  moreover have "2 ^ 59 \<le> parseCPU (rr_CPU (ws_Requirements huge_workload))" by code_simp
  moreover have "0 \<le> gr_Count (rr_GPU (ws_Requirements huge_workload))" by code_simp
  ultimately show ?thesis using huge_cpu_estimate_negative by blast
qed

end
