(* ===== verification/Policy_Risk.thy ===== *)
theory Policy_Risk
  imports Cost_Estimate
begin

text \<open>
  The approval policy (\<^verbatim>\<open>internal/policy/gates.go\<close>) and the risk report (\<^verbatim>\<open>internal/risk/analyze.go\<close>) of a
  workload on a target: which requirements a plan must have approved before it runs, and which
  risks it shows its reader.
\<close>

section \<open>Policy gates\<close>

definition DefaultCostAutoApproveUSD :: f64 where
  "DefaultCostAutoApproveUSD = lit 5.0"

definition isExternalProvider :: "target_config \<Rightarrow> bool" where
  "isExternalProvider t =
     (case tc_Kind t of TargetKindCloudVM \<Rightarrow> True | TargetKindKubernetes \<Rightarrow> True | TargetKindSSH \<Rightarrow> True | _ \<Rightarrow> False)"

definition unconfirmed_cost_requirement :: policy_requirement where
  "unconfirmed_cost_requirement = \<lparr>pr_Name = ''unconfirmed-cost'',
     pr_Reason = ''cost estimate is unconfirmed (no live pricing); approval required before execution''\<rparr>"

definition cost_approval_requirement :: policy_requirement where
  "cost_approval_requirement = \<lparr>pr_Name = ''cost-approval'',
     pr_Reason = ''estimated cost exceeds auto-approve threshold''\<rparr>"

definition gpu_approval_requirement :: policy_requirement where
  "gpu_approval_requirement = \<lparr>pr_Name = ''gpu-approval'', pr_Reason = ''GPU workloads require approval''\<rparr>"

definition public_endpoint_requirement :: policy_requirement where
  "public_endpoint_requirement = \<lparr>pr_Name = ''public-endpoint'',
     pr_Reason = ''public endpoint exposure requires approval''\<rparr>"

definition secrets_on_external_requirement :: policy_requirement where
  "secrets_on_external_requirement = \<lparr>pr_Name = ''secrets-on-external'',
     pr_Reason = ''workload uses secrets on an external provider; approval required''\<rparr>"

definition Evaluate :: "workload_spec \<Rightarrow> target_config \<Rightarrow> cost_estimate \<Rightarrow> policy_requirement list" where
  "Evaluate w t est =
     (if ce_Confidence est = ConfidenceUnknown
         \<or> (ce_Confidence est = ConfidenceLow \<and> tc_Kind t = TargetKindCloudVM)
      then [unconfirmed_cost_requirement] else [])
     @ (if DefaultCostAutoApproveUSD < ce_Value est then [cost_approval_requirement] else [])
     @ (if gr_Required (rr_GPU (ws_Requirements w)) then [gpu_approval_requirement] else [])
     @ (if ws_DetectedKind w = WorkloadKindService \<and> nc_PublicEndpoint (cap_Networking (tc_Capabilities t))
        then [public_endpoint_requirement] else [])
     @ (if ws_Secrets w \<noteq> [] \<and> isExternalProvider t then [secrets_on_external_requirement] else [])"

section \<open>Risks\<close>

definition mk_risk :: "string \<Rightarrow> string \<Rightarrow> risk" where
  "mk_risk c d = \<lparr>rk_Category = c, rk_Description = d\<rparr>"

definition gpu_risks :: "workload_spec \<Rightarrow> target_config \<Rightarrow> cost_estimate \<Rightarrow> risk list" where
  "gpu_risks w t est =
     [mk_risk ''capacity-risk'' ''GPU availability may be limited; job could be queued'']
     @ (if gr_Model (rr_GPU (ws_Requirements w)) = ''''
        then [mk_risk ''right-sizing''
               (''GPU spec has no model '' @ em_dash @ '' planner picks the cheapest GPU instance, which may not match your performance expectation; set gpu.model (e.g. h100, a100, t4) to pin the tier'')]
        else [])
     @ (if tc_Kind t = TargetKindCloudVM \<and> ce_InstanceType est = ''''
        then [mk_risk ''gpu-unschedulable''
               (''no catalog instance matches the required GPU on this target; `dispatcher run` will refuse to provision '' @ em_dash @ '' pin a supported gpu.model or choose a provider with GPU inventory'')]
        else [])"

definition data_risks :: "data_requirement \<Rightarrow> risk list" where
  "data_risks d =
     (if dr_Kind d = ''s3'' \<or> dr_Kind d = ''gcs''
      then [mk_risk ''data-egress-risk'' (''data in '' @ dr_Details d @ '' may incur egress cost if target is in a different region'')] else [])
     @ (if dr_Kind d = ''database''
        then [mk_risk ''network-access-risk'' ''workload requires database access; target must have private network connectivity''] else [])"

definition Analyze :: "workload_spec \<Rightarrow> target_config \<Rightarrow> cost_estimate \<Rightarrow> bool \<Rightarrow> risk list" where
  "Analyze w t est spot =
     (if spot
      then [mk_risk ''spot-interruption''
             (''spot/preemptible instance can be reclaimed by the provider at any time; the run may be interrupted mid-execution '' @ em_dash
              @ '' only for restartable work, and pair with --retry-transient to auto re-provision (typical GPU reclaim: A100 ~15-20%, H100 <5%)'')]
      else [])
     @ (if ce_Confidence est = ConfidenceLow \<or> ce_Confidence est = ConfidenceUnknown
        then [mk_risk ''cost-uncertainty'' ''cost estimate has low confidence; actual cost may differ significantly''] else [])
     @ (if ws_DetectedKind w = WorkloadKindService
        then [mk_risk ''runtime-uncertainty'' ''runtime estimate is based on default assumptions for services''] else [])
     @ (if gr_Required (rr_GPU (ws_Requirements w)) then gpu_risks w t est else [])
     @ (if ws_Secrets w \<noteq> []
        then [mk_risk ''credential-risk'' ''workload references secrets that must be configured on the target''] else [])
     @ concat (map data_risks (ws_Data w))
     @ (if ws_DetectedKind w = WorkloadKindService \<and> nc_PublicEndpoint (cap_Networking (tc_Capabilities t))
        then [mk_risk ''public-endpoint-risk'' ''public endpoint exposure requires approval''] else [])
     @ (if pp_BuildRequired (ws_Package w) \<and> pp_Dockerfile (ws_Package w) = ''''
        then [mk_risk ''package-risk'' ''no Dockerfile found; container image must be generated, which may fail''] else [])
     @ (if cr_Required (rr_Confidential (ws_Requirements w))
        then [mk_risk ''confidential-disk-residual''
               (''confidential VM encrypts memory, but the OS disk is not yet host-opaque (confidential OS-disk encryption is not wired) '' @ em_dash
                @ '' keep durable secrets in memory (see docs/confidential-computing.md, N1)'')]
        else [])
     @ (if ws_Outputs w \<noteq> [] \<and> (tc_Kind t = TargetKindDocker \<or> tc_Kind t = TargetKindKubernetes)
        then [mk_risk ''outputs-unretrievable''
               (''workload declares outputs: but the '' @ target_kind_string (tc_Kind t)
                @ '' target does not retrieve artifacts and tears the container/pod down after the run '' @ em_dash
                @ '' declared results will be lost; use an ssh or cloud-vm target to collect them'')]
        else [])"

section \<open>What needs no approval\<close>

text \<open>
  The condition under which a run may start without anybody's consent: a confirmed price (a
  rough one off the cloud), at most the threshold, no GPU, no public endpoint, no secret leaving
  the machine.
\<close>

definition auto_approvable :: "workload_spec \<Rightarrow> target_config \<Rightarrow> cost_estimate \<Rightarrow> bool" where
  "auto_approvable w t est \<longleftrightarrow>
     ce_Confidence est \<noteq> ConfidenceUnknown
     \<and> (tc_Kind t = TargetKindCloudVM \<longrightarrow> ce_Confidence est \<noteq> ConfidenceLow)
     \<and> \<not> DefaultCostAutoApproveUSD < ce_Value est
     \<and> \<not> gr_Required (rr_GPU (ws_Requirements w))
     \<and> \<not> (ws_DetectedKind w = WorkloadKindService \<and> nc_PublicEndpoint (cap_Networking (tc_Capabilities t)))
     \<and> (ws_Secrets w = [] \<or> tc_Kind t \<notin> {TargetKindCloudVM, TargetKindKubernetes, TargetKindSSH})"

lemma isExternalProvider_iff:
  "isExternalProvider t \<longleftrightarrow> tc_Kind t \<in> {TargetKindCloudVM, TargetKindKubernetes, TargetKindSSH}"
  by (cases "tc_Kind t") (auto simp: isExternalProvider_def)

lemma Evaluate_Nil_iff: "Evaluate w t est = [] \<longleftrightarrow> auto_approvable w t est"
  by (auto simp: Evaluate_def auto_approvable_def isExternalProvider_iff)

end
