(* ===== verification/Workload_Config.thy ===== *)
theory Workload_Config
  imports Cost_Estimate
begin

text \<open>
  What a project tells the program about its workload: the \<^verbatim>\<open>dispatcher.yaml\<close> file
  (\<^verbatim>\<open>internal/workload/config.go\<close>: environment references, validation, the merge into the detected
  workload), the \<^verbatim>\<open>.env\<close> files (\<^verbatim>\<open>env.go\<close>) and the assembly of the detected workload
  (\<^verbatim>\<open>inspect.go\<close>). YAML decoding is the \<^verbatim>\<open>yaml.v3\<close> package's, an argument of \<^verbatim>\<open>LoadConfig\<close>;
  the results of the source scans (\<^verbatim>\<open>DetectRuntime\<close>, \<^verbatim>\<open>DetectPorts\<close>, \<^verbatim>\<open>DetectSecrets\<close> and so on)
  are a record the inspection reads.
\<close>

section \<open>Environment references\<close>

datatype env_ref_error = LineBreak string | UndefinedVar string

text \<open>\<^verbatim>\<open>strings.Cut(inner, ":-")\<close>.\<close>

fun cut_default :: "string \<Rightarrow> string \<times> string option" where
  "cut_default [] = ([], None)"
| "cut_default (c # s) =
     (if strings_HasPrefix (c # s) '':-'' then ([], Some (tl s))
      else let (name, d) = cut_default s in (c # name, d))"

definition has_line_break :: "string \<Rightarrow> bool" where
  "has_line_break v = strings_ContainsAny v [newline, CHR 0x0D]"

definition env_replacement :: "(string \<Rightarrow> string option) \<Rightarrow> string \<Rightarrow> env_ref_error + string" where
  "env_replacement env inner =
     (let (name, d) = cut_default inner
      in case env name of
           Some v \<Rightarrow> if has_line_break v then Inl (LineBreak name) else Inr v
         | None \<Rightarrow>
             (case d of
                Some v \<Rightarrow> if has_line_break v then Inl (LineBreak name) else Inr v
              | None \<Rightarrow> Inl (UndefinedVar name)))"

text \<open>
  The leftmost matches of \<^verbatim>\<open>\\$\{([^\}]+)\}\<close>, replaced from left to right: the first error met and the
  text with the replacements made.
\<close>

definition ref_body :: "string \<Rightarrow> string" where
  "ref_body s = takeWhile (\<lambda>c. c \<noteq> CHR ''}'') (drop 2 s)"

definition is_ref :: "string \<Rightarrow> bool" where
  "is_ref s = (strings_HasPrefix s ''${'' \<and> ref_body s \<noteq> [] \<and> length (ref_body s) + 2 < length s)"

function expand_loop ::
  "(string \<Rightarrow> string option) \<Rightarrow> env_ref_error option \<Rightarrow> string \<Rightarrow> env_ref_error option \<times> string" where
  "expand_loop env e [] = (e, [])"
| "expand_loop env e (c # s) =
     (if is_ref (c # s)
      then let body = ref_body (c # s); rest = drop (length body + 2) s
           in case env_replacement env body of
                Inr v \<Rightarrow> let (e', out) = expand_loop env e rest in (e', v @ out)
              | Inl err \<Rightarrow>
                  let (e', out) = expand_loop env (case e of None \<Rightarrow> Some err | Some x \<Rightarrow> Some x) rest
                  in (e', take (length body + 3) (c # s) @ out)
      else let (e', out) = expand_loop env e s in (e', c # out))"
  by pat_completeness auto
termination
  by (relation "measure (\<lambda>(env, e, s). length s)") auto

definition expandEnvRefs :: "(string \<Rightarrow> string option) \<Rightarrow> string \<Rightarrow> env_ref_error + string" where
  "expandEnvRefs env raw =
     (case expand_loop env None raw of (Some e, _) \<Rightarrow> Inl e | (None, out) \<Rightarrow> Inr out)"

section \<open>The configuration\<close>

record dispatch_gpu_config =
  dg_Count :: int
  dg_Model :: string
  dg_Framework :: string

record dispatch_confidential_config =
  dcc_Type :: string
  dcc_Profile :: string
  dcc_Attestation :: string
  dcc_Measurements :: "string list"
  dcc_MinTCB :: "64 word"

record dispatch_shard_config =
  ds_Count :: int
  ds_Discover :: string
  ds_MaxParallel :: int

record dispatch_aggregate_config =
  da_Outputs :: "string list"
  da_OnShardFailure :: string

record dispatcher_config =
  dc_Name :: string
  dc_Image :: string
  dc_Command :: "string list"
  dc_CPU :: string
  dc_Memory :: string
  dc_Arch :: string
  dc_GPU :: "dispatch_gpu_config option"
  dc_Service :: "int option"
  dc_Sandbox :: bool
  dc_Confidential :: "dispatch_confidential_config option"
  dc_Spot :: bool
  dc_MaxCost :: f64
  dc_MaxTime :: string
  dc_Target :: string
  dc_Region :: string
  dc_Outputs :: "string list"
  dc_WatchdogTTL :: string
  dc_RetryTransientFailures :: "bool option"
  dc_Shard :: "dispatch_shard_config option"
  dc_Aggregate :: "dispatch_aggregate_config option"
  dc_Secrets :: "(string \<times> string list) list"

definition dispatcher_config_zero :: dispatcher_config where
  "dispatcher_config_zero = \<lparr>dc_Name = [], dc_Image = [], dc_Command = [], dc_CPU = [], dc_Memory = [], dc_Arch = [],
     dc_GPU = None, dc_Service = None, dc_Sandbox = False, dc_Confidential = None, dc_Spot = False, dc_MaxCost = 0,
     dc_MaxTime = [], dc_Target = [], dc_Region = [], dc_Outputs = [], dc_WatchdogTTL = [],
     dc_RetryTransientFailures = None, dc_Shard = None, dc_Aggregate = None, dc_Secrets = []\<rparr>"

datatype config_error =
    BadImage string | BadCPU string | BadMemory string | MemoryNotPositive string | BadArch string
  | NegativeMaxCost f64 | BadMaxTime string string | BadWatchdogTTL string string
  | PortOutOfRange int | NegativeGPUCount
  | BadConfidentialType string | BadConfidentialProfile string | BadAttestation string
  | NegativeShardCount int | ShardCountTooLarge int | NegativeMaxParallel int | BadOnShardFailure string

definition maxShardCount :: int where
  "maxShardCount = 10000"

definition image_char :: "char \<Rightarrow> bool" where
  "image_char c = (ascii_letter_or_digit c \<or> List.member ''._/:@-'' c)"

definition isSafeImageRef :: "string \<Rightarrow> bool" where
  "isSafeImageRef s = (s \<noteq> [] \<and> hd s \<noteq> CHR ''-'' \<and> list_all image_char s)"

text \<open>
  The first group of \<^verbatim>\<open>(?i)^([0-9]+(?:\\.[0-9]+)?)(?:g|gi|gb|m|mi|mb)?$\<close>, when the pattern matches.
\<close>

definition resourceMemoryPattern :: "string \<Rightarrow> string option" where
  "resourceMemoryPattern s =
     (let ds = takeWhile is_digit s; r = drop (length ds) s;
          fs = (if strings_HasPrefix r ''.'' then takeWhile is_digit (tl r) else []);
          num = (if fs = [] then ds else ds @ ''.'' @ fs)
      in if ds \<noteq> [] \<and> List.member ['''', ''g'', ''gi'', ''gb'', ''m'', ''mi'', ''mb''] (strings_ToLower (drop (length num) s))
         then Some num else None)"

text \<open>The checks of \<^verbatim>\<open>Validate\<close>, in its order; the first that fails is the error.\<close>

definition check_resources :: "dispatcher_config \<Rightarrow> config_error list" where
  "check_resources c =
     (if dc_Image c \<noteq> [] \<and> \<not> isSafeImageRef (dc_Image c) then [BadImage (dc_Image c)] else [])
     @ (if dc_CPU c \<noteq> []
        then (case strconv_Atoi (strings_TrimSpace (dc_CPU c)) of
                None \<Rightarrow> [BadCPU (dc_CPU c)]
              | Some cpu \<Rightarrow> if cpu \<le> 0 then [BadCPU (dc_CPU c)] else [])
        else [])
     @ (if dc_Memory c \<noteq> []
        then (case resourceMemoryPattern (strings_TrimSpace (dc_Memory c)) of
                None \<Rightarrow> [BadMemory (dc_Memory c)]
              | Some m \<Rightarrow>
                  (case ParseFloat_plain m of
                     None \<Rightarrow> [MemoryNotPositive (dc_Memory c)]
                   | Some v \<Rightarrow> if v \<le> 0 then [MemoryNotPositive (dc_Memory c)] else []))
        else [])
     @ (if List.member ['''', ''x86_64'', ''arm64''] (dc_Arch c) then [] else [BadArch (dc_Arch c)])"

definition check_limits :: "dispatcher_config \<Rightarrow> config_error list" where
  "check_limits c =
     (if dc_MaxCost c < 0 then [NegativeMaxCost (dc_MaxCost c)] else [])
     @ (if dc_MaxTime c \<noteq> []
        then (case ParseDuration (dc_MaxTime c) of Inl e \<Rightarrow> [BadMaxTime (dc_MaxTime c) e] | Inr _ \<Rightarrow> []) else [])
     @ (if dc_WatchdogTTL c \<noteq> []
        then (case ParseDuration (dc_WatchdogTTL c) of Inl e \<Rightarrow> [BadWatchdogTTL (dc_WatchdogTTL c) e] | Inr _ \<Rightarrow> []) else [])
     @ (case dc_Service c of
          Some p \<Rightarrow> if p < 0 \<or> 65535 < p then [PortOutOfRange p] else []
        | None \<Rightarrow> [])
     @ (case dc_GPU c of Some g \<Rightarrow> if dg_Count g < 0 then [NegativeGPUCount] else [] | None \<Rightarrow> [])"

definition check_confidential :: "dispatcher_config \<Rightarrow> config_error list" where
  "check_confidential c =
     (case dc_Confidential c of
        None \<Rightarrow> []
      | Some k \<Rightarrow>
          (if List.member ['''', ''any'', ''sev'', ''sev-snp'', ''tdx''] (dcc_Type k) then [] else [BadConfidentialType (dcc_Type k)])
          @ (if List.member ['''', ''azure-snp'', ''nitro''] (dcc_Profile k) then [] else [BadConfidentialProfile (dcc_Profile k)])
          @ (if List.member ['''', ''required'', ''off''] (dcc_Attestation k) then [] else [BadAttestation (dcc_Attestation k)]))"

definition check_shards :: "dispatcher_config \<Rightarrow> config_error list" where
  "check_shards c =
     (case dc_Shard c of
        None \<Rightarrow> []
      | Some s \<Rightarrow>
          (if ds_Count s < 0 then [NegativeShardCount (ds_Count s)] else [])
          @ (if maxShardCount < ds_Count s then [ShardCountTooLarge (ds_Count s)] else [])
          @ (if ds_MaxParallel s < 0 then [NegativeMaxParallel (ds_MaxParallel s)] else []))
     @ (case dc_Aggregate c of
          None \<Rightarrow> []
        | Some a \<Rightarrow>
            if List.member ['''', ''fail'', ''retry'', ''continue''] (da_OnShardFailure a) then []
            else [BadOnShardFailure (da_OnShardFailure a)])"

definition Validate :: "dispatcher_config \<Rightarrow> config_error option" where
  "Validate c =
     (case check_resources c @ check_limits c @ check_confidential c @ check_shards c of
        [] \<Rightarrow> None | e # _ \<Rightarrow> Some e)"

section \<open>Loading the configuration\<close>

text \<open>The outcome of \<^verbatim>\<open>os.ReadFile\<close>.\<close>

datatype file_read = FileNotExist | FileUnreadable string | FileData string

datatype load_error =
    ConfigUnreadable string string | ConfigEnvRef string env_ref_error
  | ConfigUndecodable string string | ConfigInvalid string config_error

fun load_config_loop ::
  "(string \<Rightarrow> string option) \<Rightarrow> (string \<Rightarrow> dispatcher_config result) \<Rightarrow> (string \<Rightarrow> file_read) \<Rightarrow> string \<Rightarrow>
   string list \<Rightarrow> load_error + dispatcher_config option" where
  "load_config_loop env decode read dir [] = Inr None"
| "load_config_loop env decode read dir (name # names) =
     (let path = filepath_Join dir name
      in case read path of
           FileNotExist \<Rightarrow> load_config_loop env decode read dir names
         | FileUnreadable e \<Rightarrow> Inl (ConfigUnreadable path e)
         | FileData raw \<Rightarrow>
             (case expandEnvRefs env raw of
                Inl e \<Rightarrow> Inl (ConfigEnvRef path e)
              | Inr doc \<Rightarrow>
                  (case decode doc of
                     Inl e \<Rightarrow> Inl (ConfigUndecodable path e)
                   | Inr cfg \<Rightarrow>
                       (case Validate cfg of
                          Some e \<Rightarrow> Inl (ConfigInvalid path e)
                        | None \<Rightarrow> Inr (Some cfg)))))"

definition LoadConfig ::
  "(string \<Rightarrow> string option) \<Rightarrow> (string \<Rightarrow> dispatcher_config result) \<Rightarrow> (string \<Rightarrow> file_read) \<Rightarrow> string \<Rightarrow>
   load_error + dispatcher_config option" where
  "LoadConfig env decode read dir = load_config_loop env decode read dir [''dispatcher.yaml'', ''dispatcher.yml'']"

section \<open>Outputs\<close>

definition filepath_IsAbs :: "string \<Rightarrow> bool" where
  "filepath_IsAbs p = strings_HasPrefix p ''/''"

definition sanitizeOutputs :: "string list \<Rightarrow> string list" where
  "sanitizeOutputs ps = filter (\<lambda>p. p \<noteq> [] \<and> \<not> filepath_IsAbs p \<and> \<not> strings_Contains p ''..'') ps"

fun merge_loop :: "string list \<Rightarrow> string list \<Rightarrow> string list" where
  "merge_loop out [] = out"
| "merge_loop out (p # ps) = merge_loop (if List.member out p then out else out @ [p]) ps"

definition mergeOutputs :: "string list \<Rightarrow> string list \<Rightarrow> string list" where
  "mergeOutputs existing additional = merge_loop [] (existing @ additional)"

section \<open>Merging the configuration into the workload\<close>

definition apply_command :: "dispatcher_config \<Rightarrow> workload_spec \<Rightarrow> workload_spec" where
  "apply_command cfg spec =
     (if dc_Command cfg = [] then spec
      else spec\<lparr>ws_Command := dc_Command cfg,
             ws_DetectedKind :=
               (if ws_DetectedKind spec = WorkloadKindOther [] \<or> ws_DetectedKind spec = WorkloadKindUnknown
                then WorkloadKindScript else ws_DetectedKind spec)\<rparr>)"

definition apply_resources :: "dispatcher_config \<Rightarrow> workload_spec \<Rightarrow> workload_spec" where
  "apply_resources cfg spec =
     (let r = ws_Requirements spec
      in spec\<lparr>ws_Requirements :=
           r\<lparr>rr_CPU := (if dc_CPU cfg \<noteq> [] then dc_CPU cfg else rr_CPU r),
             rr_Memory := (if dc_Memory cfg \<noteq> [] then dc_Memory cfg else rr_Memory r),
             rr_Arch := (if dc_Arch cfg \<noteq> [] then dc_Arch cfg else rr_Arch r)\<rparr>\<rparr>)"

definition apply_image :: "dispatcher_config \<Rightarrow> workload_spec \<Rightarrow> workload_spec" where
  "apply_image cfg spec =
     (if dc_Image cfg = [] then spec
      else spec\<lparr>ws_Package := \<lparr>pp_Type = PackageTypeImage, pp_Dockerfile = [], pp_BuildRequired = False, pp_BaseImage = dc_Image cfg\<rparr>,
             ws_DetectedKind := (if ws_DetectedKind spec = WorkloadKindUnknown then WorkloadKindScript else ws_DetectedKind spec)\<rparr>)"

definition apply_confidential :: "dispatcher_config \<Rightarrow> workload_spec \<Rightarrow> workload_spec" where
  "apply_confidential cfg spec =
     (case dc_Confidential cfg of
        None \<Rightarrow> spec
      | Some k \<Rightarrow>
          spec\<lparr>ws_Requirements := (ws_Requirements spec)\<lparr>rr_Confidential :=
            \<lparr>cr_Required = True, cr_Type = dcc_Type k, cr_Profile = dcc_Profile k,
             cr_Attestation = (if dcc_Attestation k = [] then ''required'' else dcc_Attestation k),
             cr_Measurements = dcc_Measurements k, cr_MinTCB = dcc_MinTCB k\<rparr>\<rparr>\<rparr>)"

definition apply_shard :: "dispatcher_config \<Rightarrow> workload_spec \<Rightarrow> workload_spec" where
  "apply_shard cfg spec =
     (case dc_Shard cfg of
        None \<Rightarrow> spec
      | Some s \<Rightarrow> spec\<lparr>ws_Shard := (ws_Shard spec)\<lparr>sh_Count := ds_Count s, sh_Discover := ds_Discover s,
                     sh_MaxParallel := ds_MaxParallel s\<rparr>\<rparr>)"

definition apply_aggregate :: "dispatcher_config \<Rightarrow> workload_spec \<Rightarrow> workload_spec" where
  "apply_aggregate cfg spec =
     (case dc_Aggregate cfg of
        None \<Rightarrow> spec
      | Some a \<Rightarrow>
          let outs = sanitizeOutputs (da_Outputs a)
          in spec\<lparr>ws_Shard := (ws_Shard spec)\<lparr>sh_Outputs := outs, sh_OnShardFailure := da_OnShardFailure a\<rparr>,
               ws_Outputs := outs\<rparr>)"

definition apply_gpu :: "dispatcher_config \<Rightarrow> workload_spec \<Rightarrow> workload_spec" where
  "apply_gpu cfg spec =
     (case dc_GPU cfg of
        None \<Rightarrow> spec
      | Some g \<Rightarrow>
          spec\<lparr>ws_Requirements := (ws_Requirements spec)\<lparr>rr_GPU :=
            \<lparr>gr_Required = True, gr_Count = (if dg_Count g = 0 then 1 else dg_Count g), gr_Model = dg_Model g,
             gr_Framework = dg_Framework g\<rparr>\<rparr>,
            ws_DetectedKind := WorkloadKindGPUJob\<rparr>)"

definition apply_service :: "dispatcher_config \<Rightarrow> workload_spec \<Rightarrow> workload_spec" where
  "apply_service cfg spec =
     (case dc_Service cfg of
        None \<Rightarrow> spec
      | Some port \<Rightarrow>
          if 0 < port
          then spec\<lparr>ws_Ports := (if List.member (ws_Ports spec) port then ws_Ports spec else ws_Ports spec @ [port]),
                 ws_DetectedKind := WorkloadKindService\<rparr>
          else spec)"

definition apply_sandbox :: "dispatcher_config \<Rightarrow> workload_spec \<Rightarrow> workload_spec" where
  "apply_sandbox cfg spec =
     (if dc_Sandbox cfg then spec\<lparr>ws_Requirements := (ws_Requirements spec)\<lparr>rr_Sandbox := True\<rparr>\<rparr> else spec)"

definition apply_outputs :: "dispatcher_config \<Rightarrow> workload_spec \<Rightarrow> workload_spec" where
  "apply_outputs cfg spec =
     (if dc_Outputs cfg = [] then spec
      else spec\<lparr>ws_Outputs := mergeOutputs (sanitizeOutputs (dc_Outputs cfg)) (sh_Outputs (ws_Shard spec))\<rparr>)"

definition ApplyConfig :: "dispatcher_config \<Rightarrow> workload_spec \<Rightarrow> workload_spec" where
  "ApplyConfig cfg spec =
     (let named = (if dc_Name cfg \<noteq> [] then spec\<lparr>ws_Name := dc_Name cfg\<rparr> else spec)
      in fold (\<lambda>f. f cfg)
           [apply_command, apply_resources, apply_image, apply_confidential, apply_shard, apply_aggregate,
            apply_gpu, apply_service, apply_sandbox, apply_outputs] named)"


section \<open>Environment files (env.go)\<close>

text \<open>
  \<^verbatim>\<open>bufio.Scanner\<close> with its default limit: the lines of a text, without the final empty one and
  without a trailing carriage return, up to the first that does not fit the buffer.
\<close>

definition max_scan_token :: nat where
  "max_scan_token = 65536"

definition text_lines :: "string \<Rightarrow> string list" where
  "text_lines s = (let ls = strings_Split newline s in if last ls = [] then butlast ls else ls)"

definition scanner_lines :: "nat \<Rightarrow> string \<Rightarrow> string list \<times> bool" where
  "scanner_lines limit s =
     (let ls = text_lines s; fit = takeWhile (\<lambda>l. length l < limit) ls
      in (map (\<lambda>l. strings_TrimSuffix l [CHR 0x0D]) fit, length fit < length ls))"

definition env_key_start :: "char \<Rightarrow> bool" where
  "env_key_start c = (ascii_letter_or_digit c \<and> \<not> is_digit c \<or> c = CHR ''_'')"

definition isValidEnvKey :: "string \<Rightarrow> bool" where
  "isValidEnvKey k =
     (case k of [] \<Rightarrow> False | c # s \<Rightarrow> env_key_start c \<and> list_all (\<lambda>d. env_key_start d \<or> is_digit d) s)"

definition strings_Trim :: "string \<Rightarrow> string \<Rightarrow> string" where
  "strings_Trim s cs = rev (dropWhile (List.member cs) (rev (dropWhile (List.member cs) s)))"

datatype env_file = EnvAbsent | EnvSymlink | EnvUnopenable string | EnvText string

datatype dotenv_error = EnvIsSymlink string | EnvOpen string string | EnvBadKey string string | EnvTooLong string

fun dotenv_lines :: "string \<Rightarrow> (string \<rightharpoonup> string) \<Rightarrow> string list \<Rightarrow> dotenv_error + (string \<rightharpoonup> string)" where
  "dotenv_lines path out [] = Inr out"
| "dotenv_lines path out (l # ls) =
     (let line = strings_TrimSpace l; lhs = takeWhile (\<lambda>c. c \<noteq> CHR ''='') line
      in if line = [] \<or> strings_HasPrefix line ''#'' \<or> lhs = [] \<or> lhs = line then dotenv_lines path out ls
         else let key = strings_TrimSpace lhs
              in if isValidEnvKey key
                 then dotenv_lines path
                        (out(key \<mapsto> strings_Trim (strings_TrimSpace (drop (length lhs + 1) line)) [quote_char, CHR 0x27])) ls
                 else Inl (EnvBadKey key path))"

fun dotenv_files ::
  "(string \<Rightarrow> env_file) \<Rightarrow> string \<Rightarrow> (string \<rightharpoonup> string) \<Rightarrow> string list \<Rightarrow> dotenv_error + (string \<rightharpoonup> string)" where
  "dotenv_files files dir out [] = Inr out"
| "dotenv_files files dir out (name # names) =
     (let path = filepath_Join dir name
      in case files path of
           EnvSymlink \<Rightarrow> Inl (EnvIsSymlink path)
         | EnvAbsent \<Rightarrow> dotenv_files files dir out names
         | EnvUnopenable e \<Rightarrow> Inl (EnvOpen path e)
         | EnvText s \<Rightarrow>
             (let (ls, too_long) = scanner_lines max_scan_token s
              in case dotenv_lines path out ls of
                   Inl e \<Rightarrow> Inl e
                 | Inr out' \<Rightarrow> if too_long then Inl (EnvTooLong path) else dotenv_files files dir out' names))"

definition LoadDotEnv :: "(string \<Rightarrow> env_file) \<Rightarrow> string \<Rightarrow> dotenv_error + (string \<rightharpoonup> string)" where
  "LoadDotEnv files dir = dotenv_files files dir Map.empty [''.env'', ''.env.local'']"

section \<open>Substitution adds no line\<close>

lemma cut_default_set: "cut_default s = (name, Some d) \<Longrightarrow> set d \<subseteq> set s"
proof (induction s arbitrary: name d)
  case (Cons c s)
  show ?case
  proof (cases "strings_HasPrefix (c # s) '':-''")
    case True
    then show ?thesis using Cons.prems by (cases s) auto
  next
    case False
    then show ?thesis using Cons by (auto split: prod.splits)
  qed
qed simp

lemma env_replacement_no_break: "env_replacement env b = Inr v \<Longrightarrow> newline \<notin> set v"
  by (auto simp: env_replacement_def has_line_break_def strings_ContainsAny_iff
      split: prod.splits option.splits if_splits)

lemma expand_loop_error: "fst (expand_loop env (Some x) t) = Some x"
  by (induction env "Some x" t rule: expand_loop.induct) (auto simp: Let_def split: sum.splits prod.splits)

lemma expand_loop_lines:
  "expand_loop env e s = (None, out) \<Longrightarrow> count_list out newline \<le> count_list s newline"
proof (induction env e s arbitrary: out rule: expand_loop.induct)
  case (1 env e)
  then show ?case by simp
next
  case (2 env e c s)
  have split: "count_list s newline = count_list (take k s) newline + count_list (drop k s) newline" for k
    by (metis append_take_drop_id count_list_append)
  show ?case
  proof (cases "is_ref (c # s)")
    case False
    obtain e' o' where r: "expand_loop env e s = (e', o')" by (cases "expand_loop env e s")
    with 2(3) [OF False, of o'] 2(4) False show ?thesis by auto
  next
    case True
    let ?b = "ref_body (c # s)"
    show ?thesis
    proof (cases "env_replacement env ?b")
      case (Inr v)
      obtain e' o' where r: "expand_loop env e (drop (length ?b + 2) s) = (e', o')" by (cases "expand_loop env e (drop (length ?b + 2) s)")
      have "count_list v newline = 0" using env_replacement_no_break [OF Inr] by (simp add: count_list_0_iff)
      with 2(2) [OF True refl refl Inr, of o'] r 2(4) True Inr show ?thesis
        using split [of "length ?b + 2"] by (auto simp: Let_def)
    next
      case (Inl err)
      have "\<exists>e' o'. expand_loop env (case e of None \<Rightarrow> Some err | Some x \<Rightarrow> Some x) t = (Some e', o')" for t
        by (cases e) (simp_all add: expand_loop_error prod_eq_iff)
      then obtain e' o' where "expand_loop env (case e of None \<Rightarrow> Some err | Some x \<Rightarrow> Some x)
          (drop (length ?b + 2) s) = (Some e', o')" by blast
      with 2(4) True Inl show ?thesis by (simp add: Let_def)
    qed
  qed
qed


text \<open>
  Environment references are substituted into the raw text of \<^verbatim>\<open>dispatcher.yaml\<close> before it is
  parsed. A successful substitution never adds a line to it, whatever the environment holds, so that
  no value can add a top-level key such as a higher cost cap.
\<close>

theorem env_refs_add_no_line:
  assumes "expandEnvRefs env raw = Inr doc"
  shows "count_list doc newline \<le> count_list raw newline"
proof -
  from assms have "expand_loop env None raw = (None, doc)"
    by (auto simp: expandEnvRefs_def split: prod.splits option.splits)
  then show ?thesis by (rule expand_loop_lines)
qed

definition demo_vars :: "string \<Rightarrow> string option" where
  "demo_vars = map_of [(''CAP'', ''5'')]"

theorem env_refs_add_no_line_witness:
  "expandEnvRefs demo_vars ''maxCost: ${CAP}, region: ${R:-eu}'' = Inr ''maxCost: 5, region: eu''
   \<and> count_list ''maxCost: 5, region: eu'' newline \<le> count_list ''maxCost: ${CAP}, region: ${R:-eu}'' newline"
proof -
  have e: "expandEnvRefs demo_vars ''maxCost: ${CAP}, region: ${R:-eu}'' = Inr ''maxCost: 5, region: eu''" by code_simp
  from e env_refs_add_no_line [OF e] show ?thesis by (rule conjI)
qed

section \<open>Environment keys are shell words\<close>

text \<open>The names a shell accepts on the left of an assignment.\<close>

definition posix_char :: "char \<Rightarrow> bool" where
  "posix_char c \<longleftrightarrow> CHR ''A'' \<le> c \<and> c \<le> CHR ''Z'' \<or> CHR ''a'' \<le> c \<and> c \<le> CHR ''z''
     \<or> CHR ''0'' \<le> c \<and> c \<le> CHR ''9'' \<or> c = CHR ''_''"

definition posix_name :: "string \<Rightarrow> bool" where
  "posix_name k \<longleftrightarrow> k \<noteq> [] \<and> \<not> (CHR ''0'' \<le> hd k \<and> hd k \<le> CHR ''9'') \<and> (\<forall>c\<in>set k. posix_char c)"

lemma of_char_int: "(of_char c :: int) = int (of_char c)"
  by (rule of_nat_of_char [symmetric])

lemma is_digit_le: "is_digit c \<longleftrightarrow> CHR ''0'' \<le> c \<and> c \<le> CHR ''9''"
  unfolding is_digit_def Let_def of_char_int less_eq_char_def by simp

lemma env_key_char: "env_key_start c \<or> is_digit c \<longleftrightarrow> posix_char c"
  unfolding posix_char_def env_key_start_def is_digit_le ascii_letter_or_digit_def Let_def less_eq_char_def by auto

lemma isValidEnvKey_posix: "isValidEnvKey k \<longleftrightarrow> posix_name k"
proof (cases k)
  case (Cons c s)
  have "env_key_start c \<longleftrightarrow> posix_char c \<and> \<not> is_digit c"
    unfolding env_key_char [symmetric] by (auto simp: env_key_start_def is_digit_def)
  then show ?thesis
    unfolding isValidEnvKey_def posix_name_def Cons list.case list_all_iff env_key_char
    by (auto simp: is_digit_le [symmetric])
qed (simp add: isValidEnvKey_def posix_name_def)

definition env_map_ok :: "(string \<rightharpoonup> string) \<Rightarrow> bool" where
  "env_map_ok m \<longleftrightarrow> (\<forall>k v. m k = Some v \<longrightarrow> posix_name k \<and> newline \<notin> set v)"

lemma set_TrimSpace: "set (strings_TrimSpace s) \<subseteq> set s"
  unfolding strings_TrimSpace_def by (metis set_dropWhileD set_rev subsetI)

lemma set_Trim: "set (strings_Trim s cs) \<subseteq> set s"
  unfolding strings_Trim_def by (metis set_dropWhileD set_rev subsetI)

lemma dotenv_lines_ok:
  "dotenv_lines path out ls = Inr out' \<Longrightarrow> env_map_ok out \<Longrightarrow> \<forall>l\<in>set ls. newline \<notin> set l \<Longrightarrow> env_map_ok out'"
proof (induction ls arbitrary: out)
  case (Cons l ls)
  let ?line = "strings_TrimSpace l"
  let ?v = "strings_Trim (strings_TrimSpace (drop (length (takeWhile (\<lambda>c. c \<noteq> CHR ''='') ?line) + 1) ?line)) [quote_char, CHR 0x27]"
  have "set ?v \<subseteq> set l"
    using set_Trim set_TrimSpace set_drop_subset by (metis subset_trans)
  then have v: "newline \<notin> set ?v" using Cons.prems(3) by auto
  have "env_map_ok (out(k \<mapsto> ?v))" if "isValidEnvKey k" for k
    using Cons.prems(2) v that [unfolded isValidEnvKey_posix] by (auto simp: env_map_ok_def)
  then show ?case
    using Cons by (auto simp: Let_def split: if_splits)
qed simp

lemma strings_Split_no_sep: "l \<in> set (strings_Split c s) \<Longrightarrow> c \<notin> set l"
  by (induction s arbitrary: l) (auto split: if_splits list.splits)

lemma scanner_lines_no_newline: "l \<in> set (fst (scanner_lines n s)) \<Longrightarrow> newline \<notin> set l"
proof -
  assume "l \<in> set (fst (scanner_lines n s))"
  then obtain l0 where l0: "l0 \<in> set (text_lines s)" and l: "l = strings_TrimSuffix l0 [CHR 0x0D]"
    by (auto simp: scanner_lines_def Let_def dest: set_takeWhileD)
  have "l0 \<in> set (strings_Split newline s)"
    using l0 by (auto simp: text_lines_def Let_def split: if_splits dest: in_set_butlastD)
  then have "newline \<notin> set l0" by (rule strings_Split_no_sep)
  then show ?thesis unfolding l by (auto simp: strings_TrimSuffix_def dest: in_set_takeD)
qed

lemma dotenv_files_ok:
  "dotenv_files files dir out names = Inr out' \<Longrightarrow> env_map_ok out \<Longrightarrow> env_map_ok out'"
proof (induction names arbitrary: out)
  case (Cons name names)
  then show ?case
    by (auto simp: Let_def split: env_file.splits sum.splits prod.splits if_splits)
      (metis dotenv_lines_ok fst_conv scanner_lines_no_newline)
qed simp

text \<open>
  Every variable a project's \<^verbatim>\<open>.env\<close> files define has a POSIX name and a value on one line: the
  names are written verbatim into the \<^verbatim>\<open>export\<close> lines of a remote shell script, where any other name
  could inject a command.
\<close>

theorem dotenv_names_safe:
  assumes "LoadDotEnv files dir = Inr env" and "env k = Some v"
  shows "posix_name k \<and> newline \<notin> set v"
proof -
  have "env_map_ok env"
    using assms(1) unfolding LoadDotEnv_def by (rule dotenv_files_ok) (simp add: env_map_ok_def)
  with assms(2) show ?thesis by (simp add: env_map_ok_def)
qed

definition demo_env_files :: "string \<Rightarrow> env_file" where
  "demo_env_files p = (if p = ''p/.env'' then EnvText (''API_KEY = abc'' @ [newline]) else EnvAbsent)"

theorem dotenv_names_safe_witness:
  "\<exists>env. LoadDotEnv demo_env_files ''p'' = Inr env \<and> env ''API_KEY'' = Some ''abc'' \<and> posix_name ''API_KEY''"
proof -
  have l: "LoadDotEnv demo_env_files ''p'' = Inr (Map.empty(''API_KEY'' \<mapsto> ''abc''))"
  proof -
    have "text_lines (''API_KEY = abc'' @ [newline]) = [''API_KEY = abc'']" by code_simp
    then have r: "scanner_lines max_scan_token (''API_KEY = abc'' @ [newline]) = ([''API_KEY = abc''], False)"
      by (simp add: scanner_lines_def max_scan_token_def strings_TrimSuffix_def strings_HasSuffix_def strings_HasPrefix_def)
    have f: "demo_env_files (filepath_Join ''p'' ''.env'') = EnvText (''API_KEY = abc'' @ [newline])"
      "demo_env_files (filepath_Join ''p'' ''.env.local'') = EnvAbsent" by code_simp+
    have v: "isValidEnvKey (strings_TrimSpace (takeWhile (\<lambda>c. c \<noteq> CHR ''='') ''API_KEY = abc''))"
      "strings_TrimSpace ''API_KEY = abc'' = ''API_KEY = abc''"
      "takeWhile (\<lambda>c. c \<noteq> CHR ''='') ''API_KEY = abc'' = ''API_KEY ''"
      "strings_TrimSpace ''API_KEY '' = ''API_KEY''"
      "\<not> strings_HasPrefix ''API_KEY = abc'' ''#''"
      "strings_Trim (strings_TrimSpace (drop (length ''API_KEY '' + 1) ''API_KEY = abc'')) [quote_char, CHR 0x27] = ''abc''"
      by code_simp+
    have d: "dotenv_lines p Map.empty [''API_KEY = abc''] = Inr (Map.empty(''API_KEY'' \<mapsto> ''abc''))" for p
      unfolding dotenv_lines.simps Let_def v(2) v(3) v(4) v(6) using v(1) [unfolded v(3) v(4)] v(5) by simp
    show ?thesis by (simp only: LoadDotEnv_def dotenv_files.simps Let_def f env_file.case r d sum.case prod.case if_False)
  qed
  then show ?thesis using dotenv_names_safe [OF l, of "''API_KEY''" "''abc''"] by simp
qed


section \<open>A signed CPU count is priced as the default\<close>

lemma digit_not_space: "is_digit c \<Longrightarrow> \<not> is_space c"
  unfolding is_digit_le is_space_def Let_def less_eq_char_def by auto

lemma TrimSpace_id: "s \<noteq> [] \<Longrightarrow> \<not> is_space (hd s) \<Longrightarrow> \<not> is_space (last s) \<Longrightarrow> strings_TrimSpace s = s"
proof -
  assume "s \<noteq> []" "\<not> is_space (hd s)" "\<not> is_space (last s)"
  then have "dropWhile is_space s = s" "dropWhile is_space (rev s) = rev s"
    by (simp_all add: dropWhile_eq_self_iff hd_rev)
  then show ?thesis by (simp add: strings_TrimSpace_def)
qed

lemma TrimSpace_signed:
  assumes "ds \<noteq> []" "list_all is_digit ds"
  shows "strings_TrimSpace (CHR ''+'' # ds) = CHR ''+'' # ds"
proof (rule TrimSpace_id)
  show "\<not> is_space (hd (CHR ''+'' # ds))" by (simp add: is_space_def)
  show "\<not> is_space (last (CHR ''+'' # ds))"
    using assms digit_not_space by (auto simp: list_all_iff)
qed simp

text \<open>
  A CPU count with a leading sign, such as \<^verbatim>\<open>+16\<close>, passes validation with its value (validation
  reads it with \<^verbatim>\<open>strconv.Atoi\<close>), but the estimator's own reader stops at the sign and plans, selects
  and prices the instance for the default of two CPUs.
\<close>

theorem signed_cpu_is_two:
  assumes "0 < n" and "n < 2 ^ 63" and "dc_CPU c = ''+'' @ show_int n"
  shows "strconv_Atoi (strings_TrimSpace (dc_CPU c)) = Some n
    \<and> Validate c = Validate (c\<lparr>dc_CPU := show_int n\<rparr>) \<and> parseCPU (dc_CPU c) = 2"
proof (intro conjI)
  have s: "show_int n = show_pos n" using assms(1) by (simp add: show_int_def)
  have d: "int_of_digits (show_pos n) = n" "list_all is_digit (show_pos n)" using show_pos_roundtrip [of n] assms(1) by simp_all
  have h: "is_digit (hd (show_pos n))" using d(2) by (cases "show_pos n") (auto simp: show_pos_nonempty [THEN notE])
  have nm: "\<not> strings_HasPrefix (show_pos n) ''-''" "\<not> strings_HasPrefix (show_pos n) ''+''"
    using h by (cases "show_pos n"; auto simp: strings_HasPrefix_def is_digit_def)+
  have t: "strings_TrimSpace (show_pos n) = show_pos n"
    using d(2) h digit_not_space by (intro TrimSpace_id) (auto simp: list_all_iff)
  show a: "strconv_Atoi (strings_TrimSpace (dc_CPU c)) = Some n"
    using TrimSpace_signed [OF show_pos_nonempty d(2)] assms d
    by (simp add: s strconv_Atoi_def strings_HasPrefix_def)
  have b: "strconv_Atoi (strings_TrimSpace (show_int n)) = Some n"
    using assms(1,2) d nm by (simp add: s t strconv_Atoi_def)
  have sel: "dc_CPU (c\<lparr>dc_CPU := show_int n\<rparr>) = show_int n" "dc_Memory (c\<lparr>dc_CPU := show_int n\<rparr>) = dc_Memory c"
    "dc_Image (c\<lparr>dc_CPU := show_int n\<rparr>) = dc_Image c" "dc_Arch (c\<lparr>dc_CPU := show_int n\<rparr>) = dc_Arch c"
    "dc_MaxTime (c\<lparr>dc_CPU := show_int n\<rparr>) = dc_MaxTime c" "dc_WatchdogTTL (c\<lparr>dc_CPU := show_int n\<rparr>) = dc_WatchdogTTL c"
    by simp_all
  have "check_resources (c\<lparr>dc_CPU := show_int n\<rparr>) = check_resources c"
    unfolding check_resources_def sel using a b assms(1) by (simp add: assms(3) s)
  then show "Validate c = Validate (c\<lparr>dc_CPU := show_int n\<rparr>)"
    unfolding Validate_def check_limits_def check_confidential_def check_shards_def sel by simp
  show "parseCPU (dc_CPU c) = 2"
    unfolding assms(3) by (simp add: parseCPU_def is_digit_def)
qed

theorem signed_cpu_is_two_witness:
  "Validate (dispatcher_config_zero\<lparr>dc_CPU := ''+16''\<rparr>) = None \<and> parseCPU ''+16'' = 2"
proof -
  have "''+16'' = ''+'' @ show_int 16" by code_simp
  then have "parseCPU ''+16'' = 2"
    using signed_cpu_is_two [of 16 "dispatcher_config_zero\<lparr>dc_CPU := ''+16''\<rparr>"] by simp
  moreover have "Validate (dispatcher_config_zero\<lparr>dc_CPU := ''+16''\<rparr>) = None" by code_simp
  ultimately show ?thesis by (rule conjI [rotated])
qed

end
