(* ===== verification/Workload_Inspect.thy ===== *)
theory Workload_Inspect
  imports Workload_Config
begin

text \<open>
  Workload inspection (\<^verbatim>\<open>internal/workload\<close>: \<^verbatim>\<open>scan.go\<close>, \<^verbatim>\<open>runtime.go\<close>, \<^verbatim>\<open>entrypoints.go\<close>, \<^verbatim>\<open>ports.go\<close>,
  \<^verbatim>\<open>gpu.go\<close>, \<^verbatim>\<open>data.go\<close>, \<^verbatim>\<open>secrets.go\<close>, \<^verbatim>\<open>inspect.go\<close>): from a project directory to the workload the
  planner places. The directory is a tree; files are named by their path relative to the project.
  The regular-expression scans of a single file (\<^verbatim>\<open>scanFileForPorts\<close>, \<^verbatim>\<open>scanFileForSecrets\<close>,
  \<^verbatim>\<open>scanFileForData\<close>) are functions of the tree's record, and so is the order in which a Go map is
  iterated.
\<close>

section \<open>Source trees\<close>

text \<open>
  A node as \<^verbatim>\<open>filepath.Walk\<close> meets it: a directory with its entries in lexical order, a regular
  file or another kind of file (a symbolic link), or an entry that cannot be read.
\<close>

datatype fs_node = FsDir "(string \<times> fs_node) list" | FsFile bool | FsUnreadable

record source_tree =
  st_path :: string
  st_base :: string
  st_tree :: fs_node
  st_file_exists :: "string \<Rightarrow> bool"
  st_dir_exists :: "string \<Rightarrow> bool"
  st_read_dir :: "string \<Rightarrow> (string \<times> bool) list option"
  st_text :: "string \<Rightarrow> string option"
  st_scan_ports :: "string \<Rightarrow> int list"
  st_scan_secrets :: "string \<Rightarrow> secret_ref list"
  st_scan_data :: "string \<Rightarrow> data_requirement list"
  st_map_order :: "string \<Rightarrow> nat \<Rightarrow> (string \<times> string) list"

section \<open>Scanning (scan.go)\<close>

definition maxScanDepth :: nat where "maxScanDepth = 5"

definition maxScanFiles :: nat where "maxScanFiles = 1000"

definition shouldSkipDir :: "string \<Rightarrow> bool" where
  "shouldSkipDir name =
     List.member
       [''.git'', ''.hg'', ''.svn'', ''node_modules'', ''vendor'', ''.venv'', ''venv'', ''env'', ''__pycache__'',
        ''.tox'', ''.mypy_cache'', ''.pytest_cache'', ''.ruff_cache'', ''dist'', ''build'', ''target'', ''.next'',
        ''.nuxt'', ''.cache'', ''.parcel-cache'', ''.terraform'', ''.dispatcher'', ''coverage''] name"

definition strings_TrimRight :: "string \<Rightarrow> char \<Rightarrow> string" where
  "strings_TrimRight s c = rev (dropWhile (\<lambda>d. d = c) (rev s))"

definition ignore_lines :: "string \<Rightarrow> string list" where
  "ignore_lines s =
     filter (\<lambda>l. l \<noteq> [] \<and> \<not> strings_HasPrefix l ''#'') (map strings_TrimSpace (strings_Split newline s))"

definition loadIgnoreFile :: "source_tree \<Rightarrow> string list \<times> string list" where
  "loadIgnoreFile st =
     (case st_text st ''.dispatchignore'' of
        None \<Rightarrow> ([], [])
      | Some s \<Rightarrow> (ignore_lines s, map (\<lambda>l. strings_TrimRight l CHR ''/'') (ignore_lines s)))"

definition join_rel :: "string \<Rightarrow> string \<Rightarrow> string" where
  "join_rel rel name = (if rel = ''.'' then name else rel @ ''/'' @ name)"

definition skips_dir :: "string list \<Rightarrow> string \<Rightarrow> string \<Rightarrow> bool" where
  "skips_dir ignored rel name =
     (shouldSkipDir name \<or> List.member ignored name \<or> List.member ignored rel
      \<or> rel \<noteq> ''.'' \<and> maxScanDepth \<le> count_list rel CHR ''/'')"

text \<open>
  The walk, with the files collected so far: the files collected when it is over, and whether it
  was ended (\<^verbatim>\<open>SkipAll\<close>) because enough were collected.
\<close>

fun walk_node :: "string list \<Rightarrow> string list \<Rightarrow> string \<Rightarrow> string \<Rightarrow> fs_node \<Rightarrow> string list \<Rightarrow> string list \<times> bool"
  and walk_entries :: "string list \<Rightarrow> string list \<Rightarrow> string \<Rightarrow> (string \<times> fs_node) list \<Rightarrow> string list \<Rightarrow> string list \<times> bool"
where
  "walk_node exts ignored rel name (FsDir es) files =
     (if maxScanFiles \<le> length files then (files, True)
      else if skips_dir ignored rel name then (files, False)
      else walk_entries exts ignored rel es files)"
| "walk_node exts ignored rel name (FsFile regular) files =
     (if maxScanFiles \<le> length files then (files, True)
      else if regular \<and> List.member exts (filepath_Ext name) then (files @ [rel], False)
      else (files, False))"
| "walk_node exts ignored rel name FsUnreadable files = (files, False)"
| "walk_entries exts ignored rel [] files = (files, False)"
| "walk_entries exts ignored rel ((name, t) # es) files =
     (case walk_node exts ignored (join_rel rel name) name t files of
        (files', True) \<Rightarrow> (files', True)
      | (files', False) \<Rightarrow> walk_entries exts ignored rel es files')"

definition scanSourceFiles :: "source_tree \<Rightarrow> string list \<Rightarrow> string list" where
  "scanSourceFiles st exts = fst (walk_node exts (snd (loadIgnoreFile st)) ''.'' (st_base st) (st_tree st) [])"

section \<open>Runtime and entry points\<close>

fun first_present :: "(string \<Rightarrow> bool) \<Rightarrow> (string \<times> 'a) list \<Rightarrow> 'a option" where
  "first_present p [] = None"
| "first_present p ((f, x) # fs) = (if p f then Some x else first_present p fs)"

definition runtime_markers :: "(string \<times> go_runtime) list" where
  "runtime_markers =
     [(''go.mod'', RuntimeGo), (''Cargo.toml'', RuntimeRust), (''package.json'', RuntimeNode),
      (''requirements.txt'', RuntimePython), (''pyproject.toml'', RuntimePython), (''setup.py'', RuntimePython),
      (''Pipfile'', RuntimePython), (''pom.xml'', RuntimeJava), (''build.gradle'', RuntimeJava), (''Gemfile'', RuntimeRuby)]"

definition runtime_of_ext :: "string \<Rightarrow> go_runtime option" where
  "runtime_of_ext =
     map_of [(''.py'', RuntimePython), (''.js'', RuntimeNode), (''.ts'', RuntimeNode), (''.go'', RuntimeGo),
             (''.rs'', RuntimeRust), (''.java'', RuntimeJava), (''.rb'', RuntimeRuby)]"

fun runtime_of_entries :: "(string \<times> bool) list \<Rightarrow> go_runtime" where
  "runtime_of_entries [] = RuntimeUnknown"
| "runtime_of_entries ((name, is_dir) # es) =
     (if is_dir then runtime_of_entries es
      else case runtime_of_ext (filepath_Ext name) of Some rt \<Rightarrow> rt | None \<Rightarrow> runtime_of_entries es)"

definition DetectRuntime :: "source_tree \<Rightarrow> go_runtime" where
  "DetectRuntime st =
     (case first_present (st_file_exists st) runtime_markers of
        Some rt \<Rightarrow> rt
      | None \<Rightarrow> (case st_read_dir st ''.'' of None \<Rightarrow> RuntimeUnknown | Some es \<Rightarrow> runtime_of_entries es))"

definition entry_candidates :: "string list" where
  "entry_candidates =
     [''main.py'', ''app.py'', ''server.py'', ''run.py'', ''main.go'', ''cmd/main.go'',
      ''main.js'', ''index.js'', ''server.js'', ''app.js'', ''main.ts'', ''index.ts'', ''server.ts'', ''app.ts'',
      ''Main.java'', ''main.rs'', ''Dockerfile'', ''Dockerfile.dispatcher'', ''docker-compose.yml'',
      ''docker-compose.yaml'', ''compose.yml'', ''compose.yaml'']"

definition src_candidates :: "string list" where
  "src_candidates =
     [''src/main.py'', ''src/app.py'', ''src/server.py'', ''src/index.js'', ''src/index.ts'', ''src/main.ts'',
      ''src/main.go'', ''src/main.rs'', ''src/lib.rs'']"

definition contains_fold :: "string list \<Rightarrow> string \<Rightarrow> bool" where
  "contains_fold ss s = list_ex (\<lambda>v. strings_EqualFold v s) ss"

definition add_entry :: "source_tree \<Rightarrow> string \<Rightarrow> string list \<Rightarrow> string list" where
  "add_entry st c es = (if st_file_exists st c \<and> \<not> contains_fold es c then es @ [c] else es)"

definition DetectEntrypoints :: "source_tree \<Rightarrow> string list" where
  "DetectEntrypoints st =
     (let top = filter (st_file_exists st) entry_candidates;
          cmds = (case st_read_dir st ''cmd'' of None \<Rightarrow> [] | Some es \<Rightarrow> map (\<lambda>(n, d). ''cmd/'' @ n @ ''/main.go'') (filter snd es));
          with_cmd = fold (add_entry st) cmds top;
          with_make = with_cmd @ filter (st_file_exists st) [''Procfile'', ''Makefile'']
      in fold (add_entry st) src_candidates with_make)"

section \<open>Ports, GPU, secrets and data\<close>

definition collectScanFiles :: "source_tree \<Rightarrow> string list" where
  "collectScanFiles st =
     filter (st_file_exists st)
       [''Dockerfile'', ''docker-compose.yml'', ''docker-compose.yaml'', ''compose.yml'', ''compose.yaml'', ''.env'', ''.env.example'']
     @ scanSourceFiles st
         [''.py'', ''.go'', ''.js'', ''.ts'', ''.java'', ''.rb'', ''.yaml'', ''.yml'', ''.toml'', ''.json'']"

definition add_port :: "int \<Rightarrow> int list \<Rightarrow> int list" where
  "add_port p ports = (if \<not> List.member ports p \<and> 80 \<le> p \<and> p \<le> 65535 then ports @ [p] else ports)"

definition DetectPorts :: "source_tree \<Rightarrow> int list" where
  "DetectPorts st = fold add_port (concat (map (st_scan_ports st) (collectScanFiles st))) []"

definition gpuFrameworks :: "(string \<times> string) list" where
  "gpuFrameworks =
     [(''torch'', ''pytorch''), (''tensorflow'', ''tensorflow''), (''jax'', ''jax''), (''cupy'', ''cupy''), (''cuda'', ''cuda''),
      (''nvidia'', ''nvidia''), (''triton'', ''triton''), (''onnxruntime'', ''onnxruntime'')]"

text \<open>The frameworks are tried in the order the map is iterated for that line of that file.\<close>

fun gpu_lines :: "(nat \<Rightarrow> (string \<times> string) list) \<Rightarrow> nat \<Rightarrow> string list \<Rightarrow> string" where
  "gpu_lines order i [] = []"
| "gpu_lines order i (l # ls) =
     (case first_present (strings_Contains (strings_ToLower l)) (order i) of
        Some fw \<Rightarrow> fw
      | None \<Rightarrow> gpu_lines order (Suc i) ls)"

definition scanFileForGPU :: "source_tree \<Rightarrow> string \<Rightarrow> string" where
  "scanFileForGPU st f =
     (case st_text st f of
        None \<Rightarrow> []
      | Some s \<Rightarrow> gpu_lines (st_map_order st f) 0 (fst (scanner_lines max_scan_token s)))"

definition gpu_scan_files :: "source_tree \<Rightarrow> string list" where
  "gpu_scan_files st =
     [''requirements.txt'', ''pyproject.toml'', ''setup.py'', ''Pipfile''] @ scanSourceFiles st [''.py'', ''.go'', ''.rs'', ''.java'']"

definition gpu_zero :: gpu_requirement where
  "gpu_zero = \<lparr>gr_Required = False, gr_Count = 0, gr_Model = [], gr_Framework = []\<rparr>"

fun first_framework :: "source_tree \<Rightarrow> string list \<Rightarrow> gpu_requirement" where
  "first_framework st [] = gpu_zero"
| "first_framework st (f # fs) =
     (let fw = scanFileForGPU st f
      in if fw \<noteq> [] then gpu_zero\<lparr>gr_Required := True, gr_Count := 1, gr_Framework := fw\<rparr>
         else first_framework st fs)"

definition DetectGPURequirements :: "source_tree \<Rightarrow> gpu_requirement" where
  "DetectGPURequirements st = first_framework st (gpu_scan_files st)"

definition add_unseen :: "('a \<Rightarrow> string) \<Rightarrow> 'a \<Rightarrow> 'a list \<Rightarrow> 'a list" where
  "add_unseen key r rs = (if List.member (map key rs) (key r) then rs else rs @ [r])"

definition DetectSecrets :: "source_tree \<Rightarrow> secret_ref list" where
  "DetectSecrets st =
     fold (add_unseen (\<lambda>r. sr_Kind r @ '':'' @ sr_Name r))
       (concat (map (st_scan_secrets st)
          [''.env'', ''.env.local'', ''.env.example'', ''.env.sample'',
           ''docker-compose.yml'', ''docker-compose.yaml'', ''compose.yml'', ''compose.yaml'', ''dispatcher.yaml''])) []"

definition DetectDataRequirements :: "source_tree \<Rightarrow> data_requirement list" where
  "DetectDataRequirements st =
     fold (add_unseen (\<lambda>r. dr_Kind r @ '':'' @ dr_Location r @ '':'' @ dr_Details r))
       (concat (map (st_scan_data st)
          ([''.env'', ''.env.example'', ''docker-compose.yml'', ''docker-compose.yaml'', ''compose.yml'', ''compose.yaml'', ''dispatcher.yaml'']
           @ scanSourceFiles st [''.py'', ''.go'', ''.js'', ''.ts'', ''.yaml'', ''.yml'']))) []"

section \<open>Inspection (inspect.go)\<close>

fun baseImageForRuntime :: "go_runtime \<Rightarrow> string" where
  "baseImageForRuntime RuntimePython = ''python:3.11-slim''"
| "baseImageForRuntime RuntimeNode = ''node:20-slim''"
| "baseImageForRuntime RuntimeGo = ''golang:1.23''"
| "baseImageForRuntime RuntimeRust = ''rust:1.77''"
| "baseImageForRuntime RuntimeJava = ''eclipse-temurin:21''"
| "baseImageForRuntime RuntimeRuby = ''ruby:3.3-slim''"
| "baseImageForRuntime _ = []"

definition detectPackagePlan :: "source_tree \<Rightarrow> go_runtime \<Rightarrow> package_plan" where
  "detectPackagePlan st rt =
     (let container = \<lparr>pp_Type = PackageTypeContainer, pp_Dockerfile = [], pp_BuildRequired = True, pp_BaseImage = []\<rparr>
      in case first_present (st_file_exists st) [(''Dockerfile'', ''Dockerfile''), (''Dockerfile.dispatcher'', ''Dockerfile.dispatcher'')] of
           Some name \<Rightarrow> container\<lparr>pp_Dockerfile := name\<rparr>
         | None \<Rightarrow>
             if list_ex (st_file_exists st) [''docker-compose.yml'', ''docker-compose.yaml'', ''compose.yml'', ''compose.yaml'']
             then container
             else if baseImageForRuntime rt \<noteq> [] then container\<lparr>pp_BaseImage := baseImageForRuntime rt\<rparr>
             else \<lparr>pp_Type = PackageTypeScript, pp_Dockerfile = [], pp_BuildRequired = False, pp_BaseImage = []\<rparr>)"

definition classifyWorkload :: "workload_spec \<Rightarrow> workload_kind" where
  "classifyWorkload spec =
     (if gr_Required (rr_GPU (ws_Requirements spec)) then WorkloadKindGPUJob
      else if ws_Ports spec \<noteq> [] then WorkloadKindService
      else if pp_Dockerfile (ws_Package spec) \<noteq> [] then WorkloadKindContainer
      else if ws_Runtime spec \<noteq> RuntimeUnknown then WorkloadKindScript
      else WorkloadKindUnknown)"

definition InspectCode :: "source_tree \<Rightarrow> workload_spec" where
  "InspectCode st =
     (let rt = DetectRuntime st;
          spec = \<lparr>ws_Name = st_base st, ws_DetectedKind = WorkloadKindUnknown,
             ws_Source = \<lparr>wsrc_Type = ''repo'', wsrc_Path = st_path st\<rparr>, ws_Runtime = rt,
             ws_Entrypoints = DetectEntrypoints st, ws_Package = detectPackagePlan st rt, ws_Command = [],
             ws_Ports = DetectPorts st,
             ws_Requirements = \<lparr>rr_CPU = [], rr_Memory = [], rr_Arch = [], rr_GPU = DetectGPURequirements st,
               rr_Confidential = \<lparr>cr_Required = False, cr_Type = [], cr_Profile = [], cr_Attestation = [],
                 cr_Measurements = [], cr_MinTCB = 0\<rparr>, rr_Sandbox = False\<rparr>,
             ws_Secrets = DetectSecrets st, ws_Data = DetectDataRequirements st, ws_Outputs = [],
             ws_Shard = \<lparr>sh_Count = 0, sh_Discover = [], sh_MaxParallel = 0, sh_Outputs = [], sh_OnShardFailure = []\<rparr>,
             ws_Env = Map.empty\<rparr>;
          classified = spec\<lparr>ws_DetectedKind := classifyWorkload spec\<rparr>
      in if st_dir_exists st ''outputs'' then classified\<lparr>ws_Outputs := [''outputs/'']\<rparr> else classified)"

definition InspectCodebase ::
  "(string \<Rightarrow> string option) \<Rightarrow> (string \<Rightarrow> dispatcher_config result) \<Rightarrow> (string \<Rightarrow> file_read) \<Rightarrow> source_tree \<Rightarrow>
   load_error + workload_spec" where
  "InspectCodebase env decode read st =
     (case LoadConfig env decode read (st_path st) of
        Inl e \<Rightarrow> Inl e
      | Inr None \<Rightarrow> Inr (InspectCode st)
      | Inr (Some cfg) \<Rightarrow> Inr (ApplyConfig cfg (InspectCode st)))"


section \<open>The walk returns the first source files\<close>

text \<open>
  The source files of a tree without the cap on their number: every regular file with a wanted
  extension that no skipped, ignored or too deep directory holds, in the order of the walk.
\<close>

fun source_files :: "string list \<Rightarrow> string list \<Rightarrow> string \<Rightarrow> string \<Rightarrow> fs_node \<Rightarrow> string list"
  and source_entries :: "string list \<Rightarrow> string list \<Rightarrow> string \<Rightarrow> (string \<times> fs_node) list \<Rightarrow> string list"
where
  "source_files exts ignored rel name (FsDir es) =
     (if skips_dir ignored rel name then [] else source_entries exts ignored rel es)"
| "source_files exts ignored rel name (FsFile regular) =
     (if regular \<and> filepath_Ext name \<in> set exts then [rel] else [])"
| "source_files exts ignored rel name FsUnreadable = []"
| "source_entries exts ignored rel [] = []"
| "source_entries exts ignored rel ((name, t) # es) =
     source_files exts ignored (join_rel rel name) name t @ source_entries exts ignored rel es"

lemma take_take_append: "take m (take m xs @ ys) = take m (xs @ ys)"
  by (cases "length xs \<le> m") simp_all

lemma walk_take:
  "length files \<le> maxScanFiles \<Longrightarrow>
     fst (walk_node exts ignored rel name t files) = take maxScanFiles (files @ source_files exts ignored rel name t)
     \<and> (snd (walk_node exts ignored rel name t files) \<longrightarrow> length (fst (walk_node exts ignored rel name t files)) = maxScanFiles)"
  "length files \<le> maxScanFiles \<Longrightarrow>
     fst (walk_entries exts ignored rel es files) = take maxScanFiles (files @ source_entries exts ignored rel es)
     \<and> (snd (walk_entries exts ignored rel es files) \<longrightarrow> length (fst (walk_entries exts ignored rel es files)) = maxScanFiles)"
proof (induction exts ignored rel name t files and exts ignored rel es files rule: walk_node_walk_entries.induct)
  case (5 exts ignored rel name t es files)
  let ?w = "walk_node exts ignored (join_rel rel name) name t files"
  let ?a = "source_files exts ignored (join_rel rel name) name t"
  from 5(1) [OF 5(3)] have w: "fst ?w = take maxScanFiles (files @ ?a)" "snd ?w \<Longrightarrow> length (fst ?w) = maxScanFiles"
    by blast+
  show ?case
  proof (cases "snd ?w")
    case True
    with w have "length (take maxScanFiles (files @ ?a)) = maxScanFiles" by simp
    then have "take maxScanFiles (files @ ?a @ zs) = take maxScanFiles (files @ ?a)" for zs
      by (simp add: append_assoc [symmetric] del: append_assoc)
    with True w show ?thesis by (cases ?w) auto
  next
    case False
    then obtain files' where w': "?w = (files', False)" by (cases ?w) auto
    then have f: "files' = take maxScanFiles (files @ ?a)" using w(1) by simp
    have "length files' \<le> maxScanFiles" unfolding f by simp
    from 5(2) [OF w'[symmetric] refl this] have IH:
      "fst (walk_entries exts ignored rel es files') = take maxScanFiles (files' @ source_entries exts ignored rel es)"
      "snd (walk_entries exts ignored rel es files') \<longrightarrow> length (fst (walk_entries exts ignored rel es files')) = maxScanFiles"
      by blast+
    have "take maxScanFiles (files' @ source_entries exts ignored rel es)
        = take maxScanFiles (files @ source_entries exts ignored rel ((name, t) # es))"
      unfolding f take_take_append by simp
    with IH show ?thesis by (simp only: walk_entries.simps w' prod.case bool.case)
  qed
qed auto

text \<open>
  The source scan, which stops the walk once it has collected \<^verbatim>\<open>maxScanFiles\<close> files, returns exactly
  the first of them that the whole walk would find: it returns at most a thousand files, drops none
  before that, and follows neither a symbolic link nor a skipped, ignored or too deep directory.
\<close>

theorem scan_is_first_files:
  "scanSourceFiles st exts
     = take maxScanFiles (source_files exts (snd (loadIgnoreFile st)) ''.'' (st_base st) (st_tree st))"
  using walk_take(1) [of "[]" exts "snd (loadIgnoreFile st)" "''.''" "st_base st" "st_tree st"]
  by (simp add: scanSourceFiles_def)

text \<open>
  A project whose own directory carries the name of a skipped directory (\<^verbatim>\<open>build\<close>, \<^verbatim>\<open>target\<close>, \<^verbatim>\<open>env\<close>,
  \<^verbatim>\<open>dist\<close>, \<^verbatim>\<open>coverage\<close>, ...) has none of its source files scanned: a GPU that its sources use is not
  detected, and the workload is planned for CPU machines.
\<close>

theorem skipped_root_not_scanned:
  assumes "shouldSkipDir (st_base st)" and "st_tree st = FsDir es"
    and "\<forall>f\<in>{''requirements.txt'', ''pyproject.toml'', ''setup.py'', ''Pipfile''}. st_text st f = None"
  shows "scanSourceFiles st exts = [] \<and> \<not> gr_Required (rr_GPU (ws_Requirements (InspectCode st)))"
proof -
  have s: "scanSourceFiles st exts = []" for exts
    using assms(1,2) by (simp add: scanSourceFiles_def skips_dir_def maxScanFiles_def)
  have "scanFileForGPU st f = []" if "f \<in> {''requirements.txt'', ''pyproject.toml'', ''setup.py'', ''Pipfile''}" for f
    using assms(3) that by (auto simp: scanFileForGPU_def)
  then have "DetectGPURequirements st = gpu_zero"
    by (simp add: DetectGPURequirements_def gpu_scan_files_def s Let_def)
  then show ?thesis
    by (simp add: s InspectCode_def Let_def gpu_zero_def)
qed

definition demo_tree :: "string \<Rightarrow> source_tree" where
  "demo_tree base = \<lparr>st_path = ''/p'', st_base = base, st_tree = FsDir [(''train.py'', FsFile True)],
     st_file_exists = (\<lambda>f. f = ''train.py''), st_dir_exists = (\<lambda>d. d = ''outputs''), st_read_dir = (\<lambda>d. if d = ''.'' then Some [(''train.py'', False)] else None),
     st_text = (\<lambda>f. if f = ''train.py'' then Some ''import torch'' else None),
     st_scan_ports = (\<lambda>f. []), st_scan_secrets = (\<lambda>f. []), st_scan_data = (\<lambda>f. []), st_map_order = (\<lambda>f i. gpuFrameworks)\<rparr>"

theorem skipped_root_not_scanned_witness:
  "scanSourceFiles (demo_tree ''build'') [''.py''] = []
   \<and> \<not> gr_Required (rr_GPU (ws_Requirements (InspectCode (demo_tree ''build''))))
   \<and> scanSourceFiles (demo_tree ''proj'') [''.py''] = [''train.py'']"
proof -
  have "shouldSkipDir (st_base (demo_tree ''build''))" by code_simp
  moreover have "st_tree (demo_tree ''build'') = FsDir [(''train.py'', FsFile True)]" by (simp add: demo_tree_def)
  moreover have "\<forall>f\<in>{''requirements.txt'', ''pyproject.toml'', ''setup.py'', ''Pipfile''}. st_text (demo_tree ''build'') f = None"
    by (simp add: demo_tree_def)
  moreover have "scanSourceFiles (demo_tree ''proj'') [''.py''] = [''train.py'']"
    by (simp add: scanSourceFiles_def demo_tree_def skips_dir_def shouldSkipDir_def maxScanFiles_def loadIgnoreFile_def join_rel_def filepath_Ext_def)
  ultimately show ?thesis using skipped_root_not_scanned by blast
qed


section \<open>GPU detection\<close>

lemma first_present_None: "first_present p xs = None \<longleftrightarrow> (\<forall>(f, x)\<in>set xs. \<not> p f)"
  by (induction p xs rule: first_present.induct) auto

lemma first_present_Some: "first_present p xs = Some x \<Longrightarrow> x \<in> snd ` set xs"
  by (induction p xs rule: first_present.induct) (auto split: if_splits)

lemma framework_nonempty: "fw \<in> snd ` set gpuFrameworks \<Longrightarrow> fw \<noteq> []"
  by (auto simp: gpuFrameworks_def)

definition gpu_keyword_line :: "string \<Rightarrow> bool" where
  "gpu_keyword_line l \<longleftrightarrow> (\<exists>(k, fw)\<in>set gpuFrameworks. strings_Contains (strings_ToLower l) k)"

lemma gpu_lines_iff:
  assumes "\<forall>i. set (order i) = set gpuFrameworks"
  shows "gpu_lines order i ls \<noteq> [] \<longleftrightarrow> (\<exists>l\<in>set ls. gpu_keyword_line l)"
proof (induction ls arbitrary: i)
  case (Cons l ls)
  show ?case
  proof (cases "first_present (strings_Contains (strings_ToLower l)) (order i)")
    case None
    then have "\<not> gpu_keyword_line l" using assms by (auto simp: first_present_None gpu_keyword_line_def)
    with None Cons show ?thesis by simp
  next
    case (Some fw)
    have "fw \<noteq> []" using first_present_Some [OF Some] assms framework_nonempty by simp
    moreover have "gpu_keyword_line l"
    proof (rule ccontr)
      assume "\<not> gpu_keyword_line l"
      then have "first_present (strings_Contains (strings_ToLower l)) (order i) = None"
        using assms unfolding first_present_None gpu_keyword_line_def by auto
      with Some show False by simp
    qed
    ultimately show ?thesis using Some by simp
  qed
qed simp

definition scanned_lines :: "source_tree \<Rightarrow> string \<Rightarrow> string list" where
  "scanned_lines st f = (case st_text st f of None \<Rightarrow> [] | Some s \<Rightarrow> fst (scanner_lines max_scan_token s))"

lemma scanFileForGPU_iff:
  assumes "\<forall>f i. set (st_map_order st f i) = set gpuFrameworks"
  shows "scanFileForGPU st f \<noteq> [] \<longleftrightarrow> (\<exists>l\<in>set (scanned_lines st f). gpu_keyword_line l)"
  using gpu_lines_iff [of "st_map_order st f"] assms
  by (cases "st_text st f") (simp_all add: scanFileForGPU_def scanned_lines_def)

lemma first_framework_iff:
  "gr_Required (first_framework st fs) \<longleftrightarrow> (\<exists>f\<in>set fs. scanFileForGPU st f \<noteq> [])"
  by (induction fs) (auto simp: Let_def gpu_zero_def)

text \<open>
  A workload is taken to need a GPU exactly when a line of its requirement files or of its scanned
  sources mentions one of the known GPU frameworks, whatever the order in which the map of frameworks
  happens to be iterated (that order only selects the framework reported).
\<close>

theorem gpu_detected_iff:
  assumes "\<forall>f i. set (st_map_order st f i) = set gpuFrameworks"
  shows "gr_Required (DetectGPURequirements st)
    \<longleftrightarrow> (\<exists>f\<in>set (gpu_scan_files st). \<exists>l\<in>set (scanned_lines st f). gpu_keyword_line l)"
  unfolding DetectGPURequirements_def first_framework_iff scanFileForGPU_iff [OF assms] ..

theorem gpu_detected_iff_witness:
  "(\<forall>f i. set (st_map_order (demo_tree ''proj'') f i) = set gpuFrameworks)
   \<and> gr_Required (DetectGPURequirements (demo_tree ''proj''))"
proof -
  have o: "\<forall>f i. set (st_map_order (demo_tree ''proj'') f i) = set gpuFrameworks" by (simp add: demo_tree_def)
  have "text_lines ''import torch'' = [''import torch'']" by code_simp
  then have l: "scanned_lines (demo_tree ''proj'') ''train.py'' = [''import torch'']"
    by (simp add: scanned_lines_def demo_tree_def scanner_lines_def max_scan_token_def strings_TrimSuffix_def
        strings_HasSuffix_def strings_HasPrefix_def)
  have f: "''train.py'' \<in> set (gpu_scan_files (demo_tree ''proj''))"
    by (simp add: gpu_scan_files_def scanSourceFiles_def demo_tree_def skips_dir_def shouldSkipDir_def maxScanFiles_def
        loadIgnoreFile_def join_rel_def filepath_Ext_def)
  have "strings_Contains (strings_ToLower ''import torch'') ''torch''" by code_simp
  then have "gpu_keyword_line ''import torch''" by (auto simp: gpu_keyword_line_def gpuFrameworks_def)
  with f l gpu_detected_iff [OF o] show ?thesis using o by auto
qed


section \<open>Inspected workloads are well-formed\<close>

definition output_safe :: "string \<Rightarrow> bool" where
  "output_safe p \<longleftrightarrow> p \<noteq> [] \<and> hd p \<noteq> CHR ''/'' \<and> \<not> (\<exists>u v. p = u @ ''..'' @ v)"

definition confidential_wf :: "confidential_requirement \<Rightarrow> bool" where
  "confidential_wf c \<longleftrightarrow>
     (cr_Required c \<longrightarrow> cr_Attestation c \<in> {''required'', ''off''}
        \<and> cr_Type c \<in> {'''', ''any'', ''sev'', ''sev-snp'', ''tdx''} \<and> cr_Profile c \<in> {'''', ''azure-snp'', ''nitro''})"

definition shard_wf :: "shard_spec \<Rightarrow> bool" where
  "shard_wf s \<longleftrightarrow> 0 \<le> sh_Count s \<and> sh_Count s \<le> 10000 \<and> 0 \<le> sh_MaxParallel s
     \<and> sh_OnShardFailure s \<in> {'''', ''fail'', ''retry'', ''continue''} \<and> (\<forall>p\<in>set (sh_Outputs s). output_safe p)"

definition package_wf :: "package_plan \<Rightarrow> bool" where
  "package_wf p \<longleftrightarrow> (pp_Type p = PackageTypeImage \<longrightarrow> isSafeImageRef (pp_BaseImage p) \<and> \<not> pp_BuildRequired p)"

definition requirements_wf :: "resource_requirements \<Rightarrow> bool" where
  "requirements_wf r \<longleftrightarrow> rr_Arch r \<in> {'''', ''x86_64'', ''arm64''} \<and> confidential_wf (rr_Confidential r)
     \<and> (gr_Required (rr_GPU r) \<longrightarrow> 1 \<le> gr_Count (rr_GPU r))"

definition ports_wf :: "int list \<Rightarrow> bool" where
  "ports_wf ps \<longleftrightarrow> distinct ps \<and> (\<forall>p\<in>set ps. 0 < p \<and> p \<le> 65535)"

definition kind_wf :: "workload_spec \<Rightarrow> bool" where
  "kind_wf w \<longleftrightarrow> (ws_DetectedKind w = WorkloadKindGPUJob \<longrightarrow> gr_Required (rr_GPU (ws_Requirements w)))
     \<and> (ws_DetectedKind w = WorkloadKindService \<longrightarrow> ws_Ports w \<noteq> [])"

definition workload_wf :: "workload_spec \<Rightarrow> bool" where
  "workload_wf w \<longleftrightarrow> kind_wf w \<and> ports_wf (ws_Ports w) \<and> package_wf (ws_Package w) \<and> requirements_wf (ws_Requirements w)
     \<and> shard_wf (ws_Shard w) \<and> (\<forall>p\<in>set (ws_Outputs w). output_safe p)"

lemmas workload_wf_defs = workload_wf_def kind_wf_def package_wf_def requirements_wf_def confidential_wf_def shard_wf_def

lemma output_safe_iff: "output_safe p \<longleftrightarrow> p \<noteq> [] \<and> \<not> filepath_IsAbs p \<and> \<not> strings_Contains p ''..''"
  unfolding output_safe_def strings_Contains_iff filepath_IsAbs_def strings_HasPrefix_def by (cases p) auto

lemma sanitizeOutputs_safe: "p \<in> set (sanitizeOutputs ps) \<Longrightarrow> output_safe p"
  by (simp add: sanitizeOutputs_def output_safe_iff)

lemma set_merge_loop: "set (merge_loop out ps) = set out \<union> set ps"
  by (induction out ps rule: merge_loop.induct) auto

lemma set_mergeOutputs: "set (mergeOutputs xs ys) = set xs \<union> set ys"
  by (simp add: mergeOutputs_def set_merge_loop)

lemma Validate_None:
  assumes "Validate c = None"
  shows "check_resources c = []" "check_limits c = []" "check_confidential c = []" "check_shards c = []"
  using assms by (auto simp: Validate_def split: list.splits)

lemma valid_image: "Validate c = None \<Longrightarrow> dc_Image c \<noteq> [] \<Longrightarrow> isSafeImageRef (dc_Image c)"
  using Validate_None(1) [of c] by (auto simp: check_resources_def split: if_splits)

lemma valid_arch: "Validate c = None \<Longrightarrow> dc_Arch c \<in> {'''', ''x86_64'', ''arm64''}"
  using Validate_None(1) [of c] by (auto simp: check_resources_def split: if_splits)

lemma valid_service: "Validate c = None \<Longrightarrow> dc_Service c = Some p \<Longrightarrow> 0 \<le> p \<and> p \<le> 65535"
  using Validate_None(2) [of c] by (auto simp: check_limits_def split: if_splits)

lemma valid_gpu: "Validate c = None \<Longrightarrow> dc_GPU c = Some g \<Longrightarrow> 0 \<le> dg_Count g"
  using Validate_None(2) [of c] by (auto simp: check_limits_def split: if_splits)

lemma valid_confidential:
  "Validate c = None \<Longrightarrow> dc_Confidential c = Some k \<Longrightarrow>
     dcc_Type k \<in> {'''', ''any'', ''sev'', ''sev-snp'', ''tdx''} \<and> dcc_Profile k \<in> {'''', ''azure-snp'', ''nitro''}
     \<and> dcc_Attestation k \<in> {'''', ''required'', ''off''}"
  using Validate_None(3) [of c] by (auto simp: check_confidential_def split: if_splits)

lemma valid_shard:
  "Validate c = None \<Longrightarrow> dc_Shard c = Some s \<Longrightarrow> 0 \<le> ds_Count s \<and> ds_Count s \<le> 10000 \<and> 0 \<le> ds_MaxParallel s"
  using Validate_None(4) [of c] by (auto simp: check_shards_def maxShardCount_def split: if_splits)

lemma valid_aggregate:
  "Validate c = None \<Longrightarrow> dc_Aggregate c = Some a \<Longrightarrow> da_OnShardFailure a \<in> {'''', ''fail'', ''retry'', ''continue''}"
  using Validate_None(4) [of c] by (auto simp: check_shards_def split: if_splits)

lemma apply_command_wf: "workload_wf w \<Longrightarrow> workload_wf (apply_command c w)"
  by (auto simp: apply_command_def workload_wf_def kind_wf_def)

lemma apply_resources_wf: "Validate c = None \<Longrightarrow> workload_wf w \<Longrightarrow> workload_wf (apply_resources c w)"
  using valid_arch [of c] by (auto simp: apply_resources_def Let_def workload_wf_def kind_wf_def requirements_wf_def)

lemma apply_image_wf: "Validate c = None \<Longrightarrow> workload_wf w \<Longrightarrow> workload_wf (apply_image c w)"
  using valid_image [of c] by (auto simp: apply_image_def workload_wf_def kind_wf_def package_wf_def)

lemma apply_confidential_wf:
  assumes "Validate c = None" "workload_wf w"
  shows "workload_wf (apply_confidential c w)"
proof (cases "dc_Confidential c")
  case (Some k)
  note v = valid_confidential [OF assms(1) Some]
  have "(if dcc_Attestation k = [] then ''required'' else dcc_Attestation k) \<in> {''required'', ''off''}"
    using conjunct2 [OF conjunct2 [OF v]] by auto
  with v have "confidential_wf \<lparr>cr_Required = True, cr_Type = dcc_Type k, cr_Profile = dcc_Profile k,
      cr_Attestation = (if dcc_Attestation k = [] then ''required'' else dcc_Attestation k),
      cr_Measurements = dcc_Measurements k, cr_MinTCB = dcc_MinTCB k\<rparr>"
    unfolding confidential_wf_def by simp
  with assms(2) Some show ?thesis by (simp add: apply_confidential_def workload_wf_def kind_wf_def requirements_wf_def)
qed (use assms in \<open>simp add: apply_confidential_def\<close>)

lemma apply_shard_wf: "Validate c = None \<Longrightarrow> workload_wf w \<Longrightarrow> workload_wf (apply_shard c w)"
  using valid_shard [of c] by (auto simp: apply_shard_def workload_wf_def kind_wf_def shard_wf_def split: option.splits)

lemma apply_aggregate_wf: "Validate c = None \<Longrightarrow> workload_wf w \<Longrightarrow> workload_wf (apply_aggregate c w)"
  using valid_aggregate [of c]
  by (auto simp: apply_aggregate_def Let_def workload_wf_def kind_wf_def shard_wf_def sanitizeOutputs_safe split: option.splits)

lemma apply_gpu_wf: "Validate c = None \<Longrightarrow> workload_wf w \<Longrightarrow> workload_wf (apply_gpu c w)"
  using valid_gpu [of c] by (fastforce simp: apply_gpu_def workload_wf_def kind_wf_def requirements_wf_def split: option.splits)

lemma apply_service_wf: "Validate c = None \<Longrightarrow> workload_wf w \<Longrightarrow> workload_wf (apply_service c w)"
  using valid_service [of c] by (auto simp: apply_service_def workload_wf_def kind_wf_def ports_wf_def split: option.splits)

lemma apply_sandbox_wf: "workload_wf w \<Longrightarrow> workload_wf (apply_sandbox c w)"
  by (auto simp: apply_sandbox_def workload_wf_def kind_wf_def requirements_wf_def)

lemma apply_outputs_wf: "workload_wf w \<Longrightarrow> workload_wf (apply_outputs c w)"
  by (auto simp: apply_outputs_def workload_wf_def kind_wf_def shard_wf_def set_mergeOutputs sanitizeOutputs_safe)

lemmas apply_wf = apply_command_wf apply_resources_wf apply_image_wf apply_confidential_wf apply_shard_wf
  apply_aggregate_wf apply_gpu_wf apply_service_wf apply_sandbox_wf apply_outputs_wf

lemma ApplyConfig_wf:
  assumes "Validate c = None" and "workload_wf w"
  shows "workload_wf (ApplyConfig c w)"
proof -
  have "workload_wf (if dc_Name c \<noteq> [] then w\<lparr>ws_Name := dc_Name c\<rparr> else w)"
    using assms(2) by (simp add: workload_wf_def kind_wf_def)
  then show ?thesis using assms(1) by (simp add: ApplyConfig_def Let_def apply_wf)
qed

lemma fold_add_port_wf: "ports_wf ps \<Longrightarrow> ports_wf (fold add_port qs ps)"
proof (induction qs arbitrary: ps)
  case (Cons q qs)
  have "ports_wf (add_port q ps)" using Cons.prems by (simp add: add_port_def ports_wf_def)
  with Cons.IH show ?case by simp
qed simp

lemma first_framework_count: "gr_Required (first_framework st fs) \<Longrightarrow> gr_Count (first_framework st fs) = 1"
  by (induction fs) (auto simp: Let_def gpu_zero_def split: if_splits)

lemma detectPackagePlan_not_image: "pp_Type (detectPackagePlan st rt) \<noteq> PackageTypeImage"
  by (simp add: detectPackagePlan_def Let_def split: option.splits)

lemma InspectCode_wf: "workload_wf (InspectCode st)"
proof -
  have p: "ports_wf (DetectPorts st)"
    unfolding DetectPorts_def by (rule fold_add_port_wf) (simp add: ports_wf_def)
  have g: "gr_Required (DetectGPURequirements st) \<Longrightarrow> gr_Count (DetectGPURequirements st) = 1"
    unfolding DetectGPURequirements_def by (rule first_framework_count)
  have "\<not> strings_Contains ''outputs/'' ''..''" "\<not> filepath_IsAbs ''outputs/''" by code_simp+
  then have o: "output_safe ''outputs/''" unfolding output_safe_iff by simp
  note sels = InspectCode_def Let_def
  have r: "requirements_wf (ws_Requirements (InspectCode st))"
    using g by (simp add: sels requirements_wf_def confidential_wf_def)
  have k: "kind_wf (InspectCode st)" by (simp add: sels classifyWorkload_def kind_wf_def)
  have "ports_wf (ws_Ports (InspectCode st))" "\<forall>x\<in>set (ws_Outputs (InspectCode st)). output_safe x"
    using p o by (simp_all add: sels)
  moreover have "package_wf (ws_Package (InspectCode st))"
    using detectPackagePlan_not_image by (simp add: sels package_wf_def)
  moreover have "shard_wf (ws_Shard (InspectCode st))" by (simp add: sels shard_wf_def)
  ultimately show ?thesis using r k by (simp only: workload_wf_def simp_thms)
qed

lemma load_config_loop_valid: "load_config_loop env decode read dir names = Inr (Some c) \<Longrightarrow> Validate c = None"
  by (induction names) (auto simp: Let_def split: file_read.splits sum.splits option.splits)

text \<open>
  C35: Whatever a project directory holds, the workload that inspection hands to the planner is
  well-formed: its outputs are relative and never leave the retrieval directory, its ports are valid
  and distinct, a GPU job asks for at least one GPU and a service has a port, a confidential workload
  names a known TEE, profile and attestation policy (attestation required unless it is turned off), a
  fan-out is bounded, and a configured image cannot be read as a docker flag. Nothing of the YAML
  decoder or of the file scans is assumed.
\<close>

theorem inspected_workload_wf:
  assumes "InspectCodebase env decode read st = Inr w"
  shows "workload_wf w"
proof (cases "LoadConfig env decode read (st_path st)")
  case (Inl e)
  with assms show ?thesis by (simp add: InspectCodebase_def)
next
  case (Inr r)
  show ?thesis
  proof (cases r)
    case None
    with assms Inr InspectCode_wf show ?thesis by (auto simp: InspectCodebase_def)
  next
    case (Some c)
    with Inr have "Validate c = None" using load_config_loop_valid unfolding LoadConfig_def by blast
    with assms Inr Some ApplyConfig_wf InspectCode_wf show ?thesis by (auto simp: InspectCodebase_def)
  qed
qed


definition demo_config :: dispatcher_config where
  "demo_config = dispatcher_config_zero\<lparr>dc_Command := [''make''], dc_Aggregate := Some \<lparr>da_Outputs = [], da_OnShardFailure = ''retry''\<rparr>\<rparr>"

definition demo_read :: "string \<Rightarrow> file_read" where
  "demo_read p = (if p = ''/p/dispatcher.yaml'' then FileData ''doc'' else FileNotExist)"

lemma demo_LoadConfig: "LoadConfig demo_vars (\<lambda>_. Inr demo_config) demo_read (st_path (demo_tree b)) = Inr (Some demo_config)"
proof -
  have r: "demo_read (filepath_Join (st_path (demo_tree b)) ''dispatcher.yaml'') = FileData ''doc''"
    by (simp add: demo_read_def demo_tree_def filepath_Join_def)
  have e: "expandEnvRefs demo_vars ''doc'' = Inr ''doc''" by code_simp
  have v: "Validate demo_config = None" by code_simp
  show ?thesis by (simp only: LoadConfig_def load_config_loop.simps Let_def r file_read.case e sum.case v option.case)
qed

theorem inspected_workload_wf_witness:
  "\<exists>w. InspectCodebase demo_vars (\<lambda>_. Inr demo_config) demo_read (demo_tree ''proj'') = Inr w \<and> workload_wf w"
proof -
  have "InspectCodebase demo_vars (\<lambda>_. Inr demo_config) demo_read (demo_tree ''proj'')
      = Inr (ApplyConfig demo_config (InspectCode (demo_tree ''proj'')))"
    by (simp add: InspectCodebase_def demo_LoadConfig)
  with inspected_workload_wf [OF this] show ?thesis by blast
qed

lemma ws_Outputs_apply [simp]:
  "ws_Outputs (apply_command c w) = ws_Outputs w" "ws_Outputs (apply_resources c w) = ws_Outputs w"
  "ws_Outputs (apply_image c w) = ws_Outputs w" "ws_Outputs (apply_confidential c w) = ws_Outputs w"
  "ws_Outputs (apply_shard c w) = ws_Outputs w" "ws_Outputs (apply_gpu c w) = ws_Outputs w"
  "ws_Outputs (apply_service c w) = ws_Outputs w" "ws_Outputs (apply_sandbox c w) = ws_Outputs w"
  "ws_Outputs (apply_aggregate c w) = (case dc_Aggregate c of None \<Rightarrow> ws_Outputs w | Some a \<Rightarrow> sanitizeOutputs (da_Outputs a))"
  by (simp_all add: apply_command_def apply_resources_def apply_image_def apply_confidential_def apply_shard_def
      apply_gpu_def apply_service_def apply_sandbox_def apply_aggregate_def Let_def split: option.splits)

lemma ApplyConfig_outputs:
  assumes "dc_Outputs c = []"
  shows "ws_Outputs (ApplyConfig c w) = (case dc_Aggregate c of None \<Rightarrow> ws_Outputs w | Some a \<Rightarrow> sanitizeOutputs (da_Outputs a))"
  using assms by (cases "dc_Aggregate c") (simp_all add: ApplyConfig_def Let_def apply_outputs_def)

text \<open>
  A project with an \<^verbatim>\<open>outputs/\<close> directory has it retrieved by default before its machine is destroyed.
  An \<^verbatim>\<open>aggregate:\<close> block that only chooses how to treat a failed shard, and names no outputs, turns that
  default off: the inspected workload retrieves nothing.
\<close>

theorem aggregate_block_drops_outputs:
  assumes "LoadConfig env decode read (st_path st) = Inr (Some c)" and "dc_Outputs c = []"
    and "dc_Aggregate c = Some a" and "da_Outputs a = []" and "st_dir_exists st ''outputs''"
  shows "ws_Outputs (InspectCode st) = [''outputs/'']
    \<and> ws_Outputs (ApplyConfig (c\<lparr>dc_Aggregate := None\<rparr>) (InspectCode st)) = [''outputs/'']
    \<and> (\<exists>w. InspectCodebase env decode read st = Inr w \<and> ws_Outputs w = [])"
proof -
  have i: "ws_Outputs (InspectCode st) = [''outputs/'']" using assms(5) by (simp add: InspectCode_def Let_def)
  have "InspectCodebase env decode read st = Inr (ApplyConfig c (InspectCode st))"
    using assms(1) by (simp add: InspectCodebase_def)
  moreover have "ws_Outputs (ApplyConfig c (InspectCode st)) = []"
    using assms(2-4) by (simp add: ApplyConfig_outputs sanitizeOutputs_def)
  moreover have "ws_Outputs (ApplyConfig (c\<lparr>dc_Aggregate := None\<rparr>) (InspectCode st)) = [''outputs/'']"
    using assms(2) by (simp add: ApplyConfig_outputs i)
  ultimately show ?thesis using i by blast
qed

theorem aggregate_block_drops_outputs_witness:
  "\<exists>w. InspectCodebase demo_vars (\<lambda>_. Inr demo_config) demo_read (demo_tree ''proj'') = Inr w \<and> ws_Outputs w = []"
proof -
  have "dc_Outputs demo_config = []" "dc_Aggregate demo_config = Some \<lparr>da_Outputs = [], da_OnShardFailure = ''retry''\<rparr>"
    by (simp_all add: demo_config_def dispatcher_config_zero_def)
  moreover have "st_dir_exists (demo_tree ''proj'') ''outputs''" by (simp add: demo_tree_def)
  ultimately show ?thesis using aggregate_block_drops_outputs [OF demo_LoadConfig] by fastforce
qed

end
