(* ===== verification/Plan_Build.thy ===== *)
theory Plan_Build
  imports Policy_Risk Workload_Inspect Target_Match
begin

text \<open>
  The planner (\<^verbatim>\<open>internal/plan/build.go\<close>): inspect the workload, merge the constraints of its
  configuration, price every feasible target, order and filter the candidates, and record the best
  one with its alternatives, risks and required approvals. What \<^verbatim>\<open>Build\<close> reads from the outside
  (the environment, the files, the target configuration, the architecture of the host, a short id,
  the clock) are arguments.
\<close>

section \<open>Candidates\<close>

record candidate =
  cand_target :: target_config
  cand_cost :: cost_estimate

datatype plan_error =
    InspectionFailed load_error | ConfigFailed load_error | InvalidGPU string
  | TargetNotFound string | TargetNotFeasible string string | NoFeasibleTargets
  | PinnedUnknownCost string f64 | PinnedOverBudget string f64 f64 | NoneWithinBudget f64

definition plan_estimateCost :: "workload_spec \<Rightarrow> target_config \<Rightarrow> catalog option \<Rightarrow> bool \<Rightarrow> cost_estimate" where
  "plan_estimateCost spec t cat spot =
     (let est = EstimateCost spec t cat in if spot then ApplySpot est t else est)"

section \<open>Constraints\<close>

definition merge_constraints :: "dispatcher_config \<Rightarrow> plan_constraints \<Rightarrow> plan_constraints" where
  "merge_constraints cfg c =
     c\<lparr>pc_MaxEstimatedCostUSD :=
         (if pc_MaxEstimatedCostUSD c = 0 \<and> 0 < dc_MaxCost cfg then dc_MaxCost cfg else pc_MaxEstimatedCostUSD c),
       pc_MaxDuration :=
         (if pc_MaxDuration c = 0 \<and> dc_MaxTime cfg \<noteq> []
          then (case ParseDuration (dc_MaxTime cfg) of Inr d \<Rightarrow> d | Inl _ \<Rightarrow> pc_MaxDuration c) else pc_MaxDuration c),
       pc_TargetName := (if pc_TargetName c = [] \<and> dc_Target cfg \<noteq> [] then dc_Target cfg else pc_TargetName c),
       pc_Region := (if pc_Region c = [] \<and> dc_Region cfg \<noteq> [] then dc_Region cfg else pc_Region c),
       pc_WatchdogTTL :=
         (if pc_WatchdogTTL c = 0 \<and> dc_WatchdogTTL cfg \<noteq> []
          then (case ParseDuration (dc_WatchdogTTL cfg) of Inr d \<Rightarrow> d | Inl _ \<Rightarrow> pc_WatchdogTTL c) else pc_WatchdogTTL c),
       pc_RetryTransientFailures :=
         (if \<not> pc_RetryTransientFailures c
          then (case dc_RetryTransientFailures cfg of Some b \<Rightarrow> b | None \<Rightarrow> pc_RetryTransientFailures c)
          else pc_RetryTransientFailures c),
       pc_Spot := (pc_Spot c \<or> dc_Spot cfg)\<rparr>"

definition applyGPUOverride :: "string \<Rightarrow> workload_spec \<Rightarrow> plan_error + workload_spec" where
  "applyGPUOverride gpu spec =
     (let model = takeWhile (\<lambda>c. c \<noteq> CHR '':'') gpu; two = List.member gpu CHR '':'';
          num = (if two then drop (length model + 1) gpu else gpu)
      in case strconv_Atoi num of
           None \<Rightarrow> Inl (InvalidGPU gpu)
         | Some n \<Rightarrow>
             if n \<le> 0 then Inl (InvalidGPU gpu)
             else Inr (spec\<lparr>ws_Requirements := (ws_Requirements spec)\<lparr>rr_GPU :=
                      \<lparr>gr_Required = True, gr_Count = n, gr_Model = (if two then model else []), gr_Framework = []\<rparr>\<rparr>,
                    ws_DetectedKind := WorkloadKindGPUJob\<rparr>))"

section \<open>Evaluating the targets\<close>

text \<open>The candidates and the rejected targets, in the order of the registry's listing.\<close>

fun evaluate_targets ::
  "string \<Rightarrow> workload_spec \<Rightarrow> catalog option \<Rightarrow> bool \<Rightarrow> target_config list \<Rightarrow> candidate list \<times> rejected_target list" where
  "evaluate_targets goarch spec cat spot [] = ([], [])"
| "evaluate_targets goarch spec cat spot (t # ts) =
     (let (ok, rej) = evaluate_targets goarch spec cat spot ts; r = CheckFeasibility goarch t spec
      in if fr_Feasible r then (\<lparr>cand_target = t, cand_cost = plan_estimateCost spec t cat spot\<rparr> # ok, rej)
         else (ok, \<lparr>rj_Target = tc_ID t, rj_Reason = hd (fr_Reasons r)\<rparr> # rej))"

definition plan_candidates ::
  "string \<Rightarrow> workload_spec \<Rightarrow> catalog option \<Rightarrow> plan_constraints \<Rightarrow> registry \<Rightarrow>
   plan_error + candidate list \<times> rejected_target list" where
  "plan_candidates goarch spec cat c reg =
     (let spot = pc_Spot c; name = pc_TargetName c; targets = registry_List reg
      in if name \<noteq> []
         then (case registry_Get reg name of
                 None \<Rightarrow> Inl (TargetNotFound name)
               | Some t \<Rightarrow>
                   let r = CheckFeasibility goarch t spec
                   in if \<not> fr_Feasible r then Inl (TargetNotFeasible name (hd (fr_Reasons r)))
                      else let (ok, rej) = evaluate_targets goarch spec cat spot (filter (\<lambda>x. tc_ID x \<noteq> name) targets)
                           in Inr (\<lparr>cand_target = t, cand_cost = plan_estimateCost spec t cat spot\<rparr> # ok, rej))
         else Inr (evaluate_targets goarch spec cat spot targets))"

section \<open>Ordering and the budget\<close>

definition is_local :: "target_config \<Rightarrow> bool" where
  "is_local t = (tc_Kind t = TargetKindLocal \<or> tc_Kind t = TargetKindDocker \<or> tc_Kind t = TargetKindLocalVM)"

definition unknown_cost :: "candidate \<Rightarrow> bool" where
  "unknown_cost c = (ce_Confidence (cand_cost c) = ConfidenceUnknown)"

definition cand_less :: "optimize_goal \<Rightarrow> candidate \<Rightarrow> candidate \<Rightarrow> bool" where
  "cand_less goal i j =
     (if unknown_cost i \<noteq> unknown_cost j then unknown_cost j
      else if goal = OptimizeSpeed \<and> is_local (cand_target i) \<noteq> is_local (cand_target j) then is_local (cand_target i)
      else if goal = OptimizeSpeed \<and> \<not> is_local (cand_target i) \<and> \<not> is_local (cand_target j)
      then ce_Value (cand_cost j) < ce_Value (cand_cost i)
      else ce_Value (cand_cost i) < ce_Value (cand_cost j))"

definition sortCandidates :: "optimize_goal \<Rightarrow> candidate list \<Rightarrow> candidate list" where
  "sortCandidates goal cs = sort_Slice (cand_less goal) cs"

fun budget_loop :: "string \<Rightarrow> f64 \<Rightarrow> candidate list \<Rightarrow> plan_error + candidate list \<times> rejected_target list" where
  "budget_loop pinned budget [] = Inr ([], [])"
| "budget_loop pinned budget (c # cs) =
     (let unknown = unknown_cost c; v = ce_Value (cand_cost c); tid = tc_ID (cand_target c)
      in if \<not> unknown \<and> v \<le> budget
         then (case budget_loop pinned budget cs of
                 Inl e \<Rightarrow> Inl e
               | Inr (kept, rej) \<Rightarrow> Inr (c # kept, rej))
         else if pinned = tid
         then Inl (if unknown then PinnedUnknownCost tid budget else PinnedOverBudget tid v budget)
         else (case budget_loop pinned budget cs of
                 Inl e \<Rightarrow> Inl e
               | Inr (kept, rej) \<Rightarrow>
                   Inr (kept, \<lparr>rj_Target = tid, rj_Reason =
                     (if unknown then ''cost unknown; cannot confirm within budget $'' @ fmt_fixed 2 budget
                      else ''estimated cost $'' @ fmt_fixed 2 v @ '' exceeds budget $'' @ fmt_fixed 2 budget)\<rparr> # rej)))"

definition orderAndFilter ::
  "candidate list \<Rightarrow> plan_constraints \<Rightarrow> plan_error + candidate list \<times> rejected_target list" where
  "orderAndFilter feasible c =
     (let ordered = (if pc_TargetName c = [] then sortCandidates (pc_OptimizeFor c) feasible else feasible);
          budget = pc_MaxEstimatedCostUSD c
      in if budget \<le> 0 then Inr (ordered, [])
         else case budget_loop (pc_TargetName c) budget ordered of
                Inl e \<Rightarrow> Inl e
              | Inr (kept, rej) \<Rightarrow> if kept = [] then Inl (NoneWithinBudget budget) else Inr (kept, rej))"

section \<open>The plan\<close>

definition buildReasons :: "workload_spec \<Rightarrow> target_config \<Rightarrow> string list" where
  "buildReasons w t =
     (if pp_Dockerfile (ws_Package w) \<noteq> [] then [''workload is containerized''] else [])
     @ (case ws_Ports w of p # _ \<Rightarrow> [''service port '' @ show_int p @ '' detected''] | [] \<Rightarrow> [])
     @ (if \<not> gr_Required (rr_GPU (ws_Requirements w)) then [''no GPU required'']
        else [''GPU required ('' @ gr_Framework (rr_GPU (ws_Requirements w)) @ '')''])
     @ (if is_local t then [''local execution has zero marginal cost''] else [])
     @ (if tc_Kind t = TargetKindLocal then [''runs as local process, no container overhead''] else [])
     @ (if tc_Kind t = TargetKindLocalVM then [''runs in isolated local VM''] else [])
     @ (if nc_PrivateVPCAccess (cap_Networking (tc_Capabilities t)) then [''target has private network access''] else [])"

definition buildTradeoffs :: "target_config \<Rightarrow> target_config \<Rightarrow> string list" where
  "buildTradeoffs alt best =
     (let ts =
        (if tc_Kind alt = TargetKindCloudVM then [''more isolation'', ''more setup and cleanup overhead''] else [])
        @ (if tc_Kind alt = TargetKindDocker \<and> tc_Kind best \<noteq> TargetKindDocker
           then [''zero marginal cost'', ''limited to local resources''] else [])
        @ (if tc_Kind alt = TargetKindKubernetes then [''production-grade orchestration'', ''requires cluster access''] else [])
      in if ts = [] then [''different operational characteristics''] else ts)"

definition validate :: "workload_spec \<Rightarrow> target_config \<Rightarrow> cost_estimate \<Rightarrow> validation_result" where
  "validate w t est =
     \<lparr>vr_Schema = ValidationPass,
      vr_PackageBuild =
        (if pp_BuildRequired (ws_Package w) \<and> pp_Dockerfile (ws_Package w) = [] \<and> pp_BaseImage (ws_Package w) = []
         then ValidationWarn else ValidationPass),
      vr_TargetCapabilities = ValidationPass,
      vr_Credentials = (if ws_Secrets w \<noteq> [] then ValidationWarn else ValidationSkipped),
      vr_Quota = ValidationSkipped, vr_Network = ValidationPass, vr_Policy = ValidationPass,
      vr_CostEstimate = (if ce_Confidence est = ConfidenceUnknown then ValidationFail else ValidationPass),
      vr_CleanupPlan = ValidationPass\<rparr>"

definition buildExecutionSteps :: "workload_spec \<Rightarrow> target_config \<Rightarrow> string list" where
  "buildExecutionSteps w t =
     (if pp_BuildRequired (ws_Package w)
      then ''build-image'' # (if tc_Kind t \<noteq> TargetKindDocker then [''push-image''] else []) else [])
     @ (if ws_DetectedKind w = WorkloadKindService then [''deploy-service'', ''wait-for-health-check''] else [''run-workload''])
     @ [''stream-logs'', ''track-cost'', ''register-cleanup'']"

definition generatePlanID :: "string \<Rightarrow> string" where
  "generatePlanID short_id = ''plan_'' @ short_id"

text \<open>The plan assembled from the candidates that are left, the first of which is the best.\<close>

definition assemble_plan ::
  "workload_spec \<Rightarrow> plan_constraints \<Rightarrow> candidate \<Rightarrow> candidate list \<Rightarrow> rejected_target list \<Rightarrow> string \<Rightarrow> time \<Rightarrow> plan" where
  "assemble_plan spec c best others rejected short_id now =
     \<lparr>pl_APIVersion = ''dispatcher.dev/v1'', pl_Kind = ''Plan'',
      pl_Metadata = \<lparr>pm_ID = generatePlanID short_id, pm_CreatedAt = now, pm_CreatedBy = ''dispatcher-cli''\<rparr>,
      pl_Workload = spec, pl_Constraints = c,
      pl_Recommendation = Some
        \<lparr>rec_Target = tc_ID (cand_target best), rec_Runtime = RuntimeForTarget (cand_target best),
         rec_EstimatedCost = cand_cost best, rec_Reason = buildReasons spec (cand_target best)\<rparr>,
      pl_Alternatives = map (\<lambda>x. \<lparr>alt_Target = tc_ID (cand_target x), alt_Runtime = RuntimeForTarget (cand_target x),
        alt_EstimatedCost = cand_cost x, alt_Tradeoff = buildTradeoffs (cand_target x) (cand_target best)\<rparr>) others,
      pl_Rejected = rejected,
      pl_Risks = Analyze spec (cand_target best) (cand_cost best) (pc_Spot c),
      pl_Validation = validate spec (cand_target best) (cand_cost best),
      pl_RequiredApprovals = Evaluate spec (cand_target best) (cand_cost best),
      pl_ExecutionSteps = buildExecutionSteps spec (cand_target best)\<rparr>"

record build_env =
  be_vars :: "string \<Rightarrow> string option"
  be_decode :: "string \<Rightarrow> dispatcher_config result"
  be_read :: "string \<Rightarrow> file_read"
  be_goarch :: string
  be_targets :: target_env
  be_short_id :: string
  be_now :: time

definition plan_registry :: "build_env \<Rightarrow> registry" where
  "plan_registry e = fst (LoadUserConfig (be_targets e) (LoadBuiltins NewRegistry))"

definition build_candidates ::
  "build_env \<Rightarrow> workload_spec \<Rightarrow> plan_constraints \<Rightarrow> catalog option \<Rightarrow> plan_error + candidate list \<times> rejected_target list" where
  "build_candidates e spec c cat =
     (case plan_candidates (be_goarch e) spec cat c (plan_registry e) of
        Inl err \<Rightarrow> Inl err
      | Inr (feasible, rejected) \<Rightarrow>
          if feasible = [] then Inl NoFeasibleTargets
          else case orderAndFilter feasible c of
                 Inl err \<Rightarrow> Inl err
               | Inr (kept, over) \<Rightarrow> Inr (kept, rejected @ over))"

definition Build :: "build_env \<Rightarrow> source_tree \<Rightarrow> plan_constraints \<Rightarrow> catalog option \<Rightarrow> plan_error + plan" where
  "Build e st constraints cat =
     (case InspectCodebase (be_vars e) (be_decode e) (be_read e) st of
        Inl err \<Rightarrow> Inl (InspectionFailed err)
      | Inr spec0 \<Rightarrow>
          (case LoadConfig (be_vars e) (be_decode e) (be_read e) (st_path st) of
             Inl err \<Rightarrow> Inl (ConfigFailed err)
           | Inr cfg \<Rightarrow>
               let c = (case cfg of None \<Rightarrow> constraints | Some d \<Rightarrow> merge_constraints d constraints)
               in case (if pc_RequireGPU c \<noteq> [] then applyGPUOverride (pc_RequireGPU c) spec0 else Inr spec0) of
                    Inl err \<Rightarrow> Inl err
                  | Inr spec \<Rightarrow>
                      (case build_candidates e spec c cat of
                         Inl err \<Rightarrow> Inl err
                       | Inr (kept, rejected) \<Rightarrow>
                           Inr (assemble_plan spec c (hd kept) (tl kept) rejected (be_short_id e) (be_now e)))))"


section \<open>Lemmas\<close>

interpretation cand_order: weak_order_on "cand_less goal" "{c. ce_Value (cand_cost c) \<noteq> NaN}" for goal
proof
  fix i j assume l: "cand_less goal i j"
  have "\<not> (ce_Value (cand_cost i) < ce_Value (cand_cost j) \<and> ce_Value (cand_cost j) < ce_Value (cand_cost i))"
    using f64_less_asym by blast
  with l show "\<not> cand_less goal j i" unfolding cand_less_def by presburger
next
  fix i j k
  assume n: "i \<in> {c. ce_Value (cand_cost c) \<noteq> NaN}" "j \<in> {c. ce_Value (cand_cost c) \<noteq> NaN}"
    "k \<in> {c. ce_Value (cand_cost c) \<noteq> NaN}" and l: "\<not> cand_less goal i j" "\<not> cand_less goal j k"
  let ?v = "\<lambda>c. ce_Value (cand_cost c)"
  have nan: "?v i \<noteq> NaN" "?v j \<noteq> NaN" "?v k \<noteq> NaN" using n by blast+
  note up = f64_less_neg_trans [OF nan] and down = f64_less_neg_trans [OF nan(3,2,1)]
  from l up down show "\<not> cand_less goal i k" unfolding cand_less_def by presburger
qed

lemma evaluate_targets_eq:
  "evaluate_targets goarch spec cat spot ts =
     (map (\<lambda>t. \<lparr>cand_target = t, cand_cost = plan_estimateCost spec t cat spot\<rparr>)
        (filter (\<lambda>t. fr_Feasible (CheckFeasibility goarch t spec)) ts),
      map (\<lambda>t. \<lparr>rj_Target = tc_ID t, rj_Reason = hd (fr_Reasons (CheckFeasibility goarch t spec))\<rparr>)
        (filter (\<lambda>t. \<not> fr_Feasible (CheckFeasibility goarch t spec)) ts))"
  by (induction ts) (auto simp: Let_def)

definition in_budget :: "f64 \<Rightarrow> candidate \<Rightarrow> bool" where
  "in_budget budget c \<longleftrightarrow> \<not> unknown_cost c \<and> ce_Value (cand_cost c) \<le> budget"

lemma budget_loop_kept: "budget_loop pinned budget cs = Inr (kept, rej) \<Longrightarrow> kept = filter (in_budget budget) cs"
  by (induction cs arbitrary: kept rej) (auto simp: Let_def in_budget_def split: if_splits sum.splits prod.splits)

lemma budget_loop_pinned:
  "budget_loop (tc_ID (cand_target c)) budget (c # cs) = Inr (kept, rej) \<Longrightarrow> in_budget budget c"
  by (auto simp: Let_def in_budget_def split: if_splits)

text \<open>What \<^verbatim>\<open>orderAndFilter\<close> returns: the candidates in order, those over the budget left out.\<close>

lemma orderAndFilter_kept:
  assumes "orderAndFilter cs c = Inr (kept, over)"
  defines "ordered \<equiv> if pc_TargetName c = [] then sortCandidates (pc_OptimizeFor c) cs else cs"
  shows "kept = (if pc_MaxEstimatedCostUSD c \<le> 0 then ordered else filter (in_budget (pc_MaxEstimatedCostUSD c)) ordered)"
    and "cs \<noteq> [] \<Longrightarrow> kept \<noteq> []"
proof -
  have o: "cs \<noteq> [] \<Longrightarrow> ordered \<noteq> []"
    unfolding ordered_def sortCandidates_def by (metis length_0_conv length_sort_Slice)
  show "kept = (if pc_MaxEstimatedCostUSD c \<le> 0 then ordered else filter (in_budget (pc_MaxEstimatedCostUSD c)) ordered)"
    using assms(1) unfolding orderAndFilter_def Let_def ordered_def [symmetric]
    by (auto split: if_splits sum.splits prod.splits dest: budget_loop_kept)
  show "kept \<noteq> []" if "cs \<noteq> []"
    using assms(1) o [OF that] unfolding orderAndFilter_def Let_def ordered_def [symmetric]
    by (auto split: if_splits sum.splits prod.splits)
qed

lemma set_sortCandidates [simp]: "set (sortCandidates goal cs) = set cs"
  by (simp add: sortCandidates_def)

definition merged_constraints :: "build_env \<Rightarrow> source_tree \<Rightarrow> plan_constraints \<Rightarrow> plan_constraints" where
  "merged_constraints e st c =
     (case LoadConfig (be_vars e) (be_decode e) (be_read e) (st_path st) of
        Inr (Some d) \<Rightarrow> merge_constraints d c | _ \<Rightarrow> c)"

lemma Build_cases:
  assumes "Build e st c0 cat = Inr p"
  obtains spec feasible rej over kept where
    "plan_candidates (be_goarch e) spec cat (merged_constraints e st c0) (plan_registry e) = Inr (feasible, rej)"
    "feasible \<noteq> []" "orderAndFilter feasible (merged_constraints e st c0) = Inr (kept, over)" "kept \<noteq> []"
    "p = assemble_plan spec (merged_constraints e st c0) (hd kept) (tl kept) (rej @ over) (be_short_id e) (be_now e)"
proof -
  from assms obtain spec kept rejected where s:
    "build_candidates e spec (merged_constraints e st c0) cat = Inr (kept, rejected)"
    "p = assemble_plan spec (merged_constraints e st c0) (hd kept) (tl kept) rejected (be_short_id e) (be_now e)"
    by (auto simp: Build_def merged_constraints_def Let_def split: sum.splits option.splits prod.splits)
  from s(1) obtain feasible rej over where
    "plan_candidates (be_goarch e) spec cat (merged_constraints e st c0) (plan_registry e) = Inr (feasible, rej)"
    "feasible \<noteq> []" "orderAndFilter feasible (merged_constraints e st c0) = Inr (kept, over)" "rejected = rej @ over"
    by (auto simp: build_candidates_def split: sum.splits prod.splits if_splits)
  with s(2) orderAndFilter_kept(2) that show thesis by blast
qed

lemma plan_candidates_sound:
  assumes "plan_candidates goarch spec cat c reg = Inr (feasible, rej)" and "x \<in> set feasible"
  shows "fr_Feasible (CheckFeasibility goarch (cand_target x) spec)
    \<and> cand_cost x = plan_estimateCost spec (cand_target x) cat (pc_Spot c)"
  using assms by (auto simp: plan_candidates_def Let_def evaluate_targets_eq split: if_splits option.splits)

lemma kept_subset: "orderAndFilter cs c = Inr (kept, over) \<Longrightarrow> set kept \<subseteq> set cs"
  using orderAndFilter_kept(1) [of cs c kept over] by (auto split: if_splits)


section \<open>The budget is respected\<close>

lemma assemble_plan_sel:
  "pl_Recommendation (assemble_plan spec c b os rj i n) = Some
     \<lparr>rec_Target = tc_ID (cand_target b), rec_Runtime = RuntimeForTarget (cand_target b),
      rec_EstimatedCost = cand_cost b, rec_Reason = buildReasons spec (cand_target b)\<rparr>"
  "pl_Workload (assemble_plan spec c b os rj i n) = spec"
  "pl_Constraints (assemble_plan spec c b os rj i n) = c"
  "pl_RequiredApprovals (assemble_plan spec c b os rj i n) = Evaluate spec (cand_target b) (cand_cost b)"
  "pl_Validation (assemble_plan spec c b os rj i n) = validate spec (cand_target b) (cand_cost b)"
  "alt_EstimatedCost ` set (pl_Alternatives (assemble_plan spec c b os rj i n)) = cand_cost ` set os"
  by (simp_all add: assemble_plan_def image_image)

definition confirmed_within :: "f64 \<Rightarrow> cost_estimate \<Rightarrow> bool" where
  "confirmed_within budget est \<longleftrightarrow> ce_Confidence est \<noteq> ConfidenceUnknown \<and> ce_Value est \<le> budget"

lemma f64_pos_not_le: "0 < b \<Longrightarrow> \<not> b \<le> (0 :: f64)"
  by (cases b) (auto simp: zero_f64_def less_f64_def)

text \<open>
  C30: With a budget, given on the command line or, failing that, in \<^verbatim>\<open>dispatcher.yaml\<close>, every plan
  recommends a target whose cost is known and within the budget, and so is every alternative it
  offers.
\<close>

theorem plan_within_budget:
  assumes "Build e st c0 cat = Inr p"
    and "budget = pc_MaxEstimatedCostUSD c0 \<or>
      pc_MaxEstimatedCostUSD c0 = 0 \<and> budget = dc_MaxCost d
      \<and> LoadConfig (be_vars e) (be_decode e) (be_read e) (st_path st) = Inr (Some d)"
    and "0 < budget"
  shows "\<exists>rec. pl_Recommendation p = Some rec \<and> confirmed_within budget (rec_EstimatedCost rec)
    \<and> (\<forall>a\<in>set (pl_Alternatives p). confirmed_within budget (alt_EstimatedCost a))"
proof -
  let ?c = "merged_constraints e st c0"
  have b: "pc_MaxEstimatedCostUSD ?c = budget"
  proof -
    have "\<not> (0 :: f64) < 0" by (simp add: zero_f64_def)
    then show ?thesis using assms(2,3)
      by (auto simp: merged_constraints_def merge_constraints_def split: sum.splits option.splits)
  qed
  obtain spec feasible rej over kept where k: "orderAndFilter feasible ?c = Inr (kept, over)" "kept \<noteq> []"
    and p: "p = assemble_plan spec ?c (hd kept) (tl kept) (rej @ over) (be_short_id e) (be_now e)"
    using Build_cases [OF assms(1)] by metis
  have "in_budget budget x" if "x \<in> set kept" for x
    using that orderAndFilter_kept(1) [OF k(1)] f64_pos_not_le [OF assms(3)] by (simp add: b)
  then have "confirmed_within budget (cand_cost x)" if "x \<in> set kept" for x
    using that by (simp add: in_budget_def unknown_cost_def confirmed_within_def)
  then have "confirmed_within budget (cand_cost (hd kept))" "\<forall>x\<in>cand_cost ` set (tl kept). confirmed_within budget x"
    using k(2) by (cases kept; simp)+
  then show ?thesis
    unfolding p using assemble_plan_sel(1,6) by (metis imageI recommendation.select_convs(3))
qed

section \<open>The best target is recommended\<close>

lemma plan_estimate_not_NaN: "ce_Value (plan_estimateCost spec t cat spot) \<noteq> NaN"
proof -
  have c: "ce_Value est \<noteq> NaN" if "estimateFromCatalog spec t k = Some est" for k est
    using that by (auto simp: estimateFromCatalog_def roundCents_def Let_def split: option.splits list.splits)
  have r: "ce_Value (estimateFromRateCard spec t) \<noteq> NaN"
    by (simp add: estimateFromRateCard_def roundCents_def cost_estimate_zero_def Let_def split: option.splits)
  have "ce_Value (EstimateCost spec t cat) \<noteq> NaN"
    using c r by (auto simp: EstimateCost_def Let_def split: option.splits if_splits)
  then show ?thesis
    by (simp add: plan_estimateCost_def ApplySpot_def roundCents_def Let_def split: option.splits)
qed

lemma orderAndFilter_best:
  assumes "orderAndFilter cs c = Inr (kept, over)" and "pc_TargetName c = []" and "pc_OptimizeFor c \<noteq> OptimizeSpeed"
    and D: "set cs \<subseteq> {c. ce_Value (cand_cost c) \<noteq> NaN}" and x: "x \<in> set cs" "\<not> unknown_cost x"
  shows "\<not> unknown_cost (hd kept) \<and> ce_Value (cand_cost (hd kept)) \<le> ce_Value (cand_cost x)"
proof -
  let ?o = "sortCandidates (pc_OptimizeFor c) cs" and ?b = "pc_MaxEstimatedCostUSD c"
  have kept: "kept = (if ?b \<le> 0 then ?o else filter (in_budget ?b) ?o)"
    using orderAndFilter_kept(1) [OF assms(1)] assms(2) by simp
  have "cs \<noteq> []" using x(1) by auto
  then have ne: "kept \<noteq> []" by (rule orderAndFilter_kept(2) [OF assms(1)])
  have "sorted_wrt (\<lambda>a b. \<not> cand_less (pc_OptimizeFor c) b a) ?o"
    unfolding sortCandidates_def by (rule cand_order.sorted_sort_Slice [OF D])
  then have srt: "sorted_wrt (\<lambda>a b. \<not> cand_less (pc_OptimizeFor c) b a) kept" by (simp add: kept sorted_wrt_filter)
  have "hd kept \<in> set cs" using ne kept_subset [OF assms(1)] by auto
  then have nan: "ce_Value (cand_cost (hd kept)) \<noteq> NaN" "ce_Value (cand_cost x) \<noteq> NaN" using D x(1) by auto
  show ?thesis
  proof (cases "x \<in> set kept")
    case True
    then have "x = hd kept \<or> \<not> cand_less (pc_OptimizeFor c) x (hd kept)" using srt ne by (cases kept) auto
    then have "\<not> unknown_cost (hd kept) \<and> \<not> ce_Value (cand_cost x) < ce_Value (cand_cost (hd kept))"
      using x(2) assms(3) by (auto simp: cand_less_def less_f64_def split: if_splits)
    then show ?thesis using nan f64_not_le by auto
  next
    case False
    then have b: "\<not> ?b \<le> 0" "\<not> in_budget ?b x" using kept x(1) by (auto split: if_splits)
    have "hd kept \<in> set kept" using ne by simp
    then have "in_budget ?b (hd kept)" using kept b(1) by (simp split: if_splits)
    then have h: "\<not> unknown_cost (hd kept)" "ce_Value (cand_cost (hd kept)) \<le> ?b" by (simp_all add: in_budget_def)
    have "\<not> ce_Value (cand_cost x) \<le> ?b" using b(2) x(2) by (simp add: in_budget_def)
    then show ?thesis using h nan f64_le_total f64_le_trans f64_le_not_NaN by metis
  qed
qed

text \<open>
  C31: Without a requested target, and unless speed is what to optimise, the recommended target is a
  feasible target of the registry and the cheapest of these: the cost in the plan is the one estimated for
  it, no feasible target of the registry with a known cost is cheaper, and a target of unknown
  cost is only recommended when no feasible one has a known cost. Only the estimated cost is
  compared; nothing is said of two targets of the same cost.
\<close>

theorem plan_recommends_cheapest:
  assumes "Build e st c0 cat = Inr p" and "pl_Recommendation p = Some rec"
    and "pc_TargetName (pl_Constraints p) = ''''" and "pc_OptimizeFor (pl_Constraints p) \<noteq> OptimizeSpeed"
    and "t \<in> set (registry_List (plan_registry e))" and "fr_Feasible (CheckFeasibility (be_goarch e) t (pl_Workload p))"
    and "est = plan_estimateCost (pl_Workload p) t cat (pc_Spot (pl_Constraints p))"
    and "ce_Confidence est \<noteq> ConfidenceUnknown"
  shows "ce_Confidence (rec_EstimatedCost rec) \<noteq> ConfidenceUnknown \<and> ce_Value (rec_EstimatedCost rec) \<le> ce_Value est
    \<and> (\<exists>b. b \<in> set (registry_List (plan_registry e)) \<and> tc_ID b = rec_Target rec
         \<and> fr_Feasible (CheckFeasibility (be_goarch e) b (pl_Workload p))
         \<and> rec_EstimatedCost rec = plan_estimateCost (pl_Workload p) b cat (pc_Spot (pl_Constraints p)))"
proof -
  let ?c = "merged_constraints e st c0"
  obtain spec feasible rej over kept where k: "orderAndFilter feasible ?c = Inr (kept, over)" and ne: "kept \<noteq> []"
    and f: "plan_candidates (be_goarch e) spec cat ?c (plan_registry e) = Inr (feasible, rej)"
    and p: "p = assemble_plan spec ?c (hd kept) (tl kept) (rej @ over) (be_short_id e) (be_now e)"
    using Build_cases [OF assms(1)] by metis
  note sel = assemble_plan_sel [where spec = spec and c = ?c and b = "hd kept" and os = "tl kept" and rj = "rej @ over"
      and i = "be_short_id e" and n = "be_now e", folded p]
  have rec: "rec_EstimatedCost rec = cand_cost (hd kept)" "rec_Target rec = tc_ID (cand_target (hd kept))"
    using assms(2) sel(1) by auto
  have c: "pc_TargetName ?c = []" "pc_OptimizeFor ?c \<noteq> OptimizeSpeed" using assms(3,4) sel(3) by simp_all
  have fs: "feasible = map (\<lambda>t. \<lparr>cand_target = t, cand_cost = plan_estimateCost spec t cat (pc_Spot ?c)\<rparr>)
      (filter (\<lambda>t. fr_Feasible (CheckFeasibility (be_goarch e) t spec)) (registry_List (plan_registry e)))"
    using f c(1) by (simp add: plan_candidates_def Let_def evaluate_targets_eq)
  have "\<lparr>cand_target = t, cand_cost = est\<rparr> \<in> set feasible" using assms(5-7) sel(2,3) by (simp add: fs)
  moreover have "set feasible \<subseteq> {c. ce_Value (cand_cost c) \<noteq> NaN}" using plan_estimate_not_NaN by (auto simp: fs)
  moreover have "hd kept \<in> set feasible" using ne kept_subset [OF k] by auto
  then have "cand_target (hd kept) \<in> set (registry_List (plan_registry e))
      \<and> fr_Feasible (CheckFeasibility (be_goarch e) (cand_target (hd kept)) (pl_Workload p))
      \<and> cand_cost (hd kept) = plan_estimateCost (pl_Workload p) (cand_target (hd kept)) cat (pc_Spot (pl_Constraints p))"
    by (auto simp: fs sel(2,3))
  ultimately show ?thesis
    using orderAndFilter_best [OF k c, of "\<lparr>cand_target = t, cand_cost = est\<rparr>"] assms(8)
    by (auto simp: rec unknown_cost_def)
qed

section \<open>A requested target is never replaced\<close>

lemma Get_fold_id:
  "(\<And>k u. registry_Get r k = Some u \<Longrightarrow> tc_ID u = k) \<Longrightarrow> registry_Get (fold registry_Add ts r) i = Some t \<Longrightarrow> tc_ID t = i"
proof (induction ts arbitrary: r)
  case (Cons a ts)
  show ?case by (rule Cons.IH [of "registry_Add a r"]) (use Cons.prems in \<open>auto simp: Get_Add split: if_splits\<close>)
qed auto

lemma plan_registry_id: "registry_Get (plan_registry e) i = Some t \<Longrightarrow> tc_ID t = i"
proof -
  assume t: "registry_Get (plan_registry e) i = Some t"
  obtain us where "plan_registry e = fold registry_Add us (fold registry_Add BuiltinTargets [])"
    using LoadUserConfig_adds [of "be_targets e" "LoadBuiltins NewRegistry"]
    by (auto simp: plan_registry_def LoadBuiltins_def NewRegistry_def)
  then have "plan_registry e = fold registry_Add (BuiltinTargets @ us) []" by simp
  with t have "registry_Get (fold registry_Add (BuiltinTargets @ us) []) i = Some t" by simp
  then show ?thesis by (rule Get_fold_id [rotated]) (simp add: registry_Get_def)
qed

text \<open>
  A requested target is recommended or the plan fails: it is never exchanged for another one,
  neither for feasibility nor for the budget. The recommended target is one the registry holds under
  its name and whose feasibility was checked.
\<close>

theorem requested_target_honoured:
  assumes "Build e st c0 cat = Inr p" and "pc_TargetName (pl_Constraints p) \<noteq> ''''"
  shows "\<exists>rec t. pl_Recommendation p = Some rec \<and> rec_Target rec = pc_TargetName (pl_Constraints p)
    \<and> registry_Get (plan_registry e) (rec_Target rec) = Some t
    \<and> fr_Feasible (CheckFeasibility (be_goarch e) t (pl_Workload p))"
proof -
  let ?c = "merged_constraints e st c0"
  obtain spec feasible rej over kept where k: "orderAndFilter feasible ?c = Inr (kept, over)"
    and f: "plan_candidates (be_goarch e) spec cat ?c (plan_registry e) = Inr (feasible, rej)"
    and p: "p = assemble_plan spec ?c (hd kept) (tl kept) (rej @ over) (be_short_id e) (be_now e)"
    using Build_cases [OF assms(1)] by metis
  note sel = assemble_plan_sel [where spec = spec and c = ?c and b = "hd kept" and os = "tl kept" and rj = "rej @ over"
      and i = "be_short_id e" and n = "be_now e", folded p]
  have n: "pc_TargetName ?c \<noteq> []" using assms(2) sel(3) by simp
  from f n obtain t x fs where t: "registry_Get (plan_registry e) (pc_TargetName ?c) = Some t"
    "fr_Feasible (CheckFeasibility (be_goarch e) t spec)" "feasible = x # fs" "cand_target x = t"
    by (auto simp: plan_candidates_def Let_def split: option.splits if_splits prod.splits)
  have i: "tc_ID t = pc_TargetName ?c" using plan_registry_id [OF t(1)] .
  have "hd kept = x"
  proof (cases "pc_MaxEstimatedCostUSD ?c \<le> 0")
    case True
    then show ?thesis using orderAndFilter_kept(1) [OF k] n t(3) by simp
  next
    case False
    have "in_budget (pc_MaxEstimatedCostUSD ?c) x"
      using k False n t(3,4) i budget_loop_pinned [of x "pc_MaxEstimatedCostUSD ?c" fs]
      by (auto simp: orderAndFilter_def Let_def split: sum.splits prod.splits)
    then show ?thesis using orderAndFilter_kept(1) [OF k] n t(3) False by simp
  qed
  then show ?thesis using sel t i by simp
qed

section \<open>The requirements of the workload are honoured\<close>

lemma plan_registry_List: "t \<in> set (registry_List (plan_registry e)) \<Longrightarrow> registry_Get (plan_registry e) (tc_ID t) = Some t"
  using plan_registry_id [of e] by (auto simp: registry_List_def lookup_all_def mem_map_filter)

lemma plan_candidates_registered:
  assumes "plan_candidates goarch spec cat c (plan_registry e) = Inr (feasible, rej)" and "x \<in> set feasible"
  shows "registry_Get (plan_registry e) (tc_ID (cand_target x)) = Some (cand_target x)"
  using assms plan_registry_id [of e] plan_registry_List [of _ e]
  by (auto simp: plan_candidates_def Let_def evaluate_targets_eq split: if_splits option.splits)

lemma Build_offers:
  assumes "Build e st c0 cat = Inr p" and "pl_Recommendation p = Some rec"
    and "i = rec_Target rec \<or> i \<in> alt_Target ` set (pl_Alternatives p)"
  shows "\<exists>t. registry_Get (plan_registry e) i = Some t \<and> can_run (be_goarch e) t (pl_Workload p)"
proof -
  let ?c = "merged_constraints e st c0"
  obtain spec feasible rej over kept where k: "orderAndFilter feasible ?c = Inr (kept, over)" "kept \<noteq> []"
    and f: "plan_candidates (be_goarch e) spec cat ?c (plan_registry e) = Inr (feasible, rej)"
    and p: "p = assemble_plan spec ?c (hd kept) (tl kept) (rej @ over) (be_short_id e) (be_now e)"
    using Build_cases [OF assms(1)] by metis
  have "i = tc_ID (cand_target (hd kept)) \<or> i \<in> (\<lambda>x. tc_ID (cand_target x)) ` set (tl kept)"
    using assms(2,3) by (auto simp: p assemble_plan_def)
  then obtain x where x: "x \<in> set kept" "i = tc_ID (cand_target x)" using k(2) by (cases kept) auto
  then have "x \<in> set feasible" using kept_subset [OF k(1)] by auto
  from plan_candidates_sound [OF f this] plan_candidates_registered [OF f this] x(2) show ?thesis
    by (auto simp: CheckFeasibility_iff p assemble_plan_sel)
qed

lemma Build_gpu:
  assumes "Build e st c0 cat = Inr p" and "pc_RequireGPU c0 \<noteq> ''''"
  obtains spec where "applyGPUOverride (pc_RequireGPU c0) spec = Inr (pl_Workload p)"
proof -
  have "pc_RequireGPU (merge_constraints d c0) = pc_RequireGPU c0" for d by (simp add: merge_constraints_def)
  with assms that show thesis
    by (auto simp: Build_def Let_def assemble_plan_sel split: sum.splits option.splits prod.splits if_splits)
qed

lemma applyGPUOverride_pair:
  assumes "applyGPUOverride (m @ CHR '':'' # k) spec = Inr w" and "CHR '':'' \<notin> set m"
  shows "gr_Required (rr_GPU (ws_Requirements w)) \<and> gr_Model (rr_GPU (ws_Requirements w)) = m
    \<and> strconv_Atoi k = Some (gr_Count (rr_GPU (ws_Requirements w))) \<and> 0 < gr_Count (rr_GPU (ws_Requirements w))"
proof -
  have "takeWhile (\<lambda>c. c \<noteq> CHR '':'') (m @ CHR '':'' # k) = m" using assms(2) by (induction m) auto
  with assms(1) show ?thesis
    by (auto simp: applyGPUOverride_def Let_def split: option.splits if_splits)
qed

text \<open>
  C34: What the workload requires is never traded away for a cheaper target: the recommended target and every
  alternative is an enabled target of the registry that supports the workload's kind; a required GPU is supported, and a
  model that was asked for is listed, up to case; a confidential workload gets its type, never comes with a
  GPU, and, attested, gets on AWS and on Azure only the measured profile of that cloud, as a measured
  profile gets only its cloud; a sandboxed workload gets isolation above the process. The GPU of
  \<^verbatim>\<open>--gpu model:count\<close> is a requirement in that sense, whatever the workload's own
  configuration says.
\<close>

theorem plan_honours_requirements:
  assumes "Build e st c0 cat = Inr p" and "pl_Recommendation p = Some rec"
    and "i = rec_Target rec \<or> i \<in> alt_Target ` set (pl_Alternatives p)"
    and "req = ws_Requirements (pl_Workload p)"
  shows "\<exists>t. registry_Get (plan_registry e) i = Some t \<and> tc_Enabled t
    \<and> ws_DetectedKind (pl_Workload p) \<in> set (cap_WorkloadKinds (tc_Capabilities t))
    \<and> (gr_Required (rr_GPU req) \<longrightarrow> gc_Supported (rc_GPU (cap_Resources (tc_Capabilities t)))
        \<and> (gr_Model (rr_GPU req) = '''' \<or>
           strings_ToLower (gr_Model (rr_GPU req)) \<in> strings_ToLower ` set (gc_Models (rc_GPU (cap_Resources (tc_Capabilities t))))))
    \<and> (cr_Required (rr_Confidential req) \<longrightarrow> cc_Supported (rc_Confidential (cap_Resources (tc_Capabilities t)))
        \<and> cr_Type (rr_Confidential req) \<in> {'''', ''any''} \<union> set (cc_Types (rc_Confidential (cap_Resources (tc_Capabilities t))))
        \<and> \<not> gr_Required (rr_GPU req)
        \<and> (cr_Profile (rr_Confidential req) = ''nitro'' \<longrightarrow> i = ''aws-vm'')
        \<and> (cr_Profile (rr_Confidential req) = ''azure-snp'' \<longrightarrow> i = ''azure-vm'')
        \<and> (strings_ToLower (cr_Attestation (rr_Confidential req)) \<noteq> ''off'' \<longrightarrow>
             (i = ''aws-vm'' \<longrightarrow> cr_Profile (rr_Confidential req) = ''nitro'')
             \<and> (i = ''azure-vm'' \<longrightarrow> cr_Profile (rr_Confidential req) = ''azure-snp'')))
    \<and> (rr_Sandbox req \<longrightarrow>
        (\<exists>l\<in>set (ic_Levels (cap_Isolation (tc_Capabilities t))). l \<noteq> '''' \<and> strings_ToLower l \<noteq> ''process''))
    \<and> (\<forall>m k. pc_RequireGPU c0 = m @ CHR '':'' # k \<and> CHR '':'' \<notin> set m \<longrightarrow>
        gr_Required (rr_GPU req) \<and> gr_Model (rr_GPU req) = m
        \<and> strconv_Atoi k = Some (gr_Count (rr_GPU req)) \<and> 0 < gr_Count (rr_GPU req))"
proof -
  obtain t where t: "registry_Get (plan_registry e) i = Some t" "can_run (be_goarch e) t (pl_Workload p)"
    using Build_offers [OF assms(1-3)] by blast
  have i: "tc_ID t = i" by (rule plan_registry_id [OF t(1)])
  have off: "strings_ToLower ''off'' = ''off''" by code_simp
  have gpu: "gr_Required (rr_GPU req) \<and> gr_Model (rr_GPU req) = m
      \<and> strconv_Atoi k = Some (gr_Count (rr_GPU req)) \<and> 0 < gr_Count (rr_GPU req)"
    if "pc_RequireGPU c0 = m @ CHR '':'' # k" "CHR '':'' \<notin> set m" for m k
    using that Build_gpu [OF assms(1)] applyGPUOverride_pair [of m k] unfolding assms(4)
    by (metis append_is_Nil_conv list.distinct(1))
  have conf: "confidential_satisfied t (pl_Workload p)" using t(2) by (simp add: can_run_def)
  note c = conf [unfolded confidential_satisfied_def measured_profile_all type_satisfied_def Let_def strings_EqualFold_def off i,
      folded assms(4)]
  have "gpu_satisfied (rc_GPU (cap_Resources (tc_Capabilities t))) (rr_GPU req)" using t(2) by (simp add: can_run_def assms(4))
  note g = this [unfolded gpu_satisfied_def strings_EqualFold_def]
  show ?thesis
  proof (intro exI [of _ t] conjI)
    show "gr_Required (rr_GPU req) \<longrightarrow> gc_Supported (rc_GPU (cap_Resources (tc_Capabilities t)))
        \<and> (gr_Model (rr_GPU req) = '''' \<or>
           strings_ToLower (gr_Model (rr_GPU req)) \<in> strings_ToLower ` set (gc_Models (rc_GPU (cap_Resources (tc_Capabilities t)))))"
      using g unfolding image_iff by metis
  qed (use t gpu c in \<open>auto simp: can_run_def assms(4)\<close>)
qed

section \<open>What the plan asks to be approved\<close>

lemma plan_recommendation:
  assumes "Build e st c0 cat = Inr p"
  shows "\<exists>t rec. pl_Recommendation p = Some rec \<and> rec_Target rec = tc_ID t
    \<and> fr_Feasible (CheckFeasibility (be_goarch e) t (pl_Workload p))
    \<and> rec_EstimatedCost rec = plan_estimateCost (pl_Workload p) t cat (pc_Spot (pl_Constraints p))
    \<and> (pl_RequiredApprovals p = [] \<longleftrightarrow> auto_approvable (pl_Workload p) t (rec_EstimatedCost rec))"
proof -
  let ?c = "merged_constraints e st c0"
  obtain spec feasible rej over kept where k: "orderAndFilter feasible ?c = Inr (kept, over)" "kept \<noteq> []"
    and f: "plan_candidates (be_goarch e) spec cat ?c (plan_registry e) = Inr (feasible, rej)"
    and p: "p = assemble_plan spec ?c (hd kept) (tl kept) (rej @ over) (be_short_id e) (be_now e)"
    using Build_cases [OF assms(1)] by metis
  note sel = assemble_plan_sel [where spec = spec and c = ?c and b = "hd kept" and os = "tl kept" and rj = "rej @ over"
      and i = "be_short_id e" and n = "be_now e", folded p]
  have "hd kept \<in> set feasible" using k(2) kept_subset [OF k(1)] by auto
  from plan_candidates_sound [OF f this] show ?thesis
    using sel by (auto simp: Evaluate_Nil_iff)
qed

text \<open>
  A plan asks for no approval exactly when its workload may run on the recommended target at the
  estimated cost without one: the recommended target is feasible, the estimate is the one computed
  for it, and the price is confirmed (or merely rough, off the cloud), at most the threshold, with no
  GPU, no public endpoint and no secret that leaves the machine.
\<close>

theorem plan_approvals_iff:
  assumes "Build e st c0 cat = Inr p"
  shows "\<exists>t rec. pl_Recommendation p = Some rec \<and> rec_Target rec = tc_ID t
    \<and> fr_Feasible (CheckFeasibility (be_goarch e) t (pl_Workload p))
    \<and> rec_EstimatedCost rec = plan_estimateCost (pl_Workload p) t cat (pc_Spot (pl_Constraints p))
    \<and> (pl_RequiredApprovals p = [] \<longleftrightarrow> auto_approvable (pl_Workload p) t (rec_EstimatedCost rec))"
  using plan_recommendation [OF assms] .

section \<open>A plan is found when there is one\<close>

lemma plan_registry_ids: "x \<in> set (registry_List (plan_registry e)) \<Longrightarrow> tc_ID x \<noteq> []"
proof -
  assume "x \<in> set (registry_List (plan_registry e))"
  then obtain i where "registry_Get (loaded_registry (be_targets e)) i = Some x"
    by (auto simp: registry_List_def lookup_all_def mem_map_filter plan_registry_def)
  then have "x \<in> set BuiltinTargets \<or> user_ok x" by (rule Get_loaded_cases)
  moreover have "tc_ID x \<noteq> []" if "x \<in> set BuiltinTargets"
  proof -
    from that have "tc_ID x \<in> set (map tc_ID BuiltinTargets)" by simp
    then show ?thesis unfolding BuiltinTargets_ids by auto
  qed
  ultimately show ?thesis by (auto simp: user_ok_def)
qed

lemma budget_loop_unpinned:
  "\<forall>c\<in>set cs. tc_ID (cand_target c) \<noteq> [] \<Longrightarrow> \<exists>rej. budget_loop [] budget cs = Inr (filter (in_budget budget) cs, rej)"
  by (induction cs) (fastforce simp: Let_def in_budget_def)+

lemma Build_found:
  assumes "InspectCodebase (be_vars e) (be_decode e) (be_read e) st = Inr spec"
    and "pc_TargetName (merged_constraints e st c0) = ''''" and "pc_RequireGPU c0 = ''''"
    and "t \<in> set (registry_List (plan_registry e))" and "fr_Feasible (CheckFeasibility (be_goarch e) t spec)"
    and "pc_MaxEstimatedCostUSD (merged_constraints e st c0) \<le> 0 \<or>
      confirmed_within (pc_MaxEstimatedCostUSD (merged_constraints e st c0))
        (plan_estimateCost spec t cat (pc_Spot (merged_constraints e st c0)))"
  shows "\<exists>p. Build e st c0 cat = Inr p \<and> pl_Workload p = spec \<and> pl_Constraints p = merged_constraints e st c0"
proof -
  let ?c = "merged_constraints e st c0" and ?x = "\<lparr>cand_target = t, cand_cost = plan_estimateCost spec t cat (pc_Spot (merged_constraints e st c0))\<rparr>"
  obtain cfg where l: "LoadConfig (be_vars e) (be_decode e) (be_read e) (st_path st) = Inr cfg"
    using assms(1) by (auto simp: InspectCodebase_def split: sum.splits)
  have m: "(case cfg of None \<Rightarrow> c0 | Some d \<Rightarrow> merge_constraints d c0) = ?c"
    using l by (auto simp: merged_constraints_def split: option.splits)
  have g: "pc_RequireGPU ?c = []"
    using assms(3) by (auto simp: merged_constraints_def merge_constraints_def split: sum.splits option.splits)
  obtain feasible rej where f: "plan_candidates (be_goarch e) spec cat ?c (plan_registry e) = Inr (feasible, rej)"
    and fs: "feasible = fst (evaluate_targets (be_goarch e) spec cat (pc_Spot ?c) (registry_List (plan_registry e)))"
    using assms(2) by (auto simp: plan_candidates_def Let_def evaluate_targets_eq)
  have x: "?x \<in> set feasible" using assms(4,5) by (simp add: fs evaluate_targets_eq)
  have ids: "\<forall>c\<in>set feasible. tc_ID (cand_target c) \<noteq> []" using plan_registry_ids by (auto simp: fs evaluate_targets_eq)
  have "\<exists>kept over. orderAndFilter feasible ?c = Inr (kept, over)"
  proof (cases "pc_MaxEstimatedCostUSD ?c \<le> 0")
    case False
    then have "in_budget (pc_MaxEstimatedCostUSD ?c) ?x"
      using assms(6) by (auto simp: in_budget_def unknown_cost_def confirmed_within_def)
    with x have "filter (in_budget (pc_MaxEstimatedCostUSD ?c)) (sortCandidates (pc_OptimizeFor ?c) feasible) \<noteq> []"
      by (metis filter_empty_conv set_sortCandidates)
    moreover obtain r where "budget_loop [] (pc_MaxEstimatedCostUSD ?c) (sortCandidates (pc_OptimizeFor ?c) feasible)
        = Inr (filter (in_budget (pc_MaxEstimatedCostUSD ?c)) (sortCandidates (pc_OptimizeFor ?c) feasible), r)"
      using budget_loop_unpinned ids by (metis set_sortCandidates)
    ultimately show ?thesis using False assms(2) by (simp add: orderAndFilter_def Let_def)
  qed (use assms(2) in \<open>simp add: orderAndFilter_def Let_def\<close>)
  then obtain kept over where o: "orderAndFilter feasible ?c = Inr (kept, over)" by blast
  have "feasible \<noteq> []" using x by auto
  with f o have "build_candidates e spec ?c cat = Inr (kept, rej @ over)" by (simp add: build_candidates_def)
  then show ?thesis
    using assms(1) l by (simp add: Build_def m g Let_def assemble_plan_sel)
qed

text \<open>
  C37: Without a requested target (neither a flag nor \<^verbatim>\<open>dispatcher.yaml\<close> names one) and without
  \<^verbatim>\<open>--gpu\<close>, a plan is always found when there is one: if inspection succeeds
  and some target of the registry is feasible and, given a budget, has a known cost within it, then
  \<^verbatim>\<open>Build\<close> returns a plan for the inspected workload. A requested target is not covered: it
  is never exchanged for another one, so that such a plan fails when that target is infeasible or over the budget.
\<close>

theorem plan_exists:
  assumes "InspectCodebase (be_vars e) (be_decode e) (be_read e) st = Inr spec"
    and "pc_TargetName (merged_constraints e st c0) = ''''" and "pc_RequireGPU c0 = ''''"
    and "t \<in> set (registry_List (plan_registry e))" and "fr_Feasible (CheckFeasibility (be_goarch e) t spec)"
    and "pc_MaxEstimatedCostUSD (merged_constraints e st c0) \<le> 0 \<or>
      confirmed_within (pc_MaxEstimatedCostUSD (merged_constraints e st c0))
        (plan_estimateCost spec t cat (pc_Spot (merged_constraints e st c0)))"
  shows "\<exists>p. Build e st c0 cat = Inr p \<and> pl_Workload p = spec"
  using Build_found [OF assms] by blast

text \<open>A Python script without configuration, planned for the machine it lies on.\<close>

definition demo_script :: source_tree where
  "demo_script = (demo_tree ''proj'')\<lparr>st_text := (\<lambda>f. None)\<rparr>"

definition demo_build_env :: build_env where
  "demo_build_env = \<lparr>be_vars = (\<lambda>_. None), be_decode = (\<lambda>_. Inl ''''), be_read = (\<lambda>_. FileNotExist), be_goarch = ''amd64'',
     be_targets = \<lparr>te_subdir = Inl '''', te_dir = DirNotExist, te_project = Map.empty\<rparr>, be_short_id = ''abc1234'', be_now = 10\<rparr>"

definition demo_plan_constraints :: "string \<Rightarrow> plan_constraints" where
  "demo_plan_constraints name = \<lparr>pc_TargetScope = '''', pc_OptimizeFor = OptimizeCost, pc_MaxEstimatedCostUSD = Fin 1, pc_MaxDuration = 0,
     pc_RequireGPU = '''', pc_TargetName = name, pc_Region = '''', pc_WatchdogTTL = 0, pc_RetryTransientFailures = False,
     pc_AllowSSHFrom = '''', pc_Spot = False\<rparr>"


lemma demo_inspect:
  "InspectCodebase (be_vars demo_build_env) (be_decode demo_build_env) (be_read demo_build_env) demo_script = Inr (InspectCode demo_script)"
  "merged_constraints demo_build_env demo_script c = c"
  "LoadConfig (be_vars demo_build_env) (be_decode demo_build_env) (be_read demo_build_env) d = Inr None"
  by (simp_all add: InspectCodebase_def merged_constraints_def LoadConfig_def demo_build_env_def)

lemma demo_registry_builtin: "plan_registry e = LoadBuiltins NewRegistry" if "be_targets e = be_targets demo_build_env"
  using that by (simp add: plan_registry_def demo_build_env_def LoadUserConfig_def LoadProjectConfig_def)

lemma demo_local_process: "builtin_local_process \<in> set (registry_List (plan_registry demo_build_env))"
proof -
  have "builtin_local_process \<in> set BuiltinTargets" by (simp add: BuiltinTargets_def)
  then have "registry_Get (plan_registry demo_build_env) ''local-process'' = Some builtin_local_process"
    unfolding plan_registry_def using Get_builtin by (fastforce simp: builtin_local_process_def)
  then show ?thesis by (auto simp: registry_List_def lookup_all_def mem_map_filter list_order_def)
qed

lemma demo_script_shape:
  "ws_DetectedKind (InspectCode demo_script) = WorkloadKindScript"
  "\<not> gr_Required (rr_GPU (ws_Requirements (InspectCode demo_script)))"
  "\<not> cr_Required (rr_Confidential (ws_Requirements (InspectCode demo_script)))"
  "\<not> rr_Sandbox (ws_Requirements (InspectCode demo_script))" "rr_Arch (ws_Requirements (InspectCode demo_script)) = []"
  by code_simp+

lemma demo_feasible: "fr_Feasible (CheckFeasibility ''amd64'' builtin_local_process (InspectCode demo_script))"
proof -
  have "ws_DetectedKind (InspectCode demo_script) \<in> set (cap_WorkloadKinds (tc_Capabilities builtin_local_process))"
    unfolding demo_script_shape by (simp add: builtin_local_process_def)
  moreover have "normalizeArch [] = []" by code_simp
  ultimately show ?thesis
    unfolding CheckFeasibility_iff can_run_def
    by (simp add: demo_script_shape gpu_satisfied_def confidential_satisfied_def builtin_local_process_def)
qed

lemma demo_cost: "confirmed_within (Fin 1) (plan_estimateCost (InspectCode demo_script) builtin_local_process None False)"
proof -
  have r: "tc_RateCard builtin_local_process = ''local''" "tc_Kind builtin_local_process = TargetKindLocal"
    by (simp_all add: builtin_local_process_def)
  have "ce_Confidence (estimateFromRateCard (InspectCode demo_script) builtin_local_process) = ConfidenceHigh"
    by (simp add: estimateFromRateCard_def r rateCards_def rateCardToProvider_def Let_def demo_script_shape)
  moreover have "card_total (InspectCode demo_script) \<lparr>rcd_CPUPerHour = 0, rcd_MemoryPerHour = 0, rcd_GPUPerHour = 0, rcd_BasePerHour = 0\<rparr> h = 0 * h" for h
    by (simp add: card_total_def Let_def zero_f64_def)
  moreover have "roundCents (0 * lit 1) \<le> Fin 1" by code_simp
  ultimately show ?thesis
    by (simp add: confirmed_within_def plan_estimateCost_def EstimateCost_def r Let_def estimateFromRateCard_def rateCards_def
        assumedHours_def demo_script_shape DefaultDurationHours_def)
qed


lemma demo_build_env_sel: "be_goarch demo_build_env = ''amd64''"
  by (simp add: demo_build_env_def)

lemma demo_plan_constraints_sel:
  "pc_TargetName (demo_plan_constraints n) = n" "pc_RequireGPU (demo_plan_constraints n) = ''''" "pc_Spot (demo_plan_constraints n) = False"
  "pc_MaxEstimatedCostUSD (demo_plan_constraints n) = Fin 1" "pc_OptimizeFor (demo_plan_constraints n) = OptimizeCost"
  by (simp_all add: demo_plan_constraints_def)

lemmas demo_plan_facts = demo_inspect demo_build_env_sel demo_plan_constraints_sel

theorem plan_exists_witness:
  "\<exists>p. Build demo_build_env demo_script (demo_plan_constraints '''') None = Inr p \<and> pl_Workload p = InspectCode demo_script"
  by (rule plan_exists [OF demo_inspect(1) _ _ demo_local_process])
    (use demo_feasible demo_cost in \<open>simp_all add: demo_plan_facts\<close>)

lemma demo_plan:
  obtains p rec where "Build demo_build_env demo_script (demo_plan_constraints '''') None = Inr p"
    "pl_Workload p = InspectCode demo_script" "pl_Constraints p = demo_plan_constraints ''''" "pl_Recommendation p = Some rec"
proof -
  have "\<exists>p. Build demo_build_env demo_script (demo_plan_constraints '''') None = Inr p \<and> pl_Workload p = InspectCode demo_script
      \<and> pl_Constraints p = merged_constraints demo_build_env demo_script (demo_plan_constraints '''')"
    by (rule Build_found [OF demo_inspect(1) _ _ demo_local_process])
      (use demo_feasible demo_cost in \<open>simp_all add: demo_plan_facts\<close>)
  then obtain p where p: "Build demo_build_env demo_script (demo_plan_constraints '''') None = Inr p"
    "pl_Workload p = InspectCode demo_script" "pl_Constraints p = demo_plan_constraints ''''"
    by (auto simp: demo_inspect(2))
  obtain rec where "pl_Recommendation p = Some rec"
    using Build_cases [OF p(1)] assemble_plan_sel(1) by metis
  with p that show thesis by blast
qed

theorem plan_within_budget_witness:
  "\<exists>p rec. Build demo_build_env demo_script (demo_plan_constraints '''') None = Inr p \<and> pl_Recommendation p = Some rec
     \<and> confirmed_within (Fin 1) (rec_EstimatedCost rec)"
proof -
  obtain p where p: "Build demo_build_env demo_script (demo_plan_constraints '''') None = Inr p" by (rule demo_plan)
  have "0 < Fin 1" by simp
  from plan_within_budget [OF p _ this, of dispatcher_config_zero] p show ?thesis by (auto simp: demo_plan_constraints_sel)
qed

theorem plan_recommends_cheapest_witness:
  "\<exists>p rec. Build demo_build_env demo_script (demo_plan_constraints '''') None = Inr p \<and> pl_Recommendation p = Some rec
     \<and> ce_Value (rec_EstimatedCost rec)
       \<le> ce_Value (plan_estimateCost (InspectCode demo_script) builtin_local_process None False)"
proof -
  obtain p rec where p: "Build demo_build_env demo_script (demo_plan_constraints '''') None = Inr p"
    "pl_Workload p = InspectCode demo_script" "pl_Constraints p = demo_plan_constraints ''''" "pl_Recommendation p = Some rec"
    by (rule demo_plan)
  have "ce_Confidence (rec_EstimatedCost rec) \<noteq> ConfidenceUnknown \<and> ce_Value (rec_EstimatedCost rec)
      \<le> ce_Value (plan_estimateCost (InspectCode demo_script) builtin_local_process None False)"
    by (rule plan_recommends_cheapest [OF p(1,4) _ _ demo_local_process, THEN conj_assoc [THEN iffD2, THEN conjunct1]])
      (use demo_feasible demo_cost p in \<open>simp_all add: demo_plan_facts confirmed_within_def\<close>)
  with p show ?thesis by blast
qed

theorem plan_honours_requirements_witness:
  "\<exists>p rec t. Build demo_build_env demo_script (demo_plan_constraints '''') None = Inr p \<and> pl_Recommendation p = Some rec
     \<and> registry_Get (plan_registry demo_build_env) (rec_Target rec) = Some t \<and> tc_Enabled t
     \<and> WorkloadKindScript \<in> set (cap_WorkloadKinds (tc_Capabilities t))"
proof -
  obtain p rec where p: "Build demo_build_env demo_script (demo_plan_constraints '''') None = Inr p"
    "pl_Workload p = InspectCode demo_script" "pl_Recommendation p = Some rec"
    by (rule demo_plan)
  from plan_honours_requirements [OF p(1,3) disjI1 [OF refl] refl] p show ?thesis
    unfolding p(2) demo_script_shape by blast
qed

theorem plan_approvals_iff_witness:
  "\<exists>p t rec. Build demo_build_env demo_script (demo_plan_constraints '''') None = Inr p \<and> pl_Recommendation p = Some rec
     \<and> (pl_RequiredApprovals p = [] \<longleftrightarrow> auto_approvable (pl_Workload p) t (rec_EstimatedCost rec))"
proof -
  obtain p where p: "Build demo_build_env demo_script (demo_plan_constraints '''') None = Inr p" by (rule demo_plan)
  from plan_approvals_iff [OF p] p show ?thesis by blast
qed

definition demo_pinned :: plan_constraints where
  "demo_pinned = demo_plan_constraints ''local-process''\<lparr>pc_MaxEstimatedCostUSD := 0\<rparr>"

lemma demo_pinned_plan:
  obtains p os rj where "Build demo_build_env demo_script demo_pinned None = Inr p"
    "p = assemble_plan (InspectCode demo_script) demo_pinned
      \<lparr>cand_target = builtin_local_process, cand_cost = plan_estimateCost (InspectCode demo_script) builtin_local_process None False\<rparr>
      os rj ''abc1234'' 10"
proof -
  have c: "pc_TargetName demo_pinned = ''local-process''" "pc_RequireGPU demo_pinned = ''''" "pc_Spot demo_pinned = False"
    "pc_MaxEstimatedCostUSD demo_pinned = 0" by (simp_all add: demo_pinned_def demo_plan_constraints_sel)
  have "builtin_local_process \<in> set BuiltinTargets" by (simp add: BuiltinTargets_def)
  then have g: "registry_Get (plan_registry demo_build_env) ''local-process'' = Some builtin_local_process"
    unfolding plan_registry_def using Get_builtin by (fastforce simp: builtin_local_process_def)
  let ?f = "\<lparr>cand_target = builtin_local_process, cand_cost = plan_estimateCost (InspectCode demo_script) builtin_local_process None False\<rparr>"
  obtain fs rej where "plan_candidates ''amd64'' (InspectCode demo_script) None demo_pinned (plan_registry demo_build_env) = Inr (?f # fs, rej)"
    by (simp add: plan_candidates_def Let_def g c demo_plan_facts demo_feasible evaluate_targets_eq)
  then have "build_candidates demo_build_env (InspectCode demo_script) demo_pinned None = Inr (?f # fs, rej)"
    by (simp add: build_candidates_def orderAndFilter_def demo_plan_facts c)
  then have "Build demo_build_env demo_script demo_pinned None = Inr (assemble_plan (InspectCode demo_script) demo_pinned ?f fs rej ''abc1234'' 10)"
    by (simp add: Build_def demo_plan_facts c) (simp add: demo_build_env_def)
  then show thesis using that by blast
qed

theorem requested_target_honoured_witness:
  "\<exists>p rec. Build demo_build_env demo_script demo_pinned None = Inr p
     \<and> pl_Recommendation p = Some rec \<and> rec_Target rec = ''local-process''"
proof -
  obtain p where p: "Build demo_build_env demo_script demo_pinned None = Inr p" "pl_Constraints p = demo_pinned"
    using demo_pinned_plan assemble_plan_sel(3) by metis
  then have "pc_TargetName (pl_Constraints p) = ''local-process''" by (simp add: demo_pinned_def demo_plan_constraints_sel)
  with requested_target_honoured [OF p(1)] p show ?thesis by fastforce
qed

end
