(* ===== verification/Executor_Plan.thy ===== *)
theory Executor_Plan
  imports Executor_Frame Plan_Build
begin

text \<open>
  Planning and execution together: the executor never replaces the plan of its run, so that what the
  planner recorded in it (the approvals it requires, its budget) is what the executor enforces.
\<close>

section \<open>The plan of a run is never replaced\<close>

interpretation plan_frame: exec_frame A "\<lambda>s s'. r_Plan (x_run s') = r_Plan (x_run s)" for A :: "'w adapter"
  by unfold_locales
    (simp_all add: world_call_def executed_state_def cleaned_state_def log_event_x_def Let_def split: call.splits)

section \<open>From the plan to the machine\<close>

text \<open>
  C6: Planning, approval and execution compose. When a run of a plan that \<^verbatim>\<open>Build\<close> made has asked its
  target to provision, then either the planned workload may run on the recommended target at the
  estimated cost without anybody's approval (a known price, confirmed if it is a cloud machine, at
  most the threshold, no GPU, no public endpoint, no secret leaving the machine), or an approval was
  recorded.
\<close>

theorem planned_run_needs_approval:
  assumes "Build e st c0 cat = Inr p" and "NewRun p sid t0 = Some (x_run s)" and "x_trace s = []"
    and "Execute A ae lw fuel s = (Val res, s')" and "ev \<in> set (x_trace s')" and "provision_event ev"
  shows "(\<exists>t rec. pl_Recommendation p = Some rec \<and> rec_Target rec = tc_ID t
      \<and> fr_Feasible (CheckFeasibility (be_goarch e) t (pl_Workload p))
      \<and> rec_EstimatedCost rec = plan_estimateCost (pl_Workload p) t cat (pc_Spot (pl_Constraints p))
      \<and> auto_approvable (pl_Workload p) t (rec_EstimatedCost rec))
    \<or> (\<exists>a. r_Approval (x_run s') = Some a \<and> apr_Decision a = DecisionApproved)"
proof -
  have "provisions s' \<noteq> 0" using assms(5,6) by (auto simp: provisions_trace filter_empty_conv)
  then have "approved (x_run s')"
    using Execute_finished [OF assms(2-4)] by (auto simp: finished_def disposed_def exec_inv_def)
  moreover have "r_Plan (x_run s') = Some p"
    using keepsD [OF plan_frame.keeps_Execute assms(4)] NewRun_core [OF assms(2)] by simp
  ultimately have "pl_RequiredApprovals p = [] \<or> (\<exists>a. r_Approval (x_run s') = Some a \<and> apr_Decision a = DecisionApproved)"
    by (simp add: approved_def)
  with plan_recommendation [OF assms(1)] show ?thesis by blast
qed

lemma demo_pinned_run:
  obtains p r where "Build demo_build_env demo_script demo_pinned None = Inr p" "NewRun p ''abc1234'' 10 = Some r"
    "r_Plan r = Some p" "r_State r = RunStateCreated" "r_Handle r = None" "r_StartedAt r = 0"
    "pl_RequiredApprovals p = []" "pc_MaxDuration (pl_Constraints p) = 0" "pc_MaxEstimatedCostUSD (pl_Constraints p) = 0"
    "ws_DetectedKind (pl_Workload p) = WorkloadKindScript" "pl_Recommendation p \<noteq> None"
proof -
  obtain p os rj where p: "Build demo_build_env demo_script demo_pinned None = Inr p"
    "p = assemble_plan (InspectCode demo_script) demo_pinned
      \<lparr>cand_target = builtin_local_process, cand_cost = plan_estimateCost (InspectCode demo_script) builtin_local_process None False\<rparr>
      os rj ''abc1234'' 10" by (rule demo_pinned_plan)
  have "auto_approvable (InspectCode demo_script) builtin_local_process
      (plan_estimateCost (InspectCode demo_script) builtin_local_process None False)"
  proof -
    let ?est = "plan_estimateCost (InspectCode demo_script) builtin_local_process None False"
    have est: "ce_Value ?est \<le> Fin 1" "ce_Confidence ?est \<noteq> ConfidenceUnknown" using demo_cost by (simp_all add: confirmed_within_def)
    have "DefaultCostAutoApproveUSD = Fin 5" using mk_f64_int [of 5] by (simp add: DefaultCostAutoApproveUSD_def)
    moreover have "\<not> Fin 5 < ce_Value ?est" using est(1) by (cases "ce_Value ?est") (auto simp: less_f64_def)
    moreover have "tc_Kind builtin_local_process = TargetKindLocal" by (simp add: builtin_local_process_def)
    ultimately show ?thesis
      using demo_script_shape est(2) by (simp add: auto_approvable_def)
  qed
  then have a: "pl_RequiredApprovals p = []" unfolding p(2) assemble_plan_sel by (simp add: Evaluate_Nil_iff)
  obtain rec where "pl_Recommendation p = Some rec" unfolding p(2) assemble_plan_sel by simp
  then obtain r where r: "NewRun p ''abc1234'' 10 = Some r" "r_StartedAt r = 0" by (simp add: NewRun_def)
  show thesis
    by (rule that [OF p(1) r(1)])
      (use NewRun_core [OF r(1)] r(2) a \<open>pl_Recommendation p = Some rec\<close> demo_script_shape(1) in
        \<open>simp_all add: p(2) assemble_plan_sel demo_pinned_def demo_plan_constraints_def\<close>)
qed

theorem planned_run_needs_approval_witness:
  "\<exists>p r s'. Build demo_build_env demo_script demo_pinned None = Inr p \<and> NewRun p ''abc1234'' 10 = Some r
     \<and> Execute demo_adapter demo_env False (Suc 0) ((demo_state [])\<lparr>x_run := r\<rparr>) = (Val (Inr ()), s')
     \<and> (\<exists>t rec. pl_Recommendation p = Some rec \<and> auto_approvable (pl_Workload p) t (rec_EstimatedCost rec)
         \<or> r_Approval (x_run s') \<noteq> None)"
proof -
  obtain p r where pr: "Build demo_build_env demo_script demo_pinned None = Inr p" "NewRun p ''abc1234'' 10 = Some r"
    "r_Plan r = Some p" "r_State r = RunStateCreated" "r_Handle r = None" "r_StartedAt r = 0"
    "pl_RequiredApprovals p = []" "pc_MaxDuration (pl_Constraints p) = 0" "pc_MaxEstimatedCostUSD (pl_Constraints p) = 0"
    "ws_DetectedKind (pl_Workload p) = WorkloadKindScript" "pl_Recommendation p \<noteq> None"
    by (rule demo_pinned_run)
  let ?s = "(demo_state [])\<lparr>x_run := r\<rparr>"
  have "\<exists>s'. Execute demo_adapter demo_env False (Suc 0) ?s = (Val (Inr ()), s') \<and> EvExecuted (stamped r demo_handle) \<in> set (x_trace s')"
    by (simp add: exec_defs step_defs interleave_idle demo_state_def pr demo_run_fields demo_adapter_sel Let_def
        Transition_def isValidTransition_def validTransitions_def time_IsZero_def numeral_3_eq_3)
  then obtain s' where s': "Execute demo_adapter demo_env False (Suc 0) ?s = (Val (Inr ()), s')"
    "EvExecuted (stamped r demo_handle) \<in> set (x_trace s')" by blast
  have "NewRun p ''abc1234'' 10 = Some (x_run ?s)" "x_trace ?s = []" using pr(2) by (simp_all add: demo_state_def)
  from planned_run_needs_approval [OF pr(1) this s'] pr(1,2) s'(1) show ?thesis by fastforce
qed

end
