(* ===== verification/Shard_Plan.thy ===== *)
theory Shard_Plan
  imports Workload_Config
begin

text \<open>
  Shard assignments (\<^verbatim>\<open>internal/shard/shard.go\<close>): discovery of the work items, their round-robin
  distribution over the shards, the environment and the items file that hand a shard its slice.
\<close>

section \<open>Assignments\<close>

record assignment =
  as_Index :: int
  as_Count :: int
  as_Items :: "string list"

definition assignment_Env :: "assignment \<Rightarrow> (string \<times> string) list" where
  "assignment_Env a = [(''SHARD_INDEX'', show_int (as_Index a)), (''SHARD_COUNT'', show_int (as_Count a))]"

text \<open>
  The items file: its content, written with one \<^verbatim>\<open>Fprintln\<close> per item; creating the file, a write
  (counted from 0) or closing it may fail, and a failed file is removed.
\<close>

datatype items_fault = ItemsOk | ItemsCreateFails string | ItemsWriteFails nat string | ItemsCloseFails string

definition WriteItemsFile :: "items_fault \<Rightarrow> string list \<Rightarrow> string result" where
  "WriteItemsFile fault items =
     (case fault of
        ItemsCreateFails e \<Rightarrow> Inl (''write shard items file: '' @ e)
      | ItemsWriteFails k e \<Rightarrow> if k < length items then Inl e else Inr (concat (map (\<lambda>i. i @ [newline]) items))
      | ItemsCloseFails e \<Rightarrow> Inl e
      | ItemsOk \<Rightarrow> Inr (concat (map (\<lambda>i. i @ [newline]) items)))"

text \<open>Discovery, over the result of running the command: its standard output or an error.\<close>

definition Discover :: "string result \<Rightarrow> string list result" where
  "Discover run =
     (case run of
        Inl e \<Rightarrow> Inl (''shard discovery command failed: '' @ e)
      | Inr out \<Rightarrow> Inr (filter (\<lambda>s. s \<noteq> []) (map strings_TrimSpace (strings_Split newline out))))"

definition empty_shards :: "nat \<Rightarrow> assignment list" where
  "empty_shards n = map (\<lambda>i. \<lparr>as_Index = int i, as_Count = int n, as_Items = []\<rparr>) [0..<n]"

definition add_item :: "nat \<Rightarrow> string \<Rightarrow> assignment list \<Rightarrow> assignment list" where
  "add_item k item out = out[k := (out ! k)\<lparr>as_Items := as_Items (out ! k) @ [item]\<rparr>]"

fun distribute :: "nat \<Rightarrow> nat \<Rightarrow> string list \<Rightarrow> assignment list \<Rightarrow> assignment list" where
  "distribute n j [] out = out"
| "distribute n j (item # items) out = distribute n (Suc j) items (add_item (j mod n) item out)"

definition shard_Plan :: "shard_spec \<Rightarrow> string list \<Rightarrow> assignment list" where
  "shard_Plan spec discovered =
     (if sh_Discover spec = ''''
      then (if sh_Count spec \<le> 0 then [] else empty_shards (nat (sh_Count spec)))
      else if discovered = [] then []
      else let n = (if sh_Count spec \<le> 0 \<or> int (length discovered) < sh_Count spec
                    then length discovered else nat (sh_Count spec))
           in distribute n 0 discovered (empty_shards n))"

section \<open>The distribution is a partition\<close>

lemma length_empty_shards [simp]: "length (empty_shards n) = n"
  by (simp add: empty_shards_def)

lemma length_distribute [simp]: "length (distribute n j items out) = length out"
  by (induction n j items out rule: distribute.induct) (simp_all add: add_item_def)

text \<open>The items at the positions of the residue class of \<open>i\<close>, in order, when the first has position \<open>j\<close>.\<close>

fun residue_items :: "nat \<Rightarrow> nat \<Rightarrow> nat \<Rightarrow> 'a list \<Rightarrow> 'a list" where
  "residue_items n i j [] = []"
| "residue_items n i j (x # xs) = (if j mod n = i then x # residue_items n i (Suc j) xs else residue_items n i (Suc j) xs)"

lemma distribute_nth:
  "0 < n \<Longrightarrow> length out = n \<Longrightarrow> i < n \<Longrightarrow>
     distribute n j items out ! i = (out ! i)\<lparr>as_Items := as_Items (out ! i) @ residue_items n i j items\<rparr>"
proof (induction n j items out rule: distribute.induct)
  case (2 n j item items out)
  have k: "j mod n < length out" using 2 by simp
  show ?case
  proof (cases "j mod n = i")
    case True
    with 2 k show ?thesis by (simp add: add_item_def)
  next
    case False
    with 2 k show ?thesis by (simp add: add_item_def)
  qed
qed simp

lemma residue_items_eq: "residue_items n i j xs = map (\<lambda>k. xs ! k) (filter (\<lambda>k. (j + k) mod n = i) [0..<length xs])"
proof (induction n i j xs rule: residue_items.induct)
  case (2 n i j x xs)
  have "[0..<length (x # xs)] = 0 # map Suc [0..<length xs]" by (simp add: upt_conv_Cons map_Suc_upt del: upt_Suc)
  with 2 show ?case by (simp add: filter_map o_def)
qed simp

lemma mset_residue_items:
  assumes "0 < n"
  shows "(\<Sum>i\<in>{0..<n}. mset (residue_items n i j xs)) = mset xs"
proof (induction xs arbitrary: j)
  case (Cons x xs)
  have m: "mset (residue_items n i j (x # xs)) = mset (residue_items n i (Suc j) xs) + (if i = j mod n then {#x#} else {#})" for i
    by auto
  have "(\<Sum>i\<in>{0..<n}. if i = j mod n then {#x#} else {#}) = {#x#}" using assms by (simp add: sum.delta)
  then show ?case unfolding m sum.distrib Cons.IH by simp
qed simp

text \<open>
  C32: In discover mode the shards partition the discovered items: shard \<open>i\<close> of \<open>n\<close> is numbered
  \<open>i\<close> of \<open>n\<close> and receives exactly the items at the positions \<open>i\<close>, \<open>i + n\<close>, \<open>i + 2n\<close>, ..., in order, so that
  every item goes to exactly one shard, none is lost or repeated, and no shard is empty.
\<close>

theorem shard_plan_partition:
  assumes "sh_Discover spec \<noteq> ''''" and "discovered \<noteq> []" and "as = shard_Plan spec discovered"
  shows "0 < length as \<and> length as \<le> length discovered \<and> (0 < sh_Count spec \<longrightarrow> int (length as) \<le> sh_Count spec)
    \<and> (\<forall>i<length as. as_Index (as ! i) = int i \<and> as_Count (as ! i) = int (length as) \<and> as_Items (as ! i) \<noteq> []
        \<and> as_Items (as ! i) = map (\<lambda>k. discovered ! k) (filter (\<lambda>k. k mod length as = i) [0..<length discovered]))
    \<and> (\<Sum>a\<leftarrow>as. mset (as_Items a)) = mset discovered"
proof -
  define n where "n = (if sh_Count spec \<le> 0 \<or> int (length discovered) < sh_Count spec then length discovered else nat (sh_Count spec))"
  have as: "as = distribute n 0 discovered (empty_shards n)"
    using assms by (simp add: shard_Plan_def n_def Let_def)
  have len: "length as = n" by (simp add: as)
  have n: "0 < n" "n \<le> length discovered" "0 < sh_Count spec \<longrightarrow> int n \<le> sh_Count spec"
    using assms(2) by (auto simp: n_def)
  have e: "empty_shards n ! i = \<lparr>as_Index = int i, as_Count = int n, as_Items = []\<rparr>" if "i < n" for i
    using that by (simp add: empty_shards_def)
  have nth: "as ! i = \<lparr>as_Index = int i, as_Count = int n, as_Items = residue_items n i 0 discovered\<rparr>" if "i < n" for i
    unfolding as using that n(1) by (simp add: distribute_nth e)
  have ne: "residue_items n i 0 discovered \<noteq> []" if "i < n" for i
  proof -
    have "i \<in> set (filter (\<lambda>k. k mod n = i) [0..<length discovered])" using that n(2) by simp
    then show ?thesis unfolding residue_items_eq by (auto simp del: set_filter)
  qed
  have "(\<Sum>a\<leftarrow>as. mset (as_Items a)) = (\<Sum>i\<in>{0..<n}. mset (as_Items (as ! i)))"
    unfolding sum_list_sum_nth by (simp add: len)
  also have "\<dots> = mset discovered"
    using mset_residue_items [OF n(1), of 0 discovered] nth by simp
  finally show ?thesis
    unfolding len using n nth ne by (simp add: residue_items_eq)
qed

definition demo_shard_spec :: shard_spec where
  "demo_shard_spec = \<lparr>sh_Count = 2, sh_Discover = ''ls'', sh_MaxParallel = 0, sh_Outputs = [], sh_OnShardFailure = ''''\<rparr>"

theorem shard_plan_partition_witness:
  "shard_Plan demo_shard_spec [''a'', ''b'', ''c'']
     = [\<lparr>as_Index = 0, as_Count = 2, as_Items = [''a'', ''c'']\<rparr>, \<lparr>as_Index = 1, as_Count = 2, as_Items = [''b'']\<rparr>]
   \<and> (\<Sum>a\<leftarrow>shard_Plan demo_shard_spec [''a'', ''b'', ''c'']. mset (as_Items a)) = {#''a'', ''b'', ''c''#}"
proof -
  have "shard_Plan demo_shard_spec [''a'', ''b'', ''c'']
     = [\<lparr>as_Index = 0, as_Count = 2, as_Items = [''a'', ''c'']\<rparr>, \<lparr>as_Index = 1, as_Count = 2, as_Items = [''b'']\<rparr>]"
    by code_simp
  moreover have "sh_Discover demo_shard_spec \<noteq> ''''" by (simp add: demo_shard_spec_def)
  ultimately show ?thesis
    using shard_plan_partition [of demo_shard_spec "[''a'', ''b'', ''c'']"] by simp
qed

section \<open>Items survive the file\<close>

lemma TrimSpace_idem: "strings_TrimSpace (strings_TrimSpace s) = strings_TrimSpace s"
proof (cases "strings_TrimSpace s = []")
  case False
  let ?d = "dropWhile is_space s" and ?t = "strings_TrimSpace s"
  have t: "rev ?t = dropWhile is_space (rev ?d)" by (simp add: strings_TrimSpace_def)
  then have l: "\<not> is_space (last ?t)" using hd_dropWhile [of is_space "rev ?d"] False by (metis hd_rev rev_is_Nil_conv)
  obtain u where u: "rev ?d = u @ rev ?t" unfolding t by (metis takeWhile_dropWhile_id)
  then have d: "?d = ?t @ rev u" by (metis rev_append rev_rev_ident)
  then have "hd ?t = hd ?d" using False by simp
  moreover have "?d \<noteq> []" using d False by auto
  ultimately have "\<not> is_space (hd ?t)" using hd_dropWhile [of is_space s] by simp
  with l False show ?thesis by (intro TrimSpace_id)
next
  case True
  have "strings_TrimSpace [] = []" by (simp add: strings_TrimSpace_def)
  then show ?thesis unfolding True .
qed

lemma Split_append_sep:
  "c \<notin> set l \<Longrightarrow> strings_Split c (l @ c # s) = l # strings_Split c s"
proof (induction l)
  case (Cons x l)
  then have "x \<noteq> c" by auto
  with Cons show ?case by simp
qed simp

lemma Split_items: "\<forall>i\<in>set items. newline \<notin> set i \<Longrightarrow>
    strings_Split newline (concat (map (\<lambda>i. i @ [newline]) items)) = items @ [[]]"
  by (induction items) (simp_all add: Split_append_sep)

text \<open>
  The work items that discovery finds reach a shard unchanged: read back line by line, the items
  file holds exactly the items written, in order, and discovery of its content returns the same list.
\<close>

theorem items_file_roundtrip:
  assumes "Discover run = Inr items" and "set mine \<subseteq> set items"
  shows "\<exists>content. WriteItemsFile ItemsOk mine = Inr content \<and> text_lines content = mine
    \<and> Discover (Inr content) = Inr mine"
proof -
  obtain out where i: "items = filter (\<lambda>s. s \<noteq> []) (map strings_TrimSpace (strings_Split newline out))"
    using assms(1) by (auto simp: Discover_def split: sum.splits)
  have p: "s \<noteq> [] \<and> newline \<notin> set s \<and> strings_TrimSpace s = s" if "s \<in> set mine" for s
  proof -
    from that assms(2) i obtain l where l: "l \<in> set (strings_Split newline out)" "s = strings_TrimSpace l" "s \<noteq> []" by auto
    have "newline \<notin> set s" using strings_Split_no_sep [OF l(1)] set_TrimSpace l(2) by blast
    moreover have "strings_TrimSpace s = s" unfolding l(2) by (rule TrimSpace_idem)
    ultimately show ?thesis using l(3) by blast
  qed
  let ?content = "concat (map (\<lambda>i. i @ [newline]) mine)"
  have s: "strings_Split newline ?content = mine @ [[]]" using p by (intro Split_items) blast
  have "map strings_TrimSpace mine = mine" using p by (intro map_idI) blast
  moreover have "filter (\<lambda>s. s \<noteq> []) mine = mine" using p by (intro filter_True) blast
  moreover have "strings_TrimSpace [] = []" by (simp add: strings_TrimSpace_def)
  ultimately have "Discover (Inr ?content) = Inr mine" by (simp add: Discover_def s)
  moreover have "text_lines ?content = mine" by (simp add: text_lines_def s)
  ultimately show ?thesis by (simp add: WriteItemsFile_def)
qed


theorem items_file_roundtrip_witness:
  "Discover (Inr (''a b'' @ [newline] @ '' c '' @ [newline])) = Inr [''a b'', ''c'']
   \<and> (\<exists>content. WriteItemsFile ItemsOk [''c''] = Inr content \<and> text_lines content = [''c''])"
proof -
  have d: "Discover (Inr (''a b'' @ [newline] @ '' c '' @ [newline])) = Inr [''a b'', ''c'']" by code_simp
  from d items_file_roundtrip [OF d, of "[''c'']"] show ?thesis by auto
qed

end
