(* ===== verification/Shard_Engine.thy ===== *)
theory Shard_Engine
  imports Shard_Plan
begin

text \<open>
  The shard engine (\<^verbatim>\<open>internal/shard/engine.go\<close>): a feeder hands the assignments over an unbuffered
  channel to a bounded set of worker goroutines; the first terminal failure cancels the context
  unless the policy is \<^verbatim>\<open>continue\<close>; \<^verbatim>\<open>retry\<close> runs a failed shard once more. \<^verbatim>\<open>Run\<close> is a step relation
  whose steps are the points at which the goroutines interleave. What a shard's run returns is
  arbitrary, and the caller may cancel the context at any time.
\<close>

section \<open>Results and summaries\<close>

record shard_result =
  res_Index :: int
  res_Success :: bool
  res_Skipped :: bool
  res_Err :: "string option"

definition Succeeded :: "shard_result list \<Rightarrow> nat" where
  "Succeeded rs = length (filter res_Success rs)"

definition Failed :: "shard_result list \<Rightarrow> nat" where
  "Failed rs = length (filter (\<lambda>r. \<not> res_Success r \<and> \<not> res_Skipped r) rs)"

definition Skipped :: "shard_result list \<Rightarrow> nat" where
  "Skipped rs = length (filter res_Skipped rs)"

definition summary_OK :: "shard_result list \<Rightarrow> bool" where
  "summary_OK rs = (Failed rs = 0 \<and> Skipped rs = 0)"

section \<open>The engine\<close>

record shard_engine =
  eg_MaxParallel :: int
  eg_OnShardFailure :: string

definition defaultMaxParallel :: int where
  "defaultMaxParallel = 4"

definition maxPar :: "shard_engine \<Rightarrow> nat \<Rightarrow> nat" where
  "maxPar e n = (let m = (if eg_MaxParallel e \<le> 0 then defaultMaxParallel else eg_MaxParallel e)
                 in if int n < m then n else nat m)"

definition failFast :: "shard_engine \<Rightarrow> bool" where
  "failFast e = (eg_OnShardFailure e \<noteq> ''continue'')"

definition doRetry :: "shard_engine \<Rightarrow> bool" where
  "doRetry e = (eg_OnShardFailure e = ''retry'')"

text \<open>
  A worker waits for a job, has received one, runs its shard for the first or second time, has
  recorded a failure and is about to cancel, or has left its loop.
\<close>

datatype worker = WIdle | WGot nat | WRun nat nat | WFailing nat | WExit

record engine_state =
  en_next :: nat
  en_closed :: bool
  en_cancelled :: bool
  en_external :: bool
  en_workers :: "worker list"
  en_results :: "shard_result list"
  en_calls :: "nat list"

definition skipped_result :: "assignment \<Rightarrow> shard_result" where
  "skipped_result a = \<lparr>res_Index = as_Index a, res_Success = False, res_Skipped = True, res_Err = None\<rparr>"

definition ran_result :: "assignment \<Rightarrow> string option \<Rightarrow> shard_result" where
  "ran_result a err = \<lparr>res_Index = as_Index a, res_Success = (err = None), res_Skipped = False, res_Err = err\<rparr>"

definition engine_init :: "shard_engine \<Rightarrow> assignment list \<Rightarrow> engine_state" where
  "engine_init e as = \<lparr>en_next = 0, en_closed = False, en_cancelled = False, en_external = False,
     en_workers = replicate (maxPar e (length as)) WIdle, en_results = map skipped_result as, en_calls = []\<rparr>"

definition set_worker :: "nat \<Rightarrow> worker \<Rightarrow> engine_state \<Rightarrow> engine_state" where
  "set_worker w x s = s\<lparr>en_workers := (en_workers s)[w := x]\<rparr>"

definition is_worker :: "engine_state \<Rightarrow> nat \<Rightarrow> worker \<Rightarrow> bool" where
  "is_worker s w x = (w < length (en_workers s) \<and> en_workers s ! w = x)"

definition record_result :: "assignment list \<Rightarrow> nat \<Rightarrow> string option \<Rightarrow> engine_state \<Rightarrow> engine_state" where
  "record_result as i err s = s\<lparr>en_results := (en_results s)[i := ran_result (as ! i) err]\<rparr>"

inductive engine_step :: "shard_engine \<Rightarrow> assignment list \<Rightarrow> engine_state \<Rightarrow> engine_state \<Rightarrow> bool"
  for e :: shard_engine and as :: "assignment list"
where
  hand_over: "\<not> en_closed s \<Longrightarrow> en_next s < length as \<Longrightarrow> is_worker s w WIdle \<Longrightarrow>
    engine_step e as s (set_worker w (WGot (en_next s)) (s\<lparr>en_next := Suc (en_next s)\<rparr>))"
| feed_abort: "\<not> en_closed s \<Longrightarrow> en_next s < length as \<Longrightarrow> en_cancelled s \<Longrightarrow> engine_step e as s (s\<lparr>en_closed := True\<rparr>)"
| feed_done: "\<not> en_closed s \<Longrightarrow> en_next s = length as \<Longrightarrow> engine_step e as s (s\<lparr>en_closed := True\<rparr>)"
| drain: "is_worker s w (WGot i) \<Longrightarrow> en_cancelled s \<Longrightarrow> engine_step e as s (set_worker w WIdle s)"
| start: "is_worker s w (WGot i) \<Longrightarrow> \<not> en_cancelled s \<Longrightarrow>
    engine_step e as s (set_worker w (WRun i 1) (s\<lparr>en_calls := en_calls s @ [i]\<rparr>))"
| succeed: "is_worker s w (WRun i k) \<Longrightarrow> engine_step e as s (set_worker w WIdle (record_result as i None s))"
| retry: "is_worker s w (WRun i 1) \<Longrightarrow> doRetry e \<Longrightarrow> \<not> en_cancelled s \<Longrightarrow>
    engine_step e as s (set_worker w (WRun i 2) (s\<lparr>en_calls := en_calls s @ [i]\<rparr>))"
| fail: "is_worker s w (WRun i k) \<Longrightarrow> k \<noteq> 1 \<or> \<not> doRetry e \<or> en_cancelled s \<Longrightarrow>
    engine_step e as s (set_worker w (if failFast e then WFailing i else WIdle) (record_result as i (Some err) s))"
| cancel: "is_worker s w (WFailing i) \<Longrightarrow> engine_step e as s (set_worker w WIdle (s\<lparr>en_cancelled := True\<rparr>))"
| worker_exit: "is_worker s w WIdle \<Longrightarrow> en_closed s \<Longrightarrow> engine_step e as s (set_worker w WExit s)"
| external: "\<not> en_external s \<Longrightarrow> engine_step e as s (s\<lparr>en_cancelled := True, en_external := True\<rparr>)"

inductive_cases engine_stepE: "engine_step e as s s'"

definition engine_finished :: "engine_state \<Rightarrow> bool" where
  "engine_finished s = (en_closed s \<and> list_all (\<lambda>w. w = WExit) (en_workers s))"

definition engine_reachable :: "shard_engine \<Rightarrow> assignment list \<Rightarrow> engine_state \<Rightarrow> bool" where
  "engine_reachable e as s = (engine_step e as)\<^sup>*\<^sup>* (engine_init e as) s"

section \<open>Termination and progress\<close>

fun worker_weight :: "worker \<Rightarrow> nat" where
  "worker_weight WExit = 0"
| "worker_weight WIdle = 1"
| "worker_weight (WFailing i) = 2"
| "worker_weight (WRun i k) = (if k = 1 then 4 else 3)"
| "worker_weight (WGot i) = 5"

definition engine_measure :: "assignment list \<Rightarrow> engine_state \<Rightarrow> nat" where
  "engine_measure as s = 5 * (length as - en_next s) + sum_list (map worker_weight (en_workers s))
     + (if en_closed s then 0 else 1) + (if en_external s then 0 else 1)"

lemma sum_list_map_update:
  fixes f :: "'a \<Rightarrow> nat"
  shows "w < length xs \<Longrightarrow> sum_list (map f (xs[w := y])) + f (xs ! w) = sum_list (map f xs) + f y"
proof (induction xs arbitrary: w)
  case (Cons x xs)
  show ?case
  proof (cases w)
    case (Suc v)
    with Cons.IH [of v] Cons.prems show ?thesis by simp
  qed simp
qed simp

lemma weight_update:
  "is_worker s w x \<Longrightarrow> sum_list (map worker_weight ((en_workers s)[w := y])) + worker_weight x
     = sum_list (map worker_weight (en_workers s)) + worker_weight y"
  using sum_list_map_update [of w "en_workers s" worker_weight y] by (simp add: is_worker_def)

lemma engine_step_measure: "engine_step e as s s' \<Longrightarrow> engine_measure as s' < engine_measure as s"
proof (induction rule: engine_step.induct)
  case (hand_over s w)
  have "5 * (length as - en_next s) = 5 * (length as - Suc (en_next s)) + 5" using hand_over by simp
  then show ?case using weight_update [OF hand_over(3), of "WGot (en_next s)"] by (simp add: engine_measure_def set_worker_def)
next
  case (fail s w i k err)
  then show ?case using weight_update [OF fail(1), of "if failFast e then WFailing i else WIdle"]
    by (simp add: engine_measure_def set_worker_def record_result_def split: if_splits)
next
  case (drain s w i)
  then show ?case using weight_update [OF drain(1), of WIdle] by (simp add: engine_measure_def set_worker_def)
next
  case (start s w i)
  then show ?case using weight_update [OF start(1), of "WRun i 1"] by (simp add: engine_measure_def set_worker_def)
next
  case (succeed s w i k)
  then show ?case using weight_update [OF succeed, of WIdle]
    by (simp add: engine_measure_def set_worker_def record_result_def split: if_splits)
next
  case (retry s w i)
  then show ?case using weight_update [OF retry(1), of "WRun i 2"] by (simp add: engine_measure_def set_worker_def)
next
  case (cancel s w i)
  then show ?case using weight_update [OF cancel, of WIdle] by (simp add: engine_measure_def set_worker_def)
next
  case (worker_exit s w)
  then show ?case using weight_update [OF worker_exit(1), of WExit] by (simp add: engine_measure_def set_worker_def)
qed (simp_all add: engine_measure_def)

section \<open>The invariant\<close>

fun job_of :: "worker \<Rightarrow> nat option" where
  "job_of (WGot i) = Some i"
| "job_of (WRun i k) = Some i"
| "job_of _ = None"

definition holds_job :: "engine_state \<Rightarrow> nat \<Rightarrow> nat \<Rightarrow> bool" where
  "holds_job s i w \<longleftrightarrow> w < length (en_workers s) \<and> job_of (en_workers s ! w) = Some i"

definition max_calls :: "shard_engine \<Rightarrow> nat" where
  "max_calls e = (if doRetry e then 2 else 1)"

definition shard_failed :: "assignment list \<Rightarrow> engine_state \<Rightarrow> nat \<Rightarrow> bool" where
  "shard_failed as s i \<longleftrightarrow> i < length as \<and> (\<exists>err. en_results s ! i = ran_result (as ! i) (Some err))"

text \<open>What a worker's position says of the shard it works on.\<close>

fun worker_inv :: "shard_engine \<Rightarrow> assignment list \<Rightarrow> engine_state \<Rightarrow> worker \<Rightarrow> bool" where
  "worker_inv e as s WIdle \<longleftrightarrow> True"
| "worker_inv e as s (WGot i) \<longleftrightarrow> i < en_next s \<and> en_results s ! i = skipped_result (as ! i) \<and> count_list (en_calls s) i = 0"
| "worker_inv e as s (WRun i k) \<longleftrightarrow> i < en_next s \<and> en_results s ! i = skipped_result (as ! i)
     \<and> count_list (en_calls s) i = k \<and> 0 < k \<and> k \<le> max_calls e"
| "worker_inv e as s (WFailing i) \<longleftrightarrow> failFast e \<and> shard_failed as s i"
| "worker_inv e as s WExit \<longleftrightarrow> en_closed s"

text \<open>A shard that no worker holds has run, or it was never called, and was only dropped when cancelled.\<close>

definition shard_inv :: "shard_engine \<Rightarrow> assignment list \<Rightarrow> engine_state \<Rightarrow> nat \<Rightarrow> bool" where
  "shard_inv e as s i \<longleftrightarrow>
     i < en_next s \<and> (\<exists>err. en_results s ! i = ran_result (as ! i) err)
       \<and> 0 < count_list (en_calls s) i \<and> count_list (en_calls s) i \<le> max_calls e
     \<or> en_results s ! i = skipped_result (as ! i) \<and> count_list (en_calls s) i = 0 \<and> (i < en_next s \<longrightarrow> en_cancelled s)"

definition engine_inv :: "shard_engine \<Rightarrow> assignment list \<Rightarrow> engine_state \<Rightarrow> bool" where
  "engine_inv e as s \<longleftrightarrow>
     length (en_results s) = length as \<and> length (en_workers s) = maxPar e (length as) \<and> en_next s \<le> length as
     \<and> (en_closed s \<and> en_next s < length as \<longrightarrow> en_cancelled s)
     \<and> (en_cancelled s \<longrightarrow> en_external s \<or> failFast e \<and> (\<exists>i. shard_failed as s i))
     \<and> (\<forall>i w w'. holds_job s i w \<and> holds_job s i w' \<longrightarrow> w = w')
     \<and> (\<forall>w<length (en_workers s). worker_inv e as s (en_workers s ! w))
     \<and> (\<forall>i<length as. (\<forall>w. \<not> holds_job s i w) \<longrightarrow> shard_inv e as s i)"

lemma ran_not_skipped [simp]: "ran_result a err \<noteq> skipped_result b" "skipped_result b \<noteq> ran_result a err"
  by (simp_all add: ran_result_def skipped_result_def)

lemma engine_init_inv: "engine_inv e as (engine_init e as)"
  by (auto simp: engine_inv_def engine_init_def holds_job_def shard_inv_def)


lemma set_worker_sel [simp]:
  "en_next (set_worker w y s) = en_next s" "en_closed (set_worker w y s) = en_closed s"
  "en_cancelled (set_worker w y s) = en_cancelled s" "en_external (set_worker w y s) = en_external s"
  "en_results (set_worker w y s) = en_results s" "en_calls (set_worker w y s) = en_calls s"
  "en_workers (set_worker w y s) = (en_workers s)[w := y]"
  by (simp_all add: set_worker_def)

lemma record_result_sel [simp]:
  "en_next (record_result as i r s) = en_next s" "en_closed (record_result as i r s) = en_closed s"
  "en_cancelled (record_result as i r s) = en_cancelled s" "en_external (record_result as i r s) = en_external s"
  "en_results (record_result as i r s) = (en_results s)[i := ran_result (as ! i) r]" "en_calls (record_result as i r s) = en_calls s"
  "en_workers (record_result as i r s) = en_workers s"
  by (simp_all add: record_result_def)

lemma inv_set_worker_sel [simp]:
  "shard_failed as (set_worker w y s) = shard_failed as s" "shard_inv e as (set_worker w y s) i = shard_inv e as s i"
  by (simp_all add: shard_failed_def shard_inv_def fun_eq_iff)

lemma worker_inv_set_worker [simp]: "worker_inv e as (set_worker w y s) x = worker_inv e as s x"
  by (cases x) simp_all

lemma holds_set_worker:
  "holds_job (set_worker w y s) i v \<longleftrightarrow> v < length (en_workers s) \<and> (if v = w then job_of y = Some i else holds_job s i v)"
  by (auto simp: holds_job_def)

text \<open>The invariant after worker \<open>w\<close> moves from \<open>x\<close> to \<open>y\<close> while the rest of the state becomes that of \<open>t\<close>.\<close>

lemma engine_inv_move:
  assumes inv: "engine_inv e as s" and x: "is_worker s w x" and ws: "en_workers t = en_workers s"
    and glob: "length (en_results t) = length as" "en_next t \<le> length as" "en_closed t \<and> en_next t < length as \<longrightarrow> en_cancelled t"
      "en_cancelled t \<longrightarrow> en_external t \<or> failFast e \<and> (\<exists>i. shard_failed as t i)"
    and y: "worker_inv e as t y" and job: "\<And>i. job_of y = Some i \<Longrightarrow> job_of x = Some i \<or> (\<forall>v. \<not> holds_job s i v)"
    and others: "\<And>v. v < length (en_workers s) \<Longrightarrow> v \<noteq> w \<Longrightarrow> worker_inv e as t (en_workers s ! v)"
    and shards: "\<And>i. i < length as \<Longrightarrow> job_of y \<noteq> Some i \<Longrightarrow> (\<And>v. v \<noteq> w \<Longrightarrow> \<not> holds_job s i v) \<Longrightarrow> shard_inv e as t i"
  shows "engine_inv e as (set_worker w y t)"
proof -
  have w: "w < length (en_workers s)" "holds_job s i w \<longleftrightarrow> job_of x = Some i" for i
    using x by (auto simp: is_worker_def holds_job_def)
  have h: "holds_job (set_worker w y t) i v \<longleftrightarrow> v < length (en_workers s) \<and> (if v = w then job_of y = Some i else holds_job s i v)" for i v
    by (auto simp: holds_job_def ws)
  have u: "v = v'" if "holds_job s i v" "holds_job s i v'" for i v v'
    using inv that unfolding engine_inv_def by blast
  have u': "v = v'" if "holds_job (set_worker w y t) i v" "holds_job (set_worker w y t) i v'" for i v v'
    using that job w u unfolding h by (metis (no_types))
  have s': "shard_inv e as t i" if "i < length as" "\<forall>v. \<not> holds_job (set_worker w y t) i v" for i
  proof (rule shards [OF that(1)])
    show "job_of y \<noteq> Some i" using that(2) w(1) unfolding h by metis
    show "\<not> holds_job s i v" if "v \<noteq> w" for v
      using that \<open>\<forall>v. \<not> holds_job (set_worker w y t) i v\<close> unfolding h by (auto simp: holds_job_def)
  qed
  have ws': "worker_inv e as t ((en_workers s)[w := y] ! v)" if "v < length (en_workers s)" for v
    using that others y by (cases "v = w") simp_all
  have "length (en_workers s) = maxPar e (length as)" using inv by (simp add: engine_inv_def)
  then show ?thesis
    using glob u' s' ws' unfolding engine_inv_def by (simp add: ws) blast
qed


lemma engine_invD:
  assumes "engine_inv e as s"
  shows "length (en_results s) = length as" "en_next s \<le> length as"
    "en_closed s \<and> en_next s < length as \<longrightarrow> en_cancelled s"
    "en_cancelled s \<longrightarrow> en_external s \<or> failFast e \<and> (\<exists>i. shard_failed as s i)"
    "\<And>v. v < length (en_workers s) \<Longrightarrow> worker_inv e as s (en_workers s ! v)"
    "\<And>i v w. holds_job s i v \<Longrightarrow> holds_job s i w \<Longrightarrow> v = w"
    "\<And>i. i < length as \<Longrightarrow> (\<And>v. \<not> holds_job s i v) \<Longrightarrow> shard_inv e as s i"
  using assms unfolding engine_inv_def by blast+

lemma worker_at: "engine_inv e as s \<Longrightarrow> is_worker s w x \<Longrightarrow> worker_inv e as s x"
  using engine_invD(5) by (auto simp: is_worker_def)

lemma no_job: "job_of x = None \<Longrightarrow> is_worker s w x \<Longrightarrow> \<not> holds_job s i w"
  by (auto simp: is_worker_def holds_job_def)

lemma other_job:
  "engine_inv e as s \<Longrightarrow> is_worker s w x \<Longrightarrow> job_of x = Some i \<Longrightarrow> v < length (en_workers s) \<Longrightarrow> v \<noteq> w \<Longrightarrow>
     job_of (en_workers s ! v) \<noteq> Some i"
  using engine_invD(6) [of e as s i v w] by (auto simp: is_worker_def holds_job_def)

text \<open>A worker's invariant only depends on the entries of its own shard.\<close>

lemma worker_inv_cong:
  assumes "worker_inv e as s x" and "en_next s \<le> en_next t" and "en_closed s \<longrightarrow> en_closed t"
    and "\<And>i. job_of x = Some i \<Longrightarrow> en_results t ! i = en_results s ! i \<and> count_list (en_calls t) i = count_list (en_calls s) i"
    and "\<And>i. shard_failed as s i \<Longrightarrow> shard_failed as t i"
  shows "worker_inv e as t x"
  using assms by (cases x) auto

lemma shard_inv_cong:
  assumes "shard_inv e as s i" and "en_next t = en_next s" and "en_cancelled s \<longrightarrow> en_cancelled t"
    and "en_results t ! i = en_results s ! i" and "count_list (en_calls t) i = count_list (en_calls s) i"
  shows "shard_inv e as t i"
  using assms unfolding shard_inv_def by auto

lemma step_hand_over:
  assumes inv: "engine_inv e as s" and "\<not> en_closed s" "en_next s < length as" and w: "is_worker s w WIdle"
  shows "engine_inv e as (set_worker w (WGot (en_next s)) (s\<lparr>en_next := Suc (en_next s)\<rparr>))"
proof (rule engine_inv_move [OF inv w])
  note D = engine_invD [OF inv]
  let ?t = "s\<lparr>en_next := Suc (en_next s)\<rparr>"
  have n: "\<not> holds_job s (en_next s) v" for v
  proof
    assume "holds_job s (en_next s) v"
    then show False using D(5) [of v] by (cases "en_workers s ! v") (auto simp: holds_job_def)
  qed
  then have "shard_inv e as s (en_next s)" using D(7) assms(3) by blast
  then show "worker_inv e as ?t (WGot (en_next s))" by (simp add: shard_inv_def)
  show "worker_inv e as ?t (en_workers s ! v)" if "v < length (en_workers s)" for v
    by (rule worker_inv_cong [OF D(5) [OF that]]) (simp_all add: shard_failed_def)
  show "shard_inv e as ?t i" if "i < length as" "job_of (WGot (en_next s)) \<noteq> Some i" "\<And>v. v \<noteq> w \<Longrightarrow> \<not> holds_job s i v" for i
  proof -
    have "\<not> holds_job s i v" for v using that(3) no_job [OF _ w] by (cases "v = w") auto
    then have "shard_inv e as s i" using D(7) that(1) by blast
    then show ?thesis using that(2) by (auto simp: shard_inv_def)
  qed
  show "en_cancelled ?t \<longrightarrow> en_external ?t \<or> failFast e \<and> (\<exists>i. shard_failed as ?t i)"
    using D(4) by (simp add: shard_failed_def)
  show "job_of WIdle = Some i \<or> (\<forall>v. \<not> holds_job s i v)" if "job_of (WGot (en_next s)) = Some i" for i
    using that n by simp
qed (use assms engine_invD [OF inv] in auto)

text \<open>Steps of a worker that call no shard and record no result.\<close>

lemma step_quiet:
  assumes inv: "engine_inv e as s" and w: "is_worker s w x" and y: "worker_inv e as t y" "job_of y = None"
    and t: "en_workers t = en_workers s" "en_results t = en_results s" "en_calls t = en_calls s" "en_next t = en_next s"
      "en_closed t = en_closed s" "en_external t = en_external s" "en_cancelled s \<longrightarrow> en_cancelled t"
    and c: "en_cancelled t \<longrightarrow> en_cancelled s \<or> failFast e \<and> (\<exists>i. shard_failed as s i)"
    and x: "\<And>i. job_of x = Some i \<Longrightarrow> en_cancelled s \<and> x = WGot i"
  shows "engine_inv e as (set_worker w y t)"
proof (rule engine_inv_move [OF inv w t(1)])
  note D = engine_invD [OF inv]
  have f: "shard_failed as t i \<longleftrightarrow> shard_failed as s i" for i by (simp add: shard_failed_def t)
  show "worker_inv e as t (en_workers s ! v)" if "v < length (en_workers s)" for v
    by (rule worker_inv_cong [OF D(5) [OF that]]) (simp_all add: t f)
  show "shard_inv e as t i" if i: "i < length as" "\<And>v. v \<noteq> w \<Longrightarrow> \<not> holds_job s i v" for i
  proof (cases "holds_job s i w")
    case True
    then have "job_of x = Some i" using w by (simp add: holds_job_def is_worker_def)
    with x worker_at [OF inv w] t show ?thesis by (auto simp: shard_inv_def)
  next
    case False
    then have "shard_inv e as s i" using D(7) [OF i(1)] i(2) by metis
    then show ?thesis by (rule shard_inv_cong) (simp_all add: t)
  qed
  show "en_cancelled t \<longrightarrow> en_external t \<or> failFast e \<and> (\<exists>i. shard_failed as t i)"
    using c D(4) by (auto simp: t f)
qed (use y t engine_invD [OF inv] in auto)

text \<open>Steps of a worker that call its shard.\<close>

lemma step_call:
  assumes inv: "engine_inv e as s" and w: "is_worker s w x" and x: "job_of x = Some i"
    and k: "count_list (en_calls s) i + 1 = k" "k \<le> max_calls e"
  shows "engine_inv e as (set_worker w (WRun i k) (s\<lparr>en_calls := en_calls s @ [i]\<rparr>))"
proof (rule engine_inv_move [OF inv w])
  note D = engine_invD [OF inv]
  let ?t = "s\<lparr>en_calls := en_calls s @ [i]\<rparr>"
  have f: "shard_failed as ?t j \<longleftrightarrow> shard_failed as s j" for j by (simp add: shard_failed_def)
  show "worker_inv e as ?t (WRun i k)" using worker_at [OF inv w] x k by (cases x) auto
  show "worker_inv e as ?t (en_workers s ! v)" if "v < length (en_workers s)" "v \<noteq> w" for v
    by (rule worker_inv_cong [OF D(5) [OF that(1)]]) (use other_job [OF inv w x that] in \<open>auto simp: f\<close>)
  show "shard_inv e as ?t j" if j: "j < length as" "job_of (WRun i k) \<noteq> Some j" "\<And>v. v \<noteq> w \<Longrightarrow> \<not> holds_job s j v" for j
  proof -
    have "\<not> holds_job s j w" using w x j(2) by (auto simp: holds_job_def is_worker_def)
    then have "shard_inv e as s j" using D(7) [OF j(1)] j(3) by metis
    then show ?thesis by (rule shard_inv_cong) (use j(2) in auto)
  qed
  show "en_cancelled ?t \<longrightarrow> en_external ?t \<or> failFast e \<and> (\<exists>i. shard_failed as ?t i)" using D(4) by (simp add: f)
qed (use x engine_invD [OF inv] in auto)

text \<open>Steps that record a shard's outcome.\<close>

lemma step_record:
  assumes inv: "engine_inv e as s" and w: "is_worker s w (WRun i k)" and y: "job_of y = None"
    "y = WIdle \<or> y = WFailing i \<and> failFast e \<and> r \<noteq> None"
  shows "engine_inv e as (set_worker w y (record_result as i r s))"
proof (rule engine_inv_move [OF inv w])
  note D = engine_invD [OF inv] and W = worker_at [OF inv w]
  let ?t = "record_result as i r s"
  have i: "i < length as" using W D(2) by simp
  have f: "shard_failed as ?t j" if "shard_failed as s j" for j
    using that W D(1) by (cases "j = i") (auto simp: shard_failed_def)
  show "worker_inv e as ?t y" using y i D(1) by (auto simp: shard_failed_def)
  show "worker_inv e as ?t (en_workers s ! v)" if "v < length (en_workers s)" "v \<noteq> w" for v
  proof (rule worker_inv_cong [OF D(5) [OF that(1)]])
    fix j assume "job_of (en_workers s ! v) = Some j"
    then have "j \<noteq> i" using other_job [OF inv w _ that, of i] by auto
    then show "en_results ?t ! j = en_results s ! j \<and> count_list (en_calls ?t) j = count_list (en_calls s) j" by simp
  qed (simp_all add: f)
  show "shard_inv e as ?t j" if j: "j < length as" "\<And>v. v \<noteq> w \<Longrightarrow> \<not> holds_job s j v" for j
  proof (cases "j = i")
    case True
    then show ?thesis using W i D(1) by (auto simp: shard_inv_def)
  next
    case False
    then have "\<not> holds_job s j w" using w by (auto simp: holds_job_def is_worker_def)
    then have "shard_inv e as s j" using D(7) [OF j(1)] j(2) by metis
    then show ?thesis by (rule shard_inv_cong) (use False in auto)
  qed
  show "en_cancelled ?t \<longrightarrow> en_external ?t \<or> failFast e \<and> (\<exists>i. shard_failed as ?t i)" using D(4) f by auto
qed (use y engine_invD [OF inv] in auto)


text \<open>Steps of the feeder and of the caller, which touch no worker.\<close>

lemma step_global:
  assumes inv: "engine_inv e as s"
    and t: "en_workers t = en_workers s" "en_results t = en_results s" "en_calls t = en_calls s" "en_next t = en_next s"
      "en_closed s \<longrightarrow> en_closed t" "en_cancelled s \<longrightarrow> en_cancelled t"
    and c: "en_closed t \<and> en_next t < length as \<longrightarrow> en_cancelled t"
      "en_cancelled t \<longrightarrow> en_external t \<or> failFast e \<and> (\<exists>i. shard_failed as s i)"
  shows "engine_inv e as t"
proof -
  note D = engine_invD [OF inv]
  have f: "shard_failed as t = shard_failed as s" by (simp add: shard_failed_def t fun_eq_iff)
  have h: "holds_job t = holds_job s" by (simp add: holds_job_def t fun_eq_iff)
  have w: "worker_inv e as t (en_workers s ! v)" if "v < length (en_workers s)" for v
    by (rule worker_inv_cong [OF D(5) [OF that]]) (simp_all add: t f)
  have i: "shard_inv e as t i" if "i < length as" "\<forall>v. \<not> holds_job s i v" for i
    by (rule shard_inv_cong [of e as s]) (use D(7) that in \<open>auto simp: t\<close>)
  have l: "length (en_workers s) = maxPar e (length as)" using inv by (simp add: engine_inv_def)
  show ?thesis
    unfolding engine_inv_def f h t(1,2,4) using D(1,2,6) c l w i t(4) by auto
qed

lemma engine_step_inv: "engine_step e as s s' \<Longrightarrow> engine_inv e as s \<Longrightarrow> engine_inv e as s'"
proof (induction rule: engine_step.induct)
  case (hand_over s w)
  then show ?case by (intro step_hand_over)
next
  case (feed_abort s)
  then show ?case by (intro step_global [OF feed_abort.prems]) (use engine_invD(4) in auto)
next
  case (feed_done s)
  then show ?case by (intro step_global [OF feed_done.prems]) (use engine_invD(4) in auto)
next
  case (drain s w i)
  then show ?case by (intro step_quiet [OF drain.prems drain(1)]) auto
next
  case (start s w i)
  then show ?case using worker_at [OF start.prems start(1)] by (intro step_call [OF start.prems start(1)]) (auto simp: max_calls_def)
next
  case (succeed s w i k)
  then show ?case by (intro step_record) auto
next
  case (retry s w i)
  then show ?case using worker_at [OF retry.prems retry(1)] by (intro step_call [OF retry.prems retry(1)]) (auto simp: max_calls_def)
next
  case (fail s w i k err)
  then show ?case by (intro step_record) auto
next
  case (cancel s w i)
  then show ?case using worker_at [OF cancel.prems cancel(1)] by (intro step_quiet [OF cancel.prems cancel(1)]) auto
next
  case (worker_exit s w)
  then show ?case by (intro step_quiet [OF worker_exit.prems worker_exit(1)]) auto
next
  case (external s)
  then show ?case by (intro step_global [OF external.prems]) auto
qed

lemma engine_reachable_inv: "engine_reachable e as s \<Longrightarrow> engine_inv e as s"
  unfolding engine_reachable_def
  by (induction rule: rtranclp_induct) (auto intro: engine_init_inv engine_step_inv)

section \<open>Every run of the engine ends\<close>

lemma worker_moves:
  assumes "is_worker s w x" and "x \<noteq> WIdle" and "x \<noteq> WExit"
  shows "\<exists>s'. engine_step e as s s'"
proof (cases x)
  case (WGot i)
  then show ?thesis using assms(1) engine_step.drain engine_step.start by blast
next
  case (WRun i k)
  then show ?thesis using assms(1) engine_step.succeed by blast
next
  case (WFailing i)
  then show ?thesis using assms(1) engine_step.cancel by blast
qed (use assms in auto)

lemma maxPar_pos: "as \<noteq> [] \<Longrightarrow> 0 < maxPar e (length as)"
  by (simp add: maxPar_def defaultMaxParallel_def Let_def)

lemma engine_progress:
  assumes inv: "engine_inv e as s" and as: "as \<noteq> []" and "\<not> engine_finished s"
  shows "\<exists>s'. engine_step e as s s'"
proof (rule ccontr)
  assume stuck: "\<not> (\<exists>s'. engine_step e as s s')"
  have x: "is_worker s w (en_workers s ! w)" if "w < length (en_workers s)" for w using that by (simp add: is_worker_def)
  then have rest: "en_workers s ! w = WIdle \<or> en_workers s ! w = WExit" if "w < length (en_workers s)" for w
    using worker_moves stuck that by blast
  have 0: "0 < length (en_workers s)" using inv maxPar_pos [OF as] by (simp add: engine_inv_def)
  show False
  proof (cases "en_closed s")
    case True
    then have "\<not> list_all (\<lambda>w. w = WExit) (en_workers s)" using assms(3) by (simp add: engine_finished_def)
    then obtain w where "w < length (en_workers s)" "en_workers s ! w \<noteq> WExit" by (auto simp: list_all_length)
    with rest x have "is_worker s w WIdle" by metis
    then show False using True stuck engine_step.worker_exit by blast
  next
    case False
    have "en_workers s ! 0 \<noteq> WExit" using engine_invD(5) [OF inv 0] False by auto
    then have "is_worker s 0 WIdle" using rest [OF 0] x [OF 0] by metis
    then show False using False stuck engine_step.hand_over engine_step.feed_done engine_invD(2) [OF inv]
      by (metis le_neq_implies_less)
  qed
qed

text \<open>
  C36: A fan-out always ends, however the workers, the feeder and a cancellation interleave, provided
  each shard's run returns: no sequence of steps is infinite, and no state but the final one, where
  the channel is closed and every worker has left, is stuck.
\<close>

theorem engine_terminates:
  assumes "as \<noteq> []"
  shows "wf {(s', s). engine_step e as s s'}
    \<and> (\<forall>s. engine_reachable e as s \<longrightarrow> engine_finished s \<or> (\<exists>s'. engine_step e as s s'))"
proof
  show "wf {(s', s). engine_step e as s s'}"
    by (rule wf_subset [OF wf_measure [of "engine_measure as"]]) (auto simp: engine_step_measure)
  show "\<forall>s. engine_reachable e as s \<longrightarrow> engine_finished s \<or> (\<exists>s'. engine_step e as s s')"
    using engine_progress [OF engine_reachable_inv assms] by blast
qed

definition demo_assignment :: assignment where
  "demo_assignment = \<lparr>as_Index = 0, as_Count = 1, as_Items = []\<rparr>"

definition demo_engine :: shard_engine where
  "demo_engine = \<lparr>eg_MaxParallel = 2, eg_OnShardFailure = ''continue''\<rparr>"

theorem engine_terminates_witness:
  "wf {(s', s). engine_step demo_engine [demo_assignment] s s'}
   \<and> (\<exists>s'. engine_step demo_engine [demo_assignment] (engine_init demo_engine [demo_assignment]) s')"
proof -
  have "engine_reachable demo_engine [demo_assignment] (engine_init demo_engine [demo_assignment])"
    by (simp add: engine_reachable_def)
  moreover have "\<not> engine_finished (engine_init demo_engine [demo_assignment])"
    by (simp add: engine_finished_def engine_init_def)
  ultimately show ?thesis using engine_terminates [of "[demo_assignment]" demo_engine] by blast
qed


section \<open>The summary\<close>

lemma finished_shard_inv:
  assumes "engine_inv e as s" and "engine_finished s" and "i < length as"
  shows "shard_inv e as s i"
proof -
  have "\<not> holds_job s i v" for v
    using assms(2) by (auto simp: engine_finished_def list_all_length holds_job_def)
  then show ?thesis using engine_invD(7) [OF assms(1,3)] by blast
qed

lemma finished_skipped:
  assumes "engine_inv e as s" and "engine_finished s" and "i < length as" and "res_Skipped (en_results s ! i)"
  shows "en_external s \<or> failFast e \<and> (\<exists>j. shard_failed as s j)"
proof -
  have "i < en_next s \<longrightarrow> en_cancelled s"
    using finished_shard_inv [OF assms(1-3)] assms(4) by (auto simp: shard_inv_def ran_result_def)
  moreover have "\<not> i < en_next s \<longrightarrow> en_cancelled s"
    using engine_invD(3) [OF assms(1)] assms(2,3) by (auto simp: engine_finished_def)
  ultimately show ?thesis using engine_invD(4) [OF assms(1)] by blast
qed

lemma partition_counts: "(\<And>r. r \<in> set rs \<Longrightarrow> \<not> (res_Success r \<and> res_Skipped r)) \<Longrightarrow> Succeeded rs + Failed rs + Skipped rs = length rs"
  by (induction rs) (auto simp: Succeeded_def Failed_def Skipped_def)

lemma Failed_pos: "i < length rs \<Longrightarrow> rs ! i = ran_result a (Some err) \<Longrightarrow> 0 < Failed rs"
proof -
  assume i: "i < length rs" and r: "rs ! i = ran_result a (Some err)"
  have "rs ! i \<in> set (filter (\<lambda>r. \<not> res_Success r \<and> \<not> res_Skipped r) rs)" using nth_mem [OF i] by (simp add: r ran_result_def)
  then show ?thesis unfolding Failed_def by (rule length_pos_if_in_set)
qed

lemma Skipped_zero: "(\<And>i. i < length rs \<Longrightarrow> \<not> res_Skipped (rs ! i)) \<Longrightarrow> Skipped rs = 0"
  unfolding Skipped_def by (simp add: filter_empty_conv) (metis in_set_conv_nth)

text \<open>
  C29: The summary of a finished fan-out accounts for every shard: there is one result per assignment,
  under its index; a shard is called at most once, or twice under the retry policy, and is reported
  skipped exactly when it was never called; the three counts add up to the number of shards. Unless the
  caller cancelled, nothing is skipped under the policy \<^verbatim>\<open>continue\<close>, and otherwise a shard is skipped only
  if another one is reported failed, so that a summary without failures is one in which every shard
  succeeded.
\<close>

theorem engine_summary_correct:
  assumes "engine_reachable e as s" and "engine_finished s"
  shows "length (en_results s) = length as
    \<and> (\<forall>i<length as. res_Index (en_results s ! i) = as_Index (as ! i) \<and> count_list (en_calls s) i \<le> max_calls e
        \<and> (res_Skipped (en_results s ! i) \<longleftrightarrow> count_list (en_calls s) i = 0))
    \<and> Succeeded (en_results s) + Failed (en_results s) + Skipped (en_results s) = length as
    \<and> (\<not> en_external s \<and> eg_OnShardFailure e = ''continue'' \<longrightarrow> Skipped (en_results s) = 0)
    \<and> (\<not> en_external s \<and> Failed (en_results s) = 0 \<longrightarrow> Succeeded (en_results s) = length as)"
proof -
  note inv = engine_reachable_inv [OF assms(1)]
  have len: "length (en_results s) = length as" by (rule engine_invD(1) [OF inv])
  have sh: "res_Index (en_results s ! i) = as_Index (as ! i) \<and> count_list (en_calls s) i \<le> max_calls e
      \<and> (res_Skipped (en_results s ! i) \<longleftrightarrow> count_list (en_calls s) i = 0)
      \<and> \<not> (res_Success (en_results s ! i) \<and> res_Skipped (en_results s ! i))" if "i < length as" for i
    using finished_shard_inv [OF inv assms(2) that] by (auto simp: shard_inv_def ran_result_def skipped_result_def max_calls_def)
  have cnt: "Succeeded (en_results s) + Failed (en_results s) + Skipped (en_results s) = length as"
    using partition_counts [of "en_results s"] sh len by (metis in_set_conv_nth)
  have skip: "Skipped (en_results s) = 0" if "\<not> en_external s" "\<not> failFast e \<or> Failed (en_results s) = 0"
  proof (rule Skipped_zero)
    show "\<not> res_Skipped (en_results s ! i)" if "i < length (en_results s)" for i
      using finished_skipped [OF inv assms(2), of i] that \<open>\<not> en_external s\<close> \<open>\<not> failFast e \<or> Failed (en_results s) = 0\<close> len
        Failed_pos [of _ "en_results s"] by (fastforce simp: shard_failed_def)
  qed
  have "\<not> en_external s \<and> eg_OnShardFailure e = ''continue'' \<longrightarrow> Skipped (en_results s) = 0"
    using skip by (simp add: failFast_def)
  moreover have "\<not> en_external s \<and> Failed (en_results s) = 0 \<longrightarrow> Succeeded (en_results s) = length as"
    using skip cnt by auto
  ultimately show ?thesis using len sh cnt by blast
qed

text \<open>The demonstration run: the only shard succeeds.\<close>

lemma demo_engine_run:
  "\<exists>s. engine_reachable demo_engine [demo_assignment] s \<and> engine_finished s \<and> \<not> en_external s
     \<and> en_results s = [ran_result demo_assignment None]"
proof -
  let ?as = "[demo_assignment]"
  define s1 where "s1 = set_worker 0 (WGot 0) (engine_init demo_engine ?as\<lparr>en_next := Suc 0\<rparr>)"
  define s2 where "s2 = set_worker 0 (WRun 0 1) (s1\<lparr>en_calls := en_calls s1 @ [0]\<rparr>)"
  define s3 where "s3 = set_worker 0 WIdle (record_result ?as 0 None s2)"
  define s4 where "s4 = s3\<lparr>en_closed := True\<rparr>"
  define s5 where "s5 = set_worker 0 WExit s4"
  note defs = s5_def s4_def s3_def s2_def s1_def engine_init_def maxPar_def demo_engine_def is_worker_def
  have "engine_step demo_engine ?as (engine_init demo_engine ?as) s1"
    using engine_step.hand_over [of "engine_init demo_engine ?as" ?as 0 demo_engine] by (simp add: defs)
  moreover have "engine_step demo_engine ?as s1 s2" unfolding s2_def by (rule engine_step.start) (simp_all add: defs)
  moreover have "engine_step demo_engine ?as s2 s3" unfolding s3_def by (rule engine_step.succeed) (simp add: defs)
  moreover have "engine_step demo_engine ?as s3 s4" unfolding s4_def by (rule engine_step.feed_done) (simp_all add: defs)
  moreover have "engine_step demo_engine ?as s4 s5" unfolding s5_def by (rule engine_step.worker_exit) (simp_all add: defs)
  ultimately have "engine_reachable demo_engine ?as s5"
    unfolding engine_reachable_def by (intro rtranclp.rtrancl_into_rtrancl [OF rtranclp.rtrancl_into_rtrancl
          [OF rtranclp.rtrancl_into_rtrancl [OF rtranclp.rtrancl_into_rtrancl [OF r_into_rtranclp]]]])
  moreover have "engine_finished s5" "\<not> en_external s5" "en_results s5 = [ran_result demo_assignment None]"
    by (simp_all add: defs engine_finished_def)
  ultimately show ?thesis by blast
qed

theorem engine_summary_correct_witness:
  "\<exists>s. engine_reachable demo_engine [demo_assignment] s \<and> engine_finished s \<and> Skipped (en_results s) = 0"
proof -
  obtain s where s: "engine_reachable demo_engine [demo_assignment] s" "engine_finished s" "\<not> en_external s"
    using demo_engine_run by blast
  moreover have "eg_OnShardFailure demo_engine = ''continue''" by (simp add: demo_engine_def)
  ultimately show ?thesis using engine_summary_correct [OF s(1,2)] by blast
qed

section \<open>Refinement of a fan-out without goroutines\<close>

text \<open>A concrete machine whose steps, seen through \<open>abs\<close>, are stutters or steps of an abstract one.\<close>

locale refinement =
  fixes cstep :: "'c \<Rightarrow> 'c \<Rightarrow> bool" and astep :: "'a \<Rightarrow> 'a \<Rightarrow> bool" and abs :: "'c \<Rightarrow> 'a" and inv :: "'c \<Rightarrow> bool"
  assumes inv_step: "inv s \<Longrightarrow> cstep s s' \<Longrightarrow> inv s'"
    and simulates: "inv s \<Longrightarrow> cstep s s' \<Longrightarrow> abs s' = abs s \<or> astep (abs s) (abs s')"
begin

lemma runs_refine: "cstep\<^sup>*\<^sup>* s s' \<Longrightarrow> inv s \<Longrightarrow> inv s' \<and> astep\<^sup>*\<^sup>* (abs s) (abs s')"
proof (induction rule: rtranclp_induct)
  case (step t u)
  then have "inv t" "astep\<^sup>*\<^sup>* (abs s) (abs t)" by blast+
  with simulates [OF \<open>inv t\<close> step(2)] inv_step [OF \<open>inv t\<close> step(2)] show ?case by (auto intro: rtranclp.rtrancl_into_rtrancl)
qed simp

end

text \<open>
  The specification: a table of outcomes, all skipped at first, in which the outcome of a shard that
  has none yet may be entered, in any order.
\<close>

inductive fanout_step :: "assignment list \<Rightarrow> shard_result list \<Rightarrow> shard_result list \<Rightarrow> bool" for as where
  outcome: "i < length as \<Longrightarrow> rs ! i = skipped_result (as ! i) \<Longrightarrow> fanout_step as rs (rs[i := ran_result (as ! i) err])"

interpretation engine_fanout: refinement "engine_step e as" "fanout_step as" en_results "engine_inv e as" for e as
proof
  show "engine_inv e as s'" if "engine_inv e as s" "engine_step e as s s'" for s s'
    using engine_step_inv that by blast
  have rec: "fanout_step as (en_results s) ((en_results s)[i := ran_result (as ! i) r])"
    if "engine_inv e as s" "is_worker s w (WRun i k)" for s w i k r
    using worker_at [OF that] engine_invD(2) [OF that(1)] by (intro fanout_step.outcome) auto
  show "en_results s' = en_results s \<or> fanout_step as (en_results s) (en_results s')"
    if "engine_inv e as s" "engine_step e as s s'" for s s'
    using that(2,1) by cases (auto intro: rec)
qed

lemma fanout_settled:
  "(fanout_step as)\<^sup>*\<^sup>* rs rs' \<Longrightarrow> \<not> res_Skipped (rs ! i) \<Longrightarrow> rs' ! i = rs ! i"
proof (induction rule: rtranclp_induct)
  case (step t u)
  then have "t ! i = rs ! i" by blast
  with step(2,4) show ?case by cases (metis nth_list_update_neq shard_result.select_convs(3) skipped_result_def)
qed simp

text \<open>
  C28: The concurrent engine refines the plain table of outcomes: whatever the interleaving, its results
  develop by entering, one at a time, the outcome of a shard that had none, and an outcome once entered
  is never overwritten, by a retry, by another worker or after a cancellation.
\<close>

theorem engine_refines_fanout:
  assumes "engine_reachable e as s" and "(engine_step e as)\<^sup>*\<^sup>* s s'"
  shows "(fanout_step as)\<^sup>*\<^sup>* (map skipped_result as) (en_results s)
    \<and> (fanout_step as)\<^sup>*\<^sup>* (en_results s) (en_results s')
    \<and> (\<forall>i. \<not> res_Skipped (en_results s ! i) \<longrightarrow> en_results s' ! i = en_results s ! i)"
proof -
  have "(fanout_step as)\<^sup>*\<^sup>* (en_results (engine_init e as)) (en_results s)"
    using engine_fanout.runs_refine engine_init_inv assms(1) unfolding engine_reachable_def by blast
  moreover have "(fanout_step as)\<^sup>*\<^sup>* (en_results s) (en_results s')"
    using engine_fanout.runs_refine engine_reachable_inv assms by blast
  ultimately show ?thesis using fanout_settled by (simp add: engine_init_def)
qed

theorem engine_refines_fanout_witness:
  "\<exists>s. engine_reachable demo_engine [demo_assignment] s
     \<and> (fanout_step [demo_assignment])\<^sup>*\<^sup>* [skipped_result demo_assignment] [ran_result demo_assignment None]"
proof -
  obtain s where s: "engine_reachable demo_engine [demo_assignment] s" "en_results s = [ran_result demo_assignment None]"
    using demo_engine_run by blast
  from engine_refines_fanout [OF s(1) rtranclp.rtrancl_refl] s show ?thesis by auto
qed

end
