(* ===== verification/Plan_Store.thy ===== *)
theory Plan_Store
  imports Run_Store
begin

text \<open>
  The plans on disk (\<^verbatim>\<open>internal/plan/store.go\<close>). As for run records, the directory is an association
  list from file names to what a reader can make of their contents, a write can fail at each of
  its system calls, and a crash can leave the directory as it is between any two of them. The
  temporary file has a fixed name, and a left-over one is removed first.
\<close>

section \<open>Plan files\<close>

datatype plan_content = PlanDoc plan | PlanTorn string | PlanUnreadable string

type_synonym plan_files = "(string \<times> plan_content) list"

record plan_dir =
  pd_path :: "string result"
  pd_files :: plan_files

definition validatePlanID :: "string \<Rightarrow> unit result" where
  "validatePlanID i =
     (if i = [] then Inl ''plan id is empty''
      else if strings_ContainsAny i [CHR ''/'', CHR 0x5C] \<or> strings_Contains i ''..''
        then Inl (''invalid plan id '' @ go_quote i @ '': contains path separator or traversal'')
      else Inr ())"

text \<open>
  The text of a plan is represented by the plan it was made from, \<open>PlanDoc p\<close>: the encoding itself, with its field names
  and the replacement of bytes that are no UTF-8, is not modelled, and no property depends on a plan being decoded
  to exactly what was encoded.
\<close>

text \<open>\<^verbatim>\<open>json.MarshalIndent\<close> refuses infinities and NaNs: the first number of a plan that is one, in the order of its fields.\<close>

definition estimate_floats :: "cost_estimate \<Rightarrow> f64 list" where
  "estimate_floats c = [ce_Value c, ce_SpotRatio c]"

definition plan_floats :: "plan \<Rightarrow> f64 list" where
  "plan_floats p =
     pc_MaxEstimatedCostUSD (pl_Constraints p)
     # (case pl_Recommendation p of None \<Rightarrow> [] | Some r \<Rightarrow> estimate_floats (rec_EstimatedCost r))
     @ concat (map (\<lambda>a. estimate_floats (alt_EstimatedCost a)) (pl_Alternatives p))"

definition marshal_plan :: "plan \<Rightarrow> plan_content result" where
  "marshal_plan p =
     (case filter (\<lambda>x. \<not> is_finite x) (plan_floats p) of
        [] \<Rightarrow> Inr (PlanDoc p)
      | x # _ \<Rightarrow> Inl (''json: unsupported value: '' @ fmt_fixed 0 x))"

text \<open>The system call that fails while a plan is written, if any.\<close>

datatype plan_fault =
    PlanOK
  | PlanFaultOpen string
  | PlanFaultWrite string
  | PlanFaultClose string
  | PlanFaultRename string

definition plan_tmp :: "string \<Rightarrow> string" where
  "plan_tmp name = name @ ''.tmp''"

text \<open>
  The write: the directories after each system call that changes it, and the result. The exclusive open
  fails on a left-over temporary file, which is then removed before the second attempt.
\<close>

definition write_plan :: "string \<Rightarrow> plan_content \<Rightarrow> plan_fault \<Rightarrow> plan_files \<Rightarrow> plan_files list \<times> unit result" where
  "write_plan name data fault fs =
     (let tmp = plan_tmp name;
          stale = map_of fs tmp \<noteq> None;
          fs1 = AList.delete tmp fs;
          opened = AList.update tmp (PlanTorn json_eof) fs1;
          written = AList.update tmp data fs1;
          first = (if stale then [fs, fs1] else [fs])
      in case fault of
           PlanFaultOpen e \<Rightarrow> (first, Inl (''cannot open plan tempfile: '' @ e))
         | PlanFaultWrite e \<Rightarrow> (first @ [opened, fs1], Inl (''cannot write plan: '' @ e))
         | PlanFaultClose e \<Rightarrow> (first @ [opened, written, fs1], Inl e)
         | PlanFaultRename e \<Rightarrow> (first @ [opened, written, fs1], Inl (''cannot install plan: '' @ e))
         | PlanOK \<Rightarrow> (first @ [opened, written, AList.update name data fs1], Inr ()))"

definition plan_Save :: "plan_fault \<Rightarrow> plan \<Rightarrow> plan_dir \<Rightarrow> plan_dir \<times> string result" where
  "plan_Save fault p d =
     (case validatePlanID (pm_ID (pl_Metadata p)) of
        Inl e \<Rightarrow> (d, Inl e)
      | Inr _ \<Rightarrow>
         (case pd_path d of
            Inl e \<Rightarrow> (d, Inl e)
          | Inr dir \<Rightarrow>
             (case marshal_plan p of
                Inl e \<Rightarrow> (d, Inl (''cannot marshal plan: '' @ e))
              | Inr data \<Rightarrow>
                  (let name = pm_ID (pl_Metadata p) @ ''.json'';
                       (trace, res) = write_plan name data fault (pd_files d);
                       d' = d\<lparr>pd_files := last trace\<rparr>
                   in case res of Inl e \<Rightarrow> (d', Inl e) | Inr _ \<Rightarrow> (d', Inr (dir @ ''/'' @ name))))))"

definition plan_Load :: "plan_dir \<Rightarrow> string \<Rightarrow> plan result" where
  "plan_Load d i =
     (case validatePlanID i of
        Inl e \<Rightarrow> Inl e
      | Inr _ \<Rightarrow>
         (case pd_path d of
            Inl e \<Rightarrow> Inl e
          | Inr dir \<Rightarrow>
             (case map_of (pd_files d) (i @ ''.json'') of
                None \<Rightarrow> Inl (''plan '' @ go_quote i @ '' not found: open '' @ dir @ ''/'' @ i @ ''.json: no such file or directory'')
              | Some (PlanUnreadable e) \<Rightarrow> Inl (''plan '' @ go_quote i @ '' not found: '' @ e)
              | Some (PlanTorn e) \<Rightarrow> Inl (''cannot parse plan: '' @ e)
              | Some (PlanDoc p) \<Rightarrow> Inr p)))"


section \<open>A plan file is replaced atomically\<close>

text \<open>No plan's name is the name of a temporary file.\<close>

lemma plan_tmp_not_plan: "i @ ''.json'' \<noteq> plan_tmp n"
proof -
  have "last (i @ ''.json'') \<noteq> last (plan_tmp n)" by (simp add: plan_tmp_def)
  then show ?thesis by metis
qed

lemma write_plan_trace:
  assumes "fs' \<in> set (fst (write_plan name data fault fs))" and "k \<noteq> plan_tmp name"
  shows "map_of fs' k = map_of fs k \<or> fault = PlanOK \<and> k = name \<and> map_of fs' k = Some data"
  using assms
  by (cases fault) (auto simp: write_plan_def Let_def delete_conv' update_conv' split: if_splits)

lemma write_plan_last:
  assumes "k \<noteq> plan_tmp name"
  shows "map_of (last (fst (write_plan name data fault fs))) k
    = (if fault = PlanOK \<and> k = name then Some data else map_of fs k)"
  using assms by (cases fault) (simp_all add: write_plan_def Let_def delete_conv' update_conv')

lemma write_plan_no_tmp: "map_of (last (fst (write_plan name data fault fs))) (plan_tmp name) = None"
proof -
  have "plan_tmp name \<noteq> name" by (simp add: plan_tmp_def)
  then show ?thesis by (cases fault) (simp_all add: write_plan_def Let_def delete_conv' update_conv')
qed

text \<open>A save either stops before the file system or runs the write on the marshalled plan.\<close>

lemma plan_Save_cases:
  assumes "plan_Save fault p d = (d', res)"
  obtains e where "d' = d" "res = Inl e"
  | dir data where "marshal_plan p = Inr data" "pd_path d = Inr dir"
      "d' = d\<lparr>pd_files := last (fst (write_plan (pm_ID (pl_Metadata p) @ ''.json'') data fault (pd_files d)))\<rparr>"
      "(\<exists>path. res = Inr path) \<longleftrightarrow> fault = PlanOK"
proof -
  let ?w = "\<lambda>data. write_plan (pm_ID (pl_Metadata p) @ ''.json'') data fault (pd_files d)"
  have "d' = d \<and> (\<exists>e. res = Inl e) \<or> (\<exists>dir data. marshal_plan p = Inr data \<and> pd_path d = Inr dir
      \<and> d' = d\<lparr>pd_files := last (fst (?w data))\<rparr>
      \<and> (isl res \<longleftrightarrow> isl (snd (?w data))))"
    using assms by (auto simp: plan_Save_def Let_def split: sum.splits prod.splits) (metis)
  then show thesis
  proof (elim disjE exE conjE)
    fix dir data
    assume w: "marshal_plan p = Inr data" "pd_path d = Inr dir" "d' = d\<lparr>pd_files := last (fst (?w data))\<rparr>"
      and r: "isl res \<longleftrightarrow> isl (snd (?w data))"
    have "isl (snd (?w data)) \<longleftrightarrow> fault \<noteq> PlanOK" by (cases fault) (simp_all add: write_plan_def Let_def)
    with r have "(\<exists>path. res = Inr path) \<longleftrightarrow> fault = PlanOK" by (cases res) auto
    with w that(2) show thesis by blast
  qed (use that(1) in blast)
qed



definition demo_plan_dir :: plan_dir where
  "demo_plan_dir = \<lparr>pd_path = Inr ''/d/plans'', pd_files = [(''plan_1.json.tmp'', PlanTorn json_eof)]\<rparr>"


end
