(* ===== verification/Run_Reconnect.thy ===== *)
theory Run_Reconnect
  imports Plan_Store Executor
begin

text \<open>
  Coming back to a run from another process: rebuilding it from its record through a durable
  adapter (\<^verbatim>\<open>internal/run/reconnect.go\<close>), and the commands that do so to change it, \<^verbatim>\<open>renew\<close> and
  \<^verbatim>\<open>stop\<close> (\<^verbatim>\<open>internal/cli/renew.go\<close>, \<^verbatim>\<open>internal/cli/stop.go\<close>). The clock is a function from the number of
  readings before to the time; what a command prints is left out.
\<close>

section \<open>Adapters as the commands see them\<close>

text \<open>The methods a durable adapter has beyond those the executor calls.\<close>

record 'w durable =
  du_Reconnect :: "string \<Rightarrow> string \<Rightarrow> 'w \<Rightarrow> run_handle call \<times> 'w"
  du_ExtendWatchdog :: "bool \<Rightarrow> run_handle \<Rightarrow> duration \<Rightarrow> 'w \<Rightarrow> time call \<times> 'w"
  du_ListResources :: "bool \<Rightarrow> 'w \<Rightarrow> resource_info list call \<times> 'w"
  du_DestroyResource :: "bool \<Rightarrow> resource_info \<Rightarrow> 'w \<Rightarrow> unit call \<times> 'w"

record 'w target_adapter =
  ta_ID :: string
  ta_adapter :: "'w adapter"
  ta_durable :: "'w durable option"

type_synonym 'w resolver = "string \<Rightarrow> 'w target_adapter result"

section \<open>Reconnecting\<close>

definition RenewWatchdog ::
  "bool \<Rightarrow> 'w target_adapter option \<Rightarrow> time \<Rightarrow> run \<Rightarrow> 'w \<Rightarrow> (time result \<times> run) call \<times> 'w" where
  "RenewWatchdog ctx a now r w =
     (if IsTerminal (GetState r)
      then (Ret (Inl (''run '' @ r_ID r @ '' is '' @ run_state_string (GetState r) @ ''; nothing to renew''), r), w)
      else case Option.bind a ta_durable of
             None \<Rightarrow> (Ret (Inl (''target '' @ r_TargetID r @ '' has no watchdog to renew''), r), w)
           | Some du \<Rightarrow>
               (case r_Handle r of
                  None \<Rightarrow> (Panics ''invalid memory address or nil pointer dereference'', w)
                | Some h \<Rightarrow>
                    (case du_ExtendWatchdog du ctx h (effectiveWatchdogTTL r) w of
                       (Panics e, w') \<Rightarrow> (Panics e, w')
                     | (Err e, w') \<Rightarrow> (Ret (Inl (''failed to renew watchdog for run '' @ r_ID r @ '': '' @ e), r), w')
                     | (Ret deadline, w') \<Rightarrow> (Ret (Inr deadline, r\<lparr>r_LastHeartbeat := now\<rparr>), w'))))"

text \<open>The three results of the source: a run, an adapter and an error, each of which may be missing.\<close>

record 'w reconnected =
  rc_run :: "run option"
  rc_adapter :: "'w target_adapter option"
  rc_err :: "string option"

definition load_plan :: "plan_dir \<Rightarrow> string \<Rightarrow> run \<Rightarrow> run" where
  "load_plan plans planID r = (case plan_Load plans planID of Inr p \<Rightarrow> r\<lparr>r_Plan := Some p\<rparr> | Inl _ \<Rightarrow> r)"

definition ReconnectToRun ::
  "'w resolver \<Rightarrow> plan_dir \<Rightarrow> run_dir \<Rightarrow> string \<Rightarrow> 'w \<Rightarrow> 'w reconnected call \<times> 'w" where
  "ReconnectToRun resolve plans d runID w =
     (case LoadRecord d runID of
        Inl e \<Rightarrow> (Ret \<lparr>rc_run = None, rc_adapter = None, rc_err = Some e\<rparr>, w)
      | Inr rec \<Rightarrow>
          let r = RunFromRecord rec
          in if IsTerminal (rec_State rec) then (Ret \<lparr>rc_run = Some r, rc_adapter = None, rc_err = None\<rparr>, w)
             else case resolve (rec_TargetID rec) of
                    Inl e \<Rightarrow> (Ret \<lparr>rc_run = None, rc_adapter = None,
                               rc_err = Some (''cannot resolve adapter for target '' @ go_quote (rec_TargetID rec) @ '': '' @ e)\<rparr>, w)
                  | Inr a \<Rightarrow>
                      let r1 = load_plan plans (rec_PlanID rec) r
                      in case ta_durable a of
                           None \<Rightarrow> (Ret \<lparr>rc_run = Some r1, rc_adapter = Some a, rc_err = None\<rparr>, w)
                         | Some du \<Rightarrow>
                             (case rec_HandleState rec of
                                None \<Rightarrow> (Ret \<lparr>rc_run = Some r1, rc_adapter = Some a,
                                  rc_err = Some (''run '' @ runID @ '' has no persisted handle state for reconnection'')\<rparr>, w)
                              | Some raw \<Rightarrow>
                                  if rec_HandleID rec = []
                                  then (Ret \<lparr>rc_run = Some r1, rc_adapter = Some a,
                                    rc_err = Some (''run '' @ runID @ '' has no persisted handle state for reconnection'')\<rparr>, w)
                                  else case du_Reconnect du (rec_HandleID rec) raw w of
                                         (Panics e, w') \<Rightarrow> (Panics e, w')
                                       | (Err e, w') \<Rightarrow> (Ret \<lparr>rc_run = Some r1, rc_adapter = Some a,
                                           rc_err = Some (''reconnection failed: '' @ e)\<rparr>, w')
                                       | (Ret h, w') \<Rightarrow> (Ret \<lparr>rc_run = Some (r1\<lparr>r_Handle := Some h\<rparr>), rc_adapter = Some a,
                                           rc_err = None\<rparr>, w')))"

section \<open>The renew command\<close>

definition runRenew ::
  "'w resolver \<Rightarrow> plan_dir \<Rightarrow> bool \<Rightarrow> (nat \<Rightarrow> time) \<Rightarrow> string \<Rightarrow> write_fault \<Rightarrow> string \<Rightarrow> run_dir \<Rightarrow> 'w
   \<Rightarrow> time result call \<times> run_dir \<times> 'w" where
  "runRenew resolve plans ctx clock rnd fault runID d w =
     (case ReconnectToRun resolve plans d runID w of
        (Panics e, w') \<Rightarrow> (Panics e, d, w')
      | (Err e, w') \<Rightarrow> (Err e, d, w')
      | (Ret rc, w') \<Rightarrow>
          (case rc_err rc of
             Some e \<Rightarrow> (Ret (Inl e), d, w')
           | None \<Rightarrow>
               (case RenewWatchdog ctx (rc_adapter rc) (clock 0) (the (rc_run rc)) w' of
                  (Panics e, w'') \<Rightarrow> (Panics e, d, w'')
                | (Err e, w'') \<Rightarrow> (Err e, d, w'')
                | (Ret (Inl e, _), w'') \<Rightarrow> (Ret (Inl e), d, w'')
                | (Ret (Inr deadline, r), w'') \<Rightarrow>
                    (case Save rnd fault r d of
                       (d', Inl e) \<Rightarrow> (Ret (Inl (''watchdog extended but failed to persist run: '' @ e)), d', w'')
                     | (d', Inr _) \<Rightarrow> (Ret (Inr deadline), d', w'')))))"

section \<open>The stop command\<close>

definition forceStop :: "(nat \<Rightarrow> time) \<Rightarrow> string \<Rightarrow> write_fault \<Rightarrow> string \<Rightarrow> run_dir \<Rightarrow> unit result \<times> run_dir" where
  "forceStop clock rnd fault runID d =
     (case LoadRecord d runID of
        Inl e \<Rightarrow> (Inl e, d)
      | Inr rec \<Rightarrow>
          if IsTerminal (rec_State rec) then (Inr (), d)
          else let r = FinalizeCost (clock 1) (SetError RunStateCleanupFailed
                         ''force-stopped: record could not be reconnected'' (clock 0) (RunFromRecord rec))
               in case Save rnd fault r d of
                    (d', Inl e) \<Rightarrow> (Inl (''cannot save force-stopped run: '' @ e), d')
                  | (d', Inr _) \<Rightarrow> (Inr (), d'))"

text \<open>
  The run and the world after \<^verbatim>\<open>Terminate\<close>, whose error is only printed, and the transitions and the cleanup
  that follow. The result says whether the cleanup counts as done.
\<close>

definition stop_terminate :: "'w adapter \<Rightarrow> run \<Rightarrow> 'w \<Rightarrow> unit call \<times> 'w" where
  "stop_terminate A r w =
     (case r_Handle r of
        None \<Rightarrow> (Ret (), w)
      | Some h \<Rightarrow> (case ad_Terminate A h w of (Panics e, w') \<Rightarrow> (Panics e, w') | (_, w') \<Rightarrow> (Ret (), w')))"

definition stop_cleanup :: "'w adapter \<Rightarrow> run \<Rightarrow> 'w \<Rightarrow> bool call \<times> 'w" where
  "stop_cleanup A r w =
     (case r_Handle r of
        None \<Rightarrow> (Ret True, w)
      | Some h \<Rightarrow>
          (case ad_Cleanup A h w of
             (Panics e, w') \<Rightarrow> (Panics e, w')
           | (Err _, w') \<Rightarrow> (Ret False, w')
           | (Ret None, w') \<Rightarrow> (Ret True, w')
           | (Ret (Some cl), w') \<Rightarrow> (Ret (cl_Success cl), w')))"

definition stop_connected ::
  "'w adapter \<Rightarrow> (nat \<Rightarrow> time) \<Rightarrow> string \<Rightarrow> write_fault \<Rightarrow> run \<Rightarrow> run_dir \<Rightarrow> 'w \<Rightarrow> unit result call \<times> run_dir \<times> 'w" where
  "stop_connected A clock rnd fault r d w =
     (case stop_terminate A r w of
        (Panics e, w1) \<Rightarrow> (Panics e, d, w1)
      | (_, w1) \<Rightarrow>
          let r1 = fst (Transition RunStateStopping (clock 0) r);
              r2 = (if r_Handle r1 \<noteq> None then fst (Transition RunStateCleaningUp (clock 1) r1) else r1)
          in case stop_cleanup A r2 w1 of
               (Panics e, w2) \<Rightarrow> (Panics e, d, w2)
             | (Err e, w2) \<Rightarrow> (Err e, d, w2)
             | (Ret ok, w2) \<Rightarrow>
                 if ok
                 then let r3 = FinalizeCost (clock 3) (fst (Transition RunStateCompleted (clock 2) r2))
                      in (Ret (Inr ()), fst (Save rnd fault r3 d), w2)
                 else let r3 = FinalizeCost (clock 3) (SetError RunStateCleanupFailed ''cleanup failed'' (clock 2) r2)
                      in (Ret (Inl ''cleanup failed''), fst (Save rnd fault r3 d), w2))"

definition stop_run ::
  "'w resolver \<Rightarrow> plan_dir \<Rightarrow> bool \<Rightarrow> (nat \<Rightarrow> time) \<Rightarrow> string \<Rightarrow> write_fault \<Rightarrow> string \<Rightarrow> run_dir \<Rightarrow> 'w
   \<Rightarrow> unit result call \<times> run_dir \<times> 'w" where
  "stop_run resolve plans force clock rnd fault runID d w =
     (case ReconnectToRun resolve plans d runID w of
        (Panics e, w') \<Rightarrow> (Panics e, d, w')
      | (Err e, w') \<Rightarrow> (Err e, d, w')
      | (Ret rc, w') \<Rightarrow>
          (case rc_err rc of
             Some e \<Rightarrow>
               if force then (case forceStop clock rnd fault runID d of (res, d') \<Rightarrow> (Ret res, d', w'))
               else (Ret (Inl (''cannot connect to run: '' @ e)), d, w')
           | None \<Rightarrow>
               (case rc_adapter rc of
                  None \<Rightarrow> (Ret (Inr ()), d, w')
                | Some a \<Rightarrow> stop_connected (ta_adapter a) clock rnd fault (the (rc_run rc)) d w')))"


section \<open>Properties\<close>

lemma load_plan_fields [simp]:
  "r_State (load_plan ps i r) = r_State r" "r_ID (load_plan ps i r) = r_ID r" "r_Handle (load_plan ps i r) = r_Handle r"
  by (simp_all add: load_plan_def split: sum.split)

lemma RunFromRecord_fields [simp]:
  "r_State (RunFromRecord rec) = rec_State rec" "r_ID (RunFromRecord rec) = rec_ID rec" "r_Handle (RunFromRecord rec) = None"
  by (simp_all add: RunFromRecord_def)

lemma Transition_ID [simp]: "r_ID (fst (Transition to now r)) = r_ID r" "r_Handle (fst (Transition to now r)) = r_Handle r"
  by (simp_all add: Transition_def)

lemma FinalizeCost_state [simp]: "r_State (FinalizeCost now r) = r_State r" "r_ID (FinalizeCost now r) = r_ID r"
  by (simp_all add: FinalizeCost_def setCost_def)

lemma SetError_ID [simp]: "r_ID (SetError st e now r) = r_ID r"
  by (simp add: SetError_def)

lemma Transition_state:
  "r_State (fst (Transition to now r)) = (if \<not> IsTerminal (r_State r) \<and> isValidTransition (r_State r) to then to else r_State r)"
  by (simp add: Transition_def)

lemma stop_transitions:
  "isValidTransition RunStateRunning RunStateStopping" "isValidTransition RunStateStopping RunStateCleaningUp"
  "isValidTransition RunStateCleaningUp RunStateCompleted" "\<not> isValidTransition RunStateStopping RunStateCompleted"
  "\<not> isValidTransition RunStateStopping RunStateStopping"
  by (simp_all add: isValidTransition_def validTransitions_def)

lemma stop_reconnects:
  assumes "LoadRecord d i = Inr rec" and "rec_State rec = RunStateRunning" and "resolve (rec_TargetID rec) = Inr a"
    and "ta_durable a = Some du" and "rec_HandleState rec = Some raw" and "rec_HandleID rec \<noteq> []"
    and "du_Reconnect du (rec_HandleID rec) raw w = (Ret h, w')"
  shows "\<exists>r. ReconnectToRun resolve plans d i w = (Ret \<lparr>rc_run = Some r, rc_adapter = Some a, rc_err = None\<rparr>, w') \<and>
    r_State r = RunStateRunning \<and> r_ID r = rec_ID rec \<and> r_Handle r = Some h"
  using assms by (simp add: ReconnectToRun_def Let_def)

text \<open>
  Stopping a running workload on a durable target: the handle is rebuilt from the record, the workload
  terminated (an error of that is not fatal), its resources torn down, and the record saved as
  completed, if the teardown succeeded, and as a failed cleanup otherwise, which is then also the result
  of the command.
\<close>

lemma stop_tears_down:
  assumes "LoadRecord d i = Inr rec" and "rec_State rec = RunStateRunning" and "resolve (rec_TargetID rec) = Inr a"
    and "ta_durable a = Some du" and "rec_HandleState rec = Some raw" and "rec_HandleID rec \<noteq> []"
    and "du_Reconnect du (rec_HandleID rec) raw w = (Ret h, w1)"
    and "ad_Terminate (ta_adapter a) h w1 = (tr, w2)" and "\<And>e. tr \<noteq> Panics e"
    and "ad_Cleanup (ta_adapter a) h w2 = (cr, w3)" and "\<And>e. cr \<noteq> Panics e"
    and "torn_down \<longleftrightarrow> (case cr of Ret (Some cl) \<Rightarrow> cl_Success cl | Ret None \<Rightarrow> True | _ \<Rightarrow> False)"
  shows "\<exists>r. stop_run resolve plans force clock rnd fault i d w
      = (Ret (if torn_down then Inr () else Inl ''cleanup failed''), fst (Save rnd fault r d), w3) \<and>
    r_ID r = rec_ID rec \<and> r_State r = (if torn_down then RunStateCompleted else RunStateCleanupFailed)"
proof -
  obtain r where r: "ReconnectToRun resolve plans d i w = (Ret \<lparr>rc_run = Some r, rc_adapter = Some a, rc_err = None\<rparr>, w1)"
    "r_State r = RunStateRunning" "r_ID r = rec_ID rec" "r_Handle r = Some h"
    using stop_reconnects [of d i rec resolve] assms(1-7) by blast
  define r2 where "r2 = fst (Transition RunStateCleaningUp (clock 1) (fst (Transition RunStateStopping (clock 0) r)))"
  have r2: "r_State r2 = RunStateCleaningUp" "r_ID r2 = rec_ID rec" "r_Handle r2 = Some h"
    by (simp_all add: r2_def Transition_state stop_transitions r)
  have t: "stop_terminate (ta_adapter a) r w1 = (Ret (), w2)"
    using assms(8,9) r(4) by (cases tr) (auto simp: stop_terminate_def)
  have c: "stop_cleanup (ta_adapter a) r2 w2 = (Ret torn_down, w3)"
    using assms(10-12) r2(3) by (cases cr) (auto simp: stop_cleanup_def split: option.splits)
  define r3 where "r3 = FinalizeCost (clock 3) (if torn_down then fst (Transition RunStateCompleted (clock 2) r2)
    else SetError RunStateCleanupFailed ''cleanup failed'' (clock 2) r2)"
  have "stop_run resolve plans force clock rnd fault i d w
      = (Ret (if torn_down then Inr () else Inl ''cleanup failed''), fst (Save rnd fault r3 d), w3)"
    using c by (simp add: stop_run_def r(1) stop_connected_def t Let_def r(4) r2_def r3_def)
  moreover have "r_State r3 = (if torn_down then RunStateCompleted else RunStateCleanupFailed)"
    by (simp add: r3_def Transition_state SetError_def r2 stop_transitions)
  moreover have "r_ID r3 = rec_ID rec" by (simp add: r3_def r2)
  ultimately show ?thesis by blast
qed

text \<open>
  Stopping a run on a target without durable handles (this host, docker, ssh) reports success, but it calls
  nothing of the adapter, and the record is left in the state \<^verbatim>\<open>stopping\<close>, from which \<^verbatim>\<open>completed\<close> cannot be
  reached: stopping it again changes nothing.
\<close>

theorem stop_without_handle_stuck:
  assumes "LoadRecord d i = Inr rec" and "rec_State rec \<in> {RunStateRunning, RunStateStopping}"
    and "resolve (rec_TargetID rec) = Inr a" and "ta_durable a = None"
  shows "\<exists>r. stop_run resolve plans force clock rnd fault i d w = (Ret (Inr ()), fst (Save rnd fault r d), w) \<and>
    r_ID r = rec_ID rec \<and> r_State r = RunStateStopping \<and> \<not> IsTerminal (r_State r)"
proof -
  define r where "r = load_plan plans (rec_PlanID rec) (RunFromRecord rec)"
  have r: "r_State r = rec_State rec" "r_ID r = rec_ID rec" "r_Handle r = None" by (simp_all add: r_def)
  have rc: "ReconnectToRun resolve plans d i w = (Ret \<lparr>rc_run = Some r, rc_adapter = Some a, rc_err = None\<rparr>, w)"
    using assms by (auto simp: ReconnectToRun_def Let_def r_def)
  define r1 where "r1 = fst (Transition RunStateStopping (clock 0) r)"
  have s1: "r_State r1 = RunStateStopping" using assms(2) by (auto simp: r1_def Transition_state stop_transitions r)
  have h1: "r_Handle r1 = None" "r_ID r1 = rec_ID rec" by (simp_all add: r1_def r)
  define r3 where "r3 = FinalizeCost (clock 3) (fst (Transition RunStateCompleted (clock 2) r1))"
  have "stop_run resolve plans force clock rnd fault i d w = (Ret (Inr ()), fst (Save rnd fault r3 d), w)"
    by (simp add: stop_run_def rc stop_connected_def stop_terminate_def stop_cleanup_def r(3) Let_def
        r1_def [symmetric] h1 r3_def)
  moreover have "r_State r3 = RunStateStopping" by (simp add: r3_def Transition_state s1 stop_transitions)
  moreover have "r_ID r3 = rec_ID rec" by (simp add: r3_def h1)
  ultimately show ?thesis by auto
qed

text \<open>
  Stopping a run whose outputs could not be retrieved, and whose machine the executor therefore left
  running, does nothing: the record is terminal, so the command reports success without a call of the adapter.
\<close>

theorem stop_leaves_preserved_machine:
  assumes "LoadRecord d i = Inr rec" and "rec_State rec = RunStateArtifactFailed"
  shows "stop_run resolve plans force clock rnd fault i d w = (Ret (Inr ()), d, w)"
  using assms by (simp add: stop_run_def ReconnectToRun_def)

text \<open>A record of a running workload, and the targets of two kinds.\<close>

definition demo_record :: run_record where
  "demo_record = (ToRecord demo_run)\<lparr>rec_State := RunStateRunning, rec_HandleID := ''i-1'', rec_HandleState := Some ''s''\<rparr>"

definition demo_store :: run_dir where
  "demo_store = \<lparr>rd_path = Inr ''/d/runs'', rd_readable = Inr (), rd_files = [(''run_1.json'', JsonDoc demo_record)]\<rparr>"

definition demo_unit_adapter :: "unit adapter" where
  "demo_unit_adapter = \<lparr>ad_Validate = \<lambda>_ _ w. (Ret demo_validation, w), ad_Prepare = \<lambda>_ _ w. (Ret (), w),
     ad_Execute = \<lambda>_ _ w. (Err [], w), ad_Status = \<lambda>_ _ w. (Ret RunStateRunning, w), ad_Logs = \<lambda>_ _ w. (Ret (), w),
     ad_Artifacts = \<lambda>_ _ w. (Ret [], w), ad_Terminate = \<lambda>_ w. (Err ''gone'', w),
     ad_Cleanup = \<lambda>_ w. (Ret (Some \<lparr>cl_Success = True, cl_ResourcesCleaned = [], cl_Errors = []\<rparr>), w),
     ad_ExtendWatchdog = None, ad_FailureDetails = None\<rparr>"

definition demo_durable :: "unit durable" where
  "demo_durable = \<lparr>du_Reconnect = \<lambda>i raw w. (Ret \<lparr>rh_ID = i, rh_TargetID = ''t'', rh_State = StateOpaque, rh_RunID = []\<rparr>, w),
     du_ExtendWatchdog = \<lambda>_ _ _ w. (Ret 0, w), du_ListResources = \<lambda>_ w. (Ret [], w), du_DestroyResource = \<lambda>_ _ w. (Ret (), w)\<rparr>"

definition demo_target :: "bool \<Rightarrow> unit target_adapter" where
  "demo_target durable = \<lparr>ta_ID = ''t'', ta_adapter = demo_unit_adapter, ta_durable = (if durable then Some demo_durable else None)\<rparr>"

lemma demo_LoadRecord: "LoadRecord demo_store ''run_1'' = Inr demo_record"
proof -
  have "run_validateRunID ''run_1'' = Inr ()" by code_simp
  then show ?thesis by (simp add: LoadRecord_def demo_store_def StoreDir_def)
qed

lemma demo_record_fields: "rec_State demo_record = RunStateRunning" "rec_HandleID demo_record = ''i-1''"
  "rec_HandleState demo_record = Some ''s''"
  by (simp_all add: demo_record_def)

theorem stop_without_handle_stuck_witness:
  "\<exists>r. stop_run (\<lambda>_. Inr (demo_target False)) demo_plan_dir False (\<lambda>_. 20) ''x'' WriteOK ''run_1'' demo_store ()
     = (Ret (Inr ()), fst (Save ''x'' WriteOK r demo_store), ()) \<and> r_State r = RunStateStopping"
  using stop_without_handle_stuck [OF demo_LoadRecord, of "\<lambda>_. Inr (demo_target False)" "demo_target False" demo_plan_dir False "\<lambda>_. 20" "''x''" WriteOK "()"]
  by (auto simp: demo_target_def demo_record_fields)

end
