(* ===== verification/Shell_Env.thy ===== *)
theory Shell_Env
  imports Workload_Config
begin

text \<open>
  What the adapters share (\<^verbatim>\<open>internal/adapter/shared.go\<close>): names for machines and containers, the
  command of a runtime, shell quoting, and the rendering of a workload's environment for a
  remote shell, for docker and for a local process. The iteration order of a Go map is an
  argument: a list of its keys.
\<close>

section \<open>Runes\<close>

text \<open>
  The runes a \<^verbatim>\<open>range\<close> over a string yields: its UTF-8 decoding, with U+FFFD for each byte that
  starts no valid encoding.
\<close>

definition cont_byte :: "nat \<Rightarrow> bool" where
  "cont_byte b = (0x80 \<le> b \<and> b \<le> 0xBF)"

definition decode_rune :: "nat list \<Rightarrow> nat \<times> nat" where
  "decode_rune bs =
     (case bs of
        [] \<Rightarrow> (0xFFFD, 0)
      | b0 # s \<Rightarrow>
          if b0 < 0x80 then (b0, 1)
          else if 0xC2 \<le> b0 \<and> b0 \<le> 0xDF \<and> 1 \<le> length s \<and> cont_byte (s ! 0)
          then ((b0 - 0xC0) * 64 + (s ! 0 - 0x80), 2)
          else if 0xE0 \<le> b0 \<and> b0 \<le> 0xEF \<and> 2 \<le> length s \<and> cont_byte (s ! 0) \<and> cont_byte (s ! 1)
                  \<and> (b0 = 0xE0 \<longrightarrow> 0xA0 \<le> s ! 0) \<and> (b0 = 0xED \<longrightarrow> s ! 0 \<le> 0x9F)
          then ((b0 - 0xE0) * 4096 + (s ! 0 - 0x80) * 64 + (s ! 1 - 0x80), 3)
          else if 0xF0 \<le> b0 \<and> b0 \<le> 0xF4 \<and> 3 \<le> length s \<and> cont_byte (s ! 0) \<and> cont_byte (s ! 1) \<and> cont_byte (s ! 2)
                  \<and> (b0 = 0xF0 \<longrightarrow> 0x90 \<le> s ! 0) \<and> (b0 = 0xF4 \<longrightarrow> s ! 0 \<le> 0x8F)
          then ((b0 - 0xF0) * 262144 + (s ! 0 - 0x80) * 4096 + (s ! 1 - 0x80) * 64 + (s ! 2 - 0x80), 4)
          else (0xFFFD, 1))"

function byte_runes :: "nat list \<Rightarrow> nat list" where
  "byte_runes [] = []"
| "byte_runes (b # bs) = fst (decode_rune (b # bs)) # byte_runes (drop (snd (decode_rune (b # bs)) - 1) bs)"
  by pat_completeness auto
termination by (relation "measure length") auto

definition string_runes :: "string \<Rightarrow> nat list" where
  "string_runes s = byte_runes (map of_char s)"

text \<open>
  \<^verbatim>\<open>unicode.ToLower\<close> as far as the program can tell: on ASCII, and on the two other runes whose
  lower case is an ASCII letter (U+0130 and the Kelvin sign). Every other rune stays outside ASCII.
\<close>

definition lower_rune :: "nat \<Rightarrow> nat" where
  "lower_rune r = (if 65 \<le> r \<and> r \<le> 90 then r + 32 else if r = 0x130 then 105 else if r = 0x212A then 107 else r)"

section \<open>Names and commands\<close>

definition sanitize_rune :: "nat \<Rightarrow> char" where
  "sanitize_rune r = (if 97 \<le> r \<and> r \<le> 122 \<or> 48 \<le> r \<and> r \<le> 57 then char_of r else CHR ''-'')"

definition SanitizeName :: "string \<Rightarrow> string" where
  "SanitizeName name =
     (let s = strings_Trim (map (\<lambda>r. sanitize_rune (lower_rune r)) (string_runes name)) ''-'';
          s' = (if 40 < length s then strings_Trim (take 40 s) ''-'' else s)
      in if s' = [] then ''workload'' else s')"

definition RuntimeCommand :: "go_runtime \<Rightarrow> string \<Rightarrow> bool \<Rightarrow> string list" where
  "RuntimeCommand rt entrypoint forContainer =
     (case rt of
        RuntimePython \<Rightarrow> [if forContainer then ''python'' else ''python3'', entrypoint]
      | RuntimeNode \<Rightarrow> [''node'', entrypoint]
      | RuntimeGo \<Rightarrow> [''go'', ''run'', entrypoint]
      | RuntimeRuby \<Rightarrow> [''ruby'', entrypoint]
      | RuntimeRust \<Rightarrow> [''cargo'', ''run'']
      | RuntimeJava \<Rightarrow> [''java'', entrypoint]
      | _ \<Rightarrow> [entrypoint])"

section \<open>Quoting\<close>

abbreviation squote :: char where "squote \<equiv> CHR 0x27"
abbreviation backslash :: char where "backslash \<equiv> CHR 0x5C"

definition ShellQuote :: "string \<Rightarrow> string" where
  "ShellQuote s =
     [squote] @ concat (map (\<lambda>c. if c = squote then [squote, backslash, squote, squote] else [c]) s) @ [squote]"

definition ShellQuoteArgs :: "string list \<Rightarrow> string" where
  "ShellQuoteArgs args = strings_Join (map ShellQuote args) '' ''"

section \<open>The workload's environment\<close>

datatype env_error = DotEnv dotenv_error | InvalidEnvKey string | InvalidEnvValue string | EnvTempFile string

type_synonym env_map = "string \<rightharpoonup> string"

text \<open>One extra map is given with the order in which its keys are visited.\<close>

fun apply_extra :: "env_map \<Rightarrow> env_map \<Rightarrow> string list \<Rightarrow> env_error + env_map" where
  "apply_extra kv m [] = Inr kv"
| "apply_extra kv m (k # ks) =
     (if \<not> isValidEnvKey k then Inl (InvalidEnvKey k)
      else apply_extra (case m k of Some v \<Rightarrow> kv(k \<mapsto> v) | None \<Rightarrow> kv) m ks)"

fun applyExtraEnv :: "env_map \<Rightarrow> (env_map \<times> string list) list \<Rightarrow> env_error + env_map" where
  "applyExtraEnv kv [] = Inr kv"
| "applyExtraEnv kv ((m, ks) # extra) =
     (case apply_extra kv m ks of Inl e \<Rightarrow> Inl e | Inr kv' \<Rightarrow> applyExtraEnv kv' extra)"

definition workload_env ::
  "(string \<Rightarrow> env_file) \<Rightarrow> string \<Rightarrow> (env_map \<times> string list) list \<Rightarrow> env_error + env_map" where
  "workload_env files dir extra =
     (case LoadDotEnv files dir of Inl e \<Rightarrow> Inl (DotEnv e) | Inr kv \<Rightarrow> applyExtraEnv kv extra)"

definition env_value :: "env_map \<Rightarrow> string \<Rightarrow> string" where
  "env_value kv k = (case kv k of Some v \<Rightarrow> v | None \<Rightarrow> '''')"

text \<open>A base environment is a list of \<^verbatim>\<open>KEY=VALUE\<close> strings; an overridden key is dropped from it.\<close>

definition overridden :: "env_map \<Rightarrow> string \<Rightarrow> bool" where
  "overridden kv pair =
     (let key = takeWhile (\<lambda>c. c \<noteq> CHR ''='') pair
      in key \<noteq> [] \<and> length key < length pair \<and> kv key \<noteq> None)"

definition injectDotEnv ::
  "(string \<Rightarrow> env_file) \<Rightarrow> string list \<Rightarrow> string \<Rightarrow> (env_map \<times> string list) list \<Rightarrow> string list \<Rightarrow> env_error + string list" where
  "injectDotEnv files base dir extra order =
     (case workload_env files dir extra of
        Inl e \<Rightarrow> Inl e
      | Inr kv \<Rightarrow>
          if order = [] then Inr base
          else Inr (filter (\<lambda>p. \<not> overridden kv p) base @ map (\<lambda>k. k @ ''='' @ env_value kv k) order))"

definition export_line :: "env_map \<Rightarrow> string \<Rightarrow> string" where
  "export_line kv k = ''export '' @ k @ ''='' @ ShellQuote (env_value kv k) @ [newline]"

definition DotEnvExportScript ::
  "(string \<Rightarrow> env_file) \<Rightarrow> string \<Rightarrow> (env_map \<times> string list) list \<Rightarrow> string list \<Rightarrow> env_error + string" where
  "DotEnvExportScript files dir extra order =
     (case workload_env files dir extra of
        Inl e \<Rightarrow> Inl e
      | Inr kv \<Rightarrow> Inr (concat (map (export_line kv) order)))"

definition dotEnvHeredocTerminator :: string where
  "dotEnvHeredocTerminator = ''DISPATCHER_ENV_EOF''"

fun env_lines :: "(string \<Rightarrow> bool) \<Rightarrow> env_map \<Rightarrow> string list \<Rightarrow> env_error + string" where
  "env_lines bad kv [] = Inr ''''"
| "env_lines bad kv (k # ks) =
     (if bad (env_value kv k) then Inl (InvalidEnvValue k)
      else case env_lines bad kv ks of
             Inl e \<Rightarrow> Inl e
           | Inr rest \<Rightarrow> Inr (k @ ''='' @ env_value kv k @ [newline] @ rest))"

definition DotEnvFileLines ::
  "(string \<Rightarrow> env_file) \<Rightarrow> string \<Rightarrow> (env_map \<times> string list) list \<Rightarrow> string list \<Rightarrow> env_error + string" where
  "DotEnvFileLines files dir extra order =
     (case workload_env files dir extra of
        Inl e \<Rightarrow> Inl e
      | Inr kv \<Rightarrow>
          env_lines (\<lambda>v. List.member v newline \<or> strings_Contains v dotEnvHeredocTerminator) kv (sort_Strings order))"

text \<open>The file of \<^verbatim>\<open>WriteDotEnvFile\<close>: no file for an empty environment, otherwise its content.\<close>

definition WriteDotEnvFile_text ::
  "(string \<Rightarrow> env_file) \<Rightarrow> string \<Rightarrow> (env_map \<times> string list) list \<Rightarrow> string list \<Rightarrow> env_error + string option" where
  "WriteDotEnvFile_text files dir extra order =
     (case workload_env files dir extra of
        Inl e \<Rightarrow> Inl e
      | Inr kv \<Rightarrow>
          if order = [] then Inr None
          else case env_lines (\<lambda>v. strings_ContainsAny v [newline, CHR 0x0D]) kv order of
                 Inl e \<Rightarrow> Inl e
               | Inr s \<Rightarrow> Inr (Some s))"

definition DefaultValidationResult :: validation_result where
  "DefaultValidationResult = \<lparr>vr_Schema = ValidationPass, vr_PackageBuild = ValidationPass,
     vr_TargetCapabilities = ValidationPass, vr_Credentials = ValidationSkipped, vr_Quota = ValidationSkipped,
     vr_Network = ValidationPass, vr_Policy = ValidationPass, vr_CostEstimate = ValidationPass,
     vr_CleanupPlan = ValidationPass\<rparr>"

section \<open>Temporary files\<close>

text \<open>
  Files of the temporary directory: their contents and modification times by name. \<open>rnds\<close> are the
  random parts drawn, one per attempt; drawing one can fail. The system call that fails on the
  created file, if any, is \<open>fault\<close>.
\<close>

record temp_file =
  tf_text :: string
  tf_mtime :: time

type_synonym temp_dir = "string \<rightharpoonup> temp_file"

datatype temp_fault = TempOk | TempOpenFails string | TempWriteFails string | TempCloseFails string

definition expandTempPattern :: "string \<Rightarrow> string \<Rightarrow> string" where
  "expandTempPattern p rnd =
     (let a = takeWhile (\<lambda>c. c \<noteq> CHR ''*'') p
      in if List.member p CHR ''*'' then a @ rnd @ drop (length a + 1) p else p @ rnd)"

text \<open>
  One attempt per random name. A write or a close that fails removes the file it had just created; that removal is taken
  to succeed, so that the directory is as it was before.
\<close>

fun temp_attempts ::
  "string \<Rightarrow> string \<Rightarrow> time \<Rightarrow> temp_fault \<Rightarrow> string result list \<Rightarrow> temp_dir \<Rightarrow> string result \<times> temp_dir" where
  "temp_attempts pattern contents now fault [] d = (Inl ''could not allocate unique tempfile after 10 attempts'', d)"
| "temp_attempts pattern contents now fault (r # rnds) d =
     (case r of
        Inl e \<Rightarrow> (Inl (''entropy unavailable: '' @ e), d)
      | Inr rnd \<Rightarrow>
          (let name = expandTempPattern pattern rnd
           in if d name \<noteq> None then temp_attempts pattern contents now fault rnds d
              else case fault of
                     TempOpenFails e \<Rightarrow> (Inl e, d)
                   | TempWriteFails e \<Rightarrow> (Inl e, d)
                   | TempCloseFails e \<Rightarrow> (Inl e, d)
                   | TempOk \<Rightarrow> (Inr name, d(name \<mapsto> \<lparr>tf_text = contents, tf_mtime = now\<rparr>))))"

definition WriteSecureTempFile ::
  "string \<Rightarrow> string \<Rightarrow> time \<Rightarrow> temp_fault \<Rightarrow> (nat \<Rightarrow> string result) \<Rightarrow> temp_dir \<Rightarrow> string result \<times> temp_dir" where
  "WriteSecureTempFile pattern contents now fault rnd d = temp_attempts pattern contents now fault (map rnd [0..<10]) d"

definition staleEnvFileThreshold :: duration where
  "staleEnvFileThreshold = Hour"

definition swept_name :: "string \<Rightarrow> bool" where
  "swept_name n =
     (strings_HasPrefix n ''dispatcher-env-'' \<and> strings_HasSuffix n ''.env'' \<and> length ''dispatcher-env-.env'' \<le> length n
      \<or> strings_HasPrefix n ''dispatcher-shard-items-'' \<and> strings_HasSuffix n ''.txt''
        \<and> length ''dispatcher-shard-items-.txt'' \<le> length n)"

definition SweepStaleEnvFiles :: "time \<Rightarrow> temp_dir \<Rightarrow> temp_dir" where
  "SweepStaleEnvFiles now d =
     (\<lambda>n. case d n of
            None \<Rightarrow> None
          | Some f \<Rightarrow> if swept_name n \<and> tf_mtime f < now - staleEnvFileThreshold then None else Some f)"


section \<open>What a shell reads\<close>

text \<open>
  The words a POSIX shell finds in the lines of a script (Shell Command Language, 2.2 and 2.3),
  each character marked with whether it was quoted: a quoted character stands for itself, an
  unquoted one can be an operator or start an expansion. Texts that use double quotes, command
  substitution, lists, pipes, input redirection or comments outside quotes are not read.
\<close>

datatype sh_mode = Plain | Quoted | Escaped

type_synonym sh_word = "(bool \<times> char) list"

abbreviation quo :: "string \<Rightarrow> sh_word" where "quo s \<equiv> map (Pair True) s"
abbreviation unq :: "string \<Rightarrow> sh_word" where "unq s \<equiv> map (Pair False) s"

definition cur_word :: "sh_word option \<Rightarrow> sh_word" where
  "cur_word cur = (case cur of None \<Rightarrow> [] | Some w \<Rightarrow> w)"

definition flush :: "sh_word option \<Rightarrow> sh_word list \<Rightarrow> sh_word list" where
  "flush cur ws = (case cur of None \<Rightarrow> ws | Some w \<Rightarrow> ws @ [w])"

definition sh_blank :: "char \<Rightarrow> bool" where
  "sh_blank c = (c = CHR '' '' \<or> c = CHR 0x09)"

definition sh_unsupported :: "char \<Rightarrow> bool" where
  "sh_unsupported c = List.member [quote_char, CHR 0x60, CHR ''('', CHR '')'', CHR ''#'', CHR '';'', CHR ''|'', CHR ''<''] c"

fun sh_read :: "sh_mode \<Rightarrow> sh_word option \<Rightarrow> sh_word list \<Rightarrow> string \<Rightarrow> sh_word list list option" where
  "sh_read m cur ws [] =
     (if m \<noteq> Plain then None else if cur = None \<and> ws = [] then Some [] else Some [flush cur ws])"
| "sh_read Quoted cur ws (c # s) =
     (if c = squote then sh_read Plain cur ws s else sh_read Quoted (Some (cur_word cur @ [(True, c)])) ws s)"
| "sh_read Escaped cur ws (c # s) =
     (if c = newline then sh_read Plain cur ws s else sh_read Plain (Some (cur_word cur @ [(True, c)])) ws s)"
| "sh_read Plain cur ws (c # s) =
     (if c = squote then sh_read Quoted (Some (cur_word cur)) ws s
      else if c = backslash then sh_read Escaped cur ws s
      else if c = newline then map_option (\<lambda>ls. flush cur ws # ls) (sh_read Plain None [] s)
      else if sh_blank c then sh_read Plain None (flush cur ws) s
      else if sh_unsupported c then None
      else sh_read Plain (Some (cur_word cur @ [(False, c)])) ws s)"

definition sh_lines :: "string \<Rightarrow> sh_word list list option" where
  "sh_lines s = sh_read Plain None [] s"

definition sh_plain :: "char \<Rightarrow> bool" where
  "sh_plain c = (c \<noteq> squote \<and> c \<noteq> backslash \<and> c \<noteq> newline \<and> \<not> sh_blank c \<and> \<not> sh_unsupported c)"

lemma sh_read_quoted:
  "sh_read Quoted (Some w) ws (concat (map (\<lambda>c. if c = squote then [squote, backslash, squote, squote] else [c]) s) @ squote # t)
     = sh_read Plain (Some (w @ quo s)) ws t"
  by (induction s arbitrary: w) (simp_all add: cur_word_def newline_def)

lemma sh_read_ShellQuote:
  "sh_read Plain cur ws (ShellQuote s @ t) = sh_read Plain (Some (cur_word cur @ quo s)) ws t"
  by (simp add: ShellQuote_def sh_read_quoted)

lemma sh_read_plain:
  "list_all sh_plain s \<Longrightarrow> s \<noteq> [] \<Longrightarrow> sh_read Plain cur ws (s @ t) = sh_read Plain (Some (cur_word cur @ unq s)) ws t"
proof (induction s arbitrary: cur)
  case (Cons c s)
  then show ?case by (cases "s = []") (auto simp: sh_plain_def cur_word_def)
qed simp

lemma sh_read_blank: "sh_read Plain (Some w) ws (CHR '' '' # t) = sh_read Plain None (ws @ [w]) t"
  by (simp add: sh_blank_def flush_def newline_def)

lemma sh_read_newline:
  "sh_read Plain (Some w) ws (newline # t) = map_option (\<lambda>ls. (ws @ [w]) # ls) (sh_read Plain None [] t)"
  by (simp add: flush_def newline_def)

declare sh_read.simps(4) [simp del]

lemma ShellQuoteArgs_Cons:
  "ShellQuoteArgs (a # as) = ShellQuote a @ (if as = [] then [] else CHR '' '' # ShellQuoteArgs as)"
  by (cases as) (simp_all add: ShellQuoteArgs_def)

lemma sh_read_args:
  assumes "as \<noteq> []"
  shows "sh_read Plain None ws (ShellQuoteArgs as @ newline # t)
    = map_option (\<lambda>ls. (ws @ map quo as) # ls) (sh_read Plain None [] t)"
  using assms
proof (induction as arbitrary: ws)
  case (Cons a as)
  then show ?case
    by (cases "as = []") (simp_all add: ShellQuoteArgs_Cons sh_read_ShellQuote sh_read_newline sh_read_blank cur_word_def)
qed simp

lemma sh_read_args_end:
  "as \<noteq> [] \<Longrightarrow> sh_read Plain None ws (ShellQuoteArgs as) = Some [ws @ map quo as]"
proof (induction as arbitrary: ws)
  case (Cons a as)
  have e: "sh_read Plain None ws (ShellQuote a) = sh_read Plain (Some (quo a)) ws []"
    using sh_read_ShellQuote [of None ws a "[]"] by (simp add: cur_word_def)
  from Cons show ?case
    by (cases "as = []") (simp_all add: ShellQuoteArgs_Cons sh_read_ShellQuote sh_read_blank cur_word_def e flush_def)
qed simp

text \<open>
  Arguments quoted for a remote shell are read back verbatim: whatever bytes the arguments hold
  (quotes, newlines, dollar signs, operators), the shell finds exactly these words, in order, with
  every character quoted, so that none can end the word, start an expansion or add a command.
\<close>

theorem shell_args_verbatim:
  "sh_lines (ShellQuoteArgs args) = Some (if args = [] then [] else [map quo args])"
  by (cases "args = []") (simp_all add: sh_lines_def sh_read_args_end, simp add: ShellQuoteArgs_def)


section \<open>Export scripts\<close>

lemma posix_char_plain: "posix_char c \<Longrightarrow> sh_plain c"
  unfolding posix_char_def sh_plain_def sh_blank_def sh_unsupported_def List.member_iff newline_def quote_char_def less_eq_char_def
  by auto

lemma sh_read_literal:
  assumes "list_all sh_plain s" and "s \<noteq> []"
  shows "sh_read Plain None ws (s @ CHR '' '' # t) = sh_read Plain None (ws @ [unq s]) t"
  using sh_read_plain [OF assms, of None ws "CHR '' '' # t"] by (simp add: sh_read_blank cur_word_def)

lemma sh_read_export_line:
  assumes "posix_name k"
  shows "sh_read Plain None [] (export_line kv k @ t)
    = map_option (\<lambda>ls. [unq ''export'', unq (k @ ''='') @ quo (env_value kv k)] # ls) (sh_read Plain None [] t)"
proof -
  have eq: "sh_plain CHR ''=''" by code_simp
  have p: "list_all sh_plain (k @ ''='')"
    using assms eq unfolding posix_name_def list_all_iff by (auto intro: posix_char_plain)
  have e: "list_all sh_plain ''export''" by code_simp
  have l: "export_line kv k @ t
    = ''export'' @ CHR '' '' # ((k @ ''='') @ (ShellQuote (env_value kv k) @ newline # t))"
    by (simp add: export_line_def)
  have "sh_read Plain None [] (export_line kv k @ t)
    = sh_read Plain None [unq ''export''] ((k @ ''='') @ (ShellQuote (env_value kv k) @ newline # t))"
    unfolding l using sh_read_literal [OF e, of "[]"] by simp
  also have "\<dots> = sh_read Plain (Some (unq (k @ ''=''))) [unq ''export''] (ShellQuote (env_value kv k) @ newline # t)"
    by (subst sh_read_plain [OF p]) (simp_all add: cur_word_def)
  finally show ?thesis
    by (simp add: sh_read_ShellQuote sh_read_newline cur_word_def)
qed

lemma sh_read_export_lines:
  assumes "\<forall>k\<in>set ks. posix_name k"
  shows "sh_read Plain None [] (concat (map (export_line kv) ks) @ t)
    = map_option (\<lambda>ls. map (\<lambda>k. [unq ''export'', unq (k @ ''='') @ quo (env_value kv k)]) ks @ ls) (sh_read Plain None [] t)"
  using assms by (cases "sh_read Plain None [] t"; induction ks) (simp_all add: sh_read_export_line)

definition posix_keys :: "env_map \<Rightarrow> bool" where
  "posix_keys kv \<longleftrightarrow> (\<forall>k\<in>dom kv. posix_name k)"

lemma apply_extra_posix: "apply_extra kv m ks = Inr kv' \<Longrightarrow> posix_keys kv \<Longrightarrow> posix_keys kv'"
proof (induction ks arbitrary: kv)
  case (Cons k ks)
  let ?kv = "case m k of Some v \<Rightarrow> kv(k \<mapsto> v) | None \<Rightarrow> kv"
  from Cons.prems(1) have k: "isValidEnvKey k" and r: "apply_extra ?kv m ks = Inr kv'"
    by (simp_all split: if_splits)
  have "posix_keys ?kv"
    using Cons.prems(2) k unfolding isValidEnvKey_posix posix_keys_def by (cases "m k") simp_all
  with r show ?case by (rule Cons.IH)
qed simp

lemma applyExtraEnv_posix: "applyExtraEnv kv extra = Inr kv' \<Longrightarrow> posix_keys kv \<Longrightarrow> posix_keys kv'"
proof (induction extra arbitrary: kv)
  case (Cons x extra)
  then show ?case by (cases x) (auto split: sum.splits dest: apply_extra_posix)
qed simp

lemma workload_env_posix: "workload_env files dir extra = Inr kv \<Longrightarrow> posix_keys kv"
proof -
  assume w: "workload_env files dir extra = Inr kv"
  then obtain kv0 where d: "LoadDotEnv files dir = Inr kv0" and x: "applyExtraEnv kv0 extra = Inr kv"
    by (auto simp: workload_env_def split: sum.splits)
  have "env_map_ok kv0"
    using d unfolding LoadDotEnv_def by (rule dotenv_files_ok) (simp add: env_map_ok_def)
  then have "posix_keys kv0" by (auto simp: posix_keys_def env_map_ok_def)
  with x show ?thesis by (rule applyExtraEnv_posix)
qed

text \<open>
  The environment of a workload is given to a remote shell as a script, and the shell reads it
  as one \<^verbatim>\<open>export\<close> command per variable, with the variable's value quoted as a whole: whatever the
  values of the project's \<^verbatim>\<open>.env\<close> files and of the run's own variables hold, no other command is
  run, no value is expanded, and each variable receives its value unchanged.
\<close>

theorem export_script_verbatim:
  assumes "workload_env files dir extra = Inr kv" and "set order = dom kv"
  shows "\<exists>script. DotEnvExportScript files dir extra order = Inr script \<and>
    sh_lines script = Some (map (\<lambda>k. [unq ''export'', unq (k @ ''='') @ quo (the (kv k))]) order)"
proof -
  have k: "\<forall>k\<in>set order. posix_name k"
    using workload_env_posix [OF assms(1)] assms(2) by (simp add: posix_keys_def)
  have v: "env_value kv k = the (kv k)" if "k \<in> set order" for k
    using that assms(2) by (auto simp: env_value_def)
  show ?thesis
    using sh_read_export_lines [OF k, of kv "[]"] v assms(1)
    by (simp add: DotEnvExportScript_def sh_lines_def cong: map_cong)
qed

definition demo_extra :: "(env_map \<times> string list) list" where
  "demo_extra = [(Map.empty(''SHARD'' \<mapsto> ''1' ; rm -rf $HOME''), [''SHARD''])]"

theorem export_script_verbatim_witness:
  "\<exists>script. DotEnvExportScript (\<lambda>_. EnvAbsent) ''p'' demo_extra [''SHARD''] = Inr script \<and>
    sh_lines script = Some [[unq ''export'', unq ''SHARD='' @ quo ''1' ; rm -rf $HOME'']]"
proof -
  have "isValidEnvKey ''SHARD''" by code_simp
  then have "workload_env (\<lambda>_. EnvAbsent) ''p'' demo_extra = Inr (Map.empty(''SHARD'' \<mapsto> ''1' ; rm -rf $HOME''))"
    by (simp add: workload_env_def LoadDotEnv_def demo_extra_def)
  from export_script_verbatim [OF this, of "[''SHARD'']"] show ?thesis by simp
qed

section \<open>Names\<close>

definition name_char :: "char \<Rightarrow> bool" where
  "name_char c \<longleftrightarrow> CHR ''a'' \<le> c \<and> c \<le> CHR ''z'' \<or> CHR ''0'' \<le> c \<and> c \<le> CHR ''9'' \<or> c = CHR ''-''"

lemma sanitize_rune_char: "name_char (sanitize_rune r)"
  unfolding sanitize_rune_def name_char_def less_eq_char_def by auto

lemma strings_Trim_ends:
  "strings_Trim s cs = [] \<or> \<not> List.member cs (hd (strings_Trim s cs)) \<and> \<not> List.member cs (last (strings_Trim s cs))"
proof (cases "strings_Trim s cs = []")
  case False
  let ?d = "dropWhile (List.member cs) (rev (dropWhile (List.member cs) s))"
  from False have d: "?d \<noteq> []" by (simp add: strings_Trim_def)
  have "\<not> List.member cs (hd ?d)" using hd_dropWhile [OF d] by simp
  moreover have "last ?d = last (rev (dropWhile (List.member cs) s))"
    using d by (metis append_Nil2 append_is_Nil_conv last_appendR takeWhile_dropWhile_id)
  moreover have "dropWhile (List.member cs) s \<noteq> []" using d by (metis dropWhile.simps(1) rev.simps(1))
  ultimately show ?thesis
    using d hd_dropWhile [of "List.member cs" s]
    by (simp add: strings_Trim_def hd_rev last_rev)
qed simp

text \<open>
  Names for machines and containers are safe wherever they are interpolated: one to forty characters
  of \<^verbatim>\<open>[a-z0-9-]\<close> that neither start nor end with a dash, so that no name reads as a flag.
\<close>

theorem SanitizeName_safe:
  "SanitizeName n \<noteq> [] \<and> length (SanitizeName n) \<le> 40 \<and> list_all name_char (SanitizeName n)
   \<and> hd (SanitizeName n) \<noteq> CHR ''-'' \<and> last (SanitizeName n) \<noteq> CHR ''-''"
proof -
  let ?m = "map (\<lambda>r. sanitize_rune (lower_rune r)) (string_runes n)"
  let ?s = "strings_Trim ?m ''-''"
  let ?t = "if 40 < length ?s then strings_Trim (take 40 ?s) ''-'' else ?s"
  have c: "list_all name_char ?s"
    using set_Trim [of ?m "''-''"] sanitize_rune_char by (auto simp: list_all_iff)
  have t: "list_all name_char ?t"
    using c set_Trim [of "take 40 ?s" "''-''"] set_take_subset [of 40 ?s] by (auto simp: list_all_iff)
  have l: "length ?t \<le> 40"
  proof -
    have "length (strings_Trim xs cs) \<le> length xs" for xs cs
      using length_dropWhile_le [of "List.member cs" xs]
        length_dropWhile_le [of "List.member cs" "rev (dropWhile (List.member cs) xs)"]
      by (simp add: strings_Trim_def)
    from this [of "take 40 ?s" "''-''"] show ?thesis by auto
  qed
  have e: "?t = [] \<or> hd ?t \<noteq> CHR ''-'' \<and> last ?t \<noteq> CHR ''-''"
    using strings_Trim_ends [of ?m "''-''"] strings_Trim_ends [of "take 40 ?s" "''-''"] by auto
  have w: "list_all name_char ''workload''" by code_simp
  show ?thesis
  proof (cases "?t = []")
    case True
    then have "SanitizeName n = ''workload''" by (simp add: SanitizeName_def Let_def)
    with w show ?thesis by simp
  next
    case False
    then have "SanitizeName n = ?t" by (simp add: SanitizeName_def Let_def)
    then show ?thesis using t l e False by (simp only:) simp
  qed
qed

end
