(* ===== verification/Cloud_Cli.thy ===== *)
theory Cloud_Cli
  imports Catalog Shell_Env
begin

text \<open>
  How the cloud code talks to programs outside: the validation of everything that becomes a
  command-line argument (\<^verbatim>\<open>internal/cloudvm/validate.go\<close>), retries of provider commands and the
  reading of their errors (\<^verbatim>\<open>internal/cloudvm/retry.go\<close>), the state of a machine
  (\<^verbatim>\<open>internal/cloudvm/state.go\<close>, \<^verbatim>\<open>provider.go\<close>), ssh command lines and the watchdog's scripts
  (\<^verbatim>\<open>internal/cloudvm/watchdog.go\<close>, \<^verbatim>\<open>ssh_wrapper.go\<close>).
\<close>

section \<open>Arguments (validate.go)\<close>

definition label_char :: "char \<Rightarrow> bool" where
  "label_char c = (let n = (of_char c :: nat) in
     97 \<le> n \<and> n \<le> 122 \<or> 65 \<le> n \<and> n \<le> 90 \<or> 48 \<le> n \<and> n \<le> 57 \<or> c = CHR ''_'' \<or> c = CHR ''.'' \<or> c = CHR ''-'')"

definition isSafeLabel :: "string \<Rightarrow> bool" where
  "isSafeLabel s = list_all label_char s"

definition validateLabelKV :: "string \<Rightarrow> string \<Rightarrow> unit result" where
  "validateLabelKV k v =
     (if k = [] then Inl ''label key is empty''
      else if hd k = CHR ''-'' \<or> (v \<noteq> [] \<and> hd v = CHR ''-'')
      then Inl (''label '' @ go_quote k @ ''='' @ go_quote v @ '' must not begin with '' @ [squote, CHR ''-'', squote] @ '' (would be read as a CLI flag)'')
      else if \<not> isSafeLabel k then Inl (''label key '' @ go_quote k @ '' contains characters outside [a-zA-Z0-9_.-]'')
      else if \<not> isSafeLabel v then Inl (''label value '' @ go_quote v @ '' contains characters outside [a-zA-Z0-9_.-]'')
      else Inr ())"

fun validateLabels :: "(string \<times> string) list \<Rightarrow> unit result" where
  "validateLabels [] = Inr ()"
| "validateLabels ((k, v) # m) = (case validateLabelKV k v of Inl e \<Rightarrow> Inl e | Inr _ \<Rightarrow> validateLabels m)"

definition isSafeArg :: "string \<Rightarrow> bool" where
  "isSafeArg s =
     (if s = [] \<or> hd s = CHR ''-'' then False
      else list_all (\<lambda>c. label_char c \<or> c = CHR '':'' \<or> c = CHR ''/'' \<or> c = CHR ''@'') s)"

definition destroyArgsSafe :: "string \<Rightarrow> string \<Rightarrow> bool" where
  "destroyArgsSafe i region =
     (if \<not> isSafeArg i then False else if region \<noteq> [] \<and> \<not> isSafeArg region then False else True)"

fun validate_vm_args :: "(string \<times> string) list \<Rightarrow> unit result" where
  "validate_vm_args [] = Inr ()"
| "validate_vm_args ((name, val) # fs) =
     (if \<not> isSafeArg val
      then Inl (name @ '' '' @ go_quote val @ '' contains characters outside [a-zA-Z0-9_.:/@-] or is empty/flag-like'')
      else validate_vm_args fs)"

definition validateVMArgs :: "string \<Rightarrow> string \<Rightarrow> string \<Rightarrow> unit result" where
  "validateVMArgs region instanceType img =
     validate_vm_args [(''region'', region), (''instance type'', instanceType), (''image'', img)]"

section \<open>Errors of provider commands (retry.go)\<close>

text \<open>
  An error as its callers see it: its text, whether it wraps a cancelled or expired context,
  whether it wraps a \<^verbatim>\<open>cliError\<close>, and the standard error of the process exit it wraps, if any.
\<close>

record cli_err =
  er_Text :: string
  er_Ctx :: bool
  er_Cli :: bool
  er_Stderr :: string

definition newCLIError :: "cli_err \<Rightarrow> cli_err" where
  "newCLIError e =
     (if er_Stderr e \<noteq> []
      then e\<lparr>er_Text := (let s = strings_TrimSpace (er_Stderr e) in if s \<noteq> [] then s @ '': '' @ er_Text e else er_Text e),
             er_Cli := True\<rparr>
      else e)"

definition wrapExecError :: "string \<Rightarrow> cli_err \<Rightarrow> cli_err" where
  "wrapExecError label e =
     (if er_Cli e then e\<lparr>er_Text := label @ '': '' @ er_Text e\<rparr>
      else if er_Stderr e \<noteq> [] then e\<lparr>er_Text := label @ '': '' @ strings_TrimSpace (er_Stderr e) @ '': '' @ er_Text e\<rparr>
      else e\<lparr>er_Text := label @ '': '' @ er_Text e\<rparr>)"

definition isVMNotFound :: "cli_err option \<Rightarrow> string \<Rightarrow> bool" where
  "isVMNotFound err vmID =
     (case err of
        None \<Rightarrow> False
      | Some e \<Rightarrow>
          (let s = strings_ToLower (er_Text e)
           in if vmID \<noteq> [] \<and> \<not> strings_Contains s (strings_ToLower vmID) then False
              else list_ex (strings_Contains s) [''not found'', ''notfound'', ''does not exist'', ''could not be found'']))"

definition transient_markers :: "string list" where
  "transient_markers = [''throttl'', ''too many requests'', ''timeout'', ''timed out'', ''temporarily unavailable'',
     ''connection reset'', ''connection refused'', ''i/o timeout'', ''503 '', ''504 '', ''502 '', ''500 '', ''rate limit'']"

definition IsTransient :: "cli_err option \<Rightarrow> bool" where
  "IsTransient err =
     (case err of
        None \<Rightarrow> False
      | Some e \<Rightarrow> if er_Ctx e then False else list_ex (strings_Contains (strings_ToLower (er_Text e))) transient_markers)"

section \<open>Retries\<close>

record retry_policy =
  rp_MaxAttempts :: int
  rp_Initial :: duration
  rp_Max :: duration

definition DefaultRetry :: retry_policy where
  "DefaultRetry = \<lparr>rp_MaxAttempts = 4, rp_Initial = 500 * Millisecond, rp_Max = 8 * Second\<rparr>"

text \<open>
  The operation acts on a world and returns an error or none; a wait of a given duration either
  passes or ends with the context's error. \<open>left\<close> counts the attempts that remain.
\<close>

primrec retry_loop ::
  "duration \<Rightarrow> (cli_err \<Rightarrow> bool) \<Rightarrow> ('o \<Rightarrow> cli_err option \<times> 'o) \<Rightarrow> (duration \<Rightarrow> 'o \<Rightarrow> cli_err option \<times> 'o)
     \<Rightarrow> nat \<Rightarrow> duration \<Rightarrow> 'o \<Rightarrow> cli_err option \<times> 'o" where
  "retry_loop mx classifier run_op sleep 0 delay s = (None, s)"
| "retry_loop mx classifier run_op sleep (Suc left) delay s =
     (case run_op s of
        (None, s1) \<Rightarrow> (None, s1)
      | (Some e, s1) \<Rightarrow>
          if \<not> classifier e \<or> left = 0 then (Some e, s1)
          else case sleep delay s1 of
                 (Some c, s2) \<Rightarrow> (Some c, s2)
               | (None, s2) \<Rightarrow>
                   (let d = wrap64 (delay * 2); d' = (if mx < d \<and> 0 < mx then mx else d)
                    in retry_loop mx classifier run_op sleep left d' s2))"

definition Retry ::
  "retry_policy \<Rightarrow> (cli_err \<Rightarrow> bool) \<Rightarrow> ('o \<Rightarrow> cli_err option \<times> 'o) \<Rightarrow> (duration \<Rightarrow> 'o \<Rightarrow> cli_err option \<times> 'o)
     \<Rightarrow> 'o \<Rightarrow> cli_err option \<times> 'o" where
  "Retry p classifier run_op sleep s =
     (let attempts = (if rp_MaxAttempts p \<le> 0 then 1 else rp_MaxAttempts p);
          delay = (if rp_Initial p \<le> 0 then 100 * Millisecond else rp_Initial p)
      in retry_loop (rp_Max p) classifier run_op sleep (nat attempts) delay s)"

section \<open>Machines (provider.go, state.go)\<close>

record vm_options =
  vo_Name :: string
  vo_InstanceType :: string
  vo_Region :: string
  vo_Image :: string
  vo_SSHKeyPath :: string
  vo_SSHUser :: string
  vo_UserData :: string
  vo_Tags :: "string \<rightharpoonup> string"
  vo_AllowSSHFrom :: string
  vo_MaxLifetimeSeconds :: int
  vo_Command :: string
  vo_GPUCount :: int
  vo_ConfidentialType :: string
  vo_ConfidentialSpaceImage :: string
  vo_ConfidentialAllowFrom :: string
  vo_EnclaveEnabled :: bool
  vo_SecureBootDisabled :: bool
  vo_Spot :: bool

datatype vm_state = VMStatePending | VMStateRunning | VMStateStopping | VMStateTerminated | VMStateError | VMStateOther string

record vm_info =
  vi_ID :: string
  vi_Name :: string
  vi_IP :: string
  vi_SSHPort :: int
  vi_SSHKeyPath :: string
  vi_SSHUser :: string
  vi_State :: vm_state
  vi_InstanceType :: string
  vi_CreatedAt :: time
  vi_Tags :: "string \<rightharpoonup> string"

record attestation_result =
  at_Verified :: bool
  at_Type :: string
  at_Measurement :: string
  at_TCB :: "64 word"
  at_Nonce :: string
  at_Verdict :: string

record cloudvm_state =
  cv_Provider :: provider_id
  cv_VMID :: string
  cv_IP :: string
  cv_SSHKeyPath :: string
  cv_KnownHostsPath :: string
  cv_SSHUser :: string
  cv_SSHPort :: int
  cv_Region :: string
  cv_InstanceType :: string
  cv_RemoteDir :: string
  cv_LogPath :: string
  cv_WorkloadPID :: int
  cv_CreatedAt :: time
  cv_LastExitCode :: int
  cv_LastExitCodeRead :: bool
  cv_SSHKeyManaged :: bool
  cv_SSHWrapper :: string
  cv_Outputs :: "string list"
  cv_Attestation :: "attestation_result option"
  cv_Spot :: bool
  cv_Reclaimed :: bool

section \<open>ssh command lines (watchdog.go, ssh_wrapper.go)\<close>

definition ssh_port :: "cloudvm_state \<Rightarrow> int" where
  "ssh_port st = (if cv_SSHPort st = 0 then 22 else cv_SSHPort st)"

definition sshCmdArgs :: "cloudvm_state \<Rightarrow> string \<Rightarrow> string list" where
  "sshCmdArgs st remoteCmd =
     (if cv_KnownHostsPath st \<noteq> []
      then [''-o'', ''StrictHostKeyChecking=yes'', ''-o'', ''UserKnownHostsFile='' @ cv_KnownHostsPath st]
      else [''-o'', ''StrictHostKeyChecking=no'', ''-o'', ''UserKnownHostsFile=/dev/null''])
     @ [''-o'', ''ConnectTimeout=10'', ''-o'', ''ServerAliveInterval=15'', ''-o'', ''ServerAliveCountMax=6'']
     @ (if cv_SSHKeyPath st \<noteq> [] then [''-o'', ''IdentitiesOnly=yes'', ''-i'', cv_SSHKeyPath st] else [])
     @ [''-p'', show_int (ssh_port st),
        (if cv_SSHUser st = [] then ''root'' else cv_SSHUser st) @ ''@'' @ cv_IP st, remoteCmd]"

definition ssh_wrapper_text :: "cloudvm_state \<Rightarrow> string" where
  "ssh_wrapper_text st =
     ''#!/bin/sh'' @ [newline] @ ''exec ssh -o ConnectTimeout=10 -o ServerAliveInterval=15 -o ServerAliveCountMax=6''
     @ (if cv_KnownHostsPath st \<noteq> []
        then '' -o StrictHostKeyChecking=yes'' @ '' -o UserKnownHostsFile='' @ ShellQuote (cv_KnownHostsPath st)
        else '' -o StrictHostKeyChecking=no -o UserKnownHostsFile=/dev/null'')
     @ (if cv_SSHKeyPath st \<noteq> [] then '' -o IdentitiesOnly=yes'' @ '' -i '' @ ShellQuote (cv_SSHKeyPath st) else [])
     @ '' -p '' @ show_int (ssh_port st) @ '' '' @ [quote_char] @ ''$@'' @ [quote_char, newline]"

definition sshWrapperArg :: "cloudvm_state \<Rightarrow> string result" where
  "sshWrapperArg st =
     (if cv_SSHWrapper st = [] then Inl (''ssh wrapper not initialized for VM '' @ cv_VMID st)
      else Inr (ShellQuote (cv_SSHWrapper st)))"


section \<open>The watchdog on the machine (watchdog.go)\<close>

definition watchdog_default_ttl :: duration where
  "watchdog_default_ttl = 30 * Minute"

definition watchdogDeadlinePath :: string where
  "watchdogDeadlinePath = ''/var/lib/dispatcher/watchdog-deadline''"

definition DefaultWatchdogSelfDestruct :: string where
  "DefaultWatchdogSelfDestruct = ''shutdown -h now 2>/dev/null || poweroff 2>/dev/null || kill 1''"

text \<open>The script's lines; the escapes of the source's format verbs are resolved.\<close>

definition azureWatchdogSelfDestruct :: string where
  \<open>azureWatchdogSelfDestruct =
     strings_Join
       [''_az_meta() { curl -s -m 10 -H Metadata:true "http://169.254.169.254/metadata/instance/compute/$1?api-version=2021-02-01&format=text"; }'',
        ''  AZ_TOKEN=$(curl -s -m 10 -H Metadata:true "http://169.254.169.254/metadata/identity/oauth2/token?api-version=2018-02-01&resource=https%3A%2F%2Fmanagement.azure.com%2F" | sed -n ''
          @ [squote] @ ''s/.*"access_token":"'' @ [backslash] @ ''([^"]*'' @ [backslash] @ '')".*/'' @ [backslash] @ ''1/p'' @ [squote] @ '')'',
        ''  AZ_SUB=$(_az_meta subscriptionId); AZ_RG=$(_az_meta resourceGroupName); AZ_VM=$(_az_meta name)'',
        ''  if [ -n "$AZ_TOKEN" ] && [ -n "$AZ_SUB" ] && [ -n "$AZ_RG" ] && [ -n "$AZ_VM" ]; then'',
        ''    curl -s -m 30 -X POST -H "Authorization: Bearer $AZ_TOKEN" -H "Content-Length: 0" "https://management.azure.com/subscriptions/$AZ_SUB/resourceGroups/$AZ_RG/providers/Microsoft.Compute/virtualMachines/$AZ_VM/deallocate?api-version=2023-07-01" && logger "dispatcher-watchdog: deallocate requested" 2>/dev/null || true'',
        ''    sleep 30'',
        ''  fi'',
        ''  '' @ DefaultWatchdogSelfDestruct] [newline]\<close>

definition watchdogSelfDestructFor :: "provider_id \<Rightarrow> string" where
  "watchdogSelfDestructFor p = (if p = ProviderAzure then azureWatchdogSelfDestruct else DefaultWatchdogSelfDestruct)"

definition duration_Seconds :: "duration \<Rightarrow> f64" where
  "duration_Seconds d =
     f64_of_int (go_div d Second) + f64_div (f64_of_int (go_mod d Second)) (lit (of_int Second))"

definition WatchdogCloudInit :: "duration \<Rightarrow> string \<Rightarrow> string \<Rightarrow> string" where
  \<open>WatchdogCloudInit initialTTL loginUser selfDestruct =
     (let ttlSeconds = show_int (f64_to_int (duration_Seconds initialTTL));
          chownDeadline = (if loginUser \<noteq> [] \<and> loginUser \<noteq> ''root''
                           then ''chown '' @ loginUser @ '' '' @ watchdogDeadlinePath else [])
      in strings_Join
       [''#!/bin/sh'',
        ''# Dispatcher watchdog: self-destruct if deadline not extended.'',
        ''# Deadline is computed at boot so provisioning delays don't pre-expire it.'',
        ''mkdir -p /var/log/dispatcher /var/lib/dispatcher'',
        ''echo $(($(date +%s) + '' @ ttlSeconds @ '')) > '' @ watchdogDeadlinePath,
        chownDeadline,
        [],
        ''cat > /usr/local/bin/dispatcher-watchdog.sh <<'' @ [squote] @ ''WATCHDOG_EOF'' @ [squote],
        ''#!/bin/sh'',
        ''while true; do'',
        ''  DEADLINE=$(cat '' @ watchdogDeadlinePath @ '' 2>/dev/null || echo 0)'',
        ''  NOW=$(date +%s)'',
        ''  if [ "$NOW" -gt "$DEADLINE" ]; then'',
        ''    logger "dispatcher-watchdog: TTL expired, shutting down" 2>/dev/null || true'',
        ''    '' @ selfDestruct,
        ''  fi'',
        ''  sleep 60'',
        ''done'',
        ''WATCHDOG_EOF'',
        ''chmod +x /usr/local/bin/dispatcher-watchdog.sh'',
        [],
        ''cat > /etc/systemd/system/dispatcher-watchdog.service <<'' @ [squote] @ ''UNIT_EOF'' @ [squote],
        ''[Unit]'',
        ''Description=Dispatcher self-destruct watchdog'',
        ''After=network.target'',
        [],
        ''[Service]'',
        ''ExecStart=/usr/local/bin/dispatcher-watchdog.sh'',
        ''Restart=always'',
        ''RestartSec=10'',
        [],
        ''[Install]'',
        ''WantedBy=multi-user.target'',
        ''UNIT_EOF'',
        [],
        ''systemctl daemon-reload'',
        ''systemctl enable --now dispatcher-watchdog.service'',
        []] [newline])\<close>

definition watchdog_extend_cmd :: "int \<Rightarrow> string" where
  "watchdog_extend_cmd unix = ''echo '' @ show_int unix @ '' > '' @ watchdogDeadlinePath"

end
