(* ===== verification/Cloud_Adapter.thy ===== *)
theory Cloud_Adapter
  imports Cloud_Cli Executor
begin

text \<open>
  The adapter that runs workloads on cloud machines (\<^verbatim>\<open>internal/cloudvm/adapter.go\<close>, with
  \<^verbatim>\<open>known_hosts.go\<close>, \<^verbatim>\<open>ssh_wait.go\<close>, \<^verbatim>\<open>ssh_wrapper.go\<close> and \<^verbatim>\<open>attestation.go\<close>), over an arbitrary
  provider and an arbitrary host. Both act on a world \<^typ>\<open>'o\<close> outside the program: a provider call
  returns, fails or panics; a subprocess exits with an error or its output. Local key files, the
  adapter's own state per handle, the two deferred actions of a provisioning in progress and a log
  of the machines created and destroyed are kept beside it. Logging is not modelled.
\<close>

section \<open>The outside\<close>

record 'o provider =
  pv_CheckCLI :: "bool \<Rightarrow> 'o \<Rightarrow> unit call \<times> 'o"
  pv_CreateVM :: "bool \<Rightarrow> vm_options \<Rightarrow> 'o \<Rightarrow> vm_info option call \<times> 'o"
  pv_WaitReady :: "bool \<Rightarrow> string \<Rightarrow> string \<Rightarrow> string \<Rightarrow> 'o \<Rightarrow> unit call \<times> 'o"
  pv_GetVM :: "bool \<Rightarrow> string \<Rightarrow> 'o \<Rightarrow> vm_info option call \<times> 'o"
  pv_DestroyVM :: "bool \<Rightarrow> string \<Rightarrow> 'o \<Rightarrow> unit call \<times> 'o"
  pv_ListVMs :: "bool \<Rightarrow> (string \<rightharpoonup> string) \<Rightarrow> 'o \<Rightarrow> vm_info list call \<times> 'o"
  pv_SetRegion :: "(string \<Rightarrow> 'o \<Rightarrow> 'o) option"
  pv_Resources :: "((bool \<Rightarrow> 'o \<Rightarrow> resource_info list call \<times> 'o)
                    \<times> (bool \<Rightarrow> resource_info \<Rightarrow> 'o \<Rightarrow> unit call \<times> 'o)) option"

text \<open>
  The host: ssh (arguments, standard input) gives its output and its error, if any; rsync its exit
  code and error; a wait gives the context's error if that came first. \<open>ho_polls\<close> is how often a
  polling loop goes round before its deadline (or, if the flag is set, the cancellation) is
  selected; \<open>ho_ticks\<close> how often the setup watchdog fired since it was last asked. The error of a key
  generation or of a local write names the call that failed, and comes with whether a file was left.
\<close>

record 'o host =
  ho_ssh :: "bool \<Rightarrow> string list \<Rightarrow> string \<Rightarrow> 'o \<Rightarrow> (string \<times> string option) \<times> 'o"
  ho_rsync :: "bool \<Rightarrow> string list \<Rightarrow> 'o \<Rightarrow> (int \<times> string) option \<times> 'o"
  ho_keygen :: "bool \<Rightarrow> string \<Rightarrow> 'o \<Rightarrow> (string option \<times> bool) \<times> 'o"
  ho_keyscan :: "bool \<Rightarrow> string list \<Rightarrow> 'o \<Rightarrow> string result \<times> 'o"
  ho_sleep :: "bool \<Rightarrow> duration \<Rightarrow> 'o \<Rightarrow> string option \<times> 'o"
  ho_polls :: "bool \<Rightarrow> 'o \<Rightarrow> (nat \<times> bool) \<times> 'o"
  ho_ticks :: "'o \<Rightarrow> nat \<times> 'o"
  ho_now :: "'o \<Rightarrow> time"
  ho_write :: "string \<Rightarrow> string \<Rightarrow> 'o \<Rightarrow> (string option \<times> bool) \<times> 'o"
  ho_subdir :: "string \<Rightarrow> string result"
  ho_mkdir :: "string \<Rightarrow> 'o \<Rightarrow> string option \<times> 'o"
  ho_walk :: "string \<Rightarrow> 'o \<Rightarrow> artifact_ref list"
  ho_envFiles :: "string \<Rightarrow> env_file"
  ho_envOrder :: "env_map \<Rightarrow> string list"
  ho_ignore :: "string \<Rightarrow> string list"
  ho_marshal :: "cloudvm_state \<Rightarrow> string result"
  ho_unmarshal :: "string \<Rightarrow> cloudvm_state result"

record cloud_config =
  cc_ProviderID :: provider_id
  cc_SSHUser :: string

datatype machine_event = MachineCreated string | MachineDestroyed string bool

record 'o cworld =
  cw_out :: 'o
  cw_files :: "string list"
  cw_states :: "string \<rightharpoonup> cloudvm_state"
  cw_region :: string
  cw_early :: "string list"
  cw_destroy :: "string option"
  cw_log :: "machine_event list"

section \<open>Sequencing\<close>

type_synonym ('o, 'a) cm = "'o cworld \<Rightarrow> 'a call \<times> 'o cworld"

definition cret :: "'a \<Rightarrow> ('o, 'a) cm" where
  "cret a = (\<lambda>w. (Ret a, w))"

definition cfail :: "string \<Rightarrow> ('o, 'a) cm" where
  "cfail e = (\<lambda>w. (Err e, w))"

definition cpanic :: "string \<Rightarrow> ('o, 'a) cm" where
  "cpanic e = (\<lambda>w. (Panics e, w))"

definition cbind :: "('o, 'a) cm \<Rightarrow> ('a \<Rightarrow> ('o, 'b) cm) \<Rightarrow> ('o, 'b) cm" where
  "cbind m k = (\<lambda>w. case m w of (Ret a, w') \<Rightarrow> k a w' | (Err e, w') \<Rightarrow> (Err e, w') | (Panics e, w') \<Rightarrow> (Panics e, w'))"

definition cwrap :: "string \<Rightarrow> ('o, 'a) cm \<Rightarrow> ('o, 'a) cm" where
  "cwrap label m = (\<lambda>w. case m w of (Err e, w') \<Rightarrow> (Err (label @ '': '' @ e), w') | res \<Rightarrow> res)"

text \<open>A call whose error the caller looks at, or ignores.\<close>

definition ctry :: "('o, 'a) cm \<Rightarrow> ('o, 'a result) cm" where
  "ctry m = (\<lambda>w. case m w of (Ret a, w') \<Rightarrow> (Ret (Inr a), w') | (Err e, w') \<Rightarrow> (Ret (Inl e), w') | (Panics e, w') \<Rightarrow> (Panics e, w'))"

definition cgets :: "('o cworld \<Rightarrow> 'a) \<Rightarrow> ('o, 'a) cm" where
  "cgets f = (\<lambda>w. (Ret (f w), w))"

definition cupd :: "('o cworld \<Rightarrow> 'o cworld) \<Rightarrow> ('o, unit) cm" where
  "cupd f = (\<lambda>w. (Ret (), f w))"

definition cext :: "('o \<Rightarrow> 'a call \<times> 'o) \<Rightarrow> ('o, 'a) cm" where
  "cext f = (\<lambda>w. case f (cw_out w) of (r, o') \<Rightarrow> (r, w\<lparr>cw_out := o'\<rparr>))"

definition coutside :: "('o \<Rightarrow> 'a \<times> 'o) \<Rightarrow> ('o, 'a) cm" where
  "coutside f = (\<lambda>w. case f (cw_out w) of (r, o') \<Rightarrow> (Ret r, w\<lparr>cw_out := o'\<rparr>))"

definition cresult :: "'a result \<Rightarrow> ('o, 'a) cm" where
  "cresult r = (case r of Inl e \<Rightarrow> cfail e | Inr a \<Rightarrow> cret a)"

definition cerror :: "string option \<Rightarrow> ('o, unit) cm" where
  "cerror r = (case r of None \<Rightarrow> cret () | Some e \<Rightarrow> cfail e)"

definition nil_deref :: string where
  "nil_deref = ''runtime error: invalid memory address or nil pointer dereference''"

section \<open>Local files\<close>

definition add_file :: "string \<Rightarrow> ('o, unit) cm" where
  "add_file f = cupd (\<lambda>w. w\<lparr>cw_files := List.insert f (cw_files w)\<rparr>)"

definition os_Remove :: "string \<Rightarrow> ('o, unit) cm" where
  "os_Remove f = cupd (\<lambda>w. w\<lparr>cw_files := filter (\<lambda>g. g \<noteq> f) (cw_files w)\<rparr>)"

primrec remove_all :: "string list \<Rightarrow> ('o, unit) cm" where
  "remove_all [] = cret ()"
| "remove_all (f # fs) = cbind (os_Remove f) (\<lambda>_. remove_all fs)"

definition push_early :: "string \<Rightarrow> ('o, unit) cm" where
  "push_early f = cupd (\<lambda>w. w\<lparr>cw_early := cw_early w @ [f]\<rparr>)"

section \<open>Provider calls\<close>

definition create_vm :: "'o provider \<Rightarrow> bool \<Rightarrow> vm_options \<Rightarrow> ('o, vm_info) cm" where
  "create_vm P ctx opts =
     cbind (cext (pv_CreateVM P ctx opts)) (\<lambda>r.
       case r of
         None \<Rightarrow> cpanic nil_deref
       | Some vm \<Rightarrow>
           cbind (cupd (\<lambda>w. w\<lparr>cw_log := cw_log w @ [MachineCreated (vi_ID vm)]\<rparr>)) (\<lambda>_. cret vm))"

definition destroy_vm :: "'o provider \<Rightarrow> bool \<Rightarrow> string \<Rightarrow> ('o, unit) cm" where
  "destroy_vm P ctx i = (\<lambda>w.
     case pv_DestroyVM P ctx i (cw_out w) of
       (r, o') \<Rightarrow> (r, w\<lparr>cw_out := o', cw_log := cw_log w @ [MachineDestroyed i (case r of Ret _ \<Rightarrow> True | _ \<Rightarrow> False)]\<rparr>))"

definition get_vm :: "'o provider \<Rightarrow> bool \<Rightarrow> string \<Rightarrow> ('o, vm_info) cm" where
  "get_vm P ctx i =
     cbind (cext (pv_GetVM P ctx i)) (\<lambda>r. case r of None \<Rightarrow> cpanic nil_deref | Some vm \<Rightarrow> cret vm)"

definition applyRegion :: "'o provider \<Rightarrow> string \<Rightarrow> ('o, unit) cm" where
  "applyRegion P region =
     (if region = [] then cret ()
      else cbind (cupd (\<lambda>w. w\<lparr>cw_region := region\<rparr>)) (\<lambda>_.
             case pv_SetRegion P of None \<Rightarrow> cret () | Some f \<Rightarrow> cupd (\<lambda>w. w\<lparr>cw_out := f region (cw_out w)\<rparr>)))"

section \<open>Keys and ssh\<close>

definition key_dir :: "'o host \<Rightarrow> ('o, string) cm" where
  "key_dir H = cresult (ho_subdir H ''keys'')"

definition generateSSHKey :: "'o host \<Rightarrow> bool \<Rightarrow> string \<Rightarrow> ('o, string) cm" where
  "generateSSHKey H ctx runID =
     cbind (key_dir H) (\<lambda>keyDir.
       let keyPath = filepath_Join keyDir (''dispatcher-'' @ runID)
       in cbind (coutside (ho_keygen H ctx keyPath)) (\<lambda>(err, left).
            case err of
              Some e \<Rightarrow> cbind (if left then add_file keyPath else cret ()) (\<lambda>_. cfail (''ssh-keygen failed: '' @ e))
            | None \<Rightarrow> cbind (add_file keyPath) (\<lambda>_. cbind (add_file (keyPath @ ''.pub'')) (\<lambda>_. cret keyPath))))"

text \<open>
  The file of \<^verbatim>\<open>PinHostKey\<close> is created exclusively after removing a left-over one; a failed write
  removes it again.
\<close>

definition PinHostKey :: "'o host \<Rightarrow> bool \<Rightarrow> cloudvm_state \<Rightarrow> string \<Rightarrow> ('o, cloudvm_state) cm" where
  "PinHostKey H ctx st runID =
     (if cv_IP st = [] then cfail ''PinHostKey: state has no IP''
      else cbind (cwrap ''PinHostKey'' (key_dir H)) (\<lambda>keyDir.
        let path = filepath_Join keyDir (''known_hosts-'' @ runID)
        in cbind (coutside (ho_keyscan H ctx [''-T'', ''10'', ''-p'', show_int (ssh_port st), ''-t'', ''ed25519,rsa'', cv_IP st])) (\<lambda>out.
          case out of
            Inl e \<Rightarrow> cfail (''ssh-keyscan '' @ cv_IP st @ '': '' @ e)
          | Inr keys \<Rightarrow>
              if keys = [] then cfail (''ssh-keyscan returned no host keys for '' @ cv_IP st)
              else cbind (os_Remove path) (\<lambda>_.
                   cbind (coutside (ho_write H path keys)) (\<lambda>(err, left).
                     case err of
                       Some e \<Rightarrow> cfail e
                     | None \<Rightarrow> cbind (add_file path) (\<lambda>_. cret (st\<lparr>cv_KnownHostsPath := path\<rparr>)))))))"

definition sshProbe :: "'o host \<Rightarrow> bool \<Rightarrow> cloudvm_state \<Rightarrow> ('o, string option) cm" where
  "sshProbe H ctx st =
     cbind (coutside (ho_ssh H ctx (sshCmdArgs st ''true'') [])) (\<lambda>(out, err). cret err)"

primrec ssh_auth_loop :: "'o host \<Rightarrow> bool \<Rightarrow> cloudvm_state \<Rightarrow> bool \<Rightarrow> nat \<Rightarrow> ('o, unit) cm" where
  "ssh_auth_loop H ctx st cancelled 0 =
     cbind (sshProbe H ctx st) (\<lambda>err.
       case err of
         None \<Rightarrow> cret ()
       | Some e \<Rightarrow>
           if cancelled then cfail ''context canceled''
           else cfail (''timeout waiting for authenticated SSH to '' @ cv_IP st @ '' after 2m0s (last error: '' @ e @ '')''))"
| "ssh_auth_loop H ctx st cancelled (Suc n) =
     cbind (sshProbe H ctx st) (\<lambda>err. case err of None \<Rightarrow> cret () | Some e \<Rightarrow> ssh_auth_loop H ctx st cancelled n)"

definition WaitForSSHAuth :: "'o host \<Rightarrow> bool \<Rightarrow> cloudvm_state \<Rightarrow> ('o, unit) cm" where
  "WaitForSSHAuth H ctx st =
     cbind (coutside (ho_polls H ctx)) (\<lambda>(n, cancelled). ssh_auth_loop H ctx st cancelled n)"

definition writeSSHWrapper :: "'o host \<Rightarrow> cloudvm_state \<Rightarrow> string \<Rightarrow> ('o, string) cm" where
  "writeSSHWrapper H st runID =
     cbind (cwrap ''ssh wrapper'' (key_dir H)) (\<lambda>keyDir.
       let path = filepath_Join keyDir (''ssh-wrapper-'' @ runID @ ''.sh'')
       in cbind (coutside (ho_write H path (ssh_wrapper_text st))) (\<lambda>(err, left).
            case err of
              Some e \<Rightarrow> cbind (if left then add_file path else cret ()) (\<lambda>_. cfail e)
            | None \<Rightarrow> cbind (add_file path) (\<lambda>_. cret path)))"

primrec ssh_retry_loop :: "'o host \<Rightarrow> bool \<Rightarrow> cloudvm_state \<Rightarrow> string \<Rightarrow> duration \<Rightarrow> string \<Rightarrow> nat \<Rightarrow> ('o, unit) cm" where
  "ssh_retry_loop H ctx st cmd backoff lastErr 0 = cfail lastErr"
| "ssh_retry_loop H ctx st cmd backoff lastErr (Suc n) =
     cbind (coutside (ho_ssh H ctx (sshCmdArgs st cmd) [])) (\<lambda>(out, err).
       case err of
         None \<Rightarrow> cret ()
       | Some e \<Rightarrow>
           cbind (coutside (ho_sleep H ctx backoff)) (\<lambda>c.
             case c of Some ce \<Rightarrow> cfail ce | None \<Rightarrow> ssh_retry_loop H ctx st cmd backoff e n))"

definition sshRunWithRetry :: "'o host \<Rightarrow> bool \<Rightarrow> cloudvm_state \<Rightarrow> string \<Rightarrow> nat \<Rightarrow> duration \<Rightarrow> ('o, unit) cm" where
  "sshRunWithRetry H ctx st cmd attempts backoff = ssh_retry_loop H ctx st cmd backoff [] attempts"

definition cloud_init_cmd :: string where
  "cloud_init_cmd = ''command -v cloud-init >/dev/null 2>&1 && cloud-init status --wait >/dev/null 2>&1 || true''"

definition waitForCloudInit :: "'o host \<Rightarrow> bool \<Rightarrow> cloudvm_state \<Rightarrow> ('o, unit) cm" where
  "waitForCloudInit H ctx st = sshRunWithRetry H ctx st cloud_init_cmd 6 (5 * Second)"

text \<open>Seconds since the epoch; Go's zero time lies 62135596800 seconds before it.\<close>

definition time_Unix :: "time \<Rightarrow> int" where
  "time_Unix t = t div Second - 62135596800"

definition ExtendWatchdogViaSSH :: "'o host \<Rightarrow> bool \<Rightarrow> cloudvm_state \<Rightarrow> duration \<Rightarrow> ('o, time) cm" where
  "ExtendWatchdogViaSSH H ctx st ttl =
     cbind (cgets (\<lambda>w. ho_now H (cw_out w) + ttl)) (\<lambda>newDeadline.
     cbind (coutside (ho_ssh H ctx (sshCmdArgs st (watchdog_extend_cmd (time_Unix newDeadline))) [])) (\<lambda>(out, err).
       case err of
         Some e \<Rightarrow> cfail (''failed to extend watchdog: '' @ e)
       | None \<Rightarrow> cret newDeadline))"

section \<open>Uploading and starting\<close>

definition rsync_excludes :: "string list" where
  "rsync_excludes = [''.git'', ''node_modules'', ''.venv'', ''venv'', ''__pycache__'', ''.dispatcher'']"

definition rsyncUploadArgs :: "'o host \<Rightarrow> cloudvm_state \<Rightarrow> string \<Rightarrow> string \<Rightarrow> string list result" where
  "rsyncUploadArgs H st sourcePath dest =
     (case sshWrapperArg st of
        Inl e \<Rightarrow> Inl e
      | Inr eArg \<Rightarrow>
          Inr ([''-az'', ''--delete'', ''--progress'', ''--protect-args'', ''--partial'', ''--append-verify'', ''-e'', eArg]
               @ concat (map (\<lambda>ex. [''--exclude'', ex]) rsync_excludes)
               @ concat (map (\<lambda>p. [''--exclude'', p]) (filter (\<lambda>p. \<not> strings_HasPrefix p ''-'') (ho_ignore H sourcePath)))
               @ [sourcePath @ ''/'', dest]))"

text \<open>\<open>left\<close> attempts remain of four; attempt \<open>4 - left\<close> waits that many times five seconds.\<close>

primrec rsync_loop :: "'o host \<Rightarrow> bool \<Rightarrow> string list \<Rightarrow> nat \<Rightarrow> ('o, unit) cm" where
  "rsync_loop H ctx args 0 = cfail ''rsync failed: %!w(<nil>)''"
| "rsync_loop H ctx args (Suc left) =
     cbind (coutside (ho_rsync H ctx args)) (\<lambda>err.
       case err of
         None \<Rightarrow> cret ()
       | Some (code, e) \<Rightarrow>
           if code \<noteq> 255 \<or> left = 0 then cfail (''rsync failed: '' @ e)
           else cbind (coutside (ho_sleep H ctx (int (4 - left) * 5 * Second))) (\<lambda>c.
                  case c of Some ce \<Rightarrow> cfail ce | None \<Rightarrow> rsync_loop H ctx args left))"

definition rsyncToVM :: "'o host \<Rightarrow> bool \<Rightarrow> cloudvm_state \<Rightarrow> string \<Rightarrow> ('o, unit) cm" where
  "rsyncToVM H ctx st sourcePath =
     cbind (cwrap ''mkdir failed'' (sshRunWithRetry H ctx st (''mkdir -p '' @ ShellQuote (cv_RemoteDir st)) 5 (5 * Second))) (\<lambda>_.
     cbind (cresult (rsyncUploadArgs H st sourcePath (cv_SSHUser st @ ''@'' @ cv_IP st @ '':'' @ cv_RemoteDir st @ ''/''))) (\<lambda>args.
       rsync_loop H ctx args 4))"

definition niceCommand :: "string \<Rightarrow> string" where
  "niceCommand cmdStr = ''nice -n 10 '' @ cmdStr"

definition workload_command :: "workload_spec \<Rightarrow> string list result" where
  "workload_command w =
     (if ws_Command w \<noteq> [] then Inr (ws_Command w)
      else if ws_Entrypoints w \<noteq> [] then Inr (RuntimeCommand (ws_Runtime w) (hd (ws_Entrypoints w)) False)
      else Inl ''no command or entrypoint for remote execution'')"

definition remoteExitCodePath :: "cloudvm_state \<Rightarrow> string" where
  "remoteExitCodePath st = cv_RemoteDir st @ ''/dispatcher.exitcode''"

definition runner_script :: "cloudvm_state \<Rightarrow> string \<Rightarrow> string \<Rightarrow> string" where
  "runner_script st envExports cmdStr =
     envExports @ ''cd '' @ ShellQuote (cv_RemoteDir st) @ [newline]
     @ ''{'' @ [newline]
     @ ''  '' @ niceCommand cmdStr @ [newline]
     @ ''} > '' @ ShellQuote (cv_LogPath st) @ '' 2>&1'' @ [newline]
     @ ''echo $? > '' @ ShellQuote (remoteExitCodePath st) @ [newline]"

definition env_error_string :: "env_error \<Rightarrow> string" where
  "env_error_string e =
     (case e of
        DotEnv (EnvIsSymlink p) \<Rightarrow> p @ '' is a symlink; refusing to read env from it''
      | DotEnv (EnvOpen p s) \<Rightarrow> ''open '' @ p @ '': '' @ s
      | DotEnv (EnvBadKey k p) \<Rightarrow>
          ''invalid key '' @ go_quote k @ '' in '' @ p @ '': env var names must match [A-Za-z_][A-Za-z0-9_]*''
      | DotEnv (EnvTooLong p) \<Rightarrow> ''read '' @ p @ '': bufio.Scanner: token too long''
      | InvalidEnvKey k \<Rightarrow> ''invalid env key '' @ go_quote k @ '': must match [A-Za-z_][A-Za-z0-9_]*''
      | InvalidEnvValue k \<Rightarrow> ''env value for '' @ go_quote k @ '' cannot contain a newline''
      | EnvTempFile s \<Rightarrow> s)"

definition env_exports :: "'o host \<Rightarrow> workload_spec \<Rightarrow> string result" where
  "env_exports H w =
     (let extra = [(ws_Env w, ho_envOrder H (ws_Env w))]; dir = wsrc_Path (ws_Source w)
      in case workload_env (ho_envFiles H) dir extra of
           Inl e \<Rightarrow> Inl (env_error_string e)
         | Inr kv \<Rightarrow>
             (case DotEnvExportScript (ho_envFiles H) dir extra (ho_envOrder H kv) of
                Inl e \<Rightarrow> Inl (env_error_string e)
              | Inr s \<Rightarrow> Inr s))"

text \<open>\<open>left\<close> attempts remain of five; after the last the code waits once more before it gives up.\<close>

primrec install_loop :: "'o host \<Rightarrow> bool \<Rightarrow> string list \<Rightarrow> string \<Rightarrow> string \<Rightarrow> nat \<Rightarrow> ('o, unit) cm" where
  "install_loop H ctx args script lastErr 0 = cfail (''install runner (after 5 attempts): '' @ lastErr)"
| "install_loop H ctx args script lastErr (Suc left) =
     cbind (coutside (ho_ssh H ctx args script)) (\<lambda>(out, err).
       case err of
         None \<Rightarrow> cret ()
       | Some e \<Rightarrow>
           cbind (coutside (ho_sleep H ctx (5 * int (5 - left) * Second))) (\<lambda>c.
             case c of
               Some ce \<Rightarrow> cfail (''install runner cancelled: '' @ ce)
             | None \<Rightarrow> install_loop H ctx args script e left))"

text \<open>\<^verbatim>\<open>fmt.Sscanf\<close> with \<^verbatim>\<open>%d\<close> into a variable that holds 0: the leading integer, or 0 if there is none in range.\<close>

definition sscanf_d :: "string \<Rightarrow> int" where
  "sscanf_d s =
     (let t = dropWhile is_space s;
          (neg, u) = (case t of [] \<Rightarrow> (False, []) | c # r \<Rightarrow> if c = CHR ''-'' then (True, r) else if c = CHR ''+'' then (False, r) else (False, t));
          ds = takeWhile is_digit u; n = int_of_digits ds; v = (if neg then - n else n)
      in if ds = [] \<or> v < - (2 ^ 63) \<or> 2 ^ 63 \<le> v then 0 else v)"

definition startWorkloadOnVM :: "'o host \<Rightarrow> bool \<Rightarrow> cloudvm_state \<Rightarrow> workload_spec \<Rightarrow> ('o, cloudvm_state) cm" where
  "startWorkloadOnVM H ctx st w =
     cbind (cresult (workload_command w)) (\<lambda>args.
     cbind (cresult (env_exports H w)) (\<lambda>envExports.
       let runnerPath = cv_RemoteDir st @ ''/dispatcher-runner.sh'';
           script = runner_script st envExports (ShellQuoteArgs args);
           writeCmd = ''cat > '' @ ShellQuote runnerPath @ '' && chmod +x '' @ ShellQuote runnerPath;
           launchCmd = ''nohup '' @ ShellQuote runnerPath @ '' > /dev/null 2>&1 & echo $!''
       in cbind (install_loop H ctx (sshCmdArgs st writeCmd) script [] 5) (\<lambda>_.
          cbind (coutside (ho_ssh H ctx (sshCmdArgs st launchCmd) [])) (\<lambda>(out, err).
            case err of
              Some e \<Rightarrow> cfail (''start failed: '' @ e)
            | None \<Rightarrow> cret (st\<lparr>cv_WorkloadPID := sscanf_d (strings_TrimSpace out)\<rparr>)))))"


section \<open>Provisioning\<close>

definition effectiveInstanceType :: "vm_info option \<Rightarrow> vm_options \<Rightarrow> string" where
  "effectiveInstanceType vm opts =
     (case vm of None \<Rightarrow> vo_InstanceType opts
      | Some v \<Rightarrow> if vi_InstanceType v \<noteq> [] then vi_InstanceType v else vo_InstanceType opts)"

definition buildVMOptions :: "plan \<Rightarrow> string \<Rightarrow> string \<Rightarrow> string \<Rightarrow> string \<Rightarrow> vm_options" where
  "buildVMOptions p region vmName pubKeyPath userData =
     (let c = rr_Confidential (ws_Requirements (pl_Workload p))
      in \<lparr>vo_Name = vmName,
          vo_InstanceType = (case pl_Recommendation p of Some rc \<Rightarrow> ce_InstanceType (rec_EstimatedCost rc) | None \<Rightarrow> []),
          vo_Region = region, vo_Image = [], vo_SSHKeyPath = pubKeyPath, vo_SSHUser = [], vo_UserData = userData,
          vo_Tags = [''dispatcher-run-id'' \<mapsto> pm_ID (pl_Metadata p), ''dispatcher'' \<mapsto> ''true''],
          vo_AllowSSHFrom = pc_AllowSSHFrom (pl_Constraints p), vo_MaxLifetimeSeconds = 0, vo_Command = [],
          vo_GPUCount = 0,
          vo_ConfidentialType = (if cr_Required c then if cr_Type c = [] then ''any'' else cr_Type c else []),
          vo_ConfidentialSpaceImage = [], vo_ConfidentialAllowFrom = [], vo_EnclaveEnabled = False,
          vo_SecureBootDisabled = False, vo_Spot = pc_Spot (pl_Constraints p)\<rparr>)"

definition validateGPUInstance :: "workload_spec \<Rightarrow> string \<Rightarrow> unit result" where
  "validateGPUInstance w instanceType =
     (if gr_Required (rr_GPU (ws_Requirements w)) \<and> instanceType = []
      then Inl (''workload requires a GPU but no catalog instance matched; ''
        @ ''pin a supported gpu.model or choose a provider with GPU inventory '' @ em_dash
        @ '' refusing to provision a CPU-only instance'')
      else Inr ())"

definition confidentialAttestationPreflight :: "workload_spec \<Rightarrow> provider_id \<Rightarrow> unit result" where
  "confidentialAttestationPreflight w p =
     (let c = rr_Confidential (ws_Requirements w)
      in if \<not> cr_Required c \<or> cr_Attestation c = ''off'' then Inr ()
         else Inl (''confidential attestation is required but no verifier is available on the SSH-VM path for ''
           @ provider_string p @ ''; attestation-on runs are routed to the confidential adapter '' @ em_dash
           @ '' set `confidential.attestation: off` to provision the TEE without verification (see docs/confidential-computing.md)''))"

definition verifyConfidential :: "provider_id \<Rightarrow> confidential_requirement \<Rightarrow> attestation_result option result" where
  "verifyConfidential p c =
     (if \<not> cr_Required c then Inr None
      else if cr_Attestation c = ''off''
      then Inr (Some \<lparr>at_Verified = False, at_Type = [], at_Measurement = [], at_TCB = 0, at_Nonce = [],
                  at_Verdict = ''attestation off '' @ em_dash @ '' provisioned TEE without verification''\<rparr>)
      else Inl (''confidential attestation required on '' @ provider_string p
        @ '' but this SSH-VM path has no verifier; a confidential adapter should have handled it''))"

definition normalizeMeasurement :: "string \<Rightarrow> string" where
  "normalizeMeasurement s =
     (let t = strings_ToLower (strings_TrimSpace s)
      in if strings_HasPrefix t ''sha256:'' then drop 7 t else t)"

definition enforceWorkloadMeasurements :: "confidential_requirement \<Rightarrow> string \<Rightarrow> unit result" where
  "enforceWorkloadMeasurements req attested =
     (if cr_Measurements req = [] then Inr ()
      else if list_ex (\<lambda>m. normalizeMeasurement m = normalizeMeasurement attested) (cr_Measurements req) then Inr ()
      else Inl (''confidential.measurements allowlist does not include the attested measurement '' @ go_quote attested
        @ '' '' @ em_dash @ '' refusing to run (the operator-pinned image/PCR is not one the workload declared)''))"

definition setupWatchdogInterval :: "duration \<Rightarrow> duration" where
  "setupWatchdogInterval ttl = (let interval = go_div ttl 3 in if interval < Second then Second else interval)"

text \<open>
  The renewals of the setup watchdog that happen before the next step: one when it starts, and one per
  tick; their errors are only logged.
\<close>

primrec renew_times :: "'o host \<Rightarrow> bool \<Rightarrow> cloudvm_state \<Rightarrow> duration \<Rightarrow> nat \<Rightarrow> ('o, unit) cm" where
  "renew_times H ctx st ttl 0 = cret ()"
| "renew_times H ctx st ttl (Suc n) =
     cbind (ctry (ExtendWatchdogViaSSH H ctx st ttl)) (\<lambda>_. renew_times H ctx st ttl n)"

definition setup_watchdog :: "'o host \<Rightarrow> bool \<Rightarrow> cloudvm_state \<Rightarrow> duration \<Rightarrow> ('o, unit) cm" where
  "setup_watchdog H ctx st ttl = cbind (coutside (ho_ticks H)) (\<lambda>n. renew_times H ctx st ttl n)"

definition initial_state ::
  "'o host \<Rightarrow> cloud_config \<Rightarrow> plan \<Rightarrow> vm_options \<Rightarrow> vm_info \<Rightarrow> string \<Rightarrow> string \<Rightarrow> 'o cworld \<Rightarrow> cloudvm_state" where
  "initial_state H cfg p opts vm keyPath sshUser w =
     (let remoteDir = ''/tmp/dispatcher/'' @ pm_ID (pl_Metadata p)
      in \<lparr>cv_Provider = cc_ProviderID cfg, cv_VMID = vi_ID vm, cv_IP = vi_IP vm,
          cv_SSHKeyPath = (if vi_SSHKeyPath vm \<noteq> [] then vi_SSHKeyPath vm else keyPath),
          cv_KnownHostsPath = [],
          cv_SSHUser = (if vi_SSHUser vm \<noteq> [] then vi_SSHUser vm else sshUser),
          cv_SSHPort = (if 0 < vi_SSHPort vm then vi_SSHPort vm else 22),
          cv_Region = cw_region w, cv_InstanceType = effectiveInstanceType (Some vm) opts,
          cv_RemoteDir = remoteDir, cv_LogPath = remoteDir @ ''/dispatcher.log'', cv_WorkloadPID = 0,
          cv_CreatedAt = ho_now H (cw_out w), cv_LastExitCode = 0, cv_LastExitCodeRead = False,
          cv_SSHKeyManaged = (vi_SSHKeyPath vm = []), cv_SSHWrapper = [],
          cv_Outputs = ws_Outputs (pl_Workload p), cv_Attestation = None, cv_Spot = vo_Spot opts,
          cv_Reclaimed = False\<rparr>)"

text \<open>When the provider brings its own identity, the generated key is dropped at once.\<close>

definition drop_unused_key :: "vm_info \<Rightarrow> string \<Rightarrow> ('o, unit) cm" where
  "drop_unused_key vm keyPath =
     (if vi_SSHKeyPath vm \<noteq> []
      then cbind (os_Remove keyPath) (\<lambda>_. cbind (os_Remove (keyPath @ ''.pub'')) (\<lambda>_. cupd (\<lambda>w. w\<lparr>cw_early := []\<rparr>)))
      else cret ())"

text \<open>From the created machine to the started workload.\<close>

definition setup_machine ::
  "'o provider \<Rightarrow> 'o host \<Rightarrow> cloud_config \<Rightarrow> bool \<Rightarrow> plan \<Rightarrow> vm_options \<Rightarrow> duration \<Rightarrow> string \<Rightarrow> string \<Rightarrow> vm_info \<Rightarrow> ('o, cloudvm_state) cm" where
  "setup_machine P H cfg ctx p opts ttl keyPath sshUser vm =
     (let w = pl_Workload p; runID = pm_ID (pl_Metadata p)
      in cbind (cwrap ''VM not reachable via SSH'' (cext (pv_WaitReady P ctx (vi_ID vm) (vi_IP vm) keyPath))) (\<lambda>_.
         cbind (drop_unused_key vm keyPath) (\<lambda>_.
         cbind (cgets (initial_state H cfg p opts vm keyPath sshUser)) (\<lambda>st0.
         cbind (cwrap ''pin host key'' (PinHostKey H ctx st0 runID)) (\<lambda>st1.
         cbind (push_early (cv_KnownHostsPath st1)) (\<lambda>_.
         cbind (cwrap ''wait for authenticated ssh'' (WaitForSSHAuth H ctx st1)) (\<lambda>_.
         cbind (cwrap ''build ssh wrapper'' (writeSSHWrapper H st1 runID)) (\<lambda>wrapper.
         cbind (push_early wrapper) (\<lambda>_.
         cbind (cresult (verifyConfidential (cc_ProviderID cfg) (rr_Confidential (ws_Requirements w)))) (\<lambda>att.
         let st2 = st1\<lparr>cv_SSHWrapper := wrapper, cv_Attestation := att\<rparr>
         in cbind (ctry (waitForCloudInit H ctx st2)) (\<lambda>_.
            cbind (renew_times H ctx st2 ttl 1) (\<lambda>_.
            cbind (setup_watchdog H ctx st2 ttl) (\<lambda>_.
            cbind (cwrap ''rsync failed'' (rsyncToVM H ctx st2 (wsrc_Path (ws_Source w)))) (\<lambda>_.
            cbind (setup_watchdog H ctx st2 ttl) (\<lambda>_.
            cwrap ''workload start failed'' (startWorkloadOnVM H ctx st2 w))))))))))))))))"

text \<open>
  The two deferred actions of \<^verbatim>\<open>Execute\<close>: they run when it returns and when it panics, and do nothing once
  they have been disarmed. The machine is destroyed with a fresh context; the error is ignored.
\<close>

definition early_cleanup :: "('o, 'a) cm \<Rightarrow> ('o, 'a) cm" where
  "early_cleanup m = (\<lambda>w. case m w of (r, w') \<Rightarrow> (r, (snd (remove_all (cw_early w') w'))\<lparr>cw_early := []\<rparr>))"

definition destroy_on_err :: "'o provider \<Rightarrow> ('o, 'a) cm \<Rightarrow> ('o, 'a) cm" where
  "destroy_on_err P m = (\<lambda>w.
     case m w of
       (r, w') \<Rightarrow>
         (case cw_destroy w' of
            None \<Rightarrow> (r, w')
          | Some i \<Rightarrow>
              (case destroy_vm P False i (w'\<lparr>cw_destroy := None\<rparr>) of
                 (Panics e, w'') \<Rightarrow> (Panics e, w'')
               | (_, w'') \<Rightarrow> (r, w''))))"

definition vm_login :: "cloud_config \<Rightarrow> string" where
  "vm_login cfg = (if cc_SSHUser cfg = [] then ''root'' else cc_SSHUser cfg)"

definition watchdog_ttl :: "plan \<Rightarrow> duration" where
  "watchdog_ttl p = (if 0 < pc_WatchdogTTL (pl_Constraints p) then pc_WatchdogTTL (pl_Constraints p) else watchdog_default_ttl)"

definition target_id :: "cloud_config \<Rightarrow> string" where
  "target_id cfg = provider_string (cc_ProviderID cfg) @ ''-vm''"

definition mk_handle :: "'o host \<Rightarrow> cloud_config \<Rightarrow> string \<Rightarrow> cloudvm_state \<Rightarrow> run_handle" where
  "mk_handle H cfg i st = \<lparr>rh_ID = i, rh_TargetID = target_id cfg, rh_State = StateSerializable (ho_marshal H st), rh_RunID = []\<rparr>"

text \<open>The request for a machine, with the checks that precede its creation.\<close>

definition vm_request ::
  "'o provider \<Rightarrow> cloud_config \<Rightarrow> plan \<Rightarrow> string \<Rightarrow> ('o, vm_options) cm" where
  "vm_request P cfg p keyPath =
     (let w = pl_Workload p
      in cbind (cgets cw_region) (\<lambda>adapterRegion.
         cbind (applyRegion P (if pc_Region (pl_Constraints p) = [] then adapterRegion else pc_Region (pl_Constraints p))) (\<lambda>_.
         cbind (cgets (\<lambda>cw. (buildVMOptions p (cw_region cw) (''dispatcher-'' @ SanitizeName (ws_Name w)) (keyPath @ ''.pub'')
                  (WatchdogCloudInit (watchdog_ttl p) (vm_login cfg) (watchdogSelfDestructFor (cc_ProviderID cfg))))
                    \<lparr>vo_SSHUser := vm_login cfg\<rparr>)) (\<lambda>opts.
         cbind (cresult (validateGPUInstance w (vo_InstanceType opts))) (\<lambda>_.
         cbind (cresult (confidentialAttestationPreflight w (cc_ProviderID cfg))) (\<lambda>_.
         cret opts))))))"

text \<open>The part of \<^verbatim>\<open>Execute\<close> that runs with a machine, and destroys it unless it succeeds.\<close>

definition with_machine ::
  "'o provider \<Rightarrow> 'o host \<Rightarrow> cloud_config \<Rightarrow> bool \<Rightarrow> plan \<Rightarrow> vm_options \<Rightarrow> string \<Rightarrow> vm_info \<Rightarrow> ('o, run_handle) cm" where
  "with_machine P H cfg ctx p opts keyPath vm =
     destroy_on_err P (
       cbind (cupd (\<lambda>cw. cw\<lparr>cw_destroy := Some (vi_ID vm)\<rparr>)) (\<lambda>_.
       cbind (setup_machine P H cfg ctx p opts (watchdog_ttl p) keyPath (vm_login cfg) vm) (\<lambda>st.
       cbind (cupd (\<lambda>cw. cw\<lparr>cw_early := [], cw_destroy := None, cw_states := (cw_states cw)(vi_ID vm \<mapsto> st)\<rparr>)) (\<lambda>_.
       cret (mk_handle H cfg (vi_ID vm) st)))))"

definition provision ::
  "'o provider \<Rightarrow> 'o host \<Rightarrow> cloud_config \<Rightarrow> bool \<Rightarrow> plan \<Rightarrow> string \<Rightarrow> ('o, run_handle) cm" where
  "provision P H cfg ctx p keyPath =
     cbind (vm_request P cfg p keyPath) (\<lambda>opts.
     cbind (cwrap ''VM creation failed'' (create_vm P ctx opts)) (\<lambda>vm.
     with_machine P H cfg ctx p opts keyPath vm))"

definition cloud_Execute ::
  "'o provider \<Rightarrow> 'o host \<Rightarrow> cloud_config \<Rightarrow> bool \<Rightarrow> plan \<Rightarrow> ('o, run_handle) cm" where
  "cloud_Execute P H cfg ctx p =
     cbind (cwrap ''failed to generate SSH key'' (generateSSHKey H ctx (pm_ID (pl_Metadata p)))) (\<lambda>keyPath.
     early_cleanup (
       cbind (cupd (\<lambda>w. w\<lparr>cw_early := [keyPath, keyPath @ ''.pub''], cw_destroy := None\<rparr>)) (\<lambda>_.
       provision P H cfg ctx p keyPath)))"


section \<open>Observing a run\<close>

text \<open>The state of a handle; the type assertion of the source panics on any other handle.\<close>

definition handle_vm :: "run_handle \<Rightarrow> ('o, cloudvm_state) cm" where
  "handle_vm h = (\<lambda>w.
     case cw_states w (rh_ID h) of
       Some st \<Rightarrow> (Ret st, w)
     | None \<Rightarrow> (Panics ''interface conversion: interface {} is not *cloudvm.CloudVMState'', w))"

definition set_vm :: "run_handle \<Rightarrow> cloudvm_state \<Rightarrow> ('o, unit) cm" where
  "set_vm h st = cupd (\<lambda>w. w\<lparr>cw_states := (cw_states w)(rh_ID h \<mapsto> st)\<rparr>)"

definition read_exit_code :: "'o host \<Rightarrow> bool \<Rightarrow> run_handle \<Rightarrow> cloudvm_state \<Rightarrow> ('o, run_state) cm" where
  "read_exit_code H ctx h st =
     cbind (coutside (ho_ssh H ctx (sshCmdArgs st (''cat '' @ ShellQuote (remoteExitCodePath st) @ '' 2>/dev/null'')) [])) (\<lambda>(out, _).
       let codeStr = strings_TrimSpace out; code = sscanf_d codeStr
       in if codeStr = []
          then cbind (set_vm h (st\<lparr>cv_LastExitCode := - 1, cv_LastExitCodeRead := False\<rparr>)) (\<lambda>_. cret RunStateExecutionFailed)
          else cbind (set_vm h (st\<lparr>cv_LastExitCode := code, cv_LastExitCodeRead := True\<rparr>)) (\<lambda>_.
                 cret (if code \<noteq> 0 then RunStateExecutionFailed else RunStateCompleted)))"

definition cloud_Status :: "'o provider \<Rightarrow> 'o host \<Rightarrow> bool \<Rightarrow> run_handle \<Rightarrow> ('o, run_state) cm" where
  "cloud_Status P H ctx h =
     cbind (handle_vm h) (\<lambda>st.
     cbind (cwrap ''cannot get VM status'' (get_vm P ctx (cv_VMID st))) (\<lambda>vm.
       if vi_State vm = VMStateTerminated
       then cbind (if cv_Spot st then set_vm h (st\<lparr>cv_Reclaimed := True\<rparr>) else cret ()) (\<lambda>_. cret RunStateExecutionFailed)
       else if 0 < cv_WorkloadPID st
       then cbind (coutside (ho_ssh H ctx (sshCmdArgs st
                (''kill -0 '' @ show_int (cv_WorkloadPID st) @ '' 2>/dev/null && echo running || echo done'')) [])) (\<lambda>(out, err).
              case err of
                Some e \<Rightarrow> cfail (''ssh liveness probe failed: '' @ e)
              | None \<Rightarrow> if strings_TrimSpace out = ''done'' then read_exit_code H ctx h st else cret RunStateRunning)
       else cret RunStateRunning))"

record failure_evidence =
  fe_oomKilled :: bool
  fe_summary :: string

definition failure_evidence_zero :: failure_evidence where
  "failure_evidence_zero = \<lparr>fe_oomKilled = False, fe_summary = []\<rparr>"

definition maxEvidenceSummary :: nat where "maxEvidenceSummary = 200"

definition oom_line :: "string \<Rightarrow> bool" where
  "oom_line l = list_ex (strings_Contains (strings_ToLower l)) [''out of memory'', ''oom-kill'', ''killed process'']"

fun strings_Fields :: "string \<Rightarrow> string list" where
  "strings_Fields [] = []"
| "strings_Fields (c # s) =
     (if is_space c then strings_Fields s
      else case s of
             [] \<Rightarrow> [[c]]
           | d # _ \<Rightarrow> if is_space d then [c] # strings_Fields s
                      else (case strings_Fields s of [] \<Rightarrow> [[c]] | f # fs \<Rightarrow> (c # f) # fs))"

definition oom_counter :: "string \<Rightarrow> bool" where
  "oom_counter l = (let f = strings_Fields l in length f = 2 \<and> f ! 0 = ''oom_kill'' \<and> f ! 1 \<noteq> ''0'')"

fun scan_evidence :: "string list \<Rightarrow> bool \<times> string \<Rightarrow> bool \<times> string" where
  "scan_evidence [] acc = acc"
| "scan_evidence (l # ls) (oom, summary) =
     scan_evidence ls
       (oom \<or> oom_line l \<or> oom_counter l,
        if oom_line l \<and> summary = [] then strings_TrimSpace l else summary)"

definition parseOOMEvidence :: "string \<Rightarrow> failure_evidence" where
  "parseOOMEvidence raw =
     (let (oom, summary) = scan_evidence (strings_Split newline raw) (False, []);
          s = (if summary = [] then ''cgroup oom_kill counter is non-zero'' else summary)
      in if \<not> oom then failure_evidence_zero
         else \<lparr>fe_oomKilled = True,
               fe_summary = (if maxEvidenceSummary < length s then take maxEvidenceSummary s @ ellipsis else s)\<rparr>)"

definition evidence_cmd :: string where
  "evidence_cmd =
     ''{ sudo -n dmesg 2>/dev/null || dmesg 2>/dev/null; } | grep -iE '' @ [squote] @ ''out of memory|oom-kill|killed process'' @ [squote]
     @ '' | tail -5; '' @ ''cat /sys/fs/cgroup/memory.events 2>/dev/null | grep -E '' @ [squote] @ ''^oom_kill '' @ [squote]"

definition captureFailureEvidence :: "'o host \<Rightarrow> cloudvm_state \<Rightarrow> 'o \<Rightarrow> failure_evidence" where
  "captureFailureEvidence H st out =
     parseOOMEvidence (fst (fst (ho_ssh H False (sshCmdArgs st evidence_cmd) [] out)))"

text \<open>The evidence is read over ssh, which leaves the world as it is.\<close>

definition cloud_FailureDetails :: "'o host \<Rightarrow> run_handle \<Rightarrow> 'o cworld \<Rightarrow> failure_details" where
  "cloud_FailureDetails H h w =
     (case cw_states w (rh_ID h) of
        None \<Rightarrow> failure_details_zero\<lparr>fd_Message := ''no cloud vm state''\<rparr>
      | Some st \<Rightarrow>
          if cv_Reclaimed st
          then failure_details_zero\<lparr>fd_Reclaimed := True, fd_Message :=
                 ''spot instance reclaimed by the provider ('' @ provider_string (cv_Provider st) @ '' VM '' @ cv_VMID st @ '')''\<rparr>
          else
            let ev = captureFailureEvidence H st (cw_out w)
            in if \<not> cv_LastExitCodeRead st
               then let fd = failure_details_zero\<lparr>fd_Signal := ''SIGKILL'', fd_Message :=
                          ''workload terminated before exit code was captured (likely OOM or external kill)''\<rparr>
                    in if fe_oomKilled ev
                       then fd\<lparr>fd_OOMKilled := True, fd_Message := ''workload OOM-killed: '' @ fe_summary ev\<rparr> else fd
               else let fd0 = failure_details_zero\<lparr>fd_ExitCode := cv_LastExitCode st\<rparr>;
                        fd = (if cv_LastExitCode st \<noteq> 0
                              then fd0\<lparr>fd_Message := ''workload exited with code '' @ show_int (cv_LastExitCode st) @ '' on ''
                                     @ provider_string (cv_Provider st) @ '' VM '' @ cv_VMID st\<rparr>
                              else fd0)
                    in if fe_oomKilled ev
                       then fd\<lparr>fd_OOMKilled := True, fd_Message :=
                              ''workload OOM-killed: '' @ fe_summary ev @ '' ('' @ fd_Message fd @ '')''\<rparr> else fd)"

text \<open>Starting the log tail; its error is the only thing the caller sees of it.\<close>

definition cloud_Logs :: "'o host \<Rightarrow> bool \<Rightarrow> run_handle \<Rightarrow> ('o, unit) cm" where
  "cloud_Logs H ctx h =
     cbind (handle_vm h) (\<lambda>st.
     cbind (coutside (ho_ssh H ctx (sshCmdArgs st (''tail -f '' @ cv_LogPath st @ '' 2>/dev/null'')) [])) (\<lambda>(_, err).
       case err of Some e \<Rightarrow> cfail (''start log tail: '' @ e) | None \<Rightarrow> cret ()))"

definition cloud_Terminate :: "'o host \<Rightarrow> run_handle \<Rightarrow> ('o, unit) cm" where
  "cloud_Terminate H h =
     cbind (handle_vm h) (\<lambda>st.
       if 0 < cv_WorkloadPID st
       then cbind (coutside (ho_ssh H False (sshCmdArgs st (''kill '' @ show_int (cv_WorkloadPID st) @ '' 2>/dev/null || true'')) []))
              (\<lambda>_. cret ())
       else cret ())"

section \<open>Outputs\<close>

text \<open>\<^verbatim>\<open>filepath.Clean\<close> of a relative path without \<^verbatim>\<open>..\<close> elements.\<close>

definition clean_rel :: "string \<Rightarrow> string" where
  "clean_rel p =
     (let segs = filter (\<lambda>s. s \<noteq> [] \<and> s \<noteq> ''.'') (strings_Split CHR ''/'' p)
      in if segs = [] then ''.'' else strings_Join segs ''/'')"

definition artifact_dest :: "string \<Rightarrow> string \<Rightarrow> string" where
  "artifact_dest dest out = (if clean_rel out = ''.'' then dest else dest @ ''/'' @ clean_rel out)"

definition path_dir :: "string \<Rightarrow> string" where
  "path_dir p = rev (drop 1 (dropWhile (\<lambda>c. c \<noteq> CHR ''/'') (rev p)))"

text \<open>One declared output: the files retrieved, or the error kept if it is the first.\<close>

definition fetch_output :: "'o host \<Rightarrow> bool \<Rightarrow> cloudvm_state \<Rightarrow> string \<Rightarrow> string \<Rightarrow> ('o, artifact_ref list) cm" where
  "fetch_output H ctx st dest out =
     (let localDest = artifact_dest dest out
      in if filepath_IsAbs out \<or> strings_Contains out ''..''
         then cfail (''rejected output path '' @ go_quote out @ '' (absolute or traversal)'')
         else if \<not> strings_HasPrefix (localDest @ ''/'') (dest @ ''/'')
         then cfail (''output '' @ go_quote out @ '' escapes artifacts root'')
         else cbind (coutside (ho_mkdir H (path_dir localDest))) (\<lambda>err.
           case err of
             Some e \<Rightarrow> cfail (''mkdir '' @ path_dir localDest @ '': '' @ e)
           | None \<Rightarrow>
               cbind (cresult (sshWrapperArg st)) (\<lambda>eArg.
               cbind (coutside (ho_rsync H ctx [''-az'', ''--safe-links'', ''--protect-args'', ''-e'', eArg,
                        cv_SSHUser st @ ''@'' @ cv_IP st @ '':'' @ cv_RemoteDir st @ ''/'' @ out, localDest])) (\<lambda>r.
                 case r of
                   Some (code, e) \<Rightarrow> if code = 23 then cret [] else cfail (''rsync '' @ out @ '': '' @ e)
                 | None \<Rightarrow> cgets (\<lambda>w. ho_walk H localDest (cw_out w))))))"

primrec fetch_outputs ::
  "'o host \<Rightarrow> bool \<Rightarrow> cloudvm_state \<Rightarrow> string \<Rightarrow> string list \<Rightarrow> artifact_ref list \<times> string option \<Rightarrow> ('o, artifact_ref list \<times> string option) cm" where
  "fetch_outputs H ctx st dest [] acc = cret acc"
| "fetch_outputs H ctx st dest (out # outs) acc =
     cbind (ctry (fetch_output H ctx st dest out)) (\<lambda>r.
       fetch_outputs H ctx st dest outs
         (case r of
            Inr refs \<Rightarrow> (fst acc @ refs, snd acc)
          | Inl e \<Rightarrow> (fst acc, case snd acc of None \<Rightarrow> Some e | Some e0 \<Rightarrow> Some e0)))"

text \<open>
  The source returns what it retrieved beside the error; every caller drops the former then, and so
  does the model.
\<close>

definition cloud_Artifacts :: "'o host \<Rightarrow> bool \<Rightarrow> run_handle \<Rightarrow> ('o, artifact_ref list) cm" where
  "cloud_Artifacts H ctx h =
     cbind (handle_vm h) (\<lambda>st.
       if cv_Outputs st = [] then cret []
       else
         cbind (cwrap ''create artifacts dir'' (cresult (ho_subdir H
                  (''runs/'' @ (if rh_RunID h = [] then rh_ID h else rh_RunID h) @ ''/artifacts'')))) (\<lambda>dest.
         cbind (fetch_outputs H ctx st dest (cv_Outputs st) ([], None)) (\<lambda>(refs, firstErr).
           case firstErr of None \<Rightarrow> cret refs | Some e \<Rightarrow> cfail e)))"

section \<open>Tearing down and reconnecting\<close>

definition remove_local :: "cloudvm_state \<Rightarrow> ('o, unit) cm" where
  "remove_local st =
     cbind (if cv_SSHKeyManaged st
            then cbind (os_Remove (cv_SSHKeyPath st)) (\<lambda>_. os_Remove (cv_SSHKeyPath st @ ''.pub'')) else cret ()) (\<lambda>_.
     cbind (if cv_KnownHostsPath st \<noteq> [] then os_Remove (cv_KnownHostsPath st) else cret ()) (\<lambda>_.
     if cv_SSHWrapper st \<noteq> [] then os_Remove (cv_SSHWrapper st) else cret ()))"

definition cloud_Cleanup :: "'o provider \<Rightarrow> run_handle \<Rightarrow> ('o, cleanup_result option) cm" where
  "cloud_Cleanup P h =
     cbind (handle_vm h) (\<lambda>st.
     cbind (ctry (destroy_vm P False (cv_VMID st))) (\<lambda>r.
       case r of
         Inl e \<Rightarrow> cret (Some \<lparr>cl_Success = False, cl_ResourcesCleaned = [], cl_Errors = [e]\<rparr>)
       | Inr _ \<Rightarrow>
           cbind (remove_local st) (\<lambda>_.
           cret (Some \<lparr>cl_Success = True, cl_ResourcesCleaned = [cv_VMID st], cl_Errors = []\<rparr>))))"

definition cloud_Reconnect :: "'o provider \<Rightarrow> 'o host \<Rightarrow> cloud_config \<Rightarrow> string \<Rightarrow> string \<Rightarrow> ('o, run_handle) cm" where
  "cloud_Reconnect P H cfg handleID raw =
     cbind (cwrap ''cannot deserialize handle state'' (cresult (ho_unmarshal H raw))) (\<lambda>st.
     cbind (applyRegion P (cv_Region st)) (\<lambda>_.
     let h = mk_handle H cfg handleID st
     in cbind (set_vm h st) (\<lambda>_. cret h)))"

definition cloud_ExtendWatchdog :: "'o host \<Rightarrow> bool \<Rightarrow> run_handle \<Rightarrow> duration \<Rightarrow> ('o, time) cm" where
  "cloud_ExtendWatchdog H ctx h ttl = cbind (handle_vm h) (\<lambda>st. ExtendWatchdogViaSSH H ctx st ttl)"

definition cloud_ListResources :: "'o provider \<Rightarrow> cloud_config \<Rightarrow> bool \<Rightarrow> ('o, resource_info list) cm" where
  "cloud_ListResources P cfg ctx =
     (case pv_Resources P of
        Some (lst, _) \<Rightarrow> cext (lst ctx)
      | None \<Rightarrow>
          cbind (cext (pv_ListVMs P ctx [''dispatcher'' \<mapsto> ''true''])) (\<lambda>vms.
            cret (map (\<lambda>vm. \<lparr>ri_ResourceID = vi_ID vm, ri_Provider = provider_string (cc_ProviderID cfg),
              ri_Kind = ResourceInstance, ri_Region = [], ri_InstanceType = [], ri_CreatedAt = vi_CreatedAt vm,
              ri_RunID = env_value (vi_Tags vm) ''dispatcher-run-id'', ri_Tags = vi_Tags vm, ri_Scope = [], ri_MonthlyUSD = 0\<rparr>) vms)))"

definition resource_kind_string :: "resource_kind \<Rightarrow> string" where
  "resource_kind_string k =
     (case k of ResourceInstance \<Rightarrow> ''instance'' | ResourceDisk \<Rightarrow> ''disk'' | ResourceImage \<Rightarrow> ''image''
      | ResourceSnapshot \<Rightarrow> ''snapshot'' | ResourceAddress \<Rightarrow> ''address'' | ResourceFirewall \<Rightarrow> ''firewall''
      | ResourceContainerImage \<Rightarrow> ''container-image'' | ResourceKindOther s \<Rightarrow> s)"

definition cloud_DestroyResource :: "'o provider \<Rightarrow> cloud_config \<Rightarrow> bool \<Rightarrow> resource_info \<Rightarrow> ('o, unit) cm" where
  "cloud_DestroyResource P cfg ctx res =
     (if \<not> DispatcherOwned res
      then cfail (''refusing to destroy '' @ resource_kind_string (ri_Kind res) @ '' '' @ go_quote (ri_ResourceID res) @ '': not dispatcher-owned'')
      else case pv_Resources P of
             Some (_, destroy) \<Rightarrow> cext (destroy ctx res)
           | None \<Rightarrow>
               if ri_Kind res \<noteq> ResourceKindOther [] \<and> ri_Kind res \<noteq> ResourceInstance
               then cfail (''provider '' @ provider_string (cc_ProviderID cfg) @ '' cannot destroy ''
                      @ resource_kind_string (ri_Kind res) @ '' resources yet'')
               else destroy_vm P ctx (ri_ResourceID res))"

definition RemoveRunKeyFiles :: "'o host \<Rightarrow> string \<Rightarrow> ('o, unit) cm" where
  "RemoveRunKeyFiles H runID =
     (if strings_ContainsAny runID [CHR ''/'', CHR 0x5C] \<or> strings_Contains runID ''..'' then cret ()
      else case ho_subdir H ''keys'' of
             Inl _ \<Rightarrow> cret ()
           | Inr keyDir \<Rightarrow>
               remove_all (map (filepath_Join keyDir)
                 [''dispatcher-'' @ runID, ''dispatcher-'' @ runID @ ''.pub'', ''known_hosts-'' @ runID, ''ssh-wrapper-'' @ runID @ ''.sh'']))"

section \<open>The adapter\<close>

definition providerBaseRate :: "provider_id \<Rightarrow> f64" where
  "providerBaseRate p =
     (case p of ProviderHetzner \<Rightarrow> lit 0.007 | ProviderAWS \<Rightarrow> lit 0.05 | ProviderGCP \<Rightarrow> lit 0.04
      | ProviderAzure \<Rightarrow> lit 0.05 | ProviderLambda \<Rightarrow> lit 0.75 | _ \<Rightarrow> lit 0.10)"

definition cloud_EstimateCost :: "cloud_config \<Rightarrow> workload_spec \<Rightarrow> cost_estimate" where
  "cloud_EstimateCost cfg w =
     (let service = (ws_DetectedKind w = WorkloadKindService);
          hours = (if service then lit 24 else lit 1);
          amt = providerBaseRate (cc_ProviderID cfg) * hours
      in cost_estimate_zero\<lparr>ce_Value := f64_div (f64_of_int (f64_to_int (amt * lit 1000))) (lit 1000),
           ce_Currency := ''USD'', ce_Confidence := ConfidenceMedium,
           ce_Assumptions := [if service then ''assumes 24h runtime for service'' else ''assumes '' @ fmt_fixed 0 hours @ ''h runtime''],
           ce_Exclusions := [''excludes network egress'', ''excludes storage'']\<rparr>)"

definition cloud_Validate :: "'o provider \<Rightarrow> bool \<Rightarrow> workload_spec \<Rightarrow> ('o, validation_result) cm" where
  "cloud_Validate P ctx w =
     cbind (cwrap ''provider CLI check failed'' (cext (pv_CheckCLI P ctx))) (\<lambda>_.
       cret (DefaultValidationResult\<lparr>vr_Credentials := ValidationPass\<rparr>))"

text \<open>The methods as the executor calls them.\<close>

definition cloud_adapter :: "'o provider \<Rightarrow> 'o host \<Rightarrow> cloud_config \<Rightarrow> 'o cworld adapter" where
  "cloud_adapter P H cfg =
     \<lparr>ad_Validate = cloud_Validate P, ad_Prepare = (\<lambda>_ _. cret ()), ad_Execute = cloud_Execute P H cfg,
      ad_Status = cloud_Status P H, ad_Logs = cloud_Logs H, ad_Artifacts = cloud_Artifacts H,
      ad_Terminate = cloud_Terminate H, ad_Cleanup = cloud_Cleanup P,
      ad_ExtendWatchdog = Some (cloud_ExtendWatchdog H), ad_FailureDetails = Some (cloud_FailureDetails H)\<rparr>"

end
