(* ===== verification/Cloud_Safety.thy ===== *)
theory Cloud_Safety
  imports Cloud_Adapter Executor_Safety
begin

text \<open>
  What the cloud adapter guarantees by itself, over any provider and any host: a provisioning that
  fails or panics asks for the machine it created to be destroyed and leaves no private key behind;
  one that succeeds hands out exactly the machine it created. And what the remote shell reads of the
  script that runs the workload.
\<close>

section \<open>Frames\<close>

text \<open>
  A call keeps a relation between the worlds before and after it. For a reflexive and transitive
  relation this follows the structure of the program.
\<close>

definition cframe :: "('o cworld \<Rightarrow> 'o cworld \<Rightarrow> bool) \<Rightarrow> ('o, 'a) cm \<Rightarrow> bool" where
  "cframe R m \<longleftrightarrow> (\<forall>w. R w (snd (m w)))"


lemma cframeD: "cframe R m \<Longrightarrow> m w = (r, w') \<Longrightarrow> R w w'"
  unfolding cframe_def by (metis snd_conv)

locale world_preorder =
  fixes R :: "'o cworld \<Rightarrow> 'o cworld \<Rightarrow> bool"
  assumes R_refl: "R w w"
    and R_trans: "R u v \<Longrightarrow> R v w \<Longrightarrow> R u w"
    and R_out: "R w (w\<lparr>cw_out := o'\<rparr>)"
begin

lemma cframe_cret: "cframe R (cret a)"
  by (simp add: cframe_def cret_def R_refl)

lemma cframe_cfail: "cframe R (cfail e)"
  by (simp add: cframe_def cfail_def R_refl)

lemma cframe_cpanic: "cframe R (cpanic e)"
  by (simp add: cframe_def cpanic_def R_refl)

lemma cframe_cgets: "cframe R (cgets f)"
  by (simp add: cframe_def cgets_def R_refl)

lemma cframe_cupd: "(\<And>w. R w (f w)) \<Longrightarrow> cframe R (cupd f)"
  by (simp add: cframe_def cupd_def)

lemma cframe_cext: "cframe R (cext f)"
  by (simp add: cframe_def cext_def R_out split: prod.splits)

lemma cframe_coutside: "cframe R (coutside f)"
  by (simp add: cframe_def coutside_def R_out split: prod.splits)

lemma cframe_cbind:
  assumes "cframe R m" and "\<And>a. cframe R (k a)"
  shows "cframe R (cbind m k)"
  unfolding cframe_def
proof
  fix w
  obtain r w1 where m: "m w = (r, w1)" by (cases "m w")
  have "R w w1" by (rule cframeD [OF assms(1) m])
  moreover have "R w1 (snd (k a w1))" for a using assms(2) [of a] by (simp add: cframe_def)
  ultimately show "R w (snd (cbind m k w))"
    by (cases r) (auto simp: cbind_def m intro: R_trans)
qed

lemma cframe_cwrap: "cframe R m \<Longrightarrow> cframe R (cwrap l m)"
  by (auto simp: cframe_def cwrap_def split: prod.splits call.splits)
    (metis snd_conv)+

lemma cframe_ctry: "cframe R m \<Longrightarrow> cframe R (ctry m)"
  by (auto simp: cframe_def ctry_def split: prod.splits call.splits)
    (metis snd_conv)+

lemma cframe_cresult: "cframe R (cresult r)"
  by (cases r) (simp_all add: cresult_def cframe_cret cframe_cfail)

lemma cframe_if: "(b \<Longrightarrow> cframe R m) \<Longrightarrow> (\<not> b \<Longrightarrow> cframe R n) \<Longrightarrow> cframe R (if b then m else n)"
  by simp

lemma cframe_prod: "(\<And>a b. x = (a, b) \<Longrightarrow> cframe R (k a b)) \<Longrightarrow> cframe R (case x of (a, b) \<Rightarrow> k a b)"
  by (cases x) simp

lemma cframe_option:
  "(x = None \<Longrightarrow> cframe R m) \<Longrightarrow> (\<And>a. x = Some a \<Longrightarrow> cframe R (k a)) \<Longrightarrow> cframe R (case x of None \<Rightarrow> m | Some a \<Rightarrow> k a)"
  by (cases x) simp_all

lemma cframe_sum:
  "(\<And>e. x = Inl e \<Longrightarrow> cframe R (m e)) \<Longrightarrow> (\<And>a. x = Inr a \<Longrightarrow> cframe R (k a)) \<Longrightarrow>
   cframe R (case x of Inl e \<Rightarrow> m e | Inr a \<Rightarrow> k a)"
  by (cases x) simp_all

lemma cframe_handle_vm: "cframe R (handle_vm h)"
  by (simp add: cframe_def handle_vm_def R_refl split: option.splits)

lemmas cframe_rules = cframe_cret cframe_cfail cframe_cpanic cframe_cgets cframe_cext cframe_coutside cframe_cbind
  cframe_cwrap cframe_ctry cframe_cresult cframe_if cframe_prod cframe_option cframe_sum cframe_handle_vm

lemma cframe_sshProbe: "cframe R (sshProbe H ctx st)"
  unfolding sshProbe_def by (intro cframe_rules)

lemma cframe_ssh_auth_loop: "cframe R (ssh_auth_loop H ctx st c n)"
  by (induction n) (auto intro!: cframe_rules cframe_sshProbe)

lemma cframe_WaitForSSHAuth: "cframe R (WaitForSSHAuth H ctx st)"
  unfolding WaitForSSHAuth_def by (intro cframe_rules cframe_ssh_auth_loop)

lemma cframe_ssh_retry_loop: "cframe R (ssh_retry_loop H ctx st cmd b e n)"
  by (induction n arbitrary: e) (auto intro!: cframe_rules)

lemma cframe_waitForCloudInit: "cframe R (waitForCloudInit H ctx st)"
  unfolding waitForCloudInit_def sshRunWithRetry_def by (rule cframe_ssh_retry_loop)

lemma cframe_ExtendWatchdog: "cframe R (ExtendWatchdogViaSSH H ctx st ttl)"
  unfolding ExtendWatchdogViaSSH_def by (intro cframe_rules)

lemma cframe_renew_times: "cframe R (renew_times H ctx st ttl n)"
  by (induction n) (auto intro!: cframe_rules cframe_ExtendWatchdog)

lemma cframe_setup_watchdog: "cframe R (setup_watchdog H ctx st ttl)"
  unfolding setup_watchdog_def by (intro cframe_rules cframe_renew_times)

lemma cframe_rsync_loop: "cframe R (rsync_loop H ctx args n)"
  by (induction n) (auto intro!: cframe_rules)

lemma cframe_rsyncToVM: "cframe R (rsyncToVM H ctx st src)"
  unfolding rsyncToVM_def sshRunWithRetry_def by (intro cframe_rules cframe_ssh_retry_loop cframe_rsync_loop)

lemma cframe_install_loop: "cframe R (install_loop H ctx args script e n)"
  by (induction n arbitrary: e) (auto intro!: cframe_rules)

lemma cframe_startWorkload: "cframe R (startWorkloadOnVM H ctx st w)"
  unfolding startWorkloadOnVM_def Let_def by (intro cframe_rules cframe_install_loop)

lemmas cframe_steps = cframe_rules cframe_WaitForSSHAuth cframe_waitForCloudInit cframe_renew_times cframe_setup_watchdog
  cframe_rsyncToVM cframe_startWorkload cframe_ExtendWatchdog

end


section \<open>Provisioning\<close>

subsection \<open>Machines\<close>

definition same_machines :: "'o cworld \<Rightarrow> 'o cworld \<Rightarrow> bool" where
  "same_machines w w' \<longleftrightarrow> cw_log w' = cw_log w \<and> cw_destroy w' = cw_destroy w \<and> cw_states w' = cw_states w"

interpretation machines: world_preorder same_machines
  by unfold_locales (auto simp: same_machines_def)

lemma machines_files:
  "cframe same_machines (add_file f)" "cframe same_machines (os_Remove f)" "cframe same_machines (push_early f)"
  "cframe same_machines (cupd (\<lambda>w. w\<lparr>cw_early := es\<rparr>))"
  unfolding add_file_def os_Remove_def push_early_def by (rule machines.cframe_cupd, simp add: same_machines_def)+

lemmas machines_steps = machines.cframe_steps machines_files

lemma machines_PinHostKey: "cframe same_machines (PinHostKey H ctx st i)"
  unfolding PinHostKey_def key_dir_def Let_def by (intro machines_steps)

lemma machines_writeSSHWrapper: "cframe same_machines (writeSSHWrapper H st i)"
  unfolding writeSSHWrapper_def key_dir_def Let_def by (intro machines_steps)

lemma machines_generateSSHKey: "cframe same_machines (generateSSHKey H ctx i)"
  unfolding generateSSHKey_def key_dir_def Let_def by (intro machines_steps)

lemma machines_setup: "cframe same_machines (setup_machine P H cfg ctx p opts ttl key user vm)"
  unfolding setup_machine_def drop_unused_key_def Let_def
  by (intro machines_steps machines_PinHostKey machines_writeSSHWrapper)

lemma machines_remove_all: "cframe same_machines (remove_all fs)"
  by (induction fs) (auto intro!: machines_steps)

lemma machines_applyRegion: "cframe same_machines (applyRegion P region)"
  unfolding applyRegion_def by (intro machines_steps machines.cframe_cupd) (simp_all add: same_machines_def)

text \<open>What a call returns, if it returns.\<close>

definition cpost :: "('a \<Rightarrow> bool) \<Rightarrow> ('o, 'a) cm \<Rightarrow> bool" where
  "cpost Q m \<longleftrightarrow> (\<forall>w a w'. m w = (Ret a, w') \<longrightarrow> Q a)"

lemma cpost_seq:
  assumes "cpost P m" and "\<And>a. P a \<Longrightarrow> cpost Q (k a)"
  shows "cpost Q (cbind m k)"
  using assms unfolding cpost_def cbind_def by (fastforce split: prod.splits call.splits)

lemma cpost_bind: "(\<And>a. cpost Q (k a)) \<Longrightarrow> cpost Q (cbind m k)"
  by (rule cpost_seq [of "\<lambda>_. True"]) (simp_all add: cpost_def)

lemma cpost_cret: "Q a \<Longrightarrow> cpost Q (cret a)"
  by (simp add: cpost_def cret_def)

lemma cpost_cfail: "cpost Q (cfail e)"
  by (simp add: cpost_def cfail_def)

lemma cpost_cwrap: "cpost Q m \<Longrightarrow> cpost Q (cwrap l m)"
  by (auto simp: cpost_def cwrap_def split: prod.splits call.splits)

lemma cpost_if: "(b \<Longrightarrow> cpost Q m) \<Longrightarrow> (\<not> b \<Longrightarrow> cpost Q n) \<Longrightarrow> cpost Q (if b then m else n)"
  by simp

lemma cpost_case:
  "(\<And>a b. cpost Q (k1 a b)) \<Longrightarrow> cpost Q (case x1 of (a, b) \<Rightarrow> k1 a b)"
  "cpost Q m2 \<Longrightarrow> (\<And>a. cpost Q (k2 a)) \<Longrightarrow> cpost Q (case x2 of None \<Rightarrow> m2 | Some a \<Rightarrow> k2 a)"
  "(\<And>e. cpost Q (m3 e)) \<Longrightarrow> (\<And>a. cpost Q (k3 a)) \<Longrightarrow> cpost Q (case x3 of Inl e \<Rightarrow> m3 e | Inr a \<Rightarrow> k3 a)"
  by (simp_all split: prod.split option.split sum.split)

lemmas cpost_rules = cpost_bind cpost_cfail cpost_cwrap cpost_if cpost_case cpost_cret

lemma PinHostKey_vmid: "cpost (\<lambda>st'. cv_VMID st' = cv_VMID st) (PinHostKey H ctx st i)"
  unfolding PinHostKey_def Let_def by (intro cpost_rules) simp

lemma startWorkload_vmid: "cpost (\<lambda>st'. cv_VMID st' = cv_VMID st) (startWorkloadOnVM H ctx st w)"
  unfolding startWorkloadOnVM_def Let_def by (intro cpost_rules) simp

text \<open>Every state \<^verbatim>\<open>setup_machine\<close> returns is that of the machine it was given.\<close>

lemma setup_machine_vmid: "cpost (\<lambda>st. cv_VMID st = vi_ID vm) (setup_machine P H cfg ctx p opts ttl key user vm)"
proof -
  have i: "cpost (\<lambda>st. cv_VMID st = vi_ID vm) (cgets (initial_state H cfg p opts vm key user))"
    by (simp add: cpost_def cgets_def initial_state_def Let_def)
  have pin: "cpost (\<lambda>st'. cv_VMID st' = vi_ID vm) (cwrap l (PinHostKey H ctx st i))" if "cv_VMID st = vi_ID vm" for l st i
    using PinHostKey_vmid [of st] that by (intro cpost_cwrap) simp
  have go: "cpost (\<lambda>st'. cv_VMID st' = vi_ID vm) (cwrap l (startWorkloadOnVM H ctx st w))" if "cv_VMID st = vi_ID vm" for l st w
    using startWorkload_vmid [of st] that by (intro cpost_cwrap) simp
  show ?thesis
    unfolding setup_machine_def Let_def
    apply (rule cpost_bind, rule cpost_bind)
    apply (rule cpost_seq [OF i])
    apply (rule cpost_seq [OF pin], assumption)
    apply (intro cpost_bind go)
    apply simp
    done
qed

text \<open>The machines a provisioning created and destroyed, by what it returned.\<close>

definition provision_log :: "run_handle call \<Rightarrow> machine_event list \<Rightarrow> bool" where
  "provision_log r evs \<longleftrightarrow>
     (case r of
        Ret h \<Rightarrow> evs = [MachineCreated (rh_ID h)]
      | _ \<Rightarrow> evs = [] \<or> (\<exists>i ok. evs = [MachineCreated i, MachineDestroyed i ok]))"

definition provision_states :: "run_handle call \<Rightarrow> (string \<rightharpoonup> cloudvm_state) \<Rightarrow> (string \<rightharpoonup> cloudvm_state) \<Rightarrow> bool" where
  "provision_states r m m' \<longleftrightarrow>
     (case r of
        Ret h \<Rightarrow> (\<exists>st. m' = m(rh_ID h \<mapsto> st) \<and> cv_VMID st = rh_ID h)
      | _ \<Rightarrow> m' = m)"

lemma destroy_vm_log:
  "destroy_vm P ctx i w = (r, w') \<Longrightarrow>
     (\<exists>ok. cw_log w' = cw_log w @ [MachineDestroyed i ok]) \<and> cw_states w' = cw_states w \<and> cw_early w' = cw_early w \<and> cw_files w' = cw_files w"
  by (auto simp: destroy_vm_def split: prod.splits)

lemma with_machine_log:
  assumes "with_machine P H cfg ctx p opts key vm w = (r, w')"
  shows "\<exists>evs. cw_log w' = cw_log w @ evs \<and> provision_states r (cw_states w) (cw_states w') \<and>
    (case r of Ret h \<Rightarrow> rh_ID h = vi_ID vm \<and> evs = [] | _ \<Rightarrow> \<exists>ok. evs = [MachineDestroyed (vi_ID vm) ok])"
proof -
  let ?w0 = "w\<lparr>cw_destroy := Some (vi_ID vm)\<rparr>"
  obtain rs w1 where s: "setup_machine P H cfg ctx p opts (watchdog_ttl p) key (vm_login cfg) vm ?w0 = (rs, w1)"
    by (cases "setup_machine P H cfg ctx p opts (watchdog_ttl p) key (vm_login cfg) vm ?w0")
  then have k: "cw_log w1 = cw_log w" "cw_destroy w1 = Some (vi_ID vm)" "cw_states w1 = cw_states w"
    using cframeD [OF machines_setup s] by (simp_all add: same_machines_def)
  show ?thesis
  proof (cases rs)
    case (Ret st)
    have "cv_VMID st = vi_ID vm" using setup_machine_vmid s unfolding Ret cpost_def by blast
    then show ?thesis
      using assms s k by (auto simp: Ret with_machine_def destroy_on_err_def cbind_def cupd_def cret_def mk_handle_def provision_states_def)
  next
    case (Err e)
    then show ?thesis
      using assms s k destroy_vm_log [of P False "vi_ID vm" "w1\<lparr>cw_destroy := None\<rparr>"]
      by (fastforce simp: with_machine_def destroy_on_err_def cbind_def cupd_def provision_states_def split: prod.splits call.splits)
  next
    case (Panics e)
    then show ?thesis
      using assms s k destroy_vm_log [of P False "vi_ID vm" "w1\<lparr>cw_destroy := None\<rparr>"]
      by (fastforce simp: with_machine_def destroy_on_err_def cbind_def cupd_def provision_states_def split: prod.splits call.splits)
  qed
qed


lemma machines_vm_request: "cframe same_machines (vm_request P cfg p key)"
  unfolding vm_request_def Let_def by (intro machines_steps machines_applyRegion)

lemma create_vm_log:
  assumes "create_vm P ctx opts w = (r, w')"
  shows "cw_states w' = cw_states w \<and> cw_log w' = cw_log w @ (case r of Ret vm \<Rightarrow> [MachineCreated (vi_ID vm)] | _ \<Rightarrow> [])"
  using assms
  by (auto simp: create_vm_def cbind_def cext_def cpanic_def cupd_def cret_def split: prod.splits call.splits option.splits)

lemma provision_accounts:
  assumes "provision P H cfg ctx p key w = (r, w')"
  shows "\<exists>evs. cw_log w' = cw_log w @ evs \<and> provision_log r evs \<and> provision_states r (cw_states w) (cw_states w')"
proof -
  obtain ro w1 where o: "vm_request P cfg p key w = (ro, w1)" by (cases "vm_request P cfg p key w")
  have k1: "cw_log w1 = cw_log w" "cw_states w1 = cw_states w"
    using cframeD [OF machines_vm_request o] by (simp_all add: same_machines_def)
  show ?thesis
  proof (cases ro)
    case (Ret opts)
    obtain rc w2 where c: "create_vm P ctx opts w1 = (rc, w2)" by (cases "create_vm P ctx opts w1")
    note k2 = create_vm_log [OF c]
    show ?thesis
    proof (cases rc)
      case vm: (Ret vm)
      have "with_machine P H cfg ctx p opts key vm w2 = (r, w')"
        using assms o Ret c vm by (simp add: provision_def cbind_def cwrap_def)
      from with_machine_log [OF this] k1 k2 vm show ?thesis
        by (cases r) (auto simp: provision_log_def provision_states_def)
    qed (use assms o Ret c k1 k2 in \<open>auto simp: provision_def cbind_def cwrap_def provision_log_def provision_states_def\<close>)
  qed (use assms o k1 in \<open>auto simp: provision_def cbind_def provision_log_def provision_states_def\<close>)
qed

lemma cloud_Execute_accounts:
  assumes "cloud_Execute P H cfg ctx p w = (r, w')"
  shows "\<exists>evs. cw_log w' = cw_log w @ evs \<and> provision_log r evs \<and> provision_states r (cw_states w) (cw_states w')"
proof -
  let ?gen = "cwrap ''failed to generate SSH key'' (generateSSHKey H ctx (pm_ID (pl_Metadata p)))"
  obtain rk w1 where g: "?gen w = (rk, w1)" by (cases "?gen w")
  have k1: "cw_log w1 = cw_log w" "cw_states w1 = cw_states w"
    using cframeD [OF machines.cframe_cwrap [OF machines_generateSSHKey] g] by (simp_all add: same_machines_def)
  show ?thesis
  proof (cases rk)
    case (Ret key)
    let ?w2 = "w1\<lparr>cw_early := [key, key @ ''.pub''], cw_destroy := None\<rparr>"
    obtain rp w3 where pr: "provision P H cfg ctx p key ?w2 = (rp, w3)" by (cases "provision P H cfg ctx p key ?w2")
    have w': "r = rp" "w' = (snd (remove_all (cw_early w3) w3))\<lparr>cw_early := []\<rparr>"
      using assms pr unfolding cloud_Execute_def cbind_def [of ?gen] g Ret
      by (simp_all add: early_cleanup_def cbind_def cupd_def)
    have "same_machines w3 (snd (remove_all (cw_early w3) w3))"
      using machines_remove_all by (auto simp: cframe_def)
    with provision_accounts [OF pr] k1 w' show ?thesis by (simp add: same_machines_def)
  qed (use assms g k1 in \<open>auto simp: cloud_Execute_def cbind_def provision_log_def provision_states_def\<close>)
qed


subsection \<open>Keys\<close>

text \<open>While a provisioning is in progress, its key files are on the list of files to remove.\<close>

definition key_guard :: "string \<Rightarrow> 'o cworld \<Rightarrow> bool" where
  "key_guard key w \<longleftrightarrow> (\<forall>f\<in>{key, key @ ''.pub''}. f \<in> set (cw_files w) \<longrightarrow> f \<in> set (cw_early w))"

abbreviation guarded :: "string \<Rightarrow> 'o cworld \<Rightarrow> 'o cworld \<Rightarrow> bool" where
  "guarded key w w' \<equiv> key_guard key w \<longrightarrow> key_guard key w'"

interpretation guard: world_preorder "guarded key" for key
  by unfold_locales (auto simp: key_guard_def)

lemma guard_files:
  "cframe (guarded key) (os_Remove f)" "cframe (guarded key) (push_early f)"
  "f \<noteq> key \<Longrightarrow> f \<noteq> key @ ''.pub'' \<Longrightarrow> cframe (guarded key) (add_file f)"
  unfolding add_file_def os_Remove_def push_early_def
  by (rule guard.cframe_cupd, force simp: key_guard_def, rule guard.cframe_cupd, force simp: key_guard_def,
      rule guard.cframe_cupd, force simp: key_guard_def)

lemma guard_drop_unused_key: "cframe (guarded key) (drop_unused_key vm key)"
  unfolding drop_unused_key_def cframe_def
  by (simp add: cbind_def os_Remove_def cupd_def cret_def key_guard_def)

lemmas guard_steps = guard.cframe_steps guard_files(1,2) guard_drop_unused_key

text \<open>The other files of a run have names of their own.\<close>

lemma filepath_Join_inj: "filepath_Join d m = filepath_Join d n \<longleftrightarrow> m = n"
  by (simp add: filepath_Join_def)

lemma filepath_Join_suffix: "filepath_Join d m @ s = filepath_Join d (m @ s)"
  by (simp add: filepath_Join_def)

lemma guard_add_own:
  assumes "key = filepath_Join dir (''dispatcher-'' @ i)" and "hd n \<noteq> CHR ''d''"
  shows "cframe (guarded key) (add_file (filepath_Join dir n))"
  using assms by (intro guard_files(3)) (auto simp: filepath_Join_suffix filepath_Join_inj)

lemma key_dir_bind: "ho_subdir H ''keys'' = Inr dir \<Longrightarrow> cbind (cwrap l (key_dir H)) k = k dir"
  by (simp add: fun_eq_iff key_dir_def cresult_def cbind_def cwrap_def cret_def)

lemma guard_PinHostKey:
  assumes "ho_subdir H ''keys'' = Inr dir" and "key = filepath_Join dir (''dispatcher-'' @ i)"
  shows "cframe (guarded key) (PinHostKey H ctx st i)"
  unfolding PinHostKey_def Let_def key_dir_bind [OF assms(1)]
  by (intro guard.cframe_steps guard_files(1) guard_add_own [OF assms(2)]) simp

lemma guard_writeSSHWrapper:
  assumes "ho_subdir H ''keys'' = Inr dir" and "key = filepath_Join dir (''dispatcher-'' @ i)"
  shows "cframe (guarded key) (writeSSHWrapper H st i)"
  unfolding writeSSHWrapper_def Let_def key_dir_bind [OF assms(1)]
  by (intro guard.cframe_steps guard_add_own [OF assms(2)]) simp_all

lemma guard_setup:
  assumes "ho_subdir H ''keys'' = Inr dir" and "key = filepath_Join dir (''dispatcher-'' @ pm_ID (pl_Metadata p))"
  shows "cframe (guarded key) (setup_machine P H cfg ctx p opts ttl key user vm)"
  unfolding setup_machine_def Let_def
  by (intro guard_steps guard_PinHostKey [OF assms] guard_writeSSHWrapper [OF assms])

lemma guard_destroy_vm: "cframe (guarded key) (destroy_vm P ctx i)"
  by (auto simp: cframe_def destroy_vm_def key_guard_def split: prod.splits)

lemma guard_failed:
  assumes "ho_subdir H ''keys'' = Inr dir" and "key = filepath_Join dir (''dispatcher-'' @ pm_ID (pl_Metadata p))"
    and "provision P H cfg ctx p key w = (r, w')" and "key_guard key w" and "\<And>h. r \<noteq> Ret h"
  shows "key_guard key w'"
proof -
  have req: "cframe (guarded key) (vm_request P cfg p key)"
    unfolding vm_request_def applyRegion_def Let_def
    by (intro guard_steps guard.cframe_cupd) (auto simp: key_guard_def)
  obtain ro w1 where o: "vm_request P cfg p key w = (ro, w1)" by (cases "vm_request P cfg p key w")
  have g1: "key_guard key w1" using cframeD [OF req o] assms(4) by simp
  show ?thesis
  proof (cases ro)
    case (Ret opts)
    have cr: "cframe (guarded key) (create_vm P ctx opts)"
      unfolding create_vm_def by (intro guard_steps guard.cframe_cupd) (auto simp: key_guard_def)
    obtain rc w2 where c: "create_vm P ctx opts w1 = (rc, w2)" by (cases "create_vm P ctx opts w1")
    have g2: "key_guard key w2" using cframeD [OF cr c] g1 by simp
    show ?thesis
    proof (cases rc)
      case vm: (Ret vm)
      let ?w0 = "w2\<lparr>cw_destroy := Some (vi_ID vm)\<rparr>"
      let ?steps = "setup_machine P H cfg ctx p opts (watchdog_ttl p) key (vm_login cfg) vm"
      obtain rs w3 where s: "?steps ?w0 = (rs, w3)" by (cases "?steps ?w0")
      have "key_guard key ?w0" using g2 by (simp add: key_guard_def)
      then have g3: "key_guard key w3" using cframeD [OF guard_setup [OF assms(1,2)] s] by simp
      then have g4: "key_guard key (w3\<lparr>cw_destroy := None\<rparr>)" by (simp add: key_guard_def)
      have g5: "key_guard key w4" if "destroy_vm P False i (w3\<lparr>cw_destroy := None\<rparr>) = (rd, w4)" for i rd w4
        using cframeD [OF guard_destroy_vm that] g4 by simp
      have "with_machine P H cfg ctx p opts key vm w2 = (r, w')"
        using assms(3) o Ret c vm by (simp add: provision_def cbind_def cwrap_def)
      then show ?thesis
        using s g3 g5 assms(5)
        by (cases rs) (auto simp: with_machine_def destroy_on_err_def cbind_def cupd_def cret_def
            split: prod.splits call.splits option.splits)
    qed (use assms(3) o Ret c g2 in \<open>auto simp: provision_def cbind_def cwrap_def\<close>)
  qed (use assms(3) o g1 in \<open>auto simp: provision_def cbind_def\<close>)
qed

lemma remove_all_files: "set (cw_files (snd (remove_all fs w))) = set (cw_files w) - set fs"
  by (induction fs arbitrary: w) (auto simp: cret_def cbind_def os_Remove_def cupd_def)

text \<open>
  C8: Provisioning a cloud machine never orphans one. Over any provider, any behaviour of ssh, rsync and
  the other programs, and any panic on the way: when \<^verbatim>\<open>Execute\<close> of the cloud adapter succeeds, it has created
  exactly one machine, the one its handle names, and destroyed none; when it fails or panics, it has
  created none, or has asked the provider to destroy the one it created; and then neither the private
  nor the public key it generated is left on disk.
\<close>

theorem cloud_execute_no_orphan:
  assumes "cloud_Execute P H cfg ctx p w = (r, w')"
    and "ho_subdir H ''keys'' = Inr dir" and "key = filepath_Join dir (''dispatcher-'' @ pm_ID (pl_Metadata p))"
  shows "(case r of
      Ret h \<Rightarrow> cw_log w' = cw_log w @ [MachineCreated (rh_ID h)]
    | _ \<Rightarrow> (cw_log w' = cw_log w \<or> (\<exists>i ok. cw_log w' = cw_log w @ [MachineCreated i, MachineDestroyed i ok])) \<and>
           (fst (fst (ho_keygen H ctx key (cw_out w))) = None \<longrightarrow>
            key \<notin> set (cw_files w') \<and> key @ ''.pub'' \<notin> set (cw_files w')))"
proof -
  have files: "key \<notin> set (cw_files w') \<and> key @ ''.pub'' \<notin> set (cw_files w')"
    if ok: "fst (fst (ho_keygen H ctx key (cw_out w))) = None" and fail: "\<And>h. r \<noteq> Ret h"
  proof -
    obtain left o1 where kg: "ho_keygen H ctx key (cw_out w) = ((None, left), o1)"
      using ok by (metis fst_conv surj_pair)
    define w1 where "w1 = w\<lparr>cw_out := o1, cw_files := List.insert (key @ ''.pub'') (List.insert key (cw_files w)),
      cw_early := [key, key @ ''.pub''], cw_destroy := None\<rparr>"
    obtain rp w3 where pr: "provision P H cfg ctx p key w1 = (rp, w3)" by (cases "provision P H cfg ctx p key w1")
    have "generateSSHKey H ctx (pm_ID (pl_Metadata p)) w
        = (Ret key, w\<lparr>cw_out := o1, cw_files := List.insert (key @ ''.pub'') (List.insert key (cw_files w))\<rparr>)"
      using kg unfolding assms(3)
      by (simp add: generateSSHKey_def key_dir_def assms(2) cresult_def cret_def cbind_def Let_def
          coutside_def add_file_def cupd_def)
    then have e: "r = rp" "w' = (snd (remove_all (cw_early w3) w3))\<lparr>cw_early := []\<rparr>"
      using assms(1) pr
      by (simp_all add: cloud_Execute_def early_cleanup_def cbind_def cwrap_def cupd_def w1_def)
    have "key_guard key w1" by (simp add: w1_def key_guard_def)
    then have "key_guard key w3"
      using guard_failed [OF assms(2,3) pr] fail e(1) by blast
    then show ?thesis using e(2) remove_all_files [of "cw_early w3" w3] by (auto simp: key_guard_def)
  qed
  from cloud_Execute_accounts [OF assms(1)] files show ?thesis
    by (cases r) (auto simp: provision_log_def)
qed


subsection \<open>A provider whose machine never answers\<close>

definition demo_vm :: vm_info where
  "demo_vm = \<lparr>vi_ID = ''i-1'', vi_Name = ''m'', vi_IP = ''192.0.2.1'', vi_SSHPort = 22, vi_SSHKeyPath = [], vi_SSHUser = [],
     vi_State = VMStateRunning, vi_InstanceType = ''t3.micro'', vi_CreatedAt = 0, vi_Tags = Map.empty\<rparr>"

definition demo_provider :: "unit provider" where
  "demo_provider = \<lparr>pv_CheckCLI = \<lambda>_ u. (Ret (), u), pv_CreateVM = \<lambda>_ _ u. (Ret (Some demo_vm), u),
     pv_WaitReady = \<lambda>_ _ _ _ u. (Err ''timed out'', u), pv_GetVM = \<lambda>_ _ u. (Ret (Some demo_vm), u),
     pv_DestroyVM = \<lambda>_ _ u. (Ret (), u), pv_ListVMs = \<lambda>_ _ u. (Ret [], u), pv_SetRegion = None, pv_Resources = None\<rparr>"

definition demo_host :: "unit host" where
  "demo_host = \<lparr>ho_ssh = \<lambda>_ _ _ u. (([], None), u), ho_rsync = \<lambda>_ _ u. (None, u), ho_keygen = \<lambda>_ _ u. ((None, False), u),
     ho_keyscan = \<lambda>_ _ u. (Inr ''host key'', u), ho_sleep = \<lambda>_ _ u. (None, u), ho_polls = \<lambda>_ u. ((1, False), u),
     ho_ticks = \<lambda>u. (0, u), ho_now = \<lambda>_. 10, ho_write = \<lambda>_ _ u. ((None, False), u), ho_subdir = \<lambda>d. Inr (''/d/'' @ d),
     ho_mkdir = \<lambda>_ u. (None, u), ho_walk = \<lambda>_ _. [], ho_envFiles = \<lambda>_. EnvAbsent, ho_envOrder = \<lambda>_. [],
     ho_ignore = \<lambda>_. [], ho_marshal = \<lambda>_. Inr [], ho_unmarshal = \<lambda>_. Inl []\<rparr>"

definition demo_world :: "unit cworld" where
  "demo_world = \<lparr>cw_out = (), cw_files = [], cw_states = Map.empty, cw_region = [], cw_early = [], cw_destroy = None, cw_log = []\<rparr>"

definition demo_config :: cloud_config where
  "demo_config = \<lparr>cc_ProviderID = ProviderAWS, cc_SSHUser = ''ubuntu''\<rparr>"

lemma demo_provision:
  "\<exists>w'. cloud_Execute demo_provider demo_host demo_config ctx demo_plan demo_world = (Err ''VM not reachable via SSH: timed out'', w') \<and>
     cw_log w' = [MachineCreated ''i-1'', MachineDestroyed ''i-1'' True]"
  by (simp add: cloud_Execute_def generateSSHKey_def key_dir_def demo_host_def demo_world_def demo_provider_def
      cresult_def cret_def cbind_def cwrap_def coutside_def cext_def add_file_def cupd_def cgets_def early_cleanup_def provision_def
      vm_request_def applyRegion_def validateGPUInstance_def confidentialAttestationPreflight_def create_vm_def with_machine_def
      destroy_on_err_def setup_machine_def destroy_vm_def os_Remove_def Let_def demo_vm_def demo_plan_def demo_workload_def demo_constraints_def)

theorem cloud_execute_no_orphan_witness:
  "\<exists>e w'. cloud_Execute demo_provider demo_host demo_config False demo_plan demo_world = (Err e, w') \<and>
     cw_log w' \<noteq> [] \<and> (\<exists>i ok. cw_log w' = [MachineCreated i, MachineDestroyed i ok]) \<and>
     filepath_Join ''/d/keys'' (''dispatcher-'' @ pm_ID (pl_Metadata demo_plan)) \<notin> set (cw_files w')"
proof -
  obtain w' where w': "cloud_Execute demo_provider demo_host demo_config False demo_plan demo_world
      = (Err ''VM not reachable via SSH: timed out'', w')"
    "cw_log w' = [MachineCreated ''i-1'', MachineDestroyed ''i-1'' True]" using demo_provision by blast
  have "ho_subdir demo_host ''keys'' = Inr ''/d/keys''" by (simp add: demo_host_def)
  from cloud_execute_no_orphan [OF w'(1) this refl] w' show ?thesis by (auto simp: demo_host_def demo_world_def)
qed


section \<open>Observing the workload\<close>

text \<open>
  The two ssh calls of a status check do not treat the loss of the connection alike. If the liveness
  probe fails, the check is an error, which the executor tolerates a few times; but if the
  probe reports the end of the workload and the next call, which reads its exit code, fails, the check
  returns the definite answer that the execution failed, even of a workload that exited with 0.
\<close>

theorem status_blip_fails_run:
  assumes "cw_states w (rh_ID h) = Some st" and "0 < cv_WorkloadPID st"
    and "pv_GetVM P ctx (cv_VMID st) (cw_out w) = (Ret (Some vm), o1)" and "vi_State vm \<noteq> VMStateTerminated"
    and "ho_ssh H ctx (sshCmdArgs st (''kill -0 '' @ show_int (cv_WorkloadPID st) @ '' 2>/dev/null && echo running || echo done'')) [] o1
      = ((probe, err1), o2)"
    and "ho_ssh H ctx (sshCmdArgs st (''cat '' @ ShellQuote (remoteExitCodePath st) @ '' 2>/dev/null'')) [] o2 = (([], Some err2), o3)"
  shows "fst (cloud_Status P H ctx h w) =
    (case err1 of
       Some e \<Rightarrow> Err (''ssh liveness probe failed: '' @ e)
     | None \<Rightarrow> Ret (if strings_TrimSpace probe = ''done'' then RunStateExecutionFailed else RunStateRunning))"
proof -
  have "strings_TrimSpace [] = []" by (simp add: strings_TrimSpace_def)
  with assms show ?thesis
    by (simp add: cloud_Status_def read_exit_code_def handle_vm_def get_vm_def set_vm_def cbind_def cwrap_def cext_def
        coutside_def cfail_def cret_def cupd_def Let_def split: option.split)
qed

definition demo_vm_state :: cloudvm_state where
  "demo_vm_state = (initial_state demo_host demo_config demo_plan (buildVMOptions demo_plan [] [] [] []) demo_vm ''k'' ''ubuntu'' demo_world)
     \<lparr>cv_WorkloadPID := 7\<rparr>"

definition demo_blip_host :: "unit host" where
  "demo_blip_host = demo_host\<lparr>ho_ssh := \<lambda>_ args _ u. ((if args = sshCmdArgs demo_vm_state
       (''kill -0 '' @ show_int 7 @ '' 2>/dev/null && echo running || echo done'') then (''done'', None) else ([], Some ''exit status 255'')), u)\<rparr>"

theorem status_blip_fails_run_witness:
  "fst (cloud_Status demo_provider demo_blip_host False demo_handle (demo_world\<lparr>cw_states := [''i-1'' \<mapsto> demo_vm_state]\<rparr>))
     = Ret RunStateExecutionFailed"
proof -
  let ?w = "demo_world\<lparr>cw_states := [''i-1'' \<mapsto> demo_vm_state]\<rparr>"
  have h: "cw_states ?w (rh_ID demo_handle) = Some demo_vm_state" "0 < cv_WorkloadPID demo_vm_state"
    "pv_GetVM demo_provider False (cv_VMID demo_vm_state) (cw_out ?w) = (Ret (Some demo_vm), ())"
    "vi_State demo_vm \<noteq> VMStateTerminated"
    by (simp_all add: demo_handle_def demo_vm_state_def demo_provider_def demo_vm_def)
  have p: "cv_WorkloadPID demo_vm_state = 7" by (simp add: demo_vm_state_def)
  have probe: "ho_ssh demo_blip_host False (sshCmdArgs demo_vm_state
      (''kill -0 '' @ show_int (cv_WorkloadPID demo_vm_state) @ '' 2>/dev/null && echo running || echo done'')) [] ()
    = ((''done'', None), ())" by (simp add: demo_blip_host_def p)
  have "sshCmdArgs demo_vm_state (''cat '' @ x) \<noteq> sshCmdArgs demo_vm_state (''kill -0 '' @ y)" for x y
    by (simp add: sshCmdArgs_def)
  then have cat: "ho_ssh demo_blip_host False (sshCmdArgs demo_vm_state
      (''cat '' @ ShellQuote (remoteExitCodePath demo_vm_state) @ '' 2>/dev/null'')) [] () = (([], Some ''exit status 255''), ())"
    by (simp add: demo_blip_host_def)
  from status_blip_fails_run [OF h probe cat] show ?thesis by (simp add: strings_TrimSpace_def is_space_def)
qed


section \<open>The script that runs the workload\<close>

lemma sh_read_blank_None: "sh_read Plain None ws (CHR '' '' # t) = sh_read Plain None ws t"
  by (simp add: sh_read.simps(4) sh_blank_def flush_def newline_def)

lemma sh_read_literal_end:
  assumes "list_all sh_plain s" and "s \<noteq> []"
  shows "sh_read Plain None ws (s @ newline # t) = map_option (\<lambda>ls. (ws @ [unq s]) # ls) (sh_read Plain None [] t)"
  using sh_read_plain [OF assms, of None ws "newline # t"] by (simp add: sh_read_newline cur_word_def)

lemma sh_read_quoted_end:
  "sh_read Plain None ws (ShellQuote s @ newline # t) = map_option (\<lambda>ls. (ws @ [quo s]) # ls) (sh_read Plain None [] t)"
  by (simp add: sh_read_ShellQuote sh_read_newline cur_word_def)

lemma sh_read_quoted_word: "sh_read Plain None ws (ShellQuote s @ CHR '' '' # t) = sh_read Plain None (ws @ [quo s]) t"
  by (simp add: sh_read_ShellQuote sh_read_blank cur_word_def)

lemma sh_read_runner:
  assumes "args \<noteq> []"
  shows "sh_read Plain None [] (runner_script st [] (ShellQuoteArgs args)) =
    Some [[unq ''cd'', quo (cv_RemoteDir st)], [unq ''{''],
      [unq ''nice'', unq ''-n'', unq ''10''] @ map quo args,
      [unq ''}'', unq ''>'', quo (cv_LogPath st), unq ''2>&1''],
      [unq ''echo'', unq ''$?'', unq ''>'', quo (remoteExitCodePath st)]]"
proof -
  have p: "list_all sh_plain ''cd''" "list_all sh_plain ''{''" "list_all sh_plain ''nice''" "list_all sh_plain ''-n''"
    "list_all sh_plain ''10''" "list_all sh_plain ''}''" "list_all sh_plain ''>''" "list_all sh_plain ''2>&1''"
    "list_all sh_plain ''echo''" "list_all sh_plain ''$?''" by code_simp+
  note lit = p [THEN sh_read_literal, simplified] p [THEN sh_read_literal_end, simplified]
  have "sh_read Plain None [] (ShellQuote q @ [newline]) = Some [[quo q]]" for q
    by (simp add: sh_read_quoted_end)
  then show ?thesis
    using assms unfolding runner_script_def niceCommand_def
    by (simp add: lit sh_read_blank_None sh_read_quoted_end sh_read_quoted_word sh_read_args)
qed

text \<open>
  C12: The script that runs a workload on the machine is read by its shell as intended, whatever the
  workload's command, its environment and the paths contain: one \<^verbatim>\<open>export\<close> per variable, the change of
  directory, the command's own words at a lower priority with its output redirected, and the recording
  of the exit code. Every byte that comes from the workload is inside a quoted word, so that none can
  end a word, start an expansion or add a command.
\<close>

theorem runner_script_verbatim:
  assumes "workload_env files dir extra = Inr kv" and "set order = dom kv" and "args \<noteq> []"
  shows "\<exists>exports. DotEnvExportScript files dir extra order = Inr exports \<and>
    sh_lines (runner_script st exports (ShellQuoteArgs args)) =
      Some (map (\<lambda>k. [unq ''export'', unq (k @ ''='') @ quo (the (kv k))]) order @
        [[unq ''cd'', quo (cv_RemoteDir st)], [unq ''{''],
         [unq ''nice'', unq ''-n'', unq ''10''] @ map quo args,
         [unq ''}'', unq ''>'', quo (cv_LogPath st), unq ''2>&1''],
         [unq ''echo'', unq ''$?'', unq ''>'', quo (remoteExitCodePath st)]])"
proof -
  have k: "\<forall>k\<in>set order. posix_name k"
    using workload_env_posix [OF assms(1)] assms(2) by (simp add: posix_keys_def)
  have v: "env_value kv k = the (kv k)" if "k \<in> set order" for k
    using that assms(2) by (auto simp: env_value_def)
  have r: "runner_script st ex cmd = ex @ runner_script st [] cmd" for ex cmd by (simp add: runner_script_def)
  show ?thesis
    using sh_read_export_lines [OF k, of kv "runner_script st [] (ShellQuoteArgs args)"] v assms(1) sh_read_runner [OF assms(3), of st]
    by (simp add: DotEnvExportScript_def sh_lines_def r [of "concat _"] cong: map_cong)
qed

theorem runner_script_verbatim_witness:
  "\<exists>st exports. DotEnvExportScript (\<lambda>_. EnvAbsent) ''p'' demo_extra [''SHARD''] = Inr exports \<and>
    sh_lines (runner_script st exports (ShellQuoteArgs [''sh'', ''-c'', ''a; b'']))
      = Some [[unq ''export'', unq ''SHARD='' @ quo ''1' ; rm -rf $HOME''],
          [unq ''cd'', quo (cv_RemoteDir st)], [unq ''{''],
          [unq ''nice'', unq ''-n'', unq ''10'', quo ''sh'', quo ''-c'', quo ''a; b''],
          [unq ''}'', unq ''>'', quo (cv_LogPath st), unq ''2>&1''],
          [unq ''echo'', unq ''$?'', unq ''>'', quo (remoteExitCodePath st)]]"
proof -
  have "isValidEnvKey ''SHARD''" by code_simp
  then have "workload_env (\<lambda>_. EnvAbsent) ''p'' demo_extra = Inr (Map.empty(''SHARD'' \<mapsto> ''1' ; rm -rf $HOME''))"
    by (simp add: workload_env_def LoadDotEnv_def demo_extra_def)
  from runner_script_verbatim [OF this, of "[''SHARD'']" "[''sh'', ''-c'', ''a; b'']"] show ?thesis by simp
qed

end
