(* ===== verification/Cloud_Run.thy ===== *)
theory Cloud_Run
  imports Cloud_Safety Executor_Frame
begin

text \<open>
  The executor over the cloud adapter: what becomes of every machine a run creates. The adapter's own
  guarantees (a failed provisioning destroys what it created, a successful cleanup has destroyed the
  machine of its handle) and the executor's bookkeeping of handles are joined through the frame of
  the executor.
\<close>

section \<open>Calls that create and destroy nothing\<close>

text \<open>Every handle the adapter knows is registered under the id of its machine.\<close>

definition own_ids :: "'o cworld \<Rightarrow> bool" where
  "own_ids w \<longleftrightarrow> (\<forall>k st. cw_states w k = Some st \<longrightarrow> cv_VMID st = k)"

definition quiet :: "'o cworld \<Rightarrow> 'o cworld \<Rightarrow> bool" where
  "quiet w w' \<longleftrightarrow> (own_ids w \<longrightarrow> own_ids w' \<and> cw_log w' = cw_log w)"

lemma own_ids_same: "cw_states w' = cw_states w \<Longrightarrow> own_ids w \<Longrightarrow> own_ids w'"
  by (simp add: own_ids_def)

lemma quiet_same: "cw_states w' = cw_states w \<Longrightarrow> cw_log w' = cw_log w \<Longrightarrow> quiet w w'"
  by (simp add: quiet_def own_ids_same)

interpretation quiet: world_preorder quiet
proof
  show "quiet w w" for w :: "'o cworld" by (simp add: quiet_same)
  show "quiet u w" if "quiet u v" "quiet v w" for u v w :: "'o cworld" using that by (simp add: quiet_def)
  show "quiet w (w\<lparr>cw_out := o'\<rparr>)" for w :: "'o cworld" and o' by (simp add: quiet_same)
qed

lemma quiet_set_vm: "cv_VMID st = rh_ID h \<Longrightarrow> cframe quiet (set_vm h st)"
  unfolding set_vm_def by (rule quiet.cframe_cupd) (auto simp: quiet_def own_ids_def)

lemma quiet_with_vm:
  assumes "\<And>st. cv_VMID st = rh_ID h \<Longrightarrow> cframe quiet (k st)"
  shows "cframe quiet (cbind (handle_vm h) k)"
  unfolding cframe_def
proof
  fix w
  show "quiet w (snd (cbind (handle_vm h) k w))"
  proof (cases "cw_states w (rh_ID h)")
    case None
    then show ?thesis by (simp add: cbind_def handle_vm_def quiet_def)
  next
    case (Some st)
    show ?thesis
    proof (cases "own_ids w")
      case True
      then have "cv_VMID st = rh_ID h" using Some by (simp add: own_ids_def)
      from assms [OF this] show ?thesis by (simp add: cbind_def handle_vm_def Some cframe_def)
    qed (simp add: quiet_def)
  qed
qed

lemma quiet_get_vm: "cframe quiet (get_vm P ctx i)"
  unfolding get_vm_def by (intro quiet.cframe_rules)

lemmas quiet_steps = quiet_with_vm quiet_set_vm quiet_get_vm quiet.cframe_steps

lemma quiet_fetch_outputs: "cframe quiet (fetch_outputs H ctx st dest outs acc)"
proof (induction outs arbitrary: acc)
  case (Cons out outs)
  have "cframe quiet (fetch_output H ctx st dest out)"
    unfolding fetch_output_def Let_def by (intro quiet.cframe_steps)
  with Cons show ?case by (simp add: quiet.cframe_cbind quiet.cframe_ctry)
qed (simp add: quiet.cframe_cret)

lemma quiet_Status: "cframe quiet (cloud_Status P H ctx h)"
  unfolding cloud_Status_def read_exit_code_def Let_def by (intro quiet_steps) simp_all

lemma quiet_calls:
  "cframe quiet (cloud_Validate P ctx spec)" "cframe quiet (cloud_Logs H ctx h)" "cframe quiet (cloud_Artifacts H ctx h)"
  "cframe quiet (cloud_Terminate H h)" "cframe quiet (cloud_ExtendWatchdog H ctx h ttl)"
  unfolding cloud_Validate_def cloud_Logs_def cloud_Artifacts_def cloud_Terminate_def cloud_ExtendWatchdog_def
  by (intro quiet_steps quiet_fetch_outputs)+


section \<open>Tearing down\<close>

lemma quiet_remove_local: "cframe quiet (remove_local st)"
  unfolding remove_local_def os_Remove_def
  by (intro quiet.cframe_steps quiet.cframe_cupd) (simp_all add: quiet_same)

text \<open>A cleanup that returns has asked for the machine of its handle to be destroyed; one that reports success, successfully.\<close>

lemma cloud_Cleanup_destroys:
  assumes "cloud_Cleanup P h w = (r, w')" and "own_ids w"
  shows "own_ids w' \<and> (\<exists>evs. cw_log w' = cw_log w @ evs \<and> (\<forall>i. MachineCreated i \<notin> set evs) \<and>
    (case r of
       Panics _ \<Rightarrow> True
     | Err _ \<Rightarrow> False
     | Ret None \<Rightarrow> False
     | Ret (Some cl) \<Rightarrow> MachineDestroyed (rh_ID h) (cl_Success cl) \<in> set evs))"
proof (cases "cw_states w (rh_ID h)")
  case None
  then show ?thesis using assms by (auto simp: cloud_Cleanup_def cbind_def handle_vm_def)
next
  case (Some st)
  then have st: "cv_VMID st = rh_ID h" using assms(2) by (simp add: own_ids_def)
  obtain rd o1 where d: "pv_DestroyVM P False (rh_ID h) (cw_out w) = (rd, o1)" by fastforce
  define w1 where "w1 = w\<lparr>cw_out := o1, cw_log := cw_log w @ [MachineDestroyed (rh_ID h) (case rd of Ret _ \<Rightarrow> True | _ \<Rightarrow> False)]\<rparr>"
  have o1: "own_ids w1" using assms(2) by (simp add: w1_def own_ids_def)
  obtain rl w2 where l: "remove_local st w1 = (rl, w2)" by fastforce
  have l2: "own_ids w2" "cw_log w2 = cw_log w1" using cframeD [OF quiet_remove_local l] o1 by (simp_all add: quiet_def)
  have rl: "rl = Ret ()"
    using l by (auto simp: remove_local_def cbind_def os_Remove_def cupd_def cret_def split: if_splits)
  have c: "cloud_Cleanup P h w =
      (case rd of
         Ret _ \<Rightarrow> (Ret (Some \<lparr>cl_Success = True, cl_ResourcesCleaned = [cv_VMID st], cl_Errors = []\<rparr>), w2)
       | Err e \<Rightarrow> (Ret (Some \<lparr>cl_Success = False, cl_ResourcesCleaned = [], cl_Errors = [e]\<rparr>), w1)
       | Panics e \<Rightarrow> (Panics e, w1))"
    using l unfolding rl
    by (cases rd) (simp_all add: cloud_Cleanup_def cbind_def handle_vm_def Some ctry_def destroy_vm_def st d cret_def w1_def)
  show ?thesis
    using assms(1) o1 l2 unfolding c by (cases rd) (auto simp: w1_def)
qed


section \<open>The machines of a run\<close>

definition machines_inv :: "'o cworld exec_state \<Rightarrow> bool" where
  "machines_inv s \<longleftrightarrow>
     own_ids (x_world s) \<and>
     (\<forall>i. MachineCreated i \<in> set (cw_log (x_world s)) \<longrightarrow>
        (\<exists>ok. MachineDestroyed i ok \<in> set (cw_log (x_world s))) \<or> (\<exists>h. rh_ID h = i \<and> EvExecuted h \<in> set (resources s))) \<and>
     (\<forall>h. EvCleanup h True \<in> set (resources s) \<longrightarrow> MachineDestroyed (rh_ID h) True \<in> set (cw_log (x_world s))) \<and>
     (\<forall>h. EvRetryCleanup h \<in> set (resources s) \<longrightarrow> (\<exists>ok. MachineDestroyed (rh_ID h) ok \<in> set (cw_log (x_world s))))"

lemma machines_inv_same:
  "x_world s' = x_world s \<Longrightarrow> resources s' = resources s \<Longrightarrow> machines_inv s \<Longrightarrow> machines_inv s'"
  by (simp add: machines_inv_def)

lemma machines_inv_quiet: "cframe quiet m \<Longrightarrow> machines_inv s \<Longrightarrow> machines_inv (world_call m s)"
  by (auto simp: cframe_def quiet_def machines_inv_def world_call_def resources_def dest!: spec [of _ "x_world s"])

lemma machines_inv_Execute:
  assumes "machines_inv s"
  shows "machines_inv (executed_state (cloud_Execute P H cfg c p (x_world s)) s)"
proof -
  obtain r w' where e: "cloud_Execute P H cfg c p (x_world s) = (r, w')" by fastforce
  from cloud_Execute_accounts [OF e] obtain evs where
    l: "cw_log w' = cw_log (x_world s) @ evs" "provision_log r evs" "provision_states r (cw_states (x_world s)) (cw_states w')"
    by blast
  have o: "own_ids w'"
    using assms l(3) by (cases r) (auto simp: machines_inv_def own_ids_def provision_states_def split: if_splits)
  show ?thesis
  proof (cases r)
    case (Ret h)
    have "rh_ID (stamped (x_run s) h) = rh_ID h" by (simp add: stamped_def)
    then show ?thesis
      using assms l o unfolding e executed_state_def
      by (fastforce simp: Ret machines_inv_def resources_def log_event_x_def provision_log_def)
  qed (use assms l o in \<open>auto simp: e executed_state_def machines_inv_def resources_def log_event_x_def provision_log_def\<close>)
qed

lemma machines_inv_Cleanup:
  assumes "machines_inv s" and "ev = EvCleanup h \<or> ev = (\<lambda>_. EvRetryCleanup h)"
  shows "machines_inv (cleaned_state ev (cloud_Cleanup P h (x_world s)) s)"
proof -
  obtain r w' where e: "cloud_Cleanup P h (x_world s) = (r, w')" by fastforce
  have "own_ids (x_world s)" using assms(1) by (simp add: machines_inv_def)
  from cloud_Cleanup_destroys [OF e this] obtain evs where
    l: "own_ids w'" "cw_log w' = cw_log (x_world s) @ evs" "\<forall>i. MachineCreated i \<notin> set evs"
    "case r of Panics _ \<Rightarrow> True | Err _ \<Rightarrow> False | Ret None \<Rightarrow> False
       | Ret (Some cl) \<Rightarrow> MachineDestroyed (rh_ID h) (cl_Success cl) \<in> set evs" by blast
  have "machines_inv (s\<lparr>x_world := w'\<rparr>)" using assms(1) l(1-3) by (fastforce simp: machines_inv_def resources_def)
  then show ?thesis
    using assms(2) l
    by (cases r) (fastforce simp: e cleaned_state_def machines_inv_def resources_def log_event_x_def split: option.splits)+
qed

interpretation machines_frame: exec_frame "cloud_adapter P H cfg" "\<lambda>s s'. machines_inv s \<longrightarrow> machines_inv s'" for P H cfg
proof (unfold_locales, goal_cases)
  case (1 s t u)
  then show ?case by blast
next
  case (2 s' s)
  then show ?case by (blast intro: machines_inv_same)
qed (auto simp: cloud_adapter_def quiet.cframe_cret
    intro!: machines_inv_quiet quiet_calls quiet_Status machines_inv_Execute machines_inv_Cleanup)


text \<open>
  C2: No machine of a cloud run is forgotten. Over any provider, any behaviour of the remote machine and of
  the programs on this host, any background activity and any panic of the adapter, when
  the executor returns from a run on the cloud adapter, then every machine that was created was
  asked to be destroyed, or it is the machine of the handle the run still holds; and then the run
  records a failed cleanup, or its outputs were not retrieved, or its budget was exceeded, or it is a
  long-running one that was detached on purpose. Machines whose cleanup the executor counted as a
  success were destroyed successfully.
\<close>

theorem cloud_run_accounts_machines:
  assumes "NewRun p sid t0 = Some (x_run s)" and "x_trace s = []"
    and "cw_log (x_world s) = []" and "cw_states (x_world s) = Map.empty"
    and "Execute (cloud_adapter P H cfg) ae lw fuel s = (Val res, s')"
  shows "(\<forall>i. MachineCreated i \<in> set (cw_log (x_world s')) \<longrightarrow>
       (\<exists>ok. MachineDestroyed i ok \<in> set (cw_log (x_world s'))) \<or>
       (\<exists>h. r_Handle (x_run s') = Some h \<and> rh_ID h = i \<and>
          (r_CleanupError (x_run s') \<noteq> [] \<or>
           r_State (x_run s') \<in> {RunStateArtifactFailed, RunStateBudgetExceeded} \<or>
           r_Lifecycle (x_run s') = LifecycleLongRunning))) \<and>
     (\<forall>h. EvCleanup h True \<in> set (x_trace s') \<longrightarrow> MachineDestroyed (rh_ID h) True \<in> set (cw_log (x_world s')))"
proof -
  have "machines_inv s" using assms(2-4) by (simp add: machines_inv_def own_ids_def resources_def)
  with keepsD [OF machines_frame.keeps_Execute assms(5)] have inv: "machines_inv s'" by simp
  have fin: "finished (cloud_adapter P H cfg) s'" by (rule Execute_finished [OF assms(1,2,5)])
  then have acc: "accounted s'" by (auto simp: finished_def disposed_def exec_inv_def)
  have gone: "\<exists>ok. MachineDestroyed (rh_ID h) ok \<in> set (cw_log (x_world s'))"
    if "EvExecuted h \<in> set (resources s')" "r_Handle (x_run s') \<noteq> Some h" for h
  proof -
    have "EvCleanup h True \<in> set (resources s') \<or> EvRetryCleanup h \<in> set (resources s')"
      using acc that by (auto simp: accounted_def trace_resources)
    then show ?thesis using inv by (auto simp: machines_inv_def)
  qed
  let ?held = "r_CleanupError (x_run s') \<noteq> [] \<or> r_State (x_run s') \<in> {RunStateArtifactFailed, RunStateBudgetExceeded} \<or>
    r_Lifecycle (x_run s') = LifecycleLongRunning"
  have held: "?held" if "r_Handle (x_run s') = Some h" for h
    using fin that by (auto simp: finished_def disposed_def)
  have "(\<exists>ok. MachineDestroyed i ok \<in> set (cw_log (x_world s'))) \<or> (\<exists>h. r_Handle (x_run s') = Some h \<and> rh_ID h = i \<and> ?held)"
    if "MachineCreated i \<in> set (cw_log (x_world s'))" for i
    using inv that gone held unfolding machines_inv_def by blast
  moreover have "MachineDestroyed (rh_ID h) True \<in> set (cw_log (x_world s'))" if "EvCleanup h True \<in> set (x_trace s')" for h
    using inv that trace_resources [of "EvCleanup h True" s'] by (simp add: machines_inv_def)
  ultimately show ?thesis by blast
qed

definition demo_cloud_state :: "unit cworld exec_state" where
  "demo_cloud_state = \<lparr>x_run = demo_run, x_dir = demo_dir, x_world = demo_world, x_now = 10, x_ctx_done = False,
     x_exec_canceled = False, x_sampler = None, x_watchdog = None, x_sched = [], x_picks = [], x_faults = [],
     x_crashed = False, x_trace = []\<rparr>"

lemma demo_cloud_execute:
  "\<exists>s'. Execute (cloud_adapter demo_provider demo_host demo_config) demo_env False (Suc 0) demo_cloud_state
       = (Val (Inl ''provisioning failed: VM not reachable via SSH: timed out''), s') \<and>
     MachineCreated ''i-1'' \<in> set (cw_log (x_world s')) \<and> r_Handle (x_run s') = None"
proof -
  obtain w' where w': "cloud_Execute demo_provider demo_host demo_config False demo_plan demo_world
      = (Err ''VM not reachable via SSH: timed out'', w')"
    "cw_log w' = [MachineCreated ''i-1'', MachineDestroyed ''i-1'' True]" using demo_provision by blast
  have v: "cloud_Validate demo_provider False spec demo_world = (Ret (DefaultValidationResult\<lparr>vr_Credentials := ValidationPass\<rparr>), demo_world)" for spec
    by (simp add: cloud_Validate_def cwrap_def cbind_def cext_def cret_def demo_provider_def demo_world_def)
  have iv: "IsValid (DefaultValidationResult\<lparr>vr_Credentials := ValidationPass\<rparr>)" by (simp add: IsValid_def DefaultValidationResult_def)
  show ?thesis
    by (simp add: exec_defs step_defs interleave_idle demo_cloud_state_def demo_run_fields cloud_adapter_def Let_def cret_def v iv w'
        Transition_def isValidTransition_def validTransitions_def time_IsZero_def demo_priced SetError_def)
qed

theorem cloud_run_accounts_machines_witness:
  "\<exists>e s'. Execute (cloud_adapter demo_provider demo_host demo_config) demo_env False (Suc 0) demo_cloud_state = (Val (Inl e), s') \<and>
     MachineCreated ''i-1'' \<in> set (cw_log (x_world s')) \<and> (\<exists>ok. MachineDestroyed ''i-1'' ok \<in> set (cw_log (x_world s')))"
proof -
  obtain e s' where s': "Execute (cloud_adapter demo_provider demo_host demo_config) demo_env False (Suc 0) demo_cloud_state
      = (Val (Inl e), s')" "MachineCreated ''i-1'' \<in> set (cw_log (x_world s'))" "r_Handle (x_run s') = None"
    using demo_cloud_execute by blast
  have "NewRun demo_plan ''abc1234'' 10 = Some (x_run demo_cloud_state)" "x_trace demo_cloud_state = []"
    "cw_log (x_world demo_cloud_state) = []" "cw_states (x_world demo_cloud_state) = Map.empty"
    using demo_run_new by (simp_all add: demo_cloud_state_def demo_world_def)
  from cloud_run_accounts_machines [OF this s'(1)] s' show ?thesis by auto
qed

end
