(* ===== verification/Resource_Gc.thy ===== *)
theory Resource_Gc
  imports Run_Reconnect Cloud_Run
begin

text \<open>
  Finding and destroying what runs have left behind (\<^verbatim>\<open>internal/cli/gc.go\<close>) and the inventory of what can be
  recovered (\<^verbatim>\<open>internal/cli/recover.go\<close>). The durable adapters whose command-line tools are present are an
  argument, in the order in which Go's iteration over the map of providers happens to give them; they
  act on the world of the cloud adapter, with its key files. What is printed is left out.
\<close>

section \<open>What the run records protect\<close>

record gc_guard =
  gg_activeRuns :: "string list"
  gg_unreadableRuns :: "string list"
  gg_unrecoverable :: bool

definition guard_record :: "run_dir \<Rightarrow> gc_guard \<Rightarrow> string \<Rightarrow> gc_guard" where
  "guard_record d g i =
     (case LoadRecord d i of
        Inl _ \<Rightarrow>
          (let pid = RecoverPlanID d i
           in if pid \<noteq> [] then g\<lparr>gg_unreadableRuns := pid # gg_unreadableRuns g\<rparr> else g\<lparr>gg_unrecoverable := True\<rparr>)
      | Inr rec \<Rightarrow>
          if \<not> IsTerminal (rec_State rec) then g\<lparr>gg_activeRuns := rec_PlanID rec # gg_activeRuns g\<rparr>
          else if rec_State rec = RunStateArtifactFailed then g\<lparr>gg_activeRuns := rec_PlanID rec # gg_activeRuns g\<rparr>
          else g)"

definition gc_guards :: "run_dir \<Rightarrow> string list \<Rightarrow> gc_guard" where
  "gc_guards d ids = foldl (guard_record d) \<lparr>gg_activeRuns = [], gg_unreadableRuns = [], gg_unrecoverable = False\<rparr> ids"

datatype gc_class = GcExternal | GcStanding | GcActive | GcSkipped | GcOrphan

definition classify_resource :: "gc_guard \<Rightarrow> resource_info \<Rightarrow> gc_class" where
  "classify_resource g res =
     (if \<not> DispatcherOwned res then GcExternal
      else if ri_RunID res = [] then GcStanding
      else if ri_RunID res \<in> set (gg_activeRuns g) then GcActive
      else if gg_unrecoverable g then GcSkipped
      else if ri_RunID res \<in> set (gg_unreadableRuns g) then GcSkipped
      else GcOrphan)"

section \<open>Scanning\<close>

type_synonym 'o gc_adapter = "string \<times> 'o cworld durable"

record 'o gc_scan =
  gs_orphans :: "('o gc_adapter \<times> resource_info) list"
  gs_standing :: "resource_info list"
  gs_external :: "resource_info list"

definition scan_resource :: "gc_guard \<Rightarrow> 'o gc_adapter \<Rightarrow> 'o gc_scan \<Rightarrow> resource_info \<Rightarrow> 'o gc_scan" where
  "scan_resource g a sc res =
     (case classify_resource g res of
        GcExternal \<Rightarrow> sc\<lparr>gs_external := gs_external sc @ [res]\<rparr>
      | GcStanding \<Rightarrow> sc\<lparr>gs_standing := gs_standing sc @ [res]\<rparr>
      | GcOrphan \<Rightarrow> sc\<lparr>gs_orphans := gs_orphans sc @ [(a, res)]\<rparr>
      | _ \<Rightarrow> sc)"

primrec scan_adapters ::
  "gc_guard \<Rightarrow> catalog option \<Rightarrow> 'o gc_adapter list \<Rightarrow> 'o gc_scan \<Rightarrow> ('o, 'o gc_scan) cm" where
  "scan_adapters g cat [] sc = cret sc"
| "scan_adapters g cat (a # as) sc =
     cbind (ctry (du_ListResources (snd a) False)) (\<lambda>r.
       case r of
         Inl _ \<Rightarrow> scan_adapters g cat as sc
       | Inr found \<Rightarrow> scan_adapters g cat as (foldl (scan_resource g a) sc (RepriceInstancesLive found cat)))"

section \<open>Destroying\<close>

text \<open>Every orphan is tried; the key files of its run are removed once it is destroyed.\<close>

primrec destroy_orphans ::
  "'o host \<Rightarrow> ('o gc_adapter \<times> resource_info) list \<Rightarrow> ('o, (resource_info \<times> string option) list) cm" where
  "destroy_orphans H [] = cret []"
| "destroy_orphans H (x # xs) =
     (let res = snd x
      in cbind (ctry (du_DestroyResource (snd (fst x)) False res)) (\<lambda>r.
         cbind (case r of
                  Inl _ \<Rightarrow> cret ()
                | Inr _ \<Rightarrow> if ri_RunID res \<noteq> [] then RemoveRunKeyFiles H (ri_RunID res) else cret ()) (\<lambda>_.
         cbind (destroy_orphans H xs) (\<lambda>rest.
         cret ((res, case r of Inl e \<Rightarrow> Some e | Inr _ \<Rightarrow> None) # rest)))))"

section \<open>The command\<close>

record gc_flags =
  gf_dryRun :: bool
  gf_force :: bool
  gf_warnOver :: f64
  gf_allowEmptyStore :: bool

record gc_orphan =
  go_ResourceID :: string
  go_Provider :: string
  go_RunID :: string
  go_Destroyed :: bool
  go_Error :: string

record gc_standing =
  gt_ResourceID :: string
  gt_Provider :: string
  gt_Kind :: string
  gt_MonthlyUSD :: f64

record gc_report =
  gp_Found :: int
  gp_Destroyed :: int
  gp_DryRun :: bool
  gp_Orphans :: "gc_orphan list"
  gp_Standing :: "gc_standing list"
  gp_External :: "gc_standing list"
  gp_MonthlyUSD :: f64
  gp_CostWarning :: bool
  gp_ScopeNote :: string

definition scopeLimitNote :: "string list \<Rightarrow> string" where
  "scopeLimitNote ids =
     (let scopes = (if ''azure-vm'' \<in> set ids
            then [''Azure (all resource groups in the active subscription; other subscriptions aren'' @ [squote] @ ''t scanned)''] else [])
          @ (if ''gcp-vm'' \<in> set ids
            then [''GCP (every project the credential can list; a project it can'' @ [squote] @ ''t list is skipped)''] else [])
      in if scopes = [] then [] else ''Note: gc scanned '' @ strings_Join scopes ''; '' @ ''.'')"

definition confirmDestroy :: "string \<times> bool \<Rightarrow> bool" where
  "confirmDestroy input =
     (case input of
        (line, failed) \<Rightarrow>
          if failed \<and> line = [] then False
          else (let s = strings_TrimSpace (strings_ToLower line) in s = ''y'' \<or> s = ''yes''))"

definition orphan_json :: "resource_info \<Rightarrow> string option option \<Rightarrow> gc_orphan" where
  "orphan_json res attempt =
     \<lparr>go_ResourceID = ri_ResourceID res, go_Provider = ri_Provider res, go_RunID = ri_RunID res,
      go_Destroyed = (attempt = Some None), go_Error = (case attempt of Some (Some e) \<Rightarrow> e | _ \<Rightarrow> [])\<rparr>"

definition standing_json :: "resource_info \<Rightarrow> gc_standing" where
  "standing_json s = \<lparr>gt_ResourceID = ri_ResourceID s, gt_Provider = ri_Provider s, gt_Kind = resource_kind_string (ri_Kind s),
     gt_MonthlyUSD = ri_MonthlyUSD s\<rparr>"

definition monthly_total :: "resource_info list \<Rightarrow> f64 \<Rightarrow> f64" where
  "monthly_total rs t = foldl (\<lambda>t r. t + ri_MonthlyUSD r) t rs"

definition gc_json ::
  "gc_flags \<Rightarrow> string list \<Rightarrow> 'o gc_scan \<Rightarrow> (resource_info \<times> string option) list \<Rightarrow> gc_report" where
  "gc_json fl ids sc attempts =
     (let orphans = map snd (gs_orphans sc);
          entries = (if gf_dryRun fl then map (\<lambda>r. orphan_json r None) orphans
                     else map (\<lambda>(r, e). orphan_json r (Some e)) attempts);
          monthly = monthly_total (gs_external sc) (monthly_total (gs_standing sc) (monthly_total orphans 0))
      in \<lparr>gp_Found = int (length orphans), gp_Destroyed = int (length (filter go_Destroyed entries)), gp_DryRun = gf_dryRun fl,
          gp_Orphans = entries, gp_Standing = map standing_json (gs_standing sc), gp_External = map standing_json (gs_external sc),
          gp_MonthlyUSD = monthly, gp_CostWarning = (0 < gf_warnOver fl \<and> gf_warnOver fl < monthly),
          gp_ScopeNote = scopeLimitNote ids\<rparr>)"

definition empty_report :: "bool \<Rightarrow> gc_report" where
  "empty_report dryRun = \<lparr>gp_Found = 0, gp_Destroyed = 0, gp_DryRun = dryRun, gp_Orphans = [], gp_Standing = [], gp_External = [],
     gp_MonthlyUSD = 0, gp_CostWarning = False, gp_ScopeNote = []\<rparr>"

datatype gc_outcome = GcNoAdapters | GcReport gc_report | GcNone | GcPreview nat | GcAborted | GcReaped nat nat

text \<open>
  The result of the command: what it tells, and the resources it asked to destroy with the error of each.
\<close>

definition gc ::
  "'o host \<Rightarrow> gc_flags \<Rightarrow> bool \<Rightarrow> string \<times> bool \<Rightarrow> catalog option \<Rightarrow> run_dir \<Rightarrow> 'o gc_adapter list
   \<Rightarrow> ('o, gc_outcome \<times> (resource_info \<times> string option) list) cm" where
  "gc H fl asJSON input cat d adapters =
     (case ListRecords d of
        Inl e \<Rightarrow> cfail (''cannot enumerate run records; refusing to GC (could destroy live runs): '' @ e)
      | Inr runIDs \<Rightarrow>
         if adapters = [] then cret (if asJSON then GcReport (empty_report (gf_dryRun fl)) else GcNoAdapters, [])
         else
           cbind (scan_adapters (gc_guards d runIDs) cat adapters \<lparr>gs_orphans = [], gs_standing = [], gs_external = []\<rparr>) (\<lambda>sc.
           let orphans = gs_orphans sc; n = length orphans; ids = map fst adapters;
               willDestroy = (\<not> gf_dryRun fl \<and> (\<not> asJSON \<or> gf_force fl))
           in if willDestroy \<and> \<not> gf_allowEmptyStore fl \<and> runIDs = [] \<and> orphans \<noteq> []
              then cfail (''refusing to GC: run store has 0 records but '' @ show_int (int n) @ '' dispatcher-owned resource(s) reference run IDs ''
                     @ em_dash @ '' the state dir is likely misconfigured (check $DISPATCHER_HOME / --state-dir). ''
                     @ ''Re-run with --allow-empty-store if the store is genuinely empty and these are real orphans'')
              else if asJSON
              then if orphans \<noteq> [] \<and> \<not> gf_dryRun fl \<and> \<not> gf_force fl
                   then cfail (''gc --json requires --dry-run or --yes (interactive confirmation can'' @ [squote] @ ''t run with JSON output)'')
                   else cbind (if gf_dryRun fl then cret [] else destroy_orphans H orphans) (\<lambda>attempts.
                          cret (GcReport (gc_json fl ids sc attempts), attempts))
              else if orphans = [] then cret (GcNone, [])
              else if gf_dryRun fl then cret (GcPreview n, [])
              else if \<not> gf_force fl \<and> \<not> confirmDestroy input then cret (GcAborted, [])
              else cbind (destroy_orphans H orphans) (\<lambda>attempts.
                     cret (GcReaped n (length (filter (\<lambda>(_, e). e = None) attempts)), attempts))))"

section \<open>The inventory of recoverable machines\<close>

record recover_entry =
  re_ResourceID :: string
  re_Provider :: string
  re_RunID :: string
  re_CreatedAt :: time
  re_LocalRecord :: string
  re_SSHKeyPath :: string
  re_Attachable :: bool

text \<open>\<^verbatim>\<open>errors.Is(err, os.ErrNotExist)\<close>, by the text the two errors of the library end with.\<close>

definition is_not_exist :: "string \<Rightarrow> bool" where
  "is_not_exist e = (strings_HasSuffix e ''file does not exist'' \<or> strings_HasSuffix e ''no such file or directory'')"

definition recover_resource ::
  "string result \<Rightarrow> string list \<Rightarrow> run_dir \<Rightarrow> resource_info \<Rightarrow> recover_entry \<times> string list" where
  "recover_resource keyDir files d res =
     (let e = \<lparr>re_ResourceID = ri_ResourceID res, re_Provider = ri_Provider res, re_RunID = ri_RunID res,
               re_CreatedAt = ri_CreatedAt res, re_LocalRecord = [], re_SSHKeyPath = [], re_Attachable = False\<rparr>;
          key = (case keyDir of
                   Inl _ \<Rightarrow> []
                 | Inr dir \<Rightarrow> let p = filepath_Join dir (''dispatcher-'' @ ri_RunID res) in if p \<in> set files then p else [])
      in if ri_RunID res = [] then (e, [])
         else case LoadRecordByPlanID d (ri_RunID res) of
                Inr rec \<Rightarrow> (e\<lparr>re_LocalRecord := ''yes'', re_Attachable := True, re_SSHKeyPath := key\<rparr>, [rec_ID rec])
              | Inl err \<Rightarrow>
                  (e\<lparr>re_LocalRecord := (if is_not_exist err \<or> strings_Contains err ''not found'' then ''missing'' else ''unreadable''),
                     re_SSHKeyPath := key\<rparr>, []))"

primrec recover_entries ::
  "string result \<Rightarrow> run_dir \<Rightarrow> 'o gc_adapter list \<Rightarrow> ('o, recover_entry list \<times> string list) cm" where
  "recover_entries keyDir d [] = cret ([], [])"
| "recover_entries keyDir d (a # as) =
     cbind (ctry (du_ListResources (snd a) False)) (\<lambda>r.
     cbind (cgets cw_files) (\<lambda>files.
     cbind (recover_entries keyDir d as) (\<lambda>(es, ats).
       case r of
         Inl _ \<Rightarrow> cret (es, ats)
       | Inr found \<Rightarrow>
           let xs = map (recover_resource keyDir files d) found
           in cret (map fst xs @ es, concat (map snd xs) @ ats))))"

definition runRecover :: "'o host \<Rightarrow> run_dir \<Rightarrow> 'o gc_adapter list \<Rightarrow> ('o, recover_entry list \<times> string list) cm" where
  "runRecover H d adapters = recover_entries (ho_subdir H ''keys'') d adapters"


section \<open>Properties\<close>

text \<open>
  What may be destroyed, said without the maps of the command: a resource of the dispatcher that belongs
  to a run, such that no readable record of its plan is active or waits for its outputs to be
  recovered, and no record that cannot be read may be that of its plan.
\<close>

definition reapable :: "run_dir \<Rightarrow> string list \<Rightarrow> resource_info \<Rightarrow> bool" where
  "reapable d ids res \<longleftrightarrow>
     DispatcherOwned res \<and> ri_RunID res \<noteq> [] \<and>
     (\<forall>i\<in>set ids.
        case LoadRecord d i of
          Inr rec \<Rightarrow> rec_PlanID rec = ri_RunID res \<longrightarrow> IsTerminal (rec_State rec) \<and> rec_State rec \<noteq> RunStateArtifactFailed
        | Inl _ \<Rightarrow> RecoverPlanID d i \<noteq> [] \<and> RecoverPlanID d i \<noteq> ri_RunID res)"

definition guarded_plan :: "run_dir \<Rightarrow> string \<Rightarrow> string \<Rightarrow> bool" where
  "guarded_plan d i plan_id \<longleftrightarrow>
     (case LoadRecord d i of
        Inr rec \<Rightarrow> rec_PlanID rec = plan_id \<and> (\<not> IsTerminal (rec_State rec) \<or> rec_State rec = RunStateArtifactFailed)
      | Inl _ \<Rightarrow> RecoverPlanID d i = [] \<or> RecoverPlanID d i = plan_id)"

definition protects :: "gc_guard \<Rightarrow> string \<Rightarrow> bool" where
  "protects g plan_id \<longleftrightarrow>
     plan_id \<in> set (gg_activeRuns g) \<or> gg_unrecoverable g \<or> plan_id \<in> set (gg_unreadableRuns g)"

lemma protects_record: "protects (guard_record d g i) plan_id \<longleftrightarrow> protects g plan_id \<or> guarded_plan d i plan_id"
  by (auto simp: protects_def guard_record_def guarded_plan_def Let_def split: sum.split)

lemma protects_guards: "protects (gc_guards d ids) plan_id \<longleftrightarrow> (\<exists>i\<in>set ids. guarded_plan d i plan_id)"
proof -
  have "protects (foldl (guard_record d) g ids) plan_id \<longleftrightarrow> protects g plan_id \<or> (\<exists>i\<in>set ids. guarded_plan d i plan_id)" for g
    by (induction ids arbitrary: g) (auto simp: protects_record)
  then show ?thesis by (simp add: gc_guards_def protects_def)
qed

lemma classify_orphan_iff: "classify_resource (gc_guards d ids) res = GcOrphan \<longleftrightarrow> reapable d ids res"
proof -
  have "classify_resource g res = GcOrphan \<longleftrightarrow> DispatcherOwned res \<and> ri_RunID res \<noteq> [] \<and> \<not> protects g (ri_RunID res)" for g
    by (simp add: classify_resource_def protects_def)
  then show ?thesis
    by (auto simp: protects_guards reapable_def guarded_plan_def split: sum.splits)
qed

lemma scan_resources_orphans:
  "gs_orphans (foldl (scan_resource g a) sc rs)
    = gs_orphans sc @ map (Pair a) (filter (\<lambda>r. classify_resource g r = GcOrphan) rs)"
  by (induction rs arbitrary: sc) (auto simp: scan_resource_def split: gc_class.split)

lemma scan_adapters_orphans:
  assumes "scan_adapters g cat as sc w = (Ret sc', w')"
  shows "\<exists>new. gs_orphans sc' = gs_orphans sc @ new \<and> (\<forall>(a, r)\<in>set new. classify_resource g r = GcOrphan)"
  using assms
proof (induction as arbitrary: sc w)
  case Nil
  then show ?case by (simp add: cret_def)
next
  case (Cons a as)
  obtain r w1 where l: "ctry (du_ListResources (snd a) False) w = (r, w1)" by fastforce
  show ?case
  proof (cases r)
    case (Ret x)
    show ?thesis
    proof (cases x)
      case (Inl e)
      then show ?thesis using Cons l Ret by (simp add: cbind_def)
    next
      case (Inr found)
      let ?sc = "foldl (scan_resource g a) sc (RepriceInstancesLive found cat)"
      have "scan_adapters g cat as ?sc w1 = (Ret sc', w')" using Cons.prems l Ret Inr by (simp add: cbind_def)
      from Cons.IH [OF this] show ?thesis by (auto simp: scan_resources_orphans)
    qed
  qed (use Cons.prems l in \<open>simp_all add: cbind_def\<close>)
qed

lemma destroy_orphans_attempts:
  "destroy_orphans H xs w = (Ret attempts, w') \<Longrightarrow> map fst attempts = map snd xs"
proof (induction xs arbitrary: attempts w)
  case (Cons x xs)
  from Cons.prems obtain rest e w1 where "destroy_orphans H xs w1 = (Ret rest, w')" "attempts = (snd x, e) # rest"
    by (auto simp: cbind_def cret_def Let_def split: prod.splits call.splits)
  with Cons.IH show ?case by simp
qed (simp add: cret_def)

lemma cbind_Ret: "cbind m k w = (Ret b, w') \<longleftrightarrow> (\<exists>a w1. m w = (Ret a, w1) \<and> k a w1 = (Ret b, w'))"
  by (auto simp: cbind_def split: prod.splits call.splits)

lemma gc_attempts:
  assumes "gc H fl asJSON input cat d adapters w = (Ret (out, attempts), w')" and "ListRecords d = Inr ids"
  shows "attempts = [] \<or>
    (\<exists>sc w1. scan_adapters (gc_guards d ids) cat adapters \<lparr>gs_orphans = [], gs_standing = [], gs_external = []\<rparr> w = (Ret sc, w1) \<and>
       map fst attempts = map snd (gs_orphans sc)) \<and>
    \<not> gf_dryRun fl \<and> (gf_force fl \<or> \<not> asJSON \<and> confirmDestroy input) \<and> (ids \<noteq> [] \<or> gf_allowEmptyStore fl)"
proof (cases "attempts = []")
  case False
  let ?none = "\<lparr>gs_orphans = [], gs_standing = [], gs_external = []\<rparr>"
  obtain sc w1 w2 where sc: "scan_adapters (gc_guards d ids) cat adapters ?none w = (Ret sc, w1)"
    and ds: "destroy_orphans H (gs_orphans sc) w2 = (Ret attempts, w')"
    and g: "\<not> gf_dryRun fl" "gf_force fl \<or> \<not> asJSON \<and> confirmDestroy input" "ids \<noteq> [] \<or> gf_allowEmptyStore fl"
    using assms False
    by (auto simp: gc_def cbind_Ret Let_def cret_def cfail_def split: if_splits)
  with destroy_orphans_attempts [OF ds] show ?thesis by blast
qed simp

lemma gc_attempts_reapable:
  assumes "gc H fl asJSON input cat d adapters w = (Ret (out, attempts), w')" and "ListRecords d = Inr ids"
  shows "\<forall>(res, e)\<in>set attempts. reapable d ids res"
proof (cases "attempts = []")
  case False
  then obtain sc w1 where
    sc: "scan_adapters (gc_guards d ids) cat adapters \<lparr>gs_orphans = [], gs_standing = [], gs_external = []\<rparr> w = (Ret sc, w1)"
    "map fst attempts = map snd (gs_orphans sc)" using gc_attempts [OF assms] by blast
  have "\<forall>(a, r)\<in>set (gs_orphans sc). reapable d ids r"
    using scan_adapters_orphans [OF sc(1)] by (auto simp: classify_orphan_iff)
  moreover have "fst ` set attempts = snd ` set (gs_orphans sc)" using sc(2) by (metis set_map)
  ultimately show ?thesis by (force simp: image_iff)
qed simp

text \<open>
  C3: Garbage collection destroys nothing that is in use. Whatever the adapters list and however the command is
  called, everything it asks to destroy is the dispatcher's own and belongs to a run, no record of an
  active run or of one whose outputs are still to be recovered names its plan, and no record that cannot
  be read could name it. And it asks for nothing in a dry run, without the user's consent, or
  on an empty store unless told that it may be empty.
\<close>

theorem gc_destroys_only_orphans:
  assumes "gc H fl asJSON input cat d adapters w = (Ret (out, attempts), w')"
  shows "\<exists>ids. ListRecords d = Inr ids \<and> (\<forall>(res, e)\<in>set attempts. reapable d ids res) \<and>
    (attempts \<noteq> [] \<longrightarrow> \<not> gf_dryRun fl \<and> (gf_force fl \<or> \<not> asJSON \<and> confirmDestroy input) \<and> (ids \<noteq> [] \<or> gf_allowEmptyStore fl))"
proof -
  obtain ids where ids: "ListRecords d = Inr ids" using assms by (auto simp: gc_def cfail_def split: sum.splits)
  with gc_attempts [OF assms ids] gc_attempts_reapable [OF assms ids] show ?thesis by blast
qed

lemma saved_record:
  assumes "Save rnd fault r d0 = (d, Inr path)" and "ListRecords d = Inr ids"
  shows "r_ID r \<in> set ids \<and> LoadRecord d (r_ID r) = Inr (ToRecord r)"
proof -
  note ok = Save_ok [OF assms(1)]
  have "map_of (rd_files d) (r_ID r @ ''.json'') = Some (JsonDoc (ToRecord r))" by (simp add: ok(5) run_files.get_put)
  then show ?thesis
    using ok(1,2) by (auto simp: ListRecords_set [OF assms(2)] LoadRecord_def StoreDir_def ok(5))
qed

text \<open>
  C9: The store, the tags of the cloud adapter and garbage collection fit together: once the record of a run is
  saved, and as long as it is active or its outputs are to be recovered, no call of garbage
  collection on that store asks for a machine to be destroyed that was created for the run's plan and
  lists with the tags it was created with.
\<close>

theorem gc_spares_saved_run:
  assumes "Save rnd fault r d0 = (d, Inr path)"
    and "\<not> IsTerminal (r_State r) \<or> r_State r = RunStateArtifactFailed"
    and "r_PlanID r = pm_ID (pl_Metadata p)"
    and "ri_Tags res ''dispatcher-run-id'' = vo_Tags (buildVMOptions p region name key userData) ''dispatcher-run-id''"
    and "ri_RunID res = env_value (ri_Tags res) ''dispatcher-run-id''"
    and "gc H fl asJSON input cat d adapters w = (Ret (out, attempts), w')"
  shows "\<forall>e. (res, e) \<notin> set attempts"
proof -
  have "ri_RunID res = r_PlanID r"
    using assms(3-5) by (simp add: buildVMOptions_def Let_def env_value_def)
  moreover obtain ids where ids: "ListRecords d = Inr ids" using assms(6) by (auto simp: gc_def cfail_def split: sum.splits)
  moreover have "r_ID r \<in> set ids" "LoadRecord d (r_ID r) = Inr (ToRecord r)" using saved_record [OF assms(1) ids] by simp_all
  ultimately have "\<not> reapable d ids res"
    using assms(2) by (auto simp: reapable_def ToRecord_def dest!: bspec [of _ _ "r_ID r"])
  with gc_attempts_reapable [OF assms(6) ids] show ?thesis by blast
qed

text \<open>Conversely, with consent and a store that is not empty, every orphan an adapter lists is tried.\<close>

theorem gc_reaps_every_orphan:
  assumes "ListRecords d = Inr ids" and "ids \<noteq> []" and "\<not> gf_dryRun fl" and "gf_force fl"
    and "du_ListResources du False w = (Ret found, w1)"
    and "gc H fl asJSON input cat d [(target, du)] w = (Ret (out, attempts), w')"
  shows "map fst attempts = filter (reapable d ids) (RepriceInstancesLive found cat)"
proof -
  let ?none = "\<lparr>gs_orphans = [], gs_standing = [], gs_external = []\<rparr>"
  let ?sc = "foldl (scan_resource (gc_guards d ids) (target, du)) ?none (RepriceInstancesLive found cat)"
  have sc: "scan_adapters (gc_guards d ids) cat [(target, du)] ?none w = (Ret ?sc, w1)"
    by (simp add: cbind_def ctry_def assms(5) cret_def)
  have o: "map snd (gs_orphans ?sc) = filter (reapable d ids) (RepriceInstancesLive found cat)"
    by (simp add: scan_resources_orphans classify_orphan_iff comp_def)
  show ?thesis
  proof (cases "gs_orphans ?sc = []")
    case True
    then have "attempts = []"
      using assms(6) by (auto simp: gc_def assms(1) sc cbind_Ret Let_def cret_def cfail_def assms(2-4)
          simp del: scan_adapters.simps split: if_splits)
    with o True show ?thesis by simp
  next
    case False
    then obtain w2 where "destroy_orphans H (gs_orphans ?sc) w2 = (Ret attempts, w')"
      using assms(6) by (auto simp: gc_def assms(1) sc cbind_Ret Let_def cret_def cfail_def assms(2-4)
          simp del: scan_adapters.simps split: if_splits)
    from destroy_orphans_attempts [OF this] o show ?thesis by simp
  qed
qed

subsection \<open>A store with one finished run\<close>

definition demo_done_record :: run_record where
  "demo_done_record = (ToRecord demo_run)\<lparr>rec_ID := ''run_0'', rec_PlanID := ''plan_0'', rec_State := RunStateCompleted\<rparr>"

definition demo_gc_store :: run_dir where
  "demo_gc_store = \<lparr>rd_path = Inr ''/d/runs'', rd_readable = Inr (), rd_files = [(''run_0.json'', JsonDoc demo_done_record)]\<rparr>"

definition demo_resource :: "string \<Rightarrow> resource_info" where
  "demo_resource plan_id = \<lparr>ri_ResourceID = ''i-1'', ri_Provider = ''aws'', ri_Kind = ResourceInstance, ri_Region = [], ri_InstanceType = [],
     ri_CreatedAt = 0, ri_RunID = plan_id, ri_Tags = [''dispatcher'' \<mapsto> ''true'', ''dispatcher-run-id'' \<mapsto> plan_id], ri_Scope = [], ri_MonthlyUSD = 0\<rparr>"

definition demo_lister :: "string \<Rightarrow> unit cworld durable" where
  "demo_lister plan_id = \<lparr>du_Reconnect = \<lambda>_ _ w. (Err [], w), du_ExtendWatchdog = \<lambda>_ _ _ w. (Err [], w),
     du_ListResources = \<lambda>_ w. (Ret [demo_resource plan_id], w), du_DestroyResource = \<lambda>_ _ w. (Ret (), w)\<rparr>"

definition demo_gc_flags :: gc_flags where
  "demo_gc_flags = \<lparr>gf_dryRun = False, gf_force = True, gf_warnOver = 0, gf_allowEmptyStore = False\<rparr>"

lemma demo_gc_records: "ListRecords demo_gc_store = Inr [''run_0'']" "LoadRecord demo_gc_store ''run_0'' = Inr demo_done_record"
proof -
  have "sort_Strings [''run_0.json''] = [''run_0.json'']" by code_simp
  then show "ListRecords demo_gc_store = Inr [''run_0'']"
    by (simp add: ListRecords_def demo_gc_store_def StoreDir_def strings_HasSuffix_iff)
  have "run_validateRunID ''run_0'' = Inr ()" by code_simp
  then show "LoadRecord demo_gc_store ''run_0'' = Inr demo_done_record" by (simp add: LoadRecord_def demo_gc_store_def StoreDir_def)
qed

lemma demo_reapable: "i \<noteq> [] \<Longrightarrow> reapable demo_gc_store [''run_0''] (demo_resource i)"
  by (simp add: reapable_def demo_resource_def DispatcherOwned_def demo_gc_records demo_done_record_def)

lemma demo_gc:
  assumes "i \<noteq> []"
  shows "\<exists>out w'. gc demo_host demo_gc_flags False ([], True) None demo_gc_store [(''aws-vm'', demo_lister i)] demo_world
     = (Ret (out, [(demo_resource i, None)]), w')"
proof -
  have "scan_adapters (gc_guards demo_gc_store [''run_0'']) None [(''aws-vm'', demo_lister i)]
      \<lparr>gs_orphans = [], gs_standing = [], gs_external = []\<rparr> demo_world
    = (Ret \<lparr>gs_orphans = [((''aws-vm'', demo_lister i), demo_resource i)], gs_standing = [], gs_external = []\<rparr>, demo_world)"
    using demo_reapable [OF assms] classify_orphan_iff [of demo_gc_store "[''run_0'']" "demo_resource i"]
    by (simp add: cbind_def ctry_def demo_lister_def cret_def RepriceInstancesLive_def scan_resource_def)
  then show ?thesis
    by (auto simp: gc_def demo_gc_records cbind_def Let_def demo_gc_flags_def ctry_def demo_lister_def cret_def RemoveRunKeyFiles_def
        cupd_def os_Remove_def demo_host_def demo_resource_def simp del: scan_adapters.simps)
qed

theorem gc_destroys_only_orphans_witness:
  "\<exists>out w'. gc demo_host demo_gc_flags False ([], True) None demo_gc_store [(''aws-vm'', demo_lister ''plan_0'')] demo_world
      = (Ret (out, [(demo_resource ''plan_0'', None)]), w') \<and>
     (\<exists>ids. ListRecords demo_gc_store = Inr ids \<and> reapable demo_gc_store ids (demo_resource ''plan_0''))"
proof -
  obtain out w' where g: "gc demo_host demo_gc_flags False ([], True) None demo_gc_store [(''aws-vm'', demo_lister ''plan_0'')] demo_world
      = (Ret (out, [(demo_resource ''plan_0'', None)]), w')"
    using demo_gc [of "''plan_0''"] by blast
  from gc_destroys_only_orphans [OF g] g show ?thesis by auto
qed

theorem gc_reaps_every_orphan_witness:
  "\<exists>attempts out w'. gc demo_host demo_gc_flags False ([], True) None demo_gc_store [(''aws-vm'', demo_lister ''plan_0'')] demo_world
      = (Ret (out, attempts), w') \<and> map fst attempts = filter (reapable demo_gc_store [''run_0'']) [demo_resource ''plan_0'']"
proof -
  obtain out w' where g: "gc demo_host demo_gc_flags False ([], True) None demo_gc_store [(''aws-vm'', demo_lister ''plan_0'')] demo_world
      = (Ret (out, [(demo_resource ''plan_0'', None)]), w')"
    using demo_gc [of "''plan_0''"] by blast
  have "du_ListResources (demo_lister ''plan_0'') False demo_world = (Ret [demo_resource ''plan_0''], demo_world)" by (simp add: demo_lister_def)
  moreover have "[''run_0''] \<noteq> []" "\<not> gf_dryRun demo_gc_flags" "gf_force demo_gc_flags" by (simp_all add: demo_gc_flags_def)
  ultimately have "map fst [(demo_resource ''plan_0'', None :: string option)]
      = filter (reapable demo_gc_store [''run_0'']) (RepriceInstancesLive [demo_resource ''plan_0''] None)"
    by (intro gc_reaps_every_orphan [OF demo_gc_records(1) _ _ _ _ g])
  then have "map fst [(demo_resource ''plan_0'', None :: string option)] = filter (reapable demo_gc_store [''run_0'']) [demo_resource ''plan_0'']"
    unfolding RepriceInstancesLive_def option.case .
  with g show ?thesis by blast
qed

lemma RemoveRunKeyFiles_Ret: "fst (RemoveRunKeyFiles H i w) = Ret ()"
proof -
  have "fst (remove_all fs w) = Ret ()" for fs and w :: "'a cworld"
    by (induction fs arbitrary: w) (simp_all add: cbind_def cupd_def os_Remove_def cret_def)
  then show ?thesis
    unfolding RemoveRunKeyFiles_def by (simp add: cret_def del: remove_all.simps list.map split: sum.split)
qed

lemma demo_gc_returns:
  assumes "ListRecords d = Inr ids" and "ids \<noteq> []"
  shows "\<exists>out attempts w'. gc demo_host demo_gc_flags False ([], True) None d [(''aws-vm'', demo_lister i)] demo_world = (Ret (out, attempts), w')"
proof -
  let ?x = "((''aws-vm'', demo_lister i), demo_resource i)"
  have d1: "\<exists>attempts w'. destroy_orphans demo_host [?x] w = (Ret attempts, w')" for w
  proof -
    obtain w1 where k: "RemoveRunKeyFiles demo_host i w = (Ret (), w1)" using RemoveRunKeyFiles_Ret [of demo_host i w] by (metis prod.collapse)
    have "du_DestroyResource (demo_lister i) False (demo_resource i) w = (Ret (), w)" "ri_RunID (demo_resource i) = i"
      by (simp_all add: demo_lister_def demo_resource_def)
    with k show ?thesis by (auto simp: cbind_def ctry_def cret_def Let_def)
  qed
  obtain sc where sc: "scan_adapters (gc_guards d ids) None [(''aws-vm'', demo_lister i)] \<lparr>gs_orphans = [], gs_standing = [], gs_external = []\<rparr> demo_world
      = (Ret sc, demo_world)" "gs_orphans sc = [] \<or> gs_orphans sc = [?x]"
    by (cases "classify_resource (gc_guards d ids) (demo_resource i)")
      (auto simp: cbind_def ctry_def demo_lister_def cret_def RepriceInstancesLive_def scan_resource_def)
  then show ?thesis
    using d1 [of demo_world] assms(2)
    by (auto simp: gc_def assms(1) cbind_def Let_def demo_gc_flags_def cret_def simp del: scan_adapters.simps destroy_orphans.simps)
qed

lemma demo_gc_save: "\<exists>d path. Save ''1'' WriteOK demo_run demo_gc_store = (d, Inr path)"
proof -
  have i: "r_ID demo_run = ''run_abc1234''" by (simp add: demo_run_def NewRun_def demo_plan_def generateRunID_def)
  have "is_finite (ce_Value (r_Cost demo_run))" "is_finite (ce_SpotRatio (r_Cost demo_run))"
    by (simp_all add: demo_run_def NewRun_def demo_plan_def cost_estimate_zero_def)
  then have m: "marshal_run (ToRecord demo_run) = Inr (JsonDoc (ToRecord demo_run))" by (simp add: marshal_run_def ToRecord_def)
  have v: "run_validateRunID ''run_abc1234'' = Inr ()" by code_simp
  show ?thesis
    by (simp add: Save_def i v m StoreDir_def demo_gc_store_def atomicWriteLocked_def Let_def)
qed

text \<open>
  The records are read before the resources are listed. A run that saves its record and creates its
  machine in between is in no map of the command, and its machine is destroyed as an orphan.
\<close>

lemma gc_reaps_run_started_meanwhile:
  "\<exists>d path out w'. \<not> IsTerminal (r_State demo_run) \<and> Save ''1'' WriteOK demo_run demo_gc_store = (d, Inr path) \<and>
     gc demo_host demo_gc_flags False ([], True) None demo_gc_store [(''aws-vm'', demo_lister (r_PlanID demo_run))] demo_world
       = (Ret (out, [(demo_resource (r_PlanID demo_run), None)]), w')"
proof -
  have "r_PlanID demo_run = ''plan_1''" "r_State demo_run = RunStateCreated"
    by (simp_all add: demo_run_def NewRun_def demo_plan_def)
  then show ?thesis using demo_gc [of "''plan_1''"] demo_gc_save by simp
qed

theorem gc_spares_saved_run_witness:
  "\<exists>d path out attempts w'. Save ''1'' WriteOK demo_run demo_gc_store = (d, Inr path) \<and>
     gc demo_host demo_gc_flags False ([], True) None d [(''aws-vm'', demo_lister ''plan_1'')] demo_world = (Ret (out, attempts), w') \<and>
     (\<forall>e. (demo_resource ''plan_1'', e) \<notin> set attempts)"
proof -
  have r: "r_State demo_run = RunStateCreated" "r_PlanID demo_run = pm_ID (pl_Metadata demo_plan)" "pm_ID (pl_Metadata demo_plan) = ''plan_1''"
    by (simp_all add: demo_run_def NewRun_def demo_plan_def)
  obtain d path where d: "Save ''1'' WriteOK demo_run demo_gc_store = (d, Inr path)" using demo_gc_save by blast
  obtain ids where ids: "ListRecords d = Inr ids" using Save_ok [OF d] by (auto simp: ListRecords_def StoreDir_def demo_gc_store_def)
  have "ids \<noteq> []" using saved_record [OF d ids] by auto
  then obtain out attempts w' where
    g: "gc demo_host demo_gc_flags False ([], True) None d [(''aws-vm'', demo_lister ''plan_1'')] demo_world = (Ret (out, attempts), w')"
    using demo_gc_returns [OF ids] by blast
  have "ri_Tags (demo_resource ''plan_1'') ''dispatcher-run-id'' = vo_Tags (buildVMOptions demo_plan [] [] [] []) ''dispatcher-run-id''"
    "ri_RunID (demo_resource ''plan_1'') = env_value (ri_Tags (demo_resource ''plan_1'')) ''dispatcher-run-id''"
    by (simp_all add: demo_resource_def buildVMOptions_def Let_def r env_value_def)
  from gc_spares_saved_run [OF d _ r(2) this g] r(1) d g show ?thesis by auto
qed


section \<open>The cloud adapter behind the commands\<close>

definition cloud_target :: "'o provider \<Rightarrow> 'o host \<Rightarrow> cloud_config \<Rightarrow> 'o cworld target_adapter" where
  "cloud_target P H cfg =
     \<lparr>ta_ID = target_id cfg, ta_adapter = cloud_adapter P H cfg,
      ta_durable = Some \<lparr>du_Reconnect = cloud_Reconnect P H cfg, du_ExtendWatchdog = cloud_ExtendWatchdog H,
        du_ListResources = cloud_ListResources P cfg, du_DestroyResource = cloud_DestroyResource P cfg\<rparr>\<rparr>"

lemma cloud_Reconnect_known:
  assumes "ho_unmarshal H raw = Inr st"
  shows "\<exists>w'. cloud_Reconnect P H cfg i raw w = (Ret (mk_handle H cfg i st), w') \<and> cw_states w' i = Some st"
proof -
  have "\<exists>w1. applyRegion P region w = (Ret (), w1)" for region
    by (simp add: applyRegion_def cbind_def cupd_def cret_def split: option.split)
  then show ?thesis
    using assms by (auto simp: cloud_Reconnect_def cwrap_def cbind_def cresult_def cret_def Let_def set_vm_def cupd_def mk_handle_def split: prod.splits call.splits)
      (metis Pair_inject call.distinct(1,3))+
qed

lemma cloud_Terminate_known:
  assumes "cw_states w (rh_ID h) = Some st"
  shows "\<exists>w'. cloud_Terminate H h w = (Ret (), w') \<and> cw_states w' = cw_states w"
  using assms by (auto simp: cloud_Terminate_def cbind_def handle_vm_def coutside_def cret_def split: prod.splits)

lemma cloud_Cleanup_known:
  assumes "cw_states w (rh_ID h) = Some st" and "cloud_Cleanup P h w = (cr, w')"
    and "\<And>ctx i out e. fst (pv_DestroyVM P ctx i out) \<noteq> Panics e"
  shows "\<exists>cl. cr = Ret (Some cl) \<and> MachineDestroyed (cv_VMID st) (cl_Success cl) \<in> set (cw_log w')"
proof -
  obtain rd o1 where d: "pv_DestroyVM P False (cv_VMID st) (cw_out w) = (rd, o1)" by fastforce
  have p: "rd \<noteq> Panics e" for e using assms(3) [of False "cv_VMID st" "cw_out w" e] d by simp
  have r: "\<exists>w3. remove_local st w2 = (Ret (), w3) \<and> cw_log w3 = cw_log w2" for w2 :: "'a cworld"
    by (simp add: remove_local_def cbind_def os_Remove_def cupd_def cret_def)
  show ?thesis
  proof (cases rd)
    case (Ret u)
    let ?w2 = "w\<lparr>cw_out := o1, cw_log := cw_log w @ [MachineDestroyed (cv_VMID st) True]\<rparr>"
    obtain w3 where "remove_local st ?w2 = (Ret (), w3)" "cw_log w3 = cw_log ?w2" using r [of ?w2] by blast
    then show ?thesis
      using assms(1,2) d by (auto simp: Ret cloud_Cleanup_def cbind_def handle_vm_def ctry_def destroy_vm_def cret_def)
  next
    case (Err e)
    then show ?thesis
      using assms(1,2) d by (auto simp: cloud_Cleanup_def cbind_def handle_vm_def ctry_def destroy_vm_def cret_def)
  qed (use p in blast)
qed

text \<open>
  C11: Stopping a cloud run that is recorded as running, from another process: from nothing but the record the
  command finds the machine again, asks the provider to destroy it, and returns success exactly if the provider says it
  did. The run it saves at the end is completed then, and otherwise in the state that says that the cleanup failed. If that
  save succeeds the stored record says so; its failure is ignored, and then every record is as it was before.
\<close>

theorem stop_destroys_cloud_machine:
  assumes "LoadRecord d i = Inr rec" and "rec_State rec = RunStateRunning" and "resolve (rec_TargetID rec) = Inr (cloud_target P H cfg)"
    and "rec_HandleState rec = Some raw" and "rec_HandleID rec \<noteq> []" and "ho_unmarshal H raw = Inr st"
    and "\<And>ctx i out e. fst (pv_DestroyVM P ctx i out) \<noteq> Panics e"
  shows "\<exists>r ok d' saved w'. stop_run resolve plans force clock rnd fault i d w
      = (Ret (if ok then Inr () else Inl ''cleanup failed''), d', w') \<and>
    MachineDestroyed (cv_VMID st) ok \<in> set (cw_log w') \<and>
    r_ID r = rec_ID rec \<and> r_State r = (if ok then RunStateCompleted else RunStateCleanupFailed) \<and>
    Save rnd fault r d = (d', saved) \<and>
    (case saved of
       Inr _ \<Rightarrow> \<exists>rec'. LoadRecord d' (rec_ID rec) = Inr rec' \<and> rec_State rec' = (if ok then RunStateCompleted else RunStateCleanupFailed)
     | Inl _ \<Rightarrow> \<forall>j. LoadRecord d' j = LoadRecord d j)"
proof -
  let ?h = "mk_handle H cfg (rec_HandleID rec) st"
  obtain w1 where w1: "cloud_Reconnect P H cfg (rec_HandleID rec) raw w = (Ret ?h, w1)" "cw_states w1 (rec_HandleID rec) = Some st"
    using cloud_Reconnect_known [OF assms(6)] by blast
  have id: "rh_ID ?h = rec_HandleID rec" by (simp add: mk_handle_def)
  obtain w2 where w2: "cloud_Terminate H ?h w1 = (Ret (), w2)" "cw_states w2 = cw_states w1"
    using cloud_Terminate_known [of w1 ?h st H] w1(2) id by auto
  obtain cr w3 where c: "cloud_Cleanup P ?h w2 = (cr, w3)" by fastforce
  have "cw_states w2 (rh_ID ?h) = Some st" using w1(2) w2(2) id by simp
  from cloud_Cleanup_known [OF this c assms(7)] obtain cl where
    cl: "cr = Ret (Some cl)" "MachineDestroyed (cv_VMID st) (cl_Success cl) \<in> set (cw_log w3)" by blast
  let ?t = "cloud_target P H cfg"
  obtain du where du: "ta_durable ?t = Some du" "du_Reconnect du (rec_HandleID rec) raw w = (Ret ?h, w1)"
    using w1(1) by (simp add: cloud_target_def)
  have t: "ad_Terminate (ta_adapter ?t) ?h w1 = (Ret (), w2)" "\<And>e. Ret () \<noteq> Panics e"
    "ad_Cleanup (ta_adapter ?t) ?h w2 = (Ret (Some cl), w3)" "\<And>e. Ret (Some cl) \<noteq> Panics e"
    using w2(1) c cl(1) by (simp_all add: cloud_target_def cloud_adapter_def)
  have "cl_Success cl \<longleftrightarrow> (case Ret (Some cl) of Ret (Some cl) \<Rightarrow> cl_Success cl | Ret None \<Rightarrow> True | _ \<Rightarrow> False)" by simp
  from stop_tears_down [of d i rec resolve ?t, OF assms(1-3) du(1) assms(4,5) du(2) t this] obtain r where
    run: "stop_run resolve plans force clock rnd fault i d w
      = (Ret (if cl_Success cl then Inr () else Inl ''cleanup failed''), fst (Save rnd fault r d), w3)"
    and r: "r_ID r = rec_ID rec" "r_State r = (if cl_Success cl then RunStateCompleted else RunStateCleanupFailed)" by blast
  obtain d' saved where s: "Save rnd fault r d = (d', saved)" by fastforce
  have "rec_State (ToRecord r) = r_State r" by (simp add: ToRecord_def)
  then have "case saved of
       Inr _ \<Rightarrow> \<exists>rec'. LoadRecord d' (rec_ID rec) = Inr rec' \<and> rec_State rec' = (if cl_Success cl then RunStateCompleted else RunStateCleanupFailed)
     | Inl _ \<Rightarrow> \<forall>j. LoadRecord d' j = LoadRecord d j"
    using Save_record [OF s] r by (auto split: sum.split)
  with run [unfolded s fst_conv] cl(2) r s show ?thesis by blast
qed


definition demo_known_host :: "unit host" where
  "demo_known_host = demo_host\<lparr>ho_unmarshal := \<lambda>_. Inr demo_vm_state\<rparr>"

theorem stop_destroys_cloud_machine_witness:
  "\<exists>ok d' w'. stop_run (\<lambda>_. Inr (cloud_target demo_provider demo_known_host demo_config)) demo_plan_dir False (\<lambda>_. 20) ''x'' WriteOK ''run_1''
      demo_store demo_world = (Ret (if ok then Inr () else Inl ''cleanup failed''), d', w') \<and>
    MachineDestroyed ''i-1'' ok \<in> set (cw_log w')"
proof -
  have u: "ho_unmarshal demo_known_host ''s'' = Inr demo_vm_state" by (simp add: demo_known_host_def)
  have p: "fst (pv_DestroyVM demo_provider ctx i out) \<noteq> Panics e" for ctx i out e by (simp add: demo_provider_def)
  have h: "rec_HandleID demo_record \<noteq> []" and i: "cv_VMID demo_vm_state = ''i-1''"
    by (simp_all add: demo_record_fields demo_vm_state_def initial_state_def Let_def demo_vm_def)
  from stop_destroys_cloud_machine [where resolve = "\<lambda>_. Inr (cloud_target demo_provider demo_known_host demo_config)" and
      plans = demo_plan_dir and force = False and clock = "\<lambda>_. 20" and rnd = "''x''" and fault = WriteOK and w = demo_world,
      OF demo_LoadRecord demo_record_fields(1) refl demo_record_fields(3) h u p]
  show ?thesis unfolding i by blast
qed

end
