(* ===== verification/Cloud_Provider.thy ===== *)
theory Cloud_Provider
  imports Cloud_Adapter
begin

text \<open>
  What the cloud providers share: running their command-line tools with and without retries
  (\<^verbatim>\<open>runCLI\<close>, \<^verbatim>\<open>retryCLIOutput\<close> of \<^verbatim>\<open>internal/cloudvm/retry.go\<close>) and waiting for a machine to accept
  connections (\<^verbatim>\<open>internal/cloudvm/ssh_wait.go\<close>). The host is a record of functions on a world outside; beside it
  the provider keeps its region, a counter of creations, the temporary files, and a log of every
  command line it cmds, with its output if it succeeded.
\<close>

section \<open>The outside\<close>

text \<open>
  \<open>ch_polls\<close> is how often a polling loop goes round before its deadline (or, if the flag is set, the cancellation)
  is selected; \<open>ch_order\<close> the order in which Go iterates over a map; \<open>ch_rnd\<close> and \<open>ch_fault\<close> are the random names and
  the fault of the next temporary file.
\<close>

record 'c cli_host =
  ch_run :: "bool \<Rightarrow> string \<Rightarrow> string list \<Rightarrow> 'c \<Rightarrow> (string \<times> cli_err option) \<times> 'c"
  ch_look :: "string \<Rightarrow> string option"
  ch_sleep :: "bool \<Rightarrow> duration \<Rightarrow> 'c \<Rightarrow> cli_err option \<times> 'c"
  ch_polls :: "bool \<Rightarrow> 'c \<Rightarrow> (nat \<times> bool) \<times> 'c"
  ch_dial :: "string \<Rightarrow> 'c \<Rightarrow> bool \<times> 'c"
  ch_readFile :: "string \<Rightarrow> string result"
  ch_env :: "string \<Rightarrow> string"
  ch_now :: "'c \<Rightarrow> time"
  ch_order :: "(string \<rightharpoonup> string) \<Rightarrow> string list"
  ch_fault :: "'c \<Rightarrow> temp_fault"
  ch_rnd :: "'c \<Rightarrow> nat \<Rightarrow> string result"

record 'c pworld =
  pw_out :: 'c
  pw_region :: string
  pw_seq :: nat
  pw_temps :: temp_dir
  pw_calls :: "(string list \<times> string option) list"

section \<open>Sequencing\<close>

type_synonym ('c, 'a) pm = "'c pworld \<Rightarrow> (cli_err + 'a) \<times> 'c pworld"

definition plain_err :: "string \<Rightarrow> cli_err" where
  "plain_err t = \<lparr>er_Text = t, er_Ctx = False, er_Cli = False, er_Stderr = []\<rparr>"

definition ctx_err :: cli_err where
  "ctx_err = (plain_err ''context canceled'')\<lparr>er_Ctx := True\<rparr>"

definition pret :: "'a \<Rightarrow> ('c, 'a) pm" where
  "pret a = (\<lambda>w. (Inr a, w))"

definition pfail :: "cli_err \<Rightarrow> ('c, 'a) pm" where
  "pfail e = (\<lambda>w. (Inl e, w))"

definition pbind :: "('c, 'a) pm \<Rightarrow> ('a \<Rightarrow> ('c, 'b) pm) \<Rightarrow> ('c, 'b) pm" where
  "pbind m k = (\<lambda>w. case m w of (Inl e, w') \<Rightarrow> (Inl e, w') | (Inr a, w') \<Rightarrow> k a w')"

text \<open>\<^verbatim>\<open>fmt.Errorf("label: %w", err)\<close>.\<close>

definition err_label :: "string \<Rightarrow> cli_err \<Rightarrow> cli_err" where
  "err_label l e = e\<lparr>er_Text := l @ '': '' @ er_Text e\<rparr>"

definition pwrap :: "string \<Rightarrow> ('c, 'a) pm \<Rightarrow> ('c, 'a) pm" where
  "pwrap l m = (\<lambda>w. case m w of (Inl e, w') \<Rightarrow> (Inl (err_label l e), w') | res \<Rightarrow> res)"

definition ptry :: "('c, 'a) pm \<Rightarrow> ('c, cli_err + 'a) pm" where
  "ptry m = (\<lambda>w. case m w of (r, w') \<Rightarrow> (Inr r, w'))"

definition pgets :: "('c pworld \<Rightarrow> 'a) \<Rightarrow> ('c, 'a) pm" where
  "pgets f = (\<lambda>w. (Inr (f w), w))"

definition pupd :: "('c pworld \<Rightarrow> 'c pworld) \<Rightarrow> ('c, unit) pm" where
  "pupd f = (\<lambda>w. (Inr (), f w))"

definition poutside :: "('c \<Rightarrow> 'a \<times> 'c) \<Rightarrow> ('c, 'a) pm" where
  "poutside f = (\<lambda>w. case f (pw_out w) of (r, c) \<Rightarrow> (Inr r, w\<lparr>pw_out := c\<rparr>))"

definition presult :: "'a result \<Rightarrow> ('c, 'a) pm" where
  "presult r = (case r of Inl e \<Rightarrow> pfail (plain_err e) | Inr a \<Rightarrow> pret a)"

text \<open>A deferred call whose own error is ignored.\<close>

definition pfinally :: "('c, 'a) pm \<Rightarrow> ('c, unit) pm \<Rightarrow> ('c, 'a) pm" where
  "pfinally m d = (\<lambda>w. case m w of (r, w') \<Rightarrow> (r, snd (d w')))"

text \<open>A deferred call that runs unless the body succeeds.\<close>

definition pon_err :: "('c, 'a) pm \<Rightarrow> ('c, unit) pm \<Rightarrow> ('c, 'a) pm" where
  "pon_err m d = (\<lambda>w. case m w of (Inl e, w') \<Rightarrow> (Inl e, snd (d w')) | res \<Rightarrow> res)"

definition as_call :: "('c, 'a) pm \<Rightarrow> 'c pworld \<Rightarrow> 'a call \<times> 'c pworld" where
  "as_call m w = (case m w of (Inl e, w') \<Rightarrow> (Err (er_Text e), w') | (Inr a, w') \<Rightarrow> (Ret a, w'))"

lemma pbind_presult_Inr: "pbind (pwrap l (presult (Inr a))) k = k a"
  by (simp add: presult_def pwrap_def pret_def pbind_def)

lemma pbind_pupd: "pbind (pupd f) k w = k () (f w)"
  by (simp add: pbind_def pupd_def)

lemma pbind_pgets: "pbind (pgets f) k w = k (f w) w"
  by (simp add: pbind_def pgets_def)

section \<open>Commands\<close>

definition exec_cli :: "'c cli_host \<Rightarrow> bool \<Rightarrow> string \<Rightarrow> string list \<Rightarrow> ('c, string) pm" where
  "exec_cli H ctx bin args = (\<lambda>w.
     case ch_run H ctx bin args (pw_out w) of
       ((out, err), c) \<Rightarrow>
         (case err of None \<Rightarrow> Inr out | Some e \<Rightarrow> Inl e,
          w\<lparr>pw_out := c, pw_calls := pw_calls w @ [(args, case err of None \<Rightarrow> Some out | Some _ \<Rightarrow> None)]\<rparr>))"

definition runCLI :: "'c cli_host \<Rightarrow> bool \<Rightarrow> string \<Rightarrow> string list \<Rightarrow> ('c, string) pm" where
  "runCLI H ctx bin args = (\<lambda>w.
     case exec_cli H ctx bin args w of (Inl e, w') \<Rightarrow> (Inl (newCLIError e), w') | res \<Rightarrow> res)"

text \<open>
  A command under \<^verbatim>\<open>Retry\<close> with the default policy; the output is that of the attempt that succeeded.
\<close>

definition retried_by :: "'c cli_host \<Rightarrow> bool \<Rightarrow> (cli_err \<Rightarrow> cli_err) \<Rightarrow> ('c, string) pm \<Rightarrow> ('c, string) pm" where
  "retried_by H ctx f m = (\<lambda>w.
     case Retry DefaultRetry (\<lambda>e. IsTransient (Some e))
            (\<lambda>(w, out). case m w of (Inl e, w') \<Rightarrow> (Some (f e), (w', out)) | (Inr out', w') \<Rightarrow> (None, (w', out')))
            (\<lambda>d (w, out). case ch_sleep H ctx d (pw_out w) of (r, c) \<Rightarrow> (r, (w\<lparr>pw_out := c\<rparr>, out))) (w, []) of
       (Some e, (w', _)) \<Rightarrow> (Inl e, w')
     | (None, (w', out)) \<Rightarrow> (Inr out, w'))"

definition retried :: "'c cli_host \<Rightarrow> bool \<Rightarrow> string \<Rightarrow> ('c, string) pm \<Rightarrow> ('c, string) pm" where
  "retried H ctx label m = retried_by H ctx (wrapExecError label) m"

definition retryCLIOutput :: "'c cli_host \<Rightarrow> bool \<Rightarrow> string \<Rightarrow> string \<Rightarrow> string list \<Rightarrow> ('c, string) pm" where
  "retryCLIOutput H ctx bin label args = retried H ctx label (exec_cli H ctx bin args)"

definition tag_list :: "'c cli_host \<Rightarrow> (string \<rightharpoonup> string) \<Rightarrow> (string \<times> string) list" where
  "tag_list H tags = map (\<lambda>k. (k, env_value tags k)) (ch_order H tags)"

definition write_temp :: "'c cli_host \<Rightarrow> string \<Rightarrow> string \<Rightarrow> ('c, string) pm" where
  "write_temp H pattern contents = (\<lambda>w.
     case WriteSecureTempFile pattern contents (ch_now H (pw_out w)) (ch_fault H (pw_out w)) (ch_rnd H (pw_out w)) (pw_temps w) of
       (Inl e, t) \<Rightarrow> (Inl (plain_err e), w\<lparr>pw_temps := t\<rparr>)
     | (Inr f, t) \<Rightarrow> (Inr f, w\<lparr>pw_temps := t\<rparr>))"

definition remove_temp :: "string \<Rightarrow> ('c, unit) pm" where
  "remove_temp f = pupd (\<lambda>w. w\<lparr>pw_temps := (pw_temps w)(f := None)\<rparr>)"

text \<open>What names the resources of a run: its id, or the machine's name for lack of one.\<close>

definition run_base_name :: "vm_options \<Rightarrow> string" where
  "run_base_name opts =
     (let i = env_value (vo_Tags opts) ''dispatcher-run-id'' in if i = [] then vo_Name opts else i)"

definition vm_gone :: "string \<Rightarrow> vm_info" where
  "vm_gone vmID = \<lparr>vi_ID = vmID, vi_Name = [], vi_IP = [], vi_SSHPort = 0, vi_SSHKeyPath = [], vi_SSHUser = [],
     vi_State = VMStateTerminated, vi_InstanceType = [], vi_CreatedAt = 0, vi_Tags = Map.empty\<rparr>"

text \<open>\<^verbatim>\<open>VMState(s)\<close>: the states are strings; the named ones are constants.\<close>

definition vm_state_of :: "string \<Rightarrow> vm_state" where
  "vm_state_of s =
     (if s = ''pending'' then VMStatePending
      else if s = ''running'' then VMStateRunning
      else if s = ''stopping'' then VMStateStopping
      else if s = ''terminated'' then VMStateTerminated
      else if s = ''error'' then VMStateError
      else VMStateOther s)"

text \<open>A command whose two outputs are read together, also when it fails.\<close>

definition exec_combined :: "'c cli_host \<Rightarrow> bool \<Rightarrow> string \<Rightarrow> string list \<Rightarrow> ('c, string \<times> cli_err option) pm" where
  "exec_combined H ctx bin args = (\<lambda>w.
     case ch_run H ctx bin args (pw_out w) of
       ((out, err), c) \<Rightarrow>
         (Inr (out, err),
          w\<lparr>pw_out := c, pw_calls := pw_calls w @ [(args, case err of None \<Rightarrow> Some out | Some _ \<Rightarrow> None)]\<rparr>))"

definition pignore :: "('c, 'a) pm \<Rightarrow> ('c, unit) pm" where
  "pignore m = pbind (ptry m) (\<lambda>_. pret ())"

text \<open>The one machine with the run's tag, if a failed creation left it behind.\<close>

definition adoptCreatedVM ::
  "(bool \<Rightarrow> (string \<rightharpoonup> string) \<Rightarrow> ('c, vm_info list) pm) \<Rightarrow> (bool \<Rightarrow> string \<Rightarrow> ('c, vm_info) pm) \<Rightarrow> string \<Rightarrow> ('c, vm_info option) pm" where
  "adoptCreatedVM ListVMs GetVM runID =
     (if runID = [] then pret None
      else pbind (ptry (ListVMs False [''dispatcher-run-id'' \<mapsto> runID])) (\<lambda>r.
             case r of
               Inl _ \<Rightarrow> pret None
             | Inr vms \<Rightarrow>
                 if length vms \<noteq> 1 then pret None
                 else pbind (ptry (GetVM False (vi_ID (hd vms)))) (\<lambda>g.
                        case g of Inl _ \<Rightarrow> pret None | Inr full \<Rightarrow> pret (Some full))))"

text \<open>A secret file for the time of an action, which gets its path; or none, if there is nothing to write.\<close>

definition with_temp :: "'c cli_host \<Rightarrow> string \<Rightarrow> string \<Rightarrow> string \<Rightarrow> (string \<Rightarrow> ('c, 'a) pm) \<Rightarrow> ('c, 'a) pm" where
  "with_temp H label pattern contents k =
     pbind (pwrap label (write_temp H pattern contents)) (\<lambda>f. pfinally (k f) (remove_temp f))"

section \<open>Waiting for ssh\<close>

primrec dial_loop :: "'c cli_host \<Rightarrow> bool \<Rightarrow> string \<Rightarrow> duration \<Rightarrow> bool \<Rightarrow> nat \<Rightarrow> ('c, unit) pm" where
  "dial_loop H ctx addr timeout cancelled 0 =
     pfail (if cancelled then ctx_err else plain_err (''timeout waiting for SSH on '' @ addr @ '' after '' @ duration_String timeout))"
| "dial_loop H ctx addr timeout cancelled (Suc n) =
     pbind (poutside (ch_dial H addr)) (\<lambda>ok.
       if ok then pbind (poutside (ch_sleep H ctx (10 * Second))) (\<lambda>e. case e of Some e \<Rightarrow> pfail e | None \<Rightarrow> pret ())
       else dial_loop H ctx addr timeout cancelled n)"

definition WaitForSSHOnPort :: "'c cli_host \<Rightarrow> bool \<Rightarrow> string \<Rightarrow> int \<Rightarrow> duration \<Rightarrow> ('c, unit) pm" where
  "WaitForSSHOnPort H ctx host port timeout =
     (let addr = (if CHR '':'' \<in> set host then ''['' @ host @ '']'' else host) @ '':'' @ show_int port
      in pbind (poutside (ch_polls H ctx)) (\<lambda>(n, cancelled). dial_loop H ctx addr timeout cancelled n))"

definition WaitForSSH :: "'c cli_host \<Rightarrow> bool \<Rightarrow> string \<Rightarrow> duration \<Rightarrow> ('c, unit) pm" where
  "WaitForSSH H ctx ip timeout = WaitForSSHOnPort H ctx ip 22 timeout"

section \<open>What a sequence of commands adds to the log\<close>

text \<open>
  From a world in region \<open>R\<close>, the action keeps the region and appends to the log, and its outcome and what it
  appends satisfy \<open>Q\<close>.
\<close>

type_synonym cli_log = "(string list \<times> string option) list"

definition logs :: "string \<Rightarrow> ('c, 'a) pm \<Rightarrow> (cli_err + 'a \<Rightarrow> cli_log \<Rightarrow> bool) \<Rightarrow> bool" where
  "logs R m Q \<longleftrightarrow> (\<forall>w. pw_region w = R \<longrightarrow>
     (\<exists>new. pw_calls (snd (m w)) = pw_calls w @ new \<and> pw_region (snd (m w)) = R \<and> Q (fst (m w)) new))"

lemma logsD:
  assumes "logs R m Q" "m w = (r, w')" "pw_region w = R"
  shows "\<exists>new. pw_calls w' = pw_calls w @ new \<and> pw_region w' = R \<and> Q r new"
  using assms unfolding logs_def by (metis fst_conv snd_conv)

lemma logsI:
  assumes "\<And>w r w'. m w = (r, w') \<Longrightarrow> pw_region w = R \<Longrightarrow> \<exists>new. pw_calls w' = pw_calls w @ new \<and> pw_region w' = R \<and> Q r new"
  shows "logs R m Q"
  using assms unfolding logs_def by (metis prod.collapse)

lemma logs_weaken: "logs R m P \<Longrightarrow> (\<And>r n. P r n \<Longrightarrow> Q r n) \<Longrightarrow> logs R m Q"
  unfolding logs_def by blast

lemma logs_pret: "Q (Inr a) [] \<Longrightarrow> logs R (pret a) Q"
  by (auto simp: logs_def pret_def)

lemma logs_pfail: "Q (Inl e) [] \<Longrightarrow> logs R (pfail e) Q"
  by (auto simp: logs_def pfail_def)

lemma logs_pgets: "(\<And>a. Q (Inr a) []) \<Longrightarrow> logs R (pgets f) Q"
  by (auto simp: logs_def pgets_def)

lemma logs_pupd: "(\<And>w. pw_calls (f w) = pw_calls w \<and> pw_region (f w) = pw_region w) \<Longrightarrow> Q (Inr ()) [] \<Longrightarrow> logs R (pupd f) Q"
  by (auto simp: logs_def pupd_def)

lemma logs_poutside: "(\<And>a. Q (Inr a) []) \<Longrightarrow> logs R (poutside f) Q"
  by (auto simp: logs_def poutside_def split: prod.split)

lemma logs_presult: "(\<And>e. Q (Inl e) []) \<Longrightarrow> (\<And>a. r = Inr a \<Longrightarrow> Q (Inr a) []) \<Longrightarrow> logs R (presult r) Q"
  by (auto simp: presult_def intro: logs_pret logs_pfail split: sum.split)

lemma logs_exec_cli:
  "(\<And>e. Q (Inl e) [(args, None)]) \<Longrightarrow> (\<And>out. Q (Inr out) [(args, Some out)]) \<Longrightarrow> logs R (exec_cli H ctx bin args) Q"
  by (auto simp: logs_def exec_cli_def split: prod.split option.split)

lemma logs_runCLI:
  assumes "\<And>e. Q (Inl e) [(args, None)]" "\<And>out. Q (Inr out) [(args, Some out)]"
  shows "logs R (runCLI H ctx bin args) Q"
proof (rule logsI)
  fix w r w'
  assume run: "runCLI H ctx bin args w = (r, w')" and R: "pw_region w = R"
  obtain r0 w0 where ex: "exec_cli H ctx bin args w = (r0, w0)" by force
  have "\<exists>new. pw_calls w0 = pw_calls w @ new \<and> pw_region w0 = R
          \<and> new = [(args, case r0 of Inl e \<Rightarrow> None | Inr out \<Rightarrow> Some out)]"
    by (rule logsD [OF logs_exec_cli ex R]) auto
  with run ex assms show "\<exists>new. pw_calls w' = pw_calls w @ new \<and> pw_region w' = R \<and> Q r new"
    by (auto simp: runCLI_def split: sum.splits)
qed

lemma logs_pbind:
  assumes m: "logs R m P" and k: "\<And>a. logs R (k a) (K a)"
    and err: "\<And>e n. P (Inl e) n \<Longrightarrow> Q (Inl e) n"
    and ok: "\<And>a n r n'. P (Inr a) n \<Longrightarrow> K a r n' \<Longrightarrow> Q r (n @ n')"
  shows "logs R (pbind m k) Q"
proof (rule logsI)
  fix w r w'
  assume run: "pbind m k w = (r, w')" and R: "pw_region w = R"
  obtain r1 w1 where m1: "m w = (r1, w1)" by force
  from logsD [OF m m1 R] obtain n where n: "pw_calls w1 = pw_calls w @ n" "pw_region w1 = R" "P r1 n" by blast
  show "\<exists>new. pw_calls w' = pw_calls w @ new \<and> pw_region w' = R \<and> Q r new"
  proof (cases r1)
    case (Inl e)
    with run m1 n err show ?thesis by (auto simp: pbind_def)
  next
    case (Inr a)
    with run m1 have "k a w1 = (r, w')" by (simp add: pbind_def)
    from logsD [OF k this n(2)] n Inr ok show ?thesis by fastforce
  qed
qed

lemma logs_pwrap: "logs R m P \<Longrightarrow> (\<And>e n. P (Inl e) n \<Longrightarrow> Q (Inl (err_label l e)) n) \<Longrightarrow> (\<And>a n. P (Inr a) n \<Longrightarrow> Q (Inr a) n)
  \<Longrightarrow> logs R (pwrap l m) Q"
  unfolding logs_def pwrap_def by (fastforce split: prod.split sum.split)

lemma logs_ptry: "logs R m (\<lambda>r. Q (Inr r)) \<Longrightarrow> logs R (ptry m) Q"
  unfolding logs_def ptry_def by (fastforce split: prod.split)

lemma logs_pfinally:
  assumes m: "logs R m P" and d: "logs R d D" and ok: "\<And>r n r' n'. P r n \<Longrightarrow> D r' n' \<Longrightarrow> Q r (n @ n')"
  shows "logs R (pfinally m d) Q"
proof (rule logsI)
  fix w r w'
  assume run: "pfinally m d w = (r, w')" and R: "pw_region w = R"
  obtain r1 w1 where m1: "m w = (r1, w1)" by force
  from logsD [OF m m1 R] obtain n where n: "pw_calls w1 = pw_calls w @ n" "pw_region w1 = R" "P r1 n" by blast
  obtain r2 w2 where d1: "d w1 = (r2, w2)" by force
  from logsD [OF d d1 n(2)] n m1 d1 run ok show "\<exists>new. pw_calls w' = pw_calls w @ new \<and> pw_region w' = R \<and> Q r new"
    by (fastforce simp: pfinally_def)
qed

lemma logs_pon_err:
  assumes m: "logs R m P" and d: "logs R d D"
    and err: "\<And>e n r' n'. P (Inl e) n \<Longrightarrow> D r' n' \<Longrightarrow> Q (Inl e) (n @ n')" and ok: "\<And>a n. P (Inr a) n \<Longrightarrow> Q (Inr a) n"
  shows "logs R (pon_err m d) Q"
proof (rule logsI)
  fix w r w'
  assume run: "pon_err m d w = (r, w')" and R: "pw_region w = R"
  obtain r1 w1 where m1: "m w = (r1, w1)" by force
  from logsD [OF m m1 R] obtain n where n: "pw_calls w1 = pw_calls w @ n" "pw_region w1 = R" "P r1 n" by blast
  obtain r2 w2 where d1: "d w1 = (r2, w2)" by force
  show "\<exists>new. pw_calls w' = pw_calls w @ new \<and> pw_region w' = R \<and> Q r new"
  proof (cases r1)
    case (Inl e)
    with logsD [OF d d1 n(2)] n m1 d1 run err show ?thesis by (fastforce simp: pon_err_def)
  next
    case (Inr a)
    with n m1 run ok show ?thesis by (auto simp: pon_err_def)
  qed
qed

lemma logs_sum: "(\<And>e. x = Inl e \<Longrightarrow> logs R (g e) Q) \<Longrightarrow> (\<And>a. x = Inr a \<Longrightarrow> logs R (h a) Q)
  \<Longrightarrow> logs R (case x of Inl e \<Rightarrow> g e | Inr a \<Rightarrow> h a) Q"
  by (simp split: sum.split)

lemma logs_if: "(b \<Longrightarrow> logs R m Q) \<Longrightarrow> (\<not> b \<Longrightarrow> logs R m' Q) \<Longrightarrow> logs R (if b then m else m') Q"
  by simp

lemma logs_noerr:
  assumes "\<And>a. logs R (k a) (\<lambda>r n. Q r n \<and> \<not> isl r)" "logs R m (\<lambda>r n. P n)" "\<And>n n' r. P n \<Longrightarrow> Q r n' \<Longrightarrow> Q r (n @ n')"
  shows "logs R (pbind (ptry m) k) (\<lambda>r n. Q r n \<and> \<not> isl r)"
  by (rule logs_pbind [where P = "\<lambda>r n. P n \<and> \<not> isl r", OF logs_ptry assms(1)]) (use assms(2, 3) in auto)

text \<open>Retries repeat one command line; at most the last attempt succeeds.\<close>

definition attempts :: "string list \<Rightarrow> cli_err + string \<Rightarrow> cli_log \<Rightarrow> bool" where
  "attempts args r new = (case r of
     Inl _ \<Rightarrow> (\<exists>k. new = replicate k (args, None))
   | Inr out \<Rightarrow> (\<exists>k. new = replicate k (args, None) @ [(args, Some out)]))"

lemma attempts_fail: "attempts args (Inl e) [(args, None)]"
  unfolding attempts_def by (auto intro: exI [of _ 1])

lemma attempts_ok: "attempts args (Inr out) [(args, Some out)]"
  unfolding attempts_def by simp

lemma attempts_more: "attempts args r new \<Longrightarrow> attempts args r ((args, None) # new)"
  unfolding attempts_def by (auto split: sum.splits) (metis append_Cons replicate_Suc)+

lemma logs_retry_loop:
  assumes m: "logs R m (\<lambda>r n. n = [(args, case r of Inl e \<Rightarrow> None | Inr out \<Rightarrow> Some out)])"
    and op: "act = (\<lambda>(w, out). case m w of (Inl e, w') \<Rightarrow> (Some (f e), (w', out)) | (Inr out', w') \<Rightarrow> (None, (w', out')))"
    and sl: "rest = (\<lambda>d (w, out). case ch_sleep H ctx d (pw_out w) of (r, c) \<Rightarrow> (r, (w\<lparr>pw_out := c\<rparr>, out)))"
    and loop: "retry_loop mx cl act rest (Suc left) delay (w, out) = (err, (w', out'))" and R: "pw_region w = R"
  shows "\<exists>new. pw_calls w' = pw_calls w @ new \<and> pw_region w' = R
           \<and> attempts args (case err of None \<Rightarrow> Inr out' | Some e \<Rightarrow> Inl e) new"
  using loop R
proof (induction left arbitrary: delay w out)
  case 0
  obtain r1 w1 where m1: "m w = (r1, w1)" by force
  from logsD [OF m m1 0(2)] 0(1) m1 show ?case
    by (auto simp: op attempts_fail attempts_ok split: sum.splits)
next
  case (Suc left)
  obtain r1 w1 where m1: "m w = (r1, w1)" by force
  from logsD [OF m m1 Suc(3)]
  have w1: "pw_calls w1 = pw_calls w @ [(args, case r1 of Inl e \<Rightarrow> None | Inr out \<Rightarrow> Some out)]" "pw_region w1 = R" by auto
  show ?case
  proof (cases r1)
    case (Inr out1)
    with Suc(2) m1 w1 show ?thesis by (auto simp: op attempts_ok)
  next
    case (Inl e)
    obtain c s2 where s2: "ch_sleep H ctx delay (pw_out w1) = (c, s2)" by force
    consider "err = Some (f e)" "w' = w1"
      | e' where "err = Some e'" "w' = w1\<lparr>pw_out := s2\<rparr>"
      | d where "retry_loop mx cl act rest (Suc left) d (w1\<lparr>pw_out := s2\<rparr>, out) = (err, (w', out'))"
      using Suc(2) m1 Inl s2 by (auto simp: op sl Let_def simp del: retry_loop.simps(2) split: if_splits option.splits
          simp: retry_loop.simps(2) [of _ _ _ _ "Suc left"])
    then show ?thesis
    proof cases
      case 3
      from Suc.IH [OF this] w1 obtain new where
        "pw_calls w' = pw_calls w1 @ new" "pw_region w' = R" "attempts args (case err of None \<Rightarrow> Inr out' | Some e \<Rightarrow> Inl e) new"
        by auto
      with w1 Inl show ?thesis
        by (auto intro: attempts_more)
    qed (use w1 Inl in \<open>auto simp: attempts_fail\<close>)
  qed
qed

lemma logs_retried_by:
  assumes m: "logs R m (\<lambda>r n. n = [(args, case r of Inl e \<Rightarrow> None | Inr out \<Rightarrow> Some out)])"
  shows "logs R (retried_by H ctx f m) (attempts args)"
proof (rule logsI)
  fix w r w'
  assume run: "retried_by H ctx f m w = (r, w')" and R: "pw_region w = R"
  let ?op = "\<lambda>(w, out). case m w of (Inl e, w') \<Rightarrow> (Some (f e), (w', out)) | (Inr out', w') \<Rightarrow> (None, (w', out'))"
  let ?sl = "\<lambda>d (w, out). case ch_sleep H ctx d (pw_out w) of (r, c) \<Rightarrow> (r, (w\<lparr>pw_out := c\<rparr>, out))"
  let ?L = "retry_loop (rp_Max DefaultRetry) (\<lambda>e. IsTransient (Some e)) ?op ?sl (Suc 3) (500 * Millisecond) (w, [])"
  obtain err w2 out2 where lp: "?L = (err, (w2, out2))" by (rule prod_cases3)
  have four: "nat 4 = Suc 3" by simp
  have "Retry DefaultRetry (\<lambda>e. IsTransient (Some e)) ?op ?sl (w, []) = ?L"
    unfolding Retry_def by (simp add: DefaultRetry_def Let_def four Millisecond_def del: retry_loop.simps)
  with run lp have "w' = w2" "r = (case err of None \<Rightarrow> Inr out2 | Some e \<Rightarrow> Inl e)"
    by (auto simp: retried_by_def split: option.splits)
  with logs_retry_loop [OF m refl refl lp R]
  show "\<exists>new. pw_calls w' = pw_calls w @ new \<and> pw_region w' = R \<and> attempts args r new" by simp
qed

lemmas logs_retried = logs_retried_by [of _ _ _ _ _ "wrapExecError _", folded retried_def]

lemma logs_retryCLIOutput: "logs R (retryCLIOutput H ctx bin label args) (attempts args)"
  unfolding retryCLIOutput_def by (rule logs_retried) (rule logs_exec_cli; simp)

text \<open>
  A function of one call, collected over a log: what the calls oblige the program to run later, or the
  calls of one kind. An action is quiet if it collects nothing.
\<close>

definition picks :: "(string list \<times> string option \<Rightarrow> 'x list) \<Rightarrow> cli_log \<Rightarrow> 'x list" where
  "picks f n = concat (map f n)"

lemma picks_simps [simp]:
  "picks f [] = []" "picks f (c # n) = f c @ picks f n" "picks f (n @ n') = picks f n @ picks f n'"
  by (simp_all add: picks_def)

lemma picks_replicate: "f c = [] \<Longrightarrow> picks f (replicate k c) = []"
  by (induction k) auto

definition cmds :: "cli_log \<Rightarrow> string list list" where
  "cmds n = map fst n"

lemma cmds_simps [simp]: "cmds [] = []" "cmds (c # n) = fst c # cmds n" "cmds (n @ n') = cmds n @ cmds n'"
  by (simp_all add: cmds_def)

definition quiet :: "(string list \<times> string option \<Rightarrow> 'x list) \<Rightarrow> string \<Rightarrow> ('c, 'a) pm \<Rightarrow> bool" where
  "quiet f R m \<longleftrightarrow> logs R m (\<lambda>r n. picks f n = [])"

lemma quiet_logs: "quiet f R m \<Longrightarrow> logs R m (\<lambda>r n. picks f n = [])"
  by (simp add: quiet_def)

lemma logs_quiet_pbind:
  "quiet f R m \<Longrightarrow> (\<And>a. logs R (k a) Q) \<Longrightarrow> (\<And>e n. picks f n = [] \<Longrightarrow> Q (Inl e) n)
    \<Longrightarrow> (\<And>r n n'. picks f n = [] \<Longrightarrow> Q r n' \<Longrightarrow> Q r (n @ n')) \<Longrightarrow> logs R (pbind m k) Q"
  by (rule logs_pbind [OF quiet_logs])

lemma quiet_pret: "quiet f R (pret a)" by (simp add: quiet_def logs_pret)
lemma quiet_pfail: "quiet f R (pfail e)" by (simp add: quiet_def logs_pfail)
lemma quiet_pgets: "quiet f R (pgets g)" by (simp add: quiet_def logs_pgets)
lemma quiet_poutside: "quiet f R (poutside g)" by (simp add: quiet_def logs_poutside)
lemma quiet_presult: "quiet f R (presult x)" by (simp add: quiet_def logs_presult)

lemma quiet_runCLI: "(\<And>x. f (args, x) = []) \<Longrightarrow> quiet f R (runCLI H ctx bin args)"
  unfolding quiet_def by (rule logs_runCLI) auto

lemma quiet_exec_cli: "(\<And>x. f (args, x) = []) \<Longrightarrow> quiet f R (exec_cli H ctx bin args)"
  unfolding quiet_def by (rule logs_exec_cli) auto

lemma quiet_retried_by_runCLI: "(\<And>x. f (args, x) = []) \<Longrightarrow> quiet f R (retried_by H ctx g (runCLI H ctx' bin args))"
  unfolding quiet_def
  by (rule logs_weaken [OF logs_retried_by [of R _ args]], rule logs_runCLI)
     (auto simp: attempts_def picks_replicate split: sum.splits)

lemma quiet_retried_runCLI: "(\<And>x. f (args, x) = []) \<Longrightarrow> quiet f R (retried H ctx label (runCLI H ctx' bin args))"
  unfolding retried_def by (rule quiet_retried_by_runCLI)

lemma quiet_pbind: "quiet f R m \<Longrightarrow> (\<And>a. quiet f R (k a)) \<Longrightarrow> quiet f R (pbind m k)"
  unfolding quiet_def by (rule logs_pbind, assumption, assumption) auto

lemma quiet_pwrap: "quiet f R m \<Longrightarrow> quiet f R (pwrap l m)"
  unfolding quiet_def by (rule logs_pwrap, assumption)

lemma quiet_ptry: "quiet f R m \<Longrightarrow> quiet f R (ptry m)"
  unfolding quiet_def by (rule logs_ptry)

lemma quiet_pupd: "(\<And>w. pw_calls (g w) = pw_calls w \<and> pw_region (g w) = pw_region w) \<Longrightarrow> quiet f R (pupd g)"
  unfolding quiet_def by (rule logs_pupd) auto

lemma quiet_write_temp: "quiet f R (write_temp H pattern contents)"
  by (auto simp: quiet_def logs_def write_temp_def split: prod.split sum.split)

lemma quiet_remove_temp: "quiet f R (remove_temp p)"
  unfolding remove_temp_def by (rule quiet_pupd) simp

lemma quiet_sum: "(\<And>e. quiet f R (g e)) \<Longrightarrow> (\<And>a. quiet f R (h a)) \<Longrightarrow> quiet f R (case x of Inl e \<Rightarrow> g e | Inr a \<Rightarrow> h a)"
  by (simp split: sum.split)

lemma quiet_if: "quiet f R m \<Longrightarrow> quiet f R m' \<Longrightarrow> quiet f R (if b then m else m')"
  by simp

lemma quiet_option: "quiet f R m \<Longrightarrow> (\<And>a. quiet f R (k a)) \<Longrightarrow> quiet f R (case x of None \<Rightarrow> m | Some a \<Rightarrow> k a)"
  by (simp split: option.split)

lemma quiet_list: "quiet f R m \<Longrightarrow> (\<And>a as. quiet f R (k a as)) \<Longrightarrow> quiet f R (case x of [] \<Rightarrow> m | a # as \<Rightarrow> k a as)"
  by (simp split: list.split)

lemma quiet_prod: "(\<And>a b. quiet f R (k a b)) \<Longrightarrow> quiet f R (case x of (a, b) \<Rightarrow> k a b)"
  by (simp split: prod.split)

lemma quiet_pfinally: "quiet f R m \<Longrightarrow> quiet f R d \<Longrightarrow> quiet f R (pfinally m d)"
  unfolding quiet_def by (rule logs_pfinally, assumption, assumption) auto

lemma logs_exec_combined:
  "(\<And>out e. Q (Inr (out, Some e)) [(args, None)]) \<Longrightarrow> (\<And>out. Q (Inr (out, None)) [(args, Some out)]) \<Longrightarrow> logs R (exec_combined H ctx bin args) Q"
  by (auto simp: logs_def exec_combined_def split: prod.split option.split)

lemma logs_pignore: "logs R m (\<lambda>r n. P n) \<Longrightarrow> logs R (pignore m) (\<lambda>r n. P n \<and> \<not> isl r)"
  unfolding pignore_def
  by (rule logs_pbind [where P = "\<lambda>r n. P n \<and> \<not> isl r" and K = "\<lambda>_ r n. n = [] \<and> \<not> isl r"])
     (auto intro!: logs_ptry logs_pret)

lemma quiet_pignore: "quiet f R m \<Longrightarrow> quiet f R (pignore m)"
  unfolding pignore_def by (intro quiet_pbind quiet_ptry quiet_pret)

lemma adoptCreatedVM_logs:
  assumes "\<And>tags. quiet f R (lst False tags)" "\<And>i. quiet f R (get False i)"
  shows "logs R (adoptCreatedVM lst get runID) (\<lambda>r n. picks f n = [] \<and> \<not> isl r)"
proof -
  have get: "logs R (pbind (ptry (get False i)) (\<lambda>g. case g of Inl _ \<Rightarrow> pret None | Inr full \<Rightarrow> pret (Some full)))
      (\<lambda>r n. picks f n = [] \<and> \<not> isl r)" for i
    by (rule logs_noerr [where P = "\<lambda>n. picks f n = []", OF _ quiet_logs [OF assms(2)]])
       (auto intro!: logs_sum logs_pret)
  show ?thesis
    unfolding adoptCreatedVM_def
    by (intro logs_if logs_pret, simp, rule logs_noerr [where P = "\<lambda>n. picks f n = []", OF _ quiet_logs [OF assms(1)]])
       (auto intro!: logs_sum logs_pret logs_if get)
qed

lemmas quiet_intros = quiet_pret quiet_pfail quiet_pgets quiet_poutside quiet_presult quiet_pbind quiet_pwrap
  quiet_ptry quiet_write_temp quiet_remove_temp quiet_sum quiet_if quiet_option quiet_list quiet_prod

lemma with_temp_logs:
  assumes "\<And>p. logs R (k p) Q" "\<And>r n. picks f n = [] \<Longrightarrow> Q r n"
    "\<And>r n n'. picks f n = [] \<Longrightarrow> Q r n' \<Longrightarrow> Q r (n @ n')" "\<And>r n n'. picks f n = [] \<Longrightarrow> Q r n' \<Longrightarrow> Q r (n' @ n)"
  shows "logs R (with_temp H label pattern contents k) Q"
  unfolding with_temp_def
  by (rule logs_quiet_pbind [where f = f], intro quiet_intros, rule logs_pfinally [OF assms(1) quiet_logs [OF quiet_remove_temp]])
     (use assms in auto)

lemma quiet_retryCLIOutput: "(\<And>x. f (args, x) = []) \<Longrightarrow> quiet f R (retryCLIOutput H ctx bin label args)"
  unfolding quiet_def
  by (rule logs_weaken [OF logs_retryCLIOutput]) (auto simp: attempts_def picks_replicate split: sum.splits)

text \<open>Calls of one kind happen only after a call of another kind.\<close>

definition after :: "(string list \<times> string option \<Rightarrow> bool) \<Rightarrow> (string list \<times> string option \<Rightarrow> bool) \<Rightarrow> cli_log \<Rightarrow> bool" where
  "after need give n \<longleftrightarrow> (\<forall>pre c post. n = pre @ c # post \<longrightarrow> need c \<longrightarrow> list_ex give pre)"

lemma after_none: "list_all (\<lambda>c. \<not> need c) n \<Longrightarrow> after need give n"
  by (auto simp: after_def)

lemma after_append:
  assumes "after need give n" "list_ex give n \<or> after need give n'"
  shows "after need give (n @ n')"
  unfolding after_def
proof (intro allI impI)
  fix pre c post
  assume n: "n @ n' = pre @ c # post" and c: "need c"
  from n consider us where "n = pre @ c # us" | us where "pre = n @ us" "n' = us @ c # post"
    by (auto simp: append_eq_append_conv2 append_eq_Cons_conv)
  then show "list_ex give pre"
  proof cases
    case 1
    with assms(1) c show ?thesis unfolding after_def by blast
  next
    case 2
    with assms(2) c have "list_ex give n \<or> list_ex give us" unfolding after_def by blast
    with 2 show ?thesis by auto
  qed
qed

lemma picks_none: "picks (\<lambda>c. if need c then [c] else []) n = [] \<longleftrightarrow> list_all (\<lambda>c. \<not> need c) n"
  by (induction n) auto

lemma quiet_dial_loop: "quiet f R (dial_loop H ctx addr timeout c n)"
  by (induction n) (auto intro!: quiet_intros)

lemma quiet_WaitForSSH: "quiet f R (WaitForSSH H ctx ip timeout)"
  by (auto simp: WaitForSSH_def WaitForSSHOnPort_def Let_def intro!: quiet_intros quiet_dial_loop)

text \<open>A host that answers every command as a function of its arguments; its polls see the machine or time out at once.\<close>

definition host_ex :: "nat \<Rightarrow> (string list \<Rightarrow> string \<times> cli_err option) \<Rightarrow> unit cli_host" where
  "host_ex polls answer = \<lparr>ch_run = (\<lambda>ctx bin args c. (answer args, c)), ch_look = (\<lambda>_. None),
     ch_sleep = (\<lambda>_ _ c. (None, c)), ch_polls = (\<lambda>_ c. ((polls, False), c)), ch_dial = (\<lambda>_ c. (True, c)),
     ch_readFile = (\<lambda>_. Inr ''ssh-ed25519 AAAA''), ch_env = (\<lambda>_. []), ch_now = (\<lambda>_. 0), ch_order = (\<lambda>_. [''dispatcher-run-id'']),
     ch_fault = (\<lambda>_. TempOk), ch_rnd = (\<lambda>_ _. Inr ''1'')\<rparr>"

definition opts_ex :: vm_options where
  "opts_ex = \<lparr>vo_Name = ''vm'', vo_InstanceType = ''t3.micro'', vo_Region = [], vo_Image = ''ami-1'', vo_SSHKeyPath = [], vo_SSHUser = ''u'',
     vo_UserData = [], vo_Tags = [''dispatcher-run-id'' \<mapsto> ''r1''], vo_AllowSSHFrom = [], vo_MaxLifetimeSeconds = 0, vo_Command = [],
     vo_GPUCount = 0, vo_ConfidentialType = [], vo_ConfidentialSpaceImage = [], vo_ConfidentialAllowFrom = [], vo_EnclaveEnabled = False,
     vo_SecureBootDisabled = False, vo_Spot = False\<rparr>"

definition world_ex :: "string \<Rightarrow> unit pworld" where
  "world_ex region = \<lparr>pw_out = (), pw_region = region, pw_seq = 0, pw_temps = Map.empty, pw_calls = []\<rparr>"

lemma world_calls: "pw_calls (world_ex region) = []"
  by (simp add: world_ex_def)

section \<open>Evaluating a run\<close>

text \<open>
  Rules that evaluate a program on a given host from the front, one step at a time: what follows a step is looked at
  only when the result of the step is known.
\<close>

lemma pbind_lazy: "m = m' \<Longrightarrow> pbind m k = pbind m' k"
  by simp

lemma pm_step:
  "m w = (r, w') \<Longrightarrow> pbind m k w = (case r of Inl e \<Rightarrow> (Inl e, w') | Inr a \<Rightarrow> k a w')"
  "m w = (q, w') \<Longrightarrow> pon_err m d w = (q, case q of Inl e \<Rightarrow> snd (d w') | Inr a \<Rightarrow> w')"
  "m w = (q, w') \<Longrightarrow> pfinally m d w = (q, snd (d w'))"
  "m w = (q, w') \<Longrightarrow> ptry m w = (Inr q, w')"
  "m w = (q, w') \<Longrightarrow> pwrap l m w = (map_sum (err_label l) (\<lambda>a. a) q, w')"
  "pret a w = (Inr a, w)" "pfail e w = (Inl e, w)" "pgets f w = (Inr (f w), w)" "pupd g w = (Inr (), g w)"
  "presult (Inr a) w = (Inr a, w)" "presult (Inl t) w = (Inl (plain_err t), w)"
  "runCLI H ctx bin args w = (case exec_cli H ctx bin args w of (z, w') \<Rightarrow> (map_sum newCLIError (\<lambda>a. a) z, w'))"
  by (auto simp: pbind_def pon_err_def pfinally_def ptry_def pwrap_def pret_def pfail_def pgets_def pupd_def presult_def
    runCLI_def split: sum.split prod.split)

lemma retried_step:
  "m w = (Inr out, w') \<Longrightarrow> retried_by H ctx f m w = (Inr out, w')"
  "m w = (Inl e, w') \<Longrightarrow> \<not> IsTransient (Some (f e)) \<Longrightarrow> retried_by H ctx f m w = (Inl (f e), w')"
  by (simp_all add: retried_by_def Retry_def DefaultRetry_def Millisecond_def numeral_eq_Suc Let_def)

lemma name_ex: "SanitizeName ''r1'' = ''r1'' \<and> show_int 1 = ''1'' \<and> strings_Fields ''sg-1'' = [''sg-1'']"
  by code_simp

lemmas run_steps = pm_step retried_step poutside_def exec_cli_def retried_def retryCLIOutput_def pignore_def exec_combined_def adoptCreatedVM_def
  wrapExecError_def Let_def ctx_err_def plain_err_def err_label_def vm_gone_def tag_list_def env_value_def run_base_name_def
  validateLabelKV_def isSafeLabel_def label_char_def isSafeArg_def validateVMArgs_def strings_TrimSpace_def is_space_def
  host_ex_def opts_ex_def world_ex_def name_ex

end
