(* ===== verification/Cloud_Aws.thy ===== *)
theory Cloud_Aws
  imports Cloud_Provider
begin

text \<open>
  The provider for AWS (\<^verbatim>\<open>internal/cloudvm/aws.go\<close>): its command lines, the per-run security group, and what it
  cleans up when a creation fails half-way. The JSON the tool prints is an argument, as what the decoder
  makes of it.
\<close>

section \<open>What the tool prints\<close>

record aws_instance =
  ai_InstanceId :: string
  ai_PublicIpAddress :: string
  ai_State :: string
  ai_Tags :: "(string \<times> string) list"

text \<open>The instances of the answer to \<^verbatim>\<open>run-instances\<close>, and those of each reservation of \<^verbatim>\<open>describe-instances\<close>.\<close>

record aws_json =
  aj_run :: "string \<Rightarrow> string list result"
  aj_describe :: "string \<Rightarrow> aws_instance list list result"

section \<open>Choices\<close>

definition ubuntuAMISSMParam :: string where
  "ubuntuAMISSMParam = ''/aws/service/canonical/ubuntu/server/22.04/stable/current/amd64/hvm/ebs-gp2/ami-id''"

definition ubuntuAMISSMParamARM64 :: string where
  "ubuntuAMISSMParamARM64 = ''/aws/service/canonical/ubuntu/server/22.04/stable/current/arm64/hvm/ebs-gp2/ami-id''"

definition aws_digit :: "char \<Rightarrow> bool" where
  "aws_digit c = (let n = (of_char c :: nat) in 48 \<le> n \<and> n \<le> 57)"

definition awsInstanceArch :: "string \<Rightarrow> string" where
  "awsInstanceArch instanceType =
     (let fam = takeWhile (\<lambda>c. c \<noteq> CHR ''.'') instanceType;
          gen = dropWhile (\<lambda>c. \<not> aws_digit c) fam
      in if fam = ''a1'' then ''arm64''
         else case dropWhile aws_digit gen of
                [] \<Rightarrow> ''x86_64''
              | c # _ \<Rightarrow> if gen \<noteq> [] \<and> c = CHR ''g'' then ''arm64'' else ''x86_64'')"

definition awsConfidentialArgs :: "vm_options \<Rightarrow> string list result" where
  "awsConfidentialArgs opts =
     (if vo_ConfidentialType opts = [] then Inr []
      else if vo_ConfidentialType opts \<noteq> ''sev-snp'' \<and> vo_ConfidentialType opts \<noteq> ''any''
      then Inl (''aws supports only sev-snp confidential VMs, not '' @ go_quote (vo_ConfidentialType opts))
      else Inr [''--cpu-options'', ''AmdSevSnp=enabled''])"

definition awsUserDataWithSSHKey :: "string \<Rightarrow> string \<Rightarrow> string \<Rightarrow> string" where
  "awsUserDataWithSSHKey userData sshUser pubKey =
     (let base = (if userData = [] then ''#!/bin/sh'' @ [newline] else userData);
          home = ''/home/'' @ sshUser;
          key = ShellQuote (strings_TrimSpace pubKey)
      in base @ strings_Join
           [[], ''mkdir -p '' @ home @ ''/.ssh'',
            ''echo '' @ key @ '' >> '' @ home @ ''/.ssh/authorized_keys'',
            ''chown -R '' @ sshUser @ '':'' @ sshUser @ '' '' @ home @ ''/.ssh'',
            ''chmod 700 '' @ home @ ''/.ssh'',
            ''chmod 600 '' @ home @ ''/.ssh/authorized_keys'', []] [newline])"

definition awsGPUImage :: "'c cli_host \<Rightarrow> string" where
  "awsGPUImage H = ch_env H ''DISPATCHER_AWS_GPU_IMAGE''"

definition awsIsGPUMachine :: "string \<Rightarrow> bool" where
  "awsIsGPUMachine instanceType =
     list_ex (strings_HasPrefix instanceType)
       [''g4dn.'', ''g4ad.'', ''g5.'', ''g5g.'', ''g6.'', ''g6e.'', ''p3.'', ''p4d.'', ''p4de.'', ''p5.'']"

definition awsInstanceType :: "vm_options \<Rightarrow> string" where
  "awsInstanceType opts =
     (if vo_InstanceType opts \<noteq> [] then vo_InstanceType opts
      else if vo_ConfidentialType opts \<noteq> [] then ''m6a.large''
      else ''t3.micro'')"

definition awsSGName :: "vm_options \<Rightarrow> string" where
  "awsSGName opts = ''dispatcher-'' @ SanitizeName (run_base_name opts)"

definition awsTagSpec :: "string \<Rightarrow> (string \<times> string) list \<Rightarrow> string" where
  "awsTagSpec resourceType tags =
     ''ResourceType='' @ resourceType @ '',Tags=[''
     @ strings_Join (map (\<lambda>(k, v). ''{Key='' @ k @ '',Value='' @ v @ ''}'') tags) '','' @ '']''"

definition awsClientToken :: "vm_options \<Rightarrow> nat \<Rightarrow> string" where
  "awsClientToken opts attempt =
     (let base = run_base_name opts in if base = [] then [] else base @ ''-'' @ show_int (int attempt))"

section \<open>Lookups and the security group\<close>

definition resolveUbuntuAMI :: "'c cli_host \<Rightarrow> bool \<Rightarrow> string \<Rightarrow> string \<Rightarrow> ('c, string) pm" where
  "resolveUbuntuAMI H ctx region arch =
     pbind (pwrap (''resolve ubuntu AMI for region '' @ region @ '' via SSM'')
       (retried H ctx ''aws ssm get-parameter''
          (runCLI H ctx ''aws'' [''ssm'', ''get-parameter'', ''--region'', region, ''--name'',
             if arch = ''arm64'' then ubuntuAMISSMParamARM64 else ubuntuAMISSMParam,
             ''--query'', ''Parameter.Value'', ''--output'', ''text'']))) (\<lambda>out.
     let ami = strings_TrimSpace out
     in if strings_HasPrefix ami ''ami-'' then pret ami
        else pfail (plain_err (''SSM returned an unexpected AMI value '' @ go_quote ami @ '' for region '' @ region)))"

definition aws_CheckCLI :: "'c cli_host \<Rightarrow> bool \<Rightarrow> ('c, unit) pm" where
  "aws_CheckCLI H ctx =
     (case ch_look H ''aws'' of
        Some e \<Rightarrow> pfail (plain_err (''aws CLI not found: '' @ e))
      | None \<Rightarrow> pbind (pwrap ''aws not authenticated'' (exec_cli H ctx ''aws'' [''sts'', ''get-caller-identity''])) (\<lambda>_. pret ()))"

definition isAWSDuplicateSG :: "cli_err \<Rightarrow> bool" where
  "isAWSDuplicateSG e = strings_Contains (er_Text e) ''InvalidGroup.Duplicate''"

definition isAWSDuplicatePermission :: "cli_err \<Rightarrow> bool" where
  "isAWSDuplicatePermission e = strings_Contains (er_Text e) ''InvalidPermission.Duplicate''"

definition awsFindSGByName :: "'c cli_host \<Rightarrow> bool \<Rightarrow> string \<Rightarrow> string \<Rightarrow> string \<Rightarrow> ('c, string) pm" where
  "awsFindSGByName H ctx region vpc name =
     pbind (ptry (runCLI H ctx ''aws'' [''ec2'', ''describe-security-groups'', ''--region'', region,
       ''--filters'', ''Name=group-name,Values='' @ name, ''Name=vpc-id,Values='' @ vpc,
       ''--query'', ''SecurityGroups[0].GroupId'', ''--output'', ''text''])) (\<lambda>r.
       case r of
         Inl _ \<Rightarrow> pret []
       | Inr out \<Rightarrow> let i = strings_TrimSpace out in pret (if i = [] \<or> i = ''None'' then [] else i))"

definition delete_sg_args :: "string \<Rightarrow> string \<Rightarrow> string list" where
  "delete_sg_args region sgID = [''ec2'', ''delete-security-group'', ''--region'', region, ''--group-id'', sgID]"

definition awsDeleteSecurityGroup :: "'c cli_host \<Rightarrow> bool \<Rightarrow> string \<Rightarrow> string \<Rightarrow> ('c, unit) pm" where
  "awsDeleteSecurityGroup H ctx region sgID =
     pbind (ptry (runCLI H ctx ''aws'' (delete_sg_args region sgID))) (\<lambda>_. pret ())"

text \<open>The group of this run: created, or the one a teardown of the same run left behind.\<close>

definition obtain_sg :: "'c cli_host \<Rightarrow> bool \<Rightarrow> string \<Rightarrow> string \<Rightarrow> string \<Rightarrow> (string \<times> string) list \<Rightarrow> ('c, string \<times> bool) pm" where
  "obtain_sg H ctx region vpc name tags =
     pbind (ptry (runCLI H ctx ''aws'' ([''ec2'', ''create-security-group'', ''--region'', region,
       ''--group-name'', name, ''--description'', ''dispatcher per-run SSH access'',
       ''--vpc-id'', vpc, ''--query'', ''GroupId'', ''--output'', ''text'']
       @ (if tags = [] then [] else [''--tag-specifications'', awsTagSpec ''security-group'' tags])))) (\<lambda>r.
       case r of
         Inr out \<Rightarrow> pret (strings_TrimSpace out, False)
       | Inl e \<Rightarrow>
           pbind (if isAWSDuplicateSG e then awsFindSGByName H ctx region vpc name else pret []) (\<lambda>existing.
             if existing \<noteq> [] then pret (strings_TrimSpace existing, True)
             else pfail (err_label ''aws create security group'' e)))"

definition awsCreateSSHSecurityGroup ::
  "'c cli_host \<Rightarrow> bool \<Rightarrow> string \<Rightarrow> string \<Rightarrow> string \<Rightarrow> (string \<times> string) list \<Rightarrow> ('c, string) pm" where
  "awsCreateSSHSecurityGroup H ctx region name cidr tags =
     pbind (pwrap ''aws describe default vpc'' (runCLI H ctx ''aws'' [''ec2'', ''describe-vpcs'', ''--region'', region,
       ''--filters'', ''Name=isDefault,Values=true'', ''--query'', ''Vpcs[0].VpcId'', ''--output'', ''text''])) (\<lambda>out.
     let vpc = strings_TrimSpace out
     in if vpc = [] \<or> vpc = ''None''
        then pfail (plain_err (''no default VPC in '' @ region @ '' to place the SSH security group''))
        else
          pbind (obtain_sg H ctx region vpc name tags) (\<lambda>(sg, adopted).
          pbind (ptry (runCLI H ctx ''aws'' [''ec2'', ''authorize-security-group-ingress'', ''--region'', region,
            ''--group-id'', sg, ''--protocol'', ''tcp'', ''--port'', ''22'', ''--cidr'', cidr])) (\<lambda>r.
            case r of
              Inr _ \<Rightarrow> pret sg
            | Inl e \<Rightarrow>
                if isAWSDuplicatePermission e then pret sg
                else pbind (if adopted then pret () else awsDeleteSecurityGroup H ctx region sg) (\<lambda>_.
                       pfail (err_label ''aws authorize ssh ingress'' e)))))"

definition awsInstanceDispatcherSGs :: "'c cli_host \<Rightarrow> bool \<Rightarrow> string \<Rightarrow> string \<Rightarrow> ('c, string list) pm" where
  "awsInstanceDispatcherSGs H ctx region vmID =
     pbind (ptry (runCLI H ctx ''aws'' [''ec2'', ''describe-instances'', ''--region'', region, ''--instance-ids'', vmID,
       ''--query'', ''Reservations[].Instances[].SecurityGroups[?starts_with(GroupName, `dispatcher-`)].GroupId'',
       ''--output'', ''text''])) (\<lambda>r.
       case r of Inl _ \<Rightarrow> pret [] | Inr out \<Rightarrow> pret (filter (\<lambda>f. f \<noteq> [] \<and> f \<noteq> ''None'') (strings_Fields out)))"

section \<open>Machines\<close>

definition getVMInRegion :: "'c cli_host \<Rightarrow> aws_json \<Rightarrow> bool \<Rightarrow> string \<Rightarrow> string \<Rightarrow> ('c, vm_info) pm" where
  "getVMInRegion H J ctx vmID region =
     pbind (ptry (runCLI H ctx ''aws'' [''ec2'', ''describe-instances'', ''--region'', region, ''--instance-ids'', vmID,
       ''--output'', ''json''])) (\<lambda>r.
       case r of
         Inl e \<Rightarrow> if isVMNotFound (Some e) vmID then pret (vm_gone vmID) else pfail (wrapExecError ''aws ec2 describe-instances'' e)
       | Inr out \<Rightarrow>
           pbind (presult (aj_describe J out)) (\<lambda>rs.
             case rs of
               (inst # _) # _ \<Rightarrow>
                 pret ((vm_gone (ai_InstanceId inst))\<lparr>vi_IP := ai_PublicIpAddress inst,
                   vi_State := (if ai_State inst = ''terminated'' \<or> ai_State inst = ''shutting-down'' then VMStateTerminated else VMStateRunning)\<rparr>)
             | _ \<Rightarrow> pret (vm_gone vmID)))"

definition aws_GetVM :: "'c cli_host \<Rightarrow> aws_json \<Rightarrow> bool \<Rightarrow> string \<Rightarrow> ('c, vm_info) pm" where
  "aws_GetVM H J ctx vmID = pbind (pgets pw_region) (\<lambda>region. getVMInRegion H J ctx vmID region)"

primrec ip_loop :: "'c cli_host \<Rightarrow> aws_json \<Rightarrow> bool \<Rightarrow> string \<Rightarrow> string \<Rightarrow> bool \<Rightarrow> nat \<Rightarrow> ('c, string) pm" where
  "ip_loop H J ctx i region cancelled 0 =
     pfail (if cancelled then ctx_err else plain_err ''timeout waiting for public IP'')"
| "ip_loop H J ctx i region cancelled (Suc n) =
     pbind (ptry (getVMInRegion H J ctx i region)) (\<lambda>r.
       case r of
         Inr vm \<Rightarrow> if vi_IP vm \<noteq> [] then pret (vi_IP vm) else ip_loop H J ctx i region cancelled n
       | Inl _ \<Rightarrow> ip_loop H J ctx i region cancelled n)"

definition waitForIP :: "'c cli_host \<Rightarrow> aws_json \<Rightarrow> bool \<Rightarrow> string \<Rightarrow> string \<Rightarrow> ('c, string) pm" where
  "waitForIP H J ctx i region =
     pbind (poutside (ch_polls H ctx)) (\<lambda>(n, cancelled). ip_loop H J ctx i region cancelled n)"

definition aws_WaitReady :: "'c cli_host \<Rightarrow> bool \<Rightarrow> string \<Rightarrow> string \<Rightarrow> string \<Rightarrow> ('c, unit) pm" where
  "aws_WaitReady H ctx i ip key = WaitForSSH H ctx ip (5 * Minute)"

primrec delete_loop :: "'c cli_host \<Rightarrow> bool \<Rightarrow> string \<Rightarrow> string \<Rightarrow> nat \<Rightarrow> ('c, unit) pm" where
  "delete_loop H ctx region sg 0 = pret ()"
| "delete_loop H ctx region sg (Suc n) =
     pbind (ptry (runCLI H ctx ''aws'' (delete_sg_args region sg))) (\<lambda>r.
       case r of
         Inr _ \<Rightarrow> pret ()
       | Inl _ \<Rightarrow>
           pbind (poutside (ch_sleep H ctx (10 * Second))) (\<lambda>c.
             case c of Some _ \<Rightarrow> pret () | None \<Rightarrow> delete_loop H ctx region sg n))"

definition deleteSGWhenReleased :: "'c cli_host \<Rightarrow> bool \<Rightarrow> string \<Rightarrow> ('c, unit) pm" where
  "deleteSGWhenReleased H ctx sg = pbind (pgets pw_region) (\<lambda>region. delete_loop H ctx region sg 42)"

primrec delete_all :: "'c cli_host \<Rightarrow> bool \<Rightarrow> string list \<Rightarrow> ('c, unit) pm" where
  "delete_all H ctx [] = pret ()"
| "delete_all H ctx (sg # sgs) = pbind (deleteSGWhenReleased H ctx sg) (\<lambda>_. delete_all H ctx sgs)"

definition terminate_args :: "string \<Rightarrow> string \<Rightarrow> string list" where
  "terminate_args region vmID = [''ec2'', ''terminate-instances'', ''--region'', region, ''--instance-ids'', vmID]"

definition aws_DestroyVM :: "'c cli_host \<Rightarrow> bool \<Rightarrow> string \<Rightarrow> ('c, unit) pm" where
  "aws_DestroyVM H ctx vmID =
     pbind (pgets pw_region) (\<lambda>region.
     pbind (awsInstanceDispatcherSGs H ctx region vmID) (\<lambda>sgs.
     pbind (ptry (runCLI H ctx ''aws'' (terminate_args region vmID))) (\<lambda>r.
       case r of
         Inl e \<Rightarrow> if isVMNotFound (Some e) vmID then pret () else pfail (err_label ''aws ec2 terminate-instances failed'' e)
       | Inr _ \<Rightarrow> delete_all H ctx sgs)))"

definition aws_ListVMs :: "'c cli_host \<Rightarrow> aws_json \<Rightarrow> bool \<Rightarrow> (string \<rightharpoonup> string) \<Rightarrow> ('c, vm_info list) pm" where
  "aws_ListVMs H J ctx tags =
     pbind (pwrap ''aws filter tags'' (presult (validateLabels (tag_list H tags)))) (\<lambda>_.
     pbind (pgets pw_region) (\<lambda>region.
     let filters = map (\<lambda>(k, v). ''Name=tag:'' @ k @ '',Values='' @ v) (tag_list H tags)
     in pbind (ptry (runCLI H ctx ''aws'' ([''ec2'', ''describe-instances'', ''--region'', region, ''--output'', ''json'']
          @ (if filters = [] then [] else ''--filters'' # filters)))) (\<lambda>r.
          case r of
            Inl e \<Rightarrow> pfail (wrapExecError ''aws ec2 describe-instances'' e)
          | Inr out \<Rightarrow>
              pbind (presult (aj_describe J out)) (\<lambda>rs.
                pret (map (\<lambda>inst. (vm_gone (ai_InstanceId inst))\<lparr>
                    vi_State := vm_state_of (ai_State inst),
                    vi_Tags := map_of (rev (ai_Tags inst))\<rparr>)
                  (filter (\<lambda>inst. ai_State inst \<noteq> ''terminated'') (concat rs)))))))"

section \<open>Creating a machine\<close>

definition run_instances_args ::
  "vm_options \<Rightarrow> string \<Rightarrow> string \<Rightarrow> string \<Rightarrow> string \<Rightarrow> string list \<Rightarrow> nat \<Rightarrow> (string \<times> string) list \<Rightarrow> string list" where
  "run_instances_args opts region img instanceType sg confArgs attempt tags =
     [''ec2'', ''run-instances'', ''--region'', region, ''--image-id'', img, ''--instance-type'', instanceType,
      ''--count'', ''1'', ''--security-group-ids'', sg, ''--tag-specifications'', awsTagSpec ''instance'' tags, ''--output'', ''json'']
     @ (let token = awsClientToken opts attempt in if token \<noteq> [] then [''--client-token'', token] else [])
     @ confArgs
     @ (if vo_Spot opts then [''--instance-market-options'', ''MarketType=spot''] else [])
     @ (if vo_EnclaveEnabled opts then [''--enclave-options'', ''Enabled=true''] else [])"

definition aws_user_data :: "'c cli_host \<Rightarrow> vm_options \<Rightarrow> ('c, string) pm" where
  "aws_user_data H opts =
     (if vo_SSHKeyPath opts \<noteq> [] \<and> vo_SSHUser opts \<noteq> []
      then pbind (pwrap ''read ssh pubkey'' (presult (ch_readFile H (vo_SSHKeyPath opts)))) (\<lambda>pub.
             pret (awsUserDataWithSSHKey (vo_UserData opts) (vo_SSHUser opts) pub))
      else pret (vo_UserData opts))"

definition aws_image :: "'c cli_host \<Rightarrow> bool \<Rightarrow> vm_options \<Rightarrow> string \<Rightarrow> ('c, string) pm" where
  "aws_image H ctx opts region =
     (let instanceType = awsInstanceType opts
      in if vo_Image opts \<noteq> [] then pret (vo_Image opts)
         else if awsIsGPUMachine instanceType \<and> awsGPUImage H \<noteq> [] then pret (awsGPUImage H)
         else pwrap ''aws'' (resolveUbuntuAMI H ctx region (awsInstanceArch instanceType)))"

text \<open>From the launched instance to its address: it is destroyed again, with a fresh context, if it gets none.\<close>

definition launched :: "'c cli_host \<Rightarrow> aws_json \<Rightarrow> bool \<Rightarrow> vm_options \<Rightarrow> string \<Rightarrow> string \<Rightarrow> ('c, vm_info) pm" where
  "launched H J ctx opts region out =
     pbind (pwrap ''cannot parse aws output'' (presult (aj_run J out))) (\<lambda>ids.
       case ids of
         [] \<Rightarrow> pfail (plain_err ''no instances created'')
       | i # _ \<Rightarrow>
           pbind (ptry (waitForIP H J ctx i region)) (\<lambda>r.
             case r of
               Inl e \<Rightarrow> pbind (ptry (aws_DestroyVM H False i)) (\<lambda>_. pfail e)
             | Inr ip \<Rightarrow>
                 pbind (pgets (\<lambda>w. ch_now H (pw_out w))) (\<lambda>now.
                 pret ((vm_gone i)\<lparr>vi_IP := ip, vi_State := VMStateRunning, vi_CreatedAt := now, vi_Tags := vo_Tags opts\<rparr>))))"

text \<open>Everything that happens while the new security group has no instance yet.\<close>

definition launch ::
  "'c cli_host \<Rightarrow> aws_json \<Rightarrow> bool \<Rightarrow> vm_options \<Rightarrow> string \<Rightarrow> string \<Rightarrow> string \<Rightarrow> string list \<Rightarrow> nat \<Rightarrow> ('c, vm_info) pm" where
  "launch H J ctx opts region img sg confArgs attempt =
     (let args = run_instances_args opts region img (awsInstanceType opts) sg confArgs attempt (tag_list H (vo_Tags opts));
          go = (\<lambda>extra. pbind (retryCLIOutput H ctx ''aws'' ''aws ec2 run-instances'' (args @ extra)) (launched H J ctx opts region))
      in pbind (aws_user_data H opts) (\<lambda>userData.
           if userData = [] then go []
           else pbind (pwrap ''write user-data'' (write_temp H ''dispatcher-aws-userdata-*.yaml'' userData)) (\<lambda>f.
                  pfinally (go [''--user-data'', ''file://'' @ f]) (remove_temp f))))"

definition aws_CreateVM :: "'c cli_host \<Rightarrow> aws_json \<Rightarrow> bool \<Rightarrow> vm_options \<Rightarrow> ('c, vm_info) pm" where
  "aws_CreateVM H J ctx opts =
     pbind (pupd (\<lambda>w. w\<lparr>pw_seq := Suc (pw_seq w)\<rparr>)) (\<lambda>_.
     pbind (pgets (\<lambda>w. (pw_seq w, if vo_Region opts = [] then pw_region w else vo_Region opts))) (\<lambda>(attempt, region).
     pbind (pwrap ''aws tags'' (presult (validateLabels (tag_list H (vo_Tags opts))))) (\<lambda>_.
     pbind (presult (awsConfidentialArgs opts)) (\<lambda>confArgs.
     pbind (aws_image H ctx opts region) (\<lambda>img.
     pbind (pwrap ''aws'' (presult (validateVMArgs region (awsInstanceType opts) img))) (\<lambda>_.
     pbind (awsCreateSSHSecurityGroup H ctx region (awsSGName opts)
              (if vo_AllowSSHFrom opts = [] then ''0.0.0.0/0'' else vo_AllowSSHFrom opts) (tag_list H (vo_Tags opts))) (\<lambda>sg.
     pon_err (launch H J ctx opts region img sg confArgs attempt) (awsDeleteSecurityGroup H False region sg))))))))"

definition aws_SetRegion :: "string \<Rightarrow> 'c pworld \<Rightarrow> 'c pworld" where
  "aws_SetRegion region w = (if region \<noteq> [] then w\<lparr>pw_region := region\<rparr> else w)"

definition NewAWSProvider_region :: "string \<Rightarrow> string" where
  "NewAWSProvider_region region = (if region = [] then ''us-east-1'' else region)"

section \<open>The provider\<close>

definition aws_provider ::
  "'c cli_host \<Rightarrow> aws_json \<Rightarrow> ((bool \<Rightarrow> 'c pworld \<Rightarrow> resource_info list call \<times> 'c pworld)
     \<times> (bool \<Rightarrow> resource_info \<Rightarrow> 'c pworld \<Rightarrow> unit call \<times> 'c pworld)) option \<Rightarrow> 'c pworld provider" where
  "aws_provider H J rs = \<lparr>
     pv_CheckCLI = (\<lambda>ctx. as_call (aws_CheckCLI H ctx)),
     pv_CreateVM = (\<lambda>ctx opts. as_call (pbind (aws_CreateVM H J ctx opts) (\<lambda>vm. pret (Some vm)))),
     pv_WaitReady = (\<lambda>ctx i ip key. as_call (aws_WaitReady H ctx i ip key)),
     pv_GetVM = (\<lambda>ctx i. as_call (pbind (aws_GetVM H J ctx i) (\<lambda>vm. pret (Some vm)))),
     pv_DestroyVM = (\<lambda>ctx i. as_call (aws_DestroyVM H ctx i)),
     pv_ListVMs = (\<lambda>ctx tags. as_call (aws_ListVMs H J ctx tags)),
     pv_SetRegion = Some aws_SetRegion,
     pv_Resources = rs\<rparr>"

section \<open>What a creation leaves behind\<close>

text \<open>The command line that undoes a successful call.\<close>

definition aws_owed :: "aws_json \<Rightarrow> string \<Rightarrow> string list \<times> string option \<Rightarrow> string list list" where
  "aws_owed J region c = (case c of
     (args, None) \<Rightarrow> []
   | (args, Some out) \<Rightarrow>
       if take 2 args = [''ec2'', ''run-instances'']
       then (case aj_run J out of Inr (i # _) \<Rightarrow> [terminate_args region i] | _ \<Rightarrow> [])
       else if take 2 args = [''ec2'', ''create-security-group''] then [delete_sg_args region (strings_TrimSpace out)]
       else [])"

definition aws_launch_calls :: "string list \<times> string option \<Rightarrow> (string list \<times> string option) list" where
  "aws_launch_calls c = (if take 2 (fst c) = [''ec2'', ''run-instances''] then [c] else [])"

definition aws_events :: "string list \<times> string option \<Rightarrow> (string list \<times> string option) list" where
  "aws_events c = (if take 2 (fst c) \<in> {[''ec2'', ''run-instances''], [''ec2'', ''create-security-group'']} then [c] else [])"

lemma aws_eventsD:
  "take 2 args \<notin> {[''ec2'', ''run-instances''], [''ec2'', ''create-security-group'']} \<Longrightarrow> aws_events (args, x) = []"
  by (simp add: aws_events_def)

lemma aws_owed_failed [simp]: "aws_owed J region (args, None) = []"
  by (simp add: aws_owed_def)

lemma no_events: "picks aws_events n = [] \<Longrightarrow> picks (aws_owed J region) n = [] \<and> picks aws_launch_calls n = []"
  by (induction n) (auto simp: aws_events_def aws_owed_def aws_launch_calls_def split: if_splits prod.split option.split)

lemmas aws_quiet = quiet_intros quiet_runCLI quiet_exec_cli quiet_retried_runCLI

lemma quiet_aws_image: "quiet aws_events R (aws_image H ctx opts region)"
  by (auto simp: aws_image_def resolveUbuntuAMI_def Let_def aws_eventsD intro!: aws_quiet)

lemma quiet_getVMInRegion: "quiet aws_events R (getVMInRegion H J ctx i region)"
  by (auto simp: getVMInRegion_def aws_eventsD intro!: aws_quiet)

lemma quiet_ip_loop: "quiet aws_events R (ip_loop H J ctx i region c n)"
  by (induction n) (auto intro!: aws_quiet quiet_getVMInRegion)

lemma quiet_waitForIP: "quiet aws_events R (waitForIP H J ctx i region)"
  by (auto simp: waitForIP_def intro!: aws_quiet quiet_ip_loop)

lemma quiet_delete_loop: "quiet aws_events R (delete_loop H ctx region sg n)"
  by (induction n) (auto simp: delete_sg_args_def aws_eventsD intro!: aws_quiet)

lemma quiet_delete_all: "quiet aws_events R (delete_all H ctx sgs)"
  by (induction sgs) (auto simp: deleteSGWhenReleased_def intro!: aws_quiet quiet_delete_loop)

lemma quiet_dispatcher_sgs: "quiet aws_events R (awsInstanceDispatcherSGs H ctx region i)"
  by (auto simp: awsInstanceDispatcherSGs_def aws_eventsD intro!: aws_quiet)

lemma quiet_aws_DestroyVM: "quiet aws_events R (aws_DestroyVM H ctx i)"
  by (auto simp: aws_DestroyVM_def terminate_args_def aws_eventsD intro!: aws_quiet quiet_delete_all quiet_dispatcher_sgs)

lemma quiet_aws_user_data: "quiet aws_events R (aws_user_data H opts)"
  by (auto simp: aws_user_data_def intro!: aws_quiet)

lemma quiet_awsFindSGByName: "quiet aws_events R (awsFindSGByName H ctx region vpc name)"
  by (auto simp: awsFindSGByName_def Let_def aws_eventsD intro!: aws_quiet)


text \<open>Waiting and destroying.\<close>

lemma logs_region: "logs R (k R) Q \<Longrightarrow> logs R (pbind (pgets pw_region) k) Q"
  unfolding logs_def pbind_def pgets_def by auto

lemma waitForIP_logs: "logs R (waitForIP H J ctx i region) (\<lambda>r n. picks aws_events n = [] \<and> r \<noteq> Inr [])"
proof -
  have "logs R (ip_loop H J ctx i region c k) (\<lambda>r n. picks aws_events n = [] \<and> r \<noteq> Inr [])" for c k
  proof (induction k)
    case 0
    show ?case by (simp add: logs_pfail)
  next
    case (Suc k)
    show ?case
      unfolding ip_loop.simps
      by (rule logs_pbind [OF quiet_logs [OF quiet_ptry [OF quiet_getVMInRegion]]], rule logs_weaken [where P = "\<lambda>r n. picks aws_events n = [] \<and> r \<noteq> Inr []"])
         (auto intro!: logs_pret Suc split: sum.split)
  qed
  then show ?thesis
    unfolding waitForIP_def by (intro logs_pbind [where P = "\<lambda>r n. n = [] \<and> \<not> isl r", OF logs_poutside]) (auto split: prod.split)
qed

lemma dispatcher_sgs_logs:
  "logs R (awsInstanceDispatcherSGs H ctx region i) (\<lambda>r n. picks aws_events n = [] \<and> \<not> isl r)"
  unfolding awsInstanceDispatcherSGs_def
  by (rule logs_noerr [where P = "\<lambda>n. picks aws_events n = []"])
     (auto intro!: logs_pret quiet_logs quiet_runCLI simp: aws_eventsD split: sum.split)

lemma aws_DestroyVM_logs:
  "logs R (aws_DestroyVM H ctx i) (\<lambda>r n. picks aws_events n = [] \<and> terminate_args R i \<in> set (cmds n))"
  unfolding aws_DestroyVM_def
proof (intro logs_region logs_pbind [OF dispatcher_sgs_logs])
  fix sgs
  let ?P = "\<lambda>(r :: cli_err + cli_err + string) n. picks aws_events n = [] \<and> terminate_args R i \<in> set (cmds n)"
  show "logs R (pbind (ptry (runCLI H ctx ''aws'' (terminate_args R i))) (\<lambda>r. case r of
          Inl e \<Rightarrow> if isVMNotFound (Some e) i then pret () else pfail (err_label ''aws ec2 terminate-instances failed'' e)
        | Inr _ \<Rightarrow> delete_all H ctx sgs)) (\<lambda>r n. picks aws_events n = [] \<and> terminate_args R i \<in> set (cmds n))"
  proof (rule logs_pbind [where P = ?P and K = "\<lambda>_ r n. picks aws_events n = []"])
    show "logs R (ptry (runCLI H ctx ''aws'' (terminate_args R i))) ?P"
      by (intro logs_ptry logs_runCLI) (auto simp: terminate_args_def aws_eventsD)
  qed (auto intro!: quiet_logs aws_quiet quiet_delete_all)
qed auto


text \<open>The group: what is owed for it on success is its deletion; on failure, nothing.\<close>

definition no_launch :: "cli_log \<Rightarrow> bool" where
  "no_launch n \<longleftrightarrow> picks aws_launch_calls n = []"

lemma awsDeleteSecurityGroup_logs:
  "logs R (awsDeleteSecurityGroup H ctx R sg) (\<lambda>r n. picks aws_events n = [] \<and> delete_sg_args R sg \<in> set (cmds n) \<and> \<not> isl r)"
  unfolding awsDeleteSecurityGroup_def
  by (rule logs_pbind [where P = "\<lambda>r n. picks aws_events n = [] \<and> delete_sg_args R sg \<in> set (cmds n) \<and> \<not> isl r"
          and K = "\<lambda>_ r n. n = [] \<and> \<not> isl r"])
     (auto intro!: logs_ptry logs_runCLI logs_pret simp: delete_sg_args_def aws_eventsD)

lemma adopt_sg_logs:
  "logs R (pbind (if isAWSDuplicateSG e then awsFindSGByName H ctx R vpc name else pret [])
       (\<lambda>existing. if existing \<noteq> [] then pret (strings_TrimSpace existing, True) else pfail (err_label ''aws create security group'' e)))
     (\<lambda>r n. picks aws_events n = [] \<and> (\<forall>sg adopted. r = Inr (sg, adopted) \<longrightarrow> adopted))"
proof -
  have "quiet aws_events R (if isAWSDuplicateSG e then awsFindSGByName H ctx R vpc name else pret [])"
    by (auto intro!: aws_quiet quiet_awsFindSGByName)
  then show ?thesis
    by (rule logs_pbind [OF quiet_logs, where K = "\<lambda>_ r n. n = [] \<and> (\<forall>sg adopted. r = Inr (sg, adopted) \<longrightarrow> adopted)"])
       (auto intro!: logs_pret logs_pfail)
qed

lemma obtain_sg_logs:
  "logs R (obtain_sg H ctx R vpc name tags) (\<lambda>r n. no_launch n \<and> (case r of
     Inl e \<Rightarrow> picks (aws_owed J R) n = []
   | Inr (sg, adopted) \<Rightarrow> picks (aws_owed J R) n = (if adopted then [] else [delete_sg_args R sg])))"
  unfolding obtain_sg_def
proof (rule logs_pbind [where P = "\<lambda>r n. no_launch n \<and> picks (aws_owed J R) n =
        (case r of Inr (Inr out) \<Rightarrow> [delete_sg_args R (strings_TrimSpace out)] | _ \<Rightarrow> []) \<and> \<not> isl r"
      and K = "\<lambda>x r n. no_launch n \<and> picks (aws_owed J R) n = [] \<and> (case x of
          Inr out \<Rightarrow> r = Inr (strings_TrimSpace out, False)
        | Inl _ \<Rightarrow> (\<forall>sg adopted. r = Inr (sg, adopted) \<longrightarrow> adopted))"], goal_cases)
  case (2 x)
  show ?case
  proof (cases x)
    case (Inl e)
    show ?thesis unfolding Inl sum.case
      by (rule logs_weaken [OF adopt_sg_logs]) (auto simp: no_launch_def dest!: no_events [where J = J and region = R])
  qed (auto intro!: logs_pret simp: no_launch_def)
qed (auto intro!: logs_ptry logs_runCLI simp: no_launch_def aws_owed_def aws_launch_calls_def split: sum.splits)

lemma awsCreateSSHSecurityGroup_logs:
  "logs R (awsCreateSSHSecurityGroup H ctx R name cidr tags) (\<lambda>r n. no_launch n \<and> (case r of
     Inl e \<Rightarrow> set (picks (aws_owed J R) n) \<subseteq> set (cmds n)
   | Inr sg \<Rightarrow> set (picks (aws_owed J R) n) \<subseteq> {delete_sg_args R sg}))"
  (is "logs R _ ?Q")
proof -
  let ?rest = "\<lambda>(sg, adopted). pbind (ptry (runCLI H ctx ''aws'' [''ec2'', ''authorize-security-group-ingress'', ''--region'', R,
            ''--group-id'', sg, ''--protocol'', ''tcp'', ''--port'', ''22'', ''--cidr'', cidr])) (\<lambda>r. case r of
              Inr _ \<Rightarrow> pret sg
            | Inl e \<Rightarrow> if isAWSDuplicatePermission e then pret sg
                else pbind (if adopted then pret () else awsDeleteSecurityGroup H ctx R sg) (\<lambda>_.
                       pfail (err_label ''aws authorize ssh ingress'' e)))"
  have del: "logs R (pbind (if adopted then pret () else awsDeleteSecurityGroup H ctx R sg) (\<lambda>_. pfail e))
      (\<lambda>r n. picks aws_events n = [] \<and> isl r \<and> (\<not> adopted \<longrightarrow> delete_sg_args R sg \<in> set (cmds n)))" for sg adopted and e :: cli_err
    by (rule logs_pbind [where P = "\<lambda>r n. picks aws_events n = [] \<and> (\<not> adopted \<longrightarrow> delete_sg_args R sg \<in> set (cmds n)) \<and> \<not> isl r"
          and K = "\<lambda>_ r n. n = [] \<and> isl r"])
       (auto intro!: logs_pret logs_pfail intro: logs_weaken [OF awsDeleteSecurityGroup_logs])
  have rest: "logs R (?rest (sg, adopted)) (\<lambda>r n. picks aws_events n = [] \<and> (case r of
      Inl _ \<Rightarrow> \<not> adopted \<longrightarrow> delete_sg_args R sg \<in> set (cmds n) | Inr sg' \<Rightarrow> sg' = sg))" (is "logs R _ ?K") for sg adopted
    unfolding prod.case
  proof (rule logs_pbind [where P = "\<lambda>r n. picks aws_events n = [] \<and> \<not> isl r" and K = "\<lambda>_. ?K"], goal_cases)
    case (2 x)
    show ?case by (intro logs_sum logs_if logs_weaken [OF del] logs_pret) (auto split: sum.split)
  qed (auto intro!: logs_ptry logs_runCLI simp: aws_eventsD split: sum.splits)
  have grp: "logs R (pbind (obtain_sg H ctx R vpc name tags) ?rest) ?Q" for vpc
  proof (rule logs_pbind [OF obtain_sg_logs [where J = J], where K = "\<lambda>(sg, adopted) r n. picks aws_events n = [] \<and> (case r of
        Inl _ \<Rightarrow> \<not> adopted \<longrightarrow> delete_sg_args R sg \<in> set (cmds n) | Inr sg' \<Rightarrow> sg' = sg)"], goal_cases)
    case (1 a)
    obtain sg adopted where a: "a = (sg, adopted)" by force
    show ?case unfolding a using rest [of sg adopted] by (simp only: prod.case)
  next
    case (3 a n r n')
    obtain sg adopted where a: "a = (sg, adopted)" by force
    from 3 a have "picks (aws_owed J R) n' = []" "picks aws_launch_calls n' = []"
      using no_events [of n' J R] by auto
    with 3 a show ?case by (cases r; cases adopted) (simp_all add: no_launch_def)
  qed (simp add: no_launch_def)
  show ?thesis
    unfolding awsCreateSSHSecurityGroup_def Let_def
  proof (rule logs_quiet_pbind [where f = aws_events], goal_cases)
    case (2 a)
    show ?case by (intro logs_if grp logs_pfail) (simp_all add: no_launch_def)
  next
    case (4 r n n')
    with no_events [OF 4(1), of J R] show ?case by (cases r) (auto simp: no_launch_def)
  qed (auto intro!: aws_quiet simp: aws_eventsD no_launch_def no_events)
qed

text \<open>
  The launch: one command line, repeated while the failures are transient; if the instance it names gets
  no address, the instance is terminated; else it is the machine that is returned.
\<close>

definition launch_result :: "aws_json \<Rightarrow> string \<Rightarrow> vm_options \<Rightarrow> string list \<Rightarrow> cli_err + vm_info \<Rightarrow> cli_log \<Rightarrow> bool" where
  "launch_result J R opts args r n \<longleftrightarrow>
     (case r of
        Inl _ \<Rightarrow> (\<exists>x. attempts args x (picks aws_launch_calls n)) \<and> set (picks (aws_owed J R) n) \<subseteq> set (cmds n)
      | Inr vm \<Rightarrow> (\<exists>out is. attempts args (Inr out) (picks aws_launch_calls n) \<and> aj_run J out = Inr (vi_ID vm # is))
          \<and> vi_IP vm \<noteq> [] \<and> vi_State vm = VMStateRunning \<and> vi_Tags vm = vo_Tags opts)"

lemma launched_logs:
  "logs R (launched H J ctx opts region out) (\<lambda>r n. picks aws_events n = [] \<and> (case r of
     Inl _ \<Rightarrow> (\<forall>i is. aj_run J out = Inr (i # is) \<longrightarrow> terminate_args R i \<in> set (cmds n))
   | Inr vm \<Rightarrow> (\<exists>is. aj_run J out = Inr (vi_ID vm # is)) \<and> vi_IP vm \<noteq> [] \<and> vi_State vm = VMStateRunning \<and> vi_Tags vm = vo_Tags opts))"
  (is "logs R _ ?Q")
proof (cases "\<exists>i is. aj_run J out = Inr (i # is)")
  case False
  then show ?thesis
    unfolding launched_def
    by (cases "aj_run J out")
       (auto simp: presult_def pwrap_def pbind_def pfail_def pret_def logs_def neq_Nil_conv split: list.split)
next
  case True
  then obtain i rest where out: "aj_run J out = Inr (i # rest)" by blast
  have destroy: "logs R (pbind (ptry (aws_DestroyVM H False i)) (\<lambda>_. pfail e)) ?Q" for e :: cli_err
    by (rule logs_pbind [where P = "\<lambda>r n. picks aws_events n = [] \<and> terminate_args R i \<in> set (cmds n) \<and> \<not> isl r"
          and K = "\<lambda>_ r n. n = [] \<and> isl r", OF logs_ptry [OF logs_weaken [OF aws_DestroyVM_logs]]])
       (auto intro!: logs_pfail simp: out split: sum.splits)
  let ?go = "pbind (ptry (waitForIP H J ctx i region)) (\<lambda>r. case r of
       Inl e \<Rightarrow> pbind (ptry (aws_DestroyVM H False i)) (\<lambda>_. pfail e)
     | Inr ip \<Rightarrow> pbind (pgets (\<lambda>w. ch_now H (pw_out w))) (\<lambda>now.
         pret ((vm_gone i)\<lparr>vi_IP := ip, vi_State := VMStateRunning, vi_CreatedAt := now, vi_Tags := vo_Tags opts\<rparr>)))"
  have ready: "logs R (pbind (pgets (\<lambda>w. ch_now H (pw_out w))) (\<lambda>now.
         pret ((vm_gone i)\<lparr>vi_IP := ip, vi_State := VMStateRunning, vi_CreatedAt := now, vi_Tags := vo_Tags opts\<rparr>))) ?Q"
    if "ip \<noteq> []" for ip
    using that by (auto simp: logs_def pbind_def pgets_def pret_def out vm_gone_def)
  have "logs R ?go ?Q"
  proof (rule logs_pbind [where P = "\<lambda>r n. picks aws_events n = [] \<and> r \<noteq> Inr (Inr []) \<and> \<not> isl r"
        and K = "\<lambda>x r n. x \<noteq> Inr [] \<longrightarrow> ?Q r n", OF logs_ptry [OF logs_weaken [OF waitForIP_logs]]], goal_cases)
    case (2 a)
    show ?case
    proof (cases "a = Inr []")
      case True
      then show ?thesis by (auto simp: logs_def pbind_def pgets_def pret_def)
    next
      case False
      show ?thesis
        by (intro logs_sum logs_weaken [OF destroy] logs_weaken [OF ready]) (use False in auto)
    qed
  next
    case (4 a n r n')
    then show ?case by (cases r) auto
  qed auto
  moreover have "launched H J ctx opts region out = ?go"
    by (simp add: launched_def out pbind_presult_Inr)
  ultimately show ?thesis by simp
qed

lemma attempts_picks:
  assumes "take 2 args = [''ec2'', ''run-instances'']" "attempts args r n"
  shows "picks aws_launch_calls n = n" "picks (aws_owed J R) n = (case r of Inl _ \<Rightarrow> [] | Inr out \<Rightarrow> aws_owed J R (args, Some out))"
proof -
  have rep: "picks aws_launch_calls (replicate k (args, None)) = replicate k (args, None)" for k
    using assms(1) by (induction k) (auto simp: aws_launch_calls_def)
  show "picks aws_launch_calls n = n" "picks (aws_owed J R) n = (case r of Inl _ \<Rightarrow> [] | Inr out \<Rightarrow> aws_owed J R (args, Some out))"
    using assms rep by (auto simp: attempts_def picks_replicate aws_launch_calls_def split: sum.splits)
qed

lemma launch_result_quiet:
  assumes "picks aws_events n0 = []" "launch_result J R opts args r n"
  shows "launch_result J R opts args r (n0 @ n)" "launch_result J R opts args r (n @ n0)"
  using assms no_events [OF assms(1), of J R] by (auto simp: launch_result_def split: sum.splits)

lemma launch_result_none: "picks aws_events n = [] \<Longrightarrow> launch_result J R opts args (Inl e) n"
  using no_events [of n J R] by (auto simp: launch_result_def attempts_def intro!: exI [of _ "Inl e"] exI [of _ 0])

lemma launch_go_logs:
  assumes args: "take 2 args = [''ec2'', ''run-instances'']"
  shows "logs R (pbind (retryCLIOutput H ctx ''aws'' ''aws ec2 run-instances'' args) (launched H J ctx opts region)) (launch_result J R opts args)"
proof (rule logs_pbind [OF logs_retryCLIOutput launched_logs], goal_cases)
  case (1 e n)
  with attempts_picks(1) [OF args 1] attempts_picks(2) [OF args 1, of J R] show ?case by (auto simp: launch_result_def)
next
  case (2 out n r n')
  have n': "picks (aws_owed J R) n' = []" "picks aws_launch_calls n' = []" using no_events [of n' J R] 2 by auto
  from attempts_picks(1) [OF args 2(1)] attempts_picks(2) [OF args 2(1), of J R] n' 2 args show ?case
    by (auto simp: launch_result_def aws_owed_def split: sum.splits list.splits)
qed

lemma launch_logs:
  "logs R (launch H J ctx opts region img sg confArgs attempt) (\<lambda>r n. \<exists>extra. launch_result J R opts
     (run_instances_args opts region img (awsInstanceType opts) sg confArgs attempt (tag_list H (vo_Tags opts)) @ extra) r n)"
  (is "logs R _ (\<lambda>r n. \<exists>extra. launch_result J R opts (?args @ extra) r n)")
proof -
  have go: "logs R (pbind (retryCLIOutput H ctx ''aws'' ''aws ec2 run-instances'' (?args @ extra)) (launched H J ctx opts region))
      (launch_result J R opts (?args @ extra))" for extra
    by (rule launch_go_logs) (simp add: run_instances_args_def)
  let ?opt = "\<lambda>f. [''--user-data'', ''file://'' @ f]"
  have filed: "logs R (pfinally (pbind (retryCLIOutput H ctx ''aws'' ''aws ec2 run-instances'' (?args @ ?opt f)) (launched H J ctx opts region))
      (remove_temp f)) (launch_result J R opts (?args @ ?opt f))" for f
    by (rule logs_pfinally [OF go quiet_logs [OF quiet_remove_temp]]) (rule launch_result_quiet)
  show ?thesis
    unfolding launch_def Let_def
  proof (rule logs_quiet_pbind [OF quiet_aws_user_data], goal_cases)
    case (1 ud)
    show ?case
    proof (rule logs_if, goal_cases)
      case 1
      show ?case by (rule logs_weaken [OF go]) blast
    next
      case 2
      show ?case
        by (rule logs_quiet_pbind [where f = aws_events], intro aws_quiet, rule logs_weaken [OF filed])
           (blast intro: launch_result_none launch_result_quiet)+
    qed
  qed (blast intro: launch_result_none launch_result_quiet)+
qed

text \<open>The whole creation.\<close>

definition create_result ::
  "'c cli_host \<Rightarrow> aws_json \<Rightarrow> string \<Rightarrow> vm_options \<Rightarrow> nat \<Rightarrow> cli_err + vm_info \<Rightarrow> cli_log \<Rightarrow> bool" where
  "create_result H J R opts attempt r n \<longleftrightarrow> (\<exists>img sg confArgs extra. launch_result J R opts
     (run_instances_args opts R img (awsInstanceType opts) sg confArgs attempt (tag_list H (vo_Tags opts)) @ extra) r n)"

lemma create_result_quiet: "picks aws_events n0 = [] \<Longrightarrow> create_result H J R opts attempt r n \<Longrightarrow> create_result H J R opts attempt r (n0 @ n)"
  unfolding create_result_def by (blast intro: launch_result_quiet)

lemma create_result_none: "picks aws_events n = [] \<Longrightarrow> create_result H J R opts attempt (Inl e) n"
  unfolding create_result_def by (blast intro: launch_result_none)

lemma create_result_sg:
  assumes "no_launch n" "create_result H J R opts attempt r n'"
    "isl r \<longrightarrow> set (picks (aws_owed J R) n) \<subseteq> set (cmds n')"
  shows "create_result H J R opts attempt r (n @ n')"
  using assms unfolding create_result_def launch_result_def no_launch_def by (cases r) auto

lemma launch_in_sg_logs:
  "logs R (pon_err (launch H J ctx opts R img sg confArgs attempt) (awsDeleteSecurityGroup H False R sg))
     (\<lambda>r n. create_result H J R opts attempt r n \<and> (isl r \<longrightarrow> delete_sg_args R sg \<in> set (cmds n)))"
proof (rule logs_pon_err [OF launch_logs [where J = J] awsDeleteSecurityGroup_logs], goal_cases)
  case (1 e n r' n')
  then show ?case unfolding create_result_def using launch_result_quiet(2) [of n'] by fastforce
next
  case (2 a n)
  then show ?case unfolding create_result_def by auto
qed

lemma create_in_sg_logs:
  "logs R (pbind (awsCreateSSHSecurityGroup H ctx R name cidr tags) (\<lambda>sg.
      pon_err (launch H J ctx opts R img sg confArgs attempt) (awsDeleteSecurityGroup H False R sg)))
     (create_result H J R opts attempt)"
proof (rule logs_pbind [OF awsCreateSSHSecurityGroup_logs [where J = J] launch_in_sg_logs], goal_cases)
  case (1 e n)
  have "\<exists>x. attempts args x []" for args by (auto simp: attempts_def intro!: exI [of _ "Inl e"])
  with 1 show ?case unfolding create_result_def launch_result_def no_launch_def by auto
next
  case (2 sg n r n')
  then show ?case by (intro create_result_sg) auto
qed

lemma aws_CreateVM_logs:
  assumes "vo_Region opts \<in> {[], pw_region w}" "aws_CreateVM H J ctx opts w = (r, w')"
  shows "\<exists>new. pw_calls w' = pw_calls w @ new \<and> create_result H J (pw_region w) opts (Suc (pw_seq w)) r new"
proof -
  let ?R = "pw_region w"
  let ?body = "pbind (pwrap ''aws tags'' (presult (validateLabels (tag_list H (vo_Tags opts))))) (\<lambda>_.
     pbind (presult (awsConfidentialArgs opts)) (\<lambda>confArgs.
     pbind (aws_image H ctx opts ?R) (\<lambda>img.
     pbind (pwrap ''aws'' (presult (validateVMArgs ?R (awsInstanceType opts) img))) (\<lambda>_.
     pbind (awsCreateSSHSecurityGroup H ctx ?R (awsSGName opts)
              (if vo_AllowSSHFrom opts = [] then ''0.0.0.0/0'' else vo_AllowSSHFrom opts) (tag_list H (vo_Tags opts))) (\<lambda>sg.
     pon_err (launch H J ctx opts ?R img sg confArgs (Suc (pw_seq w))) (awsDeleteSecurityGroup H False ?R sg))))))"
  have "logs ?R ?body (create_result H J ?R opts (Suc (pw_seq w)))"
    by (intro logs_quiet_pbind [where f = aws_events] create_in_sg_logs quiet_aws_image create_result_none create_result_quiet)
       (auto intro!: aws_quiet)
  moreover have reg: "(if vo_Region opts = [] then pw_region (w\<lparr>pw_seq := Suc (pw_seq w)\<rparr>) else vo_Region opts) = ?R"
    using assms(1) by auto
  have "?body (w\<lparr>pw_seq := Suc (pw_seq w)\<rparr>) = (r, w')"
    using assms(2) by (simp add: aws_CreateVM_def pbind_pupd pbind_pgets reg split del: if_split)
  ultimately show ?thesis
    by (auto dest!: logsD)
qed

text \<open>Every deletion that is owed is among the commands that were run.\<close>

definition aws_settled :: "aws_json \<Rightarrow> string \<Rightarrow> cli_log \<Rightarrow> bool" where
  "aws_settled J R n \<longleftrightarrow> set (picks (aws_owed J R) n) \<subseteq> set (cmds n)"

text \<open>
  C13: A failed creation settles its debts: whatever the CLI answers, each security group it created and each
  instance a launch reported has its deletion among the commands that were run. (A launch whose output
  cannot be read reports no instance.)
\<close>

theorem aws_failed_create_settled:
  assumes "vo_Region opts \<in> {[], pw_region w}" "aws_CreateVM H J ctx opts w = (Inl e, w')"
  shows "\<exists>new. pw_calls w' = pw_calls w @ new \<and> aws_settled J (pw_region w) new"
  using aws_CreateVM_logs [OF assms] unfolding create_result_def launch_result_def aws_settled_def by auto

text \<open>
  C14: A successful creation launches one instance: the launches are repetitions of one command line of which all but
  the last failed, they carry the client token of this call when the run has a name, and the machine returned is the
  first instance of that launch, with a public address and the tags asked for.
\<close>

theorem aws_create_one_launch:
  assumes "vo_Region opts \<in> {[], pw_region w}" "aws_CreateVM H J ctx opts w = (Inr vm, w')"
  shows "\<exists>new k args out is. pw_calls w' = pw_calls w @ new
    \<and> picks aws_launch_calls new = replicate k (args, None) @ [(args, Some out)]
    \<and> aj_run J out = Inr (vi_ID vm # is) \<and> vi_IP vm \<noteq> [] \<and> vi_Tags vm = vo_Tags opts
    \<and> (run_base_name opts \<noteq> [] \<longrightarrow> awsClientToken opts (Suc (pw_seq w)) \<in> set args)"
proof -
  from aws_CreateVM_logs [OF assms] obtain new img sg confArgs extra out "is" where
    new: "pw_calls w' = pw_calls w @ new" and
    att: "attempts (run_instances_args opts (pw_region w) img (awsInstanceType opts) sg confArgs (Suc (pw_seq w)) (tag_list H (vo_Tags opts)) @ extra)
            (Inr out) (picks aws_launch_calls new)" and
    vm: "aj_run J out = Inr (vi_ID vm # is)" "vi_IP vm \<noteq> []" "vi_Tags vm = vo_Tags opts"
    unfolding create_result_def launch_result_def by auto
  have "awsClientToken opts (Suc (pw_seq w)) \<in> set (run_instances_args opts (pw_region w) img (awsInstanceType opts) sg confArgs (Suc (pw_seq w)) (tag_list H (vo_Tags opts)))"
    if "run_base_name opts \<noteq> []"
    using that by (simp add: run_instances_args_def awsClientToken_def Let_def)
  with att new vm show ?thesis unfolding attempts_def by fastforce
qed

definition aws_json_ex :: aws_json where
  "aws_json_ex = \<lparr>aj_run = (\<lambda>_. Inr [''i-1'']), aj_describe = (\<lambda>_. Inr [[\<lparr>ai_InstanceId = ''i-1'',
     ai_PublicIpAddress = ''192.0.2.1'', ai_State = ''running'', ai_Tags = []\<rparr>]])\<rparr>"

lemmas aws_steps = aws_CreateVM_def awsConfidentialArgs_def aws_image_def launch_def launched_def aws_user_data_def aws_json_ex_def
  awsInstanceType_def awsCreateSSHSecurityGroup_def obtain_sg_def awsSGName_def awsTagSpec_def run_instances_args_def awsClientToken_def
  waitForIP_def getVMInRegion_def aws_DestroyVM_def awsInstanceDispatcherSGs_def awsDeleteSecurityGroup_def delete_sg_args_def terminate_args_def
  deleteSGWhenReleased_def delete_loop.simps(2) [where n = 41, simplified]

theorem aws_failed_create_settled_witness:
  "\<exists>e w'. aws_CreateVM (host_ex 0 (\<lambda>_. (''sg-1'', None))) aws_json_ex False opts_ex (world_ex ''us-east-1'') = (Inl e, w')
     \<and> (\<exists>new. pw_calls w' = new \<and> aws_settled aws_json_ex ''us-east-1'' new
          \<and> picks (aws_owed aws_json_ex ''us-east-1'') new = [delete_sg_args ''us-east-1'' ''sg-1'', terminate_args ''us-east-1'' ''i-1''])"
proof -
  have "\<exists>e w'. aws_CreateVM (host_ex 0 (\<lambda>_. (''sg-1'', None))) aws_json_ex False opts_ex (world_ex ''us-east-1'') = (Inl e, w')
     \<and> picks (aws_owed aws_json_ex ''us-east-1'') (pw_calls w') = [delete_sg_args ''us-east-1'' ''sg-1'', terminate_args ''us-east-1'' ''i-1'']"
    by (simp add: aws_steps run_steps picks_def aws_owed_def cong: pbind_lazy)
  then obtain e w' where
    run: "aws_CreateVM (host_ex 0 (\<lambda>_. (''sg-1'', None))) aws_json_ex False opts_ex (world_ex ''us-east-1'') = (Inl e, w')" and
    owed: "picks (aws_owed aws_json_ex ''us-east-1'') (pw_calls w') = [delete_sg_args ''us-east-1'' ''sg-1'', terminate_args ''us-east-1'' ''i-1'']"
    by blast
  have reg: "vo_Region opts_ex \<in> {[], pw_region (world_ex ''us-east-1'')}" by (simp add: opts_ex_def)
  from aws_failed_create_settled [OF reg run] owed run show ?thesis by (auto simp: world_ex_def)
qed

theorem aws_create_one_launch_witness:
  "\<exists>vm w'. aws_CreateVM (host_ex 1 (\<lambda>_. (''sg-1'', None))) aws_json_ex False opts_ex (world_ex ''us-east-1'') = (Inr vm, w')
     \<and> vi_ID vm = ''i-1'' \<and> (\<exists>k args out. picks aws_launch_calls (pw_calls w') = replicate k (args, None) @ [(args, Some out)]
          \<and> ''r1-1'' \<in> set args)"
proof -
  let ?run = "aws_CreateVM (host_ex 1 (\<lambda>_. (''sg-1'', None))) aws_json_ex False opts_ex (world_ex ''us-east-1'')"
  have "\<exists>vm w'. ?run = (Inr vm, w')" by (simp add: aws_steps run_steps cong: pbind_lazy)
  then obtain vm w' where run: "?run = (Inr vm, w')" by blast
  have reg: "vo_Region opts_ex \<in> {[], pw_region (world_ex ''us-east-1'')}" by (simp add: opts_ex_def)
  have tok: "awsClientToken opts_ex (Suc (pw_seq (world_ex ''us-east-1''))) = ''r1-1''" "run_base_name opts_ex \<noteq> []"
    by (simp_all add: awsClientToken_def run_steps)
  from aws_create_one_launch [OF reg run] tok have
    "\<exists>new k args out is. pw_calls w' = new \<and> picks aws_launch_calls new = replicate k (args, None) @ [(args, Some out)]
      \<and> aj_run aws_json_ex out = Inr (vi_ID vm # is) \<and> ''r1-1'' \<in> set args" by (auto simp: world_ex_def)
  moreover have "i = ''i-1''" if "aj_run aws_json_ex out = Inr (i # is)" for out i "is"
    using that by (simp add: aws_json_ex_def)
  ultimately show ?thesis using run by blast
qed

end
