(* ===== verification/Cloud_Firewall.thy ===== *)
theory Cloud_Firewall
  imports Cloud_Provider
begin

text \<open>
  The per-run firewall (\<^verbatim>\<open>internal/cloudvm/firewall.go\<close>): the check of \<^verbatim>\<open>--allow-ssh-from\<close> with Go's
  \<^verbatim>\<open>net.ParseCIDR\<close>, the names derived from a run, and the command lines for Hetzner. Shown: what passes the
  check cannot be read as anything but an address range, and names stay within one safe alphabet.
\<close>

section \<open>\<^verbatim>\<open>net.ParseCIDR\<close>\<close>

definition is_hex :: "char \<Rightarrow> bool" where
  "is_hex c = (let n = (of_char c :: nat) in is_digit c \<or> (97 \<le> n \<and> n \<le> 102) \<or> (65 \<le> n \<and> n \<le> 70))"

text \<open>Dotted decimals: the field, its value so far and its digits so far.\<close>

fun ipv4_fields :: "nat \<Rightarrow> int \<Rightarrow> nat \<Rightarrow> string \<Rightarrow> bool" where
  "ipv4_fields pos val digLen [] = (pos = 3)"
| "ipv4_fields pos val digLen (c # s) =
     (if is_digit c then
        (if digLen = 1 \<and> val = 0 then False
         else let v = val * 10 + digit_val c in if 255 < v then False else ipv4_fields pos v (Suc digLen) s)
      else if c = CHR ''.'' then
        (if digLen = 0 \<or> s = [] then False
         else if pos = 3 then False
         else ipv4_fields (Suc pos) 0 0 s)
      else False)"

text \<open>
  Groups of hexadecimal digits; the first argument counts the groups that still fit, \<open>ell\<close> is set once the
  ellipsis was seen. The result is what is left of both, and the rest of the text.
\<close>

primrec ipv6_groups :: "nat \<Rightarrow> bool \<Rightarrow> string \<Rightarrow> (nat \<times> bool \<times> string) option" where
  "ipv6_groups 0 ell s = Some (0, ell, s)"
| "ipv6_groups (Suc n) ell s =
     (let ds = takeWhile is_hex s; rest = dropWhile is_hex s
      in if 4 < length ds \<or> ds = [] then None
         else case rest of
           [] \<Rightarrow> Some (n, ell, [])
         | c # s1 \<Rightarrow>
             if c = CHR ''.'' then
               (if \<not> ell \<and> Suc n \<noteq> 2 then None
                else if Suc n < 2 then None
                else if ipv4_fields 0 0 0 s then Some (n - 1, ell, []) else None)
             else if c \<noteq> CHR '':'' then None
             else case s1 of
               [] \<Rightarrow> None
             | c1 # s2 \<Rightarrow>
                 if c1 = CHR '':'' then
                   (if ell then None else if s2 = [] then Some (n, True, []) else ipv6_groups n True s2)
                 else ipv6_groups n ell s1)"

definition parse_ipv6 :: "string \<Rightarrow> bool" where
  "parse_ipv6 s =
     (if CHR ''%'' \<in> set s then False
      else let ell = strings_HasPrefix s ''::''; s = (if ell then drop 2 s else s)
           in if ell \<and> s = [] then True
              else case ipv6_groups 8 ell s of
                     None \<Rightarrow> False
                   | Some (n, ell', rest) \<Rightarrow> rest = [] \<and> (if 0 < n then ell' else \<not> ell'))"

text \<open>The length of the address in bits; an address with a zone is refused with the rest.\<close>

definition parse_addr :: "string \<Rightarrow> nat option" where
  "parse_addr s =
     (case dropWhile (\<lambda>c. c \<notin> {CHR ''.'', CHR '':'', CHR ''%''}) s of
        [] \<Rightarrow> None
      | c # _ \<Rightarrow>
          if c = CHR ''.'' then (if ipv4_fields 0 0 0 s then Some 32 else None)
          else if c = CHR '':'' then (if parse_ipv6 s then Some 128 else None)
          else None)"

definition ParseCIDR :: "string \<Rightarrow> bool" where
  "ParseCIDR s =
     (let addr = takeWhile (\<lambda>c. c \<noteq> CHR ''/'') s; mask = drop (Suc (length addr)) s
      in if CHR ''/'' \<notin> set s then False
         else case parse_addr addr of
                None \<Rightarrow> False
              | Some bits \<Rightarrow> mask \<noteq> [] \<and> list_all is_digit mask \<and> int_of_digits mask \<le> int bits)"

section \<open>Names and command lines\<close>

definition sshPort :: string where
  "sshPort = ''22''"

definition validateFirewallCIDR :: "string \<Rightarrow> unit result" where
  "validateFirewallCIDR cidr =
     (if ParseCIDR cidr then Inr ()
      else Inl (''invalid --allow-ssh-from '' @ go_quote cidr @ '': must be a CIDR like 203.0.113.4/32: invalid CIDR address: '' @ cidr))"

definition fw_char :: "char \<Rightarrow> char" where
  "fw_char r = (let n = (of_char r :: nat) in if (97 \<le> n \<and> n \<le> 122) \<or> (48 \<le> n \<and> n \<le> 57) then r else CHR ''-'')"

definition firewallNameFromString :: "string \<Rightarrow> string" where
  "firewallNameFromString h = ''dispatcher-fw-'' @ map fw_char (strings_ToLower h)"

definition firewallName :: "vm_options \<Rightarrow> string" where
  "firewallName opts =
     (let i = env_value (vo_Tags opts) ''dispatcher-run-id'' in firewallNameFromString (if i = [] then vo_Name opts else i))"

definition errFirewallUnsupported :: "string \<Rightarrow> string" where
  "errFirewallUnsupported p =
     ''--allow-ssh-from is not yet supported for '' @ p @ ''; restrict SSH at the account/VPC level (security group / NSG) instead''"

definition hetznerFirewallCreateArgs :: "string \<Rightarrow> (string \<times> string) list \<Rightarrow> string list" where
  "hetznerFirewallCreateArgs name labels =
     [''firewall'', ''create'', ''--name'', name] @ concat (map (\<lambda>(k, v). [''--label'', k @ ''='' @ v]) labels)"

definition hetznerFirewallRuleArgs :: "string \<Rightarrow> string \<Rightarrow> string list" where
  "hetznerFirewallRuleArgs name cidr =
     [''firewall'', ''add-rule'', name, ''--direction'', ''in'', ''--protocol'', ''tcp'', ''--port'', sshPort, ''--source-ips'', cidr]"

section \<open>What passes the check\<close>

definition cidr_char :: "char \<Rightarrow> bool" where
  "cidr_char c = (is_hex c \<or> c = CHR ''.'' \<or> c = CHR '':'' \<or> c = CHR ''/'')"

lemma cidr_colon [simp]: "cidr_char (CHR '':'')"
  by (simp add: cidr_char_def)

lemma is_digit_hex: "is_digit c \<Longrightarrow> is_hex c"
  by (simp add: is_hex_def)

lemma ipv4_fields_chars: "ipv4_fields pos val digLen s \<Longrightarrow> list_all cidr_char s"
  by (induction pos val digLen s rule: ipv4_fields.induct) (auto simp: cidr_char_def is_digit_hex Let_def split: if_splits)

lemma hex_prefix_chars: "list_all cidr_char (dropWhile is_hex s) \<Longrightarrow> list_all cidr_char s"
  by (induction s) (auto simp: cidr_char_def split: if_splits)

lemma ipv6_groups_chars: "ipv6_groups n ell s = Some (n', ell', []) \<Longrightarrow> list_all cidr_char s"
proof (induction n arbitrary: ell s)
  case (Suc n)
  show ?case
  proof (cases "dropWhile is_hex s")
    case Nil
    then have "list_all cidr_char (dropWhile is_hex s)" by (simp only: list.pred_inject)
    then show ?thesis by (rule hex_prefix_chars)
  next
    case (Cons c s1)
    show ?thesis
    proof (cases "c = CHR ''.''")
      case True
      with Suc.prems Cons show ?thesis
        by (auto simp: Let_def split: if_splits intro: ipv4_fields_chars)
    next
      case False
      with Suc.prems Cons have "list_all cidr_char (dropWhile is_hex s)"
        by (auto simp: Let_def split: if_splits list.splits dest!: Suc.IH)
      then show ?thesis by (rule hex_prefix_chars)
    qed
  qed
qed simp

lemma ellipsis_chars: "take 2 s = ''::'' \<Longrightarrow> list_all cidr_char (drop 2 s) \<Longrightarrow> list_all cidr_char s"
  by (cases s; cases "tl s") (auto simp: cidr_char_def)

lemma parse_ipv6_chars: "parse_ipv6 s \<Longrightarrow> list_all cidr_char s"
  unfolding parse_ipv6_def strings_HasPrefix_def
  by (auto simp: Let_def numeral_2_eq_2 [symmetric]
      split: if_splits option.splits prod.splits dest!: ipv6_groups_chars intro: ellipsis_chars)

lemma parse_addr_chars: "parse_addr s = Some b \<Longrightarrow> list_all cidr_char s"
  unfolding parse_addr_def
  by (auto split: list.splits if_splits dest: ipv4_fields_chars parse_ipv6_chars)

text \<open>
  A range that passes the check is not empty, holds a slash, and is written in digits, hexadecimal letters,
  dots, colons and slashes only: neither an option of a command line nor a second argument.
\<close>

lemma cidr_safe:
  assumes "validateFirewallCIDR cidr = Inr ()"
  shows "list_all cidr_char cidr \<and> CHR ''/'' \<in> set cidr \<and> hd cidr \<noteq> CHR ''-''"
proof -
  let ?addr = "takeWhile (\<lambda>c. c \<noteq> CHR ''/'') cidr"
  let ?mask = "drop (Suc (length ?addr)) cidr"
  from assms have sl: "CHR ''/'' \<in> set cidr" and
    ok: "\<exists>b. parse_addr ?addr = Some b" "list_all is_digit ?mask"
    by (auto simp: validateFirewallCIDR_def ParseCIDR_def Let_def split: if_splits option.splits)
  from sl have split: "cidr = ?addr @ CHR ''/'' # ?mask"
    by (induction cidr) auto
  have chars: "list_all cidr_char cidr"
    by (subst split) (use ok in \<open>auto simp: list_all_iff cidr_char_def is_digit_hex dest!: parse_addr_chars\<close>)
  moreover have "\<not> cidr_char (CHR ''-'')" by (simp add: cidr_char_def is_hex_def is_digit_def)
  ultimately show ?thesis using sl by (cases cidr) auto
qed

lemma fw_ex: "firewallNameFromString ''r1'' = ''dispatcher-fw-r1'' \<and> ParseCIDR ''10.0.0.0/8''"
  by code_simp

lemmas fw_steps = validateFirewallCIDR_def firewallName_def fw_ex sshPort_def

end
