(* ===== verification/Cloud_Hetzner.thy ===== *)
theory Cloud_Hetzner
  imports Cloud_Firewall
begin

text \<open>
  The provider for Hetzner (\<^verbatim>\<open>internal/cloudvm/hetzner.go\<close>): the key of a run is registered with the account, an
  optional firewall is made before the server. Shown: with \<^verbatim>\<open>--allow-ssh-from\<close> no server is asked for before
  its firewall and rule, and a creation that made no server removes the key and the firewall again.
\<close>

section \<open>What the tool prints\<close>

record hz_server =
  hs_ID :: int
  hs_Name :: string
  hs_IP :: string
  hs_Status :: string
  hs_Labels :: "string \<rightharpoonup> string"
  hs_Created :: string

text \<open>The decoders of one server (inside an envelope, or bare), of a list, and of a time stamp.\<close>

record hetzner_json =
  hj_created :: "string \<Rightarrow> hz_server result"
  hj_server :: "string \<Rightarrow> hz_server result"
  hj_servers :: "string \<Rightarrow> hz_server list result"
  hj_time :: "string \<Rightarrow> time"

section \<open>Operations\<close>

definition NewHetznerProvider_region :: "string \<Rightarrow> string" where
  "NewHetznerProvider_region region = (if region = [] then ''fsn1'' else region)"

definition hetzner_CheckCLI :: "'c cli_host \<Rightarrow> bool \<Rightarrow> ('c, unit) pm" where
  "hetzner_CheckCLI H ctx =
     (case ch_look H ''hcloud'' of
        Some e \<Rightarrow> pfail (plain_err (''hcloud CLI not found: '' @ e))
      | None \<Rightarrow> pbind (pwrap ''hcloud not authenticated'' (exec_cli H ctx ''hcloud'' [''server'', ''list'', ''-o'', ''json''])) (\<lambda>_. pret ()))"

definition hetznerSSHKeyName :: "vm_options \<Rightarrow> string" where
  "hetznerSSHKeyName opts =
     (let runID = env_value (vo_Tags opts) ''dispatcher-run-id''
      in if runID = [] then ''dispatcher-'' @ vo_Name opts else ''dispatcher-'' @ runID)"

definition uploadHetznerSSHKey :: "'c cli_host \<Rightarrow> bool \<Rightarrow> string \<Rightarrow> string \<Rightarrow> ('c, unit) pm" where
  "uploadHetznerSSHKey H ctx name pubKeyPath =
     pbind (exec_combined H ctx ''hcloud'' [''ssh-key'', ''create'', ''--name'', name, ''--public-key-from-file'', pubKeyPath]) (\<lambda>(out, err).
       case err of
         None \<Rightarrow> pret ()
       | Some e \<Rightarrow>
           if strings_Contains out ''already_exists'' \<or> strings_Contains out ''already exists'' then pret ()
           else pfail (err_label (''hcloud ssh-key create: '' @ out) e))"

definition hz_state :: "string \<Rightarrow> vm_state" where
  "hz_state status =
     (if status = ''running'' then VMStateRunning
      else if status = ''off'' \<or> status = ''stopping'' then VMStateStopping
      else if status = ''deleting'' then VMStateTerminated
      else VMStateRunning)"

definition hetzner_GetVM :: "'c cli_host \<Rightarrow> hetzner_json \<Rightarrow> bool \<Rightarrow> string \<Rightarrow> ('c, vm_info) pm" where
  "hetzner_GetVM H J ctx vmID =
     pbind (ptry (runCLI H ctx ''hcloud'' [''server'', ''describe'', vmID, ''-o'', ''json''])) (\<lambda>r.
       case r of
         Inl e \<Rightarrow> if isVMNotFound (Some e) vmID then pret (vm_gone vmID) else pfail (wrapExecError ''hcloud server describe'' e)
       | Inr out \<Rightarrow>
           pbind (pwrap ''cannot parse hcloud output'' (presult (hj_server J out))) (\<lambda>s.
             pret ((vm_gone (show_int (hs_ID s)))\<lparr>vi_Name := hs_Name s, vi_IP := hs_IP s, vi_State := hz_state (hs_Status s),
               vi_Tags := hs_Labels s\<rparr>)))"

definition runIDForServer :: "'c cli_host \<Rightarrow> hetzner_json \<Rightarrow> bool \<Rightarrow> string \<Rightarrow> ('c, string) pm" where
  "runIDForServer H J ctx vmID =
     pbind (ptry (runCLI H ctx ''hcloud'' [''server'', ''describe'', vmID, ''-o'', ''json''])) (\<lambda>r.
       case r of
         Inl _ \<Rightarrow> pret []
       | Inr out \<Rightarrow> (case hj_server J out of Inl _ \<Rightarrow> pret [] | Inr s \<Rightarrow> pret (env_value (hs_Labels s) ''dispatcher-run-id'')))"

definition hetzner_DestroyVM :: "'c cli_host \<Rightarrow> hetzner_json \<Rightarrow> bool \<Rightarrow> string \<Rightarrow> ('c, unit) pm" where
  "hetzner_DestroyVM H J ctx vmID =
     pbind (runIDForServer H J ctx vmID) (\<lambda>runID.
     pbind (ptry (runCLI H ctx ''hcloud'' [''server'', ''delete'', vmID])) (\<lambda>r.
       case r of
         Inl e \<Rightarrow> if isVMNotFound (Some e) vmID then pret () else pfail (err_label ''hcloud server delete failed'' e)
       | Inr _ \<Rightarrow>
           if runID \<noteq> [] then
             pbind (pignore (runCLI H ctx ''hcloud'' [''firewall'', ''delete'', firewallNameFromString runID])) (\<lambda>_.
             pignore (runCLI H ctx ''hcloud'' [''ssh-key'', ''delete'', ''dispatcher-'' @ runID]))
           else pret ()))"

definition hetzner_ListVMs :: "'c cli_host \<Rightarrow> hetzner_json \<Rightarrow> bool \<Rightarrow> (string \<rightharpoonup> string) \<Rightarrow> ('c, vm_info list) pm" where
  "hetzner_ListVMs H J ctx tags =
     pbind (pwrap ''hetzner selector'' (presult (validateLabels (tag_list H tags)))) (\<lambda>_.
     pbind (pwrap ''hcloud server list failed'' (runCLI H ctx ''hcloud'' ([''server'', ''list'', ''-o'', ''json'']
         @ concat (map (\<lambda>(k, v). [''--selector'', k @ ''='' @ v]) (tag_list H tags))))) (\<lambda>out.
     pbind (pwrap ''cannot parse hcloud output'' (presult (hj_servers J out))) (\<lambda>servers.
       pret (map (\<lambda>s. (vm_gone (show_int (hs_ID s)))\<lparr>vi_Name := hs_Name s, vi_State := vm_state_of (strings_ToLower (hs_Status s)),
           vi_CreatedAt := hj_time J (hs_Created s), vi_Tags := hs_Labels s\<rparr>) servers))))"

section \<open>Creating a server\<close>

definition hz_delete_firewall :: "'c cli_host \<Rightarrow> string \<Rightarrow> ('c, unit) pm" where
  "hz_delete_firewall H name = pignore (exec_cli H False ''hcloud'' [''firewall'', ''delete'', name])"

definition hz_delete_key :: "'c cli_host \<Rightarrow> string \<Rightarrow> ('c, unit) pm" where
  "hz_delete_key H name = pignore (exec_cli H False ''hcloud'' [''ssh-key'', ''delete'', name])"

text \<open>A step of the firewall, where an object that exists already is as good as a new one.\<close>

definition hz_firewall_step :: "'c cli_host \<Rightarrow> bool \<Rightarrow> string \<Rightarrow> string list \<Rightarrow> ('c, unit) pm \<Rightarrow> ('c, unit) pm" where
  "hz_firewall_step H ctx label args undo =
     pbind (exec_combined H ctx ''hcloud'' args) (\<lambda>(out, err).
       case err of
         Some e \<Rightarrow> if \<not> strings_Contains out ''already'' then pbind undo (\<lambda>_. pfail (err_label (label @ '': '' @ out) e)) else pret ()
       | None \<Rightarrow> pret ())"

definition hz_firewall :: "'c cli_host \<Rightarrow> bool \<Rightarrow> vm_options \<Rightarrow> ('c, string) pm" where
  "hz_firewall H ctx opts =
     (if vo_AllowSSHFrom opts = [] then pret []
      else
        pbind (presult (validateFirewallCIDR (vo_AllowSSHFrom opts))) (\<lambda>_.
        let fwName = firewallName opts
        in pbind (hz_firewall_step H ctx ''hcloud firewall create'' (hetznerFirewallCreateArgs fwName (tag_list H (vo_Tags opts))) (pret ())) (\<lambda>_.
           pbind (hz_firewall_step H ctx ''hcloud firewall add-rule'' (hetznerFirewallRuleArgs fwName (vo_AllowSSHFrom opts))
                    (hz_delete_firewall H fwName)) (\<lambda>_.
           pret fwName))))"

definition hz_create_args :: "vm_options \<Rightarrow> string \<Rightarrow> string \<Rightarrow> string \<Rightarrow> string list" where
  "hz_create_args opts region img instanceType =
     [''server'', ''create'', ''--name'', vo_Name opts, ''--type'', instanceType, ''--image'', img, ''--location'', region, ''-o'', ''json'']"

text \<open>The creation proper: a server that a failed attempt left behind is taken over.\<close>

definition hz_launch :: "'c cli_host \<Rightarrow> hetzner_json \<Rightarrow> bool \<Rightarrow> vm_options \<Rightarrow> string \<Rightarrow> string list \<Rightarrow> ('c, vm_info) pm" where
  "hz_launch H J ctx opts fwName args2 =
     pbind (ptry (retryCLIOutput H ctx ''hcloud'' ''hcloud server create'' args2)) (\<lambda>r.
           case r of
             Inl e \<Rightarrow>
               pbind (adoptCreatedVM (hetzner_ListVMs H J) (hetzner_GetVM H J) (env_value (vo_Tags opts) ''dispatcher-run-id'')) (\<lambda>vm.
                 case vm of
                   Some vm \<Rightarrow> pret vm
                 | None \<Rightarrow> pbind (if fwName \<noteq> [] then hz_delete_firewall H fwName else pret ()) (\<lambda>_. pfail e))
           | Inr out \<Rightarrow>
               pbind (pwrap ''cannot parse hcloud output'' (presult (hj_created J out))) (\<lambda>s.
               pbind (pgets (\<lambda>w. ch_now H (pw_out w))) (\<lambda>now.
                 pret ((vm_gone (show_int (hs_ID s)))\<lparr>vi_Name := hs_Name s, vi_IP := hs_IP s, vi_State := VMStateRunning,
                   vi_CreatedAt := now, vi_Tags := vo_Tags opts\<rparr>))))"

text \<open>From the labels on: the arguments so far are given.\<close>

definition hz_create_server :: "'c cli_host \<Rightarrow> hetzner_json \<Rightarrow> bool \<Rightarrow> vm_options \<Rightarrow> string list \<Rightarrow> ('c, vm_info) pm" where
  "hz_create_server H J ctx opts args =
     pbind (pwrap ''hetzner labels'' (presult (validateLabels (tag_list H (vo_Tags opts))))) (\<lambda>_.
     let args1 = args @ concat (map (\<lambda>(k, v). [''--label'', k @ ''='' @ v]) (tag_list H (vo_Tags opts)))
     in pbind (hz_firewall H ctx opts) (\<lambda>fwName.
        hz_launch H J ctx opts fwName (args1 @ (if fwName = [] then [] else [''--firewall'', fwName]))))"

definition hz_with_user_data :: "'c cli_host \<Rightarrow> hetzner_json \<Rightarrow> bool \<Rightarrow> vm_options \<Rightarrow> string list \<Rightarrow> ('c, vm_info) pm" where
  "hz_with_user_data H J ctx opts args =
     (if vo_UserData opts \<noteq> []
      then with_temp H ''write user-data'' ''dispatcher-userdata-*.yaml'' (vo_UserData opts) (\<lambda>path.
             hz_create_server H J ctx opts (args @ [''--user-data-from-file'', path]))
      else hz_create_server H J ctx opts args)"

definition hetzner_CreateVM :: "'c cli_host \<Rightarrow> hetzner_json \<Rightarrow> bool \<Rightarrow> vm_options \<Rightarrow> ('c, vm_info) pm" where
  "hetzner_CreateVM H J ctx opts =
     pbind (pgets (\<lambda>w. if vo_Region opts = [] then pw_region w else vo_Region opts)) (\<lambda>region.
     let img = (if vo_Image opts = [] then ''ubuntu-24.04'' else vo_Image opts);
         instanceType = (if vo_InstanceType opts = [] then ''cax11'' else vo_InstanceType opts);
         args = hz_create_args opts region img instanceType;
         key = hetznerSSHKeyName opts
     in pbind (pwrap ''hetzner'' (presult (validateVMArgs region instanceType img))) (\<lambda>_.
        if vo_SSHKeyPath opts \<noteq> [] \<and> key \<noteq> []
        then pbind (uploadHetznerSSHKey H ctx key (vo_SSHKeyPath opts)) (\<lambda>_.
               pon_err (hz_with_user_data H J ctx opts (args @ [''--ssh-key'', key])) (hz_delete_key H key))
        else hz_with_user_data H J ctx opts args))"

definition hetzner_WaitReady :: "'c cli_host \<Rightarrow> bool \<Rightarrow> string \<Rightarrow> string \<Rightarrow> string \<Rightarrow> ('c, unit) pm" where
  "hetzner_WaitReady H ctx i ip key = WaitForSSH H ctx ip (5 * Minute)"

definition hetzner_provider ::
  "'c cli_host \<Rightarrow> hetzner_json \<Rightarrow> ((bool \<Rightarrow> 'c pworld \<Rightarrow> resource_info list call \<times> 'c pworld)
     \<times> (bool \<Rightarrow> resource_info \<Rightarrow> 'c pworld \<Rightarrow> unit call \<times> 'c pworld)) option \<Rightarrow> 'c pworld provider" where
  "hetzner_provider H J rs = \<lparr>
     pv_CheckCLI = (\<lambda>ctx. as_call (hetzner_CheckCLI H ctx)),
     pv_CreateVM = (\<lambda>ctx opts. as_call (pbind (hetzner_CreateVM H J ctx opts) (\<lambda>vm. pret (Some vm)))),
     pv_WaitReady = (\<lambda>ctx i ip key. as_call (hetzner_WaitReady H ctx i ip key)),
     pv_GetVM = (\<lambda>ctx i. as_call (pbind (hetzner_GetVM H J ctx i) (\<lambda>vm. pret (Some vm)))),
     pv_DestroyVM = (\<lambda>ctx i. as_call (hetzner_DestroyVM H J ctx i)),
     pv_ListVMs = (\<lambda>ctx tags. as_call (hetzner_ListVMs H J ctx tags)),
     pv_SetRegion = None,
     pv_Resources = rs\<rparr>"

section \<open>What a creation runs, and in which order\<close>

definition hz_is_create :: "string list \<times> string option \<Rightarrow> bool" where
  "hz_is_create c \<longleftrightarrow> take 2 (fst c) = [''server'', ''create'']"

definition hz_is_rule :: "vm_options \<Rightarrow> string list \<times> string option \<Rightarrow> bool" where
  "hz_is_rule opts c \<longleftrightarrow> fst c = hetznerFirewallRuleArgs (firewallName opts) (vo_AllowSSHFrom opts)"

text \<open>The command line that undoes a successful call, other than that of the server.\<close>

definition hz_owed :: "string list \<times> string option \<Rightarrow> string list list" where
  "hz_owed c = (case c of
     (a # b # x # name # _, Some out) \<Rightarrow>
       if b = ''create'' \<and> (a = ''ssh-key'' \<or> a = ''firewall'') then [[a, ''delete'', name]] else []
   | _ \<Rightarrow> [])"

definition hz_events :: "string list \<times> string option \<Rightarrow> (string list \<times> string option) list" where
  "hz_events c = (if hz_is_create c \<or> hz_owed c \<noteq> [] then [c] else [])"

definition hz_made :: "cli_log \<Rightarrow> bool" where
  "hz_made n = list_ex (\<lambda>c. hz_is_create c \<and> snd c \<noteq> None) n"

definition hz_settled :: "cli_log \<Rightarrow> bool" where
  "hz_settled n \<longleftrightarrow> hz_made n \<or> set (picks hz_owed n) \<subseteq> set (cmds n)"

definition hz_scoped :: "vm_options \<Rightarrow> cli_log \<Rightarrow> bool" where
  "hz_scoped opts n \<longleftrightarrow> vo_AllowSSHFrom opts = []
     \<or> after hz_is_create (hz_is_rule opts) n
        \<and> list_all (\<lambda>c. hz_is_create c \<longrightarrow> (\<exists>a. fst c = a @ [''--firewall'', firewallName opts])) n"

lemma hz_owed_failed [simp]: "hz_owed (args, None) = []"
  by (simp add: hz_owed_def split: list.split)

lemma hz_no_events: "picks hz_events n = [] \<Longrightarrow> picks hz_owed n = [] \<and> list_all (\<lambda>c. \<not> hz_is_create c) n"
  by (induction n) (auto simp: hz_events_def split: if_splits)

lemma hz_not_made: "list_all (\<lambda>c. \<not> hz_is_create c) n \<Longrightarrow> \<not> hz_made n"
  by (auto simp: hz_made_def list_all_iff list_ex_iff)

lemma hz_made_append [simp]: "hz_made (n @ n') = (hz_made n \<or> hz_made n')"
  by (simp add: hz_made_def)

lemmas hz_quiet = quiet_intros quiet_runCLI quiet_exec_cli quiet_pignore

lemma hz_event_other: "take 2 args \<notin> {[''server'', ''create''], [''ssh-key'', ''create''], [''firewall'', ''create'']} \<Longrightarrow> hz_events (args, x) = []"
  by (auto simp: hz_events_def hz_is_create_def hz_owed_def split: list.splits option.splits)

lemma quiet_hetzner_ListVMs: "quiet hz_events R (hetzner_ListVMs H J ctx tags)"
  by (auto simp: hetzner_ListVMs_def hz_event_other intro!: hz_quiet)

lemma quiet_hetzner_GetVM: "quiet hz_events R (hetzner_GetVM H J ctx i)"
  by (auto simp: hetzner_GetVM_def hz_event_other intro!: hz_quiet)

lemma hz_delete_logs:
  "logs R (hz_delete_firewall H name) (\<lambda>r n. (picks hz_events n = [] \<and> [''firewall'', ''delete'', name] \<in> set (cmds n)) \<and> \<not> isl r)"
  "logs R (hz_delete_key H name) (\<lambda>r n. (picks hz_events n = [] \<and> [''ssh-key'', ''delete'', name] \<in> set (cmds n)) \<and> \<not> isl r)"
  unfolding hz_delete_firewall_def hz_delete_key_def
  by (intro logs_pignore logs_exec_cli; simp add: hz_event_other)+

lemma hz_firewall_step_logs:
  assumes undo: "logs R undo (\<lambda>r n. U n \<and> \<not> isl r)"
  shows "logs R (hz_firewall_step H ctx label args undo) (\<lambda>r n. case r of
     Inl _ \<Rightarrow> (\<exists>u. n = (args, None) # u \<and> U u) | Inr _ \<Rightarrow> (\<exists>x. n = [(args, x)]))"
  unfolding hz_firewall_step_def
proof (rule logs_pbind [where P = "\<lambda>r n. \<not> isl r \<and> (\<forall>out e. r = Inr (out, Some e) \<longrightarrow> n = [(args, None)]) \<and> (\<exists>x. n = [(args, x)])"
      and K = "\<lambda>(out, err) r n. (isl r \<longrightarrow> err \<noteq> None \<and> U n) \<and> (\<not> isl r \<longrightarrow> n = [])"], goal_cases)
  case (2 a)
  obtain out err where a: "a = (out, err)" by force
  show ?case
  proof (cases err)
    case (Some e)
    have "logs R (pbind undo (\<lambda>_. pfail e')) (\<lambda>(r :: cli_err + unit) n. (isl r \<longrightarrow> U n) \<and> (\<not> isl r \<longrightarrow> n = []))" for e'

      by (rule logs_pbind [OF undo, where K = "\<lambda>_ r n. n = [] \<and> isl r"]) (auto intro!: logs_pfail split: sum.splits)
    then show ?thesis by (simp add: a Some logs_if logs_pret)
  qed (simp add: a logs_pret)
qed (auto intro!: logs_exec_combined split: sum.splits)


text \<open>The firewall: on success it and its rule are there, and only its deletion is owed.\<close>

lemma hz_firewall_logs:
  "logs R (hz_firewall H ctx opts) (\<lambda>r n. list_all (\<lambda>c. \<not> hz_is_create c) n \<and> (case r of
     Inl _ \<Rightarrow> set (picks hz_owed n) \<subseteq> set (cmds n)
   | Inr fw \<Rightarrow> set (picks hz_owed n) \<subseteq> {[''firewall'', ''delete'', fw]} \<and> (fw = [] \<longrightarrow> picks hz_owed n = [])
       \<and> (vo_AllowSSHFrom opts \<noteq> [] \<longrightarrow> fw = firewallName opts \<and> list_ex (hz_is_rule opts) n)))"
  (is "logs R _ ?Q")
proof -
  let ?fw = "firewallName opts"
  let ?c = "hetznerFirewallCreateArgs ?fw (tag_list H (vo_Tags opts))"
  let ?r = "hetznerFirewallRuleArgs ?fw (vo_AllowSSHFrom opts)"
  have fw: "?fw \<noteq> []" by (simp add: firewallName_def firewallNameFromString_def Let_def)
  have c: "\<not> hz_is_create (?c, x)" "set (hz_owed (?c, x)) \<subseteq> {[''firewall'', ''delete'', ?fw]}" for x
    by (cases x; simp add: hz_is_create_def hz_owed_def hetznerFirewallCreateArgs_def)+
  have r: "\<not> hz_is_create (?r, x)" "hz_owed (?r, x) = []" "hz_is_rule opts (?r, x)" for x
    by (cases x; simp add: hz_is_create_def hz_owed_def hz_is_rule_def hetznerFirewallRuleArgs_def)+
  have rule: "logs R (pbind (hz_firewall_step H ctx ''hcloud firewall add-rule'' ?r (hz_delete_firewall H ?fw)) (\<lambda>_. pret ?fw))
      (\<lambda>r n. list_all (\<lambda>c. \<not> hz_is_create c) n \<and> picks hz_owed n = [] \<and> (case r of
         Inl _ \<Rightarrow> [''firewall'', ''delete'', ?fw] \<in> set (cmds n) | Inr fw \<Rightarrow> fw = ?fw \<and> list_ex (hz_is_rule opts) n))"
  proof (rule logs_pbind [OF hz_firewall_step_logs [OF hz_delete_logs(1)], where K = "\<lambda>_ r n. r = Inr ?fw \<and> n = []"], goal_cases)
    case (2 e n)
    then show ?case using r hz_no_events by auto
  qed (use r in \<open>auto intro!: logs_pret split: sum.splits\<close>)
  have "logs R (pbind (hz_firewall_step H ctx ''hcloud firewall create'' ?c (pret ())) (\<lambda>_.
      pbind (hz_firewall_step H ctx ''hcloud firewall add-rule'' ?r (hz_delete_firewall H ?fw)) (\<lambda>_. pret ?fw))) ?Q"
  proof (rule logs_pbind [OF hz_firewall_step_logs [where U = "\<lambda>n. n = []"] rule], goal_cases)
    case (3 a n r n')
    then obtain x where n: "n = [(?c, x)]" by auto
    with 3 c [of x] fw show ?case by (cases r) auto
  qed (use c in \<open>auto intro!: logs_pret\<close>)
  then show ?thesis
    unfolding hz_firewall_def Let_def
    by (intro logs_if logs_pret logs_quiet_pbind [OF quiet_presult [where f = hz_events]])
       (auto dest!: hz_no_events split: sum.splits)
qed


text \<open>The server: a failure without one removes the firewall.\<close>

lemma hz_attempts:
  assumes "take 2 args = [''server'', ''create'']" "attempts args x n"
  shows "picks hz_owed n = []" "list_all (\<lambda>c. fst c = args) n" "\<not> isl x \<Longrightarrow> hz_made n"
proof -
  have owed: "hz_owed (args, y) = []" for y
    using assms(1) by (auto simp: hz_owed_def split: list.splits option.splits)
  show "picks hz_owed n = []" "list_all (\<lambda>c. fst c = args) n" "\<not> isl x \<Longrightarrow> hz_made n"
    using assms owed by (auto simp: attempts_def picks_replicate list_all_iff hz_made_def hz_is_create_def split: sum.splits)
qed

lemma hz_abandon_logs:
  "logs R (pbind (if fwName \<noteq> [] then hz_delete_firewall H fwName else pret ()) (\<lambda>_. pfail e))
     (\<lambda>r n. picks hz_events n = [] \<and> (fwName \<noteq> [] \<longrightarrow> [''firewall'', ''delete'', fwName] \<in> set (cmds n)))"
  by (rule logs_pbind [where P = "\<lambda>r n. picks hz_events n = [] \<and> (fwName \<noteq> [] \<longrightarrow> [''firewall'', ''delete'', fwName] \<in> set (cmds n))"
        and K = "\<lambda>_ r n. n = []"])
     (auto intro!: logs_pret logs_pfail intro: logs_weaken [OF hz_delete_logs(1)])

lemma hz_launch_logs:
  assumes args: "take 2 args = [''server'', ''create'']"
  shows "logs R (hz_launch H J ctx opts fw args) (\<lambda>r n. picks hz_owed n = [] \<and> list_all (\<lambda>c. hz_is_create c \<longrightarrow> fst c = args) n
      \<and> (isl r \<longrightarrow> hz_made n \<or> (fw \<noteq> [] \<longrightarrow> [''firewall'', ''delete'', fw] \<in> set (cmds n))))"
  unfolding hz_launch_def
proof (rule logs_pbind [where P = "\<lambda>r n. \<exists>x. r = Inr x \<and> attempts args x n"
      and K = "\<lambda>x r n. picks hz_events n = [] \<and> (isl r \<and> isl x \<longrightarrow> (fw \<noteq> [] \<longrightarrow> [''firewall'', ''delete'', fw] \<in> set (cmds n)))"], goal_cases)
  case 1
  show ?case by (rule logs_ptry [OF logs_weaken [OF logs_retryCLIOutput]]) auto
next
  case (2 x)
  show ?case
  proof (cases x)
    case (Inl e)
    show ?thesis unfolding Inl sum.case
    proof (rule logs_pbind [OF adoptCreatedVM_logs [OF quiet_hetzner_ListVMs quiet_hetzner_GetVM],
        where K = "\<lambda>vm r n. picks hz_events n = [] \<and> (isl r \<longrightarrow> (fw \<noteq> [] \<longrightarrow> [''firewall'', ''delete'', fw] \<in> set (cmds n)))"], goal_cases)
      case (1 vm)
      have "logs R (pbind (if fw \<noteq> [] then hz_delete_firewall H fw else pret ()) (\<lambda>_. pfail e)) (\<lambda>(r :: cli_err + vm_info) n.
          picks hz_events n = [] \<and> (isl r \<longrightarrow> (fw \<noteq> [] \<longrightarrow> [''firewall'', ''delete'', fw] \<in> set (cmds n))))"
        by (rule logs_weaken [OF hz_abandon_logs]) auto
      then show ?case by (cases vm) (simp_all add: logs_pret del: if_split)
    qed auto
  next
    case (Inr out)
    show ?thesis unfolding Inr sum.case
      by (rule logs_weaken [OF quiet_logs [where f = hz_events]]) (auto intro!: hz_quiet)
  qed
next
  case (4 x n r n')
  from 4(1) have n: "attempts args x n" by simp
  from hz_no_events [of n'] hz_attempts [OF args n] 4(2) show ?case
    by (cases x) (auto simp: list_all_iff)
qed auto


text \<open>Together, and with the key around them.\<close>

definition hz_ok :: "vm_options \<Rightarrow> cli_err + vm_info \<Rightarrow> cli_log \<Rightarrow> bool" where
  "hz_ok opts r n \<longleftrightarrow> hz_scoped opts n \<and> (isl r \<longrightarrow> hz_settled n)"

lemma hz_ok_prefix:
  assumes n: "list_all (\<lambda>c. \<not> hz_is_create c) n" and ok: "hz_ok opts r n'"
    and owed: "isl r \<Longrightarrow> set (picks hz_owed n) \<subseteq> set (cmds n) \<union> set (cmds n')"
  shows "hz_ok opts r (n @ n')"
proof -
  have "after hz_is_create (hz_is_rule opts) n' \<Longrightarrow> after hz_is_create (hz_is_rule opts) (n @ n')"
    using n by (intro after_append after_none) auto
  then show ?thesis using assms by (auto simp: hz_ok_def hz_scoped_def hz_settled_def list_all_iff)
qed

lemma hz_ok_quiet:
  assumes "picks hz_events n0 = []"
  shows "hz_ok opts r n0" "hz_ok opts r n \<Longrightarrow> hz_ok opts r (n0 @ n)" "hz_ok opts r n \<Longrightarrow> hz_ok opts r (n @ n0)"
proof -
  note q = hz_no_events [OF assms]
  show "hz_ok opts r n0"
    using q by (auto simp: hz_ok_def hz_scoped_def hz_settled_def list_all_iff intro: after_none)
  show "hz_ok opts r (n0 @ n)" if "hz_ok opts r n"
    using that q by (intro hz_ok_prefix) auto
  have "after hz_is_create (hz_is_rule opts) n \<Longrightarrow> after hz_is_create (hz_is_rule opts) (n @ n0)"
    using q by (intro after_append) (auto intro: after_none)
  then show "hz_ok opts r (n @ n0)" if "hz_ok opts r n"
    using that q by (auto simp: hz_ok_def hz_scoped_def hz_settled_def list_all_iff)
qed

lemma hz_create_server_logs:
  assumes args: "take 2 args = [''server'', ''create'']"
  shows "logs R (hz_create_server H J ctx opts args) (hz_ok opts)"
proof -
  let ?args1 = "args @ concat (map (\<lambda>(k, v). [''--label'', k @ ''='' @ v]) (tag_list H (vo_Tags opts)))"
  let ?args2 = "\<lambda>fw. ?args1 @ (if fw = [] then [] else [''--firewall'', fw])"
  have args2: "take 2 (?args2 fw) = [''server'', ''create'']" for fw
    using args by (cases args; cases "tl args") auto
  have "logs R (pbind (hz_firewall H ctx opts) (\<lambda>fw. hz_launch H J ctx opts fw (?args2 fw))) (hz_ok opts)"
  proof (rule logs_pbind [OF hz_firewall_logs hz_launch_logs [OF args2]], goal_cases)
    case (1 e n)
    then show ?case by (auto simp: hz_ok_def hz_scoped_def hz_settled_def list_all_iff intro: after_none)
  next
    case (2 fw n r n')
    have fw: "fw \<noteq> []" "fw = firewallName opts" "list_ex (hz_is_rule opts) n" if "vo_AllowSSHFrom opts \<noteq> []"
      using 2 that by (auto simp: firewallName_def firewallNameFromString_def Let_def)
    have "after hz_is_create (hz_is_rule opts) (n @ n')" if "vo_AllowSSHFrom opts \<noteq> []"
      using 2 fw(3) [OF that] by (intro after_append after_none) auto
    then have "hz_scoped opts (n @ n')"
      using 2 fw by (auto simp: hz_scoped_def list_all_iff)
    moreover have "hz_settled (n @ n')" if "isl r"
      using 2 that by (auto simp: hz_settled_def)
    ultimately show ?case by (simp add: hz_ok_def)
  qed
  then show ?thesis
    unfolding hz_create_server_def Let_def
    by (rule logs_quiet_pbind [where f = hz_events, rotated]) (auto intro!: hz_quiet intro: hz_ok_quiet)
qed

lemma hz_with_user_data_logs:
  assumes args: "take 2 args = [''server'', ''create'']"
  shows "logs R (hz_with_user_data H J ctx opts args) (hz_ok opts)"
proof -
  have args': "take 2 (args @ xs) = [''server'', ''create'']" for xs
    using args by (cases args; cases "tl args") auto
  have "logs R (pfinally (hz_create_server H J ctx opts (args @ xs)) (remove_temp f)) (hz_ok opts)" for f xs
    by (rule logs_pfinally [OF hz_create_server_logs [OF args'] quiet_logs [OF quiet_remove_temp]]) (rule hz_ok_quiet)
  then show ?thesis
    unfolding hz_with_user_data_def with_temp_def
    by (intro logs_if hz_create_server_logs [OF args] logs_quiet_pbind [where f = hz_events])
       (auto intro!: hz_quiet intro: hz_ok_quiet)
qed

lemma hz_upload_logs:
  "logs R (uploadHetznerSSHKey H ctx key path) (\<lambda>r n. list_all (\<lambda>c. \<not> hz_is_create c) n
     \<and> set (picks hz_owed n) \<subseteq> (if isl r then {} else {[''ssh-key'', ''delete'', key]}))"
  unfolding uploadHetznerSSHKey_def
proof (rule logs_pbind [where P = "\<lambda>r n. (\<exists>out. r = Inr (out, None)) \<and> list_all (\<lambda>c. \<not> hz_is_create c) n \<and> set (picks hz_owed n) \<subseteq> {[''ssh-key'', ''delete'', key]}
        \<or> list_all (\<lambda>c. \<not> hz_is_create c) n \<and> picks hz_owed n = []"
      and K = "\<lambda>(out, err) r n. n = [] \<and> (err = None \<longrightarrow> \<not> isl r)"], goal_cases)
  case (2 a)
  show ?case by (cases a; cases "snd a") (auto intro!: logs_pret logs_pfail)
qed (auto intro!: logs_exec_combined simp: hz_is_create_def hz_owed_def)

lemma hetzner_CreateVM_logs: "logs R (hetzner_CreateVM H J ctx opts) (hz_ok opts)"
proof -
  have arg: "take 2 (hz_create_args opts region img t) = [''server'', ''create'']"
    "take 2 (hz_create_args opts region img t @ xs) = [''server'', ''create'']" for region img t xs
    by (simp_all add: hz_create_args_def)
  let ?key = "hetznerSSHKeyName opts"
  have keyed: "logs R (pon_err (hz_with_user_data H J ctx opts (hz_create_args opts region img t @ xs)) (hz_delete_key H ?key))
      (\<lambda>r n. hz_ok opts r n \<and> (isl r \<longrightarrow> [''ssh-key'', ''delete'', ?key] \<in> set (cmds n)))" for region img t xs
    by (rule logs_pon_err [OF hz_with_user_data_logs [OF arg(2)] hz_delete_logs(2)]) (auto intro: hz_ok_quiet)
  have key: "logs R (pbind (uploadHetznerSSHKey H ctx ?key (vo_SSHKeyPath opts)) (\<lambda>_.
      pon_err (hz_with_user_data H J ctx opts (hz_create_args opts region img t @ xs)) (hz_delete_key H ?key))) (hz_ok opts)" for region img t xs
  proof (rule logs_pbind [OF hz_upload_logs keyed], goal_cases)
    case (1 e n)
    then show ?case by (auto simp: hz_ok_def hz_scoped_def hz_settled_def list_all_iff intro: after_none)
  next
    case (2 a n r n')
    then show ?case by (intro hz_ok_prefix) auto
  qed
  show ?thesis
    unfolding hetzner_CreateVM_def Let_def
    by (intro key logs_if hz_with_user_data_logs [OF arg(1)] logs_quiet_pbind [where f = hz_events])
       (auto intro!: hz_quiet intro: hz_ok_quiet)
qed


section \<open>Properties\<close>

text \<open>
  With an allowed range no server is ever created before the rule that admits only that range was
  asked for, and every creation attaches the firewall that carries it.
\<close>

theorem hetzner_ssh_scoped:
  assumes "vo_AllowSSHFrom opts \<noteq> []" "hetzner_CreateVM H J ctx opts w = (r, w')"
  shows "\<exists>new. pw_calls w' = pw_calls w @ new
    \<and> (\<forall>pre args out post. new = pre @ (args, out) # post \<and> take 2 args = [''server'', ''create''] \<longrightarrow>
         hetznerFirewallRuleArgs (firewallName opts) (vo_AllowSSHFrom opts) \<in> set (cmds pre)
         \<and> (\<exists>a. args = a @ [''--firewall'', firewallName opts]))"
proof -
  from logsD [OF hetzner_CreateVM_logs assms(2) refl] obtain new where new: "pw_calls w' = pw_calls w @ new" "hz_ok opts r new"
    by blast
  have "hetznerFirewallRuleArgs (firewallName opts) (vo_AllowSSHFrom opts) \<in> set (cmds pre)
         \<and> (\<exists>a. args = a @ [''--firewall'', firewallName opts])"
    if "new = pre @ (args, out) # post" "take 2 args = [''server'', ''create'']" for pre args out post
  proof -
    have "hz_is_create (args, out)" using that by (simp add: hz_is_create_def)
    with new(2) that(1) assms(1) have "list_ex (hz_is_rule opts) pre" "\<exists>a. args = a @ [''--firewall'', firewallName opts]"
      unfolding hz_ok_def hz_scoped_def after_def by auto
    then show ?thesis by (force simp: list_ex_iff hz_is_rule_def cmds_def)
  qed
  with new(1) show ?thesis by blast
qed

text \<open>
  C17: A failed creation deletes the ssh key and the firewall it made, unless a server was created that needs them.
\<close>

theorem hetzner_failed_create_settled:
  assumes "hetzner_CreateVM H J ctx opts w = (Inl e, w')"
  shows "\<exists>new. pw_calls w' = pw_calls w @ new \<and> hz_settled new"
  using logsD [OF hetzner_CreateVM_logs assms refl] by (auto simp: hz_ok_def)


text \<open>The creation of a server is cancelled.\<close>

definition hz_no_server :: "string list \<Rightarrow> string \<times> cli_err option" where
  "hz_no_server args = (if take 2 args = [''server'', ''create''] then ([], Some ctx_err) else ([], None))"

definition hz_json_ex :: hetzner_json where
  "hz_json_ex = \<lparr>hj_created = (\<lambda>_. Inl ''eof''), hj_server = (\<lambda>_. Inl ''eof''), hj_servers = (\<lambda>_. Inr []), hj_time = (\<lambda>_. 0)\<rparr>"

definition hz_opts_ex :: vm_options where
  "hz_opts_ex = opts_ex\<lparr>vo_AllowSSHFrom := ''10.0.0.0/8'', vo_SSHKeyPath := ''k.pub''\<rparr>"

lemmas hz_steps = hetzner_CreateVM_def hz_json_ex_def hz_opts_ex_def hz_no_server_def hz_create_args_def hetznerSSHKeyName_def
  uploadHetznerSSHKey_def hz_with_user_data_def hz_create_server_def hz_firewall_def hz_firewall_step_def
  hetznerFirewallCreateArgs_def hetznerFirewallRuleArgs_def hz_launch_def hetzner_ListVMs_def hz_delete_firewall_def hz_delete_key_def

lemma hz_run_ex:
  "\<exists>e w'. hetzner_CreateVM (host_ex 0 hz_no_server) hz_json_ex False hz_opts_ex (world_ex ''fsn1'') = (Inl e, w')
     \<and> list_ex (\<lambda>(args, x). take 2 args = [''server'', ''create''] \<and> x = None) (pw_calls w')
     \<and> \<not> hz_made (pw_calls w') \<and> length (picks hz_owed (pw_calls w')) = 2"
  by (simp add: hz_steps run_steps fw_steps IsTransient_def hz_made_def hz_is_create_def hz_owed_def cong: pbind_lazy)

theorem hetzner_ssh_scoped_witness:
  "\<exists>r w'. hetzner_CreateVM (host_ex 0 hz_no_server) hz_json_ex False hz_opts_ex (world_ex ''fsn1'') = (r, w')
     \<and> (\<exists>args. (args, None) \<in> set (pw_calls w') \<and> (\<exists>a. args = a @ [''--firewall'', firewallName hz_opts_ex]))"
proof -
  from hz_run_ex obtain e w' where run: "hetzner_CreateVM (host_ex 0 hz_no_server) hz_json_ex False hz_opts_ex (world_ex ''fsn1'') = (Inl e, w')"
    and "list_ex (\<lambda>(args, x). take 2 args = [''server'', ''create''] \<and> x = None) (pw_calls w')" by blast
  then obtain pre args post where split: "pw_calls w' = pre @ (args, None) # post" and c: "take 2 args = [''server'', ''create'']"
    by (force simp: list_ex_iff dest: split_list)
  have "vo_AllowSSHFrom hz_opts_ex \<noteq> []" by (simp add: hz_opts_ex_def)
  from hetzner_ssh_scoped [OF this run] split c have "\<exists>a. args = a @ [''--firewall'', firewallName hz_opts_ex]"
    unfolding world_calls by (metis append_Nil)
  with split run show ?thesis by (metis in_set_conv_decomp)
qed

theorem hetzner_failed_create_settled_witness:
  "\<exists>e w'. hetzner_CreateVM (host_ex 0 hz_no_server) hz_json_ex False hz_opts_ex (world_ex ''fsn1'') = (Inl e, w')
     \<and> (\<exists>new. pw_calls w' = new \<and> hz_settled new \<and> \<not> hz_made new \<and> length (picks hz_owed new) = 2)"
proof -
  from hz_run_ex obtain e w' where run: "hetzner_CreateVM (host_ex 0 hz_no_server) hz_json_ex False hz_opts_ex (world_ex ''fsn1'') = (Inl e, w')"
    and "\<not> hz_made (pw_calls w')" "length (picks hz_owed (pw_calls w')) = 2" by blast
  with hetzner_failed_create_settled [OF run] show ?thesis by (auto simp: world_calls)
qed

end
