(* ===== verification/Cloud_Gcp.thy ===== *)
theory Cloud_Gcp
  imports Cloud_Firewall
begin

text \<open>
  The provider for Google Cloud (\<^verbatim>\<open>internal/cloudvm/gcp.go\<close>), with the machines of Confidential Space
  (\<^verbatim>\<open>confidential_space_provision.go\<close>). Shown: with \<^verbatim>\<open>--allow-ssh-from\<close> no machine is asked for before the rules
  that close its ssh port; a Confidential Space machine is never left behind by a failed creation, while a
  plain one can be.
\<close>

section \<open>What the tool prints\<close>

record gcp_inst =
  gi_Name :: string
  gi_Status :: string
  gi_Labels :: "string \<rightharpoonup> string"
  gi_NatIPs :: "string list list"

record gcp_json =
  gj_list :: "string \<Rightarrow> gcp_inst list result"
  gj_one :: "string \<Rightarrow> gcp_inst result"

definition gcp_ip :: "gcp_inst \<Rightarrow> string" where
  "gcp_ip i = (case gi_NatIPs i of (ip # _) # _ \<Rightarrow> ip | _ \<Rightarrow> [])"

section \<open>Choices\<close>

definition NewGCPProvider_zone :: "string \<Rightarrow> string" where
  "NewGCPProvider_zone zone = (if zone = [] then ''us-central1-a'' else zone)"

definition gcp_SetRegion :: "string \<Rightarrow> 'c pworld \<Rightarrow> 'c pworld" where
  "gcp_SetRegion region w = (if region \<noteq> [] then w\<lparr>pw_region := region\<rparr> else w)"

definition gcp_CheckCLI :: "'c cli_host \<Rightarrow> bool \<Rightarrow> ('c, unit) pm" where
  "gcp_CheckCLI H ctx =
     (case ch_look H ''gcloud'' of
        Some e \<Rightarrow> pfail (plain_err (''gcloud CLI not found: '' @ e))
      | None \<Rightarrow> pbind (pwrap ''gcloud not authenticated'' (exec_cli H ctx ''gcloud'' [''auth'', ''print-access-token''])) (\<lambda>_. pret ()))"

definition gcpGPUImage :: "'c cli_host \<Rightarrow> string" where
  "gcpGPUImage H = ch_env H ''DISPATCHER_GCP_GPU_IMAGE''"

definition gcpIsGPUMachine :: "string \<Rightarrow> bool" where
  "gcpIsGPUMachine instanceType = list_ex (strings_HasPrefix instanceType) [''a2-'', ''a3-'', ''g2-'']"

definition gcpSSHKeysValue :: "string \<Rightarrow> string \<Rightarrow> string" where
  "gcpSSHKeysValue user pubKey = user @ '':'' @ strings_TrimSpace pubKey"

definition gcpConfidentialComputeType :: "string \<Rightarrow> string" where
  "gcpConfidentialComputeType t = (if t = ''sev'' then ''SEV'' else if t = ''tdx'' then ''TDX'' else ''SEV_SNP'')"

definition gcpConfidentialArgs :: "vm_options \<Rightarrow> string list" where
  "gcpConfidentialArgs opts =
     (if vo_ConfidentialType opts = [] then []
      else let ccType = gcpConfidentialComputeType (vo_ConfidentialType opts)
           in [''--confidential-compute-type='' @ ccType, ''--maintenance-policy=TERMINATE'']
              @ (if ccType = ''SEV_SNP'' then [''--min-cpu-platform'', ''AMD Milan''] else []))"

definition gcp_instance_type :: "vm_options \<Rightarrow> string" where
  "gcp_instance_type opts =
     (if vo_InstanceType opts \<noteq> [] then vo_InstanceType opts
      else if vo_ConfidentialType opts \<noteq> [] then
        (if gcpConfidentialComputeType (vo_ConfidentialType opts) = ''TDX'' then ''c3-standard-4'' else ''n2d-standard-2'')
      else ''e2-medium'')"

text \<open>The image, and whether it is one of the operator's own.\<close>

definition gcp_image :: "'c cli_host \<Rightarrow> vm_options \<Rightarrow> string \<times> bool" where
  "gcp_image H opts =
     (if vo_Image opts \<noteq> [] then (vo_Image opts, False)
      else if gcpIsGPUMachine (gcp_instance_type opts) \<and> gcpGPUImage H \<noteq> [] then (gcpGPUImage H, True)
      else (''ubuntu-2404-lts-amd64'', False))"

definition project_args :: "string \<Rightarrow> string list" where
  "project_args project = (if project \<noteq> [] then [''--project'', project] else [])"

section \<open>Firewall rules\<close>

definition firewallRunIDMarker :: string where
  "firewallRunIDMarker = ''dispatcher-run-id=''"

definition gcp_rule :: "string \<Rightarrow> string \<Rightarrow> string \<Rightarrow> string \<Rightarrow> string \<Rightarrow> string \<Rightarrow> int \<Rightarrow> string list" where
  "gcp_rule name runID project ruleName action sources priority =
     [''compute'', ''firewall-rules'', ''create'', ruleName, ''--network=default'', ''--direction=INGRESS'', ''--action='' @ action,
      ''--rules=tcp:'' @ sshPort, ''--source-ranges='' @ sources, ''--target-tags='' @ name, ''--priority='' @ show_int priority,
      ''--description='' @ firewallRunIDMarker @ runID, ''--quiet''] @ project_args project"

definition gcpSSHFirewallArgs :: "string \<Rightarrow> string \<Rightarrow> string \<Rightarrow> string \<Rightarrow> string list \<times> string list" where
  "gcpSSHFirewallArgs name cidr runID project =
     (gcp_rule name runID project name ''ALLOW'' cidr 900, gcp_rule name runID project (name @ ''-deny'') ''DENY'' ''0.0.0.0/0'' 1000)"

primrec gcp_create_rules :: "'c cli_host \<Rightarrow> bool \<Rightarrow> string list list \<Rightarrow> ('c, unit) pm" where
  "gcp_create_rules H ctx [] = pret ()"
| "gcp_create_rules H ctx (args # rest) =
     pbind (ptry (runCLI H ctx ''gcloud'' args)) (\<lambda>r.
       case r of
         Inl e \<Rightarrow> if \<not> strings_Contains (er_Text e) ''already exists'' then pfail e else gcp_create_rules H ctx rest
       | Inr _ \<Rightarrow> gcp_create_rules H ctx rest)"

definition createSSHFirewall :: "'c cli_host \<Rightarrow> string \<Rightarrow> bool \<Rightarrow> vm_options \<Rightarrow> ('c, unit) pm" where
  "createSSHFirewall H project ctx opts =
     (case gcpSSHFirewallArgs (firewallName opts) (vo_AllowSSHFrom opts) (env_value (vo_Tags opts) ''dispatcher-run-id'') project of
        (allow, deny) \<Rightarrow> gcp_create_rules H ctx [deny, allow])"

definition gcp_delete_rule :: "string \<Rightarrow> string \<Rightarrow> string list" where
  "gcp_delete_rule project n = [''compute'', ''firewall-rules'', ''delete'', n, ''--quiet''] @ project_args project"

definition deleteSSHFirewall :: "'c cli_host \<Rightarrow> string \<Rightarrow> bool \<Rightarrow> string \<Rightarrow> ('c, unit) pm" where
  "deleteSSHFirewall H project ctx name =
     pbind (pignore (runCLI H ctx ''gcloud'' (gcp_delete_rule project name))) (\<lambda>_.
     pignore (runCLI H ctx ''gcloud'' (gcp_delete_rule project (name @ ''-deny''))))"

section \<open>Machines\<close>

definition last_segment :: "string \<Rightarrow> string" where
  "last_segment s = rev (takeWhile (\<lambda>c. c \<noteq> CHR ''/'') (rev s))"

definition resolveZone :: "'c cli_host \<Rightarrow> string \<Rightarrow> bool \<Rightarrow> string \<Rightarrow> ('c, string) pm" where
  "resolveZone H project ctx vmID =
     pbind (ptry (retried_by H ctx (\<lambda>e. e) (runCLI H ctx ''gcloud''
       ([''compute'', ''instances'', ''list'', ''--filter'', ''name='' @ vmID, ''--format'', ''value(zone)''] @ project_args project)))) (\<lambda>r.
       case r of
         Inl _ \<Rightarrow> pgets pw_region
       | Inr out \<Rightarrow>
           let zone = last_segment (takeWhile (\<lambda>c. c \<noteq> newline) (strings_TrimSpace out))
           in if zone = [] then pgets pw_region else pret zone)"

definition gcp_GetVM :: "'c cli_host \<Rightarrow> gcp_json \<Rightarrow> string \<Rightarrow> bool \<Rightarrow> string \<Rightarrow> ('c, vm_info) pm" where
  "gcp_GetVM H J project ctx vmID =
     pbind (resolveZone H project ctx vmID) (\<lambda>zone.
     pbind (ptry (runCLI H ctx ''gcloud'' ([''compute'', ''instances'', ''describe'', vmID, ''--zone'', zone, ''--format'', ''json'']
       @ project_args project))) (\<lambda>r.
       case r of
         Inl e \<Rightarrow> if isVMNotFound (Some e) vmID then pret (vm_gone vmID) else pfail (wrapExecError ''gcloud compute instances describe'' e)
       | Inr out \<Rightarrow>
           pbind (presult (gj_one J out)) (\<lambda>inst.
             pret ((vm_gone vmID)\<lparr>vi_Name := gi_Name inst, vi_IP := gcp_ip inst,
               vi_State := (if gi_Status inst = ''TERMINATED'' \<or> gi_Status inst = ''STOPPING'' then VMStateTerminated else VMStateRunning),
               vi_Tags := gi_Labels inst\<rparr>))))"

definition gcp_delete_args :: "string \<Rightarrow> string \<Rightarrow> string \<Rightarrow> string list" where
  "gcp_delete_args project zone vmID =
     [''compute'', ''instances'', ''delete'', vmID, ''--zone'', zone, ''--quiet''] @ project_args project"

definition gcp_DestroyVM :: "'c cli_host \<Rightarrow> gcp_json \<Rightarrow> string \<Rightarrow> bool \<Rightarrow> string \<Rightarrow> ('c, unit) pm" where
  "gcp_DestroyVM H J project ctx vmID =
     pbind (ptry (gcp_GetVM H J project ctx vmID)) (\<lambda>g.
     let runID = (case g of Inl _ \<Rightarrow> [] | Inr vm \<Rightarrow> env_value (vi_Tags vm) ''dispatcher-run-id'')
     in pbind (resolveZone H project ctx vmID) (\<lambda>zone.
        pbind (ptry (runCLI H ctx ''gcloud'' (gcp_delete_args project zone vmID))) (\<lambda>r.
          let fin = (if runID \<noteq> [] then deleteSSHFirewall H project ctx (firewallNameFromString runID) else pret ())
          in case r of
               Inl e \<Rightarrow> if \<not> isVMNotFound (Some e) vmID then pfail (err_label ''gcloud compute instances delete failed'' e) else fin
             | Inr _ \<Rightarrow> fin)))"

definition gcp_ListVMs :: "'c cli_host \<Rightarrow> gcp_json \<Rightarrow> string \<Rightarrow> bool \<Rightarrow> (string \<rightharpoonup> string) \<Rightarrow> ('c, vm_info list) pm" where
  "gcp_ListVMs H J project ctx tags =
     pbind (pwrap ''gcp filter labels'' (presult (validateLabels (tag_list H tags)))) (\<lambda>_.
     let filters = map (\<lambda>(k, v). ''labels.'' @ k @ ''='' @ v) (tag_list H tags)
     in pbind (ptry (runCLI H ctx ''gcloud'' ([''compute'', ''instances'', ''list'', ''--format'', ''json''] @ project_args project
          @ (if filters = [] then [] else [''--filter'', strings_Join filters '' AND ''])))) (\<lambda>r.
          case r of
            Inl e \<Rightarrow> pfail (wrapExecError ''gcloud compute instances list'' e)
          | Inr out \<Rightarrow>
              pbind (presult (gj_list J out)) (\<lambda>insts.
                pret (map (\<lambda>inst. (vm_gone (gi_Name inst))\<lparr>vi_Name := gi_Name inst, vi_State := vm_state_of (gi_Status inst), vi_Tags := gi_Labels inst\<rparr>)
                  (filter (\<lambda>inst. gi_Status inst \<noteq> ''TERMINATED'') insts)))))"

definition gcp_WaitReady :: "'c cli_host \<Rightarrow> bool \<Rightarrow> string \<Rightarrow> string \<Rightarrow> string \<Rightarrow> ('c, unit) pm" where
  "gcp_WaitReady H ctx i ip key = WaitForSSH H ctx ip (5 * Minute)"

definition gcp_created :: "'c cli_host \<Rightarrow> vm_options \<Rightarrow> gcp_inst \<Rightarrow> ('c, vm_info) pm" where
  "gcp_created H opts inst =
     pbind (pgets (\<lambda>w. ch_now H (pw_out w))) (\<lambda>now.
     pret ((vm_gone (vo_Name opts))\<lparr>vi_Name := vo_Name opts, vi_IP := gcp_ip inst, vi_State := VMStateRunning,
       vi_CreatedAt := now, vi_Tags := vo_Tags opts\<rparr>))"

section \<open>Confidential Space\<close>

definition csAgentPort :: int where
  "csAgentPort = 8443"

definition gcpCSComputeType :: "string \<Rightarrow> string result" where
  "gcpCSComputeType teeType =
     (if strings_ToLower teeType \<in> {[], ''any'', ''sev''} then Inr ''SEV''
      else Inl (''gcp confidential space attestation supports sev only, not '' @ go_quote teeType @ '' '' @ em_dash
                @ '' use profile: azure-snp (Azure) or nitro (AWS) for sev-snp''))"

definition agentFirewallName :: "string \<Rightarrow> string" where
  "agentFirewallName vmName = firewallNameFromString (''cs-'' @ vmName)"

definition gcpConfidentialSpaceCreateArgs :: "'c cli_host \<Rightarrow> vm_options \<Rightarrow> string \<Rightarrow> string \<Rightarrow> string list result" where
  "gcpConfidentialSpaceCreateArgs H opts zone project =
     (case gcpCSComputeType (vo_ConfidentialType opts) of
        Inl e \<Rightarrow> Inl e
      | Inr ccType \<Rightarrow>
          let keys = sort_Strings (ch_order H (vo_Tags opts))
          in Inr ([''compute'', ''instances'', ''create'', vo_Name opts, ''--zone'', zone,
              ''--machine-type'', if vo_InstanceType opts = [] then ''n2d-standard-2'' else vo_InstanceType opts,
              ''--confidential-compute-type='' @ ccType, ''--shielded-secure-boot'', ''--maintenance-policy=TERMINATE'',
              ''--scopes=cloud-platform'', ''--image-family=confidential-space'', ''--image-project=confidential-space-images'',
              ''--metadata'', strings_Join [''tee-image-reference='' @ vo_ConfidentialSpaceImage opts,
                ''tee-container-log-redirect=true'', ''tee-restart-policy=Never''] '','',
              ''--format'', ''json'', ''--quiet'']
            @ (if vo_ConfidentialAllowFrom opts \<noteq> [] then [''--tags='' @ agentFirewallName (vo_Name opts)] else [])
            @ (if 0 < vo_MaxLifetimeSeconds opts
               then [''--max-run-duration='' @ show_int (vo_MaxLifetimeSeconds opts) @ ''s'', ''--instance-termination-action=DELETE''] else [])
            @ (if keys = [] then [] else [''--labels'', strings_Join (map (\<lambda>k. k @ ''='' @ env_value (vo_Tags opts) k) keys) '',''])
            @ project_args project))"

definition gcpAgentFirewallCreateArgs :: "string \<Rightarrow> string \<Rightarrow> string \<Rightarrow> string \<Rightarrow> string \<Rightarrow> string list" where
  "gcpAgentFirewallCreateArgs name targetTag cidr runID project =
     [''compute'', ''firewall-rules'', ''create'', name, ''--allow=tcp:'' @ show_int csAgentPort, ''--source-ranges='' @ cidr,
      ''--target-tags='' @ targetTag, ''--description='' @ firewallRunIDMarker @ runID, ''--quiet''] @ project_args project"

definition createAgentFirewall :: "'c cli_host \<Rightarrow> string \<Rightarrow> bool \<Rightarrow> string \<Rightarrow> string \<Rightarrow> string \<Rightarrow> ('c, unit) pm" where
  "createAgentFirewall H project ctx name cidr runID =
     pbind (presult (validateFirewallCIDR cidr)) (\<lambda>_.
     let create = runCLI H ctx ''gcloud'' (gcpAgentFirewallCreateArgs name name cidr runID project)
     in pbind (ptry create) (\<lambda>r.
          case r of
            Inr _ \<Rightarrow> pret ()
          | Inl e \<Rightarrow>
              if strings_Contains (er_Text e) ''already exists'' then
                pbind (pignore (runCLI H ctx ''gcloud'' (gcp_delete_rule project name))) (\<lambda>_.
                pbind create (\<lambda>_. pret ()))
              else pfail e))"

definition deleteAgentFirewall :: "'c cli_host \<Rightarrow> string \<Rightarrow> bool \<Rightarrow> string \<Rightarrow> ('c, unit) pm" where
  "deleteAgentFirewall H project ctx name = pbind (runCLI H ctx ''gcloud'' (gcp_delete_rule project name)) (\<lambda>_. pret ())"

text \<open>Once the machine exists, each early return first tears it down, with a fresh context.\<close>

definition cs_teardown :: "'c cli_host \<Rightarrow> gcp_json \<Rightarrow> string \<Rightarrow> vm_options \<Rightarrow> ('c, unit) pm" where
  "cs_teardown H J project opts =
     pbind (if vo_ConfidentialAllowFrom opts \<noteq> []
            then pignore (deleteAgentFirewall H project False (agentFirewallName (vo_Name opts))) else pret ()) (\<lambda>_.
     pignore (gcp_DestroyVM H J project False (vo_Name opts)))"

definition cs_after_create :: "'c cli_host \<Rightarrow> gcp_json \<Rightarrow> string \<Rightarrow> bool \<Rightarrow> vm_options \<Rightarrow> string \<Rightarrow> ('c, vm_info) pm" where
  "cs_after_create H J project ctx opts out =
     pbind (if vo_ConfidentialAllowFrom opts \<noteq> []
            then pbind (ptry (createAgentFirewall H project ctx (agentFirewallName (vo_Name opts)) (vo_ConfidentialAllowFrom opts)
                          (env_value (vo_Tags opts) ''dispatcher-run-id''))) (\<lambda>r.
                   case r of
                     Inl e \<Rightarrow> pbind (pignore (gcp_DestroyVM H J project False (vo_Name opts))) (\<lambda>_. pfail (err_label ''open agent-port firewall'' e))
                   | Inr _ \<Rightarrow> pret ())
            else pret ()) (\<lambda>_.
     case gj_list J out of
       Inl e \<Rightarrow> pbind (cs_teardown H J project opts) (\<lambda>_. pfail (plain_err (''cannot parse gcloud output: '' @ e)))
     | Inr [] \<Rightarrow> pbind (cs_teardown H J project opts) (\<lambda>_. pfail (plain_err ''no instances created''))
     | Inr (inst # _) \<Rightarrow> gcp_created H opts inst)"

definition createConfidentialSpaceVM :: "'c cli_host \<Rightarrow> gcp_json \<Rightarrow> string \<Rightarrow> bool \<Rightarrow> vm_options \<Rightarrow> ('c, vm_info) pm" where
  "createConfidentialSpaceVM H J project ctx opts =
     pbind (pgets (\<lambda>w. if vo_Region opts = [] then pw_region w else vo_Region opts)) (\<lambda>zone.
     pbind (pwrap ''gcp labels'' (presult (validateLabels (tag_list H (vo_Tags opts))))) (\<lambda>_.
     pbind (if vo_ConfidentialAllowFrom opts \<noteq> [] then presult (validateFirewallCIDR (vo_ConfidentialAllowFrom opts)) else pret ()) (\<lambda>_.
     if \<not> isSafeArg (vo_ConfidentialSpaceImage opts)
     then pfail (plain_err (''gcp: confidential-space image ref '' @ go_quote (vo_ConfidentialSpaceImage opts)
            @ '' contains characters outside [a-zA-Z0-9_.:/@-]''))
     else
       pbind (presult (gcpConfidentialSpaceCreateArgs H opts zone project)) (\<lambda>args.
       pbind (retryCLIOutput H ctx ''gcloud'' ''gcloud compute instances create'' args) (cs_after_create H J project ctx opts)))))"

section \<open>Plain machines\<close>

definition gcp_create_args :: "'c cli_host \<Rightarrow> string \<Rightarrow> vm_options \<Rightarrow> string \<Rightarrow> string list" where
  "gcp_create_args H project opts zone =
     (let instanceType = gcp_instance_type opts
      in [''compute'', ''instances'', ''create'', vo_Name opts, ''--zone'', zone, ''--machine-type'', instanceType, ''--format'', ''json'', ''--quiet'']
         @ (case gcp_image H opts of (img, custom) \<Rightarrow>
              if custom then [''--image'', img] else [''--image-family'', img, ''--image-project'', ''ubuntu-os-cloud''])
         @ gcpConfidentialArgs opts
         @ (if vo_ConfidentialType opts = [] \<and> (gcpIsGPUMachine instanceType \<or> vo_Spot opts) then [''--maintenance-policy=TERMINATE''] else [])
         @ (if vo_Spot opts then [''--provisioning-model=SPOT'', ''--instance-termination-action=DELETE''] else [])
         @ project_args project)"

definition gcp_firewall :: "'c cli_host \<Rightarrow> string \<Rightarrow> bool \<Rightarrow> vm_options \<Rightarrow> ('c, string list) pm" where
  "gcp_firewall H project ctx opts =
     (if vo_AllowSSHFrom opts = [] then pret []
      else
        pbind (pwrap ''gcp'' (presult (validateFirewallCIDR (vo_AllowSSHFrom opts)))) (\<lambda>_.
        pbind (pwrap ''gcp ssh firewall'' (createSSHFirewall H project ctx opts)) (\<lambda>_.
        pret [''--tags='' @ firewallName opts])))"

definition gcp_launch :: "'c cli_host \<Rightarrow> gcp_json \<Rightarrow> string \<Rightarrow> bool \<Rightarrow> vm_options \<Rightarrow> string list \<Rightarrow> ('c, vm_info) pm" where
  "gcp_launch H J project ctx opts args =
     pbind (ptry (retryCLIOutput H ctx ''gcloud'' ''gcloud compute instances create'' args)) (\<lambda>r.
       case r of
         Inl e \<Rightarrow>
           pbind (adoptCreatedVM (gcp_ListVMs H J project) (gcp_GetVM H J project) (env_value (vo_Tags opts) ''dispatcher-run-id'')) (\<lambda>vm.
             case vm of
               Some vm \<Rightarrow> pret vm
             | None \<Rightarrow>
                 pbind (if vo_AllowSSHFrom opts \<noteq> [] then deleteSSHFirewall H project False (firewallName opts) else pret ()) (\<lambda>_. pfail e))
       | Inr out \<Rightarrow>
           pbind (pwrap ''cannot parse gcloud output'' (presult (gj_list J out))) (\<lambda>insts.
             case insts of
               [] \<Rightarrow> pfail (plain_err ''no instances created'')
             | inst # _ \<Rightarrow> gcp_created H opts inst))"

definition gcp_with_user_data :: "'c cli_host \<Rightarrow> vm_options \<Rightarrow> (string list \<Rightarrow> ('c, 'a) pm) \<Rightarrow> ('c, 'a) pm" where
  "gcp_with_user_data H opts k =
     (if vo_UserData opts \<noteq> []
      then with_temp H ''write user-data'' ''dispatcher-gcp-userdata-*.sh'' (vo_UserData opts) (\<lambda>path. k [''startup-script='' @ path])
      else k [])"

definition gcp_with_keys :: "'c cli_host \<Rightarrow> vm_options \<Rightarrow> string list \<Rightarrow> (string list \<Rightarrow> ('c, 'a) pm) \<Rightarrow> ('c, 'a) pm" where
  "gcp_with_keys H opts files k =
     (if vo_SSHKeyPath opts \<noteq> [] \<and> vo_SSHUser opts \<noteq> []
      then pbind (pwrap ''read ssh pubkey'' (presult (ch_readFile H (vo_SSHKeyPath opts)))) (\<lambda>pub.
             with_temp H ''write ssh-keys metadata'' ''dispatcher-gcp-sshkeys-*.txt'' (gcpSSHKeysValue (vo_SSHUser opts) pub) (\<lambda>keysPath.
               k (files @ [''ssh-keys='' @ keysPath])))
      else k files)"

definition gcp_create_plain :: "'c cli_host \<Rightarrow> gcp_json \<Rightarrow> string \<Rightarrow> bool \<Rightarrow> vm_options \<Rightarrow> string list \<Rightarrow> string list \<Rightarrow> ('c, vm_info) pm" where
  "gcp_create_plain H J project ctx opts args files =
     (let args1 = args @ (if files = [] then [] else [''--metadata-from-file'', strings_Join files '','']);
          pairs = map (\<lambda>(k, v). k @ ''='' @ v) (tag_list H (vo_Tags opts))
      in pbind (pwrap ''gcp labels'' (presult (validateLabels (tag_list H (vo_Tags opts))))) (\<lambda>_.
         let args2 = args1 @ (if pairs = [] then [] else [''--labels'', strings_Join pairs '',''])
         in pbind (gcp_firewall H project ctx opts) (\<lambda>tags. gcp_launch H J project ctx opts (args2 @ tags))))"

definition gcp_CreateVM :: "'c cli_host \<Rightarrow> gcp_json \<Rightarrow> string \<Rightarrow> bool \<Rightarrow> vm_options \<Rightarrow> ('c, vm_info) pm" where
  "gcp_CreateVM H J project ctx opts =
     (if vo_ConfidentialSpaceImage opts \<noteq> [] then createConfidentialSpaceVM H J project ctx opts
      else
        pbind (pgets (\<lambda>w. if vo_Region opts = [] then pw_region w else vo_Region opts)) (\<lambda>zone.
        pbind (pwrap ''gcp'' (presult (validateVMArgs zone (gcp_instance_type opts) (fst (gcp_image H opts))))) (\<lambda>_.
        gcp_with_user_data H opts (\<lambda>files.
        gcp_with_keys H opts files (\<lambda>files.
        gcp_create_plain H J project ctx opts (gcp_create_args H project opts zone) files)))))"

definition gcp_provider ::
  "'c cli_host \<Rightarrow> gcp_json \<Rightarrow> string \<Rightarrow> ((bool \<Rightarrow> 'c pworld \<Rightarrow> resource_info list call \<times> 'c pworld)
     \<times> (bool \<Rightarrow> resource_info \<Rightarrow> 'c pworld \<Rightarrow> unit call \<times> 'c pworld)) option \<Rightarrow> 'c pworld provider" where
  "gcp_provider H J project rs = \<lparr>
     pv_CheckCLI = (\<lambda>ctx. as_call (gcp_CheckCLI H ctx)),
     pv_CreateVM = (\<lambda>ctx opts. as_call (pbind (gcp_CreateVM H J project ctx opts) (\<lambda>vm. pret (Some vm)))),
     pv_WaitReady = (\<lambda>ctx i ip key. as_call (gcp_WaitReady H ctx i ip key)),
     pv_GetVM = (\<lambda>ctx i. as_call (pbind (gcp_GetVM H J project ctx i) (\<lambda>vm. pret (Some vm)))),
     pv_DestroyVM = (\<lambda>ctx i. as_call (gcp_DestroyVM H J project ctx i)),
     pv_ListVMs = (\<lambda>ctx tags. as_call (gcp_ListVMs H J project ctx tags)),
     pv_SetRegion = Some gcp_SetRegion,
     pv_Resources = rs\<rparr>"

section \<open>What a creation runs, and in which order\<close>

definition gcp_is_create :: "string list \<times> string option \<Rightarrow> bool" where
  "gcp_is_create c \<longleftrightarrow> take 3 (fst c) = [''compute'', ''instances'', ''create'']"

definition gcp_creates :: "string list \<times> string option \<Rightarrow> (string list \<times> string option) list" where
  "gcp_creates c = (if gcp_is_create c then [c] else [])"

lemma gcp_other: "take 3 args \<noteq> [''compute'', ''instances'', ''create''] \<Longrightarrow> gcp_creates (args, x) = []"
  by (simp add: gcp_creates_def gcp_is_create_def)

lemma picks_gcp_creates: "picks gcp_creates n = [] \<longleftrightarrow> list_all (\<lambda>c. \<not> gcp_is_create c) n"
  by (induction n) (auto simp: gcp_creates_def)

lemmas gcp_quiet = quiet_intros quiet_runCLI quiet_exec_cli quiet_pignore quiet_retried_by_runCLI

lemma resolveZone_logs: "logs R (resolveZone H project ctx i) (\<lambda>r n. picks gcp_creates n = [] \<and> \<not> isl r)"
  unfolding resolveZone_def Let_def
  by (rule logs_noerr [where P = "\<lambda>n. picks gcp_creates n = []", OF _ quiet_logs [OF quiet_retried_by_runCLI]])
     (auto intro!: logs_sum logs_if logs_pret logs_pgets simp: gcp_other)

lemma quiet_resolveZone: "quiet gcp_creates R (resolveZone H project ctx i)"
  unfolding quiet_def by (rule logs_weaken [OF resolveZone_logs]) simp

lemma quiet_gcp_GetVM: "quiet gcp_creates R (gcp_GetVM H J project ctx i)"
  by (auto simp: gcp_GetVM_def gcp_other intro!: gcp_quiet quiet_resolveZone)

lemma quiet_gcp_ListVMs: "quiet gcp_creates R (gcp_ListVMs H J project ctx tags)"
  by (auto simp: gcp_ListVMs_def Let_def gcp_other intro!: gcp_quiet)

lemma quiet_deleteSSHFirewall: "quiet gcp_creates R (deleteSSHFirewall H project ctx name)"
  by (auto simp: deleteSSHFirewall_def gcp_delete_rule_def gcp_other intro!: gcp_quiet)

lemma quiet_createAgentFirewall: "quiet gcp_creates R (createAgentFirewall H project ctx name cidr runID)"
  by (auto simp: createAgentFirewall_def gcpAgentFirewallCreateArgs_def gcp_delete_rule_def Let_def gcp_other intro!: gcp_quiet)

lemma quiet_deleteAgentFirewall: "quiet gcp_creates R (deleteAgentFirewall H project ctx name)"
  by (auto simp: deleteAgentFirewall_def gcp_delete_rule_def gcp_other intro!: gcp_quiet)

text \<open>Destroying a machine always asks for its deletion, in some zone.\<close>

definition gcp_deleted :: "string \<Rightarrow> string \<Rightarrow> cli_log \<Rightarrow> bool" where
  "gcp_deleted project i n \<longleftrightarrow> list_ex (\<lambda>c. \<exists>zone. fst c = gcp_delete_args project zone i) n"

lemma gcp_DestroyVM_logs:
  "logs R (gcp_DestroyVM H J project ctx i) (\<lambda>r n. picks gcp_creates n = [] \<and> gcp_deleted project i n)"
proof -
  let ?del = "\<lambda>runID zone. pbind (ptry (runCLI H ctx ''gcloud'' (gcp_delete_args project zone i))) (\<lambda>r.
     let fin = (if runID \<noteq> [] then deleteSSHFirewall H project ctx (firewallNameFromString runID) else pret ())
     in case r of Inl e \<Rightarrow> if \<not> isVMNotFound (Some e) i then pfail (err_label ''gcloud compute instances delete failed'' e) else fin | Inr _ \<Rightarrow> fin)"
  have del: "logs R (?del runID zone) (\<lambda>r n. picks gcp_creates n = [] \<and> gcp_deleted project i n)" for runID zone
    by (rule logs_pbind [where P = "\<lambda>r n. picks gcp_creates n = [] \<and> gcp_deleted project i n \<and> \<not> isl r"
          and K = "\<lambda>_ r n. picks gcp_creates n = []"])
       (auto intro!: logs_ptry logs_runCLI quiet_logs gcp_quiet quiet_deleteSSHFirewall
         simp: gcp_deleted_def gcp_delete_args_def gcp_other Let_def)
  have zoned: "logs R (pbind (resolveZone H project ctx i) (\<lambda>zone. ?del runID zone)) (\<lambda>r n. picks gcp_creates n = [] \<and> gcp_deleted project i n)" for runID
    by (rule logs_pbind [OF resolveZone_logs del]) (auto simp: gcp_deleted_def)
  show ?thesis
    unfolding gcp_DestroyVM_def Let_def
    by (rule logs_pbind [where P = "\<lambda>r n. picks gcp_creates n = [] \<and> \<not> isl r", OF _ zoned [unfolded Let_def]],
        intro logs_ptry logs_weaken [OF quiet_logs [OF quiet_gcp_GetVM]])
       (auto simp: gcp_deleted_def)
qed

subsection \<open>Confidential Space: nothing left behind\<close>

definition cs_ok :: "string \<Rightarrow> string \<Rightarrow> cli_err + vm_info \<Rightarrow> cli_log \<Rightarrow> bool" where
  "cs_ok project name r n \<longleftrightarrow> (isl r \<and> list_ex (\<lambda>c. gcp_is_create c \<and> snd c \<noteq> None) n \<longrightarrow> gcp_deleted project name n)"

lemma destroyed_logs:
  "logs R (pignore (gcp_DestroyVM H J project ctx i)) (\<lambda>r n. (picks gcp_creates n = [] \<and> gcp_deleted project i n) \<and> \<not> isl r)"
  by (rule logs_pignore [OF gcp_DestroyVM_logs])

lemma then_fail_logs:
  assumes "logs R m (\<lambda>r n. P n \<and> \<not> isl r)"
  shows "logs R (pbind m (\<lambda>_. pfail e)) (\<lambda>r n. isl r \<and> P n)"
  by (rule logs_pbind [OF assms, where K = "\<lambda>_ r n. isl r \<and> n = []"]) (auto intro!: logs_pfail)

lemma cs_teardown_logs:
  "logs R (cs_teardown H J project opts) (\<lambda>r n. (picks gcp_creates n = [] \<and> gcp_deleted project (vo_Name opts) n) \<and> \<not> isl r)"
  unfolding cs_teardown_def
  by (rule logs_pbind [where P = "\<lambda>r n. picks gcp_creates n = [] \<and> \<not> isl r", OF _ destroyed_logs])
     (auto intro!: logs_if logs_pret logs_pignore [THEN logs_weaken, OF quiet_logs [OF quiet_deleteAgentFirewall]] simp: gcp_deleted_def)

lemma cs_after_create_logs:
  "logs R (cs_after_create H J project ctx opts out) (\<lambda>r n. picks gcp_creates n = [] \<and> (isl r \<longrightarrow> gcp_deleted project (vo_Name opts) n))"
  (is "logs R _ ?Q")
proof -
  let ?undo = "\<lambda>(r :: cli_err + unit) n. picks gcp_creates n = [] \<and> (isl r \<longrightarrow> gcp_deleted project (vo_Name opts) n)"
  have fw: "logs R (pbind (ptry (createAgentFirewall H project ctx name cidr runID)) (\<lambda>r. case r of
        Inl e \<Rightarrow> pbind (pignore (gcp_DestroyVM H J project False (vo_Name opts))) (\<lambda>_. pfail (err_label ''open agent-port firewall'' e))
      | Inr _ \<Rightarrow> pret ())) ?undo" for name cidr runID
    by (rule logs_pbind [where P = "\<lambda>r n. picks gcp_creates n = [] \<and> \<not> isl r" and K = "\<lambda>_. ?undo"])
       (auto intro!: logs_ptry logs_sum logs_pret logs_weaken [OF then_fail_logs [OF destroyed_logs]]
         logs_weaken [OF quiet_logs [OF quiet_createAgentFirewall]] simp: gcp_deleted_def)
  have down: "logs R (pbind (cs_teardown H J project opts) (\<lambda>_. pfail e)) ?Q" for e :: cli_err
    by (rule logs_weaken [OF then_fail_logs [OF cs_teardown_logs]]) auto
  have ok: "logs R (gcp_created H opts inst) ?Q" for inst
    by (auto simp: gcp_created_def logs_def pbind_def pgets_def pret_def)
  show ?thesis
    unfolding cs_after_create_def
  proof (rule logs_pbind [where P = ?undo and K = "\<lambda>_. ?Q"], goal_cases)
    case 1
    show ?case by (intro logs_if fw logs_pret) simp
  next
    case (2 a)
    show ?case by (auto intro: down ok split: sum.split list.split)
  qed (auto simp: gcp_deleted_def)
qed

lemma createConfidentialSpaceVM_logs: "logs R (createConfidentialSpaceVM H J project ctx opts) (cs_ok project (vo_Name opts))"
proof -
  have go: "logs R (pbind (retryCLIOutput H ctx ''gcloud'' ''gcloud compute instances create'' args) (cs_after_create H J project ctx opts))
      (cs_ok project (vo_Name opts))" for args
  proof (rule logs_pbind [OF logs_retryCLIOutput cs_after_create_logs], goal_cases)
    case (1 e n)
    then show ?case by (auto simp: attempts_def cs_ok_def list_ex_iff)
  next
    case (2 out n r n')
    then show ?case by (auto simp: cs_ok_def gcp_deleted_def)
  qed
  have quiet_ok: "cs_ok project (vo_Name opts) r n" if "picks gcp_creates n = []" for r n
    using that by (auto simp: cs_ok_def picks_gcp_creates list_all_iff list_ex_iff)
  have quiet_app: "cs_ok project (vo_Name opts) r (n @ n')" if "picks gcp_creates n = []" "cs_ok project (vo_Name opts) r n'" for r n n'
    using that by (auto simp: cs_ok_def gcp_deleted_def picks_gcp_creates list_all_iff list_ex_iff)
  show ?thesis
    unfolding createConfidentialSpaceVM_def
    by (intro go logs_quiet_pbind [where f = gcp_creates] logs_if logs_pfail gcp_quiet) (auto intro: quiet_app quiet_ok)
qed

subsection \<open>Plain machines: the ssh port is closed first\<close>

definition gcp_ssh_rules :: "string \<Rightarrow> vm_options \<Rightarrow> string list \<times> string list" where
  "gcp_ssh_rules project opts =
     gcpSSHFirewallArgs (firewallName opts) (vo_AllowSSHFrom opts) (env_value (vo_Tags opts) ''dispatcher-run-id'') project"

text \<open>
  A call that put a rule in place: it succeeded, or it failed and the tool answers that command with an
  error saying that the rule already exists.
\<close>

definition already_there :: "'c cli_host \<Rightarrow> bool \<Rightarrow> string list \<Rightarrow> bool" where
  "already_there H ctx args \<longleftrightarrow>
     (\<exists>w e w'. runCLI H ctx ''gcloud'' args w = (Inl e, w') \<and> strings_Contains (er_Text e) ''already exists'')"

definition in_place :: "'c cli_host \<Rightarrow> bool \<Rightarrow> string list \<Rightarrow> string list \<times> string option \<Rightarrow> bool" where
  "in_place H ctx args c \<longleftrightarrow> fst c = args \<and> (snd c \<noteq> None \<or> already_there H ctx args)"

definition gcp_scoped :: "'c cli_host \<Rightarrow> bool \<Rightarrow> string \<Rightarrow> vm_options \<Rightarrow> cli_log \<Rightarrow> bool" where
  "gcp_scoped H ctx project opts n \<longleftrightarrow> vo_AllowSSHFrom opts = []
     \<or> after gcp_is_create (in_place H ctx (snd (gcp_ssh_rules project opts))) n
        \<and> after gcp_is_create (in_place H ctx (fst (gcp_ssh_rules project opts))) n
        \<and> list_all (\<lambda>c. gcp_is_create c \<longrightarrow> (\<exists>a. fst c = a @ [''--tags='' @ firewallName opts])) n"

lemma gcp_scoped_quiet:
  assumes "picks gcp_creates n0 = []"
  shows "gcp_scoped H ctx project opts n0" "gcp_scoped H ctx project opts n \<Longrightarrow> gcp_scoped H ctx project opts (n0 @ n)"
    "gcp_scoped H ctx project opts n \<Longrightarrow> gcp_scoped H ctx project opts (n @ n0)"
proof -
  have q: "list_all (\<lambda>c. \<not> gcp_is_create c) n0" using assms by (simp add: picks_gcp_creates)
  have after: "after gcp_is_create give n0" "after gcp_is_create give n \<Longrightarrow> after gcp_is_create give (n0 @ n)"
    "after gcp_is_create give n \<Longrightarrow> after gcp_is_create give (n @ n0)" for give
    using q by (auto intro: after_append after_none)
  show "gcp_scoped H ctx project opts n0" "gcp_scoped H ctx project opts n \<Longrightarrow> gcp_scoped H ctx project opts (n0 @ n)"
    "gcp_scoped H ctx project opts n \<Longrightarrow> gcp_scoped H ctx project opts (n @ n0)"
    using q after by (auto simp: gcp_scoped_def list_all_iff)
qed

lemma gcp_create_rules_logs:
  "logs R (gcp_create_rules H ctx rules) (\<lambda>r n. set (cmds n) \<subseteq> set rules \<and> (isl r \<or> (\<forall>a \<in> set rules. list_ex (in_place H ctx a) n)))"
proof (induction rules)
  case (Cons args rest)
  let ?K = "\<lambda>(r :: cli_err + unit) n. set (cmds n) \<subseteq> set rest \<and> (isl r \<or> (\<forall>a \<in> set rest. list_ex (in_place H ctx a) n))"
  let ?one = "\<lambda>q n. \<exists>x. n = [(args, x)] \<and> (\<forall>e. q = Inl e \<and> strings_Contains (er_Text e) ''already exists'' \<longrightarrow> already_there H ctx args) \<and> (\<not> isl q \<longrightarrow> x \<noteq> None)"
  have one: "logs R (runCLI H ctx ''gcloud'' args) ?one"
  proof (rule logsI)
    fix w :: "'a pworld" and q w'
    assume run: "runCLI H ctx ''gcloud'' args w = (q, w')" and R: "pw_region w = R"
    have "\<exists>new. pw_calls w' = pw_calls w @ new \<and> pw_region w' = R \<and> new = [(args, case q of Inl _ \<Rightarrow> None | Inr out \<Rightarrow> Some out)]"
      by (rule logsD [OF logs_runCLI run R]) auto
    with run show "\<exists>new. pw_calls w' = pw_calls w @ new \<and> pw_region w' = R \<and> ?one q new"
      by (cases q) (auto simp: already_there_def)
  qed
  show ?case
    unfolding gcp_create_rules.simps
  proof (rule logs_pbind [where P = "\<lambda>r n. \<exists>q. r = Inr q \<and> ?one q n" and
        K = "\<lambda>q r n. isl q \<and> \<not> strings_Contains (er_Text (projl q)) ''already exists'' \<and> isl r \<and> n = []
          \<or> (isl q \<longrightarrow> strings_Contains (er_Text (projl q)) ''already exists'') \<and> ?K r n"], goal_cases)
    case 1
    show ?case by (rule logs_ptry [OF logs_weaken [OF one]]) blast
  next
    case (2 q)
    show ?case by (cases q) (auto intro!: logs_pfail logs_weaken [OF Cons])
  next
    case (4 q n r n')
    then obtain x where n: "n = [(args, x)]" "isl q \<and> strings_Contains (er_Text (projl q)) ''already exists'' \<longrightarrow> already_there H ctx args"
      "\<not> isl q \<longrightarrow> x \<noteq> None" by (cases q) auto
    then have "in_place H ctx args (args, x)" if "isl q \<longrightarrow> strings_Contains (er_Text (projl q)) ''already exists''"
      using that by (auto simp: in_place_def)
    with 4(2) n(1) show ?case by auto
  qed simp
qed (simp add: logs_pret)

lemma gcp_firewall_logs:
  "logs R (gcp_firewall H project ctx opts) (\<lambda>r n. picks gcp_creates n = [] \<and> (case r of
     Inl _ \<Rightarrow> True
   | Inr tags \<Rightarrow> vo_AllowSSHFrom opts \<noteq> [] \<longrightarrow> tags = [''--tags='' @ firewallName opts]
       \<and> list_ex (in_place H ctx (snd (gcp_ssh_rules project opts))) n \<and> list_ex (in_place H ctx (fst (gcp_ssh_rules project opts))) n))"
  (is "logs R _ ?Q")
proof -
  let ?rules = "[snd (gcp_ssh_rules project opts), fst (gcp_ssh_rules project opts)]"
  have other: "\<not> gcp_is_create c" if "fst c \<in> set ?rules" for c
    using that by (auto simp: gcp_is_create_def gcp_ssh_rules_def gcpSSHFirewallArgs_def gcp_rule_def)
  have mk: "logs R (createSSHFirewall H project ctx opts) (\<lambda>r n. picks gcp_creates n = [] \<and> (isl r \<or> (\<forall>a \<in> set ?rules. list_ex (in_place H ctx a) n)))"
    unfolding createSSHFirewall_def gcp_ssh_rules_def [symmetric] case_prod_beta
    by (rule logs_weaken [OF gcp_create_rules_logs]) (use other in \<open>auto simp: picks_gcp_creates list_all_iff cmds_def\<close>)
  have fw: "logs R (pbind (pwrap ''gcp ssh firewall'' (createSSHFirewall H project ctx opts)) (\<lambda>_. pret [''--tags='' @ firewallName opts])) ?Q"
    by (rule logs_pbind [where P = "\<lambda>r n. picks gcp_creates n = [] \<and> (isl r \<or> (\<forall>a \<in> set ?rules. list_ex (in_place H ctx a) n))"
          and K = "\<lambda>_ r n. r = Inr [''--tags='' @ firewallName opts] \<and> n = []", OF logs_pwrap [OF mk]])
       (auto intro!: logs_pret)
  show ?thesis
    unfolding gcp_firewall_def
    by (intro logs_if logs_pret fw logs_quiet_pbind [where f = gcp_creates] gcp_quiet) (auto split: sum.splits)
qed

lemma gcp_launch_logs:
  "logs R (gcp_launch H J project ctx opts args) (\<lambda>r n. list_all (\<lambda>c. gcp_is_create c \<longrightarrow> fst c = args) n)"
proof -
  have attempts: "list_all (\<lambda>c. gcp_is_create c \<longrightarrow> fst c = args) n" if "attempts args x n" for x n
    using that by (auto simp: attempts_def list_all_iff split: sum.splits)
  have rest: "quiet gcp_creates R (case x of
         Inl e \<Rightarrow>
           pbind (adoptCreatedVM (gcp_ListVMs H J project) (gcp_GetVM H J project) runID) (\<lambda>vm.
             case vm of Some vm \<Rightarrow> pret vm
             | None \<Rightarrow> pbind (if vo_AllowSSHFrom opts \<noteq> [] then deleteSSHFirewall H project False (firewallName opts) else pret ()) (\<lambda>_. pfail e))
       | Inr out \<Rightarrow> pbind (pwrap ''cannot parse gcloud output'' (presult (gj_list J out))) (\<lambda>insts.
             case insts of [] \<Rightarrow> pfail (plain_err ''no instances created'') | inst # _ \<Rightarrow> gcp_created H opts inst))" for x runID
    by (auto simp: adoptCreatedVM_def gcp_created_def
        intro!: gcp_quiet quiet_gcp_ListVMs quiet_gcp_GetVM quiet_deleteSSHFirewall)
  show ?thesis
    unfolding gcp_launch_def
  proof (rule logs_pbind [where P = "\<lambda>r n. list_all (\<lambda>c. gcp_is_create c \<longrightarrow> fst c = args) n", OF _ quiet_logs [OF rest]], goal_cases)
    case 1
    show ?case by (rule logs_ptry [OF logs_weaken [OF logs_retryCLIOutput]]) (rule attempts)
  qed (auto simp: picks_gcp_creates list_all_iff)
qed

lemma gcp_create_plain_logs: "logs R (gcp_create_plain H J project ctx opts args files) (\<lambda>r. gcp_scoped H ctx project opts)"
proof -
  have go: "logs R (pbind (gcp_firewall H project ctx opts) (\<lambda>tags. gcp_launch H J project ctx opts (args @ tags))) (\<lambda>r. gcp_scoped H ctx project opts)" for args
  proof (rule logs_pbind [OF gcp_firewall_logs gcp_launch_logs], goal_cases)
    case (2 tags n r n')
    then have n: "list_all (\<lambda>c. \<not> gcp_is_create c) n" by (simp add: picks_gcp_creates)
    have "after gcp_is_create give (n @ n')" if "list_ex give n" for give
      using n that by (intro after_append after_none) auto
    with 2 n show ?case by (auto simp: gcp_scoped_def list_all_iff)
  qed (auto intro: gcp_scoped_quiet)
  show ?thesis
    unfolding gcp_create_plain_def Let_def
    by (intro go logs_quiet_pbind [where f = gcp_creates] gcp_quiet) (auto intro: gcp_scoped_quiet)
qed

lemma gcp_CreateVM_logs:
  assumes "vo_ConfidentialSpaceImage opts = []"
  shows "logs R (gcp_CreateVM H J project ctx opts) (\<lambda>r. gcp_scoped H ctx project opts)"
proof -
  have keys: "logs R (gcp_with_keys H opts files (gcp_create_plain H J project ctx opts args)) (\<lambda>r. gcp_scoped H ctx project opts)" for files args
    unfolding gcp_with_keys_def
    by (intro logs_if gcp_create_plain_logs logs_quiet_pbind [where f = gcp_creates] with_temp_logs [where f = gcp_creates] gcp_quiet)
       (auto intro: gcp_scoped_quiet)
  have ud: "logs R (gcp_with_user_data H opts (\<lambda>files. gcp_with_keys H opts files (gcp_create_plain H J project ctx opts args)))
      (\<lambda>r. gcp_scoped H ctx project opts)" for args
    unfolding gcp_with_user_data_def
    by (intro logs_if keys with_temp_logs [where f = gcp_creates]) (auto intro: gcp_scoped_quiet)
  show ?thesis
    using assms unfolding gcp_CreateVM_def
    by (auto intro!: ud logs_quiet_pbind [where f = gcp_creates] gcp_quiet intro: gcp_scoped_quiet)
qed


subsection \<open>Plain machines: none is ever deleted\<close>

definition gcp_deletes :: "string list \<times> string option \<Rightarrow> (string list \<times> string option) list" where
  "gcp_deletes c = (if take 3 (fst c) = [''compute'', ''instances'', ''delete''] then [c] else [])"

lemma no_delete: "take 3 args \<noteq> [''compute'', ''instances'', ''delete''] \<Longrightarrow> gcp_deletes (args, x) = []"
  by (simp add: gcp_deletes_def)

lemma quiet_delete_reads:
  "quiet gcp_deletes R (gcp_ListVMs H J project ctx tags)" "quiet gcp_deletes R (gcp_GetVM H J project ctx i)"
  "quiet gcp_deletes R (deleteSSHFirewall H project ctx name)"
  by (auto simp: gcp_ListVMs_def gcp_GetVM_def resolveZone_def deleteSSHFirewall_def gcp_delete_rule_def Let_def no_delete intro!: gcp_quiet)

lemma quiet_delete_launch:
  "take 3 args = [''compute'', ''instances'', ''create''] \<Longrightarrow> quiet gcp_deletes R (gcp_launch H J project ctx opts args)"
  by (auto simp: gcp_launch_def adoptCreatedVM_def gcp_created_def no_delete
      intro!: gcp_quiet quiet_retryCLIOutput quiet_delete_reads)

lemma quiet_delete_rules: "list_all (\<lambda>a. take 3 a \<noteq> [''compute'', ''instances'', ''delete'']) rules \<Longrightarrow> quiet gcp_deletes R (gcp_create_rules H ctx rules)"
  by (induction rules) (auto simp: no_delete intro!: gcp_quiet)

lemma quiet_delete_plain: "quiet gcp_deletes R (gcp_create_plain H J project ctx opts (gcp_create_args H project opts zone) files)"
proof -
  have fw: "quiet gcp_deletes R (gcp_firewall H project ctx opts)"
    by (auto simp: gcp_firewall_def createSSHFirewall_def gcpSSHFirewallArgs_def gcp_rule_def no_delete intro!: gcp_quiet quiet_delete_rules)
  show ?thesis
    unfolding gcp_create_plain_def Let_def
    by (intro gcp_quiet fw quiet_delete_launch) (auto simp: gcp_create_args_def Let_def)
qed

lemma quiet_delete_CreateVM: "vo_ConfidentialSpaceImage opts = [] \<Longrightarrow> quiet gcp_deletes R (gcp_CreateVM H J project ctx opts)"
  unfolding gcp_CreateVM_def gcp_with_user_data_def gcp_with_keys_def with_temp_def
  by (auto intro!: gcp_quiet quiet_pfinally quiet_delete_plain)

section \<open>Properties\<close>


text \<open>
  C16: A Confidential Space creation that fails after gcloud reported a machine has asked for its deletion.
\<close>

theorem confidential_space_reaped:
  assumes "createConfidentialSpaceVM H J project ctx opts w = (Inl e, w')"
  shows "\<exists>new. pw_calls w' = pw_calls w @ new
    \<and> (\<forall>args out. (args, Some out) \<in> set new \<and> take 3 args = [''compute'', ''instances'', ''create''] \<longrightarrow>
         (\<exists>zone. gcp_delete_args project zone (vo_Name opts) \<in> set (cmds new)))"
proof -
  from logsD [OF createConfidentialSpaceVM_logs assms refl] obtain new where
    new: "pw_calls w' = pw_calls w @ new" "cs_ok project (vo_Name opts) (Inl e :: cli_err + vm_info) new" by blast
  have "\<exists>zone. gcp_delete_args project zone (vo_Name opts) \<in> set (cmds new)"
    if "(args, Some out) \<in> set new" "take 3 args = [''compute'', ''instances'', ''create'']" for args out
  proof -
    have "list_ex (\<lambda>c. gcp_is_create c \<and> snd c \<noteq> None) new" using that by (force simp: list_ex_iff gcp_is_create_def)
    with new(2) have "gcp_deleted project (vo_Name opts) new" by (simp add: cs_ok_def)
    then show ?thesis by (force simp: gcp_deleted_def list_ex_iff cmds_def)
  qed
  with new(1) show ?thesis by blast
qed

text \<open>
  An ordinary creation never deletes an instance: when the output of a successful creation cannot be
  read, the machine stays.
\<close>

theorem gcp_plain_create_deletes_nothing:
  assumes "vo_ConfidentialSpaceImage opts = []" "gcp_CreateVM H J project ctx opts w = (r, w')"
  shows "\<exists>new. pw_calls w' = pw_calls w @ new \<and> list_all (\<lambda>args. take 3 args \<noteq> [''compute'', ''instances'', ''delete'']) (cmds new)"
proof -
  have "picks gcp_deletes n = [] \<Longrightarrow> list_all (\<lambda>args. take 3 args \<noteq> [''compute'', ''instances'', ''delete'']) (cmds n)" for n
    by (induction n) (auto simp: gcp_deletes_def)
  with logsD [OF quiet_logs [OF quiet_delete_CreateVM [OF assms(1)]] assms(2) refl] show ?thesis by blast
qed


text \<open>A project where machines are made, but what the tool prints cannot be read.\<close>

definition gcp_garbled :: gcp_json where
  "gcp_garbled = \<lparr>gj_list = (\<lambda>_. Inl ''unexpected end of JSON input''), gj_one = (\<lambda>_. Inl ''unexpected end of JSON input'')\<rparr>"

definition gcp_opts_ex :: vm_options where
  "gcp_opts_ex = opts_ex\<lparr>vo_Name := ''vm'', vo_SSHKeyPath := [], vo_AllowSSHFrom := ''10.0.0.0/8''\<rparr>"

definition cs_opts_ex :: vm_options where
  "cs_opts_ex = gcp_opts_ex\<lparr>vo_ConfidentialSpaceImage := ''img''\<rparr>"

abbreviation gcp_host_ex :: "unit cli_host" where
  "gcp_host_ex \<equiv> host_ex 0 (\<lambda>_. ([], None))"

lemmas gcp_steps = gcp_CreateVM_def gcp_create_plain_def gcp_garbled_def gcp_opts_ex_def cs_opts_ex_def gcp_instance_type_def gcp_image_def
  gcp_create_args_def gcp_with_user_data_def gcp_with_keys_def gcp_firewall_def gcp_launch_def gcp_created_def gcp_ip_def gcpIsGPUMachine_def
  gcpConfidentialArgs_def project_args_def createSSHFirewall_def gcpSSHFirewallArgs_def gcp_rule_def firewallRunIDMarker_def
  createConfidentialSpaceVM_def gcpConfidentialSpaceCreateArgs_def gcpCSComputeType_def cs_after_create_def cs_teardown_def gcp_DestroyVM_def
  resolveZone_def gcp_delete_args_def agentFirewallName_def deleteAgentFirewall_def deleteSSHFirewall_def gcp_delete_rule_def
  strings_ToLower_def sort_Strings_def sort_Slice_def gcp_GetVM_def last_segment_def

lemma gcp_run_ex:
  "list_ex (\<lambda>(args, x). take 3 args = [''compute'', ''instances'', ''create''] \<and> x = Some [])
     (pw_calls (snd (gcp_CreateVM gcp_host_ex gcp_garbled [] False gcp_opts_ex (world_ex ''z''))))"
  by (simp add: gcp_steps run_steps fw_steps cong: pbind_lazy)

lemma cs_run_ex:
  "\<exists>e w'. createConfidentialSpaceVM gcp_host_ex gcp_garbled [] False cs_opts_ex (world_ex ''z'') = (Inl e, w')
     \<and> list_ex (\<lambda>(args, x). take 3 args = [''compute'', ''instances'', ''create''] \<and> x = Some []) (pw_calls w')"
  by (simp add: gcp_steps run_steps fw_steps cong: pbind_lazy)


theorem confidential_space_reaped_witness:
  "\<exists>zone. gcp_delete_args [] zone ''vm'' \<in>
     set (cmds (pw_calls (snd (createConfidentialSpaceVM gcp_host_ex gcp_garbled [] False cs_opts_ex (world_ex ''z'')))))"
proof -
  from cs_run_ex obtain e w' args where run: "createConfidentialSpaceVM gcp_host_ex gcp_garbled [] False cs_opts_ex (world_ex ''z'') = (Inl e, w')"
    and "(args, Some []) \<in> set (pw_calls w')" "take 3 args = [''compute'', ''instances'', ''create'']"
    by (force simp: list_ex_iff)
  with confidential_space_reaped [OF run] show ?thesis
    unfolding world_calls by (auto simp: run cs_opts_ex_def gcp_opts_ex_def)
qed

theorem gcp_plain_create_deletes_nothing_witness:
  "\<exists>args. (args, Some []) \<in> set (pw_calls (snd (gcp_CreateVM gcp_host_ex gcp_garbled [] False gcp_opts_ex (world_ex ''z''))))
     \<and> take 3 args = [''compute'', ''instances'', ''create'']
     \<and> list_all (\<lambda>args. take 3 args \<noteq> [''compute'', ''instances'', ''delete''])
          (cmds (pw_calls (snd (gcp_CreateVM gcp_host_ex gcp_garbled [] False gcp_opts_ex (world_ex ''z'')))))"
proof -
  have "vo_ConfidentialSpaceImage gcp_opts_ex = []" by (simp add: gcp_opts_ex_def opts_ex_def)
  from gcp_plain_create_deletes_nothing [OF this surjective_pairing, of gcp_host_ex gcp_garbled "[]" False "world_ex ''z''"] gcp_run_ex
  show ?thesis unfolding world_calls by (force simp: list_ex_iff)
qed

end
