(* ===== verification/Cloud_Azure.thy ===== *)
theory Cloud_Azure
  imports Cloud_Firewall
begin

text \<open>
  The provider for Azure (\<^verbatim>\<open>internal/cloudvm/azure.go\<close>, \<^verbatim>\<open>azure_resources.go\<close>): creating a machine, with
  a substitute size if the subscription cannot have the requested one, and deleting it together with the disk, the
  interfaces and the addresses Azure made for it. Shown: a machine whose ssh rule cannot be set is destroyed,
  a substitute is at least as large as what was asked for, and a machine is deleted only after its
  satellites were listed; also that a missing network interface is taken for a missing machine.
\<close>

section \<open>What the tool prints\<close>

record az_sku =
  sk_Name :: string
  sk_Caps :: "(string \<times> string) list"
  sk_Restrictions :: "string list"

record az_vm =
  av_Name :: string
  av_PowerState :: string
  av_PublicIps :: string
  av_ResourceGroup :: string
  av_Location :: string
  av_Size :: string
  av_Tags :: "string \<rightharpoonup> string"

record az_item =
  az_Name :: string
  az_ResourceGroup :: string
  az_Location :: string
  az_SizeGb :: int
  az_Sku :: string
  az_Tags :: "string \<rightharpoonup> string"

text \<open>
  The decoders: the id, the address and the identity of a new machine; one machine; the disk and the
  interfaces of one; the addresses with their subnets, and the security group, of an interface; sizes,
  machines and other resources; and \<^verbatim>\<open>strconv.ParseFloat\<close>, with whether it succeeded.
\<close>

record az_json =
  aj_created :: "string \<Rightarrow> (string \<times> string \<times> string) result"
  aj_show :: "string \<Rightarrow> az_vm result"
  aj_profile :: "string \<Rightarrow> (string \<times> string list) result"
  aj_nic :: "string \<Rightarrow> ((string \<times> string) list \<times> string) result"
  aj_skus :: "string \<Rightarrow> az_sku list result"
  aj_vms :: "string \<Rightarrow> az_vm list result"
  aj_items :: "string \<Rightarrow> az_item list result"
  aj_float :: "string \<Rightarrow> f64 \<times> bool"

section \<open>Sizes\<close>

definition capability :: "az_sku \<Rightarrow> string \<Rightarrow> string" where
  "capability s key = (case map_of (sk_Caps s) key of None \<Rightarrow> [] | Some v \<Rightarrow> v)"

definition sku_available :: "az_sku \<Rightarrow> bool" where
  "sku_available s = list_all (\<lambda>r. r = []) (sk_Restrictions s)"

definition azureGeneralPurpose :: "string \<Rightarrow> bool" where
  "azureGeneralPurpose name =
     (let fam = (if strings_HasPrefix name ''Standard_'' then drop 9 name else name);
          prefix = takeWhile (\<lambda>c. \<not> is_digit c) fam
      in if prefix = [] \<or> strings_HasPrefix prefix ''DC'' \<or> strings_HasPrefix prefix ''EC'' then False
         else hd prefix \<in> {CHR ''A'', CHR ''B'', CHR ''D'', CHR ''E'', CHR ''F''})"

fun sku_reason :: "string list \<Rightarrow> string option" where
  "sku_reason [] = None"
| "sku_reason (r # rs) =
     (if r = ''NotAvailableForSubscription'' then Some ''not available for this subscription''
      else if r \<noteq> [] then Some r
      else sku_reason rs)"

text \<open>Why a size cannot be had, if the answer says so; an inconclusive answer says nothing.\<close>

definition azureSKUAvailable :: "'c cli_host \<Rightarrow> az_json \<Rightarrow> bool \<Rightarrow> string \<Rightarrow> string \<Rightarrow> ('c, string option) pm" where
  "azureSKUAvailable H J ctx location sz =
     pbind (ptry (runCLI H ctx ''az'' [''vm'', ''list-skus'', ''--location'', location, ''--size'', sz,
       ''--resource-type'', ''virtualMachines'', ''--all'', ''--output'', ''json''])) (\<lambda>r.
       case r of
         Inl _ \<Rightarrow> pret None
       | Inr out \<Rightarrow>
           (case aj_skus J out of
              Inl _ \<Rightarrow> pret None
            | Inr skus \<Rightarrow> pret (case find (\<lambda>s. sk_Name s = sz) skus of None \<Rightarrow> None | Some s \<Rightarrow> sku_reason (sk_Restrictions s))))"

text \<open>The value of \<^verbatim>\<open>strconv.Atoi\<close> when its error is dropped: zero, or the nearest number for one out of range.\<close>

definition atoi_value :: "string \<Rightarrow> int" where
  "atoi_value s =
     (case strconv_Atoi s of
        Some v \<Rightarrow> v
      | None \<Rightarrow>
          let neg = (s \<noteq> [] \<and> hd s = CHR ''-''); ds = (if s \<noteq> [] \<and> hd s \<in> {CHR ''-'', CHR ''+''} then tl s else s)
          in if ds \<noteq> [] \<and> list_all is_digit ds then (if neg then - (2 ^ 63) else 2 ^ 63 - 1) else 0)"

definition sku_vcpus :: "az_sku \<Rightarrow> int" where
  "sku_vcpus s = atoi_value (capability s ''vCPUs'')"

definition sku_memory :: "az_json \<Rightarrow> az_sku \<Rightarrow> f64" where
  "sku_memory J s = fst (aj_float J (capability s ''MemoryGB''))"

fun sku_minimum :: "az_json \<Rightarrow> string \<Rightarrow> az_sku list \<Rightarrow> int \<times> f64 \<Rightarrow> int \<times> f64" where
  "sku_minimum J requested [] mn = mn"
| "sku_minimum J requested (s # skus) (minVCPU, minMem) =
     (if sk_Name s = requested then
        sku_minimum J requested skus
          (case strconv_Atoi (capability s ''vCPUs'') of Some v \<Rightarrow> (if 0 < v then v else minVCPU) | None \<Rightarrow> minVCPU,
           if snd (aj_float J (capability s ''MemoryGB'')) then sku_memory J s else minMem)
      else sku_minimum J requested skus (minVCPU, minMem))"

fun sku_best :: "az_json \<Rightarrow> int \<times> f64 \<Rightarrow> az_sku list \<Rightarrow> (string \<times> int \<times> f64) \<Rightarrow> (string \<times> int \<times> f64)" where
  "sku_best J mn [] best = best"
| "sku_best J mn (s # skus) (best, bestVCPU, bestMem) =
     (let v = sku_vcpus s; m = sku_memory J s
      in if \<not> sku_available s \<or> \<not> azureGeneralPurpose (sk_Name s) then sku_best J mn skus (best, bestVCPU, bestMem)
         else if v < fst mn \<or> m < snd mn then sku_best J mn skus (best, bestVCPU, bestMem)
         else if best = [] \<or> v < bestVCPU \<or> (v = bestVCPU \<and> m < bestMem) \<or> (v = bestVCPU \<and> m \<le> bestMem \<and> bestMem \<le> m \<and> sk_Name s < best)
         then sku_best J mn skus (sk_Name s, v, m)
         else sku_best J mn skus (best, bestVCPU, bestMem))"

definition firstAvailableAzureSKU :: "'c cli_host \<Rightarrow> az_json \<Rightarrow> bool \<Rightarrow> string \<Rightarrow> string \<Rightarrow> ('c, string) pm" where
  "firstAvailableAzureSKU H J ctx location requested =
     pbind (runCLI H ctx ''az'' [''vm'', ''list-skus'', ''--location'', location, ''--resource-type'', ''virtualMachines'',
       ''--all'', ''--output'', ''json'']) (\<lambda>out.
     pbind (pwrap ''parse az vm list-skus'' (presult (aj_skus J out))) (\<lambda>skus.
     let mn = sku_minimum J requested skus (1, lit 0); best = fst (sku_best J mn skus ([], 0, lit 0))
     in if best = []
        then pfail (plain_err (''no available general-purpose VM size in '' @ location @ '' meets '' @ show_int (fst mn) @ '' vCPU / ''
               @ fmt_fixed 0 (snd mn) @ '' GB''))
        else pret best))"

fun withAzureSize :: "string list \<Rightarrow> string \<Rightarrow> string list" where
  "withAzureSize (a # b # args) sz = (if a = ''--size'' then a # sz # args else a # withAzureSize (b # args) sz)"
| "withAzureSize args sz = args"


section \<open>Satellites of a machine (azure\_resources.go)\<close>

record azureVMResources =
  vr_osDiskID :: string
  vr_nicIDs :: "string list"
  vr_publicIPs :: "string list"
  vr_nsgs :: "string list"
  vr_vnets :: "string list"

fun before_subnets :: "string \<Rightarrow> string option" where
  "before_subnets [] = None"
| "before_subnets (c # s) = (if strings_HasPrefix (c # s) ''/subnets/'' then Some [] else map_option (Cons c) (before_subnets s))"

definition add_ip_config :: "string \<times> string \<Rightarrow> azureVMResources \<Rightarrow> azureVMResources" where
  "add_ip_config ipc r =
     (let r1 = (if fst ipc \<noteq> [] then r\<lparr>vr_publicIPs := vr_publicIPs r @ [fst ipc]\<rparr> else r)
      in case before_subnets (snd ipc) of
           None \<Rightarrow> r1
         | Some vnet \<Rightarrow> if List.member (vr_vnets r1) vnet then r1 else r1\<lparr>vr_vnets := vr_vnets r1 @ [vnet]\<rparr>)"

definition nic_show_args :: "string \<Rightarrow> string list" where
  "nic_show_args ni = [''network'', ''nic'', ''show'', ''--ids'', ni, ''--output'', ''json'']"

definition vm_show_args :: "string \<Rightarrow> string \<Rightarrow> string list" where
  "vm_show_args rg vmID = [''vm'', ''show'', ''--resource-group'', rg, ''--name'', vmID, ''--output'', ''json'']"

primrec gather_nics :: "'c cli_host \<Rightarrow> az_json \<Rightarrow> bool \<Rightarrow> string list \<Rightarrow> azureVMResources \<Rightarrow> ('c, azureVMResources) pm" where
  "gather_nics H J ctx [] r = pret r"
| "gather_nics H J ctx (ni # nis) r =
     (if ni = [] then gather_nics H J ctx nis r
      else
        let r1 = r\<lparr>vr_nicIDs := vr_nicIDs r @ [ni]\<rparr>
        in pbind (pwrap (''enumerate NIC '' @ go_quote ni) (retried_by H ctx (\<lambda>e. e)
             (runCLI H ctx ''az'' (nic_show_args ni)))) (\<lambda>raw.
             case aj_nic J raw of
               Inl _ \<Rightarrow> gather_nics H J ctx nis r1
             | Inr (ipcs, nsg) \<Rightarrow>
                 let r2 = fold add_ip_config ipcs r1
                 in gather_nics H J ctx nis (if nsg \<noteq> [] then r2\<lparr>vr_nsgs := vr_nsgs r2 @ [nsg]\<rparr> else r2)))"

definition gatherVMResources :: "'c cli_host \<Rightarrow> az_json \<Rightarrow> bool \<Rightarrow> string \<Rightarrow> string \<Rightarrow> ('c, azureVMResources) pm" where
  "gatherVMResources H J ctx rg vmID =
     pbind (retried H ctx ''az vm show''
       (runCLI H ctx ''az'' (vm_show_args rg vmID))) (\<lambda>raw.
     pbind (pwrap ''parse az vm show'' (presult (aj_profile J raw))) (\<lambda>(disk, nics).
     gather_nics H J ctx nics \<lparr>vr_osDiskID = disk, vr_nicIDs = [], vr_publicIPs = [], vr_nsgs = [], vr_vnets = []\<rparr>))"

text \<open>In the order of their dependencies; the flag marks what costs money.\<close>

definition satellites :: "azureVMResources \<Rightarrow> (string \<times> bool) list" where
  "satellites r =
     map (\<lambda>i. (i, False)) (vr_nicIDs r) @ map (\<lambda>i. (i, True)) (vr_publicIPs r) @ map (\<lambda>i. (i, False)) (vr_nsgs r)
     @ (if vr_osDiskID r \<noteq> [] then [(vr_osDiskID r, True)] else []) @ map (\<lambda>i. (i, False)) (vr_vnets r)"

definition resource_delete :: "string \<Rightarrow> string list" where
  "resource_delete i = [''resource'', ''delete'', ''--ids'', i]"

primrec delete_items :: "'c cli_host \<Rightarrow> bool \<Rightarrow> (string \<times> bool) list \<Rightarrow> ('c, string list) pm" where
  "delete_items H ctx [] = pret []"
| "delete_items H ctx (it # items) =
     pbind (ptry (retried_by H ctx (\<lambda>e. e) (runCLI H ctx ''az'' (resource_delete (fst it))))) (\<lambda>r.
     pbind (delete_items H ctx items) (\<lambda>leaked.
     pret (case r of Inl _ \<Rightarrow> if snd it then fst it # leaked else leaked | Inr _ \<Rightarrow> leaked)))"

definition deleteAssociatedResources :: "'c cli_host \<Rightarrow> bool \<Rightarrow> azureVMResources \<Rightarrow> ('c, unit) pm" where
  "deleteAssociatedResources H ctx r =
     pbind (delete_items H ctx (satellites r)) (\<lambda>leaked.
       if leaked \<noteq> []
       then pfail (plain_err (''azure teardown could not delete billing resources; they keep billing, are untagged, and cannot be auto-reaped (VM already deleted) ''
              @ em_dash @ '' delete by hand: '' @ strings_Join leaked '', ''))
       else pret ())"

definition vm_delete_args :: "string \<Rightarrow> string \<Rightarrow> string list" where
  "vm_delete_args rg vmID = [''vm'', ''delete'', ''--resource-group'', rg, ''--name'', vmID, ''--yes'', ''--force-deletion'', ''true'']"

definition destroyVMInRG :: "'c cli_host \<Rightarrow> az_json \<Rightarrow> bool \<Rightarrow> string \<Rightarrow> string \<Rightarrow> ('c, unit) pm" where
  "destroyVMInRG H J ctx rg vmID =
     pbind (ptry (gatherVMResources H J ctx rg vmID)) (\<lambda>g.
       case g of
         Inl e \<Rightarrow>
           if isVMNotFound (Some e) vmID then pret ()
           else pfail (err_label (''azure: could not enumerate VM '' @ go_quote vmID
                  @ '' satellite resources; aborting delete to avoid an untagged leak'') e)
       | Inr assoc \<Rightarrow>
           pbind (pwrap ''az vm delete failed'' (runCLI H ctx ''az'' (vm_delete_args rg vmID))) (\<lambda>_.
           deleteAssociatedResources H ctx assoc))"

definition azure_DestroyVM :: "'c cli_host \<Rightarrow> az_json \<Rightarrow> string \<Rightarrow> bool \<Rightarrow> string \<Rightarrow> ('c, unit) pm" where
  "azure_DestroyVM H J rg ctx vmID = destroyVMInRG H J ctx rg vmID"

section \<open>Machines (azure.go)\<close>

definition NewAzureProvider_location :: "string \<Rightarrow> string" where
  "NewAzureProvider_location location = (if location = [] then ''eastus'' else location)"

definition azure_SetRegion :: "string \<Rightarrow> 'c pworld \<Rightarrow> 'c pworld" where
  "azure_SetRegion region w = (if region \<noteq> [] then w\<lparr>pw_region := region\<rparr> else w)"

definition azure_CheckCLI :: "'c cli_host \<Rightarrow> bool \<Rightarrow> ('c, unit) pm" where
  "azure_CheckCLI H ctx =
     (case ch_look H ''az'' of
        Some e \<Rightarrow> pfail (plain_err (''az CLI not found: '' @ e))
      | None \<Rightarrow> pbind (pwrap ''az not authenticated'' (exec_cli H ctx ''az'' [''account'', ''show''])) (\<lambda>_. pret ()))"

definition azureConfidentialArgs :: "vm_options \<Rightarrow> string list result" where
  "azureConfidentialArgs opts =
     (if vo_ConfidentialType opts = [] then Inr []
      else if vo_ConfidentialType opts = ''sev''
      then Inl ''azure confidential VMs are sev-snp or tdx (chosen by SKU), not plain sev''
      else Inr [''--security-type'', ''ConfidentialVM'', ''--enable-vtpm'', ''true'', ''--enable-secure-boot'',
                if vo_SecureBootDisabled opts then ''false'' else ''true'', ''--os-disk-security-encryption-type'', ''VMGuestStateOnly''])"

definition azure_GetVM :: "'c cli_host \<Rightarrow> az_json \<Rightarrow> string \<Rightarrow> bool \<Rightarrow> string \<Rightarrow> ('c, vm_info) pm" where
  "azure_GetVM H J rg ctx vmID =
     pbind (ptry (runCLI H ctx ''az'' [''vm'', ''show'', ''--resource-group'', rg, ''--name'', vmID, ''--show-details'', ''--output'', ''json''])) (\<lambda>r.
       case r of
         Inl e \<Rightarrow> if isVMNotFound (Some e) vmID then pret (vm_gone vmID) else pfail (wrapExecError ''az vm show'' e)
       | Inr out \<Rightarrow>
           pbind (presult (aj_show J out)) (\<lambda>v.
           let ps = strings_ToLower (av_PowerState v)
           in pret ((vm_gone vmID)\<lparr>vi_Name := av_Name v, vi_IP := av_PublicIps v,
                vi_State := (if strings_Contains ps ''dealloc'' \<or> strings_Contains ps ''stop'' then VMStateTerminated else VMStateRunning)\<rparr>)))"

definition azure_ListVMs :: "'c cli_host \<Rightarrow> az_json \<Rightarrow> string \<Rightarrow> bool \<Rightarrow> (string \<rightharpoonup> string) \<Rightarrow> ('c, vm_info list) pm" where
  "azure_ListVMs H J rg ctx tags =
     pbind (ptry (runCLI H ctx ''az'' [''vm'', ''list'', ''--resource-group'', rg, ''--show-details'', ''--output'', ''json''])) (\<lambda>r.
       case r of
         Inl e \<Rightarrow> pfail (wrapExecError ''az vm list'' e)
       | Inr out \<Rightarrow>
           pbind (presult (aj_vms J out)) (\<lambda>vms.
             pret (map (\<lambda>v. (vm_gone (av_Name v))\<lparr>vi_Name := av_Name v, vi_State := VMStateRunning, vi_Tags := av_Tags v\<rparr>)
               (filter (\<lambda>v. list_all (\<lambda>(k, t). env_value (av_Tags v) k = t) (tag_list H tags) \<and> av_PowerState v \<noteq> ''VM deallocated'') vms))))"

definition azure_WaitReady :: "'c cli_host \<Rightarrow> bool \<Rightarrow> string \<Rightarrow> string \<Rightarrow> string \<Rightarrow> ('c, unit) pm" where
  "azure_WaitReady H ctx i ip key = WaitForSSH H ctx ip (5 * Minute)"

definition createSSHRule :: "'c cli_host \<Rightarrow> string \<Rightarrow> bool \<Rightarrow> string \<Rightarrow> string \<Rightarrow> ('c, unit) pm" where
  "createSSHRule H rg ctx vmName cidr =
     pbind (runCLI H ctx ''az'' [''network'', ''nsg'', ''rule'', ''create'', ''--resource-group'', rg, ''--nsg-name'', vmName @ ''NSG'',
       ''--name'', ''dispatcher-ssh'', ''--priority'', ''300'', ''--destination-port-ranges'', sshPort, ''--source-address-prefixes'', cidr,
       ''--access'', ''Allow'', ''--protocol'', ''Tcp'', ''--direction'', ''Inbound'']) (\<lambda>_. pret ())"

definition grantSelfDeallocate :: "'c cli_host \<Rightarrow> bool \<Rightarrow> string \<Rightarrow> string \<Rightarrow> ('c, unit) pm" where
  "grantSelfDeallocate H ctx principalID vmResourceID =
     pignore (runCLI H ctx ''az'' [''role'', ''assignment'', ''create'', ''--assignee-object-id'', principalID,
       ''--assignee-principal-type'', ''ServicePrincipal'', ''--role'', ''Virtual Machine Contributor'', ''--scope'', vmResourceID,
       ''--output'', ''none''])"


definition azure_instance_type :: "vm_options \<Rightarrow> string" where
  "azure_instance_type opts =
     (if vo_InstanceType opts \<noteq> [] then vo_InstanceType opts
      else if vo_ConfidentialType opts \<noteq> [] then ''Standard_DC2ads_v5'' else ''Standard_B2s'')"

definition azure_image :: "vm_options \<Rightarrow> string" where
  "azure_image opts =
     (if vo_Image opts \<noteq> [] then vo_Image opts
      else if vo_ConfidentialType opts \<noteq> [] then ''Canonical:ubuntu-24_04-lts:cvm:latest''
      else ''Canonical:ubuntu-24_04-lts:server:latest'')"

definition azure_create_args :: "string \<Rightarrow> vm_options \<Rightarrow> string \<Rightarrow> string list \<Rightarrow> string list" where
  "azure_create_args rg opts location confArgs =
     [''vm'', ''create'', ''--resource-group'', rg, ''--name'', vo_Name opts, ''--location'', location,
      ''--size'', azure_instance_type opts, ''--image'', azure_image opts, ''--admin-username'', ''dispatcher'',
      ''--assign-identity'', ''[system]'', ''--output'', ''json'']
     @ (if vo_AllowSSHFrom opts \<noteq> [] then [''--nsg-rule'', ''NONE''] else [])
     @ (if vo_SSHKeyPath opts \<noteq> [] then [''--ssh-key-values'', vo_SSHKeyPath opts] else [''--generate-ssh-keys''])
     @ confArgs
     @ (if vo_Spot opts then [''--priority'', ''Spot'', ''--eviction-policy'', ''Delete'', ''--max-price'', ''-1''] else [])"

text \<open>The output of the creation and the size that was launched; or the machine that was taken over.\<close>

definition azure_adopt :: "'c cli_host \<Rightarrow> az_json \<Rightarrow> string \<Rightarrow> vm_options \<Rightarrow> ('c, vm_info option) pm" where
  "azure_adopt H J rg opts =
     adoptCreatedVM (azure_ListVMs H J rg) (azure_GetVM H J rg) (env_value (vo_Tags opts) ''dispatcher-run-id'')"

definition azure_substitute ::
  "'c cli_host \<Rightarrow> az_json \<Rightarrow> string \<Rightarrow> bool \<Rightarrow> vm_options \<Rightarrow> string \<Rightarrow> string list \<Rightarrow> string \<Rightarrow> cli_err \<Rightarrow> ('c, (string \<times> string) + vm_info) pm" where
  "azure_substitute H J rg ctx opts location args reason err =
     (let instanceType = azure_instance_type opts
      in if vo_ConfidentialType opts \<noteq> [] \<or> \<not> azureGeneralPurpose instanceType
         then pfail (err_label (''azure: VM size '' @ instanceType @ '' is '' @ reason @ '' in '' @ location @ '' '' @ em_dash
                @ '' choose a different --size or region'') err)
         else pbind (ptry (firstAvailableAzureSKU H J ctx location instanceType)) (\<lambda>r.
           case r of
             Inl altErr \<Rightarrow>
               pfail (err_label (''azure: VM size '' @ instanceType @ '' is '' @ reason @ '' in '' @ location
                 @ '' and no available substitute was found ('' @ er_Text altErr @ '')'') err)
           | Inr alt \<Rightarrow>
               pbind (ptry (retryCLIOutput H ctx ''az'' ''az vm create'' (withAzureSize args alt))) (\<lambda>r.
                 case r of
                   Inr out \<Rightarrow> pret (Inl (out, alt))
                 | Inl err \<Rightarrow>
                     pbind (azure_adopt H J rg opts) (\<lambda>vm.
                       case vm of
                         Some vm \<Rightarrow> pret (Inr vm)
                       | None \<Rightarrow> pfail (err_label (''azure: substitute size '' @ alt @ '' for unavailable '' @ instanceType @ '' also failed'') err)))))"

definition azure_launch ::
  "'c cli_host \<Rightarrow> az_json \<Rightarrow> string \<Rightarrow> bool \<Rightarrow> vm_options \<Rightarrow> string \<Rightarrow> string list \<Rightarrow> ('c, (string \<times> string) + vm_info) pm" where
  "azure_launch H J rg ctx opts location args =
     pbind (ptry (retryCLIOutput H ctx ''az'' ''az vm create'' args)) (\<lambda>r.
       case r of
         Inr out \<Rightarrow> pret (Inl (out, azure_instance_type opts))
       | Inl err \<Rightarrow>
           pbind (azure_adopt H J rg opts) (\<lambda>vm.
             case vm of
               Some vm \<Rightarrow> pret (Inr vm)
             | None \<Rightarrow>
                 if strings_Contains (er_Text err) ''already consumed'' then
                   pbind (azureSKUAvailable H J ctx location (azure_instance_type opts)) (\<lambda>why.
                     case why of
                       Some reason \<Rightarrow> azure_substitute H J rg ctx opts location args reason err
                     | None \<Rightarrow> pfail err)
                 else pfail err))"

definition azure_finish :: "'c cli_host \<Rightarrow> az_json \<Rightarrow> string \<Rightarrow> bool \<Rightarrow> vm_options \<Rightarrow> (string \<times> string) + vm_info \<Rightarrow> ('c, vm_info) pm" where
  "azure_finish H J rg ctx opts launched =
     (case launched of
        Inr vm \<Rightarrow> pret vm
      | Inl (out, instanceType) \<Rightarrow>
          pbind (pwrap ''cannot parse az output'' (presult (aj_created J out))) (\<lambda>(i, ip, principal).
          pbind (if vo_AllowSSHFrom opts \<noteq> [] then
                   pbind (ptry (createSSHRule H rg ctx (vo_Name opts) (vo_AllowSSHFrom opts))) (\<lambda>r.
                     case r of
                       Inl e \<Rightarrow> pbind (pignore (azure_DestroyVM H J rg False (vo_Name opts))) (\<lambda>_. pfail (err_label ''azure ssh firewall'' e))
                     | Inr _ \<Rightarrow> pret ())
                 else pret ()) (\<lambda>_.
          pbind (if principal \<noteq> [] \<and> i \<noteq> [] then grantSelfDeallocate H ctx principal i else pret ()) (\<lambda>_.
          pbind (pgets (\<lambda>w. ch_now H (pw_out w))) (\<lambda>now.
          pret ((vm_gone (vo_Name opts))\<lparr>vi_Name := vo_Name opts, vi_IP := ip, vi_State := VMStateRunning,
            vi_InstanceType := instanceType, vi_CreatedAt := now, vi_Tags := vo_Tags opts\<rparr>))))))"

definition azure_create :: "'c cli_host \<Rightarrow> az_json \<Rightarrow> string \<Rightarrow> bool \<Rightarrow> vm_options \<Rightarrow> string \<Rightarrow> string list \<Rightarrow> ('c, vm_info) pm" where
  "azure_create H J rg ctx opts location args =
     pbind (pwrap ''azure tags'' (presult (validateLabels (tag_list H (vo_Tags opts))))) (\<lambda>_.
     let pairs = map (\<lambda>(k, v). k @ ''='' @ v) (tag_list H (vo_Tags opts))
     in pbind (azure_launch H J rg ctx opts location (args @ (if pairs = [] then [] else ''--tags'' # pairs))) (azure_finish H J rg ctx opts))"

definition azure_CreateVM :: "'c cli_host \<Rightarrow> az_json \<Rightarrow> string \<Rightarrow> bool \<Rightarrow> vm_options \<Rightarrow> ('c, vm_info) pm" where
  "azure_CreateVM H J rg ctx opts =
     pbind (pgets (\<lambda>w. if vo_Region opts = [] then pw_region w else vo_Region opts)) (\<lambda>location.
     pbind (pwrap ''azure'' (presult (validateVMArgs location (azure_instance_type opts) (azure_image opts)))) (\<lambda>_.
     pbind (if vo_AllowSSHFrom opts \<noteq> [] then pwrap ''azure'' (presult (validateFirewallCIDR (vo_AllowSSHFrom opts))) else pret ()) (\<lambda>_.
     pbind (presult (azureConfidentialArgs opts)) (\<lambda>confArgs.
     let args = azure_create_args rg opts location confArgs
     in if vo_UserData opts \<noteq> []
        then with_temp H ''write user-data'' ''dispatcher-azure-userdata-*.sh'' (vo_UserData opts) (\<lambda>path.
               azure_create H J rg ctx opts location (args @ [''--custom-data'', ''@'' @ path]))
        else azure_create H J rg ctx opts location args))))"

section \<open>Resources\<close>

definition azureSnapshotRatePerGBMonth :: f64 where "azureSnapshotRatePerGBMonth = lit (5 / 100)"

definition azurePublicIPMonthly :: f64 where "azurePublicIPMonthly = lit (365 / 100)"

definition azureDiskRatePerGBMonth :: "string \<Rightarrow> f64" where
  "azureDiskRatePerGBMonth nm =
     (if nm = ''Standard_LRS'' then lit (45 / 1000)
      else if nm = ''StandardSSD_LRS'' then lit (75 / 1000)
      else if nm = ''Premium_LRS'' \<or> nm = ''PremiumV2_LRS'' then lit (135 / 1000)
      else if nm = ''UltraSSD_LRS'' then lit (150 / 1000)
      else lit (75 / 1000))"

definition includeCrossRG :: "string \<Rightarrow> string \<Rightarrow> (string \<rightharpoonup> string) \<Rightarrow> bool" where
  "includeCrossRG own rg tags \<longleftrightarrow> env_value tags ''dispatcher'' = ''true'' \<or> rg = own"

definition azure_resource :: "string \<Rightarrow> resource_kind \<Rightarrow> string \<Rightarrow> string \<Rightarrow> string \<Rightarrow> string \<Rightarrow> (string \<rightharpoonup> string) \<Rightarrow> f64 \<Rightarrow> resource_info" where
  "azure_resource location kind name loc rg itype tags monthly =
     \<lparr>ri_ResourceID = name, ri_Provider = provider_string ProviderAzure, ri_Kind = kind,
      ri_Region = (if loc \<noteq> [] then loc else location), ri_InstanceType = itype, ri_CreatedAt = 0,
      ri_RunID = env_value tags ''dispatcher-run-id'', ri_Tags = tags, ri_Scope = rg, ri_MonthlyUSD = monthly\<rparr>"

definition listVMResources :: "'c cli_host \<Rightarrow> az_json \<Rightarrow> string \<Rightarrow> bool \<Rightarrow> ('c, resource_info list) pm" where
  "listVMResources H J own ctx =
     pbind (ptry (runCLI H ctx ''az'' [''vm'', ''list'', ''--show-details'', ''--output'', ''json''])) (\<lambda>r.
       case r of
         Inl e \<Rightarrow> pfail (wrapExecError ''az vm list'' e)
       | Inr out \<Rightarrow>
           pbind (pwrap ''parse az vms'' (presult (aj_vms J out))) (\<lambda>vms.
           pbind (pgets pw_region) (\<lambda>location.
           pret (map (\<lambda>v. azure_resource location ResourceInstance (av_Name v) (av_Location v) (av_ResourceGroup v) (av_Size v) (av_Tags v)
                        (PriceByName NewCatalog ProviderAzure (av_Size v) * gcpMonthlyHours))
             (filter (\<lambda>v. (let ps = strings_ToLower (av_PowerState v) in strings_Contains ps ''running'' \<or> strings_Contains ps ''stopped'')
                         \<and> includeCrossRG own (av_ResourceGroup v) (av_Tags v)) vms)))))"

definition list_az_items ::
  "'c cli_host \<Rightarrow> az_json \<Rightarrow> string \<Rightarrow> bool \<Rightarrow> string list \<Rightarrow> string \<Rightarrow> resource_kind \<Rightarrow> (az_item \<Rightarrow> f64) \<Rightarrow> ('c, resource_info list) pm" where
  "list_az_items H J own ctx args what kind monthly =
     pbind (runCLI H ctx ''az'' args) (\<lambda>out.
     pbind (pwrap (''parse az '' @ what) (presult (aj_items J out))) (\<lambda>items.
     pbind (pgets pw_region) (\<lambda>location.
     pret (map (\<lambda>d. azure_resource location kind (az_Name d) (az_Location d) (az_ResourceGroup d) [] (az_Tags d) (monthly d))
       (filter (\<lambda>d. includeCrossRG own (az_ResourceGroup d) (az_Tags d)) items)))))"

definition listDiskResources :: "'c cli_host \<Rightarrow> az_json \<Rightarrow> string \<Rightarrow> bool \<Rightarrow> ('c, resource_info list) pm" where
  "listDiskResources H J own ctx =
     list_az_items H J own ctx [''disk'', ''list'', ''--output'', ''json''] ''disks'' ResourceDisk
       (\<lambda>d. f64_of_int (az_SizeGb d) * azureDiskRatePerGBMonth (az_Sku d))"

definition listPublicIPResources :: "'c cli_host \<Rightarrow> az_json \<Rightarrow> string \<Rightarrow> bool \<Rightarrow> ('c, resource_info list) pm" where
  "listPublicIPResources H J own ctx =
     list_az_items H J own ctx [''network'', ''public-ip'', ''list'', ''--output'', ''json''] ''public ips'' ResourceAddress (\<lambda>_. azurePublicIPMonthly)"

definition listSnapshotResources :: "'c cli_host \<Rightarrow> az_json \<Rightarrow> string \<Rightarrow> bool \<Rightarrow> ('c, resource_info list) pm" where
  "listSnapshotResources H J own ctx =
     list_az_items H J own ctx [''snapshot'', ''list'', ''--output'', ''json''] ''snapshots'' ResourceSnapshot
       (\<lambda>d. f64_of_int (az_SizeGb d) * azureSnapshotRatePerGBMonth)"

primrec best_effort :: "('c, 'x list) pm list \<Rightarrow> 'x list \<Rightarrow> ('c, 'x list) pm" where
  "best_effort [] out = pret out"
| "best_effort (m # ms) out = pbind (ptry m) (\<lambda>r. best_effort ms (case r of Inl _ \<Rightarrow> out | Inr rs \<Rightarrow> out @ rs))"

definition azure_ListResources :: "'c cli_host \<Rightarrow> az_json \<Rightarrow> string \<Rightarrow> bool \<Rightarrow> ('c, resource_info list) pm" where
  "azure_ListResources H J own ctx =
     pbind (listVMResources H J own ctx)
       (best_effort [listDiskResources H J own ctx, listPublicIPResources H J own ctx, listSnapshotResources H J own ctx])"

definition azure_DestroyResource :: "'c cli_host \<Rightarrow> az_json \<Rightarrow> string \<Rightarrow> bool \<Rightarrow> resource_info \<Rightarrow> ('c, unit) pm" where
  "azure_DestroyResource H J own ctx res =
     (let rg = (if ri_Scope res = [] then own else ri_Scope res);
          del = (\<lambda>args. pbind (pwrap (''az '' @ resource_kind_string (ri_Kind res) @ '' delete failed'') (runCLI H ctx ''az'' args)) (\<lambda>_. pret ()))
      in if \<not> DispatcherOwned res
         then pfail (plain_err (''refusing to destroy '' @ resource_kind_string (ri_Kind res) @ '' '' @ go_quote (ri_ResourceID res) @ '': not dispatcher-owned''))
         else if \<not> destroyArgsSafe (ri_ResourceID res) rg
         then pfail (plain_err (''azure: refusing to destroy '' @ go_quote (ri_ResourceID res) @ '': unsafe resource id or scope''))
         else case ri_Kind res of
                ResourceInstance \<Rightarrow> destroyVMInRG H J ctx rg (ri_ResourceID res)
              | ResourceDisk \<Rightarrow> del [''disk'', ''delete'', ''--resource-group'', rg, ''--name'', ri_ResourceID res, ''--yes'']
              | ResourceAddress \<Rightarrow> del [''network'', ''public-ip'', ''delete'', ''--resource-group'', rg, ''--name'', ri_ResourceID res]
              | ResourceSnapshot \<Rightarrow> del [''snapshot'', ''delete'', ''--resource-group'', rg, ''--name'', ri_ResourceID res]
              | k \<Rightarrow> pfail (plain_err (''azure: cannot destroy resource of kind '' @ go_quote (resource_kind_string k))))"

definition azure_provider :: "'c cli_host \<Rightarrow> az_json \<Rightarrow> string \<Rightarrow> 'c pworld provider" where
  "azure_provider H J rg = \<lparr>
     pv_CheckCLI = (\<lambda>ctx. as_call (azure_CheckCLI H ctx)),
     pv_CreateVM = (\<lambda>ctx opts. as_call (pbind (azure_CreateVM H J rg ctx opts) (\<lambda>vm. pret (Some vm)))),
     pv_WaitReady = (\<lambda>ctx i ip key. as_call (azure_WaitReady H ctx i ip key)),
     pv_GetVM = (\<lambda>ctx i. as_call (pbind (azure_GetVM H J rg ctx i) (\<lambda>vm. pret (Some vm)))),
     pv_DestroyVM = (\<lambda>ctx i. as_call (azure_DestroyVM H J rg ctx i)),
     pv_ListVMs = (\<lambda>ctx tags. as_call (azure_ListVMs H J rg ctx tags)),
     pv_SetRegion = Some azure_SetRegion,
     pv_Resources = Some (\<lambda>ctx. as_call (azure_ListResources H J rg ctx), \<lambda>ctx res. as_call (azure_DestroyResource H J rg ctx res))\<rparr>"

section \<open>The substitute size\<close>

definition adequate :: "az_json \<Rightarrow> int \<times> f64 \<Rightarrow> az_sku \<Rightarrow> bool" where
  "adequate J mn s \<longleftrightarrow> sku_available s \<and> azureGeneralPurpose (sk_Name s) \<and> fst mn \<le> sku_vcpus s \<and> \<not> sku_memory J s < snd mn"

lemma adequate_named: "adequate J mn s \<Longrightarrow> sk_Name s \<noteq> []"
  by (auto simp: adequate_def azureGeneralPurpose_def strings_HasPrefix_def)

lemma sku_best_correct:
  assumes "sku_best J mn skus (b, bv, bm) = (b', bv', bm')"
  shows "(b' = b \<and> bv' = bv \<or> (\<exists>s \<in> set skus. adequate J mn s \<and> sk_Name s = b' \<and> sku_vcpus s = bv'))
    \<and> (\<forall>s \<in> set skus. adequate J mn s \<longrightarrow> b' \<noteq> [] \<and> bv' \<le> sku_vcpus s)
    \<and> (b \<noteq> [] \<longrightarrow> b' \<noteq> [] \<and> bv' \<le> bv)"
  using assms
proof (induction skus arbitrary: b bv bm)
  case (Cons s skus)
  show ?case
  proof (cases "adequate J mn s")
    case False
    then have "sku_best J mn skus (b, bv, bm) = (b', bv', bm')"
      using Cons.prems by (auto simp: adequate_def Let_def split: if_splits)
    from Cons.IH [OF this] False show ?thesis by auto
  next
    case True
    note name = adequate_named [OF True]
    let ?better = "b = [] \<or> sku_vcpus s < bv \<or> (sku_vcpus s = bv \<and> sku_memory J s < bm)
      \<or> (sku_vcpus s = bv \<and> sku_memory J s \<le> bm \<and> bm \<le> sku_memory J s \<and> sk_Name s < b)"
    have step: "sku_best J mn (s # skus) (b, bv, bm)
        = (if ?better then sku_best J mn skus (sk_Name s, sku_vcpus s, sku_memory J s) else sku_best J mn skus (b, bv, bm))"
      using True by (auto simp: adequate_def Let_def)
    show ?thesis
    proof (cases ?better)
      case better: True
      with step Cons.prems have "sku_best J mn skus (sk_Name s, sku_vcpus s, sku_memory J s) = (b', bv', bm')" by simp
      from Cons.IH [OF this] True name better show ?thesis by auto
    next
      case False
      with step Cons.prems have "sku_best J mn skus (b, bv, bm) = (b', bv', bm')" by (simp only: if_False)
      from Cons.IH [OF this] True False show ?thesis by auto
    qed
  qed
qed simp

text \<open>
  The substitute for an unavailable size is an available general-purpose size with at least the processors and
  the memory of the requested one, and no adequate size has fewer processors.
\<close>

theorem azure_substitute_adequate:
  assumes "firstAvailableAzureSKU H J ctx location requested w = (Inr best, w')"
  shows "\<exists>args out skus. pw_calls w' = pw_calls w @ [(args, Some out)] \<and> aj_skus J out = Inr skus
    \<and> (\<exists>s \<in> set skus. sk_Name s = best \<and> adequate J (sku_minimum J requested skus (1, lit 0)) s
         \<and> (\<forall>s' \<in> set skus. adequate J (sku_minimum J requested skus (1, lit 0)) s' \<longrightarrow> sku_vcpus s \<le> sku_vcpus s'))"
proof -
  let ?args = "[''vm'', ''list-skus'', ''--location'', location, ''--resource-type'', ''virtualMachines'', ''--all'', ''--output'', ''json'']"
  obtain r1 w1 where run: "runCLI H ctx ''az'' ?args w = (r1, w1)" by force
  have log: "\<exists>new. pw_calls w1 = pw_calls w @ new \<and> pw_region w1 = pw_region w \<and> new = [(?args, case r1 of Inl _ \<Rightarrow> None | Inr out \<Rightarrow> Some out)]"
    by (rule logsD [OF logs_runCLI run refl]) auto
  from assms run obtain out where r1: "r1 = Inr out"
    by (auto simp: firstAvailableAzureSKU_def pbind_def split: sum.splits)
  with assms run obtain skus where skus: "aj_skus J out = Inr skus"
    by (auto simp: firstAvailableAzureSKU_def pbind_def pwrap_def presult_def pfail_def split: sum.splits)
  let ?mn = "sku_minimum J requested skus (1, lit 0)"
  obtain b bv bm where best: "sku_best J ?mn skus ([], 0, lit 0) = (b, bv, bm)" by (rule prod_cases3)
  from assms run r1 skus best have b: "b = best" "best \<noteq> []" "w' = w1"
    by (auto simp: firstAvailableAzureSKU_def pbind_def pwrap_def presult_def pfail_def pret_def Let_def split: if_splits)
  from sku_best_correct [OF best] b obtain s where "s \<in> set skus" "adequate J ?mn s" "sk_Name s = best" "sku_vcpus s = bv"
    "\<forall>s' \<in> set skus. adequate J ?mn s' \<longrightarrow> bv \<le> sku_vcpus s'" by auto
  then show ?thesis using log r1 skus b by auto
qed

section \<open>Deleting a machine with its satellites\<close>

lemma delete_items_logs:
  "logs R (delete_items H ctx items) (\<lambda>r n. \<exists>leaked. r = Inr leaked \<and>
     (\<forall>i. (i, True) \<in> set items \<longrightarrow> i \<in> set leaked \<or> (\<exists>out. (resource_delete i, Some out) \<in> set n)))"
proof (induction items)
  case (Cons it items)
  let ?one = "retried_by H ctx (\<lambda>e. e) (runCLI H ctx ''az'' (resource_delete (fst it)))"
  let ?P = "\<lambda>r n. \<exists>x. r = Inr x \<and> (\<forall>out. x = Inr out \<longrightarrow> (resource_delete (fst it), Some out) \<in> set n)"
  have one: "logs R (ptry ?one) ?P"
    by (rule logs_ptry [OF logs_weaken [OF logs_retried_by]], rule logs_runCLI) (auto simp: attempts_def split: sum.splits)
  have rest: "logs R (pbind (delete_items H ctx items) (\<lambda>leaked. pret (case x of Inl _ \<Rightarrow> if snd it then fst it # leaked else leaked | Inr _ \<Rightarrow> leaked)))
      (\<lambda>r n. \<exists>leaked. r = Inr leaked \<and> (isl x \<and> snd it \<longrightarrow> fst it \<in> set leaked) \<and>
        (\<forall>i. (i, True) \<in> set items \<longrightarrow> i \<in> set leaked \<or> (\<exists>out. (resource_delete i, Some out) \<in> set n)))" for x :: "cli_err + string"
    by (rule logs_pbind [OF Cons, where K = "\<lambda>leaked r n. n = [] \<and> r = Inr (case x of Inl _ \<Rightarrow> if snd it then fst it # leaked else leaked | Inr _ \<Rightarrow> leaked)"])
       (auto intro!: logs_pret split: sum.splits)
  show ?case
    unfolding delete_items.simps
  proof (rule logs_pbind [OF one rest], goal_cases)
    case (2 x n r n')
    then show ?case by (cases x) fastforce+
  qed auto
qed (simp add: logs_pret)

text \<open>
  What the tool reported, read off the log: the public addresses of the interfaces; what is attached
  to the interfaces; what is attached to the machine; and what of that is billed on its own.
\<close>

definition nic_ips :: "az_json \<Rightarrow> cli_log \<Rightarrow> string set" where
  "nic_ips J n = {x. \<exists>ni raw ipcs nsg subnet. (nic_show_args ni, Some raw) \<in> set n \<and> aj_nic J raw = Inr (ipcs, nsg)
     \<and> (x, subnet) \<in> set ipcs \<and> x \<noteq> []}"

definition nic_attached :: "az_json \<Rightarrow> string list \<Rightarrow> cli_log \<Rightarrow> string \<Rightarrow> bool" where
  "nic_attached J nics n x \<longleftrightarrow> x \<in> set nics \<or>
     (\<exists>ni \<in> set nics. \<exists>raw ipcs nsg. (nic_show_args ni, Some raw) \<in> set n \<and> aj_nic J raw = Inr (ipcs, nsg)
        \<and> (x = nsg \<or> (\<exists>ipc \<in> set ipcs. x = fst ipc \<or> before_subnets (snd ipc) = Some x)))"

definition az_attached :: "az_json \<Rightarrow> string \<Rightarrow> string \<Rightarrow> cli_log \<Rightarrow> string \<Rightarrow> bool" where
  "az_attached J rg vmID n x \<longleftrightarrow>
     (\<exists>out disk nics. (vm_show_args rg vmID, Some out) \<in> set n \<and> aj_profile J out = Inr (disk, nics)
        \<and> (x = disk \<or> nic_attached J nics n x))"

definition az_billed :: "az_json \<Rightarrow> string \<Rightarrow> string \<Rightarrow> cli_log \<Rightarrow> string \<Rightarrow> bool" where
  "az_billed J rg vmID n x \<longleftrightarrow>
     (\<exists>out nics. (vm_show_args rg vmID, Some out) \<in> set n \<and> aj_profile J out = Inr (x, nics) \<and> x \<noteq> []) \<or> x \<in> nic_ips J n"

lemma nic_show_eq [simp]: "nic_show_args a = nic_show_args b \<longleftrightarrow> a = b" "vm_show_args rg vmID \<noteq> nic_show_args a"
  "nic_show_args a \<noteq> vm_show_args rg vmID"
  by (simp_all add: nic_show_args_def vm_show_args_def)

lemma nic_ips_append [simp]: "nic_ips J (n @ n') = nic_ips J n \<union> nic_ips J n'"
  unfolding nic_ips_def by auto blast+

lemma nic_attached_mono: "nic_attached J nics n x \<Longrightarrow> set nics \<subseteq> set nics' \<Longrightarrow> set n \<subseteq> set n' \<Longrightarrow> nic_attached J nics' n' x"
  unfolding nic_attached_def by blast

lemma az_attached_mono:
  assumes "az_attached J rg vmID n x" "set n \<subseteq> set n'"
  shows "az_attached J rg vmID n' x"
proof -
  from assms(1) obtain out disk nics where "(vm_show_args rg vmID, Some out) \<in> set n" "aj_profile J out = Inr (disk, nics)"
    "x = disk \<or> nic_attached J nics n x" unfolding az_attached_def by blast
  with nic_attached_mono [of J nics n x nics n'] assms(2) show ?thesis unfolding az_attached_def by blast
qed

lemma satellites_set:
  "fst ` set (satellites r) = set (vr_nicIDs r) \<union> set (vr_publicIPs r) \<union> set (vr_nsgs r) \<union> ({vr_osDiskID r} - {[]}) \<union> set (vr_vnets r)"
  by (auto simp: satellites_def image_Un image_image)

lemma add_ip_configs:
  "set (vr_publicIPs (fold add_ip_config ipcs r)) = set (vr_publicIPs r) \<union> (fst ` set ipcs - {[]})
   \<and> vr_osDiskID (fold add_ip_config ipcs r) = vr_osDiskID r \<and> vr_nicIDs (fold add_ip_config ipcs r) = vr_nicIDs r
   \<and> vr_nsgs (fold add_ip_config ipcs r) = vr_nsgs r
   \<and> set (vr_vnets (fold add_ip_config ipcs r)) \<subseteq> set (vr_vnets r) \<union> {x. \<exists>ipc \<in> set ipcs. before_subnets (snd ipc) = Some x}"
proof (induction ipcs arbitrary: r)
  case (Cons ipc ipcs)
  have "set (vr_publicIPs (add_ip_config ipc r)) = set (vr_publicIPs r) \<union> ({fst ipc} - {[]})
    \<and> vr_osDiskID (add_ip_config ipc r) = vr_osDiskID r \<and> vr_nicIDs (add_ip_config ipc r) = vr_nicIDs r
    \<and> vr_nsgs (add_ip_config ipc r) = vr_nsgs r
    \<and> set (vr_vnets (add_ip_config ipc r)) \<subseteq> set (vr_vnets r) \<union> {x. before_subnets (snd ipc) = Some x}"
    by (auto simp: add_ip_config_def Let_def split: option.splits if_splits)
  with Cons.IH [of "add_ip_config ipc r"] show ?case by auto
qed simp

text \<open>An enumeration that succeeds has found every public address that was reported, and nothing that was not.\<close>

definition gathered :: "az_json \<Rightarrow> string list \<Rightarrow> azureVMResources \<Rightarrow> cli_err + azureVMResources \<Rightarrow> cli_log \<Rightarrow> bool" where
  "gathered J nics r q n \<longleftrightarrow> (\<forall>assoc. q = Inr assoc \<longrightarrow>
     set (vr_publicIPs assoc) = set (vr_publicIPs r) \<union> nic_ips J n \<and> vr_osDiskID assoc = vr_osDiskID r
     \<and> fst ` set (satellites assoc) \<subseteq> fst ` set (satellites r) \<union> {x. nic_attached J nics n x})"

lemma nic_attached_subset:
  "set nics \<subseteq> set nics' \<Longrightarrow> set n \<subseteq> set n' \<Longrightarrow> {x. nic_attached J nics n x} \<subseteq> {x. nic_attached J nics' n' x}"
  using nic_attached_mono by blast

lemma gathered_skip: "gathered J nics r q n \<Longrightarrow> gathered J (ni # nics) r q n"
  unfolding gathered_def using nic_attached_subset [of nics "ni # nics" n n J, OF set_subset_Cons subset_refl] by blast

lemma gathered_then:
  assumes "gathered J nics r' q n'" "fst ` set (satellites r') \<subseteq> fst ` set (satellites r) \<union> {x. nic_attached J (ni # nics) (n @ n') x}"
    "set (vr_publicIPs r') = set (vr_publicIPs r) \<union> nic_ips J n" "vr_osDiskID r' = vr_osDiskID r"
  shows "gathered J (ni # nics) r q (n @ n')"
  unfolding gathered_def
proof (intro allI impI)
  fix assoc assume "q = Inr assoc"
  with assms(1) have g: "set (vr_publicIPs assoc) = set (vr_publicIPs r') \<union> nic_ips J n'" "vr_osDiskID assoc = vr_osDiskID r'"
    "fst ` set (satellites assoc) \<subseteq> fst ` set (satellites r') \<union> {x. nic_attached J nics n' x}" by (simp_all add: gathered_def)
  have "{x. nic_attached J nics n' x} \<subseteq> {x. nic_attached J (ni # nics) (n @ n') x}" by (rule nic_attached_subset) auto
  with g assms(2-4) show "set (vr_publicIPs assoc) = set (vr_publicIPs r) \<union> nic_ips J (n @ n') \<and> vr_osDiskID assoc = vr_osDiskID r
      \<and> fst ` set (satellites assoc) \<subseteq> fst ` set (satellites r) \<union> {x. nic_attached J (ni # nics) (n @ n') x}"
    by (intro conjI) (simp_all add: Un_assoc, blast)
qed

lemma nic_ips_attempts:
  assumes "attempts (nic_show_args ni) (Inr raw) n"
  shows "nic_ips J n = (case aj_nic J raw of Inl _ \<Rightarrow> {} | Inr (ipcs, nsg) \<Rightarrow> fst ` set ipcs - {[]})"
  using assms unfolding attempts_def nic_ips_def by (auto split: sum.splits) force

lemma gather_nics_logs: "logs R (gather_nics H J ctx nics r) (gathered J nics r)"
proof (induction nics arbitrary: r)
  case Nil
  show ?case by (auto intro!: logs_pret simp: gathered_def nic_ips_def)
next
  case (Cons ni nics)
  let ?r1 = "r\<lparr>vr_nicIDs := vr_nicIDs r @ [ni]\<rparr>"
  let ?r2 = "\<lambda>ipcs nsg. let r2 = fold add_ip_config ipcs ?r1 in if nsg \<noteq> [] then r2\<lparr>vr_nsgs := vr_nsgs r2 @ [nsg]\<rparr> else r2"
  let ?next = "\<lambda>raw. case aj_nic J raw of Inl _ \<Rightarrow> ?r1 | Inr (ipcs, nsg) \<Rightarrow> ?r2 ipcs nsg"
  have k: "logs R (case aj_nic J raw of Inl _ \<Rightarrow> gather_nics H J ctx nics ?r1
      | Inr (ipcs, nsg) \<Rightarrow> let r2 = fold add_ip_config ipcs ?r1
          in gather_nics H J ctx nics (if nsg \<noteq> [] then r2\<lparr>vr_nsgs := vr_nsgs r2 @ [nsg]\<rparr> else r2)) (gathered J nics (?next raw))" for raw
    using Cons.IH by (auto simp: Let_def split: sum.split)
  have one: "logs R (pwrap l (retried_by H ctx (\<lambda>e. e) (runCLI H ctx ''az'' (nic_show_args ni))))
      (\<lambda>q n. \<forall>raw. q = Inr raw \<longrightarrow> attempts (nic_show_args ni) (Inr raw) n)" for l
    by (rule logs_pwrap [OF logs_retried_by [OF logs_runCLI]]) auto
  have step: "gathered J (ni # nics) r q (n @ n')" if a: "attempts (nic_show_args ni) (Inr raw) n" and g: "gathered J nics (?next raw) q n'" for raw q n n'
  proof -
    have new: "fst ` set (satellites (?next raw)) \<subseteq> fst ` set (satellites r) \<union> {x. nic_attached J (ni # nics) (n @ n') x}"
      and ips: "set (vr_publicIPs (?next raw)) = set (vr_publicIPs r) \<union> nic_ips J n" "vr_osDiskID (?next raw) = vr_osDiskID r"
    proof -
      have l: "(nic_show_args ni, Some raw) \<in> set (n @ n')" using a by (auto simp: attempts_def)
      have at: "nic_attached J (ni # nics) (n @ n') x" if "aj_nic J raw = Inr (ipcs, nsg)" "x = nsg \<or> (\<exists>ipc \<in> set ipcs. x = fst ipc \<or> before_subnets (snd ipc) = Some x)"
        for x ipcs nsg using l that unfolding nic_attached_def by auto
      have ni: "nic_attached J (ni # nics) (n @ n') ni" by (simp add: nic_attached_def)
      show "fst ` set (satellites (?next raw)) \<subseteq> fst ` set (satellites r) \<union> {x. nic_attached J (ni # nics) (n @ n') x}"
      proof (cases "aj_nic J raw")
        case (Inl e)
        then show ?thesis using ni by (auto simp: satellites_set)
      next
        case (Inr b)
        obtain ipcs nsg where b: "b = (ipcs, nsg)" by fastforce
        define r2 where "r2 = fold add_ip_config ipcs ?r1"
        have r2: "set (vr_publicIPs r2) = set (vr_publicIPs r) \<union> (fst ` set ipcs - {[]})" "vr_osDiskID r2 = vr_osDiskID r"
          "vr_nicIDs r2 = vr_nicIDs r @ [ni]" "vr_nsgs r2 = vr_nsgs r"
          "\<And>x. x \<in> set (vr_vnets r2) \<Longrightarrow> x \<in> set (vr_vnets r) \<or> (\<exists>ipc \<in> set ipcs. before_subnets (snd ipc) = Some x)"
          using add_ip_configs [of ipcs ?r1] unfolding r2_def by auto
        have nx: "?next raw = (if nsg \<noteq> [] then r2\<lparr>vr_nsgs := vr_nsgs r2 @ [nsg]\<rparr> else r2)"
          by (simp add: Inr b r2_def Let_def)
        show ?thesis using at [OF Inr [unfolded b]] ni r2(5) unfolding nx satellites_set by (auto simp: r2(1-4))
      qed
      show "set (vr_publicIPs (?next raw)) = set (vr_publicIPs r) \<union> nic_ips J n" "vr_osDiskID (?next raw) = vr_osDiskID r"
        unfolding nic_ips_attempts [OF a] using add_ip_configs [of _ ?r1] by (auto simp: Let_def split: sum.splits)
    qed
    show ?thesis by (rule gathered_then [OF g new ips])
  qed
  show ?case
  proof (cases "ni = []")
    case True
    then show ?thesis using logs_weaken [OF Cons.IH gathered_skip] by simp
  next
    case False
    show ?thesis
      unfolding gather_nics.simps if_not_P [OF False] Let_def
    proof (rule logs_pbind [OF one k [unfolded Let_def]])
      show "gathered J (ni # nics) r (Inl e) n" for e n by (simp add: gathered_def)
    qed (rule step [unfolded Let_def], simp_all)
  qed
qed

lemma logs_conj: "logs R m P \<Longrightarrow> logs R m Q \<Longrightarrow> logs R m (\<lambda>r n. P r n \<and> Q r n)"
  unfolding logs_def by fastforce

definition vm_shows :: "string list \<times> string option \<Rightarrow> (string list \<times> string option) list" where
  "vm_shows c = (if take 2 (fst c) = [''vm'', ''show''] then [c] else [])"

lemma no_vm_show: "picks vm_shows n = [] \<Longrightarrow> (vm_show_args rg vmID, x) \<notin> set n"
  by (induction n) (auto simp: vm_shows_def vm_show_args_def split: if_splits)

lemma quiet_gather_nics:
  assumes "\<And>i x. f (nic_show_args i, x) = []"
  shows "quiet f R (gather_nics H J ctx nis r)"
proof (induction nis arbitrary: r)
  case (Cons ni nis)
  show ?case unfolding gather_nics.simps Let_def
    by (intro quiet_if quiet_pbind quiet_pwrap quiet_sum quiet_prod quiet_retried_by_runCLI assms Cons.IH)
qed (simp add: quiet_pret)

lemma gather_logs:
  "logs R (gatherVMResources H J ctx rg vmID) (\<lambda>q n. \<forall>assoc. q = Inr assoc \<longrightarrow>
     fst ` set (satellites assoc) \<subseteq> {x. az_attached J rg vmID n x}
     \<and> (\<forall>x. az_billed J rg vmID n x \<longrightarrow> x \<in> set (vr_publicIPs assoc) \<or> x = vr_osDiskID assoc \<and> x \<noteq> []))"
proof -
  let ?r0 = "\<lambda>disk. \<lparr>vr_osDiskID = disk, vr_nicIDs = [], vr_publicIPs = [], vr_nsgs = [], vr_vnets = []\<rparr>"
  let ?K = "\<lambda>p q n. gathered J (snd p) (?r0 (fst p)) q n \<and> picks vm_shows n = []"
  have nics: "logs R (case p of (disk, nics) \<Rightarrow> gather_nics H J ctx nics (?r0 disk)) (?K p)" for p
    by (cases p) (auto intro!: logs_conj gather_nics_logs quiet_logs quiet_gather_nics simp: vm_shows_def nic_show_args_def)
  have prof: "logs R (pwrap l (presult (aj_profile J raw))) (\<lambda>q n. n = [] \<and> (\<forall>p. q = Inr p \<longrightarrow> aj_profile J raw = Inr p))" for l raw
    by (rule logs_pwrap [OF logs_presult [where Q = "\<lambda>q n. n = [] \<and> (\<forall>p. q = Inr p \<longrightarrow> aj_profile J raw = Inr p)"]]) auto
  have k: "logs R (pbind (pwrap l (presult (aj_profile J raw))) (\<lambda>(disk, nics). gather_nics H J ctx nics (?r0 disk)))
      (\<lambda>q n. \<forall>assoc. q = Inr assoc \<longrightarrow> (\<exists>p. aj_profile J raw = Inr p \<and> ?K p q n))" for l raw
    by (rule logs_pbind [OF prof nics]) auto
  have sh: "logs R (retried H ctx ''az vm show'' (runCLI H ctx ''az'' (vm_show_args rg vmID))) (attempts (vm_show_args rg vmID))"
    by (rule logs_retried [OF logs_runCLI]) simp_all
  show ?thesis
    unfolding gatherVMResources_def
  proof (rule logs_pbind [OF sh k], goal_cases)
    case (2 raw n q n')
    show ?case
    proof (intro allI impI)
      fix assoc assume q: "q = Inr assoc"
      with 2(2) obtain disk nics where p: "aj_profile J raw = Inr (disk, nics)"
        and g: "gathered J nics (?r0 disk) q n'" and v: "picks vm_shows n' = []" by auto
      have n: "set n \<subseteq> {(vm_show_args rg vmID, None), (vm_show_args rg vmID, Some raw)}" "(vm_show_args rg vmID, Some raw) \<in> set (n @ n')"
        using 2(1) by (auto simp: attempts_def)
      have ips: "nic_ips J n = {}" using n(1) by (auto simp: nic_ips_def)
      have sat: "fst ` set (satellites assoc) \<subseteq> {disk} \<union> {x. nic_attached J nics (n @ n') x}"
      proof -
        have "fst ` set (satellites assoc) \<subseteq> {disk} \<union> {x. nic_attached J nics n' x}"
          using g q unfolding gathered_def satellites_set by auto
        moreover have "{x. nic_attached J nics n' x} \<subseteq> {x. nic_attached J nics (n @ n') x}" by (rule nic_attached_subset) auto
        ultimately show ?thesis by blast
      qed
      have disk: "x = disk" if "(vm_show_args rg vmID, Some out) \<in> set (n @ n')" "aj_profile J out = Inr (x, ns)" for out x ns
        using that n(1) no_vm_show [OF v] p by auto
      have at: "az_attached J rg vmID (n @ n') x" if "x = disk \<or> nic_attached J nics (n @ n') x" for x
        unfolding az_attached_def using p n(2) that by blast
      have r: "set (vr_publicIPs assoc) = nic_ips J (n @ n')" "vr_osDiskID assoc = disk"
        using g q ips by (simp_all add: gathered_def)
      have "x \<in> set (vr_publicIPs assoc) \<or> x = vr_osDiskID assoc \<and> x \<noteq> []" if "az_billed J rg vmID (n @ n') x" for x
        using that disk unfolding az_billed_def r by blast
      with sat at show "fst ` set (satellites assoc) \<subseteq> {x. az_attached J rg vmID (n @ n') x}
          \<and> (\<forall>x. az_billed J rg vmID (n @ n') x \<longrightarrow> x \<in> set (vr_publicIPs assoc) \<or> x = vr_osDiskID assoc \<and> x \<noteq> [])"
        by blast
    qed
  qed auto
qed

text \<open>
  C19: what success of the teardown of an Azure machine means. Either the enumeration of the machine
  failed with an error that names the machine and says that it was not found, and then nothing was deleted;
  or the machine was deleted, and after it the disk and every public address that the tool had reported
  for it, each with a call that succeeded.
\<close>

theorem azure_destroy_complete:
  assumes "destroyVMInRG H J ctx rg vmID w = (Inr (), w')"
  shows "\<exists>found new. pw_calls w' = pw_calls w @ found @ new \<and>
    (new = [] \<and> (\<exists>e. gatherVMResources H J ctx rg vmID w = (Inl e, w') \<and> isVMNotFound (Some e) vmID)
     \<or> (\<exists>out rest. new = (vm_delete_args rg vmID, Some out) # rest
          \<and> (\<forall>i. az_billed J rg vmID found i \<longrightarrow> (\<exists>out. (resource_delete i, Some out) \<in> set rest))))"
proof -
  obtain g w1 where gather: "gatherVMResources H J ctx rg vmID w = (g, w1)" by force
  from logsD [OF gather_logs gather refl] obtain found where found: "pw_calls w1 = pw_calls w @ found"
    "\<forall>assoc. g = Inr assoc \<longrightarrow> (\<forall>x. az_billed J rg vmID found x \<longrightarrow> x \<in> set (vr_publicIPs assoc) \<or> x = vr_osDiskID assoc \<and> x \<noteq> [])"
    by blast
  show ?thesis
  proof (cases g)
    case (Inl e)
    with assms gather have "w' = w1" "isVMNotFound (Some e) vmID"
      by (auto simp: destroyVMInRG_def pbind_def ptry_def pret_def pfail_def split: if_splits)
    with found gather Inl show ?thesis by auto
  next
    case (Inr assoc)
    obtain r2 w2 where del: "runCLI H ctx ''az'' (vm_delete_args rg vmID) w1 = (r2, w2)" by force
    have log: "\<exists>new. pw_calls w2 = pw_calls w1 @ new \<and> pw_region w2 = pw_region w1 \<and> new = [(vm_delete_args rg vmID, case r2 of Inl _ \<Rightarrow> None | Inr out \<Rightarrow> Some out)]"
      by (rule logsD [OF logs_runCLI del refl]) auto
    from assms gather Inr del obtain out where out: "r2 = Inr out" and rest: "deleteAssociatedResources H ctx assoc w2 = (Inr (), w')"
      by (auto simp: destroyVMInRG_def pbind_def ptry_def pwrap_def split: sum.splits)
    obtain r3 w3 where items: "delete_items H ctx (satellites assoc) w2 = (r3, w3)" by force
    from logsD [OF delete_items_logs items refl] obtain new leaked where
      new: "pw_calls w3 = pw_calls w2 @ new" "r3 = Inr leaked"
      "\<forall>i. (i, True) \<in> set (satellites assoc) \<longrightarrow> i \<in> set leaked \<or> (\<exists>out. (resource_delete i, Some out) \<in> set new)" by blast
    from rest items new(2) have "leaked = []" "w' = w3"
      by (auto simp: deleteAssociatedResources_def pbind_def pfail_def pret_def split: if_splits)
    moreover have "(i, True) \<in> set (satellites assoc)" if "az_billed J rg vmID found i" for i
      using found(2) Inr that by (auto simp: satellites_def)
    ultimately have "\<forall>i. az_billed J rg vmID found i \<longrightarrow> (\<exists>out. (resource_delete i, Some out) \<in> set new)" using new(3) by simp
    moreover have "pw_calls w' = pw_calls w @ found @ (vm_delete_args rg vmID, Some out) # new"
      using log out new(1) found(1) \<open>w' = w3\<close> by simp
    ultimately show ?thesis by blast
  qed
qed

section \<open>Examples\<close>

definition az_sku_ex :: "string \<Rightarrow> string \<Rightarrow> string list \<Rightarrow> az_sku" where
  "az_sku_ex name cpus why = \<lparr>sk_Name = name, sk_Caps = [(''vCPUs'', cpus)], sk_Restrictions = why\<rparr>"

definition az_json_ex :: az_json where
  "az_json_ex = \<lparr>aj_created = (\<lambda>_. Inl ''eof''), aj_show = (\<lambda>_. Inl ''eof''), aj_profile = (\<lambda>_. Inr (''disk'', [''nic/vmVMNic''])),
     aj_nic = (\<lambda>_. Inr ([(''ip'', [])], [])),
     aj_skus = (\<lambda>_. Inr [az_sku_ex ''Standard_B2s'' ''2'' [''NotAvailableForSubscription''], az_sku_ex ''Standard_NC4'' ''4'' [],
       az_sku_ex ''Standard_D4s'' ''4'' [], az_sku_ex ''Standard_D2s'' ''2'' []]),
     aj_vms = (\<lambda>_. Inr []), aj_items = (\<lambda>_. Inr []), aj_float = (\<lambda>_. (0, True))\<rparr>"

text \<open>Azure without the interface of the machine, which is still there.\<close>

definition az_nic_gone :: "string list \<Rightarrow> string \<times> cli_err option" where
  "az_nic_gone args =
     (if take 3 args = [''network'', ''nic'', ''show'']
      then ([], Some ((plain_err ''exit status 3'')\<lparr>er_Stderr := ''networkInterfaces/vmVMNic was not found''\<rparr>))
      else ([], None))"

theorem azure_substitute_adequate_witness:
  "fst (firstAvailableAzureSKU (host_ex 0 (\<lambda>_. ([], None))) az_json_ex False ''eastus'' ''Standard_B2s'' (world_ex ''eastus'')) = Inr ''Standard_D2s''
   \<and> (\<exists>skus. aj_skus az_json_ex [] = Inr skus \<and> (\<exists>s \<in> set skus. sk_Name s = ''Standard_D2s''
        \<and> (\<forall>s' \<in> set skus. adequate az_json_ex (sku_minimum az_json_ex ''Standard_B2s'' skus (1, lit 0)) s' \<longrightarrow> sku_vcpus s \<le> sku_vcpus s')))"
proof -
  let ?run = "firstAvailableAzureSKU (host_ex 0 (\<lambda>_. ([], None))) az_json_ex False ''eastus'' ''Standard_B2s'' (world_ex ''eastus'')"
  have best: "fst ?run = Inr ''Standard_D2s''" by code_simp
  then have run: "?run = (Inr ''Standard_D2s'', snd ?run)" by (metis prod.collapse)
  have "aj_skus az_json_ex out = aj_skus az_json_ex []" for out by (simp add: az_json_ex_def)
  with azure_substitute_adequate [OF run] best show ?thesis by metis
qed

lemmas azure_steps = azure_DestroyVM_def destroyVMInRG_def gatherVMResources_def vm_show_args_def nic_show_args_def az_json_ex_def az_nic_gone_def add_ip_config_def
  deleteAssociatedResources_def satellites_def resource_delete_def vm_delete_args_def

theorem azure_destroy_complete_witness:
  "\<exists>calls. pw_calls (snd (destroyVMInRG (host_ex 0 (\<lambda>_. ([], None))) az_json_ex False ''rg'' ''vm'' (world_ex ''eastus''))) = calls
     \<and> (\<exists>out. (vm_delete_args ''rg'' ''vm'', Some out) \<in> set calls) \<and> (\<exists>out. (resource_delete ''ip'', Some out) \<in> set calls)
     \<and> (\<exists>out. (resource_delete ''disk'', Some out) \<in> set calls)"
proof -
  let ?H = "host_ex 0 (\<lambda>_. ([], None))" and ?w = "world_ex ''eastus''"
  let ?g = "gatherVMResources ?H az_json_ex False ''rg'' ''vm'' ?w" and ?d = "destroyVMInRG ?H az_json_ex False ''rg'' ''vm'' ?w"
  have g: "\<not> isl (fst ?g)" by (simp add: azure_steps run_steps cong: pbind_lazy)
  have "fst ?d = Inr ()" by (simp add: azure_steps run_steps cong: pbind_lazy)
  then have d: "?d = (Inr (), snd ?d)" by (metis prod.collapse)
  from azure_destroy_complete [OF d] g obtain found out rest where
    new: "pw_calls (snd ?d) = found @ (vm_delete_args ''rg'' ''vm'', Some out) # rest"
    and all: "\<forall>i. az_billed az_json_ex ''rg'' ''vm'' found i \<longrightarrow> (\<exists>out. (resource_delete i, Some out) \<in> set rest)"
    by (auto simp: world_calls)
  have "pw_calls (snd ?d) = [(vm_show_args ''rg'' ''vm'', Some []), (nic_show_args ''nic/vmVMNic'', Some []), (vm_delete_args ''rg'' ''vm'', Some []),
      (resource_delete ''nic/vmVMNic'', Some []), (resource_delete ''ip'', Some []), (resource_delete ''disk'', Some [])]"
    by (simp add: azure_steps run_steps world_calls cong: pbind_lazy)
  from this [unfolded new] have "found = [(vm_show_args ''rg'' ''vm'', Some []), (nic_show_args ''nic/vmVMNic'', Some [])]"
    by (auto simp: append_eq_Cons_conv vm_show_args_def nic_show_args_def vm_delete_args_def resource_delete_def)
  then have "az_billed az_json_ex ''rg'' ''vm'' found ''ip''" "az_billed az_json_ex ''rg'' ''vm'' found ''disk''"
    by (auto simp: az_billed_def nic_ips_def az_json_ex_def)
  with all new show ?thesis by auto
qed

lemma az_nic_gone_run:
  "case azure_DestroyVM (host_ex 0 az_nic_gone) az_json_ex ''rg'' False ''vm'' (world_ex ''eastus'') of
     (r, w') \<Rightarrow> r = Inr () \<and> list_all (\<lambda>args. take 2 args \<noteq> [''vm'', ''delete'']) (cmds (pw_calls w'))"
  by code_simp

text \<open>
  A machine with an interface that no longer exists is reported as destroyed while its deletion was never asked for.
\<close>

theorem azure_missing_nic_keeps_machine:
  "fst (azure_DestroyVM (host_ex 0 az_nic_gone) az_json_ex ''rg'' False ''vm'' (world_ex ''eastus'')) = Inr ()
   \<and> list_all (\<lambda>args. take 2 args \<noteq> [''vm'', ''delete''])
       (cmds (pw_calls (snd (azure_DestroyVM (host_ex 0 az_nic_gone) az_json_ex ''rg'' False ''vm'' (world_ex ''eastus'')))))"
  using az_nic_gone_run by (simp add: case_prod_unfold)

end
