(* ===== verification/Cloud_Resources.thy ===== *)
theory Cloud_Resources
  imports Resource_Gc Cloud_Aws Cloud_Hetzner Cloud_Gcp Cloud_Azure
begin

text \<open>
  What an account holds, and removing it (\<^verbatim>\<open>internal/cloudvm/aws_resources.go\<close>, \<^verbatim>\<open>hetzner_resources.go\<close>,
  \<^verbatim>\<open>gcp_resources.go\<close>; Azure's is in \<^verbatim>\<open>Cloud_Azure\<close>): listing every kind of resource that costs money or that the
  dispatcher creates, and deleting one. A locale states what garbage collection relies on, and shows once for all
  providers what a garbage collection runs on an account. What a tool prints is decoded by an argument.
\<close>

section \<open>Listing one kind\<close>

definition mk_resource ::
  "provider_id \<Rightarrow> resource_kind \<Rightarrow> string \<Rightarrow> string \<Rightarrow> string \<Rightarrow> (string \<rightharpoonup> string) \<Rightarrow> f64 \<Rightarrow> resource_info" where
  "mk_resource p kind i region itype tags monthly =
     \<lparr>ri_ResourceID = i, ri_Provider = provider_string p, ri_Kind = kind, ri_Region = region, ri_InstanceType = itype,
      ri_CreatedAt = 0, ri_RunID = env_value tags ''dispatcher-run-id'', ri_Tags = tags, ri_Scope = [], ri_MonthlyUSD = monthly\<rparr>"

definition listed ::
  "'c cli_host \<Rightarrow> bool \<Rightarrow> string \<Rightarrow> string list \<Rightarrow> string \<Rightarrow> (string \<Rightarrow> 'i result) \<Rightarrow> ('i \<Rightarrow> resource_info list) \<Rightarrow> ('c, resource_info list) pm" where
  "listed H ctx bin args what dec f =
     pbind (runCLI H ctx bin args) (\<lambda>out.
     pbind (pwrap (''parse '' @ what) (presult (dec out))) (\<lambda>xs. pret (f xs)))"

text \<open>The list of machines; its failure carries the label of the command.\<close>

definition listed_machines ::
  "'c cli_host \<Rightarrow> bool \<Rightarrow> string \<Rightarrow> string list \<Rightarrow> (cli_err \<Rightarrow> cli_err) \<Rightarrow> string \<Rightarrow> (string \<Rightarrow> 'i result) \<Rightarrow> ('i \<Rightarrow> resource_info list) \<Rightarrow> ('c, resource_info list) pm" where
  "listed_machines H ctx bin args label what dec f =
     pbind (ptry (runCLI H ctx bin args)) (\<lambda>r.
       case r of
         Inl e \<Rightarrow> pfail (label e)
       | Inr out \<Rightarrow> pbind (pwrap (''parse '' @ what) (presult (dec out))) (\<lambda>xs. pret (f xs)))"

text \<open>Deleting: the resource must be the dispatcher's own and safe on a command line.\<close>

definition refuse :: "string \<Rightarrow> ('c, unit) pm" where
  "refuse t = pfail (plain_err t)"

definition not_owned :: "resource_info \<Rightarrow> string" where
  "not_owned res = ''refusing to destroy '' @ resource_kind_string (ri_Kind res) @ '' '' @ go_quote (ri_ResourceID res) @ '': not dispatcher-owned''"

definition run_delete :: "'c cli_host \<Rightarrow> bool \<Rightarrow> string \<Rightarrow> string \<Rightarrow> string list \<Rightarrow> ('c, unit) pm" where
  "run_delete H ctx bin label args = pbind (pwrap label (runCLI H ctx bin args)) (\<lambda>_. pret ())"

section \<open>AWS\<close>

definition awsSnapshotRatePerGBMonth :: f64 where "awsSnapshotRatePerGBMonth = lit (5 / 100)"

definition awsEIPMonthlyUnassociated :: f64 where "awsEIPMonthlyUnassociated = lit (365 / 100)"

definition awsEBSRatePerGBMonth :: "string \<Rightarrow> f64" where
  "awsEBSRatePerGBMonth t =
     (if t = ''gp3'' then lit (80 / 1000)
      else if t = ''gp2'' then lit (100 / 1000)
      else if t = ''io1'' \<or> t = ''io2'' then lit (125 / 1000)
      else if t = ''st1'' then lit (45 / 1000)
      else if t = ''sc1'' then lit (15 / 1000)
      else if t = ''standard'' then lit (50 / 1000)
      else lit (100 / 1000))"

definition awsTagsToMap :: "(string \<times> string) list \<Rightarrow> (string \<rightharpoonup> string)" where
  "awsTagsToMap tags = foldl (\<lambda>m (k, v). m(k \<mapsto> v)) Map.empty tags"

record aws_item =
  wi_Id :: string
  wi_Type :: string
  wi_State :: string
  wi_Size :: int
  wi_Association :: string
  wi_Tags :: "(string \<times> string) list"

record aws_res_json =
  wr_regions :: "string \<Rightarrow> string list result"
  wr_instances :: "string \<Rightarrow> aws_item list list result"
  wr_volumes :: "string \<Rightarrow> aws_item list result"
  wr_snapshots :: "string \<Rightarrow> aws_item list result"
  wr_addresses :: "string \<Rightarrow> aws_item list result"
  wr_groups :: "string \<Rightarrow> aws_item list result"

definition aws_instance_resource :: "string \<Rightarrow> aws_item \<Rightarrow> resource_info" where
  "aws_instance_resource region i =
     mk_resource ProviderAWS ResourceInstance (wi_Id i) region (wi_Type i) (awsTagsToMap (wi_Tags i))
       (if wi_State i \<noteq> ''stopped'' then PriceByName NewCatalog ProviderAWS (wi_Type i) * gcpMonthlyHours else 0)"

definition aws_listInstanceResources :: "'c cli_host \<Rightarrow> aws_res_json \<Rightarrow> bool \<Rightarrow> string \<Rightarrow> ('c, resource_info list) pm" where
  "aws_listInstanceResources H J ctx region =
     listed_machines H ctx ''aws'' [''ec2'', ''describe-instances'', ''--region'', region, ''--output'', ''json'']
       (wrapExecError ''aws ec2 describe-instances'') ''aws instances'' (wr_instances J)
       (\<lambda>rs. map (aws_instance_resource region) (filter (\<lambda>i. wi_State i \<noteq> ''terminated'' \<and> wi_State i \<noteq> ''shutting-down'') (concat rs)))"

definition aws_listVolumeResources :: "'c cli_host \<Rightarrow> aws_res_json \<Rightarrow> bool \<Rightarrow> string \<Rightarrow> ('c, resource_info list) pm" where
  "aws_listVolumeResources H J ctx region =
     listed H ctx ''aws'' [''ec2'', ''describe-volumes'', ''--region'', region, ''--output'', ''json''] ''aws volumes'' (wr_volumes J)
       (map (\<lambda>v. mk_resource ProviderAWS ResourceDisk (wi_Id v) region [] (awsTagsToMap (wi_Tags v))
          (f64_of_int (wi_Size v) * awsEBSRatePerGBMonth (wi_Type v))))"

definition aws_listSnapshotResources :: "'c cli_host \<Rightarrow> aws_res_json \<Rightarrow> bool \<Rightarrow> string \<Rightarrow> ('c, resource_info list) pm" where
  "aws_listSnapshotResources H J ctx region =
     listed H ctx ''aws'' [''ec2'', ''describe-snapshots'', ''--owner-ids'', ''self'', ''--region'', region, ''--output'', ''json'']
       ''aws snapshots'' (wr_snapshots J)
       (map (\<lambda>s. mk_resource ProviderAWS ResourceSnapshot (wi_Id s) region [] (awsTagsToMap (wi_Tags s))
          (f64_of_int (wi_Size s) * awsSnapshotRatePerGBMonth)))"

definition aws_listAddressResources :: "'c cli_host \<Rightarrow> aws_res_json \<Rightarrow> bool \<Rightarrow> string \<Rightarrow> ('c, resource_info list) pm" where
  "aws_listAddressResources H J ctx region =
     listed H ctx ''aws'' [''ec2'', ''describe-addresses'', ''--region'', region, ''--output'', ''json''] ''aws addresses'' (wr_addresses J)
       (map (\<lambda>a. mk_resource ProviderAWS ResourceAddress (wi_Id a) region [] (awsTagsToMap (wi_Tags a))
          (if wi_Association a = [] then awsEIPMonthlyUnassociated else 0)))"

definition listSecurityGroupResources :: "'c cli_host \<Rightarrow> aws_res_json \<Rightarrow> bool \<Rightarrow> string \<Rightarrow> ('c, resource_info list) pm" where
  "listSecurityGroupResources H J ctx region =
     listed H ctx ''aws'' [''ec2'', ''describe-security-groups'', ''--region'', region,
         ''--filters'', ''Name=tag:dispatcher,Values=true'', ''--output'', ''json''] ''aws security groups'' (wr_groups J)
       (map (\<lambda>g. mk_resource ProviderAWS ResourceFirewall (wi_Id g) region [] (awsTagsToMap (wi_Tags g)) 0))"

definition listRegionResources :: "'c cli_host \<Rightarrow> aws_res_json \<Rightarrow> bool \<Rightarrow> string \<Rightarrow> ('c, resource_info list) pm" where
  "listRegionResources H J ctx region =
     pbind (aws_listInstanceResources H J ctx region)
       (best_effort [aws_listVolumeResources H J ctx region, aws_listSnapshotResources H J ctx region,
          aws_listAddressResources H J ctx region, listSecurityGroupResources H J ctx region])"

definition enabledRegions :: "'c cli_host \<Rightarrow> aws_res_json \<Rightarrow> bool \<Rightarrow> ('c, string list) pm" where
  "enabledRegions H J ctx =
     pbind (ptry (runCLI H ctx ''aws'' [''ec2'', ''describe-regions'', ''--query'', ''Regions[].RegionName'', ''--output'', ''json''])) (\<lambda>r.
     pbind (pgets pw_region) (\<lambda>own.
       case r of
         Inl _ \<Rightarrow> pret [own]
       | Inr out \<Rightarrow> (case wr_regions J out of Inl _ \<Rightarrow> pret [own] | Inr rs \<Rightarrow> pret (if rs = [] then [own] else rs))))"

text \<open>
  The regions are swept by one goroutine each; their results arrive in any order. As the host may answer
  anything at any time, it is enough to let the sweeps follow each other in that order, which is given by
  the position of the next arrival among the regions that are still out.
\<close>

fun arrival_order :: "nat list \<Rightarrow> 'a list \<Rightarrow> 'a list" where
  "arrival_order ks [] = []"
| "arrival_order [] (x # xs) = x # xs"
| "arrival_order (k # ks) (x # xs) =
     (let i = k mod Suc (length xs) in (x # xs) ! i # arrival_order ks (take i (x # xs) @ drop (Suc i) (x # xs)))"

lemma mset_arrival_order [simp]: "mset (arrival_order ks xs) = mset xs"
proof (induction ks xs rule: arrival_order.induct)
  case (3 k ks x xs)
  let ?i = "k mod Suc (length xs)"
  have "?i < length (x # xs)" by simp
  then have "mset (x # xs) = add_mset ((x # xs) ! ?i) (mset (take ?i (x # xs) @ drop (Suc ?i) (x # xs)))"
    by (metis add_mset_add_single append_take_drop_id Cons_nth_drop_Suc mset.simps(2) mset_append union_mset_add_mset_right)
  with 3 [OF refl] show ?case by (simp add: Let_def)
qed simp_all

lemma arrival_order_simps [simp]:
  "set (arrival_order ks xs) = set xs" "length (arrival_order ks xs) = length xs"
  by (metis mset_arrival_order set_mset_mset, metis mset_arrival_order size_mset)

text \<open>Every order of arrival is one of these.\<close>

lemma arrival_order_complete: "mset ys = mset xs \<Longrightarrow> \<exists>ks. arrival_order ks xs = ys"
proof (induction ys arbitrary: xs)
  case Nil
  then show ?case by auto
next
  case (Cons y ys)
  then have "y \<in> set xs" by (metis list.set_intros(1) set_mset_mset)
  then obtain as bs where xs: "xs = as @ y # bs" by (metis split_list)
  with Cons.prems have "mset ys = mset (as @ bs)" by simp
  from Cons.IH [OF this] obtain ks where ks: "arrival_order ks (as @ bs) = ys" by blast
  obtain z zs where zs: "xs = z # zs" using xs by (metis append_is_Nil_conv list.exhaust)
  have "length (z # zs) = length (as @ y # bs)" using xs zs by simp
  then have i: "length as mod Suc (length zs) = length as" by simp
  have x: "(z # zs) ! length as = y" "take (length as) (z # zs) @ drop (Suc (length as)) (z # zs) = as @ bs"
    unfolding zs [symmetric] xs by simp_all
  have "arrival_order (length as # ks) xs = y # ys"
    unfolding zs by (simp only: arrival_order.simps Let_def i x ks)
  then show ?case by blast
qed

primrec sweep_regions ::
  "'c cli_host \<Rightarrow> aws_res_json \<Rightarrow> bool \<Rightarrow> string list \<Rightarrow> resource_info list \<times> nat \<Rightarrow> ('c, resource_info list \<times> nat) pm" where
  "sweep_regions H J ctx [] acc = pret acc"
| "sweep_regions H J ctx (r # rs) acc =
     pbind (ptry (listRegionResources H J ctx r)) (\<lambda>x.
       sweep_regions H J ctx rs (case x of Inl _ \<Rightarrow> (fst acc, Suc (snd acc)) | Inr res \<Rightarrow> (fst acc @ res, snd acc)))"

definition aws_ListResources ::
  "'c cli_host \<Rightarrow> aws_res_json \<Rightarrow> nat list \<Rightarrow> bool \<Rightarrow> ('c, resource_info list) pm" where
  "aws_ListResources H J order ctx =
     pbind (enabledRegions H J ctx) (\<lambda>regions.
     pbind (sweep_regions H J ctx (arrival_order order regions) ([], 0)) (\<lambda>(found, errored).
       if errored = length regions
       then pfail (plain_err (''aws: could not enumerate resources in any of '' @ show_int (int (length regions)) @ '' region(s)''))
       else pret found))"

definition aws_delete_args :: "resource_kind \<Rightarrow> string \<Rightarrow> string \<Rightarrow> string list option" where
  "aws_delete_args kind region i =
     (case kind of
        ResourceInstance \<Rightarrow> Some [''ec2'', ''terminate-instances'', ''--region'', region, ''--instance-ids'', i]
      | ResourceDisk \<Rightarrow> Some [''ec2'', ''delete-volume'', ''--region'', region, ''--volume-id'', i]
      | ResourceSnapshot \<Rightarrow> Some [''ec2'', ''delete-snapshot'', ''--region'', region, ''--snapshot-id'', i]
      | ResourceAddress \<Rightarrow> Some [''ec2'', ''release-address'', ''--region'', region, ''--allocation-id'', i]
      | ResourceFirewall \<Rightarrow> Some [''ec2'', ''delete-security-group'', ''--region'', region, ''--group-id'', i]
      | _ \<Rightarrow> None)"

definition aws_DestroyResource :: "'c cli_host \<Rightarrow> bool \<Rightarrow> resource_info \<Rightarrow> ('c, unit) pm" where
  "aws_DestroyResource H ctx res =
     (if \<not> DispatcherOwned res then refuse (not_owned res)
      else
        pbind (pgets (\<lambda>w. if ri_Region res = [] then pw_region w else ri_Region res)) (\<lambda>region.
          if \<not> destroyArgsSafe (ri_ResourceID res) region
          then refuse (''aws: refusing to destroy '' @ go_quote (ri_ResourceID res) @ '': unsafe resource id or region'')
          else case aws_delete_args (ri_Kind res) region (ri_ResourceID res) of
                 None \<Rightarrow> refuse (''aws: cannot destroy resource of kind '' @ go_quote (resource_kind_string (ri_Kind res)))
               | Some args \<Rightarrow> run_delete H ctx ''aws'' (''aws '' @ resource_kind_string (ri_Kind res) @ '' delete failed'') args))"

section \<open>Hetzner\<close>

definition hetznerVolumeRatePerGBMonth :: f64 where "hetznerVolumeRatePerGBMonth = lit (5 / 100)"

definition hetznerSnapshotRatePerGBMonth :: f64 where "hetznerSnapshotRatePerGBMonth = lit (13 / 1000)"

definition hetznerPrimaryIPMonthly :: f64 where "hetznerPrimaryIPMonthly = lit (6 / 10)"

definition hetznerFloatingIPMonthly :: f64 where "hetznerFloatingIPMonthly = lit (13 / 10)"

definition hetznerIPKindTag :: string where "hetznerIPKindTag = ''_hcloud-ip-kind''"

definition mergeTag :: "(string \<rightharpoonup> string) \<Rightarrow> string \<Rightarrow> string \<Rightarrow> (string \<rightharpoonup> string)" where
  "mergeTag labels k v = labels(k \<mapsto> v)"

record hz_item =
  hi_ID :: int
  hi_Type :: string
  hi_Size :: int
  hi_ImageSize :: f64
  hi_Labels :: "string \<rightharpoonup> string"

type_synonym hz_res_json = "string \<Rightarrow> hz_item list result"

definition hz_listed ::
  "'c cli_host \<Rightarrow> hz_res_json \<Rightarrow> bool \<Rightarrow> string list \<Rightarrow> string \<Rightarrow> resource_kind \<Rightarrow> (hz_item \<Rightarrow> (string \<rightharpoonup> string)) \<Rightarrow> (hz_item \<Rightarrow> f64) \<Rightarrow> ('c, resource_info list) pm" where
  "hz_listed H J ctx args what kind tags monthly =
     listed H ctx ''hcloud'' args (''hcloud '' @ what) J
       (map (\<lambda>x. mk_resource ProviderHetzner kind (show_int (hi_ID x)) [] [] (tags x) (monthly x)))"

definition listServerResources :: "'c cli_host \<Rightarrow> hz_res_json \<Rightarrow> bool \<Rightarrow> ('c, resource_info list) pm" where
  "listServerResources H J ctx =
     listed_machines H ctx ''hcloud'' [''server'', ''list'', ''-o'', ''json''] (err_label ''hcloud server list'') ''hcloud servers'' J
       (map (\<lambda>s. mk_resource ProviderHetzner ResourceInstance (show_int (hi_ID s)) [] (hi_Type s) (hi_Labels s)
          (PriceByName NewCatalog ProviderHetzner (hi_Type s) * gcpMonthlyHours)))"

definition hz_listVolumeResources :: "'c cli_host \<Rightarrow> hz_res_json \<Rightarrow> bool \<Rightarrow> ('c, resource_info list) pm" where
  "hz_listVolumeResources H J ctx =
     hz_listed H J ctx [''volume'', ''list'', ''-o'', ''json''] ''volumes'' ResourceDisk hi_Labels
       (\<lambda>v. f64_of_int (hi_Size v) * hetznerVolumeRatePerGBMonth)"

definition listPrimaryIPResources :: "'c cli_host \<Rightarrow> hz_res_json \<Rightarrow> bool \<Rightarrow> ('c, resource_info list) pm" where
  "listPrimaryIPResources H J ctx =
     hz_listed H J ctx [''primary-ip'', ''list'', ''-o'', ''json''] ''primary ips'' ResourceAddress
       (\<lambda>x. mergeTag (hi_Labels x) hetznerIPKindTag ''primary-ip'') (\<lambda>_. hetznerPrimaryIPMonthly)"

definition listFloatingIPResources :: "'c cli_host \<Rightarrow> hz_res_json \<Rightarrow> bool \<Rightarrow> ('c, resource_info list) pm" where
  "listFloatingIPResources H J ctx =
     hz_listed H J ctx [''floating-ip'', ''list'', ''-o'', ''json''] ''floating ips'' ResourceAddress
       (\<lambda>x. mergeTag (hi_Labels x) hetznerIPKindTag ''floating-ip'') (\<lambda>_. hetznerFloatingIPMonthly)"

definition hz_listSnapshotResources :: "'c cli_host \<Rightarrow> hz_res_json \<Rightarrow> bool \<Rightarrow> ('c, resource_info list) pm" where
  "hz_listSnapshotResources H J ctx =
     hz_listed H J ctx [''image'', ''list'', ''--type'', ''snapshot'', ''-o'', ''json''] ''snapshots'' ResourceSnapshot hi_Labels
       (\<lambda>x. hi_ImageSize x * hetznerSnapshotRatePerGBMonth)"

definition hz_listFirewallResources :: "'c cli_host \<Rightarrow> hz_res_json \<Rightarrow> bool \<Rightarrow> ('c, resource_info list) pm" where
  "hz_listFirewallResources H J ctx =
     hz_listed H J ctx [''firewall'', ''list'', ''--selector'', ''dispatcher=true'', ''-o'', ''json''] ''firewalls'' ResourceFirewall hi_Labels (\<lambda>_. 0)"

definition hetzner_ListResources :: "'c cli_host \<Rightarrow> hz_res_json \<Rightarrow> bool \<Rightarrow> ('c, resource_info list) pm" where
  "hetzner_ListResources H J ctx =
     pbind (listServerResources H J ctx)
       (best_effort [hz_listVolumeResources H J ctx, listPrimaryIPResources H J ctx, listFloatingIPResources H J ctx,
          hz_listSnapshotResources H J ctx, hz_listFirewallResources H J ctx])"

definition hetzner_DestroyResource :: "'c cli_host \<Rightarrow> hetzner_json \<Rightarrow> bool \<Rightarrow> resource_info \<Rightarrow> ('c, unit) pm" where
  "hetzner_DestroyResource H J ctx res =
     (let del = (\<lambda>noun. run_delete H ctx ''hcloud'' (''hcloud '' @ resource_kind_string (ri_Kind res) @ '' delete failed'') [noun, ''delete'', ri_ResourceID res])
      in if \<not> DispatcherOwned res then refuse (not_owned res)
         else if \<not> destroyArgsSafe (ri_ResourceID res) []
         then refuse (''hetzner: refusing to destroy '' @ go_quote (ri_ResourceID res) @ '': unsafe resource id'')
         else case ri_Kind res of
                ResourceInstance \<Rightarrow> hetzner_DestroyVM H J ctx (ri_ResourceID res)
              | ResourceDisk \<Rightarrow> del ''volume''
              | ResourceSnapshot \<Rightarrow> del ''image''
              | ResourceFirewall \<Rightarrow> del ''firewall''
              | ResourceAddress \<Rightarrow>
                  (let verb = env_value (ri_Tags res) hetznerIPKindTag in del (if verb = [] then ''primary-ip'' else verb))
              | k \<Rightarrow> refuse (''hetzner: cannot destroy resource of kind '' @ go_quote (resource_kind_string k)))"

section \<open>Google\<close>

definition gcpImageRatePerGBMonth :: f64 where "gcpImageRatePerGBMonth = lit (50 / 1000)"

definition gcpSnapshotRatePerGBMonth :: f64 where "gcpSnapshotRatePerGBMonth = lit (26 / 1000)"

definition gcpAddressMonthlyReserved :: f64 where "gcpAddressMonthlyReserved = lit (73 / 10)"

definition gcpArtifactRegistryRatePerGBMonth :: f64 where "gcpArtifactRegistryRatePerGBMonth = lit (10 / 100)"

definition gcpDiskRatePerGBMonth :: "string \<Rightarrow> f64" where
  "gcpDiskRatePerGBMonth t =
     (if t = ''pd-standard'' then lit (40 / 1000)
      else if t = ''pd-balanced'' then lit (100 / 1000)
      else if t = ''pd-ssd'' then lit (170 / 1000)
      else if t = ''pd-extreme'' then lit (125 / 1000)
      else if t = ''hyperdisk-balanced'' then lit (81 / 1000)
      else lit (100 / 1000))"

definition gcpScopeTag :: string where "gcpScopeTag = ''_gcp-scope''"

definition dispatcherFirewallPrefix :: string where "dispatcherFirewallPrefix = ''dispatcher-fw-''"

definition gcpBytesToGiB :: "f64 \<Rightarrow> f64" where
  "gcpBytesToGiB b = f64_div b (lit (1024 * 1024 * 1024))"

record gcp_item =
  gx_Name :: string
  gx_Type :: string
  gx_Status :: string
  gx_Zone :: string
  gx_Region :: string
  gx_Bytes :: string
  gx_Description :: string
  gx_Labels :: "string \<rightharpoonup> string"

text \<open>
  Decoding of a list and of the list of projects, and \<^verbatim>\<open>strconv.ParseFloat\<close>, whose value is used whether or not
  it reports an error. \<open>gx_Bytes\<close> is the size a resource is billed by, in the unit of its kind.
\<close>

record gcp_res_json =
  gr_items :: "string \<Rightarrow> gcp_item list result"
  gr_projects :: "string \<Rightarrow> string list result"
  gr_float :: "string \<Rightarrow> f64"

definition listArgs :: "string \<Rightarrow> string \<Rightarrow> string list \<Rightarrow> string list" where
  "listArgs project kind extra = [''compute'', kind, ''list''] @ extra @ [''--format'', ''json''] @ project_args project"

definition gcp_listInstanceResources :: "'c cli_host \<Rightarrow> gcp_res_json \<Rightarrow> string \<Rightarrow> bool \<Rightarrow> ('c, resource_info list) pm" where
  "gcp_listInstanceResources H J project ctx =
     listed_machines H ctx ''gcloud'' (listArgs project ''instances'' []) (wrapExecError ''gcloud compute instances list'') ''gcp instances'' (gr_items J)
       (\<lambda>is. map (\<lambda>i. let machineType = last_segment (gx_Type i)
          in mk_resource ProviderGCP ResourceInstance (gx_Name i) (last_segment (gx_Zone i)) machineType (gx_Labels i)
               (PriceByName NewCatalog ProviderGCP machineType * gcpMonthlyHours)) (filter (\<lambda>i. gx_Status i \<noteq> ''TERMINATED'') is))"

definition gcp_disk_resource :: "gcp_res_json \<Rightarrow> gcp_item \<Rightarrow> resource_info" where
  "gcp_disk_resource J d =
     (let zone = last_segment (gx_Zone d);
          (loc, scope) = (if zone = [] \<and> gx_Region d \<noteq> [] then (last_segment (gx_Region d), ''regional'') else (zone, ''zonal''))
      in mk_resource ProviderGCP ResourceDisk (gx_Name d) loc [] (mergeTag (gx_Labels d) gcpScopeTag scope)
           (gr_float J (gx_Bytes d) * gcpDiskRatePerGBMonth (last_segment (gx_Type d))))"

definition gcp_listDiskResources :: "'c cli_host \<Rightarrow> gcp_res_json \<Rightarrow> string \<Rightarrow> bool \<Rightarrow> ('c, resource_info list) pm" where
  "gcp_listDiskResources H J project ctx =
     listed H ctx ''gcloud'' (listArgs project ''disks'' []) ''gcp disks'' (gr_items J) (map (gcp_disk_resource J))"

definition gcp_listImageResources :: "'c cli_host \<Rightarrow> gcp_res_json \<Rightarrow> string \<Rightarrow> bool \<Rightarrow> ('c, resource_info list) pm" where
  "gcp_listImageResources H J project ctx =
     listed H ctx ''gcloud'' (listArgs project ''images'' [''--no-standard-images'']) ''gcp images'' (gr_items J)
       (map (\<lambda>i. mk_resource ProviderGCP ResourceImage (gx_Name i) [] [] (gx_Labels i) (gcpBytesToGiB (gr_float J (gx_Bytes i)) * gcpImageRatePerGBMonth)))"

definition gcp_listSnapshotResources :: "'c cli_host \<Rightarrow> gcp_res_json \<Rightarrow> string \<Rightarrow> bool \<Rightarrow> ('c, resource_info list) pm" where
  "gcp_listSnapshotResources H J project ctx =
     listed H ctx ''gcloud'' (listArgs project ''snapshots'' []) ''gcp snapshots'' (gr_items J)
       (map (\<lambda>i. mk_resource ProviderGCP ResourceSnapshot (gx_Name i) [] [] (gx_Labels i) (gcpBytesToGiB (gr_float J (gx_Bytes i)) * gcpSnapshotRatePerGBMonth)))"

definition gcp_address_resource :: "gcp_item \<Rightarrow> resource_info" where
  "gcp_address_resource a =
     (let loc = last_segment (gx_Region a)
      in mk_resource ProviderGCP ResourceAddress (gx_Name a) loc [] (mergeTag (gx_Labels a) gcpScopeTag (if loc = [] then ''global'' else ''regional''))
           (if gx_Status a = ''RESERVED'' then gcpAddressMonthlyReserved else 0))"

definition gcp_listAddressResources :: "'c cli_host \<Rightarrow> gcp_res_json \<Rightarrow> string \<Rightarrow> bool \<Rightarrow> ('c, resource_info list) pm" where
  "gcp_listAddressResources H J project ctx =
     listed H ctx ''gcloud'' (listArgs project ''addresses'' []) ''gcp addresses'' (gr_items J) (map gcp_address_resource)"

text \<open>What follows the first occurrence of a marker.\<close>

fun after_marker :: "string \<Rightarrow> string \<Rightarrow> string option" where
  "after_marker m [] = (if m = [] then Some [] else None)"
| "after_marker m (c # s) = (if strings_HasPrefix (c # s) m then Some (drop (length m) (c # s)) else after_marker m s)"

definition gcp_firewall_resource :: "gcp_item \<Rightarrow> resource_info" where
  "gcp_firewall_resource r =
     (let runID = (case after_marker firewallRunIDMarker (gx_Description r) of None \<Rightarrow> [] | Some rest \<Rightarrow> strings_TrimSpace rest)
      in mk_resource ProviderGCP ResourceFirewall (gx_Name r) [] [] [''dispatcher'' \<mapsto> ''true'', ''dispatcher-run-id'' \<mapsto> runID] 0)"

definition gcp_listFirewallResources :: "'c cli_host \<Rightarrow> gcp_res_json \<Rightarrow> string \<Rightarrow> bool \<Rightarrow> ('c, resource_info list) pm" where
  "gcp_listFirewallResources H J project ctx =
     listed H ctx ''gcloud'' (listArgs project ''firewall-rules'' []) ''gcp firewall-rules'' (gr_items J)
       (\<lambda>rs. map gcp_firewall_resource (filter (\<lambda>r. strings_HasPrefix (gx_Name r) dispatcherFirewallPrefix) rs))"

fun after_locations :: "string list \<Rightarrow> string" where
  "after_locations (p # q # ps) = (if p = ''locations'' then q else after_locations (q # ps))"
| "after_locations _ = []"

definition gcpArtifactRegistryLocation :: "string \<Rightarrow> string" where
  "gcpArtifactRegistryLocation name = after_locations (strings_Split CHR ''/'' name)"

definition listArtifactRegistryResources :: "'c cli_host \<Rightarrow> gcp_res_json \<Rightarrow> string \<Rightarrow> bool \<Rightarrow> ('c, resource_info list) pm" where
  "listArtifactRegistryResources H J project ctx =
     listed H ctx ''gcloud'' ([''artifacts'', ''repositories'', ''list'', ''--format'', ''json''] @ project_args project)
       ''gcp artifact repositories'' (gr_items J)
       (\<lambda>rs. map (\<lambda>r. mk_resource ProviderGCP ResourceContainerImage (last_segment (gx_Name r)) (gcpArtifactRegistryLocation (gx_Name r)) []
            [''dispatcher'' \<mapsto> ''true''] (gcpBytesToGiB (gr_float J (gx_Bytes r)) * gcpArtifactRegistryRatePerGBMonth))
          (filter (\<lambda>r. last_segment (gx_Name r) = ''dispatcher-cs'') rs))"

definition listResourcesInProject :: "'c cli_host \<Rightarrow> gcp_res_json \<Rightarrow> string \<Rightarrow> bool \<Rightarrow> ('c, resource_info list) pm" where
  "listResourcesInProject H J project ctx =
     pbind (gcp_listInstanceResources H J project ctx)
       (best_effort [gcp_listDiskResources H J project ctx, gcp_listImageResources H J project ctx, gcp_listSnapshotResources H J project ctx,
          gcp_listAddressResources H J project ctx, gcp_listFirewallResources H J project ctx, listArtifactRegistryResources H J project ctx])"

definition otherAccessibleProjects :: "'c cli_host \<Rightarrow> gcp_res_json \<Rightarrow> string \<Rightarrow> bool \<Rightarrow> ('c, string list) pm" where
  "otherAccessibleProjects H J project ctx =
     pbind (ptry (runCLI H ctx ''gcloud'' [''projects'', ''list'', ''--format'', ''json''])) (\<lambda>r.
       case r of
         Inl _ \<Rightarrow> pret []
       | Inr out \<Rightarrow> (case gr_projects J out of Inl _ \<Rightarrow> pret [] | Inr ps \<Rightarrow> pret (filter (\<lambda>p. p \<noteq> [] \<and> p \<noteq> project) ps)))"

primrec list_others :: "'c cli_host \<Rightarrow> gcp_res_json \<Rightarrow> bool \<Rightarrow> string list \<Rightarrow> resource_info list \<Rightarrow> ('c, resource_info list) pm" where
  "list_others H J ctx [] out = pret out"
| "list_others H J ctx (p # ps) out =
     pbind (ptry (listResourcesInProject H J p ctx)) (\<lambda>r.
       list_others H J ctx ps
         (case r of
            Inl _ \<Rightarrow> out
          | Inr rs \<Rightarrow> out @ map (\<lambda>x. x\<lparr>ri_Scope := p\<rparr>) (filter (\<lambda>x. env_value (ri_Tags x) ''dispatcher'' = ''true'') rs)))"

definition gcp_ListResources :: "'c cli_host \<Rightarrow> gcp_res_json \<Rightarrow> string \<Rightarrow> bool \<Rightarrow> ('c, resource_info list) pm" where
  "gcp_ListResources H J project ctx =
     pbind (listResourcesInProject H J project ctx) (\<lambda>own.
     pbind (otherAccessibleProjects H J project ctx) (\<lambda>others.
     list_others H J ctx others (map (\<lambda>x. x\<lparr>ri_Scope := project\<rparr>) own)))"

definition gcp_delete_resource_args :: "resource_info \<Rightarrow> string list option" where
  "gcp_delete_resource_args res =
     (let i = ri_ResourceID res; loc = ri_Region res; scope = env_value (ri_Tags res) gcpScopeTag
      in case ri_Kind res of
           ResourceInstance \<Rightarrow> Some [''compute'', ''instances'', ''delete'', i, ''--zone'', loc, ''--quiet'']
         | ResourceDisk \<Rightarrow> Some [''compute'', ''disks'', ''delete'', i, if scope = ''regional'' then ''--region'' else ''--zone'', loc, ''--quiet'']
         | ResourceImage \<Rightarrow> Some [''compute'', ''images'', ''delete'', i, ''--quiet'']
         | ResourceSnapshot \<Rightarrow> Some [''compute'', ''snapshots'', ''delete'', i, ''--quiet'']
         | ResourceAddress \<Rightarrow>
             Some (if scope = ''global'' then [''compute'', ''addresses'', ''delete'', i, ''--global'', ''--quiet'']
                   else [''compute'', ''addresses'', ''delete'', i, ''--region'', loc, ''--quiet''])
         | ResourceFirewall \<Rightarrow> Some [''compute'', ''firewall-rules'', ''delete'', i, ''--quiet'']
         | ResourceContainerImage \<Rightarrow> Some [''artifacts'', ''repositories'', ''delete'', i, ''--location'', loc, ''--quiet'']
         | ResourceKindOther k \<Rightarrow> None)"

definition gcp_DestroyResource :: "'c cli_host \<Rightarrow> string \<Rightarrow> bool \<Rightarrow> resource_info \<Rightarrow> ('c, unit) pm" where
  "gcp_DestroyResource H own ctx res =
     (let project = (if ri_Scope res = [] then own else ri_Scope res)
      in if \<not> DispatcherOwned res then refuse (not_owned res)
         else if \<not> destroyArgsSafe (ri_ResourceID res) (ri_Region res)
         then refuse (''gcp: refusing to destroy '' @ go_quote (ri_ResourceID res) @ '': unsafe resource id or region'')
         else if project \<noteq> [] \<and> \<not> isSafeArg project
         then refuse (''gcp: refusing to destroy '' @ go_quote (ri_ResourceID res) @ '': unsafe project scope'')
         else case gcp_delete_resource_args res of
                None \<Rightarrow> refuse (''gcp: cannot destroy resource of kind '' @ go_quote (resource_kind_string (ri_Kind res)))
              | Some args \<Rightarrow>
                  run_delete H ctx ''gcloud''
                    (if ri_Kind res = ResourceContainerImage then ''gcloud artifacts repositories delete failed''
                     else ''gcloud '' @ resource_kind_string (ri_Kind res) @ '' delete failed'')
                    (args @ project_args project))"

section \<open>What garbage collection relies on\<close>

lemma RemoveRunKeyFiles_out: "cw_out (snd (RemoveRunKeyFiles H i w)) = cw_out w"
proof -
  have "cw_out (snd (remove_all fs w)) = cw_out w" for fs and w :: "'a cworld"
    by (induction fs arbitrary: w) (simp_all add: cbind_def cupd_def os_Remove_def cret_def)
  then show ?thesis
    unfolding RemoveRunKeyFiles_def by (simp add: cret_def del: remove_all.simps list.map split: sum.split)
qed

lemma RemoveRunKeyFiles_eq: "RemoveRunKeyFiles H i w = (r, w') \<Longrightarrow> cw_out w' = cw_out w"
  using RemoveRunKeyFiles_out [of H i w] by simp

text \<open>
  A provider of resources: listing runs no command that removes anything; deleting a resource that is not
  the dispatcher's own runs nothing and fails, and otherwise runs only what \<open>removes\<close> allows for that resource,
  given what the tool has reported.
\<close>

locale resource_provider =
  fixes lst :: "bool \<Rightarrow> ('c, resource_info list) pm"
    and del :: "bool \<Rightarrow> resource_info \<Rightarrow> ('c, unit) pm"
    and destructive :: "string list \<Rightarrow> bool"
    and removes :: "resource_info \<Rightarrow> cli_log \<Rightarrow> string list \<Rightarrow> bool"
  assumes removes_mono: "removes res n a \<Longrightarrow> set n \<subseteq> set n' \<Longrightarrow> removes res n' a"
    and list_harmless: "logs R (lst ctx) (\<lambda>r n. list_all (\<lambda>a. \<not> destructive a) (cmds n))"
    and del_refuses: "\<not> DispatcherOwned res \<Longrightarrow> logs R (del ctx res) (\<lambda>r n. isl r \<and> n = [])"
    and del_removes: "logs R (del ctx res) (\<lambda>r n. list_all (\<lambda>a. destructive a \<longrightarrow> removes res n a) (cmds n))"
begin

lemma list_calls:
  assumes "cext (as_call (lst ctx)) w = (r, w')"
  shows "\<exists>new. pw_calls (cw_out w') = pw_calls (cw_out w) @ new \<and> list_all (\<lambda>a. \<not> destructive a) (cmds new)"
proof -
  obtain q v where q: "lst ctx (cw_out w) = (q, v)" by fastforce
  have "cw_out w' = v" using assms by (auto simp: q cext_def as_call_def split: sum.splits)
  with logsD [OF list_harmless q refl] show ?thesis by auto
qed

lemma del_calls:
  assumes "cext (as_call (del ctx res)) w = (r, w')"
  shows "\<exists>new. pw_calls (cw_out w') = pw_calls (cw_out w) @ new \<and> list_all (\<lambda>a. destructive a \<longrightarrow> removes res new a) (cmds new)"
proof -
  obtain q v where q: "del ctx res (cw_out w) = (q, v)" by fastforce
  have "cw_out w' = v" using assms by (auto simp: q cext_def as_call_def split: sum.splits)
  with logsD [OF del_removes q refl] show ?thesis by auto
qed

lemma scan_account:
  assumes P: "pv_Resources P = Some (\<lambda>ctx. as_call (lst ctx), \<lambda>ctx res. as_call (del ctx res))"
    and du: "du_ListResources du = cloud_ListResources P cfg"
    and "scan_adapters g cat [(t, du)] \<lparr>gs_orphans = [], gs_standing = [], gs_external = []\<rparr> w = (Ret sc, w1)"
  shows "(\<exists>new. pw_calls (cw_out w1) = pw_calls (cw_out w) @ new \<and> list_all (\<lambda>a. \<not> destructive a) (cmds new))
    \<and> (\<forall>x\<in>set (gs_orphans sc). fst x = (t, du))"
proof -
  obtain r v where l: "cext (as_call (lst False)) w = (r, v)" by fastforce
  have "w1 = v" "\<forall>x\<in>set (gs_orphans sc). fst x = (t, du)"
    using assms(3) by (auto simp: du cloud_ListResources_def P l cbind_def ctry_def cret_def scan_resources_orphans split: call.splits)
  with list_calls [OF l] show ?thesis by simp
qed

lemma destroy_account:
  assumes P: "pv_Resources P = Some (\<lambda>ctx. as_call (lst ctx), \<lambda>ctx res. as_call (del ctx res))"
    and du: "du_DestroyResource du = cloud_DestroyResource P cfg"
    and "destroy_orphans HO xs w = (Ret tried, w')" "\<forall>x\<in>set xs. fst x = (t, du)"
  shows "\<exists>new. pw_calls (cw_out w') = pw_calls (cw_out w) @ new \<and> list_all (\<lambda>a. destructive a \<longrightarrow> (\<exists>x\<in>set xs. removes (snd x) new a)) (cmds new)"
  using assms(3,4)
proof (induction xs arbitrary: w tried)
  case Nil
  then show ?case by (auto simp: cret_def)
next
  case (Cons x xs)
  let ?res = "snd x"
  from Cons.prems obtain r w1 w2 rest where
    d: "cloud_DestroyResource P cfg False ?res w = (r, w1)" and k: "cw_out w2 = cw_out w1" and "destroy_orphans HO xs w2 = (Ret rest, w')"
    by (auto simp: du Let_def cbind_Ret ctry_def cret_def split: call.splits prod.splits sum.splits if_splits
        dest!: RemoveRunKeyFiles_eq)
  from Cons.IH [OF this(3)] Cons.prems(2) obtain new2 where
    new2: "pw_calls (cw_out w') = pw_calls (cw_out w2) @ new2" "list_all (\<lambda>a. destructive a \<longrightarrow> (\<exists>x\<in>set xs. removes (snd x) new2 a)) (cmds new2)"
    by auto
  have "\<exists>new. pw_calls (cw_out w1) = pw_calls (cw_out w) @ new \<and> list_all (\<lambda>a. destructive a \<longrightarrow> removes ?res new a) (cmds new)"
  proof (cases "DispatcherOwned ?res")
    case True
    then show ?thesis using d del_calls [of False ?res w r w1] by (simp add: cloud_DestroyResource_def P)
  next
    case False
    then show ?thesis using d by (simp add: cloud_DestroyResource_def cfail_def)
  qed
  then obtain new1 where new1: "pw_calls (cw_out w1) = pw_calls (cw_out w) @ new1" "list_all (\<lambda>a. destructive a \<longrightarrow> removes ?res new1 a) (cmds new1)" by blast
  have "removes res new1 a \<Longrightarrow> removes res (new1 @ new2) a" "removes res new2 a \<Longrightarrow> removes res (new1 @ new2) a" for res a
    by (auto elim: removes_mono)
  with new1 new2 k show ?case by (intro exI [of _ "new1 @ new2"]) (fastforce simp: list_all_iff)
qed

text \<open>A garbage collection of an account removes nothing but orphans.\<close>

lemma gc_account:
  assumes P: "pv_Resources P = Some (\<lambda>ctx. as_call (lst ctx), \<lambda>ctx res. as_call (del ctx res))"
    and du: "du_ListResources du = cloud_ListResources P cfg" "du_DestroyResource du = cloud_DestroyResource P cfg"
    and gc: "gc HO fl asJSON input cat d [(t, du)] w = (Ret (out, tried), w')" and ids: "ListRecords d = Inr ids"
  shows "\<exists>new. pw_calls (cw_out w') = pw_calls (cw_out w) @ new
    \<and> (\<forall>a\<in>set (cmds new). destructive a \<longrightarrow> (\<exists>(res, e)\<in>set tried. reapable d ids res \<and> removes res new a))"
proof -
  let ?none = "\<lparr>gs_orphans = [], gs_standing = [], gs_external = []\<rparr>"
  obtain sc w1 where sc: "scan_adapters (gc_guards d ids) cat [(t, du)] ?none w = (Ret sc, w1)"
    and rest: "w' = w1 \<or> destroy_orphans HO (gs_orphans sc) w1 = (Ret tried, w')"
    using gc by (auto simp: gc_def ids cbind_Ret Let_def cret_def cfail_def simp del: scan_adapters.simps split: if_splits)
  obtain n1 where n1: "pw_calls (cw_out w1) = pw_calls (cw_out w) @ n1" "list_all (\<lambda>a. \<not> destructive a) (cmds n1)"
    and all: "\<forall>x\<in>set (gs_orphans sc). fst x = (t, du)"
    using scan_account [OF P du(1) sc] by blast
  from rest show ?thesis
  proof
    assume "w' = w1"
    with n1 show ?thesis by (auto simp: list_all_iff)
  next
    assume ds: "destroy_orphans HO (gs_orphans sc) w1 = (Ret tried, w')"
    from destroy_account [OF P du(2) ds all] obtain n2 where n2: "pw_calls (cw_out w') = pw_calls (cw_out w1) @ n2"
      "list_all (\<lambda>a. destructive a \<longrightarrow> (\<exists>x\<in>set (gs_orphans sc). removes (snd x) n2 a)) (cmds n2)" by blast
    have "snd ` set (gs_orphans sc) = fst ` set tried" using destroy_orphans_attempts [OF ds] by (metis set_map)
    then have "\<exists>(res, e)\<in>set tried. reapable d ids res \<and> removes res (n1 @ n2) a" if "x \<in> set (gs_orphans sc)" "removes (snd x) n2 a" for x a
    proof -
      have "removes (snd x) (n1 @ n2) a" using that(2) by (rule removes_mono) simp
      from that have "snd x \<in> fst ` set tried" using \<open>snd ` set (gs_orphans sc) = fst ` set tried\<close> by blast
      then obtain e where "(snd x, e) \<in> set tried" by auto
      with \<open>removes (snd x) (n1 @ n2) a\<close> gc_attempts_reapable [OF gc ids] show ?thesis by fast
    qed
    with n1 n2 show ?thesis by (intro exI [of _ "n1 @ n2"]) (auto simp: list_all_iff)
  qed
qed

end

section \<open>The providers\<close>

definition harm :: "(string list \<Rightarrow> bool) \<Rightarrow> string list \<times> string option \<Rightarrow> (string list \<times> string option) list" where
  "harm destructive c = (if destructive (fst c) then [c] else [])"

lemma quiet_harmless: "quiet (harm destructive) R m \<Longrightarrow> logs R m (\<lambda>r n. list_all (\<lambda>a. \<not> destructive a) (cmds n))"
proof -
  have "picks (harm destructive) n = [] \<longleftrightarrow> list_all (\<lambda>a. \<not> destructive a) (cmds n)" for n
    by (induction n) (auto simp: harm_def)
  then show "quiet (harm destructive) R m \<Longrightarrow> ?thesis" by (simp add: quiet_def)
qed

lemma quiet_listed: "\<not> destructive args \<Longrightarrow> quiet (harm destructive) R (listed H ctx bin args what dec f)"
  unfolding listed_def by (intro quiet_intros quiet_runCLI) (simp add: harm_def)

lemma quiet_listed_machines: "\<not> destructive args \<Longrightarrow> quiet (harm destructive) R (listed_machines H ctx bin args label what dec f)"
  unfolding listed_machines_def by (intro quiet_intros quiet_runCLI) (simp add: harm_def)

lemma quiet_best_effort: "\<forall>m\<in>set ms. quiet f R m \<Longrightarrow> quiet f R (best_effort ms out)"
  by (induction ms arbitrary: out) (auto intro!: quiet_intros)

lemma logs_run_delete: "logs R (run_delete H ctx bin label args) (\<lambda>r n. cmds n = [args])"
  unfolding run_delete_def
  by (rule logs_pbind [where P = "\<lambda>r n. cmds n = [args]" and K = "\<lambda>_ r n. n = []"])
     (auto intro!: logs_pwrap [where P = "\<lambda>r n. cmds n = [args]"] logs_runCLI logs_pret)

lemma logs_refuse: "Q [] \<Longrightarrow> logs R (refuse t) (\<lambda>r n. Q n)"
  unfolding refuse_def by (rule logs_pfail)

lemma logs_refused: "logs R (refuse t) (\<lambda>r n. isl r \<and> n = [])"
  unfolding refuse_def by (rule logs_pfail) simp

lemma logs_option:
  "(x = None \<Longrightarrow> logs R m Q) \<Longrightarrow> (\<And>a. x = Some a \<Longrightarrow> logs R (k a) Q) \<Longrightarrow> logs R (case x of None \<Rightarrow> m | Some a \<Rightarrow> k a) Q"
  by (simp split: option.split)

lemma logs_pgets_then: "(\<And>w. pw_region w = R \<Longrightarrow> logs R (k (f w)) Q) \<Longrightarrow> logs R (pbind (pgets f) k) Q"
  unfolding logs_def pbind_pgets by blast

subsection \<open>AWS\<close>

definition aws_destructive :: "string list \<Rightarrow> bool" where
  "aws_destructive a \<longleftrightarrow> take 2 a \<in> {[''ec2'', ''terminate-instances''], [''ec2'', ''delete-volume''], [''ec2'', ''delete-snapshot''],
     [''ec2'', ''release-address''], [''ec2'', ''delete-security-group'']}"

definition aws_removes :: "resource_info \<Rightarrow> cli_log \<Rightarrow> string list \<Rightarrow> bool" where
  "aws_removes res n a \<longleftrightarrow> (\<exists>region. (ri_Region res \<noteq> [] \<longrightarrow> region = ri_Region res) \<and> aws_delete_args (ri_Kind res) region (ri_ResourceID res) = Some a)"

lemma quiet_region: "quiet (harm aws_destructive) R (listRegionResources H J ctx region)"
  unfolding listRegionResources_def aws_listInstanceResources_def aws_listVolumeResources_def aws_listSnapshotResources_def
    aws_listAddressResources_def listSecurityGroupResources_def
  by (auto intro!: quiet_pbind quiet_best_effort quiet_listed quiet_listed_machines simp: aws_destructive_def)

lemma quiet_sweep: "quiet (harm aws_destructive) R (sweep_regions H J ctx rs acc)"
proof (induction rs arbitrary: acc)
  case (Cons r rs)
  show ?case unfolding sweep_regions.simps by (intro quiet_pbind quiet_ptry quiet_region Cons.IH)
qed (simp add: quiet_pret)

interpretation aws_resources: resource_provider "aws_ListResources H J order" "aws_DestroyResource H" aws_destructive aws_removes
  for H :: "'c cli_host" and J order
proof
  show "aws_removes res n a \<Longrightarrow> aws_removes res n' a" for res n n' a by (simp add: aws_removes_def)
  show "logs R (aws_ListResources H J order ctx) (\<lambda>r n. list_all (\<lambda>a. \<not> aws_destructive a) (cmds n))" for R ctx
    unfolding aws_ListResources_def enabledRegions_def
    by (intro quiet_harmless quiet_intros quiet_runCLI quiet_sweep) (simp add: harm_def aws_destructive_def)
  show "logs R (aws_DestroyResource H ctx res) (\<lambda>r n. isl r \<and> n = [])" if "\<not> DispatcherOwned res" for R ctx res
    using that by (simp add: aws_DestroyResource_def logs_refused)
  have del: "logs R (run_delete H ctx ''aws'' label args) (\<lambda>r n. list_all (\<lambda>a. aws_destructive a \<longrightarrow> aws_removes res n a) (cmds n))"
    if "\<And>n. aws_removes res n args" for R ctx label args res
    by (rule logs_weaken [OF logs_run_delete]) (simp add: that)
  have rem: "aws_removes res n args" if "aws_delete_args (ri_Kind res) region (ri_ResourceID res) = Some args" "ri_Region res \<noteq> [] \<Longrightarrow> region = ri_Region res"
    for res args region n
    using that by (auto simp: aws_removes_def)
  show "logs R (aws_DestroyResource H ctx res) (\<lambda>r n. list_all (\<lambda>a. aws_destructive a \<longrightarrow> aws_removes res n a) (cmds n))" for R ctx res
    unfolding aws_DestroyResource_def
    by (rule logs_if, rule logs_refuse, simp, rule logs_pgets_then, rule logs_if, rule logs_refuse, simp, rule logs_option, rule logs_refuse, simp)
       (auto intro!: del rem split: if_splits)
qed

subsection \<open>Google\<close>

definition gcp_destructive :: "string list \<Rightarrow> bool" where
  "gcp_destructive a \<longleftrightarrow> take 1 (drop 2 a) = [''delete'']"

definition gcp_removes :: "string \<Rightarrow> resource_info \<Rightarrow> cli_log \<Rightarrow> string list \<Rightarrow> bool" where
  "gcp_removes own res n a \<longleftrightarrow>
     (\<exists>args. gcp_delete_resource_args res = Some args \<and> a = args @ project_args (if ri_Scope res = [] then own else ri_Scope res))"

lemma quiet_project: "quiet (harm gcp_destructive) R (listResourcesInProject H J project ctx)"
  unfolding listResourcesInProject_def gcp_listInstanceResources_def gcp_listDiskResources_def gcp_listImageResources_def
    gcp_listSnapshotResources_def gcp_listAddressResources_def gcp_listFirewallResources_def listArtifactRegistryResources_def listArgs_def
  by (auto intro!: quiet_pbind quiet_best_effort quiet_listed quiet_listed_machines simp: gcp_destructive_def)

lemma quiet_others: "quiet (harm gcp_destructive) R (list_others H J ctx ps out)"
proof (induction ps arbitrary: out)
  case (Cons p ps)
  show ?case unfolding list_others.simps by (intro quiet_pbind quiet_ptry quiet_project Cons.IH)
qed (simp add: quiet_pret)

interpretation gcp_resources: resource_provider "gcp_ListResources H J own" "gcp_DestroyResource H own" gcp_destructive "gcp_removes own"
  for H :: "'c cli_host" and J own
proof
  show "gcp_removes own res n a \<Longrightarrow> gcp_removes own res n' a" for res n n' a by (simp add: gcp_removes_def)
  show "logs R (gcp_ListResources H J own ctx) (\<lambda>r n. list_all (\<lambda>a. \<not> gcp_destructive a) (cmds n))" for R ctx
    unfolding gcp_ListResources_def otherAccessibleProjects_def
    by (intro quiet_harmless quiet_intros quiet_project quiet_runCLI quiet_others) (simp add: harm_def gcp_destructive_def)
  show "logs R (gcp_DestroyResource H own ctx res) (\<lambda>r n. isl r \<and> n = [])" if "\<not> DispatcherOwned res" for R ctx res
    using that by (simp add: gcp_DestroyResource_def logs_refused Let_def)
  have del: "logs R (run_delete H ctx ''gcloud'' label args) (\<lambda>r n. list_all (\<lambda>a. gcp_destructive a \<longrightarrow> gcp_removes own res n a) (cmds n))"
    if "\<And>n. gcp_removes own res n args" for R ctx label args res
    by (rule logs_weaken [OF logs_run_delete]) (simp add: that)
  have rem: "gcp_removes own res n (args @ project_args (if ri_Scope res = [] then own else ri_Scope res))"
    if "gcp_delete_resource_args res = Some args" for res args n
    using that by (auto simp: gcp_removes_def)
  show "logs R (gcp_DestroyResource H own ctx res) (\<lambda>r n. list_all (\<lambda>a. gcp_destructive a \<longrightarrow> gcp_removes own res n a) (cmds n))" for R ctx res
    unfolding gcp_DestroyResource_def Let_def
    by (rule logs_if, rule logs_refuse, simp, rule logs_if, rule logs_refuse, simp, rule logs_if, rule logs_refuse, simp,
        rule logs_option, rule logs_refuse, simp) (rule del, erule rem)
qed

subsection \<open>Hetzner\<close>

definition hz_destructive :: "string list \<Rightarrow> bool" where
  "hz_destructive a \<longleftrightarrow> take 1 (drop 1 a) = [''delete'']"

definition hz_noun :: "resource_info \<Rightarrow> string option" where
  "hz_noun res =
     (case ri_Kind res of
        ResourceInstance \<Rightarrow> Some ''server''
      | ResourceDisk \<Rightarrow> Some ''volume''
      | ResourceSnapshot \<Rightarrow> Some ''image''
      | ResourceFirewall \<Rightarrow> Some ''firewall''
      | ResourceAddress \<Rightarrow> Some (let verb = env_value (ri_Tags res) hetznerIPKindTag in if verb = [] then ''primary-ip'' else verb)
      | _ \<Rightarrow> None)"

text \<open>Deleting a server takes along the firewall and the key of the run that the server's own label names.\<close>

definition hz_labelled :: "hetzner_json \<Rightarrow> string \<Rightarrow> cli_log \<Rightarrow> string \<Rightarrow> bool" where
  "hz_labelled J vmID n runID \<longleftrightarrow>
     (\<exists>out s. ([''server'', ''describe'', vmID, ''-o'', ''json''], Some out) \<in> set n \<and> hj_server J out = Inr s
        \<and> env_value (hs_Labels s) ''dispatcher-run-id'' = runID \<and> runID \<noteq> [])"

definition hz_removes :: "hetzner_json \<Rightarrow> resource_info \<Rightarrow> cli_log \<Rightarrow> string list \<Rightarrow> bool" where
  "hz_removes J res n a \<longleftrightarrow>
     (\<exists>noun. hz_noun res = Some noun \<and> a = [noun, ''delete'', ri_ResourceID res])
     \<or> ri_Kind res = ResourceInstance \<and> (\<exists>runID. hz_labelled J (ri_ResourceID res) n runID
         \<and> (a = [''firewall'', ''delete'', firewallNameFromString runID] \<or> a = [''ssh-key'', ''delete'', ''dispatcher-'' @ runID]))"

lemma hz_removes_mono: "hz_removes J res n a \<Longrightarrow> set n \<subseteq> set n' \<Longrightarrow> hz_removes J res n' a"
  unfolding hz_removes_def hz_labelled_def by blast

lemma runID_logs:
  "logs R (runIDForServer H J ctx vmID) (\<lambda>r n. \<exists>runID. r = Inr runID \<and> cmds n = [[''server'', ''describe'', vmID, ''-o'', ''json'']]
     \<and> (runID \<noteq> [] \<longrightarrow> hz_labelled J vmID n runID))"
  by (auto simp: logs_def runIDForServer_def hz_labelled_def pbind_def ptry_def runCLI_def exec_cli_def pret_def split: prod.split sum.split option.split)

lemma hz_destroy_machine:
  assumes "ri_Kind res = ResourceInstance"
  shows "logs R (hetzner_DestroyVM H J ctx (ri_ResourceID res)) (\<lambda>r n. list_all (\<lambda>a. hz_destructive a \<longrightarrow> hz_removes J res n a) (cmds n))"
proof -
  let ?id = "ri_ResourceID res"
  let ?f = "\<lambda>runID. [''firewall'', ''delete'', firewallNameFromString runID]" and ?s = "\<lambda>runID. [''ssh-key'', ''delete'', ''dispatcher-'' @ runID]"
  let ?bad = "\<lambda>runID a. \<not> (a = [''server'', ''delete'', ?id] \<or> runID \<noteq> [] \<and> (a = ?f runID \<or> a = ?s runID))"
  let ?rest = "\<lambda>runID. pbind (ptry (runCLI H ctx ''hcloud'' [''server'', ''delete'', ?id])) (\<lambda>r. case r of
      Inl e \<Rightarrow> if isVMNotFound (Some e) ?id then pret () else pfail (err_label ''hcloud server delete failed'' e)
    | Inr _ \<Rightarrow> if runID \<noteq> [] then pbind (pignore (runCLI H ctx ''hcloud'' (?f runID))) (\<lambda>_. pignore (runCLI H ctx ''hcloud'' (?s runID))) else pret ())"
  have "quiet (harm (?bad runID)) R (?rest runID)" for runID
    by (cases "runID = []") (simp_all only: if_True if_False not_False_eq_True simp_thms,
      (intro quiet_intros quiet_pignore quiet_runCLI; simp add: harm_def)+)
  from quiet_harmless [OF this]
  have rest: "logs R (?rest runID) (\<lambda>r n. list_all (\<lambda>a. \<not> ?bad runID a) (cmds n))" for runID .
  have noun: "hz_noun res = Some ''server''" by (simp add: hz_noun_def assms)
  show ?thesis
    unfolding hetzner_DestroyVM_def
  proof (rule logs_pbind [OF runID_logs rest], goal_cases)
    case (2 runID n r n')
    have l: "runID \<noteq> [] \<Longrightarrow> hz_labelled J ?id (n @ n') runID" using 2(1) by (auto simp: hz_labelled_def)
    have "hz_removes J res (n @ n') a" if "\<not> ?bad runID a" for a
      using that l noun assms unfolding hz_removes_def by blast
    with 2 show ?case by (auto simp: list_all_iff hz_destructive_def)
  qed simp
qed

interpretation hetzner_resources: resource_provider "hetzner_ListResources H RJ" "hetzner_DestroyResource H J" hz_destructive "hz_removes J"
  for H :: "'c cli_host" and J RJ
proof
  show "hz_removes J res n a \<Longrightarrow> set n \<subseteq> set n' \<Longrightarrow> hz_removes J res n' a" for res n n' a by (rule hz_removes_mono)
  show "logs R (hetzner_ListResources H RJ ctx) (\<lambda>r n. list_all (\<lambda>a. \<not> hz_destructive a) (cmds n))" for R ctx
    unfolding hetzner_ListResources_def listServerResources_def hz_listVolumeResources_def listPrimaryIPResources_def listFloatingIPResources_def
      hz_listSnapshotResources_def hz_listFirewallResources_def hz_listed_def
    by (rule quiet_harmless) (auto intro!: quiet_pbind quiet_best_effort quiet_listed quiet_listed_machines simp: hz_destructive_def)
  show "logs R (hetzner_DestroyResource H J ctx res) (\<lambda>r n. isl r \<and> n = [])" if "\<not> DispatcherOwned res" for R ctx res
    using that by (simp add: hetzner_DestroyResource_def logs_refused Let_def)
  have del: "logs R (run_delete H ctx ''hcloud'' label [noun, ''delete'', ri_ResourceID res]) (\<lambda>r n. list_all (\<lambda>a. hz_destructive a \<longrightarrow> hz_removes J res n a) (cmds n))"
    if "hz_noun res = Some noun" for R ctx label noun res
    by (rule logs_weaken [OF logs_run_delete]) (simp add: hz_removes_def that)
  show "logs R (hetzner_DestroyResource H J ctx res) (\<lambda>r n. list_all (\<lambda>a. hz_destructive a \<longrightarrow> hz_removes J res n a) (cmds n))" for R ctx res
    unfolding hetzner_DestroyResource_def Let_def
    by (rule logs_if, rule logs_refuse, simp, rule logs_if, rule logs_refuse, simp)
       (cases "ri_Kind res"; simp add: del hz_noun_def Let_def hz_destroy_machine logs_refuse)
qed

subsection \<open>Azure\<close>

definition az_destructive :: "string list \<Rightarrow> bool" where
  "az_destructive a \<longleftrightarrow> take 1 (drop 1 a) = [''delete''] \<or> take 1 (drop 2 a) = [''delete'']"

text \<open>Deleting a machine takes along its satellites: what the tool reported as attached to that machine.\<close>

definition az_removes :: "az_json \<Rightarrow> string \<Rightarrow> resource_info \<Rightarrow> cli_log \<Rightarrow> string list \<Rightarrow> bool" where
  "az_removes J own res n a \<longleftrightarrow>
     (let rg = (if ri_Scope res = [] then own else ri_Scope res); i = ri_ResourceID res
      in case ri_Kind res of
           ResourceInstance \<Rightarrow> a = vm_delete_args rg i \<or> (\<exists>x. az_attached J rg i n x \<and> a = resource_delete x)
         | ResourceDisk \<Rightarrow> a = [''disk'', ''delete'', ''--resource-group'', rg, ''--name'', i, ''--yes'']
         | ResourceAddress \<Rightarrow> a = [''network'', ''public-ip'', ''delete'', ''--resource-group'', rg, ''--name'', i]
         | ResourceSnapshot \<Rightarrow> a = [''snapshot'', ''delete'', ''--resource-group'', rg, ''--name'', i]
         | _ \<Rightarrow> False)"

lemma az_removes_mono: "az_removes J own res n a \<Longrightarrow> set n \<subseteq> set n' \<Longrightarrow> az_removes J own res n' a"
  unfolding az_removes_def Let_def
  by (cases "ri_Kind res"; simp only: resource_kind.case) (blast intro: az_attached_mono)

lemma delete_items_cmds: "logs R (delete_items H ctx items) (\<lambda>r n. set (cmds n) \<subseteq> resource_delete ` fst ` set items)"
proof -
  have "quiet (harm (\<lambda>a. a \<notin> resource_delete ` fst ` S)) R (delete_items H ctx items)" if "set items \<subseteq> S" for S
    using that
  proof (induction items)
    case (Cons it items)
    then show ?case unfolding delete_items.simps
      by (intro quiet_pbind quiet_ptry quiet_pret quiet_retried_by_runCLI) (auto simp: harm_def)
  qed (simp add: quiet_pret)
  from quiet_harmless [OF this [OF subset_refl]] show ?thesis by (rule logs_weaken) (auto simp: list_all_iff)
qed

lemma quiet_gather: "quiet (harm az_destructive) R (gatherVMResources H J ctx rg vmID)"
  unfolding gatherVMResources_def
  by (intro quiet_intros quiet_retried_runCLI quiet_gather_nics) (simp_all add: harm_def az_destructive_def vm_show_args_def nic_show_args_def)

lemma az_teardown_logs:
  "logs R (destroyVMInRG H J ctx rg vmID) (\<lambda>r n. \<forall>a \<in> set (cmds n). az_destructive a \<longrightarrow>
     a = vm_delete_args rg vmID \<or> (\<exists>x. az_attached J rg vmID n x \<and> a = resource_delete x))"
proof -
  let ?ok = "\<lambda>n a. a = vm_delete_args rg vmID \<or> (\<exists>x. az_attached J rg vmID n x \<and> a = resource_delete x)"
  let ?G = "\<lambda>q n. list_all (\<lambda>a. \<not> az_destructive a) (cmds n) \<and> (\<forall>assoc. q = Inr assoc \<longrightarrow> fst ` set (satellites assoc) \<subseteq> {x. az_attached J rg vmID n x})"
  have g: "logs R (gatherVMResources H J ctx rg vmID) ?G"
    by (rule logs_weaken [OF logs_conj [OF quiet_harmless [OF quiet_gather] gather_logs]]) blast
  have items: "logs R (deleteAssociatedResources H ctx assoc) (\<lambda>r n. set (cmds n) \<subseteq> resource_delete ` fst ` set (satellites assoc))" for assoc
    unfolding deleteAssociatedResources_def
    by (rule logs_pbind [OF delete_items_cmds, where K = "\<lambda>_ _ n. n = []"]) (auto intro!: logs_pfail logs_pret)
  have del: "logs R (pbind (pwrap l (runCLI H ctx ''az'' (vm_delete_args rg vmID))) (\<lambda>_. deleteAssociatedResources H ctx assoc))
      (\<lambda>r n. set (cmds n) \<subseteq> insert (vm_delete_args rg vmID) (resource_delete ` fst ` set (satellites assoc)))" for l assoc
    by (rule logs_pbind [OF logs_pwrap [OF logs_runCLI, where Q = "\<lambda>r n. cmds n = [vm_delete_args rg vmID]"] items]) auto
  show ?thesis
    unfolding destroyVMInRG_def
  proof (rule logs_pbind [where P = "\<lambda>r n. \<exists>q. r = Inr q \<and> ?G q n" and
        K = "\<lambda>q r n. set (cmds n) \<subseteq> (case q of Inl _ \<Rightarrow> {} | Inr assoc \<Rightarrow> insert (vm_delete_args rg vmID) (resource_delete ` fst ` set (satellites assoc)))"], goal_cases)
    case 1
    show ?case by (rule logs_ptry [OF logs_weaken [OF g]]) simp
  next
    case (2 q)
    show ?case by (cases q) (auto intro!: logs_if logs_pfail logs_pret del)
  next
    case (4 q n r n')
    then have G: "list_all (\<lambda>a. \<not> az_destructive a) (cmds n)" and s: "\<And>assoc. q = Inr assoc \<Longrightarrow> fst ` set (satellites assoc) \<subseteq> {x. az_attached J rg vmID n x}"
      by auto
    have m: "az_attached J rg vmID (n @ n') x" if "az_attached J rg vmID n x" for x using that by (rule az_attached_mono) simp
    show ?case
    proof (cases q)
      case (Inl e)
      with 4(2) G show ?thesis by (auto simp: list_all_iff)
    next
      case (Inr assoc)
      with 4(2) have "set (cmds n') \<subseteq> insert (vm_delete_args rg vmID) (resource_delete ` fst ` set (satellites assoc))" by simp
      with s [OF Inr] m have "\<forall>a \<in> set (cmds n'). ?ok (n @ n') a" by blast
      with G show ?thesis by (auto simp: list_all_iff)
    qed
  qed simp
qed

lemma az_destroy_machine:
  assumes "ri_Kind res = ResourceInstance" and rg: "rg = (if ri_Scope res = [] then own else ri_Scope res)"
  shows "logs R (destroyVMInRG H J ctx rg (ri_ResourceID res)) (\<lambda>r n. list_all (\<lambda>a. az_destructive a \<longrightarrow> az_removes J own res n a) (cmds n))"
  by (rule logs_weaken [OF az_teardown_logs]) (auto simp: list_all_iff az_removes_def assms Let_def)

interpretation azure_resources: resource_provider "azure_ListResources H J own" "azure_DestroyResource H J own" az_destructive "az_removes J own"
  for H :: "'c cli_host" and J own
proof
  show "az_removes J own res n a \<Longrightarrow> set n \<subseteq> set n' \<Longrightarrow> az_removes J own res n' a" for res n n' a by (rule az_removes_mono)
  have r: "quiet (harm az_destructive) R (runCLI H ctx ''az'' args)" if "\<not> az_destructive args" for R ctx args
    using that by (intro quiet_runCLI) (simp add: harm_def)
  show "logs R (azure_ListResources H J own ctx) (\<lambda>r n. list_all (\<lambda>a. \<not> az_destructive a) (cmds n))" for R ctx
    unfolding azure_ListResources_def listVMResources_def listDiskResources_def listPublicIPResources_def listSnapshotResources_def list_az_items_def
    by (rule quiet_harmless, auto intro!: quiet_intros quiet_best_effort r) (simp_all add: az_destructive_def)
  show "logs R (azure_DestroyResource H J own ctx res) (\<lambda>r n. isl r \<and> n = [])" if "\<not> DispatcherOwned res" for R ctx res
    using that by (auto simp: azure_DestroyResource_def Let_def intro!: logs_pfail)
  have del: "logs R (pbind (pwrap label (runCLI H ctx ''az'' args)) (\<lambda>_. pret ())) (\<lambda>r n. list_all (\<lambda>a. az_destructive a \<longrightarrow> az_removes J own res n a) (cmds n))"
    if "\<And>n. az_removes J own res n args" for R ctx label args res
    by (rule logs_weaken [OF logs_run_delete [unfolded run_delete_def]]) (simp add: that)
  show "logs R (azure_DestroyResource H J own ctx res) (\<lambda>r n. list_all (\<lambda>a. az_destructive a \<longrightarrow> az_removes J own res n a) (cmds n))" for R ctx res
    unfolding azure_DestroyResource_def Let_def
    by (rule logs_if, rule logs_pfail, simp, rule logs_if, rule logs_pfail, simp)
       (cases "ri_Kind res"; simp only: resource_kind.case;
         (rule az_destroy_machine, assumption, rule refl | rule del | rule logs_pfail); simp add: az_removes_def)
qed

section \<open>Garbage collection of an account\<close>

definition aws_account :: "'c cli_host \<Rightarrow> aws_json \<Rightarrow> aws_res_json \<Rightarrow> nat list \<Rightarrow> 'c pworld provider" where
  "aws_account H J RJ order =
     aws_provider H J (Some (\<lambda>ctx. as_call (aws_ListResources H RJ order ctx), \<lambda>ctx res. as_call (aws_DestroyResource H ctx res)))"

definition hetzner_account :: "'c cli_host \<Rightarrow> hetzner_json \<Rightarrow> hz_res_json \<Rightarrow> 'c pworld provider" where
  "hetzner_account H J RJ =
     hetzner_provider H J (Some (\<lambda>ctx. as_call (hetzner_ListResources H RJ ctx), \<lambda>ctx res. as_call (hetzner_DestroyResource H J ctx res)))"

definition gcp_account :: "'c cli_host \<Rightarrow> gcp_json \<Rightarrow> gcp_res_json \<Rightarrow> string \<Rightarrow> 'c pworld provider" where
  "gcp_account H J RJ project =
     gcp_provider H J project (Some (\<lambda>ctx. as_call (gcp_ListResources H RJ project ctx), \<lambda>ctx res. as_call (gcp_DestroyResource H project ctx res)))"

text \<open>An account, which commands remove something there, and which of them removing a resource may run.\<close>

inductive account_of :: "'c pworld provider \<Rightarrow> (string list \<Rightarrow> bool) \<Rightarrow> (resource_info \<Rightarrow> cli_log \<Rightarrow> string list \<Rightarrow> bool) \<Rightarrow> bool" where
  aws: "account_of (aws_account H J RJ order) aws_destructive aws_removes"
| hetzner: "account_of (hetzner_account H HJ HR) hz_destructive (hz_removes HJ)"
| gcp: "account_of (gcp_account H GJ GR project) gcp_destructive (gcp_removes project)"
| azure: "account_of (azure_provider H AJ rg) az_destructive (az_removes AJ rg)"

inductive_cases account_ofE: "account_of P destructive removes"


subsection \<open>An account with one machine of a run that is over\<close>

definition account_host :: "unit pworld host" where
  "account_host = \<lparr>ho_ssh = \<lambda>_ _ _ u. (([], None), u), ho_rsync = \<lambda>_ _ u. (None, u), ho_keygen = \<lambda>_ _ u. ((None, False), u),
     ho_keyscan = \<lambda>_ _ u. (Inr [], u), ho_sleep = \<lambda>_ _ u. (None, u), ho_polls = \<lambda>_ u. ((1, False), u),
     ho_ticks = \<lambda>u. (0, u), ho_now = \<lambda>_. 10, ho_write = \<lambda>_ _ u. ((None, False), u), ho_subdir = \<lambda>d. Inl ''no keys'',
     ho_mkdir = \<lambda>_ u. (None, u), ho_walk = \<lambda>_ _. [], ho_envFiles = \<lambda>_. EnvAbsent, ho_envOrder = \<lambda>_. [],
     ho_ignore = \<lambda>_. [], ho_marshal = \<lambda>_. Inr [], ho_unmarshal = \<lambda>_. Inl []\<rparr>"

definition account_world :: "unit pworld cworld" where
  "account_world = \<lparr>cw_out = world_ex ''us-east-1'', cw_files = [], cw_states = Map.empty, cw_region = [], cw_early = [], cw_destroy = None, cw_log = []\<rparr>"

definition aws_item_ex :: aws_item where
  "aws_item_ex = \<lparr>wi_Id = ''i-1'', wi_Type = ''t3.micro'', wi_State = ''running'', wi_Size = 0, wi_Association = [],
     wi_Tags = [(''dispatcher'', ''true''), (''dispatcher-run-id'', ''plan_0'')]\<rparr>"

definition aws_res_ex :: aws_res_json where
  "aws_res_ex = \<lparr>wr_regions = \<lambda>_. Inl ''eof'', wr_instances = \<lambda>_. Inr [[aws_item_ex]], wr_volumes = \<lambda>_. Inl ''eof'',
     wr_snapshots = \<lambda>_. Inl ''eof'', wr_addresses = \<lambda>_. Inl ''eof'', wr_groups = \<lambda>_. Inl ''eof''\<rparr>"

abbreviation aws_ex :: "unit pworld provider" where
  "aws_ex \<equiv> aws_account (host_ex 0 (\<lambda>_. ([], None))) aws_json_ex aws_res_ex []"

lemmas res_steps = enabledRegions_def listRegionResources_def aws_listInstanceResources_def aws_listVolumeResources_def aws_listSnapshotResources_def
  aws_listAddressResources_def listSecurityGroupResources_def listed_def listed_machines_def aws_res_ex_def aws_item_ex_def

lemma aws_list_ex:
  "\<exists>w'. aws_ListResources (host_ex 0 (\<lambda>_. ([], None))) aws_res_ex [] False (world_ex ''us-east-1'')
     = (Inr [aws_instance_resource ''us-east-1'' aws_item_ex], w')
    \<and> list_all (\<lambda>a. \<not> aws_destructive a) (cmds (pw_calls w'))"
  by (simp add: aws_ListResources_def res_steps run_steps aws_destructive_def cong: pbind_lazy)

lemma aws_del_ex:
  "\<exists>w'. aws_DestroyResource (host_ex 0 (\<lambda>_. ([], None))) False (aws_instance_resource ''us-east-1'' aws_item_ex) w = (Inr (), w')
    \<and> pw_calls w' = pw_calls w @ [(terminate_args ''us-east-1'' ''i-1'', Some [])]"
  by (simp add: aws_DestroyResource_def aws_instance_resource_def mk_resource_def aws_item_ex_def awsTagsToMap_def DispatcherOwned_def
      destroyArgsSafe_def aws_delete_args_def run_delete_def terminate_args_def run_steps cong: pbind_lazy)

lemma aws_ex_reapable: "reapable demo_gc_store [''run_0''] (aws_instance_resource ''us-east-1'' aws_item_ex)"
  by (simp add: reapable_def aws_instance_resource_def mk_resource_def aws_item_ex_def awsTagsToMap_def DispatcherOwned_def env_value_def
      demo_gc_records demo_done_record_def)

lemma aws_gc_ex:
  assumes "ta_durable (cloud_target aws_ex account_host demo_config) = Some du"
  shows "\<exists>out w'. gc account_host demo_gc_flags False ([], True) None demo_gc_store [(''aws-vm'', du)] account_world
       = (Ret (out, [(aws_instance_resource ''us-east-1'' aws_item_ex, None)]), w')
     \<and> terminate_args ''us-east-1'' ''i-1'' \<in> set (cmds (pw_calls (cw_out w')))"
proof -
  let ?res = "aws_instance_resource ''us-east-1'' aws_item_ex"
  have du: "du_ListResources du = cloud_ListResources aws_ex demo_config" "du_DestroyResource du = cloud_DestroyResource aws_ex demo_config"
    using assms by (auto simp: cloud_target_def)
  have pv: "pv_Resources aws_ex = Some (\<lambda>ctx. as_call (aws_ListResources (host_ex 0 (\<lambda>_. ([], None))) aws_res_ex [] ctx),
      \<lambda>ctx res. as_call (aws_DestroyResource (host_ex 0 (\<lambda>_. ([], None))) ctx res))"
    by (simp add: aws_account_def aws_provider_def)
  obtain v where v: "aws_ListResources (host_ex 0 (\<lambda>_. ([], None))) aws_res_ex [] False (world_ex ''us-east-1'') = (Inr [?res], v)"
    using aws_list_ex by blast
  obtain u where u: "aws_DestroyResource (host_ex 0 (\<lambda>_. ([], None))) False ?res v = (Inr (), u)"
    "pw_calls u = pw_calls v @ [(terminate_args ''us-east-1'' ''i-1'', Some [])]"
    using aws_del_ex by blast
  have own: "DispatcherOwned ?res" "ri_RunID ?res = ''plan_0''" using aws_ex_reapable
    by (simp_all add: reapable_def aws_instance_resource_def mk_resource_def aws_item_ex_def awsTagsToMap_def env_value_def)
  have out: "cw_out account_world = world_ex ''us-east-1''" by (simp add: account_world_def)
  have c: "classify_resource (gc_guards demo_gc_store [''run_0'']) ?res = GcOrphan" using aws_ex_reapable by (simp add: classify_orphan_iff)
  have l: "cloud_ListResources aws_ex demo_config False account_world = (Ret [?res], account_world\<lparr>cw_out := v\<rparr>)"
    by (simp add: cloud_ListResources_def pv cext_def as_call_def v out)
  have d: "cloud_DestroyResource aws_ex demo_config False ?res (account_world\<lparr>cw_out := v\<rparr>) = (Ret (), account_world\<lparr>cw_out := u\<rparr>)"
    by (simp add: cloud_DestroyResource_def pv cext_def as_call_def u own)
  have k: "RemoveRunKeyFiles account_host ''plan_0'' = cret ()"
    by (simp add: RemoveRunKeyFiles_def account_host_def)
  show ?thesis
    by (simp add: gc_def demo_gc_records demo_gc_flags_def cbind_def ctry_def cret_def Let_def du l d c k own RepriceInstancesLive_def scan_resource_def u)
qed


section \<open>No machine of a region that answers is missed\<close>

definition describe_args :: "string \<Rightarrow> string list" where
  "describe_args region = [''ec2'', ''describe-instances'', ''--region'', region, ''--output'', ''json'']"

definition describes :: "string list \<times> string option \<Rightarrow> (string list \<times> string option) list" where
  "describes c = (if take 2 (fst c) = [''ec2'', ''describe-instances''] then [c] else [])"

definition live_instances :: "string \<Rightarrow> aws_item list list \<Rightarrow> resource_info set" where
  "live_instances region rs =
     aws_instance_resource region ` {i \<in> set (concat rs). wi_State i \<noteq> ''terminated'' \<and> wi_State i \<noteq> ''shutting-down''}"

definition covered :: "aws_res_json \<Rightarrow> resource_info list \<Rightarrow> cli_log \<Rightarrow> bool" where
  "covered J found n \<longleftrightarrow> (\<forall>region out rs x. (describe_args region, Some out) \<in> set n \<longrightarrow> wr_instances J out = Inr rs \<longrightarrow> x \<in> live_instances region rs \<longrightarrow> x \<in> set found)"

lemma best_effort_logs:
  assumes "\<forall>m\<in>set ms. quiet f R m"
  shows "logs R (best_effort ms out) (\<lambda>r n. picks f n = [] \<and> (\<exists>res. r = Inr res \<and> set out \<subseteq> set res))"
  using assms
proof (induction ms arbitrary: out)
  case (Cons m ms)
  let ?Q = "\<lambda>out r n. picks f n = [] \<and> (\<exists>res. r = Inr res \<and> set out \<subseteq> set res)"
  show ?case
    unfolding best_effort.simps
  proof (rule logs_pbind [where P = "\<lambda>r n. picks f n = [] \<and> \<not> isl r" and K = "\<lambda>_. ?Q out"])
    show "logs R (ptry m) (\<lambda>r n. picks f n = [] \<and> \<not> isl r)"
      by (rule logs_ptry) (use Cons.prems in \<open>simp add: quiet_def\<close>)
    show "logs R (best_effort ms (case r of Inl x \<Rightarrow> out | Inr rs \<Rightarrow> out @ rs)) (?Q out)" for r
      by (rule logs_weaken [OF Cons.IH]) (use Cons.prems in \<open>auto split: sum.splits\<close>)
  qed auto
qed (simp add: logs_pret)

lemma listed_machines_logs:
  "logs R (listed_machines H ctx bin args label what dec f) (\<lambda>r n. \<exists>x. n = [(args, x)] \<and> (\<forall>out xs. x = Some out \<and> dec out = Inr xs \<longrightarrow> r = Inr (f xs)))"
  by (auto simp: logs_def listed_machines_def pbind_def ptry_def runCLI_def exec_cli_def presult_def pwrap_def pret_def pfail_def
      split: prod.split sum.split option.split)

lemma covered_mono: "covered J found n \<Longrightarrow> set found \<subseteq> set found' \<Longrightarrow> covered J found' n"
  unfolding covered_def by blast

lemma covered_append [simp]: "covered J found (n @ n') \<longleftrightarrow> covered J found n \<and> covered J found n'"
  unfolding covered_def by auto

lemma live_instances_listed:
  "live_instances region rs = set (map (aws_instance_resource region) (filter (\<lambda>i. wi_State i \<noteq> ''terminated'' \<and> wi_State i \<noteq> ''shutting-down'') (concat rs)))"
  by (auto simp: live_instances_def)

definition answered :: "aws_res_json \<Rightarrow> cli_log \<Rightarrow> bool" where
  "answered J n \<longleftrightarrow> (\<exists>region out rs. (describe_args region, Some out) \<in> set n \<and> wr_instances J out = Inr rs)"

lemma answered_append [simp]: "answered J (n @ n') \<longleftrightarrow> answered J n \<or> answered J n'"
  unfolding answered_def by auto

lemma region_logs:
  "logs R (listRegionResources H J ctx region) (\<lambda>r n. covered J (case r of Inl _ \<Rightarrow> [] | Inr found \<Rightarrow> found) (picks describes n)
     \<and> (answered J (picks describes n) \<longrightarrow> \<not> isl r) \<and> (\<exists>x. (describe_args region, x) \<in> set n))"
  unfolding listRegionResources_def aws_listInstanceResources_def
proof (rule logs_pbind [OF listed_machines_logs])
  show "logs R (best_effort [aws_listVolumeResources H J ctx region, aws_listSnapshotResources H J ctx region,
      aws_listAddressResources H J ctx region, listSecurityGroupResources H J ctx region] out)
    (\<lambda>r n. picks describes n = [] \<and> (\<exists>res. r = Inr res \<and> set out \<subseteq> set res))" for out
    by (rule best_effort_logs)
       (auto intro!: quiet_intros quiet_runCLI simp: aws_listVolumeResources_def aws_listSnapshotResources_def aws_listAddressResources_def
          listSecurityGroupResources_def listed_def describes_def)
qed (auto simp: describes_def covered_def answered_def describe_args_def live_instances_listed simp del: set_map, erule (1) subsetD)

text \<open>After a sweep: everything found is kept, the failed regions are counted, and each region was asked.\<close>

definition swept :: "aws_res_json \<Rightarrow> string list \<Rightarrow> resource_info list \<times> nat \<Rightarrow> cli_err + resource_info list \<times> nat \<Rightarrow> cli_log \<Rightarrow> bool" where
  "swept J rs acc r n \<longleftrightarrow> (\<exists>found k. r = Inr (found, k) \<and> set (fst acc) \<subseteq> set found \<and> covered J found (picks describes n)
     \<and> k \<le> snd acc + length rs \<and> (answered J (picks describes n) \<longrightarrow> k < snd acc + length rs)
     \<and> (\<forall>region \<in> set rs. \<exists>x. (describe_args region, x) \<in> set n))"

lemma sweep_logs: "logs R (sweep_regions H J ctx rs acc) (swept J rs acc)"
proof (induction rs arbitrary: acc)
  case Nil
  show ?case by (cases acc) (auto intro!: logs_pret simp: swept_def covered_def answered_def)
next
  case (Cons region rs)
  let ?acc = "\<lambda>x. case x of Inl _ \<Rightarrow> (fst acc, Suc (snd acc)) | Inr res \<Rightarrow> (fst acc @ res, snd acc)"
  let ?P = "\<lambda>q n. covered J (case q of Inl _ \<Rightarrow> [] | Inr found \<Rightarrow> found) (picks describes n)
     \<and> (answered J (picks describes n) \<longrightarrow> \<not> isl q) \<and> (\<exists>x. (describe_args region, x) \<in> set n)"
  show ?case
    unfolding sweep_regions.simps
  proof (rule logs_pbind [where P = "\<lambda>x n. \<exists>q. x = Inr q \<and> ?P q n" and K = "\<lambda>q. swept J rs (?acc q)"], goal_cases)
    case 1
    show ?case by (rule logs_ptry) (simp add: region_logs)
  next
    case 2
    show ?case by (rule Cons.IH)
  next
    case (4 q n r n')
    then have p: "?P q n" and sw: "swept J rs (?acc q) r n'" by simp_all
    from sw obtain found k where r: "r = Inr (found, k)" "set (fst (?acc q)) \<subseteq> set found" "covered J found (picks describes n')"
      "k \<le> snd (?acc q) + length rs" "answered J (picks describes n') \<longrightarrow> k < snd (?acc q) + length rs"
      "\<forall>region \<in> set rs. \<exists>x. (describe_args region, x) \<in> set n'" unfolding swept_def by blast
    have "set (fst acc) \<subseteq> set found" "set (case q of Inl _ \<Rightarrow> [] | Inr xs \<Rightarrow> xs) \<subseteq> set found" using r(2) by (cases q; simp)+
    moreover have "covered J found (picks describes n)" using p calculation(2) by (blast intro: covered_mono)
    moreover have "k \<le> snd acc + length (region # rs)" "answered J (picks describes (n @ n')) \<longrightarrow> k < snd acc + length (region # rs)"
      using p r(4,5) by (cases q; auto)+
    moreover have "\<forall>z \<in> set (region # rs). \<exists>x. (describe_args z, x) \<in> set (n @ n')" using p r(6) by auto
    ultimately show ?case using r(1,3) unfolding swept_def by simp
  qed simp
qed

lemma listing_logs:
  assumes "length order = length regions" "set order = set regions"
  shows "logs R (pbind (sweep_regions H J ctx order ([], 0)) (\<lambda>(found, errored).
      if errored = length regions then pfail e else pret found))
    (\<lambda>r n. (answered J (picks describes n) \<longrightarrow> (\<exists>found. r = Inr found \<and> covered J found (picks describes n)))
      \<and> (\<forall>region \<in> set regions. \<exists>x. (describe_args region, x) \<in> set n))"
proof (rule logs_pbind [OF sweep_logs, where K = "\<lambda>a r n. n = [] \<and> (snd a \<noteq> length regions \<longrightarrow> r = Inr (fst a))"])
  show "logs R (case a of (found, errored) \<Rightarrow> if errored = length regions then pfail e else pret found)
      (\<lambda>r n. n = [] \<and> (snd a \<noteq> length regions \<longrightarrow> r = Inr (fst a)))" for a
    by (cases a) (simp add: logs_pfail logs_pret)
qed (use assms in \<open>auto simp: swept_def\<close>)

lemma describes_kept: "(describe_args region, x) \<in> set n \<Longrightarrow> (describe_args region, x) \<in> set (picks describes n)"
  by (induction n) (auto simp: describes_def describe_args_def)

text \<open>
  C18: Listing the resources of an AWS account misses no machine. Every enabled region is asked, in whatever
  order the answers arrive; as soon as one region reports its instances the listing succeeds, whatever
  fails in the other regions and for the other kinds of resources; and every instance that some region
  reported and that is not terminated or shutting down is on the list.
\<close>

theorem aws_list_complete:
  assumes "enabledRegions H J ctx w = (Inr regions, w1)" and "aws_ListResources H J order ctx w = (r, w')"
  shows "\<exists>new. pw_calls w' = pw_calls w @ new
    \<and> (\<forall>region \<in> set regions. \<exists>x. ([''ec2'', ''describe-instances'', ''--region'', region, ''--output'', ''json''], x) \<in> set new)
    \<and> (\<forall>region out rs. ([''ec2'', ''describe-instances'', ''--region'', region, ''--output'', ''json''], Some out) \<in> set new \<and> wr_instances J out = Inr rs
         \<longrightarrow> (\<exists>found. r = Inr found \<and> (\<forall>i \<in> set (concat rs). wi_State i \<notin> {''terminated'', ''shutting-down''}
                \<longrightarrow> aws_instance_resource region i \<in> set found)))"
proof -
  have "quiet describes R (enabledRegions H J ctx)" for R
    unfolding enabledRegions_def by (intro quiet_intros quiet_runCLI) (simp add: describes_def)
  from logsD [OF quiet_logs [OF this] assms(1) refl] obtain n1 where n1: "pw_calls w1 = pw_calls w @ n1" "picks describes n1 = []" by blast
  from assms have "pbind (sweep_regions H J ctx (arrival_order order regions) ([], 0)) (\<lambda>(found, errored).
      if errored = length regions
      then pfail (plain_err (''aws: could not enumerate resources in any of '' @ show_int (int (length regions)) @ '' region(s)''))
      else pret found) w1 = (r, w')"
    by (simp add: aws_ListResources_def pbind_def)
  from logsD [OF listing_logs this refl] obtain n2 where n2: "pw_calls w' = pw_calls w1 @ n2"
    "answered J (picks describes n2) \<longrightarrow> (\<exists>found. r = Inr found \<and> covered J found (picks describes n2))"
    "\<forall>region \<in> set regions. \<exists>x. (describe_args region, x) \<in> set n2" by (auto simp: aws_ListResources_def)
  have all: "\<exists>found. r = Inr found \<and> (\<forall>i \<in> set (concat rs). wi_State i \<notin> {''terminated'', ''shutting-down''} \<longrightarrow> aws_instance_resource region i \<in> set found)"
    if l: "(describe_args region, Some out) \<in> set (n1 @ n2)" and d: "wr_instances J out = Inr rs" for region out rs
  proof -
    have l2: "(describe_args region, Some out) \<in> set (picks describes n2)" using describes_kept [OF l] n1(2) by simp
    with d n2(2) obtain found where "r = Inr found" "covered J found (picks describes n2)" unfolding answered_def by blast
    with l2 d show ?thesis unfolding covered_def live_instances_def by fastforce
  qed
  have "pw_calls w' = pw_calls w @ (n1 @ n2)" "\<forall>region \<in> set regions. \<exists>x. (describe_args region, x) \<in> set (n1 @ n2)"
    using n1(1) n2(1,3) by auto
  with all show ?thesis unfolding describe_args_def by blast
qed

text \<open>Two regions, the first of which fails.\<close>

definition one_region_down :: "string list \<Rightarrow> string \<times> cli_err option" where
  "one_region_down args = ([], if ''eu-west-1'' \<in> set args then Some (plain_err ''timed out'') else None)"

definition two_regions :: aws_res_json where
  "two_regions = aws_res_ex\<lparr>wr_regions := \<lambda>_. Inr [''eu-west-1'', ''us-east-1'']\<rparr>"

theorem aws_list_complete_witness:
  "\<exists>found w'. aws_ListResources (host_ex 0 one_region_down) two_regions [1] False (world_ex ''us-east-1'') = (Inr found, w')
     \<and> aws_instance_resource ''us-east-1'' aws_item_ex \<in> set found
     \<and> ([''ec2'', ''describe-instances'', ''--region'', ''eu-west-1'', ''--output'', ''json''], None) \<in> set (pw_calls w')"
proof -
  let ?H = "host_ex 0 one_region_down" and ?w = "world_ex ''us-east-1''"
  let ?up = "([''ec2'', ''describe-instances'', ''--region'', ''us-east-1'', ''--output'', ''json''], Some [])"
  let ?down = "([''ec2'', ''describe-instances'', ''--region'', ''eu-west-1'', ''--output'', ''json''], None)"
  have "\<exists>w1. enabledRegions ?H two_regions False ?w = (Inr [''eu-west-1'', ''us-east-1''], w1)"
    by (simp add: two_regions_def one_region_down_def res_steps run_steps cong: pbind_lazy)
  then obtain w1 where regs: "enabledRegions ?H two_regions False ?w = (Inr [''eu-west-1'', ''us-east-1''], w1)" by blast
  obtain r w' where run: "aws_ListResources ?H two_regions [1] False ?w = (r, w')" by force
  have "?up \<in> set (pw_calls (snd (aws_ListResources ?H two_regions [1] False ?w)))"
    "?down \<in> set (pw_calls (snd (aws_ListResources ?H two_regions [1] False ?w)))"
    by (simp_all add: aws_ListResources_def two_regions_def one_region_down_def res_steps run_steps world_calls cong: pbind_lazy)
  then have c: "?up \<in> set (pw_calls w')" "?down \<in> set (pw_calls w')" unfolding run by simp_all
  have d: "wr_instances two_regions [] = Inr [[aws_item_ex]]" "wi_State aws_item_ex \<notin> {''terminated'', ''shutting-down''}"
    by (simp_all add: two_regions_def aws_res_ex_def aws_item_ex_def)
  from aws_list_complete [OF regs run] c(1) d(1) obtain found where r: "r = Inr found"
    "\<forall>i \<in> set (concat [[aws_item_ex]]). wi_State i \<notin> {''terminated'', ''shutting-down''} \<longrightarrow> aws_instance_resource ''us-east-1'' i \<in> set found"
    unfolding world_calls append_Nil by blast
  then have "aws_instance_resource ''us-east-1'' aws_item_ex \<in> set found" using d(2) by simp
  with run r(1) c(2) show ?thesis by blast
qed

end
