(* ===== verification/Log_Drain.thy ===== *)
theory Log_Drain
  imports Adapter_Iface
begin

text \<open>
  The output pipe of a local run (\<^verbatim>\<open>LocalAdapter.Status\<close> and \<^verbatim>\<open>Logs\<close>, \<^verbatim>\<open>internal/adapter/local.go\<close>): the
  workload writes into a pipe of bounded capacity, one goroutine copies it to the run's log, and
  \<^verbatim>\<open>Status\<close> waits for the process, closes the write end, waits for the copy and closes the read end. The
  critical sections of both methods are functions; the workload, the goroutine and the callers
  interleave as a step relation.
\<close>

section \<open>State\<close>

text \<open>
  \<open>dr_left\<close> is what the workload has yet to write, \<open>dr_buf\<close> what is in the pipe, \<open>dr_copied\<close> what has been taken out
  of it; \<open>dr_readers\<close> counts the goroutines that copy, \<open>dr_closes\<close> how often \<^verbatim>\<open>logDone\<close> was closed. \<open>dr_pc\<close> is where
  \<^verbatim>\<open>Status\<close> is.
\<close>

datatype status_pc = SIdle | SWait | SAwait bool | SReturned run_state

record local_pipe =
  dr_left :: nat
  dr_buf :: nat
  dr_copied :: nat
  dr_exit :: "int option"
  dr_outW :: bool
  dr_outR :: bool
  dr_logStarted :: bool
  dr_readers :: nat
  dr_closes :: nat
  dr_pc :: status_pc

definition pipe_capacity :: nat where "pipe_capacity = 65536"

text \<open>What \<^verbatim>\<open>Execute\<close> leaves behind for a workload that writes \<open>n\<close> bytes.\<close>

definition local_started :: "nat \<Rightarrow> local_pipe" where
  "local_started n = \<lparr>dr_left = n, dr_buf = 0, dr_copied = 0, dr_exit = None, dr_outW = True, dr_outR = True,
     dr_logStarted = False, dr_readers = 0, dr_closes = 0, dr_pc = SIdle\<rparr>"

section \<open>Critical sections\<close>

definition start_copy :: "local_pipe \<Rightarrow> local_pipe" where
  "start_copy s = s\<lparr>dr_logStarted := True, dr_readers := dr_readers s + 1\<rparr>"

definition local_Logs :: "bool \<Rightarrow> local_pipe \<Rightarrow> local_pipe" where
  "local_Logs has_writer s =
     (if \<not> dr_outR s \<or> \<not> has_writer then s else if dr_logStarted s then s else start_copy s)"

definition status_drain :: "local_pipe \<Rightarrow> local_pipe" where
  "status_drain s = (if \<not> dr_logStarted s \<and> dr_outR s then start_copy s else s)\<lparr>dr_pc := SWait\<rparr>"

definition status_waited :: "local_pipe \<Rightarrow> local_pipe" where
  "status_waited s = s\<lparr>dr_outW := False, dr_pc := SAwait (dr_logStarted s)\<rparr>"

definition status_return :: "int \<Rightarrow> local_pipe \<Rightarrow> local_pipe" where
  "status_return code s =
     s\<lparr>dr_outR := False, dr_pc := SReturned (if code \<noteq> 0 then RunStateExecutionFailed else RunStateCompleted)\<rparr>"

text \<open>The end of a copying goroutine.\<close>

definition copy_done :: "local_pipe \<Rightarrow> local_pipe" where
  "copy_done s = s\<lparr>dr_readers := dr_readers s - 1, dr_closes := dr_closes s + 1\<rparr>"

section \<open>Interleaving\<close>

text \<open>
  A write blocks while the pipe is full. A copy ends at the end of the file, which it sees once the process has
  exited and the parent's write end is closed; it also ends when the log's writer fails, which only a
  copy into a writer can (\<open>SinkFails\<close>). \<open>Killed\<close> is the end of the process by a signal. The workload leaves no
  process behind that holds the pipe.
\<close>

datatype drain_event =
    Writes | Exits int | Killed | Copies | SinkFails | Eof | CallLogs bool | StatusDrains | StatusWaited | StatusReturns

fun drain_fire :: "drain_event \<Rightarrow> local_pipe \<Rightarrow> local_pipe option" where
  "drain_fire Writes s =
     (if dr_exit s = None \<and> 0 < dr_left s \<and> dr_buf s < pipe_capacity
      then Some (s\<lparr>dr_left := dr_left s - 1, dr_buf := dr_buf s + 1\<rparr>) else None)"
| "drain_fire (Exits code) s =
     (if dr_exit s = None \<and> dr_left s = 0 \<and> 0 \<le> code then Some (s\<lparr>dr_exit := Some code\<rparr>) else None)"
| "drain_fire Killed s = (if dr_exit s = None then Some (s\<lparr>dr_exit := Some (- 1), dr_left := 0\<rparr>) else None)"
| "drain_fire Copies s =
     (if 0 < dr_readers s \<and> 0 < dr_buf s then Some (s\<lparr>dr_buf := dr_buf s - 1, dr_copied := dr_copied s + 1\<rparr>) else None)"
| "drain_fire SinkFails s = (if 0 < dr_readers s \<and> 0 < dr_buf s then Some (copy_done s) else None)"
| "drain_fire Eof s =
     (if 0 < dr_readers s \<and> dr_buf s = 0 \<and> dr_exit s \<noteq> None \<and> \<not> dr_outW s then Some (copy_done s) else None)"
| "drain_fire (CallLogs w) s = Some (local_Logs w s)"
| "drain_fire StatusDrains s = (if dr_pc s = SIdle then Some (status_drain s) else None)"
| "drain_fire StatusWaited s = (if dr_pc s = SWait \<and> dr_exit s \<noteq> None then Some (status_waited s) else None)"
| "drain_fire StatusReturns s =
     (case (dr_pc s, dr_exit s) of
        (SAwait waitFor, Some code) \<Rightarrow> if waitFor \<longrightarrow> 0 < dr_closes s then Some (status_return code s) else None
      | _ \<Rightarrow> None)"

text \<open>\<open>drained n bad s\<close>: a run that writes \<open>n\<close> bytes can reach \<open>s\<close>; \<open>bad\<close> says whether the log's writer failed on the way.\<close>

inductive drained :: "nat \<Rightarrow> bool \<Rightarrow> local_pipe \<Rightarrow> bool" for n where
  start: "drained n False (local_started n)"
| step: "drained n bad s \<Longrightarrow> drain_fire e s = Some s' \<Longrightarrow> drained n (bad \<or> e = SinkFails) s'"

section \<open>Safety\<close>

definition waits_for_end :: "status_pc \<Rightarrow> bool" where
  "waits_for_end pc \<longleftrightarrow> (case pc of SAwait b \<Rightarrow> b | SReturned _ \<Rightarrow> True | _ \<Rightarrow> False)"

definition returned :: "status_pc \<Rightarrow> bool" where
  "returned pc \<longleftrightarrow> (case pc of SReturned _ \<Rightarrow> True | _ \<Rightarrow> False)"

definition drain_inv :: "nat \<Rightarrow> bool \<Rightarrow> local_pipe \<Rightarrow> bool" where
  "drain_inv n bad s \<longleftrightarrow>
     dr_readers s + dr_closes s = (if dr_logStarted s then 1 else 0)
     \<and> (dr_pc s = SIdle \<or> dr_logStarted s)
     \<and> dr_outR s = (\<not> returned (dr_pc s))
     \<and> dr_outW s = (dr_pc s = SIdle \<or> dr_pc s = SWait)
     \<and> (dr_outW s \<or> waits_for_end (dr_pc s) \<and> dr_exit s \<noteq> None)
     \<and> (returned (dr_pc s) \<longrightarrow> dr_closes s = 1)
     \<and> dr_buf s \<le> pipe_capacity
     \<and> (dr_exit s \<noteq> None \<longrightarrow> dr_left s = 0)
     \<and> (dr_exit s \<noteq> Some (- 1) \<longrightarrow> dr_copied s + dr_buf s + dr_left s = n)
     \<and> (dr_closes s = 1 \<and> \<not> bad \<longrightarrow> dr_buf s = 0 \<and> dr_exit s \<noteq> None)
     \<and> (dr_pc s = SReturned RunStateCompleted \<longrightarrow> dr_exit s = Some 0)"

lemmas drain_defs = local_Logs_def start_copy_def status_drain_def status_waited_def status_return_def copy_done_def
  waits_for_end_def returned_def

lemma drain_inv_start: "drain_inv n False (local_started n)"
  by (simp add: drain_inv_def local_started_def drain_defs)

lemma StatusReturns_fire:
  "drain_fire StatusReturns s = Some s' \<longleftrightarrow>
     (\<exists>b code. dr_pc s = SAwait b \<and> dr_exit s = Some code \<and> (b \<longrightarrow> 0 < dr_closes s) \<and> s' = status_return code s)"
  by (cases "dr_pc s"; cases "dr_exit s") auto

declare drain_fire.simps(10) [simp del]

lemma status_return_inv:
  assumes "drain_inv n bad s" "dr_pc s = SAwait b" "dr_exit s = Some code" "b \<longrightarrow> 0 < dr_closes s"
  shows "drain_inv n bad (status_return code s)"
  using assms unfolding drain_inv_def by (auto simp: drain_defs split: if_splits)

lemma other_inv_step:
  "drain_inv n bad s \<Longrightarrow> drain_fire e s = Some s' \<Longrightarrow> e \<noteq> StatusReturns \<Longrightarrow> drain_inv n (bad \<or> e = SinkFails) s'"
  by (erule drain_fire.elims) (cases "dr_pc s"; auto simp: drain_inv_def drain_defs split: if_splits; fail)+

lemma drain_inv_step:
  assumes "drain_inv n bad s" "drain_fire e s = Some s'"
  shows "drain_inv n (bad \<or> e = SinkFails) s'"
proof (cases "e = StatusReturns")
  case True
  with assms show ?thesis by (auto simp: StatusReturns_fire status_return_inv)
next
  case False
  with assms show ?thesis by (rule other_inv_step)
qed

lemma drained_inv: "drained n bad s \<Longrightarrow> drain_inv n bad s"
  by (induction rule: drained.induct) (auto intro: drain_inv_start drain_inv_step)

section \<open>Progress\<close>

definition drain_measure :: "local_pipe \<Rightarrow> nat" where
  "drain_measure s =
     2 * dr_left s + dr_buf s + (if dr_exit s = None then 1 else 0) + (if dr_logStarted s then 0 else 2) + dr_readers s
     + (case dr_pc s of SIdle \<Rightarrow> 3 | SWait \<Rightarrow> 2 | SAwait _ \<Rightarrow> 1 | SReturned _ \<Rightarrow> 0)"

lemma copy_done_less: "0 < dr_readers s \<Longrightarrow> drain_measure (copy_done s) < drain_measure s"
  by (simp add: drain_measure_def copy_done_def)

lemma local_Logs_less: "local_Logs w s = s \<or> drain_measure (local_Logs w s) < drain_measure s"
  by (cases "dr_logStarted s") (simp_all add: local_Logs_def start_copy_def drain_measure_def)

lemma status_return_less: "dr_pc s = SAwait b \<Longrightarrow> drain_measure (status_return c s) < drain_measure s"
  by (simp add: drain_measure_def status_return_def)

lemma status_less:
  "dr_pc s = SIdle \<Longrightarrow> drain_measure (status_drain s) < drain_measure s"
  "dr_pc s = SWait \<Longrightarrow> drain_measure (status_waited s) < drain_measure s"
  by (simp_all add: drain_measure_def status_drain_def status_waited_def start_copy_def)

lemma own_less:
  "e \<noteq> StatusReturns \<Longrightarrow> (\<forall>w. e \<noteq> CallLogs w) \<Longrightarrow> drain_fire e s = Some s' \<Longrightarrow> drain_measure s' < drain_measure s"
  by (cases e) (auto simp: copy_done_less status_less split: if_splits, simp_all add: drain_measure_def)

lemma drain_measure_step: "drain_fire e s = Some s' \<Longrightarrow> s' = s \<or> drain_measure s' < drain_measure s"
  using own_less [of e s s'] local_Logs_less [of "the (case e of CallLogs w \<Rightarrow> Some w | _ \<Rightarrow> None)" s] status_return_less [of s]
  by (cases "e = StatusReturns"; cases "\<exists>w. e = CallLogs w") (auto simp: StatusReturns_fire)

definition own_event :: "drain_event \<Rightarrow> bool" where
  "own_event e \<longleftrightarrow> (case e of Killed \<Rightarrow> False | SinkFails \<Rightarrow> False | CallLogs _ \<Rightarrow> False | _ \<Rightarrow> True)"

lemma drain_progress:
  assumes i: "drain_inv n False s" and r: "\<not> returned (dr_pc s)"
  shows "\<exists>e s'. own_event e \<and> drain_fire e s = Some s'"
proof (cases "dr_pc s")
  case SIdle
  then have "own_event StatusDrains \<and> drain_fire StatusDrains s = Some (status_drain s)" by (simp add: own_event_def)
  then show ?thesis by blast
next
  case SWait
  show ?thesis
  proof (cases "dr_exit s")
    case (Some c)
    with SWait have "own_event StatusWaited \<and> drain_fire StatusWaited s = Some (status_waited s)" by (simp add: own_event_def)
    then show ?thesis by blast
  next
    case None
    with i SWait have rd: "dr_readers s = 1" by (auto simp: drain_inv_def split: if_splits)
    consider "dr_left s = 0" | "0 < dr_left s" "dr_buf s < pipe_capacity" | "0 < dr_buf s"
      by (cases "dr_buf s") (auto simp: pipe_capacity_def)
    then show ?thesis
    proof cases
      case 1
      with None have "own_event (Exits 0) \<and> drain_fire (Exits 0) s = Some (s\<lparr>dr_exit := Some 0\<rparr>)" by (simp add: own_event_def)
      then show ?thesis by blast
    next
      case 2
      with None have "own_event Writes \<and> drain_fire Writes s \<noteq> None" by (simp add: own_event_def)
      then show ?thesis by blast
    next
      case 3
      with rd have "own_event Copies \<and> drain_fire Copies s \<noteq> None" by (simp add: own_event_def)
      then show ?thesis by blast
    qed
  qed
next
  case (SAwait b)
  with i have s: "b" "dr_exit s \<noteq> None" "\<not> dr_outW s" "dr_readers s + dr_closes s = 1"
    by (auto simp: drain_inv_def waits_for_end_def split: if_splits)
  then obtain c where c: "dr_exit s = Some c" by auto
  consider "0 < dr_closes s" | "dr_readers s = 1" "0 < dr_buf s" | "dr_readers s = 1" "dr_buf s = 0"
    using s(4) by (cases "dr_buf s"; cases "dr_closes s") auto
  then show ?thesis
  proof cases
    case 1
    with SAwait c have "own_event StatusReturns \<and> drain_fire StatusReturns s = Some (status_return c s)"
      by (simp add: own_event_def StatusReturns_fire)
    then show ?thesis by blast
  next
    case 2
    then have "own_event Copies \<and> drain_fire Copies s \<noteq> None" by (simp add: own_event_def)
    then show ?thesis by blast
  next
    case 3
    with s have "own_event Eof \<and> drain_fire Eof s \<noteq> None" by (simp add: own_event_def)
    then show ?thesis by blast
  qed
next
  case (SReturned x)
  with r show ?thesis by (simp add: returned_def)
qed


text \<open>
  The output pipe of a local run is handled correctly whatever the interleaving. At most one
  goroutine ever copies it, so that \<^verbatim>\<open>logDone\<close> is closed at most once and never again; nobody reads once the
  read end is closed; and when \<^verbatim>\<open>Status\<close> has returned, every byte the workload wrote has been read, so that the log of a
  completed run holds its whole output.
\<close>

theorem local_output_complete:
  assumes "drained n bad s"
  shows "dr_readers s + dr_closes s \<le> 1 \<and> (dr_outR s \<or> dr_readers s = 0)
    \<and> (\<not> bad \<and> returned (dr_pc s) \<longrightarrow> dr_buf s = 0)
    \<and> (\<not> bad \<and> dr_pc s = SReturned RunStateCompleted \<longrightarrow> dr_copied s = n)"
  using drained_inv [OF assms] by (auto simp: drain_inv_def returned_def split: if_splits)

text \<open>
  C20: As long as writing the log never fails, and no process the workload leaves behind holds the pipe open after its exit,
  \<^verbatim>\<open>Status\<close> of a local run never deadlocks on the pipe, however much the workload writes and whether or not
  anybody asked for the logs: as long as it has not returned, the workload, the copying goroutine or \<^verbatim>\<open>Status\<close>
  itself can take a step, and no run of steps goes on forever. The pipe's capacity does not bound the output. Without
  the first condition it can deadlock, as \<open>log_failure_blocks\<close> below shows; the second is part of the model, in which
  the pipe is at its end once the workload has exited and the buffer is empty.
\<close>

theorem local_status_live:
  "wf {(s', s). s' \<noteq> s \<and> (\<exists>e. drain_fire e s = Some s')}
   \<and> (drained n False s \<longrightarrow> (\<exists>st. dr_pc s = SReturned st) \<or> (\<exists>e s'. own_event e \<and> drain_fire e s = Some s'))"
proof
  show "wf {(s', s). s' \<noteq> s \<and> (\<exists>e. drain_fire e s = Some s')}"
    by (rule wf_subset [OF wf_measure [of drain_measure]]) (auto dest: drain_measure_step)
  show "drained n False s \<longrightarrow> (\<exists>st. dr_pc s = SReturned st) \<or> (\<exists>e s'. own_event e \<and> drain_fire e s = Some s')"
    using drain_progress [OF drained_inv, of n s] by (cases "dr_pc s") (auto simp: returned_def)
qed

theorem local_status_live_witness:
  "(\<exists>st. dr_pc (local_started 100000) = SReturned st)
   \<or> (\<exists>e s'. own_event e \<and> drain_fire e (local_started 100000) = Some s')"
  using local_status_live [of 100000 "local_started 100000"] drained.start [of 100000] by simp

section \<open>A failing log\<close>

lemma drained_writes:
  "drained n bad s \<Longrightarrow> dr_exit s = None \<Longrightarrow> k \<le> dr_left s \<Longrightarrow> dr_buf s + k \<le> pipe_capacity \<Longrightarrow>
   drained n bad (s\<lparr>dr_left := dr_left s - k, dr_buf := dr_buf s + k\<rparr>)"
proof (induction k)
  case (Suc k)
  let ?s = "s\<lparr>dr_left := dr_left s - k, dr_buf := dr_buf s + k\<rparr>"
  from Suc have "drain_fire Writes ?s = Some (s\<lparr>dr_left := dr_left s - Suc k, dr_buf := dr_buf s + Suc k\<rparr>)" by simp
  from drained.step [OF Suc.IH this] Suc.prems show ?case by simp
qed simp

text \<open>
  A log that cannot be written stops the run: when the log's writer fails while the workload still has more to write than
  the pipe holds, the copying goroutine ends, nothing reads the pipe any more, \<^verbatim>\<open>Status\<close> takes the drain to be
  in place, and from there on only killing the workload changes anything.
\<close>

theorem log_failure_blocks:
  assumes "pipe_capacity < n"
  shows "\<exists>s. drained n True s \<and> dr_pc s = SWait \<and> (\<forall>e s'. drain_fire e s = Some s' \<longrightarrow> e = Killed \<or> s' = s)"
proof -
  let ?a = "start_copy (local_started n)" let ?b = "?a\<lparr>dr_pc := SWait\<rparr>"
  let ?c = "?b\<lparr>dr_left := n - 1, dr_buf := 1\<rparr>" let ?d = "copy_done ?c"
  let ?e = "?d\<lparr>dr_left := n - pipe_capacity, dr_buf := pipe_capacity\<rparr>"
  have "drained n False ?a"
    using drained.step [OF drained.start, of "CallLogs True" n] by (simp add: local_Logs_def local_started_def)
  then have "drained n False ?b"
    using drained.step [of n False ?a StatusDrains] by (simp add: status_drain_def local_started_def start_copy_def)
  then have "drained n False ?c"
    using drained_writes [of n False ?b 1] assms by (simp add: local_started_def start_copy_def pipe_capacity_def)
  then have d: "drained n True ?d"
    using drained.step [of n False ?c SinkFails] by (simp add: local_started_def start_copy_def)
  have "drained n True ?e"
    using drained_writes [OF d, of "pipe_capacity - 1"] assms
    by (simp add: local_started_def start_copy_def copy_done_def pipe_capacity_def)
  moreover have "e = Killed \<or> s' = ?e" if "drain_fire e ?e = Some s'" for e s'
    using that assms
    by (cases e) (auto simp: local_started_def start_copy_def copy_done_def local_Logs_def StatusReturns_fire split: if_splits)
  ultimately show ?thesis
    by (intro exI [of _ ?e]) (auto simp: copy_done_def start_copy_def local_started_def)
qed

theorem log_failure_blocks_witness:
  "\<exists>s. drained 65537 True s \<and> dr_pc s = SWait \<and> (\<forall>e s'. drain_fire e s = Some s' \<longrightarrow> e = Killed \<or> s' = s)"
  by (rule log_failure_blocks) (simp add: pipe_capacity_def)

end
