(* ===== verification/Build_Cache.thy ===== *)
theory Build_Cache
  imports Workload_Inspect
begin

text \<open>
  The key under which a built image is reused (\<^verbatim>\<open>internal/adapter/buildcache.go\<close>): a hash of the Dockerfile and
  of the source tree, each field preceded by its length. The hash function is an argument. Shown is that the
  bytes hashed determine the Dockerfile and every file's path, mode and content.
\<close>

section \<open>Source trees\<close>

text \<open>
  A tree as \<^verbatim>\<open>filepath.WalkDir\<close> meets it: directories with their entries in the order of their names, or the
  error of reading them; anything else with its mode and what reading it gives (the content of a file, the target of a link); or
  an entry that cannot be looked at.
\<close>

datatype tree_node =
    TDir "(string \<times> tree_node) list result"
  | TLeaf "32 word" "string result"
  | TNoInfo string

definition ModeSymlink :: "32 word" where "ModeSymlink = 0x08000000"
definition ModeNamedPipe :: "32 word" where "ModeNamedPipe = 0x02000000"
definition ModeType :: "32 word" where "ModeType = 0x8F280000"

definition is_symlink :: "32 word \<Rightarrow> bool" where
  "is_symlink mode = (and mode ModeSymlink \<noteq> 0)"

definition IsRegular :: "32 word \<Rightarrow> bool" where
  "IsRegular mode = (and mode ModeType = 0)"

section \<open>The key\<close>

text \<open>The little-endian bytes of a number.\<close>

fun le_bytes :: "nat \<Rightarrow> nat \<Rightarrow> string" where
  "le_bytes 0 n = []"
| "le_bytes (Suc k) n = char_of (n mod 256) # le_bytes k (n div 256)"

definition hashChunk :: "string \<Rightarrow> string \<Rightarrow> string" where
  "hashChunk h b = h @ le_bytes 8 (length b) @ b"

definition hash_leaf :: "string \<Rightarrow> 32 word \<Rightarrow> string result \<Rightarrow> string \<Rightarrow> string result" where
  "hash_leaf rel mode body h =
     (let h1 = hashChunk (hashChunk h rel) (le_bytes 4 (unat mode))
      in if is_symlink mode
         then (case body of Inl e \<Rightarrow> Inl e | Inr target \<Rightarrow> Inr (hashChunk (hashChunk h1 ''symlink'') target))
         else if \<not> IsRegular mode then Inr h1
         else (case body of Inl e \<Rightarrow> Inl e | Inr content \<Rightarrow> Inr (hashChunk h1 content)))"

fun hash_tree :: "string \<Rightarrow> string \<Rightarrow> tree_node \<Rightarrow> string \<Rightarrow> string result"
  and hash_entries :: "string \<Rightarrow> (string \<times> tree_node) list \<Rightarrow> string \<Rightarrow> string result" where
  "hash_tree name rel (TDir entries) h =
     (if name = ''.git'' \<or> name = ''.dispatcher'' then Inr h
      else case entries of Inl e \<Rightarrow> Inl e | Inr es \<Rightarrow> hash_entries rel es h)"
| "hash_tree name rel (TLeaf mode body) h = hash_leaf rel mode body h"
| "hash_tree name rel (TNoInfo e) h = Inl e"
| "hash_entries rel [] h = Inr h"
| "hash_entries rel ((n, t) # es) h =
     (case hash_tree n (join_rel rel n) t h of Inl e \<Rightarrow> Inl e | Inr h' \<Rightarrow> hash_entries rel es h')"

definition hash_input :: "string \<Rightarrow> string \<Rightarrow> tree_node \<Rightarrow> string result" where
  "hash_input df base t = hash_tree base ''.'' t (hashChunk (hashChunk [] ''dockerfile'') df)"

definition hex_encode :: "string \<Rightarrow> string" where
  "hex_encode bs = concat (map (\<lambda>c. [hex_digit (of_char c div 16), hex_digit (of_char c mod 16)]) bs)"

definition buildContentLabel :: string where "buildContentLabel = ''dispatcher.content''"

definition buildDigest :: "(string \<Rightarrow> string) \<Rightarrow> string result \<Rightarrow> string \<Rightarrow> tree_node \<Rightarrow> string result" where
  "buildDigest sha256 dockerfile base t =
     (case dockerfile of
        Inl e \<Rightarrow> Inl (''read dockerfile: '' @ e)
      | Inr df \<Rightarrow>
          (case hash_input df base t of
             Inl e \<Rightarrow> Inl e
           | Inr h \<Rightarrow> Inr (take 12 (hex_encode (sha256 h)))))"

section \<open>What is hashed\<close>

text \<open>The files a build sees, as a specification: path, mode, and content or link target where there is one.\<close>

type_synonym build_entry = "string \<times> 32 word \<times> string"

definition leaf_entry :: "string \<Rightarrow> 32 word \<Rightarrow> string result \<Rightarrow> build_entry result" where
  "leaf_entry rel mode body =
     (if is_symlink mode \<or> IsRegular mode then map_sum id (\<lambda>s. (rel, mode, s)) body else Inr (rel, mode, []))"

fun tree_files :: "string \<Rightarrow> string \<Rightarrow> tree_node \<Rightarrow> build_entry list result"
  and entry_files :: "string \<Rightarrow> (string \<times> tree_node) list \<Rightarrow> build_entry list result" where
  "tree_files name rel (TDir entries) =
     (if name = ''.git'' \<or> name = ''.dispatcher'' then Inr []
      else case entries of Inl e \<Rightarrow> Inl e | Inr es \<Rightarrow> entry_files rel es)"
| "tree_files name rel (TLeaf mode body) = map_sum id (\<lambda>e. [e]) (leaf_entry rel mode body)"
| "tree_files name rel (TNoInfo e) = Inl e"
| "entry_files rel [] = Inr []"
| "entry_files rel ((n, t) # es) =
     (case tree_files n (join_rel rel n) t of
        Inl e \<Rightarrow> Inl e
      | Inr fs \<Rightarrow> map_sum id (\<lambda>gs. fs @ gs) (entry_files rel es))"

definition chunk :: "string \<Rightarrow> string" where
  "chunk b = le_bytes 8 (length b) @ b"

definition enc_entry :: "build_entry \<Rightarrow> string" where
  "enc_entry = (\<lambda>(rel, mode, data).
     chunk rel @ chunk (le_bytes 4 (unat mode))
     @ (if is_symlink mode then chunk ''symlink'' @ chunk data else if IsRegular mode then chunk data else []))"

lemma hashChunk_chunk: "hashChunk h b = h @ chunk b"
  by (simp add: hashChunk_def chunk_def)

lemma hash_leaf_enc: "hash_leaf rel mode body h = map_sum id (\<lambda>e. h @ enc_entry e) (leaf_entry rel mode body)"
  by (cases body) (simp_all add: hash_leaf_def leaf_entry_def hashChunk_chunk enc_entry_def Let_def)

lemma hash_tree_enc:
  "hash_tree name rel t h = map_sum id (\<lambda>es. h @ concat (map enc_entry es)) (tree_files name rel t)"
  "hash_entries rel es h = map_sum id (\<lambda>fs. h @ concat (map enc_entry fs)) (entry_files rel es)"
proof (induction name rel t h and rel es h rule: hash_tree_hash_entries.induct)
  case (2 name rel mode body h)
  then show ?case by (cases "leaf_entry rel mode body") (simp_all add: hash_leaf_enc)
next
  case (5 rel n t es h)
  then show ?case by (cases "tree_files n (join_rel rel n) t"; cases "entry_files rel es") simp_all
qed (simp_all split: sum.splits)


lemma length_le_bytes [simp]: "length (le_bytes k n) = k"
  by (induction k arbitrary: n) simp_all

lemma le_bytes_inj: "le_bytes k m = le_bytes k n \<Longrightarrow> m < 256 ^ k \<Longrightarrow> n < 256 ^ k \<Longrightarrow> m = n"
proof (induction k arbitrary: m n)
  case (Suc k)
  have "of_char (char_of (m mod 256) :: char) = (of_char (char_of (n mod 256) :: char) :: nat)"
    using Suc.prems(1) by simp
  then have "m mod 256 = n mod 256" by (simp add: of_char_of)
  moreover have "m div 256 = n div 256"
    using Suc.prems by (intro Suc.IH) (simp_all add: less_mult_imp_div_less mult.commute)
  ultimately show ?case by (metis div_mult_mod_eq)
qed simp

definition fits :: "string \<Rightarrow> bool" where
  "fits s \<longleftrightarrow> length s < 2 ^ 64"

lemma chunk_append_inj:
  assumes "chunk a @ x = chunk b @ y" "fits a" "fits b"
  shows "a = b \<and> x = y"
proof -
  have e: "le_bytes 8 (length a) @ (a @ x) = le_bytes 8 (length b) @ (b @ y)"
    using assms(1) by (simp add: chunk_def)
  then have "le_bytes 8 (length a) = le_bytes 8 (length b) \<and> a @ x = b @ y"
    by (subst (asm) append_eq_append_conv) simp_all
  then have "le_bytes 8 (length a) = le_bytes 8 (length b)" and r: "a @ x = b @ y" by auto
  then have "length a = length b"
    using assms(2,3) by (intro le_bytes_inj [of 8]) (simp_all add: fits_def)
  with r show ?thesis by simp
qed

lemma fits_mode: "fits (le_bytes 4 n)" "fits ''symlink''" "fits ''dockerfile''"
  by (simp_all add: fits_def)

definition entry_ok :: "build_entry \<Rightarrow> bool" where
  "entry_ok = (\<lambda>(rel, mode, data). fits rel \<and> fits data \<and> (is_symlink mode \<or> IsRegular mode \<or> data = []))"

lemma enc_entry_append_inj:
  assumes "enc_entry e @ x = enc_entry f @ y" "entry_ok e" "entry_ok f"
  shows "e = f \<and> x = y"
proof -
  obtain r m d r' m' d' where ef: "e = (r, m, d)" "f = (r', m', d')" by (cases e; cases f)
  have ok: "fits r" "fits r'" "fits d" "fits d'" using assms(2,3) ef by (simp_all add: entry_ok_def)
  let ?t = "\<lambda>m d. if is_symlink m then chunk ''symlink'' @ chunk d else if IsRegular m then chunk d else []"
  have "chunk r @ chunk (le_bytes 4 (unat m)) @ ?t m d @ x = chunk r' @ chunk (le_bytes 4 (unat m')) @ ?t m' d' @ y"
    using assms(1) by (simp only: ef enc_entry_def split append_assoc)
  from chunk_append_inj [OF this ok(1,2)] have r: "r = r'"
    and mm: "chunk (le_bytes 4 (unat m)) @ ?t m d @ x = chunk (le_bytes 4 (unat m')) @ ?t m' d' @ y" by auto
  from chunk_append_inj [OF mm fits_mode(1,1)]
  have b: "le_bytes 4 (unat m) = le_bytes 4 (unat m')" and t: "?t m d @ x = ?t m' d' @ y" by auto
  have "unat m < 256 ^ 4" "unat m' < 256 ^ 4" using unsigned_less [of m] unsigned_less [of m'] by simp_all
  then have m: "m = m'" using le_bytes_inj [OF b] by (simp add: word_unat_eq_iff)
  have "d = d' \<and> x = y"
    using t assms(2,3) ok(3,4) chunk_append_inj [of d x d' y] chunk_append_inj [of "''symlink''" "chunk d @ x" "''symlink''" "chunk d' @ y"]
    by (auto simp: ef m entry_ok_def fits_mode split: if_splits)
  with r m show ?thesis by (simp add: ef)
qed

lemma enc_entry_nonempty: "enc_entry e \<noteq> []"
proof -
  have "length (chunk (fst e)) \<noteq> 0" by (simp add: chunk_def)
  then show ?thesis by (auto simp: enc_entry_def split: prod.splits)
qed

lemma enc_entries_inj:
  "concat (map enc_entry es) = concat (map enc_entry fs) \<Longrightarrow> list_all entry_ok es \<Longrightarrow> list_all entry_ok fs \<Longrightarrow> es = fs"
proof (induction es arbitrary: fs)
  case Nil
  then show ?case by (cases fs) (simp_all add: enc_entry_nonempty)
next
  case (Cons e es)
  show ?case
  proof (cases fs)
    case Nil
    with Cons.prems(1) show ?thesis by (simp add: enc_entry_nonempty)
  next
    case (Cons f fs')
    with Cons.prems Cons.IH [of fs'] enc_entry_append_inj [of e "concat (map enc_entry es)" f "concat (map enc_entry fs')"]
    show ?thesis by simp
  qed
qed

lemma tree_files_data:
  "tree_files name rel t = Inr fs \<Longrightarrow> (r, m, d) \<in> set fs \<Longrightarrow> is_symlink m \<or> IsRegular m \<or> d = []"
  "entry_files rel es = Inr fs \<Longrightarrow> (r, m, d) \<in> set fs \<Longrightarrow> is_symlink m \<or> IsRegular m \<or> d = []"
proof (induction name rel t and rel es arbitrary: fs and fs rule: tree_files_entry_files.induct)
  case (2 name rel mode body)
  then show ?case by (cases body) (auto simp: leaf_entry_def split: if_splits)
next
  case (5 rel n t es)
  then show ?case by (cases "entry_files rel es") (auto split: sum.splits)
qed (auto split: if_splits sum.splits)

definition files_fit :: "build_entry list \<Rightarrow> bool" where
  "files_fit fs \<longleftrightarrow> list_all (\<lambda>(rel, mode, data). fits rel \<and> fits data) fs"

lemma tree_files_ok: "tree_files name rel t = Inr fs \<Longrightarrow> files_fit fs \<Longrightarrow> list_all entry_ok fs"
  using tree_files_data(1) by (fastforce simp: files_fit_def entry_ok_def list_all_iff)

text \<open>
  C24: Two builds with different inputs hash different bytes: if the Dockerfiles differ, or any file's path, mode, content or
  link target, then so do the bytes that go into the build key, whatever the files contain. Every field is
  preceded by its length, so that no content can imitate another field, and an image is reused for another source only on
  a collision of the hash.
\<close>

theorem build_key_separates:
  assumes "tree_files base ''.'' t = Inr fs" "tree_files base' ''.'' t' = Inr fs'"
    and "fits df" "fits df'" "files_fit fs" "files_fit fs'"
    and "df \<noteq> df' \<or> fs \<noteq> fs'"
  shows "hash_input df base t \<noteq> hash_input df' base' t'"
proof
  let ?c = "\<lambda>fs. concat (map enc_entry fs)"
  assume "hash_input df base t = hash_input df' base' t'"
  then have "chunk ''dockerfile'' @ chunk df @ ?c fs = chunk ''dockerfile'' @ chunk df' @ ?c fs'"
    using assms(1,2) by (simp add: hash_input_def hash_tree_enc(1) hashChunk_chunk)
  then have "chunk df @ ?c fs = chunk df' @ ?c fs'" by simp
  from chunk_append_inj [OF this assms(3,4)] have "df = df'" "?c fs = ?c fs'" by auto
  with enc_entries_inj [of fs fs'] tree_files_ok assms show False by blast
qed


theorem build_key_separates_witness:
  "hash_input ''FROM x'' ''src'' (TDir (Inr [(''a'', TLeaf 0x1A4 (Inr ''bc''))]))
     \<noteq> hash_input ''FROM x'' ''src'' (TDir (Inr [(''ab'', TLeaf 0x1A4 (Inr ''c''))]))"
proof (rule build_key_separates)
  have r: "IsRegular 0x1A4" by (simp add: IsRegular_def ModeType_def)
  show "tree_files ''src'' ''.'' (TDir (Inr [(''a'', TLeaf 0x1A4 (Inr ''bc''))])) = Inr [(''a'', 0x1A4, ''bc'')]"
    by (simp add: leaf_entry_def r join_rel_def)
  show "tree_files ''src'' ''.'' (TDir (Inr [(''ab'', TLeaf 0x1A4 (Inr ''c''))])) = Inr [(''ab'', 0x1A4, ''c'')]"
    by (simp add: leaf_entry_def r join_rel_def)
qed (simp_all add: fits_def files_fit_def)

text \<open>The key is twelve characters of the hash's hexadecimal form, or an error; never the empty string.\<close>

lemma length_hex_encode: "length (hex_encode bs) = 2 * length bs"
  by (induction bs) (simp_all add: hex_encode_def)

lemma buildDigest_length:
  assumes "buildDigest sha256 df base t = Inr d" "\<And>x. 6 \<le> length (sha256 x)"
  shows "length d = 12"
proof -
  obtain h where "d = take 12 (hex_encode (sha256 h))"
    using assms(1) by (auto simp: buildDigest_def split: sum.splits)
  then show ?thesis using assms(2) [of h] by (simp add: length_hex_encode)
qed

end
