(* ===== verification/Local_Adapters.thy ===== *)
theory Local_Adapters
  imports Log_Drain Build_Cache Cloud_Adapter Shard_Plan
begin

text \<open>
  Running a workload on this machine: as a process (\<^verbatim>\<open>internal/adapter/local.go\<close>) and in a container
  (\<^verbatim>\<open>internal/adapter/docker.go\<close>). The host is a record of functions on a world outside; beside it the adapters keep
  the temporary files, the states of their handles, and a log of the artifact files written. The goroutine that copies a
  process's output is the subject of the theory \<open>Log_Drain\<close>.
\<close>

section \<open>The host\<close>

text \<open>
  \<open>lh_run\<close> runs a command to its end and returns its output and its error; \<open>lh_start\<close> starts one with an environment, a
  directory and a standard input; \<open>lh_wait\<close> is the exit code and signal of the process of a handle. \<open>lh_fs\<close> is the file
  system's root, \<open>lh_mkdir\<close> and \<open>lh_create\<close> the errors of creating a directory or a file. \<open>lh_copy\<close> copies the output of a
  handle's process to the log until its end and returns the error of the copy; \<open>lh_walk\<close> lists the files under a path.
\<close>

record 'o lhost =
  lh_look :: "string \<Rightarrow> bool"
  lh_run :: "bool \<Rightarrow> string list \<Rightarrow> 'o \<Rightarrow> (string \<times> string option) \<times> 'o"
  lh_start :: "bool \<Rightarrow> string list \<Rightarrow> string list \<Rightarrow> string \<Rightarrow> string \<Rightarrow> 'o \<Rightarrow> string option \<times> 'o"
  lh_pipe :: "'o \<Rightarrow> string option"
  lh_wait :: "string \<Rightarrow> 'o \<Rightarrow> (int \<times> string) \<times> 'o"
  lh_kill :: "string \<Rightarrow> 'o \<Rightarrow> string option \<times> 'o"
  lh_copy :: "string \<Rightarrow> 'o \<Rightarrow> string option \<times> 'o"
  lh_environ :: "string list"
  lh_envFiles :: "string \<Rightarrow> env_file"
  lh_envOrder :: "env_map \<Rightarrow> string list"
  lh_readFile :: "string \<Rightarrow> 'o \<Rightarrow> string result"
  lh_tree :: "string \<Rightarrow> 'o \<Rightarrow> tree_node"
  lh_sha256 :: "string \<Rightarrow> string"
  lh_fs :: "'o \<Rightarrow> tree_node"
  lh_subdir :: "string \<Rightarrow> string result"
  lh_mkdir :: "string \<Rightarrow> string option"
  lh_create :: "string \<Rightarrow> string option"
  lh_walk :: "string \<Rightarrow> 'o \<Rightarrow> artifact_ref list"
  lh_now :: "'o \<Rightarrow> time"
  lh_fault :: "'o \<Rightarrow> temp_fault"
  lh_rnd :: "'o \<Rightarrow> nat \<Rightarrow> string result"

text \<open>The state behind a handle: how its process ended, whether its output is being read, the file its cleanup removes, where its outputs are.\<close>

record proc_state =
  ps_exit :: "(int \<times> string) option"
  ps_logStarted :: bool
  ps_envFile :: "string option"
  ps_sourcePath :: string
  ps_outputs :: "string list"

record 'o lworld =
  lw_out :: 'o
  lw_temps :: temp_dir
  lw_procs :: "string \<rightharpoonup> proc_state"

section \<open>Commands\<close>

definition docker_entry :: "string \<Rightarrow> bool" where
  "docker_entry e = (strings_HasPrefix (strings_ToLower e) ''dockerfile'' \<or> strings_Contains (strings_ToLower e) ''compose'')"

definition buildCommand :: "workload_spec \<Rightarrow> string list result" where
  "buildCommand w =
     (if ws_Command w \<noteq> [] then Inr (ws_Command w)
      else case ws_Entrypoints w of
             [] \<Rightarrow> Inl ''no command or entrypoint found for local execution''
           | ep # eps \<Rightarrow>
               Inr (RuntimeCommand (ws_Runtime w)
                 (if docker_entry ep then (case filter (\<lambda>e. \<not> docker_entry e) eps of [] \<Rightarrow> ep | e # _ \<Rightarrow> e) else ep) False))"

definition runtimeBinary :: "go_runtime \<Rightarrow> string" where
  "runtimeBinary rt =
     (case rt of RuntimePython \<Rightarrow> ''python3'' | RuntimeNode \<Rightarrow> ''node'' | RuntimeGo \<Rightarrow> ''go'' | RuntimeRuby \<Rightarrow> ''ruby''
      | RuntimeRust \<Rightarrow> ''cargo'' | RuntimeJava \<Rightarrow> ''java'' | _ \<Rightarrow> [])"

definition local_cost :: cost_estimate where
  "local_cost = cost_estimate_zero\<lparr>ce_Value := 0, ce_Currency := ''USD'', ce_Confidence := ConfidenceHigh,
     ce_Assumptions := [''local execution, zero marginal cost'']\<rparr>"

section \<open>Processes\<close>

definition local_Validate :: "'o lhost \<Rightarrow> bool \<Rightarrow> workload_spec \<Rightarrow> 'o lworld \<Rightarrow> validation_result call \<times> 'o lworld" where
  "local_Validate H ctx w W =
     (let v = DefaultValidationResult\<lparr>vr_PackageBuild := ValidationSkipped\<rparr>;
          v' = (if ws_DetectedKind w = WorkloadKindService then v\<lparr>vr_TargetCapabilities := ValidationWarn\<rparr> else v);
          bin = runtimeBinary (ws_Runtime w)
      in (if gr_Required (rr_GPU (ws_Requirements w)) then Err ''local process target does not support GPU workloads''
          else if bin \<noteq> [] \<and> \<not> lh_look H bin then Err (bin @ '' runtime not found in PATH'')
          else Ret v', W))"

definition put_proc :: "string \<Rightarrow> proc_state \<Rightarrow> 'o lworld \<Rightarrow> 'o lworld" where
  "put_proc i p W = W\<lparr>lw_procs := (lw_procs W)(i \<mapsto> p)\<rparr>"

definition local_env :: "'o lhost \<Rightarrow> workload_spec \<Rightarrow> env_error + string list" where
  "local_env H w =
     (let extra = [(ws_Env w, lh_envOrder H (ws_Env w))]; dir = wsrc_Path (ws_Source w)
      in case workload_env (lh_envFiles H) dir extra of
           Inl e \<Rightarrow> Inl e
         | Inr kv \<Rightarrow> injectDotEnv (lh_envFiles H) (lh_environ H) dir extra (lh_envOrder H kv))"

definition local_Execute :: "'o lhost \<Rightarrow> bool \<Rightarrow> plan \<Rightarrow> 'o lworld \<Rightarrow> run_handle call \<times> 'o lworld" where
  "local_Execute H ctx p W =
     (let w = pl_Workload p; dir = wsrc_Path (ws_Source w)
      in case buildCommand w of
           Inl e \<Rightarrow> (Err e, W)
         | Inr argv \<Rightarrow>
             (case local_env H w of
                Inl e \<Rightarrow> (Err (env_error_string e), W)
              | Inr env \<Rightarrow>
                  (case lh_pipe H (lw_out W) of
                     Some e \<Rightarrow> (Err (''failed to create output pipe: '' @ e), W)
                   | None \<Rightarrow>
                       (case lh_start H ctx argv env dir [] (lw_out W) of
                          (Some e, out) \<Rightarrow> (Err (''failed to start process: '' @ e), W\<lparr>lw_out := out\<rparr>)
                        | (None, out) \<Rightarrow>
                            (let i = ''local-'' @ SanitizeName (ws_Name w) @ ''-'' @ pm_ID (pl_Metadata p)
                             in (Ret \<lparr>rh_ID = i, rh_TargetID = ''local-process'', rh_State = StateOpaque, rh_RunID = []\<rparr>,
                                 put_proc i \<lparr>ps_exit = None, ps_logStarted = False, ps_envFile = None, ps_sourcePath = dir, ps_outputs = ws_Outputs w\<rparr>
                                   (W\<lparr>lw_out := out\<rparr>)))))))"

definition no_state :: string where
  "no_state = ''interface conversion: interface {} is nil''"

definition exit_state :: "int \<Rightarrow> run_state" where
  "exit_state code = (if code \<noteq> 0 then RunStateExecutionFailed else RunStateCompleted)"

text \<open>\<^verbatim>\<open>cmd.Wait\<close> of a process already waited for is an error.\<close>

definition wait_proc :: "'o lhost \<Rightarrow> string \<Rightarrow> proc_state \<Rightarrow> 'o lworld \<Rightarrow> run_state call \<times> 'o lworld" where
  "wait_proc H i p W =
     (case ps_exit p of
        Some _ \<Rightarrow> (Ret RunStateExecutionFailed, W)
      | None \<Rightarrow>
          (case lh_wait H i (lw_out W) of
             ((code, sig), out) \<Rightarrow> (Ret (exit_state code), put_proc i (p\<lparr>ps_exit := Some (code, sig)\<rparr>) (W\<lparr>lw_out := out\<rparr>))))"

definition local_Status :: "'o lhost \<Rightarrow> bool \<Rightarrow> run_handle \<Rightarrow> 'o lworld \<Rightarrow> run_state call \<times> 'o lworld" where
  "local_Status H ctx h W =
     (case lw_procs W (rh_ID h) of
        None \<Rightarrow> (Panics no_state, W)
      | Some p \<Rightarrow> wait_proc H (rh_ID h) (p\<lparr>ps_logStarted := True\<rparr>) W)"

definition local_FailureDetails :: "run_handle \<Rightarrow> 'o lworld \<Rightarrow> failure_details" where
  "local_FailureDetails h W =
     (case Option.bind (lw_procs W (rh_ID h)) ps_exit of
        None \<Rightarrow> failure_details_zero\<lparr>fd_Message := ''process state not available''\<rparr>
      | Some (code, sig) \<Rightarrow>
          failure_details_zero\<lparr>fd_ExitCode := code, fd_Signal := sig,
            fd_Message := (if sig \<noteq> [] then ''killed by '' @ sig
              else if code \<noteq> 0 then ''exited with code '' @ show_int code else [])\<rparr>)"

definition local_Terminate :: "'o lhost \<Rightarrow> run_handle \<Rightarrow> 'o lworld \<Rightarrow> unit call \<times> 'o lworld" where
  "local_Terminate H h W =
     (case lw_procs W (rh_ID h) of
        None \<Rightarrow> (Panics no_state, W)
      | Some p \<Rightarrow>
          (case lh_kill H (rh_ID h) (lw_out W) of
             (Some e, out) \<Rightarrow> (Err e, W\<lparr>lw_out := out\<rparr>) | (None, out) \<Rightarrow> (Ret (), W\<lparr>lw_out := out\<rparr>)))"

definition local_Cleanup :: "run_handle \<Rightarrow> 'o lworld \<Rightarrow> cleanup_result option call \<times> 'o lworld" where
  "local_Cleanup h W = (Ret (Some \<lparr>cl_Success = True, cl_ResourcesCleaned = [], cl_Errors = []\<rparr>), W)"

end
