(* ===== verification/Local_Outputs.thy ===== *)
theory Local_Outputs
  imports Local_Adapters
begin

text \<open>
  Collecting the outputs of a local run (\<^verbatim>\<open>Artifacts\<close>, \<^verbatim>\<open>copyPath\<close> and \<^verbatim>\<open>copyFile\<close> of \<^verbatim>\<open>internal/adapter/local.go\<close>) from a file system
  with symbolic links. A copy ends well, with an error, or not at all: opening a named pipe nobody writes to blocks.
\<close>

section \<open>The file system\<close>

definition path_segs :: "string \<Rightarrow> string list" where
  "path_segs p = filter (\<lambda>s. s \<noteq> [] \<and> s \<noteq> ''.'') (strings_Split CHR ''/'' p)"

fun node_at :: "tree_node \<Rightarrow> string list \<Rightarrow> tree_node option" where
  "node_at t [] = Some t"
| "node_at (TDir (Inr es)) (s # ss) = (case map_of es s of None \<Rightarrow> None | Some t \<Rightarrow> node_at t ss)"
| "node_at (TDir (Inl e)) (s # ss) = None"
| "node_at (TLeaf m b) (s # ss) = None"
| "node_at (TNoInfo e) (s # ss) = None"

text \<open>
  Where a path leads when its last element is not followed: every link on the way is, at most forty of them, as the
  operating system does.
\<close>

function resolve :: "nat \<Rightarrow> tree_node \<Rightarrow> string list \<Rightarrow> string list \<Rightarrow> string list option" where
  "resolve fuel fs cur [] = Some cur"
| "resolve fuel fs cur (s # rest) =
     (if s = ''..'' then resolve fuel fs (butlast cur) rest
      else if rest = [] then Some (cur @ [s])
      else case node_at fs (cur @ [s]) of
             Some (TDir es) \<Rightarrow> resolve fuel fs (cur @ [s]) rest
           | Some (TLeaf mode (Inr target)) \<Rightarrow>
               if is_symlink mode \<and> 0 < fuel
               then resolve (fuel - 1) fs (if filepath_IsAbs target then [] else cur) (path_segs target @ rest)
               else None
           | _ \<Rightarrow> None)"
  by pat_completeness auto
termination
  by (relation "measures [\<lambda>(fuel, _, _, _). fuel, \<lambda>(_, _, _, rest). length rest]") auto

definition os_Lstat :: "tree_node \<Rightarrow> string \<Rightarrow> tree_node option" where
  "os_Lstat fs p = Option.bind (resolve 40 fs [] (path_segs p)) (node_at fs)"

section \<open>Copying\<close>

datatype copy_end = CopyOk | CopyErr string | CopyBlocks

text \<open>The files written: path, permissions and content.\<close>

type_synonym written = "(string \<times> 32 word \<times> string) list"

definition copyFile :: "'o lhost \<Rightarrow> string \<Rightarrow> 32 word \<Rightarrow> string result \<Rightarrow> written \<Rightarrow> copy_end \<times> written" where
  "copyFile H dst mode body acc =
     (case lh_mkdir H (path_dir dst) of
        Some e \<Rightarrow> (CopyErr e, acc)
      | None \<Rightarrow>
          if and mode ModeNamedPipe \<noteq> 0 then (CopyBlocks, acc)
          else (case body of
                  Inl e \<Rightarrow> (CopyErr e, acc)
                | Inr content \<Rightarrow>
                    (case lh_create H dst of
                       Some e \<Rightarrow> (CopyErr e, acc)
                     | None \<Rightarrow> (CopyOk, acc @ [(dst, and mode 0x1FF, content)]))))"

fun copyPath :: "'o lhost \<Rightarrow> string \<Rightarrow> tree_node \<Rightarrow> written \<Rightarrow> copy_end \<times> written"
  and copy_entries :: "'o lhost \<Rightarrow> string \<Rightarrow> (string \<times> tree_node) list \<Rightarrow> written \<Rightarrow> copy_end \<times> written" where
  "copyPath H dst (TNoInfo e) acc = (CopyErr e, acc)"
| "copyPath H dst (TLeaf mode body) acc = (if is_symlink mode then (CopyOk, acc) else copyFile H dst mode body acc)"
| "copyPath H dst (TDir entries) acc =
     (case lh_mkdir H dst of
        Some e \<Rightarrow> (CopyErr e, acc)
      | None \<Rightarrow> (case entries of Inl e \<Rightarrow> (CopyErr e, acc) | Inr es \<Rightarrow> copy_entries H dst es acc))"
| "copy_entries H dst [] acc = (CopyOk, acc)"
| "copy_entries H dst ((n, t) # es) acc =
     (case copyPath H (dst @ ''/'' @ n) t acc of
        (CopyOk, acc') \<Rightarrow> copy_entries H dst es acc'
      | res \<Rightarrow> res)"

text \<open>The outputs in turn; \<open>sz\<close> is the size the system reports for a file or directory.\<close>

definition is_link :: "tree_node \<Rightarrow> bool" where
  "is_link t = (case t of TLeaf mode _ \<Rightarrow> is_symlink mode | _ \<Rightarrow> False)"

definition no_info :: "tree_node \<Rightarrow> bool" where
  "no_info t = (case t of TNoInfo _ \<Rightarrow> True | _ \<Rightarrow> False)"

definition base_name :: "string \<Rightarrow> string" where
  "base_name p = (case path_segs p of [] \<Rightarrow> ''.'' | segs \<Rightarrow> last segs)"

fun collect_outputs ::
  "'o lhost \<Rightarrow> (tree_node \<Rightarrow> int) \<Rightarrow> tree_node \<Rightarrow> string \<Rightarrow> string \<Rightarrow> string list \<Rightarrow> artifact_ref list \<times> written \<Rightarrow>
   copy_end \<times> artifact_ref list \<times> written" where
  "collect_outputs H sz fs src destRoot [] (refs, acc) = (CopyOk, refs, acc)"
| "collect_outputs H sz fs src destRoot (out # outs) (refs, acc) =
     (let dst = artifact_dest destRoot out
      in if filepath_IsAbs out \<or> strings_Contains out ''..'' \<or> \<not> strings_HasPrefix (dst @ ''/'') (destRoot @ ''/'')
         then collect_outputs H sz fs src destRoot outs (refs, acc)
         else case os_Lstat fs (src @ ''/'' @ out) of
                None \<Rightarrow> collect_outputs H sz fs src destRoot outs (refs, acc)
              | Some t \<Rightarrow>
                  if no_info t \<or> is_link t then collect_outputs H sz fs src destRoot outs (refs, acc)
                  else (case copyPath H dst t acc of
                          (CopyOk, acc') \<Rightarrow>
                            collect_outputs H sz fs src destRoot outs
                              (refs @ [\<lparr>ar_Name = base_name out, ar_Path = dst, ar_Size = sz t\<rparr>], acc')
                        | (CopyErr e, acc') \<Rightarrow> (CopyErr (''copy output '' @ go_quote out @ '': '' @ e), refs, acc')
                        | (CopyBlocks, acc') \<Rightarrow> (CopyBlocks, refs, acc')))"

definition local_Artifacts ::
  "'o lhost \<Rightarrow> (tree_node \<Rightarrow> int) \<Rightarrow> run_handle \<Rightarrow> 'o lworld \<Rightarrow> copy_end \<times> artifact_ref list \<times> written" where
  "local_Artifacts H sz h W =
     (case lw_procs W (rh_ID h) of
        None \<Rightarrow> (CopyOk, [], [])
      | Some p \<Rightarrow>
          if ps_outputs p = [] then (CopyOk, [], [])
          else (case lh_subdir H (''runs/'' @ (if rh_RunID h = [] then rh_ID h else rh_RunID h) @ ''/artifacts'') of
                  Inl e \<Rightarrow> (CopyErr (''create artifacts dir: '' @ e), [], [])
                | Inr destRoot \<Rightarrow>
                    collect_outputs H sz (lh_fs H (lw_out W)) (ps_sourcePath p) destRoot (ps_outputs p) ([], [])))"

section \<open>What is written, and where\<close>

text \<open>The files of a tree, without those behind links.\<close>

fun own_files :: "string \<Rightarrow> tree_node \<Rightarrow> (string \<times> string) list"
  and own_entries :: "string \<Rightarrow> (string \<times> tree_node) list \<Rightarrow> (string \<times> string) list" where
  "own_files dst (TNoInfo e) = []"
| "own_files dst (TLeaf mode body) =
     (if is_symlink mode then [] else case body of Inl e \<Rightarrow> [] | Inr content \<Rightarrow> [(dst, content)])"
| "own_files dst (TDir entries) = (case entries of Inl e \<Rightarrow> [] | Inr es \<Rightarrow> own_entries dst es)"
| "own_entries dst [] = []"
| "own_entries dst ((n, t) # es) = own_files (dst @ ''/'' @ n) t @ own_entries dst es"

definition file_contents :: "written \<Rightarrow> (string \<times> string) list" where
  "file_contents ws = map (\<lambda>(p, _, c). (p, c)) ws"

lemma copyPath_contents:
  "copyPath H dst t acc = (r, acc') \<Longrightarrow>
     \<exists>new. acc' = acc @ new \<and> set (file_contents new) \<subseteq> set (own_files dst t) \<and> (r = CopyOk \<longrightarrow> file_contents new = own_files dst t)"
  "copy_entries H dst es acc = (r, acc') \<Longrightarrow>
     \<exists>new. acc' = acc @ new \<and> set (file_contents new) \<subseteq> set (own_entries dst es) \<and> (r = CopyOk \<longrightarrow> file_contents new = own_entries dst es)"
proof (induction H dst t acc and H dst es acc arbitrary: r acc' and r acc' rule: copyPath_copy_entries.induct)
  case (2 H dst mode body acc)
  then show ?case by (auto simp: copyFile_def file_contents_def split: if_splits option.splits sum.splits)
next
  case (3 H dst entries acc)
  then show ?case by (auto simp: file_contents_def split: option.splits sum.splits)
next
  case (5 H dst n t es acc)
  obtain r1 a1 where c: "copyPath H (dst @ ''/'' @ n) t acc = (r1, a1)" by fastforce
  from 5(1) [OF c] obtain n1 where n1: "a1 = acc @ n1" "set (file_contents n1) \<subseteq> set (own_files (dst @ ''/'' @ n) t)"
    "r1 = CopyOk \<longrightarrow> file_contents n1 = own_files (dst @ ''/'' @ n) t" by blast
  show ?case
  proof (cases "r1 = CopyOk")
    case True
    with 5(3) c have "copy_entries H dst es a1 = (r, acc')" by simp
    from 5(2) [OF c [symmetric] True this] obtain n2 where "acc' = a1 @ n2" "set (file_contents n2) \<subseteq> set (own_entries dst es)"
      "r = CopyOk \<longrightarrow> file_contents n2 = own_entries dst es" by blast
    with n1 True show ?thesis by (intro exI [of _ "n1 @ n2"]) (auto simp: file_contents_def)
  next
    case False
    with 5(3) c n1 show ?thesis by (intro exI [of _ n1]) (auto split: copy_end.splits)
  qed
qed (auto simp: file_contents_def)

text \<open>
  The files of an output: what the tree itself has at its path, no link followed. The path is free of links
  if none of its elements but the last is one, and it does not lead upwards.
\<close>

definition output_files :: "tree_node \<Rightarrow> string \<Rightarrow> string \<Rightarrow> string \<Rightarrow> (string \<times> string) list" where
  "output_files fs src destRoot out =
     (if filepath_IsAbs out \<or> strings_Contains out ''..'' then []
      else case node_at fs (path_segs (src @ ''/'' @ out)) of
             None \<Rightarrow> [] | Some t \<Rightarrow> own_files (artifact_dest destRoot out) t)"

definition link_free :: "tree_node \<Rightarrow> string list \<Rightarrow> string list \<Rightarrow> bool" where
  "link_free fs cur segs \<longleftrightarrow> ''..'' \<notin> set segs \<and>
     (\<forall>i < length segs. case node_at fs (cur @ take i segs) of None \<Rightarrow> True | Some t \<Rightarrow> \<not> is_link t)"

lemma node_at_append: "node_at t (p @ q) = Option.bind (node_at t p) (\<lambda>u. node_at u q)"
  by (induction t p rule: node_at.induct) (auto split: option.split)

lemma link_free_step: "link_free fs cur (s # segs) \<Longrightarrow> link_free fs (cur @ [s]) segs"
  unfolding link_free_def by (auto dest: spec [of _ "Suc _"])

lemma resolve_link_free: "link_free fs cur segs \<Longrightarrow> Option.bind (resolve fuel fs cur segs) (node_at fs) = node_at fs (cur @ segs)"
proof (induction segs arbitrary: cur)
  case (Cons s segs)
  have IH: "Option.bind (resolve fuel fs (cur @ [s]) segs) (node_at fs) = node_at fs (cur @ s # segs)"
    using Cons.IH [OF link_free_step [OF Cons.prems]] by simp
  show ?case
  proof (cases "segs = []")
    case True
    with Cons.prems show ?thesis by (auto simp: link_free_def)
  next
    case False
    have up: "s \<noteq> ''..''" using Cons.prems by (auto simp: link_free_def)
    have nl: "\<not> is_link t" if "node_at fs (cur @ [s]) = Some t" for t
      using Cons.prems that False by (auto simp: link_free_def dest!: spec [of _ "Suc 0"])
    have at: "node_at fs (cur @ s # segs) = Option.bind (node_at fs (cur @ [s])) (\<lambda>u. node_at u segs)"
      using node_at_append [of fs "cur @ [s]" segs] by simp
    show ?thesis
    proof (cases "node_at fs (cur @ [s])")
      case None
      with False up at show ?thesis by simp
    next
      case (Some t)
      obtain s' ss where ss: "segs = s' # ss" using False by (cases segs) auto
      show ?thesis
      proof (cases t)
        case (TDir es)
        with Some False up IH show ?thesis by simp
      next
        case (TLeaf mode body)
        with nl [OF Some] have "\<not> is_symlink mode" by (simp add: is_link_def)
        with TLeaf Some up at show ?thesis unfolding ss by (cases body) simp_all
      qed (use Some up at ss in simp)
    qed
  qed
qed simp

lemma os_Lstat_link_free: "link_free fs [] (path_segs p) \<Longrightarrow> os_Lstat fs p = node_at fs (path_segs p)"
  using resolve_link_free [of fs "[]" "path_segs p" 40] by (simp add: os_Lstat_def)

lemma artifact_dest_inside: "strings_HasPrefix (artifact_dest d out @ ''/'') (d @ ''/'')"
  by (simp add: artifact_dest_def strings_HasPrefix_def)

lemma own_files_skip: "no_info t \<or> is_link t \<Longrightarrow> own_files dst t = []"
  by (cases t) (auto simp: no_info_def is_link_def)

lemma collect_contents:
  "collect_outputs H sz fs src d outs (refs, acc) = (r, refs', acc') \<Longrightarrow>
     \<forall>out \<in> set outs. link_free fs [] (path_segs (src @ ''/'' @ out)) \<Longrightarrow>
     \<exists>new. acc' = acc @ new \<and> set (file_contents new) \<subseteq> set (concat (map (output_files fs src d) outs))
       \<and> (r = CopyOk \<longrightarrow> file_contents new = concat (map (output_files fs src d) outs))"
proof (induction outs arbitrary: refs acc)
  case Nil
  then show ?case by (auto simp: file_contents_def)
next
  case (Cons out outs)
  note IH = Cons.IH and prems = Cons.prems(1)
  have free: "\<forall>out \<in> set outs. link_free fs [] (path_segs (src @ ''/'' @ out))"
    and at: "os_Lstat fs (src @ ''/'' @ out) = node_at fs (path_segs (src @ ''/'' @ out))"
    using Cons.prems(2) by (simp_all add: os_Lstat_link_free)
  have out: "output_files fs src d out = (if filepath_IsAbs out \<or> strings_Contains out ''..'' then []
      else case os_Lstat fs (src @ ''/'' @ out) of None \<Rightarrow> [] | Some t \<Rightarrow> own_files (artifact_dest d out) t)"
    by (simp only: output_files_def at)
  show ?case
  proof (cases "output_files fs src d out = [] \<and> collect_outputs H sz fs src d (out # outs) (refs, acc)
      = collect_outputs H sz fs src d outs (refs, acc)")
    case True
    with IH [OF _ free, of refs acc] prems show ?thesis by simp
  next
    case False
    then obtain t where t: "os_Lstat fs (src @ ''/'' @ out) = Some t" "\<not> (no_info t \<or> is_link t)"
      and a: "\<not> (filepath_IsAbs out \<or> strings_Contains out ''..'')"
      using own_files_skip by (fastforce simp: out Let_def artifact_dest_inside split: option.splits)
    then have o: "output_files fs src d out = own_files (artifact_dest d out) t" by (simp add: out)
    obtain r1 a1 where c: "copyPath H (artifact_dest d out) t acc = (r1, a1)" by fastforce
    from copyPath_contents(1) [OF c] obtain n1 where n1: "a1 = acc @ n1" "set (file_contents n1) \<subseteq> set (output_files fs src d out)"
      "r1 = CopyOk \<longrightarrow> file_contents n1 = output_files fs src d out" unfolding o by blast
    show ?thesis
    proof (cases "r1 = CopyOk")
      case True
      with prems t a c obtain refs1 where "collect_outputs H sz fs src d outs (refs1, a1) = (r, refs', acc')"
        by (auto simp: Let_def artifact_dest_inside)
      from IH [OF this free] obtain n2 where "acc' = a1 @ n2" "set (file_contents n2) \<subseteq> set (concat (map (output_files fs src d) outs))"
        "r = CopyOk \<longrightarrow> file_contents n2 = concat (map (output_files fs src d) outs)" by blast
      with n1 True show ?thesis by (intro exI [of _ "n1 @ n2"]) (auto simp: file_contents_def)
    next
      case False
      with prems t a c n1 show ?thesis
        by (intro exI [of _ n1]) (cases r1; auto simp: Let_def artifact_dest_inside)
    qed
  qed
qed

lemma own_files_under:
  "(p, c) \<in> set (own_files dst t) \<Longrightarrow> \<exists>x. p @ ''/'' = dst @ ''/'' @ x"
  "(p, c) \<in> set (own_entries dst es) \<Longrightarrow> \<exists>x. p @ ''/'' = dst @ ''/'' @ x"
proof (induction dst t and dst es rule: own_files_own_entries.induct)
  case (5 dst n t es)
  then show ?case by fastforce
qed (auto split: if_splits sum.splits)

text \<open>
  C23: The artifacts of a local run are the files of its declared outputs and nothing else, provided that no
  directory on the way to an output, below the source or above it, is a link. Whatever is written is a regular
  entry of the tree at or below a declared output, reached without following any link, under the output's place in the
  run's artifact directory; and if no error is reported, all of them are written, in order.
\<close>

theorem local_outputs_collected:
  assumes "local_Artifacts H sz h W = (r, refs, ws)" "lw_procs W (rh_ID h) = Some p"
    and "lh_subdir H (''runs/'' @ (if rh_RunID h = [] then rh_ID h else rh_RunID h) @ ''/artifacts'') = Inr d"
    and "\<forall>out \<in> set (ps_outputs p). link_free (lh_fs H (lw_out W)) [] (path_segs (ps_sourcePath p @ ''/'' @ out))"
  defines "files \<equiv> concat (map (output_files (lh_fs H (lw_out W)) (ps_sourcePath p) d) (ps_outputs p))"
  shows "set (file_contents ws) \<subseteq> set files \<and> (r = CopyOk \<longrightarrow> file_contents ws = files)
    \<and> (\<forall>(path, _)\<in>set files. strings_HasPrefix (path @ ''/'') (d @ ''/''))"
proof -
  have w: "set (file_contents ws) \<subseteq> set files \<and> (r = CopyOk \<longrightarrow> file_contents ws = files)"
  proof (cases "ps_outputs p = []")
    case True
    with assms show ?thesis by (auto simp: local_Artifacts_def file_contents_def)
  next
    case False
    with assms(1-3) have "collect_outputs H sz (lh_fs H (lw_out W)) (ps_sourcePath p) d (ps_outputs p) ([], []) = (r, refs, ws)"
      by (simp add: local_Artifacts_def)
    from collect_contents [OF this assms(4)] show ?thesis by (auto simp: files_def)
  qed
  have "strings_HasPrefix (path @ ''/'') (d @ ''/'')" if f: "(path, c) \<in> set files" for path c
  proof -
    from f obtain out t where "(path, c) \<in> set (own_files (artifact_dest d out) t)"
      by (auto simp: files_def output_files_def split: if_splits option.splits)
    from own_files_under(1) [OF this] obtain x where x: "path @ ''/'' = artifact_dest d out @ ''/'' @ x" by blast
    show ?thesis unfolding x by (auto simp: artifact_dest_def strings_HasPrefix_def)
  qed
  with w show ?thesis by auto
qed

definition demo_lhost :: "unit lhost" where
  "demo_lhost = \<lparr>lh_look = (\<lambda>_. True), lh_run = (\<lambda>_ _ s. (([], None), s)), lh_start = (\<lambda>_ _ _ _ _ s. (None, s)),
     lh_pipe = (\<lambda>_. None), lh_wait = (\<lambda>_ s. ((0, []), s)), lh_kill = (\<lambda>_ s. (None, s)), lh_copy = (\<lambda>_ s. (None, s)), lh_environ = [],
     lh_envFiles = (\<lambda>_. EnvAbsent), lh_envOrder = (\<lambda>_. [''TOKEN'']), lh_readFile = (\<lambda>_ _. Inr []),
     lh_tree = (\<lambda>_ _. TDir (Inr [])), lh_sha256 = (\<lambda>s. s), lh_fs = (\<lambda>_. TDir (Inr [])), lh_subdir = Inr,
     lh_mkdir = (\<lambda>_. None), lh_create = (\<lambda>_. None), lh_walk = (\<lambda>_ _. []), lh_now = (\<lambda>_. 0), lh_fault = (\<lambda>_. TempOk),
     lh_rnd = (\<lambda>_ _. Inr ''00'')\<rparr>"

definition demo_lworld :: "unit lworld" where
  "demo_lworld = \<lparr>lw_out = (), lw_temps = Map.empty, lw_procs = Map.empty\<rparr>"

definition demo_leaf :: "string \<Rightarrow> tree_node" where
  "demo_leaf text = TLeaf 0x1A4 (Inr text)"

definition demo_link :: "string \<Rightarrow> tree_node" where
  "demo_link target = TLeaf 0x080001FF (Inr target)"

definition demo_fs :: tree_node where
  "demo_fs = TDir (Inr [(''etc'', TDir (Inr [(''shadow'', demo_leaf ''root'')])),
     (''p'', TDir (Inr [(''out'', demo_link ''/etc''),
       (''res'', TDir (Inr [(''a'', demo_leaf ''data''), (''l'', demo_link ''/etc/shadow'')]))]))])"

definition demo_outputs :: "string list \<Rightarrow> unit lworld" where
  "demo_outputs outs = demo_lworld\<lparr>lw_procs :=
     [''h'' \<mapsto> \<lparr>ps_exit = None, ps_logStarted = False, ps_envFile = None, ps_sourcePath = ''/p'', ps_outputs = outs\<rparr>]\<rparr>"

definition demo_fs_host :: "unit lhost" where
  "demo_fs_host = demo_lhost\<lparr>lh_fs := (\<lambda>_. demo_fs)\<rparr>"

definition demo_handle :: run_handle where
  "demo_handle = \<lparr>rh_ID = ''h'', rh_TargetID = ''local-process'', rh_State = StateOpaque, rh_RunID = ''r''\<rparr>"

lemma demo_res_collected:
  "local_Artifacts demo_fs_host (\<lambda>_. 1) demo_handle (demo_outputs [''res''])
     = (CopyOk, [\<lparr>ar_Name = ''res'', ar_Path = ''runs/r/artifacts/res'', ar_Size = 1\<rparr>],
        [(''runs/r/artifacts/res/a'', 0x1A4, ''data'')])"
  by code_simp

theorem local_outputs_collected_witness:
  "file_contents [(''runs/r/artifacts/res/a'', 0x1A4, ''data'')]
     = concat (map (output_files demo_fs ''/p'' ''runs/r/artifacts'') [''res''])"
proof -
  have "path_segs (''/p'' @ ''/'' @ ''res'') = [''p'', ''res'']" by code_simp
  moreover have "\<not> is_symlink 0x1A4" by code_simp
  ultimately have "link_free demo_fs [] (path_segs (''/p'' @ ''/'' @ ''res''))"
    by (auto simp: link_free_def demo_fs_def less_Suc_eq is_link_def)
  with local_outputs_collected [OF demo_res_collected, of _ "''runs/r/artifacts''"] show ?thesis
    by (simp add: demo_outputs_def demo_handle_def demo_fs_host_def demo_lhost_def)
qed

text \<open>
  The guard against links looks at the last element of an output's path only. A workload that replaces the directory of a
  declared output by a link to a directory outside its source has that directory's file collected as its output.
\<close>

theorem planted_link_escapes:
  "local_Artifacts demo_fs_host (\<lambda>_. 1) demo_handle (demo_outputs [''out/shadow''])
     = (CopyOk, [\<lparr>ar_Name = ''shadow'', ar_Path = ''runs/r/artifacts/out/shadow'', ar_Size = 1\<rparr>],
        [(''runs/r/artifacts/out/shadow'', 0x1A4, ''root'')])
   \<and> node_at demo_fs [''p'', ''out'', ''shadow''] = None"
  by code_simp

text \<open>
  An output that is or contains a named pipe stops the collection for good: opening it waits for a writer, and the workload has ended.
\<close>

theorem named_pipe_blocks:
  assumes "and mode ModeNamedPipe \<noteq> 0" "\<not> is_symlink mode" "\<And>d. lh_mkdir H d = None"
  shows "fst (copyPath H dst (TLeaf mode body) acc) = CopyBlocks"
    and "fst (copyPath H dst (TDir (Inr ((n, TLeaf mode body) # es))) acc) = CopyBlocks"
  using assms by (simp_all add: copyFile_def)

end
