(* ===== verification/Docker_Adapter.thy ===== *)
theory Docker_Adapter
  imports Local_Outputs
begin

text \<open>
  Running a workload in a container of the local docker daemon (\<^verbatim>\<open>internal/adapter/docker.go\<close>): preparing the image
  under its content key, the command line of the run, the secret file of the environment, and how a failure is
  read. The daemon is behind \<open>lh_run\<close> and \<open>lh_start\<close> of the host.
\<close>

section \<open>Images and names\<close>

definition filepath_Base :: "string \<Rightarrow> string" where
  "filepath_Base p =
     (if p = [] then ''.''
      else let q = rev (dropWhile (\<lambda>c. c = CHR ''/'') (rev p))
           in if q = [] then ''/'' else rev (takeWhile (\<lambda>c. c \<noteq> CHR ''/'') (rev q)))"

definition docker_digest :: "'o lhost \<Rightarrow> workload_spec \<Rightarrow> 'o \<Rightarrow> string result" where
  "docker_digest H w out =
     (let path = wsrc_Path (ws_Source w)
      in buildDigest (lh_sha256 H) (lh_readFile H (pp_Dockerfile (ws_Package w)) out) (filepath_Base path) (lh_tree H path out))"

definition dockerBuildTag :: "workload_spec \<Rightarrow> string \<Rightarrow> string" where
  "dockerBuildTag w digest =
     (let base = ''dispatcher-'' @ SanitizeName (ws_Name w)
      in if digest = [] then base @ '':latest'' else base @ '':'' @ digest)"

definition dockerContainerName :: "workload_spec \<Rightarrow> string \<Rightarrow> string" where
  "dockerContainerName w planID =
     (let name = ''dispatcher-'' @ SanitizeName (ws_Name w) @ ''-'' @ planID
      in case ws_Env w ''SHARD_INDEX'' of None \<Rightarrow> name | Some idx \<Rightarrow> name @ ''-s'' @ SanitizeName idx)"

section \<open>Commands\<close>

definition run_cmd :: "'o lhost \<Rightarrow> bool \<Rightarrow> string list \<Rightarrow> 'o lworld \<Rightarrow> (string \<times> string option) \<times> 'o lworld" where
  "run_cmd H ctx argv W = (case lh_run H ctx argv (lw_out W) of (r, out) \<Rightarrow> (r, W\<lparr>lw_out := out\<rparr>))"

definition label_args :: "string \<Rightarrow> string \<Rightarrow> string list" where
  "label_args tag label =
     [''docker'', ''image'', ''inspect'', ''--format'', ''{{index .Config.Labels '' @ go_quote label @ ''}}'', tag]"

definition dockerImageLabel :: "'o lhost \<Rightarrow> bool \<Rightarrow> string \<Rightarrow> string \<Rightarrow> 'o lworld \<Rightarrow> string \<times> 'o lworld" where
  "dockerImageLabel H ctx tag label W =
     (case run_cmd H ctx (label_args tag label) W of
        ((out, Some e), W') \<Rightarrow> ([], W')
      | ((out, None), W') \<Rightarrow> (strings_TrimSpace out, W'))"

definition build_args :: "workload_spec \<Rightarrow> string \<Rightarrow> string list" where
  "build_args w digest =
     [''docker'', ''build'', ''-t'', dockerBuildTag w digest]
     @ (if digest \<noteq> [] then [''--label'', buildContentLabel @ ''='' @ digest] else [])
     @ [''-f'', pp_Dockerfile (ws_Package w), wsrc_Path (ws_Source w)]"

definition docker_build :: "'o lhost \<Rightarrow> bool \<Rightarrow> workload_spec \<Rightarrow> string \<Rightarrow> 'o lworld \<Rightarrow> unit call \<times> 'o lworld" where
  "docker_build H ctx w digest W =
     (case run_cmd H ctx (build_args w digest) W of
        ((out, Some e), W') \<Rightarrow> (Err (''docker build failed: '' @ out @ '': '' @ e), W')
      | ((out, None), W') \<Rightarrow> (Ret (), W'))"

definition docker_Prepare :: "'o lhost \<Rightarrow> bool \<Rightarrow> plan \<Rightarrow> 'o lworld \<Rightarrow> unit call \<times> 'o lworld" where
  "docker_Prepare H ctx p W =
     (let w = pl_Workload p
      in if \<not> pp_BuildRequired (ws_Package w) \<or> pp_Dockerfile (ws_Package w) = [] then (Ret (), W)
         else case docker_digest H w (lw_out W) of
                Inl e \<Rightarrow> docker_build H ctx w [] W
              | Inr digest \<Rightarrow>
                  (case dockerImageLabel H ctx (dockerBuildTag w digest) buildContentLabel W of
                     (label, W') \<Rightarrow> if label = digest then (Ret (), W') else docker_build H ctx w digest W'))"

definition runtimeCommand :: "go_runtime \<Rightarrow> string \<Rightarrow> string list" where
  "runtimeCommand rt entrypoint = RuntimeCommand rt entrypoint True"

definition dockerRunArgs :: "'o lhost \<Rightarrow> workload_spec \<Rightarrow> string \<Rightarrow> string \<Rightarrow> 'o \<Rightarrow> string list result" where
  "dockerRunArgs H w containerName envFile out =
     (let args = [''run'', ''--name'', containerName, ''--rm'']
            @ concat (map (\<lambda>port. [''-p'', show_int port @ '':'' @ show_int port]) (ws_Ports w))
            @ (if envFile \<noteq> [] then [''--env-file'', envFile] else []);
          pk = ws_Package w; path = wsrc_Path (ws_Source w)
      in if pp_Dockerfile pk \<noteq> []
         then Inr (args @ [dockerBuildTag w (case docker_digest H w out of Inl _ \<Rightarrow> [] | Inr d \<Rightarrow> d)])
         else if pp_BaseImage pk = [] then Inl ''no image or base image available''
         else if pp_Type pk \<noteq> PackageTypeImage \<and> List.member path CHR '',''
         then Inl (''workload path '' @ go_quote path @ '' contains a comma, which docker --mount cannot express; move it to a comma-free path'')
         else Inr (args
           @ (if pp_Type pk \<noteq> PackageTypeImage
              then [''--mount'', ''type=bind,source='' @ path @ '',target=/app'', ''-w'', ''/app''] else [])
           @ [pp_BaseImage pk]
           @ (if ws_Command w \<noteq> [] then ws_Command w
              else if pp_Type pk \<noteq> PackageTypeImage \<and> ws_Entrypoints w \<noteq> []
              then runtimeCommand (ws_Runtime w) (hd (ws_Entrypoints w)) else [])))"

section \<open>The environment file\<close>

definition WriteDotEnvFile :: "'o lhost \<Rightarrow> workload_spec \<Rightarrow> 'o lworld \<Rightarrow> string option result \<times> 'o lworld" where
  "WriteDotEnvFile H w W =
     (let extra = [(ws_Env w, lh_envOrder H (ws_Env w))]; dir = wsrc_Path (ws_Source w)
      in case workload_env (lh_envFiles H) dir extra of
           Inl e \<Rightarrow> (Inl (env_error_string e), W)
         | Inr kv \<Rightarrow>
             (case WriteDotEnvFile_text (lh_envFiles H) dir extra (lh_envOrder H kv) of
                Inl e \<Rightarrow> (Inl (env_error_string e), W)
              | Inr None \<Rightarrow> (Inr None, W)
              | Inr (Some text) \<Rightarrow>
                  (case WriteSecureTempFile ''dispatcher-env-*.env'' text (lh_now H (lw_out W)) (lh_fault H (lw_out W))
                          (lh_rnd H (lw_out W)) (lw_temps W) of
                     (Inl e, t) \<Rightarrow> (Inl (''write env file: '' @ e), W\<lparr>lw_temps := t\<rparr>)
                   | (Inr f, t) \<Rightarrow> (Inr (Some f), W\<lparr>lw_temps := t\<rparr>))))"

text \<open>The returned cleanup function; the removal is taken to succeed.\<close>

definition env_cleanup :: "string option \<Rightarrow> 'o lworld \<Rightarrow> 'o lworld" where
  "env_cleanup f W = (case f of None \<Rightarrow> W | Some n \<Rightarrow> W\<lparr>lw_temps := (lw_temps W)(n := None)\<rparr>)"

section \<open>The adapter's methods\<close>

definition docker_Validate :: "'o lhost \<Rightarrow> bool \<Rightarrow> workload_spec \<Rightarrow> 'o lworld \<Rightarrow> validation_result call \<times> 'o lworld" where
  "docker_Validate H ctx w W =
     (case run_cmd H ctx [''docker'', ''info''] W of
        ((out, Some e), W') \<Rightarrow> (Err (''docker is not available: '' @ e), W')
      | ((out, None), W') \<Rightarrow>
          (if gr_Required (rr_GPU (ws_Requirements w)) then Err ''local docker does not support GPU workloads''
           else Ret DefaultValidationResult, W'))"

definition docker_Execute :: "'o lhost \<Rightarrow> bool \<Rightarrow> plan \<Rightarrow> 'o lworld \<Rightarrow> run_handle call \<times> 'o lworld" where
  "docker_Execute H ctx p W =
     (let w = pl_Workload p; i = dockerContainerName w (pm_ID (pl_Metadata p))
      in case WriteDotEnvFile H w W of
           (Inl e, W1) \<Rightarrow> (Err e, W1)
         | (Inr f, W1) \<Rightarrow>
             (case dockerRunArgs H w i (case f of None \<Rightarrow> [] | Some n \<Rightarrow> n) (lw_out W1) of
                Inl e \<Rightarrow> (Err e, env_cleanup f W1)
              | Inr args \<Rightarrow>
                  (case lh_start H ctx (''docker'' # args) (lh_environ H) [] [] (lw_out W1) of
                     (Some e, out) \<Rightarrow> (Err (''docker run failed: '' @ e), env_cleanup f (W1\<lparr>lw_out := out\<rparr>))
                   | (None, out) \<Rightarrow>
                       (Ret \<lparr>rh_ID = i, rh_TargetID = ''local-docker'', rh_State = StateOpaque, rh_RunID = []\<rparr>,
                        put_proc i \<lparr>ps_exit = None, ps_logStarted = False, ps_envFile = f, ps_sourcePath = [], ps_outputs = []\<rparr> (W1\<lparr>lw_out := out\<rparr>)))))"

definition docker_Status :: "'o lhost \<Rightarrow> bool \<Rightarrow> run_handle \<Rightarrow> 'o lworld \<Rightarrow> run_state call \<times> 'o lworld" where
  "docker_Status H ctx h W =
     (case lw_procs W (rh_ID h) of
        None \<Rightarrow> (Panics no_state, W)
      | Some p \<Rightarrow>
          (case ps_exit p of
             Some (code, sig) \<Rightarrow> if sig = [] then (Ret (exit_state code), W) else wait_proc H (rh_ID h) p W
           | None \<Rightarrow> wait_proc H (rh_ID h) p W))"

definition docker_Logs :: "'o lhost \<Rightarrow> bool \<Rightarrow> run_handle \<Rightarrow> 'o lworld \<Rightarrow> unit call \<times> 'o lworld" where
  "docker_Logs H ctx h W =
     (case run_cmd H ctx [''docker'', ''logs'', ''-f'', rh_ID h] W of
        ((out, Some e), W') \<Rightarrow> (Err e, W') | ((out, None), W') \<Rightarrow> (Ret (), W'))"

text \<open>\<^verbatim>\<open>strings.SplitN(s, "|", 3)\<close>.\<close>

definition split_bars :: "string \<Rightarrow> string list" where
  "split_bars s =
     (case strings_Split CHR ''|'' s of
        a # b # c # rest \<Rightarrow> [a, b, strings_Join (c # rest) ''|'']
      | parts \<Rightarrow> parts)"

definition parseDockerInspect :: "string \<Rightarrow> failure_details" where
  "parseDockerInspect raw =
     (case split_bars (strings_TrimSpace raw) of
        a # b # rest \<Rightarrow>
          (let code = (case strconv_Atoi a of None \<Rightarrow> 0 | Some n \<Rightarrow> n);
               oom = (b = ''true'');
               msg = (case rest of [c] \<Rightarrow> if c \<noteq> [] then truncateFailureMessage c else [] | _ \<Rightarrow> []);
               fd = failure_details_zero\<lparr>fd_ExitCode := code, fd_OOMKilled := oom, fd_Message := msg\<rparr>
           in if oom then fd\<lparr>fd_Message := ''container OOM-killed'', fd_Signal := ''SIGKILL''\<rparr>
              else if msg = [] \<and> code \<noteq> 0 then fd\<lparr>fd_Message := ''container exited with code '' @ show_int code\<rparr>
              else fd)
      | _ \<Rightarrow> failure_details_zero\<lparr>fd_Message := ''docker inspect returned unexpected shape''\<rparr>)"

definition inspect_format :: string where
  "inspect_format = ''{{.State.ExitCode}}|{{.State.OOMKilled}}|{{.State.Error}}''"

definition docker_FailureDetails :: "'o lhost \<Rightarrow> run_handle \<Rightarrow> 'o lworld \<Rightarrow> failure_details" where
  "docker_FailureDetails H h W =
     (case fst (run_cmd H False [''docker'', ''inspect'', ''--format'', inspect_format, rh_ID h] W) of
        (out, None) \<Rightarrow> parseDockerInspect out
      | (out, Some e) \<Rightarrow>
          (case Option.bind (lw_procs W (rh_ID h)) ps_exit of
             Some (code, sig) \<Rightarrow>
               failure_details_zero\<lparr>fd_ExitCode := code,
                 fd_Message := (if code \<noteq> 0
                   then ''container exited with code '' @ show_int code @ '' (docker inspect unavailable)'' else [])\<rparr>
           | None \<Rightarrow>
               failure_details_zero\<lparr>fd_Message := ''docker inspect unavailable (container may have been removed)''\<rparr>))"

definition docker_Terminate :: "'o lhost \<Rightarrow> run_handle \<Rightarrow> 'o lworld \<Rightarrow> unit call \<times> 'o lworld" where
  "docker_Terminate H h W =
     (case run_cmd H False [''docker'', ''stop'', rh_ID h] W of
        ((out, Some e), W') \<Rightarrow> (Err e, W') | ((out, None), W') \<Rightarrow> (Ret (), W'))"

definition docker_Cleanup :: "'o lhost \<Rightarrow> run_handle \<Rightarrow> 'o lworld \<Rightarrow> cleanup_result option call \<times> 'o lworld" where
  "docker_Cleanup H h W =
     (let W1 = snd (run_cmd H False [''docker'', ''rm'', ''-f'', rh_ID h] W);
          W2 = (case lw_procs W1 (rh_ID h) of
                  None \<Rightarrow> W1
                | Some p \<Rightarrow> env_cleanup (ps_envFile p) (put_proc (rh_ID h) (p\<lparr>ps_envFile := None\<rparr>) W1))
      in (Ret (Some \<lparr>cl_Success = True, cl_ResourcesCleaned = [rh_ID h], cl_Errors = []\<rparr>), W2))"

definition docker_adapter :: "'o lhost \<Rightarrow> 'o lworld adapter" where
  "docker_adapter H =
     \<lparr>ad_Validate = docker_Validate H, ad_Prepare = docker_Prepare H, ad_Execute = docker_Execute H,
      ad_Status = docker_Status H, ad_Logs = docker_Logs H, ad_Artifacts = (\<lambda>ctx h W. (Ret [], W)),
      ad_Terminate = docker_Terminate H, ad_Cleanup = docker_Cleanup H,
      ad_ExtendWatchdog = None, ad_FailureDetails = Some (docker_FailureDetails H)\<rparr>"

section \<open>Containers of shards\<close>

lemma byte_runes_ascii: "\<forall>b\<in>set bs. b < 0x80 \<Longrightarrow> byte_runes bs = bs"
  by (induction bs) (simp_all add: decode_rune_def)

lemma digit_code: "is_digit c \<Longrightarrow> 48 \<le> (of_char c :: nat) \<and> (of_char c :: nat) \<le> 57"
proof -
  assume "is_digit c"
  then have "48 \<le> (of_char c :: int)" "(of_char c :: int) \<le> 57" by (simp_all add: is_digit_def Let_def)
  then have "int 48 \<le> int (of_char c)" "int (of_char c) \<le> int 57" by (simp_all add: of_nat_of_char)
  then show ?thesis by linarith
qed

lemma sanitize_digit: "is_digit c \<Longrightarrow> sanitize_rune (lower_rune (of_char c)) = c"
  using digit_code [of c] by (simp add: lower_rune_def sanitize_rune_def)

lemma SanitizeName_digits:
  assumes "list_all is_digit s" "s \<noteq> []" "length s \<le> 40"
  shows "SanitizeName s = s"
proof -
  have "string_runes s = map of_char s"
    unfolding string_runes_def using assms(1) digit_code by (intro byte_runes_ascii) (fastforce simp: list_all_iff)
  then have m: "map (\<lambda>r. sanitize_rune (lower_rune r)) (string_runes s) = s"
    using assms(1) by (simp add: list_all_iff sanitize_digit map_idI)
  have "\<not> is_digit CHR ''-''" by (simp add: is_digit_def)
  then have nd: "\<not> List.member ''-'' c" if "c \<in> set s" for c using that assms(1) by (auto simp: list_all_iff)
  have dw: "dropWhile (List.member ''-'') xs = xs" if "set xs \<subseteq> set s" for xs
    using nd that by (cases xs) auto
  have t: "strings_Trim s ''-'' = s" by (simp add: strings_Trim_def dw)
  show ?thesis using assms(2,3) by (simp add: SanitizeName_def m t)
qed

lemma show_pos_length: "0 \<le> n \<Longrightarrow> n < 10 ^ Suc k \<Longrightarrow> length (show_pos n) \<le> Suc k"
proof (induction k arbitrary: n)
  case (Suc k)
  show ?case
  proof (cases "n < 10")
    case False
    have "n div 10 < 10 ^ Suc k" using Suc.prems by (simp add: div_less_iff_less_mult mult.commute)
    with Suc.IH [of "n div 10"] Suc.prems False show ?thesis by (simp add: show_pos.simps [of n])
  qed (simp add: show_pos.simps)
qed (simp add: show_pos.simps)

lemma SanitizeName_index:
  assumes "0 \<le> i" "i < 2 ^ 63"
  shows "SanitizeName (show_int i) = show_int i"
proof -
  have "length (show_pos i) \<le> Suc 18" using assms by (intro show_pos_length) simp_all
  then show ?thesis
    using show_pos_roundtrip [OF assms(1)] assms(1) by (intro SanitizeName_digits) (simp_all add: show_int_def)
qed

lemma show_int_inj: "0 \<le> i \<Longrightarrow> 0 \<le> j \<Longrightarrow> show_int i = show_int j \<Longrightarrow> i = j"
  by (metis show_int_def show_pos_roundtrip linorder_not_less)

text \<open>
  Shards of one plan on the same daemon never share a container: they have the workload's name and the plan's id in common,
  but different indices give different container names.
\<close>

theorem shard_containers_distinct:
  assumes "0 \<le> i" "i < 2 ^ 63" "0 \<le> j" "j < 2 ^ 63" "i \<noteq> j"
    and "ws_Env w ''SHARD_INDEX'' = Some (show_int i)" "ws_Env w' ''SHARD_INDEX'' = Some (show_int j)"
    and "ws_Name w' = ws_Name w"
  shows "dockerContainerName w planID \<noteq> dockerContainerName w' planID"
  using assms show_int_inj [of i j] by (auto simp: dockerContainerName_def SanitizeName_index Let_def)

section \<open>The environment file\<close>

lemma temp_attempts_result:
  "temp_attempts pattern contents now fault rnds d = (r, d') \<Longrightarrow>
     (case r of Inl e \<Rightarrow> d' = d | Inr n \<Rightarrow> d n = None \<and> d'(n := None) = d)"
proof (induction rnds arbitrary: d)
  case (Cons x rnds)
  then show ?case by (cases x) (auto simp: Let_def fun_upd_idem split: if_splits temp_fault.splits)
qed auto

lemma WriteDotEnvFile_temps:
  assumes "WriteDotEnvFile H w W = (r, W1)"
  shows "lw_procs W1 = lw_procs W \<and> (case r of
     Inl e \<Rightarrow> lw_temps W1 = lw_temps W | Inr f \<Rightarrow> lw_temps (env_cleanup f (W1\<lparr>lw_out := x\<rparr>)) = lw_temps W)"
  using assms unfolding WriteDotEnvFile_def Let_def WriteSecureTempFile_def
  by (auto split: sum.splits option.splits prod.splits simp: env_cleanup_def dest!: temp_attempts_result)

lemma env_cleanup_simps [simp]:
  "lw_procs (env_cleanup f W) = lw_procs W"
  "lw_temps (env_cleanup f W) = (case f of None \<Rightarrow> lw_temps W | Some n \<Rightarrow> (lw_temps W)(n := None))"
  by (cases f; simp add: env_cleanup_def)+

text \<open>
  C21: The file with the workload's environment, secrets included, is on disk only between the start of the container and its
  cleanup: a start that fails at any point leaves the temporary directory as it was, and after a
  successful one the cleanup of its handle does, whatever docker answers and however the outside changed in
  between. Removing a file is taken to succeed.
\<close>

theorem docker_env_file_released:
  assumes "docker_Execute H ctx p W = (r, W')"
  shows "case r of
     Ret h \<Rightarrow> lw_temps (snd (docker_Cleanup H h (W'\<lparr>lw_out := out\<rparr>))) = lw_temps W
   | Err e \<Rightarrow> lw_temps W' = lw_temps W
   | Panics e \<Rightarrow> False"
proof -
  let ?w = "pl_Workload p" let ?i = "dockerContainerName ?w (pm_ID (pl_Metadata p))"
  obtain f W1 where e: "WriteDotEnvFile H ?w W = (f, W1)" by fastforce
  note t = WriteDotEnvFile_temps [OF e]
  show ?thesis
  proof (cases f)
    case (Inl x)
    with assms e t show ?thesis by (auto simp: docker_Execute_def Let_def)
  next
    case (Inr g)
    have c: "lw_temps (env_cleanup g (W1\<lparr>lw_out := x\<rparr>)) = lw_temps W" for x using t Inr by (auto split: option.splits)
    from c [of "lw_out W1"] have c0: "lw_temps (env_cleanup g W1) = lw_temps W" by simp
    show ?thesis
      using assms e Inr c c0
      by (auto simp: docker_Execute_def Let_def docker_Cleanup_def run_cmd_def put_proc_def split: sum.splits prod.splits option.splits)
  qed
qed

definition demo_docker_plan :: plan where
  "demo_docker_plan = demo_plan\<lparr>pl_Workload := demo_workload\<lparr>ws_Env := [''TOKEN'' \<mapsto> ''s3cret''],
     ws_Package := \<lparr>pp_Type = PackageTypeImage, pp_Dockerfile = [], pp_BuildRequired = False, pp_BaseImage = ''tool:1''\<rparr>\<rparr>\<rparr>"

definition demo_secret_file :: "string \<rightharpoonup> temp_file" where
  "demo_secret_file = [''dispatcher-env-00.env'' \<mapsto> \<lparr>tf_text = ''TOKEN=s3cret'' @ [newline], tf_mtime = 0\<rparr>]"

lemma demo_env_text:
  "WriteDotEnvFile demo_lhost (pl_Workload demo_docker_plan) demo_lworld
     = (Inr (Some ''dispatcher-env-00.env''), demo_lworld\<lparr>lw_temps := demo_secret_file\<rparr>)"
proof -
  have k: "isValidEnvKey ''TOKEN''" by code_simp
  have n: "strings_ContainsAny ''s3cret'' [newline, CHR 0x0D] = False" by code_simp
  have u: "upt 0 10 = 0 # upt 1 10" by (simp add: upt_rec)
  show ?thesis
    by (simp add: WriteDotEnvFile_def WriteDotEnvFile_text_def WriteSecureTempFile_def u Let_def workload_env_def LoadDotEnv_def
      demo_docker_plan_def demo_lhost_def demo_lworld_def demo_secret_file_def demo_workload_def demo_plan_def k n env_value_def
      expandTempPattern_def)
qed

theorem docker_env_file_released_witness:
  "\<exists>h W'. docker_Execute demo_lhost True demo_docker_plan demo_lworld = (Ret h, W') \<and> lw_temps W' = demo_secret_file
     \<and> lw_temps (snd (docker_Cleanup demo_lhost h (W'\<lparr>lw_out := ()\<rparr>))) = Map.empty"
proof -
  obtain h W' where e: "docker_Execute demo_lhost True demo_docker_plan demo_lworld = (Ret h, W')"
    and t: "lw_temps W' = demo_secret_file"
    unfolding docker_Execute_def Let_def demo_env_text
    by (simp add: dockerRunArgs_def demo_docker_plan_def demo_lhost_def demo_lworld_def demo_plan_def put_proc_def Let_def)
  from docker_env_file_released [OF e, of "()"] e t show ?thesis by (auto simp: demo_lworld_def)
qed

section \<open>Preparing and running\<close>

lemma dockerBuildTag_digest: "d \<noteq> [] \<Longrightarrow> dockerBuildTag w d = ''dispatcher-'' @ SanitizeName (ws_Name w) @ '':'' @ d"
  by (simp add: dockerBuildTag_def Let_def)

text \<open>
  What runs is what was prepared. When a workload with a Dockerfile has been prepared and its source has not changed since, the
  container runs the image of its content key, and that image either carried this key as its
  label already or was built under the key, with the label, by a command that succeeded.
\<close>

theorem docker_runs_prepared_image:
  assumes "docker_Prepare H ctx p W = (Ret (), W')"
    and "pp_BuildRequired (ws_Package (pl_Workload p))" "pp_Dockerfile (ws_Package (pl_Workload p)) \<noteq> []"
    and "docker_digest H (pl_Workload p) (lw_out W) = Inr d" "docker_digest H (pl_Workload p) (lw_out W') = Inr d"
  shows "(\<exists>args. dockerRunArgs H (pl_Workload p) name envFile (lw_out W') = Inr args \<and> last args = dockerBuildTag (pl_Workload p) d)
    \<and> ((\<exists>text. lh_run H ctx (label_args (dockerBuildTag (pl_Workload p) d) buildContentLabel) (lw_out W) = ((text, None), lw_out W')
              \<and> strings_TrimSpace text = d)
       \<or> d = [] \<or> (\<exists>out text. lh_run H ctx (build_args (pl_Workload p) d) out = ((text, None), lw_out W')))"
  using assms
  by (auto simp: docker_Prepare_def dockerImageLabel_def docker_build_def run_cmd_def dockerRunArgs_def Let_def
    split: prod.splits option.splits if_splits; blast)

text \<open>
  Failures of a container are told apart for the retry: whatever else docker reports, an out-of-memory kill is transient,
  and so is a container killed by a signal whose record is gone.
\<close>

theorem docker_kill_transient:
  assumes "fst (run_cmd H False [''docker'', ''inspect'', ''--format'', inspect_format, rh_ID h] W) = r"
    and "(\<exists>out rest code. r = (out, None) \<and> split_bars (strings_TrimSpace out) = code # ''true'' # rest)
       \<or> (\<exists>out e p code. r = (out, Some e) \<and> lw_procs W (rh_ID h) = Some p \<and> ps_exit p = Some (code, []) \<and> code \<in> {137, 143})"
  shows "ClassifyFailure (docker_FailureDetails H h W) = FailureTransient"
  using assms
  by (auto simp: docker_FailureDetails_def parseDockerInspect_def ClassifyFailure_def failure_details_zero_def killSignalExit_iff Let_def)

end
