(* ===== verification/Ssh_Adapter.thy ===== *)
theory Ssh_Adapter
  imports Docker_Adapter
begin

text \<open>
  Running a workload on an existing host over ssh (\<^verbatim>\<open>internal/adapter/ssh.go\<close>): the command lines of ssh and rsync, the script
  that is fed to the remote shell, the retrieval of outputs and the removal of the remote directory. What the
  remote shell makes of a command line or a script is read with \<open>sh_lines\<close> of the theory \<open>Shell_Env\<close>.
\<close>

section \<open>Configuration\<close>

record ssh_config =
  sc_Host :: string
  sc_User :: string
  sc_Port :: int
  sc_KeyFile :: string
  sc_RemoteDir :: string

definition NewSSHAdapter :: "ssh_config \<Rightarrow> ssh_config" where
  "NewSSHAdapter cfg =
     (let c = (if sc_Port cfg = 0 then cfg\<lparr>sc_Port := 22\<rparr> else cfg)
      in if sc_RemoteDir c = [] then c\<lparr>sc_RemoteDir := ''/tmp/dispatcher''\<rparr> else c)"

text \<open>The configuration of the adapter of an ssh target (\<^verbatim>\<open>adapterForTarget\<close>).\<close>

definition no_ssh_host :: "target_config \<Rightarrow> string" where
  "no_ssh_host t = ''ssh target '' @ go_quote (tc_ID t) @ '' has no host configured; set ssh.host in its target YAML or recreate with ''
     @ [CHR 0x60] @ ''dispatcher targets add '' @ tc_ID t @ '' --host <addr>'' @ [CHR 0x60]"

definition ssh_target_adapter :: "target_config \<Rightarrow> ssh_config result" where
  "ssh_target_adapter t =
     (case tc_SSH t of
        None \<Rightarrow> Inl (no_ssh_host t)
      | Some s \<Rightarrow>
          if ssh_Host s = [] then Inl (no_ssh_host t)
          else Inr (NewSSHAdapter \<lparr>sc_Host = ssh_Host s,
                 sc_User = (if ssh_User s \<noteq> [] then ssh_User s else ''root''),
                 sc_Port = (if 0 < ssh_Port s then ssh_Port s else 22),
                 sc_KeyFile = ssh_KeyFile s, sc_RemoteDir = []\<rparr>))"

definition strictHostKeyChecking :: string where
  "strictHostKeyChecking = ''StrictHostKeyChecking=accept-new''"

definition sshArgs :: "ssh_config \<Rightarrow> string list \<Rightarrow> string list" where
  "sshArgs cfg extraArgs =
     (if sc_KeyFile cfg \<noteq> [] then [''-i'', sc_KeyFile cfg] else [])
     @ [''-p'', show_int (sc_Port cfg), ''-o'', strictHostKeyChecking, sc_User cfg @ ''@'' @ sc_Host cfg] @ extraArgs"

definition rsyncSSHCmd :: "ssh_config \<Rightarrow> string" where
  "rsyncSSHCmd cfg =
     (if sc_KeyFile cfg \<noteq> []
      then ''ssh -o '' @ strictHostKeyChecking @ '' -i '' @ ShellQuote (sc_KeyFile cfg) @ '' -p '' @ show_int (sc_Port cfg)
      else if sc_Port cfg \<noteq> 22 then ''ssh -o '' @ strictHostKeyChecking @ '' -p '' @ show_int (sc_Port cfg)
      else [])"

definition validateRemoteDir :: "string \<Rightarrow> unit result" where
  "validateRemoteDir dir =
     (if dir = [] then Inl ''RemoteDir is empty''
      else if \<not> strings_HasPrefix dir ''/'' then Inl ''RemoteDir must be absolute''
      else if strings_Contains dir ''..'' then Inl ''RemoteDir contains traversal''
      else if strings_ContainsAny dir
                ([CHR '' '', CHR 0x09, CHR 0x0D, newline] @ '';&|$'' @ [CHR 0x60] @ ''<>(){}[]*?!#~'' @ [squote, quote_char, backslash])
      then Inl ''RemoteDir contains shell metacharacters or whitespace''
      else if length (filter (\<lambda>p. p \<noteq> []) (strings_Split CHR ''/'' (strings_Trim dir ''/''))) < 2
      then Inl (''RemoteDir must have at least two path components (got '' @ go_quote dir @ '')'')
      else Inr ())"

section \<open>Scripts\<close>

definition sshDockerRunScript :: "string \<Rightarrow> string \<Rightarrow> string \<Rightarrow> string" where
  "sshDockerRunScript quotedDir quotedImage envFileLines =
     ''cd '' @ quotedDir @ [newline]
     @ ''docker build -t '' @ quotedImage @ '' .'' @ [newline]
     @ ''docker run --rm --env-file /dev/stdin '' @ quotedImage @ '' <<'' @ [squote] @ dotEnvHeredocTerminator @ [squote, newline]
     @ envFileLines @ dotEnvHeredocTerminator @ [newline]"

definition exec_script :: "string \<Rightarrow> string \<Rightarrow> string list \<Rightarrow> string" where
  "exec_script dir envExports argv =
     ''cd '' @ ShellQuote dir @ [newline] @ envExports @ ''exec '' @ ShellQuoteArgs argv @ [newline]"

definition file_line_error :: "env_error \<Rightarrow> string" where
  "file_line_error e =
     (case e of
        InvalidEnvValue k \<Rightarrow> ''env value for '' @ go_quote k @ '' cannot contain a newline or '' @ go_quote dotEnvHeredocTerminator
      | _ \<Rightarrow> env_error_string e)"

definition ssh_script :: "'o lhost \<Rightarrow> ssh_config \<Rightarrow> workload_spec \<Rightarrow> string result" where
  "ssh_script H cfg w =
     (let extra = [(ws_Env w, lh_envOrder H (ws_Env w))]; dir = wsrc_Path (ws_Source w)
      in case workload_env (lh_envFiles H) dir extra of
           Inl e \<Rightarrow> Inl (env_error_string e)
         | Inr kv \<Rightarrow>
             (case DotEnvExportScript (lh_envFiles H) dir extra (lh_envOrder H kv) of
                Inl e \<Rightarrow> Inl (env_error_string e)
              | Inr envExports \<Rightarrow>
                  if pp_Dockerfile (ws_Package w) \<noteq> []
                  then (case DotEnvFileLines (lh_envFiles H) dir extra (lh_envOrder H kv) of
                          Inl e \<Rightarrow> Inl (file_line_error e)
                        | Inr envFileLines \<Rightarrow>
                            Inr (sshDockerRunScript (ShellQuote (sc_RemoteDir cfg))
                              (ShellQuote (''dispatcher-'' @ SanitizeName (ws_Name w) @ '':latest'')) envFileLines))
                  else if ws_Command w \<noteq> [] then Inr (exec_script (sc_RemoteDir cfg) envExports (ws_Command w))
                  else if ws_Entrypoints w \<noteq> []
                  then Inr (exec_script (sc_RemoteDir cfg) envExports (runtimeCommand (ws_Runtime w) (hd (ws_Entrypoints w))))
                  else Inl ''no command or entrypoint for SSH execution''))"

section \<open>The adapter's methods\<close>

definition ssh_cmd :: "'o lhost \<Rightarrow> bool \<Rightarrow> ssh_config \<Rightarrow> string list \<Rightarrow> 'o lworld \<Rightarrow> string option \<times> 'o lworld" where
  "ssh_cmd H ctx cfg words W = (case run_cmd H ctx (''ssh'' # sshArgs cfg words) W of ((out, err), W') \<Rightarrow> (err, W'))"

definition ssh_Validate :: "'o lhost \<Rightarrow> ssh_config \<Rightarrow> bool \<Rightarrow> workload_spec \<Rightarrow> 'o lworld \<Rightarrow> validation_result call \<times> 'o lworld" where
  "ssh_Validate H cfg ctx w W =
     (case ssh_cmd H ctx cfg [''-o'', ''ConnectTimeout=5'', ''echo'', ''ok''] W of
        (Some e, W') \<Rightarrow> (Err (''SSH connection failed: '' @ e), W')
      | (None, W') \<Rightarrow>
          (if gr_Required (rr_GPU (ws_Requirements w)) then Err ''SSH target does not support GPU workloads''
           else Ret DefaultValidationResult, W'))"

definition ssh_EstimateCost :: cost_estimate where
  "ssh_EstimateCost = cost_estimate_zero\<lparr>ce_Value := lit 0.10, ce_Currency := ''USD'', ce_Confidence := ConfidenceMedium,
     ce_Assumptions := [''assumes 1h runtime on existing SSH host'']\<rparr>"

definition rsync_e :: "ssh_config \<Rightarrow> string list" where
  "rsync_e cfg = (if rsyncSSHCmd cfg \<noteq> [] then [''-e'', rsyncSSHCmd cfg] else [])"

definition ssh_Prepare :: "'o lhost \<Rightarrow> ssh_config \<Rightarrow> bool \<Rightarrow> plan \<Rightarrow> 'o lworld \<Rightarrow> unit call \<times> 'o lworld" where
  "ssh_Prepare H cfg ctx p W =
     (case ssh_cmd H ctx cfg [''mkdir'', ''-p'', sc_RemoteDir cfg] W of
        (Some e, W1) \<Rightarrow> (Err (''failed to create remote directory: '' @ e), W1)
      | (None, W1) \<Rightarrow>
          (case run_cmd H ctx ([''rsync'', ''-az'', ''--delete''] @ rsync_e cfg
                   @ [wsrc_Path (ws_Source (pl_Workload p)) @ ''/'',
                      sc_User cfg @ ''@'' @ sc_Host cfg @ '':'' @ sc_RemoteDir cfg @ ''/'']) W1 of
             ((out, Some e), W2) \<Rightarrow> (Err (''rsync failed: '' @ e), W2)
           | ((out, None), W2) \<Rightarrow> (Ret (), W2)))"

text \<open>If the pipe for the script can be made, so can the one for the output.\<close>

definition ssh_Execute :: "'o lhost \<Rightarrow> ssh_config \<Rightarrow> bool \<Rightarrow> plan \<Rightarrow> 'o lworld \<Rightarrow> run_handle call \<times> 'o lworld" where
  "ssh_Execute H cfg ctx p W =
     (let w = pl_Workload p; i = ''ssh-'' @ SanitizeName (ws_Name w) @ ''-'' @ pm_ID (pl_Metadata p)
      in case ssh_script H cfg w of
           Inl e \<Rightarrow> (Err e, W)
         | Inr script \<Rightarrow>
             (case lh_pipe H (lw_out W) of
                Some e \<Rightarrow> (Err (''ssh stdin pipe: '' @ e), W)
              | None \<Rightarrow>
                  (case lh_start H ctx (''ssh'' # sshArgs cfg [''bash'', ''-s'']) (lh_environ H) [] script (lw_out W) of
                     (Some e, out) \<Rightarrow> (Err (''SSH execution failed: '' @ e), W\<lparr>lw_out := out\<rparr>)
                   | (None, out) \<Rightarrow>
                       (Ret \<lparr>rh_ID = i, rh_TargetID = ''ssh'', rh_State = StateOpaque, rh_RunID = []\<rparr>,
                        put_proc i \<lparr>ps_exit = None, ps_logStarted = False, ps_envFile = None, ps_sourcePath = [],
                          ps_outputs = ws_Outputs w\<rparr> (W\<lparr>lw_out := out\<rparr>)))))"

definition ssh_Status :: "'o lhost \<Rightarrow> bool \<Rightarrow> run_handle \<Rightarrow> 'o lworld \<Rightarrow> run_state call \<times> 'o lworld" where
  "ssh_Status H ctx h W =
     (case lw_procs W (rh_ID h) of
        None \<Rightarrow> (Panics no_state, W)
      | Some p \<Rightarrow> wait_proc H (rh_ID h) (p\<lparr>ps_logStarted := True\<rparr>) W)"

definition ssh_Logs :: "'o lhost \<Rightarrow> bool \<Rightarrow> run_handle \<Rightarrow> 'o lworld \<Rightarrow> unit call \<times> 'o lworld" where
  "ssh_Logs H ctx h W =
     (case lw_procs W (rh_ID h) of
        None \<Rightarrow> (Ret (), W)
      | Some p \<Rightarrow>
          if ps_logStarted p then (Ret (), W)
          else (case lh_copy H (rh_ID h) (lw_out W) of
                  (err, out) \<Rightarrow>
                    (case err of None \<Rightarrow> Ret () | Some e \<Rightarrow> Err e, put_proc (rh_ID h) (p\<lparr>ps_logStarted := True\<rparr>) (W\<lparr>lw_out := out\<rparr>))))"

definition fetch_ssh_output ::
  "'o lhost \<Rightarrow> ssh_config \<Rightarrow> bool \<Rightarrow> string \<Rightarrow> string \<Rightarrow> 'o lworld \<Rightarrow> artifact_ref list result \<times> 'o lworld" where
  "fetch_ssh_output H cfg ctx dest out W =
     (let localDest = artifact_dest dest out
      in if filepath_IsAbs out \<or> strings_Contains out ''..''
         then (Inl (''rejected output path '' @ go_quote out @ '' (absolute or traversal)''), W)
         else if \<not> strings_HasPrefix (localDest @ ''/'') (dest @ ''/'')
         then (Inl (''output '' @ go_quote out @ '' escapes artifacts root''), W)
         else case lh_mkdir H (path_dir localDest) of
                Some e \<Rightarrow> (Inl (''mkdir '' @ path_dir localDest @ '': '' @ e), W)
              | None \<Rightarrow>
                  (case run_cmd H ctx ([''rsync'', ''-az'', ''--safe-links'', ''--protect-args''] @ rsync_e cfg
                           @ [sc_User cfg @ ''@'' @ sc_Host cfg @ '':'' @ sc_RemoteDir cfg @ ''/'' @ out, localDest]) W of
                     ((_, Some e), W') \<Rightarrow> (Inl (''rsync '' @ out @ '': '' @ e), W')
                   | ((_, None), W') \<Rightarrow> (Inr (lh_walk H localDest (lw_out W')), W')))"

fun fetch_ssh_outputs ::
  "'o lhost \<Rightarrow> ssh_config \<Rightarrow> bool \<Rightarrow> string \<Rightarrow> string list \<Rightarrow> artifact_ref list \<times> string option \<Rightarrow> 'o lworld \<Rightarrow>
   (artifact_ref list \<times> string option) \<times> 'o lworld" where
  "fetch_ssh_outputs H cfg ctx dest [] acc W = (acc, W)"
| "fetch_ssh_outputs H cfg ctx dest (out # outs) (refs, firstErr) W =
     (case fetch_ssh_output H cfg ctx dest out W of
        (Inr new, W') \<Rightarrow> fetch_ssh_outputs H cfg ctx dest outs (refs @ new, firstErr) W'
      | (Inl e, W') \<Rightarrow>
          fetch_ssh_outputs H cfg ctx dest outs (refs, case firstErr of None \<Rightarrow> Some e | Some e0 \<Rightarrow> Some e0) W')"

definition ssh_Artifacts ::
  "'o lhost \<Rightarrow> ssh_config \<Rightarrow> bool \<Rightarrow> run_handle \<Rightarrow> 'o lworld \<Rightarrow> (artifact_ref list \<times> string option) \<times> 'o lworld" where
  "ssh_Artifacts H cfg ctx h W =
     (case lw_procs W (rh_ID h) of
        None \<Rightarrow> (([], None), W)
      | Some p \<Rightarrow>
          if ps_outputs p = [] then (([], None), W)
          else (case lh_subdir H (''runs/'' @ (if rh_RunID h = [] then rh_ID h else rh_RunID h) @ ''/artifacts'') of
                  Inl e \<Rightarrow> (([], Some (''create artifacts dir: '' @ e)), W)
                | Inr dest \<Rightarrow> fetch_ssh_outputs H cfg ctx dest (ps_outputs p) ([], None) W))"

definition ssh_Terminate :: "'o lhost \<Rightarrow> run_handle \<Rightarrow> 'o lworld \<Rightarrow> unit call \<times> 'o lworld" where
  "ssh_Terminate H h W = local_Terminate H h W"

definition ssh_FailureDetails :: "run_handle \<Rightarrow> 'o lworld \<Rightarrow> failure_details" where
  "ssh_FailureDetails h W =
     (case Option.bind (lw_procs W (rh_ID h)) ps_exit of
        None \<Rightarrow> failure_details_zero\<lparr>fd_Message := ''ssh process state not available''\<rparr>
      | Some (code, _) \<Rightarrow>
          let fd = failure_details_zero\<lparr>fd_ExitCode := code\<rparr>
          in if code = 255 then fd\<lparr>fd_Signal := ''SIGKILL'', fd_Message := ''ssh transport failed (exit 255)''\<rparr>
             else if code \<noteq> 0 then fd\<lparr>fd_Message := ''remote command exited with code '' @ show_int code\<rparr>
             else fd)"

definition ssh_Cleanup :: "'o lhost \<Rightarrow> ssh_config \<Rightarrow> run_handle \<Rightarrow> 'o lworld \<Rightarrow> cleanup_result option call \<times> 'o lworld" where
  "ssh_Cleanup H cfg h W =
     (case validateRemoteDir (sc_RemoteDir cfg) of
        Inl e \<Rightarrow>
          (Ret (Some \<lparr>cl_Success = False, cl_ResourcesCleaned = [],
             cl_Errors = [''refusing to clean RemoteDir '' @ go_quote (sc_RemoteDir cfg) @ '': '' @ e]\<rparr>), W)
      | Inr _ \<Rightarrow>
          (case ssh_cmd H False cfg [''rm'', ''-rf'', ''--'', sc_RemoteDir cfg] W of
             (Some e, W') \<Rightarrow> (Ret (Some \<lparr>cl_Success = False, cl_ResourcesCleaned = [], cl_Errors = [e]\<rparr>), W')
           | (None, W') \<Rightarrow> (Ret (Some \<lparr>cl_Success = True, cl_ResourcesCleaned = [sc_RemoteDir cfg], cl_Errors = []\<rparr>), W')))"

section \<open>What the remote shell reads\<close>

text \<open>ssh joins the words after the destination with spaces; the remote shell splits the line again.\<close>

definition remote_line :: "string list \<Rightarrow> string" where
  "remote_line words = strings_Join words '' ''"

lemma segs_lead: "filter (\<lambda>p. p \<noteq> []) (strings_Split c (dropWhile (List.member [c]) s)) = filter (\<lambda>p. p \<noteq> []) (strings_Split c s)"
  by (induction s) auto

lemma Split_snoc_sep: "strings_Split c (s @ [c]) = strings_Split c s @ [[]]"
  by (induction s) (auto split: list.splits)

lemma segs_trail:
  "filter (\<lambda>p. p \<noteq> []) (strings_Split c (rev (dropWhile (List.member [c]) (rev s)))) = filter (\<lambda>p. p \<noteq> []) (strings_Split c s)"
  by (induction s rule: rev_induct) (auto simp: Split_snoc_sep)

lemma segs_Trim: "filter (\<lambda>p. p \<noteq> []) (strings_Split c (strings_Trim s [c])) = filter (\<lambda>p. p \<noteq> []) (strings_Split c s)"
  unfolding strings_Trim_def by (simp only: segs_trail segs_lead)

definition dir_safe :: "string \<Rightarrow> bool" where
  "dir_safe dir \<longleftrightarrow> filepath_IsAbs dir \<and> \<not> strings_Contains dir ''..''
     \<and> set dir \<inter> set ''$*?[]{}~!'' = {} \<and> 2 \<le> length (filter (\<lambda>p. p \<noteq> []) (strings_Split CHR ''/'' dir))"

lemma validateRemoteDir_plain:
  assumes "validateRemoteDir dir = Inr ()"
  shows "dir_safe dir" "list_all sh_plain dir" "dir \<noteq> []"
proof -
  have c: "\<not> strings_ContainsAny dir
      ([CHR '' '', CHR 0x09, CHR 0x0D, newline] @ '';&|$'' @ [CHR 0x60] @ ''<>(){}[]*?!#~'' @ [squote, quote_char, backslash])"
    and o: "dir \<noteq> []" "strings_HasPrefix dir ''/''" "\<not> strings_Contains dir ''..''"
      "2 \<le> length (filter (\<lambda>p. p \<noteq> []) (strings_Split CHR ''/'' (strings_Trim dir ''/'')))"
    using assms by (auto simp: validateRemoteDir_def split: if_splits)
  show "dir_safe dir"
    using c o by (auto simp: dir_safe_def filepath_IsAbs_def segs_Trim strings_ContainsAny_iff)
  show "list_all sh_plain dir"
    using c unfolding strings_ContainsAny_iff
    by (auto simp: list_all_iff sh_plain_def sh_blank_def sh_unsupported_def newline_def quote_char_def)
  show "dir \<noteq> []" by (rule o)
qed

lemma rm_line:
  assumes "list_all sh_plain dir" "dir \<noteq> []"
  shows "sh_lines (remote_line [''rm'', ''-rf'', ''--'', dir]) = Some [[unq ''rm'', unq ''-rf'', unq ''--'', unq dir]]"
proof -
  have p: "list_all sh_plain ''rm''" "list_all sh_plain ''-rf''" "list_all sh_plain ''--''" by code_simp+
  have l: "remote_line [''rm'', ''-rf'', ''--'', dir] = ''rm'' @ CHR '' '' # (''-rf'' @ CHR '' '' # (''--'' @ CHR '' '' # (dir @ [])))"
    by (simp add: remote_line_def)
  have w: "sh_read Plain None ws (a @ CHR '' '' # t) = sh_read Plain None (ws @ [unq a]) t" if "list_all sh_plain a" "a \<noteq> []" for a ws t
    using that by (rule sh_read_literal)
  have d: "sh_read Plain None ws (dir @ []) = Some [ws @ [unq dir]]" for ws
    using sh_read_plain [OF assms, of None ws "[]"] by (simp add: cur_word_def flush_def)
  show ?thesis
    unfolding sh_lines_def l
    by (subst w, rule p, simp, subst w, rule p, simp, subst w, rule p, simp, subst d) simp
qed

text \<open>
  C22: Removing the remote directory is safe against its own configuration: either nothing is run and the cleanup reports a failure, or the one
  command that is run is read by the remote shell as \<^verbatim>\<open>rm -rf -- <dir>\<close> with exactly one operand, an absolute path of
  at least two elements without \<^verbatim>\<open>..\<close> and without anything the shell would expand.
\<close>

theorem ssh_cleanup_confined:
  assumes "ssh_Cleanup H cfg h W = (r, W')"
  shows "(W' = W \<and> (\<exists>res. r = Ret (Some res) \<and> \<not> cl_Success res))
    \<or> (\<exists>text err. lh_run H False (''ssh'' # sshArgs cfg [''rm'', ''-rf'', ''--'', sc_RemoteDir cfg]) (lw_out W) = ((text, err), lw_out W')
        \<and> (\<exists>res. r = Ret (Some res) \<and> cl_Success res = (err = None))
        \<and> sh_lines (remote_line [''rm'', ''-rf'', ''--'', sc_RemoteDir cfg])
            = Some [[unq ''rm'', unq ''-rf'', unq ''--'', unq (sc_RemoteDir cfg)]]
        \<and> dir_safe (sc_RemoteDir cfg))"
proof (cases "validateRemoteDir (sc_RemoteDir cfg)")
  case (Inl e)
  with assms show ?thesis by (auto simp: ssh_Cleanup_def)
next
  case (Inr u)
  then have v: "validateRemoteDir (sc_RemoteDir cfg) = Inr ()" by simp
  note p = validateRemoteDir_plain [OF v]
  from assms v obtain txt0 err out where
    l: "lh_run H False (''ssh'' # sshArgs cfg [''rm'', ''-rf'', ''--'', sc_RemoteDir cfg]) (lw_out W) = ((txt0, err), out)"
    and o: "W' = W\<lparr>lw_out := out\<rparr>" "\<exists>res. r = Ret (Some res) \<and> cl_Success res = (err = None)"
    by (auto simp: ssh_Cleanup_def ssh_cmd_def run_cmd_def split: prod.splits option.splits)
  with p(1) rm_line [OF p(2,3)] show ?thesis by simp
qed

lemma default_dir_valid: "validateRemoteDir ''/tmp/dispatcher'' = Inr ()"
  by code_simp

definition demo_ssh_config :: ssh_config where
  "demo_ssh_config = NewSSHAdapter \<lparr>sc_Host = ''h'', sc_User = ''u'', sc_Port = 0, sc_KeyFile = [], sc_RemoteDir = []\<rparr>"

theorem ssh_cleanup_confined_witness:
  "\<exists>r W'. ssh_Cleanup demo_lhost demo_ssh_config demo_handle demo_lworld = (r, W') \<and> dir_safe ''/tmp/dispatcher''"
proof -
  have d: "sc_RemoteDir demo_ssh_config = ''/tmp/dispatcher''" by (simp add: demo_ssh_config_def NewSSHAdapter_def)
  obtain r W' where e: "ssh_Cleanup demo_lhost demo_ssh_config demo_handle demo_lworld = (r, W')" by fastforce
  moreover have "\<exists>res. r = Ret (Some res) \<and> cl_Success res"
    using e by (auto simp: ssh_Cleanup_def d default_dir_valid ssh_cmd_def run_cmd_def demo_lhost_def)
  ultimately show ?thesis using ssh_cleanup_confined [OF e] d by auto
qed

text \<open>
  The count of path elements takes \<^verbatim>\<open>.\<close> for one: a directory at the top of the file system, which the guard means to refuse, passes
  when it is spelled with a dot.
\<close>

theorem remote_dir_dot_gap:
  "validateRemoteDir ''/./home'' = Inr () \<and> path_segs ''/./home'' = [''home'']
   \<and> validateRemoteDir ''/home'' \<noteq> Inr ()"
  by code_simp

text \<open>
  All runs on an ssh host share one directory: no target can configure another, and the cleanup of any handle removes it, together with
  whatever another run of that host has there.
\<close>

theorem ssh_runs_share_directory:
  assumes "ssh_target_adapter t = Inr cfg"
  shows "sc_RemoteDir cfg = ''/tmp/dispatcher'' \<and> ssh_Cleanup H cfg h W = ssh_Cleanup H cfg h' W
    \<and> snd (ssh_Cleanup H cfg h W) = snd (run_cmd H False (''ssh'' # sshArgs cfg [''rm'', ''-rf'', ''--'', ''/tmp/dispatcher'']) W)"
proof -
  have d: "sc_RemoteDir cfg = ''/tmp/dispatcher''"
    using assms by (auto simp: ssh_target_adapter_def NewSSHAdapter_def Let_def split: option.splits if_splits)
  show ?thesis by (simp add: ssh_Cleanup_def d default_dir_valid ssh_cmd_def split: prod.splits option.splits)
qed

section \<open>The scripts\<close>

lemma sh_read_cd:
  "sh_read Plain None [] (''cd '' @ ShellQuote dir @ newline # t)
     = map_option (\<lambda>ls. [unq ''cd'', quo dir] # ls) (sh_read Plain None [] t)"
proof -
  have p: "list_all sh_plain ''cd''" by code_simp
  have "sh_read Plain None [] (''cd'' @ CHR '' '' # (ShellQuote dir @ newline # t))
    = sh_read Plain None [unq ''cd''] (ShellQuote dir @ newline # t)"
    using sh_read_literal [OF p, of "[]"] by simp
  then show ?thesis by (simp add: sh_read_ShellQuote sh_read_newline cur_word_def)
qed

lemma sh_read_exec:
  assumes "argv \<noteq> []"
  shows "sh_read Plain None [] (''exec '' @ ShellQuoteArgs argv @ [newline]) = Some [unq ''exec'' # map quo argv]"
proof -
  have p: "list_all sh_plain ''exec''" by code_simp
  have "sh_read Plain None [] (''exec'' @ CHR '' '' # (ShellQuoteArgs argv @ [newline]))
    = sh_read Plain None [unq ''exec''] (ShellQuoteArgs argv @ [newline])"
    using sh_read_literal [OF p, of "[]"] by simp
  then show ?thesis by (simp add: sh_read_args [OF assms])
qed

text \<open>
  The script that starts a workload over ssh is read by the remote shell as it is meant: it enters the run's directory, exports every
  variable of the workload's environment with its value unchanged, and replaces itself by the workload's command, word
  for word. Nothing in the directory, the values or the command is expanded or ends a word.
\<close>

theorem ssh_script_verbatim:
  assumes "workload_env (lh_envFiles H) (wsrc_Path (ws_Source w)) [(ws_Env w, lh_envOrder H (ws_Env w))] = Inr kv"
    and "set (lh_envOrder H kv) = dom kv" and "pp_Dockerfile (ws_Package w) = []" and "ws_Command w \<noteq> []"
  shows "\<exists>script. ssh_script H cfg w = Inr script \<and>
    sh_lines script = Some ([unq ''cd'', quo (sc_RemoteDir cfg)]
      # map (\<lambda>k. [unq ''export'', unq (k @ ''='') @ quo (the (kv k))]) (lh_envOrder H kv)
      @ [unq ''exec'' # map quo (ws_Command w)])"
proof -
  let ?order = "lh_envOrder H kv" let ?ex = "concat (map (export_line kv) ?order)"
  have k: "\<forall>k\<in>set ?order. posix_name k"
    using workload_env_posix [OF assms(1)] assms(2) by (simp add: posix_keys_def)
  have v: "env_value kv k = the (kv k)" if "k \<in> set ?order" for k
    using that assms(2) by (auto simp: env_value_def)
  have "sh_lines (exec_script (sc_RemoteDir cfg) ?ex (ws_Command w))
    = Some ([unq ''cd'', quo (sc_RemoteDir cfg)]
      # map (\<lambda>k. [unq ''export'', unq (k @ ''='') @ quo (env_value kv k)]) ?order @ [unq ''exec'' # map quo (ws_Command w)])"
    unfolding sh_lines_def exec_script_def append.simps(1,2)
    using sh_read_cd [of "sc_RemoteDir cfg" "?ex @ ''exec '' @ ShellQuoteArgs (ws_Command w) @ [newline]"]
      sh_read_export_lines [OF k, of kv "''exec '' @ ShellQuoteArgs (ws_Command w) @ [newline]"] sh_read_exec [OF assms(4)]
    by simp
  moreover have "ssh_script H cfg w = Inr (exec_script (sc_RemoteDir cfg) ?ex (ws_Command w))"
    using assms by (simp add: ssh_script_def DotEnvExportScript_def)
  ultimately show ?thesis using v by (simp cong: map_cong)
qed

definition demo_ssh_workload :: workload_spec where
  "demo_ssh_workload = demo_workload\<lparr>ws_Env := [''TOKEN'' \<mapsto> ''$(id)''], ws_Command := [''sh'', ''-c'', ''a; b'']\<rparr>"

theorem ssh_script_verbatim_witness:
  "\<exists>script. ssh_script demo_lhost demo_ssh_config demo_ssh_workload = Inr script \<and>
    sh_lines script = Some [[unq ''cd'', quo ''/tmp/dispatcher''], [unq ''export'', unq ''TOKEN='' @ quo ''$(id)''],
      [unq ''exec'', quo ''sh'', quo ''-c'', quo ''a; b'']]"
proof -
  have "isValidEnvKey ''TOKEN''" by code_simp
  then have "workload_env (lh_envFiles demo_lhost) (wsrc_Path (ws_Source demo_ssh_workload))
      [(ws_Env demo_ssh_workload, lh_envOrder demo_lhost (ws_Env demo_ssh_workload))] = Inr [''TOKEN'' \<mapsto> ''$(id)'']"
    by (simp add: workload_env_def LoadDotEnv_def demo_lhost_def demo_ssh_workload_def demo_workload_def)
  from ssh_script_verbatim [OF this, of demo_ssh_config] show ?thesis
    by (simp add: demo_ssh_config_def NewSSHAdapter_def demo_lhost_def demo_ssh_workload_def demo_workload_def)
qed

text \<open>The body of a here-document whose delimiter is quoted: the lines up to the one that is the delimiter.\<close>

definition heredoc_body :: "string \<Rightarrow> string \<Rightarrow> string list" where
  "heredoc_body delim s = takeWhile (\<lambda>l. l \<noteq> delim) (strings_Split newline s)"

lemma env_lines_result:
  "env_lines bad kv ks = Inr s \<Longrightarrow>
     s = concat (map (\<lambda>l. l @ [newline]) (map (\<lambda>k. k @ ''='' @ env_value kv k) ks)) \<and> (\<forall>k\<in>set ks. \<not> bad (env_value kv k))"
  by (induction ks arbitrary: s) (auto split: if_splits sum.splits)

lemma posix_name_chars: "posix_name k \<Longrightarrow> newline \<notin> set k"
  using posix_char_plain by (auto simp: posix_name_def sh_plain_def)

text \<open>
  The container's environment on a remote host is exactly the workload's: the here-document that feeds \<^verbatim>\<open>--env-file\<close> holds one line per
  variable, sorted by name, with its value as it is; no value can end the document early or add a line.
\<close>

theorem heredoc_verbatim:
  assumes "workload_env files dir extra = Inr kv" "set order = dom kv" "DotEnvFileLines files dir extra order = Inr text"
  shows "heredoc_body dotEnvHeredocTerminator (text @ dotEnvHeredocTerminator @ [newline])
    = map (\<lambda>k. k @ ''='' @ the (kv k)) (sort_Strings order)"
proof -
  let ?ls = "map (\<lambda>k. k @ ''='' @ env_value kv k) (sort_Strings order)"
  have l: "env_lines (\<lambda>v. List.member v newline \<or> strings_Contains v dotEnvHeredocTerminator) kv (sort_Strings order) = Inr text"
    using assms(1,3) by (simp add: DotEnvFileLines_def)
  note r = env_lines_result [OF l]
  have so: "set (sort_Strings order) = dom kv" using assms(2) by simp
  have k: "newline \<notin> set k" if "k \<in> set (sort_Strings order)" for k
    using that so workload_env_posix [OF assms(1)] posix_name_chars by (auto simp: posix_keys_def)
  have t: "newline \<notin> set dotEnvHeredocTerminator" "CHR ''='' \<notin> set dotEnvHeredocTerminator" by code_simp+
  have n: "\<forall>i\<in>set (?ls @ [dotEnvHeredocTerminator]). newline \<notin> set i"
    using r k t(1) by (auto simp: newline_def)
  have "text @ dotEnvHeredocTerminator @ [newline] = concat (map (\<lambda>l. l @ [newline]) (?ls @ [dotEnvHeredocTerminator]))"
    using r by simp
  with Split_items [OF n] have s: "strings_Split newline (text @ dotEnvHeredocTerminator @ [newline]) = ?ls @ [dotEnvHeredocTerminator] @ [[]]"
    by simp
  have "CHR ''='' \<in> set l" if "l \<in> set ?ls" for l using that by auto
  then have "l \<noteq> dotEnvHeredocTerminator" if "l \<in> set ?ls" for l using that t(2) by blast
  then have "takeWhile (\<lambda>l. l \<noteq> dotEnvHeredocTerminator) (?ls @ [dotEnvHeredocTerminator] @ [[]]) = ?ls"
    by (subst takeWhile_append2) simp_all
  then have "heredoc_body dotEnvHeredocTerminator (text @ dotEnvHeredocTerminator @ [newline]) = ?ls"
    unfolding heredoc_body_def s .
  also have "\<dots> = map (\<lambda>k. k @ ''='' @ the (kv k)) (sort_Strings order)"
    using so by (auto simp: env_value_def)
  finally show ?thesis .
qed

end
